(* ===== verification/Flex_Prelude.thy ===== *)
theory Flex_Prelude
  imports Main "HOL-Library.Word" "HOL-Library.Multiset"
begin

text \<open>
  Shared vocabulary of the FlexRIC development: the machine integers of the C sources, the
  outcomes of a C function that may abort, and the lemmas on lists that the containers share.

  The sources are built with assertions enabled (the default build type is Debug and no build
  file defines NDEBUG), so a failed \<^verbatim>\<open>assert\<close> ends the process.  It is a value of type
  \<open>fault\<close> here; dereferencing a null pointer, writing outside the allocated block
  and blocking for ever on a lock the thread already holds are faults too.  Allocation is taken
  to succeed.  Memory release has no value and is modelled only where a release callback can
  abort.
\<close>

named_theorems res_simps \<open>evaluation of results and assertions\<close>

type_synonym u8 = "8 word"
type_synonym u16 = "16 word"
type_synonym u32 = "32 word"
type_synonym u64 = "64 word"

section \<open>Outcomes of a C function\<close>

datatype fault =
    Assertion string
  | Null_Deref string
  | Heap_Overflow string
  | Deadlock string
  | Double_Free string

type_synonym 'a res = "fault + 'a"

text \<open>\<open>chk b msg r\<close> is \<^verbatim>\<open>assert(b); r\<close>, and \<open>bnd m f\<close> is \<^verbatim>\<open>x = m; f(x)\<close>.\<close>

definition chk :: "bool \<Rightarrow> string \<Rightarrow> 'a res \<Rightarrow> 'a res" where
  "chk b msg r = (if b then r else Inl (Assertion msg))"

definition bnd :: "'a res \<Rightarrow> ('a \<Rightarrow> 'b res) \<Rightarrow> 'b res" where
  "bnd m f = (case m of Inl e \<Rightarrow> Inl e | Inr x \<Rightarrow> f x)"

lemma chk_simps [simp]: "chk True msg r = r" "chk False msg r = Inl (Assertion msg)"
  by (simp_all add: chk_def)

lemma bnd_simps [simp]: "bnd (Inr x) f = f x" "bnd (Inl e) f = Inl e"
  by (simp_all add: bnd_def)

lemma chk_eq_Inr [simp, res_simps]: "chk b msg r = Inr x \<longleftrightarrow> b \<and> r = Inr x"
  by (simp add: chk_def)

lemma chk_eq_Inl [res_simps]:
  "chk b msg r = Inl e \<longleftrightarrow> (\<not> b \<and> e = Assertion msg) \<or> (b \<and> r = Inl e)"
  by (auto simp: chk_def)

lemma bnd_eq_Inr [res_simps]: "bnd m f = Inr y \<longleftrightarrow> (\<exists>x. m = Inr x \<and> f x = Inr y)"
  by (cases m) simp_all

lemma bnd_eq_Inl [res_simps]:
  "bnd m f = Inl e \<longleftrightarrow> m = Inl e \<or> (\<exists>x. m = Inr x \<and> f x = Inl e)"
  by (cases m) simp_all

lemma bnd_cong [fundef_cong]:
  "m = m' \<Longrightarrow> (\<And>x. m' = Inr x \<Longrightarrow> f x = g x) \<Longrightarrow> bnd m f = bnd m' g"
  by (cases m') simp_all

lemma chk_cong [fundef_cong]:
  "b = b' \<Longrightarrow> (b' \<Longrightarrow> r = r') \<Longrightarrow> chk b msg r = chk b' msg r'"
  by (simp add: chk_def)

lemma bnd_assoc: "bnd (bnd m f) g = bnd m (\<lambda>x. bnd (f x) g)"
  by (cases m) simp_all

text \<open>A loop over an array whose body may abort.\<close>

fun fold_res :: "('a \<Rightarrow> 's \<Rightarrow> 's res) \<Rightarrow> 'a list \<Rightarrow> 's \<Rightarrow> 's res" where
  "fold_res f [] s = Inr s"
| "fold_res f (x # xs) s = bnd (f x s) (fold_res f xs)"

lemma fold_res_append: "fold_res f (xs @ ys) s = bnd (fold_res f xs s) (fold_res f ys)"
proof (induction xs arbitrary: s)
  case (Cons x xs)
  then have "fold_res f (xs @ ys) = (\<lambda>s. bnd (fold_res f xs s) (fold_res f ys))"
    by (intro ext)
  then show ?case by (simp add: bnd_assoc)
qed simp

lemma fold_res_total:
  "(\<And>x s. x \<in> set xs \<Longrightarrow> f x s = Inr (g x s)) \<Longrightarrow> fold_res f xs s = Inr (fold g xs s)"
  by (induction xs arbitrary: s) auto

lemma fold_res_cong [fundef_cong]:
  "xs = ys \<Longrightarrow> s = t \<Longrightarrow> (\<And>x s. x \<in> set ys \<Longrightarrow> f x s = g x s) \<Longrightarrow> fold_res f xs s = fold_res g ys t"
proof -
  have "(\<And>x s. x \<in> set ys \<Longrightarrow> f x s = g x s) \<Longrightarrow> fold_res f ys t = fold_res g ys t" for ys t
    by (induction ys arbitrary: t) (auto intro!: bnd_cong)
  then show "xs = ys \<Longrightarrow> s = t \<Longrightarrow> (\<And>x s. x \<in> set ys \<Longrightarrow> f x s = g x s) \<Longrightarrow>
      fold_res f xs s = fold_res g ys t"
    by simp
qed

lemma fold_same: "fold (\<lambda>_ s. s) xs s = s"
  by (induction xs) auto

lemma fold_snoc: "fold (\<lambda>x dst. dst @ [f x]) xs dst = dst @ map f xs"
  by (induction xs arbitrary: dst) auto

text \<open>A search whose predicate may abort, from left to right, as the \<^verbatim>\<open>find_if\<close> loops.\<close>

fun find_res :: "('a \<Rightarrow> bool res) \<Rightarrow> 'a list \<Rightarrow> 'a option res" where
  "find_res p [] = Inr None"
| "find_res p (x # xs) = bnd (p x) (\<lambda>b. if b then Inr (Some x) else find_res p xs)"

lemma find_res_total:
  "(\<And>x. x \<in> set xs \<Longrightarrow> p x = Inr (q x)) \<Longrightarrow> find_res p xs = Inr (List.find q xs)"
  by (induction xs) auto

section \<open>Lists\<close>

lemma find_eq_None: "List.find p xs = None \<longleftrightarrow> (\<forall>x \<in> set xs. \<not> p x)"
  by (auto simp: find_None_iff)

lemma find_SomeD: "List.find p xs = Some x \<Longrightarrow> x \<in> set xs \<and> p x"
  by (auto simp: find_Some_iff)

lemma find_append:
  "List.find p (xs @ ys) = (case List.find p xs of None \<Rightarrow> List.find p ys | Some x \<Rightarrow> Some x)"
  by (induction xs) auto

lemma drop_eq_nth_Cons: "i < length xs \<Longrightarrow> drop i xs = xs ! i # drop (Suc i) xs"
  by (simp add: Cons_nth_drop_Suc)

lemma take_update_Suc: "i < length xs \<Longrightarrow> take (Suc i) (xs[i := x]) = take i xs @ [x]"
  by (simp add: take_Suc_conv_app_nth)

lemma sorted_wrt_append_Cons:
  "sorted_wrt P (xs @ y # ys) \<longleftrightarrow>
     sorted_wrt P xs \<and> sorted_wrt P ys \<and> (\<forall>x \<in> set xs. P x y) \<and> (\<forall>z \<in> set ys. P y z) \<and>
     (\<forall>x \<in> set xs. \<forall>z \<in> set ys. P x z)"
  by (auto simp: sorted_wrt_append)

end
