(* ===== verification/Flex_Compare.thy ===== *)
theory Flex_Compare
  imports Flex_Prelude "HOL-Library.Product_Lexorder"
begin

text \<open>
  The identifiers of the E2AP procedures and the comparison functions that order them in the
  associative containers: file descriptors and RAN function ids
  (\<^verbatim>\<open>util/compare.h\<close>), \<^verbatim>\<open>ric_gen_id_t\<close>, the pending events, PLMN and E2 node ids, SCTP
  peers and the iApp identifiers.  A comparison returns 1 when its first argument goes left,
  0 when the keys are the same and -1 otherwise; some of them assert on their arguments.

  Locale \<open>ranked_cmp\<close> is the contract the containers rely on: on valid keys the comparison
  does not abort and is the one of a rank into a linear order.  It is interpreted on every
  comparison function of the sources.
\<close>

section \<open>The contract of a comparison function\<close>

text \<open>The value a comparison returns for two ranks.\<close>

definition cmp_of :: "'r::linorder \<Rightarrow> 'r \<Rightarrow> int" where
  "cmp_of a b = (if a < b then 1 else if a = b then 0 else - 1)"

lemma cmp_of_simps [simp]:
  "cmp_of a b = 1 \<longleftrightarrow> a < b" "cmp_of a b = 0 \<longleftrightarrow> a = b" "cmp_of a b = - 1 \<longleftrightarrow> b < a"
  "cmp_of a a = 0"
  by (auto simp: cmp_of_def)

locale ranked_cmp =
  fixes comp :: "'k \<Rightarrow> 'k \<Rightarrow> int res"
    and valid :: "'k \<Rightarrow> bool"
    and rank :: "'k \<Rightarrow> 'r::linorder"
  assumes comp_rank: "valid a \<Longrightarrow> valid b \<Longrightarrow> comp a b = Inr (cmp_of (rank a) (rank b))"
begin

lemma comp_refl: "valid a \<Longrightarrow> comp a a = Inr 0"
  by (simp add: comp_rank)

lemma comp_flip: "valid a \<Longrightarrow> valid b \<Longrightarrow> comp a b = Inr c \<Longrightarrow> comp b a = Inr (- c)"
  by (auto simp: comp_rank cmp_of_def)

lemma comp_trans:
  "valid a \<Longrightarrow> valid b \<Longrightarrow> valid c \<Longrightarrow> comp a b = Inr 1 \<Longrightarrow> comp b c = Inr 1 \<Longrightarrow> comp a c = Inr 1"
  by (auto simp: comp_rank)

end

section \<open>File descriptors and RAN function ids\<close>

definition eq_fd :: "int \<Rightarrow> int \<Rightarrow> bool res" where
  "eq_fd fd1 fd2 =
     chk (fd1 > - 1) ''*fd1 > -1'' (
     chk (fd2 > - 1) ''*fd2 > -1'' (
     Inr (fd1 = fd2)))"

definition cmp_fd :: "int \<Rightarrow> int \<Rightarrow> int res" where
  "cmp_fd fd1 fd2 =
     chk (fd1 > - 1) ''File descriptors must be larger than zero'' (
     chk (fd2 > - 1) ''File descriptors must be larger than zero'' (
     Inr (if fd1 < fd2 then 1 else if fd1 = fd2 then 0 else - 1)))"

definition eq_ran_func_id :: "u16 \<Rightarrow> u16 \<Rightarrow> bool res" where
  "eq_ran_func_id ran_func_id1 ran_func_id2 = Inr (ran_func_id1 = ran_func_id2)"

definition cmp_ran_func_id :: "u16 \<Rightarrow> u16 \<Rightarrow> int res" where
  "cmp_ran_func_id a b = Inr (if a < b then 1 else if a = b then 0 else - 1)"

interpretation fd: ranked_cmp cmp_fd "\<lambda>fd. 0 \<le> fd" "\<lambda>fd. fd"
  by unfold_locales (simp add: cmp_fd_def cmp_of_def)

interpretation rfid: ranked_cmp cmp_ran_func_id "\<lambda>_. True" "\<lambda>a. a"
  by unfold_locales (simp add: cmp_ran_func_id_def cmp_of_def)

section \<open>RIC request ids\<close>

record ric_gen_id_t =
  ric_req_id :: u32
  ric_inst_id :: u16
  ran_func_id :: u16

definition eq_ric_gen_id :: "ric_gen_id_t \<Rightarrow> ric_gen_id_t \<Rightarrow> bool" where
  "eq_ric_gen_id m0 m1 =
     (ric_req_id m0 = ric_req_id m1
      \<and> ric_inst_id m0 = ric_inst_id m1
      \<and> ran_func_id m0 = ran_func_id m1)"

definition cmp_ric_gen_id :: "ric_gen_id_t \<Rightarrow> ric_gen_id_t \<Rightarrow> int" where
  "cmp_ric_gen_id m0 m1 =
     (if ran_func_id m0 < ran_func_id m1 then 1
      else if ran_func_id m0 > ran_func_id m1 then - 1
      else if ric_inst_id m0 < ric_inst_id m1 then 1
      else if ric_inst_id m0 > ric_inst_id m1 then - 1
      else if ric_req_id m0 < ric_req_id m1 then 1
      else if ric_req_id m0 > ric_req_id m1 then - 1
      else 0)"

abbreviation ric_gen_rank :: "ric_gen_id_t \<Rightarrow> u16 \<times> u16 \<times> u32" where
  "ric_gen_rank r \<equiv> (ran_func_id r, ric_inst_id r, ric_req_id r)"

lemma eq_ric_gen_id_iff: "eq_ric_gen_id a b \<longleftrightarrow> a = b"
  by (auto simp: eq_ric_gen_id_def)

lemma cmp_ric_gen_id_rank: "cmp_ric_gen_id a b = cmp_of (ric_gen_rank a) (ric_gen_rank b)"
  by (auto simp: cmp_ric_gen_id_def cmp_of_def less_prod_simp)

lemma ric_gen_rank_inj: "ric_gen_rank a = ric_gen_rank b \<longleftrightarrow> a = b"
  by auto

interpretation rgid: ranked_cmp "\<lambda>a b. Inr (cmp_ric_gen_id a b)" "\<lambda>_. True" ric_gen_rank
  by unfold_locales (simp add: cmp_ric_gen_id_rank)

section \<open>Pending events\<close>

datatype pending_event_t =
    SETUP_REQUEST_PENDING_EVENT
  | SUBSCRIPTION_REQUEST_PENDING_EVENT
  | SUBSCRIPTION_DELETE_REQUEST_PENDING_EVENT
  | CONTROL_REQUEST_PENDING_EVENT
  | E42_SETUP_REQUEST_PENDING_EVENT
  | E42_RIC_SUBSCRIPTION_REQUEST_PENDING_EVENT
  | RIC_SUBSCRIPTION_DELETE_REQUEST_PENDING_EVENT
  | E42_RIC_SUBSCRIPTION_DELETE_REQUEST_PENDING_EVENT
  | E42_RIC_CONTROL_REQUEST_PENDING_EVENT

fun pending_event_val :: "pending_event_t \<Rightarrow> nat" where
  "pending_event_val SETUP_REQUEST_PENDING_EVENT = 0"
| "pending_event_val SUBSCRIPTION_REQUEST_PENDING_EVENT = 1"
| "pending_event_val SUBSCRIPTION_DELETE_REQUEST_PENDING_EVENT = 2"
| "pending_event_val CONTROL_REQUEST_PENDING_EVENT = 3"
| "pending_event_val E42_SETUP_REQUEST_PENDING_EVENT = 4"
| "pending_event_val E42_RIC_SUBSCRIPTION_REQUEST_PENDING_EVENT = 5"
| "pending_event_val RIC_SUBSCRIPTION_DELETE_REQUEST_PENDING_EVENT = 6"
| "pending_event_val E42_RIC_SUBSCRIPTION_DELETE_REQUEST_PENDING_EVENT = 7"
| "pending_event_val E42_RIC_CONTROL_REQUEST_PENDING_EVENT = 8"

lemma pending_event_val_inj: "pending_event_val a = pending_event_val b \<longleftrightarrow> a = b"
  by (cases a; cases b) simp_all

definition cmp_pending_event :: "pending_event_t \<Rightarrow> pending_event_t \<Rightarrow> int" where
  "cmp_pending_event ev1 ev2 =
     (if pending_event_val ev1 < pending_event_val ev2 then 1
      else if ev1 = ev2 then 0 else - 1)"

definition valid_pending_event :: "pending_event_t \<Rightarrow> bool res" where
  "valid_pending_event ev =
     chk (ev = SETUP_REQUEST_PENDING_EVENT
          \<or> ev = SUBSCRIPTION_REQUEST_PENDING_EVENT
          \<or> ev = SUBSCRIPTION_DELETE_REQUEST_PENDING_EVENT
          \<or> ev = E42_SETUP_REQUEST_PENDING_EVENT) ''valid_pending_event'' (
     Inr True)"

record pending_event_ric_t =
  per_ev :: pending_event_t
  per_id :: ric_gen_id_t

definition cmp_pending_event_ric :: "pending_event_ric_t \<Rightarrow> pending_event_ric_t \<Rightarrow> int res" where
  "cmp_pending_event_ric p1 p2 =
     (let cmp_ev = cmp_pending_event (per_ev p1) (per_ev p2)
      in if cmp_ev \<noteq> 0 then Inr cmp_ev
         else Inr (cmp_ric_gen_id (per_id p1) (per_id p2)))"

definition eq_pending_event_ric :: "pending_event_ric_t \<Rightarrow> pending_event_ric_t \<Rightarrow> bool res" where
  "eq_pending_event_ric p1 p2 = bnd (cmp_pending_event_ric p1 p2) (\<lambda>c. Inr (c = 0))"

abbreviation pend_ric_rank :: "pending_event_ric_t \<Rightarrow> nat \<times> u16 \<times> u16 \<times> u32" where
  "pend_ric_rank p \<equiv> (pending_event_val (per_ev p), ric_gen_rank (per_id p))"

lemma cmp_pending_event_rank:
  "cmp_pending_event a b = cmp_of (pending_event_val a) (pending_event_val b)"
  by (simp add: cmp_pending_event_def cmp_of_def pending_event_val_inj)

lemma cmp_pending_event_ric_rank:
  "cmp_pending_event_ric a b = Inr (cmp_of (pend_ric_rank a) (pend_ric_rank b))"
  by (auto simp: cmp_pending_event_ric_def cmp_pending_event_rank cmp_ric_gen_id_rank
      cmp_of_def less_prod_simp Let_def)

lemma pend_ric_rank_inj: "pend_ric_rank a = pend_ric_rank b \<longleftrightarrow> a = b"
  by (auto simp: pending_event_val_inj)

interpretation pev: ranked_cmp "\<lambda>a b. Inr (cmp_pending_event a b)" "\<lambda>_. True" pending_event_val
  by unfold_locales (simp add: cmp_pending_event_rank)

interpretation pric: ranked_cmp cmp_pending_event_ric "\<lambda>_. True" pend_ric_rank
  by unfold_locales (rule cmp_pending_event_ric_rank)

lemma eq_pending_event_ric_iff: "eq_pending_event_ric a b = Inr (a = b)"
  by (simp add: eq_pending_event_ric_def cmp_pending_event_ric_rank pend_ric_rank_inj
      del: prod.inject)

section \<open>PLMN and E2 node ids\<close>

record e2ap_plmn_t =
  mcc :: u16
  mnc :: u16
  mnc_digit_len :: u8

definition eq_e2ap_plmn :: "e2ap_plmn_t \<Rightarrow> e2ap_plmn_t \<Rightarrow> bool" where
  "eq_e2ap_plmn m0 m1 =
     (if mcc m0 \<noteq> mcc m1 then False
      else if mnc m0 \<noteq> mnc m1 then False
      else if mnc_digit_len m0 \<noteq> mnc_digit_len m1 then False
      else True)"

definition cmp_e2ap_plmn :: "e2ap_plmn_t \<Rightarrow> e2ap_plmn_t \<Rightarrow> int" where
  "cmp_e2ap_plmn m0 m1 =
     (if mcc m0 < mcc m1 then - 1
      else if mcc m0 > mcc m1 then 1
      else if mnc m0 < mnc m1 then - 1
      else if mnc m0 > mnc m1 then 1
      else if mnc_digit_len m0 < mnc_digit_len m1 then - 1
      else if mnc_digit_len m0 > mnc_digit_len m1 then 1
      else 0)"

record e2ap_gnb_id_t =
  nb_id :: u32
  unused :: u32

definition eq_e2ap_gnb_id :: "e2ap_gnb_id_t \<Rightarrow> e2ap_gnb_id_t \<Rightarrow> bool" where
  "eq_e2ap_gnb_id m0 m1 =
     (if nb_id m0 \<noteq> nb_id m1 then False
      else if unused m0 \<noteq> unused m1 then False
      else True)"

datatype ngran_node_t =
    ngran_eNB | ngran_ng_eNB | ngran_gNB | ngran_eNB_CU | ngran_ng_eNB_CU | ngran_gNB_CU
  | ngran_eNB_DU | ngran_gNB_DU | ngran_eNB_MBMS_STA | ngran_gNB_CUCP | ngran_gNB_CUUP

fun ngran_val :: "ngran_node_t \<Rightarrow> int" where
  "ngran_val ngran_eNB = 0"
| "ngran_val ngran_ng_eNB = 1"
| "ngran_val ngran_gNB = 2"
| "ngran_val ngran_eNB_CU = 3"
| "ngran_val ngran_ng_eNB_CU = 4"
| "ngran_val ngran_gNB_CU = 5"
| "ngran_val ngran_eNB_DU = 6"
| "ngran_val ngran_gNB_DU = 7"
| "ngran_val ngran_eNB_MBMS_STA = 8"
| "ngran_val ngran_gNB_CUCP = 9"
| "ngran_val ngran_gNB_CUUP = 10"

lemma ngran_val_inj: "ngran_val a = ngran_val b \<longleftrightarrow> a = b"
  by (cases a; cases b) simp_all

definition NODE_IS_MONOLITHIC :: "ngran_node_t \<Rightarrow> bool" where
  "NODE_IS_MONOLITHIC t = (t = ngran_eNB \<or> t = ngran_ng_eNB \<or> t = ngran_gNB)"

definition NODE_IS_CU :: "ngran_node_t \<Rightarrow> bool" where
  "NODE_IS_CU t = (t = ngran_eNB_CU \<or> t = ngran_ng_eNB_CU \<or> t = ngran_gNB_CU
     \<or> t = ngran_gNB_CUCP \<or> t = ngran_gNB_CUUP)"

definition NODE_IS_DU :: "ngran_node_t \<Rightarrow> bool" where
  "NODE_IS_DU t = (t = ngran_eNB_DU \<or> t = ngran_gNB_DU)"

definition NODE_IS_CUUP :: "ngran_node_t \<Rightarrow> bool" where
  "NODE_IS_CUUP t = (t = ngran_gNB_CUUP)"

text \<open>\<open>cu_du_id\<close> is a pointer in the sources; \<^term>\<open>None\<close> is the null pointer.\<close>

record global_e2_node_id_t =
  gid_type :: ngran_node_t
  gid_plmn :: e2ap_plmn_t
  gid_nb_id :: e2ap_gnb_id_t
  cu_du_id :: "u64 option"

definition eq_global_e2_node_id :: "global_e2_node_id_t \<Rightarrow> global_e2_node_id_t \<Rightarrow> bool res" where
  "eq_global_e2_node_id m0 m1 =
     (if gid_type m0 \<noteq> gid_type m1 then Inr False
      else if \<not> eq_e2ap_plmn (gid_plmn m0) (gid_plmn m1) then Inr False
      else if \<not> eq_e2ap_gnb_id (gid_nb_id m0) (gid_nb_id m1) then Inr False
      else if NODE_IS_CUUP (gid_type m0) \<or> NODE_IS_DU (gid_type m0) then
        chk (cu_du_id m0 \<noteq> None \<and> cu_du_id m1 \<noteq> None) ''cu_du_id != NULL'' (
        Inr (cu_du_id m0 = cu_du_id m1))
      else Inr True)"

definition cmp_global_e2_node_id :: "global_e2_node_id_t \<Rightarrow> global_e2_node_id_t \<Rightarrow> int res" where
  "cmp_global_e2_node_id m0 m1 =
     (if ngran_val (gid_type m0) < ngran_val (gid_type m1) then Inr (- 1)
      else if ngran_val (gid_type m0) > ngran_val (gid_type m1) then Inr 1
      else let rc = cmp_e2ap_plmn (gid_plmn m0) (gid_plmn m1) in
      if rc \<noteq> 0 then Inr rc
      else if nb_id (gid_nb_id m0) < nb_id (gid_nb_id m1) then Inr (- 1)
      else if nb_id (gid_nb_id m0) > nb_id (gid_nb_id m1) then Inr 1
      else if unused (gid_nb_id m0) < unused (gid_nb_id m1) then Inr 1
      else if unused (gid_nb_id m0) > unused (gid_nb_id m1) then Inr (- 1)
      else if NODE_IS_CU (gid_type m0) \<or> NODE_IS_CUUP (gid_type m0) \<or> NODE_IS_DU (gid_type m0)
      then (case (cu_du_id m0, cu_du_id m1) of
              (Some c0, Some c1) \<Rightarrow>
                if c0 < c1 then Inr (- 1) else if c0 > c1 then Inr 1 else Inr 0
            | _ \<Rightarrow> Inl (Assertion ''cu_du_id != NULL''))
      else Inr 0)"

definition cp_global_e2_node_id :: "global_e2_node_id_t \<Rightarrow> global_e2_node_id_t" where
  "cp_global_e2_node_id src =
     \<lparr>gid_type = gid_type src, gid_plmn = gid_plmn src, gid_nb_id = gid_nb_id src,
      cu_du_id = cu_du_id src\<rparr>"

text \<open>
  Keys that can be compared without an abort: a node of a split deployment carries the id of
  its central or distributed unit, a monolithic node carries none.
\<close>

definition valid_node_id :: "global_e2_node_id_t \<Rightarrow> bool" where
  "valid_node_id g =
     ((NODE_IS_CU (gid_type g) \<or> NODE_IS_DU (gid_type g)) = (cu_du_id g \<noteq> None))"

definition node_rank ::
  "global_e2_node_id_t \<Rightarrow> int \<times> (int \<times> int \<times> int) \<times> int \<times> u32 \<times> int" where
  "node_rank g =
     (- ngran_val (gid_type g),
      (- uint (mcc (gid_plmn g)), - uint (mnc (gid_plmn g)), - uint (mnc_digit_len (gid_plmn g))),
      - uint (nb_id (gid_nb_id g)), unused (gid_nb_id g),
      (case cu_du_id g of None \<Rightarrow> 0 | Some c \<Rightarrow> - uint c))"

lemma cmp_of_pair: "cmp_of (a, b) (c, d) = (if a = c then cmp_of b d else cmp_of a c)"
  by (auto simp: cmp_of_def)

text \<open>One step of a lexicographic comparison, ascending and descending.\<close>

lemma cmp_step_desc:
  fixes x y :: "'a::len word"
  shows "(if x < y then f (- 1) else if y < x then f 1 else r) =
     (if uint x = uint y then r else f (cmp_of (- uint x) (- uint y)))"
  by (cases x y rule: linorder_cases) (auto simp: cmp_of_def word_less_def)

lemma cmp_step_desc_int:
  fixes x y :: int
  shows "(if x < y then f (- 1) else if y < x then f 1 else r) =
     (if x = y then r else f (cmp_of (- x) (- y)))"
  by (auto simp: cmp_of_def)

lemma cmp_step_asc:
  "(if x < y then f 1 else if y < x then f (- 1) else r) = (if x = y then r else f (cmp_of x y))"
  by (cases x y rule: linorder_cases) (auto simp: cmp_of_def)

lemmas cmp_steps_id = cmp_step_desc [where f = "\<lambda>x. x"] cmp_step_asc [where f = "\<lambda>x. x"]

lemmas cmp_steps_Inr = cmp_step_desc [where f = Inr] cmp_step_desc_int [where f = Inr]
  cmp_step_asc [where f = Inr]

lemma cmp_e2ap_plmn_rank:
  "cmp_e2ap_plmn p q =
     cmp_of (- uint (mcc p), - uint (mnc p), - uint (mnc_digit_len p))
            (- uint (mcc q), - uint (mnc q), - uint (mnc_digit_len q))"
  unfolding cmp_e2ap_plmn_def cmp_steps_id cmp_of_pair neg_equal_iff_equal by simp

lemma node_type_split: "NODE_IS_CUUP t \<longrightarrow> NODE_IS_CU t"
  by (simp add: NODE_IS_CUUP_def NODE_IS_CU_def)

lemma valid_node_id_split:
  "valid_node_id g \<Longrightarrow>
     (NODE_IS_CU (gid_type g) \<or> NODE_IS_CUUP (gid_type g) \<or> NODE_IS_DU (gid_type g)) \<longleftrightarrow> cu_du_id g \<noteq> None"
  using node_type_split by (auto simp: valid_node_id_def)

lemma cmp_global_e2_node_id_rank:
  assumes "valid_node_id a" "valid_node_id b"
  shows "cmp_global_e2_node_id a b = Inr (cmp_of (node_rank a) (node_rank b))"
proof (cases "gid_type a = gid_type b")
  case False
  then have "ngran_val (gid_type a) \<noteq> ngran_val (gid_type b)"
    by (simp add: ngran_val_inj)
  then show ?thesis
    unfolding cmp_global_e2_node_id_def node_rank_def cmp_of_pair cmp_steps_Inr by simp
next
  case True
  have cd: "cu_du_id a = None \<longleftrightarrow> cu_du_id b = None"
    using assms True by (auto simp: valid_node_id_def)
  have eq: "cmp_of x y \<noteq> 0 \<longleftrightarrow> x \<noteq> y" for x y :: "int \<times> int \<times> int"
    by simp
  show ?thesis
    using True cd
    unfolding cmp_global_e2_node_id_def node_rank_def cmp_of_pair [of "- _" "(_, _, _)"]
      cmp_of_pair [of "(_, _, _)" _] cmp_of_pair [of "- uint _" _] cmp_of_pair [of "_::u32" _]
      cmp_e2ap_plmn_rank cmp_steps_Inr valid_node_id_split [OF assms(1)] Let_def eq
    by (cases "cu_du_id a"; cases "cu_du_id b"; simp)
qed

interpretation gnode: ranked_cmp cmp_global_e2_node_id valid_node_id node_rank
  by unfold_locales (rule cmp_global_e2_node_id_rank)

lemma global_e2_node_id_eq_iff:
  fixes a b :: global_e2_node_id_t
  shows "a = b \<longleftrightarrow> gid_type a = gid_type b
     \<and> mcc (gid_plmn a) = mcc (gid_plmn b) \<and> mnc (gid_plmn a) = mnc (gid_plmn b)
     \<and> mnc_digit_len (gid_plmn a) = mnc_digit_len (gid_plmn b)
     \<and> nb_id (gid_nb_id a) = nb_id (gid_nb_id b) \<and> unused (gid_nb_id a) = unused (gid_nb_id b)
     \<and> cu_du_id a = cu_du_id b"
  by (auto intro!: global_e2_node_id_t.equality e2ap_plmn_t.equality e2ap_gnb_id_t.equality)

lemma node_rank_inj: "node_rank a = node_rank b \<Longrightarrow> valid_node_id a \<Longrightarrow> valid_node_id b \<Longrightarrow> a = b"
  by (cases "cu_du_id a"; cases "cu_du_id b")
    (auto simp: node_rank_def valid_node_id_def ngran_val_inj global_e2_node_id_eq_iff
      simp flip: word_uint_eq_iff)

text \<open>
  The equality test of node ids ignores the unit id of central units: it is the equality of
  valid ids only outside the CU node types that are no CU-UP.
\<close>

lemma eq_global_e2_node_id_valid:
  assumes "valid_node_id a" "valid_node_id b" "NODE_IS_CU (gid_type a) \<longrightarrow> NODE_IS_CUUP (gid_type a)"
  shows "eq_global_e2_node_id a b = Inr (a = b)"
proof (cases "gid_type a = gid_type b")
  case True
  have "cu_du_id a = None \<longleftrightarrow> cu_du_id b = None"
    using assms True by (auto simp: valid_node_id_def)
  moreover have "NODE_IS_CUUP (gid_type b) \<or> NODE_IS_DU (gid_type b) \<longleftrightarrow> cu_du_id b \<noteq> None"
    using valid_node_id_split [OF assms(2)] assms(3) True by auto
  moreover note True
  ultimately show ?thesis
    by (auto simp: eq_global_e2_node_id_def eq_e2ap_plmn_def eq_e2ap_gnb_id_def chk_def
        global_e2_node_id_eq_iff)
qed (auto simp: eq_global_e2_node_id_def)

lemma cp_global_e2_node_id_eq [simp]: "cp_global_e2_node_id g = g"
  by (simp add: cp_global_e2_node_id_def)

section \<open>SCTP peers\<close>

record sctp_sndrcvinfo =
  sinfo_stream :: u16
  sinfo_ssn :: u16
  sinfo_flags :: u16
  sinfo_ppid :: u32
  sinfo_context :: u32
  sinfo_timetolive :: u32
  sinfo_tsn :: u32
  sinfo_cumtsn :: u32
  sinfo_assoc_id :: u32

record sctp_info_t =
  sin_port :: u16
  sin_s_addr :: u32
  sin_family :: u16
  sri :: sctp_sndrcvinfo

definition cmp_sockaddr_in :: "sctp_info_t \<Rightarrow> sctp_info_t \<Rightarrow> int" where
  "cmp_sockaddr_in m0 m1 =
     (if sin_port m0 < sin_port m1 then 1
      else if sin_port m0 > sin_port m1 then - 1
      else if sin_s_addr m0 < sin_s_addr m1 then 1
      else if sin_s_addr m0 > sin_s_addr m1 then - 1
      else if sin_family m0 < sin_family m1 then 1
      else if sin_family m0 > sin_family m1 then - 1
      else 0)"

definition cmp_sctp_sndrcvinfo :: "sctp_sndrcvinfo \<Rightarrow> sctp_sndrcvinfo \<Rightarrow> int" where
  "cmp_sctp_sndrcvinfo m0 m1 = 0"

text \<open>\<^term>\<open>None\<close> is the null pointer.\<close>

definition cmp_sctp_info_wrapper :: "sctp_info_t option \<Rightarrow> sctp_info_t option \<Rightarrow> int res" where
  "cmp_sctp_info_wrapper m0_v m1_v =
     (case (m0_v, m1_v) of
        (None, None) \<Rightarrow> Inr 0
      | (None, Some _) \<Rightarrow> Inr 1
      | (Some _, None) \<Rightarrow> Inr (- 1)
      | (Some m0, Some m1) \<Rightarrow>
          (let cmp = cmp_sockaddr_in m0 m1
           in if cmp \<noteq> 0 then Inr cmp else Inr (cmp_sctp_sndrcvinfo (sri m0) (sri m1))))"

definition eq_sctp_info_wrapper :: "sctp_info_t option \<Rightarrow> sctp_info_t option \<Rightarrow> bool res" where
  "eq_sctp_info_wrapper m0 m1 = bnd (cmp_sctp_info_wrapper m0 m1) (\<lambda>c. Inr (c = 0))"

abbreviation sctp_rank :: "sctp_info_t \<Rightarrow> u16 \<times> u32 \<times> u16" where
  "sctp_rank s \<equiv> (sin_port s, sin_s_addr s, sin_family s)"

lemma cmp_sockaddr_in_rank: "cmp_sockaddr_in a b = cmp_of (sctp_rank a) (sctp_rank b)"
  unfolding cmp_sockaddr_in_def cmp_steps_id cmp_of_pair by simp

interpretation sctp: ranked_cmp "\<lambda>a b. cmp_sctp_info_wrapper (Some a) (Some b)" "\<lambda>_. True" sctp_rank
  by unfold_locales
    (simp add: cmp_sctp_info_wrapper_def cmp_sctp_sndrcvinfo_def cmp_sockaddr_in_rank Let_def
      del: prod.inject)

section \<open>Identifiers of the iApp\<close>

record xapp_ric_id_t =
  xr_ric_id :: ric_gen_id_t
  xr_xapp_id :: u16

definition cmp_xapp_ric_gen_id :: "xapp_ric_id_t \<Rightarrow> xapp_ric_id_t \<Rightarrow> int res" where
  "cmp_xapp_ric_gen_id m0 m1 =
     (if xr_xapp_id m0 < xr_xapp_id m1 then Inr 1
      else if xr_xapp_id m0 > xr_xapp_id m1 then Inr (- 1)
      else Inr (cmp_ric_gen_id (xr_ric_id m0) (xr_ric_id m1)))"

definition eq_xapp_id :: "u16 \<Rightarrow> u16 \<Rightarrow> bool" where
  "eq_xapp_id m0 m1 = (if m0 \<noteq> m1 then False else True)"

definition eq_xapp_ric_gen_id :: "xapp_ric_id_t \<Rightarrow> xapp_ric_id_t \<Rightarrow> bool" where
  "eq_xapp_ric_gen_id m0 m1 =
     (if eq_xapp_id (xr_xapp_id m0) (xr_xapp_id m0) = False then False
      else eq_ric_gen_id (xr_ric_id m0) (xr_ric_id m1))"

definition eq_xapp_ric_gen_id2 :: "xapp_ric_id_t \<Rightarrow> xapp_ric_id_t \<Rightarrow> bool" where
  "eq_xapp_ric_gen_id2 m0 m1 = (xr_xapp_id m0 = xr_xapp_id m1)"

definition eq_xapp_id_gen_wrapper :: "xapp_ric_id_t \<Rightarrow> xapp_ric_id_t \<Rightarrow> bool" where
  "eq_xapp_id_gen_wrapper m0 m1 = eq_xapp_ric_gen_id2 m0 m1"

abbreviation xapp_ric_rank :: "xapp_ric_id_t \<Rightarrow> u16 \<times> u16 \<times> u16 \<times> u32" where
  "xapp_ric_rank x \<equiv> (xr_xapp_id x, ric_gen_rank (xr_ric_id x))"

lemma cmp_xapp_ric_gen_id_rank:
  "cmp_xapp_ric_gen_id a b = Inr (cmp_of (xapp_ric_rank a) (xapp_ric_rank b))"
  unfolding cmp_xapp_ric_gen_id_def cmp_steps_Inr cmp_ric_gen_id_rank
    cmp_of_pair [of "xr_xapp_id _"] by simp

lemma xapp_ric_rank_inj: "xapp_ric_rank a = xapp_ric_rank b \<longleftrightarrow> a = b"
  by auto

interpretation xric: ranked_cmp cmp_xapp_ric_gen_id "\<lambda>_. True" xapp_ric_rank
  by unfold_locales (rule cmp_xapp_ric_gen_id_rank)

text \<open>The equality test of xApp request ids does not look at the xApp of its second argument.\<close>

lemma eq_xapp_ric_gen_id_iff: "eq_xapp_ric_gen_id a b \<longleftrightarrow> xr_ric_id a = xr_ric_id b"
  by (simp add: eq_xapp_ric_gen_id_def eq_xapp_id_def eq_ric_gen_id_iff)

datatype ric_request_type_e = SUBSCRIPTION_RIC_REQUEST_TYPE | CONTROL_RIC_REQUEST_TYPE

record e2_node_ric_id_t =
  en_e2_node_id :: global_e2_node_id_t
  en_ric_id :: ric_gen_id_t
  en_ric_req_type :: ric_request_type_e

definition cp_e2_node_ric_id :: "e2_node_ric_id_t \<Rightarrow> e2_node_ric_id_t" where
  "cp_e2_node_ric_id src =
     \<lparr>en_e2_node_id = cp_global_e2_node_id (en_e2_node_id src), en_ric_id = en_ric_id src,
      en_ric_req_type = en_ric_req_type src\<rparr>"

lemma cp_e2_node_ric_id_eq [simp]: "cp_e2_node_ric_id n = n"
  by (simp add: cp_e2_node_ric_id_def)

definition cmp_uint32 :: "u32 \<Rightarrow> u32 \<Rightarrow> int" where
  "cmp_uint32 m0 m1 = (if m0 < m1 then - 1 else if m0 = m1 then 0 else 1)"

definition cmp_e2_node_ric_req_wrapper :: "e2_node_ric_id_t \<Rightarrow> e2_node_ric_id_t \<Rightarrow> int res" where
  "cmp_e2_node_ric_req_wrapper m0 m1 =
     Inr (cmp_uint32 (ric_req_id (en_ric_id m0)) (ric_req_id (en_ric_id m1)))"

abbreviation e2_ric_rank :: "e2_node_ric_id_t \<Rightarrow> int" where
  "e2_ric_rank n \<equiv> - uint (ric_req_id (en_ric_id n))"

interpretation e2ric: ranked_cmp cmp_e2_node_ric_req_wrapper "\<lambda>_. True" e2_ric_rank
  by unfold_locales
    (auto simp: cmp_e2_node_ric_req_wrapper_def cmp_uint32_def cmp_of_def word_less_def word_uint_eq_iff)

definition cmp_uint16_wrapper :: "u16 \<Rightarrow> u16 \<Rightarrow> int res" where
  "cmp_uint16_wrapper m0 m1 =
     (if m0 < m1 then Inr 1 else if m0 > m1 then Inr (- 1) else Inr 0)"

definition eq_uint16_wrapper :: "u16 \<Rightarrow> u16 \<Rightarrow> bool res" where
  "eq_uint16_wrapper m0 m1 = Inr (m0 = m1)"

interpretation u16c: ranked_cmp cmp_uint16_wrapper "\<lambda>_. True" "\<lambda>a. a"
  by unfold_locales (auto simp: cmp_uint16_wrapper_def cmp_of_def)

end
