(* ===== verification/E2ap_Msg.thy ===== *)
theory E2ap_Msg
  imports Flex_Compare
begin

text \<open>
  The messages of the E2AP and E42AP procedures that the near-RT RIC, the iApp, the agents and
  the xApps exchange (\<^verbatim>\<open>lib/e2ap/v2_03/e2ap_types/\<close>, \<^verbatim>\<open>lib/e2ap/v2_03/type_defs.h\<close>), and the
  service models as the RIC sees them.  A byte array is its list of bytes, a pair of a pointer
  and a length is a list, and an optional field is an option.

  The wire encoding is produced by code that the ASN.1 compiler generates; a message is sent
  here as the value the code encodes.
\<close>

type_synonym byte_array_t = "u8 list"

definition copy_byte_array :: "byte_array_t \<Rightarrow> byte_array_t" where
  "copy_byte_array src = src"

section \<open>RIC functional procedures\<close>

datatype ric_action_type_t = RIC_ACT_REPORT | RIC_ACT_INSERT | RIC_ACT_POLICY

datatype ric_subseq_action_type_t = RIC_SUBS_REQ_CONTINUE | RIC_SUBS_REQ_HALT

record ric_subsequent_action_t =
  rsa_type :: ric_subseq_action_type_t
  rsa_time_to_wait_ms :: "u32 option"

record ric_action_t =
  act_id :: u8
  act_type :: ric_action_type_t
  act_definition :: "byte_array_t option"
  act_subseq_action :: "ric_subsequent_action_t option"

record ric_subscription_request_t =
  sreq_ric_id :: ric_gen_id_t
  sreq_event_trigger :: byte_array_t
  sreq_action :: "ric_action_t list"

record ric_action_admitted_t =
  ric_act_id :: u8

text \<open>The cause of a rejection: the group and the number of the cause in its enumeration.\<close>

datatype cause_t =
    CAUSE_NOTHING
  | CAUSE_RICREQUEST nat
  | CAUSE_RICSERVICE nat
  | CAUSE_E2NODE nat
  | CAUSE_TRANSPORT nat
  | CAUSE_PROTOCOL nat
  | CAUSE_MISC nat

record ric_action_not_admitted_t =
  na_ric_act_id :: u8
  na_cause :: cause_t

record ric_subscription_response_t =
  sresp_ric_id :: ric_gen_id_t
  sresp_admitted :: "ric_action_admitted_t list"
  sresp_not_admitted :: "ric_action_not_admitted_t list"

definition mv_ric_subscription_respponse ::
  "ric_subscription_response_t \<Rightarrow> ric_subscription_response_t" where
  "mv_ric_subscription_respponse src =
     \<lparr>sresp_ric_id = sresp_ric_id src, sresp_admitted = sresp_admitted src,
      sresp_not_admitted = sresp_not_admitted src\<rparr>"

record ric_subscription_delete_request_t =
  sdr_ric_id :: ric_gen_id_t

definition cp_ric_subscription_delete_request ::
  "ric_subscription_delete_request_t \<Rightarrow> ric_subscription_delete_request_t" where
  "cp_ric_subscription_delete_request src = \<lparr>sdr_ric_id = sdr_ric_id src\<rparr>"

record ric_subscription_delete_response_t =
  sdresp_ric_id :: ric_gen_id_t

datatype ric_indication_type_e = RIC_IND_REPORT | RIC_IND_INSERT

record ric_indication_t =
  ind_ric_id :: ric_gen_id_t
  ind_action_id :: u8
  ind_sn :: "u16 option"
  ind_type :: ric_indication_type_e
  ind_hdr :: byte_array_t
  ind_msg :: byte_array_t
  ind_call_process_id :: "byte_array_t option"

definition mv_ric_indication :: "ric_indication_t \<Rightarrow> ric_indication_t" where
  "mv_ric_indication src =
     \<lparr>ind_ric_id = ind_ric_id src, ind_action_id = ind_action_id src, ind_sn = ind_sn src,
      ind_type = ind_type src, ind_hdr = ind_hdr src, ind_msg = ind_msg src,
      ind_call_process_id = ind_call_process_id src\<rparr>"

datatype ric_control_ack_req_t =
  RIC_CONTROL_REQUEST_NO_ACK | RIC_CONTROL_REQUEST_ACK | RIC_CONTROL_REQUEST_NACK

record ric_control_request_t =
  cr_ric_id :: ric_gen_id_t
  cr_call_process_id :: "byte_array_t option"
  cr_hdr :: byte_array_t
  cr_msg :: byte_array_t
  cr_ack_req :: "ric_control_ack_req_t option"

record ric_control_acknowledge_t =
  ack_ric_id :: ric_gen_id_t
  ack_call_process_id :: "byte_array_t option"
  ack_control_outcome :: "byte_array_t option"

section \<open>Setup procedures\<close>

record ran_function_t =
  rf_defn :: byte_array_t
  rf_id :: u16
  rf_rev :: u16
  rf_oid :: byte_array_t

definition cp_ran_function :: "ran_function_t \<Rightarrow> ran_function_t" where
  "cp_ran_function src =
     \<lparr>rf_defn = copy_byte_array (rf_defn src), rf_id = rf_id src, rf_rev = rf_rev src,
      rf_oid = copy_byte_array (rf_oid src)\<rparr>"

datatype e2ap_node_comp_interface_type_e =
    NG_E2AP_NODE_COMP_INTERFACE_TYPE
  | XN_E2AP_NODE_COMP_INTERFACE_TYPE
  | E1_E2AP_NODE_COMP_INTERFACE_TYPE
  | F1_E2AP_NODE_COMP_INTERFACE_TYPE
  | W1_E2AP_NODE_COMP_INTERFACE_TYPE
  | S1_E2AP_NODE_COMP_INTERFACE_TYPE
  | X2_E2AP_NODE_COMP_INTERFACE_TYPE

text \<open>
  The component id is a union whose member the type selects; the members of the types that the
  code does not support are never read.
\<close>

datatype e2ap_node_comp_id_t =
    Ng_Amf_Name byte_array_t
  | Xn_Global_Ng_Ran_Node_Id
  | E1_Gnb_Cu_Up_Id u64
  | F1_Gnb_Du_Id u64
  | W1_Ng_Enb_Du_Id u64
  | S1_Mme_Name byte_array_t
  | X2_Node

definition cp_e2ap_node_comp_id :: "e2ap_node_comp_id_t \<Rightarrow> e2ap_node_comp_id_t res" where
  "cp_e2ap_node_comp_id src =
     (case src of
        Ng_Amf_Name ba \<Rightarrow> Inr (Ng_Amf_Name (copy_byte_array ba))
      | F1_Gnb_Du_Id v \<Rightarrow> chk (v < push_bit 36 1) ''src->f1_gnb_du_id < (1UL << 36)'' (Inr (F1_Gnb_Du_Id v))
      | E1_Gnb_Cu_Up_Id v \<Rightarrow> Inr (E1_Gnb_Cu_Up_Id v)
      | S1_Mme_Name ba \<Rightarrow> Inr (S1_Mme_Name (copy_byte_array ba))
      | _ \<Rightarrow> Inl (Assertion ''Only these types supported''))"

record e2ap_node_comp_conf_t =
  cc_request :: byte_array_t
  cc_response :: byte_array_t

definition cp_e2ap_node_comp_conf :: "e2ap_node_comp_conf_t \<Rightarrow> e2ap_node_comp_conf_t" where
  "cp_e2ap_node_comp_conf src =
     \<lparr>cc_request = copy_byte_array (cc_request src), cc_response = copy_byte_array (cc_response src)\<rparr>"

record e2ap_node_component_config_add_t =
  cca_interface_type :: e2ap_node_comp_interface_type_e
  cca_id :: e2ap_node_comp_id_t
  cca_conf :: e2ap_node_comp_conf_t

definition cp_e2ap_node_component_config_add ::
  "e2ap_node_component_config_add_t \<Rightarrow> e2ap_node_component_config_add_t res" where
  "cp_e2ap_node_component_config_add src =
     bnd (cp_e2ap_node_comp_id (cca_id src)) (\<lambda>nid.
     Inr \<lparr>cca_interface_type = cca_interface_type src, cca_id = nid,
          cca_conf = cp_e2ap_node_comp_conf (cca_conf src)\<rparr>)"

datatype outcome_e2ap_node_comp_conf_ack_e =
  SUCCESS_E2AP_NODE_COMP_CONF_ACK | FAILURE_E2AP_NODE_COMP_CONF_ACK

record e2ap_node_comp_config_add_ack_t =
  ccaa_interface_type :: e2ap_node_comp_interface_type_e
  ccaa_id :: e2ap_node_comp_id_t
  ccaa_outcome :: outcome_e2ap_node_comp_conf_ack_e

record e2_setup_request_t =
  stp_trans_id :: u8
  stp_id :: global_e2_node_id_t
  stp_ran_func_item :: "ran_function_t list"
  stp_comp_conf_add :: "e2ap_node_component_config_add_t list"

record global_ric_id_t =
  gric_plmn :: e2ap_plmn_t
  gric_near_ric_id :: u32

record e2_setup_response_t =
  srsp_trans_id :: u8
  srsp_id :: global_ric_id_t
  srsp_accepted :: "u16 list"
  srsp_comp_config_add_ack :: "e2ap_node_comp_config_add_ack_t list"

record e2_node_connected_t =
  con_id :: global_e2_node_id_t
  con_cca :: "e2ap_node_component_config_add_t list"
  con_ack_rf :: "ran_function_t list"

section \<open>E42 procedures\<close>

record e42_setup_request_t =
  e42_ran_func_item :: "ran_function_t list"

record e42_setup_response_t =
  e42r_xapp_id :: u16
  e42r_nodes :: "e2_node_connected_t list"

record e42_ric_subscription_request_t =
  e42s_xapp_id :: u16
  e42s_id :: global_e2_node_id_t
  e42s_sr :: ric_subscription_request_t

record e42_ric_subscription_delete_request_t =
  e42d_xapp_id :: u16
  e42d_sdr :: ric_subscription_delete_request_t

record e42_ric_control_request_t =
  e42c_xapp_id :: u16
  e42c_id :: global_e2_node_id_t
  e42c_ctrl_req :: ric_control_request_t

section \<open>Messages\<close>

datatype e2_msg_type_t =
    RIC_SUBSCRIPTION_REQUEST | RIC_SUBSCRIPTION_RESPONSE | RIC_SUBSCRIPTION_FAILURE
  | RIC_SUBSCRIPTION_DELETE_REQUEST | RIC_SUBSCRIPTION_DELETE_RESPONSE
  | RIC_SUBSCRIPTION_DELETE_FAILURE | RIC_INDICATION | RIC_CONTROL_REQUEST
  | RIC_CONTROL_ACKNOWLEDGE | RIC_CONTROL_FAILURE | E2AP_ERROR_INDICATION | E2_SETUP_REQUEST
  | E2_SETUP_RESPONSE | E2_SETUP_FAILURE | E2AP_RESET_REQUEST | E2AP_RESET_RESPONSE
  | RIC_SERVICE_UPDATE | RIC_SERVICE_UPDATE_ACKNOWLEDGE | RIC_SERVICE_UPDATE_FAILURE
  | RIC_SERVICE_QUERY | E2_NODE_CONFIGURATION_UPDATE | E2_NODE_CONFIGURATION_UPDATE_ACKNOWLEDGE
  | E2_NODE_CONFIGURATION_UPDATE_FAILURE | E2_CONNECTION_UPDATE
  | E2_CONNECTION_UPDATE_ACKNOWLEDGE | E2_CONNECTION_UPDATE_FAILURE
  | E2_REMOVAL_REQUEST | E2_REMOVAL_RESPONSE | E2_REMOVAL_FAILURE
  | E42_SETUP_REQUEST | E42_SETUP_RESPONSE | E42_RIC_SUBSCRIPTION_REQUEST
  | E42_RIC_SUBSCRIPTION_DELETE_REQUEST | E42_RIC_CONTROL_REQUEST | NONE_E2_MSG_TYPE

text \<open>\<open>Other_Msg\<close> stands for the messages whose body no modelled code reads.\<close>

datatype e2ap_msg_t =
    Ric_Sub_Req ric_subscription_request_t
  | Ric_Sub_Resp ric_subscription_response_t
  | Ric_Sub_Del_Req ric_subscription_delete_request_t
  | Ric_Sub_Del_Resp ric_subscription_delete_response_t
  | Ric_Ind ric_indication_t
  | Ric_Ctrl_Req ric_control_request_t
  | Ric_Ctrl_Ack ric_control_acknowledge_t
  | E2_Stp_Req e2_setup_request_t
  | E2_Stp_Resp e2_setup_response_t
  | E42_Stp_Req e42_setup_request_t
  | E42_Stp_Resp e42_setup_response_t
  | E42_Ric_Sub_Req e42_ric_subscription_request_t
  | E42_Ric_Sub_Del_Req e42_ric_subscription_delete_request_t
  | E42_Ric_Ctrl_Req e42_ric_control_request_t
  | Other_Msg e2_msg_type_t

fun msg_type :: "e2ap_msg_t \<Rightarrow> e2_msg_type_t" where
  "msg_type (Ric_Sub_Req _) = RIC_SUBSCRIPTION_REQUEST"
| "msg_type (Ric_Sub_Resp _) = RIC_SUBSCRIPTION_RESPONSE"
| "msg_type (Ric_Sub_Del_Req _) = RIC_SUBSCRIPTION_DELETE_REQUEST"
| "msg_type (Ric_Sub_Del_Resp _) = RIC_SUBSCRIPTION_DELETE_RESPONSE"
| "msg_type (Ric_Ind _) = RIC_INDICATION"
| "msg_type (Ric_Ctrl_Req _) = RIC_CONTROL_REQUEST"
| "msg_type (Ric_Ctrl_Ack _) = RIC_CONTROL_ACKNOWLEDGE"
| "msg_type (E2_Stp_Req _) = E2_SETUP_REQUEST"
| "msg_type (E2_Stp_Resp _) = E2_SETUP_RESPONSE"
| "msg_type (E42_Stp_Req _) = E42_SETUP_REQUEST"
| "msg_type (E42_Stp_Resp _) = E42_SETUP_RESPONSE"
| "msg_type (E42_Ric_Sub_Req _) = E42_RIC_SUBSCRIPTION_REQUEST"
| "msg_type (E42_Ric_Sub_Del_Req _) = E42_RIC_SUBSCRIPTION_DELETE_REQUEST"
| "msg_type (E42_Ric_Ctrl_Req _) = E42_RIC_CONTROL_REQUEST"
| "msg_type (Other_Msg t) = t"

abbreviation no_msg :: e2ap_msg_t where
  "no_msg \<equiv> Other_Msg NONE_E2_MSG_TYPE"

section \<open>Copies\<close>

lemma copies [simp]:
  "copy_byte_array b = b" "cp_ran_function rf = rf" "mv_ric_indication ind = ind"
  "mv_ric_subscription_respponse sr = sr" "cp_ric_subscription_delete_request sdr = sdr"
  "cp_e2ap_node_comp_conf cc = cc"
  by (simp_all add: copy_byte_array_def cp_ran_function_def mv_ric_indication_def
      mv_ric_subscription_respponse_def cp_ric_subscription_delete_request_def cp_e2ap_node_comp_conf_def)

text \<open>The configurations that the code can copy: supported interfaces with a 36-bit DU id.\<close>

definition supported_cca :: "e2ap_node_component_config_add_t \<Rightarrow> bool" where
  "supported_cca c \<longleftrightarrow> (\<exists>x. cp_e2ap_node_comp_id (cca_id c) = Inr x)"

lemma cp_e2ap_node_comp_id_eq: "cp_e2ap_node_comp_id c = Inr d \<Longrightarrow> d = c"
  by (cases c) (auto simp: cp_e2ap_node_comp_id_def)

lemma cp_comp_id_supported: "supported_cca c \<Longrightarrow> cp_e2ap_node_comp_id (cca_id c) = Inr (cca_id c)"
  using cp_e2ap_node_comp_id_eq by (auto simp: supported_cca_def)

lemma cp_cca_supported: "supported_cca c \<Longrightarrow> cp_e2ap_node_component_config_add c = Inr c"
  by (simp add: cp_e2ap_node_component_config_add_def cp_comp_id_supported)

lemma cp_cca_unsupported:
  "\<not> supported_cca c \<Longrightarrow> \<exists>e. cp_e2ap_node_component_config_add c = Inl e"
  unfolding supported_cca_def cp_e2ap_node_component_config_add_def
  by (cases "cp_e2ap_node_comp_id (cca_id c)") auto

end
