(* ===== verification/Seq_Arr.thy ===== *)
theory Seq_Arr
  imports Flex_Prelude
begin

text \<open>
  The growing array of \<^verbatim>\<open>util/alg_ds/ds/seq_container/seq_arr.c\<close> and its search
  (\<^verbatim>\<open>alg/find.c\<close>).  The byte block is modelled by its element slots: the list \<open>sa_data\<close> has one
  slot for every whole element that fits the allocated bytes, \<^term>\<open>None\<close> is a slot that was not
  written or is zeroed.  An iterator is the index of a slot.  Writing past the block is the fault
  \<open>Heap_Overflow\<close>.  The occupancy test \<^verbatim>\<open>size / cap < 0.25\<close> is computed in the code with floats,
  exactly while the size is below 2 to the 24.

  The locale \<open>back_insertion\<close> is the contract the array shares with the ring buffer: what
  appending does to the contents.
\<close>

section \<open>Sequences that grow at the back\<close>

locale back_insertion =
  fixes inv :: "'s \<Rightarrow> bool"
    and contents :: "'s \<Rightarrow> 'a list"
    and room :: "nat \<Rightarrow> 's \<Rightarrow> bool"
    and push :: "'s \<Rightarrow> 'a \<Rightarrow> 's res"
  assumes push_ok: "inv s \<Longrightarrow> room (Suc n) s \<Longrightarrow>
      \<exists>s'. push s x = Inr s' \<and> inv s' \<and> room n s' \<and> contents s' = contents s @ [x]"
begin

lemma push_all:
  "inv s \<Longrightarrow> room (length xs) s \<Longrightarrow>
     \<exists>s'. fold_res (\<lambda>x s. push s x) xs s = Inr s' \<and> inv s' \<and> contents s' = contents s @ xs"
proof (induction xs arbitrary: s)
  case (Cons x xs)
  obtain s1 where "push s x = Inr s1" "inv s1" "room (length xs) s1" "contents s1 = contents s @ [x]"
    using push_ok [of s "length xs" x] Cons.prems by auto
  then show ?case
    using Cons.IH [of s1] by auto
qed simp

end

section \<open>Data and operations\<close>

record 'a seq_arr_t =
  sa_data :: "'a option list"
  sa_size :: nat
  sa_elt_size :: nat
  sa_cap :: nat

definition MIN_SIZE :: nat where
  "MIN_SIZE = 8"

definition slots :: "nat \<Rightarrow> nat \<Rightarrow> 'a option list \<Rightarrow> 'a option list" where
  "slots n keep data = take keep data @ replicate (n - keep) None"

definition maybe_expand :: "'a seq_arr_t \<Rightarrow> 'a seq_arr_t" where
  "maybe_expand arr =
     (if sa_size arr + 1 = sa_cap arr then
        arr\<lparr>sa_data := slots (2 * sa_cap arr) (min (length (sa_data arr)) (2 * sa_cap arr)) (sa_data arr),
            sa_cap := 2 * sa_cap arr\<rparr>
      else arr)"

text \<open>The new block of a shrunk array has \<^verbatim>\<open>calloc(tmp.cap, tmp.cap)\<close> bytes.\<close>

definition maybe_shrink :: "'a seq_arr_t \<Rightarrow> 'a seq_arr_t res" where
  "maybe_shrink arr =
     (if sa_size arr > MIN_SIZE \<and> 4 * sa_size arr < sa_cap arr then
        chk (sa_cap arr > MIN_SIZE) ''arr->cap > MIN_SIZE'' (
        let cap = sa_cap arr div 2; n = cap * cap div sa_elt_size arr in
        chk (sa_size arr \<le> cap) ''arr->size <= tmp.cap'' (
        if sa_size arr \<le> n
        then Inr (arr\<lparr>sa_data := slots n (sa_size arr) (sa_data arr), sa_cap := cap\<rparr>)
        else Inl (Heap_Overflow ''memcpy(tmp.data, arr->data, arr->size*arr->elt_size)'')))
      else Inr arr)"

definition seq_arr_init :: "nat \<Rightarrow> 'a seq_arr_t" where
  "seq_arr_init elt_size =
     \<lparr>sa_data = replicate MIN_SIZE None, sa_size = 0, sa_elt_size = elt_size, sa_cap = MIN_SIZE\<rparr>"

definition seq_arr_push_back :: "'a seq_arr_t \<Rightarrow> 'a \<Rightarrow> nat \<Rightarrow> 'a seq_arr_t res" where
  "seq_arr_push_back arr data len =
     chk (len = sa_elt_size arr) ''len == arr->elt_size'' (
     let arr = maybe_expand arr in
     if sa_size arr < length (sa_data arr)
     then Inr (arr\<lparr>sa_data := (sa_data arr)[sa_size arr := Some data], sa_size := sa_size arr + 1\<rparr>)
     else Inl (Heap_Overflow ''memcpy(&arr->data[offset], data, arr->elt_size)''))"

text \<open>
  The number of bytes to move is an \<^verbatim>\<open>int\<close>: a positive distance from 2 to the 31 on is seen as
  a negative number by the assertion.
\<close>

definition seq_arr_erase :: "'a seq_arr_t \<Rightarrow> nat \<Rightarrow> nat \<Rightarrow> 'a seq_arr_t res" where
  "seq_arr_erase arr start_it end_it =
     chk (start_it \<le> end_it) ''end_it >= start_it'' (
     if start_it = end_it then Inr arr
     else
       chk (end_it \<le> sa_size arr \<and> (sa_size arr - end_it) * sa_elt_size arr < 2 ^ 31)
         ''num_bytes_move > -1'' (
       let n = sa_size arr - end_it; k = end_it - start_it; data = sa_data arr;
           moved = take start_it data @ take n (drop end_it data) @ drop (start_it + n) data;
           size = sa_size arr - k;
           zeroed = take size moved @ replicate k None @ drop (size + k) moved
       in maybe_shrink (arr\<lparr>sa_data := zeroed, sa_size := size\<rparr>)))"

definition seq_arr_size :: "'a seq_arr_t \<Rightarrow> nat" where
  "seq_arr_size arr = sa_size arr"

definition seq_arr_front :: "'a seq_arr_t \<Rightarrow> nat" where
  "seq_arr_front arr = 0"

definition seq_arr_next :: "'a seq_arr_t \<Rightarrow> nat \<Rightarrow> nat" where
  "seq_arr_next arr it = it + 1"

definition seq_arr_end :: "'a seq_arr_t \<Rightarrow> nat" where
  "seq_arr_end arr = sa_size arr"

definition seq_arr_at :: "'a seq_arr_t \<Rightarrow> nat \<Rightarrow> nat res" where
  "seq_arr_at arr pos = chk (pos < sa_size arr) ''pos < arr->size'' (Inr pos)"

definition seq_arr_dist :: "'a seq_arr_t \<Rightarrow> nat \<Rightarrow> nat \<Rightarrow> nat res" where
  "seq_arr_dist arr fst_it lst_it = chk (fst_it \<le> lst_it) ''pos > -1'' (Inr (lst_it - fst_it))"

text \<open>Reading the element under an iterator, as the callers do through the pointer.\<close>

definition seq_arr_get :: "'a seq_arr_t \<Rightarrow> nat \<Rightarrow> 'a res" where
  "seq_arr_get arr it =
     (if it < length (sa_data arr)
      then (case sa_data arr ! it of Some x \<Rightarrow> Inr x | None \<Rightarrow> Inl (Null_Deref ''unwritten slot''))
      else Inl (Heap_Overflow ''read past the block''))"

text \<open>\<^verbatim>\<open>find_if_arr\<close>: the loop from \<open>start_it\<close> to \<open>end_it\<close>.\<close>

function find_if_arr :: "'a seq_arr_t \<Rightarrow> nat \<Rightarrow> nat \<Rightarrow> ('a \<Rightarrow> bool res) \<Rightarrow> nat res" where
  "find_if_arr arr start_it end_it f =
     (if start_it \<ge> end_it then Inr start_it
      else bnd (seq_arr_get arr start_it) (\<lambda>x.
           bnd (f x) (\<lambda>b.
           if b then Inr start_it else find_if_arr arr (seq_arr_next arr start_it) end_it f)))"
  by pat_completeness auto
termination
  by (relation "measure (\<lambda>(arr, s, e, f). e - s)") (auto simp: seq_arr_next_def)

declare find_if_arr.simps [simp del]

text \<open>The loops from \<^verbatim>\<open>seq_front\<close> to \<^verbatim>\<open>seq_end\<close> with a body that does not change the array.\<close>

definition for_arr :: "('a \<Rightarrow> 's \<Rightarrow> 's res) \<Rightarrow> 'a seq_arr_t \<Rightarrow> 's \<Rightarrow> 's res" where
  "for_arr body arr s = fold_res (\<lambda>it s. bnd (seq_arr_get arr it) (\<lambda>x. body x s)) [0..<sa_size arr] s"

section \<open>The array as a list\<close>

definition sa_contents :: "'a seq_arr_t \<Rightarrow> 'a list" where
  "sa_contents arr = map the (take (sa_size arr) (sa_data arr))"

text \<open>
  The invariant: there is a free slot, the block covers the capacity, the slots below the size
  are written.
\<close>

definition sa_inv :: "'a seq_arr_t \<Rightarrow> bool" where
  "sa_inv arr \<longleftrightarrow>
     MIN_SIZE \<le> sa_cap arr \<and> sa_size arr < sa_cap arr \<and> sa_cap arr \<le> length (sa_data arr) \<and>
     0 < sa_elt_size arr \<and> None \<notin> set (take (sa_size arr) (sa_data arr))"

lemma sa_length [simp]: "sa_inv arr \<Longrightarrow> length (sa_contents arr) = sa_size arr"
  by (simp add: sa_inv_def sa_contents_def)

lemma sa_inv_init: "0 < n \<Longrightarrow> sa_inv (seq_arr_init n) \<and> sa_contents (seq_arr_init n) = []"
  by (simp add: sa_inv_def seq_arr_init_def sa_contents_def MIN_SIZE_def)

lemma maybe_expand_ok:
  assumes "sa_inv arr"
  shows "sa_inv (maybe_expand arr) \<and> sa_contents (maybe_expand arr) = sa_contents arr \<and>
     sa_size (maybe_expand arr) = sa_size arr \<and> sa_elt_size (maybe_expand arr) = sa_elt_size arr \<and>
     sa_size arr + 1 < sa_cap (maybe_expand arr)"
  using assms by (auto simp: maybe_expand_def sa_inv_def sa_contents_def slots_def MIN_SIZE_def min_def)

lemma push_back_ok:
  assumes "sa_inv arr" "len = sa_elt_size arr"
  shows "\<exists>arr'. seq_arr_push_back arr x len = Inr arr' \<and> sa_inv arr' \<and>
     sa_contents arr' = sa_contents arr @ [x] \<and> sa_elt_size arr' = sa_elt_size arr"
proof -
  let ?e = "maybe_expand arr"
  have e: "sa_inv ?e" "sa_contents ?e = sa_contents arr" "sa_elt_size ?e = sa_elt_size arr"
    "sa_size ?e + 1 < sa_cap ?e"
    using maybe_expand_ok [OF assms(1)] by auto
  then have s: "sa_size ?e < length (sa_data ?e)"
    by (simp add: sa_inv_def)
  let ?a = "?e\<lparr>sa_data := (sa_data ?e)[sa_size ?e := Some x], sa_size := sa_size ?e + 1\<rparr>"
  have "sa_inv ?a" "sa_contents ?a = sa_contents ?e @ [x]"
    using e(1,4) s by (auto simp: sa_inv_def sa_contents_def take_update_Suc)
  then show ?thesis
    using s e assms(2) by (simp add: seq_arr_push_back_def Let_def)
qed

interpretation arr: back_insertion
  "\<lambda>a. sa_inv a \<and> sa_elt_size a = sz" sa_contents "\<lambda>_ _. True" "\<lambda>a x. seq_arr_push_back a x sz"
  for sz
proof unfold_locales
  fix s :: "'a seq_arr_t" and n :: nat and x
  assume "sa_inv s \<and> sa_elt_size s = sz"
  then show "\<exists>s'. seq_arr_push_back s x sz = Inr s' \<and> (sa_inv s' \<and> sa_elt_size s' = sz) \<and> True \<and>
      sa_contents s' = sa_contents s @ [x]"
    using push_back_ok [of s sz x] by auto
qed

text \<open>Removal of a range, before a possible shrink.\<close>

lemma erase_moved:
  fixes data :: "'b option list"
  assumes "e \<le> s" "s \<le> length data" "b < e"
  shows "take (s - (e - b)) (take b data @ take (s - e) (drop e data) @ drop (b + (s - e)) data)
     = take b data @ drop e (take s data)"
proof -
  obtain n where "s = e + n"
    using assms(1) le_Suc_ex by blast
  moreover from this have "s - (e - b) = b + n" "s - e = n"
    using assms(3) by auto
  ultimately show ?thesis
    using assms by (simp add: drop_take)
qed

lemma take_take_append: "k \<le> length m \<Longrightarrow> take k (take k m @ r) = take k m"
  by (simp add: min_def)

lemma length_zeroed:
  "k + j \<le> length m \<Longrightarrow> length (take k m @ replicate j None @ drop (k + j) m) = length m"
  by simp

lemma sa_inv_resize:
  "sa_inv arr \<Longrightarrow> n \<le> sa_size arr \<Longrightarrow> length z = length (sa_data arr) \<Longrightarrow> None \<notin> set (take n z) \<Longrightarrow>
     sa_inv (arr\<lparr>sa_data := z, sa_size := n\<rparr>)"
  by (simp add: sa_inv_def)

lemma sa_contents_resize: "sa_contents (arr\<lparr>sa_data := z, sa_size := n\<rparr>) = map the (take n z)"
  by (simp add: sa_contents_def)

lemma sa_elt_resize: "sa_elt_size (arr\<lparr>sa_data := z, sa_size := n\<rparr>) = sa_elt_size arr"
  by simp

lemma maybe_shrink_ok:
  assumes "sa_inv arr" "2 * sa_elt_size arr \<le> sa_cap arr"
  shows "\<exists>arr'. maybe_shrink arr = Inr arr' \<and> sa_inv arr' \<and> sa_contents arr' = sa_contents arr \<and>
     sa_elt_size arr' = sa_elt_size arr"
proof (cases "sa_size arr > MIN_SIZE \<and> 4 * sa_size arr < sa_cap arr")
  case True
  let ?c = "sa_cap arr div 2" and ?e = "sa_elt_size arr"
  have e: "0 < ?e" "?e \<le> ?c"
    using assms by (auto simp: sa_inv_def)
  then have "?c * ?e \<le> ?c * ?c"
    by simp
  then have "?c \<le> ?c * ?c div ?e"
    using e(1) by (simp add: less_eq_div_iff_mult_less_eq)
  then show ?thesis
    using True assms(1)
    by (auto simp: maybe_shrink_def sa_inv_def sa_contents_def slots_def MIN_SIZE_def Let_def min_def)
next
  case False
  then show ?thesis
    using assms(1) by (auto simp: maybe_shrink_def)
qed

text \<open>Erasing moves the tail, clears the freed slots and then may shrink the block.\<close>

lemma erase_maybe_shrink:
  assumes "sa_inv arr" "b < e" "e \<le> sa_size arr" "(sa_size arr - e) * sa_elt_size arr < 2 ^ 31"
  shows "\<exists>a. seq_arr_erase arr b e = maybe_shrink a \<and> sa_inv a \<and>
     sa_contents a = take b (sa_contents arr) @ drop e (sa_contents arr) \<and>
     sa_elt_size a = sa_elt_size arr \<and> sa_cap a = sa_cap arr \<and> sa_size a = sa_size arr - (e - b)"
proof -
  let ?d = "sa_data arr" and ?s = "sa_size arr"
  let ?m = "take b ?d @ take (?s - e) (drop e ?d) @ drop (b + (?s - e)) ?d"
  let ?z = "take (?s - (e - b)) ?m @ replicate (e - b) None @ drop (?s - (e - b) + (e - b)) ?m"
  let ?a = "arr\<lparr>sa_data := ?z, sa_size := ?s - (e - b)\<rparr>"
  have len: "?s \<le> length ?d" "length ?m = length ?d"
    using assms(1-3) by (auto simp: sa_inv_def)
  have "?s - (e - b) \<le> length ?m"
    unfolding len(2) using len(1) by simp
  then have "take (?s - (e - b)) ?z = take (?s - (e - b)) ?m"
    by (rule take_take_append)
  also have "\<dots> = take b ?d @ drop e (take ?s ?d)"
    by (rule erase_moved [OF assms(3) len(1) assms(2)])
  finally have tk: "take (?s - (e - b)) ?z = take b ?d @ drop e (take ?s ?d)" .
  have "set (take b ?d) \<subseteq> set (take ?s ?d)"
    using assms(2,3) by (intro set_take_subset_set_take) simp
  then have none: "None \<notin> set (take (?s - (e - b)) ?z)"
    unfolding tk using assms(1) by (auto simp: sa_inv_def dest: in_set_dropD)
  have "length ?z = length ?m"
    by (rule length_zeroed) (unfold len(2), use len(1) assms(2,3) in simp)
  then have inv: "sa_inv ?a"
    unfolding len(2) using none by (rule sa_inv_resize [OF assms(1) diff_le_self])
  have "seq_arr_erase arr b e = maybe_shrink ?a"
    using assms by (simp add: seq_arr_erase_def Let_def)
  moreover have "sa_contents ?a = take b (sa_contents arr) @ drop e (sa_contents arr)"
    unfolding sa_contents_resize tk
    using assms(2,3) by (simp add: sa_contents_def take_map drop_map min_absorb1)
  ultimately show ?thesis
    using inv by (intro exI [of _ ?a] conjI) (assumption | simp)+
qed

lemma erase_ok:
  assumes "sa_inv arr" "b < e" "e \<le> sa_size arr"
    and "(sa_size arr - e) * sa_elt_size arr < 2 ^ 31" "2 * sa_elt_size arr \<le> sa_cap arr"
  shows "\<exists>arr'. seq_arr_erase arr b e = Inr arr' \<and> sa_inv arr' \<and>
     sa_contents arr' = take b (sa_contents arr) @ drop e (sa_contents arr) \<and>
     sa_elt_size arr' = sa_elt_size arr"
proof -
  obtain a where a: "seq_arr_erase arr b e = maybe_shrink a" "sa_inv a"
    "sa_contents a = take b (sa_contents arr) @ drop e (sa_contents arr)"
    "sa_elt_size a = sa_elt_size arr" "sa_cap a = sa_cap arr"
    using erase_maybe_shrink [OF assms(1-4)] by blast
  have "2 * sa_elt_size a \<le> sa_cap a"
    using assms(5) a(4,5) by simp
  then show ?thesis
    using maybe_shrink_ok [OF a(2)] a by metis
qed

text \<open>A block of at most 32 slots is never shrunk.\<close>

lemma erase_small:
  assumes "sa_inv arr" "b < e" "e \<le> sa_size arr" "sa_cap arr \<le> 32" "sa_elt_size arr < 2 ^ 26"
  shows "\<exists>arr'. seq_arr_erase arr b e = Inr arr' \<and> sa_inv arr' \<and>
     sa_contents arr' = take b (sa_contents arr) @ drop e (sa_contents arr) \<and>
     sa_elt_size arr' = sa_elt_size arr \<and> sa_cap arr' = sa_cap arr"
proof -
  have "(sa_size arr - e) * sa_elt_size arr \<le> 32 * sa_elt_size arr"
    by (intro mult_le_mono1) (use assms(1,4) in \<open>auto simp: sa_inv_def\<close>)
  also have "32 * sa_elt_size arr < 2 ^ 31"
    using assms(5) by simp
  finally have "(sa_size arr - e) * sa_elt_size arr < 2 ^ 31" .
  then obtain a where a: "seq_arr_erase arr b e = maybe_shrink a" "sa_inv a"
    "sa_contents a = take b (sa_contents arr) @ drop e (sa_contents arr)"
    "sa_elt_size a = sa_elt_size arr" "sa_cap a = sa_cap arr"
    using erase_maybe_shrink [OF assms(1-3)] by blast
  have "maybe_shrink a = Inr a"
    using assms(4) a(5) by (auto simp: maybe_shrink_def MIN_SIZE_def)
  then show ?thesis
    using a by auto
qed

text \<open>The capacities that an array of fewer than 32 elements goes through.\<close>

lemma push_small:
  assumes "sa_inv arr" "len = sa_elt_size arr" "sa_cap arr \<in> {8, 16, 32}" "sa_size arr < 31"
  shows "\<exists>arr'. seq_arr_push_back arr x len = Inr arr' \<and> sa_inv arr' \<and>
     sa_contents arr' = sa_contents arr @ [x] \<and> sa_elt_size arr' = sa_elt_size arr \<and>
     sa_cap arr' \<in> {8, 16, 32}"
proof -
  obtain arr' where arr': "seq_arr_push_back arr x len = Inr arr'" "sa_inv arr'"
    "sa_contents arr' = sa_contents arr @ [x]" "sa_elt_size arr' = sa_elt_size arr"
    using push_back_ok [OF assms(1,2)] by blast
  have "sa_cap arr' = sa_cap (maybe_expand arr)"
    using arr'(1) assms(2) by (auto simp: seq_arr_push_back_def Let_def split: if_splits)
  then show ?thesis
    using arr' assms(3,4) by (intro exI [of _ arr']) (auto simp: maybe_expand_def)
qed

text \<open>Pushing into a block that is smaller than the recorded capacity runs past its end.\<close>

lemma push_past_block:
  assumes "sa_size arr \<le> length (sa_data arr)" "length (sa_data arr) + 1 < sa_cap arr"
    and "length (sa_data arr) < sa_size arr + length xs" "len = sa_elt_size arr"
  shows "fold_res (\<lambda>x a. seq_arr_push_back a x len) xs arr =
     Inl (Heap_Overflow ''memcpy(&arr->data[offset], data, arr->elt_size)'')"
  using assms
proof (induction xs arbitrary: arr)
  case (Cons x xs)
  have e: "maybe_expand arr = arr"
    using Cons.prems by (simp add: maybe_expand_def)
  show ?case
  proof (cases "sa_size arr < length (sa_data arr)")
    case True
    let ?a = "arr\<lparr>sa_data := (sa_data arr)[sa_size arr := Some x], sa_size := sa_size arr + 1\<rparr>"
    have "seq_arr_push_back arr x len = Inr ?a"
      using True e Cons.prems(4) by (simp add: seq_arr_push_back_def)
    then show ?thesis
      using Cons.IH [of ?a] Cons.prems True by simp
  next
    case False
    then show ?thesis
      using e Cons.prems(4) by (simp add: seq_arr_push_back_def)
  qed
qed simp

lemma seq_arr_get_ok: "sa_inv arr \<Longrightarrow> i < sa_size arr \<Longrightarrow> seq_arr_get arr i = Inr (sa_contents arr ! i)"
proof -
  assume a: "sa_inv arr" "i < sa_size arr"
  then have l: "i < length (sa_data arr)" "sa_size arr \<le> length (sa_data arr)"
    by (auto simp: sa_inv_def)
  moreover have "sa_data arr ! i \<in> set (take (sa_size arr) (sa_data arr))"
    using a(2) l by (auto simp: in_set_conv_nth intro!: exI [of _ i])
  ultimately show ?thesis
    using a by (cases "sa_data arr ! i") (auto simp: seq_arr_get_def sa_contents_def sa_inv_def)
qed

lemma for_arr_ok:
  assumes "sa_inv arr"
  shows "for_arr body arr s = fold_res body (sa_contents arr) s"
proof -
  let ?g = "\<lambda>it s. bnd (seq_arr_get arr it) (\<lambda>x. body x s)"
  have "i \<le> sa_size arr \<Longrightarrow> fold_res ?g [i..<sa_size arr] s = fold_res body (drop i (sa_contents arr)) s"
    for i s
  proof (induction "sa_size arr - i" arbitrary: i s)
    case (Suc n)
    then have i: "i < sa_size arr" by simp
    then have "[i..<sa_size arr] = i # [Suc i..<sa_size arr]"
      by (rule upt_conv_Cons)
    moreover have "drop i (sa_contents arr) = sa_contents arr ! i # drop (Suc i) (sa_contents arr)"
      using i assms by (simp add: drop_eq_nth_Cons)
    moreover have "fold_res ?g [Suc i..<sa_size arr] = fold_res body (drop (Suc i) (sa_contents arr))"
      by (rule ext) (use Suc.hyps(1) [of "Suc i"] Suc.hyps(2) i in simp)
    ultimately show ?case
      using seq_arr_get_ok [OF assms i] by simp
  qed (use assms in simp)
  then show ?thesis
    unfolding for_arr_def by (metis drop0 le0)
qed

text \<open>The search returns the index of the first element the predicate accepts, or the end.\<close>

lemma find_if_arr_ok:
  assumes "sa_inv arr" "i \<le> sa_size arr" "\<forall>x \<in> set (sa_contents arr). f x = Inr (q x)"
  shows "find_if_arr arr i (seq_arr_end arr) f =
     Inr (i + length (takeWhile (\<lambda>x. \<not> q x) (drop i (sa_contents arr))))"
  using assms(2)
proof (induction "sa_size arr - i" arbitrary: i)
  case 0
  then show ?case
    using assms(1) by (simp add: find_if_arr.simps seq_arr_end_def)
next
  case (Suc n)
  then have i: "i < sa_size arr" by simp
  let ?x = "sa_contents arr ! i"
  have "?x \<in> set (sa_contents arr)"
    using i assms(1) by simp
  then have "f ?x = Inr (q ?x)"
    using assms(3) by blast
  moreover have "drop i (sa_contents arr) = ?x # drop (Suc i) (sa_contents arr)"
    using i assms(1) by (simp add: drop_eq_nth_Cons)
  ultimately show ?case
    using Suc.hyps(1) [of "Suc i"] Suc.hyps(2) i seq_arr_get_ok [OF assms(1) i]
    by (simp add: find_if_arr.simps [of arr i] seq_arr_end_def seq_arr_next_def)
qed

text \<open>A new array filled from a list.\<close>

lemma push_list_ok:
  fixes xs :: "'a list"
  assumes "0 < sz"
  shows "\<exists>arr. fold_res (\<lambda>x arr. seq_arr_push_back arr x sz) xs (seq_arr_init sz) = Inr arr \<and>
     sa_inv arr \<and> sa_elt_size arr = sz \<and> sa_contents arr = xs"
proof -
  let ?a = "seq_arr_init sz :: 'a seq_arr_t"
  have i: "sa_inv ?a" "sa_contents ?a = []" "sa_elt_size ?a = sz"
    using sa_inv_init [OF assms] by (auto simp: seq_arr_init_def)
  then obtain arr where "fold_res (\<lambda>x arr. seq_arr_push_back arr x sz) xs ?a = Inr arr"
    "sa_inv arr" "sa_elt_size arr = sz" "sa_contents arr = xs"
    using arr.push_all [of ?a sz xs] by auto
  then show ?thesis
    by blast
qed

section \<open>Properties of the array\<close>

text \<open>
  Appending any number of elements to a new array never writes outside its block, through
  every growth of the block, and the array then holds exactly these elements in order.
\<close>

theorem seq_arr_push_back_all:
  fixes xs :: "'a list"
  assumes "0 < sz"
  shows "\<exists>arr. fold_res (\<lambda>x arr. seq_arr_push_back arr x sz) xs (seq_arr_init sz) = Inr arr \<and>
     sa_inv arr \<and> sa_contents arr = xs \<and> seq_arr_size arr = length xs"
proof -
  obtain arr where "fold_res (\<lambda>x arr. seq_arr_push_back arr x sz) xs (seq_arr_init sz) = Inr arr"
    "sa_inv arr" "sa_contents arr = xs"
    using push_list_ok [OF assms, of xs] by blast
  then show ?thesis
    using sa_length [of arr] by (auto simp: seq_arr_size_def)
qed

theorem seq_arr_push_back_all_witness:
  "\<exists>arr. fold_res (\<lambda>x arr. seq_arr_push_back arr x 4) [5 :: nat, 6, 7] (seq_arr_init 4) = Inr arr \<and>
     sa_inv arr \<and> sa_contents arr = [5, 6, 7] \<and> seq_arr_size arr = 3"
  using seq_arr_push_back_all [of 4 "[5 :: nat, 6, 7]"] by (simp add: numeral_3_eq_3)

text \<open>
  Erasing a range removes exactly the elements of the range and keeps the invariant, as
  long as the elements are at most half as many bytes as the capacity counts slots.
\<close>

theorem seq_arr_erase_correct:
  assumes "sa_inv arr" "b < e" "e \<le> sa_size arr"
    and "(sa_size arr - e) * sa_elt_size arr < 2 ^ 31" "2 * sa_elt_size arr \<le> sa_cap arr"
  shows "\<exists>arr'. seq_arr_erase arr b e = Inr arr' \<and> sa_inv arr' \<and>
     sa_contents arr' = take b (sa_contents arr) @ drop e (sa_contents arr)"
  using erase_ok [OF assms] by blast

theorem seq_arr_erase_witness:
  "\<exists>arr'. seq_arr_erase \<lparr>sa_data = map Some [1 :: nat, 2, 3] @ replicate 5 None, sa_size = 3,
       sa_elt_size = 4, sa_cap = 8\<rparr> 1 2 = Inr arr' \<and> sa_inv arr' \<and> sa_contents arr' = [1, 3]"
  using seq_arr_erase_correct [of "\<lparr>sa_data = map Some [1 :: nat, 2, 3] @ replicate 5 None,
       sa_size = 3, sa_elt_size = 4, sa_cap = 8\<rparr>" 1 2]
  by (simp add: sa_inv_def sa_contents_def MIN_SIZE_def)

text \<open>
  With larger elements a shrink writes outside the new block: it has the square of the new
  capacity many bytes, not the new capacity times the element size.
\<close>

theorem seq_arr_shrink_overflow:
  assumes "sa_inv arr" "b < e" "e \<le> sa_size arr" "(sa_size arr - e) * sa_elt_size arr < 2 ^ 31"
    and "n = sa_size arr - (e - b)" "MIN_SIZE < n" "4 * n < sa_cap arr"
    and "(sa_cap arr div 2) * (sa_cap arr div 2) < n * sa_elt_size arr"
  shows "seq_arr_erase arr b e =
     Inl (Heap_Overflow ''memcpy(tmp.data, arr->data, arr->size*arr->elt_size)'')"
proof -
  have "sa_cap arr div 2 * (sa_cap arr div 2) div sa_elt_size arr < n"
    using assms(1,8) by (intro less_mult_imp_div_less)
  moreover have "n \<le> sa_cap arr div 2"
    using assms(7) by simp
  ultimately show ?thesis
    using assms(2-7) by (simp add: seq_arr_erase_def maybe_shrink_def Let_def)
qed

text \<open>Ten elements of 200 bytes in a block of 64 slots, which 40 insertions leave behind.\<close>

theorem seq_arr_shrink_overflow_witness:
  "seq_arr_erase \<lparr>sa_data = replicate 10 (Some (7 :: nat)) @ replicate 54 None, sa_size = 10,
       sa_elt_size = 200, sa_cap = 64\<rparr> 0 1 =
     Inl (Heap_Overflow ''memcpy(tmp.data, arr->data, arr->size*arr->elt_size)'')"
  by (rule seq_arr_shrink_overflow [where n = 9]) (simp_all add: sa_inv_def MIN_SIZE_def)

text \<open>
  A shrink of the array of connected E2 nodes, whose elements have 48 bytes, leaves a block
  that is smaller than the capacity it records: an array with a capacity of 64 that drops to 15
  elements succeeds in shrinking, and the seventh element pushed after that is written outside
  the block.
\<close>

theorem seq_arr_shrink_then_grow:
  fixes arr :: "'a seq_arr_t"
  assumes "sa_inv arr" "sa_cap arr = 64" "sa_size arr = 16" "sa_elt_size arr = 48" "b < 16"
    and "6 < length xs"
  shows "\<exists>arr'. seq_arr_erase arr b (b + 1) = Inr arr' \<and>
     fold_res (\<lambda>x a. seq_arr_push_back a x 48) xs arr' =
       Inl (Heap_Overflow ''memcpy(&arr->data[offset], data, arr->elt_size)'')"
proof -
  have "(sa_size arr - (b + 1)) * sa_elt_size arr < 2 ^ 31"
    using assms by simp
  then obtain a where a: "seq_arr_erase arr b (b + 1) = maybe_shrink a" "sa_elt_size a = 48"
    "sa_cap a = 64" "sa_size a = 15" "sa_inv a"
    using erase_maybe_shrink [of arr b "b + 1"] assms by auto
  let ?a = "a\<lparr>sa_data := slots 21 15 (sa_data a), sa_cap := 32\<rparr>"
  have l: "length (slots 21 15 (sa_data a)) = 21"
    using a(3,5) by (simp add: slots_def sa_inv_def)
  have "maybe_shrink a = Inr ?a"
    using a by (simp add: maybe_shrink_def MIN_SIZE_def Let_def)
  moreover have "fold_res (\<lambda>x a. seq_arr_push_back a x 48) xs ?a =
      Inl (Heap_Overflow ''memcpy(&arr->data[offset], data, arr->elt_size)'')"
    by (rule push_past_block) (use a assms(6) l in simp_all)
  ultimately show ?thesis
    using a(1) by simp
qed

theorem seq_arr_shrink_then_grow_witness:
  "\<exists>arr'. seq_arr_erase \<lparr>sa_data = replicate 64 (Some (0 :: nat)), sa_size = 16, sa_elt_size = 48,
       sa_cap = 64\<rparr> 3 4 = Inr arr' \<and>
     fold_res (\<lambda>x a. seq_arr_push_back a x 48) [1 :: nat, 2, 3, 4, 5, 6, 7] arr' =
       Inl (Heap_Overflow ''memcpy(&arr->data[offset], data, arr->elt_size)'')"
  using seq_arr_shrink_then_grow [of "\<lparr>sa_data = replicate 64 (Some (0 :: nat)), sa_size = 16,
      sa_elt_size = 48, sa_cap = 64\<rparr>" 3 "[1, 2, 3, 4, 5, 6, 7]"]
  by (simp add: sa_inv_def MIN_SIZE_def)

end
