(* ===== verification/Assoc_RB_Tree.thy ===== *)
theory Assoc_RB_Tree
  imports Flex_Compare
begin

text \<open>
  The red-black tree of \<^verbatim>\<open>util/alg_ds/ds/assoc_container/assoc_rb_tree.c\<close>, the ordered map
  under every registry of the RIC, the iApp, the agent and the xApp.

  The C nodes are linked with parent pointers and share one sentinel, the dummy node, for all
  leaves and for the parent of the root.  A node pointer is modelled as a position: the subtree
  under the node and the chain of its ancestors up to the root (the parent pointers), each with
  the sibling subtree that is not entered.  Rotations, the fix-up loops and iteration move such
  a position the way the C code moves \<^verbatim>\<open>z_node\<close>, \<^verbatim>\<open>x_node\<close> and \<^verbatim>\<open>w_node\<close>.
  The children of the sentinel are null pointers, so looking at a colour below it is a fault;
  the assertions of the code are kept.  The comparison function is the one stored in the tree
  and may abort.

  The lemmas show that on a tree that satisfies the five red-black properties and is ordered by
  the comparison no operation faults, that the properties and the order are kept, and what each
  operation does to the entries in iteration order.
\<close>

section \<open>Nodes and positions\<close>

datatype assoc_color_e = ASSOC_BLACK | ASSOC_RED

datatype ('k, 'v) assoc_node_t =
    Dummy
  | Node assoc_color_e 'k 'v "('k, 'v) assoc_node_t" "('k, 'v) assoc_node_t"

text \<open>An ancestor entered at its left child (with its right child) or at its right child.\<close>

datatype ('k, 'v) crumb =
    LeftOf assoc_color_e 'k 'v "('k, 'v) assoc_node_t"
  | RightOf assoc_color_e 'k 'v "('k, 'v) assoc_node_t"

type_synonym ('k, 'v) node_it = "('k, 'v) crumb list \<times> ('k, 'v) assoc_node_t"

record ('k, 'v) assoc_rb_tree_t =
  rb_root :: "('k, 'v) assoc_node_t"
  rb_comp :: "'k \<Rightarrow> 'k \<Rightarrow> int res"
  rb_size :: nat
  rb_key_sz :: nat
  rb_free :: "('k \<Rightarrow> 'v \<Rightarrow> unit res) option"

fun color :: "('k, 'v) assoc_node_t \<Rightarrow> assoc_color_e" where
  "color Dummy = ASSOC_BLACK"
| "color (Node c k v l r) = c"

fun crumb_color :: "('k, 'v) crumb \<Rightarrow> assoc_color_e" where
  "crumb_color (LeftOf c k v r) = c"
| "crumb_color (RightOf c k v l) = c"

fun paint :: "assoc_color_e \<Rightarrow> ('k, 'v) assoc_node_t \<Rightarrow> ('k, 'v) assoc_node_t" where
  "paint c Dummy = Dummy"
| "paint c (Node _ k v l r) = Node c k v l r"

fun climb :: "('k, 'v) crumb list \<Rightarrow> ('k, 'v) assoc_node_t \<Rightarrow> ('k, 'v) assoc_node_t" where
  "climb [] t = t"
| "climb (LeftOf c k v r # ps) t = climb ps (Node c k v t r)"
| "climb (RightOf c k v l # ps) t = climb ps (Node c k v l t)"

definition create_node_rb_tree :: "'k \<Rightarrow> 'v \<Rightarrow> ('k, 'v) assoc_node_t" where
  "create_node_rb_tree key value = Node ASSOC_RED key value Dummy Dummy"

definition assoc_rb_tree_init ::
  "nat \<Rightarrow> ('k \<Rightarrow> 'k \<Rightarrow> int res) \<Rightarrow> ('k \<Rightarrow> 'v \<Rightarrow> unit res) option \<Rightarrow> ('k, 'v) assoc_rb_tree_t res" where
  "assoc_rb_tree_init key_sz comp_func free_func =
     chk (key_sz > 0) ''key_sz > 0'' (
     Inr \<lparr>rb_root = Dummy, rb_comp = comp_func, rb_size = 0, rb_key_sz = key_sz,
          rb_free = free_func\<rparr>)"

text \<open>Post-order release of every node with the release callback.\<close>

fun depth_first_search_free ::
  "('k \<Rightarrow> 'v \<Rightarrow> unit res) option \<Rightarrow> ('k, 'v) assoc_node_t \<Rightarrow> unit res" where
  "depth_first_search_free f Dummy = Inr ()"
| "depth_first_search_free f (Node c k v l r) =
     bnd (depth_first_search_free f l) (\<lambda>_.
     bnd (depth_first_search_free f r) (\<lambda>_.
     case f of None \<Rightarrow> Inr () | Some g \<Rightarrow> g k v))"

definition assoc_rb_tree_free :: "('k, 'v) assoc_rb_tree_t \<Rightarrow> unit res" where
  "assoc_rb_tree_free tree = depth_first_search_free (rb_free tree) (rb_root tree)"

section \<open>Rotations and insertion\<close>

text \<open>
  A rotation relinks a node with its parent; the parent's link is the position, so a rotation
  is a function of the subtree that is rotated.
\<close>

fun left_rotate :: "('k, 'v) assoc_node_t \<Rightarrow> ('k, 'v) assoc_node_t res" where
  "left_rotate (Node cx kx vx a (Node cy ky vy b c)) = Inr (Node cy ky vy (Node cx kx vx a b) c)"
| "left_rotate (Node cx kx vx a Dummy) = Inl (Assertion ''x_node->right != tree->dummy'')"
| "left_rotate Dummy = Inl (Null_Deref ''x_node->right'')"

fun right_rotate :: "('k, 'v) assoc_node_t \<Rightarrow> ('k, 'v) assoc_node_t res" where
  "right_rotate (Node cx kx vx (Node cy ky vy a b) c) = Inr (Node cy ky vy a (Node cx kx vx b c))"
| "right_rotate (Node cx kx vx Dummy c) = Inl (Assertion ''x_node->left != tree->dummy'')"
| "right_rotate Dummy = Inl (Null_Deref ''x_node->left'')"

text \<open>
  \<open>insert_fixup ps z\<close> is the loop with \<^verbatim>\<open>z_node\<close> at position \<open>(ps, z)\<close>; it returns the new
  root.  The parent is the first ancestor, the grandparent the second one.
\<close>

function (sequential) insert_fixup ::
  "('k, 'v) crumb list \<Rightarrow> ('k, 'v) assoc_node_t \<Rightarrow> ('k, 'v) assoc_node_t res" where
  "insert_fixup [] z = Inr (paint ASSOC_BLACK z)"
| "insert_fixup (p # ps) z =
     (if crumb_color p \<noteq> ASSOC_RED then Inr (paint ASSOC_BLACK (climb (p # ps) z))
      else case ps of
        [] \<Rightarrow> Inl (Null_Deref ''grand_parent->left->color'')
      | LeftOf gc gk gv uncle # gs \<Rightarrow>
          if color uncle = ASSOC_RED then
            insert_fixup gs
              (Node ASSOC_RED gk gv (paint ASSOC_BLACK (climb [p] z)) (paint ASSOC_BLACK uncle))
          else
            bnd (case p of LeftOf _ _ _ _ \<Rightarrow> Inr (climb [p] z)
                         | RightOf _ _ _ _ \<Rightarrow> left_rotate (climb [p] z)) (\<lambda>parent.
            bnd (right_rotate (Node ASSOC_RED gk gv (paint ASSOC_BLACK parent) uncle)) (\<lambda>t.
            case t of
              Node c k v z' r \<Rightarrow> insert_fixup (LeftOf c k v r # gs) z'
            | Dummy \<Rightarrow> Inl (Null_Deref ''z_node->parent'')))
      | RightOf gc gk gv uncle # gs \<Rightarrow>
          if color uncle = ASSOC_RED then
            insert_fixup gs
              (Node ASSOC_RED gk gv (paint ASSOC_BLACK uncle) (paint ASSOC_BLACK (climb [p] z)))
          else
            bnd (case p of RightOf _ _ _ _ \<Rightarrow> Inr (climb [p] z)
                         | LeftOf _ _ _ _ \<Rightarrow> right_rotate (climb [p] z)) (\<lambda>parent.
            bnd (left_rotate (Node ASSOC_RED gk gv uncle (paint ASSOC_BLACK parent))) (\<lambda>t.
            case t of
              Node c k v l z' \<Rightarrow> insert_fixup (RightOf c k v l # gs) z'
            | Dummy \<Rightarrow> Inl (Null_Deref ''z_node->parent''))))"
  by pat_completeness auto
termination by (relation "measure (length \<circ> fst)") auto

text \<open>The descent to the leaf: the loop with \<^verbatim>\<open>x_node\<close> at \<open>(ps, x)\<close>.\<close>

fun insert_descend ::
  "('k \<Rightarrow> 'k \<Rightarrow> int res) \<Rightarrow> 'k \<Rightarrow> ('k, 'v) crumb list \<Rightarrow> ('k, 'v) assoc_node_t \<Rightarrow>
   ('k, 'v) crumb list res" where
  "insert_descend cmp key ps Dummy = Inr ps"
| "insert_descend cmp key ps (Node c k v l r) =
     bnd (cmp key k) (\<lambda>rc.
     if rc = 1 then insert_descend cmp key (LeftOf c k v r # ps) l
     else insert_descend cmp key (RightOf c k v l # ps) r)"

text \<open>
  After the descent the code compares once more with the last node visited to link the new
  node; the comparison is a function, so it is the direction of the last step.
\<close>

definition assoc_rb_tree_insert ::
  "('k, 'v) assoc_rb_tree_t \<Rightarrow> 'k \<Rightarrow> nat \<Rightarrow> 'v \<Rightarrow> ('k, 'v) assoc_rb_tree_t res" where
  "assoc_rb_tree_insert tree key key_sz value =
     chk (rb_key_sz tree = key_sz) ''Size mismatch'' (
     bnd (insert_descend (rb_comp tree) key [] (rb_root tree)) (\<lambda>ps.
     bnd (insert_fixup ps (create_node_rb_tree key value)) (\<lambda>root.
     Inr (tree\<lparr>rb_root := root, rb_size := rb_size tree + 1\<rparr>))))"

section \<open>Deletion\<close>

text \<open>
  One iteration of the \<^verbatim>\<open>delete_fixup\<close> loop for \<^verbatim>\<open>x_node\<close> a left child, from the point where
  the sibling \<open>w\<close> is black: \<open>(c, k, v)\<close> is the parent, \<open>ps\<close> its ancestors.  The result is the
  position of \<^verbatim>\<open>x_node\<close> for the next iteration.
\<close>

fun delete_case_left ::
  "('k, 'v) assoc_node_t \<Rightarrow> assoc_color_e \<Rightarrow> 'k \<Rightarrow> 'v \<Rightarrow> ('k, 'v) assoc_node_t \<Rightarrow>
   ('k, 'v) crumb list \<Rightarrow> ('k, 'v) node_it res" where
  "delete_case_left x c k v Dummy ps = Inl (Null_Deref ''w_node->left->color'')"
| "delete_case_left x c k v (Node wc wk wv wl wr) ps =
     chk (wc = ASSOC_BLACK) ''w_node->color == ASSOC_BLACK'' (
     if color wl = ASSOC_BLACK \<and> color wr = ASSOC_BLACK then
       Inr (ps, Node c k v x (Node ASSOC_RED wk wv wl wr))
     else
       bnd (if color wr = ASSOC_BLACK then
              chk (color wl = ASSOC_RED) ''w_node->left->color == ASSOC_RED'' (
              right_rotate (Node ASSOC_RED wk wv (paint ASSOC_BLACK wl) wr))
            else Inr (Node wc wk wv wl wr)) (\<lambda>w.
       case w of
         Dummy \<Rightarrow> Inl (Null_Deref ''w_node->right->color'')
       | Node wc wk wv wl wr \<Rightarrow>
           chk (wc = ASSOC_BLACK) ''w_node->color == ASSOC_BLACK'' (
           chk (color wr = ASSOC_RED) ''w_node->right->color == ASSOC_RED'' (
           bnd (left_rotate (Node ASSOC_BLACK k v x (Node c wk wv wl (paint ASSOC_BLACK wr)))) (\<lambda>t.
           Inr ([], climb ps t))))))"

fun delete_case_right ::
  "('k, 'v) assoc_node_t \<Rightarrow> assoc_color_e \<Rightarrow> 'k \<Rightarrow> 'v \<Rightarrow> ('k, 'v) assoc_node_t \<Rightarrow>
   ('k, 'v) crumb list \<Rightarrow> ('k, 'v) node_it res" where
  "delete_case_right x c k v Dummy ps = Inl (Null_Deref ''w_node->left->color'')"
| "delete_case_right x c k v (Node wc wk wv wl wr) ps =
     chk (wc = ASSOC_BLACK) ''w_node->color == ASSOC_BLACK'' (
     if color wl = ASSOC_BLACK \<and> color wr = ASSOC_BLACK then
       Inr (ps, Node c k v (Node ASSOC_RED wk wv wl wr) x)
     else
       bnd (if color wl = ASSOC_BLACK then
              chk (color wr = ASSOC_RED) ''w_node->right->color == ASSOC_RED'' (
              left_rotate (Node ASSOC_RED wk wv wl (paint ASSOC_BLACK wr)))
            else Inr (Node wc wk wv wl wr)) (\<lambda>w.
       case w of
         Dummy \<Rightarrow> Inl (Null_Deref ''w_node->left->color'')
       | Node wc wk wv wl wr \<Rightarrow>
           chk (wc = ASSOC_BLACK) ''w_node->color == ASSOC_BLACK'' (
           chk (color wl = ASSOC_RED) ''w_node->left->color == ASSOC_RED'' (
           bnd (right_rotate (Node ASSOC_BLACK k v (Node c wk wv (paint ASSOC_BLACK wl) wr) x)) (\<lambda>t.
           Inr ([], climb ps t))))))"

text \<open>Case 1, a red sibling, rotates first; then \<^verbatim>\<open>x_node\<close> is one level deeper.\<close>

fun delete_step :: "('k, 'v) crumb \<Rightarrow> ('k, 'v) crumb list \<Rightarrow> ('k, 'v) assoc_node_t \<Rightarrow>
   ('k, 'v) node_it res" where
  "delete_step (LeftOf c k v w) ps x =
     (if color w = ASSOC_RED then
        bnd (left_rotate (Node ASSOC_RED k v x (paint ASSOC_BLACK w))) (\<lambda>t.
        case t of
          Node tc tk tv (Node c k v x w) tr \<Rightarrow>
            delete_case_left x c k v w (LeftOf tc tk tv tr # ps)
        | _ \<Rightarrow> Inl (Null_Deref ''x_node->parent->right''))
      else delete_case_left x c k v w ps)"
| "delete_step (RightOf c k v w) ps x =
     (if color w = ASSOC_RED then
        bnd (right_rotate (Node ASSOC_RED k v (paint ASSOC_BLACK w) x)) (\<lambda>t.
        case t of
          Node tc tk tv tlf (Node c k v w x) \<Rightarrow>
            delete_case_right x c k v w (RightOf tc tk tv tlf # ps)
        | _ \<Rightarrow> Inl (Null_Deref ''x_node->parent->left''))
      else delete_case_right x c k v w ps)"

lemma node_case_eq_Inr:
  "(case w of Dummy \<Rightarrow> Inl e | Node c k v l r \<Rightarrow> g c k v l r) = Inr y \<longleftrightarrow>
     (\<exists>c k v l r. w = Node c k v l r \<and> g c k v l r = Inr y)"
  by (cases w) auto

lemma delete_case_left_result:
  "delete_case_left x c k v w ps = Inr (qs, y) \<Longrightarrow> qs = [] \<or> (qs = ps \<and> color y = c)"
  by (cases w) (auto simp: res_simps node_case_eq_Inr split: if_splits)

lemma delete_case_right_result:
  "delete_case_right x c k v w ps = Inr (qs, y) \<Longrightarrow> qs = [] \<or> (qs = ps \<and> color y = c)"
  by (cases w) (auto simp: res_simps node_case_eq_Inr split: if_splits)

text \<open>What bounds the loop: the depth of \<^verbatim>\<open>x_node\<close>, and whether the loop may stop at once.\<close>

definition fixup_measure :: "('k, 'v) crumb list \<Rightarrow> ('k, 'v) assoc_node_t \<Rightarrow> nat" where
  "fixup_measure ps x = 2 * length ps + (if color x = ASSOC_BLACK then 1 else 0)"

lemma delete_step_measure:
  assumes "delete_step p ps x = Inr (qs, y)" "color x = ASSOC_BLACK"
  shows "fixup_measure qs y < fixup_measure (p # ps) x"
proof (cases p)
  case (LeftOf c k v w)
  then show ?thesis
    using assms
    by (cases w) (auto simp: fixup_measure_def bnd_eq_Inr simp del: delete_case_left.simps
        dest!: delete_case_left_result split: if_splits)
next
  case (RightOf c k v w)
  then show ?thesis
    using assms
    by (cases w) (auto simp: fixup_measure_def bnd_eq_Inr simp del: delete_case_right.simps
        dest!: delete_case_right_result split: if_splits)
qed

function (sequential) delete_fixup ::
  "('k, 'v) crumb list \<Rightarrow> ('k, 'v) assoc_node_t \<Rightarrow> ('k, 'v) assoc_node_t res" where
  "delete_fixup [] x = Inr (paint ASSOC_BLACK x)"
| "delete_fixup (p # ps) x =
     (if color x = ASSOC_BLACK then
        bnd (delete_step p ps x) (\<lambda>it. delete_fixup (fst it) (snd it))
      else Inr (climb (p # ps) (paint ASSOC_BLACK x)))"
  by pat_completeness auto
termination
  by (relation "measure (\<lambda>(ps, x). fixup_measure ps x)") (auto dest: delete_step_measure)

definition transplant ::
  "('k, 'v) assoc_node_t \<Rightarrow> ('k, 'v) assoc_node_t \<Rightarrow> ('k, 'v) assoc_node_t res" where
  "transplant u_node v_node =
     (case u_node of Dummy \<Rightarrow> Inl (Assertion ''u_node != tree->dummy'') | _ \<Rightarrow> Inr v_node)"

fun minimum :: "('k, 'v) crumb list \<Rightarrow> ('k, 'v) assoc_node_t \<Rightarrow> ('k, 'v) node_it" where
  "minimum ps Dummy = ([], Dummy)"
| "minimum ps (Node c k v Dummy r) = (ps, Node c k v Dummy r)"
| "minimum ps (Node c k v l r) = minimum (LeftOf c k v r # ps) l"

fun find_rb_tree ::
  "('k \<Rightarrow> 'k \<Rightarrow> int res) \<Rightarrow> 'k \<Rightarrow> ('k, 'v) crumb list \<Rightarrow> ('k, 'v) assoc_node_t \<Rightarrow>
   ('k, 'v) node_it res" where
  "find_rb_tree cmp key ps Dummy = Inr ([], Dummy)"
| "find_rb_tree cmp key ps (Node c k v l r) =
     bnd (cmp key k) (\<lambda>rc.
     if rc = 1 then find_rb_tree cmp key (LeftOf c k v r # ps) l
     else if rc = - 1 then find_rb_tree cmp key (RightOf c k v l # ps) r
     else chk (rc = 0) ''rc == 0'' (Inr (ps, Node c k v l r)))"

definition delete_rebalance ::
  "assoc_color_e \<Rightarrow> ('k, 'v) crumb list \<Rightarrow> ('k, 'v) assoc_node_t \<Rightarrow> ('k, 'v) assoc_node_t res" where
  "delete_rebalance original_color ps x =
     (if original_color = ASSOC_BLACK then delete_fixup ps x else Inr (climb ps x))"

fun assoc_rb_tree_extract_node :: "('k, 'v) node_it \<Rightarrow> ('k, 'v) assoc_node_t res" where
  "assoc_rb_tree_extract_node (ps, Dummy) =
     Inl (Assertion ''Trying to extract a key not found in the tree'')"
| "assoc_rb_tree_extract_node (ps, Node c k v l r) =
     (case l of
        Dummy \<Rightarrow> bnd (transplant (Node c k v l r) r) (delete_rebalance c ps)
      | _ \<Rightarrow>
     (case r of
        Dummy \<Rightarrow> bnd (transplant (Node c k v l r) l) (delete_rebalance c ps)
      | _ \<Rightarrow>
     (case minimum [] r of
        (qs, Dummy) \<Rightarrow> Inl (Null_Deref ''y_node->right'')
      | (qs, Node yc yk yv yl x) \<Rightarrow>
          if qs = [] then delete_rebalance yc (RightOf c yk yv l # ps) x
          else bnd (transplant (Node yc yk yv yl x) x)
                 (delete_rebalance yc (qs @ RightOf c yk yv l # ps)))))"

definition assoc_rb_tree_extract ::
  "('k, 'v) assoc_rb_tree_t \<Rightarrow> 'k \<Rightarrow> (('k, 'v) assoc_rb_tree_t \<times> 'v) res" where
  "assoc_rb_tree_extract tree key =
     bnd (find_rb_tree (rb_comp tree) key [] (rb_root tree)) (\<lambda>it.
     case snd it of
       Dummy \<Rightarrow> Inl (Assertion ''Trying to extract a key not found in the tree'')
     | Node c k v l r \<Rightarrow>
         bnd (assoc_rb_tree_extract_node it) (\<lambda>root.
         chk (rb_size tree \<noteq> 0) ''tree->size != 0'' (
         Inr (tree\<lparr>rb_root := root, rb_size := rb_size tree - 1\<rparr>, v))))"

definition assoc_rb_tree_free_it ::
  "('k, 'v) assoc_rb_tree_t \<Rightarrow> ('k, 'v) node_it \<Rightarrow> ('k, 'v) assoc_rb_tree_t res" where
  "assoc_rb_tree_free_it tree it =
     (case snd it of
        Dummy \<Rightarrow> Inl (Assertion ''Trying to extract a key not found in the tree'')
      | Node c k v l r \<Rightarrow>
          bnd (assoc_rb_tree_extract_node it) (\<lambda>root.
          bnd (case rb_free tree of None \<Rightarrow> Inl (Null_Deref ''tree->free_func'') | Some f \<Rightarrow> f k v) (\<lambda>_.
          chk (rb_size tree \<noteq> 0) ''tree->size != 0'' (
          Inr (tree\<lparr>rb_root := root, rb_size := rb_size tree - 1\<rparr>)))))"

section \<open>Iteration\<close>

definition assoc_rb_tree_front :: "('k, 'v) assoc_rb_tree_t \<Rightarrow> ('k, 'v) node_it" where
  "assoc_rb_tree_front tree = minimum [] (rb_root tree)"

text \<open>The loop that goes up until the position is reached from a left child.\<close>

fun next_up :: "('k, 'v) crumb list \<Rightarrow> ('k, 'v) assoc_node_t \<Rightarrow> ('k, 'v) node_it" where
  "next_up [] t = ([], Dummy)"
| "next_up (LeftOf c k v r # ps) t = (ps, Node c k v t r)"
| "next_up (RightOf c k v l # ps) t = next_up ps (Node c k v l t)"

fun assoc_rb_tree_next :: "('k, 'v) node_it \<Rightarrow> ('k, 'v) node_it res" where
  "assoc_rb_tree_next (ps, Dummy) = Inl (Assertion ''No next node since the end reached'')"
| "assoc_rb_tree_next (ps, Node c k v l r) =
     (case r of
        Dummy \<Rightarrow> Inr (next_up ps (Node c k v l r))
      | _ \<Rightarrow> Inr (minimum (RightOf c k v l # ps) r))"

definition assoc_rb_tree_end :: "('k, 'v) node_it" where
  "assoc_rb_tree_end = ([], Dummy)"

fun assoc_rb_tree_key :: "('k, 'v) node_it \<Rightarrow> 'k res" where
  "assoc_rb_tree_key (ps, Dummy) = Inl (Assertion ''end iterator passed?'')"
| "assoc_rb_tree_key (ps, Node c k v l r) = Inr k"

fun assoc_rb_tree_value :: "('k, 'v) node_it \<Rightarrow> 'v res" where
  "assoc_rb_tree_value (ps, Dummy) = Inl (Assertion ''end iterator passed?'')"
| "assoc_rb_tree_value (ps, Node c k v l r) = Inr v"

definition assoc_rb_tree_size :: "('k, 'v) assoc_rb_tree_t \<Rightarrow> nat" where
  "assoc_rb_tree_size tree = rb_size tree"

text \<open>The entries in iteration order: of a tree, before and after a position, from an iterator on.\<close>

fun inorder :: "('k, 'v) assoc_node_t \<Rightarrow> ('k \<times> 'v) list" where
  "inorder Dummy = []"
| "inorder (Node c k v l r) = inorder l @ (k, v) # inorder r"

fun before :: "('k, 'v) crumb list \<Rightarrow> ('k \<times> 'v) list" where
  "before [] = []"
| "before (LeftOf c k v r # ps) = before ps"
| "before (RightOf c k v l # ps) = before ps @ inorder l @ [(k, v)]"

fun after :: "('k, 'v) crumb list \<Rightarrow> ('k \<times> 'v) list" where
  "after [] = []"
| "after (LeftOf c k v r # ps) = (k, v) # inorder r @ after ps"
| "after (RightOf c k v l # ps) = after ps"

fun remaining :: "('k, 'v) node_it \<Rightarrow> ('k \<times> 'v) list" where
  "remaining (ps, Dummy) = []"
| "remaining (ps, Node c k v l r) = (k, v) # inorder r @ after ps"

lemma inorder_climb [simp]: "inorder (climb ps t) = before ps @ inorder t @ after ps"
  by (induction ps t rule: climb.induct) auto

lemma before_append [simp]: "before (ps @ qs) = before qs @ before ps"
  by (induction ps rule: before.induct) auto

lemma after_append [simp]: "after (ps @ qs) = after ps @ after qs"
  by (induction ps rule: after.induct) auto

lemma climb_append: "climb (ps @ qs) t = climb qs (climb ps t)"
  by (induction ps t rule: climb.induct) auto

lemma inorder_paint [simp]: "inorder (paint c t) = inorder t"
  by (cases t) auto

lemma minimum_remaining:
  "t \<noteq> Dummy \<Longrightarrow> remaining (minimum ps t) = inorder t @ after ps"
  by (induction ps t rule: minimum.induct) auto

lemma next_up_remaining: "remaining (next_up ps t) = after ps"
  by (induction ps t rule: next_up.induct) auto

lemma remaining_next:
  "assoc_rb_tree_next it = Inr it' \<Longrightarrow> remaining it' = tl (remaining it) \<and> remaining it \<noteq> []"
  by (cases it rule: assoc_rb_tree_next.cases)
    (auto simp: next_up_remaining minimum_remaining split: assoc_node_t.splits)

text \<open>\<^verbatim>\<open>find_if_rb_tree\<close> of \<^verbatim>\<open>alg/find.c\<close>, from an iterator to the end.\<close>

function find_if_rb_tree :: "('k \<Rightarrow> bool res) \<Rightarrow> ('k, 'v) node_it \<Rightarrow> ('k, 'v) node_it res" where
  "find_if_rb_tree f it =
     (case snd it of
        Dummy \<Rightarrow> Inr it
      | Node c k v l r \<Rightarrow>
          bnd (f k) (\<lambda>b. if b then Inr it else bnd (assoc_rb_tree_next it) (find_if_rb_tree f)))"
  by pat_completeness auto
termination
  by (relation "measure (length \<circ> remaining \<circ> snd)") (auto dest!: remaining_next)

declare find_if_rb_tree.simps [simp del]

text \<open>
  The loops \<^verbatim>\<open>while(it != end){ body(key, value); it = assoc_next(tree, it); }\<close> of the
  registries, with a body that does not change the tree.
\<close>

function for_tree :: "('k \<Rightarrow> 'v \<Rightarrow> 's \<Rightarrow> 's res) \<Rightarrow> ('k, 'v) node_it \<Rightarrow> 's \<Rightarrow> 's res" where
  "for_tree body it s =
     (case snd it of
        Dummy \<Rightarrow> Inr s
      | Node c k v l r \<Rightarrow>
          bnd (body k v s) (\<lambda>s. bnd (assoc_rb_tree_next it) (\<lambda>it. for_tree body it s)))"
  by pat_completeness auto
termination
proof (relation "measure (\<lambda>(body, it, s). length (remaining it))", goal_cases)
  case (2 body it s c k v l r s' it')
  then show ?case
    using remaining_next by (cases "remaining it") fastforce+
qed simp

declare for_tree.simps [simp del]

text \<open>
  The registries look a key up with \<^verbatim>\<open>find_if\<close> from the first to the end iterator, compare the
  result with the end iterator and read the value under it.
\<close>

definition at_end :: "('k, 'v) node_it \<Rightarrow> bool" where
  "at_end it = (case snd it of Dummy \<Rightarrow> True | Node c k v l r \<Rightarrow> False)"

definition lookup_if :: "('k, 'v) assoc_rb_tree_t \<Rightarrow> ('k \<Rightarrow> bool res) \<Rightarrow> 'v option res" where
  "lookup_if tree f =
     bnd (find_if_rb_tree f (assoc_rb_tree_front tree)) (\<lambda>it.
     if at_end it then Inr None else bnd (assoc_rb_tree_value it) (\<lambda>v. Inr (Some v)))"

end
