(* ===== verification/Assoc_RB_Correct.thy ===== *)
theory Assoc_RB_Correct
  imports Assoc_RB_Tree "HOL-Library.Log_Nat"
begin

text \<open>
  Correctness of the red-black tree: the invariant of the file comment of
  \<^verbatim>\<open>assoc_rb_tree.c\<close>, that insertion and extraction keep it without a fault, what
  they do to the entries, search, iteration and the bound on the height.
\<close>

section \<open>The red-black properties\<close>

fun black_height :: "('k, 'v) assoc_node_t \<Rightarrow> nat" where
  "black_height Dummy = 0"
| "black_height (Node c k v l r) = (if c = ASSOC_BLACK then 1 else 0) + black_height l"

text \<open>Property 4: the children of a red node are black.  Property 5: equal black heights.\<close>

fun red_ok :: "('k, 'v) assoc_node_t \<Rightarrow> bool" where
  "red_ok Dummy \<longleftrightarrow> True"
| "red_ok (Node c k v l r) \<longleftrightarrow>
     (c = ASSOC_RED \<longrightarrow> color l = ASSOC_BLACK \<and> color r = ASSOC_BLACK) \<and> red_ok l \<and> red_ok r"

fun height_ok :: "('k, 'v) assoc_node_t \<Rightarrow> bool" where
  "height_ok Dummy \<longleftrightarrow> True"
| "height_ok (Node c k v l r) \<longleftrightarrow>
     black_height l = black_height r \<and> height_ok l \<and> height_ok r"

definition rb_ok :: "('k, 'v) assoc_node_t \<Rightarrow> bool" where
  "rb_ok t \<longleftrightarrow> red_ok t \<and> height_ok t \<and> color t = ASSOC_BLACK"

text \<open>A subtree with the properties and a given black height.\<close>

definition sub_ok :: "nat \<Rightarrow> ('k, 'v) assoc_node_t \<Rightarrow> bool" where
  "sub_ok n t \<longleftrightarrow> red_ok t \<and> height_ok t \<and> black_height t = n"

text \<open>
  \<open>fits c n ps\<close>: a subtree with root colour \<open>c\<close> and black height \<open>n\<close> at the position
  \<open>ps\<close> completes a red-black tree.
\<close>

fun fits :: "assoc_color_e \<Rightarrow> nat \<Rightarrow> ('k, 'v) crumb list \<Rightarrow> bool" where
  "fits cf n [] \<longleftrightarrow> cf = ASSOC_BLACK"
| "fits cf n (LeftOf c k v r # ps) \<longleftrightarrow>
     sub_ok n r \<and> (c = ASSOC_RED \<longrightarrow> cf = ASSOC_BLACK \<and> color r = ASSOC_BLACK) \<and>
     fits c ((if c = ASSOC_BLACK then 1 else 0) + n) ps"
| "fits cf n (RightOf c k v l # ps) \<longleftrightarrow>
     sub_ok n l \<and> (c = ASSOC_RED \<longrightarrow> cf = ASSOC_BLACK \<and> color l = ASSOC_BLACK) \<and>
     fits c ((if c = ASSOC_BLACK then 1 else 0) + n) ps"

lemma sub_ok_simps [simp]:
  "sub_ok n Dummy \<longleftrightarrow> n = 0"
  "sub_ok n (Node ASSOC_BLACK k v l r) \<longleftrightarrow> (\<exists>m. n = Suc m \<and> sub_ok m l \<and> sub_ok m r)"
  "sub_ok n (Node ASSOC_RED k v l r) \<longleftrightarrow>
     color l = ASSOC_BLACK \<and> color r = ASSOC_BLACK \<and> sub_ok n l \<and> sub_ok n r"
  by (auto simp: sub_ok_def)

lemma color_neq [simp]: "c \<noteq> ASSOC_BLACK \<longleftrightarrow> c = ASSOC_RED" "c \<noteq> ASSOC_RED \<longleftrightarrow> c = ASSOC_BLACK"
  by (cases c; simp)+

lemma color_paint [simp]: "color (paint ASSOC_BLACK t) = ASSOC_BLACK"
  by (cases t) auto

lemma color_redE:
  assumes "color t = ASSOC_RED"
  obtains k v l r where "t = Node ASSOC_RED k v l r"
  using assms by (cases t) auto

lemma sub_ok_paint_red:
  "color t = ASSOC_RED \<Longrightarrow> sub_ok n t \<Longrightarrow> sub_ok (Suc n) (paint ASSOC_BLACK t)"
  by (auto elim!: color_redE)

lemma paint_black_id: "color t = ASSOC_BLACK \<Longrightarrow> paint ASSOC_BLACK t = t"
  by (cases t) auto

lemma sub_ok_paint: "sub_ok n t \<Longrightarrow> \<exists>m. sub_ok m (paint ASSOC_BLACK t)"
  by (cases "color t") (auto simp: paint_black_id dest: sub_ok_paint_red)

lemma rb_ok_sub: "rb_ok t \<longleftrightarrow> (\<exists>n. sub_ok n t) \<and> color t = ASSOC_BLACK"
  by (auto simp: rb_ok_def sub_ok_def)

lemma sub_ok_climb1:
  "fits (color t) n (p # ps) \<Longrightarrow> sub_ok n t \<Longrightarrow>
     \<exists>m. sub_ok m (climb [p] t) \<and> color (climb [p] t) = crumb_color p \<and> fits (crumb_color p) m ps"
  by (cases p; cases "crumb_color p") auto

lemma fits_climb: "fits (color t) n ps \<Longrightarrow> sub_ok n t \<Longrightarrow> rb_ok (climb ps t)"
proof (induction ps arbitrary: n t)
  case Nil
  then show ?case by (auto simp: rb_ok_sub)
next
  case (Cons p ps)
  then show ?case
    using sub_ok_climb1 [OF Cons.prems] climb_append [of "[p]" ps t] by (metis append_Cons append_Nil)
qed

lemma fits_black: "fits c n ps \<Longrightarrow> fits ASSOC_BLACK n ps"
  by (cases ps rule: before.cases) auto

section \<open>Insertion keeps the properties\<close>

lemma fits_black_parent:
  "crumb_color p = ASSOC_BLACK \<Longrightarrow> fits c n (p # ps) \<longleftrightarrow> fits ASSOC_BLACK n (p # ps)"
  by (cases p) auto

lemma insert_fixup_black_parent:
  assumes "fits ASSOC_BLACK n (p # ps)" "sub_ok n z" "crumb_color p = ASSOC_BLACK"
  shows "insert_fixup (p # ps) z = Inr (climb (p # ps) z) \<and> rb_ok (climb (p # ps) z)"
proof -
  have "rb_ok (climb (p # ps) z)"
    using assms fits_climb fits_black_parent by blast
  then show ?thesis
    using assms(3) by (simp add: rb_ok_def paint_black_id)
qed

text \<open>A red parent has a black grandparent, since the root is black.\<close>

lemma red_parentE:
  assumes "fits c n (p # ps)" "crumb_color p = ASSOC_RED"
  obtains g gs where "ps = g # gs" "crumb_color g = ASSOC_BLACK"
  using assms by (cases p; cases ps rule: before.cases) auto

text \<open>
  One iteration of the loop moves the red node up, at a position that still fits, and keeps
  the entries.
\<close>

definition fixup_inv :: "('k \<times> 'v) list \<Rightarrow> nat \<Rightarrow> ('k, 'v) crumb list \<Rightarrow> ('k, 'v) assoc_node_t \<Rightarrow> bool" where
  "fixup_inv xs n ps z \<longleftrightarrow>
     fits ASSOC_BLACK n ps \<and> sub_ok n z \<and> color z = ASSOC_RED \<and>
     before ps @ inorder z @ after ps = xs"

lemma insert_fixup_uncle_red:
  assumes "fixup_inv xs n (p # g # gs) z" "crumb_color p = ASSOC_RED"
    "g = LeftOf c k v u \<or> g = RightOf c k v u" "color u = ASSOC_RED"
  shows "\<exists>z'. insert_fixup (p # g # gs) z = insert_fixup gs z' \<and> (\<exists>m. fixup_inv xs m gs z')"
proof (cases "g = LeftOf c k v u")
  case True
  have "\<exists>m. fixup_inv xs m gs
      (Node ASSOC_RED k v (paint ASSOC_BLACK (climb [p] z)) (paint ASSOC_BLACK u))"
    using assms True by (cases p; cases c) (auto simp: fixup_inv_def elim!: color_redE dest: fits_black)
  then show ?thesis
    using assms True by auto
next
  case False
  have "\<exists>m. fixup_inv xs m gs
      (Node ASSOC_RED k v (paint ASSOC_BLACK u) (paint ASSOC_BLACK (climb [p] z)))"
    using assms False by (cases p; cases c) (auto simp: fixup_inv_def elim!: color_redE dest: fits_black)
  then show ?thesis
    using assms False by auto
qed

text \<open>With a black uncle the loop ends after one or two rotations, with a black node on top.\<close>

definition fixup_done :: "('k \<times> 'v) list \<Rightarrow> ('k, 'v) assoc_node_t res \<Rightarrow> bool" where
  "fixup_done xs res \<longleftrightarrow> (\<exists>t. res = Inr t \<and> rb_ok t \<and> inorder t = xs)"

lemma fixup_doneI:
  assumes "res = Inr (paint ASSOC_BLACK (climb ps t))" "fits ASSOC_BLACK n ps" "sub_ok n t"
    "color t = ASSOC_BLACK" "before ps @ inorder t @ after ps = xs"
  shows "fixup_done xs res"
proof -
  have "rb_ok (climb ps t)"
    using assms fits_climb by metis
  then show ?thesis
    using assms by (simp add: fixup_done_def rb_ok_def paint_black_id)
qed

lemma insert_fixup_left:
  assumes "fixup_inv xs n (p # LeftOf c k v u # gs) z" "crumb_color p = ASSOC_RED"
    "color u = ASSOC_BLACK"
  shows "fixup_done xs (insert_fixup (p # LeftOf c k v u # gs) z)"
proof -
  obtain zk zv zl zr where z: "z = Node ASSOC_RED zk zv zl zr"
    using assms(1) by (auto simp: fixup_inv_def elim: color_redE)
  show ?thesis
  proof (cases p)
    case (LeftOf pc pk pv s)
    show ?thesis
      by (rule fixup_doneI [where ps = gs and n = "Suc n"
            and t = "Node ASSOC_BLACK pk pv z (Node ASSOC_RED k v s u)"])
        (use assms LeftOf z in \<open>cases c; auto simp: fixup_inv_def\<close>)+
  next
    case (RightOf pc pk pv s)
    show ?thesis
      by (rule fixup_doneI [where ps = gs and n = "Suc n"
            and t = "Node ASSOC_BLACK zk zv (Node ASSOC_RED pk pv s zl) (Node ASSOC_RED k v zr u)"])
        (use assms RightOf z in \<open>cases c; auto simp: fixup_inv_def\<close>)+
  qed
qed

lemma insert_fixup_right:
  assumes "fixup_inv xs n (p # RightOf c k v u # gs) z" "crumb_color p = ASSOC_RED"
    "color u = ASSOC_BLACK"
  shows "fixup_done xs (insert_fixup (p # RightOf c k v u # gs) z)"
proof -
  obtain zk zv zl zr where z: "z = Node ASSOC_RED zk zv zl zr"
    using assms(1) by (auto simp: fixup_inv_def elim: color_redE)
  show ?thesis
  proof (cases p)
    case (RightOf pc pk pv s)
    show ?thesis
      by (rule fixup_doneI [where ps = gs and n = "Suc n"
            and t = "Node ASSOC_BLACK pk pv (Node ASSOC_RED k v u s) z"])
        (use assms RightOf z in \<open>cases c; auto simp: fixup_inv_def\<close>)+
  next
    case (LeftOf pc pk pv s)
    show ?thesis
      by (rule fixup_doneI [where ps = gs and n = "Suc n"
            and t = "Node ASSOC_BLACK zk zv (Node ASSOC_RED k v u zl) (Node ASSOC_RED pk pv zr s)"])
        (use assms LeftOf z in \<open>cases c; auto simp: fixup_inv_def\<close>)+
  qed
qed

lemma insert_fixup_ok: "fixup_inv xs n ps z \<Longrightarrow> fixup_done xs (insert_fixup ps z)"
proof (induction "length ps" arbitrary: n ps z rule: less_induct)
  case less
  show ?case
  proof (cases ps)
    case Nil
    then show ?thesis
      using less.prems by (auto simp: fixup_inv_def fixup_done_def rb_ok_sub dest: sub_ok_paint)
  next
    case (Cons p qs)
    show ?thesis
    proof (cases "crumb_color p")
      case ASSOC_BLACK
      then show ?thesis
        using insert_fixup_black_parent [of n p qs z] less.prems Cons
        by (auto simp: fixup_inv_def fixup_done_def simp del: insert_fixup.simps climb.simps)
    next
      case ASSOC_RED
      then obtain g gs where qs: "qs = g # gs"
        using less.prems(1) Cons red_parentE unfolding fixup_inv_def by blast
      obtain c k v u where g: "g = LeftOf c k v u \<or> g = RightOf c k v u"
        by (cases g) auto
      show ?thesis
      proof (cases "color u")
        case ASSOC_BLACK
        then show ?thesis
          using g insert_fixup_left insert_fixup_right less.prems Cons qs \<open>crumb_color p = ASSOC_RED\<close>
          by metis
      next
        case ASSOC_RED
        then show ?thesis
          using insert_fixup_uncle_red [OF _ \<open>crumb_color p = ASSOC_RED\<close> g ASSOC_RED] less Cons qs
          by (metis length_Cons less_Suc_eq)
      qed
    qed
  qed
qed

section \<open>Deletion keeps the properties\<close>

text \<open>
  The loop invariant: \<^verbatim>\<open>x_node\<close> misses one black node, or is red and completes the tree once
  it is painted black.
\<close>

definition del_inv :: "('k \<times> 'v) list \<Rightarrow> nat \<Rightarrow> ('k, 'v) crumb list \<Rightarrow> ('k, 'v) assoc_node_t \<Rightarrow> bool" where
  "del_inv xs n ps x \<longleftrightarrow>
     fits ASSOC_BLACK (Suc n) ps \<and>
     (if color x = ASSOC_BLACK then sub_ok n x else sub_ok (Suc n) (paint ASSOC_BLACK x)) \<and>
     before ps @ inorder x @ after ps = xs"

definition del_next :: "('k \<times> 'v) list \<Rightarrow> ('k, 'v) node_it res \<Rightarrow> bool" where
  "del_next xs res \<longleftrightarrow> (\<exists>qs y m. res = Inr (qs, y) \<and> del_inv xs m qs y)"

lemma del_next_root:
  assumes "res = Inr ([], climb ps t)" "fits (color t) n ps" "sub_ok n t"
    "before ps @ inorder t @ after ps = xs"
  shows "del_next xs res"
  using fits_climb [OF assms(2,3)] assms(1,4)
  by (auto simp: del_next_def del_inv_def rb_ok_sub)

lemma del_next_up:
  assumes "res = Inr (qs, y)" "del_inv xs m qs y"
  shows "del_next xs res"
  using assms by (auto simp: del_next_def)

lemma delete_case_left_ok:
  assumes "fits ASSOC_BLACK (Suc n) (LeftOf c k v w # ps)" "sub_ok n x" "color x = ASSOC_BLACK"
    "color w = ASSOC_BLACK" "before ps @ inorder (Node c k v x w) @ after ps = xs"
  shows "del_next xs (delete_case_left x c k v w ps)"
proof -
  obtain wk wv wl wr where w: "w = Node ASSOC_BLACK wk wv wl wr" "sub_ok n wl" "sub_ok n wr"
    using assms(1,4) by (cases w) auto
  consider (two) "color wl = ASSOC_BLACK" "color wr = ASSOC_BLACK"
    | (three) "color wl = ASSOC_RED" "color wr = ASSOC_BLACK"
    | (four) "color wr = ASSOC_RED"
    by (cases "color wl"; cases "color wr") auto
  then show ?thesis
  proof cases
    case two
    show ?thesis
      by (rule del_next_up [where qs = ps and m = "if c = ASSOC_BLACK then Suc n else n"
            and y = "Node c k v x (Node ASSOC_RED wk wv wl wr)"])
        (use assms two w in \<open>cases c; auto simp: del_inv_def dest: fits_black\<close>)+
  next
    case three
    then obtain lk lv ll lr where "wl = Node ASSOC_RED lk lv ll lr"
      by (auto elim: color_redE)
    then show ?thesis
      by (intro del_next_root [where ps = ps and n = "if c = ASSOC_BLACK then Suc (Suc n) else Suc n"
            and t = "Node c lk lv (Node ASSOC_BLACK k v x ll) (Node ASSOC_BLACK wk wv lr wr)"])
        (use assms three w in \<open>cases c; auto\<close>)+
  next
    case four
    then obtain rk rv rl rr where "wr = Node ASSOC_RED rk rv rl rr"
      by (auto elim: color_redE)
    then show ?thesis
      by (intro del_next_root [where ps = ps and n = "if c = ASSOC_BLACK then Suc (Suc n) else Suc n"
            and t = "Node c wk wv (Node ASSOC_BLACK k v x wl) (Node ASSOC_BLACK rk rv rl rr)"])
        (use assms four w in \<open>cases c; auto\<close>)+
  qed
qed

lemma delete_case_right_ok:
  assumes "fits ASSOC_BLACK (Suc n) (RightOf c k v w # ps)" "sub_ok n x" "color x = ASSOC_BLACK"
    "color w = ASSOC_BLACK" "before ps @ inorder (Node c k v w x) @ after ps = xs"
  shows "del_next xs (delete_case_right x c k v w ps)"
proof -
  obtain wk wv wl wr where w: "w = Node ASSOC_BLACK wk wv wl wr" "sub_ok n wl" "sub_ok n wr"
    using assms(1,4) by (cases w) auto
  consider (two) "color wl = ASSOC_BLACK" "color wr = ASSOC_BLACK"
    | (three) "color wr = ASSOC_RED" "color wl = ASSOC_BLACK"
    | (four) "color wl = ASSOC_RED"
    by (cases "color wl"; cases "color wr") auto
  then show ?thesis
  proof cases
    case two
    show ?thesis
      by (rule del_next_up [where qs = ps and m = "if c = ASSOC_BLACK then Suc n else n"
            and y = "Node c k v (Node ASSOC_RED wk wv wl wr) x"])
        (use assms two w in \<open>cases c; auto simp: del_inv_def dest: fits_black\<close>)+
  next
    case three
    then obtain rk rv rl rr where "wr = Node ASSOC_RED rk rv rl rr"
      by (auto elim: color_redE)
    then show ?thesis
      by (intro del_next_root [where ps = ps and n = "if c = ASSOC_BLACK then Suc (Suc n) else Suc n"
            and t = "Node c rk rv (Node ASSOC_BLACK wk wv wl rl) (Node ASSOC_BLACK k v rr x)"])
        (use assms three w in \<open>cases c; auto\<close>)+
  next
    case four
    then obtain lk lv ll lr where "wl = Node ASSOC_RED lk lv ll lr"
      by (auto elim: color_redE)
    then show ?thesis
      by (intro del_next_root [where ps = ps and n = "if c = ASSOC_BLACK then Suc (Suc n) else Suc n"
            and t = "Node c wk wv (Node ASSOC_BLACK lk lv ll lr) (Node ASSOC_BLACK k v wr x)"])
        (use assms four w in \<open>cases c; auto\<close>)+
  qed
qed

lemma delete_step_ok:
  assumes "del_inv xs n (p # ps) x" "color x = ASSOC_BLACK"
  shows "del_next xs (delete_step p ps x)"
proof (cases p)
  case (LeftOf c k v w)
  show ?thesis
  proof (cases "color w")
    case ASSOC_BLACK
    then show ?thesis
      using assms LeftOf delete_case_left_ok [of n c k v w ps x xs] by (simp add: del_inv_def)
  next
    case ASSOC_RED
    then obtain wk wv wl wr where w: "w = Node ASSOC_RED wk wv wl wr"
      by (rule color_redE)
    have "del_next xs (delete_case_left x ASSOC_RED k v wl (LeftOf ASSOC_BLACK wk wv wr # ps))"
      by (rule delete_case_left_ok [where n = n])
        (use assms LeftOf w in \<open>cases c; auto simp: del_inv_def\<close>)+
    then show ?thesis
      using LeftOf w by simp
  qed
next
  case (RightOf c k v w)
  show ?thesis
  proof (cases "color w")
    case ASSOC_BLACK
    then show ?thesis
      using assms RightOf delete_case_right_ok [of n c k v w ps x xs] by (simp add: del_inv_def)
  next
    case ASSOC_RED
    then obtain wk wv wl wr where w: "w = Node ASSOC_RED wk wv wl wr"
      by (rule color_redE)
    have "del_next xs (delete_case_right x ASSOC_RED k v wr (RightOf ASSOC_BLACK wk wv wl # ps))"
      by (rule delete_case_right_ok [where n = n])
        (use assms RightOf w in \<open>cases c; auto simp: del_inv_def\<close>)+
    then show ?thesis
      using RightOf w by simp
  qed
qed

lemma delete_fixup_ok: "del_inv xs n ps x \<Longrightarrow> fixup_done xs (delete_fixup ps x)"
proof (induction "fixup_measure ps x" arbitrary: n ps x rule: less_induct)
  case less
  show ?case
  proof (cases "ps = [] \<or> color x = ASSOC_RED")
    case True
    then have "delete_fixup ps x = Inr (climb ps (paint ASSOC_BLACK x))"
      by (cases ps) auto
    moreover have "\<exists>m. sub_ok m (paint ASSOC_BLACK x) \<and> fits ASSOC_BLACK m ps"
      using True less.prems by (auto simp: del_inv_def paint_black_id split: if_splits)
    then have "rb_ok (climb ps (paint ASSOC_BLACK x))"
      by (metis color_paint fits_climb)
    ultimately show ?thesis
      using less.prems by (auto simp: fixup_done_def del_inv_def)
  next
    case False
    then obtain p qs where ps: "ps = p # qs"
      by (cases ps) auto
    with False obtain rs y m where "delete_step p qs x = Inr (rs, y)" "del_inv xs m rs y"
      using delete_step_ok [of xs n p qs x] less.prems by (auto simp: del_next_def)
    then show ?thesis
      using ps False less.hyps [of rs y m] delete_step_measure [of p qs x rs y] by auto
  qed
qed

section \<open>Extraction of a node\<close>

lemma climb1_fits:
  "sub_ok m (climb [p] t) \<Longrightarrow> fits (crumb_color p) m ps \<Longrightarrow> \<exists>n. fits (color t) n (p # ps) \<and> sub_ok n t"
  by (cases p; cases "crumb_color p") auto

lemma rb_ok_climb: "rb_ok (climb ps t) \<longleftrightarrow> (\<exists>n. fits (color t) n ps \<and> sub_ok n t)"
proof
  show "rb_ok (climb ps t) \<Longrightarrow> \<exists>n. fits (color t) n ps \<and> sub_ok n t"
  proof (induction ps arbitrary: t)
    case Nil
    then show ?case by (auto simp: rb_ok_sub)
  next
    case (Cons p ps)
    then have "rb_ok (climb ps (climb [p] t))"
      using climb_append [of "[p]" ps t] by simp
    from Cons.IH [OF this] obtain n where
      "fits (color (climb [p] t)) n ps" "sub_ok n (climb [p] t)"
      by blast
    moreover have "color (climb [p] t) = crumb_color p"
      by (cases p) auto
    ultimately show ?case
      using climb1_fits by metis
  qed
qed (use fits_climb in blast)

lemma sub_ok_del_inv:
  "sub_ok n x \<Longrightarrow> fits ASSOC_BLACK (Suc n) ps \<Longrightarrow> before ps @ inorder x @ after ps = xs \<Longrightarrow> del_inv xs n ps x"
  by (auto simp: del_inv_def sub_ok_paint_red)

text \<open>
  A node with no left child leaves its right subtree; when the removed colour is black the
  position is one black node short.
\<close>

lemma delete_rebalance_ok:
  assumes "rb_ok (climb ps (Node c k v l x))" "l = Dummy"
    and "before ps @ inorder x @ after ps = xs"
  shows "fixup_done xs (delete_rebalance c ps x)"
proof -
  obtain n where n: "fits c n ps" "sub_ok n (Node c k v l x)"
    using assms(1) unfolding rb_ok_climb by auto
  show ?thesis
  proof (cases c)
    case ASSOC_BLACK
    then show ?thesis
      using n assms(2,3) by (auto simp: delete_rebalance_def intro!: delete_fixup_ok sub_ok_del_inv)
  next
    case ASSOC_RED
    then have "rb_ok (climb ps x)"
      using n by (auto intro!: fits_climb dest: fits_black)
    then show ?thesis
      using ASSOC_RED assms(3) by (auto simp: delete_rebalance_def fixup_done_def)
  qed
qed

lemma delete_rebalance_right_ok:
  assumes "rb_ok (climb ps (Node c k v x Dummy))" "before ps @ inorder x @ after ps = xs"
  shows "fixup_done xs (delete_rebalance c ps x)"
proof -
  obtain n where n: "fits c n ps" "sub_ok n (Node c k v x Dummy)"
    using assms(1) unfolding rb_ok_climb by auto
  then have "rb_ok (climb ps (Node c k v Dummy x))"
    by (intro fits_climb [where n = n]) (cases c; auto)+
  then show ?thesis
    by (rule delete_rebalance_ok) (use assms(2) in simp_all)
qed

text \<open>The leftmost node of a subtree, and the tree with its key replaced.\<close>

lemma minimum_leftmost:
  "t \<noteq> Dummy \<Longrightarrow> \<exists>qs c k v r. minimum ps t = (qs @ ps, Node c k v Dummy r) \<and>
     climb qs (Node c k v Dummy r) = t \<and> before qs = []"
proof (induction ps t rule: minimum.induct)
  case (3 ps c k v lc lk lv ll lr r)
  then obtain qs c' k' v' r' where
    "minimum (LeftOf c k v r # ps) (Node lc lk lv ll lr) = (qs @ LeftOf c k v r # ps, Node c' k' v' Dummy r')"
    "climb qs (Node c' k' v' Dummy r') = Node lc lk lv ll lr" "before qs = []"
    by auto
  then show ?case
    by (intro exI [of _ "qs @ [LeftOf c k v r]"] exI [of _ c'] exI [of _ k'] exI [of _ v'] exI [of _ r'])
      (auto simp: climb_append)
qed auto

lemma rb_ok_rekey: "rb_ok (climb (ps @ RightOf c k v l # qs) t) \<longleftrightarrow> rb_ok (climb (ps @ RightOf c k' v' l # qs) t)"
proof -
  have "fits cf n (ps @ RightOf c k v l # qs) \<longleftrightarrow> fits cf n (ps @ RightOf c k' v' l # qs)" for cf n
    by (induction ps arbitrary: cf n rule: before.induct) auto
  then show ?thesis
    by (simp add: rb_ok_climb)
qed

lemma extract_node_ok:
  assumes "rb_ok (climb ps (Node c k v l r))"
  shows "fixup_done (before ps @ inorder l @ inorder r @ after ps)
           (assoc_rb_tree_extract_node (ps, Node c k v l r))"
proof (cases "l = Dummy \<or> r = Dummy")
  case True
  then show ?thesis
    using assms delete_rebalance_ok [of ps c k v l r] delete_rebalance_right_ok [of ps c k v l]
    by (auto simp: transplant_def split: assoc_node_t.splits)
next
  case False
  then obtain qs yc yk yv x where y: "minimum [] r = (qs, Node yc yk yv Dummy x)"
    "climb qs (Node yc yk yv Dummy x) = r" "before qs = []"
    using minimum_leftmost [of r "[]"] by auto
  let ?ps = "qs @ RightOf c yk yv l # ps"
  have "rb_ok (climb (qs @ RightOf c k v l # ps) (Node yc yk yv Dummy x))"
    using assms y(2) by (simp add: climb_append)
  then have "rb_ok (climb ?ps (Node yc yk yv Dummy x))"
    using rb_ok_rekey [of qs c k v l ps _ yk yv] by blast
  moreover have "before ?ps @ inorder x @ after ?ps = before ps @ inorder l @ inorder r @ after ps"
    unfolding y(2) [symmetric] using y(3) by simp
  ultimately have "fixup_done (before ps @ inorder l @ inorder r @ after ps) (delete_rebalance yc ?ps x)"
    by (intro delete_rebalance_ok) auto
  then show ?thesis
    using False y(1) by (auto simp: transplant_def split: assoc_node_t.splits)
qed

section \<open>The map operations\<close>

text \<open>The entries of a map in iteration order, and the invariant with respect to a rank.\<close>

abbreviation rb_entries :: "('k, 'v) assoc_rb_tree_t \<Rightarrow> ('k \<times> 'v) list" where
  "rb_entries tree \<equiv> inorder (rb_root tree)"

definition rb_inv ::
  "('k \<Rightarrow> 'k \<Rightarrow> int res) \<Rightarrow> ('k \<Rightarrow> bool) \<Rightarrow> ('k \<Rightarrow> 'r::linorder) \<Rightarrow> ('k, 'v) assoc_rb_tree_t \<Rightarrow> bool" where
  "rb_inv cmp valid rank tree \<longleftrightarrow>
     rb_ok (rb_root tree) \<and> rb_comp tree = cmp \<and> rb_size tree = length (rb_entries tree) \<and>
     sorted (map (\<lambda>e. rank (fst e)) (rb_entries tree)) \<and> (\<forall>e \<in> set (rb_entries tree). valid (fst e))"

text \<open>The place of a new entry: after every entry that does not compare greater.\<close>

definition put_after :: "('k \<Rightarrow> 'r::linorder) \<Rightarrow> 'k \<Rightarrow> 'v \<Rightarrow> ('k \<times> 'v) list \<Rightarrow> ('k \<times> 'v) list" where
  "put_after rank key value es =
     takeWhile (\<lambda>e. rank (fst e) \<le> rank key) es @ (key, value) #
     dropWhile (\<lambda>e. rank (fst e) \<le> rank key) es"

lemma set_put_after: "set (put_after rank k v es) = insert (k, v) (set es)"
  unfolding put_after_def set_append list.set
  by (metis Un_insert_right set_append takeWhile_dropWhile_id)

lemma length_put_after [simp]: "length (put_after rank k v es) = Suc (length es)"
proof -
  have "length (takeWhile P es) + length (dropWhile P es) = length es" for P :: "'a \<times> 'b \<Rightarrow> bool"
    by (metis length_append takeWhile_dropWhile_id)
  then show ?thesis by (simp add: put_after_def)
qed

lemma sorted_put_after:
  fixes rank :: "'k \<Rightarrow> 'r::linorder"
  assumes "sorted (map (\<lambda>e. rank (fst e)) es)"
  shows "sorted (map (\<lambda>e. rank (fst e)) (put_after rank k v es))"
proof -
  let ?P = "\<lambda>e. rank (fst e) \<le> rank k"
  have le: "\<forall>e \<in> set (takeWhile ?P es). rank (fst e) \<le> rank k"
    by (auto dest: set_takeWhileD)
  have s: "sorted (map (\<lambda>e. rank (fst e)) (takeWhile ?P es))" "sorted (map (\<lambda>e. rank (fst e)) (dropWhile ?P es))"
    using assms sorted_append map_append takeWhile_dropWhile_id by metis+
  have ge: "\<forall>e \<in> set (dropWhile ?P es). rank k \<le> rank (fst e)"
  proof (cases "dropWhile ?P es")
    case (Cons x xs)
    then have "\<not> ?P x" by (metis dropWhile_eq_Cons_conv)
    then show ?thesis
      using s(2) Cons by auto
  next
    case Nil
    then show ?thesis unfolding Nil by simp
  qed
  show ?thesis
    using le s ge by (auto simp: put_after_def sorted_append intro: order_trans)
qed

lemma mset_split_sorted:
  "sorted (map f (xs @ ys)) \<Longrightarrow> y \<in> set ys \<Longrightarrow> x \<in> set xs \<Longrightarrow> f x \<le> f y"
  by (simp add: sorted_append)

context ranked_cmp
begin

lemma insert_descend_ok:
  assumes "sorted (map (\<lambda>e. rank (fst e)) (inorder t))" "\<forall>e \<in> set (inorder t). valid (fst e)" "valid key"
  shows "\<exists>qs. insert_descend comp key ps t = Inr qs \<and> climb qs Dummy = climb ps t \<and>
     before qs = before ps @ takeWhile (\<lambda>e. rank (fst e) \<le> rank key) (inorder t) \<and>
     after qs = dropWhile (\<lambda>e. rank (fst e) \<le> rank key) (inorder t) @ after ps"
  using assms
proof (induction t arbitrary: ps)
  case (Node c k v l r)
  have cmp: "comp key k = Inr (cmp_of (rank key) (rank k))"
    using Node.prems by (simp add: comp_rank)
  have s: "sorted (map (\<lambda>e. rank (fst e)) (inorder l))" "sorted (map (\<lambda>e. rank (fst e)) (inorder r))"
    and le: "\<forall>e \<in> set (inorder l). rank (fst e) \<le> rank k"
    using Node.prems(1) by (auto simp: sorted_append)
  show ?case
  proof (cases "rank key < rank k")
    case True
    then show ?thesis
      using Node.IH(1) [of "LeftOf c k v r # ps"] s Node.prems cmp
      by (auto simp: takeWhile_append dropWhile_append)
  next
    case False
    then have "\<forall>e \<in> set (inorder l). rank (fst e) \<le> rank key"
      using le by (meson leI order_trans)
    then show ?thesis
      using False Node.IH(2) [of "RightOf c k v l # ps"] s Node.prems cmp
      by (auto simp: takeWhile_append dropWhile_append)
  qed
qed auto

lemma rb_insert_ok:
  assumes "rb_inv comp valid rank tree" "valid key" "key_sz = rb_key_sz tree"
  shows "\<exists>tree'. assoc_rb_tree_insert tree key key_sz value = Inr tree' \<and>
     rb_inv comp valid rank tree' \<and> rb_entries tree' = put_after rank key value (rb_entries tree) \<and>
     rb_key_sz tree' = rb_key_sz tree \<and> rb_free tree' = rb_free tree"
proof -
  let ?es = "rb_entries tree"
  obtain qs where qs: "insert_descend comp key [] (rb_root tree) = Inr qs"
    "climb qs Dummy = rb_root tree"
    "before qs = takeWhile (\<lambda>e. rank (fst e) \<le> rank key) ?es"
    "after qs = dropWhile (\<lambda>e. rank (fst e) \<le> rank key) ?es"
    using insert_descend_ok [of "rb_root tree" key "[]"] assms by (auto simp: rb_inv_def)
  obtain n where "fits ASSOC_BLACK n qs" "sub_ok n (Dummy :: ('a, 'c) assoc_node_t)"
    using assms(1) qs(2) rb_ok_climb [of qs Dummy] by (auto simp: rb_inv_def)
  then have "fixup_inv (put_after rank key value ?es) n qs (create_node_rb_tree key value)"
    using qs by (simp add: fixup_inv_def create_node_rb_tree_def put_after_def)
  then obtain root where "insert_fixup qs (create_node_rb_tree key value) = Inr root"
    "rb_ok root" "inorder root = put_after rank key value ?es"
    using insert_fixup_ok unfolding fixup_done_def by blast
  then show ?thesis
    using assms qs(1)
    by (auto simp: assoc_rb_tree_insert_def rb_inv_def sorted_put_after set_put_after)
qed

lemma find_rb_tree_ok:
  assumes "sorted (map (\<lambda>e. rank (fst e)) (inorder t))" "\<forall>e \<in> set (inorder t). valid (fst e)" "valid key"
  shows "(find_rb_tree comp key ps t = Inr ([], Dummy) \<and> (\<forall>e \<in> set (inorder t). rank (fst e) \<noteq> rank key))
     \<or> (\<exists>qs c k v l r. find_rb_tree comp key ps t = Inr (qs, Node c k v l r) \<and> rank k = rank key \<and>
         climb qs (Node c k v l r) = climb ps t)"
  using assms
proof (induction t arbitrary: ps)
  case (Node c k v l r)
  have cmp: "comp key k = Inr (cmp_of (rank key) (rank k))"
    using Node.prems by (simp add: comp_rank)
  have s: "sorted (map (\<lambda>e. rank (fst e)) (inorder l))" "sorted (map (\<lambda>e. rank (fst e)) (inorder r))"
    and le: "\<forall>e \<in> set (inorder l). rank (fst e) \<le> rank k" "\<forall>e \<in> set (inorder r). rank k \<le> rank (fst e)"
    using Node.prems(1) by (auto simp: sorted_append)
  consider "rank key < rank k" | "rank key = rank k" | "rank k < rank key"
    by (rule linorder_cases)
  then show ?case
  proof cases
    case 1
    then have "\<forall>e \<in> set (inorder r). rank (fst e) \<noteq> rank key"
      using le(2) by fastforce
    then show ?thesis
      using 1 Node.IH(1) [of "LeftOf c k v r # ps"] s Node.prems cmp by (auto simp: cmp_of_def)
  next
    case 2
    then show ?thesis using cmp by simp
  next
    case 3
    then have "\<forall>e \<in> set (inorder l). rank (fst e) \<noteq> rank key"
      using le(1) by fastforce
    then show ?thesis
      using 3 Node.IH(2) [of "RightOf c k v l # ps"] s Node.prems cmp by (auto simp: cmp_of_def)
  qed
qed auto

lemma rb_extract_ok:
  assumes "rb_inv comp valid rank tree" "valid key"
    and "\<exists>e \<in> set (rb_entries tree). rank (fst e) = rank key"
  shows "\<exists>tree' k v xs ys. assoc_rb_tree_extract tree key = Inr (tree', v) \<and>
     rb_inv comp valid rank tree' \<and> rank k = rank key \<and>
     rb_entries tree = xs @ (k, v) # ys \<and> rb_entries tree' = xs @ ys \<and>
     rb_key_sz tree' = rb_key_sz tree \<and> rb_free tree' = rb_free tree"
proof -
  obtain qs c k v l r where it: "find_rb_tree comp key [] (rb_root tree) = Inr (qs, Node c k v l r)"
    "rank k = rank key" "climb qs (Node c k v l r) = rb_root tree"
    using find_rb_tree_ok [of "rb_root tree" key "[]"] assms by (auto simp: rb_inv_def)
  have es: "rb_entries tree = (before qs @ inorder l) @ (k, v) # (inorder r @ after qs)"
    unfolding it(3) [symmetric] by simp
  obtain root where root: "assoc_rb_tree_extract_node (qs, Node c k v l r) = Inr root" "rb_ok root"
    "inorder root = (before qs @ inorder l) @ inorder r @ after qs"
    using extract_node_ok [of qs c k v l r] assms(1) it(3) by (auto simp: rb_inv_def fixup_done_def)
  let ?tree = "tree\<lparr>rb_root := root, rb_size := rb_size tree - 1\<rparr>"
  have inv: "rb_inv comp valid rank ?tree"
    using assms(1) root(2) unfolding rb_inv_def es by (auto simp: root(3) sorted_append)
  have "assoc_rb_tree_extract tree key = Inr (?tree, v)"
    using assms(1) it(1) root(1)
    by (auto simp: assoc_rb_tree_extract_def rb_inv_def es simp del: assoc_rb_tree_extract_node.simps)
  with inv it(2) es root(3) show ?thesis
    by (intro exI [of _ ?tree] exI [of _ k] exI [of _ v] exI [of _ "before qs @ inorder l"]
        exI [of _ "inorder r @ after qs"]) auto
qed

lemma rb_extract_missing:
  assumes "rb_inv comp valid rank tree" "valid key"
    and "\<forall>e \<in> set (rb_entries tree). rank (fst e) \<noteq> rank key"
  shows "assoc_rb_tree_extract tree key =
     Inl (Assertion ''Trying to extract a key not found in the tree'')"
proof -
  have "rank k \<noteq> rank key" if "climb qs (Node c k v l r) = rb_root tree" for qs c k v l r
  proof -
    have "(k, v) \<in> set (rb_entries tree)"
      unfolding that [symmetric] by simp
    then show ?thesis using assms(3) by force
  qed
  then have "find_rb_tree comp key [] (rb_root tree) = Inr ([], Dummy)"
    using find_rb_tree_ok [of "rb_root tree" key "[]"] assms unfolding rb_inv_def climb.simps by blast
  then show ?thesis
    using assms(1) by (auto simp: assoc_rb_tree_extract_def rb_inv_def)
qed

text \<open>Removal of the entry under an iterator, with its release callback.\<close>

lemma rb_free_it_ok:
  assumes "rb_inv comp valid rank tree" "climb ps (Node c k v l r) = rb_root tree"
    and "rb_free tree = Some f" "f k v = Inr ()"
  shows "\<exists>tree'. assoc_rb_tree_free_it tree (ps, Node c k v l r) = Inr tree' \<and>
     rb_inv comp valid rank tree' \<and> rb_key_sz tree' = rb_key_sz tree \<and> rb_free tree' = rb_free tree \<and>
     rb_entries tree' = (before ps @ inorder l) @ inorder r @ after ps"
proof -
  have es: "rb_entries tree = (before ps @ inorder l) @ (k, v) # (inorder r @ after ps)"
    unfolding assms(2) [symmetric] by simp
  obtain root where root: "assoc_rb_tree_extract_node (ps, Node c k v l r) = Inr root" "rb_ok root"
    "inorder root = (before ps @ inorder l) @ inorder r @ after ps"
    using extract_node_ok [of ps c k v l r] assms(1,2) by (auto simp: rb_inv_def fixup_done_def)
  let ?tree = "tree\<lparr>rb_root := root, rb_size := rb_size tree - 1\<rparr>"
  have "rb_inv comp valid rank ?tree"
    using assms(1) root(2) unfolding rb_inv_def es by (auto simp: root(3) sorted_append)
  moreover have "assoc_rb_tree_free_it tree (ps, Node c k v l r) = Inr ?tree"
    using assms root(1)
    by (auto simp: assoc_rb_tree_free_it_def rb_inv_def es simp del: assoc_rb_tree_extract_node.simps)
  ultimately show ?thesis
    using root(3) by auto
qed

end

section \<open>Maps with distinct keys\<close>

text \<open>The registries keep at most one entry for each rank; then a map is the set of its entries.\<close>

definition rb_uniq :: "('k \<Rightarrow> 'r) \<Rightarrow> ('k, 'v) assoc_rb_tree_t \<Rightarrow> bool" where
  "rb_uniq rank tree \<longleftrightarrow> distinct (map (\<lambda>e. rank (fst e)) (rb_entries tree))"

abbreviation rb_set :: "('k, 'v) assoc_rb_tree_t \<Rightarrow> ('k \<times> 'v) set" where
  "rb_set tree \<equiv> set (rb_entries tree)"

lemma mset_put_after: "mset (put_after rank k v es) = add_mset (k, v) (mset es)"
proof -
  have "mset (takeWhile P es) + mset (dropWhile P es) = mset es" for P
    by (metis mset_append takeWhile_dropWhile_id)
  then show ?thesis by (simp add: put_after_def)
qed

lemma distinct_put_after:
  "distinct (map f (put_after rank k v es)) \<longleftrightarrow> f (k, v) \<notin> f ` set es \<and> distinct (map f es)"
proof -
  have "mset (map f (put_after rank k v es)) = mset (map f ((k, v) # es))"
    by (simp add: mset_put_after)
  then have "distinct (map f (put_after rank k v es)) \<longleftrightarrow> distinct (map f ((k, v) # es))"
    by (rule mset_eq_imp_distinct_iff)
  then show ?thesis by simp
qed

lemma rb_uniq_inj:
  "rb_uniq rank tree \<Longrightarrow> e \<in> rb_set tree \<Longrightarrow> e' \<in> rb_set tree \<Longrightarrow> rank (fst e) = rank (fst e') \<Longrightarrow> e = e'"
  unfolding rb_uniq_def by (meson distinct_map inj_onD)

context ranked_cmp
begin

lemma rb_insert_uniq:
  assumes "rb_inv comp valid rank tree" "rb_uniq rank tree" "valid key" "key_sz = rb_key_sz tree"
    and "\<forall>e \<in> rb_set tree. rank (fst e) \<noteq> rank key"
  shows "\<exists>tree'. assoc_rb_tree_insert tree key key_sz value = Inr tree' \<and>
     rb_inv comp valid rank tree' \<and> rb_uniq rank tree' \<and>
     rb_set tree' = insert (key, value) (rb_set tree) \<and>
     rb_key_sz tree' = rb_key_sz tree \<and> rb_free tree' = rb_free tree"
proof -
  have "distinct (map (\<lambda>e. rank (fst e)) (put_after rank key value (rb_entries tree)))"
    using assms(2,5) by (auto simp: rb_uniq_def distinct_put_after)
  then show ?thesis
    using rb_insert_ok [OF assms(1,3,4), of "value"] by (auto simp: rb_uniq_def set_put_after)
qed

lemma rb_extract_uniq:
  assumes "rb_inv comp valid rank tree" "rb_uniq rank tree" "valid key"
    and "(k, v) \<in> rb_set tree" "rank k = rank key"
  shows "\<exists>tree'. assoc_rb_tree_extract tree key = Inr (tree', v) \<and>
     rb_inv comp valid rank tree' \<and> rb_uniq rank tree' \<and> rb_set tree' = rb_set tree - {(k, v)} \<and>
     rb_size tree' = rb_size tree - 1 \<and>
     rb_key_sz tree' = rb_key_sz tree \<and> rb_free tree' = rb_free tree"
proof -
  have "\<exists>e \<in> rb_set tree. rank (fst e) = rank key"
    using assms(4,5) by force
  then obtain tree' k' v' xs ys where t: "assoc_rb_tree_extract tree key = Inr (tree', v')"
    "rb_inv comp valid rank tree'" "rank k' = rank key"
    "rb_entries tree = xs @ (k', v') # ys" "rb_entries tree' = xs @ ys"
    "rb_key_sz tree' = rb_key_sz tree" "rb_free tree' = rb_free tree"
    using rb_extract_ok [OF assms(1,3)] by blast
  then have e: "k' = k" "v' = v"
    using rb_uniq_inj [OF assms(2,4), of "(k', v')"] assms(5) by auto
  have "rb_size tree' = rb_size tree - 1"
    using t(2,4,5) assms(1) by (simp add: rb_inv_def)
  moreover have "rb_uniq rank tree'" "rb_set tree' = rb_set tree - {(k, v)}"
    using assms(2) t(4,5) e by (force simp: rb_uniq_def)+
  ultimately show ?thesis
    using t e by auto
qed

end

section \<open>Iteration\<close>

text \<open>An iterator of a tree: the end, or a position inside it.\<close>

definition iter_of :: "('k, 'v) assoc_node_t \<Rightarrow> ('k, 'v) node_it \<Rightarrow> bool" where
  "iter_of t it \<longleftrightarrow> it = assoc_rb_tree_end \<or> (snd it \<noteq> Dummy \<and> climb (fst it) (snd it) = t)"

lemma minimum_climb: "t \<noteq> Dummy \<Longrightarrow> snd (minimum ps t) \<noteq> Dummy \<and>
     climb (fst (minimum ps t)) (snd (minimum ps t)) = climb ps t"
  by (induction ps t rule: minimum.induct) auto

lemma next_up_iter: "iter_of (climb ps t) (next_up ps t)"
  by (induction ps t rule: next_up.induct) (auto simp: iter_of_def assoc_rb_tree_end_def)

lemma iter_front: "iter_of (rb_root tree) (assoc_rb_tree_front tree)"
  using minimum_climb [of "rb_root tree" "[]"]
  by (cases "rb_root tree") (auto simp: iter_of_def assoc_rb_tree_front_def assoc_rb_tree_end_def)

lemma remaining_front: "remaining (assoc_rb_tree_front tree) = rb_entries tree"
  using minimum_remaining [of "rb_root tree" "[]"]
  by (cases "rb_root tree") (auto simp: assoc_rb_tree_front_def)

lemma remaining_Nil: "remaining it = [] \<longleftrightarrow> snd it = Dummy"
  by (cases it rule: remaining.cases) auto

lemma iter_next:
  assumes "iter_of t it" "remaining it = e # es"
  obtains it' where "assoc_rb_tree_next it = Inr it'" "iter_of t it'" "remaining it' = es"
proof -
  obtain ps c k v l r where it: "it = (ps, Node c k v l r)" "climb ps (Node c k v l r) = t"
    using assms by (cases it rule: remaining.cases) (auto simp: iter_of_def assoc_rb_tree_end_def)
  define it' where "it' = (if r = Dummy then next_up ps (Node c k v l r)
                           else minimum (RightOf c k v l # ps) r)"
  have "assoc_rb_tree_next it = Inr it'"
    using it by (auto simp: it'_def split: assoc_node_t.splits)
  moreover have "iter_of t it'"
    using it next_up_iter [of ps "Node c k v l r"] minimum_climb [of r "RightOf c k v l # ps"]
    by (auto simp: it'_def iter_of_def)
  moreover have "remaining it' = es"
    using calculation(1) assms(2) remaining_next by fastforce
  ultimately show ?thesis
    using that by blast
qed

lemma iter_value:
  "remaining it = (k, v) # es \<Longrightarrow> assoc_rb_tree_key it = Inr k \<and> assoc_rb_tree_value it = Inr v"
  by (cases it rule: remaining.cases) auto

lemma iter_split:
  assumes "iter_of t it" "remaining it \<noteq> []"
  shows "\<exists>xs. inorder t = xs @ remaining it"
  using assms
  by (cases it rule: remaining.cases) (auto simp: iter_of_def assoc_rb_tree_end_def)

text \<open>The linear search visits the entries in order and stops at the first match.\<close>

lemma find_if_rb_tree_ok:
  assumes "iter_of t it" "\<forall>e \<in> set (remaining it). f (fst e) = Inr (q (fst e))"
  shows "\<exists>it'. find_if_rb_tree f it = Inr it' \<and> iter_of t it' \<and>
     remaining it' = dropWhile (\<lambda>e. \<not> q (fst e)) (remaining it)"
  using assms
proof (induction "remaining it" arbitrary: it)
  case Nil
  then have "snd it = Dummy"
    using remaining_Nil by metis
  with Nil show ?case
    by (auto simp: find_if_rb_tree.simps [of f it])
next
  case (Cons e es)
  obtain it' where it': "assoc_rb_tree_next it = Inr it'" "iter_of t it'" "remaining it' = es"
    using iter_next [OF Cons.prems(1) Cons.hyps(2) [symmetric]] .
  have IH: "\<exists>it''. find_if_rb_tree f it' = Inr it'' \<and> iter_of t it'' \<and>
      remaining it'' = dropWhile (\<lambda>e. \<not> q (fst e)) es"
    using Cons.hyps(1) [OF it'(3) [symmetric] it'(2)] Cons.prems(2) Cons.hyps(2) it'(3)
    by (metis list.set_intros(2))
  obtain ps c k v l r where it: "it = (ps, Node c k v l r)" "e = (k, v)"
    using Cons.hyps(2) by (cases it rule: remaining.cases) auto
  have "f k = Inr (q k)"
    using Cons.prems(2) Cons.hyps(2) [symmetric] it by simp
  then have "find_if_rb_tree f it = (if q k then Inr it else find_if_rb_tree f it')"
    using it'(1) it(1) by (subst find_if_rb_tree.simps) (simp del: assoc_rb_tree_next.simps)
  then show ?case
    using IH Cons.prems(1) Cons.hyps(2) [symmetric] it(2) by (cases "q k") auto
qed

text \<open>A loop over a tree is a loop over its entries in order.\<close>

lemma for_tree_ok:
  assumes "iter_of t it"
  shows "for_tree body it s = fold_res (\<lambda>e. body (fst e) (snd e)) (remaining it) s"
  using assms
proof (induction "remaining it" arbitrary: it s)
  case Nil
  then have "snd it = Dummy"
    using remaining_Nil by metis
  with Nil show ?case
    by (simp add: for_tree.simps [of body it])
next
  case (Cons e es)
  obtain it' where it': "assoc_rb_tree_next it = Inr it'" "iter_of t it'" "remaining it' = es"
    using iter_next [OF Cons.prems(1) Cons.hyps(2) [symmetric]] .
  have IH: "for_tree body it' s' = fold_res (\<lambda>e. body (fst e) (snd e)) es s'" for s'
    using Cons.hyps(1) [OF it'(3) [symmetric] it'(2)] it'(3) by simp
  obtain ps c k v l r where it: "it = (ps, Node c k v l r)" "e = (k, v)"
    using Cons.hyps(2) by (cases it rule: remaining.cases) auto
  have "for_tree body it s = bnd (body k v s) (\<lambda>s'. for_tree body it' s')"
    using it'(1) it(1) by (subst for_tree.simps) (simp del: assoc_rb_tree_next.simps)
  then show ?case
    using IH Cons.hyps(2) [symmetric] it(2) by simp
qed

lemma for_tree_front: "for_tree body (assoc_rb_tree_front tree) s = fold_res (\<lambda>e. body (fst e) (snd e)) (rb_entries tree) s"
  using for_tree_ok [OF iter_front [of tree]] by (simp add: remaining_front)

lemma at_end_remaining: "at_end it \<longleftrightarrow> remaining it = []"
  by (cases it rule: remaining.cases) (auto simp: at_end_def)

lemma find_if_remaining_le:
  "find_if_rb_tree f it = Inr it' \<Longrightarrow> length (remaining it') \<le> length (remaining it)"
proof (induction f it arbitrary: it' rule: find_if_rb_tree.induct)
  case (1 f it)
  show ?case
  proof (cases "snd it")
    case Dummy
    then show ?thesis
      using "1.prems" by (simp add: find_if_rb_tree.simps [of f it])
  next
    case (Node c k v l r)
    then have "it' = it \<or> (\<exists>it1. assoc_rb_tree_next it = Inr it1 \<and> f k = Inr False \<and>
        find_if_rb_tree f it1 = Inr it')"
      using "1.prems" by (auto simp: find_if_rb_tree.simps [of f it] bnd_eq_Inr split: if_splits)
    then show ?thesis
    proof (elim disjE exE conjE)
      fix it1
      assume n: "assoc_rb_tree_next it = Inr it1" "f k = Inr False" "find_if_rb_tree f it1 = Inr it'"
      have "length (remaining it') \<le> length (remaining it1)"
        using "1.IH" [OF Node n(2) _ n(1) n(3)] by simp
      then show ?thesis
        using remaining_next [OF n(1)] by simp
    qed simp
  qed
qed

lemma dropWhile_find:
  "map_option snd (List.find (\<lambda>e. q (fst e)) es) =
     (case dropWhile (\<lambda>e. \<not> q (fst e)) es of [] \<Rightarrow> None | e # _ \<Rightarrow> Some (snd e))"
  by (induction es) auto

lemma lookup_if_ok:
  assumes "\<forall>e \<in> rb_set tree. f (fst e) = Inr (q (fst e))"
  shows "lookup_if tree f = Inr (map_option snd (List.find (\<lambda>e. q (fst e)) (rb_entries tree)))"
proof -
  obtain it where it: "find_if_rb_tree f (assoc_rb_tree_front tree) = Inr it"
    "remaining it = dropWhile (\<lambda>e. \<not> q (fst e)) (rb_entries tree)"
    using find_if_rb_tree_ok [OF iter_front [of tree], of f q] assms by (auto simp: remaining_front)
  show ?thesis
  proof (cases "remaining it")
    case Nil
    then have "dropWhile (\<lambda>e. \<not> q (fst e)) (rb_entries tree) = []"
      using it(2) by simp
    then have "map_option snd (List.find (\<lambda>e. q (fst e)) (rb_entries tree)) = None"
      unfolding dropWhile_find by (simp only: list.case)
    then show ?thesis
      using it(1) Nil by (simp only: lookup_if_def at_end_remaining bnd_simps if_True simp_thms)
  next
    case (Cons e es)
    then have "assoc_rb_tree_value it = Inr (snd e)"
      using iter_value [of it "fst e" "snd e" es] by simp
    moreover have "map_option snd (List.find (\<lambda>e. q (fst e)) (rb_entries tree)) = Some (snd e)"
      unfolding dropWhile_find it(2) [symmetric] Cons by (simp only: list.case)
    ultimately show ?thesis
      using it(1) Cons by (auto simp: lookup_if_def at_end_remaining)
  qed
qed

text \<open>With at most one matching entry the lookup returns the value of that entry.\<close>

lemma lookup_if_Some:
  assumes "\<forall>e \<in> rb_set tree. f (fst e) = Inr (q (fst e))" "(k, v) \<in> rb_set tree" "q k"
    and "\<And>k' v'. (k', v') \<in> rb_set tree \<Longrightarrow> q k' \<Longrightarrow> v' = v"
  shows "lookup_if tree f = Inr (Some v)"
proof -
  obtain e where e: "List.find (\<lambda>e. q (fst e)) (rb_entries tree) = Some e"
    using assms(2,3) find_eq_None [of "\<lambda>e. q (fst e)" "rb_entries tree"] by force
  then have "e \<in> rb_set tree" "q (fst e)"
    by (auto dest: find_SomeD)
  then have "snd e = v"
    using assms(4) [of "fst e" "snd e"] by simp
  then show ?thesis
    using lookup_if_ok [OF assms(1)] e by simp
qed

lemma lookup_if_None:
  assumes "\<forall>e \<in> rb_set tree. f (fst e) = Inr (q (fst e))" "\<forall>e \<in> rb_set tree. \<not> q (fst e)"
  shows "lookup_if tree f = Inr None"
  using lookup_if_ok [OF assms(1)] assms(2) find_eq_None [of "\<lambda>e. q (fst e)" "rb_entries tree"] by auto

lemma lookup_if_SomeD:
  assumes "\<forall>e \<in> rb_set tree. f (fst e) = Inr (q (fst e))" "lookup_if tree f = Inr (Some v)"
  shows "\<exists>k. (k, v) \<in> rb_set tree \<and> q k"
proof -
  obtain e where "List.find (\<lambda>e. q (fst e)) (rb_entries tree) = Some e" "snd e = v"
    using lookup_if_ok [OF assms(1)] assms(2) by (cases "List.find (\<lambda>e. q (fst e)) (rb_entries tree)") auto
  then have "e \<in> rb_set tree" "q (fst e)" "snd e = v"
    by (auto dest: find_SomeD)
  then show ?thesis
    by (metis prod.collapse)
qed

section \<open>The height\<close>

fun height :: "('k, 'v) assoc_node_t \<Rightarrow> nat" where
  "height Dummy = 0"
| "height (Node c k v l r) = Suc (max (height l) (height r))"

lemma height_black: "red_ok t \<Longrightarrow> height_ok t \<Longrightarrow>
     height t \<le> 2 * black_height t + (if color t = ASSOC_RED then 1 else 0)"
  by (induction t) (auto split: if_splits)

lemma size_black: "height_ok t \<Longrightarrow> 2 ^ black_height t \<le> length (inorder t) + 1"
proof (induction t)
  case (Node c k v l r)
  then have "2 ^ black_height l \<le> length (inorder l) + 1" "2 ^ black_height l \<le> length (inorder r) + 1"
    by auto
  then show ?case by auto
qed auto

lemma rb_height_bound:
  assumes "rb_ok t"
  shows "real (height t) \<le> 2 * log 2 (real (length (inorder t)) + 1)"
proof -
  have "height t \<le> 2 * black_height t"
    using height_black [of t] assms by (auto simp: rb_ok_def)
  moreover have "real (2 ^ black_height t) \<le> real (length (inorder t) + 1)"
    using size_black [of t] assms unfolding rb_ok_def by (intro of_nat_mono) blast
  then have "2 ^ black_height t \<le> real (length (inorder t)) + 1"
    by simp
  then have "real (black_height t) \<le> log 2 (real (length (inorder t)) + 1)"
    by (simp add: le_log_of_power)
  ultimately show ?thesis by linarith
qed

section \<open>Properties of the red-black tree\<close>

text \<open>
  C14.  Insertion into a red-black tree that is ordered by its comparison function does not
  fault: the result satisfies the five red-black properties again, is ordered, counts one
  entry more, and its entries in iteration order are the old ones with the new one after the
  last entry that does not compare greater.
\<close>

theorem assoc_rb_tree_insert_correct:
  assumes "ranked_cmp cmp valid rank" "rb_inv cmp valid rank tree" "valid key"
    and "key_sz = rb_key_sz tree"
  shows "\<exists>tree'. assoc_rb_tree_insert tree key key_sz v = Inr tree' \<and>
     rb_inv cmp valid rank tree' \<and> rb_size tree' = rb_size tree + 1 \<and>
     rb_entries tree' = put_after rank key v (rb_entries tree)"
  using ranked_cmp.rb_insert_ok [OF assms(1-4), of v] assms(2) by (auto simp: rb_inv_def)

text \<open>A tree with the file descriptors 3, 4 and 7, for the concrete instances.\<close>

definition fd_tree :: "(int, nat) assoc_rb_tree_t" where
  "fd_tree = \<lparr>rb_root = Node ASSOC_BLACK 4 40 (Node ASSOC_RED 3 30 Dummy Dummy) (Node ASSOC_RED 7 70 Dummy Dummy),
     rb_comp = cmp_fd, rb_size = 3, rb_key_sz = 4, rb_free = None\<rparr>"

lemma fd_tree_inv: "rb_inv cmp_fd (\<lambda>fd. 0 \<le> fd) (\<lambda>fd. fd) fd_tree"
  by (simp add: rb_inv_def fd_tree_def rb_ok_def)

theorem assoc_rb_tree_insert_witness:
  "\<exists>tree'. assoc_rb_tree_insert fd_tree 5 4 50 = Inr tree' \<and>
     rb_inv cmp_fd (\<lambda>fd. 0 \<le> fd) (\<lambda>fd. fd) tree' \<and> rb_size tree' = 4 \<and>
     rb_entries tree' = [(3, 30), (4, 40), (5, 50), (7, 70)]"
  using assoc_rb_tree_insert_correct [OF fd.ranked_cmp_axioms fd_tree_inv, of 5 4 50]
  by (simp add: fd_tree_def put_after_def)

text \<open>
  C15.  Extraction removes exactly one entry with the key and returns its value, keeping the
  invariant; when no entry has the key it aborts with the assertion of the code.
\<close>

theorem assoc_rb_tree_extract_correct:
  assumes "ranked_cmp cmp valid rank" "rb_inv cmp valid rank tree" "valid key"
  shows "if \<exists>e \<in> rb_set tree. rank (fst e) = rank key
     then \<exists>tree' k v xs ys. assoc_rb_tree_extract tree key = Inr (tree', v) \<and>
       rb_inv cmp valid rank tree' \<and> rank k = rank key \<and>
       rb_entries tree = xs @ (k, v) # ys \<and> rb_entries tree' = xs @ ys
     else assoc_rb_tree_extract tree key =
       Inl (Assertion ''Trying to extract a key not found in the tree'')"
proof (cases "\<exists>e \<in> rb_set tree. rank (fst e) = rank key")
  case True
  then show ?thesis
    using ranked_cmp.rb_extract_ok [OF assms True] by fastforce
next
  case False
  then show ?thesis
    using ranked_cmp.rb_extract_missing [OF assms] by auto
qed

theorem assoc_rb_tree_extract_witness:
  "(\<exists>tree' k v xs ys. assoc_rb_tree_extract fd_tree 4 = Inr (tree', v) \<and>
      rb_inv cmp_fd (\<lambda>fd. 0 \<le> fd) (\<lambda>fd. fd) tree' \<and> k = 4 \<and>
      rb_entries fd_tree = xs @ (k, v) # ys \<and> rb_entries tree' = xs @ ys)
   \<and> assoc_rb_tree_extract fd_tree 5 =
       Inl (Assertion ''Trying to extract a key not found in the tree'')"
  using assoc_rb_tree_extract_correct [OF fd.ranked_cmp_axioms fd_tree_inv, of 4]
    assoc_rb_tree_extract_correct [OF fd.ranked_cmp_axioms fd_tree_inv, of 5]
  by (simp add: fd_tree_def)

text \<open>
  The linear search of \<^verbatim>\<open>find_if_rb_tree\<close> from the first node ends, visits the entries
  in order and returns an iterator to the first key the predicate accepts, or the end.
\<close>

theorem find_if_rb_tree_correct:
  assumes "\<forall>e \<in> rb_set tree. f (fst e) = Inr (q (fst e))"
  shows "\<exists>it. find_if_rb_tree f (assoc_rb_tree_front tree) = Inr it \<and> iter_of (rb_root tree) it \<and>
     remaining it = dropWhile (\<lambda>e. \<not> q (fst e)) (rb_entries tree)"
  using find_if_rb_tree_ok [OF iter_front [of tree], of f q] assms by (simp add: remaining_front)

theorem find_if_rb_tree_witness:
  "\<exists>it. find_if_rb_tree (\<lambda>k. eq_fd 4 k) (assoc_rb_tree_front fd_tree) = Inr it \<and>
     iter_of (rb_root fd_tree) it \<and> remaining it = [(4, 40), (7, 70)]"
  using find_if_rb_tree_correct [of fd_tree "\<lambda>k. eq_fd 4 k" "\<lambda>k. 4 = k"]
  by (simp add: fd_tree_def eq_fd_def)

text \<open>
  Lemma 1 of the file comment: a tree with \<open>n\<close> entries has height at most
  \<open>2 lg (n + 1)\<close>, which bounds the number of comparisons of a search or an insertion.
\<close>

theorem assoc_rb_tree_height:
  assumes "rb_inv cmp valid rank tree"
  shows "real (height (rb_root tree)) \<le> 2 * log 2 (real (rb_size tree) + 1)"
  using rb_height_bound [of "rb_root tree"] assms by (simp add: rb_inv_def)

theorem assoc_rb_tree_height_witness:
  "height (rb_root fd_tree) = 2 \<and> (2 :: real) \<le> 2 * log 2 (real 3 + 1)"
  using assoc_rb_tree_height [OF fd_tree_inv] by (simp add: fd_tree_def)

end
