(* ===== verification/Bi_Map.thy ===== *)
theory Bi_Map
  imports Assoc_RB_Correct
begin

text \<open>
  The bidirectional map of \<^verbatim>\<open>util/alg_ds/ds/assoc_container/bimap.c\<close>: two red-black trees
  that hold every pair twice, \<open>left\<close> by its first key and \<open>right\<close> by its second key.  It keeps
  the pending events, the sockets of the E2 nodes and of the xApps, and the subscriptions that
  the iApp forwards.

  Locale \<open>bimap\<close> combines the contracts of the two comparison functions.  Its lemmas say that
  the two trees stay converse to each other, what insertion and extraction do to the relation,
  and that no assertion of the code fails while the keys are distinct on both sides.
\<close>

section \<open>Data and operations\<close>

record ('a, 'b) bi_map_t =
  bm_left :: "('a, 'b) assoc_rb_tree_t"
  bm_right :: "('b, 'a) assoc_rb_tree_t"

definition bi_map_init ::
  "nat \<Rightarrow> nat \<Rightarrow> ('a \<Rightarrow> 'a \<Rightarrow> int res) \<Rightarrow> ('b \<Rightarrow> 'b \<Rightarrow> int res) \<Rightarrow>
   ('a \<Rightarrow> 'b \<Rightarrow> unit res) option \<Rightarrow> ('b \<Rightarrow> 'a \<Rightarrow> unit res) option \<Rightarrow> ('a, 'b) bi_map_t res" where
  "bi_map_init key_sz1 key_sz2 cmp1 cmp2 free1 free2 =
     chk (key_sz1 > 0) ''key_sz1 > 0'' (
     chk (key_sz2 > 0) ''key_sz2 > 0'' (
     bnd (assoc_rb_tree_init key_sz1 cmp1 free1) (\<lambda>l.
     bnd (assoc_rb_tree_init key_sz2 cmp2 free2) (\<lambda>r.
     Inr \<lparr>bm_left = l, bm_right = r\<rparr>))))"

definition bi_map_free :: "('a, 'b) bi_map_t \<Rightarrow> unit res" where
  "bi_map_free m =
     bnd (assoc_rb_tree_free (bm_left m)) (\<lambda>_. assoc_rb_tree_free (bm_right m))"

definition bi_map_insert ::
  "('a, 'b) bi_map_t \<Rightarrow> 'a \<Rightarrow> nat \<Rightarrow> 'b \<Rightarrow> nat \<Rightarrow> ('a, 'b) bi_map_t res" where
  "bi_map_insert m key1 key_sz1 key2 key_sz2 =
     chk (key_sz1 > 0) ''key_sz1 > 0'' (
     chk (key_sz2 > 0) ''key_sz2 > 0'' (
     bnd (rb_comp (bm_right m) key2 key2) (\<lambda>cmp.
     chk (cmp = 0) ''cmp == 0'' (
     bnd (assoc_rb_tree_insert (bm_left m) key1 key_sz1 key2) (\<lambda>l.
     bnd (rb_comp l key1 key1) (\<lambda>cmp.
     chk (cmp = 0) ''cmp == 0'' (
     bnd (assoc_rb_tree_insert (bm_right m) key2 key_sz2 key1) (\<lambda>r.
     Inr \<lparr>bm_left = l, bm_right = r\<rparr>))))))))"

text \<open>The callback \<open>f\<close> releases what the removed key owns; \<^term>\<open>None\<close> is a null pointer.\<close>

definition call_free :: "('a \<Rightarrow> unit res) option \<Rightarrow> 'a \<Rightarrow> unit res" where
  "call_free f k = (case f of None \<Rightarrow> Inr () | Some g \<Rightarrow> g k)"

definition bi_map_extract_left ::
  "('a, 'b) bi_map_t \<Rightarrow> 'a \<Rightarrow> nat \<Rightarrow> ('a \<Rightarrow> unit res) option \<Rightarrow> (('a, 'b) bi_map_t \<times> 'b) res" where
  "bi_map_extract_left m key1 key1_sz f =
     chk (key1_sz = rb_key_sz (bm_left m)) ''key1_sz == map->left.key_sz'' (
     bnd (assoc_rb_tree_extract (bm_left m) key1) (\<lambda>(l, key2).
     bnd (assoc_rb_tree_extract (bm_right m) key2) (\<lambda>(r, key3).
     bnd (rb_comp l key1 key3) (\<lambda>cmp.
     chk (cmp = 0) ''cmp == 0'' (
     bnd (call_free f key3) (\<lambda>_.
     chk (assoc_rb_tree_size l = assoc_rb_tree_size r) ''sz_1 == sz_2'' (
     Inr (\<lparr>bm_left = l, bm_right = r\<rparr>, key2))))))))"

definition bi_map_extract_right ::
  "('a, 'b) bi_map_t \<Rightarrow> 'b \<Rightarrow> nat \<Rightarrow> ('b \<Rightarrow> unit res) option \<Rightarrow> (('a, 'b) bi_map_t \<times> 'a) res" where
  "bi_map_extract_right m key2 key2_sz f =
     chk (key2_sz = rb_key_sz (bm_right m)) ''key2_sz == map->right.key_sz'' (
     bnd (assoc_rb_tree_extract (bm_right m) key2) (\<lambda>(r, key1).
     bnd (assoc_rb_tree_extract (bm_left m) key1) (\<lambda>(l, key3).
     bnd (rb_comp r key2 key3) (\<lambda>cmp.
     chk (cmp = 0) ''cmp == 0'' (
     chk (rb_free r \<noteq> None) ''map->right.free_func != NULL'' (
     bnd (call_free f key3) (\<lambda>_.
     chk (assoc_rb_tree_size l = assoc_rb_tree_size r) ''sz_1 == sz_2'' (
     Inr (\<lparr>bm_left = l, bm_right = r\<rparr>, key1)))))))))"

definition bi_map_size :: "('a, 'b) bi_map_t \<Rightarrow> nat res" where
  "bi_map_size m =
     (let cap = assoc_rb_tree_size (bm_left m)
      in chk (cap = assoc_rb_tree_size (bm_right m)) ''Mismatch in the ds'' (Inr cap))"

definition bi_map_front_left :: "('a, 'b) bi_map_t \<Rightarrow> ('a, 'b) node_it" where
  "bi_map_front_left m = assoc_rb_tree_front (bm_left m)"

definition bi_map_next_left :: "('a, 'b) node_it \<Rightarrow> ('a, 'b) node_it res" where
  "bi_map_next_left it = assoc_rb_tree_next it"

definition bi_map_front_right :: "('a, 'b) bi_map_t \<Rightarrow> ('b, 'a) node_it" where
  "bi_map_front_right m = assoc_rb_tree_front (bm_right m)"

definition bi_map_value_left :: "('a, 'b) node_it \<Rightarrow> 'b res" where
  "bi_map_value_left it = assoc_rb_tree_value it"

definition bi_map_value_right :: "('b, 'a) node_it \<Rightarrow> 'a res" where
  "bi_map_value_right it = assoc_rb_tree_value it"

text \<open>The search over the left keys visits the nodes of the left tree in order.\<close>

definition find_if_bi_map_left ::
  "('a, 'b) node_it \<Rightarrow> 'c \<Rightarrow> ('c \<Rightarrow> 'a \<Rightarrow> bool res) \<Rightarrow> ('a, 'b) node_it res" where
  "find_if_bi_map_left start_it v f = find_if_rb_tree (f v) start_it"

section \<open>The relation a map stands for\<close>

abbreviation bm_pairs :: "('a, 'b) bi_map_t \<Rightarrow> ('a \<times> 'b) set" where
  "bm_pairs m \<equiv> rb_set (bm_left m)"

text \<open>The trees are converse, keyed without duplicates, and equally large.\<close>

definition bm_inv ::
  "('a \<Rightarrow> 'a \<Rightarrow> int res) \<Rightarrow> ('a \<Rightarrow> bool) \<Rightarrow> ('a \<Rightarrow> 'r::linorder) \<Rightarrow>
   ('b \<Rightarrow> 'b \<Rightarrow> int res) \<Rightarrow> ('b \<Rightarrow> bool) \<Rightarrow> ('b \<Rightarrow> 's::linorder) \<Rightarrow> ('a, 'b) bi_map_t \<Rightarrow> bool" where
  "bm_inv cmp1 valid1 rank1 cmp2 valid2 rank2 m \<longleftrightarrow>
     rb_inv cmp1 valid1 rank1 (bm_left m) \<and> rb_uniq rank1 (bm_left m) \<and>
     rb_inv cmp2 valid2 rank2 (bm_right m) \<and> rb_uniq rank2 (bm_right m) \<and>
     rb_set (bm_right m) = prod.swap ` rb_set (bm_left m)"

text \<open>What two maps with different contents share: the key sizes and the release callbacks.\<close>

definition bm_same_conf :: "('a, 'b) bi_map_t \<Rightarrow> ('a, 'b) bi_map_t \<Rightarrow> bool" where
  "bm_same_conf m m' \<longleftrightarrow>
     rb_key_sz (bm_left m') = rb_key_sz (bm_left m) \<and> rb_free (bm_left m') = rb_free (bm_left m) \<and>
     rb_key_sz (bm_right m') = rb_key_sz (bm_right m) \<and> rb_free (bm_right m') = rb_free (bm_right m)"

lemma rb_size_card: "rb_inv cmp valid rank t \<Longrightarrow> rb_uniq rank t \<Longrightarrow> rb_size t = card (rb_set t)"
  unfolding rb_inv_def rb_uniq_def by (metis distinct_card distinct_map)

locale bimap =
  L: ranked_cmp cmp1 valid1 rank1 + R: ranked_cmp cmp2 valid2 rank2
  for cmp1 :: "'a \<Rightarrow> 'a \<Rightarrow> int res" and valid1 and rank1 :: "'a \<Rightarrow> 'r::linorder"
    and cmp2 :: "'b \<Rightarrow> 'b \<Rightarrow> int res" and valid2 and rank2 :: "'b \<Rightarrow> 's::linorder"
begin

abbreviation inv :: "('a, 'b) bi_map_t \<Rightarrow> bool" where
  "inv \<equiv> bm_inv cmp1 valid1 rank1 cmp2 valid2 rank2"

lemma inv_valid: "inv m \<Longrightarrow> (a, b) \<in> bm_pairs m \<Longrightarrow> valid1 a \<and> valid2 b"
  unfolding bm_inv_def rb_inv_def by force

lemma inv_right: "inv m \<Longrightarrow> (b, a) \<in> rb_set (bm_right m) \<longleftrightarrow> (a, b) \<in> bm_pairs m"
  by (auto simp: bm_inv_def)

lemma inv_left_uniq:
  "inv m \<Longrightarrow> (a, b) \<in> bm_pairs m \<Longrightarrow> (a', b') \<in> bm_pairs m \<Longrightarrow> rank1 a = rank1 a' \<Longrightarrow> a = a' \<and> b = b'"
  unfolding bm_inv_def using rb_uniq_inj [of rank1 "bm_left m" "(a, b)" "(a', b')"] by auto

lemma inv_right_uniq:
  assumes "inv m" "(a, b) \<in> bm_pairs m" "(a', b') \<in> bm_pairs m" "rank2 b = rank2 b'"
  shows "a = a' \<and> b = b'"
  using assms inv_right [OF assms(1)] rb_uniq_inj [of rank2 "bm_right m" "(b, a)" "(b', a')"]
  unfolding bm_inv_def by auto

lemma init_ok:
  "sz1 > 0 \<Longrightarrow> sz2 > 0 \<Longrightarrow>
     \<exists>m. bi_map_init sz1 sz2 cmp1 cmp2 f1 f2 = Inr m \<and> inv m \<and> bm_pairs m = {} \<and>
       rb_key_sz (bm_left m) = sz1 \<and> rb_key_sz (bm_right m) = sz2 \<and>
       rb_free (bm_left m) = f1 \<and> rb_free (bm_right m) = f2"
  by (simp add: bi_map_init_def assoc_rb_tree_init_def bm_inv_def rb_inv_def rb_uniq_def rb_ok_def)

lemma size_ok: "inv m \<Longrightarrow> bi_map_size m = Inr (card (bm_pairs m))"
  unfolding bi_map_size_def assoc_rb_tree_size_def bm_inv_def
  by (auto simp: rb_size_card [of cmp1 valid1 rank1] rb_size_card [of cmp2 valid2 rank2] card_image)

lemma insert_ok:
  assumes "inv m" "valid1 a" "valid2 b" "sz1 = rb_key_sz (bm_left m)" "sz2 = rb_key_sz (bm_right m)"
    and "sz1 > 0" "sz2 > 0"
    and "\<forall>(a', b') \<in> bm_pairs m. rank1 a' \<noteq> rank1 a \<and> rank2 b' \<noteq> rank2 b"
  shows "\<exists>m'. bi_map_insert m a sz1 b sz2 = Inr m' \<and> inv m' \<and>
     bm_pairs m' = insert (a, b) (bm_pairs m) \<and> bm_same_conf m m'"
proof -
  have 1: "\<forall>e \<in> rb_set (bm_left m). rank1 (fst e) \<noteq> rank1 a"
    and 2: "\<forall>e \<in> rb_set (bm_right m). rank2 (fst e) \<noteq> rank2 b"
    using assms(1,8) by (auto simp: bm_inv_def)
  have i: "rb_inv cmp1 valid1 rank1 (bm_left m)" "rb_uniq rank1 (bm_left m)"
    "rb_inv cmp2 valid2 rank2 (bm_right m)" "rb_uniq rank2 (bm_right m)"
    using assms(1) by (auto simp: bm_inv_def)
  obtain l where l: "assoc_rb_tree_insert (bm_left m) a sz1 b = Inr l" "rb_inv cmp1 valid1 rank1 l"
    "rb_uniq rank1 l" "rb_set l = insert (a, b) (bm_pairs m)"
    "rb_key_sz l = rb_key_sz (bm_left m)" "rb_free l = rb_free (bm_left m)"
    using L.rb_insert_uniq [OF i(1,2) assms(2,4) 1, of b] by blast
  obtain r where r: "assoc_rb_tree_insert (bm_right m) b sz2 a = Inr r" "rb_inv cmp2 valid2 rank2 r"
    "rb_uniq rank2 r" "rb_set r = insert (b, a) (rb_set (bm_right m))"
    "rb_key_sz r = rb_key_sz (bm_right m)" "rb_free r = rb_free (bm_right m)"
    using R.rb_insert_uniq [OF i(3,4) assms(3,5) 2, of a] by blast
  have "rb_comp (bm_right m) b b = Inr 0" "rb_comp l a a = Inr 0"
    using i(3) l(2) assms(2,3) by (simp_all add: rb_inv_def L.comp_refl R.comp_refl)
  then have "bi_map_insert m a sz1 b sz2 = Inr \<lparr>bm_left = l, bm_right = r\<rparr>"
    using assms(6,7) l(1) r(1) by (simp add: bi_map_insert_def)
  then show ?thesis
    using l r assms(1) by (auto simp: bm_inv_def bm_same_conf_def)
qed

lemma extract_left_ok:
  assumes "inv m" "(a', b) \<in> bm_pairs m" "valid1 a" "rank1 a' = rank1 a"
    and "sz = rb_key_sz (bm_left m)" "call_free f a' = Inr ()"
  shows "\<exists>m'. bi_map_extract_left m a sz f = Inr (m', b) \<and> inv m' \<and>
     bm_pairs m' = bm_pairs m - {(a', b)} \<and> bm_same_conf m m'"
proof -
  have i: "rb_inv cmp1 valid1 rank1 (bm_left m)" "rb_uniq rank1 (bm_left m)"
    "rb_inv cmp2 valid2 rank2 (bm_right m)" "rb_uniq rank2 (bm_right m)"
    "rb_set (bm_right m) = prod.swap ` bm_pairs m"
    using assms(1) by (auto simp: bm_inv_def)
  have v: "valid1 a'" "valid2 b"
    using inv_valid [OF assms(1,2)] by auto
  obtain l where l: "assoc_rb_tree_extract (bm_left m) a = Inr (l, b)" "rb_inv cmp1 valid1 rank1 l"
    "rb_uniq rank1 l" "rb_set l = bm_pairs m - {(a', b)}" "rb_size l = rb_size (bm_left m) - 1"
    "rb_key_sz l = rb_key_sz (bm_left m)" "rb_free l = rb_free (bm_left m)"
    using L.rb_extract_uniq [OF i(1,2) assms(3,2,4)] by blast
  have "(b, a') \<in> rb_set (bm_right m)"
    using assms(2) i(5) by force
  then obtain r where r: "assoc_rb_tree_extract (bm_right m) b = Inr (r, a')"
    "rb_inv cmp2 valid2 rank2 r" "rb_uniq rank2 r" "rb_set r = rb_set (bm_right m) - {(b, a')}"
    "rb_size r = rb_size (bm_right m) - 1"
    "rb_key_sz r = rb_key_sz (bm_right m)" "rb_free r = rb_free (bm_right m)"
    using R.rb_extract_uniq [OF i(3,4) v(2)] by blast
  have cmp: "rb_comp l a a' = Inr 0"
    using l(2) v(1) assms(3,4) L.comp_rank by (simp add: rb_inv_def)
  have sz: "rb_size l = rb_size r"
    using l(5) r(5) i by (simp add: rb_size_card card_image)
  have "rb_set r = prod.swap ` rb_set l"
    using l(4) r(4) i(5) by auto
  then show ?thesis
    using l r cmp sz assms(5,6)
    by (simp add: bi_map_extract_left_def assoc_rb_tree_size_def bm_inv_def bm_same_conf_def)
qed

lemma extract_right_ok:
  assumes "inv m" "(a, b') \<in> bm_pairs m" "valid2 b" "rank2 b' = rank2 b"
    and "sz = rb_key_sz (bm_right m)" "rb_free (bm_right m) \<noteq> None" "call_free f b' = Inr ()"
  shows "\<exists>m'. bi_map_extract_right m b sz f = Inr (m', a) \<and> inv m' \<and>
     bm_pairs m' = bm_pairs m - {(a, b')} \<and> bm_same_conf m m'"
proof -
  have i: "rb_inv cmp1 valid1 rank1 (bm_left m)" "rb_uniq rank1 (bm_left m)"
    "rb_inv cmp2 valid2 rank2 (bm_right m)" "rb_uniq rank2 (bm_right m)"
    "rb_set (bm_right m) = prod.swap ` bm_pairs m"
    using assms(1) by (auto simp: bm_inv_def)
  have v: "valid1 a" "valid2 b'"
    using inv_valid [OF assms(1,2)] by auto
  have "(b', a) \<in> rb_set (bm_right m)"
    using assms(2) i(5) by force
  then obtain r where r: "assoc_rb_tree_extract (bm_right m) b = Inr (r, a)"
    "rb_inv cmp2 valid2 rank2 r" "rb_uniq rank2 r" "rb_set r = rb_set (bm_right m) - {(b', a)}"
    "rb_size r = rb_size (bm_right m) - 1"
    "rb_key_sz r = rb_key_sz (bm_right m)" "rb_free r = rb_free (bm_right m)"
    using R.rb_extract_uniq [OF i(3,4) assms(3) _ assms(4)] by blast
  obtain l where l: "assoc_rb_tree_extract (bm_left m) a = Inr (l, b')" "rb_inv cmp1 valid1 rank1 l"
    "rb_uniq rank1 l" "rb_set l = bm_pairs m - {(a, b')}" "rb_size l = rb_size (bm_left m) - 1"
    "rb_key_sz l = rb_key_sz (bm_left m)" "rb_free l = rb_free (bm_left m)"
    using L.rb_extract_uniq [OF i(1,2) v(1) assms(2)] by blast
  have cmp: "rb_comp r b b' = Inr 0"
    using r(2) v(2) assms(3,4) R.comp_rank by (simp add: rb_inv_def)
  have sz: "rb_size l = rb_size r"
    using l(5) r(5) i by (simp add: rb_size_card card_image)
  have "rb_set r = prod.swap ` rb_set l"
    using l(4) r(4) i(5) by auto
  then show ?thesis
    using l r cmp sz assms(5,6,7)
    by (simp add: bi_map_extract_right_def assoc_rb_tree_size_def bm_inv_def bm_same_conf_def)
qed

text \<open>Extracting an absent key aborts.\<close>

lemma extract_left_missing:
  assumes "inv m" "valid1 a" "\<forall>(a', b') \<in> bm_pairs m. rank1 a' \<noteq> rank1 a"
    "sz = rb_key_sz (bm_left m)"
  shows "bi_map_extract_left m a sz f =
     Inl (Assertion ''Trying to extract a key not found in the tree'')"
proof -
  have "assoc_rb_tree_extract (bm_left m) a =
      Inl (Assertion ''Trying to extract a key not found in the tree'')"
    by (rule L.rb_extract_missing) (use assms in \<open>auto simp: bm_inv_def\<close>)
  then show ?thesis
    using assms(4) by (simp add: bi_map_extract_left_def)
qed

lemma extract_right_missing:
  assumes "inv m" "valid2 b" "\<forall>(a', b') \<in> bm_pairs m. rank2 b' \<noteq> rank2 b"
    "sz = rb_key_sz (bm_right m)"
  shows "bi_map_extract_right m b sz f =
     Inl (Assertion ''Trying to extract a key not found in the tree'')"
proof -
  have "assoc_rb_tree_extract (bm_right m) b =
      Inl (Assertion ''Trying to extract a key not found in the tree'')"
    by (rule R.rb_extract_missing) (use assms in \<open>auto simp: bm_inv_def\<close>)
  then show ?thesis
    using assms(4) by (simp add: bi_map_extract_right_def)
qed

end

section \<open>Properties of the bidirectional map\<close>

text \<open>
  C35.  A pair with fresh keys can be inserted without a fault; the map then holds exactly one
  pair more, and extracting it by its left key or by its right key returns the other key and
  leaves the map with the pairs it had before.
\<close>

theorem bi_map_insert_extract:
  assumes "bimap cmp1 valid1 rank1 cmp2 valid2 rank2" "bm_inv cmp1 valid1 rank1 cmp2 valid2 rank2 m"
    and "valid1 a" "valid2 b" "sz1 = rb_key_sz (bm_left m)" "sz2 = rb_key_sz (bm_right m)" "0 < sz1" "0 < sz2"
    and "\<forall>(a', b') \<in> bm_pairs m. rank1 a' \<noteq> rank1 a \<and> rank2 b' \<noteq> rank2 b"
    and "rb_free (bm_right m) \<noteq> None"
  shows "\<exists>m1 m2 m3. bi_map_insert m a sz1 b sz2 = Inr m1 \<and>
     bm_inv cmp1 valid1 rank1 cmp2 valid2 rank2 m1 \<and> bi_map_size m1 = Inr (card (bm_pairs m) + 1) \<and>
     bi_map_extract_left m1 a sz1 None = Inr (m2, b) \<and> bm_pairs m2 = bm_pairs m \<and>
     bi_map_extract_right m1 b sz2 None = Inr (m3, a) \<and> bm_pairs m3 = bm_pairs m"
proof -
  let ?inv = "bm_inv cmp1 valid1 rank1 cmp2 valid2 rank2"
  obtain m1 where m1: "bi_map_insert m a sz1 b sz2 = Inr m1" "?inv m1"
    "bm_pairs m1 = insert (a, b) (bm_pairs m)" "bm_same_conf m m1"
    using bimap.insert_ok [OF assms(1-9)] by blast
  have new: "(a, b) \<notin> bm_pairs m"
    using assms(9) by auto
  have in1: "(a, b) \<in> bm_pairs m1"
    using m1(3) by simp
  have "\<exists>m2. bi_map_extract_left m1 a sz1 None = Inr (m2, b) \<and> ?inv m2 \<and>
      bm_pairs m2 = bm_pairs m1 - {(a, b)} \<and> bm_same_conf m1 m2"
    by (rule bimap.extract_left_ok [OF assms(1) m1(2) in1 assms(3)])
      (use m1(4) assms(5) in \<open>auto simp: bm_same_conf_def call_free_def\<close>)
  moreover have "\<exists>m3. bi_map_extract_right m1 b sz2 None = Inr (m3, a) \<and> ?inv m3 \<and>
      bm_pairs m3 = bm_pairs m1 - {(a, b)} \<and> bm_same_conf m1 m3"
    by (rule bimap.extract_right_ok [OF assms(1) m1(2) in1 assms(4)])
      (use m1(4) assms(6,10) in \<open>auto simp: bm_same_conf_def call_free_def\<close>)
  moreover have "finite (bm_pairs m)"
    by simp
  then have "bi_map_size m1 = Inr (card (bm_pairs m) + 1)"
    using bimap.size_ok [OF assms(1) m1(2)] m1(3) new by simp
  ultimately show ?thesis
    using m1(1-3) new by auto
qed

text \<open>The pairs of a file descriptor and a RAN function id, for the concrete instance.\<close>

interpretation fd_rf: bimap cmp_fd "\<lambda>fd. 0 \<le> fd" "\<lambda>fd. fd" cmp_ran_func_id "\<lambda>_. True" "\<lambda>a. a"
  by unfold_locales

definition fd_rf_map :: "(int, u16) bi_map_t" where
  "fd_rf_map =
     \<lparr>bm_left = \<lparr>rb_root = Node ASSOC_BLACK 4 142 Dummy Dummy, rb_comp = cmp_fd, rb_size = 1,
                rb_key_sz = 4, rb_free = None\<rparr>,
      bm_right = \<lparr>rb_root = Node ASSOC_BLACK 142 4 Dummy Dummy, rb_comp = cmp_ran_func_id, rb_size = 1,
                 rb_key_sz = 2, rb_free = Some (\<lambda>_ _. Inr ())\<rparr>\<rparr>"

lemma fd_rf_map_inv: "fd_rf.inv fd_rf_map"
  by (simp add: fd_rf_map_def bm_inv_def rb_inv_def rb_uniq_def rb_ok_def)

lemma fd_rf_map_facts:
  "bm_pairs fd_rf_map = {(4, 142)}" "rb_key_sz (bm_left fd_rf_map) = 4" "rb_key_sz (bm_right fd_rf_map) = 2"
  "rb_free (bm_right fd_rf_map) = Some (\<lambda>_ _. Inr ())"
  by (simp_all add: fd_rf_map_def)

theorem bi_map_insert_extract_witness:
  "\<exists>m1 m2 m3. bi_map_insert fd_rf_map 7 4 148 2 = Inr m1 \<and> bi_map_size m1 = Inr 2 \<and>
     bi_map_extract_left m1 7 4 None = Inr (m2, 148) \<and> bm_pairs m2 = {(4, 142)} \<and>
     bi_map_extract_right m1 148 2 None = Inr (m3, 7) \<and> bm_pairs m3 = {(4, 142)}"
proof -
  have "\<exists>m1 m2 m3. bi_map_insert fd_rf_map 7 4 148 2 = Inr m1 \<and> fd_rf.inv m1 \<and>
     bi_map_size m1 = Inr (card (bm_pairs fd_rf_map) + 1) \<and>
     bi_map_extract_left m1 7 4 None = Inr (m2, 148) \<and> bm_pairs m2 = bm_pairs fd_rf_map \<and>
     bi_map_extract_right m1 148 2 None = Inr (m3, 7) \<and> bm_pairs m3 = bm_pairs fd_rf_map"
    by (rule bi_map_insert_extract [OF fd_rf.bimap_axioms fd_rf_map_inv]) (simp_all add: fd_rf_map_facts)
  then obtain m1 m2 m3 where "bi_map_insert fd_rf_map 7 4 148 2 = Inr m1"
    "bi_map_size m1 = Inr (card (bm_pairs fd_rf_map) + 1)"
    "bi_map_extract_left m1 7 4 None = Inr (m2, 148)" "bm_pairs m2 = bm_pairs fd_rf_map"
    "bi_map_extract_right m1 148 2 None = Inr (m3, 7)" "bm_pairs m3 = bm_pairs fd_rf_map"
    by (elim exE conjE)
  then show ?thesis
    unfolding fd_rf_map_facts(1) by (intro exI [of _ m1] exI [of _ m2] exI [of _ m3]) simp
qed

end
