(* ===== verification/Ric_Maps.thy ===== *)
theory Ric_Maps
  imports Bi_Map Seq_Arr
begin

text \<open>
  The address books of the RIC: the sockets of the E2 nodes
  (\<^verbatim>\<open>ric/map_e2_node_sockaddr.c\<close>), the sockets of the xApps
  (\<^verbatim>\<open>ric/iApp/map_xapps_sockaddr.c\<close>), the table that relates the RIC request ids of the E2
  nodes to the requests of the xApps (\<^verbatim>\<open>ric/iApp/map_ric_id.c\<close>) and the registry of active
  subscriptions (\<^verbatim>\<open>ric/iApp/subscription_registry.c\<close>).

  Every operation runs under the lock of its map.  The read-write lock of the request table is
  part of the model, because one caller holds it for writing while it calls an operation that
  takes it again: the C library then reports an error to the caller, and the model keeps
  whether the calling thread holds it for writing.  The other locks are taken and released
  inside one operation.
\<close>

section \<open>Sockets of the E2 nodes\<close>

abbreviation cmp_sctp :: "sctp_info_t \<Rightarrow> sctp_info_t \<Rightarrow> int res" where
  "cmp_sctp a b \<equiv> cmp_sctp_info_wrapper (Some a) (Some b)"

abbreviation any :: "'a \<Rightarrow> bool" where
  "any \<equiv> \<lambda>_. True"

abbreviation free_nothing :: "'k \<Rightarrow> 'v \<Rightarrow> unit res" where
  "free_nothing \<equiv> \<lambda>_ _. Inr ()"

text \<open>The sizes of the key types; only their equality between calls matters.\<close>

definition sizeof_global_e2_node_id :: nat where "sizeof_global_e2_node_id = 32"
definition sizeof_sctp_info :: nat where "sizeof_sctp_info = 48"
definition sizeof_uint16 :: nat where "sizeof_uint16 = 2"
definition sizeof_e2_node_ric_id :: nat where "sizeof_e2_node_ric_id = 48"
definition sizeof_xapp_ric_id :: nat where "sizeof_xapp_ric_id = 12"

lemmas sizeof_defs = sizeof_global_e2_node_id_def sizeof_sctp_info_def sizeof_uint16_def
  sizeof_e2_node_ric_id_def sizeof_xapp_ric_id_def

type_synonym map_e2_node_sockaddr_t = "(global_e2_node_id_t, sctp_info_t) bi_map_t"

definition init_map_e2_node_sad :: "map_e2_node_sockaddr_t res" where
  "init_map_e2_node_sad =
     bi_map_init sizeof_global_e2_node_id sizeof_sctp_info cmp_global_e2_node_id cmp_sctp
       (Some free_nothing) (Some free_nothing)"

definition add_map_e2_node_sad ::
  "map_e2_node_sockaddr_t \<Rightarrow> global_e2_node_id_t \<Rightarrow> sctp_info_t \<Rightarrow> map_e2_node_sockaddr_t res" where
  "add_map_e2_node_sad m nid s =
     bi_map_insert m (cp_global_e2_node_id nid) sizeof_global_e2_node_id s sizeof_sctp_info"

definition rm_map_e2_node_sad ::
  "map_e2_node_sockaddr_t \<Rightarrow> global_e2_node_id_t \<Rightarrow> (map_e2_node_sockaddr_t \<times> sctp_info_t) res" where
  "rm_map_e2_node_sad m nid =
     bi_map_extract_left m nid sizeof_global_e2_node_id (Some (\<lambda>_. Inr ()))"

definition rm_map_sad_e2_node ::
  "map_e2_node_sockaddr_t \<Rightarrow> sctp_info_t \<Rightarrow> (map_e2_node_sockaddr_t \<times> global_e2_node_id_t) res" where
  "rm_map_sad_e2_node m s = bi_map_extract_right m s sizeof_sctp_info None"

text \<open>A failed assertion with the value of a lookup that found nothing.\<close>

definition found :: "'a option \<Rightarrow> string \<Rightarrow> 'a res" where
  "found x msg = (case x of None \<Rightarrow> Inl (Assertion msg) | Some v \<Rightarrow> Inr v)"

definition find_map_e2_node_sad ::
  "map_e2_node_sockaddr_t \<Rightarrow> global_e2_node_id_t \<Rightarrow> sctp_info_t res" where
  "find_map_e2_node_sad m nid =
     bnd (lookup_if (bm_left m) (\<lambda>k. eq_global_e2_node_id nid k)) (\<lambda>s.
     found s ''E2 Node not found in the tree'')"

section \<open>Sockets of the xApps\<close>

type_synonym map_xapps_sockaddr_t = "(u16, sctp_info_t) bi_map_t"

definition init_map_xapps_sad :: "map_xapps_sockaddr_t res" where
  "init_map_xapps_sad =
     bi_map_init sizeof_uint16 sizeof_sctp_info cmp_uint16_wrapper cmp_sctp
       (Some free_nothing) (Some free_nothing)"

definition add_map_xapps_sad ::
  "map_xapps_sockaddr_t \<Rightarrow> u16 \<Rightarrow> sctp_info_t \<Rightarrow> map_xapps_sockaddr_t res" where
  "add_map_xapps_sad m xapp_id s =
     bnd (find_if_rb_tree (eq_uint16_wrapper xapp_id) (assoc_rb_tree_front (bm_left m))) (\<lambda>it.
     chk (at_end it) ''xApp ID already registered in the tree'' (
     bi_map_insert m xapp_id sizeof_uint16 s sizeof_sctp_info))"

definition find_map_xapps_sad :: "map_xapps_sockaddr_t \<Rightarrow> u16 \<Rightarrow> sctp_info_t res" where
  "find_map_xapps_sad m xapp_id =
     bnd (lookup_if (bm_left m) (eq_uint16_wrapper xapp_id)) (\<lambda>s.
     found s ''xApp ID not found in the tree'')"

definition find_map_xapps_xid :: "map_xapps_sockaddr_t \<Rightarrow> sctp_info_t \<Rightarrow> u16 res" where
  "find_map_xapps_xid m s =
     bnd (lookup_if (bm_right m) (\<lambda>k. eq_sctp_info_wrapper (Some s) (Some k))) (\<lambda>x.
     found x ''SCTP info not found in the tree'')"

section \<open>Request ids\<close>

text \<open>\<open>mr_wrlocked\<close>: the calling thread holds \<^verbatim>\<open>rw\<close> for writing.\<close>

record map_ric_id_t =
  mr_bimap :: "(e2_node_ric_id_t, xapp_ric_id_t) bi_map_t"
  mr_wrlocked :: bool

definition eq_e2_node_ric_req :: "e2_node_ric_id_t \<Rightarrow> e2_node_ric_id_t \<Rightarrow> bool res" where
  "eq_e2_node_ric_req m0 m1 = Inr (ric_req_id (en_ric_id m0) = ric_req_id (en_ric_id m1))"

definition init_map_ric_id :: "map_ric_id_t res" where
  "init_map_ric_id =
     bnd (bi_map_init sizeof_e2_node_ric_id sizeof_xapp_ric_id cmp_e2_node_ric_req_wrapper
            cmp_xapp_ric_gen_id (Some free_nothing) (Some free_nothing)) (\<lambda>bm.
     Inr \<lparr>mr_bimap = bm, mr_wrlocked = False\<rparr>)"

text \<open>
  When the lock cannot be taken the function logs an error and returns.  An existing entry with
  the same request id is replaced.
\<close>

definition add_map_ric_id ::
  "map_ric_id_t \<Rightarrow> e2_node_ric_id_t \<Rightarrow> xapp_ric_id_t \<Rightarrow> map_ric_id_t res" where
  "add_map_ric_id m node xapp =
     (if mr_wrlocked m then Inr m
      else
        bnd (find_if_rb_tree (eq_e2_node_ric_req node) (assoc_rb_tree_front (bm_left (mr_bimap m)))) (\<lambda>it.
        bnd (if at_end it then Inr (mr_bimap m)
             else bnd (bi_map_extract_left (mr_bimap m) node sizeof_e2_node_ric_id None) (\<lambda>r. Inr (fst r))) (\<lambda>bm.
        bnd (bi_map_insert bm node sizeof_e2_node_ric_id xapp sizeof_xapp_ric_id) (\<lambda>bm.
        Inr (m\<lparr>mr_bimap := bm\<rparr>)))))"

definition rm_map_ric_id :: "map_ric_id_t \<Rightarrow> xapp_ric_id_t \<Rightarrow> map_ric_id_t res" where
  "rm_map_ric_id m ric_id =
     chk (\<not> mr_wrlocked m) ''rc == 0'' (
     bnd (bi_map_extract_right (mr_bimap m) ric_id sizeof_xapp_ric_id None) (\<lambda>r.
     Inr (m\<lparr>mr_bimap := fst r\<rparr>)))"

text \<open>The request id is passed as a 16-bit integer; a failed lock gives no value.\<close>

definition find_xapp_map_ric_id :: "map_ric_id_t \<Rightarrow> u16 \<Rightarrow> xapp_ric_id_t option res" where
  "find_xapp_map_ric_id m req_id =
     (if mr_wrlocked m then Inr None
      else lookup_if (bm_left (mr_bimap m)) (\<lambda>k. Inr (ucast req_id = ric_req_id (en_ric_id k))))"

definition find_ric_req_map_ric_id :: "map_ric_id_t \<Rightarrow> xapp_ric_id_t \<Rightarrow> e2_node_ric_id_t res" where
  "find_ric_req_map_ric_id m x =
     chk (\<not> mr_wrlocked m) ''rc == 0'' (
     bnd (lookup_if (bm_right (mr_bimap m)) (\<lambda>k. Inr (eq_xapp_ric_gen_id x k))) (\<lambda>n.
     found n ''Not found xApp RIC ID ''))"

text \<open>The loop over the right tree that collects the subscriptions of one xApp.\<close>

function collect_subs ::
  "(xapp_ric_id_t \<Rightarrow> bool res) \<Rightarrow> (xapp_ric_id_t, e2_node_ric_id_t) node_it \<Rightarrow>
   e2_node_ric_id_t seq_arr_t \<Rightarrow> e2_node_ric_id_t seq_arr_t res" where
  "collect_subs f it arr =
     (if at_end it then Inr arr
      else
        bnd (assoc_rb_tree_value it) (\<lambda>n.
        bnd (if en_ric_req_type n = SUBSCRIPTION_RIC_REQUEST_TYPE
             then seq_arr_push_back arr (cp_e2_node_ric_id n) sizeof_e2_node_ric_id else Inr arr) (\<lambda>arr.
        bnd (assoc_rb_tree_next it) (\<lambda>it.
        bnd (find_if_rb_tree f it) (\<lambda>it.
        collect_subs f it arr)))))"
  by pat_completeness auto
termination
proof (relation "measure (\<lambda>(f, it, arr). length (remaining it))", goal_cases)
  case (2 f it arr n arr' it1 it2)
  then have "length (remaining it2) \<le> length (remaining it1)" "remaining it1 = tl (remaining it)"
    "remaining it \<noteq> []"
    using find_if_remaining_le remaining_next by blast+
  then show ?case
    by (cases "remaining it") auto
qed simp

declare collect_subs.simps [simp del]

definition find_all_subs_map_ric_id :: "map_ric_id_t \<Rightarrow> u16 \<Rightarrow> e2_node_ric_id_t seq_arr_t res" where
  "find_all_subs_map_ric_id m xapp_id =
     (let f = (\<lambda>k. Inr (eq_xapp_id_gen_wrapper
                 \<lparr>xr_ric_id = \<lparr>ric_req_id = 0, ric_inst_id = 0, ran_func_id = 0\<rparr>, xr_xapp_id = xapp_id\<rparr> k))
      in chk (\<not> mr_wrlocked m) ''rc == 0'' (
         bnd (find_if_rb_tree f (assoc_rb_tree_front (bm_right (mr_bimap m)))) (\<lambda>it.
         collect_subs f it (seq_arr_init sizeof_e2_node_ric_id))))"

section \<open>Active subscriptions\<close>

record subscription_entry_t =
  se_xapp_id :: u32
  se_ran_func_id :: u16
  se_ric_req_id :: u16
  se_active :: bool

text \<open>The entries up to \<^verbatim>\<open>count\<close>, and the capacity of their block.\<close>

record subscription_registry_t =
  reg_entries :: "subscription_entry_t list"
  reg_capacity :: nat

definition init_subscription_registry :: subscription_registry_t where
  "init_subscription_registry = \<lparr>reg_entries = [], reg_capacity = 32\<rparr>"

fun update_entry :: "u32 \<Rightarrow> u16 \<Rightarrow> (subscription_entry_t \<Rightarrow> subscription_entry_t) \<Rightarrow>
    subscription_entry_t list \<Rightarrow> subscription_entry_t list option" where
  "update_entry x rf f [] = None"
| "update_entry x rf f (e # es) =
     (if se_xapp_id e = x \<and> se_ran_func_id e = rf then Some (f e # es)
      else map_option (\<lambda>es. e # es) (update_entry x rf f es))"

definition register_subscription ::
  "subscription_registry_t \<Rightarrow> u32 \<Rightarrow> u16 \<Rightarrow> u16 \<Rightarrow> (subscription_registry_t \<times> bool) res" where
  "register_subscription registry xapp_id rf req_id =
     (case update_entry xapp_id rf (\<lambda>e. e\<lparr>se_ric_req_id := req_id, se_active := True\<rparr>) (reg_entries registry) of
        Some es \<Rightarrow> Inr (registry\<lparr>reg_entries := es\<rparr>, True)
      | None \<Rightarrow>
          let registry = (if length (reg_entries registry) \<ge> reg_capacity registry
                          then registry\<lparr>reg_capacity := reg_capacity registry * 2\<rparr> else registry)
          in if length (reg_entries registry) < reg_capacity registry
             then Inr (registry\<lparr>reg_entries := reg_entries registry @
                    [\<lparr>se_xapp_id = xapp_id, se_ran_func_id = rf, se_ric_req_id = req_id, se_active = True\<rparr>]\<rparr>, True)
             else Inl (Heap_Overflow ''registry->entries[registry->count]''))"

definition deactivate_subscription ::
  "subscription_registry_t \<Rightarrow> u32 \<Rightarrow> u16 \<Rightarrow> subscription_registry_t \<times> bool" where
  "deactivate_subscription registry xapp_id rf =
     (case update_entry xapp_id rf (\<lambda>e. e\<lparr>se_active := False\<rparr>) (reg_entries registry) of
        Some es \<Rightarrow> (registry\<lparr>reg_entries := es\<rparr>, True)
      | None \<Rightarrow> (registry, False))"

definition is_subscription_active :: "subscription_registry_t \<Rightarrow> u32 \<Rightarrow> u16 \<Rightarrow> bool" where
  "is_subscription_active registry xapp_id rf =
     (case List.find (\<lambda>e. se_xapp_id e = xapp_id \<and> se_ran_func_id e = rf) (reg_entries registry) of
        Some e \<Rightarrow> se_active e | None \<Rightarrow> False)"

section \<open>Invariants and laws\<close>

interpretation e2sad: bimap cmp_global_e2_node_id valid_node_id node_rank cmp_sctp any sctp_rank
  by unfold_locales

interpretation xsad: bimap cmp_uint16_wrapper any "\<lambda>x :: u16. x" cmp_sctp any sctp_rank
  by unfold_locales

interpretation ricid: bimap cmp_e2_node_ric_req_wrapper any e2_ric_rank cmp_xapp_ric_gen_id any xapp_ric_rank
  by unfold_locales

text \<open>A map with the key sizes and the release callback of its initialisation.\<close>

definition conf_ok :: "nat \<Rightarrow> nat \<Rightarrow> ('a, 'b) bi_map_t \<Rightarrow> bool" where
  "conf_ok sz1 sz2 m \<longleftrightarrow>
     rb_key_sz (bm_left m) = sz1 \<and> rb_key_sz (bm_right m) = sz2 \<and> rb_free (bm_right m) \<noteq> None"

lemma conf_ok_same: "conf_ok sz1 sz2 m \<Longrightarrow> bm_same_conf m m' \<Longrightarrow> conf_ok sz1 sz2 m'"
  by (simp add: conf_ok_def bm_same_conf_def)

definition e2_sad_ok :: "map_e2_node_sockaddr_t \<Rightarrow> bool" where
  "e2_sad_ok m \<longleftrightarrow> e2sad.inv m \<and> conf_ok sizeof_global_e2_node_id sizeof_sctp_info m"

definition xapps_sad_ok :: "map_xapps_sockaddr_t \<Rightarrow> bool" where
  "xapps_sad_ok m \<longleftrightarrow> xsad.inv m \<and> conf_ok sizeof_uint16 sizeof_sctp_info m"

definition ric_id_ok :: "map_ric_id_t \<Rightarrow> bool" where
  "ric_id_ok m \<longleftrightarrow> ricid.inv (mr_bimap m) \<and> conf_ok sizeof_e2_node_ric_id sizeof_xapp_ric_id (mr_bimap m)"

abbreviation ric_pairs :: "map_ric_id_t \<Rightarrow> (e2_node_ric_id_t \<times> xapp_ric_id_t) set" where
  "ric_pairs m \<equiv> bm_pairs (mr_bimap m)"

abbreviation node_req :: "e2_node_ric_id_t \<Rightarrow> u32" where
  "node_req n \<equiv> ric_req_id (en_ric_id n)"

lemma e2_ric_rank_eq: "e2_ric_rank a = e2_ric_rank b \<longleftrightarrow> node_req a = node_req b"
  by (simp add: word_uint_eq_iff)

lemma ric_pairs_uniq:
  "ricid.inv bm \<Longrightarrow> (n, x) \<in> bm_pairs bm \<Longrightarrow> (n', x') \<in> bm_pairs bm \<Longrightarrow>
     node_req n = node_req n' \<Longrightarrow> n = n' \<and> x = x'"
  using ricid.inv_left_uniq e2_ric_rank_eq by blast

lemma init_map_ric_id_ok:
  "\<exists>m. init_map_ric_id = Inr m \<and> ric_id_ok m \<and> ric_pairs m = {} \<and> \<not> mr_wrlocked m"
  using ricid.init_ok [of sizeof_e2_node_ric_id sizeof_xapp_ric_id "Some free_nothing" "Some free_nothing"]
  by (auto simp: init_map_ric_id_def ric_id_ok_def conf_ok_def sizeof_defs)

lemma find_eq_e2_node:
  "\<exists>it. find_if_rb_tree (eq_e2_node_ric_req node) (assoc_rb_tree_front t) = Inr it \<and>
     (at_end it \<longleftrightarrow> (\<forall>(n, x) \<in> rb_set t. node_req n \<noteq> node_req node))"
proof -
  obtain it where it: "find_if_rb_tree (eq_e2_node_ric_req node) (assoc_rb_tree_front t) = Inr it"
    "remaining it = dropWhile (\<lambda>e. \<not> node_req node = node_req (fst e)) (rb_entries t)"
    using find_if_rb_tree_ok [OF iter_front [of t], of "eq_e2_node_ric_req node" "\<lambda>k. node_req node = node_req k"]
    by (auto simp: remaining_front eq_e2_node_ric_req_def)
  have "at_end it \<longleftrightarrow> (\<forall>(n, x) \<in> rb_set t. node_req n \<noteq> node_req node)"
    unfolding at_end_remaining it(2) dropWhile_eq_Nil_conv case_prod_beta by metis
  then show ?thesis using it(1) by auto
qed

text \<open>
  Adding replaces the entry with the same request id; the xApp request must not be bound to
  another request id.
\<close>

lemma add_map_ric_id_ok:
  assumes "ric_id_ok m" "\<not> mr_wrlocked m"
    and fresh: "\<forall>(n, x) \<in> ric_pairs m. x = xapp \<longrightarrow> node_req n = node_req node"
  shows "\<exists>m'. add_map_ric_id m node xapp = Inr m' \<and> ric_id_ok m' \<and> \<not> mr_wrlocked m' \<and>
     ric_pairs m' = insert (node, xapp) {p \<in> ric_pairs m. node_req (fst p) \<noteq> node_req node}"
proof -
  let ?bm = "mr_bimap m"
  have inv: "ricid.inv ?bm" and conf: "conf_ok sizeof_e2_node_ric_id sizeof_xapp_ric_id ?bm"
    using assms(1) by (auto simp: ric_id_ok_def)
  obtain it where it: "find_if_rb_tree (eq_e2_node_ric_req node) (assoc_rb_tree_front (bm_left ?bm)) = Inr it"
    "at_end it \<longleftrightarrow> (\<forall>(n, x) \<in> ric_pairs m. node_req n \<noteq> node_req node)"
    using find_eq_e2_node [of node "bm_left ?bm"] by (elim exE conjE)
  obtain bm1 where bm1: "(if at_end it then Inr ?bm
      else bnd (bi_map_extract_left ?bm node sizeof_e2_node_ric_id None) (\<lambda>r. Inr (fst r))) = Inr bm1"
    "ricid.inv bm1" "conf_ok sizeof_e2_node_ric_id sizeof_xapp_ric_id bm1"
    "bm_pairs bm1 = {p \<in> ric_pairs m. node_req (fst p) \<noteq> node_req node}"
  proof (cases "at_end it")
    case True
    then have "ric_pairs m = {p \<in> ric_pairs m. node_req (fst p) \<noteq> node_req node}"
      using it(2) by fastforce
    then show ?thesis
      using that [of ?bm] inv conf True by simp
  next
    case False
    then obtain n x where n: "(n, x) \<in> ric_pairs m" "node_req n = node_req node"
      using it(2) by auto
    then obtain bm1 where "bi_map_extract_left ?bm node sizeof_e2_node_ric_id None = Inr (bm1, x)"
      "ricid.inv bm1" "bm_pairs bm1 = ric_pairs m - {(n, x)}" "bm_same_conf ?bm bm1"
      using ricid.extract_left_ok [OF inv n(1), of node sizeof_e2_node_ric_id None] conf
      by (auto simp: conf_ok_def call_free_def)
    moreover have "p \<in> ric_pairs m - {(n, x)} \<longleftrightarrow> p \<in> ric_pairs m \<and> node_req (fst p) \<noteq> node_req node" for p
      using n ric_pairs_uniq [OF inv n(1), of "fst p" "snd p"] by (cases p) auto
    then have "ric_pairs m - {(n, x)} = {p \<in> ric_pairs m. node_req (fst p) \<noteq> node_req node}"
      by blast
    ultimately show ?thesis
      using that [of bm1] False conf_ok_same [OF conf, of bm1] by auto
  qed
  have "\<exists>bm2. bi_map_insert bm1 node sizeof_e2_node_ric_id xapp sizeof_xapp_ric_id = Inr bm2 \<and>
      ricid.inv bm2 \<and> bm_pairs bm2 = insert (node, xapp) (bm_pairs bm1) \<and> bm_same_conf bm1 bm2"
    by (rule ricid.insert_ok)
      (use bm1(2-4) fresh in \<open>auto simp: conf_ok_def sizeof_defs simp flip: word_uint_eq_iff\<close>)
  then show ?thesis
    using it(1) bm1 assms(2) conf_ok_same [OF bm1(3)] by (auto simp: add_map_ric_id_def ric_id_ok_def)
qed

lemma find_xapp_Some:
  assumes "ric_id_ok m" "\<not> mr_wrlocked m" "(n, x) \<in> ric_pairs m" "node_req n = ucast req"
  shows "find_xapp_map_ric_id m req = Inr (Some x)"
proof -
  have inv: "ricid.inv (mr_bimap m)"
    using assms(1) by (simp add: ric_id_ok_def)
  have "lookup_if (bm_left (mr_bimap m)) (\<lambda>k. Inr (ucast req = node_req k)) = Inr (Some x)"
  proof (rule lookup_if_Some [where q = "\<lambda>k. ucast req = node_req k" and k = n])
    show "ucast req = node_req n"
      by (rule assms(4) [symmetric])
    fix k' v'
    assume "(k', v') \<in> ric_pairs m" "ucast req = node_req k'"
    then show "v' = x"
      using ric_pairs_uniq [OF inv assms(3)] assms(4) by metis
  qed (use assms(3) in auto)
  then show ?thesis
    using assms(2) by (simp add: find_xapp_map_ric_id_def)
qed

lemma find_xapp_None:
  assumes "\<not> mr_wrlocked m" "\<forall>(n, x) \<in> ric_pairs m. node_req n \<noteq> ucast req"
  shows "find_xapp_map_ric_id m req = Inr None"
proof -
  have "lookup_if (bm_left (mr_bimap m)) (\<lambda>k. Inr (ucast req = node_req k)) = Inr None"
    by (rule lookup_if_None [where q = "\<lambda>k. ucast req = node_req k"]) (use assms(2) in auto)
  then show ?thesis
    using assms(1) by (simp add: find_xapp_map_ric_id_def)
qed

lemma find_xapp_SomeD:
  assumes "find_xapp_map_ric_id m req = Inr (Some x)"
  shows "\<not> mr_wrlocked m \<and> (\<exists>n. (n, x) \<in> ric_pairs m \<and> node_req n = ucast req)"
proof -
  have l: "\<not> mr_wrlocked m" "lookup_if (bm_left (mr_bimap m)) (\<lambda>k. Inr (ucast req = node_req k)) = Inr (Some x)"
    using assms by (auto simp: find_xapp_map_ric_id_def split: if_splits)
  then show ?thesis
    using lookup_if_SomeD [of "bm_left (mr_bimap m)" "\<lambda>k. Inr (ucast req = node_req k)" "\<lambda>k. ucast req = node_req k" x]
    by auto
qed

lemma rm_map_ric_id_ok:
  assumes "ric_id_ok m" "\<not> mr_wrlocked m" "(n, x) \<in> ric_pairs m"
  shows "\<exists>m'. rm_map_ric_id m x = Inr m' \<and> ric_id_ok m' \<and> \<not> mr_wrlocked m' \<and>
     ric_pairs m' = ric_pairs m - {(n, x)}"
proof -
  have "\<exists>bm'. bi_map_extract_right (mr_bimap m) x sizeof_xapp_ric_id None = Inr (bm', n) \<and>
      ricid.inv bm' \<and> bm_pairs bm' = ric_pairs m - {(n, x)} \<and> bm_same_conf (mr_bimap m) bm'"
    by (rule ricid.extract_right_ok) (use assms in \<open>auto simp: ric_id_ok_def conf_ok_def call_free_def\<close>)
  then show ?thesis
    using assms(1,2) conf_ok_same [of sizeof_e2_node_ric_id sizeof_xapp_ric_id "mr_bimap m"]
    by (auto simp: rm_map_ric_id_def ric_id_ok_def)
qed

section \<open>Laws of the socket maps\<close>

lemma found_Some [simp]: "found (Some v) msg = Inr v" "found None msg = Inl (Assertion msg)"
  by (simp_all add: found_def)

lemma add_map_e2_node_sad_ok:
  assumes "e2_sad_ok m" "valid_node_id nid"
    and "\<forall>(a, b) \<in> bm_pairs m. a \<noteq> nid \<and> sctp_rank b \<noteq> sctp_rank s"
  shows "\<exists>m'. add_map_e2_node_sad m nid s = Inr m' \<and> e2_sad_ok m' \<and>
     bm_pairs m' = insert (nid, s) (bm_pairs m)"
proof -
  have inv: "e2sad.inv m"
    using assms(1) by (simp add: e2_sad_ok_def)
  have fresh: "\<forall>(a, b) \<in> bm_pairs m. node_rank a \<noteq> node_rank nid \<and> sctp_rank b \<noteq> sctp_rank s"
    using assms(2,3) node_rank_inj e2sad.inv_valid [OF inv] by blast
  have "\<exists>m'. bi_map_insert m nid sizeof_global_e2_node_id s sizeof_sctp_info = Inr m' \<and> e2sad.inv m' \<and>
      bm_pairs m' = insert (nid, s) (bm_pairs m) \<and> bm_same_conf m m'"
    by (rule e2sad.insert_ok [OF inv assms(2) _ _ _ _ _ fresh])
      (use assms(1) in \<open>auto simp: e2_sad_ok_def conf_ok_def sizeof_defs\<close>)
  then show ?thesis
    using assms(1) conf_ok_same [of sizeof_global_e2_node_id sizeof_sctp_info m]
    by (auto simp: add_map_e2_node_sad_def e2_sad_ok_def)
qed

text \<open>The ids whose equality test looks at all their fields.\<close>

definition plain_node :: "global_e2_node_id_t \<Rightarrow> bool" where
  "plain_node g \<longleftrightarrow> (NODE_IS_CU (gid_type g) \<longrightarrow> NODE_IS_CUUP (gid_type g))"

lemma find_map_e2_node_sad_ok:
  assumes "e2_sad_ok m" "(nid, s) \<in> bm_pairs m" "plain_node nid"
  shows "find_map_e2_node_sad m nid = Inr s"
proof -
  have inv: "e2sad.inv m"
    using assms(1) by (simp add: e2_sad_ok_def)
  have "lookup_if (bm_left m) (\<lambda>k. eq_global_e2_node_id nid k) = Inr (Some s)"
  proof (rule lookup_if_Some [where q = "\<lambda>k. nid = k" and k = nid])
    show "\<forall>e \<in> bm_pairs m. eq_global_e2_node_id nid (fst e) = Inr (nid = fst e)"
      using e2sad.inv_valid [OF inv] assms(2,3) eq_global_e2_node_id_valid
      unfolding plain_node_def by fastforce
    show "v' = s" if "(k', v') \<in> bm_pairs m" "nid = k'" for k' v'
      using e2sad.inv_left_uniq [OF inv assms(2) that(1)] that(2) by simp
  qed (use assms(2) in auto)
  then show ?thesis
    by (simp add: find_map_e2_node_sad_def)
qed

lemma rm_map_sad_e2_node_ok:
  assumes "e2_sad_ok m" "(nid, s') \<in> bm_pairs m" "sctp_rank s' = sctp_rank s"
  shows "\<exists>m'. rm_map_sad_e2_node m s = Inr (m', nid) \<and> e2_sad_ok m' \<and> bm_pairs m' = bm_pairs m - {(nid, s')}"
proof -
  have "\<exists>m'. bi_map_extract_right m s sizeof_sctp_info None = Inr (m', nid) \<and> e2sad.inv m' \<and>
      bm_pairs m' = bm_pairs m - {(nid, s')} \<and> bm_same_conf m m'"
    by (rule e2sad.extract_right_ok)
      (use assms in \<open>auto simp: e2_sad_ok_def conf_ok_def call_free_def\<close>)
  then show ?thesis
    using assms(1) conf_ok_same [of sizeof_global_e2_node_id sizeof_sctp_info m]
    by (auto simp: rm_map_sad_e2_node_def e2_sad_ok_def)
qed

lemma eq_sctp_rank: "eq_sctp_info_wrapper (Some a) (Some b) = Inr (sctp_rank a = sctp_rank b)"
  using sctp.comp_rank [of a b] by (simp add: eq_sctp_info_wrapper_def del: prod.inject)

lemma find_eq_uint16:
  "\<exists>it. find_if_rb_tree (eq_uint16_wrapper x) (assoc_rb_tree_front t) = Inr it \<and>
     (at_end it \<longleftrightarrow> x \<notin> fst ` rb_set t)"
proof -
  obtain it where it: "find_if_rb_tree (eq_uint16_wrapper x) (assoc_rb_tree_front t) = Inr it"
    "remaining it = dropWhile (\<lambda>e. \<not> x = fst e) (rb_entries t)"
    using find_if_rb_tree_ok [OF iter_front [of t], of "eq_uint16_wrapper x" "\<lambda>k. x = k"]
    by (auto simp: remaining_front eq_uint16_wrapper_def)
  have "at_end it \<longleftrightarrow> x \<notin> fst ` rb_set t"
    unfolding at_end_remaining it(2) dropWhile_eq_Nil_conv by auto
  then show ?thesis using it(1) by auto
qed

lemma add_map_xapps_sad_ok:
  assumes "xapps_sad_ok m" "\<forall>(a, b) \<in> bm_pairs m. a \<noteq> x \<and> sctp_rank b \<noteq> sctp_rank s"
  shows "\<exists>m'. add_map_xapps_sad m x s = Inr m' \<and> xapps_sad_ok m' \<and> bm_pairs m' = insert (x, s) (bm_pairs m)"
proof -
  obtain it where it: "find_if_rb_tree (eq_uint16_wrapper x) (assoc_rb_tree_front (bm_left m)) = Inr it"
    "at_end it \<longleftrightarrow> x \<notin> fst ` bm_pairs m"
    using find_eq_uint16 [of x "bm_left m"] by (elim exE conjE)
  have "x \<notin> fst ` bm_pairs m"
    using assms(2) by auto
  moreover have "\<exists>m'. bi_map_insert m x sizeof_uint16 s sizeof_sctp_info = Inr m' \<and> xsad.inv m' \<and>
      bm_pairs m' = insert (x, s) (bm_pairs m) \<and> bm_same_conf m m'"
    by (rule xsad.insert_ok [OF _ _ _ _ _ _ _ assms(2)])
      (use assms(1) in \<open>auto simp: xapps_sad_ok_def conf_ok_def sizeof_defs\<close>)
  ultimately show ?thesis
    using it assms(1) conf_ok_same [of sizeof_uint16 sizeof_sctp_info m]
    by (auto simp: add_map_xapps_sad_def xapps_sad_ok_def)
qed

lemma add_map_xapps_sad_twice:
  assumes "(x, s') \<in> bm_pairs m"
  shows "add_map_xapps_sad m x s = Inl (Assertion ''xApp ID already registered in the tree'')"
proof -
  obtain it where "find_if_rb_tree (eq_uint16_wrapper x) (assoc_rb_tree_front (bm_left m)) = Inr it"
    "at_end it \<longleftrightarrow> x \<notin> fst ` bm_pairs m"
    using find_eq_uint16 [of x "bm_left m"] by (elim exE conjE)
  moreover have "x \<in> fst ` bm_pairs m"
    using assms by force
  ultimately show ?thesis
    by (simp add: add_map_xapps_sad_def)
qed

lemma find_map_xapps_sad_ok:
  assumes "xapps_sad_ok m" "(x, s) \<in> bm_pairs m"
  shows "find_map_xapps_sad m x = Inr s"
proof -
  have inv: "xsad.inv m"
    using assms(1) by (simp add: xapps_sad_ok_def)
  have "lookup_if (bm_left m) (eq_uint16_wrapper x) = Inr (Some s)"
  proof (rule lookup_if_Some [where q = "\<lambda>k. x = k" and k = x])
    show "v' = s" if "(k', v') \<in> bm_pairs m" "x = k'" for k' v'
      using xsad.inv_left_uniq [OF inv assms(2) that(1)] that(2) by simp
  qed (use assms(2) in \<open>simp_all add: eq_uint16_wrapper_def\<close>)
  then show ?thesis
    by (simp add: find_map_xapps_sad_def)
qed

lemma find_map_xapps_sad_missing:
  assumes "x \<notin> fst ` bm_pairs m"
  shows "find_map_xapps_sad m x = Inl (Assertion ''xApp ID not found in the tree'')"
proof -
  have "lookup_if (bm_left m) (eq_uint16_wrapper x) = Inr None"
    by (rule lookup_if_None [where q = "\<lambda>k. x = k"]) (use assms in \<open>auto simp: eq_uint16_wrapper_def\<close>)
  then show ?thesis
    by (simp add: find_map_xapps_sad_def)
qed

lemma find_map_xapps_xid_ok:
  assumes "xapps_sad_ok m" "(x, s') \<in> bm_pairs m" "sctp_rank s' = sctp_rank s"
  shows "find_map_xapps_xid m s = Inr x"
proof -
  have inv: "xsad.inv m"
    using assms(1) by (simp add: xapps_sad_ok_def)
  have "lookup_if (bm_right m) (\<lambda>k. eq_sctp_info_wrapper (Some s) (Some k)) = Inr (Some x)"
  proof (rule lookup_if_Some [where q = "\<lambda>k. sctp_rank s = sctp_rank k" and k = s'])
    show "(s', x) \<in> rb_set (bm_right m)"
      using xsad.inv_right [OF inv] assms(2) by blast
    show "v' = x" if "(k', v') \<in> rb_set (bm_right m)" "sctp_rank s = sctp_rank k'" for k' v'
      using xsad.inv_right [OF inv] xsad.inv_right_uniq [OF inv assms(2)] that assms(3) by metis
  qed (use assms(3) eq_sctp_rank in \<open>simp_all del: prod.inject\<close>)
  then show ?thesis
    by (simp add: find_map_xapps_xid_def)
qed

section \<open>Laws of the request table\<close>

text \<open>
  The reverse lookup compares only the RIC ids: it needs that no two xApps use the same one.
\<close>

lemma find_ric_req_ok:
  assumes "ric_id_ok m" "\<not> mr_wrlocked m" "(n, x') \<in> ric_pairs m" "xr_ric_id x' = xr_ric_id x"
    and "\<And>n'' x''. (n'', x'') \<in> ric_pairs m \<Longrightarrow> xr_ric_id x'' = xr_ric_id x \<Longrightarrow> n'' = n"
  shows "find_ric_req_map_ric_id m x = Inr n"
proof -
  have inv: "ricid.inv (mr_bimap m)"
    using assms(1) by (simp add: ric_id_ok_def)
  have "lookup_if (bm_right (mr_bimap m)) (\<lambda>k. Inr (eq_xapp_ric_gen_id x k)) = Inr (Some n)"
  proof (rule lookup_if_Some [where q = "\<lambda>k. eq_xapp_ric_gen_id x k" and k = x'])
    show "(x', n) \<in> rb_set (bm_right (mr_bimap m))"
      using ricid.inv_right [OF inv] assms(3) by blast
    show "v' = n" if "(k', v') \<in> rb_set (bm_right (mr_bimap m))" "eq_xapp_ric_gen_id x k'" for k' v'
    proof (rule assms(5))
      show "(v', k') \<in> ric_pairs m"
        using ricid.inv_right [OF inv] that(1) by blast
      show "xr_ric_id k' = xr_ric_id x"
        using that(2) by (simp add: eq_xapp_ric_gen_id_iff)
    qed
    show "eq_xapp_ric_gen_id x x'"
      using assms(4) by (simp add: eq_xapp_ric_gen_id_iff)
  qed simp
  then show ?thesis
    using assms(2) by (simp add: find_ric_req_map_ric_id_def)
qed

text \<open>The subscriptions of an xApp in the order of the right tree.\<close>

definition xapp_subs :: "u16 \<Rightarrow> (xapp_ric_id_t \<times> e2_node_ric_id_t) list \<Rightarrow> e2_node_ric_id_t list" where
  "xapp_subs xid es =
     map snd (filter (\<lambda>e. xr_xapp_id (fst e) = xid \<and> en_ric_req_type (snd e) = SUBSCRIPTION_RIC_REQUEST_TYPE) es)"

lemma xapp_subs_dropWhile: "xapp_subs xid (dropWhile (\<lambda>e. \<not> xid = xr_xapp_id (fst e)) es) = xapp_subs xid es"
  by (induction es) (auto simp: xapp_subs_def)

lemma collect_subs_ok:
  assumes "iter_of t it" "sa_inv arr" "sa_elt_size arr = sizeof_e2_node_ric_id"
    and "f = (\<lambda>k. Inr (xid = xr_xapp_id k))"
    and "remaining it \<noteq> [] \<Longrightarrow> xr_xapp_id (fst (hd (remaining it))) = xid"
  shows "\<exists>arr'. collect_subs f it arr = Inr arr' \<and> sa_inv arr' \<and>
     sa_contents arr' = sa_contents arr @ xapp_subs xid (remaining it)"
  using assms
proof (induction "length (remaining it)" arbitrary: it arr rule: less_induct)
  case less
  show ?case
  proof (cases "remaining it")
    case Nil
    then show ?thesis
      using less.prems(2) by (subst collect_subs.simps) (simp add: at_end_remaining xapp_subs_def)
  next
    case (Cons e es)
    obtain k n where e: "e = (k, n)" by (cases e)
    have v: "assoc_rb_tree_value it = Inr n"
      using iter_value [of it k n es] Cons e by simp
    obtain it1 where it1: "assoc_rb_tree_next it = Inr it1" "iter_of t it1" "remaining it1 = es"
      using iter_next [OF less.prems(1) Cons] .
    obtain it2 where it2: "find_if_rb_tree f it1 = Inr it2" "iter_of t it2"
      "remaining it2 = dropWhile (\<lambda>e. \<not> xid = xr_xapp_id (fst e)) es"
      using find_if_rb_tree_ok [OF it1(2), of f "\<lambda>k. xid = xr_xapp_id k"] less.prems(4) it1(3) by auto
    define p where "p = (if en_ric_req_type n = SUBSCRIPTION_RIC_REQUEST_TYPE then [n] else [])"
    obtain arr1 where arr1: "(if en_ric_req_type n = SUBSCRIPTION_RIC_REQUEST_TYPE
        then seq_arr_push_back arr (cp_e2_node_ric_id n) sizeof_e2_node_ric_id else Inr arr) = Inr arr1"
      "sa_inv arr1" "sa_elt_size arr1 = sizeof_e2_node_ric_id" "sa_contents arr1 = sa_contents arr @ p"
      using push_back_ok [OF less.prems(2), of sizeof_e2_node_ric_id n] less.prems(2,3)
      by (cases "en_ric_req_type n = SUBSCRIPTION_RIC_REQUEST_TYPE") (auto simp: p_def)
    have len: "length (remaining it2) < length (remaining it)"
      using Cons it2(3) length_dropWhile_le [of _ es] by (simp add: le_imp_less_Suc)
    have "remaining it2 \<noteq> [] \<Longrightarrow> xr_xapp_id (fst (hd (remaining it2))) = xid"
      unfolding it2(3) using hd_dropWhile [of "\<lambda>e. \<not> xid = xr_xapp_id (fst e)" es] by simp
    then obtain arr' where "collect_subs f it2 arr1 = Inr arr'" "sa_inv arr'"
      "sa_contents arr' = sa_contents arr1 @ xapp_subs xid (remaining it2)"
      using less.hyps [OF len it2(2) arr1(2,3) less.prems(4)] by auto
    moreover have "collect_subs f it arr = collect_subs f it2 arr1"
      using v it1(1) it2(1) arr1(1) Cons
      by (subst collect_subs.simps) (simp add: at_end_remaining)
    moreover have "xapp_subs xid (remaining it) = p @ xapp_subs xid (remaining it2)"
      unfolding it2(3) xapp_subs_dropWhile using less.prems(5) Cons e by (auto simp: xapp_subs_def p_def)
    ultimately show ?thesis
      using arr1(4) by auto
  qed
qed

lemma find_all_subs_ok:
  assumes "\<not> mr_wrlocked m"
  shows "\<exists>arr. find_all_subs_map_ric_id m xid = Inr arr \<and> sa_inv arr \<and>
     sa_contents arr = xapp_subs xid (rb_entries (bm_right (mr_bimap m)))"
proof -
  let ?t = "bm_right (mr_bimap m)" and ?f = "\<lambda>k. Inr (xid = xr_xapp_id k) :: bool res"
  obtain it where it: "find_if_rb_tree ?f (assoc_rb_tree_front ?t) = Inr it" "iter_of (rb_root ?t) it"
    "remaining it = dropWhile (\<lambda>e. \<not> xid = xr_xapp_id (fst e)) (rb_entries ?t)"
    using find_if_rb_tree_ok [OF iter_front [of ?t], of ?f "\<lambda>k. xid = xr_xapp_id k"]
    by (auto simp: remaining_front)
  let ?a = "seq_arr_init sizeof_e2_node_ric_id :: e2_node_ric_id_t seq_arr_t"
  have a: "sa_inv ?a" "sa_contents ?a = []" "sa_elt_size ?a = sizeof_e2_node_ric_id"
    using sa_inv_init [of sizeof_e2_node_ric_id] by (auto simp: sizeof_defs seq_arr_init_def)
  have "remaining it \<noteq> [] \<Longrightarrow> xr_xapp_id (fst (hd (remaining it))) = xid"
    unfolding it(3) using hd_dropWhile [of "\<lambda>e. \<not> xid = xr_xapp_id (fst e)" "rb_entries ?t"] by simp
  then have "\<exists>arr'. collect_subs ?f it ?a = Inr arr' \<and> sa_inv arr' \<and>
      sa_contents arr' = sa_contents ?a @ xapp_subs xid (remaining it)"
    by (rule collect_subs_ok [OF it(2) a(1,3) refl])
  then show ?thesis
    using it(1,3) assms a(2) xapp_subs_dropWhile
    by (simp add: find_all_subs_map_ric_id_def eq_xapp_id_gen_wrapper_def eq_xapp_ric_gen_id2_def)
qed

section \<open>Laws of the subscription registry\<close>

abbreviation entry_key :: "subscription_entry_t \<Rightarrow> u32 \<times> u16" where
  "entry_key e \<equiv> (se_xapp_id e, se_ran_func_id e)"

text \<open>One entry for each xApp and RAN function, inside the allocated block.\<close>

definition registry_ok :: "subscription_registry_t \<Rightarrow> bool" where
  "registry_ok r \<longleftrightarrow>
     0 < reg_capacity r \<and> length (reg_entries r) \<le> reg_capacity r \<and>
     distinct (map entry_key (reg_entries r))"

lemma update_entry_None: "update_entry x rf f es = None \<longleftrightarrow> (x, rf) \<notin> set (map entry_key es)"
  by (induction es) auto

lemma update_entry_Some:
  assumes "update_entry x rf f es = Some es'" "\<And>e. entry_key (f e) = entry_key e"
  shows "map entry_key es' = map entry_key es \<and> length es' = length es \<and>
     (\<exists>e \<in> set es. entry_key e = (x, rf) \<and> List.find (\<lambda>e. entry_key e = (x, rf)) es' = Some (f e)) \<and>
     (\<forall>k. k \<noteq> (x, rf) \<longrightarrow> List.find (\<lambda>e. entry_key e = k) es' = List.find (\<lambda>e. entry_key e = k) es)"
  using assms(1)
proof (induction es arbitrary: es')
  case (Cons e es)
  show ?case
  proof (cases "entry_key e = (x, rf)")
    case True
    then have "es' = f e # es"
      using Cons.prems by simp
    then show ?thesis
      using True assms(2) [of e] by auto
  next
    case False
    then obtain es1 where es1: "update_entry x rf f es = Some es1" "es' = e # es1"
      using Cons.prems by (auto split: if_splits)
    show ?thesis
      using Cons.IH [OF es1(1)] es1(2) False by auto
  qed
qed simp

text \<open>Whether indications of a RAN function go to an xApp, as a function of the registry.\<close>

definition active_key :: "subscription_entry_t list \<Rightarrow> u32 \<times> u16 \<Rightarrow> bool" where
  "active_key es k = (case List.find (\<lambda>e. entry_key e = k) es of Some e \<Rightarrow> se_active e | None \<Rightarrow> False)"

lemma is_subscription_active_key: "is_subscription_active r x rf = active_key (reg_entries r) (x, rf)"
  by (simp add: is_subscription_active_def active_key_def)

lemma active_key_update:
  assumes "update_entry x rf f es = Some es'" "\<And>e. entry_key (f e) = entry_key e"
    and "\<And>e. se_active (f e) = b"
  shows "active_key es' k = (if k = (x, rf) then b else active_key es k)"
proof (cases "k = (x, rf)")
  case True
  then show ?thesis
    using update_entry_Some [OF assms(1,2)] assms(3) by (auto simp: active_key_def simp del: prod.inject)
next
  case False
  then have "List.find (\<lambda>e. entry_key e = k) es' = List.find (\<lambda>e. entry_key e = k) es"
    using update_entry_Some [OF assms(1,2)] by blast
  then show ?thesis
    using False by (simp add: active_key_def)
qed

lemma active_key_append:
  assumes "entry_key e \<notin> set (map entry_key es)"
  shows "active_key (es @ [e]) k = (if k = entry_key e then se_active e else active_key es k)"
proof -
  have "List.find (\<lambda>e'. entry_key e' = entry_key e) es = None"
    using assms unfolding find_eq_None set_map image_iff by metis
  then show ?thesis
    by (auto simp: active_key_def find_append simp del: prod.inject split: option.split)
qed

lemma active_key_absent: "k \<notin> set (map entry_key es) \<Longrightarrow> \<not> active_key es k"
proof -
  assume "k \<notin> set (map entry_key es)"
  then have "List.find (\<lambda>e. entry_key e = k) es = None"
    unfolding find_eq_None set_map image_iff by metis
  then show ?thesis by (simp add: active_key_def)
qed

lemma register_subscription_ok:
  assumes "registry_ok r"
  shows "\<exists>r'. register_subscription r x rf req = Inr (r', True) \<and> registry_ok r' \<and>
     (\<forall>k. active_key (reg_entries r') k = (k = (x, rf) \<or> active_key (reg_entries r) k))"
proof (cases "update_entry x rf (\<lambda>e. e\<lparr>se_ric_req_id := req, se_active := True\<rparr>) (reg_entries r)")
  case None
  let ?e = "\<lparr>se_xapp_id = x, se_ran_func_id = rf, se_ric_req_id = req, se_active = True\<rparr>"
  have new: "entry_key ?e \<notin> set (map entry_key (reg_entries r))"
    using None by (simp add: update_entry_None del: set_map)
  define r1 where "r1 = (if length (reg_entries r) \<ge> reg_capacity r
      then r\<lparr>reg_capacity := reg_capacity r * 2\<rparr> else r)"
  have r1: "reg_entries r1 = reg_entries r" "length (reg_entries r1) < reg_capacity r1"
    using assms by (auto simp: r1_def registry_ok_def)
  have "register_subscription r x rf req = Inr (r1\<lparr>reg_entries := reg_entries r @ [?e]\<rparr>, True)"
    using None r1 by (simp add: register_subscription_def r1_def Let_def)
  moreover have "registry_ok (r1\<lparr>reg_entries := reg_entries r @ [?e]\<rparr>)"
    using assms new r1 by (auto simp: registry_ok_def)
  ultimately show ?thesis
    using active_key_append [OF new] by auto
next
  case (Some es)
  have "map entry_key es = map entry_key (reg_entries r)" "length es = length (reg_entries r)"
    using update_entry_Some [OF Some] by auto
  then show ?thesis
    using Some assms active_key_update [OF Some, where b = True]
    by (auto simp: register_subscription_def registry_ok_def split: if_splits)
qed

lemma deactivate_subscription_ok:
  assumes "registry_ok r" "deactivate_subscription r x rf = (r', b)"
  shows "registry_ok r' \<and>
     (\<forall>k. active_key (reg_entries r') k = (k \<noteq> (x, rf) \<and> active_key (reg_entries r) k))"
proof (cases "update_entry x rf (\<lambda>e. e\<lparr>se_active := False\<rparr>) (reg_entries r)")
  case None
  then have "\<not> active_key (reg_entries r) (x, rf)"
    by (intro active_key_absent) (simp add: update_entry_None)
  then show ?thesis
    using None assms by (auto simp: deactivate_subscription_def)
next
  case (Some es)
  have "map entry_key es = map entry_key (reg_entries r)" "length es = length (reg_entries r)"
    using update_entry_Some [OF Some] by auto
  then show ?thesis
    using Some assms active_key_update [OF Some, where b = False]
    by (auto simp: deactivate_subscription_def registry_ok_def split: if_splits)
qed

section \<open>Properties of the address books\<close>

text \<open>
  C34.  The request table routes responses: after a request id of an E2 node is bound to a
  request of an xApp, the lookup of the id gives that xApp request, every other id keeps its
  binding, and after the removal of the xApp request the id is not bound any more.
\<close>

theorem map_ric_id_routing:
  assumes "ric_id_ok m" "\<not> mr_wrlocked m"
    and "\<forall>(n, x) \<in> ric_pairs m. x = xapp \<longrightarrow> node_req n = node_req node"
    and "node_req node = ucast req"
  shows "\<exists>m1 m2. add_map_ric_id m node xapp = Inr m1 \<and> ric_id_ok m1 \<and>
     find_xapp_map_ric_id m1 req = Inr (Some xapp) \<and>
     ric_pairs m1 = insert (node, xapp) {p \<in> ric_pairs m. node_req (fst p) \<noteq> node_req node} \<and>
     rm_map_ric_id m1 xapp = Inr m2 \<and> ric_id_ok m2 \<and> find_xapp_map_ric_id m2 req = Inr None"
proof -
  obtain m1 where m1: "add_map_ric_id m node xapp = Inr m1" "ric_id_ok m1" "\<not> mr_wrlocked m1"
    "ric_pairs m1 = insert (node, xapp) {p \<in> ric_pairs m. node_req (fst p) \<noteq> node_req node}"
    using add_map_ric_id_ok [OF assms(1-3)] by blast
  then have in1: "(node, xapp) \<in> ric_pairs m1"
    by simp
  obtain m2 where m2: "rm_map_ric_id m1 xapp = Inr m2" "ric_id_ok m2" "\<not> mr_wrlocked m2"
    "ric_pairs m2 = ric_pairs m1 - {(node, xapp)}"
    using rm_map_ric_id_ok [OF m1(2,3) in1] by blast
  have "\<forall>(n, x) \<in> ric_pairs m2. node_req n \<noteq> ucast req"
    using m1(4) m2(4) assms(4) by auto
  then have "find_xapp_map_ric_id m2 req = Inr None"
    by (rule find_xapp_None [OF m2(3)])
  moreover have "find_xapp_map_ric_id m1 req = Inr (Some xapp)"
    by (rule find_xapp_Some [OF m1(2,3) in1 assms(4)])
  ultimately show ?thesis
    using m1 m2 by auto
qed

definition node_gnb :: global_e2_node_id_t where
  "node_gnb = \<lparr>gid_type = ngran_gNB, gid_plmn = \<lparr>mcc = 1, mnc = 1, mnc_digit_len = 2\<rparr>,
     gid_nb_id = \<lparr>nb_id = 3584, unused = 0\<rparr>, cu_du_id = None\<rparr>"

definition request_7 :: e2_node_ric_id_t where
  "request_7 = \<lparr>en_e2_node_id = node_gnb, en_ric_id = \<lparr>ric_req_id = 7, ric_inst_id = 0, ran_func_id = 142\<rparr>,
     en_ric_req_type = SUBSCRIPTION_RIC_REQUEST_TYPE\<rparr>"

definition xapp_request :: xapp_ric_id_t where
  "xapp_request = \<lparr>xr_ric_id = \<lparr>ric_req_id = 1, ric_inst_id = 0, ran_func_id = 142\<rparr>, xr_xapp_id = 8\<rparr>"

theorem map_ric_id_routing_witness:
  "\<exists>m m1 m2. init_map_ric_id = Inr m \<and> add_map_ric_id m request_7 xapp_request = Inr m1 \<and>
     find_xapp_map_ric_id m1 7 = Inr (Some xapp_request) \<and>
     rm_map_ric_id m1 xapp_request = Inr m2 \<and> find_xapp_map_ric_id m2 7 = Inr None"
proof -
  obtain m where "init_map_ric_id = Inr m" "ric_id_ok m" "ric_pairs m = {}" "\<not> mr_wrlocked m"
    using init_map_ric_id_ok by blast
  then show ?thesis
    using map_ric_id_routing [of m xapp_request request_7 7] by (auto simp: request_7_def)
qed

text \<open>
  When a table operation finds the lock already held for writing by its own thread, the
  new binding is lost: the table does not change, and lookups give nothing.
\<close>

theorem map_ric_id_locked:
  "add_map_ric_id (m\<lparr>mr_wrlocked := True\<rparr>) node xapp = Inr (m\<lparr>mr_wrlocked := True\<rparr>)
   \<and> find_xapp_map_ric_id (m\<lparr>mr_wrlocked := True\<rparr>) req = Inr None
   \<and> rm_map_ric_id (m\<lparr>mr_wrlocked := True\<rparr>) xapp = Inl (Assertion ''rc == 0'')"
  by (simp add: add_map_ric_id_def find_xapp_map_ric_id_def rm_map_ric_id_def)

text \<open>
  The E2 node table: a node registered with its socket is found under its id (when its
  type is no central unit, or CU-UP), and removing its socket returns its id and restores the
  table.
\<close>

theorem map_e2_node_sad_roundtrip:
  assumes "e2_sad_ok m" "valid_node_id nid" "plain_node nid"
    and "\<forall>(a, b) \<in> bm_pairs m. a \<noteq> nid \<and> sctp_rank b \<noteq> sctp_rank s"
  shows "\<exists>m1 m2. add_map_e2_node_sad m nid s = Inr m1 \<and> e2_sad_ok m1 \<and>
     find_map_e2_node_sad m1 nid = Inr s \<and>
     rm_map_sad_e2_node m1 s = Inr (m2, nid) \<and> e2_sad_ok m2 \<and> bm_pairs m2 = bm_pairs m"
proof -
  obtain m1 where m1: "add_map_e2_node_sad m nid s = Inr m1" "e2_sad_ok m1"
    "bm_pairs m1 = insert (nid, s) (bm_pairs m)"
    using add_map_e2_node_sad_ok [OF assms(1,2,4)] by blast
  then have in1: "(nid, s) \<in> bm_pairs m1"
    by simp
  obtain m2 where "rm_map_sad_e2_node m1 s = Inr (m2, nid)" "e2_sad_ok m2"
    "bm_pairs m2 = bm_pairs m1 - {(nid, s)}"
    using rm_map_sad_e2_node_ok [OF m1(2) in1 refl] by blast
  moreover have "(nid, s) \<notin> bm_pairs m"
    using assms(4) by auto
  ultimately show ?thesis
    using m1 find_map_e2_node_sad_ok [OF m1(2) in1 assms(3)] by auto
qed

definition peer :: "u16 \<Rightarrow> sctp_info_t" where
  "peer port = \<lparr>sin_port = port, sin_s_addr = 0x0100007F, sin_family = 2,
     sri = \<lparr>sinfo_stream = 0, sinfo_ssn = 0, sinfo_flags = 0, sinfo_ppid = 0, sinfo_context = 0,
            sinfo_timetolive = 0, sinfo_tsn = 0, sinfo_cumtsn = 0, sinfo_assoc_id = 1\<rparr>\<rparr>"

theorem map_e2_node_sad_roundtrip_witness:
  "\<exists>m m1 m2. init_map_e2_node_sad = Inr m \<and> add_map_e2_node_sad m node_gnb (peer 5000) = Inr m1 \<and>
     find_map_e2_node_sad m1 node_gnb = Inr (peer 5000) \<and>
     rm_map_sad_e2_node m1 (peer 5000) = Inr (m2, node_gnb) \<and> bm_pairs m2 = {}"
proof -
  have "valid_node_id node_gnb" "plain_node node_gnb"
    by (auto simp: node_gnb_def valid_node_id_def plain_node_def NODE_IS_CU_def NODE_IS_DU_def)
  moreover obtain m where "init_map_e2_node_sad = Inr m" "e2_sad_ok m" "bm_pairs m = {}"
    using e2sad.init_ok [of sizeof_global_e2_node_id sizeof_sctp_info "Some free_nothing" "Some free_nothing"]
    by (auto simp: init_map_e2_node_sad_def e2_sad_ok_def conf_ok_def sizeof_defs)
  ultimately show ?thesis
    using map_e2_node_sad_roundtrip [of m node_gnb "peer 5000"] by auto
qed

text \<open>
  Two central units of one gNB are different keys of the table, but the lookup does not
  tell them apart: the socket found for the one is the socket of the other.
\<close>

definition node_cu :: "u64 \<Rightarrow> global_e2_node_id_t" where
  "node_cu c = \<lparr>gid_type = ngran_gNB_CU, gid_plmn = \<lparr>mcc = 1, mnc = 1, mnc_digit_len = 2\<rparr>,
     gid_nb_id = \<lparr>nb_id = 3584, unused = 0\<rparr>, cu_du_id = Some c\<rparr>"

theorem two_central_units_confused:
  "bnd init_map_e2_node_sad (\<lambda>m.
   bnd (add_map_e2_node_sad m (node_cu 1) (peer 5000)) (\<lambda>m.
   bnd (add_map_e2_node_sad m (node_cu 2) (peer 6000)) (\<lambda>m.
   find_map_e2_node_sad m (node_cu 1)))) = Inr (peer 6000)"
  by code_simp

text \<open>
  When an xApp leaves, the table gives exactly its subscriptions, in key order, and none
  of its control requests.
\<close>

theorem find_all_subs_correct:
  assumes "\<not> mr_wrlocked m"
  shows "\<exists>arr. find_all_subs_map_ric_id m xid = Inr arr \<and> sa_inv arr \<and>
     sa_contents arr = map snd (filter (\<lambda>e. xr_xapp_id (fst e) = xid \<and>
       en_ric_req_type (snd e) = SUBSCRIPTION_RIC_REQUEST_TYPE) (rb_entries (bm_right (mr_bimap m))))"
  using find_all_subs_ok [OF assms, of xid] by (simp add: xapp_subs_def)

theorem find_all_subs_witness:
  "\<exists>m m1 arr. init_map_ric_id = Inr m \<and> add_map_ric_id m request_7 xapp_request = Inr m1 \<and>
     find_all_subs_map_ric_id m1 8 = Inr arr \<and> set (sa_contents arr) = {request_7}"
proof -
  obtain m where m: "init_map_ric_id = Inr m" "ric_id_ok m" "ric_pairs m = {}" "\<not> mr_wrlocked m"
    using init_map_ric_id_ok by blast
  then obtain m1 where m1: "add_map_ric_id m request_7 xapp_request = Inr m1" "ric_id_ok m1"
    "\<not> mr_wrlocked m1" "ric_pairs m1 = {(request_7, xapp_request)}"
    using add_map_ric_id_ok [OF m(2,4), of xapp_request request_7] by auto
  have "rb_set (bm_right (mr_bimap m1)) = {(xapp_request, request_7)}"
    using m1(2,4) by (auto simp: ric_id_ok_def bm_inv_def)
  then show ?thesis
    using find_all_subs_correct [OF m1(3), of 8] m(1) m1(1)
    by (auto simp: request_7_def xapp_request_def)
qed

text \<open>
  The subscription registry: registering an xApp for a RAN function never writes outside
  the entries, makes exactly this pair active and leaves every other pair as it was;
  deactivating makes exactly this pair inactive.
\<close>

theorem subscription_registry_correct:
  assumes "registry_ok r"
  shows "\<exists>r'. register_subscription r x rf req = Inr (r', True) \<and> registry_ok r' \<and>
     (\<forall>x' rf'. is_subscription_active r' x' rf' =
        ((x', rf') = (x, rf) \<or> is_subscription_active r x' rf')) \<and>
     registry_ok (fst (deactivate_subscription r x rf)) \<and>
     (\<forall>x' rf'. is_subscription_active (fst (deactivate_subscription r x rf)) x' rf' =
        ((x', rf') \<noteq> (x, rf) \<and> is_subscription_active r x' rf'))"
  using register_subscription_ok [OF assms, of x rf req]
    deactivate_subscription_ok [OF assms prod.collapse [symmetric], of x rf]
  by (auto simp: is_subscription_active_key simp del: prod.inject)

theorem subscription_registry_witness:
  "\<exists>r'. register_subscription init_subscription_registry 8 142 1 = Inr (r', True) \<and>
     is_subscription_active r' 8 142 \<and> \<not> is_subscription_active r' 9 142"
proof -
  have "registry_ok init_subscription_registry"
    by (simp add: registry_ok_def init_subscription_registry_def)
  then show ?thesis
    using subscription_registry_correct [of init_subscription_registry 8 142 1]
    by (auto simp: is_subscription_active_def init_subscription_registry_def)
qed

end
