(* ===== verification/E2_Registry.thy ===== *)
theory E2_Registry
  imports E2ap_Msg Seq_Arr Bi_Map Ric_Maps
begin

text \<open>
  The registry of the E2 nodes that the iApp offers to the xApps
  (\<^verbatim>\<open>lib/msg_hand/reg_e2_nodes.c\<close>): a red-black tree from the node ids to the RAN functions and
  the component configurations of the setup request.  Every operation runs under the mutex of
  the registry.

  The registry stands for the list \<open>reg_nodes\<close> of connected nodes, sorted by their ids.  The
  lemmas say which list every operation leaves, that the copy handed to an xApp is this list
  while it has less than 256 nodes, and that the copy overruns its block from 256 nodes on.
\<close>

section \<open>Data and operations\<close>

record pair_rf_cca_t =
  prf_ran_func :: "ran_function_t seq_arr_t"
  prf_comp_conf_add :: "e2ap_node_component_config_add_t seq_arr_t"

record reg_e2_nodes_t =
  node_to_rf :: "(global_e2_node_id_t, pair_rf_cca_t) assoc_rb_tree_t"

definition sizeof_ran_function :: nat where "sizeof_ran_function = 40"
definition sizeof_cca :: nat where "sizeof_cca = 88"

definition supported_type :: "e2ap_node_comp_id_t \<Rightarrow> bool" where
  "supported_type c =
     (case c of Ng_Amf_Name _ \<Rightarrow> True | F1_Gnb_Du_Id _ \<Rightarrow> True | E1_Gnb_Cu_Up_Id _ \<Rightarrow> True
      | S1_Mme_Name _ \<Rightarrow> True | _ \<Rightarrow> False)"

definition free_e2ap_node_comp_id :: "e2ap_node_comp_id_t \<Rightarrow> unit res" where
  "free_e2ap_node_comp_id src = chk (supported_type src) ''Only these types supported'' (Inr ())"

text \<open>The release of a value; the other parts of it are released without a check.\<close>

definition free_pair_rf_cca :: "pair_rf_cca_t \<Rightarrow> unit res" where
  "free_pair_rf_cca src =
     for_arr (\<lambda>cca _. free_e2ap_node_comp_id (cca_id cca)) (prf_comp_conf_add src) ()"

definition free_e2_nodes :: "global_e2_node_id_t \<Rightarrow> pair_rf_cca_t \<Rightarrow> unit res" where
  "free_e2_nodes key p = free_pair_rf_cca p"

definition init_reg_e2_node :: "reg_e2_nodes_t res" where
  "init_reg_e2_node =
     bnd (assoc_rb_tree_init sizeof_global_e2_node_id cmp_global_e2_node_id (Some free_e2_nodes)) (\<lambda>t.
     Inr \<lparr>node_to_rf = t\<rparr>)"

definition add_reg_e2_node ::
  "reg_e2_nodes_t \<Rightarrow> global_e2_node_id_t \<Rightarrow> ran_function_t list \<Rightarrow>
   e2ap_node_component_config_add_t list \<Rightarrow> reg_e2_nodes_t res" where
  "add_reg_e2_node i nid ran_func cca =
     chk (0 < length ran_func) ''len_rf > 0'' (
     chk (0 < length cca) ''len_cca > 0'' (
     bnd (fold_res (\<lambda>rf arr. seq_arr_push_back arr (cp_ran_function rf) sizeof_ran_function) ran_func
            (seq_arr_init sizeof_ran_function)) (\<lambda>arr_rf.
     bnd (fold_res (\<lambda>c arr. bnd (cp_e2ap_node_component_config_add c) (\<lambda>tmp.
                            seq_arr_push_back arr tmp sizeof_cca)) cca
            (seq_arr_init sizeof_cca)) (\<lambda>arr_cca.
     bnd (if assoc_rb_tree_size (node_to_rf i) > 0
          then bnd (find_if_rb_tree (eq_global_e2_node_id nid) (assoc_rb_tree_front (node_to_rf i))) (\<lambda>it.
               chk (at_end it) ''Trying to add an already existing E2 Node'' (Inr ()))
          else Inr ()) (\<lambda>_.
     bnd (assoc_rb_tree_insert (node_to_rf i) (cp_global_e2_node_id nid) sizeof_global_e2_node_id
            \<lparr>prf_ran_func = arr_rf, prf_comp_conf_add = arr_cca\<rparr>) (\<lambda>t.
     Inr (i\<lparr>node_to_rf := t\<rparr>)))))))"

definition sz_reg_e2_node :: "reg_e2_nodes_t \<Rightarrow> nat" where
  "sz_reg_e2_node n = assoc_rb_tree_size (node_to_rf n)"

text \<open>The body of the loop that copies the tree: one node with its two arrays.\<close>

definition cp_node_entry ::
  "global_e2_node_id_t \<Rightarrow> pair_rf_cca_t \<Rightarrow> (global_e2_node_id_t, pair_rf_cca_t) assoc_rb_tree_t \<Rightarrow>
   (global_e2_node_id_t, pair_rf_cca_t) assoc_rb_tree_t res" where
  "cp_node_entry tmp rf_cca ans =
     bnd (for_arr (\<lambda>rf arr. seq_arr_push_back arr (cp_ran_function rf) sizeof_ran_function)
            (prf_ran_func rf_cca) (seq_arr_init sizeof_ran_function)) (\<lambda>dst_rf.
     bnd (for_arr (\<lambda>c arr. bnd (cp_e2ap_node_component_config_add c) (\<lambda>cp. seq_arr_push_back arr cp sizeof_cca))
            (prf_comp_conf_add rf_cca) (seq_arr_init sizeof_cca)) (\<lambda>dst_cca.
     assoc_rb_tree_insert ans (cp_global_e2_node_id tmp) sizeof_global_e2_node_id
       \<lparr>prf_ran_func = dst_rf, prf_comp_conf_add = dst_cca\<rparr>))"

definition cp_reg_e2_node :: "reg_e2_nodes_t \<Rightarrow> (global_e2_node_id_t, pair_rf_cca_t) assoc_rb_tree_t res" where
  "cp_reg_e2_node n =
     bnd (assoc_rb_tree_init sizeof_global_e2_node_id cmp_global_e2_node_id (Some free_e2_nodes)) (\<lambda>ans.
     bnd (for_tree cp_node_entry (assoc_rb_tree_front (node_to_rf n)) ans) (\<lambda>ans.
     chk (assoc_rb_tree_size ans = assoc_rb_tree_size (node_to_rf n))
       ''assoc_size(&ans) == assoc_size(&n->node_to_rf)'' (
     Inr ans)))"

text \<open>The copy of the configurations of one node for the message to an xApp.\<close>

definition cp_cca ::
  "e2ap_node_component_config_add_t seq_arr_t \<Rightarrow> e2ap_node_component_config_add_t list res" where
  "cp_cca cca_arr =
     (let sz_cca = seq_arr_size cca_arr in
      chk (sz_cca > 0 \<and> sz_cca < 256) ''sz_cca > 0 && sz_cca < 256'' (
      for_arr (\<lambda>c dst. bnd (cp_e2ap_node_component_config_add c) (\<lambda>c. Inr (dst @ [c]))) cca_arr []))"

text \<open>
  The array of the connected nodes has an 8-bit length, taken from the size of the tree; its
  block has that many elements, and the loop writes one element for every node of the tree.
\<close>

definition gen_node ::
  "nat \<Rightarrow> global_e2_node_id_t \<Rightarrow> pair_rf_cca_t \<Rightarrow> e2_node_connected_t list \<Rightarrow> e2_node_connected_t list res" where
  "gen_node len tmp_id rf_cca dst =
     (if length dst < len then
         bnd (cp_cca (prf_comp_conf_add rf_cca)) (\<lambda>cca.
         bnd (for_arr (\<lambda>r rf. Inr (rf @ [cp_ran_function r])) (prf_ran_func rf_cca) []) (\<lambda>rf.
         Inr (dst @ [\<lparr>con_id = cp_global_e2_node_id tmp_id, con_cca = cca, con_ack_rf = rf\<rparr>])))
       else Inl (Heap_Overflow ''dst.n[i]''))"

definition generate_e2_node_arr :: "reg_e2_nodes_t \<Rightarrow> e2_node_connected_t list res" where
  "generate_e2_node_arr n =
     bnd (cp_reg_e2_node n) (\<lambda>t.
     let len = of_nat (assoc_rb_tree_size t) :: u8 in
     for_tree (gen_node (unat len)) (assoc_rb_tree_front t) [])"

definition rm_reg_e2_node :: "reg_e2_nodes_t \<Rightarrow> global_e2_node_id_t \<Rightarrow> reg_e2_nodes_t res" where
  "rm_reg_e2_node n nid =
     bnd (find_if_rb_tree (eq_global_e2_node_id nid) (assoc_rb_tree_front (node_to_rf n))) (\<lambda>it.
     chk (\<not> at_end it) ''Not registed e2 Node passed'' (
     bnd (assoc_rb_tree_free_it (node_to_rf n) it) (\<lambda>t.
     Inr (n\<lparr>node_to_rf := t\<rparr>))))"

section \<open>The registry as a list of nodes\<close>

definition node_entry :: "global_e2_node_id_t \<times> pair_rf_cca_t \<Rightarrow> e2_node_connected_t" where
  "node_entry e =
     \<lparr>con_id = fst e, con_cca = sa_contents (prf_comp_conf_add (snd e)),
      con_ack_rf = sa_contents (prf_ran_func (snd e))\<rparr>"

definition reg_nodes :: "reg_e2_nodes_t \<Rightarrow> e2_node_connected_t list" where
  "reg_nodes r = map node_entry (rb_entries (node_to_rf r))"

text \<open>The entries whose configurations can be copied and counted in 8 bits.\<close>

definition entry_ok :: "pair_rf_cca_t \<Rightarrow> bool" where
  "entry_ok p \<longleftrightarrow>
     sa_inv (prf_ran_func p) \<and> sa_inv (prf_comp_conf_add p) \<and>
     0 < sa_size (prf_comp_conf_add p) \<and> sa_size (prf_comp_conf_add p) < 256 \<and>
     (\<forall>c \<in> set (sa_contents (prf_comp_conf_add p)). supported_cca c)"

definition tree_ok :: "(global_e2_node_id_t, pair_rf_cca_t) assoc_rb_tree_t \<Rightarrow> bool" where
  "tree_ok t \<longleftrightarrow>
     rb_inv cmp_global_e2_node_id valid_node_id node_rank t \<and> rb_uniq node_rank t \<and>
     rb_key_sz t = sizeof_global_e2_node_id \<and> rb_free t = Some free_e2_nodes \<and>
     (\<forall>e \<in> rb_set t. entry_ok (snd e))"

definition reg_ok :: "reg_e2_nodes_t \<Rightarrow> bool" where
  "reg_ok r \<longleftrightarrow> tree_ok (node_to_rf r)"

lemma init_reg_e2_node_ok: "\<exists>r. init_reg_e2_node = Inr r \<and> reg_ok r \<and> reg_nodes r = []"
  by (simp add: init_reg_e2_node_def assoc_rb_tree_init_def sizeof_defs reg_ok_def tree_ok_def
      rb_inv_def rb_uniq_def rb_ok_def reg_nodes_def)

lemma supported_free: "supported_cca c \<Longrightarrow> free_e2ap_node_comp_id (cca_id c) = Inr ()"
  by (cases "cca_id c")
    (auto simp: supported_cca_def cp_e2ap_node_comp_id_def free_e2ap_node_comp_id_def supported_type_def)

lemma free_entry_ok: "entry_ok p \<Longrightarrow> free_e2_nodes k p = Inr ()"
  unfolding free_e2_nodes_def free_pair_rf_cca_def
  by (auto simp: entry_ok_def for_arr_ok supported_free intro!: trans [OF fold_res_total [where g = "\<lambda>_ _. ()"]])

lemma cp_rf_ok:
  "\<exists>arr. fold_res (\<lambda>rf arr. seq_arr_push_back arr (cp_ran_function rf) sizeof_ran_function) rfs
     (seq_arr_init sizeof_ran_function) = Inr arr \<and> sa_inv arr \<and> sa_contents arr = rfs"
  using push_list_ok [of sizeof_ran_function rfs] by (auto simp: sizeof_ran_function_def)

lemma cp_cca_ok:
  assumes "\<forall>c \<in> set ccas. supported_cca c"
  shows "\<exists>arr. fold_res (\<lambda>c arr. bnd (cp_e2ap_node_component_config_add c) (\<lambda>tmp.
             seq_arr_push_back arr tmp sizeof_cca)) ccas (seq_arr_init sizeof_cca) = Inr arr \<and>
     sa_inv arr \<and> sa_contents arr = ccas"
proof -
  have "fold_res (\<lambda>c arr. bnd (cp_e2ap_node_component_config_add c) (\<lambda>tmp. seq_arr_push_back arr tmp sizeof_cca))
      ccas (seq_arr_init sizeof_cca) =
    fold_res (\<lambda>c arr. seq_arr_push_back arr c sizeof_cca) ccas (seq_arr_init sizeof_cca)"
    by (rule fold_res_cong) (use assms in \<open>auto simp: cp_cca_supported\<close>)
  then show ?thesis
    using push_list_ok [of sizeof_cca ccas] by (auto simp: sizeof_cca_def)
qed

lemma tree_insert_ok:
  assumes "tree_ok t" "valid_node_id k" "entry_ok p" "\<forall>e \<in> rb_set t. node_rank (fst e) \<noteq> node_rank k"
  shows "\<exists>t'. assoc_rb_tree_insert t k sizeof_global_e2_node_id p = Inr t' \<and> tree_ok t' \<and>
     rb_entries t' = put_after node_rank k p (rb_entries t)"
proof -
  have t: "rb_inv cmp_global_e2_node_id valid_node_id node_rank t"
    "sizeof_global_e2_node_id = rb_key_sz t"
    using assms(1) by (auto simp: tree_ok_def)
  obtain t' where t': "assoc_rb_tree_insert t k sizeof_global_e2_node_id p = Inr t'"
    "rb_inv cmp_global_e2_node_id valid_node_id node_rank t'" "rb_key_sz t' = rb_key_sz t" "rb_free t' = rb_free t"
    "rb_entries t' = put_after node_rank k p (rb_entries t)"
    using gnode.rb_insert_ok [OF t(1) assms(2) t(2), of p] by blast
  have "rb_uniq node_rank t'"
    using assms(1,4) unfolding rb_uniq_def t'(5) distinct_put_after tree_ok_def by force
  then show ?thesis
    using t' assms(1,3) by (auto simp: tree_ok_def set_put_after)
qed

section \<open>Adding and removing nodes\<close>

lemma eq_node_found:
  assumes "tree_ok t" "valid_node_id nid" "plain_node nid"
  shows "\<exists>it. find_if_rb_tree (eq_global_e2_node_id nid) (assoc_rb_tree_front t) = Inr it \<and>
     iter_of (rb_root t) it \<and> remaining it = dropWhile (\<lambda>e. nid \<noteq> fst e) (rb_entries t)"
proof -
  have "\<forall>e \<in> rb_set t. eq_global_e2_node_id nid (fst e) = Inr (nid = fst e)"
    using assms eq_global_e2_node_id_valid by (auto simp: tree_ok_def rb_inv_def plain_node_def)
  then show ?thesis
    using find_if_rb_tree_ok [OF iter_front [of t], of "eq_global_e2_node_id nid" "\<lambda>k. nid = k"]
    by (auto simp: remaining_front)
qed

lemma add_reg_e2_node_ok:
  assumes "reg_ok r" "valid_node_id nid" "plain_node nid"
    and "rfs \<noteq> []" "ccas \<noteq> []" "length ccas < 256" "\<forall>c \<in> set ccas. supported_cca c"
    and "\<forall>n \<in> set (reg_nodes r). con_id n \<noteq> nid"
  shows "\<exists>r'. add_reg_e2_node r nid rfs ccas = Inr r' \<and> reg_ok r' \<and>
     set (reg_nodes r') = insert \<lparr>con_id = nid, con_cca = ccas, con_ack_rf = rfs\<rparr> (set (reg_nodes r)) \<and>
     length (reg_nodes r') = length (reg_nodes r) + 1"
proof -
  let ?t = "node_to_rf r"
  obtain a where a: "fold_res (\<lambda>rf arr. seq_arr_push_back arr (cp_ran_function rf) sizeof_ran_function) rfs
     (seq_arr_init sizeof_ran_function) = Inr a" "sa_inv a" "sa_contents a = rfs"
    using cp_rf_ok by blast
  obtain c where c: "fold_res (\<lambda>c arr. bnd (cp_e2ap_node_component_config_add c) (\<lambda>tmp.
             seq_arr_push_back arr tmp sizeof_cca)) ccas (seq_arr_init sizeof_cca) = Inr c"
    "sa_inv c" "sa_contents c = ccas"
    using cp_cca_ok [OF assms(7)] by blast
  let ?p = "\<lparr>prf_ran_func = a, prf_comp_conf_add = c\<rparr>"
  have t: "tree_ok ?t" and fresh: "\<forall>e \<in> rb_set ?t. fst e \<noteq> nid"
    using assms(1,8) by (auto simp: reg_ok_def reg_nodes_def node_entry_def)
  obtain it where it: "find_if_rb_tree (eq_global_e2_node_id nid) (assoc_rb_tree_front ?t) = Inr it"
    "remaining it = dropWhile (\<lambda>e. nid \<noteq> fst e) (rb_entries ?t)"
    using eq_node_found [OF t assms(2,3)] by blast
  have "remaining it = []"
    unfolding it(2) dropWhile_eq_Nil_conv using fresh by blast
  then have end_it: "at_end it"
    by (simp only: at_end_remaining)
  have "sa_size c = length ccas"
    using c(2,3) sa_length [of c] by simp
  then have p: "entry_ok ?p"
    using a(2) c(2,3) assms(5-7) by (simp add: entry_ok_def)
  have "\<forall>e \<in> rb_set ?t. node_rank (fst e) \<noteq> node_rank nid"
    using fresh t assms(2) node_rank_inj by (auto simp: tree_ok_def rb_inv_def)
  then obtain t' where t': "assoc_rb_tree_insert ?t nid sizeof_global_e2_node_id ?p = Inr t'" "tree_ok t'"
    "rb_entries t' = put_after node_rank nid ?p (rb_entries ?t)"
    using tree_insert_ok [OF t assms(2) p] by blast
  have "add_reg_e2_node r nid rfs ccas = Inr (r\<lparr>node_to_rf := t'\<rparr>)"
    using a(1) c(1) it(1) end_it t'(1) assms(4,5) by (simp add: add_reg_e2_node_def)
  moreover have "set (reg_nodes (r\<lparr>node_to_rf := t'\<rparr>)) =
      insert \<lparr>con_id = nid, con_cca = ccas, con_ack_rf = rfs\<rparr> (set (reg_nodes r))"
    using a(3) c(3) by (simp add: reg_nodes_def t'(3) set_put_after node_entry_def)
  ultimately show ?thesis
    using t'(2,3) by (simp add: reg_ok_def reg_nodes_def)
qed

lemma add_reg_e2_node_twice:
  assumes "reg_ok r" "valid_node_id nid" "plain_node nid"
    and "rfs \<noteq> []" "ccas \<noteq> []" "\<forall>c \<in> set ccas. supported_cca c" "n \<in> set (reg_nodes r)" "con_id n = nid"
  shows "add_reg_e2_node r nid rfs ccas = Inl (Assertion ''Trying to add an already existing E2 Node'')"
proof -
  let ?t = "node_to_rf r"
  obtain a where a: "fold_res (\<lambda>rf arr. seq_arr_push_back arr (cp_ran_function rf) sizeof_ran_function) rfs
     (seq_arr_init sizeof_ran_function) = Inr a"
    using cp_rf_ok by blast
  obtain c where c: "fold_res (\<lambda>c arr. bnd (cp_e2ap_node_component_config_add c) (\<lambda>tmp.
             seq_arr_push_back arr tmp sizeof_cca)) ccas (seq_arr_init sizeof_cca) = Inr c"
    using cp_cca_ok [OF assms(6)] by blast
  have t: "tree_ok ?t" using assms(1) by (simp add: reg_ok_def)
  obtain e where e: "e \<in> rb_set ?t" "fst e = nid"
    using assms(7,8) by (auto simp: reg_nodes_def node_entry_def)
  obtain it where it: "find_if_rb_tree (eq_global_e2_node_id nid) (assoc_rb_tree_front ?t) = Inr it"
    "remaining it = dropWhile (\<lambda>e. nid \<noteq> fst e) (rb_entries ?t)"
    using eq_node_found [OF t assms(2,3)] by blast
  have "remaining it \<noteq> []"
    unfolding it(2) dropWhile_eq_Nil_conv using e by blast
  then have "\<not> at_end it"
    by (simp only: at_end_remaining not_False_eq_True)
  moreover have "assoc_rb_tree_size ?t > 0"
    using t e(1) by (cases "rb_entries ?t") (auto simp: tree_ok_def rb_inv_def assoc_rb_tree_size_def)
  ultimately show ?thesis
    using a c it(1) assms(4,5) by (simp add: add_reg_e2_node_def)
qed

lemma rm_reg_e2_node_ok:
  assumes "reg_ok r" "valid_node_id nid" "plain_node nid" "n \<in> set (reg_nodes r)" "con_id n = nid"
  shows "\<exists>r'. rm_reg_e2_node r nid = Inr r' \<and> reg_ok r' \<and>
     reg_nodes r' = filter (\<lambda>n. con_id n \<noteq> nid) (reg_nodes r)"
proof -
  let ?t = "node_to_rf r"
  have t: "tree_ok ?t" using assms(1) by (simp add: reg_ok_def)
  obtain e where e: "e \<in> rb_set ?t" "fst e = nid"
    using assms(4,5) by (auto simp: reg_nodes_def node_entry_def)
  obtain it where it: "find_if_rb_tree (eq_global_e2_node_id nid) (assoc_rb_tree_front ?t) = Inr it"
    "iter_of (rb_root ?t) it" "remaining it = dropWhile (\<lambda>e. nid \<noteq> fst e) (rb_entries ?t)"
    using eq_node_found [OF t assms(2,3)] by blast
  have ne: "remaining it \<noteq> []"
    unfolding it(3) dropWhile_eq_Nil_conv using e by blast
  then have hd: "fst (hd (remaining it)) = nid"
    using hd_dropWhile [of "\<lambda>e. nid \<noteq> fst e" "rb_entries ?t"] it(3) by simp
  obtain ps c k v l rr where n: "it = (ps, Node c k v l rr)" "climb ps (Node c k v l rr) = rb_root ?t"
    using ne it(2) by (cases it rule: remaining.cases) (auto simp: iter_of_def assoc_rb_tree_end_def)
  have k: "k = nid"
    using hd n(1) by simp
  have es: "rb_entries ?t = (before ps @ inorder l) @ (k, v) # (inorder rr @ after ps)"
    unfolding n(2) [symmetric] by simp
  have inv: "rb_inv cmp_global_e2_node_id valid_node_id node_rank ?t" "rb_free ?t = Some free_e2_nodes"
    "free_e2_nodes k v = Inr ()" "rb_uniq node_rank ?t" "\<forall>e \<in> rb_set ?t. entry_ok (snd e)"
    "rb_key_sz ?t = sizeof_global_e2_node_id"
    using t es free_entry_ok [of v k] unfolding tree_ok_def by auto
  obtain t' where t': "assoc_rb_tree_free_it ?t it = Inr t'"
    "rb_inv cmp_global_e2_node_id valid_node_id node_rank t'" "rb_key_sz t' = rb_key_sz ?t" "rb_free t' = rb_free ?t"
    "rb_entries t' = (before ps @ inorder l) @ inorder rr @ after ps"
    using gnode.rb_free_it_ok [OF inv(1) n(2) inv(2,3)] n(1) by blast
  have u: "rb_uniq node_rank t'"
    using inv(4) unfolding rb_uniq_def es t'(5) by auto
  have "\<forall>e \<in> rb_set t'. fst e \<noteq> nid"
    using inv(4) unfolding rb_uniq_def es t'(5) k by (auto simp: image_iff)
  then have "filter (\<lambda>e. fst e \<noteq> nid) (rb_entries ?t) = rb_entries t'"
    using es k t'(5) by (simp add: filter_id_conv)
  then have "reg_nodes (r\<lparr>node_to_rf := t'\<rparr>) = filter (\<lambda>n. con_id n \<noteq> nid) (reg_nodes r)"
    by (simp add: reg_nodes_def filter_map o_def node_entry_def)
  moreover have "tree_ok t'"
    using t'(2-4) inv(2,5,6) u es t'(5) by (auto simp: tree_ok_def)
  moreover have "\<not> at_end it"
    using n(1) by (simp add: at_end_def)
  ultimately show ?thesis
    using it(1) t'(1) by (simp add: rm_reg_e2_node_def reg_ok_def)
qed

section \<open>The copy for an xApp\<close>

lemma put_after_greatest:
  "\<forall>e \<in> set es. rank (fst e) < rank k \<Longrightarrow> put_after rank k v es = es @ [(k, v)]"
  by (induction es) (auto simp: put_after_def)

abbreviation cp_entry ::
  "global_e2_node_id_t \<times> pair_rf_cca_t \<Rightarrow> (global_e2_node_id_t, pair_rf_cca_t) assoc_rb_tree_t \<Rightarrow>
   (global_e2_node_id_t, pair_rf_cca_t) assoc_rb_tree_t res" where
  "cp_entry e \<equiv> cp_node_entry (fst e) (snd e)"

lemma cp_entry_ok:
  assumes "tree_ok ans" "valid_node_id (fst e)" "entry_ok (snd e)"
    and "\<forall>e' \<in> rb_set ans. node_rank (fst e') < node_rank (fst e)"
  shows "\<exists>p ans'. cp_entry e ans = Inr ans' \<and> tree_ok ans' \<and>
     rb_entries ans' = rb_entries ans @ [(fst e, p)] \<and> node_entry (fst e, p) = node_entry e"
proof -
  let ?rf = "prf_ran_func (snd e)" and ?cca = "prf_comp_conf_add (snd e)"
  have e: "sa_inv ?rf" "sa_inv ?cca" "\<forall>c \<in> set (sa_contents ?cca). supported_cca c"
    using assms(3) by (auto simp: entry_ok_def)
  obtain a where a: "fold_res (\<lambda>rf arr. seq_arr_push_back arr (cp_ran_function rf) sizeof_ran_function)
     (sa_contents ?rf) (seq_arr_init sizeof_ran_function) = Inr a" "sa_inv a" "sa_contents a = sa_contents ?rf"
    using cp_rf_ok by blast
  obtain c where c: "fold_res (\<lambda>c arr. bnd (cp_e2ap_node_component_config_add c) (\<lambda>tmp.
             seq_arr_push_back arr tmp sizeof_cca)) (sa_contents ?cca) (seq_arr_init sizeof_cca) = Inr c"
    "sa_inv c" "sa_contents c = sa_contents ?cca"
    using cp_cca_ok [OF e(3)] by blast
  let ?p = "\<lparr>prf_ran_func = a, prf_comp_conf_add = c\<rparr>"
  have "sa_size c = sa_size ?cca"
    using c(2,3) e(2) sa_length by metis
  then have p: "entry_ok ?p"
    using assms(3) a(2) c(2,3) by (simp add: entry_ok_def)
  have "\<forall>e' \<in> rb_set ans. node_rank (fst e') \<noteq> node_rank (fst e)"
    using assms(4) by fastforce
  then obtain ans' where "assoc_rb_tree_insert ans (fst e) sizeof_global_e2_node_id ?p = Inr ans'"
    "tree_ok ans'" "rb_entries ans' = put_after node_rank (fst e) ?p (rb_entries ans)"
    using tree_insert_ok [OF assms(1,2) p] by blast
  moreover have "node_entry (fst e, ?p) = node_entry e"
    using a(3) c(3) by (simp add: node_entry_def)
  ultimately show ?thesis
    using a(1) c(1) by (auto simp: cp_node_entry_def for_arr_ok e put_after_greatest [OF assms(4)] simp del: copies)
qed

lemma cp_entries_ok:
  assumes "tree_ok ans" "\<forall>e \<in> set es. valid_node_id (fst e) \<and> entry_ok (snd e)"
    and "sorted_wrt (\<lambda>a b. node_rank (fst a) < node_rank (fst b)) (rb_entries ans @ es)"
  shows "\<exists>ans'. fold_res cp_entry es ans = Inr ans' \<and> tree_ok ans' \<and>
     map node_entry (rb_entries ans') = map node_entry (rb_entries ans) @ map node_entry es"
  using assms
proof (induction es arbitrary: ans)
  case (Cons e es)
  obtain p ans1 where 1: "cp_entry e ans = Inr ans1" "tree_ok ans1"
    "rb_entries ans1 = rb_entries ans @ [(fst e, p)]" "node_entry (fst e, p) = node_entry e"
    using cp_entry_ok [OF Cons.prems(1), of e] Cons.prems(2,3) by (auto simp: sorted_wrt_append)
  have "sorted_wrt (\<lambda>a b. node_rank (fst a) < node_rank (fst b)) (rb_entries ans1 @ es)"
    using Cons.prems(3) unfolding 1(3) by (auto simp: sorted_wrt_append)
  then obtain ans' where "fold_res cp_entry es ans1 = Inr ans'" "tree_ok ans'"
    "map node_entry (rb_entries ans') = map node_entry (rb_entries ans1) @ map node_entry es"
    using Cons.IH [OF 1(2)] Cons.prems(2) by auto
  then show ?case
    using 1(1,3,4) by simp
qed simp

lemma sorted_distinct_strict:
  fixes f :: "'a \<Rightarrow> 'r :: linorder"
  shows "sorted (map f xs) \<Longrightarrow> distinct (map f xs) \<Longrightarrow> sorted_wrt (\<lambda>a b. f a < f b) xs"
proof (induction xs)
  case (Cons x xs)
  then show ?case
    by (auto simp: order.strict_iff_order)
qed simp

lemma cp_reg_e2_node_ok:
  assumes "reg_ok r"
  shows "\<exists>t. cp_reg_e2_node r = Inr t \<and> tree_ok t \<and> map node_entry (rb_entries t) = reg_nodes r"
proof -
  let ?es = "rb_entries (node_to_rf r)"
  define t0 :: "(global_e2_node_id_t, pair_rf_cca_t) assoc_rb_tree_t" where
    "t0 = \<lparr>rb_root = Dummy, rb_comp = cmp_global_e2_node_id, rb_size = 0,
           rb_key_sz = sizeof_global_e2_node_id, rb_free = Some free_e2_nodes\<rparr>"
  have t0: "tree_ok t0" "rb_entries t0 = []"
    by (simp_all add: t0_def tree_ok_def rb_inv_def rb_uniq_def rb_ok_def)
  have r: "\<forall>e \<in> set ?es. valid_node_id (fst e) \<and> entry_ok (snd e)"
    "sorted (map (\<lambda>e. node_rank (fst e)) ?es)" "distinct (map (\<lambda>e. node_rank (fst e)) ?es)"
    "rb_size (node_to_rf r) = length ?es"
    using assms by (auto simp: reg_ok_def tree_ok_def rb_inv_def rb_uniq_def)
  have "sorted_wrt (\<lambda>a b. node_rank (fst a) < node_rank (fst b)) (rb_entries t0 @ ?es)"
    using sorted_distinct_strict [OF r(2,3)] by (simp add: t0(2))
  then obtain t where t: "fold_res cp_entry ?es t0 = Inr t" "tree_ok t"
    "map node_entry (rb_entries t) = reg_nodes r"
    using cp_entries_ok [OF t0(1) r(1)] t0(2) by (auto simp: reg_nodes_def)
  have "length (rb_entries t) = length ?es"
    using t(3) by (metis length_map reg_nodes_def)
  then have sz: "assoc_rb_tree_size t = assoc_rb_tree_size (node_to_rf r)"
    using t(2) r(4) by (simp add: tree_ok_def rb_inv_def assoc_rb_tree_size_def)
  have i: "assoc_rb_tree_init sizeof_global_e2_node_id cmp_global_e2_node_id (Some free_e2_nodes) = Inr t0"
    by (simp add: t0_def assoc_rb_tree_init_def sizeof_defs)
  have "cp_reg_e2_node r = Inr t"
    unfolding cp_reg_e2_node_def i bnd_simps for_tree_front t(1)
    using sz by simp
  then show ?thesis
    using t(2,3) by blast
qed

lemma cp_cca_list:
  assumes "entry_ok p"
  shows "cp_cca (prf_comp_conf_add p) = Inr (sa_contents (prf_comp_conf_add p))"
proof -
  let ?a = "prf_comp_conf_add p"
  have "fold_res (\<lambda>c dst. bnd (cp_e2ap_node_component_config_add c) (\<lambda>c. Inr (dst @ [c]))) (sa_contents ?a) [] =
      Inr (fold (\<lambda>c dst. dst @ [c]) (sa_contents ?a) [])"
    by (rule fold_res_total) (use assms in \<open>auto simp: entry_ok_def cp_cca_supported\<close>)
  then show ?thesis
    using assms fold_snoc [of "\<lambda>c. c" "sa_contents ?a" "[]"]
    by (simp add: cp_cca_def entry_ok_def for_arr_ok seq_arr_size_def)
qed

lemma gen_node_ok:
  assumes "entry_ok (snd e)"
  shows "gen_node len (fst e) (snd e) dst =
     (if length dst < len then Inr (dst @ [node_entry e]) else Inl (Heap_Overflow ''dst.n[i]''))"
proof -
  have "fold_res (\<lambda>r rf. Inr (rf @ [cp_ran_function r])) xs [] = Inr xs" for xs
    using fold_res_total [of xs "\<lambda>r rf. Inr (rf @ [cp_ran_function r])" "\<lambda>r rf. rf @ [r]" "[]"]
      fold_snoc [of "\<lambda>r. r" xs "[]"] by simp
  then show ?thesis
    using assms by (simp add: gen_node_def cp_cca_list node_entry_def for_arr_ok entry_ok_def)
qed

lemma gen_nodes_ok:
  assumes "\<forall>e \<in> set es. entry_ok (snd e)"
  shows "length dst \<le> len \<Longrightarrow> fold_res (\<lambda>e. gen_node len (fst e) (snd e)) es dst =
     (if length dst + length es \<le> len then Inr (dst @ map node_entry es)
      else Inl (Heap_Overflow ''dst.n[i]''))"
  using assms
proof (induction es arbitrary: dst)
  case (Cons e es)
  then show ?case
    using gen_node_ok [of e len dst] Cons.IH [of "dst @ [node_entry e]"]
    by (cases "length dst < len") auto
qed simp

lemma unat_of_nat_8: "n \<le> unat (of_nat n :: u8) \<longleftrightarrow> n < 256"
proof (cases "n < 256")
  case False
  have "unat (of_nat n :: u8) < 256"
    using unsigned_less [of "of_nat n :: u8"] by simp
  then show ?thesis using False by simp
qed (simp add: unat_of_nat)

lemma generate_e2_node_arr_ok:
  assumes "reg_ok r"
  shows "generate_e2_node_arr r =
     (if length (reg_nodes r) < 256 then Inr (reg_nodes r) else Inl (Heap_Overflow ''dst.n[i]''))"
proof -
  obtain t where t: "cp_reg_e2_node r = Inr t" "tree_ok t" "map node_entry (rb_entries t) = reg_nodes r"
    using cp_reg_e2_node_ok [OF assms] by blast
  have l: "length (rb_entries t) = length (reg_nodes r)" "assoc_rb_tree_size t = length (reg_nodes r)"
    using t(2) by (simp_all flip: t(3) add: tree_ok_def rb_inv_def assoc_rb_tree_size_def)
  have "generate_e2_node_arr r = fold_res (\<lambda>e. gen_node (unat (of_nat (length (reg_nodes r)) :: u8)) (fst e) (snd e)) (rb_entries t) []"
    unfolding generate_e2_node_arr_def t(1) bnd_simps for_tree_front l(2) Let_def ..
  also have "\<dots> = (if length (reg_nodes r) < 256 then Inr (reg_nodes r) else Inl (Heap_Overflow ''dst.n[i]''))"
    using gen_nodes_ok [of "rb_entries t" "[]"] t(2) unat_of_nat_8 [of "length (reg_nodes r)"]
    by (simp add: tree_ok_def l(1) t(3))
  finally show ?thesis .
qed

section \<open>Properties of the registry\<close>

text \<open>
  A node that is added to the registry is listed, exactly once, with the RAN functions and
  configurations of its setup request; adding it a second time aborts; and removing it leaves
  the list of the other nodes as it was.
\<close>

theorem reg_e2_nodes_roundtrip:
  assumes "reg_ok r" "valid_node_id nid" "plain_node nid"
    and "rfs \<noteq> []" "ccas \<noteq> []" "length ccas < 256" "\<forall>c \<in> set ccas. supported_cca c"
    and "\<forall>n \<in> set (reg_nodes r). con_id n \<noteq> nid"
  shows "\<exists>r' r''. add_reg_e2_node r nid rfs ccas = Inr r' \<and> reg_ok r' \<and>
     set (reg_nodes r') = insert \<lparr>con_id = nid, con_cca = ccas, con_ack_rf = rfs\<rparr> (set (reg_nodes r)) \<and>
     length (reg_nodes r') = length (reg_nodes r) + 1 \<and>
     add_reg_e2_node r' nid rfs ccas = Inl (Assertion ''Trying to add an already existing E2 Node'') \<and>
     rm_reg_e2_node r' nid = Inr r'' \<and> reg_ok r'' \<and> set (reg_nodes r'') = set (reg_nodes r)"
proof -
  let ?n = "\<lparr>con_id = nid, con_cca = ccas, con_ack_rf = rfs\<rparr>"
  obtain r' where r': "add_reg_e2_node r nid rfs ccas = Inr r'" "reg_ok r'"
    "set (reg_nodes r') = insert ?n (set (reg_nodes r))" "length (reg_nodes r') = length (reg_nodes r) + 1"
    using add_reg_e2_node_ok [OF assms] by blast
  then have n: "?n \<in> set (reg_nodes r')" "con_id ?n = nid"
    by auto
  obtain r'' where r'': "rm_reg_e2_node r' nid = Inr r''" "reg_ok r''"
    "reg_nodes r'' = filter (\<lambda>n. con_id n \<noteq> nid) (reg_nodes r')"
    using rm_reg_e2_node_ok [OF r'(2) assms(2,3) n] by blast
  have "set (reg_nodes r'') = set (reg_nodes r)"
    using assms(8) by (auto simp: r''(3) r'(3))
  then show ?thesis
    using r' r'' add_reg_e2_node_twice [OF r'(2) assms(2-5,7) n] by blast
qed

definition du_node :: global_e2_node_id_t where
  "du_node = \<lparr>gid_type = ngran_gNB_DU, gid_plmn = \<lparr>mcc = 1, mnc = 1, mnc_digit_len = 2\<rparr>,
     gid_nb_id = \<lparr>nb_id = 1, unused = 0\<rparr>, cu_du_id = Some 3\<rparr>"

definition kpm_function :: ran_function_t where
  "kpm_function = \<lparr>rf_defn = [1, 2], rf_id = 2, rf_rev = 1, rf_oid = [3]\<rparr>"

definition f1_config :: e2ap_node_component_config_add_t where
  "f1_config = \<lparr>cca_interface_type = F1_E2AP_NODE_COMP_INTERFACE_TYPE, cca_id = F1_Gnb_Du_Id 3,
     cca_conf = \<lparr>cc_request = [0], cc_response = [0]\<rparr>\<rparr>"

lemma du_node_ok: "valid_node_id du_node" "plain_node du_node" "supported_cca f1_config"
  by (simp_all add: du_node_def valid_node_id_def plain_node_def NODE_IS_CU_def NODE_IS_DU_def
      NODE_IS_CUUP_def f1_config_def supported_cca_def cp_e2ap_node_comp_id_def)

theorem reg_e2_nodes_roundtrip_witness:
  "\<exists>r r' r''. init_reg_e2_node = Inr r \<and> add_reg_e2_node r du_node [kpm_function] [f1_config] = Inr r' \<and>
     set (reg_nodes r') = {\<lparr>con_id = du_node, con_cca = [f1_config], con_ack_rf = [kpm_function]\<rparr>} \<and>
     rm_reg_e2_node r' du_node = Inr r'' \<and> reg_nodes r'' = []"
proof -
  obtain r where r: "init_reg_e2_node = Inr r" "reg_ok r" "reg_nodes r = []"
    using init_reg_e2_node_ok by blast
  have "\<exists>r' r''. add_reg_e2_node r du_node [kpm_function] [f1_config] = Inr r' \<and> reg_ok r' \<and>
     set (reg_nodes r') = insert \<lparr>con_id = du_node, con_cca = [f1_config], con_ack_rf = [kpm_function]\<rparr> (set (reg_nodes r)) \<and>
     length (reg_nodes r') = length (reg_nodes r) + 1 \<and>
     add_reg_e2_node r' du_node [kpm_function] [f1_config] = Inl (Assertion ''Trying to add an already existing E2 Node'') \<and>
     rm_reg_e2_node r' du_node = Inr r'' \<and> reg_ok r'' \<and> set (reg_nodes r'') = set (reg_nodes r)"
    by (rule reg_e2_nodes_roundtrip) (use r du_node_ok in auto)
  then show ?thesis
    using r(1,3) by auto
qed

text \<open>
  The copy of the registry for a setup response is the list of all connected nodes while
  there are less than 256; from the 256th node on its 8-bit length wraps round and the copy
  writes behind the block of the array.
\<close>

theorem generate_e2_node_arr_correct:
  assumes "reg_ok r"
  shows "generate_e2_node_arr r =
     (if length (reg_nodes r) < 256 then Inr (reg_nodes r) else Inl (Heap_Overflow ''dst.n[i]''))"
  by (rule generate_e2_node_arr_ok [OF assms])

theorem generate_e2_node_arr_witness:
  "\<exists>r r'. init_reg_e2_node = Inr r \<and> add_reg_e2_node r du_node [kpm_function] [f1_config] = Inr r' \<and>
     generate_e2_node_arr r' = Inr [\<lparr>con_id = du_node, con_cca = [f1_config], con_ack_rf = [kpm_function]\<rparr>]"
proof -
  let ?n = "\<lparr>con_id = du_node, con_cca = [f1_config], con_ack_rf = [kpm_function]\<rparr>"
  obtain r where r: "init_reg_e2_node = Inr r" "reg_ok r" "reg_nodes r = []"
    using init_reg_e2_node_ok by blast
  have "\<exists>r'. add_reg_e2_node r du_node [kpm_function] [f1_config] = Inr r' \<and> reg_ok r' \<and>
     set (reg_nodes r') = insert ?n (set (reg_nodes r)) \<and> length (reg_nodes r') = length (reg_nodes r) + 1"
    by (rule add_reg_e2_node_ok) (use r du_node_ok in auto)
  then obtain r' where r': "add_reg_e2_node r du_node [kpm_function] [f1_config] = Inr r'" "reg_ok r'"
    "set (reg_nodes r') = {?n}" "length (reg_nodes r') = 1"
    using r(3) by auto
  then have "reg_nodes r' = [?n]"
    by (cases "reg_nodes r'") auto
  then show ?thesis
    using r(1) r'(1) generate_e2_node_arr_correct [OF r'(2)] by auto
qed

end
