(* ===== verification/Iapp_Notify.thy ===== *)
theory Iapp_Notify
  imports E2_Registry
begin

text \<open>
  The iApp, first part: its state and what the near-RT RIC calls in it
  (\<^verbatim>\<open>ric/iApp/e42_iapp.c\<close>, \<^verbatim>\<open>e42_iapp_api.c\<close> and the handlers of \<^verbatim>\<open>msg_handler_iapp.c\<close> for the
  messages that come from the E2 nodes).  The iApp passes subscription responses, deletion
  responses and control acknowledgements to the xApp that asked for them, and indications to
  every xApp with an active subscription of the RAN function.

  \<open>ia_sent\<close> records the messages the iApp has sent, with the peers they were sent to.
  \<open>ia_forward_mutex\<close> counts how often the running thread holds \<^verbatim>\<open>forward_mutex\<close>, which is
  recursive.
\<close>

section \<open>State\<close>

record e42_iapp_t =
  ia_xapps :: map_xapps_sockaddr_t
  ia_forward_mutex :: nat
  ia_xapp_id :: u32
  ia_subscription_registry :: subscription_registry_t
  ia_e2_nodes :: reg_e2_nodes_t
  ia_map_ric_id :: map_ric_id_t
  ia_sent :: "(sctp_info_t \<times> e2ap_msg_t) list"

definition init_e42_iapp :: "e42_iapp_t res" where
  "init_e42_iapp =
     bnd init_map_xapps_sad (\<lambda>xapps.
     bnd init_reg_e2_node (\<lambda>nodes.
     bnd init_map_ric_id (\<lambda>ids.
     Inr \<lparr>ia_xapps = xapps, ia_forward_mutex = 0, ia_xapp_id = 7,
          ia_subscription_registry = init_subscription_registry, ia_e2_nodes = nodes,
          ia_map_ric_id = ids, ia_sent = []\<rparr>)))"

definition e2ap_send_sctp_msg_iapp :: "e42_iapp_t \<Rightarrow> sctp_info_t \<Rightarrow> e2ap_msg_t \<Rightarrow> e42_iapp_t" where
  "e2ap_send_sctp_msg_iapp iapp info msg = iapp\<lparr>ia_sent := ia_sent iapp @ [(info, msg)]\<rparr>"

section \<open>Responses\<close>

text \<open>The request id of the response has 32 bits and is passed on as a 16-bit integer.\<close>

definition e2ap_handle_subscription_response_iapp ::
  "e42_iapp_t \<Rightarrow> ric_subscription_response_t \<Rightarrow> e42_iapp_t res" where
  "e2ap_handle_subscription_response_iapp iapp src =
     bnd (find_xapp_map_ric_id (ia_map_ric_id iapp) (ucast (ric_req_id (sresp_ric_id src)))) (\<lambda>xpctd.
     case xpctd of
       None \<Rightarrow> Inr iapp
     | Some x \<Rightarrow>
         if ran_func_id (sresp_ric_id src) \<noteq> ran_func_id (xr_ric_id x) then Inr iapp
         else if ric_inst_id (sresp_ric_id src) \<noteq> ric_inst_id (xr_ric_id x) then Inr iapp
         else
           let dst = mv_ric_subscription_respponse src;
               dst = dst\<lparr>sresp_ric_id := (sresp_ric_id dst)\<lparr>ric_req_id := ric_req_id (xr_ric_id x)\<rparr>\<rparr>
           in bnd (find_map_xapps_sad (ia_xapps iapp) (xr_xapp_id x)) (\<lambda>info.
              if sin_port info = 0 then Inr iapp
              else Inr (e2ap_send_sctp_msg_iapp iapp info (Ric_Sub_Resp dst))))"

definition e2ap_handle_subscription_delete_response_iapp ::
  "e42_iapp_t \<Rightarrow> ric_subscription_delete_response_t \<Rightarrow> e42_iapp_t res" where
  "e2ap_handle_subscription_delete_response_iapp iapp src =
     bnd (find_xapp_map_ric_id (ia_map_ric_id iapp) (ucast (ric_req_id (sdresp_ric_id src)))) (\<lambda>xpctd.
     case xpctd of
       None \<Rightarrow> Inr iapp
     | Some x \<Rightarrow>
         chk (ran_func_id (sdresp_ric_id src) = ran_func_id (xr_ric_id x))
           ''src->ric_id.ran_func_id == x.ric_id.ran_func_id'' (
         chk (ric_inst_id (sdresp_ric_id src) = ric_inst_id (xr_ric_id x))
           ''src->ric_id.ric_inst_id == x.ric_id.ric_inst_id'' (
         let dst = \<lparr>sdresp_ric_id = xr_ric_id x\<rparr> in
         bnd (find_map_xapps_sad (ia_xapps iapp) (xr_xapp_id x)) (\<lambda>info.
         let iapp = e2ap_send_sctp_msg_iapp iapp info (Ric_Sub_Del_Resp dst) in
         bnd (rm_map_ric_id (ia_map_ric_id iapp) x) (\<lambda>ids.
         Inr (iapp\<lparr>ia_map_ric_id := ids\<rparr>))))))"

definition e2ap_handle_e42_ric_control_ack_iapp ::
  "e42_iapp_t \<Rightarrow> ric_control_acknowledge_t \<Rightarrow> e42_iapp_t res" where
  "e2ap_handle_e42_ric_control_ack_iapp iapp src =
     bnd (find_xapp_map_ric_id (ia_map_ric_id iapp) (ucast (ric_req_id (ack_ric_id src)))) (\<lambda>xpctd.
     bnd (found xpctd ''RIC Req Id not found!'') (\<lambda>x.
     chk (ran_func_id (ack_ric_id src) = ran_func_id (xr_ric_id x))
       ''src->ric_id.ran_func_id == x.ric_id.ran_func_id'' (
     chk (ric_inst_id (ack_ric_id src) = ric_inst_id (xr_ric_id x))
       ''src->ric_id.ric_inst_id == x.ric_id.ric_inst_id'' (
     let dst = \<lparr>ack_ric_id = xr_ric_id x, ack_call_process_id = None, ack_control_outcome = None\<rparr> in
     bnd (find_map_xapps_sad (ia_xapps iapp) (xr_xapp_id x)) (\<lambda>info.
     let iapp = e2ap_send_sctp_msg_iapp iapp info (Ric_Ctrl_Ack dst) in
     bnd (rm_map_ric_id (ia_map_ric_id iapp) x) (\<lambda>ids.
     Inr (iapp\<lparr>ia_map_ric_id := ids\<rparr>)))))))"

section \<open>Indications\<close>

text \<open>
  The copy for the xApp has its own header and message, and shares the sequence number and the
  call process id with the message of the caller.  Releasing the copy releases these two, and
  the caller releases them again with its own message.
\<close>

definition free_indication_copy :: "ric_indication_t \<Rightarrow> unit res" where
  "free_indication_copy ind =
     (if ind_sn ind \<noteq> None \<or> ind_call_process_id ind \<noteq> None
      then Inl (Double_Free ''e2ap_msg_free_iapp(&iapp->ap, &ans)'') else Inr ())"

text \<open>The return for a peer without a port leaves the mutex locked.\<close>

definition forward_indication_to_xapp ::
  "e42_iapp_t \<Rightarrow> u32 \<Rightarrow> ric_indication_t \<Rightarrow> e42_iapp_t res" where
  "forward_indication_to_xapp iapp xapp_id ind =
     (let iapp = iapp\<lparr>ia_forward_mutex := ia_forward_mutex iapp + 1\<rparr>;
          dst = mv_ric_indication ind
      in bnd (find_map_xapps_sad (ia_xapps iapp) (ucast xapp_id)) (\<lambda>info.
         if sin_port info = 0 then Inr iapp
         else
           let iapp = e2ap_send_sctp_msg_iapp iapp info (Ric_Ind dst)
           in bnd (free_indication_copy dst) (\<lambda>_.
              Inr (iapp\<lparr>ia_forward_mutex := ia_forward_mutex iapp - 1\<rparr>))))"

definition e2ap_handle_ric_indication_iapp :: "e42_iapp_t \<Rightarrow> ric_indication_t \<Rightarrow> e42_iapp_t res" where
  "e2ap_handle_ric_indication_iapp iapp src =
     fold_res (\<lambda>entry iapp.
       if se_active entry \<and> se_ran_func_id entry = ran_func_id (ind_ric_id src)
       then forward_indication_to_xapp iapp (se_xapp_id entry) src
       else Inr iapp)
     (reg_entries (ia_subscription_registry iapp)) iapp"

section \<open>The interface of the near-RT RIC\<close>

text \<open>
  Only these four messages pass the assertion of \<^verbatim>\<open>notify_msg_iapp\<close>; the handler of each is the
  one the dispatch table holds for its type, and its answer is \<^verbatim>\<open>NONE_E2_MSG_TYPE\<close>.
\<close>

definition notify_msg_iapp :: "e42_iapp_t \<Rightarrow> e2ap_msg_t \<Rightarrow> e42_iapp_t res" where
  "notify_msg_iapp iapp msg =
     (case msg of
        Ric_Ind ind \<Rightarrow> e2ap_handle_ric_indication_iapp iapp ind
      | Ric_Sub_Resp r \<Rightarrow> e2ap_handle_subscription_response_iapp iapp r
      | Ric_Sub_Del_Resp r \<Rightarrow> e2ap_handle_subscription_delete_response_iapp iapp r
      | Ric_Ctrl_Ack r \<Rightarrow> e2ap_handle_e42_ric_control_ack_iapp iapp r
      | _ \<Rightarrow> Inl (Assertion ''msg->type == RIC_INDICATION || ...''))"

definition add_e2_node_iapp ::
  "e42_iapp_t \<Rightarrow> global_e2_node_id_t \<Rightarrow> ran_function_t list \<Rightarrow>
   e2ap_node_component_config_add_t list \<Rightarrow> e42_iapp_t res" where
  "add_e2_node_iapp i nid ran_func cca =
     chk (0 < length ran_func) ''E2 Node with no RAN functions??'' (
     bnd (add_reg_e2_node (ia_e2_nodes i) nid ran_func cca) (\<lambda>nodes.
     Inr (i\<lparr>ia_e2_nodes := nodes\<rparr>)))"

definition rm_e2_node_iapp :: "e42_iapp_t \<Rightarrow> global_e2_node_id_t \<Rightarrow> e42_iapp_t res" where
  "rm_e2_node_iapp i nid =
     bnd (rm_reg_e2_node (ia_e2_nodes i) nid) (\<lambda>nodes. Inr (i\<lparr>ia_e2_nodes := nodes\<rparr>))"

section \<open>Invariant\<close>

text \<open>
  The maps are well formed, no lock is held between two calls, every binding and every active
  subscription belongs to a connected xApp, and the bound request ids fit 16 bits.
\<close>

definition xapp_conn :: "e42_iapp_t \<Rightarrow> u16 \<Rightarrow> sctp_info_t \<Rightarrow> bool" where
  "xapp_conn i x s \<longleftrightarrow> (x, s) \<in> bm_pairs (ia_xapps i) \<and> sin_port s \<noteq> 0"

definition iapp_ok :: "e42_iapp_t \<Rightarrow> bool" where
  "iapp_ok i \<longleftrightarrow>
     xapps_sad_ok (ia_xapps i) \<and> registry_ok (ia_subscription_registry i) \<and> reg_ok (ia_e2_nodes i) \<and>
     ric_id_ok (ia_map_ric_id i) \<and> \<not> mr_wrlocked (ia_map_ric_id i) \<and> ia_forward_mutex i = 0 \<and>
     (\<forall>(n, x) \<in> ric_pairs (ia_map_ric_id i). (\<exists>s. xapp_conn i (xr_xapp_id x) s) \<and> node_req n < 2 ^ 16) \<and>
     (\<forall>e \<in> set (reg_entries (ia_subscription_registry i)). \<exists>s. xapp_conn i (ucast (se_xapp_id e)) s)"

lemma init_e42_iapp_ok: "\<exists>i. init_e42_iapp = Inr i \<and> iapp_ok i \<and> ia_sent i = [] \<and> ia_xapp_id i = 7 \<and>
    bm_pairs (ia_xapps i) = {} \<and> ric_pairs (ia_map_ric_id i) = {} \<and> reg_nodes (ia_e2_nodes i) = [] \<and>
    reg_entries (ia_subscription_registry i) = []"
proof -
  obtain m where m: "init_map_ric_id = Inr m" "ric_id_ok m" "ric_pairs m = {}" "\<not> mr_wrlocked m"
    using init_map_ric_id_ok by blast
  obtain r where r: "init_reg_e2_node = Inr r" "reg_ok r" "reg_nodes r = []"
    using init_reg_e2_node_ok by blast
  obtain x where x: "init_map_xapps_sad = Inr x" "xapps_sad_ok x" "bm_pairs x = {}"
    using xsad.init_ok [of sizeof_uint16 sizeof_sctp_info "Some free_nothing" "Some free_nothing"]
    by (auto simp: init_map_xapps_sad_def xapps_sad_ok_def conf_ok_def sizeof_defs)
  have "init_e42_iapp = Inr \<lparr>ia_xapps = x, ia_forward_mutex = 0, ia_xapp_id = 7,
      ia_subscription_registry = init_subscription_registry, ia_e2_nodes = r, ia_map_ric_id = m, ia_sent = []\<rparr>"
    by (simp add: init_e42_iapp_def m r x)
  then show ?thesis
    by (intro exI conjI) (use m r x in \<open>auto simp: iapp_ok_def registry_ok_def init_subscription_registry_def\<close>)
qed

lemma xapp_conn_find:
  "iapp_ok i \<Longrightarrow> xapp_conn i x s \<Longrightarrow> find_map_xapps_sad (ia_xapps i) x = Inr s \<and> sin_port s \<noteq> 0"
  using find_map_xapps_sad_ok [of "ia_xapps i" x s] by (auto simp: iapp_ok_def xapp_conn_def)

section \<open>Routing of responses\<close>

lemma ucast_16: "(r :: u32) < 2 ^ 16 \<Longrightarrow> ucast (ucast r :: u16) = r"
  by (simp add: word_uint_eq_iff unsigned_ucast_eq take_bit_eq_mod word_less_def uint_mod_distrib)

lemma find_route:
  assumes "iapp_ok i" "(n, x) \<in> ric_pairs (ia_map_ric_id i)" "node_req n = r"
  shows "find_xapp_map_ric_id (ia_map_ric_id i) (ucast r) = Inr (Some x) \<and>
     (\<exists>s. xapp_conn i (xr_xapp_id x) s \<and> find_map_xapps_sad (ia_xapps i) (xr_xapp_id x) = Inr s)"
proof -
  have i: "ric_id_ok (ia_map_ric_id i)" "\<not> mr_wrlocked (ia_map_ric_id i)" "r < 2 ^ 16"
    "\<exists>s. xapp_conn i (xr_xapp_id x) s"
    using assms by (auto simp: iapp_ok_def)
  have "find_xapp_map_ric_id (ia_map_ric_id i) (ucast r) = Inr (Some x)"
    by (rule find_xapp_Some [OF i(1,2) assms(2)]) (simp add: ucast_16 [OF i(3)] assms(3))
  then show ?thesis
    using i(4) xapp_conn_find [OF assms(1)] by blast
qed

lemma handle_subscription_response_ok:
  assumes "iapp_ok i" "(n, x) \<in> ric_pairs (ia_map_ric_id i)"
    and "node_req n = ric_req_id (sresp_ric_id src)"
    and "ran_func_id (sresp_ric_id src) = ran_func_id (xr_ric_id x)"
    and "ric_inst_id (sresp_ric_id src) = ric_inst_id (xr_ric_id x)"
  shows "\<exists>s. xapp_conn i (xr_xapp_id x) s \<and>
     e2ap_handle_subscription_response_iapp i src =
       Inr (e2ap_send_sctp_msg_iapp i s (Ric_Sub_Resp (src\<lparr>sresp_ric_id := xr_ric_id x\<rparr>)))"
proof -
  obtain s where s: "find_xapp_map_ric_id (ia_map_ric_id i) (ucast (ric_req_id (sresp_ric_id src))) = Inr (Some x)"
    "xapp_conn i (xr_xapp_id x) s" "find_map_xapps_sad (ia_xapps i) (xr_xapp_id x) = Inr s" "sin_port s \<noteq> 0"
    using find_route [OF assms(1-3)] xapp_conn_find [OF assms(1)] by blast
  have dst: "(sresp_ric_id src)\<lparr>ric_req_id := ric_req_id (xr_ric_id x)\<rparr> = xr_ric_id x"
    by (rule ric_gen_id_t.equality) (use assms(4,5) in simp_all)
  have "e2ap_handle_subscription_response_iapp i src = Inr (e2ap_send_sctp_msg_iapp i s (Ric_Sub_Resp
      (src\<lparr>sresp_ric_id := (sresp_ric_id src)\<lparr>ric_req_id := ric_req_id (xr_ric_id x)\<rparr>\<rparr>)))"
    using s assms(4,5) by (simp add: e2ap_handle_subscription_response_iapp_def Let_def)
  then show ?thesis
    unfolding dst using s(2) by blast
qed

lemma iapp_ok_rm:
  assumes "iapp_ok i" "ric_id_ok m" "\<not> mr_wrlocked m" "ric_pairs m \<subseteq> ric_pairs (ia_map_ric_id i)"
  shows "iapp_ok (i\<lparr>ia_sent := out, ia_map_ric_id := m\<rparr>)"
  using assms by (auto simp: iapp_ok_def xapp_conn_def)

lemma iapp_ok_sent: "iapp_ok (e2ap_send_sctp_msg_iapp i s msg) = iapp_ok i"
  by (simp add: iapp_ok_def xapp_conn_def e2ap_send_sctp_msg_iapp_def)

text \<open>What the two handlers that end a request do to the state.\<close>

definition answered :: "e42_iapp_t \<Rightarrow> e2_node_ric_id_t \<Rightarrow> xapp_ric_id_t \<Rightarrow> e2ap_msg_t \<Rightarrow> e42_iapp_t \<Rightarrow> bool" where
  "answered i n x msg i' \<longleftrightarrow>
     iapp_ok i' \<and> ric_pairs (ia_map_ric_id i') = ric_pairs (ia_map_ric_id i) - {(n, x)} \<and>
     (\<exists>s. xapp_conn i (xr_xapp_id x) s \<and> ia_sent i' = ia_sent i @ [(s, msg)]) \<and>
     ia_xapps i' = ia_xapps i \<and> ia_xapp_id i' = ia_xapp_id i \<and> ia_e2_nodes i' = ia_e2_nodes i \<and>
     ia_subscription_registry i' = ia_subscription_registry i"

lemma answer_ok:
  assumes "iapp_ok i" "(n, x) \<in> ric_pairs (ia_map_ric_id i)" "xapp_conn i (xr_xapp_id x) s"
  shows "\<exists>ids. rm_map_ric_id (ia_map_ric_id i) x = Inr ids \<and>
     answered i n x msg (i\<lparr>ia_sent := ia_sent i @ [(s, msg)], ia_map_ric_id := ids\<rparr>)"
proof -
  obtain ids where ids: "rm_map_ric_id (ia_map_ric_id i) x = Inr ids" "ric_id_ok ids" "\<not> mr_wrlocked ids"
    "ric_pairs ids = ric_pairs (ia_map_ric_id i) - {(n, x)}"
    using rm_map_ric_id_ok [OF _ _ assms(2)] assms(1) by (auto simp: iapp_ok_def)
  then show ?thesis
    using assms iapp_ok_rm [OF assms(1) ids(2,3), of "ia_sent i @ [(s, msg)]"]
    by (auto simp: answered_def)
qed

lemma handle_subscription_delete_response_ok:
  assumes "iapp_ok i" "(n, x) \<in> ric_pairs (ia_map_ric_id i)"
    and "node_req n = ric_req_id (sdresp_ric_id src)"
    and "ran_func_id (sdresp_ric_id src) = ran_func_id (xr_ric_id x)"
    and "ric_inst_id (sdresp_ric_id src) = ric_inst_id (xr_ric_id x)"
  shows "\<exists>i'. e2ap_handle_subscription_delete_response_iapp i src = Inr i' \<and>
     answered i n x (Ric_Sub_Del_Resp \<lparr>sdresp_ric_id = xr_ric_id x\<rparr>) i'"
proof -
  obtain s where s: "find_xapp_map_ric_id (ia_map_ric_id i) (ucast (ric_req_id (sdresp_ric_id src))) = Inr (Some x)"
    "xapp_conn i (xr_xapp_id x) s" "find_map_xapps_sad (ia_xapps i) (xr_xapp_id x) = Inr s"
    using find_route [OF assms(1-3)] by blast
  show ?thesis
    using s assms(4,5) answer_ok [OF assms(1,2) s(2), of "Ric_Sub_Del_Resp \<lparr>sdresp_ric_id = xr_ric_id x\<rparr>"]
    by (auto simp: e2ap_handle_subscription_delete_response_iapp_def e2ap_send_sctp_msg_iapp_def Let_def)
qed

lemma handle_control_ack_ok:
  assumes "iapp_ok i" "(n, x) \<in> ric_pairs (ia_map_ric_id i)"
    and "node_req n = ric_req_id (ack_ric_id src)"
    and "ran_func_id (ack_ric_id src) = ran_func_id (xr_ric_id x)"
    and "ric_inst_id (ack_ric_id src) = ric_inst_id (xr_ric_id x)"
  shows "\<exists>i'. e2ap_handle_e42_ric_control_ack_iapp i src = Inr i' \<and>
     answered i n x (Ric_Ctrl_Ack \<lparr>ack_ric_id = xr_ric_id x, ack_call_process_id = None,
       ack_control_outcome = None\<rparr>) i'"
proof -
  let ?m = "Ric_Ctrl_Ack \<lparr>ack_ric_id = xr_ric_id x, ack_call_process_id = None, ack_control_outcome = None\<rparr>"
  obtain s where s: "find_xapp_map_ric_id (ia_map_ric_id i) (ucast (ric_req_id (ack_ric_id src))) = Inr (Some x)"
    "xapp_conn i (xr_xapp_id x) s" "find_map_xapps_sad (ia_xapps i) (xr_xapp_id x) = Inr s"
    using find_route [OF assms(1-3)] by blast
  show ?thesis
    using s assms(4,5) answer_ok [OF assms(1,2) s(2), of ?m]
    by (auto simp: e2ap_handle_e42_ric_control_ack_iapp_def e2ap_send_sctp_msg_iapp_def Let_def)
qed

text \<open>An acknowledgement whose request id is not bound aborts the RIC.\<close>

lemma handle_control_ack_unbound:
  assumes "iapp_ok i" "ric_req_id (ack_ric_id src) < 2 ^ 16"
    and "\<forall>(n, x) \<in> ric_pairs (ia_map_ric_id i). node_req n \<noteq> ric_req_id (ack_ric_id src)"
  shows "e2ap_handle_e42_ric_control_ack_iapp i src = Inl (Assertion ''RIC Req Id not found!'')"
proof -
  have "find_xapp_map_ric_id (ia_map_ric_id i) (ucast (ric_req_id (ack_ric_id src))) = Inr None"
    by (rule find_xapp_None) (use assms ucast_16 [OF assms(2)] in \<open>auto simp: iapp_ok_def\<close>)
  then show ?thesis
    by (simp add: e2ap_handle_e42_ric_control_ack_iapp_def)
qed

section \<open>Distribution of indications\<close>

lemma forward_indication_ok:
  assumes "find_map_xapps_sad (ia_xapps i) (ucast xid) = Inr s" "sin_port s \<noteq> 0"
  shows "forward_indication_to_xapp i xid ind =
     (if ind_sn ind = None \<and> ind_call_process_id ind = None
      then Inr (e2ap_send_sctp_msg_iapp i s (Ric_Ind ind))
      else Inl (Double_Free ''e2ap_msg_free_iapp(&iapp->ap, &ans)''))"
  using assms
  by (auto simp: forward_indication_to_xapp_def Let_def free_indication_copy_def e2ap_send_sctp_msg_iapp_def
      intro: e42_iapp_t.equality)

abbreviation subscribed :: "ric_indication_t \<Rightarrow> subscription_entry_t \<Rightarrow> bool" where
  "subscribed ind e \<equiv> se_active e \<and> se_ran_func_id e = ran_func_id (ind_ric_id ind)"

abbreviation subscribers :: "e42_iapp_t \<Rightarrow> ric_indication_t \<Rightarrow> subscription_entry_t list" where
  "subscribers i ind \<equiv> filter (subscribed ind) (reg_entries (ia_subscription_registry i))"

lemma xapp_conn_sent: "xapp_conn (i\<lparr>ia_sent := out\<rparr>) = xapp_conn i"
  by (intro ext) (simp add: xapp_conn_def)

lemma distribute_ok:
  assumes "xapps_sad_ok (ia_xapps i)" "\<forall>e \<in> set es. \<exists>s. xapp_conn i (ucast (se_xapp_id e)) s"
    and "ind_sn ind = None" "ind_call_process_id ind = None"
  shows "\<exists>ss. list_all2 (\<lambda>e s. xapp_conn i (ucast (se_xapp_id e)) s) (filter (subscribed ind) es) ss \<and>
     fold_res (\<lambda>e i. if subscribed ind e then forward_indication_to_xapp i (se_xapp_id e) ind else Inr i) es i =
       Inr (i\<lparr>ia_sent := ia_sent i @ List.map (\<lambda>s. (s, Ric_Ind ind)) ss\<rparr>)"
  using assms(1,2)
proof (induction es arbitrary: i)
  case (Cons e es)
  obtain s where s: "xapp_conn i (ucast (se_xapp_id e)) s"
    using Cons.prems(2) by auto
  show ?case
  proof (cases "subscribed ind e")
    case True
    let ?i = "i\<lparr>ia_sent := ia_sent i @ [(s, Ric_Ind ind)]\<rparr>"
    have "find_map_xapps_sad (ia_xapps i) (ucast (se_xapp_id e)) = Inr s" "sin_port s \<noteq> 0"
      using s find_map_xapps_sad_ok [OF Cons.prems(1)] by (auto simp: xapp_conn_def)
    then have f: "forward_indication_to_xapp i (se_xapp_id e) ind = Inr ?i"
      using forward_indication_ok assms(3,4) by (simp add: e2ap_send_sctp_msg_iapp_def)
    obtain ss where "list_all2 (\<lambda>e s. xapp_conn ?i (ucast (se_xapp_id e)) s) (filter (subscribed ind) es) ss"
      "fold_res (\<lambda>e i. if subscribed ind e then forward_indication_to_xapp i (se_xapp_id e) ind else Inr i) es ?i =
         Inr (?i\<lparr>ia_sent := ia_sent ?i @ List.map (\<lambda>s. (s, Ric_Ind ind)) ss\<rparr>)"
      using Cons.IH [of ?i] Cons.prems by (auto simp: xapp_conn_sent)
    then show ?thesis
      using True s f by (intro exI [of _ "s # ss"]) (simp add: xapp_conn_sent)
  next
    case False
    obtain ss where "list_all2 (\<lambda>e s. xapp_conn i (ucast (se_xapp_id e)) s) (filter (subscribed ind) es) ss"
      "fold_res (\<lambda>e i. if subscribed ind e then forward_indication_to_xapp i (se_xapp_id e) ind else Inr i) es i =
         Inr (i\<lparr>ia_sent := ia_sent i @ List.map (\<lambda>s. (s, Ric_Ind ind)) ss\<rparr>)"
      using Cons.IH [of i] Cons.prems by auto
    then show ?thesis
      using False by (intro exI [of _ ss]) auto
  qed
qed (auto intro: e42_iapp_t.equality)

lemma distribute_double_free:
  assumes "xapps_sad_ok (ia_xapps i)" "\<forall>e \<in> set es. \<exists>s. xapp_conn i (ucast (se_xapp_id e)) s"
    and "ind_sn ind \<noteq> None \<or> ind_call_process_id ind \<noteq> None" "\<exists>e \<in> set es. subscribed ind e"
  shows "fold_res (\<lambda>e i. if subscribed ind e then forward_indication_to_xapp i (se_xapp_id e) ind else Inr i) es i =
     Inl (Double_Free ''e2ap_msg_free_iapp(&iapp->ap, &ans)'')"
  using assms(2,4)
proof (induction es)
  case (Cons e es)
  obtain s where s: "xapp_conn i (ucast (se_xapp_id e)) s"
    using Cons.prems(1) by auto
  then have "find_map_xapps_sad (ia_xapps i) (ucast (se_xapp_id e)) = Inr s" "sin_port s \<noteq> 0"
    using find_map_xapps_sad_ok [OF assms(1)] by (auto simp: xapp_conn_def)
  then have f: "forward_indication_to_xapp i (se_xapp_id e) ind =
      Inl (Double_Free ''e2ap_msg_free_iapp(&iapp->ap, &ans)'')"
    using forward_indication_ok assms(3) by auto
  show ?case
  proof (cases "subscribed ind e")
    case True
    then show ?thesis
      using f by simp
  next
    case False
    then have "\<exists>e \<in> set es. subscribed ind e"
      using Cons.prems(2) by auto
    then show ?thesis
      using False Cons.IH Cons.prems(1) by auto
  qed
qed simp

text \<open>Registering an xApp keeps the invariant.\<close>

lemma reg_xapp_ok:
  assumes "iapp_ok i" "\<forall>(a, b) \<in> bm_pairs (ia_xapps i). a \<noteq> x \<and> sctp_rank b \<noteq> sctp_rank s"
  shows "\<exists>m. add_map_xapps_sad (ia_xapps i) x s = Inr m \<and> iapp_ok (i\<lparr>ia_xapps := m\<rparr>) \<and>
     bm_pairs m = insert (x, s) (bm_pairs (ia_xapps i))"
proof -
  have "xapps_sad_ok (ia_xapps i)"
    using assms(1) by (simp add: iapp_ok_def)
  from add_map_xapps_sad_ok [OF this assms(2)]
  obtain m where m: "add_map_xapps_sad (ia_xapps i) x s = Inr m" "xapps_sad_ok m"
    "bm_pairs m = insert (x, s) (bm_pairs (ia_xapps i))"
    by blast
  have "xapp_conn i y t \<Longrightarrow> xapp_conn (i\<lparr>ia_xapps := m\<rparr>) y t" for y t
    using m(3) by (simp add: xapp_conn_def)
  then have "iapp_ok (i\<lparr>ia_xapps := m\<rparr>)"
    using assms(1) m(2) unfolding iapp_ok_def by fastforce
  then show ?thesis
    using m by blast
qed

text \<open>An iApp with one xApp that has one request and one subscription, for the examples.\<close>

lemma iapp_example:
  "\<exists>i. iapp_ok i \<and> ric_pairs (ia_map_ric_id i) = {(request_7, xapp_request)} \<and>
     bm_pairs (ia_xapps i) = {(8, peer 7000)} \<and> ia_sent i = [] \<and> ia_xapp_id i = 7 \<and>
     reg_entries (ia_subscription_registry i) =
       [\<lparr>se_xapp_id = 8, se_ran_func_id = 142, se_ric_req_id = 7, se_active = True\<rparr>]"
proof -
  obtain i0 where i0: "iapp_ok i0" "ia_sent i0 = []" "bm_pairs (ia_xapps i0) = {}"
    "ric_pairs (ia_map_ric_id i0) = {}" "ia_xapp_id i0 = 7"
    using init_e42_iapp_ok by blast
  obtain m where m: "iapp_ok (i0\<lparr>ia_xapps := m\<rparr>)" "bm_pairs m = {(8, peer 7000)}"
    using reg_xapp_ok [OF i0(1), of 8 "peer 7000"] i0(3) by auto
  obtain ids where ids: "ric_id_ok ids" "\<not> mr_wrlocked ids" "ric_pairs ids = {(request_7, xapp_request)}"
    using add_map_ric_id_ok [of "ia_map_ric_id i0" xapp_request request_7] i0(1,4) by (auto simp: iapp_ok_def)
  let ?r = "\<lparr>reg_entries = [\<lparr>se_xapp_id = 8, se_ran_func_id = 142, se_ric_req_id = 7, se_active = True\<rparr>],
     reg_capacity = 32\<rparr>"
  let ?i = "i0\<lparr>ia_xapps := m, ia_map_ric_id := ids, ia_subscription_registry := ?r\<rparr>"
  have "iapp_ok ?i"
    using m ids by (auto simp: iapp_ok_def xapp_conn_def registry_ok_def request_7_def xapp_request_def peer_def)
  then show ?thesis
    using m(2) ids(3) i0(2,5) by (intro exI [of _ ?i]) simp
qed

lemma notify_indication_ok:
  assumes "iapp_ok i"
  shows "if (ind_sn ind = None \<and> ind_call_process_id ind = None) \<or> subscribers i ind = []
     then \<exists>ss. list_all2 (\<lambda>e s. xapp_conn i (ucast (se_xapp_id e)) s) (subscribers i ind) ss \<and>
       notify_msg_iapp i (Ric_Ind ind) = Inr (i\<lparr>ia_sent := ia_sent i @ List.map (\<lambda>s. (s, Ric_Ind ind)) ss\<rparr>)
     else notify_msg_iapp i (Ric_Ind ind) = Inl (Double_Free ''e2ap_msg_free_iapp(&iapp->ap, &ans)'')"
proof -
  let ?es = "reg_entries (ia_subscription_registry i)"
  have h: "notify_msg_iapp i (Ric_Ind ind) =
      fold_res (\<lambda>e i. if subscribed ind e then forward_indication_to_xapp i (se_xapp_id e) ind else Inr i) ?es i"
    by (simp add: notify_msg_iapp_def e2ap_handle_ric_indication_iapp_def)
  have i: "xapps_sad_ok (ia_xapps i)" "\<forall>e \<in> set ?es. \<exists>s. xapp_conn i (ucast (se_xapp_id e)) s"
    using assms(1) by (auto simp: iapp_ok_def)
  have none: "subscribers i ind = [] \<Longrightarrow> notify_msg_iapp i (Ric_Ind ind) = Inr (i\<lparr>ia_sent := ia_sent i @ []\<rparr>)"
    unfolding h filter_empty_conv
    by (subst fold_res_total [where g = "\<lambda>_ i. i"]) (auto simp: fold_same)
  have "subscribers i ind \<noteq> [] \<Longrightarrow> \<exists>e \<in> set ?es. subscribed ind e"
    unfolding filter_empty_conv by auto
  then show ?thesis
    using distribute_ok [OF i, of ind] distribute_double_free [OF i, of ind] none
    unfolding h by (cases "subscribers i ind = []") auto
qed

section \<open>Properties\<close>

text \<open>
  Responses reach the xApp that asked: for a bound request id, the subscription response,
  the deletion response and the control acknowledgement of the E2 node are sent to the socket of
  the xApp, with the request id the xApp knows; the last two end the request.
\<close>

theorem iapp_routes_responses:
  assumes "iapp_ok i" "(n, x) \<in> ric_pairs (ia_map_ric_id i)" "node_req n = ric_req_id rid"
    and "ran_func_id rid = ran_func_id (xr_ric_id x)" "ric_inst_id rid = ric_inst_id (xr_ric_id x)"
  shows "\<exists>s i1 i2. xapp_conn i (xr_xapp_id x) s \<and>
     notify_msg_iapp i (Ric_Sub_Resp \<lparr>sresp_ric_id = rid, sresp_admitted = adm, sresp_not_admitted = na\<rparr>) =
       Inr (e2ap_send_sctp_msg_iapp i s (Ric_Sub_Resp
         \<lparr>sresp_ric_id = xr_ric_id x, sresp_admitted = adm, sresp_not_admitted = na\<rparr>)) \<and>
     notify_msg_iapp i (Ric_Sub_Del_Resp \<lparr>sdresp_ric_id = rid\<rparr>) = Inr i1 \<and>
     answered i n x (Ric_Sub_Del_Resp \<lparr>sdresp_ric_id = xr_ric_id x\<rparr>) i1 \<and>
     notify_msg_iapp i (Ric_Ctrl_Ack \<lparr>ack_ric_id = rid, ack_call_process_id = cpid, ack_control_outcome = out\<rparr>) = Inr i2 \<and>
     answered i n x (Ric_Ctrl_Ack \<lparr>ack_ric_id = xr_ric_id x, ack_call_process_id = None, ack_control_outcome = None\<rparr>) i2"
  using handle_subscription_response_ok [OF assms(1,2), of "\<lparr>sresp_ric_id = rid, sresp_admitted = adm, sresp_not_admitted = na\<rparr>"]
    handle_subscription_delete_response_ok [OF assms(1,2), of "\<lparr>sdresp_ric_id = rid\<rparr>"]
    handle_control_ack_ok [OF assms(1,2), of "\<lparr>ack_ric_id = rid, ack_call_process_id = cpid, ack_control_outcome = out\<rparr>"]
    assms(3-5)
  by (auto simp: notify_msg_iapp_def)

theorem iapp_routes_responses_witness:
  "\<exists>i i1. iapp_ok i \<and>
     notify_msg_iapp i (Ric_Sub_Del_Resp \<lparr>sdresp_ric_id = en_ric_id request_7\<rparr>) = Inr i1 \<and>
     ia_sent i1 = [(peer 7000, Ric_Sub_Del_Resp \<lparr>sdresp_ric_id = xr_ric_id xapp_request\<rparr>)] \<and>
     ric_pairs (ia_map_ric_id i1) = {}"
proof -
  obtain i where i: "iapp_ok i" "ric_pairs (ia_map_ric_id i) = {(request_7, xapp_request)}"
    "bm_pairs (ia_xapps i) = {(8, peer 7000)}" "ia_sent i = []"
    using iapp_example by blast
  have "(request_7, xapp_request) \<in> ric_pairs (ia_map_ric_id i)"
    using i(2) by simp
  then have "\<exists>s i1 i2. xapp_conn i (xr_xapp_id xapp_request) s \<and>
     notify_msg_iapp i (Ric_Sub_Resp \<lparr>sresp_ric_id = en_ric_id request_7, sresp_admitted = [], sresp_not_admitted = []\<rparr>) =
       Inr (e2ap_send_sctp_msg_iapp i s (Ric_Sub_Resp
         \<lparr>sresp_ric_id = xr_ric_id xapp_request, sresp_admitted = [], sresp_not_admitted = []\<rparr>)) \<and>
     notify_msg_iapp i (Ric_Sub_Del_Resp \<lparr>sdresp_ric_id = en_ric_id request_7\<rparr>) = Inr i1 \<and>
     answered i request_7 xapp_request (Ric_Sub_Del_Resp \<lparr>sdresp_ric_id = xr_ric_id xapp_request\<rparr>) i1 \<and>
     notify_msg_iapp i (Ric_Ctrl_Ack \<lparr>ack_ric_id = en_ric_id request_7, ack_call_process_id = None, ack_control_outcome = None\<rparr>) = Inr i2 \<and>
     answered i request_7 xapp_request (Ric_Ctrl_Ack
       \<lparr>ack_ric_id = xr_ric_id xapp_request, ack_call_process_id = None, ack_control_outcome = None\<rparr>) i2"
    by (rule iapp_routes_responses [OF i(1)]) (simp_all add: request_7_def xapp_request_def)
  then obtain i1 where "notify_msg_iapp i (Ric_Sub_Del_Resp \<lparr>sdresp_ric_id = en_ric_id request_7\<rparr>) = Inr i1"
    "answered i request_7 xapp_request (Ric_Sub_Del_Resp \<lparr>sdresp_ric_id = xr_ric_id xapp_request\<rparr>) i1"
    by blast
  then show ?thesis
    using i by (intro exI [of _ i] exI [of _ i1]) (auto simp: answered_def xapp_conn_def)
qed

text \<open>
  An indication without optional parts is sent to every xApp with an active subscription
  of its RAN function, once for each entry of the registry and in the order of the registry,
  and nothing else changes.  With a sequence number or a call process id, the copy for an xApp
  releases memory of the message of the caller, and the RIC does not survive its delivery.
\<close>

theorem iapp_distributes_indications:
  assumes "iapp_ok i"
  shows "if (ind_sn ind = None \<and> ind_call_process_id ind = None) \<or> subscribers i ind = []
     then \<exists>ss. list_all2 (\<lambda>e s. xapp_conn i (ucast (se_xapp_id e)) s) (subscribers i ind) ss \<and>
       notify_msg_iapp i (Ric_Ind ind) = Inr (i\<lparr>ia_sent := ia_sent i @ List.map (\<lambda>s. (s, Ric_Ind ind)) ss\<rparr>)
     else notify_msg_iapp i (Ric_Ind ind) = Inl (Double_Free ''e2ap_msg_free_iapp(&iapp->ap, &ans)'')"
  by (rule notify_indication_ok [OF assms])

definition report_142 :: ric_indication_t where
  "report_142 = \<lparr>ind_ric_id = \<lparr>ric_req_id = 7, ric_inst_id = 0, ran_func_id = 142\<rparr>, ind_action_id = 0,
     ind_sn = None, ind_type = RIC_IND_REPORT, ind_hdr = [1], ind_msg = [2], ind_call_process_id = None\<rparr>"

theorem iapp_distributes_indications_witness:
  "\<exists>i i1. iapp_ok i \<and> notify_msg_iapp i (Ric_Ind report_142) = Inr i1 \<and>
     ia_sent i1 = [(peer 7000, Ric_Ind report_142)] \<and>
     notify_msg_iapp i (Ric_Ind (report_142\<lparr>ind_sn := Some 1\<rparr>)) =
       Inl (Double_Free ''e2ap_msg_free_iapp(&iapp->ap, &ans)'')"
proof -
  obtain i where i: "iapp_ok i" "bm_pairs (ia_xapps i) = {(8, peer 7000)}" "ia_sent i = []"
    "reg_entries (ia_subscription_registry i) =
       [\<lparr>se_xapp_id = 8, se_ran_func_id = 142, se_ric_req_id = 7, se_active = True\<rparr>]"
    using iapp_example by blast
  let ?ind = "report_142\<lparr>ind_sn := Some 1\<rparr>"
  have subs: "subscribers i report_142 = reg_entries (ia_subscription_registry i)" "subscribers i ?ind \<noteq> []"
    by (simp_all add: i(4) report_142_def)
  have opt: "ind_sn report_142 = None \<and> ind_call_process_id report_142 = None" "ind_sn ?ind \<noteq> None"
    by (simp_all add: report_142_def)
  obtain ss where ss: "list_all2 (\<lambda>e s. xapp_conn i (ucast (se_xapp_id e)) s) (subscribers i report_142) ss"
    "notify_msg_iapp i (Ric_Ind report_142) = Inr (i\<lparr>ia_sent := ia_sent i @ List.map (\<lambda>s. (s, Ric_Ind report_142)) ss\<rparr>)"
    using iapp_distributes_indications [OF i(1), of report_142] opt(1) by auto
  have "ss = [peer 7000]"
    using ss(1) unfolding subs(1) unfolding i(4) by (auto simp: list_all2_Cons1 xapp_conn_def i(2))
  moreover have "notify_msg_iapp i (Ric_Ind ?ind) = Inl (Double_Free ''e2ap_msg_free_iapp(&iapp->ap, &ans)'')"
    using iapp_distributes_indications [OF i(1), of ?ind] opt(2) subs(2) by simp
  ultimately show ?thesis
    using i(1,3) ss(2)
    by (intro exI [of _ i] exI [of _ "i\<lparr>ia_sent := [(peer 7000, Ric_Ind report_142)]\<rparr>"]) simp
qed

end
