(* ===== verification/Near_Ric.thy ===== *)
theory Near_Ric
  imports Iapp_Notify
begin

text \<open>
  The near-RT RIC (\<^verbatim>\<open>ric/near_ric.c\<close>, \<^verbatim>\<open>msg_handler_ric.c\<close>, \<^verbatim>\<open>not_handler_ric.c\<close>, \<^verbatim>\<open>e2_node.c\<close>,
  \<^verbatim>\<open>generate_setup_response.c\<close> and the parts of \<^verbatim>\<open>endpoint_ric.c\<close>, \<^verbatim>\<open>asio_ric.c\<close> and
  \<^verbatim>\<open>plugin_ric.c\<close> that it rests on): its state, the requests it sends to the E2 nodes, the
  pending event that every request leaves behind until its response arrives, and the handlers
  of the messages of the E2 nodes.

  The operating system is a parameter: an operation that creates a timer takes the descriptor
  that \<^verbatim>\<open>timerfd_create\<close> returns, and the event loop takes the descriptors that are ready.
  A service model is a record of the functions its shared object provides.  \<open>nr_sent\<close> records
  the messages to the E2 nodes, \<open>nr_published\<close> the data passed to the local listeners and
  \<open>nr_consumed\<close> the descriptors that are read after a timeout.  \<open>nr_tasks\<close> is the queue of the
  task manager.  The handlers also change the state of the iApp, which lives in the same
  process and is called directly.
\<close>

section \<open>State\<close>

datatype sm_ag_if_rd_ind_e =
    MAC_STATS_V0 | RLC_STATS_V0 | PDCP_STATS_V0 | SLICE_STATS_V0 | TC_STATS_V0 | GTP_STATS_V0
  | KPM_STATS_V3_0 | RAN_CTRL_STATS_V1_03 | SM_AGENT_IF_READ_V0_END

text \<open>The decoded data of an indication: its type and the opaque decoded values.\<close>

record sm_ag_if_rd_ind_t =
  rd_type :: sm_ag_if_rd_ind_e
  rd_values :: byte_array_t

record sm_subs_data_t =
  sub_event_trigger :: byte_array_t
  sub_action_def :: "byte_array_t option"

record sm_ctrl_req_data_t =
  ctrl_hdr :: byte_array_t
  ctrl_msg :: byte_array_t

record sm_ind_data_t =
  sid_ind_hdr :: byte_array_t
  sid_ind_msg :: byte_array_t
  sid_call_process_id :: "byte_array_t option"

record sm_ric_t =
  on_subscription :: "byte_array_t \<Rightarrow> sm_subs_data_t"
  on_indication :: "sm_ind_data_t \<Rightarrow> sm_ag_if_rd_ind_t"
  on_control_req :: "byte_array_t \<Rightarrow> sm_ctrl_req_data_t"
  sm_ran_func_id :: u16

datatype listener = notify_stdout_listener | notify_redis_listener | notify_influx_listener

record subs_ric_t =
  subs_name :: string
  subs_fp :: listener

record e2_node_t =
  nod_id :: global_e2_node_id_t
  nod_accepted :: "u16 list"

text \<open>The notifications of the SCTP socket that the code tells apart.\<close>

datatype sctp_sn_type = SCTP_ASSOC_CHANGE | SCTP_SHUTDOWN_EVENT | SCTP_OTHER_NOTIFICATION

datatype sctp_msg_t =
    SCTP_MSG_PAYLOAD sctp_info_t e2ap_msg_t
  | SCTP_MSG_NOTIFICATION sctp_info_t sctp_sn_type

record near_ric_t =
  nr_fd :: int
  nr_e2_nodes :: map_e2_node_sockaddr_t
  nr_io :: "int list"
  nr_sm_ds :: "(u16, sm_ric_t) assoc_rb_tree_t"
  nr_pub_sub :: "(u16, subs_ric_t seq_arr_t) assoc_rb_tree_t"
  nr_conn_e2_nodes :: "e2_node_t seq_arr_t"
  nr_req_id :: u32
  nr_last_req_id :: u16
  nr_pending :: "(int, pending_event_ric_t) bi_map_t"
  nr_tasks :: "(sctp_info_t \<times> e2ap_msg_t) list"
  nr_sent :: "(sctp_info_t \<times> e2ap_msg_t) list"
  nr_published :: "(listener \<times> sm_ag_if_rd_ind_t) list"
  nr_consumed :: "int list"

definition sizeof_subs_ric :: nat where "sizeof_subs_ric = 40"
definition sizeof_e2_node :: nat where "sizeof_e2_node = 48"
definition sizeof_fd :: nat where "sizeof_fd = 4"
definition sizeof_pending_event_ric :: nat where "sizeof_pending_event_ric = 12"

section \<open>Descriptors and timers\<close>

text \<open>The set of watched descriptors; \<^verbatim>\<open>epoll_ctl\<close> fails on a second registration.\<close>

definition add_fd_asio_ric :: "int list \<Rightarrow> int \<Rightarrow> int list res" where
  "add_fd_asio_ric io fd =
     chk (fd > 0) ''fd cannot be negative, data corrupted'' (
     chk (fd \<notin> set io) ''rc != -1'' (
     Inr (fd # io)))"

definition rm_fd_asio_ric :: "int list \<Rightarrow> int \<Rightarrow> int list res" where
  "rm_fd_asio_ric io fd = chk (fd \<in> set io) ''rc != -1'' (Inr (removeAll fd io))"

text \<open>\<open>tfd\<close> is the descriptor of the operating system, \<open>-1\<close> when it has none left.\<close>

definition create_timer_ms_asio_ric :: "int list \<Rightarrow> int \<Rightarrow> (int list \<times> int) res" where
  "create_timer_ms_asio_ric io tfd =
     (if tfd = - 1 then Inr (io, - 1)
      else bnd (add_fd_asio_ric io tfd) (\<lambda>io. Inr (io, tfd)))"

section \<open>Initialisation\<close>

definition free_fd :: "int \<Rightarrow> pending_event_ric_t \<Rightarrow> unit res" where
  "free_fd fd v = chk (fd > 0) ''*fd > 0'' (Inr ())"

definition free_pending_ev_ric :: "pending_event_ric_t \<Rightarrow> int \<Rightarrow> unit res" where
  "free_pending_ev_ric ev v = bnd (valid_pending_event (per_ev ev)) (\<lambda>_. Inr ())"

definition init_pending_events :: "(int, pending_event_ric_t) bi_map_t res" where
  "init_pending_events =
     bi_map_init sizeof_fd sizeof_pending_event_ric cmp_fd cmp_pending_event_ric
       (Some free_fd) (Some free_pending_ev_ric)"

definition free_subscribed :: "u16 \<Rightarrow> subs_ric_t seq_arr_t \<Rightarrow> unit res" where
  "free_subscribed k v = Inr ()"

definition init_pub_sub_ds_ric :: "(u16, subs_ric_t seq_arr_t) assoc_rb_tree_t res" where
  "init_pub_sub_ds_ric = assoc_rb_tree_init sizeof_uint16 cmp_ran_func_id (Some free_subscribed)"

definition init_e2_nodes_ric :: "e2_node_t seq_arr_t" where
  "init_e2_nodes_ric = seq_arr_init sizeof_e2_node"

text \<open>Writing through the pointer to the value under an iterator.\<close>

fun put_value :: "('k, 'v) assoc_rb_tree_t \<Rightarrow> ('k, 'v) node_it \<Rightarrow> 'v \<Rightarrow> ('k, 'v) assoc_rb_tree_t" where
  "put_value t (ps, Node c k v l r) v' = t\<lparr>rb_root := climb ps (Node c k v' l r)\<rparr>"
| "put_value t (ps, Dummy) v' = t"

definition register_listeners_for_ran_func_id ::
  "u16 \<Rightarrow> subs_ric_t \<Rightarrow> (u16, subs_ric_t seq_arr_t) assoc_rb_tree_t \<Rightarrow>
   (u16, subs_ric_t seq_arr_t) assoc_rb_tree_t res" where
  "register_listeners_for_ran_func_id rfun subs pub_sub =
     bnd (find_if_rb_tree (eq_ran_func_id rfun) (assoc_rb_tree_front pub_sub)) (\<lambda>it.
     if at_end it then
       bnd (seq_arr_push_back (seq_arr_init sizeof_subs_ric) subs sizeof_subs_ric) (\<lambda>arr.
       assoc_rb_tree_insert pub_sub rfun sizeof_uint16 arr)
     else
       bnd (assoc_rb_tree_value it) (\<lambda>arr.
       bnd (seq_arr_push_back arr subs sizeof_subs_ric) (\<lambda>arr.
       Inr (put_value pub_sub it arr))))"

definition load_default_pub_sub_ric ::
  "(u16, sm_ric_t) assoc_rb_tree_t \<Rightarrow> (u16, subs_ric_t seq_arr_t) assoc_rb_tree_t \<Rightarrow>
   (u16, subs_ric_t seq_arr_t) assoc_rb_tree_t res" where
  "load_default_pub_sub_ric sm_ds pub_sub =
     for_tree (\<lambda>rfun _ pub_sub.
       bnd (register_listeners_for_ran_func_id rfun
              \<lparr>subs_name = ''stdout listener'', subs_fp = notify_stdout_listener\<rparr> pub_sub) (\<lambda>pub_sub.
       bnd (register_listeners_for_ran_func_id rfun
              \<lparr>subs_name = ''redis listener'', subs_fp = notify_redis_listener\<rparr> pub_sub) (\<lambda>pub_sub.
       register_listeners_for_ran_func_id rfun
              \<lparr>subs_name = ''influx listener'', subs_fp = notify_influx_listener\<rparr> pub_sub)))
     (assoc_rb_tree_front sm_ds) pub_sub"

text \<open>\<open>fd\<close> is the listening socket and \<open>sm_ds\<close> the service models loaded from the plugins.\<close>

definition init_near_ric :: "int \<Rightarrow> (u16, sm_ric_t) assoc_rb_tree_t \<Rightarrow> near_ric_t res" where
  "init_near_ric fd sm_ds =
     bnd init_map_e2_node_sad (\<lambda>e2_nodes.
     bnd (add_fd_asio_ric [] fd) (\<lambda>io.
     bnd init_pub_sub_ds_ric (\<lambda>pub_sub.
     bnd (load_default_pub_sub_ric sm_ds pub_sub) (\<lambda>pub_sub.
     bnd init_pending_events (\<lambda>pending.
     Inr \<lparr>nr_fd = fd, nr_e2_nodes = e2_nodes, nr_io = io, nr_sm_ds = sm_ds, nr_pub_sub = pub_sub,
          nr_conn_e2_nodes = init_e2_nodes_ric, nr_req_id = 0, nr_last_req_id = 0,
          nr_pending = pending, nr_tasks = [], nr_sent = [], nr_published = [], nr_consumed = []\<rparr>)))))"

text \<open>The end of the RIC releases the listeners and the pending events.\<close>

definition free_near_ric :: "near_ric_t \<Rightarrow> unit res" where
  "free_near_ric ric =
     bnd (assoc_rb_tree_free (nr_pub_sub ric)) (\<lambda>_. bi_map_free (nr_pending ric))"

section \<open>Requests to the E2 nodes\<close>

definition sm_plugin_ric :: "(u16, sm_ric_t) assoc_rb_tree_t \<Rightarrow> u16 \<Rightarrow> sm_ric_t res" where
  "sm_plugin_ric sm_ds rfun =
     chk (rfun > 0) ''Reserved value'' (
     bnd (lookup_if sm_ds (eq_ran_func_id rfun)) (\<lambda>sm.
     bnd (found sm ''RAN function ID not found in the RAN'') (\<lambda>sm.
     chk (sm_ran_func_id sm = rfun) ''sm->ran_func_id == ran_func_id'' (Inr sm))))"

definition e2ap_send_bytes_ric :: "near_ric_t \<Rightarrow> global_e2_node_id_t \<Rightarrow> e2ap_msg_t \<Rightarrow> near_ric_t res" where
  "e2ap_send_bytes_ric ric nid msg =
     bnd (find_map_e2_node_sad (nr_e2_nodes ric) nid) (\<lambda>s.
     Inr (ric\<lparr>nr_sent := nr_sent ric @ [(s, msg)]\<rparr>))"

text \<open>The timer of a request and its entry in the pending events.\<close>

definition insert_pending_event :: "near_ric_t \<Rightarrow> pending_event_ric_t \<Rightarrow> int \<Rightarrow> near_ric_t res" where
  "insert_pending_event ric ev tfd =
     bnd (create_timer_ms_asio_ric (nr_io ric) tfd) (\<lambda>(io, fd_timer).
     bnd (bi_map_insert (nr_pending ric) fd_timer sizeof_fd ev sizeof_pending_event_ric) (\<lambda>pending.
     Inr (ric\<lparr>nr_io := io, nr_pending := pending\<rparr>)))"

definition generate_subscription_request ::
  "near_ric_t \<Rightarrow> sm_ric_t \<Rightarrow> u16 \<Rightarrow> byte_array_t \<Rightarrow> near_ric_t \<times> ric_subscription_request_t" where
  "generate_subscription_request ric sm rfun cmd =
     (let ric_id = \<lparr>ric_req_id = nr_req_id ric, ric_inst_id = 0, ran_func_id = rfun\<rparr>;
          data = on_subscription sm cmd
      in (ric\<lparr>nr_req_id := nr_req_id ric + 1\<rparr>,
          \<lparr>sreq_ric_id = ric_id, sreq_event_trigger = sub_event_trigger data,
           sreq_action = [\<lparr>act_id = 0, act_type = RIC_ACT_REPORT,
                           act_definition = sub_action_def data, act_subseq_action = None\<rparr>]\<rparr>))"

definition report_service_near_ric ::
  "near_ric_t \<Rightarrow> global_e2_node_id_t \<Rightarrow> u16 \<Rightarrow> byte_array_t \<Rightarrow> int \<Rightarrow> (near_ric_t \<times> u16) res" where
  "report_service_near_ric ric nid rfun cmd tfd =
     chk (rfun \<noteq> 0) ''Reserved SM ID value'' (
     chk (rfun < 150) ''Not still reached upper limit'' (
     bnd (sm_plugin_ric (nr_sm_ds ric) rfun) (\<lambda>sm.
     let (ric, sr) = generate_subscription_request ric sm rfun cmd in
     bnd (insert_pending_event ric
            \<lparr>per_ev = SUBSCRIPTION_REQUEST_PENDING_EVENT, per_id = sreq_ric_id sr\<rparr> tfd) (\<lambda>ric.
     bnd (e2ap_send_bytes_ric ric nid (Ric_Sub_Req sr)) (\<lambda>ric.
     Inr (ric, ucast (ric_req_id (sreq_ric_id sr))))))))"

definition rm_report_service_near_ric ::
  "near_ric_t \<Rightarrow> global_e2_node_id_t \<Rightarrow> u16 \<Rightarrow> u16 \<Rightarrow> int \<Rightarrow> near_ric_t res" where
  "rm_report_service_near_ric ric nid rfun a_id tfd =
     chk (a_id > 0) ''act_id > 0'' (
     let sd = \<lparr>sdr_ric_id = \<lparr>ric_req_id = ucast a_id, ric_inst_id = 0, ran_func_id = rfun\<rparr>\<rparr> in
     bnd (insert_pending_event ric
            \<lparr>per_ev = SUBSCRIPTION_DELETE_REQUEST_PENDING_EVENT, per_id = sdr_ric_id sd\<rparr> tfd) (\<lambda>ric.
     e2ap_send_bytes_ric ric nid (Ric_Sub_Del_Req sd)))"

definition generate_control_request ::
  "near_ric_t \<Rightarrow> sm_ric_t \<Rightarrow> byte_array_t \<Rightarrow> near_ric_t \<times> ric_control_request_t" where
  "generate_control_request ric sm ctrl =
     (let ric_id = \<lparr>ric_req_id = nr_req_id ric, ric_inst_id = 0, ran_func_id = sm_ran_func_id sm\<rparr>;
          data = on_control_req sm ctrl
      in (ric\<lparr>nr_req_id := nr_req_id ric + 1\<rparr>,
          \<lparr>cr_ric_id = ric_id, cr_call_process_id = None, cr_hdr = ctrl_hdr data,
           cr_msg = ctrl_msg data, cr_ack_req = Some RIC_CONTROL_REQUEST_ACK\<rparr>))"

definition control_service_near_ric ::
  "near_ric_t \<Rightarrow> global_e2_node_id_t \<Rightarrow> u16 \<Rightarrow> byte_array_t \<Rightarrow> int \<Rightarrow> near_ric_t res" where
  "control_service_near_ric ric nid rfun ctrl tfd =
     chk (rfun > 0) ''ran_func_id > 0'' (
     chk (rfun = 3 \<or> rfun = 145 \<or> rfun = 146) ''ran_func_id == 3 || ...'' (
     bnd (sm_plugin_ric (nr_sm_ds ric) rfun) (\<lambda>sm.
     let (ric, cr) = generate_control_request ric sm ctrl in
     bnd (insert_pending_event ric
            \<lparr>per_ev = CONTROL_REQUEST_PENDING_EVENT, per_id = cr_ric_id cr\<rparr> tfd) (\<lambda>ric.
     e2ap_send_bytes_ric ric nid (Ric_Ctrl_Req cr)))))"

definition conn_e2_nodes :: "near_ric_t \<Rightarrow> e2_node_t seq_arr_t res" where
  "conn_e2_nodes ric =
     for_arr (\<lambda>n arr. seq_arr_push_back arr n sizeof_e2_node) (nr_conn_e2_nodes ric)
       (seq_arr_init sizeof_e2_node)"

section \<open>Requests of the iApp\<close>

definition fwd_ric_subscription_request ::
  "near_ric_t \<Rightarrow> global_e2_node_id_t \<Rightarrow> ric_subscription_request_t \<Rightarrow> int \<Rightarrow> (near_ric_t \<times> u16) res" where
  "fwd_ric_subscription_request ric nid sr tfd =
     (let original_ric_req_id = ucast (ric_req_id (sreq_ric_id sr)) :: u16;
          ric = (if original_ric_req_id > nr_last_req_id ric
                 then ric\<lparr>nr_last_req_id := original_ric_req_id\<rparr> else ric);
          ric = ric\<lparr>nr_req_id := ucast original_ric_req_id\<rparr>
      in bnd (insert_pending_event ric
                \<lparr>per_ev = SUBSCRIPTION_REQUEST_PENDING_EVENT, per_id = sreq_ric_id sr\<rparr> tfd) (\<lambda>ric.
         bnd (e2ap_send_bytes_ric ric nid (Ric_Sub_Req sr)) (\<lambda>ric.
         Inr (ric, original_ric_req_id))))"

definition fwd_ric_subscription_request_delete ::
  "near_ric_t \<Rightarrow> global_e2_node_id_t \<Rightarrow> ric_subscription_delete_request_t \<Rightarrow> int \<Rightarrow> near_ric_t res" where
  "fwd_ric_subscription_request_delete ric nid sdr tfd =
     (let ev = \<lparr>per_ev = SUBSCRIPTION_DELETE_REQUEST_PENDING_EVENT, per_id = sdr_ric_id sdr\<rparr> in
      bnd (find_if_rb_tree (eq_pending_event_ric ev) (assoc_rb_tree_front (bm_right (nr_pending ric)))) (\<lambda>it.
      if \<not> at_end it then Inr ric
      else
        bnd (insert_pending_event ric ev tfd) (\<lambda>ric.
        e2ap_send_bytes_ric ric nid (Ric_Sub_Del_Req sdr))))"

text \<open>
  The request id is written through a pointer to 16 bits into the 32-bit field of the caller's
  message: the low half of a little-endian integer.  The changed message is returned.
\<close>

definition fwd_ric_control_request ::
  "near_ric_t \<Rightarrow> global_e2_node_id_t \<Rightarrow> ric_control_request_t \<Rightarrow> int \<Rightarrow>
   (near_ric_t \<times> ric_control_request_t \<times> u16) res" where
  "fwd_ric_control_request ric nid cr tfd =
     (let req_id = ucast (nr_req_id ric) :: u16;
          ric = ric\<lparr>nr_req_id := nr_req_id ric + 1\<rparr>;
          high = push_bit 16 (drop_bit 16 (ric_req_id (cr_ric_id cr)));
          cr = cr\<lparr>cr_ric_id := (cr_ric_id cr)\<lparr>ric_req_id := high + ucast req_id\<rparr>\<rparr>
      in bnd (insert_pending_event ric
                \<lparr>per_ev = CONTROL_REQUEST_PENDING_EVENT, per_id = cr_ric_id cr\<rparr> tfd) (\<lambda>ric.
         bnd (e2ap_send_bytes_ric ric nid (Ric_Ctrl_Req cr)) (\<lambda>ric.
         Inr (ric, cr, req_id))))"

section \<open>Events\<close>

datatype async_event_t =
    CHECK_STOP_TOKEN_EVENT
  | SCTP_CONNECTION_SHUTDOWN_EVENT sctp_info_t sctp_sn_type
  | SCTP_MSG_ARRIVED_EVENT sctp_info_t e2ap_msg_t
  | PENDING_EVENT int pending_event_ric_t
  | UNKNOWN_EVENT

definition net_pkt :: "int \<Rightarrow> int \<Rightarrow> bool res" where
  "net_pkt ep_fd fd = chk (fd > 0) ''fd > 0'' (Inr (fd = ep_fd))"

definition pend_event :: "near_ric_t \<Rightarrow> int \<Rightarrow> pending_event_ric_t res" where
  "pend_event ric fd =
     chk (fd > 0) ''fd > 0'' (
     bnd (lookup_if (bm_left (nr_pending ric)) (eq_fd fd)) (\<lambda>v.
     found v ''it != end_it''))"

text \<open>
  The ready descriptors, with the message that the socket delivers when the descriptor is the
  one of the endpoint; \<^term>\<open>None\<close> is the return of \<^verbatim>\<open>epoll_wait\<close> after its timeout.  The events
  start zeroed and the descriptor of a pending event is not stored in them.
\<close>

definition next_event_ric :: "near_ric_t \<Rightarrow> int \<times> sctp_msg_t \<Rightarrow> async_event_t res" where
  "next_event_ric ric r =
     bnd (net_pkt (nr_fd ric) (fst r)) (\<lambda>net.
     if net then
       (case snd r of
          SCTP_MSG_NOTIFICATION info sn \<Rightarrow> Inr (SCTP_CONNECTION_SHUTDOWN_EVENT info sn)
        | SCTP_MSG_PAYLOAD info msg \<Rightarrow> Inr (SCTP_MSG_ARRIVED_EVENT info msg))
     else bnd (pend_event ric (fst r)) (\<lambda>p_ev. Inr (PENDING_EVENT 0 p_ev)))"

definition next_asio_event_ric ::
  "near_ric_t \<Rightarrow> (int \<times> sctp_msg_t) list option \<Rightarrow> async_event_t list res" where
  "next_asio_event_ric ric fd_read =
     (case fd_read of
        None \<Rightarrow> Inr [CHECK_STOP_TOKEN_EVENT]
      | Some rs \<Rightarrow>
          chk (length rs < 65) ''fd_read.len > -2 && fd_read.len < 65'' (
          fold_res (\<lambda>r arr. bnd (next_event_ric ric r) (\<lambda>ev. Inr (arr @ [ev]))) rs []))"

end
