(* ===== verification/Plain_Codec.thy ===== *)
theory Plain_Codec
  imports Flex_Prelude
begin

text \<open>
  The object representation of plain C structures on a little-endian machine, and the loops that
  copy arrays of them out of and into a buffer, as the \<^verbatim>\<open>*_enc_plain.c\<close> and \<^verbatim>\<open>*_dec_plain.c\<close>
  files of the service models do with \<^verbatim>\<open>memcpy\<close>.  A padding byte is written as 0.

  The locale \<open>plain\<close> is the interface of a structure that is copied byte by byte; the array
  loops are proved correct once inside it.
\<close>

unbundle bit_operations_syntax

section \<open>Integers\<close>

definition le_bytes :: "nat \<Rightarrow> 'a::len word \<Rightarrow> u8 list" where
  "le_bytes n w = map (\<lambda>i. ucast (drop_bit (8 * i) w)) [0..<n]"

definition le_word :: "u8 list \<Rightarrow> 'a::len word" where
  "le_word bs = foldr (\<lambda>b w. ucast b OR push_bit 8 w) bs 0"

definition of_flag :: "bool \<Rightarrow> u8" where
  "of_flag b = (if b then 1 else 0)"

lemma of_flag_neq_0 [simp]: "of_flag b \<noteq> 0 \<longleftrightarrow> b" "of_flag b = 0 \<longleftrightarrow> \<not> b"
  by (simp_all add: of_flag_def)

lemma length_le_bytes [simp]: "length (le_bytes n w) = n"
  by (simp add: le_bytes_def)

lemma bit_le_word:
  "bit (le_word bs :: 'a::len word) i \<longleftrightarrow>
     i < LENGTH('a) \<and> i div 8 < length bs \<and> bit (bs ! (i div 8)) (i mod 8)"
proof (induction bs arbitrary: i)
  case (Cons b bs)
  have s: "le_word (b # bs) = (ucast b OR push_bit 8 (le_word bs) :: 'a word)"
    by (simp add: le_word_def)
  show ?case
  proof (cases "i < 8")
    case True
    then show ?thesis
      by (auto simp: s bit_simps)
  next
    case False
    have "\<not> bit b i"
      using False bit_imp_le_length [of b i] by fastforce
    moreover obtain k where k: "i div 8 = Suc k"
      using False by (cases "i div 8") simp_all
    moreover have "(i - 8) div 8 = k" "(i - 8) mod 8 = i mod 8"
      using False k by (simp_all add: le_mod_geq le_div_geq)
    moreover have "i - 8 < LENGTH('a)" if "i < LENGTH('a)"
      using that by simp
    ultimately show ?thesis
      using False Cons.IH [of "i - 8"] by (auto simp: s bit_or_iff bit_ucast_iff bit_push_bit_iff not_less)
  qed
qed (simp add: le_word_def)

lemma le_word_bytes [simp]: "8 * n = LENGTH('a) \<Longrightarrow> le_word (le_bytes n w) = (w :: 'a::len word)"
proof (rule bit_word_eqI)
  fix i assume n: "8 * n = LENGTH('a)" and i: "i < LENGTH('a)"
  then have "i div 8 < n"
    by simp
  moreover have "8 * (i div 8) + i mod 8 = i"
    by simp
  ultimately show "bit (le_word (le_bytes n w) :: 'a word) i = bit w i"
    using i by (simp add: bit_le_word le_bytes_def bit_simps)
qed

section \<open>Arrays of structures\<close>

text \<open>A copy out of a buffer: reading past its end is a fault.\<close>

definition copy_out :: "nat \<Rightarrow> u8 list \<Rightarrow> (u8 list \<times> u8 list) res" where
  "copy_out n bs = (if n \<le> length bs then Inr (take n bs, drop n bs)
                    else Inl (Heap_Overflow ''memcpy reads past the buffer''))"

lemma copy_out_append [simp]: "length xs = n \<Longrightarrow> copy_out n (xs @ ys) = Inr (xs, ys)"
  by (simp add: copy_out_def)

lemma copy_out_short: "length bs < n \<Longrightarrow> copy_out n bs = Inl (Heap_Overflow ''memcpy reads past the buffer'')"
  by (simp add: copy_out_def)

fun copy_array :: "nat \<Rightarrow> (u8 list \<Rightarrow> 'a) \<Rightarrow> nat \<Rightarrow> u8 list \<Rightarrow> ('a list \<times> u8 list) res" where
  "copy_array sz dec 0 bs = Inr ([], bs)"
| "copy_array sz dec (Suc n) bs =
     bnd (copy_out sz bs) (\<lambda>(s, bs).
     bnd (copy_array sz dec n bs) (\<lambda>(xs, bs). Inr (dec s # xs, bs)))"

lemma copy_array_total:
  "copy_array sz dec n bs =
     (if n * sz \<le> length bs
      then Inr (map (\<lambda>i. dec (take sz (drop (i * sz) bs))) [0..<n], drop (n * sz) bs)
      else Inl (Heap_Overflow ''memcpy reads past the buffer''))"
proof (induction n arbitrary: bs)
  case (Suc n)
  have u: "[0..<Suc n] = 0 # map Suc [0..<n]"
    by (metis map_Suc_upt upt_rec zero_less_Suc)
  have d: "drop (i * sz) (drop sz bs) = drop (sz + i * sz) bs" for i
    by (simp add: add.commute)
  show ?case
    by (cases "sz \<le> length bs") (auto simp: Suc.IH u copy_out_def d comp_def add.commute simp del: upt_Suc)
qed simp

text \<open>A structure of \<open>sz\<close> bytes.\<close>

locale plain =
  fixes sz :: nat and enc :: "'a \<Rightarrow> u8 list" and dec :: "u8 list \<Rightarrow> 'a"
  assumes enc_length: "length (enc x) = sz" and dec_enc: "dec (enc x) = x"
begin

lemma enc_array_length: "length (concat (map enc xs)) = sz * length xs"
  by (induction xs) (simp_all add: enc_length)

lemma copy_array_enc: "copy_array sz dec (length xs) (concat (map enc xs) @ bs) = Inr (xs, bs)"
  by (induction xs) (simp_all add: enc_length dec_enc)

lemma enc_inj: "enc x = enc y \<Longrightarrow> x = y"
  by (metis dec_enc)

end

text \<open>Integers are plain structures.\<close>

interpretation le32: plain 4 "le_bytes 4 :: u32 \<Rightarrow> u8 list" le_word
  by unfold_locales simp_all

interpretation le64: plain 8 "le_bytes 8 :: u64 \<Rightarrow> u8 list" le_word
  by unfold_locales simp_all

section \<open>The next power of two\<close>

definition next_pow2 :: "u64 \<Rightarrow> u64" where
  "next_pow2 x =
     (let x = x - 1;
          x = x OR drop_bit 1 x;
          x = x OR drop_bit 2 x;
          x = x OR drop_bit 4 x;
          x = x OR drop_bit 8 x;
          x = x OR drop_bit 16 x;
          x = x OR drop_bit 32 x
      in x + 1)"

text \<open>After a step, a bit says whether one of the \<open>m\<close> bits from it upwards was set.\<close>

definition smeared :: "u64 \<Rightarrow> nat \<Rightarrow> u64 \<Rightarrow> bool" where
  "smeared v m y \<longleftrightarrow> (\<forall>i. bit y i \<longleftrightarrow> (\<exists>j. i \<le> j \<and> j < i + m \<and> bit v j))"

lemma smear_step:
  assumes "smeared v m y"
  shows "smeared v (2 * m) (y OR drop_bit m y)"
proof -
  have "(\<exists>j. i \<le> j \<and> j < i + m \<and> bit v j) \<or> (\<exists>j. m + i \<le> j \<and> j < m + i + m \<and> bit v j) \<longleftrightarrow>
      (\<exists>j. i \<le> j \<and> j < i + 2 * m \<and> bit v j)" for i
  proof
    assume "\<exists>j. i \<le> j \<and> j < i + 2 * m \<and> bit v j"
    then obtain j where "i \<le> j" "j < i + 2 * m" "bit v j"
      by blast
    then show "(\<exists>j. i \<le> j \<and> j < i + m \<and> bit v j) \<or> (\<exists>j. m + i \<le> j \<and> j < m + i + m \<and> bit v j)"
      by (cases "j < i + m") (auto intro: exI [of _ j])
  next
    assume "(\<exists>j. i \<le> j \<and> j < i + m \<and> bit v j) \<or> (\<exists>j. m + i \<le> j \<and> j < m + i + m \<and> bit v j)"
    then show "\<exists>j. i \<le> j \<and> j < i + 2 * m \<and> bit v j"
      by (elim disjE exE conjE; rule_tac x = j in exI; simp)
  qed
  then show ?thesis
    using assms by (simp add: smeared_def bit_or_iff bit_drop_bit_eq comp_def add.commute [of m])
qed

lemma smeared_64: "smeared v 64 y \<Longrightarrow> bit y i \<longleftrightarrow> (\<exists>j. i \<le> j \<and> bit v j)"
proof -
  assume "smeared v 64 y"
  moreover have "j < i + 64" if "bit v j" for j
    using bit_imp_le_length [OF that] by simp
  ultimately show ?thesis
    by (auto simp: smeared_def)
qed

lemma next_pow2_smeared: "\<exists>y. smeared (x - 1) 64 y \<and> next_pow2 x = y + 1"
proof -
  have "smeared v 1 v" for v
    by (auto simp: smeared_def le_less_Suc_eq)
  note s = smear_step [OF smear_step [OF smear_step [OF smear_step [OF smear_step [OF smear_step [OF this]]]]]]
  show ?thesis
    using s [of "x - 1"] by (auto simp: next_pow2_def Let_def)
qed

lemma smeared_mask:
  assumes "smeared v 64 y" "unat v < 2 ^ k" "k = 0 \<or> 2 ^ (k - 1) \<le> unat v"
  shows "y = mask k"
proof (rule bit_word_eqI)
  fix i assume i: "i < LENGTH(64)"
  have v: "bit v j \<longleftrightarrow> bit (unat v) j" for j
    by (simp add: bit_unsigned_iff bit_imp_le_length)
  have hi: "j < k" if "bit v j" for j
  proof (rule ccontr)
    assume "\<not> j < k"
    then have "(2 :: nat) ^ k \<le> 2 ^ j"
      by (intro power_increasing) simp_all
    then have "unat v < 2 ^ j"
      by (rule less_le_trans [OF assms(2)])
    then show False
      using that unfolding v by (simp add: bit_iff_odd)
  qed
  have top: "bit v (k - 1)" if "k \<noteq> 0"
  proof -
    have "unat v div 2 ^ (k - 1) = 1"
    proof (rule div_nat_eqI)
      show "2 ^ (k - 1) * 1 \<le> unat v" "unat v < 2 ^ (k - 1) * Suc 1"
        using assms(2,3) that by (cases k; simp)+
    qed
    then show ?thesis
      unfolding v by (simp add: bit_iff_odd)
  qed
  have "bit y i \<longleftrightarrow> i < k"
  proof
    assume "bit y i"
    then obtain j where "i \<le> j" "bit v j"
      using smeared_64 [OF assms(1), of i] by blast
    then show "i < k"
      using hi [of j] by simp
  next
    assume "i < k"
    then show "bit y i"
      using smeared_64 [OF assms(1), of i] top by (auto intro!: exI [of _ "k - 1"])
  qed
  then show "bit y i = bit (mask k :: u64) i"
    using i by (simp add: bit_mask_iff)
qed

lemma next_pow2_wraps:
  assumes "x = 0 \<or> 2 ^ 63 < unat x"
  shows "next_pow2 x = 0"
proof -
  obtain y where y: "smeared (x - 1) 64 y" "next_pow2 x = y + 1"
    using next_pow2_smeared by blast
  have "2 ^ 63 \<le> unat (x - 1)"
  proof (cases "x = 0")
    case True
    then show ?thesis
      by (simp add: unsigned_minus_1_eq_mask mask_eq_exp_minus_1)
  next
    case False
    then show ?thesis
      using assms by (simp add: unat_minus_one)
  qed
  then have "y = mask 64"
    using unsigned_less [of "x - 1"] by (intro smeared_mask [OF y(1)]) simp_all
  then show ?thesis
    by (simp add: y(2) mask_eq_exp_minus_1)
qed

lemma next_pow2_least:
  assumes "0 < x" "unat x \<le> 2 ^ 63"
  shows "unat (next_pow2 x) = 2 ^ (LEAST k. unat x \<le> 2 ^ k)"
proof -
  obtain y where y: "smeared (x - 1) 64 y" "next_pow2 x = y + 1"
    using next_pow2_smeared by blast
  let ?P = "\<lambda>k. unat x \<le> 2 ^ k"
  define k where "k = (LEAST k. ?P k)"
  have k: "?P k" "\<And>k'. ?P k' \<Longrightarrow> k \<le> k'"
    unfolding k_def using assms LeastI [of ?P 63] Least_le [of ?P] by auto
  have "unat (x - 1) = unat x - 1" "0 < unat x"
    using assms by (auto simp: unat_minus_one unat_gt_0 word_neq_0_conv)
  moreover have "2 ^ (k - 1) < unat x" if "k \<noteq> 0"
    using k(2) [of "k - 1"] that by (meson diff_less less_one not_le not_less_zero zero_less_iff_neq_zero)
  ultimately have "unat (x - 1) < 2 ^ k" "k = 0 \<or> 2 ^ (k - 1) \<le> unat (x - 1)"
    using k(1) by linarith+
  then have "y = mask k"
    by (rule smeared_mask [OF y(1)])
  moreover have l: "k \<le> 63"
    using k(2) [of 63] assms by simp
  ultimately have "next_pow2 x = of_nat (2 ^ k)"
    by (simp add: y(2) mask_eq_exp_minus_1)
  moreover have "(2 :: nat) ^ k < 2 ^ 64"
    using l by (intro power_strict_increasing) simp_all
  ultimately have "unat (next_pow2 x) = 2 ^ k"
    using l by (simp only: unsigned_of_nat) (simp add: take_bit_nat_eq_self)
  then show ?thesis
    by (simp add: k_def)
qed

lemma next_pow2_bounds:
  assumes "0 < n" "n \<le> 2 ^ 63"
  shows "n \<le> unat (next_pow2 (of_nat n))" "2 ^ k < n \<Longrightarrow> 2 ^ Suc k \<le> unat (next_pow2 (of_nat n))"
    "n \<le> 2 ^ k \<Longrightarrow> unat (next_pow2 (of_nat n)) \<le> 2 ^ k"
proof -
  have u: "unat (of_nat n :: u64) = n"
    using assms by (simp add: unsigned_of_nat take_bit_nat_eq_self)
  then have "(0 :: u64) < of_nat n"
    using assms(1) by (simp add: word_less_nat_alt)
  note l = next_pow2_least [OF this, unfolded u, OF assms(2)]
  let ?k = "LEAST k. n \<le> 2 ^ k"
  have k: "n \<le> 2 ^ ?k"
    using assms(2) by (rule LeastI)
  then show "n \<le> unat (next_pow2 (of_nat n))"
    by (simp add: l)
  show "2 ^ Suc k \<le> unat (next_pow2 (of_nat n))" if "2 ^ k < n"
  proof -
    have "(2 :: nat) ^ k < 2 ^ ?k"
      by (rule less_le_trans [OF that k])
    then have "k < ?k"
      by (rule power_less_imp_less_exp [rotated]) simp
    then show ?thesis
      unfolding l by (intro power_increasing) simp_all
  qed
  show "unat (next_pow2 (of_nat n)) \<le> 2 ^ k" if "n \<le> 2 ^ k"
    unfolding l using that by (intro power_increasing Least_le) simp_all
qed

text \<open>
  For every length from 1 to \<open>2\<^sup>6\<^sup>3\<close> the bit manipulation computes the smallest power of two
  that is not below the length.
\<close>

theorem next_pow2_correct:
  assumes "0 < x" "unat x \<le> 2 ^ 63"
  shows "unat (next_pow2 x) = 2 ^ (LEAST k. unat x \<le> 2 ^ k)"
  by (rule next_pow2_least [OF assms])

theorem next_pow2_witness: "unat (next_pow2 25) = 2 ^ (LEAST k. 25 \<le> (2 :: nat) ^ k) \<and> next_pow2 25 = 32"
  using next_pow2_correct [of 25] by (simp add: next_pow2_def)

end
