(* ===== verification/Gtp_Codec.thy ===== *)
theory Gtp_Codec
  imports Plain_Codec
begin

text \<open>
  The messages of the GTP service model with the handover information of the cells
  (\<^verbatim>\<open>sm/gtp_sm/ie/gtp_data_ie.h\<close>), their plain encoding (\<^verbatim>\<open>gtp_enc_plain.c\<close>,
  \<^verbatim>\<open>gtp_dec_plain.c\<close>), the decoder of the iApp, and the functions of the agent and the iApp that
  read the handover information from the end of an encoded message.

  A floating-point number and a signed integer are their object representation, a word.  The
  array of a message and its length are a list.
\<close>

section \<open>Structures\<close>

record gtp_ngu_t_stats_t =
  ngu_rnti :: u32
  ngu_teidgnb :: u32
  ngu_qfi :: u8
  ngu_teidupf :: u8
  ue_context_has_mqr :: bool
  ue_context_rrc_ue_id :: u32
  ue_context_rnti_t :: u32
  ue_context_mqr_rsrp :: u64
  ue_context_mqr_rsrq :: u64
  ue_context_mqr_sinr :: u64

record gtp_ho_info_t =
  ho_ue_id :: u32
  ho_source_du :: u32
  ho_target_du :: u32
  ho_complete :: bool

record gtp_ind_msg_t =
  gtp_ngut :: "gtp_ngu_t_stats_t list"
  gtp_tstamp :: u64
  gtp_ho_info :: gtp_ho_info_t

definition sizeof_gtp_ngu :: nat where "sizeof_gtp_ngu = 48"
definition sizeof_gtp_ho_info :: nat where "sizeof_gtp_ho_info = 13"
definition sizeof_gtp_ind_msg :: nat where "sizeof_gtp_ind_msg = 33"

text \<open>The natural layout of the statistics, and the packed one of the handover information.\<close>

definition gtp_ngu_bytes :: "gtp_ngu_t_stats_t \<Rightarrow> u8 list" where
  "gtp_ngu_bytes s =
     le_bytes 4 (ngu_rnti s) @ le_bytes 4 (ngu_teidgnb s) @
     [ngu_qfi s, ngu_teidupf s, of_flag (ue_context_has_mqr s), 0] @
     le_bytes 4 (ue_context_rrc_ue_id s) @ le_bytes 4 (ue_context_rnti_t s) @ [0, 0, 0, 0] @
     le_bytes 8 (ue_context_mqr_rsrp s) @ le_bytes 8 (ue_context_mqr_rsrq s) @
     le_bytes 8 (ue_context_mqr_sinr s)"

definition gtp_ngu_of_bytes :: "u8 list \<Rightarrow> gtp_ngu_t_stats_t" where
  "gtp_ngu_of_bytes bs =
     \<lparr>ngu_rnti = le_word (take 4 bs), ngu_teidgnb = le_word (take 4 (drop 4 bs)), ngu_qfi = bs ! 8,
      ngu_teidupf = bs ! 9, ue_context_has_mqr = (bs ! 10 \<noteq> 0),
      ue_context_rrc_ue_id = le_word (take 4 (drop 12 bs)), ue_context_rnti_t = le_word (take 4 (drop 16 bs)),
      ue_context_mqr_rsrp = le_word (take 8 (drop 24 bs)), ue_context_mqr_rsrq = le_word (take 8 (drop 32 bs)),
      ue_context_mqr_sinr = le_word (take 8 (drop 40 bs))\<rparr>"

definition gtp_ho_bytes :: "gtp_ho_info_t \<Rightarrow> u8 list" where
  "gtp_ho_bytes h =
     le_bytes 4 (ho_ue_id h) @ le_bytes 4 (ho_source_du h) @ le_bytes 4 (ho_target_du h) @
     [of_flag (ho_complete h)]"

definition gtp_ho_of_bytes :: "u8 list \<Rightarrow> gtp_ho_info_t" where
  "gtp_ho_of_bytes bs =
     \<lparr>ho_ue_id = le_word (take 4 bs), ho_source_du = le_word (take 4 (drop 4 bs)),
      ho_target_du = le_word (take 4 (drop 8 bs)), ho_complete = (bs ! 12 \<noteq> 0)\<rparr>"

interpretation ngu: plain sizeof_gtp_ngu gtp_ngu_bytes gtp_ngu_of_bytes
  by unfold_locales (simp_all add: gtp_ngu_bytes_def gtp_ngu_of_bytes_def sizeof_gtp_ngu_def nth_append nth_Cons')

interpretation ho: plain sizeof_gtp_ho_info gtp_ho_bytes gtp_ho_of_bytes
  by unfold_locales (simp_all add: gtp_ho_bytes_def gtp_ho_of_bytes_def sizeof_gtp_ho_info_def nth_append)

section \<open>Encoding and decoding\<close>

definition gtp_enc_event_trigger_plain :: "u32 \<Rightarrow> u8 list" where
  "gtp_enc_event_trigger_plain ms = le_bytes 4 ms"

definition gtp_dec_event_trigger_plain :: "u8 list \<Rightarrow> u32 res" where
  "gtp_dec_event_trigger_plain ev_tr = bnd (copy_out 4 ev_tr) (\<lambda>(bs, _). Inr (le_word bs))"

definition gtp_enc_ind_hdr_plain :: "u32 \<Rightarrow> u8 list" where
  "gtp_enc_ind_hdr_plain dummy = le_bytes 4 dummy"

definition gtp_dec_ind_hdr_plain :: "u8 list \<Rightarrow> u32 res" where
  "gtp_dec_ind_hdr_plain hdr = chk (length hdr = 4) ''len == sizeof(gtp_ind_hdr_t)'' (Inr (le_word hdr))"

definition gtp_enc_ctrl_hdr_plain :: "u32 \<Rightarrow> u8 list" where
  "gtp_enc_ctrl_hdr_plain dummy = le_bytes 4 dummy"

definition gtp_dec_ctrl_hdr_plain :: "u8 list \<Rightarrow> u32 res" where
  "gtp_dec_ctrl_hdr_plain hdr = chk (length hdr = 4) ''len == sizeof(gtp_ctrl_hdr_t)'' (Inr (le_word hdr))"

definition gtp_enc_ctrl_msg_plain :: "u32 \<Rightarrow> u8 list" where
  "gtp_enc_ctrl_msg_plain action = le_bytes 4 action"

definition gtp_dec_ctrl_msg_plain :: "u8 list \<Rightarrow> u32 res" where
  "gtp_dec_ctrl_msg_plain msg = chk (length msg = 4) ''len == sizeof(gtp_ctrl_msg_t)'' (Inr (le_word msg))"

definition gtp_enc_ind_msg_plain :: "gtp_ind_msg_t \<Rightarrow> u8 list res" where
  "gtp_enc_ind_msg_plain m =
     (let n = length (gtp_ngut m);
          sz = 4 + sizeof_gtp_ngu * n + 8 + sizeof_gtp_ho_info;
          ba = le_bytes 4 (of_nat n :: u32) @ concat (map gtp_ngu_bytes (gtp_ngut m)) @
               le_bytes 8 (gtp_tstamp m) @ gtp_ho_bytes (gtp_ho_info m)
      in chk (length ba = sz) ''Mismatch of data layout'' (Inr ba))"

definition gtp_dec_ind_msg_plain :: "u8 list \<Rightarrow> gtp_ind_msg_t res" where
  "gtp_dec_ind_msg_plain ind_msg =
     chk (unat (next_pow2 (of_nat (length ind_msg))) \<ge> sizeof_gtp_ind_msg - 8)
       ''next_pow2(len) >= sizeof(gtp_ind_msg_t) - sizeof(gtp_ngu_t_stats_t*)'' (
     bnd (copy_out 4 ind_msg) (\<lambda>(len, it).
     bnd (copy_array sizeof_gtp_ngu gtp_ngu_of_bytes (unat (le_word len :: u32)) it) (\<lambda>(ngut, it).
     bnd (copy_out 8 it) (\<lambda>(tstamp, it).
     bnd (copy_out sizeof_gtp_ho_info it) (\<lambda>(ho_info, it).
     chk (it = []) ''Mismatch of data layout'' (
     Inr \<lparr>gtp_ngut = ngut, gtp_tstamp = le_word tstamp, gtp_ho_info = gtp_ho_of_bytes ho_info\<rparr>))))))"

text \<open>The decoder of the iApp.\<close>

definition decode_gtp_indication :: "u8 list \<Rightarrow> gtp_ind_msg_t res" where
  "decode_gtp_indication buffer =
     chk (unat (next_pow2 (of_nat (length buffer))) \<ge> sizeof_gtp_ind_msg - 8)
       ''next_pow2(len) >= sizeof(gtp_ind_msg_t) - sizeof(gtp_ngu_t_stats_t*)'' (
     bnd (copy_out 4 buffer) (\<lambda>(l, it).
     let len = le_word l :: u32 in
     bnd (if len > 0 then copy_array sizeof_gtp_ngu gtp_ngu_of_bytes (unat len) it
          else Inr ([], it)) (\<lambda>(ngut, it).
     bnd (copy_out 8 it) (\<lambda>(tstamp, it).
     bnd (copy_out sizeof_gtp_ho_info it) (\<lambda>(ho_info, it).
     chk (it = []) ''Mismatch of data layout'' (
     Inr \<lparr>gtp_ngut = ngut, gtp_tstamp = le_word tstamp, gtp_ho_info = gtp_ho_of_bytes ho_info\<rparr>))))))"

text \<open>
  The handover information at the end of an encoded message, once for the agent and once for the
  iApp; \<^term>\<open>None\<close> is a null pointer.
\<close>

definition zero_ho_info :: gtp_ho_info_t where
  "zero_ho_info = \<lparr>ho_ue_id = 0, ho_source_du = 0, ho_target_du = 0, ho_complete = False\<rparr>"

definition extract_handover_info :: "u8 list option \<Rightarrow> gtp_ho_info_t" where
  "extract_handover_info buffer =
     (case buffer of
        None \<Rightarrow> zero_ho_info
      | Some bs \<Rightarrow>
          if length bs < 13 then zero_ho_info
          else
            let last_bytes = drop (length bs - 13) bs
            in \<lparr>ho_ue_id = le_word (take 4 last_bytes), ho_source_du = le_word (take 4 (drop 4 last_bytes)),
                ho_target_du = le_word (take 4 (drop 8 last_bytes)), ho_complete = (last_bytes ! 12 \<noteq> 0)\<rparr>)"

definition extract_handover_info_ric :: "u8 list option \<Rightarrow> gtp_ho_info_t" where
  "extract_handover_info_ric buffer =
     (case buffer of
        None \<Rightarrow> zero_ho_info
      | Some bs \<Rightarrow>
          if length bs < 13 then zero_ho_info
          else
            let last_bytes = drop (length bs - 13) bs
            in \<lparr>ho_ue_id = le_word (take 4 last_bytes), ho_source_du = le_word (take 4 (drop 4 last_bytes)),
                ho_target_du = le_word (take 4 (drop 8 last_bytes)), ho_complete = (last_bytes ! 12 \<noteq> 0)\<rparr>)"

section \<open>Copies and comparison\<close>

definition cp_gtp_ind_msg :: "gtp_ind_msg_t \<Rightarrow> gtp_ind_msg_t" where
  "cp_gtp_ind_msg src =
     \<lparr>gtp_ngut = (if length (gtp_ngut src) > 0 then gtp_ngut src else []), gtp_tstamp = gtp_tstamp src,
      gtp_ho_info = gtp_ho_info src\<rparr>"

fun eq_ngut :: "gtp_ngu_t_stats_t list \<Rightarrow> gtp_ngu_t_stats_t list \<Rightarrow> bool" where
  "eq_ngut (n0 # ns0) (n1 # ns1) =
     (if ngu_rnti n0 \<noteq> ngu_rnti n1 \<or> ngu_teidgnb n0 \<noteq> ngu_teidgnb n1 \<or> ngu_qfi n0 \<noteq> ngu_qfi n1
         \<or> ngu_teidupf n0 \<noteq> ngu_teidupf n1
      then False else eq_ngut ns0 ns1)"
| "eq_ngut _ _ = True"

definition eq_gtp_ind_msg :: "gtp_ind_msg_t \<Rightarrow> gtp_ind_msg_t \<Rightarrow> bool" where
  "eq_gtp_ind_msg m0 m1 =
     (if gtp_tstamp m0 \<noteq> gtp_tstamp m1 \<or> length (gtp_ngut m0) \<noteq> length (gtp_ngut m1) then False
      else eq_ngut (gtp_ngut m0) (gtp_ngut m1))"

section \<open>Lemmas\<close>

text \<open>An encoded message: its parts and its length.\<close>

definition gtp_bytes :: "gtp_ind_msg_t \<Rightarrow> u8 list" where
  "gtp_bytes m =
     le_bytes 4 (of_nat (length (gtp_ngut m)) :: u32) @ concat (map gtp_ngu_bytes (gtp_ngut m)) @
     le_bytes 8 (gtp_tstamp m) @ gtp_ho_bytes (gtp_ho_info m)"

lemma length_gtp_bytes: "length (gtp_bytes m) = 25 + 48 * length (gtp_ngut m)"
  using ngu.enc_array_length [of "gtp_ngut m"] ho.enc_length [of "gtp_ho_info m"]
  by (simp add: gtp_bytes_def sizeof_gtp_ngu_def sizeof_gtp_ho_info_def)

lemma gtp_enc_ok: "gtp_enc_ind_msg_plain m = Inr (gtp_bytes m)"
proof -
  have "gtp_enc_ind_msg_plain m =
      chk (length (gtp_bytes m) = 4 + sizeof_gtp_ngu * length (gtp_ngut m) + 8 + sizeof_gtp_ho_info)
        ''Mismatch of data layout'' (Inr (gtp_bytes m))"
    unfolding gtp_enc_ind_msg_plain_def gtp_bytes_def Let_def ..
  then show ?thesis
    by (simp add: length_gtp_bytes sizeof_gtp_ngu_def sizeof_gtp_ho_info_def)
qed

text \<open>The size assertion only excludes buffers of at most 16 bytes.\<close>

lemma gtp_size_check:
  assumes "n \<le> 2 ^ 63"
  shows "sizeof_gtp_ind_msg - 8 \<le> unat (next_pow2 (of_nat n)) \<longleftrightarrow> 16 < n"
proof (cases "n = 0")
  case True
  then show ?thesis
    by (simp add: next_pow2_wraps sizeof_gtp_ind_msg_def)
next
  case False
  then show ?thesis
    using next_pow2_bounds(2,3) [of n 4] assms by (cases "16 < n") (auto simp: sizeof_gtp_ind_msg_def)
qed

text \<open>What the decoder does on any buffer.\<close>

definition gtp_count :: "u8 list \<Rightarrow> nat" where
  "gtp_count bs = unat (le_word (take 4 bs) :: u32)"

lemma gtp_dec_cases:
  assumes "length bs \<le> 2 ^ 63"
  shows "gtp_dec_ind_msg_plain bs =
     (if length bs \<le> 16
      then Inl (Assertion ''next_pow2(len) >= sizeof(gtp_ind_msg_t) - sizeof(gtp_ngu_t_stats_t*)'')
      else if length bs < 25 + 48 * gtp_count bs then Inl (Heap_Overflow ''memcpy reads past the buffer'')
      else if 25 + 48 * gtp_count bs < length bs then Inl (Assertion ''Mismatch of data layout'')
      else Inr \<lparr>gtp_ngut = map (\<lambda>i. gtp_ngu_of_bytes (take 48 (drop (4 + i * 48) bs))) [0..<gtp_count bs],
                gtp_tstamp = le_word (take 8 (drop (4 + gtp_count bs * 48) bs)),
                gtp_ho_info = gtp_ho_of_bytes (drop (12 + gtp_count bs * 48) bs)\<rparr>)"
proof (cases "length bs \<le> 16")
  case True
  then show ?thesis
    using gtp_size_check [OF assms] by (simp add: gtp_dec_ind_msg_plain_def)
next
  case False
  let ?n = "gtp_count bs"
  define rest where "rest = drop 4 bs"
  have l: "length rest = length bs - 4" and d: "drop i rest = drop (4 + i) bs" for i
    by (simp_all add: rest_def add.commute)
  have c: "copy_out 4 bs = Inr (take 4 bs, rest)"
    using False by (simp add: copy_out_def rest_def)
  have *: "gtp_dec_ind_msg_plain bs =
     bnd (copy_array 48 gtp_ngu_of_bytes ?n rest) (\<lambda>(ngut, it).
     bnd (copy_out 8 it) (\<lambda>(tstamp, it).
     bnd (copy_out 13 it) (\<lambda>(ho_info, it).
     chk (it = []) ''Mismatch of data layout'' (
     Inr \<lparr>gtp_ngut = ngut, gtp_tstamp = le_word tstamp, gtp_ho_info = gtp_ho_of_bytes ho_info\<rparr>))))"
    using False gtp_size_check [OF assms]
    by (simp add: gtp_dec_ind_msg_plain_def c gtp_count_def sizeof_gtp_ngu_def sizeof_gtp_ho_info_def)
  consider "length rest < ?n * 48" | "?n * 48 \<le> length rest" "length rest < ?n * 48 + 8"
    | "?n * 48 + 8 \<le> length rest" "length rest < ?n * 48 + 21" | "?n * 48 + 21 < length rest"
    | "length rest = ?n * 48 + 21"
    by linarith
  then show ?thesis
  proof cases
    case 1
    then have "length bs < 25 + 48 * ?n"
      using False by (simp add: l)
    then show ?thesis
      unfolding * copy_array_total using 1 False by simp
  next
    case 2
    then have "length bs < 25 + 48 * ?n" "\<not> 8 \<le> length bs - (4 + ?n * 48)"
      by (simp_all add: l)
    then show ?thesis
      unfolding * copy_array_total using 2(1) False by (simp add: copy_out_def l)
  next
    case 3
    then have "length bs < 25 + 48 * ?n" "\<not> 13 \<le> length bs - (4 + ?n * 48 + 8)"
      by (simp_all add: l)
    then show ?thesis
      unfolding * copy_array_total using 3(1) False by (simp add: copy_out_def l)
  next
    case 4
    then have "25 + 48 * ?n < length bs" "8 \<le> length bs - (4 + ?n * 48)" "13 \<le> length bs - (12 + ?n * 48)"
      by (simp_all add: l)
    then show ?thesis
      unfolding * copy_array_total using 4 False by (simp add: copy_out_def l)
  next
    case 5
    then have "length bs = 25 + 48 * ?n"
      using False by (simp add: l)
    then show ?thesis
      unfolding * copy_array_total using 5 by (simp add: copy_out_def d add.commute)
  qed
qed

lemma gtp_dec_bytes:
  assumes "length (gtp_ngut m) < 2 ^ 32"
  shows "gtp_dec_ind_msg_plain (gtp_bytes m) = Inr m"
proof -
  let ?n = "length (gtp_ngut m)"
  have u: "unat (of_nat ?n :: u32) = ?n"
    using assms by (simp add: unsigned_of_nat take_bit_nat_eq_self)
  have "length (gtp_bytes m) \<le> 2 ^ 63" "16 < length (gtp_bytes m)"
    using assms by (simp_all add: length_gtp_bytes)
  then have sz: "sizeof_gtp_ind_msg - 8 \<le> unat (next_pow2 (of_nat (length (gtp_bytes m))))"
    by (rule iffD2 [OF gtp_size_check])
  have h: "copy_out sizeof_gtp_ho_info (gtp_ho_bytes h) = Inr (gtp_ho_bytes h, [])" for h
    using copy_out_append [OF ho.enc_length [of h], of "[]"] by simp
  have "gtp_dec_ind_msg_plain (gtp_bytes m) =
     bnd (copy_out 4 (gtp_bytes m)) (\<lambda>(len, it).
     bnd (copy_array sizeof_gtp_ngu gtp_ngu_of_bytes (unat (le_word len :: u32)) it) (\<lambda>(ngut, it).
     bnd (copy_out 8 it) (\<lambda>(tstamp, it).
     bnd (copy_out sizeof_gtp_ho_info it) (\<lambda>(ho_info, it).
     chk (it = []) ''Mismatch of data layout'' (
     Inr \<lparr>gtp_ngut = ngut, gtp_tstamp = le_word tstamp, gtp_ho_info = gtp_ho_of_bytes ho_info\<rparr>)))))"
    unfolding gtp_dec_ind_msg_plain_def by (simp only: sz chk_simps if_True)
  also have "\<dots> = Inr m"
    unfolding gtp_bytes_def using ngu.copy_array_enc [of "gtp_ngut m"] by (simp add: u h ho.dec_enc)
  finally show ?thesis .
qed

lemma decode_gtp_eq: "decode_gtp_indication bs = gtp_dec_ind_msg_plain bs"
proof -
  have "(if 0 < l then copy_array sizeof_gtp_ngu gtp_ngu_of_bytes (unat l) it else Inr ([], it)) =
      copy_array sizeof_gtp_ngu gtp_ngu_of_bytes (unat l) it" for l :: u32 and it
    by (cases "l = 0") (simp_all add: word_neq_0_conv)
  then show ?thesis
    by (simp add: decode_gtp_indication_def gtp_dec_ind_msg_plain_def Let_def)
qed

lemma extract_handover_bytes: "extract_handover_info (Some (gtp_bytes m)) = gtp_ho_info m"
proof -
  let ?h = "gtp_ho_bytes (gtp_ho_info m)"
  have l: "length ?h = 13"
    using ho.enc_length [of "gtp_ho_info m"] by (simp add: sizeof_gtp_ho_info_def)
  have "drop (length (gtp_bytes m) - 13) (gtp_bytes m) = ?h"
    by (simp add: gtp_bytes_def l)
  moreover have "\<not> length (gtp_bytes m) < 13"
    by (simp add: length_gtp_bytes)
  ultimately have "extract_handover_info (Some (gtp_bytes m)) = gtp_ho_of_bytes ?h"
    by (simp add: extract_handover_info_def gtp_ho_of_bytes_def Let_def)
  then show ?thesis
    by (simp add: ho.dec_enc)
qed

section \<open>Properties\<close>

definition ngu_1 :: gtp_ngu_t_stats_t where
  "ngu_1 = \<lparr>ngu_rnti = 1, ngu_teidgnb = 2, ngu_qfi = 3, ngu_teidupf = 4, ue_context_has_mqr = True,
     ue_context_rrc_ue_id = 5, ue_context_rnti_t = 0x01020304, ue_context_mqr_rsrp = 7, ue_context_mqr_rsrq = 8,
     ue_context_mqr_sinr = 9\<rparr>"

definition handover_1 :: gtp_ind_msg_t where
  "handover_1 = \<lparr>gtp_ngut = [ngu_1], gtp_tstamp = 1000,
     gtp_ho_info = \<lparr>ho_ue_id = 1, ho_source_du = 10, ho_target_du = 11, ho_complete = True\<rparr>\<rparr>"

text \<open>
  C20.  A GTP indication message that is encoded is decoded to itself by the decoder of the service
  model and by that of the iApp, and the agent and the iApp find its handover information in the
  last 13 bytes.
\<close>

theorem gtp_roundtrip:
  assumes "length (gtp_ngut m) < 2 ^ 32"
  shows "\<exists>bs. gtp_enc_ind_msg_plain m = Inr bs \<and> length bs = 25 + 48 * length (gtp_ngut m) \<and>
     gtp_dec_ind_msg_plain bs = Inr m \<and> decode_gtp_indication bs = Inr m \<and>
     extract_handover_info (Some bs) = gtp_ho_info m \<and> extract_handover_info_ric (Some bs) = gtp_ho_info m"
proof -
  have "extract_handover_info_ric = extract_handover_info"
    by (simp add: extract_handover_info_ric_def extract_handover_info_def fun_eq_iff)
  then show ?thesis
    using gtp_enc_ok [of m] length_gtp_bytes [of m] gtp_dec_bytes [OF assms] decode_gtp_eq [of "gtp_bytes m"]
      extract_handover_bytes [of m] by simp
qed

theorem gtp_roundtrip_witness:
  "\<exists>bs. gtp_enc_ind_msg_plain handover_1 = Inr bs \<and> length bs = 73 \<and> gtp_dec_ind_msg_plain bs = Inr handover_1 \<and>
     ho_target_du (extract_handover_info (Some bs)) = 11"
  using gtp_roundtrip [of handover_1] by (auto simp: handover_1_def)

text \<open>
  Decoding any buffer: the size assertion stops buffers of at most 16 bytes, a longer buffer
  that is too short for the number of entries it claims is read past its end, and one that is
  too long fails the assertion at the end; the others are decoded.
\<close>

theorem gtp_dec_any:
  assumes "length bs \<le> 2 ^ 63"
  shows "case gtp_dec_ind_msg_plain bs of
       Inr m \<Rightarrow> 16 < length bs \<and> length bs = 25 + 48 * gtp_count bs \<and> length (gtp_ngut m) = gtp_count bs
     | Inl (Heap_Overflow _) \<Rightarrow> 16 < length bs \<and> length bs < 25 + 48 * gtp_count bs
     | Inl (Assertion _) \<Rightarrow> length bs \<le> 16 \<or> 25 + 48 * gtp_count bs < length bs
     | _ \<Rightarrow> False"
proof -
  consider "length bs \<le> 16" | "16 < length bs" "length bs < 25 + 48 * gtp_count bs"
    | "16 < length bs" "25 + 48 * gtp_count bs < length bs" | "16 < length bs" "length bs = 25 + 48 * gtp_count bs"
    by linarith
  then show ?thesis
    by cases (simp_all add: gtp_dec_cases [OF assms])
qed

theorem gtp_dec_any_witness:
  "case gtp_dec_ind_msg_plain (1 # replicate 16 0) of Inl (Heap_Overflow _) \<Rightarrow> True | _ \<Rightarrow> False"
proof -
  have c: "gtp_count (1 # replicate 16 0) = 1"
    by (simp add: gtp_count_def le_word_def numeral_3_eq_3)
  have "length (1 # replicate 16 0 :: u8 list) = 17"
    by simp
  then show ?thesis
    using gtp_dec_any [of "1 # replicate 16 0"] unfolding c
    by (cases "gtp_dec_ind_msg_plain (1 # replicate 16 0)" rule: sum.exhaust) (auto split: fault.splits)
qed

text \<open>
  The comparison of two indication messages looks at the time stamp, the number of entries
  and four fields of each entry only: the handover information makes no difference.
\<close>

theorem eq_gtp_ind_msg_iff:
  "eq_gtp_ind_msg m0 m1 \<longleftrightarrow> gtp_tstamp m0 = gtp_tstamp m1 \<and>
     map (\<lambda>n. (ngu_rnti n, ngu_teidgnb n, ngu_qfi n, ngu_teidupf n)) (gtp_ngut m0) =
     map (\<lambda>n. (ngu_rnti n, ngu_teidgnb n, ngu_qfi n, ngu_teidupf n)) (gtp_ngut m1)"
proof -
  have "length xs = length ys \<Longrightarrow> eq_ngut xs ys \<longleftrightarrow>
      map (\<lambda>n. (ngu_rnti n, ngu_teidgnb n, ngu_qfi n, ngu_teidupf n)) xs =
      map (\<lambda>n. (ngu_rnti n, ngu_teidgnb n, ngu_qfi n, ngu_teidupf n)) ys" for xs ys
    by (induction xs ys rule: list_induct2) auto
  then show ?thesis
    by (auto simp: eq_gtp_ind_msg_def dest: map_eq_imp_length_eq)
qed

end
