(* ===== verification/Sm_Agent.thy ===== *)
theory Sm_Agent
  imports Near_Ric Gtp_Codec
begin

text \<open>
  Service models as an E2 agent sees them (\<^verbatim>\<open>sm/sm_agent.h\<close>, \<^verbatim>\<open>sm/agent_if/\<close>), and the one the
  handover indications use, \<^verbatim>\<open>sm/gtp_sm/gtp_sm_agent.c\<close> with its plain encoding.

  A service model is a record of its procedures.  A procedure reads the RAN, whose state is not
  part of this program: \<open>now\<close> is the time at which the procedure is called, and the callback of
  the RAN is an argument of the service model that depends on it.
\<close>

section \<open>Interfaces\<close>

text \<open>
  What the pointer that an indication procedure gets can point to: an action definition, the
  message of a GTP indication (\<^term>\<open>None\<close> is a null message), or data of another service model.
\<close>

datatype void_ptr =
    NULL_Ptr
  | Act_Def byte_array_t
  | Gtp_Ind_Data "gtp_ind_msg_t option"
  | Ran_Ind_Data byte_array_t

datatype sm_ag_if_ans_subs_t =
    PERIODIC_SUBSCRIPTION_FLRC int void_ptr
  | APERIODIC_SUBSCRIPTION_FLRC
  | END_SUBSCRIPTION_FLRC

record sm_subs_data_ag_t =
  sbd_ric_req_id :: u32
  sbd_event_trigger :: byte_array_t
  sbd_action_def :: "byte_array_t option"

record sm_agent_t =
  sma_id :: u16
  sma_rev :: u16
  sma_oid :: byte_array_t
  sma_on_subscription :: "sm_subs_data_ag_t \<Rightarrow> sm_ag_if_ans_subs_t res"
  sma_on_indication :: "nat \<Rightarrow> void_ptr \<Rightarrow> sm_ind_data_t option res"
  sma_on_control :: "sm_ctrl_req_data_t \<Rightarrow> byte_array_t res"
  sma_on_e2_setup :: "byte_array_t res"
  sma_free_act_def :: "(void_ptr \<Rightarrow> unit res) option"

definition cp_str_to_ba :: "string \<Rightarrow> byte_array_t" where
  "cp_str_to_ba str = map of_char str"

section \<open>The GTP service model\<close>

definition SM_GTP_ID :: u16 where "SM_GTP_ID = 148"
definition SM_GTP_REV :: u16 where "SM_GTP_REV = 1"

definition on_subscription_gtp_sm_ag :: "sm_subs_data_ag_t \<Rightarrow> sm_ag_if_ans_subs_t res" where
  "on_subscription_gtp_sm_ag data =
     bnd (gtp_dec_event_trigger_plain (sbd_event_trigger data)) (\<lambda>ms.
     Inr (PERIODIC_SUBSCRIPTION_FLRC (uint ms) NULL_Ptr))"

text \<open>
  \<open>read_ind now msg\<close> is the message after the RAN has filled it, \<^term>\<open>None\<close> when the callback
  returns false.
\<close>

definition zero_gtp_ind_msg :: gtp_ind_msg_t where
  "zero_gtp_ind_msg = \<lparr>gtp_ngut = [], gtp_tstamp = 0, gtp_ho_info = zero_ho_info\<rparr>"

definition on_indication_gtp_sm_ag ::
  "(nat \<Rightarrow> gtp_ind_msg_t \<Rightarrow> gtp_ind_msg_t option) \<Rightarrow> nat \<Rightarrow> void_ptr \<Rightarrow> sm_ind_data_t option res" where
  "on_indication_gtp_sm_ag read_ind now act_def =
     (let hdr = gtp_enc_ind_hdr_plain 0;
          fill = (\<lambda>msg.
            case read_ind now msg of
              None \<Rightarrow> Inr None
            | Some msg \<Rightarrow>
                bnd (gtp_enc_ind_msg_plain msg) (\<lambda>ba.
                Inr (Some \<lparr>sid_ind_hdr = hdr, sid_ind_msg = ba, sid_call_process_id = None\<rparr>)))
      in case act_def of
           NULL_Ptr \<Rightarrow> fill zero_gtp_ind_msg
         | Gtp_Ind_Data None \<Rightarrow> Inr (Some \<lparr>sid_ind_hdr = hdr, sid_ind_msg = [], sid_call_process_id = None\<rparr>)
         | Gtp_Ind_Data (Some ind) \<Rightarrow> fill ind
         | _ \<Rightarrow> Inl (Heap_Overflow ''the data is not a GTP indication''))"

definition on_control_gtp_sm_ag :: "sm_ctrl_req_data_t \<Rightarrow> byte_array_t res" where
  "on_control_gtp_sm_ag data =
     bnd (gtp_dec_ctrl_hdr_plain (ctrl_hdr data)) (\<lambda>dummy.
     chk (dummy = 0) ''Only dummy == 0 supported '' (
     bnd (gtp_dec_ctrl_msg_plain (ctrl_msg data)) (\<lambda>action.
     chk (action = 42) ''Only action number 42 supported'' (Inr []))))"

definition on_e2_setup_gtp_sm_ag :: "string \<Rightarrow> byte_array_t res" where
  "on_e2_setup_gtp_sm_ag str = chk (length str < 256) ''Buffer overeflow?'' (Inr (cp_str_to_ba str))"

definition make_gtp_sm_agent ::
  "(nat \<Rightarrow> gtp_ind_msg_t \<Rightarrow> gtp_ind_msg_t option) \<Rightarrow> sm_agent_t" where
  "make_gtp_sm_agent read_ind =
     \<lparr>sma_id = SM_GTP_ID, sma_rev = SM_GTP_REV, sma_oid = cp_str_to_ba ''0.0.0.0.0.0.0.0.1.148.0'',
      sma_on_subscription = on_subscription_gtp_sm_ag,
      sma_on_indication = on_indication_gtp_sm_ag read_ind,
      sma_on_control = on_control_gtp_sm_ag,
      sma_on_e2_setup = on_e2_setup_gtp_sm_ag ''GTP_STATS_V0'',
      sma_free_act_def = None\<rparr>"

end
