(* ===== verification/Seq_Ring.thy ===== *)
theory Seq_Ring
  imports Seq_Arr
begin

text \<open>
  The ring buffer of \<^verbatim>\<open>util/alg_ds/ds/seq_container/seq_ring.c\<close>.  Head and tail are free-running
  32-bit counters that wrap around; the position of a counter in the block is its value modulo
  the capacity, computed with a bit mask, and the number of elements is the wrapped difference.
  The block is the list of its element slots, \<^term>\<open>None\<close> is a zeroed slot, and an iterator is
  the index of a slot.

  The lemmas show that the buffer is a queue through every growth and every wrap-around of the
  counters, as long as it holds fewer than \<open>2\<^sup>3\<^sup>1\<close> elements.
\<close>

unbundle bit_operations_syntax

section \<open>Data and operations\<close>

record 'a seq_ring_t =
  sr_elt_size :: nat
  sr_array :: "'a option list"
  sr_cap :: nat
  sr_head :: u32
  sr_tail :: u32

definition DEFAULT_ELM :: nat where
  "DEFAULT_ELM = 32"

definition mask_pos :: "nat \<Rightarrow> u32 \<Rightarrow> nat" where
  "mask_pos cap val = unat (val AND (of_nat cap - 1))"

definition seq_ring_size :: "'a seq_ring_t \<Rightarrow> nat" where
  "seq_ring_size r = unat (sr_head r - sr_tail r)"

definition full :: "'a seq_ring_t \<Rightarrow> bool" where
  "full r = (seq_ring_size r = sr_cap r - 1)"

definition enlarge_buffer :: "'a seq_ring_t \<Rightarrow> 'a seq_ring_t res" where
  "enlarge_buffer r =
     chk (full r) ''full(r)'' (
     let head_pos = mask_pos (sr_cap r) (sr_head r);
         tail_pos = mask_pos (sr_cap r) (sr_tail r);
         copied = (if head_pos > tail_pos
                   then take (head_pos - tail_pos) (drop tail_pos (sr_array r))
                   else drop tail_pos (sr_array r) @ take head_pos (sr_array r));
         cap = 2 * sr_cap r
     in Inr (r\<lparr>sr_array := copied @ replicate (cap - length copied) None, sr_cap := cap,
               sr_tail := 0, sr_head := of_nat (cap div 2 - 1)\<rparr>))"

definition seq_ring_init :: "nat \<Rightarrow> 'a seq_ring_t" where
  "seq_ring_init elt_size =
     \<lparr>sr_elt_size = elt_size, sr_array = replicate DEFAULT_ELM None, sr_cap = DEFAULT_ELM,
      sr_head = 0, sr_tail = 0\<rparr>"

definition seq_ring_push_back :: "'a seq_ring_t \<Rightarrow> 'a \<Rightarrow> nat \<Rightarrow> 'a seq_ring_t res" where
  "seq_ring_push_back r data len =
     chk (len = sr_elt_size r) ''len == r->elt_size'' (
     bnd (if full r then enlarge_buffer r else Inr r) (\<lambda>r.
     let pos = mask_pos (sr_cap r) (sr_head r) in
     if pos < length (sr_array r)
     then Inr (r\<lparr>sr_array := (sr_array r)[pos := Some data], sr_head := sr_head r + 1\<rparr>)
     else Inl (Heap_Overflow ''memcpy(r->array + r->elt_size*pos, data, r->elt_size)'')))"

definition seq_ring_front :: "'a seq_ring_t \<Rightarrow> nat" where
  "seq_ring_front r = mask_pos (sr_cap r) (sr_tail r)"

definition seq_ring_next :: "'a seq_ring_t \<Rightarrow> nat \<Rightarrow> nat" where
  "seq_ring_next r it = (if it + 1 = sr_cap r then 0 else it + 1)"

definition seq_ring_end :: "'a seq_ring_t \<Rightarrow> nat" where
  "seq_ring_end r = mask_pos (sr_cap r) (sr_head r)"

definition seq_ring_at :: "'a seq_ring_t \<Rightarrow> u32 \<Rightarrow> nat" where
  "seq_ring_at r pos = mask_pos (sr_cap r) (sr_tail r + pos)"

definition seq_ring_dist :: "'a seq_ring_t \<Rightarrow> nat \<Rightarrow> nat \<Rightarrow> nat" where
  "seq_ring_dist r first_pos last_pos =
     (if last_pos > first_pos then last_pos - first_pos else (sr_cap r - first_pos) + last_pos)"

definition zero_range :: "nat \<Rightarrow> nat \<Rightarrow> 'a option list \<Rightarrow> 'a option list" where
  "zero_range a b xs = take a xs @ replicate (b - a) None @ drop b xs"

definition seq_ring_erase :: "'a seq_ring_t \<Rightarrow> nat \<Rightarrow> nat \<Rightarrow> 'a seq_ring_t res" where
  "seq_ring_erase r it_start it_end =
     chk (it_start = mask_pos (sr_cap r) (sr_tail r)) ''Only deletions from tail implemented'' (
     if it_start = it_end then Inr r
     else
       chk (it_end \<le> sr_cap r) ''end_pos <= r->cap'' (
       let r' = (if it_end > it_start
                 then r\<lparr>sr_array := zero_range it_start it_end (sr_array r),
                        sr_tail := sr_tail r + of_nat (it_end - it_start)\<rparr>
                 else r\<lparr>sr_array := zero_range 0 it_end (zero_range it_start (sr_cap r) (sr_array r)),
                        sr_tail := sr_tail r + of_nat (sr_cap r - it_start + it_end)\<rparr>)
       in chk (mask_pos (sr_cap r') (sr_tail r') = it_end) ''mask(r->cap, r->tail) == end_pos'' (
          Inr r')))"

text \<open>Reading the element at the front, as the callers do through the pointer.\<close>

definition seq_ring_get :: "'a seq_ring_t \<Rightarrow> nat \<Rightarrow> 'a res" where
  "seq_ring_get r it =
     (if it < length (sr_array r)
      then (case sr_array r ! it of Some x \<Rightarrow> Inr x | None \<Rightarrow> Inl (Null_Deref ''zeroed slot''))
      else Inl (Heap_Overflow ''read past the block''))"

section \<open>The ring as a queue\<close>

definition ring_pos :: "'a seq_ring_t \<Rightarrow> nat \<Rightarrow> nat" where
  "ring_pos r i = (unat (sr_tail r) + i) mod sr_cap r"

definition ring_contents :: "'a seq_ring_t \<Rightarrow> 'a list" where
  "ring_contents r = map (\<lambda>i. the (sr_array r ! ring_pos r i)) [0 ..< seq_ring_size r]"

definition ring_inv :: "'a seq_ring_t \<Rightarrow> bool" where
  "ring_inv r \<longleftrightarrow>
     (\<exists>k. 0 < k \<and> k < 32 \<and> sr_cap r = 2 ^ k) \<and> length (sr_array r) = sr_cap r \<and>
     seq_ring_size r < sr_cap r \<and>
     (\<forall>i < seq_ring_size r. sr_array r ! ring_pos r i \<noteq> None)"

lemma mask_pos_mod:
  assumes "k < 32"
  shows "mask_pos (2 ^ k) v = unat v mod 2 ^ k"
proof -
  have "(of_nat (2 ^ k) - 1 :: u32) = mask k"
    by (simp add: mask_eq_exp_minus_1)
  then have "mask_pos (2 ^ k) v = unat (take_bit k v)"
    by (simp add: mask_pos_def take_bit_eq_mask)
  also have "\<dots> = take_bit k (unat v)"
    by (rule unsigned_take_bit_eq)
  finally show ?thesis
    by (simp add: take_bit_eq_mod)
qed

lemma unat_add_mod:
  fixes a :: u32
  assumes "k < 32"
  shows "unat (a + of_nat n) mod 2 ^ k = (unat a + n) mod 2 ^ k"
proof -
  have "unat (a + of_nat n) = (unat a + n) mod 2 ^ 32"
    by (simp add: unat_word_ariths unat_of_nat mod_simps)
  moreover have "(2 :: nat) ^ k dvd 2 ^ 32"
    using assms by (intro le_imp_power_dvd) simp
  ultimately show ?thesis
    by (simp add: mod_mod_cancel)
qed

lemma ring_mask:
  assumes "ring_inv r"
  shows "mask_pos (sr_cap r) v = unat v mod sr_cap r"
  using assms mask_pos_mod by (auto simp: ring_inv_def)

lemma ring_mask_add:
  assumes "ring_inv r"
  shows "mask_pos (sr_cap r) (sr_tail r + of_nat i) = ring_pos r i"
  using assms mask_pos_mod unat_add_mod by (auto simp: ring_inv_def ring_pos_def)

lemma ring_head_pos:
  assumes "ring_inv r"
  shows "mask_pos (sr_cap r) (sr_head r) = ring_pos r (seq_ring_size r)"
proof -
  have "sr_head r = sr_tail r + of_nat (seq_ring_size r)"
    by (simp add: seq_ring_size_def)
  then show ?thesis
    using ring_mask_add [OF assms] by metis
qed

lemma ring_front_pos: "ring_inv r \<Longrightarrow> seq_ring_front r = ring_pos r 0"
  using ring_mask_add [of r 0] by (simp add: seq_ring_front_def)

lemma ring_pos_less: "ring_inv r \<Longrightarrow> ring_pos r i < sr_cap r"
  by (auto simp: ring_inv_def ring_pos_def)

lemma ring_pos_inj:
  assumes "i < c" "j < c" "(t + i) mod c = (t + j) mod c"
  shows "i = (j :: nat)"
proof -
  have "i mod c = j mod c"
    using assms(3) by (simp add: mod_add_left_eq nat_mod_eq_iff)
  then show ?thesis
    using assms by simp
qed

lemma ring_inv_init: "ring_inv (seq_ring_init n) \<and> ring_contents (seq_ring_init n) = []"
  by (auto simp: ring_inv_def seq_ring_init_def seq_ring_size_def ring_contents_def DEFAULT_ELM_def
      intro!: exI [of _ 5])

lemma length_ring_contents [simp]: "length (ring_contents r) = seq_ring_size r"
  by (simp add: ring_contents_def)

section \<open>Appending\<close>

lemma ring_size_Suc:
  assumes "ring_inv r"
  shows "seq_ring_size (r\<lparr>sr_array := a, sr_head := sr_head r + 1\<rparr>) = seq_ring_size r + 1"
proof -
  obtain k where k: "k < 32" "sr_cap r = 2 ^ k" "seq_ring_size r < sr_cap r"
    using assms by (auto simp: ring_inv_def)
  have "sr_cap r \<le> 2 ^ 31"
    using k(1,2) power_increasing [of k 31 "2 :: nat"] by simp
  then have "unat (sr_head r - sr_tail r) + unat (1 :: u32) < 2 ^ LENGTH(32)"
    using k(3) by (simp add: seq_ring_size_def)
  then have "unat (sr_head r - sr_tail r + 1) = unat (sr_head r - sr_tail r) + unat (1 :: u32)"
    by (rule unat_add_lem [THEN iffD1])
  then show ?thesis
    by (simp add: seq_ring_size_def diff_add_eq)
qed

lemma ring_cap_gt_1: "ring_inv r \<Longrightarrow> 1 < sr_cap r"
  unfolding ring_inv_def using one_less_power [of "2 :: nat"] by auto

text \<open>Writing behind the last element when the buffer is not full.\<close>

lemma ring_append:
  fixes x :: 'a
  assumes "ring_inv r" "seq_ring_size r + 1 < sr_cap r"
  defines "r' \<equiv> r\<lparr>sr_array := (sr_array r)[ring_pos r (seq_ring_size r) := Some x], sr_head := sr_head r + 1\<rparr>"
  shows "ring_inv r' \<and> ring_contents r' = ring_contents r @ [x]"
proof -
  let ?n = "seq_ring_size r"
  have n: "seq_ring_size r' = ?n + 1"
    unfolding r'_def using assms(1) by (rule ring_size_Suc)
  have pos: "ring_pos r' i = ring_pos r i" for i
    by (simp add: r'_def ring_pos_def)
  have len: "length (sr_array r) = sr_cap r"
    using assms(1) by (simp add: ring_inv_def)
  have old: "sr_array r' ! ring_pos r i = sr_array r ! ring_pos r i" if "i < ?n" for i
  proof -
    have "ring_pos r i \<noteq> ring_pos r ?n"
      using that assms(2) ring_pos_inj [of i "sr_cap r" ?n "unat (sr_tail r)"] by (auto simp: ring_pos_def)
    then show ?thesis by (simp add: r'_def)
  qed
  have new: "sr_array r' ! ring_pos r ?n = Some x"
    using ring_pos_less [OF assms(1)] len by (simp add: r'_def)
  have "ring_contents r' = ring_contents r @ [x]"
    using old new by (simp add: ring_contents_def n pos)
  moreover have "ring_inv r'"
    using assms(1,2) old new n pos unfolding ring_inv_def by (auto simp: r'_def less_Suc_eq)
  ultimately show ?thesis by simp
qed

text \<open>Growing copies the elements to the start of the new block.\<close>

lemma ring_unrolled:
  assumes "length xs = c" "1 < c" "t < c" "h = (t + (c - 1)) mod c"
    and "ys = (if h > t then take (h - t) (drop t xs) else drop t xs @ take h xs)"
  shows "length ys = c - 1 \<and> (\<forall>i < c - 1. ys ! i = xs ! ((t + i) mod c))"
proof (cases "t = 0")
  case True
  then have "ys = take (c - 1) xs"
    using assms by (auto split: if_splits)
  then show ?thesis
    using True assms(1) by auto
next
  case False
  then have h: "h = t - 1"
    using assms(3,4) by (simp add: mod_if)
  then have ys: "ys = drop t xs @ take (t - 1) xs"
    using assms(5) False by (simp split: if_splits)
  have "ys ! i = xs ! ((t + i) mod c)" if "i < c - 1" for i
  proof (cases "i < c - t")
    case True
    then show ?thesis using ys assms(1) by (simp add: nth_append)
  next
    case False
    then have "(t + i) mod c = t + i - c" "t + i - c = i - (c - t)"
      using that assms(3) by (auto simp: mod_if [of "t + i"])
    then show ?thesis using ys False assms(1,3) that by (simp add: nth_append)
  qed
  then show ?thesis
    using ys assms(1,3) False by auto
qed

lemma enlarge_ok:
  assumes "ring_inv r" "full r" "sr_cap r < 2 ^ 31"
  shows "\<exists>r'. enlarge_buffer r = Inr r' \<and> ring_inv r' \<and> ring_contents r' = ring_contents r \<and>
     sr_cap r' = 2 * sr_cap r \<and> seq_ring_size r' = seq_ring_size r \<and> sr_elt_size r' = sr_elt_size r"
proof -
  let ?c = "sr_cap r" and ?t = "mask_pos (sr_cap r) (sr_tail r)" and ?h = "mask_pos (sr_cap r) (sr_head r)"
  obtain k where k: "0 < k" "k < 32" "?c = 2 ^ k" "length (sr_array r) = ?c"
    using assms(1) by (auto simp: ring_inv_def)
  define ys where "ys = (if ?h > ?t then take (?h - ?t) (drop ?t (sr_array r))
                         else drop ?t (sr_array r) @ take ?h (sr_array r))"
  define r' where "r' = r\<lparr>sr_array := ys @ replicate (2 * ?c - length ys) None, sr_cap := 2 * ?c,
      sr_tail := 0, sr_head := of_nat (2 * ?c div 2 - 1)\<rparr>"
  have sz: "seq_ring_size r = ?c - 1"
    using assms(2) by (simp add: full_def)
  have t: "?t = unat (sr_tail r) mod ?c" "?t < ?c" and h: "?h = (?t + (?c - 1)) mod ?c"
    using ring_mask [OF assms(1)] ring_head_pos [OF assms(1)] k(3) sz
    by (simp_all only: ring_pos_def mod_add_left_eq) simp
  have ys: "length ys = ?c - 1" "\<forall>i < ?c - 1. ys ! i = sr_array r ! ring_pos r i"
    using ring_unrolled [OF k(4) _ t(2) h ys_def] k(1,3) t(1) one_less_power [of "2 :: nat" k]
    by (simp_all only: ring_pos_def mod_add_left_eq) auto
  have "k < 31"
  proof (rule ccontr)
    assume "\<not> k < 31"
    then have "(2 :: nat) ^ 31 \<le> 2 ^ k" by (intro power_increasing) auto
    then show False using assms(3) k(3) by simp
  qed
  have "?c - 1 < 2 ^ 32"
    using assms(3) by simp
  then have n: "seq_ring_size r' = ?c - 1"
    by (simp add: seq_ring_size_def r'_def unat_of_nat)
  have nth: "sr_array r' ! ring_pos r' i = sr_array r ! ring_pos r i" if "i < ?c - 1" for i
    using that ys by (simp add: ring_pos_def r'_def nth_append)
  have "enlarge_buffer r = Inr r'"
    using assms(2) by (simp add: enlarge_buffer_def r'_def ys_def Let_def)
  moreover have "ring_contents r' = ring_contents r"
    using nth by (simp add: ring_contents_def n sz)
  moreover have "ring_inv r'"
    unfolding ring_inv_def n
  proof (intro conjI)
    show "\<exists>k. 0 < k \<and> k < 32 \<and> sr_cap r' = 2 ^ k"
      using k(3) \<open>k < 31\<close> by (intro exI [of _ "Suc k"]) (simp add: r'_def)
    show "length (sr_array r') = sr_cap r'" "?c - 1 < sr_cap r'"
      using ys(1) ring_cap_gt_1 [OF assms(1)] by (auto simp: r'_def)
    show "\<forall>i < ?c - 1. sr_array r' ! ring_pos r' i \<noteq> None"
      using nth assms(1) sz by (simp add: ring_inv_def)
  qed
  ultimately show ?thesis
    using n sz by (simp add: r'_def)
qed

definition ring_room :: "nat \<Rightarrow> 'a seq_ring_t \<Rightarrow> bool" where
  "ring_room n r \<longleftrightarrow> seq_ring_size r + n < 2 ^ 31"

lemma ring_push_ok:
  assumes "ring_inv r" "ring_room (Suc n) r" "len = sr_elt_size r"
  shows "\<exists>r'. seq_ring_push_back r x len = Inr r' \<and> ring_inv r' \<and> ring_room n r' \<and>
     ring_contents r' = ring_contents r @ [x] \<and> sr_elt_size r' = sr_elt_size r"
proof -
  obtain r1 where r1: "(if full r then enlarge_buffer r else Inr r) = Inr r1" "ring_inv r1"
    "ring_contents r1 = ring_contents r" "seq_ring_size r1 = seq_ring_size r"
    "sr_elt_size r1 = sr_elt_size r" "seq_ring_size r1 + 1 < sr_cap r1"
  proof (cases "full r")
    case True
    have c: "seq_ring_size r + 1 = sr_cap r" "1 < sr_cap r"
      using True ring_cap_gt_1 [OF assms(1)] by (auto simp: full_def)
    then have "sr_cap r < 2 ^ 31"
      using assms(2) by (simp add: ring_room_def)
    then obtain r' where e: "enlarge_buffer r = Inr r'" "ring_inv r'" "ring_contents r' = ring_contents r"
      "sr_cap r' = 2 * sr_cap r" "seq_ring_size r' = seq_ring_size r" "sr_elt_size r' = sr_elt_size r"
      using enlarge_ok [OF assms(1) True] by blast
    have lt: "seq_ring_size r' + 1 < sr_cap r'"
      unfolding e(4,5) c(1) using c(2) by simp
    have "(if full r then enlarge_buffer r else Inr r) = Inr r'"
      using True e(1) by simp
    then show ?thesis
      by (rule that [OF _ e(2,3,5,6) lt])
  next
    case False
    have "seq_ring_size r < sr_cap r"
      using assms(1) by (simp add: ring_inv_def)
    then have lt: "seq_ring_size r + 1 < sr_cap r"
      using False by (simp add: full_def)
    show ?thesis
      by (rule that [OF _ assms(1) refl refl refl lt]) (simp add: False)
  qed
  define r' where "r' = r1\<lparr>sr_array := (sr_array r1)[ring_pos r1 (seq_ring_size r1) := Some x],
      sr_head := sr_head r1 + 1\<rparr>"
  have "seq_ring_push_back r x len = Inr r'"
    using r1(1) assms(3) ring_head_pos [OF r1(2)] ring_pos_less [OF r1(2)] r1(2)
    by (simp add: seq_ring_push_back_def r'_def ring_inv_def Let_def)
  moreover have "ring_inv r' \<and> ring_contents r' = ring_contents r1 @ [x]"
    unfolding r'_def using r1(2,6) by (rule ring_append)
  moreover have "seq_ring_size r' = seq_ring_size r + 1"
    unfolding r'_def r1(4) [symmetric] using r1(2) by (rule ring_size_Suc)
  ultimately show ?thesis
    using r1(3,5) assms(2) by (auto simp: r'_def ring_room_def)
qed

interpretation ring: back_insertion
  "\<lambda>r. ring_inv r \<and> sr_elt_size r = sz" ring_contents ring_room "\<lambda>r x. seq_ring_push_back r x sz"
  for sz
proof unfold_locales
  fix s :: "'a seq_ring_t" and n :: nat and x
  assume "ring_inv s \<and> sr_elt_size s = sz" "ring_room (Suc n) s"
  then show "\<exists>s'. seq_ring_push_back s x sz = Inr s' \<and> (ring_inv s' \<and> sr_elt_size s' = sz) \<and>
      ring_room n s' \<and> ring_contents s' = ring_contents s @ [x]"
    using ring_push_ok [of s n sz x] by auto
qed

section \<open>Removing from the front\<close>

lemma length_zero_range [simp]: "a \<le> b \<Longrightarrow> b \<le> length xs \<Longrightarrow> length (zero_range a b xs) = length xs"
  by (simp add: zero_range_def)

lemma nth_zero_range:
  "a \<le> b \<Longrightarrow> b \<le> length xs \<Longrightarrow> i < length xs \<Longrightarrow>
     zero_range a b xs ! i = (if a \<le> i \<and> i < b then None else xs ! i)"
  by (auto simp: zero_range_def nth_append min_def)

text \<open>What an erase does when it advances the tail by \<open>k\<close> and zeroes only slots before it.\<close>

lemma ring_drop:
  assumes "ring_inv r" "0 < k" "k \<le> seq_ring_size r" "length a = sr_cap r"
    and "\<And>i. k \<le> i \<Longrightarrow> i < seq_ring_size r \<Longrightarrow> a ! ring_pos r i = sr_array r ! ring_pos r i"
  defines "r' \<equiv> r\<lparr>sr_array := a, sr_tail := sr_tail r + of_nat k\<rparr>"
  shows "ring_inv r' \<and> ring_contents r' = drop k (ring_contents r) \<and>
     seq_ring_size r' = seq_ring_size r - k"
proof -
  let ?n = "seq_ring_size r"
  obtain m where m: "m < 32" "sr_cap r = 2 ^ m"
    using assms(1) by (auto simp: ring_inv_def)
  have "?n < 2 ^ 32"
    unfolding seq_ring_size_def using unsigned_less [of "sr_head r - sr_tail r"] by simp
  then have uk: "unat (of_nat k :: u32) = k"
    using assms(3) by (simp add: unat_of_nat)
  have "(of_nat k :: u32) \<le> sr_head r - sr_tail r"
    using uk assms(3) by (simp add: word_le_nat_alt seq_ring_size_def)
  then have n: "seq_ring_size r' = ?n - k"
    using uk by (simp add: seq_ring_size_def r'_def unat_sub flip: diff_diff_add)
  have pos: "ring_pos r' i = ring_pos r (k + i)" for i
    using unat_add_mod [OF m(1), of "sr_tail r" "k"] m(2)
    by (simp add: ring_pos_def r'_def add.assoc) (metis add.assoc mod_add_left_eq)
  have nth: "sr_array r' ! ring_pos r' i = sr_array r ! ring_pos r (k + i)" if "i < ?n - k" for i
    using that assms(5) [of "k + i"] by (simp add: pos) (simp add: r'_def)
  have "ring_contents r' = drop k (ring_contents r)"
  proof (rule nth_equalityI)
    fix i assume "i < length (ring_contents r')"
    then show "ring_contents r' ! i = drop k (ring_contents r) ! i"
      using nth [of i] nth_upt [of 0 "k + i" ?n] by (simp add: ring_contents_def n)
  qed (simp add: n)
  moreover have "ring_inv r'"
    using assms(1,3,4) nth n unfolding ring_inv_def by (auto simp: r'_def)
  ultimately show ?thesis using n by simp
qed

lemma ring_erase_ok:
  assumes "ring_inv r" "0 < k" "k \<le> seq_ring_size r"
  shows "\<exists>r'. seq_ring_erase r (seq_ring_front r) (ring_pos r k) = Inr r' \<and> ring_inv r' \<and>
     ring_contents r' = drop k (ring_contents r) \<and> sr_elt_size r' = sr_elt_size r \<and>
     seq_ring_size r' = seq_ring_size r - k"
proof -
  let ?c = "sr_cap r" and ?t = "ring_pos r 0" and ?e = "ring_pos r k"
  have c: "seq_ring_size r < ?c" "length (sr_array r) = ?c" "?t < ?c" "?e < ?c"
    using assms(1) ring_pos_less [OF assms(1)] by (auto simp: ring_inv_def)
  have front: "mask_pos ?c (sr_tail r) = ?t"
    using ring_front_pos [OF assms(1)] by (simp add: seq_ring_front_def)
  have pos: "ring_pos r i = (?t + i) mod ?c" for i
    by (simp add: ring_pos_def mod_add_left_eq)
  have pos2: "ring_pos r i = (if ?t + i < ?c then ?t + i else ?t + i - ?c)" if "i < ?c" for i
    using pos [of i] c(3) that by (simp add: mod_if [of "?t + i"])
  have ne: "?t \<noteq> ?e"
    using pos2 [of k] assms(2,3) c(1) by auto
  show ?thesis
  proof (cases "?t + k < ?c")
    case True
    let ?a = "zero_range ?t ?e (sr_array r)"
    have e: "?e = ?t + k"
      using pos2 [of k] True assms(3) c(1) by simp
    have a: "?a ! ring_pos r i = sr_array r ! ring_pos r i" if "k \<le> i" "i < seq_ring_size r" for i
      using pos2 [of i] that c e ring_pos_less [OF assms(1), of i]
      by (subst nth_zero_range) (auto split: if_splits)
    have "length ?a = ?c"
      using c e by simp
    from ring_drop [OF assms this a]
    have d: "ring_inv (r\<lparr>sr_array := ?a, sr_tail := sr_tail r + of_nat k\<rparr>) \<and>
        ring_contents (r\<lparr>sr_array := ?a, sr_tail := sr_tail r + of_nat k\<rparr>) = drop k (ring_contents r) \<and>
        seq_ring_size (r\<lparr>sr_array := ?a, sr_tail := sr_tail r + of_nat k\<rparr>) = seq_ring_size r - k"
      by simp
    have "seq_ring_erase r (seq_ring_front r) ?e = Inr (r\<lparr>sr_array := ?a, sr_tail := sr_tail r + of_nat k\<rparr>)"
      using ne e c ring_mask_add [OF assms(1), of k] assms(2)
      by (simp add: seq_ring_erase_def seq_ring_front_def front Let_def)
    with d show ?thesis by simp
  next
    case False
    let ?a = "zero_range 0 ?e (zero_range ?t ?c (sr_array r))"
    have e: "?e = ?t + k - ?c" "?e < ?t"
      using pos2 [of k] False assms(3) c by auto
    have a: "?a ! ring_pos r i = sr_array r ! ring_pos r i" if "k \<le> i" "i < seq_ring_size r" for i
      using pos2 [of i] that c e False ring_pos_less [OF assms(1), of i]
      by (subst nth_zero_range; simp?) (subst nth_zero_range; auto split: if_splits)
    have "length ?a = ?c"
      using c e by simp
    from ring_drop [OF assms this a]
    have d: "ring_inv (r\<lparr>sr_array := ?a, sr_tail := sr_tail r + of_nat k\<rparr>) \<and>
        ring_contents (r\<lparr>sr_array := ?a, sr_tail := sr_tail r + of_nat k\<rparr>) = drop k (ring_contents r) \<and>
        seq_ring_size (r\<lparr>sr_array := ?a, sr_tail := sr_tail r + of_nat k\<rparr>) = seq_ring_size r - k"
      by simp
    have k: "?c - ?t + ?e = k"
      using e c False by simp
    have "seq_ring_erase r (seq_ring_front r) ?e = Inr (r\<lparr>sr_array := ?a, sr_tail := sr_tail r + of_nat k\<rparr>)"
      using ne e(2) c ring_mask_add [OF assms(1), of k]
      by (simp add: seq_ring_erase_def seq_ring_front_def front Let_def k)
    with d show ?thesis by simp
  qed
qed

lemma ring_next_front:
  assumes "ring_inv r"
  shows "seq_ring_next r (seq_ring_front r) = ring_pos r 1"
  using ring_front_pos [OF assms] ring_pos_less [OF assms, of 0]
  by (auto simp: seq_ring_next_def ring_pos_def mod_Suc)

lemma ring_get_front:
  assumes "ring_inv r" "0 < seq_ring_size r"
  shows "seq_ring_get r (seq_ring_front r) = Inr (hd (ring_contents r))"
proof -
  have "sr_array r ! ring_pos r 0 \<noteq> None" "ring_pos r 0 < length (sr_array r)"
    using assms ring_pos_less [OF assms(1)] by (auto simp: ring_inv_def)
  moreover have "hd (ring_contents r) = the (sr_array r ! ring_pos r 0)"
    using assms(2) by (simp add: ring_contents_def hd_map)
  ultimately show ?thesis
    using ring_front_pos [OF assms(1)] by (auto simp: seq_ring_get_def)
qed

section \<open>Properties of the ring buffer\<close>

text \<open>
  C24.  Appending to the ring buffer never faults while fewer than \<open>2\<^sup>3\<^sup>1\<close> elements are stored:
  the buffer then holds the old elements and the new one, whether it grows, wraps around the
  end of its block, or its 32-bit counters wrap around.
\<close>

theorem seq_ring_push_back_correct:
  assumes "ring_inv r" "seq_ring_size r + 1 < 2 ^ 31" "len = sr_elt_size r"
  shows "\<exists>r'. seq_ring_push_back r x len = Inr r' \<and> ring_inv r' \<and>
     ring_contents r' = ring_contents r @ [x] \<and> seq_ring_size r' = seq_ring_size r + 1"
proof -
  obtain r' where "seq_ring_push_back r x len = Inr r'" "ring_inv r'"
    "ring_contents r' = ring_contents r @ [x]"
    using ring_push_ok [of r 0 len x] assms by (auto simp: ring_room_def)
  then show ?thesis
    using length_ring_contents [of r'] by auto
qed

text \<open>A buffer with four slots whose counters are about to wrap around.\<close>

definition wrapping_ring :: "nat seq_ring_t" where
  "wrapping_ring = \<lparr>sr_elt_size = 8, sr_array = [Some 9, None, None, Some 8], sr_cap = 4,
     sr_head = 1, sr_tail = 0xFFFFFFFF\<rparr>"

lemma wrapping_ring_facts:
  "seq_ring_size wrapping_ring = 2" "ring_pos wrapping_ring 0 = 3" "ring_pos wrapping_ring 1 = 0"
  "sr_cap wrapping_ring = 4" "sr_array wrapping_ring = [Some 9, None, None, Some 8]"
  "sr_elt_size wrapping_ring = 8"
  by (simp_all add: wrapping_ring_def seq_ring_size_def ring_pos_def)

lemma wrapping_ring_inv: "ring_inv wrapping_ring"
proof -
  have "\<forall>i < 2. sr_array wrapping_ring ! ring_pos wrapping_ring i \<noteq> None"
    using wrapping_ring_facts by (simp add: less_Suc_eq numeral_2_eq_2)
  then show ?thesis
    unfolding ring_inv_def wrapping_ring_facts(1,4) by (auto simp: wrapping_ring_facts(5) intro!: exI [of _ 2])
qed

lemma wrapping_ring_contents: "ring_contents wrapping_ring = [8, 9]"
proof -
  have "[0 ..< 2] = [0, 1 :: nat]" by (simp add: numeral_2_eq_2)
  then show ?thesis
    unfolding ring_contents_def wrapping_ring_facts(1) using wrapping_ring_facts by simp
qed

theorem seq_ring_push_back_witness:
  "\<exists>r'. seq_ring_push_back wrapping_ring 7 8 = Inr r' \<and> ring_inv r' \<and>
     ring_contents r' = [8, 9, 7] \<and> seq_ring_size r' = 3"
  using seq_ring_push_back_correct [OF wrapping_ring_inv, of 8 7]
  by (simp add: wrapping_ring_facts wrapping_ring_contents)

text \<open>
  Erasing from the front iterator up to the iterator \<open>k\<close> elements further removes exactly
  the first \<open>k\<close> elements, and none of the assertions of the code fails.
\<close>

theorem seq_ring_erase_correct:
  assumes "ring_inv r" "0 < k" "k \<le> seq_ring_size r"
  shows "\<exists>r'. seq_ring_erase r (seq_ring_front r) (seq_ring_at r (of_nat k)) = Inr r' \<and> ring_inv r' \<and>
     ring_contents r' = drop k (ring_contents r)"
  using ring_erase_ok [OF assms] ring_mask_add [OF assms(1), of k] by (auto simp: seq_ring_at_def)

theorem seq_ring_erase_witness:
  "\<exists>r'. seq_ring_erase wrapping_ring (seq_ring_front wrapping_ring) (seq_ring_at wrapping_ring 1) = Inr r' \<and>
     ring_inv r' \<and> ring_contents r' = [9]"
  using seq_ring_erase_correct [OF wrapping_ring_inv, of 1]
  by (simp add: wrapping_ring_facts wrapping_ring_contents)

text \<open>
  The distance between two iterators is wrong on equal iterators: from the front to the end of
  an empty buffer the code returns the capacity, not zero.
\<close>

lemma seq_ring_dist_empty:
  "seq_ring_dist (seq_ring_init 8) (seq_ring_front (seq_ring_init 8)) (seq_ring_end (seq_ring_init 8)) = 32"
  by (simp add: seq_ring_dist_def seq_ring_front_def seq_ring_end_def seq_ring_init_def mask_pos_def
      DEFAULT_ELM_def)

end
