(* ===== verification/Ts_Queue.thy ===== *)
theory Ts_Queue
  imports Seq_Ring
begin

text \<open>
  The queues between threads: \<^verbatim>\<open>util/alg_ds/ds/tsq/tsq.c\<close>, which an agent uses for the aperiodic
  indications, and \<^verbatim>\<open>util/alg_ds/ds/tsn_queue/tsn_queue.c\<close>, which the xApp uses for its
  callbacks and its database.  Both are ring buffers behind a mutex.  Every operation holds the
  mutex from its first to its last access, so it is one step here; a thread that waits on the
  condition variable is a result of its own.

  Locale \<open>fifo_queue\<close> is the contract of a queue; any sequence of operations on a queue that
  keeps it gives the outputs of a list.  Both queues interpret it.
\<close>

section \<open>The contract\<close>

datatype 'a queue_op = Push 'a | Pop

text \<open>Running a sequence of operations on a queue, and on a list.\<close>

fun run_queue ::
  "('q \<Rightarrow> 'a \<Rightarrow> 'q res) \<Rightarrow> ('q \<Rightarrow> ('q \<times> 'a) res) \<Rightarrow> 'a queue_op list \<Rightarrow> 'q \<Rightarrow> ('q \<times> 'a list) res" where
  "run_queue push pop [] q = Inr (q, [])"
| "run_queue push pop (Push x # ops) q = bnd (push q x) (run_queue push pop ops)"
| "run_queue push pop (Pop # ops) q =
     bnd (pop q) (\<lambda>(q, x). bnd (run_queue push pop ops q) (\<lambda>(q, xs). Inr (q, x # xs)))"

fun run_list :: "'a queue_op list \<Rightarrow> 'a list \<Rightarrow> ('a list \<times> 'a list) option" where
  "run_list [] xs = Some (xs, [])"
| "run_list (Push x # ops) xs = run_list ops (xs @ [x])"
| "run_list (Pop # ops) [] = None"
| "run_list (Pop # ops) (x # xs) = map_option (apsnd ((#) x)) (run_list ops xs)"

locale fifo_queue =
  fixes inv :: "'q \<Rightarrow> bool"
    and contents :: "'q \<Rightarrow> 'a list"
    and room :: "nat \<Rightarrow> 'q \<Rightarrow> bool"
    and push :: "'q \<Rightarrow> 'a \<Rightarrow> 'q res"
    and pop :: "'q \<Rightarrow> ('q \<times> 'a) res"
  assumes push_law: "inv q \<Longrightarrow> room (Suc n) q \<Longrightarrow>
      \<exists>q'. push q x = Inr q' \<and> inv q' \<and> room n q' \<and> contents q' = contents q @ [x]"
    and pop_law: "inv q \<Longrightarrow> room n q \<Longrightarrow> contents q = x # xs \<Longrightarrow>
      \<exists>q'. pop q = Inr (q', x) \<and> inv q' \<and> room n q' \<and> contents q' = xs"
    and pop_empty: "inv q \<Longrightarrow> contents q = [] \<Longrightarrow> \<exists>e. pop q = Inl e"
    and room_mono: "room (Suc n) q \<Longrightarrow> room n q"
begin

lemma run_refines:
  assumes "inv q" "room (length ops) q" "run_list ops (contents q) = Some (xs, out)"
  shows "\<exists>q'. run_queue push pop ops q = Inr (q', out) \<and> inv q' \<and> contents q' = xs"
  using assms
proof (induction ops arbitrary: q out)
  case (Cons op ops)
  show ?case
  proof (cases op)
    case (Push x)
    then obtain q1 where "push q x = Inr q1" "inv q1" "room (length ops) q1" "contents q1 = contents q @ [x]"
      using push_law [of q "length ops" x] Cons.prems(1,2) by auto
    then show ?thesis
      using Cons.IH [of q1 out] Cons.prems(3) Push by simp
  next
    case Pop
    then obtain x ys out' where c: "contents q = x # ys" "out = x # out'" "run_list ops ys = Some (xs, out')"
      using Cons.prems(3) by (cases "contents q") auto
    then obtain q1 where "pop q = Inr (q1, x)" "inv q1" "room (length ops) q1" "contents q1 = ys"
      using pop_law [of q "length ops" x ys] Cons.prems(1,2) room_mono by auto
    then show ?thesis
      using Cons.IH [of q1 out'] c Pop by auto
  qed
qed simp

lemma run_faults:
  assumes "inv q" "room (length ops) q" "run_list ops (contents q) = None"
  shows "\<exists>e. run_queue push pop ops q = Inl e"
  using assms
proof (induction ops arbitrary: q)
  case (Cons op ops)
  show ?case
  proof (cases op)
    case (Push x)
    then obtain q1 where "push q x = Inr q1" "inv q1" "room (length ops) q1" "contents q1 = contents q @ [x]"
      using push_law [of q "length ops" x] Cons.prems(1,2) by auto
    then show ?thesis
      using Cons.IH [of q1] Cons.prems(3) Push by simp
  next
    case Pop
    show ?thesis
    proof (cases "contents q")
      case Nil
      then show ?thesis
        using pop_empty [OF Cons.prems(1)] Pop by auto
    next
      case (Cons x ys)
      then obtain q1 where "pop q = Inr (q1, x)" "inv q1" "room (length ops) q1" "contents q1 = ys"
        using pop_law [of q "length ops" x ys] Cons.prems(1,2) room_mono by auto
      moreover from this have "\<exists>e. run_queue push pop ops q1 = Inl e"
        using Cons.IH [of q1] Cons.prems(3) Pop Cons by simp
      ultimately show ?thesis
        using Pop by auto
    qed
  qed
qed simp

end

section \<open>The queue of the agent\<close>

record 'a tsq_t =
  tsq_r :: "'a seq_ring_t"

definition init_tsq :: "nat \<Rightarrow> 'a tsq_t res" where
  "init_tsq elm_sz = chk (elm_sz > 0) ''elm_sz > 0'' (Inr \<lparr>tsq_r = seq_ring_init elm_sz\<rparr>)"

definition push_tsq :: "'a tsq_t \<Rightarrow> 'a \<Rightarrow> nat \<Rightarrow> 'a tsq_t res" where
  "push_tsq q val sz =
     chk (sz > 0) ''sz > 0'' (
     bnd (seq_ring_push_back (tsq_r q) val sz) (\<lambda>r. Inr (q\<lparr>tsq_r := r\<rparr>)))"

definition pop_tsq :: "'a tsq_t \<Rightarrow> nat \<Rightarrow> ('a tsq_t \<times> 'a) res" where
  "pop_tsq q elm_sz =
     chk (sr_elt_size (tsq_r q) = elm_sz) ''q->r.elt_size == elm_sz'' (
     chk (seq_ring_size (tsq_r q) \<noteq> 0) ''trying to pop from a void queue'' (
     let it = seq_ring_front (tsq_r q) in
     bnd (seq_ring_get (tsq_r q) it) (\<lambda>val.
     chk (it \<noteq> seq_ring_end (tsq_r q)) ''it != seq_end(&q->r)'' (
     bnd (seq_ring_erase (tsq_r q) it (seq_ring_next (tsq_r q) it)) (\<lambda>r.
     Inr (q\<lparr>tsq_r := r\<rparr>, val))))))"

definition size_tsq :: "'a tsq_t \<Rightarrow> nat" where
  "size_tsq q = seq_ring_size (tsq_r q)"

section \<open>The queue of the xApp\<close>

record 'a tsnq_t =
  tsnq_r :: "'a seq_ring_t"
  tsnq_stop_token :: bool
  tsnq_stopped :: bool

definition init_tsnq :: "nat \<Rightarrow> 'a tsnq_t res" where
  "init_tsnq elm_sz =
     chk (elm_sz > 0) ''elm_sz > 0'' (
     Inr \<lparr>tsnq_r = seq_ring_init elm_sz, tsnq_stop_token = False, tsnq_stopped = False\<rparr>)"

definition push_tsnq :: "'a tsnq_t \<Rightarrow> 'a \<Rightarrow> nat \<Rightarrow> 'a tsnq_t res" where
  "push_tsnq q val sz = bnd (seq_ring_push_back (tsnq_r q) val sz) (\<lambda>r. Inr (q\<lparr>tsnq_r := r\<rparr>))"

definition size_tsnq :: "'a tsnq_t \<Rightarrow> nat" where
  "size_tsnq q = seq_ring_size (tsnq_r q)"

text \<open>\<^verbatim>\<open>free_tsnq\<close> first asks the worker to stop.\<close>

definition stop_tsnq :: "'a tsnq_t \<Rightarrow> 'a tsnq_t" where
  "stop_tsnq q = q\<lparr>tsnq_stop_token := True\<rparr>"

text \<open>
  The result of a pop: the thread waits for a push, it is told to stop, or it gets what the
  callback made of the element.
\<close>

datatype 'e popped = Waiting | Stopped | Popped 'e

text \<open>The callback \<open>f\<close> copies an element into the static memory \<open>s\<close> of the caller.\<close>

definition wait_and_pop_tsnq ::
  "'a tsnq_t \<Rightarrow> ('a \<Rightarrow> 's \<Rightarrow> 's res) \<Rightarrow> 's \<Rightarrow> ('a tsnq_t \<times> 's popped) res" where
  "wait_and_pop_tsnq q f s =
     (if seq_ring_size (tsnq_r q) = 0 \<and> \<not> tsnq_stop_token q then Inr (q, Waiting)
      else if tsnq_stop_token q then Inr (q\<lparr>tsnq_stopped := True\<rparr>, Stopped)
      else
        let it = seq_ring_front (tsnq_r q) in
        bnd (seq_ring_get (tsnq_r q) it) (\<lambda>x.
        bnd (f x s) (\<lambda>s.
        chk (it \<noteq> seq_ring_end (tsnq_r q)) ''it != seq_end(&q->r)'' (
        bnd (seq_ring_erase (tsnq_r q) it (seq_ring_next (tsnq_r q) it)) (\<lambda>r.
        Inr (q\<lparr>tsnq_r := r\<rparr>, Popped s))))))"

fun pop_loop :: "nat \<Rightarrow> 'a seq_ring_t \<Rightarrow> nat \<Rightarrow> ('a \<Rightarrow> 's \<Rightarrow> 's res) \<Rightarrow> 's \<Rightarrow> ('s \<times> nat) res" where
  "pop_loop 0 r nxt f s = Inr (s, nxt)"
| "pop_loop (Suc n) r nxt f s =
     bnd (seq_ring_get r nxt) (\<lambda>x.
     bnd (f x s) (\<lambda>s. pop_loop n r (seq_ring_next r nxt) f s))"

definition pop_tsnq_n ::
  "nat \<Rightarrow> string \<Rightarrow> 'a tsnq_t \<Rightarrow> ('a \<Rightarrow> 's \<Rightarrow> 's res) \<Rightarrow> 's \<Rightarrow> ('a tsnq_t \<times> 's popped) res" where
  "pop_tsnq_n n msg q f s =
     (if tsnq_stop_token q then Inr (q\<lparr>tsnq_stopped := True\<rparr>, Stopped)
      else
        chk (seq_ring_size (tsnq_r q) \<ge> n) msg (
        let it = seq_ring_front (tsnq_r q) in
        chk (it \<noteq> seq_ring_end (tsnq_r q)) ''it != seq_end(&q->r)'' (
        bnd (pop_loop n (tsnq_r q) it f s) (\<lambda>(s, nxt).
        bnd (seq_ring_erase (tsnq_r q) it nxt) (\<lambda>r.
        Inr (q\<lparr>tsnq_r := r\<rparr>, Popped s))))))"

definition pop_tsnq_10 :: "'a tsnq_t \<Rightarrow> ('a \<Rightarrow> 's \<Rightarrow> 's res) \<Rightarrow> 's \<Rightarrow> ('a tsnq_t \<times> 's popped) res" where
  "pop_tsnq_10 = pop_tsnq_n 10 ''seq_size(&q->r) >= 10''"

definition pop_tsnq_100 :: "'a tsnq_t \<Rightarrow> ('a \<Rightarrow> 's \<Rightarrow> 's res) \<Rightarrow> 's \<Rightarrow> ('a tsnq_t \<times> 's popped) res" where
  "pop_tsnq_100 = pop_tsnq_n 100 ''seq_size(&q->r) >= 100''"

section \<open>Lemmas\<close>

lemma ring_next_pos: "ring_inv r \<Longrightarrow> seq_ring_next r (ring_pos r i) = ring_pos r (Suc i)"
  using ring_pos_less [of r i] by (auto simp: seq_ring_next_def ring_pos_def mod_Suc)

lemma ring_get_pos:
  assumes "ring_inv r" "i < seq_ring_size r"
  shows "seq_ring_get r (ring_pos r i) = Inr (ring_contents r ! i)"
proof -
  have "sr_array r ! ring_pos r i \<noteq> None" "ring_pos r i < length (sr_array r)"
    using assms ring_pos_less [OF assms(1)] by (auto simp: ring_inv_def)
  moreover have "ring_contents r ! i = the (sr_array r ! ring_pos r i)"
    using assms(2) by (simp add: ring_contents_def)
  ultimately show ?thesis
    by (auto simp: seq_ring_get_def)
qed

lemma ring_front_not_end: "ring_inv r \<Longrightarrow> 0 < seq_ring_size r \<Longrightarrow> seq_ring_front r \<noteq> seq_ring_end r"
  using ring_front_pos [of r] ring_head_pos [of r] ring_pos_inj [of 0 "sr_cap r" "seq_ring_size r" "unat (sr_tail r)"]
  by (auto simp: seq_ring_end_def ring_pos_def ring_inv_def)

lemma pop_loop_ok:
  assumes "ring_inv r" "i + n \<le> seq_ring_size r"
  shows "pop_loop n r (ring_pos r i) f s =
     bnd (fold_res f (take n (drop i (ring_contents r))) s) (\<lambda>s. Inr (s, ring_pos r (i + n)))"
  using assms(2)
proof (induction n arbitrary: i s)
  case (Suc n)
  have d: "drop i (ring_contents r) = ring_contents r ! i # drop (Suc i) (ring_contents r)"
    using Suc.prems by (simp add: drop_eq_nth_Cons)
  have "pop_loop n r (ring_pos r (Suc i)) f =
      (\<lambda>s. bnd (fold_res f (take n (drop (Suc i) (ring_contents r))) s) (\<lambda>s. Inr (s, ring_pos r (Suc i + n))))"
    using Suc.prems Suc.IH [of "Suc i"] by (intro ext) simp
  then show ?case
    using Suc.prems ring_get_pos [OF assms(1), of i] ring_next_pos [OF assms(1), of i]
    by (simp add: d bnd_assoc)
qed simp

text \<open>Taking \<open>k\<close> elements from the front.\<close>

lemma ring_take_ok:
  assumes "ring_inv r" "0 < k" "k \<le> seq_ring_size r" "nxt = ring_pos r k"
  obtains r' where "seq_ring_erase r (seq_ring_front r) nxt = Inr r'" "ring_inv r'"
    "ring_contents r' = drop k (ring_contents r)" "sr_elt_size r' = sr_elt_size r"
    "seq_ring_size r' = seq_ring_size r - k"
  using ring_erase_ok [OF assms(1-3)] assms(4) by auto

lemma ring_contents_Cons: "ring_contents r = x # xs \<Longrightarrow> 0 < seq_ring_size r"
  by (metis length_ring_contents length_greater_0_conv list.distinct(1))

lemma pop_front_ok:
  assumes "ring_inv r" "ring_contents r = x # xs"
  obtains r' where "seq_ring_get r (seq_ring_front r) = Inr x"
    "seq_ring_erase r (seq_ring_front r) (seq_ring_next r (seq_ring_front r)) = Inr r'"
    "ring_inv r'" "ring_contents r' = xs" "sr_elt_size r' = sr_elt_size r"
    "seq_ring_size r' = seq_ring_size r - 1"
proof -
  have s: "0 < seq_ring_size r" "1 \<le> seq_ring_size r"
    using ring_contents_Cons [OF assms(2)] by simp_all
  obtain r' where r': "seq_ring_erase r (seq_ring_front r) (ring_pos r 1) = Inr r'" "ring_inv r'"
    "ring_contents r' = drop 1 (ring_contents r)" "sr_elt_size r' = sr_elt_size r"
    "seq_ring_size r' = seq_ring_size r - 1"
    using ring_take_ok [OF assms(1) zero_less_one s(2) refl] by blast
  show ?thesis
    using ring_get_front [OF assms(1) s(1)] r' ring_next_front [OF assms(1)]
    by (intro that [of r']) (simp_all add: assms(2))
qed

definition tsq_inv :: "nat \<Rightarrow> 'a tsq_t \<Rightarrow> bool" where
  "tsq_inv sz q \<longleftrightarrow> ring_inv (tsq_r q) \<and> sr_elt_size (tsq_r q) = sz \<and> 0 < sz"

definition tsnq_inv :: "nat \<Rightarrow> 'a tsnq_t \<Rightarrow> bool" where
  "tsnq_inv sz q \<longleftrightarrow> ring_inv (tsnq_r q) \<and> sr_elt_size (tsnq_r q) = sz \<and> 0 < sz \<and> \<not> tsnq_stop_token q"

text \<open>Popping one element of an xApp queue, as a queue operation.\<close>

definition pop_tsnq_1 :: "'a tsnq_t \<Rightarrow> ('a tsnq_t \<times> 'a) res" where
  "pop_tsnq_1 q =
     bnd (wait_and_pop_tsnq q (\<lambda>x _. Inr (Some x)) None) (\<lambda>(q, p).
     case p of Popped (Some x) \<Rightarrow> Inr (q, x) | _ \<Rightarrow> Inl (Deadlock ''pthread_cond_wait''))"

lemma tsq_push_law:
  assumes "tsq_inv sz q" "ring_room (Suc n) (tsq_r q)"
  shows "\<exists>q'. push_tsq q x sz = Inr q' \<and> tsq_inv sz q' \<and> ring_room n (tsq_r q') \<and>
     ring_contents (tsq_r q') = ring_contents (tsq_r q) @ [x]"
proof -
  obtain r where "seq_ring_push_back (tsq_r q) x sz = Inr r" "ring_inv r" "ring_room n r"
    "ring_contents r = ring_contents (tsq_r q) @ [x]" "sr_elt_size r = sr_elt_size (tsq_r q)"
    using ring_push_ok [of "tsq_r q" n sz x] assms by (auto simp: tsq_inv_def)
  then show ?thesis
    using assms(1) by (simp add: push_tsq_def tsq_inv_def)
qed

lemma tsq_pop_law:
  assumes "tsq_inv sz q" "ring_room n (tsq_r q)" "ring_contents (tsq_r q) = x # xs"
  shows "\<exists>q'. pop_tsq q sz = Inr (q', x) \<and> tsq_inv sz q' \<and> ring_room n (tsq_r q') \<and>
     ring_contents (tsq_r q') = xs"
proof -
  have i: "ring_inv (tsq_r q)"
    using assms(1) by (simp add: tsq_inv_def)
  obtain r where r: "seq_ring_get (tsq_r q) (seq_ring_front (tsq_r q)) = Inr x"
    "seq_ring_erase (tsq_r q) (seq_ring_front (tsq_r q)) (seq_ring_next (tsq_r q) (seq_ring_front (tsq_r q))) = Inr r"
    "ring_inv r" "ring_contents r = xs" "sr_elt_size r = sr_elt_size (tsq_r q)"
    "seq_ring_size r = seq_ring_size (tsq_r q) - 1"
    by (rule pop_front_ok [OF i assms(3)])
  have "0 < seq_ring_size (tsq_r q)"
    by (rule ring_contents_Cons [OF assms(3)])
  then show ?thesis
    using r assms(1,2) ring_front_not_end [OF i] by (simp add: pop_tsq_def tsq_inv_def ring_room_def Let_def)
qed

lemma ring_room_Suc: "ring_room (Suc n) r \<Longrightarrow> ring_room n r"
  by (simp add: ring_room_def)

lemma ring_contents_Nil: "ring_contents r = [] \<longleftrightarrow> seq_ring_size r = 0"
  by (metis length_0_conv length_ring_contents)

interpretation tsq: fifo_queue "tsq_inv sz" "\<lambda>q. ring_contents (tsq_r q)" "\<lambda>n q. ring_room n (tsq_r q)"
  "\<lambda>q x. push_tsq q x sz" "\<lambda>q. pop_tsq q sz" for sz
proof unfold_locales
  fix q :: "'a tsq_t"
  assume "tsq_inv sz q" "ring_contents (tsq_r q) = []"
  then show "\<exists>e. pop_tsq q sz = Inl e"
    by (simp add: pop_tsq_def tsq_inv_def ring_contents_Nil)
qed (fact tsq_push_law tsq_pop_law ring_room_Suc)+

lemma tsnq_push_law:
  assumes "tsnq_inv sz q" "ring_room (Suc n) (tsnq_r q)"
  shows "\<exists>q'. push_tsnq q x sz = Inr q' \<and> tsnq_inv sz q' \<and> ring_room n (tsnq_r q') \<and>
     ring_contents (tsnq_r q') = ring_contents (tsnq_r q) @ [x]"
proof -
  obtain r where "seq_ring_push_back (tsnq_r q) x sz = Inr r" "ring_inv r" "ring_room n r"
    "ring_contents r = ring_contents (tsnq_r q) @ [x]" "sr_elt_size r = sr_elt_size (tsnq_r q)"
    using ring_push_ok [of "tsnq_r q" n sz x] assms by (auto simp: tsnq_inv_def)
  then show ?thesis
    using assms(1) by (simp add: push_tsnq_def tsnq_inv_def)
qed

lemma tsnq_wait_and_pop:
  assumes "tsnq_inv sz q" "ring_contents (tsnq_r q) = x # xs" "f x s = Inr s'"
  obtains q' where "wait_and_pop_tsnq q f s = Inr (q', Popped s')" "tsnq_inv sz q'"
    "ring_contents (tsnq_r q') = xs" "seq_ring_size (tsnq_r q') = seq_ring_size (tsnq_r q) - 1"
proof -
  have i: "ring_inv (tsnq_r q)"
    using assms(1) by (simp add: tsnq_inv_def)
  obtain r where r: "seq_ring_get (tsnq_r q) (seq_ring_front (tsnq_r q)) = Inr x"
    "seq_ring_erase (tsnq_r q) (seq_ring_front (tsnq_r q)) (seq_ring_next (tsnq_r q) (seq_ring_front (tsnq_r q))) = Inr r"
    "ring_inv r" "ring_contents r = xs" "sr_elt_size r = sr_elt_size (tsnq_r q)"
    "seq_ring_size r = seq_ring_size (tsnq_r q) - 1"
    by (rule pop_front_ok [OF i assms(2)])
  have "0 < seq_ring_size (tsnq_r q)"
    by (rule ring_contents_Cons [OF assms(2)])
  then show ?thesis
    using r assms(1,3) ring_front_not_end [OF i]
    by (intro that [of "q\<lparr>tsnq_r := r\<rparr>"]) (simp_all add: wait_and_pop_tsnq_def tsnq_inv_def Let_def)
qed

text \<open>Taking \<open>n\<close> elements at once: the callback sees them in order.\<close>

lemma tsnq_pop_n:
  assumes "tsnq_inv sz q" "0 < n" "n \<le> seq_ring_size (tsnq_r q)"
    and "fold_res f (take n (ring_contents (tsnq_r q))) s = Inr s'"
  obtains q' where "pop_tsnq_n n msg q f s = Inr (q', Popped s')" "tsnq_inv sz q'"
    "ring_contents (tsnq_r q') = drop n (ring_contents (tsnq_r q))"
    "seq_ring_size (tsnq_r q') = seq_ring_size (tsnq_r q) - n"
proof -
  have i: "ring_inv (tsnq_r q)"
    using assms(1) by (simp add: tsnq_inv_def)
  obtain r where r: "seq_ring_erase (tsnq_r q) (seq_ring_front (tsnq_r q)) (ring_pos (tsnq_r q) n) = Inr r"
    "ring_inv r" "ring_contents r = drop n (ring_contents (tsnq_r q))" "sr_elt_size r = sr_elt_size (tsnq_r q)"
    "seq_ring_size r = seq_ring_size (tsnq_r q) - n"
    by (rule ring_take_ok [OF i assms(2,3) refl])
  have "pop_loop n (tsnq_r q) (seq_ring_front (tsnq_r q)) f s = Inr (s', ring_pos (tsnq_r q) n)"
    using pop_loop_ok [OF i, of 0 n f s] assms(3,4) by (simp add: ring_front_pos [OF i])
  moreover have "0 < seq_ring_size (tsnq_r q)"
    using assms(2,3) by simp
  ultimately show ?thesis
    using r assms(1,3) ring_front_not_end [OF i]
    by (intro that [of "q\<lparr>tsnq_r := r\<rparr>"]) (simp_all add: pop_tsnq_n_def tsnq_inv_def Let_def)
qed

interpretation tsnq: fifo_queue "tsnq_inv sz" "\<lambda>q. ring_contents (tsnq_r q)" "\<lambda>n q. ring_room n (tsnq_r q)"
  "\<lambda>q x. push_tsnq q x sz" pop_tsnq_1 for sz
proof unfold_locales
  fix q :: "'a tsnq_t" and n x xs
  assume a: "tsnq_inv sz q" "ring_room n (tsnq_r q)" "ring_contents (tsnq_r q) = x # xs"
  obtain q' where "wait_and_pop_tsnq q (\<lambda>x _. Inr (Some x)) None = Inr (q', Popped (Some x))" "tsnq_inv sz q'"
    "ring_contents (tsnq_r q') = xs" "seq_ring_size (tsnq_r q') = seq_ring_size (tsnq_r q) - 1"
    by (rule tsnq_wait_and_pop [OF a(1,3), of "\<lambda>x _. Inr (Some x)"]) simp
  then show "\<exists>q'. pop_tsnq_1 q = Inr (q', x) \<and> tsnq_inv sz q' \<and> ring_room n (tsnq_r q') \<and>
      ring_contents (tsnq_r q') = xs"
    using a(2) by (simp add: pop_tsnq_1_def ring_room_def)
next
  fix q :: "'a tsnq_t"
  assume "tsnq_inv sz q" "ring_contents (tsnq_r q) = []"
  then show "\<exists>e. pop_tsnq_1 q = Inl e"
    by (simp add: pop_tsnq_1_def wait_and_pop_tsnq_def tsnq_inv_def ring_contents_Nil)
qed (fact tsnq_push_law ring_room_Suc)+

lemma init_tsq_ok:
  assumes "0 < sz" "n < 2 ^ 31"
  shows "\<exists>q :: 'a tsq_t. init_tsq sz = Inr q \<and> tsq_inv sz q \<and> ring_contents (tsq_r q) = [] \<and>
    ring_room n (tsq_r q)"
proof -
  let ?r = "seq_ring_init sz :: 'a seq_ring_t"
  have "sr_elt_size ?r = sz" "seq_ring_size ?r = 0" "ring_inv ?r \<and> ring_contents ?r = []"
    by (simp_all add: seq_ring_init_def seq_ring_size_def ring_inv_init [unfolded seq_ring_init_def])
  then show ?thesis
    using assms by (simp add: init_tsq_def tsq_inv_def ring_room_def)
qed

section \<open>Properties\<close>

text \<open>
  C23.  From an empty queue of the agent, any sequence of up to \<open>2\<^sup>3\<^sup>1\<close> pushes and pops behaves as
  the same sequence on a list: the elements come out in the order they went in, and the
  sequence aborts exactly when it pops from an empty queue.
\<close>

theorem tsq_refines_list:
  assumes "0 < sz" "length ops < 2 ^ 31"
  shows "\<exists>q. init_tsq sz = Inr q \<and>
     (case run_list ops [] of
        Some (xs, out) \<Rightarrow> \<exists>q'. run_queue (\<lambda>q x. push_tsq q x sz) (\<lambda>q. pop_tsq q sz) ops q = Inr (q', out) \<and>
          ring_contents (tsq_r q') = xs \<and> size_tsq q' = length xs
      | None \<Rightarrow> \<exists>e. run_queue (\<lambda>q x. push_tsq q x sz) (\<lambda>q. pop_tsq q sz) ops q = Inl e)"
proof -
  obtain q :: "'a tsq_t" where q: "init_tsq sz = Inr q" "tsq_inv sz q" "ring_contents (tsq_r q) = []"
    "ring_room (length ops) (tsq_r q)"
    using init_tsq_ok [OF assms] by (elim exE conjE)
  show ?thesis
  proof (cases "run_list ops []")
    case None
    then show ?thesis
      using tsq.run_faults [OF q(2,4)] q(1,3) by simp
  next
    case (Some p)
    obtain xs out where p: "p = (xs, out)"
      by (cases p)
    obtain q' where "run_queue (\<lambda>q x. push_tsq q x sz) (\<lambda>q. pop_tsq q sz) ops q = Inr (q', out)"
      "ring_contents (tsq_r q') = xs"
      using tsq.run_refines [OF q(2,4), of xs out] Some q(3) p by auto
    then show ?thesis
      using Some p q(1) length_ring_contents [of "tsq_r q'"] by (auto simp: size_tsq_def)
  qed
qed

theorem tsq_refines_list_witness:
  "\<exists>q q'. init_tsq 8 = Inr q \<and>
     run_queue (\<lambda>q x. push_tsq q x 8) (\<lambda>q. pop_tsq q 8) [Push CHR ''a'', Push CHR ''b'', Pop, Push CHR ''c'', Pop] q =
       Inr (q', [CHR ''a'', CHR ''b'']) \<and> ring_contents (tsq_r q') = [CHR ''c'']"
  using tsq_refines_list [of 8 "[Push CHR ''a'', Push CHR ''b'', Pop, Push CHR ''c'', Pop]"] by auto

end
