(* ===== verification/E2_Agent.thy ===== *)
theory E2_Agent
  imports Sm_Agent Ts_Queue
begin

text \<open>
  The E2 agent (\<^verbatim>\<open>agent/e2_agent.c\<close>, \<^verbatim>\<open>msg_handler_agent.c\<close>, \<^verbatim>\<open>gen_msg_agent.c\<close>, \<^verbatim>\<open>asio_agent.c\<close>,
  the lookup of \<^verbatim>\<open>plugin_agent.c\<close>, \<^verbatim>\<open>lib/ind_event.c\<close>): its state, the setup procedure with its
  timer, the handlers of the messages of the RIC, the indications, and the events that the RAN
  raises from another thread.

  The operating system is a parameter, as in the model of the RIC: the descriptor of a new timer
  is an argument, and so are the ready descriptor and the message of the socket.  \<open>ag_io\<close> are the
  descriptors that epoll watches; closing a descriptor removes it.  \<open>ag_pipe\<close> is the number of
  bytes in the pipe, \<open>ag_sent\<close> the messages sent to the RIC, \<open>ag_freed\<close> the requests whose
  aperiodic subscription was released in the RAN, and \<open>ag_exited\<close> says that the process has
  called \<^verbatim>\<open>exit\<close> or left the loop.
\<close>

section \<open>State\<close>

record ind_event_t =
  ie_ric_id :: ric_gen_id_t
  ie_sm :: sm_agent_t
  ie_action_id :: u8
  ie_subs :: sm_ag_if_ans_subs_t

definition cmp_ind_event :: "ind_event_t \<Rightarrow> ind_event_t \<Rightarrow> int res" where
  "cmp_ind_event m0 m1 = Inr (cmp_ric_gen_id (ie_ric_id m0) (ie_ric_id m1))"

definition eq_ind_event_ric_req_id :: "u32 \<Rightarrow> ind_event_t \<Rightarrow> bool res" where
  "eq_ind_event_ric_req_id ric_id ind_ev = Inr (ric_id = ric_req_id (ie_ric_id ind_ev))"

definition eq_ind_event :: "ric_gen_id_t \<Rightarrow> ind_event_t \<Rightarrow> bool res" where
  "eq_ind_event ric_id ind_ev = Inr (eq_ric_gen_id ric_id (ie_ric_id ind_ev))"

record aind_event_t =
  ai_ric_id :: ric_gen_id_t
  ai_sm :: sm_agent_t
  ai_action_id :: u8
  ai_ind_data :: void_ptr

record ric_connection_t =
  rc_ric_addr :: string
  rc_retry_count :: int

datatype connection_state = CONNECTED | DISCONNECTED

record e2_agent_t =
  ag_fd :: int
  ag_addr :: string
  ag_io :: "int list"
  ag_pipe_r :: int
  ag_pipe :: nat
  ag_sm_ds :: "(u16, sm_agent_t) assoc_rb_tree_t"
  ag_connection_state :: connection_state
  ag_init_ric_addr :: string
  ag_ric_connections :: "ric_connection_t list"
  ag_ind_event :: "(int, ind_event_t) bi_map_t"
  ag_pending :: "(int, pending_event_t) bi_map_t"
  ag_node_id :: global_e2_node_id_t
  ag_aind :: "aind_event_t tsq_t"
  ag_read_setup_ran :: "e2ap_node_component_config_add_t list"
  ag_trans_id :: u32
  ag_sent :: "e2ap_msg_t list"
  ag_freed :: "u32 list"
  ag_exited :: bool

definition sizeof_pending_event :: nat where "sizeof_pending_event = 4"
definition sizeof_ind_event :: nat where "sizeof_ind_event = 32"
definition sizeof_aind_event :: nat where "sizeof_aind_event = 32"

section \<open>Descriptors and timers\<close>

definition add_fd_asio_agent :: "int list \<Rightarrow> int \<Rightarrow> int list res" where
  "add_fd_asio_agent io fd = chk (fd \<notin> set io) ''rc != -1'' (Inr (fd # io))"

definition rm_fd_asio_agent :: "int list \<Rightarrow> int \<Rightarrow> int list res" where
  "rm_fd_asio_agent io fd = chk (fd \<in> set io) ''rc != -1'' (Inr (removeAll fd io))"

definition close_fd :: "int list \<Rightarrow> int \<Rightarrow> int list" where
  "close_fd io fd = removeAll fd io"

definition create_timer_ms_asio_agent :: "int list \<Rightarrow> int \<Rightarrow> int \<Rightarrow> int \<Rightarrow> (int list \<times> int) res" where
  "create_timer_ms_asio_agent io initial_ms interval_ms tfd =
     chk (initial_ms > - 1) ''initial_ms > -1'' (
     chk (interval_ms > - 1) ''interval_ms > -1'' (
     chk (tfd \<noteq> - 1) ''tfd != -1'' (
     bnd (add_fd_asio_agent io tfd) (\<lambda>io. Inr (io, tfd)))))"

section \<open>Initialisation\<close>

definition free_fd_agent :: "int \<Rightarrow> pending_event_t \<Rightarrow> unit res" where
  "free_fd_agent fd v = chk (fd > 0) ''*fd > 0'' (Inr ())"

definition free_pending_ev :: "pending_event_t \<Rightarrow> int \<Rightarrow> unit res" where
  "free_pending_ev ev v = bnd (valid_pending_event ev) (\<lambda>_. Inr ())"

definition init_pending_events_agent :: "(int, pending_event_t) bi_map_t res" where
  "init_pending_events_agent =
     bi_map_init sizeof_fd sizeof_pending_event cmp_fd (\<lambda>a b. Inr (cmp_pending_event a b))
       (Some free_fd_agent) (Some free_pending_ev)"

text \<open>Releasing the memory that a subscription holds in its service model.\<close>

definition free_act_def_of :: "ind_event_t \<Rightarrow> unit res" where
  "free_act_def_of ev =
     (case sma_free_act_def (ie_sm ev) of
        None \<Rightarrow> Inr ()
      | Some f \<Rightarrow>
          (case ie_subs ev of
             PERIODIC_SUBSCRIPTION_FLRC _ act_def \<Rightarrow> f act_def
           | _ \<Rightarrow> Inl (Double_Free ''act_def shares its memory with free_subs_aperiodic'')))"

definition free_ind_event_map :: "int \<Rightarrow> ind_event_t \<Rightarrow> unit res" where
  "free_ind_event_map fd ev = free_act_def_of ev"

definition free_key :: "ind_event_t \<Rightarrow> int \<Rightarrow> unit res" where
  "free_key ev fd = Inr ()"

definition init_indication_event :: "(int, ind_event_t) bi_map_t res" where
  "init_indication_event =
     bi_map_init sizeof_fd sizeof_ind_event cmp_fd cmp_ind_event (Some free_ind_event_map) (Some free_key)"

text \<open>
  \<open>fd\<close> is the socket of the endpoint, \<open>pipe_r\<close> the read end of the pipe, \<open>sm_ds\<close> the service
  models that the plugins loaded, \<open>rics\<close> the addresses of the arguments.
\<close>

definition e2_init_agent ::
  "string \<Rightarrow> int \<Rightarrow> global_e2_node_id_t \<Rightarrow> int \<Rightarrow> int \<Rightarrow> (u16, sm_agent_t) assoc_rb_tree_t \<Rightarrow> string list \<Rightarrow>
   e2ap_node_component_config_add_t list \<Rightarrow> e2_agent_t res" where
  "e2_init_agent addr port ge2nid fd pipe_r sm_ds rics cca =
     chk (port > 0 \<and> port < 65535) ''port > 0 && port < 65535'' (
     chk (length addr < 16) ''strlen(addr) < 16'' (
     bnd (add_fd_asio_agent [] pipe_r) (\<lambda>io.
     bnd (add_fd_asio_agent io fd) (\<lambda>io.
     bnd init_pending_events_agent (\<lambda>pending.
     bnd init_indication_event (\<lambda>ind_event.
     bnd (init_tsq sizeof_aind_event) (\<lambda>aind.
     Inr \<lparr>ag_fd = fd, ag_addr = addr, ag_io = io, ag_pipe_r = pipe_r, ag_pipe = 0, ag_sm_ds = sm_ds,
          ag_connection_state = DISCONNECTED, ag_init_ric_addr = addr,
          ag_ric_connections = map (\<lambda>a. \<lparr>rc_ric_addr = a, rc_retry_count = 0\<rparr>) rics,
          ag_ind_event = ind_event, ag_pending = pending, ag_node_id = ge2nid, ag_aind = aind,
          ag_read_setup_ran = cca, ag_trans_id = 0, ag_sent = [], ag_freed = [], ag_exited = False\<rparr>)))))))"

section \<open>The setup procedure\<close>

definition sm_plugin_ag :: "(u16, sm_agent_t) assoc_rb_tree_t \<Rightarrow> u16 \<Rightarrow> sm_agent_t res" where
  "sm_plugin_ag sm_ds key =
     chk (key > 0) ''Reserved value'' (
     bnd (lookup_if sm_ds (eq_ran_func_id key)) (\<lambda>sm.
     bnd (found sm ''RAN function ID not found in the RAN'') (\<lambda>sm.
     chk (sma_id sm = key) ''sm->info.id() == key'' (Inr sm))))"

fun gen_ran_functions ::
  "nat \<Rightarrow> (u16, sm_agent_t) node_it \<Rightarrow> (ran_function_t list \<times> (u16, sm_agent_t) node_it) res" where
  "gen_ran_functions 0 it = Inr ([], it)"
| "gen_ran_functions (Suc n) it =
     bnd (assoc_rb_tree_value it) (\<lambda>sm.
     bnd (assoc_rb_tree_key it) (\<lambda>key.
     chk (sma_id sm = key) ''RAN function mismatch'' (
     bnd (sma_on_e2_setup sm) (\<lambda>def.
     bnd (assoc_rb_tree_next it) (\<lambda>it.
     bnd (gen_ran_functions n it) (\<lambda>(rfs, it).
     Inr (\<lparr>rf_defn = def, rf_id = sma_id sm, rf_rev = sma_rev sm, rf_oid = sma_oid sm\<rparr> # rfs, it)))))))"

definition gen_setup_request_v2 :: "e2_agent_t \<Rightarrow> (e2_agent_t \<times> e2_setup_request_t) res" where
  "gen_setup_request_v2 ag =
     (let len_rf = assoc_rb_tree_size (ag_sm_ds ag) in
      chk (len_rf > 0) ''No RAN function/service model registered'' (
      let trans_id = ag_trans_id ag;
          ag = ag\<lparr>ag_trans_id := ag_trans_id ag + 1\<rparr>
      in bnd (gen_ran_functions len_rf (assoc_rb_tree_front (ag_sm_ds ag))) (\<lambda>(rfs, it).
         chk (at_end it) ''Length mismatch'' (
         Inr (ag, \<lparr>stp_trans_id = ucast trans_id, stp_id = cp_global_e2_node_id (ag_node_id ag),
                   stp_ran_func_item = rfs, stp_comp_conf_add = ag_read_setup_ran ag\<rparr>)))))"

definition e2ap_send_bytes_agent :: "e2_agent_t \<Rightarrow> e2ap_msg_t \<Rightarrow> e2_agent_t" where
  "e2ap_send_bytes_agent ag msg = ag\<lparr>ag_sent := ag_sent ag @ [msg]\<rparr>"

definition consume_fd_sync :: "int \<Rightarrow> unit res" where
  "consume_fd_sync fd = chk (fd > 0) ''fd > 0'' (Inr ())"

text \<open>The connection of the current RIC and the increment of its counter.\<close>

fun retry_ric :: "string \<Rightarrow> ric_connection_t list \<Rightarrow> ric_connection_t list option" where
  "retry_ric addr [] = None"
| "retry_ric addr (c # cs) =
     (if addr = rc_ric_addr c then Some (c\<lparr>rc_retry_count := rc_retry_count c + 1\<rparr> # cs)
      else map_option ((#) c) (retry_ric addr cs))"

definition close_pending :: "e2_agent_t \<Rightarrow> int list res" where
  "close_pending ag =
     for_tree (\<lambda>fd _ io. Inr (close_fd io fd)) (assoc_rb_tree_front (bm_left (ag_pending ag))) (ag_io ag)"

definition handle_pending_event :: "e2_agent_t \<Rightarrow> int \<Rightarrow> e2_agent_t res" where
  "handle_pending_event ag tfd =
     (case retry_ric (ag_init_ric_addr ag) (ag_ric_connections ag) of
        None \<Rightarrow> Inr ag
      | Some rics \<Rightarrow>
          bnd (close_pending ag) (\<lambda>io.
          bnd (bi_map_free (ag_pending ag)) (\<lambda>_.
          bnd init_pending_events_agent (\<lambda>pending.
          let ag = ag\<lparr>ag_ric_connections := rics\<rparr> in
          bnd (create_timer_ms_asio_agent io 1000 0 tfd) (\<lambda>(io, new_timer).
          if new_timer < 0 then Inr (ag\<lparr>ag_io := io, ag_pending := pending\<rparr>)
          else
            bnd (bi_map_insert pending new_timer sizeof_fd SETUP_REQUEST_PENDING_EVENT sizeof_pending_event) (\<lambda>pending.
            let ag = ag\<lparr>ag_io := io, ag_pending := pending\<rparr> in
            bnd (gen_setup_request_v2 ag) (\<lambda>(ag, sr).
            let ag = e2ap_send_bytes_agent ag (E2_Stp_Req sr) in
            bnd (consume_fd_sync new_timer) (\<lambda>_.
            Inr ag))))))))"

text \<open>The timer of the first request and of the request after a disconnection.\<close>

definition arm_setup_timer :: "e2_agent_t \<Rightarrow> int \<Rightarrow> e2_agent_t res" where
  "arm_setup_timer ag tfd =
     bnd (bi_map_size (ag_pending ag)) (\<lambda>n.
     bnd (if n > 0 then bi_map_free (ag_pending ag) else Inr ()) (\<lambda>_.
     bnd init_pending_events_agent (\<lambda>pending.
     bnd (create_timer_ms_asio_agent (ag_io ag) 3000 3000 tfd) (\<lambda>(io, fd_timer).
     if fd_timer < 0 then Inr (ag\<lparr>ag_io := io, ag_pending := pending\<rparr>)
     else
       bnd (bi_map_insert pending fd_timer sizeof_fd SETUP_REQUEST_PENDING_EVENT sizeof_pending_event) (\<lambda>pending.
       Inr (ag\<lparr>ag_io := io, ag_pending := pending\<rparr>))))))"

definition handle_connection_shutdown :: "e2_agent_t \<Rightarrow> int \<Rightarrow> e2_agent_t res" where
  "handle_connection_shutdown ag tfd = arm_setup_timer (ag\<lparr>ag_connection_state := DISCONNECTED\<rparr>) tfd"

text \<open>Up to the event loop.\<close>

definition e2_start_agent :: "e2_agent_t \<Rightarrow> int \<Rightarrow> e2_agent_t res" where
  "e2_start_agent ag tfd =
     (let ag = ag\<lparr>ag_init_ric_addr := ag_addr ag, ag_connection_state := DISCONNECTED\<rparr> in
      bnd (arm_setup_timer ag tfd) (\<lambda>ag.
      bnd (gen_setup_request_v2 ag) (\<lambda>(ag, sr).
      Inr (e2ap_send_bytes_agent ag (E2_Stp_Req sr)))))"

section \<open>Messages of the RIC\<close>

definition check_valid_msg_type_agent :: "e2_msg_type_t \<Rightarrow> bool" where
  "check_valid_msg_type_agent t \<longleftrightarrow>
     t = RIC_SUBSCRIPTION_REQUEST \<or> t = RIC_SUBSCRIPTION_DELETE_REQUEST \<or> t = RIC_CONTROL_REQUEST
     \<or> t = E2AP_ERROR_INDICATION \<or> t = E2_SETUP_RESPONSE \<or> t = E2_SETUP_FAILURE
     \<or> t = E2AP_RESET_REQUEST \<or> t = E2AP_RESET_RESPONSE \<or> t = RIC_SERVICE_UPDATE_ACKNOWLEDGE
     \<or> t = RIC_SERVICE_UPDATE_FAILURE \<or> t = RIC_SERVICE_QUERY
     \<or> t = E2_NODE_CONFIGURATION_UPDATE_ACKNOWLEDGE \<or> t = E2_NODE_CONFIGURATION_UPDATE_FAILURE
     \<or> t = E2_CONNECTION_UPDATE"

definition supported_ric_subscription_request :: "ric_subscription_request_t \<Rightarrow> unit res" where
  "supported_ric_subscription_request sr =
     chk (length (sreq_action sr) = 1) ''Only one action supported'' (
     chk (act_type (hd (sreq_action sr)) = RIC_ACT_REPORT) ''Only report supported'' (Inr ()))"

definition generate_sm_subs_data :: "ric_subscription_request_t \<Rightarrow> sm_subs_data_ag_t" where
  "generate_sm_subs_data sr =
     \<lparr>sbd_ric_req_id = ric_req_id (sreq_ric_id sr), sbd_event_trigger = sreq_event_trigger sr,
      sbd_action_def = act_definition (hd (sreq_action sr))\<rparr>"

definition generate_subscription_response :: "ric_gen_id_t \<Rightarrow> u8 \<Rightarrow> ric_subscription_response_t" where
  "generate_subscription_response ric_id a =
     \<lparr>sresp_ric_id = ric_id, sresp_admitted = [\<lparr>ric_act_id = a\<rparr>], sresp_not_admitted = []\<rparr>"

definition e2ap_handle_subscription_request_agent ::
  "e2_agent_t \<Rightarrow> ric_subscription_request_t \<Rightarrow> int \<Rightarrow> (e2_agent_t \<times> e2ap_msg_t) res" where
  "e2ap_handle_subscription_request_agent ag sr tfd =
     bnd (supported_ric_subscription_request sr) (\<lambda>_.
     let data = generate_sm_subs_data sr in
     bnd (sm_plugin_ag (ag_sm_ds ag) (ran_func_id (sreq_ric_id sr))) (\<lambda>sm.
     bnd (sma_on_subscription sm data) (\<lambda>subs.
     let a = act_id (hd (sreq_action sr));
         ev = \<lparr>ie_ric_id = sreq_ric_id sr, ie_sm = sm, ie_action_id = a, ie_subs = subs\<rparr>;
         ans = Ric_Sub_Resp (generate_subscription_response (sreq_ric_id sr) a)
     in (case subs of
           PERIODIC_SUBSCRIPTION_FLRC ms act_def \<Rightarrow>
             chk (ms < 10001) ''Subscription for granularity larger than 10 seconds requested? '' (
             bnd (create_timer_ms_asio_agent (ag_io ag) ms ms tfd) (\<lambda>(io, fd_timer).
             bnd (bi_map_insert (ag_ind_event ag) fd_timer sizeof_fd ev sizeof_ind_event) (\<lambda>m.
             Inr (ag\<lparr>ag_io := io, ag_ind_event := m\<rparr>, ans))))
         | APERIODIC_SUBSCRIPTION_FLRC \<Rightarrow>
             bnd (bi_map_insert (ag_ind_event ag) 0 sizeof_fd ev sizeof_ind_event) (\<lambda>m.
             Inr (ag\<lparr>ag_ind_event := m\<rparr>, ans))
         | END_SUBSCRIPTION_FLRC \<Rightarrow> Inl (Assertion ''Unknown subscritpion timer value'')))))"

definition stop_ind_event :: "e2_agent_t \<Rightarrow> ric_gen_id_t \<Rightarrow> e2_agent_t res" where
  "stop_ind_event ag rid =
     bnd (find_if_rb_tree (eq_ind_event rid) (assoc_rb_tree_front (bm_right (ag_ind_event ag)))) (\<lambda>it_r.
     if at_end it_r then Inr ag
     else
       bnd (assoc_rb_tree_key it_r) (\<lambda>ind_ev.
       bnd (free_act_def_of ind_ev) (\<lambda>_.
       let ag = (if ie_subs ind_ev = APERIODIC_SUBSCRIPTION_FLRC
                 then ag\<lparr>ag_freed := ag_freed ag @ [ric_req_id rid]\<rparr> else ag)
       in bnd (bi_map_extract_right (ag_ind_event ag) (ind_ev\<lparr>ie_ric_id := rid\<rparr>) sizeof_ind_event None) (\<lambda>(m, fd).
          chk (fd > - 1) ''*fd > -1'' (
          bnd (if fd \<noteq> 0 then rm_fd_asio_agent (ag_io ag) fd else Inr (ag_io ag)) (\<lambda>io.
          Inr (ag\<lparr>ag_ind_event := m, ag_io := io\<rparr>))))))) "

definition e2ap_handle_subscription_delete_request_agent ::
  "e2_agent_t \<Rightarrow> ric_subscription_delete_request_t \<Rightarrow> (e2_agent_t \<times> e2ap_msg_t) res" where
  "e2ap_handle_subscription_delete_request_agent ag sdr =
     bnd (stop_ind_event ag (sdr_ric_id sdr)) (\<lambda>ag.
     Inr (ag, Ric_Sub_Del_Resp \<lparr>sdresp_ric_id = sdr_ric_id sdr\<rparr>))"

definition ba_from_ctrl_out :: "byte_array_t \<Rightarrow> byte_array_t option" where
  "ba_from_ctrl_out data = (if length data > 0 then Some data else None)"

definition e2ap_handle_control_request_agent ::
  "e2_agent_t \<Rightarrow> ric_control_request_t \<Rightarrow> (e2_agent_t \<times> e2ap_msg_t) res" where
  "e2ap_handle_control_request_agent ag cr =
     chk (cr_ack_req cr = Some RIC_CONTROL_REQUEST_ACK) ''*ctrl_req->ack_req == RIC_CONTROL_REQUEST_ACK'' (
     bnd (sm_plugin_ag (ag_sm_ds ag) (ran_func_id (cr_ric_id cr))) (\<lambda>sm.
     bnd (sma_on_control sm \<lparr>ctrl_hdr = cr_hdr cr, ctrl_msg = cr_msg cr\<rparr>) (\<lambda>out.
     Inr (ag, Ric_Ctrl_Ack \<lparr>ack_ric_id = cr_ric_id cr, ack_call_process_id = None,
                            ack_control_outcome = ba_from_ctrl_out out\<rparr>))))"

definition stop_pending_event_agent :: "e2_agent_t \<Rightarrow> pending_event_t \<Rightarrow> e2_agent_t res" where
  "stop_pending_event_agent ag event =
     bnd (bi_map_extract_right (ag_pending ag) event sizeof_pending_event None) (\<lambda>(pending, fd).
     chk (fd > 0) ''*fd > 0'' (
     bnd (rm_fd_asio_agent (ag_io ag) fd) (\<lambda>io.
     Inr (ag\<lparr>ag_pending := pending, ag_io := io\<rparr>))))"

definition e2ap_handle_setup_response_agent ::
  "e2_agent_t \<Rightarrow> e2_setup_response_t \<Rightarrow> (e2_agent_t \<times> e2ap_msg_t) res" where
  "e2ap_handle_setup_response_agent ag resp =
     bnd (stop_pending_event_agent ag SETUP_REQUEST_PENDING_EVENT) (\<lambda>ag.
     chk (ag_trans_id ag > 0) ''Receiving an E2 SETUP-RESPONSE, eventhough not E2 SETUP-REQUEST not sent'' (
     Inr (ag\<lparr>ag_trans_id := 0\<rparr>, no_msg)))"

text \<open>
  The body of a setup failure is only printed; its cause is not part of the model, so its two
  range checks are not either.
\<close>

definition e2ap_msg_handle_agent :: "e2_agent_t \<Rightarrow> e2ap_msg_t \<Rightarrow> int \<Rightarrow> (e2_agent_t \<times> e2ap_msg_t) res" where
  "e2ap_msg_handle_agent ag msg tfd =
     chk (check_valid_msg_type_agent (msg_type msg)) ''check_valid_msg_type(msg_type) == true'' (
     case msg of
       Ric_Sub_Req sr \<Rightarrow> e2ap_handle_subscription_request_agent ag sr tfd
     | Ric_Sub_Del_Req sdr \<Rightarrow> e2ap_handle_subscription_delete_request_agent ag sdr
     | Ric_Ctrl_Req cr \<Rightarrow> e2ap_handle_control_request_agent ag cr
     | E2_Stp_Resp resp \<Rightarrow> e2ap_handle_setup_response_agent ag resp
     | Other_Msg t \<Rightarrow>
         if t = E2_SETUP_FAILURE then Inr (ag, no_msg) else Inl (Assertion ''Not implemented'')
     | _ \<Rightarrow> Inl (Assertion ''Not implemented''))"

section \<open>Indications\<close>

definition generate_indication ::
  "ric_gen_id_t \<Rightarrow> u8 \<Rightarrow> sm_ind_data_t \<Rightarrow> ric_indication_t" where
  "generate_indication ric_id a data =
     \<lparr>ind_ric_id = ric_id, ind_action_id = a, ind_sn = None, ind_type = RIC_IND_REPORT,
      ind_hdr = sid_ind_hdr data, ind_msg = sid_ind_msg data,
      ind_call_process_id = sid_call_process_id data\<rparr>"

text \<open>
  The handover information is written over the bytes at its offset in the structure, but the
  buffer holds the encoded message, whose parts are in another order.
\<close>

definition offset_ho_info :: nat where "offset_ho_info = 20"

definition print_exp_indication_data :: "sm_ind_data_t option \<Rightarrow> sm_ind_data_t option res" where
  "print_exp_indication_data ex =
     (case ex of
        None \<Rightarrow> Inr None
      | Some data \<Rightarrow>
          let buf = sid_ind_msg data in
          if buf = [] then Inr ex
          else
            let ho_info = extract_handover_info (Some buf) in
            if offset_ho_info + sizeof_gtp_ho_info \<le> length buf
            then Inr (Some (data\<lparr>sid_ind_msg := take offset_ho_info buf @ gtp_ho_bytes ho_info @
                                              drop (offset_ho_info + sizeof_gtp_ho_info) buf\<rparr>))
            else Inl (Heap_Overflow ''msg->ho_info = ho_info''))"

text \<open>A read of up to four bytes from the pipe; it blocks when the pipe is empty.\<close>

definition consume_fd_async :: "e2_agent_t \<Rightarrow> (e2_agent_t \<times> nat) res" where
  "consume_fd_async ag =
     (if ag_pipe ag = 0 then Inl (Deadlock ''read on an empty pipe'')
      else let n = min 4 (ag_pipe ag) in Inr (ag\<lparr>ag_pipe := ag_pipe ag - n\<rparr>, n))"

definition consume_aind :: "e2_agent_t \<Rightarrow> e2_agent_t res" where
  "consume_aind ag =
     bnd (consume_fd_async ag) (\<lambda>(ag, rc).
     chk (rc \<noteq> 1) ''No bytes in the pipe but message in the queue! '' (Inr ag))"

fun send_ainds :: "nat \<Rightarrow> aind_event_t list \<Rightarrow> e2_agent_t \<Rightarrow> e2_agent_t res" where
  "send_ainds now [] ag = Inr ag"
| "send_ainds now (ev # evs) ag =
     (if ai_ind_data ev = NULL_Ptr then Inr (ag\<lparr>ag_exited := True\<rparr>)
      else
        bnd (sma_on_indication (ai_sm ev) now (ai_ind_data ev)) (\<lambda>ex.
        bnd (print_exp_indication_data ex) (\<lambda>ex.
        case ex of
          None \<Rightarrow> bnd (consume_aind ag) (send_ainds now evs)
        | Some data \<Rightarrow>
            let ag = e2ap_send_bytes_agent ag (Ric_Ind (generate_indication (ai_ric_id ev) (ai_action_id ev) data)) in
            bnd (consume_aind ag) (\<lambda>ag. Inr (ag\<lparr>ag_exited := True\<rparr>)))))"

definition send_indication :: "nat \<Rightarrow> int \<Rightarrow> ind_event_t \<Rightarrow> e2_agent_t \<Rightarrow> e2_agent_t res" where
  "send_indication now fd i_ev ag =
     (let act_def = (case ie_subs i_ev of PERIODIC_SUBSCRIPTION_FLRC _ a \<Rightarrow> a | _ \<Rightarrow> NULL_Ptr) in
      bnd (sma_on_indication (ie_sm i_ev) now act_def) (\<lambda>ex.
      case ex of
        None \<Rightarrow> bnd (consume_fd_sync fd) (\<lambda>_. Inr ag)
      | Some data \<Rightarrow>
          let ag = e2ap_send_bytes_agent ag (Ric_Ind (generate_indication (ie_ric_id i_ev) (ie_action_id i_ev) data)) in
          bnd (consume_fd_sync fd) (\<lambda>_. Inr ag)))"

section \<open>The event loop\<close>

datatype async_event_ag =
    CHECK_STOP_TOKEN_EVENT_ag
  | SCTP_CONNECTION_SHUTDOWN_EVENT_ag
  | SCTP_MSG_ARRIVED_EVENT_ag e2ap_msg_t
  | APERIODIC_INDICATION_EVENT_ag "aind_event_t list"
  | INDICATION_EVENT_ag ind_event_t
  | PENDING_EVENT_ag pending_event_t

definition ind_event_of :: "e2_agent_t \<Rightarrow> int \<Rightarrow> ind_event_t option res" where
  "ind_event_of ag fd = chk (fd > 0) ''fd > 0'' (lookup_if (bm_left (ag_ind_event ag)) (eq_fd fd))"

definition pend_event_of :: "e2_agent_t \<Rightarrow> int \<Rightarrow> pending_event_t option res" where
  "pend_event_of ag fd =
     chk (fd > 0) ''fd > 0'' (
     bnd (bi_map_size (ag_pending ag)) (\<lambda>n.
     if n = 0 then Inr None else lookup_if (bm_left (ag_pending ag)) (eq_fd fd)))"

fun pop_ainds :: "nat \<Rightarrow> aind_event_t tsq_t \<Rightarrow> (aind_event_t tsq_t \<times> aind_event_t list) res" where
  "pop_ainds 0 q = Inr (q, [])"
| "pop_ainds (Suc n) q =
     bnd (pop_tsq q sizeof_aind_event) (\<lambda>(q, ev).
     bnd (pop_ainds n q) (\<lambda>(q, evs). Inr (q, ev # evs)))"

definition aind_event :: "e2_agent_t \<Rightarrow> (e2_agent_t \<times> aind_event_t list) res" where
  "aind_event ag =
     (let sz = size_tsq (ag_aind ag) in
      chk (sz > 0) ''Aperiodic Event detected but the queue is empty!'' (
      bnd (pop_ainds sz (ag_aind ag)) (\<lambda>(q, evs).
      Inr (ag\<lparr>ag_aind := q\<rparr>, evs))))"

text \<open>\<open>fd\<close> is the ready descriptor or \<open>-1\<close>, \<open>msg\<close> what the socket delivers.\<close>

definition next_async_event_agent ::
  "e2_agent_t \<Rightarrow> int \<Rightarrow> sctp_msg_t \<Rightarrow> (e2_agent_t \<times> async_event_ag) res" where
  "next_async_event_agent ag fd msg =
     (if fd = - 1 then Inr (ag, CHECK_STOP_TOKEN_EVENT_ag)
      else
        bnd (net_pkt (ag_fd ag) fd) (\<lambda>net.
        if net then
          (case msg of
             SCTP_MSG_NOTIFICATION _ _ \<Rightarrow> Inr (ag, SCTP_CONNECTION_SHUTDOWN_EVENT_ag)
           | SCTP_MSG_PAYLOAD _ m \<Rightarrow> Inr (ag, SCTP_MSG_ARRIVED_EVENT_ag m))
        else if fd = ag_pipe_r ag then
          bnd (aind_event ag) (\<lambda>(ag, evs). Inr (ag, APERIODIC_INDICATION_EVENT_ag evs))
        else
          bnd (ind_event_of ag fd) (\<lambda>i_ev.
          case i_ev of
            Some ev \<Rightarrow> Inr (ag, INDICATION_EVENT_ag ev)
          | None \<Rightarrow>
              bnd (pend_event_of ag fd) (\<lambda>p_ev.
              case p_ev of
                Some ev \<Rightarrow> Inr (ag, PENDING_EVENT_ag ev)
              | None \<Rightarrow> Inl (Assertion ''Unknown event happened!'')))))"

text \<open>One round of the loop; \<open>tfd\<close> is the descriptor of a timer that the round creates.\<close>

definition e2_event_loop_agent ::
  "e2_agent_t \<Rightarrow> int \<Rightarrow> sctp_msg_t \<Rightarrow> nat \<Rightarrow> int \<Rightarrow> e2_agent_t res" where
  "e2_event_loop_agent ag fd msg now tfd =
     (if ag_exited ag then Inr ag
      else
        bnd (next_async_event_agent ag fd msg) (\<lambda>(ag, e).
        case e of
          SCTP_MSG_ARRIVED_EVENT_ag m \<Rightarrow>
            bnd (e2ap_msg_handle_agent ag m tfd) (\<lambda>(ag, ans).
            Inr (if msg_type ans \<noteq> NONE_E2_MSG_TYPE then e2ap_send_bytes_agent ag ans else ag))
        | APERIODIC_INDICATION_EVENT_ag evs \<Rightarrow> send_ainds now evs ag
        | INDICATION_EVENT_ag i_ev \<Rightarrow> send_indication now fd i_ev ag
        | PENDING_EVENT_ag _ \<Rightarrow>
            if fd \<le> 0 then Inr ag
            else handle_pending_event (ag\<lparr>ag_io := close_fd (ag_io ag) fd\<rparr>) tfd
        | SCTP_CONNECTION_SHUTDOWN_EVENT_ag \<Rightarrow> handle_connection_shutdown ag tfd
        | CHECK_STOP_TOKEN_EVENT_ag \<Rightarrow> Inr ag))"

section \<open>Events that the RAN raises\<close>

text \<open>
  The first half of \<^verbatim>\<open>e2_async_event_agent\<close> puts the data into the queue, the second half wakes
  the loop; another thread can run in between.
\<close>

definition async_event_push :: "e2_agent_t \<Rightarrow> u32 \<Rightarrow> void_ptr \<Rightarrow> e2_agent_t res" where
  "async_event_push ag req_id ind_data =
     bnd (find_if_rb_tree (eq_ind_event_ric_req_id req_id) (assoc_rb_tree_front (bm_right (ag_ind_event ag)))) (\<lambda>it.
     chk (\<not> at_end it) ''Not found RIC Request ID'' (
     bnd (assoc_rb_tree_key it) (\<lambda>ind_ev.
     bnd (push_tsq (ag_aind ag)
            \<lparr>ai_ric_id = ie_ric_id ind_ev, ai_sm = ie_sm ind_ev, ai_action_id = ie_action_id ind_ev,
             ai_ind_data = ind_data\<rparr> sizeof_aind_event) (\<lambda>q.
     Inr (ag\<lparr>ag_aind := q\<rparr>)))))"

text \<open>The number of digits that the request id has in decimal.\<close>

fun digits :: "nat \<Rightarrow> nat" where
  "digits n = (if n < 10 then 1 else Suc (digits (n div 10)))"

definition async_event_write :: "e2_agent_t \<Rightarrow> u32 \<Rightarrow> e2_agent_t" where
  "async_event_write ag req_id = ag\<lparr>ag_pipe := ag_pipe ag + digits (unat req_id)\<rparr>"

definition e2_async_event_agent :: "e2_agent_t \<Rightarrow> u32 \<Rightarrow> void_ptr \<Rightarrow> e2_agent_t res" where
  "e2_async_event_agent ag req_id ind_data =
     bnd (async_event_push ag req_id ind_data) (\<lambda>ag. Inr (async_event_write ag req_id))"

text \<open>
  The completion of a handover is raised without a subscription; \<open>evt_sz\<close> is the size of the
  event structure that is written to the pipe.
\<close>

definition send_ho_completion_indication :: "e2_agent_t \<Rightarrow> nat \<Rightarrow> e2_agent_t res" where
  "send_ho_completion_indication ag evt_sz =
     bnd (sm_plugin_ag (ag_sm_ds ag) SM_GTP_ID) (\<lambda>sm.
     bnd (push_tsq (ag_aind ag)
            \<lparr>ai_ric_id = \<lparr>ric_req_id = 0, ric_inst_id = 0, ran_func_id = SM_GTP_ID\<rparr>, ai_sm = sm,
             ai_action_id = 0, ai_ind_data = Gtp_Ind_Data (Some zero_gtp_ind_msg)\<rparr> sizeof_aind_event) (\<lambda>q.
     Inr (ag\<lparr>ag_aind := q, ag_pipe := ag_pipe ag + evt_sz\<rparr>)))"

end
