(* ===== verification/Assoc_Reg.thy ===== *)
theory Assoc_Reg
  imports Flex_Prelude
begin

text \<open>
  The registry of \<^verbatim>\<open>util/alg_ds/ds/assoc_container/assoc_reg.c\<close> with the search of
  \<^verbatim>\<open>alg/lower_bound.c\<close> and \<^verbatim>\<open>alg/find.c\<close>: values under keys that the registry hands out in
  increasing order, stored in an array of buckets that grows, compacts and shrinks.  An erased
  bucket keeps its key, so the array stays sorted and is searched by bisection.

  The block is the list of its buckets; \<^term>\<open>None\<close> is a zeroed value.  An iterator is the index
  of a bucket.  The size of the block is given by the capacity; a bucket behind it is a
  \<^term>\<open>Heap_Overflow\<close>.
\<close>

section \<open>Data and operations\<close>

record 'a registry_bucket_t =
  bk_key :: u32
  bk_has_value :: bool
  bk_val :: "'a option"

definition zero_bucket :: "'a registry_bucket_t" where
  "zero_bucket = \<lparr>bk_key = 0, bk_has_value = False, bk_val = None\<rparr>"

record 'a assoc_reg_t =
  ar_arr :: "'a registry_bucket_t list"
  ar_sz :: nat
  ar_cap :: nat
  ar_occ_bucket :: nat
  ar_elm_sz :: nat
  ar_key_id :: u64

definition MIN_SIZE_REG :: nat where "MIN_SIZE_REG = 16"

definition iterator_in_ds :: "'a assoc_reg_t \<Rightarrow> nat \<Rightarrow> bool" where
  "iterator_in_ds reg it \<longleftrightarrow> it < ar_occ_bucket reg"

text \<open>The buckets with a value move to the front of the array.\<close>

fun partition_loop ::
  "nat \<Rightarrow> nat \<Rightarrow> nat \<Rightarrow> 'a registry_bucket_t list \<Rightarrow> 'a registry_bucket_t list \<times> nat" where
  "partition_loop 0 i j arr = (arr, j)"
| "partition_loop (Suc n) i j arr =
     (if bk_has_value (arr ! i) then partition_loop n (i + 1) (j + 1) (arr[j := arr ! i])
      else partition_loop n (i + 1) j arr)"

definition reg_partition :: "'a registry_bucket_t list \<Rightarrow> nat \<Rightarrow> 'a registry_bucket_t list \<times> nat" where
  "reg_partition arr n_memb = partition_loop n_memb 0 0 arr"

fun copy_if_loop ::
  "nat \<Rightarrow> nat \<Rightarrow> 'a registry_bucket_t list \<Rightarrow> nat \<Rightarrow> 'a registry_bucket_t list \<Rightarrow> 'a registry_bucket_t list \<times> nat" where
  "copy_if_loop 0 i arr i_out out = (out, i_out)"
| "copy_if_loop (Suc n) i arr i_out out =
     (if bk_has_value (arr ! i) then copy_if_loop n (i + 1) arr (i_out + 1) (out[i_out := arr ! i])
      else copy_if_loop n (i + 1) arr i_out out)"

definition shrink_if_necessary :: "'a assoc_reg_t \<Rightarrow> 'a assoc_reg_t res" where
  "shrink_if_necessary reg =
     (if ar_cap reg = MIN_SIZE_REG \<or> ar_sz reg * 4 > ar_cap reg then Inr reg
      else
        let (arr, idx) = reg_partition (ar_arr reg) (ar_occ_bucket reg) in
        chk (idx \<le> ar_occ_bucket reg) ''idx <= reg->occ_bucket'' (
        let cap = ar_cap reg div 2 in
        if idx > cap then Inl (Heap_Overflow ''memcpy(tmp, reg->arr, idx*b_size)'')
        else Inr (reg\<lparr>ar_arr := take idx arr @ replicate (cap - idx) zero_bucket, ar_occ_bucket := idx, ar_cap := cap\<rparr>)))"

definition compact_if_necessary :: "'a assoc_reg_t \<Rightarrow> 'a assoc_reg_t res" where
  "compact_if_necessary reg =
     (if ar_sz reg * 2 > ar_occ_bucket reg then Inr reg
      else
        let (arr, idx) = reg_partition (ar_arr reg) (ar_occ_bucket reg) in
        chk (idx \<le> ar_occ_bucket reg) ''idx <= reg->occ_bucket'' (
        Inr (reg\<lparr>ar_arr := take idx arr @ replicate (ar_cap reg - idx) zero_bucket, ar_occ_bucket := idx\<rparr>)))"

definition expand_if_neccesary :: "'a assoc_reg_t \<Rightarrow> 'a assoc_reg_t" where
  "expand_if_neccesary reg =
     (if ar_occ_bucket reg < ar_cap reg - 1 then reg
      else
        let tmp_arr = replicate (ar_cap reg * 2) zero_bucket;
            (tmp_arr, out_idx) = copy_if_loop (ar_occ_bucket reg) 0 (ar_arr reg) 0 tmp_arr
        in reg\<lparr>ar_arr := tmp_arr, ar_occ_bucket := out_idx, ar_cap := ar_cap reg * 2\<rparr>)"

definition assoc_reg_init :: "nat \<Rightarrow> 'a assoc_reg_t" where
  "assoc_reg_init elm_sz =
     \<lparr>ar_arr = replicate MIN_SIZE_REG zero_bucket, ar_sz = 0, ar_cap = MIN_SIZE_REG, ar_occ_bucket = 0, ar_elm_sz = elm_sz,
      ar_key_id = 1\<rparr>"

definition assoc_reg_push_back :: "'a assoc_reg_t \<Rightarrow> 'a \<Rightarrow> nat \<Rightarrow> ('a assoc_reg_t \<times> u32) res" where
  "assoc_reg_push_back reg value elm_sz =
     chk (elm_sz = ar_elm_sz reg) ''elm_sz == reg->elm_sz'' (
     let reg = expand_if_neccesary reg;
         occ = ar_occ_bucket reg;
         key = ucast (ar_key_id reg) :: u32
     in if occ \<ge> length (ar_arr reg) then Inl (Heap_Overflow ''memcpy(b->val, value, elm_sz)'')
        else
          chk (ar_key_id reg \<noteq> - 1) ''Overflow reached!'' (
          Inr (reg\<lparr>ar_arr := (ar_arr reg)[occ := \<lparr>bk_key = key, bk_has_value = True, bk_val = Some value\<rparr>],
                   ar_key_id := ar_key_id reg + 1, ar_occ_bucket := occ + 1, ar_sz := ar_sz reg + 1\<rparr>, key)))"

text \<open>Reading a bucket through an iterator that is in the data structure.\<close>

definition reg_bucket :: "'a assoc_reg_t \<Rightarrow> nat \<Rightarrow> 'a registry_bucket_t res" where
  "reg_bucket reg it =
     chk (iterator_in_ds reg it) ''Iterator out of range'' (
     chk (bk_has_value (ar_arr reg ! it)) ''b->has_value == true'' (Inr (ar_arr reg ! it)))"

definition assoc_reg_key :: "'a assoc_reg_t \<Rightarrow> nat \<Rightarrow> u32 res" where
  "assoc_reg_key reg it = bnd (reg_bucket reg it) (\<lambda>b. Inr (bk_key b))"

definition assoc_reg_value :: "'a assoc_reg_t \<Rightarrow> nat \<Rightarrow> 'a res" where
  "assoc_reg_value reg it =
     bnd (reg_bucket reg it) (\<lambda>b.
     case bk_val b of Some v \<Rightarrow> Inr v | None \<Rightarrow> Inl (Null_Deref ''the value is zeroed memory''))"

definition assoc_reg_size :: "'a assoc_reg_t \<Rightarrow> nat" where
  "assoc_reg_size reg = ar_sz reg"

definition assoc_reg_end :: "'a assoc_reg_t \<Rightarrow> nat" where
  "assoc_reg_end reg = ar_occ_bucket reg"

text \<open>The first bucket with a value among the \<open>n\<close> buckets from \<open>idx\<close> on, or the one behind them.\<close>

fun skip_empty :: "'a registry_bucket_t list \<Rightarrow> nat \<Rightarrow> nat \<Rightarrow> nat" where
  "skip_empty arr idx 0 = idx"
| "skip_empty arr idx (Suc n) = (if bk_has_value (arr ! idx) then idx else skip_empty arr (idx + 1) n)"

definition assoc_reg_front :: "'a assoc_reg_t \<Rightarrow> nat" where
  "assoc_reg_front reg = (if ar_occ_bucket reg = 0 then 0 else skip_empty (ar_arr reg) 0 (ar_occ_bucket reg))"

definition assoc_reg_next :: "'a assoc_reg_t \<Rightarrow> nat \<Rightarrow> nat res" where
  "assoc_reg_next reg it =
     bnd (reg_bucket reg it) (\<lambda>b. Inr (skip_empty (ar_arr reg) (it + 1) (ar_occ_bucket reg - (it + 1))))"

lemma skip_empty_ge: "idx \<le> skip_empty arr idx n"
  by (induction arr idx n rule: skip_empty.induct) auto

lemma next_advances: "assoc_reg_next reg it = Inr it' \<Longrightarrow> it < it' \<and> it < ar_occ_bucket reg"
  using skip_empty_ge [of "it + 1"]
  by (auto simp: assoc_reg_next_def reg_bucket_def iterator_in_ds_def chk_def Suc_le_eq split: if_splits)

text \<open>The loop of the erasure ends: an iterator only advances, and none advances past the last bucket.\<close>

function erase_loop :: "('a \<Rightarrow> unit res) option \<Rightarrow> nat \<Rightarrow> nat \<Rightarrow> 'a assoc_reg_t \<Rightarrow> 'a assoc_reg_t res" where
  "erase_loop free_func start_it end_it reg =
     (if start_it = end_it then Inr reg
      else
        case assoc_reg_next reg start_it of
          Inl e \<Rightarrow> Inl e
        | Inr it \<Rightarrow>
            let b = ar_arr reg ! start_it;
                reg = reg\<lparr>ar_arr := (ar_arr reg)[start_it := b\<lparr>bk_has_value := False\<rparr>], ar_sz := ar_sz reg - 1\<rparr>
            in case (case (free_func, bk_val b) of (Some f, Some v) \<Rightarrow> f v | _ \<Rightarrow> Inr ()) of
                 Inl e \<Rightarrow> Inl e
               | Inr _ \<Rightarrow> erase_loop free_func it end_it reg)"
  by pat_completeness auto

termination
  by (relation "measure (\<lambda>(f, start_it, end_it, reg). ar_occ_bucket reg - start_it)")
    (auto dest!: next_advances)

declare erase_loop.simps [simp del]

definition assoc_reg_erase :: "'a assoc_reg_t \<Rightarrow> nat \<Rightarrow> nat \<Rightarrow> ('a \<Rightarrow> unit res) option \<Rightarrow> 'a assoc_reg_t res" where
  "assoc_reg_erase reg start_it end_it free_func =
     (if start_it = end_it then Inr reg
      else
        chk (iterator_in_ds reg start_it) ''Iterator out of range'' (
        bnd (erase_loop free_func start_it end_it reg) (\<lambda>reg.
        bnd (compact_if_necessary reg) shrink_if_necessary)))"

section \<open>Search\<close>

text \<open>The number of buckets is put into an \<open>int\<close>.\<close>

function lower_bound_loop :: "'a registry_bucket_t list \<Rightarrow> nat \<Rightarrow> u32 \<Rightarrow> nat \<Rightarrow> int \<Rightarrow> nat" where
  "lower_bound_loop arr start_it key lower len =
     (if len > 0 then
        let half = len div 2;
            idx = lower + nat half
        in if bk_key (arr ! (start_it + idx)) < key then lower_bound_loop arr start_it key (idx + 1) (len - half - 1)
           else lower_bound_loop arr start_it key lower half
      else lower)"
  by pat_completeness auto

termination
  by (relation "measure (\<lambda>(arr, start_it, key, lower, len). nat len)") auto

declare lower_bound_loop.simps [simp del]

definition lower_bound_reg :: "'a assoc_reg_t \<Rightarrow> nat \<Rightarrow> nat \<Rightarrow> u32 \<Rightarrow> nat res" where
  "lower_bound_reg reg start_it end_it key =
     (if start_it = end_it then Inr end_it
      else
        let sz = end_it - start_it in
        chk (sz < ar_cap reg) ''iterator out of the range'' (
        Inr (start_it + lower_bound_loop (ar_arr reg) start_it key 0 (signed_take_bit 31 (int sz)))))"

definition find_reg :: "'a assoc_reg_t \<Rightarrow> nat \<Rightarrow> nat \<Rightarrow> u32 \<Rightarrow> nat res" where
  "find_reg reg start_it end_it key =
     chk (key > 0) ''Reserved value'' (
     if start_it = end_it then Inr end_it
     else
       bnd (lower_bound_reg reg start_it end_it key) (\<lambda>it.
       chk (it \<le> end_it) ''it <= end_it'' (
       if it = end_it then Inr end_it
       else if \<not> bk_has_value (ar_arr reg ! it) \<or> bk_key (ar_arr reg ! it) \<noteq> key then Inr end_it
       else Inr it)))"

section \<open>Removal by a predicate and the self test\<close>

fun remove_if_loop ::
  "('a \<Rightarrow> bool) \<Rightarrow> nat \<Rightarrow> nat \<Rightarrow> 'a assoc_reg_t \<Rightarrow> u32 list \<Rightarrow> 'a assoc_reg_t \<times> u32 list" where
  "remove_if_loop f 0 i reg arr = (reg, arr)"
| "remove_if_loop f (Suc n) i reg arr =
     (let b = ar_arr reg ! i in
      if bk_has_value b \<and> (case bk_val b of Some v \<Rightarrow> f v | None \<Rightarrow> False)
      then remove_if_loop f n (i + 1)
             (reg\<lparr>ar_sz := ar_sz reg - 1, ar_arr := (ar_arr reg)[i := b\<lparr>bk_has_value := False\<rparr>]\<rparr>) (arr @ [bk_key b])
      else remove_if_loop f n (i + 1) reg arr)"

definition remove_if_range_reg :: "'a assoc_reg_t \<Rightarrow> ('a \<Rightarrow> bool) \<Rightarrow> ('a assoc_reg_t \<times> u32 list) res" where
  "remove_if_range_reg reg f =
     (let (reg, arr) = remove_if_loop f (ar_occ_bucket reg) 0 reg [] in
      bnd (compact_if_necessary reg) (\<lambda>reg.
      bnd (shrink_if_necessary reg) (\<lambda>reg. Inr (reg, arr))))"

fun test_loop :: "'a registry_bucket_t list \<Rightarrow> nat \<Rightarrow> int \<Rightarrow> nat res" where
  "test_loop [] counter last_key = Inr counter"
| "test_loop (b # bs) counter last_key =
     chk (uint (bk_key b) > last_key) ''b->key > last_key'' (
     test_loop bs (if bk_has_value b then counter + 1 else counter) (uint (bk_key b)))"

definition test_invariants_registry_hold :: "'a assoc_reg_t \<Rightarrow> unit res" where
  "test_invariants_registry_hold reg =
     chk (ar_cap reg \<ge> ar_occ_bucket reg) ''reg->cap >= reg->occ_bucket'' (
     chk (ar_cap reg \<ge> ar_sz reg) ''reg->cap >= reg->sz'' (
     bnd (test_loop (take (ar_occ_bucket reg) (ar_arr reg)) 0 (- 1)) (\<lambda>counter.
     chk (counter = ar_sz reg) ''counter == reg->sz'' (Inr ()))))"

end
