(* ===== verification/Assoc_Reg_Laws.thy ===== *)
theory Assoc_Reg_Laws
  imports Assoc_Reg
begin

text \<open>
  The registry as a list of entries in the order of their keys.  The invariant covers what the
  self test of the source checks, and more: keys are never reused, more than half of the occupied
  buckets hold a value, and the block is at most four times as large as the number of values
  (or has the minimal size).  The bisection returns and finds exactly the live keys.
\<close>

section \<open>The abstraction and the invariant\<close>

abbreviation areg_used :: "'a assoc_reg_t \<Rightarrow> 'a registry_bucket_t list" where
  "areg_used r \<equiv> take (ar_occ_bucket r) (ar_arr r)"

abbreviation live :: "'a registry_bucket_t list \<Rightarrow> 'a registry_bucket_t list" where
  "live bs \<equiv> filter bk_has_value bs"

definition areg_list :: "'a assoc_reg_t \<Rightarrow> (u32 \<times> 'a) list" where
  "areg_list r = map (\<lambda>b. (bk_key b, the (bk_val b))) (live (areg_used r))"

definition bucket_ok :: "nat \<Rightarrow> 'a registry_bucket_t \<Rightarrow> bool" where
  "bucket_ok n b \<longleftrightarrow> 0 < bk_key b \<and> unat (bk_key b) < n \<and> (bk_has_value b \<longrightarrow> bk_val b \<noteq> None)"

definition areg_ok :: "'a assoc_reg_t \<Rightarrow> bool" where
  "areg_ok r \<longleftrightarrow>
     length (ar_arr r) = ar_cap r \<and> (\<exists>k. ar_cap r = 16 * 2 ^ k) \<and> ar_occ_bucket r < ar_cap r \<and>
     ar_sz r = length (live (areg_used r)) \<and> sorted_wrt (<) (map bk_key (areg_used r)) \<and>
     (\<forall>b \<in> set (areg_used r). bucket_ok (unat (ar_key_id r)) b) \<and>
     0 < ar_key_id r \<and> unat (ar_key_id r) \<le> 2 ^ 31 \<and>
     (0 < ar_occ_bucket r \<longrightarrow> ar_occ_bucket r < 2 * ar_sz r) \<and> (ar_cap r = 16 \<or> ar_cap r \<le> 4 * ar_sz r)"

lemma areg_okD:
  assumes "areg_ok r"
  shows "length (ar_arr r) = ar_cap r" "\<exists>k. ar_cap r = 16 * 2 ^ k" "ar_occ_bucket r < ar_cap r"
    "ar_sz r = length (live (areg_used r))" "sorted_wrt (<) (map bk_key (areg_used r))"
    "\<forall>b \<in> set (areg_used r). bucket_ok (unat (ar_key_id r)) b" "0 < ar_key_id r" "unat (ar_key_id r) \<le> 2 ^ 31"
    "0 < ar_occ_bucket r \<longrightarrow> ar_occ_bucket r < 2 * ar_sz r" "ar_cap r = 16 \<or> ar_cap r \<le> 4 * ar_sz r"
  using assms unfolding areg_ok_def by - (elim conjE, assumption)+

section \<open>Compaction\<close>

lemma partition_loop_ok:
  assumes "j \<le> i" "i + n \<le> length arr" "partition_loop n i j arr = (arr', j')"
  shows "length arr' = length arr \<and> take j' arr' = take j arr @ live (take n (drop i arr)) \<and> j' \<le> length arr"
  using assms
proof (induction n arbitrary: i j arr)
  case 0
  then show ?case
    by auto
next
  case (Suc n)
  have d: "take (Suc n) (drop i arr) = arr ! i # take n (drop (i + 1) arr)"
    using Suc.prems(2) by (simp add: Cons_nth_drop_Suc [symmetric])
  show ?case
  proof (cases "bk_has_value (arr ! i)")
    case True
    let ?a = "arr[j := arr ! i]"
    have "take (j + 1) ?a = take j arr @ [arr ! i]" "drop (i + 1) ?a = drop (i + 1) arr"
      using Suc.prems(1,2) by (simp_all add: take_Suc_conv_app_nth)
    then show ?thesis
      using Suc.IH [of "j + 1" "i + 1" ?a] Suc.prems True by (simp add: d)
  next
    case False
    then show ?thesis
      using Suc.IH [of j "i + 1" arr] Suc.prems by (simp add: d)
  qed
qed

lemma copy_if_loop_ok:
  assumes "i + n \<le> length arr" "i_out + n \<le> length out" "copy_if_loop n i arr i_out out = (out', j')"
  shows "length out' = length out \<and> take j' out' = take i_out out @ live (take n (drop i arr)) \<and>
    j' = i_out + length (live (take n (drop i arr)))"
  using assms
proof (induction n arbitrary: i i_out out)
  case 0
  then show ?case
    by auto
next
  case (Suc n)
  have d: "take (Suc n) (drop i arr) = arr ! i # take n (drop (i + 1) arr)"
    using Suc.prems(1) by (simp add: Cons_nth_drop_Suc [symmetric])
  show ?case
  proof (cases "bk_has_value (arr ! i)")
    case True
    let ?a = "out[i_out := arr ! i]"
    have "take (i_out + 1) ?a = take i_out out @ [arr ! i]"
      using Suc.prems(2) by (simp add: take_Suc_conv_app_nth)
    then show ?thesis
      using Suc.IH [of "i + 1" "i_out + 1" ?a] Suc.prems True by (auto simp: d)
  next
    case False
    then show ?thesis
      using Suc.IH [of "i + 1" i_out out] Suc.prems by (auto simp: d)
  qed
qed

lemma reg_partition_ok:
  assumes "n \<le> length arr"
  obtains arr' where "reg_partition arr n = (arr', length (live (take n arr)))"
    "take (length (live (take n arr))) arr' = live (take n arr)" "length arr' = length arr"
proof -
  obtain arr' j where p: "reg_partition arr n = (arr', j)"
    by (cases "reg_partition arr n")
  have q: "length arr' = length arr" "take j arr' = live (take n arr)" "j \<le> length arr"
    using partition_loop_ok [of 0 0 n arr arr' j] assms p by (simp_all add: reg_partition_def)
  have "j = length (live (take n arr))"
    using arg_cong [OF q(2), of length] q(1,3) by simp
  then show ?thesis
    using that p q by blast
qed

text \<open>What compacting and shrinking do to a registry whose fields are consistent.\<close>

definition packed :: "'a assoc_reg_t \<Rightarrow> nat \<Rightarrow> 'a assoc_reg_t" where
  "packed r cap = (let bs = live (areg_used r) in
     r\<lparr>ar_arr := bs @ replicate (cap - length bs) zero_bucket, ar_occ_bucket := length bs, ar_cap := cap\<rparr>)"

lemma live_idem [simp]: "live (live bs) = live bs"
  by (simp add: filter_filter)

lemma length_live_le: "length (live (take n bs)) \<le> n"
  by (rule order.trans [OF length_filter_le]) simp

lemma packed_used [simp]: "areg_used (packed r cap) = live (areg_used r)" "areg_list (packed r cap) = areg_list r"
  by (simp_all add: packed_def Let_def areg_list_def)

lemma areg_compact_ok:
  assumes "ar_occ_bucket r \<le> length (ar_arr r)"
  shows "compact_if_necessary r = Inr (if ar_sz r * 2 > ar_occ_bucket r then r else packed r (ar_cap r))"
proof -
  obtain arr' where p: "reg_partition (ar_arr r) (ar_occ_bucket r) = (arr', length (live (areg_used r)))"
    "take (length (live (areg_used r))) arr' = live (areg_used r)"
    by (rule reg_partition_ok [OF assms])
  show ?thesis
    using p by (simp add: compact_if_necessary_def packed_def Let_def length_live_le)
qed

lemma shrink_ok:
  assumes "ar_occ_bucket r \<le> length (ar_arr r)" "ar_sz r = length (live (areg_used r))"
  shows "shrink_if_necessary r =
     Inr (if ar_cap r = MIN_SIZE_REG \<or> ar_sz r * 4 > ar_cap r then r else packed r (ar_cap r div 2))"
proof -
  obtain arr' where p: "reg_partition (ar_arr r) (ar_occ_bucket r) = (arr', length (live (areg_used r)))"
    "take (length (live (areg_used r))) arr' = live (areg_used r)"
    by (rule reg_partition_ok [OF assms(1)])
  have "\<not> ar_cap r < length (live (areg_used r)) * 4 \<Longrightarrow> length (live (areg_used r)) \<le> ar_cap r div 2"
    by linarith
  then show ?thesis
    using p assms(2) by (auto simp: shrink_if_necessary_def packed_def Let_def length_live_le)
qed

section \<open>Adding a value\<close>

lemma expand_ok:
  assumes "areg_ok r"
  shows "ar_occ_bucket (expand_if_neccesary r) < ar_cap (expand_if_neccesary r) - 1 \<and>
     length (ar_arr (expand_if_neccesary r)) = ar_cap (expand_if_neccesary r) \<and>
     (\<exists>k. ar_cap (expand_if_neccesary r) = 16 * 2 ^ k) \<and>
     (areg_used (expand_if_neccesary r) = areg_used r \<or>
      areg_used (expand_if_neccesary r) = live (areg_used r)) \<and>
     ar_sz (expand_if_neccesary r) = ar_sz r \<and> ar_key_id (expand_if_neccesary r) = ar_key_id r \<and>
     ar_elm_sz (expand_if_neccesary r) = ar_elm_sz r \<and>
     (ar_cap (expand_if_neccesary r) = 16 \<or> ar_cap (expand_if_neccesary r) \<le> 4 * (ar_sz r + 1))"
proof (cases "ar_occ_bucket r < ar_cap r - 1")
  case True
  then show ?thesis
    using assms by (auto simp: expand_if_neccesary_def areg_ok_def)
next
  case False
  obtain out j where c: "copy_if_loop (ar_occ_bucket r) 0 (ar_arr r) 0 (replicate (ar_cap r * 2) zero_bucket) = (out, j)"
    by (cases "copy_if_loop (ar_occ_bucket r) 0 (ar_arr r) 0 (replicate (ar_cap r * 2) zero_bucket)")
  have e: "expand_if_neccesary r = r\<lparr>ar_arr := out, ar_occ_bucket := j, ar_cap := ar_cap r * 2\<rparr>"
    using False c by (simp add: expand_if_neccesary_def)
  note ok = areg_okD(1,3,2,9) [OF assms]
  obtain k where k: "ar_cap r = 16 * 2 ^ k"
    using ok(3) by blast
  have cap: "16 \<le> ar_cap r"
    by (simp add: k)
  have o: "length out = ar_cap r * 2" "take j out = live (areg_used r)" "j = length (live (areg_used r))"
    using copy_if_loop_ok [OF _ _ c] ok(1,2) by auto
  have "j \<le> ar_occ_bucket r"
    unfolding o(3) by (rule length_live_le)
  then have "j < ar_cap r * 2 - 1"
    using ok(2) cap by linarith
  moreover have "ar_occ_bucket r < 2 * ar_sz r"
    using False ok(4) cap by simp
  then have "ar_cap r * 2 \<le> 4 * (ar_sz r + 1)"
    using False by arith
  moreover have "\<exists>k'. ar_cap r * 2 = 16 * 2 ^ k'"
    by (rule exI [of _ "Suc k"]) (simp add: k)
  ultimately show ?thesis
    using o(1,2) by (simp add: e)
qed

lemma sorted_live: "sorted_wrt (<) (map bk_key bs) \<Longrightarrow> sorted_wrt (<) (map bk_key (live bs))"
  by (simp add: sorted_wrt_map sorted_wrt_filter)

lemma bucket_ok_mono: "bucket_ok n b \<Longrightarrow> n \<le> m \<Longrightarrow> bucket_ok m b"
  by (simp add: bucket_ok_def)

lemma push_back_in_block:
  assumes "expand_if_neccesary r = e" "ar_occ_bucket e < length (ar_arr e)" "ar_key_id e \<noteq> - 1"
  shows "assoc_reg_push_back r v (ar_elm_sz r) =
     Inr (e\<lparr>ar_arr := (ar_arr e)[ar_occ_bucket e := \<lparr>bk_key = ucast (ar_key_id e), bk_has_value = True, bk_val = Some v\<rparr>],
            ar_key_id := ar_key_id e + 1, ar_occ_bucket := ar_occ_bucket e + 1, ar_sz := ar_sz e + 1\<rparr>,
          ucast (ar_key_id e))"
  unfolding assoc_reg_push_back_def Let_def assms(1) chk_def using assms(2,3) by auto

text \<open>A new bucket has a key above all others.\<close>

lemma areg_push_ok:
  assumes "areg_ok r" "unat (ar_key_id r) < 2 ^ 31"
  shows "\<exists>r'. assoc_reg_push_back r v (ar_elm_sz r) = Inr (r', of_nat (unat (ar_key_id r))) \<and> areg_ok r' \<and>
     areg_list r' = areg_list r @ [(of_nat (unat (ar_key_id r)), v)] \<and>
     unat (ar_key_id r') = unat (ar_key_id r) + 1 \<and> ar_elm_sz r' = ar_elm_sz r"
proof -
  let ?n = "unat (ar_key_id r)" and ?e = "expand_if_neccesary r"
  let ?key = "ucast (ar_key_id r) :: u32"
  let ?b = "\<lparr>bk_key = ?key, bk_has_value = True, bk_val = Some v\<rparr>"
  let ?r = "?e\<lparr>ar_arr := (ar_arr ?e)[ar_occ_bucket ?e := ?b], ar_key_id := ar_key_id r + 1,
    ar_occ_bucket := ar_occ_bucket ?e + 1, ar_sz := ar_sz r + 1\<rparr>"
  have e: "ar_occ_bucket ?e < ar_cap ?e - 1" "length (ar_arr ?e) = ar_cap ?e" "\<exists>k. ar_cap ?e = 16 * 2 ^ k"
    "areg_used ?e = areg_used r \<or> areg_used ?e = live (areg_used r)" "ar_sz ?e = ar_sz r" "ar_key_id ?e = ar_key_id r"
    "ar_elm_sz ?e = ar_elm_sz r" "ar_cap ?e = 16 \<or> ar_cap ?e \<le> 4 * (ar_sz r + 1)"
    using expand_ok [OF assms(1)] by simp_all
  note ok = areg_okD [OF assms(1)]
  have n: "unat ?key = ?n"
    using assms(2) by (simp add: unsigned_ucast_eq take_bit_nat_eq_self unsigned_take_bit_eq)
  then have key: "?key = of_nat ?n" "0 < ?key"
    using ok(7) by (auto simp: word_less_nat_alt dest: arg_cong [of _ _ "of_nat :: nat \<Rightarrow> u32"])
  have occ: "length (areg_used ?e) = ar_occ_bucket ?e" "length (areg_used r) = ar_occ_bucket r"
    using e(1,2) ok(1,3) by simp_all
  have live: "live (areg_used ?e) = live (areg_used r)"
    using e(4) by (elim disjE) simp_all
  have used: "areg_used ?r = areg_used ?e @ [?b]"
    using e(1,2) by (simp add: take_Suc_conv_app_nth)
  have sub: "set (areg_used ?e) \<subseteq> set (areg_used r)" "sorted_wrt (<) (map bk_key (areg_used ?e))"
    using e(4) ok(5) sorted_live by auto
  have o2: "ar_occ_bucket ?e \<le> 2 * ar_sz r"
    using e(4) occ ok(4,9) by (elim disjE) auto
  have suc: "unat (ar_key_id r + 1) = ?n + 1"
    using assms(2) unat_add_lem [of "ar_key_id r" 1] by simp
  have "areg_ok ?r"
    unfolding areg_ok_def used
  proof (intro conjI)
    show "sorted_wrt (<) (map bk_key (areg_used ?e @ [?b]))"
      using sub ok(6) n by (auto simp: sorted_wrt_append bucket_ok_def word_less_nat_alt)
    have "bucket_ok (?n + 1) b" if "b \<in> set (areg_used ?e)" for b
      using bucket_ok_mono [of ?n b "?n + 1"] bspec [OF ok(6)] subsetD [OF sub(1) that] by simp
    then show "\<forall>b \<in> set (areg_used ?e @ [?b]). bucket_ok (unat (ar_key_id ?r)) b"
      using n key(2) by (simp add: suc bucket_ok_def)
    show "0 < ar_key_id ?r" "unat (ar_key_id ?r) \<le> 2 ^ 31"
      using suc assms(2) by (simp_all add: word_less_nat_alt)
    show "ar_sz ?r = length (live (areg_used ?e @ [?b]))"
      using live ok(4) by simp
  qed (use e o2 in simp_all)
  moreover have "areg_list ?r = areg_list r @ [(?key, v)]"
    unfolding areg_list_def used by (simp add: live)
  moreover have "ar_key_id r \<noteq> - 1"
    using suc by auto
  then have "assoc_reg_push_back r v (ar_elm_sz r) = Inr (?r, ?key)"
    using push_back_in_block [OF refl, of r v] e(1,2) unfolding e(5,6) by linarith
  moreover have "unat (ar_key_id ?r) = ?n + 1" "ar_elm_sz ?r = ar_elm_sz r"
    using suc e(7) by simp_all
  ultimately show ?thesis
    unfolding key(1) [symmetric] by (intro exI [of _ ?r] conjI)
qed

section \<open>Bisection\<close>

text \<open>\<open>p\<close> separates the keys below \<open>key\<close> from the others.\<close>

definition bisects :: "(nat \<Rightarrow> u32) \<Rightarrow> u32 \<Rightarrow> nat \<Rightarrow> nat \<Rightarrow> nat \<Rightarrow> bool" where
  "bisects ks key lo hi p \<longleftrightarrow>
     lo \<le> p \<and> p \<le> hi \<and> (\<forall>i. lo \<le> i \<longrightarrow> i < p \<longrightarrow> ks i < key) \<and> (\<forall>i. p \<le> i \<longrightarrow> i < hi \<longrightarrow> key \<le> ks i)"

lemma bisects_right:
  "bisects ks key (m + 1) hi p \<Longrightarrow> (\<And>i. i \<le> m \<Longrightarrow> ks i < key) \<Longrightarrow> lo \<le> m \<Longrightarrow> bisects ks key lo hi p"
  unfolding bisects_def by (metis Suc_eq_plus1 not_less_eq_eq order.trans le_SucI)

lemma bisects_left:
  "bisects ks key lo m p \<Longrightarrow> (\<And>i. m \<le> i \<Longrightarrow> i < hi \<Longrightarrow> key \<le> ks i) \<Longrightarrow> m \<le> hi \<Longrightarrow> bisects ks key lo hi p"
  unfolding bisects_def by (metis not_le order.trans)

lemma lower_bound_loop_ok:
  assumes "0 \<le> len" "\<And>i j. i < j \<Longrightarrow> j < lower + nat len \<Longrightarrow> bk_key (arr ! (start_it + i)) < bk_key (arr ! (start_it + j))"
  shows "bisects (\<lambda>i. bk_key (arr ! (start_it + i))) key lower (lower + nat len) (lower_bound_loop arr start_it key lower len)"
  using assms
proof (induction arr start_it key lower len rule: lower_bound_loop.induct)
  case (1 arr start_it key lower len)
  let ?k = "\<lambda>i. bk_key (arr ! (start_it + i))" and ?m = "lower + nat (len div 2)"
  show ?case
  proof (cases "len > 0")
    case False
    then show ?thesis
      using "1.prems"(1) by (simp add: lower_bound_loop.simps bisects_def)
  next
    case True
    have m: "?m < lower + nat len" "?m + 1 + nat (len - len div 2 - 1) = lower + nat len" "0 \<le> len - len div 2 - 1"
      using True by linarith+
    show ?thesis
    proof (cases "?k ?m < key")
      case less: True
      have lt: "?k i < key" if "i \<le> ?m" for i
        using that less "1.prems"(2) [of i ?m] m(1) by (cases "i = ?m") (auto intro: less_trans)
      have "bisects ?k key (?m + 1) (lower + nat len) (lower_bound_loop arr start_it key (?m + 1) (len - len div 2 - 1))"
        using "1.IH"(1) [OF True refl refl less m(3)] "1.prems"(2) unfolding m(2) by blast
      from bisects_right [OF this lt] show ?thesis
        using True less by (simp add: lower_bound_loop.simps [of arr start_it key lower len] Let_def)
    next
      case ge: False
      have gt: "key \<le> ?k i" if "?m \<le> i" "i < lower + nat len" for i
        using that ge "1.prems"(2) [of ?m i] by (cases "i = ?m") (auto intro: order.trans [OF _ less_imp_le])
      have "bisects ?k key lower ?m (lower_bound_loop arr start_it key lower (len div 2))"
        using "1.IH"(2) [OF True refl refl ge] "1.prems"(2) m(1) True by simp
      from bisects_left [OF this gt] show ?thesis
        using True ge m(1) by (simp add: lower_bound_loop.simps [of arr start_it key lower len] Let_def)
    qed
  qed
qed

lemma skip_empty_ok:
  "idx \<le> skip_empty arr idx n \<and> skip_empty arr idx n \<le> idx + n \<and>
   (\<forall>j. idx \<le> j \<longrightarrow> j < skip_empty arr idx n \<longrightarrow> \<not> bk_has_value (arr ! j))"
proof (induction arr idx n rule: skip_empty.induct)
  case (2 arr idx n)
  then show ?case
    by (auto simp: le_less_Suc_eq dest: le_neq_implies_less)
qed simp

lemma areg_front_ok:
  "assoc_reg_front r \<le> ar_occ_bucket r" "j < ar_occ_bucket r \<Longrightarrow> bk_has_value (ar_arr r ! j) \<Longrightarrow> assoc_reg_front r \<le> j"
  using skip_empty_ok [of 0 "ar_arr r" "ar_occ_bucket r"] by (simp_all add: assoc_reg_front_def) (meson not_le)

lemma keys_sorted:
  assumes "areg_ok r" "i < j" "j < ar_occ_bucket r"
  shows "bk_key (ar_arr r ! i) < bk_key (ar_arr r ! j)"
  using sorted_wrt_nth_less [OF areg_okD(5) [OF assms(1)], of i j] assms(2,3) areg_okD(1,3) [OF assms(1)] by simp

text \<open>Every occupied bucket has a key of its own below the next key.\<close>

lemma occ_bound:
  assumes "areg_ok r"
  shows "ar_occ_bucket r < unat (ar_key_id r)"
proof -
  note ok = areg_okD [OF assms]
  have "strict_mono_on {..<ar_occ_bucket r} (\<lambda>i. unat (bk_key (ar_arr r ! i)))"
    using keys_sorted [OF assms] by (auto simp: strict_mono_on_def word_less_nat_alt)
  then have inj: "inj_on (\<lambda>i. unat (bk_key (ar_arr r ! i))) {..<ar_occ_bucket r}"
    by (rule strict_mono_on_imp_inj_on)
  have "bucket_ok (unat (ar_key_id r)) (ar_arr r ! i)" if "i < ar_occ_bucket r" for i
    using bspec [OF ok(6), of "areg_used r ! i"] that ok(1,3) by (simp add: nth_mem [of i "areg_used r", simplified])
  then have "(\<lambda>i. unat (bk_key (ar_arr r ! i))) ` {..<ar_occ_bucket r} \<subseteq> {1..<unat (ar_key_id r)}"
    by (auto simp: bucket_ok_def word_less_nat_alt Suc_le_eq)
  from card_mono [OF _ this] have "ar_occ_bucket r \<le> unat (ar_key_id r) - 1"
    using card_image [OF inj] by simp
  moreover have "0 < unat (ar_key_id r)"
    using ok(7) by (simp add: word_less_nat_alt)
  ultimately show ?thesis
    by linarith
qed

lemma live_key_iff:
  assumes "ar_occ_bucket r \<le> length (ar_arr r)"
  shows "key \<in> fst ` set (areg_list r) \<longleftrightarrow>
     (\<exists>j < ar_occ_bucket r. bk_has_value (ar_arr r ! j) \<and> bk_key (ar_arr r ! j) = key)"
proof
  assume "\<exists>j < ar_occ_bucket r. bk_has_value (ar_arr r ! j) \<and> bk_key (ar_arr r ! j) = key"
  then obtain j where j: "j < ar_occ_bucket r" "bk_has_value (ar_arr r ! j)" "bk_key (ar_arr r ! j) = key"
    by (elim exE conjE)
  then have "ar_arr r ! j \<in> set (live (areg_used r))"
    using assms nth_mem [of j "areg_used r"] by simp
  from imageI [OF this, of bk_key] show "key \<in> fst ` set (areg_list r)"
    using j(3) by (simp add: areg_list_def image_image)
qed (use assms in \<open>auto simp: areg_list_def image_image in_set_conv_nth\<close>)

lemma find_reg_ok:
  assumes "areg_ok r" "0 < key"
  shows "\<exists>it. find_reg r (assoc_reg_front r) (assoc_reg_end r) key = Inr it \<and>
     (if key \<in> fst ` set (areg_list r)
      then it < ar_occ_bucket r \<and> bk_has_value (ar_arr r ! it) \<and> bk_key (ar_arr r ! it) = key
      else it = assoc_reg_end r)"
proof -
  note ok = areg_okD [OF assms(1)]
  let ?f = "assoc_reg_front r" and ?occ = "ar_occ_bucket r"
  have live: "key \<in> fst ` set (areg_list r) \<longleftrightarrow> (\<exists>j < ?occ. bk_has_value (ar_arr r ! j) \<and> bk_key (ar_arr r ! j) = key)"
    by (rule live_key_iff) (use ok(1,3) in simp)
  show ?thesis
  proof (cases "?f = ?occ")
    case True
    then have "\<not> bk_has_value (ar_arr r ! j)" if "j < ?occ" for j
      using areg_front_ok(2) [OF that] that by auto
    then show ?thesis
      using True live assms(2) by (auto simp: find_reg_def assoc_reg_end_def)
  next
    case False
    then have f: "?f < ?occ"
      using areg_front_ok(1) [of r] by simp
    have sz: "?occ - ?f < 2 ^ 31"
      using occ_bound [OF assms(1)] ok(8) by linarith
    then have len: "signed_take_bit 31 (int (?occ - ?f)) = int (?occ - ?f)"
      by (intro signed_take_bit_int_eq_self) simp_all
    define p where "p = lower_bound_loop (ar_arr r) ?f key 0 (int (?occ - ?f))"
    have b: "bisects (\<lambda>i. bk_key (ar_arr r ! (?f + i))) key 0 (?occ - ?f) p"
      using lower_bound_loop_ok [of "int (?occ - ?f)" 0 "ar_arr r" ?f key, OF of_nat_0_le_iff] keys_sorted [OF assms(1)] f
      unfolding p_def nat_int add_0 by simp
    have lb: "lower_bound_reg r ?f ?occ key = Inr (?f + p)"
      using False f ok(3) len by (simp add: lower_bound_reg_def p_def)
    have p: "?f + p \<le> ?occ"
      using b f by (auto simp: bisects_def)
    have uniq: "?f + p = j" if j: "j < ?occ" "bk_has_value (ar_arr r ! j)" "bk_key (ar_arr r ! j) = key" for j
    proof -
      have fj: "?f \<le> j"
        by (rule areg_front_ok(2) [OF j(1,2)])
      have "\<not> j - ?f < p"
        using b j(3) fj by (auto simp: bisects_def)
      moreover have "\<not> p < j - ?f"
      proof
        assume lt: "p < j - ?f"
        then have "key \<le> bk_key (ar_arr r ! (?f + p))"
          using b j(1) fj unfolding bisects_def by (metis add_0 diff_less_mono le_refl order.strict_trans)
        moreover have "bk_key (ar_arr r ! (?f + p)) < key"
          using keys_sorted [OF assms(1), of "?f + p" j] lt j(1,3) by simp
        ultimately show False
          by simp
      qed
      ultimately show ?thesis
        using fj by simp
    qed
    show ?thesis
      using lb p uniq live False assms(2) by (auto simp: find_reg_def assoc_reg_end_def le_eq_less_or_eq)
  qed
qed

section \<open>Erasing a value\<close>

text \<open>
  After an erasure the fields are consistent, and the block may be one value too large: compacting
  and shrinking restore the invariant.
\<close>

definition areg_fields :: "'a assoc_reg_t \<Rightarrow> bool" where
  "areg_fields r \<longleftrightarrow>
     length (ar_arr r) = ar_cap r \<and> (\<exists>k. ar_cap r = 16 * 2 ^ k) \<and> ar_occ_bucket r < ar_cap r \<and>
     ar_sz r = length (live (areg_used r)) \<and> sorted_wrt (<) (map bk_key (areg_used r)) \<and>
     (\<forall>b \<in> set (areg_used r). bucket_ok (unat (ar_key_id r)) b) \<and>
     0 < ar_key_id r \<and> unat (ar_key_id r) \<le> 2 ^ 31"

lemma areg_ok_alt:
  "areg_ok r \<longleftrightarrow> areg_fields r \<and> (0 < ar_occ_bucket r \<longrightarrow> ar_occ_bucket r < 2 * ar_sz r) \<and>
     (ar_cap r = 16 \<or> ar_cap r \<le> 4 * ar_sz r)"
  by (simp add: areg_ok_def areg_fields_def conj_assoc)

lemma packed_fields:
  assumes "areg_fields r" "ar_sz r < cap" "\<exists>k. cap = 16 * 2 ^ k"
  shows "areg_fields (packed r cap)"
proof -
  have l: "length (ar_arr r) = ar_cap r" "ar_occ_bucket r < ar_cap r" "ar_sz r = length (live (areg_used r))"
    "sorted_wrt (<) (map bk_key (areg_used r))" "\<forall>b \<in> set (areg_used r). bucket_ok (unat (ar_key_id r)) b"
    "0 < ar_key_id r" "unat (ar_key_id r) \<le> 2 ^ 31"
    using assms(1) unfolding areg_fields_def by - (elim conjE, assumption)+
  have s: "ar_sz (packed r cap) = ar_sz r" "ar_key_id (packed r cap) = ar_key_id r" "ar_cap (packed r cap) = cap"
    "ar_occ_bucket (packed r cap) = length (live (areg_used r))" "length (ar_arr (packed r cap)) = cap"
    using assms(2) l(3) by (simp_all add: packed_def Let_def)
  show ?thesis
    using l assms(2,3) sorted_live [OF l(4)] unfolding areg_fields_def packed_used unfolding s by simp
qed

lemma packed_sel [simp]:
  "ar_sz (packed r cap) = ar_sz r" "ar_cap (packed r cap) = cap" "ar_key_id (packed r cap) = ar_key_id r"
  "ar_elm_sz (packed r cap) = ar_elm_sz r" "ar_occ_bucket (packed r cap) = length (live (areg_used r))"
  by (simp_all add: packed_def Let_def)

lemma areg_fieldsD:
  assumes "areg_fields r"
  shows "length (ar_arr r) = ar_cap r" "\<exists>k. ar_cap r = 16 * 2 ^ k" "ar_occ_bucket r < ar_cap r"
    "ar_sz r = length (live (areg_used r))"
  using assms unfolding areg_fields_def by - (elim conjE, assumption)+

lemma settle_ok:
  assumes "areg_fields r" "ar_cap r = 16 \<or> ar_cap r \<le> 4 * (ar_sz r + 1)"
  shows "\<exists>r'. bnd (compact_if_necessary r) shrink_if_necessary = Inr r' \<and> areg_ok r' \<and>
     areg_list r' = areg_list r \<and> ar_key_id r' = ar_key_id r \<and> ar_elm_sz r' = ar_elm_sz r"
proof -
  let ?c = "if ar_sz r * 2 > ar_occ_bucket r then r else packed r (ar_cap r)"
  have occ: "ar_sz r \<le> ar_occ_bucket r"
    unfolding areg_fieldsD(4) [OF assms(1)] by (rule length_live_le)
  have f: "areg_fields ?c"
    using assms(1) packed_fields [OF assms(1), of "ar_cap r"] areg_fieldsD(2,3) [OF assms(1)] occ by auto
  have c: "ar_sz ?c = ar_sz r" "ar_cap ?c = ar_cap r" "ar_key_id ?c = ar_key_id r" "ar_elm_sz ?c = ar_elm_sz r"
    "areg_list ?c = areg_list r" "0 < ar_occ_bucket ?c \<longrightarrow> ar_occ_bucket ?c < 2 * ar_sz r"
    using areg_fieldsD(4) [OF assms(1)] by (simp_all split: if_splits)
  have compact: "compact_if_necessary r = Inr ?c"
    by (rule areg_compact_ok) (use areg_fieldsD(1,3) [OF assms(1)] in simp)
  have shrink: "shrink_if_necessary ?c =
     Inr (if ar_cap r = MIN_SIZE_REG \<or> ar_sz r * 4 > ar_cap r then ?c else packed ?c (ar_cap r div 2))"
    using shrink_ok [OF _ areg_fieldsD(4) [OF f]] areg_fieldsD(1,3) [OF f] unfolding c(1,2) by simp
  show ?thesis
  proof (cases "ar_cap r = MIN_SIZE_REG \<or> ar_sz r * 4 > ar_cap r")
    case True
    then have "areg_ok ?c"
      using f c(1,2,6) unfolding areg_ok_alt MIN_SIZE_REG_def by auto
    then show ?thesis
      using True compact shrink c(3-5) by auto
  next
    case False
    obtain k where k: "ar_cap r = 16 * 2 ^ k"
      using areg_fieldsD(2) [OF assms(1)] by (elim exE)
    then obtain m where m: "k = Suc m"
      using False by (cases k) (simp_all add: MIN_SIZE_REG_def)
    have half: "ar_cap r div 2 = 16 * 2 ^ m" "32 \<le> ar_cap r"
      by (simp_all add: k m)
    have "ar_cap r \<le> 4 * (ar_sz r + 1)" "4 * ar_sz r \<le> ar_cap r"
      using assms(2) half(2) False by auto
    then have le: "ar_cap r div 2 \<le> 4 * ar_sz r" "ar_sz r < ar_cap r div 2"
      using half(2) by arith+
    have "areg_fields (packed ?c (ar_cap r div 2))"
      by (rule packed_fields [OF f]) (use le(2) half(1) c(1) in simp_all)
    then have "areg_ok (packed ?c (ar_cap r div 2))"
      using le areg_fieldsD(4) [OF f] c(1) unfolding areg_ok_alt packed_sel by auto
    then show ?thesis
      using False compact shrink c(3-5) by auto
  qed
qed

lemma live_update:
  assumes "sorted_wrt (<) (map bk_key bs)" "it < length bs"
  shows "live (bs[it := (bs ! it)\<lparr>bk_has_value := False\<rparr>]) = filter (\<lambda>b. bk_key b \<noteq> bk_key (bs ! it)) (live bs)"
proof -
  have bs: "bs = take it bs @ bs ! it # drop (Suc it) bs"
    by (rule id_take_nth_drop [OF assms(2)])
  have "sorted_wrt (<) (map bk_key (take it bs) @ bk_key (bs ! it) # map bk_key (drop (Suc it) bs))"
    using assms(1) by (subst (asm) bs) (simp del: append_take_drop_id)
  then have "\<forall>b \<in> set (take it bs) \<union> set (drop (Suc it) bs). bk_key b \<noteq> bk_key (bs ! it)"
    by (auto simp: sorted_wrt_append)
  then have "filter (\<lambda>b. bk_key b \<noteq> bk_key (bs ! it)) (live xs) = live xs"
    if "set xs \<subseteq> set (take it bs) \<union> set (drop (Suc it) bs)" for xs
    using that by (intro filter_True) auto
  then show ?thesis
    using assms(2) by (subst (4) bs) (simp add: upd_conv_take_nth_drop)
qed

definition cleared :: "'a assoc_reg_t \<Rightarrow> nat \<Rightarrow> 'a assoc_reg_t" where
  "cleared r it = r\<lparr>ar_arr := (ar_arr r)[it := (ar_arr r ! it)\<lparr>bk_has_value := False\<rparr>], ar_sz := ar_sz r - 1\<rparr>"

lemma erase_one_ok:
  assumes "areg_ok r" "it < ar_occ_bucket r" "bk_has_value (ar_arr r ! it)" "\<And>v. f v = Inr ()"
  shows "\<exists>nx r'. assoc_reg_next r it = Inr nx \<and> assoc_reg_erase r it nx (Some f) = Inr r' \<and> areg_ok r' \<and>
     areg_list r' = filter (\<lambda>e. fst e \<noteq> bk_key (ar_arr r ! it)) (areg_list r) \<and> ar_key_id r' = ar_key_id r \<and>
     ar_elm_sz r' = ar_elm_sz r"
proof -
  note ok = areg_okD [OF assms(1)]
  let ?k = "bk_key (ar_arr r ! it)" and ?c = "cleared r it"
  let ?u = "areg_used r"
  have len: "it < length ?u" "?u ! it = ar_arr r ! it"
    using assms(2) ok(1,3) by simp_all
  have used: "areg_used ?c = ?u[it := (?u ! it)\<lparr>bk_has_value := False\<rparr>]"
    using assms(2) by (simp add: cleared_def take_update_swap)
  have live: "live (areg_used ?c) = filter (\<lambda>b. bk_key b \<noteq> ?k) (live ?u)"
    unfolding used using live_update [OF ok(5) len(1)] len(2) by simp
  have list: "areg_list ?c = filter (\<lambda>e. fst e \<noteq> ?k) (areg_list r)"
    unfolding areg_list_def live filter_map by (simp add: comp_def)
  have "length (live ?u) = length (live (areg_used ?c)) + 1"
    unfolding used using len assms(3) by (subst (1) id_take_nth_drop [OF len(1)]) (simp add: upd_conv_take_nth_drop)
  then have sz: "ar_sz ?c = length (live (areg_used ?c))" "ar_sz r = ar_sz ?c + 1"
    using ok(4) by (simp_all add: cleared_def)
  have keys: "map bk_key (areg_used ?c) = map bk_key ?u"
    unfolding used map_update using list_update_id [of "map bk_key ?u" it] nth_map [OF len(1), of bk_key] by simp
  have bk: "\<forall>b \<in> set (areg_used ?c). bucket_ok (unat (ar_key_id ?c)) b"
  proof
    fix b
    assume "b \<in> set (areg_used ?c)"
    then have "b = (?u ! it)\<lparr>bk_has_value := False\<rparr> \<or> b \<in> set ?u"
      unfolding used using set_update_subset_insert by fastforce
    then show "bucket_ok (unat (ar_key_id ?c)) b"
      using bspec [OF ok(6) nth_mem [OF len(1)]] bspec [OF ok(6), of b]
      by (elim disjE) (simp_all add: bucket_ok_def cleared_def)
  qed
  have sel: "length (ar_arr ?c) = ar_cap ?c" "ar_cap ?c = ar_cap r" "ar_occ_bucket ?c = ar_occ_bucket r"
    "ar_key_id ?c = ar_key_id r" "ar_elm_sz ?c = ar_elm_sz r"
    using ok(1) by (simp_all add: cleared_def)
  have fields: "areg_fields ?c"
    unfolding areg_fields_def keys using sel sz(1) ok(2,3,5,7,8) bk by simp
  obtain r' where r': "bnd (compact_if_necessary ?c) shrink_if_necessary = Inr r'" "areg_ok r'"
    "areg_list r' = areg_list ?c" "ar_key_id r' = ar_key_id r" "ar_elm_sz r' = ar_elm_sz r"
    using settle_ok [OF fields] ok(10) sz(2) sel by (auto simp del: bnd_simps)
  obtain nx where nx: "assoc_reg_next r it = Inr nx"
    using assms(2,3) by (simp add: assoc_reg_next_def reg_bucket_def iterator_in_ds_def)
  have neq: "it \<noteq> nx"
    using next_advances [OF nx] by simp
  have loop: "erase_loop (Some f) it nx r = Inr ?c"
    using nx neq assms(4) by (auto simp: erase_loop.simps [of _ it] erase_loop.simps [of _ nx] Let_def cleared_def split: option.split)
  have "assoc_reg_erase r it nx (Some f) = Inr r'"
    using neq assms(2) loop r'(1) by (simp add: assoc_reg_erase_def iterator_in_ds_def)
  then show ?thesis
    using nx r'(2-5) list by (intro exI [of _ nx] exI [of _ r']) simp
qed

section \<open>The self test of the source\<close>

lemma test_loop_ok:
  "sorted_wrt (<) (map bk_key bs) \<Longrightarrow> (\<And>b. b \<in> set bs \<Longrightarrow> lk < uint (bk_key b)) \<Longrightarrow>
   test_loop bs c lk = Inr (c + length (live bs))"
  by (induction bs c lk rule: test_loop.induct) (auto simp: word_less_def)

lemma self_test_ok:
  assumes "areg_ok r"
  shows "test_invariants_registry_hold r = Inr ()"
proof -
  note ok = areg_okD [OF assms]
  have "ar_sz r \<le> ar_occ_bucket r"
    unfolding ok(4) by (rule length_live_le)
  moreover have "test_loop (areg_used r) 0 (- 1) = Inr (ar_sz r)"
    using test_loop_ok [OF ok(5), of "- 1" 0] ok(4) by (simp add: order.strict_trans2 [OF _ unsigned_greater_eq])
  ultimately show ?thesis
    using ok(3) by (simp add: test_invariants_registry_hold_def)
qed

lemma areg_init_ok: "areg_ok (assoc_reg_init n)" "areg_list (assoc_reg_init n) = []"
  by (simp_all add: areg_ok_def areg_list_def assoc_reg_init_def MIN_SIZE_REG_def exI [of _ 0])

end
