(* ===== verification/Act_Proc.thy ===== *)
theory Act_Proc
  imports Assoc_Reg_Laws Ric_Maps
begin

text \<open>
  The active procedures of an xApp (\<^verbatim>\<open>xApp/act_proc.c\<close>): every subscription and every control
  request is kept in a registry, whose key becomes the RIC request id of its messages.  The
  mutex is held from the first to the last access of an operation, so an operation is one step.

  Locale \<open>id_table\<close> is the contract of a table that hands out ids: any sequence of additions,
  searches and removals gives what a list of entries and a counter give.  The registry keeps it
  for the first 65535 ids.
\<close>

section \<open>The contract\<close>

datatype 'v id_op = Add_Id 'v | Find_Id nat | Rm_Id nat

datatype 'v id_out = Added nat | Found "'v option" | Removed

fun run_table ::
  "('p \<Rightarrow> 'v \<Rightarrow> ('p \<times> nat) res) \<Rightarrow> ('p \<Rightarrow> nat \<Rightarrow> ('p \<times> 'v option) res) \<Rightarrow> ('p \<Rightarrow> nat \<Rightarrow> 'p res) \<Rightarrow>
   'v id_op list \<Rightarrow> 'p \<Rightarrow> ('p \<times> 'v id_out list) res" where
  "run_table add get rm [] p = Inr (p, [])"
| "run_table add get rm (Add_Id v # ops) p =
     bnd (add p v) (\<lambda>(p, k). bnd (run_table add get rm ops p) (\<lambda>(p, out). Inr (p, Added k # out)))"
| "run_table add get rm (Find_Id k # ops) p =
     bnd (get p k) (\<lambda>(p, v). bnd (run_table add get rm ops p) (\<lambda>(p, out). Inr (p, Found v # out)))"
| "run_table add get rm (Rm_Id k # ops) p =
     bnd (rm p k) (\<lambda>p. bnd (run_table add get rm ops p) (\<lambda>(p, out). Inr (p, Removed # out)))"

text \<open>
  The same on a list of entries and the next id.  A client only removes an id that is there and
  only uses ids above zero and below the limit.
\<close>

fun run_ids ::
  "(nat \<Rightarrow> 'v \<Rightarrow> 'v) \<Rightarrow> nat \<Rightarrow> 'v id_op list \<Rightarrow> (nat \<times> 'v) list \<Rightarrow> nat \<Rightarrow>
   ((nat \<times> 'v) list \<times> nat \<times> 'v id_out list) option" where
  "run_ids stamp top_id [] es n = Some (es, n, [])"
| "run_ids stamp top_id (Add_Id v # ops) es n =
     (if n < top_id then map_option (apsnd (apsnd ((#) (Added n)))) (run_ids stamp top_id ops (es @ [(n, stamp n v)]) (n + 1))
      else None)"
| "run_ids stamp top_id (Find_Id k # ops) es n =
     (if 0 < k \<and> k < top_id then map_option (apsnd (apsnd ((#) (Found (map_of es k))))) (run_ids stamp top_id ops es n)
      else None)"
| "run_ids stamp top_id (Rm_Id k # ops) es n =
     (if k \<in> fst ` set es
      then map_option (apsnd (apsnd ((#) Removed))) (run_ids stamp top_id ops (filter (\<lambda>e. fst e \<noteq> k) es) n)
      else None)"

locale id_table =
  fixes inv :: "'p \<Rightarrow> bool"
    and entries :: "'p \<Rightarrow> (nat \<times> 'v) list"
    and nxt :: "'p \<Rightarrow> nat"
    and top_id :: nat
    and stamp :: "nat \<Rightarrow> 'v \<Rightarrow> 'v"
    and add :: "'p \<Rightarrow> 'v \<Rightarrow> ('p \<times> nat) res"
    and get :: "'p \<Rightarrow> nat \<Rightarrow> ('p \<times> 'v option) res"
    and rm :: "'p \<Rightarrow> nat \<Rightarrow> 'p res"
  assumes ids_below: "inv p \<Longrightarrow> k \<in> fst ` set (entries p) \<Longrightarrow> 0 < k \<and> k < nxt p"
    and ids_distinct: "inv p \<Longrightarrow> distinct (map fst (entries p))"
    and add_law: "inv p \<Longrightarrow> nxt p < top_id \<Longrightarrow>
      \<exists>p'. add p v = Inr (p', nxt p) \<and> inv p' \<and> entries p' = entries p @ [(nxt p, stamp (nxt p) v)] \<and> nxt p' = nxt p + 1"
    and find_law: "inv p \<Longrightarrow> 0 < k \<Longrightarrow> k < top_id \<Longrightarrow>
      \<exists>p'. get p k = Inr (p', map_of (entries p) k) \<and> inv p' \<and> entries p' = entries p \<and> nxt p' = nxt p"
    and rm_law: "inv p \<Longrightarrow> k \<in> fst ` set (entries p) \<Longrightarrow>
      \<exists>p'. rm p k = Inr p' \<and> inv p' \<and> entries p' = filter (\<lambda>e. fst e \<noteq> k) (entries p) \<and> nxt p' = nxt p"
    and rm_missing: "inv p \<Longrightarrow> k < top_id \<Longrightarrow> k \<notin> fst ` set (entries p) \<Longrightarrow> \<exists>e. rm p k = Inl e"
begin

lemma run_refines:
  assumes "inv p" "run_ids stamp top_id ops (entries p) (nxt p) = Some (es, n, out)"
  shows "\<exists>p'. run_table add get rm ops p = Inr (p', out) \<and> inv p' \<and> entries p' = es \<and> nxt p' = n"
  using assms
proof (induction ops arbitrary: p out)
  case (Cons op ops)
  show ?case
  proof (cases op)
    case (Add_Id v)
    then obtain out' where o: "run_ids stamp top_id ops (entries p @ [(nxt p, stamp (nxt p) v)]) (nxt p + 1) = Some (es, n, out')"
      "out = Added (nxt p) # out'" "nxt p < top_id"
      using Cons.prems(2) by (auto split: if_splits)
    obtain p1 where "add p v = Inr (p1, nxt p)" "inv p1" "entries p1 = entries p @ [(nxt p, stamp (nxt p) v)]"
      "nxt p1 = nxt p + 1"
      using add_law [OF Cons.prems(1) o(3), of v] by (elim exE conjE)
    then show ?thesis
      using Cons.IH [of p1 out'] o Add_Id by auto
  next
    case (Find_Id k)
    then obtain out' where o: "run_ids stamp top_id ops (entries p) (nxt p) = Some (es, n, out')"
      "out = Found (map_of (entries p) k) # out'" "0 < k" "k < top_id"
      using Cons.prems(2) by (auto split: if_splits)
    obtain p1 where "get p k = Inr (p1, map_of (entries p) k)" "inv p1" "entries p1 = entries p" "nxt p1 = nxt p"
      using find_law [OF Cons.prems(1) o(3,4)] by (elim exE conjE)
    then show ?thesis
      using Cons.IH [of p1 out'] o Find_Id by auto
  next
    case (Rm_Id k)
    then obtain out' where o: "run_ids stamp top_id ops (filter (\<lambda>e. fst e \<noteq> k) (entries p)) (nxt p) = Some (es, n, out')"
      "out = Removed # out'" "k \<in> fst ` set (entries p)"
      using Cons.prems(2) by (auto split: if_splits)
    obtain p1 where "rm p k = Inr p1" "inv p1" "entries p1 = filter (\<lambda>e. fst e \<noteq> k) (entries p)" "nxt p1 = nxt p"
      using rm_law [OF Cons.prems(1) o(3)] by (elim exE conjE)
    then show ?thesis
      using Cons.IH [of p1 out'] o Rm_Id by auto
  qed
qed simp

text \<open>A new id is above every id that is in use, and belongs to the new entry.\<close>

lemma fresh_id: "inv p \<Longrightarrow> nxt p \<notin> fst ` set (entries p)"
  using ids_below by blast

lemma found_iff: "inv p \<Longrightarrow> map_of (entries p) k = Some v \<longleftrightarrow> (k, v) \<in> set (entries p)"
  using ids_distinct by (auto intro: map_of_SomeD)

end

section \<open>Data and operations\<close>

datatype act_proc_val_e = RIC_SUBSCRIPTION_PROCEDURE_ACTIVE | RIC_CONTROL_PROCEDURE_ACTIVE

text \<open>A callback is the number of the function; \<^term>\<open>None\<close> is a null pointer.\<close>

record act_proc_val_t =
  apv_type :: act_proc_val_e
  apv_id :: ric_gen_id_t
  apv_sm_cb :: "nat option"
  apv_e2_node :: global_e2_node_id_t

record act_proc_t =
  ap_reg :: "act_proc_val_t assoc_reg_t"

definition sizeof_act_proc_val :: nat where "sizeof_act_proc_val = 56"

definition init_act_proc :: act_proc_t where
  "init_act_proc = \<lparr>ap_reg = assoc_reg_init sizeof_act_proc_val\<rparr>"

definition free_act_proc_val :: "act_proc_val_t \<Rightarrow> unit res" where
  "free_act_proc_val v = Inr ()"

definition valid_proc_type :: "act_proc_val_e \<Rightarrow> bool" where
  "valid_proc_type type \<longleftrightarrow> type = RIC_SUBSCRIPTION_PROCEDURE_ACTIVE \<or> type = RIC_CONTROL_PROCEDURE_ACTIVE"

definition add_act_proc ::
  "act_proc_t \<Rightarrow> act_proc_val_e \<Rightarrow> ric_gen_id_t \<Rightarrow> global_e2_node_id_t \<Rightarrow> nat option \<Rightarrow> (act_proc_t \<times> u32) res" where
  "add_act_proc p type gid e2_node sm_cb =
     chk (valid_proc_type type) ''valid_proc_type(type) == true'' (
     let val = \<lparr>apv_type = type, apv_id = gid, apv_sm_cb = sm_cb, apv_e2_node = cp_global_e2_node_id e2_node\<rparr> in
     bnd (assoc_reg_push_back (ap_reg p) val sizeof_act_proc_val) (\<lambda>(reg, rid).
     Inr (p\<lparr>ap_reg := reg\<rparr>, rid)))"

definition rm_act_proc :: "act_proc_t \<Rightarrow> u16 \<Rightarrow> act_proc_t res" where
  "rm_act_proc p rid =
     (let reg = ap_reg p in
      bnd (find_reg reg (assoc_reg_front reg) (assoc_reg_end reg) (ucast rid)) (\<lambda>it.
      chk (it \<noteq> assoc_reg_end reg) ''ric_req_id key value not found in the registry'' (
      bnd (assoc_reg_next reg it) (\<lambda>nxt.
      bnd (assoc_reg_erase reg it nxt (Some free_act_proc_val)) (\<lambda>reg.
      Inr (p\<lparr>ap_reg := reg\<rparr>))))))"

text \<open>
  The request id is written into the stored value before it is copied into the answer;
  \<^term>\<open>None\<close> is an answer that is not ok.
\<close>

definition find_act_proc :: "act_proc_t \<Rightarrow> u16 \<Rightarrow> (act_proc_t \<times> act_proc_val_t option) res" where
  "find_act_proc act rid =
     (let reg = ap_reg act in
      bnd (find_reg reg (assoc_reg_front reg) (assoc_reg_end reg) (ucast rid)) (\<lambda>it.
      if it = assoc_reg_end reg then Inr (act, None)
      else
        bnd (assoc_reg_value reg it) (\<lambda>val.
        let val = val\<lparr>apv_id := (apv_id val)\<lparr>ric_req_id := ucast rid\<rparr>\<rparr>;
            b = (ar_arr reg ! it)\<lparr>bk_val := Some val\<rparr>
        in Inr (act\<lparr>ap_reg := reg\<lparr>ar_arr := (ar_arr reg)[it := b]\<rparr>\<rparr>, Some val))))"

section \<open>The registry keeps the contract\<close>

lemma areg_mem:
  assumes "areg_ok r" "it < ar_occ_bucket r" "bk_has_value (ar_arr r ! it)"
  shows "(bk_key (ar_arr r ! it), the (bk_val (ar_arr r ! it))) \<in> set (areg_list r)" "bk_val (ar_arr r ! it) \<noteq> None"
proof -
  note ok = areg_okD [OF assms(1)]
  have "ar_arr r ! it \<in> set (areg_used r)"
    using nth_mem [of it "areg_used r"] assms(2) ok(1,3) by simp
  moreover from this have "ar_arr r ! it \<in> set (live (areg_used r))"
    using assms(3) by simp
  ultimately show "bk_val (ar_arr r ! it) \<noteq> None"
    "(bk_key (ar_arr r ! it), the (bk_val (ar_arr r ! it))) \<in> set (areg_list r)"
    using bspec [OF ok(6)] assms(3)
    by (auto simp: bucket_ok_def areg_list_def intro!: image_eqI [of _ _ "ar_arr r ! it"])
qed

lemma areg_keys:
  assumes "areg_ok r"
  shows "sorted_wrt (<) (map fst (areg_list r))"
    "e \<in> set (areg_list r) \<Longrightarrow> 0 < fst e \<and> unat (fst e) < unat (ar_key_id r)"
proof -
  have "map fst (areg_list r) = map bk_key (live (areg_used r))"
    by (simp add: areg_list_def)
  then show "sorted_wrt (<) (map fst (areg_list r))"
    using sorted_live [OF areg_okD(5) [OF assms]] by simp
  show "e \<in> set (areg_list r) \<Longrightarrow> 0 < fst e \<and> unat (fst e) < unat (ar_key_id r)"
    using areg_okD(6) [OF assms] by (auto simp: areg_list_def bucket_ok_def)
qed

lemma sorted_distinct: "sorted_wrt (<) xs \<Longrightarrow> distinct xs" for xs :: "u32 list"
  by (induction xs) auto

text \<open>Writing another value into a live bucket.\<close>

lemma act_put_ok:
  assumes "areg_ok r" "it < ar_occ_bucket r" "bk_has_value (ar_arr r ! it)"
    and b_def: "b = (ar_arr r ! it)\<lparr>bk_val := Some v\<rparr>"
  shows "areg_ok (r\<lparr>ar_arr := (ar_arr r)[it := b]\<rparr>) \<and>
     areg_list (r\<lparr>ar_arr := (ar_arr r)[it := b]\<rparr>) =
       map (\<lambda>e. if fst e = bk_key (ar_arr r ! it) then (fst e, v) else e) (areg_list r)"
proof -
  note ok = areg_okD [OF assms(1)]
  let ?u = "areg_used r" and ?r = "r\<lparr>ar_arr := (ar_arr r)[it := b]\<rparr>"
  have len: "it < length ?u" "?u ! it = ar_arr r ! it"
    using assms(2) ok(1,3) by simp_all
  have used: "areg_used ?r = ?u[it := b]"
    using assms(2) by (simp add: take_update_swap)
  obtain A B where split: "?u = A @ ar_arr r ! it # B" and upd: "?u[it := b] = A @ b # B"
    using id_take_nth_drop [OF len(1)] upd_conv_take_nth_drop [OF len(1), of b] unfolding len(2) by blast
  have keys: "map bk_key (?u[it := b]) = map bk_key ?u"
    unfolding upd unfolding split by (simp add: b_def)
  have live: "length (live (?u[it := b])) = length (live ?u)"
    unfolding upd unfolding split by (simp add: b_def assms(3))
  have "bucket_ok (unat (ar_key_id r)) b"
    using bspec [OF ok(6) nth_mem [OF len(1)]] unfolding len(2) b_def bucket_ok_def by simp
  then have bk: "\<forall>c \<in> set (?u[it := b]). bucket_ok (unat (ar_key_id r)) c"
    using ok(6) set_update_subset_insert [of ?u it b] by blast
  have "areg_ok ?r"
    unfolding areg_ok_def used keys live using ok bk by simp
  have "bk_key (ar_arr r ! it) \<notin> bk_key ` (set A \<union> set B)"
    using sorted_distinct [OF ok(5)] unfolding split by (simp add: image_Un)
  then have "bk_key c \<noteq> bk_key (ar_arr r ! it)" if "c \<in> set A \<union> set B" for c
    using imageI [OF that, of bk_key] by metis
  then have "map (\<lambda>e. if fst e = bk_key (ar_arr r ! it) then (fst e, v) else e) (map (\<lambda>c. (bk_key c, the (bk_val c))) (live ?u)) =
      map (\<lambda>c. (bk_key c, the (bk_val c))) (live (?u[it := b]))"
    unfolding upd unfolding split by (simp add: b_def assms(3))
  then show ?thesis
    unfolding areg_list_def used using \<open>areg_ok ?r\<close> by simp
qed

definition stamp :: "nat \<Rightarrow> act_proc_val_t \<Rightarrow> act_proc_val_t" where
  "stamp k v = v\<lparr>apv_id := (apv_id v)\<lparr>ric_req_id := of_nat k\<rparr>\<rparr>"

definition act_entries :: "act_proc_t \<Rightarrow> (nat \<times> act_proc_val_t) list" where
  "act_entries p = map (\<lambda>(k, v). (unat k, stamp (unat k) v)) (areg_list (ap_reg p))"

definition act_next :: "act_proc_t \<Rightarrow> nat" where
  "act_next p = unat (ar_key_id (ap_reg p))"

definition act_inv :: "act_proc_t \<Rightarrow> bool" where
  "act_inv p \<longleftrightarrow> areg_ok (ap_reg p) \<and> ar_elm_sz (ap_reg p) = sizeof_act_proc_val \<and> act_next p \<le> 2 ^ 16"

definition add_val :: "act_proc_t \<Rightarrow> act_proc_val_t \<Rightarrow> (act_proc_t \<times> nat) res" where
  "add_val p v =
     bnd (add_act_proc p (apv_type v) (apv_id v) (apv_e2_node v) (apv_sm_cb v)) (\<lambda>(p, k). Inr (p, unat k))"

definition find_val :: "act_proc_t \<Rightarrow> nat \<Rightarrow> (act_proc_t \<times> act_proc_val_t option) res" where
  "find_val p k = find_act_proc p (of_nat k)"

definition rm_val :: "act_proc_t \<Rightarrow> nat \<Rightarrow> act_proc_t res" where
  "rm_val p k = rm_act_proc p (of_nat k)"

lemma act_invD:
  assumes "act_inv p"
  shows "areg_ok (ap_reg p)" "ar_elm_sz (ap_reg p) = sizeof_act_proc_val" "act_next p \<le> 2 ^ 16" "0 < act_next p"
  using assms areg_okD(7) [of "ap_reg p"] unfolding act_inv_def act_next_def by (simp_all add: word_less_nat_alt)

lemma init_act_inv: "act_inv init_act_proc" "act_entries init_act_proc = []" "act_next init_act_proc = 1"
proof -
  have "act_next init_act_proc = 1"
    by (simp add: act_next_def init_act_proc_def assoc_reg_init_def)
  then show "act_inv init_act_proc" "act_next init_act_proc = 1"
    using areg_init_ok(1) [of sizeof_act_proc_val] by (simp_all add: act_inv_def init_act_proc_def assoc_reg_init_def)
  show "act_entries init_act_proc = []"
    using areg_init_ok(2) by (simp add: act_entries_def init_act_proc_def)
qed

lemma ucast_id:
  assumes "k < 2 ^ 16"
  shows "ucast (of_nat k :: u16) = (of_nat k :: u32)" "unat (of_nat k :: u32) = k"
proof -
  show "ucast (of_nat k :: u16) = (of_nat k :: u32)"
    using assms by (simp add: word_unat_eq_iff unsigned_ucast_eq unsigned_of_nat take_bit_nat_eq_self unsigned_take_bit_eq)
  show "unat (of_nat k :: u32) = k"
    using assms by (simp add: unat_of_nat take_bit_nat_eq_self)
qed

lemma entries_keys: "fst ` set (act_entries p) = unat ` fst ` set (areg_list (ap_reg p))"
  by (simp add: act_entries_def image_image split_def)

lemma entries_key_iff:
  assumes "k < 2 ^ 16"
  shows "k \<in> fst ` set (act_entries p) \<longleftrightarrow> of_nat k \<in> fst ` set (areg_list (ap_reg p))"
proof
  assume "of_nat k \<in> fst ` set (areg_list (ap_reg p))"
  from imageI [OF this, of unat] show "k \<in> fst ` set (act_entries p)"
    unfolding entries_keys ucast_id(2) [OF assms] .
next
  assume "k \<in> fst ` set (act_entries p)"
  then obtain a where "k = unat a" "a \<in> fst ` set (areg_list (ap_reg p))"
    unfolding entries_keys by (rule imageE)
  then show "of_nat k \<in> fst ` set (areg_list (ap_reg p))"
    by simp
qed

lemma map_of_stamped:
  assumes "k < 2 ^ 16"
  shows "map_of (map (\<lambda>(k, v). (unat k, f (unat k) v)) xs) k = map_option (f k) (map_of xs (of_nat k :: u32))"
  using ucast_id(2) [OF assms] by (induction xs) auto

lemma stamp_idem [simp]: "stamp k (stamp k v) = stamp k v"
  by (simp add: stamp_def)

lemma find_val_ok:
  assumes "act_inv p" "0 < k" "k < 2 ^ 16"
  shows "\<exists>p'. find_val p k = Inr (p', map_of (act_entries p) k) \<and> act_inv p' \<and>
     act_entries p' = act_entries p \<and> act_next p' = act_next p"
proof -
  let ?r = "ap_reg p" and ?k = "of_nat k :: u32"
  note p = act_invD [OF assms(1)]
  have k: "ucast (of_nat k :: u16) = ?k" "unat ?k = k" "0 < ?k"
    using ucast_id [OF assms(3)] assms(2) by (simp_all add: word_less_nat_alt)
  obtain it where it: "find_reg ?r (assoc_reg_front ?r) (assoc_reg_end ?r) ?k = Inr it"
    "if ?k \<in> fst ` set (areg_list ?r)
     then it < ar_occ_bucket ?r \<and> bk_has_value (ar_arr ?r ! it) \<and> bk_key (ar_arr ?r ! it) = ?k
     else it = assoc_reg_end ?r"
    using find_reg_ok [OF p(1) k(3)] by (elim exE conjE)
  have view: "map_of (act_entries p) k = map_option (stamp k) (map_of (areg_list ?r) ?k)"
    unfolding act_entries_def by (rule map_of_stamped [OF assms(3)])
  show ?thesis
  proof (cases "?k \<in> fst ` set (areg_list ?r)")
    case False
    then have "map_of (areg_list ?r) ?k = None"
      by (simp add: map_of_eq_None_iff)
    then show ?thesis
      using it False view assms(1) k(1) by (simp add: find_val_def find_act_proc_def)
  next
    case True
    then have b: "it < ar_occ_bucket ?r" "bk_has_value (ar_arr ?r ! it)" "bk_key (ar_arr ?r ! it) = ?k"
      using it(2) by simp_all
    obtain v where v: "bk_val (ar_arr ?r ! it) = Some v" "(?k, v) \<in> set (areg_list ?r)"
      using areg_mem [OF p(1) b(1,2)] b(3) by auto
    have look: "map_of (areg_list ?r) ?k = Some v"
      using v(2) sorted_distinct [OF areg_keys(1) [OF p(1)]] by (simp add: map_of_is_SomeI)
    define r' where "r' = ?r\<lparr>ar_arr := (ar_arr ?r)[it := (ar_arr ?r ! it)\<lparr>bk_val := Some (stamp k v)\<rparr>]\<rparr>"
    have r': "areg_ok r'" "areg_list r' = map (\<lambda>e. if fst e = ?k then (fst e, stamp k v) else e) (areg_list ?r)"
      using act_put_ok [OF p(1) b(1,2) refl, of "stamp k v"] unfolding r'_def b(3) by simp_all
    have run: "find_val p k = Inr (p\<lparr>ap_reg := r'\<rparr>, Some (stamp k v))"
      using it(1) b v(1) k(1) unfolding find_val_def find_act_proc_def assoc_reg_value_def reg_bucket_def
      by (simp add: iterator_in_ds_def assoc_reg_end_def stamp_def r'_def Let_def)
    let ?g = "\<lambda>e. (unat (fst e), stamp (unat (fst e)) (snd e))"
    have "?g (if fst e = ?k then (fst e, stamp k v) else e) = ?g e" if "e \<in> set (areg_list ?r)" for e
    proof (cases "fst e = ?k")
      case True
      then have "map_of (areg_list ?r) ?k = Some (snd e)"
        using map_of_is_SomeI [OF sorted_distinct [OF areg_keys(1) [OF p(1)]], of "fst e" "snd e"] that
        by (metis prod.collapse)
      then show ?thesis
        using look True k(2) by simp
    qed simp
    then have "map ?g (areg_list r') = map ?g (areg_list ?r)"
      unfolding r'(2) map_map comp_def by (intro map_cong refl)
    then have "act_entries (p\<lparr>ap_reg := r'\<rparr>) = act_entries p"
      unfolding act_entries_def split_def by simp
    moreover have "act_inv (p\<lparr>ap_reg := r'\<rparr>)" "act_next (p\<lparr>ap_reg := r'\<rparr>) = act_next p"
      using r'(1) p by (simp_all add: act_inv_def act_next_def r'_def)
    ultimately show ?thesis
      using run view look by simp
  qed
qed

lemma add_val_ok:
  assumes "act_inv p" "act_next p < 2 ^ 16"
  shows "\<exists>p'. add_val p v = Inr (p', act_next p) \<and> act_inv p' \<and>
     act_entries p' = act_entries p @ [(act_next p, stamp (act_next p) v)] \<and> act_next p' = act_next p + 1"
proof -
  note p = act_invD [OF assms(1)]
  have u: "unat (of_nat (act_next p) :: u32) = act_next p"
    by (rule ucast_id(2) [OF assms(2)])
  have val: "\<lparr>apv_type = apv_type v, apv_id = apv_id v, apv_sm_cb = apv_sm_cb v,
      apv_e2_node = cp_global_e2_node_id (apv_e2_node v)\<rparr> = v"
    by simp
  obtain r where r: "assoc_reg_push_back (ap_reg p) v (ar_elm_sz (ap_reg p)) = Inr (r, of_nat (act_next p))" "areg_ok r"
    "areg_list r = areg_list (ap_reg p) @ [(of_nat (act_next p), v)]" "unat (ar_key_id r) = act_next p + 1"
    "ar_elm_sz r = ar_elm_sz (ap_reg p)"
    using areg_push_ok [OF p(1), of v] assms(2) unfolding act_next_def by auto
  have "add_val p v = Inr (p\<lparr>ap_reg := r\<rparr>, act_next p)"
    using r(1) unfolding p(2) add_val_def add_act_proc_def val
    by (cases "apv_type v") (simp_all add: valid_proc_type_def u)
  then show ?thesis
    using r(2-5) p(2) assms(2) u by (intro exI [of _ "p\<lparr>ap_reg := r\<rparr>"]) (simp add: act_inv_def act_next_def act_entries_def)
qed

lemma rm_val_ok:
  assumes "act_inv p" "k \<in> fst ` set (act_entries p)"
  shows "\<exists>p'. rm_val p k = Inr p' \<and> act_inv p' \<and>
     act_entries p' = filter (\<lambda>e. fst e \<noteq> k) (act_entries p) \<and> act_next p' = act_next p"
proof -
  let ?r = "ap_reg p" and ?k = "of_nat k :: u32"
  note p = act_invD [OF assms(1)]
  have lt: "k < act_next p" "0 < k"
    using assms(2) areg_keys(2) [OF p(1)] unfolding entries_keys act_next_def by (auto simp: word_less_nat_alt)
  then have k16: "k < 2 ^ 16"
    using p(3) by simp
  have k: "ucast (of_nat k :: u16) = ?k" "unat ?k = k" "0 < ?k"
    using ucast_id [OF k16] lt(2) by (simp_all add: word_less_nat_alt)
  obtain it where it: "find_reg ?r (assoc_reg_front ?r) (assoc_reg_end ?r) ?k = Inr it"
    "it < ar_occ_bucket ?r" "bk_has_value (ar_arr ?r ! it)" "bk_key (ar_arr ?r ! it) = ?k"
    using find_reg_ok [OF p(1) k(3)] assms(2) entries_key_iff [OF k16, of p] by auto
  obtain nx r where r: "assoc_reg_next ?r it = Inr nx" "assoc_reg_erase ?r it nx (Some free_act_proc_val) = Inr r" "areg_ok r"
    "areg_list r = filter (\<lambda>e. fst e \<noteq> ?k) (areg_list ?r)" "ar_key_id r = ar_key_id ?r" "ar_elm_sz r = ar_elm_sz ?r"
    using erase_one_ok [OF p(1) it(2,3), of free_act_proc_val] unfolding it(4) free_act_proc_val_def by auto
  have "rm_val p k = Inr (p\<lparr>ap_reg := r\<rparr>)"
    using it(1,2) r(1,2) k(1) by (simp add: rm_val_def rm_act_proc_def assoc_reg_end_def Let_def)
  moreover have "(unat (fst e) \<noteq> k) = (fst e \<noteq> ?k)" for e :: "u32 \<times> act_proc_val_t"
    using k(2) by auto
  then have "act_entries (p\<lparr>ap_reg := r\<rparr>) = filter (\<lambda>e. fst e \<noteq> k) (act_entries p)"
    by (simp add: act_entries_def r(4) filter_map comp_def split_def)
  moreover have "act_inv (p\<lparr>ap_reg := r\<rparr>)" "act_next (p\<lparr>ap_reg := r\<rparr>) = act_next p"
    using r(3,5,6) p by (simp_all add: act_inv_def act_next_def)
  ultimately show ?thesis
    by (intro exI [of _ "p\<lparr>ap_reg := r\<rparr>"] conjI)
qed

lemma rm_val_missing:
  assumes "act_inv p" "k < 2 ^ 16" "k \<notin> fst ` set (act_entries p)"
  shows "\<exists>e. rm_val p k = Inl e"
proof (cases "k = 0")
  case True
  then show ?thesis
    by (simp add: rm_val_def rm_act_proc_def find_reg_def Let_def)
next
  case False
  then have "0 < (of_nat k :: u32)"
    using ucast_id(2) [OF assms(2)] by (simp add: word_less_nat_alt)
  then have "find_reg (ap_reg p) (assoc_reg_front (ap_reg p)) (assoc_reg_end (ap_reg p)) (of_nat k) =
      Inr (assoc_reg_end (ap_reg p))"
    using find_reg_ok [OF act_invD(1) [OF assms(1)], of "of_nat k"] entries_key_iff [OF assms(2), of p] assms(3) by auto
  then show ?thesis
    using ucast_id(1) [OF assms(2)] by (simp add: rm_val_def rm_act_proc_def Let_def)
qed

interpretation act: id_table act_inv act_entries act_next "2 ^ 16" stamp add_val find_val rm_val
proof unfold_locales
  fix p k
  assume p: "act_inv p"
  note a = areg_keys [OF act_invD(1) [OF p]]
  have keys: "map fst (act_entries p) = map unat (map fst (areg_list (ap_reg p)))"
    by (simp add: act_entries_def split_def)
  show "k \<in> fst ` set (act_entries p) \<Longrightarrow> 0 < k \<and> k < act_next p"
    using a(2) unfolding entries_keys act_next_def by (auto simp: word_less_nat_alt)
  show "distinct (map fst (act_entries p))"
    using sorted_distinct [OF a(1)] unfolding keys distinct_map [of unat] by (simp add: inj_on_def word_unat_eq_iff)
qed (fact add_val_ok find_val_ok rm_val_ok rm_val_missing)+

section \<open>Properties\<close>

text \<open>Every state that the operations of an xApp lead to.\<close>

inductive act_reach :: "act_proc_t \<Rightarrow> bool" where
  start: "act_reach init_act_proc"
| add: "act_reach p \<Longrightarrow> act_next p < 2 ^ 16 \<Longrightarrow> add_val p v = Inr (p', k) \<Longrightarrow> act_reach p'"
| find: "act_reach p \<Longrightarrow> 0 < k \<Longrightarrow> k < 2 ^ 16 \<Longrightarrow> find_val p k = Inr (p', v) \<Longrightarrow> act_reach p'"
| rm: "act_reach p \<Longrightarrow> rm_val p k = Inr p' \<Longrightarrow> act_reach p'"

lemma rm_val_Inr_mem:
  assumes "act_inv p" "rm_val p k = Inr p'"
  shows "\<exists>j. j \<in> fst ` set (act_entries p) \<and> rm_val p k = rm_val p j"
proof -
  let ?j = "k mod 2 ^ 16"
  have "of_nat ?j = (of_nat k :: u16)"
    by (simp add: word_unat_eq_iff unsigned_of_nat take_bit_eq_mod)
  then have eq: "rm_val p k = rm_val p ?j"
    by (simp add: rm_val_def)
  then have "?j \<in> fst ` set (act_entries p)"
    using rm_val_missing [OF assms(1), of ?j] assms(2) by fastforce
  then show ?thesis
    using eq by blast
qed

lemma act_reach_inv: "act_reach p \<Longrightarrow> act_inv p"
proof (induction rule: act_reach.induct)
  case start
  then show ?case
    by (rule init_act_inv(1))
next
  case (add p v p' k)
  then show ?case
    using add_val_ok [OF add.IH add.hyps(2), of v] by auto
next
  case (find p k p' v)
  then show ?case
    using find_val_ok [OF find.IH find.hyps(2,3)] by auto
next
  case (rm p k p')
  then show ?case
    using rm_val_Inr_mem [OF rm.IH rm.hyps(2)] rm_val_ok [OF rm.IH] by fastforce
qed

text \<open>
  C38. In every state the xApp can bring its table of active procedures into, the self test that
  the source defines for a registry passes, the keys are pairwise different, and the block is
  at most four times as large as the number of procedures, or has the minimal 16 buckets.
\<close>

theorem act_proc_well_formed:
  assumes "act_reach p"
  shows "test_invariants_registry_hold (ap_reg p) = Inr () \<and> distinct (map fst (act_entries p)) \<and>
    ar_sz (ap_reg p) = length (act_entries p) \<and>
    (ar_cap (ap_reg p) = MIN_SIZE_REG \<or> ar_cap (ap_reg p) \<le> 4 * length (act_entries p))"
proof -
  note p = act_reach_inv [OF assms]
  have "ar_sz (ap_reg p) = length (act_entries p)"
    using areg_okD(4) [OF act_invD(1) [OF p]] by (simp add: act_entries_def areg_list_def)
  then show ?thesis
    using self_test_ok [OF act_invD(1) [OF p]] act.ids_distinct [OF p] areg_okD(10) [OF act_invD(1) [OF p]]
    by (simp add: MIN_SIZE_REG_def)
qed

definition example_proc :: act_proc_val_t where
  "example_proc = \<lparr>apv_type = RIC_SUBSCRIPTION_PROCEDURE_ACTIVE,
     apv_id = \<lparr>ric_req_id = 0, ric_inst_id = 0, ran_func_id = 148\<rparr>, apv_sm_cb = Some 7,
     apv_e2_node = node_gnb\<rparr>"

theorem act_proc_well_formed_witness:
  "\<exists>p. act_reach p \<and> act_entries p = [(1, stamp 1 example_proc)] \<and>
    test_invariants_registry_hold (ap_reg p) = Inr () \<and> ar_cap (ap_reg p) = MIN_SIZE_REG"
proof -
  obtain p where p: "add_val init_act_proc example_proc = Inr (p, 1)" "act_entries p = [(1, stamp 1 example_proc)]"
    using add_val_ok [OF init_act_inv(1), of example_proc] unfolding init_act_inv(2,3) by auto
  have r: "act_reach p"
    by (rule act_reach.add [OF act_reach.start _ p(1)]) (simp add: init_act_inv(3))
  obtain c where "ar_cap (ap_reg p) = 16 * c" "1 \<le> c"
    using areg_okD(2) [OF act_invD(1) [OF act_reach_inv [OF r]]] by (metis one_le_numeral one_le_power)
  then have "\<not> ar_cap (ap_reg p) \<le> 4 * length (act_entries p)"
    unfolding p(2) by simp
  then have "ar_cap (ap_reg p) = MIN_SIZE_REG"
    using act_proc_well_formed [OF r] by blast
  then show ?thesis
    using act_proc_well_formed [OF r] p(2) r by blast
qed

text \<open>
  C13. The table of active procedures is a map with a counter: every sequence of additions,
  searches and removals that a list of entries supports returns on the registry the same ids
  and values, the ids count up from 1, and an id is never given out twice.
\<close>

theorem act_proc_refines_map:
  assumes "run_ids stamp (2 ^ 16) ops [] 1 = Some (es, n, out)"
  shows "\<exists>p'. run_table add_val find_val rm_val ops init_act_proc = Inr (p', out) \<and>
    act_entries p' = es \<and> act_next p' = n"
  using act.run_refines [OF init_act_inv(1), of ops es n out] assms unfolding init_act_inv(2,3) by blast

theorem act_proc_refines_map_witness:
  "\<exists>p'. run_table add_val find_val rm_val
      [Add_Id example_proc, Add_Id example_proc, Rm_Id 1, Find_Id 1, Find_Id 2, Add_Id example_proc] init_act_proc =
    Inr (p', [Added 1, Added 2, Removed, Found None, Found (Some (stamp 2 example_proc)), Added 3]) \<and>
    act_entries p' = [(2, stamp 2 example_proc), (3, stamp 3 example_proc)] \<and> act_next p' = 4"
  by (rule act_proc_refines_map) (simp del: One_nat_def)

end
