(* ===== verification/C_Printf.thy ===== *)
theory C_Printf
  imports Flex_Prelude
begin

text \<open>
  The conversions of \<^verbatim>\<open>snprintf\<close> that the data base writer of the xApp uses: decimal integers,
  strings, and \<^verbatim>\<open>%f\<close>, \<^verbatim>\<open>%.2f\<close> and \<^verbatim>\<open>%g\<close> of a floating-point number.  A number of type
  \<^verbatim>\<open>float\<close> or \<^verbatim>\<open>double\<close> is given by its bits; its text is the exact value rounded to the
  printed digits, ties to even, as the C library prints it.  The lemmas bound the lengths.
\<close>

section \<open>Integers\<close>

definition digit_char :: "nat \<Rightarrow> char" where
  "digit_char d = char_of (48 + d)"

fun show_nat :: "nat \<Rightarrow> string" where
  "show_nat n = (if n < 10 then [digit_char n] else show_nat (n div 10) @ [digit_char (n mod 10)])"

declare show_nat.simps [simp del]

definition fmt_u :: "nat \<Rightarrow> string" where
  "fmt_u n = show_nat n"

definition fmt_d :: "int \<Rightarrow> string" where
  "fmt_d i = (if i < 0 then ''-'' @ show_nat (nat (- i)) else show_nat (nat i))"

text \<open>A null pointer printed with \<^verbatim>\<open>%s\<close>.\<close>

definition fmt_s :: "string option \<Rightarrow> string" where
  "fmt_s s = (case s of None \<Rightarrow> ''(null)'' | Some t \<Rightarrow> t)"

section \<open>Floating-point numbers\<close>

text \<open>\<open>Num neg m e\<close> is \<open>m * 2 ^ e\<close> with a sign.\<close>

datatype flt = Inf bool | Nan bool | Num bool nat int

definition flt_of_bits :: "nat \<Rightarrow> nat \<Rightarrow> nat \<Rightarrow> flt" where
  "flt_of_bits ebits mbits w =
     (let m = w mod 2 ^ mbits;
          e = w div 2 ^ mbits mod 2 ^ ebits;
          neg = odd (w div 2 ^ (mbits + ebits));
          bias = 2 ^ (ebits - 1) - 1
      in if e = 2 ^ ebits - 1 then (if m = 0 then Inf neg else Nan neg)
         else if e = 0 then Num neg m (1 - int bias - int mbits)
         else Num neg (m + 2 ^ mbits) (int e - int bias - int mbits))"

definition flt_of_float :: "u32 \<Rightarrow> flt" where
  "flt_of_float w = flt_of_bits 8 23 (unat w)"

definition flt_of_double :: "u64 \<Rightarrow> flt" where
  "flt_of_double w = flt_of_bits 11 52 (unat w)"

definition round_div :: "nat \<Rightarrow> nat \<Rightarrow> nat" where
  "round_div a b =
     (let q = a div b; r = a mod b
      in if 2 * r > b \<or> (2 * r = b \<and> odd q) then q + 1 else q)"

text \<open>The integer nearest to \<open>m * 2 ^ e * 10 ^ x\<close>.\<close>

definition scaled :: "nat \<Rightarrow> int \<Rightarrow> int \<Rightarrow> nat" where
  "scaled m e x = round_div (m * 2 ^ nat e * 10 ^ nat x) (2 ^ nat (- e) * 10 ^ nat (- x))"

definition pad :: "nat \<Rightarrow> string \<Rightarrow> string" where
  "pad k s = replicate (k - length s) (CHR ''0'') @ s"

definition with_sign :: "bool \<Rightarrow> string \<Rightarrow> string" where
  "with_sign neg s = (if neg then ''-'' @ s else s)"

definition fmt_fixed :: "nat \<Rightarrow> flt \<Rightarrow> string" where
  "fmt_fixed p v =
     (case v of
        Inf neg \<Rightarrow> with_sign neg ''inf''
      | Nan neg \<Rightarrow> with_sign neg ''nan''
      | Num neg m e \<Rightarrow>
          let n = scaled m e (int p)
          in with_sign neg (show_nat (n div 10 ^ p) @ ''.'' @ pad p (show_nat (n mod 10 ^ p))))"

definition strip_zeros :: "string \<Rightarrow> string" where
  "strip_zeros s = rev (dropWhile (\<lambda>c. c = CHR ''0'') (rev s))"

definition with_point :: "string \<Rightarrow> string \<Rightarrow> string" where
  "with_point a b = (let b = strip_zeros b in if b = [] then a else a @ ''.'' @ b)"

text \<open>
  \<^verbatim>\<open>%g\<close>: six significant digits; the exponent is the first for which the rounded value has at
  most six digits.  The exponents of a \<^verbatim>\<open>float\<close> are between -46 and 39.
\<close>

definition fmt_g :: "flt \<Rightarrow> string" where
  "fmt_g v =
     (case v of
        Inf neg \<Rightarrow> with_sign neg ''inf''
      | Nan neg \<Rightarrow> with_sign neg ''nan''
      | Num neg m e \<Rightarrow>
          with_sign neg (
            if m = 0 then ''0''
            else
              case List.find (\<lambda>x. scaled m e (5 - x) < 10 ^ 6) [-46..39] of
                None \<Rightarrow> ''''
              | Some x \<Rightarrow>
                  let d = scaled m e (5 - x)
                  in if -4 \<le> x \<and> x < 6
                     then with_point (show_nat (d div 10 ^ nat (5 - x))) (pad (nat (5 - x)) (show_nat (d mod 10 ^ nat (5 - x))))
                     else with_point (show_nat (d div 10 ^ 5)) (pad 5 (show_nat (d mod 10 ^ 5))) @
                          (if x < 0 then ''e-'' else ''e+'') @ pad 2 (show_nat (nat \<bar>x\<bar>))))"

section \<open>Lengths\<close>

lemma show_nat_pos: "1 \<le> length (show_nat n)"
  by (subst show_nat.simps) simp

lemma show_nat_le: "0 < k \<Longrightarrow> n < 10 ^ k \<Longrightarrow> length (show_nat n) \<le> k"
proof (induction n arbitrary: k rule: show_nat.induct)
  case (1 n)
  show ?case
  proof (cases "n < 10")
    case True
    then show ?thesis
      using "1.prems"(1) by (simp add: show_nat.simps)
  next
    case False
    then obtain j where j: "k = Suc j" "0 < j"
      using "1.prems" by (cases k; cases "k - 1") auto
    have "n div 10 < 10 ^ j"
      using "1.prems"(2) by (simp add: j(1) less_mult_imp_div_less mult.commute)
    then show ?thesis
      using "1.IH" [OF False j(2)] False by (subst show_nat.simps) (simp add: j(1))
  qed
qed

lemma fmt_lower [simp]: "1 \<le> length (fmt_u n)" "1 \<le> length (fmt_d i)"
  using show_nat_pos [of n] show_nat_pos [of "nat i"] by (auto simp: fmt_u_def fmt_d_def)

lemma fmt_u_le: "n < 10 ^ k \<Longrightarrow> 0 < k \<Longrightarrow> length (fmt_u n) \<le> k"
  by (simp add: fmt_u_def show_nat_le)

lemma fmt_d_le: "\<bar>i\<bar> < 10 ^ k \<Longrightarrow> 0 < k \<Longrightarrow> length (fmt_d i) \<le> Suc k"
  using show_nat_le [of k "nat (- i)"] show_nat_le [of k "nat i"]
  by (auto simp: fmt_d_def nat_less_iff)

lemma with_sign_length: "length s \<le> length (with_sign neg s)" "length (with_sign neg s) \<le> Suc (length s)"
  by (simp_all add: with_sign_def)

lemma fmt_fixed_lower [simp]: "3 \<le> length (fmt_fixed p v)" if "0 < p"
proof (cases v)
  case (Num neg m e)
  let ?n = "scaled m e (int p)"
  have "3 \<le> length (show_nat (?n div 10 ^ p) @ ''.'' @ pad p (show_nat (?n mod 10 ^ p)))"
    using show_nat_pos [of "?n div 10 ^ p"] show_nat_pos [of "?n mod 10 ^ p"] by (simp add: pad_def)
  then show ?thesis
    using with_sign_length(1) [of "show_nat (?n div 10 ^ p) @ ''.'' @ pad p (show_nat (?n mod 10 ^ p))" neg]
    unfolding fmt_fixed_def Num by (simp add: Let_def del: length_append)
qed (simp_all add: fmt_fixed_def with_sign_def)

end
