(* ===== verification/Xapp_Sql.thy ===== *)
theory Xapp_Sql
  imports C_Printf Near_Ric Gtp_Codec
begin

text \<open>
  The data base of an xApp, \<^verbatim>\<open>xApp/db/sqlite3/sqlite3_wrapper.c\<close>: the tables it creates, the
  text of the row that every record of an indication becomes, the buffer in which the rows of
  an indication are collected, and the choice of the writer by the type of the indication.

  SQLite is a parameter: \<open>exec db sql\<close> is the data base after \<^verbatim>\<open>sqlite3_exec\<close> and whether it
  returned \<^verbatim>\<open>SQLITE_OK\<close>.  Floating-point numbers and signed integers are the words of their
  object representation.  The decoded structure of an indication is opaque in the rest of the
  development; \<open>rd_view\<close> reads the members of its union.
\<close>

section \<open>Structures\<close>

text \<open>The arrays of the retransmissions have five elements.\<close>

record mac_ue_stats_impl_t =
  mac_dl_aggr_tbs :: u64
  mac_ul_aggr_tbs :: u64
  mac_dl_aggr_bytes_sdus :: u64
  mac_ul_aggr_bytes_sdus :: u64
  mac_dl_curr_tbs :: u64
  mac_ul_curr_tbs :: u64
  mac_dl_sched_rb :: u64
  mac_ul_sched_rb :: u64
  mac_pusch_snr :: u32
  mac_pucch_snr :: u32
  mac_dl_bler :: u32
  mac_ul_bler :: u32
  mac_dl_harq :: "u32 list"
  mac_ul_harq :: "u32 list"
  mac_dl_num_harq :: u32
  mac_ul_num_harq :: u32
  mac_rnti :: u32
  mac_dl_aggr_prb :: u32
  mac_ul_aggr_prb :: u32
  mac_dl_aggr_sdus :: u32
  mac_ul_aggr_sdus :: u32
  mac_dl_aggr_retx_prb :: u32
  mac_ul_aggr_retx_prb :: u32
  mac_bsr :: u32
  mac_frame :: u16
  mac_slot :: u16
  mac_wb_cqi :: u8
  mac_dl_mcs1 :: u8
  mac_ul_mcs1 :: u8
  mac_dl_mcs2 :: u8
  mac_ul_mcs2 :: u8
  mac_phr :: u8
  mac_in_sync :: bool
  mac_pcmax :: u32
  mac_pmi_cqi_ri :: u8
  mac_pmi_cqi_X1 :: u8
  mac_pmi_cqi_X2 :: u8
  mac_raw_rssi :: u32
  mac_cqi :: u8
  mac_rsrp :: u64
  mac_nr_cellid :: u64

record mac_ind_msg_t =
  mac_ue_stats :: "mac_ue_stats_impl_t list"
  mac_tstamp :: u64

record rlc_radio_bearer_stats_t =
  rlc_txpdu_pkts :: u32
  rlc_txpdu_bytes :: u32
  rlc_txpdu_wt_ms :: u32
  rlc_txpdu_dd_pkts :: u32
  rlc_txpdu_dd_bytes :: u32
  rlc_txpdu_retx_pkts :: u32
  rlc_txpdu_retx_bytes :: u32
  rlc_txpdu_segmented :: u32
  rlc_txpdu_status_pkts :: u32
  rlc_txpdu_status_bytes :: u32
  rlc_txbuf_occ_bytes :: u32
  rlc_txbuf_occ_pkts :: u32
  rlc_rxpdu_pkts :: u32
  rlc_rxpdu_bytes :: u32
  rlc_rxpdu_dup_pkts :: u32
  rlc_rxpdu_dup_bytes :: u32
  rlc_rxpdu_dd_pkts :: u32
  rlc_rxpdu_dd_bytes :: u32
  rlc_rxpdu_ow_pkts :: u32
  rlc_rxpdu_ow_bytes :: u32
  rlc_rxpdu_status_pkts :: u32
  rlc_rxpdu_status_bytes :: u32
  rlc_rxbuf_occ_bytes :: u32
  rlc_rxbuf_occ_pkts :: u32
  rlc_txsdu_pkts :: u32
  rlc_txsdu_bytes :: u64
  rlc_txsdu_avg_time_to_tx :: u64
  rlc_txsdu_wt_us :: u32
  rlc_rxsdu_pkts :: u32
  rlc_rxsdu_bytes :: u64
  rlc_rxsdu_dd_pkts :: u32
  rlc_rxsdu_dd_bytes :: u32
  rlc_rnti :: u32
  rlc_mode :: u8
  rlc_rbid :: u8

record rlc_ind_msg_t =
  rlc_rb :: "rlc_radio_bearer_stats_t list"
  rlc_tstamp :: u64

record pdcp_radio_bearer_stats_t =
  pdcp_txpdu_pkts :: u32
  pdcp_txpdu_bytes :: u32
  pdcp_txpdu_sn :: u32
  pdcp_rxpdu_pkts :: u32
  pdcp_rxpdu_bytes :: u32
  pdcp_rxpdu_sn :: u32
  pdcp_rxpdu_oo_pkts :: u32
  pdcp_rxpdu_oo_bytes :: u32
  pdcp_rxpdu_dd_pkts :: u32
  pdcp_rxpdu_dd_bytes :: u32
  pdcp_rxpdu_ro_count :: u32
  pdcp_txsdu_pkts :: u32
  pdcp_txsdu_bytes :: u32
  pdcp_rxsdu_pkts :: u32
  pdcp_rxsdu_bytes :: u32
  pdcp_rnti :: u32
  pdcp_mode :: u8
  pdcp_rbid :: u8

record pdcp_ind_msg_t =
  pdcp_rb :: "pdcp_radio_bearer_stats_t list"
  pdcp_tstamp :: u64

text \<open>
  What the statements read of the slices; of their parameters, the member of the union that the type
  selects.
\<close>

datatype nvs_slice_view = NVS_RATE u32 u32 | NVS_CAPACITY u32 | NVS_OTHER

datatype slice_params_view =
    SLICE_STATIC u32 u32
  | SLICE_NVS nvs_slice_view
  | SLICE_SCN19
  | SLICE_EDF u32 u32 u32
  | SLICE_NONE

record fr_slice_view =
  sl_id :: u32
  sl_label :: string
  sl_sched :: string
  sl_params :: slice_params_view

record ul_dl_slice_conf_view =
  sc_slices :: "fr_slice_view list"
  sc_sched_name :: string

record ue_slice_assoc_view =
  ua_dl_id :: u32
  ua_ul_id :: u32
  ua_rnti :: u16

record slice_ind_msg_view =
  si_dl :: ul_dl_slice_conf_view
  si_ul :: ul_dl_slice_conf_view
  si_ues :: "ue_slice_assoc_view list"
  si_tstamp :: u64

record rd_view =
  as_mac :: "byte_array_t \<Rightarrow> mac_ind_msg_t"
  as_rlc :: "byte_array_t \<Rightarrow> rlc_ind_msg_t"
  as_pdcp :: "byte_array_t \<Rightarrow> pdcp_ind_msg_t"
  as_slice :: "byte_array_t \<Rightarrow> slice_ind_msg_view"
  as_gtp :: "byte_array_t \<Rightarrow> gtp_ind_msg_t"

section \<open>Tables\<close>

text \<open>The columns of every table, as the code writes them.\<close>

definition mac_ue_columns :: "string list" where
  "mac_ue_columns =
     [''tstamp INT CHECK(tstamp > 0)'', ''ngran_node INT CHECK(ngran_node >= 0 AND ngran_node < 9)'', ''mcc INT'',
      ''mnc INT'', ''mnc_digit_len INT'', ''nb_id INT'', ''cu_du_id TEXT'', ''frame INT'', ''slot INT'',
      ''dl_aggr_tbs INT CHECK(dl_aggr_tbs  >= 0 AND dl_aggr_tbs < 18446744073709551615)'',
      ''ul_aggr_tbs INT CHECK(ul_aggr_tbs  >= 0 AND ul_aggr_tbs < 18446744073709551615)'',
      ''dl_aggr_bytes_sdus  INT CHECK(dl_aggr_bytes_sdus  >= 0 AND dl_aggr_bytes_sdus < 18446744073709551615)'',
      ''ul_aggr_bytes_sdus INT CHECK(ul_aggr_bytes_sdus >= 0 AND ul_aggr_bytes_sdus < 18446744073709551615)'',
      ''dl_curr_tbs INT CHECK(dl_curr_tbs >= 0 AND dl_curr_tbs < 18446744073709551615)'',
      ''ul_curr_tbs INT CHECK(ul_curr_tbs >= 0 AND ul_curr_tbs < 18446744073709551615)'',
      ''dl_sched_rb INT CHECK(dl_sched_rb >= 0 AND dl_sched_rb < 18446744073709551615)'',
      ''ul_sched_rb INT CHECK(ul_sched_rb >= 0 AND ul_sched_rb < 18446744073709551615)'',
      ''pusch_snr REAL CHECK(pusch_snr == NULL OR (pusch_snr >= 0 AND pusch_snr < 4294967296))'',
      ''pucch_snr REAL CHECK(pucch_snr == NULL OR (pucch_snr >= 0 AND pucch_snr < 4294967296)) '',
      ''rnti INT  CHECK(rnti  >= 0 AND rnti < 4294967296 )'',
      ''dl_aggr_prb INT  CHECK(dl_aggr_prb >= 0 AND dl_aggr_prb < 4294967296 )'',
      ''ul_aggr_prb INT  CHECK(ul_aggr_prb >= 0 AND ul_aggr_prb < 4294967296 )'',
      ''dl_aggr_sdus INT  CHECK(dl_aggr_sdus >= 0 AND dl_aggr_sdus < 4294967296 )'',
      ''ul_aggr_sdus INT  CHECK(ul_aggr_sdus >= 0 AND ul_aggr_sdus < 4294967296 )'',
      ''dl_aggr_retx_prb  INT  CHECK(dl_aggr_retx_prb >= 0 AND dl_aggr_retx_prb < 4294967296 )'',
      ''ul_aggr_retx_prb  INT  CHECK(ul_aggr_retx_prb >= 0 AND ul_aggr_retx_prb < 4294967296 )'',
      ''wb_cqi INT  CHECK(wb_cqi >= 0 AND wb_cqi < 256 )'', ''dl_mcs1 INT  CHECK(dl_mcs1>= 0 AND dl_mcs1 < 256)'',
      ''ul_mcs1  INT CHECK(ul_mcs1 >= 0 AND ul_mcs1 < 256)'', ''dl_mcs2  INT CHECK(dl_mcs2 >= 0 AND dl_mcs2 < 256)'',
      ''ul_mcs2 INT CHECK(ul_mcs2 >= 0 AND ul_mcs2 < 256)'', ''phr INT CHECK(phr >= 0 AND  phr < 4294967296)'',
      ''bsr INT CHECK(bsr >= 0 AND  bsr < 4294967296)'',
      ''dl_bler REAL CHECK(dl_bler  >= 0 AND dl_bler < 4294967296)'',
      ''ul_bler REAL CHECK(ul_bler  >= 0 AND ul_bler < 4294967296)'',
      ''dl_num_harq INT CHECK(dl_num_harq >= 0 AND  dl_num_harq < 5)'',
      ''dl_harq_round0 INT CHECK(dl_harq_round0 >= 0 AND  dl_harq_round0 < 4294967296)'',
      ''dl_harq_round1 INT CHECK(dl_harq_round1 >= 0 AND  dl_harq_round1 < 4294967296)'',
      ''dl_harq_round2 INT CHECK(dl_harq_round2 >= 0 AND  dl_harq_round2 < 4294967296)'',
      ''dl_harq_round3 INT CHECK(dl_harq_round3 >= 0 AND  dl_harq_round3 < 4294967296)'',
      ''dlsch_errors INT CHECK(dlsch_errors >= 0 AND  dlsch_errors < 4294967296)'',
      ''ul_num_harq INT CHECK(ul_num_harq >= 0 AND  ul_num_harq < 5)'',
      ''ul_harq_round0 INT CHECK(ul_harq_round0 >= 0 AND  ul_harq_round0 < 4294967296)'',
      ''ul_harq_round1 INT CHECK(ul_harq_round1 >= 0 AND  ul_harq_round1 < 4294967296)'',
      ''ul_harq_round2 INT CHECK(ul_harq_round2 >= 0 AND  ul_harq_round2 < 4294967296)'',
      ''ul_harq_round3 INT CHECK(ul_harq_round3 >= 0 AND  ul_harq_round3 < 4294967296)'',
      ''ulsch_errors INT CHECK(ulsch_errors >= 0 AND  ulsch_errors < 4294967296)'', ''pcmax INT'', ''raw_rssi REAL'',
      ''cqi INT'', ''rsrp INT'']"

definition rlc_bearer_columns :: "string list" where
  "rlc_bearer_columns =
     [''tstamp INT CHECK(tstamp > 0)'', ''ngran_node INT CHECK(ngran_node >= 0 AND ngran_node < 9)'', ''mcc INT'',
      ''mnc INT'', ''mnc_digit_len INT'', ''nb_id INT'', ''cu_du_id TEXT'',
      ''txpdu_pkts INT CHECK(txpdu_pkts >= 0 AND txpdu_pkts < 4294967296)'',
      ''txpdu_bytes INT CHECK(txpdu_bytes >= 0 AND  txpdu_bytes < 4294967296 )'',
      ''txpdu_wt_ms  INT CHECK(txpdu_wt_ms  >= 0 AND  txpdu_wt_ms  < 4294967296 )'',
      ''txpdu_dd_pkts INT CHECK(txpdu_dd_pkts >= 0 AND  txpdu_dd_pkts < 4294967296 ) '',
      ''txpdu_dd_bytes INT  CHECK(txpdu_dd_bytes >= 0 AND  txpdu_dd_bytes < 4294967296 )'',
      ''txpdu_retx_pkts INT CHECK(txpdu_retx_pkts >= 0 AND  txpdu_retx_pkts < 4294967296 ) '',
      ''txpdu_retx_bytes INT  CHECK(txpdu_retx_bytes >= 0 AND  txpdu_retx_bytes < 4294967296 )'',
      ''txpdu_segmented INT  CHECK(txpdu_segmented >= 0 AND  txpdu_segmented < 4294967296 )'',
      ''txpdu_status_pkts INT  CHECK(txpdu_status_pkts >= 0 AND  txpdu_status_pkts < 4294967296 )'',
      ''txpdu_status_bytes INT  CHECK(txpdu_status_bytes >= 0 AND  txpdu_status_bytes < 4294967296 )'',
      ''txbuf_occ_bytes INT  CHECK(txbuf_occ_bytes >= 0 AND  txbuf_occ_bytes < 4294967296 )'',
      ''txbuf_occ_pkts INT  CHECK(txbuf_occ_pkts >= 0 AND  txbuf_occ_pkts < 4294967296 )'',
      ''rxpdu_pkts INT  CHECK(rxpdu_pkts >= 0 AND  rxpdu_pkts < 4294967296 )'',
      ''rxpdu_bytes INT  CHECK(rxpdu_bytes >= 0 AND  rxpdu_bytes < 4294967296 )'',
      ''rxpdu_dup_pkts INT CHECK(rxpdu_dup_pkts >= 0 AND  rxpdu_dup_pkts < 4294967296 )'',
      ''rxpdu_dup_bytes INT CHECK(rxpdu_dup_bytes >= 0 AND  rxpdu_dup_bytes < 4294967296 )'',
      ''rxpdu_dd_pkts INT CHECK(rxpdu_dd_pkts >= 0 AND  rxpdu_dd_pkts < 4294967296 )'',
      ''rxpdu_dd_bytes INT CHECK(rxpdu_dd_bytes >= 0 AND  rxpdu_dd_bytes < 4294967296 )'',
      ''rxpdu_ow_pkts INT CHECK(rxpdu_ow_pkts >= 0 AND  rxpdu_ow_pkts < 4294967296 )'',
      ''rxpdu_ow_bytes INT CHECK(rxpdu_ow_bytes >= 0 AND  rxpdu_ow_bytes < 4294967296 )'',
      ''rxpdu_status_pkts INT CHECK(rxpdu_status_pkts >= 0 AND  rxpdu_status_pkts < 4294967296 )'',
      ''rxpdu_status_bytes INT CHECK(rxpdu_status_bytes >= 0 AND  rxpdu_status_bytes < 4294967296 )'',
      ''rxbuf_occ_bytes INT CHECK(rxbuf_occ_bytes >= 0 AND  rxbuf_occ_bytes < 4294967296 )'',
      ''rxbuf_occ_pkts INT CHECK(rxbuf_occ_pkts >= 0 AND  rxbuf_occ_pkts < 4294967296 )'',
      ''txsdu_pkts INT CHECK(txsdu_pkts >= 0 AND  txsdu_pkts < 4294967296 )'',
      ''txsdu_bytes INT CHECK(txsdu_bytes >= 0 AND  txsdu_bytes < 4294967296 )'',
      ''txsdu_avg_time_to_tx REAL CHECK(txsdu_avg_time_to_tx >= 0 AND  txsdu_avg_time_to_tx < 4294967296 )'',
      ''txsdu_wt_us INT CHECK(txsdu_wt_us >= 0 AND  txsdu_wt_us < 4294967296 )'',
      ''rxsdu_pkts INT CHECK(rxsdu_pkts >= 0 AND  rxsdu_pkts < 4294967296 )'',
      ''rxsdu_bytes INT CHECK(rxsdu_bytes >= 0 AND  rxsdu_bytes < 4294967296 )'',
      ''rxsdu_dd_pkts INT CHECK(rxsdu_dd_pkts >= 0 AND  rxsdu_dd_pkts < 4294967296 )'',
      ''rxsdu_dd_bytes INT CHECK(rxsdu_dd_bytes >= 0 AND  rxsdu_dd_bytes < 4294967296 )'',
      ''rnti INT CHECK(rnti >= 0 AND  rnti < 4294967296 )'', ''mode INT CHECK(mode >= 0 AND  mode < 3)'',
      ''rbid INT CHECK(rbid >= 0 AND  rbid < 16)'']"

definition pdcp_bearer_columns :: "string list" where
  "pdcp_bearer_columns =
     [''tstamp INT CHECK(tstamp > 0)'', ''ngran_node INT CHECK(ngran_node >= 0 AND ngran_node <= 10)'', ''mcc INT'',
      ''mnc INT'', ''mnc_digit_len INT'', ''nb_id INT'', ''cu_du_id TEXT'',
      ''txpdu_pkts INT CHECK(txpdu_pkts  >= 0 AND txpdu_pkts  < 4294967296)'',
      ''txpdu_bytes INT CHECK(txpdu_bytes >=0 AND txpdu_bytes < 4294967296 )'',
      ''txpdu_sn INT CHECK(txpdu_sn >=0 AND txpdu_sn < 4294967296 )'',
      ''rxpdu_pkts INT CHECK(rxpdu_pkts >=0 AND rxpdu_pkts < 4294967296 )'',
      ''rxpdu_bytes INT CHECK(rxpdu_bytes >=0 AND rxpdu_bytes < 4294967296 )'',
      ''rxpdu_sn  INT CHECK(rxpdu_sn  >= 0 AND rxpdu_sn  < 4294967296 ) '',
      ''rxpdu_oo_pkts INT  CHECK(rxpdu_oo_pkts >= 0 AND rxpdu_oo_pkts < 4294967296 )'',
      ''rxpdu_oo_bytes INT  CHECK(rxpdu_oo_bytes >= 0 AND rxpdu_oo_bytes < 4294967296 )'',
      ''rxpdu_dd_pkts INT  CHECK(rxpdu_dd_pkts >= 0 AND rxpdu_dd_pkts < 4294967296 )'',
      ''rxpdu_dd_bytes INT  CHECK(rxpdu_dd_bytes >= 0 AND rxpdu_dd_bytes < 4294967296 )'',
      ''rxpdu_ro_count INT  CHECK(rxpdu_ro_count >= 0 AND rxpdu_ro_count < 4294967296 )'',
      ''txsdu_pkts INT  CHECK(txsdu_pkts >= 0 AND txsdu_pkts < 4294967296 )'',
      ''txsdu_bytes INT  CHECK(txsdu_bytes >= 0 AND txsdu_bytes <4294967296 )'',
      ''rxsdu_pkts INT  CHECK(rxsdu_pkts >= 0 AND rxsdu_pkts <4294967296)'',
      ''rxsdu_bytes INT CHECK(rxsdu_bytes >= 0 AND rxsdu_bytes <4294967296)'',
      ''rnti INT CHECK(rnti >= 0 AND rnti <4294967296)'', ''mode INT CHECK(mode >= 0 AND mode < 4294967296)'',
      ''rbid INT CHECK(rbid >= 0 AND rbid < 4294967296)'']"

definition slice_columns :: "string list" where
  "slice_columns =
     [''tstamp INT CHECK(tstamp > 0)'', ''ngran_node INT CHECK(ngran_node >= 0 AND ngran_node < 9)'', ''mcc INT'',
      ''mnc INT'', ''mnc_digit_len INT'', ''nb_id INT'', ''cu_du_id TEXT'',
      ''len_slices INT CHECK(len_slices  >= 0 AND len_slices < 4)'', ''sched_name TEXT'',
      ''id INT CHECK(id >=0 AND id < 4294967296)'', ''label TEXT'', ''type TEXT'', ''type_conf TEXT'',
      ''sched TEXT'',
      ''type_param0 REAL CHECK(type_param0 == NULL OR (type_param0 >= 0 AND type_param0 < 4294967296))'',
      ''type_param1 REAL CHECK(type_param1 == NULL OR (type_param1 >= 0 AND type_param1 < 4294967296))'',
      ''type_param2 REAL CHECK(type_param2 == NULL OR (type_param2 >= 0 AND type_param2 < 4294967296))'']"

definition ue_slice_columns :: "string list" where
  "ue_slice_columns =
     [''tstamp INT CHECK(tstamp > 0)'', ''ngran_node INT CHECK(ngran_node >= 0 AND ngran_node < 9)'', ''mcc INT'',
      ''mnc INT'', ''mnc_digit_len INT'', ''nb_id INT'', ''cu_du_id TEXT'',
      ''len_ue_slice INT CHECK(len_ue_slice  >= 0 AND len_ue_slice  < 4294967296)'',
      ''rnti INT CHECK(rnti == -1 OR (rnti >= 0 AND rnti < 65535))'',
      ''dl_id INT CHECK(dl_id == -1 OR (dl_id >= 0 AND dl_id < 4294967296))'']"

definition gtp_columns :: "string list" where
  "gtp_columns =
     [''tstamp INT CHECK(tstamp > 0)'', ''ngran_node INT CHECK(ngran_node >= 0 AND ngran_node <= 10)'', ''mcc INT'',
      ''mnc INT'', ''mnc_digit_len INT'', ''nb_id INT'', ''cu_du_id TEXT'', ''teidgnb INT '', ''rnti INT '',
      ''qfi  INT '', ''teidupf INT'', ''ue_context_has_mqr  INT '', ''ue_context_rrc_ue_id  INT '',
      ''ue_context_rnti_t  INT '', ''ue_context_mqr_rsrp  INT '', ''ue_context_mqr_rsrq  REAL '',
      ''ue_context_mqr_sinr  REAL '']"

definition kpm_meas_record_columns :: "string list" where
  "kpm_meas_record_columns =
     [''tstamp INT'', ''ngran_node INT CHECK(ngran_node >= 0 AND ngran_node < 9)'', ''mcc INT'', ''mnc INT'',
      ''mnc_digit_len INT'', ''nb_id INT'', ''cu_du_id TEXT'', ''incompleteFlag INT'',
      ''val REAL CHECK(val >=0 AND val < 4294967296 )'']"

definition kpm_label_info_columns :: "string list" where
  "kpm_label_info_columns =
     [''tstamp INT CHECK(tstamp > 0)'', ''ngran_node INT CHECK(ngran_node >= 0 AND ngran_node < 9)'', ''mcc INT'',
      ''mnc INT'', ''mnc_digit_len INT'', ''nb_id INT'', ''cu_du_id TEXT'', ''MeasType TEXT'',
      ''noLabel INT CHECK(noLabel >=0 AND noLabel < 4294967296 )'', ''plmnID TEXT'', ''sST TEXT'', ''sD TEXT'',
      ''fiveQI  INT CHECK(fiveQI  >= 0 AND fiveQI  < 4294967296 ) '',
      ''qFI INT  CHECK(qFI >= 0 AND qFI < 4294967296 )'', ''qCI INT  CHECK(qCI >= 0 AND qCI < 4294967296 )'',
      ''qCImax INT  CHECK(qCImax >= 0 AND qCImax < 4294967296 )'',
      ''qCImin INT  CHECK(qCImin >= 0 AND qCImin < 4294967296 )'',
      ''aRPmax INT  CHECK(aRPmax >= 0 AND aRPmax < 4294967296 )'',
      ''aRPmin INT  CHECK(aRPmin >= 0 AND aRPmin < 4294967296 )'',
      ''bitrateRange INT  CHECK(bitrateRange >= 0 AND bitrateRange <4294967296 )'',
      ''layerMU_MIMO INT  CHECK(layerMU_MIMO >= 0 AND layerMU_MIMO <4294967296)'',
      ''sUM INT CHECK(sUM >= 0 AND sUM <4294967296)'',
      ''distBinX INT CHECK(distBinX >= 0 AND distBinX <4294967296)'',
      ''distBinY INT CHECK(distBinY >= 0 AND distBinY <4294967296)'',
      ''distBinZ INT CHECK(distBinZ >= 0 AND distBinZ <4294967296)'',
      ''preLabelOverride INT CHECK(preLabelOverride >= 0 AND preLabelOverride <4294967296)'',
      ''startEndInd INT CHECK(startEndInd >= 0 AND startEndInd <4294967296)'',
      ''min INT CHECK(min >= 0 AND min <4294967296)'', ''max INT CHECK(max >= 0 AND max <4294967296)'',
      ''avg INT CHECK(avg >= 0 AND avg < 4294967296)'']"

fun commas :: "string list \<Rightarrow> string" where
  "commas [] = []"
| "commas [s] = s"
| "commas (s # t # ss) = s @ '','' @ commas (t # ss)"

definition create_sql :: "string \<Rightarrow> string list \<Rightarrow> string" where
  "create_sql tbl columns = ''DROP TABLE IF EXISTS '' @ tbl @ '';CREATE TABLE '' @ tbl @ ''('' @ commas columns @ '');''"

definition create_table :: "('h \<Rightarrow> string \<Rightarrow> 'h \<times> bool) \<Rightarrow> 'h \<Rightarrow> string \<Rightarrow> 'h res" where
  "create_table exec db sql =
     (let (db, ok) = exec db sql in
      chk ok ''Error while creating the DB. Check the err_msg string for further info'' (Inr db))"

definition create_mac_ue_table :: "('h \<Rightarrow> string \<Rightarrow> 'h \<times> bool) \<Rightarrow> 'h \<Rightarrow> 'h res" where
  "create_mac_ue_table exec db = create_table exec db (create_sql ''MAC_UE'' mac_ue_columns)"

definition create_rlc_bearer_table :: "('h \<Rightarrow> string \<Rightarrow> 'h \<times> bool) \<Rightarrow> 'h \<Rightarrow> 'h res" where
  "create_rlc_bearer_table exec db = create_table exec db (create_sql ''RLC_bearer'' rlc_bearer_columns)"

definition create_pdcp_bearer_table :: "('h \<Rightarrow> string \<Rightarrow> 'h \<times> bool) \<Rightarrow> 'h \<Rightarrow> 'h res" where
  "create_pdcp_bearer_table exec db = create_table exec db (create_sql ''PDCP_bearer'' pdcp_bearer_columns)"

definition create_slice_table :: "('h \<Rightarrow> string \<Rightarrow> 'h \<times> bool) \<Rightarrow> 'h \<Rightarrow> 'h res" where
  "create_slice_table exec db = create_table exec db (create_sql ''SLICE'' slice_columns)"

definition create_ue_slice_table :: "('h \<Rightarrow> string \<Rightarrow> 'h \<times> bool) \<Rightarrow> 'h \<Rightarrow> 'h res" where
  "create_ue_slice_table exec db = create_table exec db (create_sql ''UE_SLICE'' ue_slice_columns)"

definition create_gtp_table :: "('h \<Rightarrow> string \<Rightarrow> 'h \<times> bool) \<Rightarrow> 'h \<Rightarrow> 'h res" where
  "create_gtp_table exec db = create_table exec db (create_sql ''GTP_NGUT'' gtp_columns)"

definition create_kpm_table :: "('h \<Rightarrow> string \<Rightarrow> 'h \<times> bool) \<Rightarrow> 'h \<Rightarrow> 'h res" where
  "create_kpm_table exec db =
     bnd (create_table exec db (create_sql ''KPM_MeasRecord'' kpm_meas_record_columns)) (\<lambda>db.
     create_table exec db (create_sql ''KPM_LabelInfo'' kpm_label_info_columns))"

text \<open>\<open>opened\<close> is the data base that \<^verbatim>\<open>sqlite3_open\<close> gives, \<^term>\<open>None\<close> when it fails.\<close>

definition init_db_sqlite3 :: "('h \<Rightarrow> string \<Rightarrow> 'h \<times> bool) \<Rightarrow> 'h option \<Rightarrow> 'h res" where
  "init_db_sqlite3 exec opened =
     (case opened of
        None \<Rightarrow> Inl (Assertion ''Error while creating the DB at /tmp/db_xapp'')
      | Some db \<Rightarrow>
          let (db, ok) = exec db ''pragma journal_mode=wal'' in
          chk ok ''Error while setting the wal mode in sqlite3'' (
          let (db, ok) = exec db ''pragma synchronous=normal'' in
          chk ok ''Error while setting the syncronous mode to normal'' (
          bnd (create_mac_ue_table exec db) (\<lambda>db.
          bnd (create_rlc_bearer_table exec db) (\<lambda>db.
          bnd (create_pdcp_bearer_table exec db) (\<lambda>db.
          bnd (create_slice_table exec db) (\<lambda>db.
          bnd (create_ue_slice_table exec db) (\<lambda>db.
          bnd (create_gtp_table exec db) (create_kpm_table exec)))))))))"

section \<open>Rows\<close>

text \<open>The seven values that identify the E2 node and the time of a measurement.\<close>

definition quoted :: "string option \<Rightarrow> string" where
  "quoted s = [CHR 0x27] @ fmt_s s @ [CHR 0x27]"

definition id_fields :: "global_e2_node_id_t \<Rightarrow> u64 \<Rightarrow> string list" where
  "id_fields nid tstamp =
     [fmt_d (sint tstamp), fmt_d (ngran_val (gid_type nid)), fmt_d (uint (mcc (gid_plmn nid))),
      fmt_d (uint (mnc (gid_plmn nid))), fmt_d (uint (mnc_digit_len (gid_plmn nid))),
      fmt_d (sint (nb_id (gid_nb_id nid))), quoted (map_option (\<lambda>d. fmt_u (unat d)) (cu_du_id nid))]"

definition sql_insert :: "string \<Rightarrow> string list \<Rightarrow> string" where
  "sql_insert tbl vals = ''INSERT INTO '' @ tbl @ '' VALUES('' @ commas vals @ '');''"

text \<open>The two assertions of every function that writes a row: room before, and length after.\<close>

definition sql_row :: "nat \<Rightarrow> u64 \<Rightarrow> string \<Rightarrow> string res" where
  "sql_row max_len out_len row =
     chk (unat out_len \<ge> max_len) ''out_len >= max'' (
     chk (length row < max_len) ''Not enough space in the char array to write all the data'' (Inr row))"

definition mac_fields :: "mac_ue_stats_impl_t \<Rightarrow> string list" where
  "mac_fields s =
     [fmt_d (uint (mac_frame s)), fmt_d (uint (mac_slot s)), fmt_u (unat (mac_dl_aggr_tbs s)),
      fmt_u (unat (mac_ul_aggr_tbs s)), fmt_u (unat (mac_dl_aggr_bytes_sdus s)),
      fmt_u (unat (mac_ul_aggr_bytes_sdus s)), fmt_u (unat (mac_dl_curr_tbs s)), fmt_u (unat (mac_ul_curr_tbs s)),
      fmt_u (unat (mac_dl_sched_rb s)), fmt_u (unat (mac_ul_sched_rb s)), fmt_g (flt_of_float (mac_pusch_snr s)),
      fmt_g (flt_of_float (mac_pucch_snr s)), fmt_u (unat (mac_rnti s)), fmt_u (unat (mac_dl_aggr_prb s)),
      fmt_u (unat (mac_ul_aggr_prb s)), fmt_u (unat (mac_dl_aggr_sdus s)), fmt_u (unat (mac_ul_aggr_sdus s)),
      fmt_u (unat (mac_dl_aggr_retx_prb s)), fmt_u (unat (mac_ul_aggr_retx_prb s)), fmt_u (unat (mac_wb_cqi s)),
      fmt_u (unat (mac_dl_mcs1 s)), fmt_u (unat (mac_ul_mcs1 s)), fmt_u (unat (mac_dl_mcs2 s)),
      fmt_u (unat (mac_ul_mcs2 s)), fmt_d (sint (mac_phr s)), fmt_u (unat (mac_bsr s)),
      fmt_fixed 6 (flt_of_float (mac_dl_bler s)), fmt_fixed 6 (flt_of_float (mac_ul_bler s)),
      fmt_d (sint (mac_dl_num_harq s)), fmt_u (unat (mac_dl_harq s ! 0)), fmt_u (unat (mac_dl_harq s ! 1)),
      fmt_u (unat (mac_dl_harq s ! 2)), fmt_u (unat (mac_dl_harq s ! 3)), fmt_u (unat (mac_dl_harq s ! 4)),
      fmt_d (sint (mac_ul_num_harq s)), fmt_u (unat (mac_ul_harq s ! 0)), fmt_u (unat (mac_ul_harq s ! 1)),
      fmt_u (unat (mac_ul_harq s ! 2)), fmt_u (unat (mac_ul_harq s ! 3)), fmt_u (unat (mac_ul_harq s ! 4)),
      fmt_d (sint (mac_pcmax s)), fmt_fixed 6 (flt_of_float (mac_raw_rssi s)), fmt_u (unat (mac_cqi s)),
      fmt_d (sint (mac_rsrp s))]"

definition to_sql_string_mac_ue :: "global_e2_node_id_t \<Rightarrow> mac_ue_stats_impl_t \<Rightarrow> u64 \<Rightarrow> u64 \<Rightarrow> string res" where
  "to_sql_string_mac_ue nid stats tstamp out_len =
     sql_row 1024 out_len (sql_insert ''MAC_UE'' (id_fields nid tstamp @ mac_fields stats))"

definition rlc_fields :: "rlc_radio_bearer_stats_t \<Rightarrow> string list" where
  "rlc_fields s =
     [fmt_u (unat (rlc_txpdu_pkts s)), fmt_u (unat (rlc_txpdu_bytes s)), fmt_u (unat (rlc_txpdu_wt_ms s)),
      fmt_u (unat (rlc_txpdu_dd_pkts s)), fmt_u (unat (rlc_txpdu_dd_bytes s)), fmt_u (unat (rlc_txpdu_retx_pkts s)),
      fmt_u (unat (rlc_txpdu_retx_bytes s)), fmt_u (unat (rlc_txpdu_segmented s)),
      fmt_u (unat (rlc_txpdu_status_pkts s)), fmt_u (unat (rlc_txpdu_status_bytes s)),
      fmt_u (unat (rlc_txbuf_occ_bytes s)), fmt_u (unat (rlc_txbuf_occ_pkts s)), fmt_u (unat (rlc_rxpdu_pkts s)),
      fmt_u (unat (rlc_rxpdu_bytes s)), fmt_u (unat (rlc_rxpdu_dup_pkts s)), fmt_u (unat (rlc_rxpdu_dup_bytes s)),
      fmt_u (unat (rlc_rxpdu_dd_pkts s)), fmt_u (unat (rlc_rxpdu_dd_bytes s)), fmt_u (unat (rlc_rxpdu_ow_pkts s)),
      fmt_u (unat (rlc_rxpdu_ow_bytes s)), fmt_u (unat (rlc_rxpdu_status_pkts s)),
      fmt_u (unat (rlc_rxpdu_status_bytes s)), fmt_u (unat (rlc_rxbuf_occ_bytes s)),
      fmt_u (unat (rlc_rxbuf_occ_pkts s)), fmt_u (unat (rlc_txsdu_pkts s)), fmt_u (unat (rlc_txsdu_bytes s)),
      fmt_fixed 2 (flt_of_double (rlc_txsdu_avg_time_to_tx s)), fmt_u (unat (rlc_txsdu_wt_us s)),
      fmt_u (unat (rlc_rxsdu_pkts s)), fmt_u (unat (rlc_rxsdu_bytes s)), fmt_u (unat (rlc_rxsdu_dd_pkts s)),
      fmt_u (unat (rlc_rxsdu_dd_bytes s)), fmt_u (unat (rlc_rnti s)), fmt_u (unat (rlc_mode s)),
      fmt_u (unat (rlc_rbid s))]"

definition to_sql_string_rlc_rb :: "global_e2_node_id_t \<Rightarrow> rlc_radio_bearer_stats_t \<Rightarrow> u64 \<Rightarrow> u64 \<Rightarrow> string res" where
  "to_sql_string_rlc_rb nid rlc tstamp out_len =
     sql_row 1024 out_len (sql_insert ''RLC_bearer'' (id_fields nid tstamp @ rlc_fields rlc))"

definition pdcp_fields :: "pdcp_radio_bearer_stats_t \<Rightarrow> string list" where
  "pdcp_fields s =
     [fmt_u (unat (pdcp_txpdu_pkts s)), fmt_u (unat (pdcp_txpdu_bytes s)), fmt_u (unat (pdcp_txpdu_sn s)),
      fmt_u (unat (pdcp_rxpdu_pkts s)), fmt_u (unat (pdcp_rxpdu_bytes s)), fmt_u (unat (pdcp_rxpdu_sn s)),
      fmt_u (unat (pdcp_rxpdu_oo_pkts s)), fmt_u (unat (pdcp_rxpdu_oo_bytes s)), fmt_u (unat (pdcp_rxpdu_dd_pkts s)),
      fmt_u (unat (pdcp_rxpdu_dd_bytes s)), fmt_u (unat (pdcp_rxpdu_ro_count s)), fmt_u (unat (pdcp_txsdu_pkts s)),
      fmt_u (unat (pdcp_txsdu_bytes s)), fmt_u (unat (pdcp_rxsdu_pkts s)), fmt_u (unat (pdcp_rxsdu_bytes s)),
      fmt_u (unat (pdcp_rnti s)), fmt_u (unat (pdcp_mode s)), fmt_u (unat (pdcp_rbid s))]"

definition to_sql_string_pdcp_rb :: "global_e2_node_id_t \<Rightarrow> pdcp_radio_bearer_stats_t \<Rightarrow> u64 \<Rightarrow> u64 \<Rightarrow> string res" where
  "to_sql_string_pdcp_rb nid pdcp tstamp out_len =
     sql_row 512 out_len (sql_insert ''PDCP_bearer'' (id_fields nid tstamp @ pdcp_fields pdcp))"

definition to_sql_string_ue_slice_rb ::
  "global_e2_node_id_t \<Rightarrow> u32 \<Rightarrow> ue_slice_assoc_view option \<Rightarrow> u64 \<Rightarrow> u64 \<Rightarrow> string res" where
  "to_sql_string_ue_slice_rb nid len_ue_slice u tstamp out_len =
     sql_row 512 out_len (sql_insert ''UE_SLICE'' (id_fields nid tstamp @ fmt_d (sint len_ue_slice) #
       (case u of None \<Rightarrow> [fmt_d (- 1), fmt_d (- 1)] | Some u \<Rightarrow> [fmt_d (uint (ua_rnti u)), fmt_d (sint (ua_dl_id u))])))"

text \<open>The names of a slice are appended to arrays of 50 characters.\<close>

definition strncat_50 :: "string \<Rightarrow> string res" where
  "strncat_50 s = (if length s < 50 then Inr s else Inl (Heap_Overflow ''strncat''))"

abbreviation zero_2f :: string where
  "zero_2f \<equiv> ''0.00''"

abbreviation fmt_2f :: "u32 \<Rightarrow> string" where
  "fmt_2f w \<equiv> fmt_fixed 2 (flt_of_float w)"

text \<open>
  The type, its configuration and the three parameters of a slice.  There is no row for the
  types that the code does not know.
\<close>

definition slice_fields :: "slice_params_view \<Rightarrow> (string \<times> string option \<times> string list) option" where
  "slice_fields params =
     (case params of
        SLICE_STATIC low high \<Rightarrow> Some (''STATIC'', None, [fmt_d (sint low), fmt_d (sint high), zero_2f])
      | SLICE_NVS (NVS_RATE req ref) \<Rightarrow> Some (''NVS'', Some ''RATE'', [fmt_2f req, fmt_2f ref, zero_2f])
      | SLICE_NVS (NVS_CAPACITY pct) \<Rightarrow> Some (''NVS'', Some ''CAPACITY'', [fmt_2f pct, zero_2f, zero_2f])
      | SLICE_EDF deadline prbs repl \<Rightarrow>
          Some (''EDF'', None, [fmt_d (sint deadline), fmt_d (sint prbs), fmt_d (sint repl)])
      | _ \<Rightarrow> None)"

definition to_sql_string_slice_rb ::
  "global_e2_node_id_t \<Rightarrow> ul_dl_slice_conf_view \<Rightarrow> fr_slice_view option \<Rightarrow> u64 \<Rightarrow> u64 \<Rightarrow> string res" where
  "to_sql_string_slice_rb nid slices s tstamp out_len =
     chk (unat out_len \<ge> 1024) ''out_len >= max'' (
     bnd (strncat_50 (sc_sched_name slices)) (\<lambda>sched_name.
     case s of
       None \<Rightarrow>
         sql_row 1024 out_len (sql_insert ''SLICE'' (id_fields nid tstamp @
           [fmt_d 0, quoted (Some sched_name), fmt_u 0, quoted None, quoted None, quoted None, quoted None,
            zero_2f, zero_2f, zero_2f]))
     | Some s \<Rightarrow>
         bnd (strncat_50 (sl_label s)) (\<lambda>label.
         bnd (strncat_50 (sl_sched s)) (\<lambda>sched.
         case slice_fields (sl_params s) of
           None \<Rightarrow> Inr []
         | Some (params_type, params_type_conf, params) \<Rightarrow>
             sql_row 1024 out_len (sql_insert ''SLICE'' (id_fields nid tstamp @
               [fmt_d (sint (of_nat (length (sc_slices slices)) :: u32)), quoted None, fmt_u (unat (sl_id s)),
                quoted (Some label), quoted (Some params_type), quoted params_type_conf, quoted (Some sched)] @ params))))))"

definition gtp_fields :: "gtp_ngu_t_stats_t \<Rightarrow> string list" where
  "gtp_fields s =
     [fmt_u (unat (ngu_teidgnb s)), fmt_u (unat (ngu_rnti s)), fmt_u (unat (ngu_qfi s)), fmt_u (unat (ngu_teidupf s)),
      fmt_u (if ue_context_has_mqr s then 1 else 0), fmt_u (unat (ue_context_rrc_ue_id s)),
      fmt_u (unat (ue_context_rnti_t s)), fmt_d (sint (ue_context_mqr_rsrp s)),
      fmt_fixed 6 (flt_of_double (ue_context_mqr_rsrq s)), fmt_fixed 6 (flt_of_double (ue_context_mqr_sinr s))]"

definition to_sql_string_gtp_NGUT :: "global_e2_node_id_t \<Rightarrow> gtp_ngu_t_stats_t \<Rightarrow> u64 \<Rightarrow> u64 \<Rightarrow> string res" where
  "to_sql_string_gtp_NGUT nid gtp tstamp out_len =
     sql_row 1024 out_len (sql_insert ''GTP_NGUT'' (id_fields nid tstamp @ gtp_fields gtp))"

section \<open>Writers\<close>

text \<open>
  The rows are written behind each other into a buffer of \<open>cap\<close> characters.  The room that is
  passed for a row is \<open>lim\<close> minus the position, an \<^verbatim>\<open>int\<close> that becomes a \<^verbatim>\<open>size_t\<close>.
\<close>

fun sql_rows :: "nat \<Rightarrow> int \<Rightarrow> ('r \<Rightarrow> u64 \<Rightarrow> string res) \<Rightarrow> 'r list \<Rightarrow> string \<Rightarrow> string res" where
  "sql_rows cap lim_len f [] buf = Inr buf"
| "sql_rows cap lim_len f (x # xs) buf =
     bnd (f x (of_int (lim_len - int (length buf)))) (\<lambda>s.
     if length buf + length s \<ge> cap then Inl (Heap_Overflow ''snprintf'')
     else sql_rows cap lim_len f xs (buf @ s))"

text \<open>An error of the insertion is only printed.\<close>

definition insert_db :: "('h \<Rightarrow> string \<Rightarrow> 'h \<times> bool) \<Rightarrow> 'h \<Rightarrow> string \<Rightarrow> 'h" where
  "insert_db exec db sql = fst (exec db sql)"

definition write_mac_stats :: "('h \<Rightarrow> string \<Rightarrow> 'h \<times> bool) \<Rightarrow> 'h \<Rightarrow> global_e2_node_id_t \<Rightarrow> mac_ind_msg_t \<Rightarrow> 'h res" where
  "write_mac_stats exec db nid msg =
     bnd (sql_rows 2048 2048 (\<lambda>s. to_sql_string_mac_ue nid s (mac_tstamp msg)) (mac_ue_stats msg) [])
       (\<lambda>buffer. Inr (insert_db exec db buffer))"

definition write_rlc_stats :: "('h \<Rightarrow> string \<Rightarrow> 'h \<times> bool) \<Rightarrow> 'h \<Rightarrow> global_e2_node_id_t \<Rightarrow> rlc_ind_msg_t \<Rightarrow> 'h res" where
  "write_rlc_stats exec db nid msg =
     bnd (sql_rows 2048 2048 (\<lambda>s. to_sql_string_rlc_rb nid s (rlc_tstamp msg)) (rlc_rb msg) [])
       (\<lambda>buffer. Inr (insert_db exec db buffer))"

definition write_pdcp_stats :: "('h \<Rightarrow> string \<Rightarrow> 'h \<times> bool) \<Rightarrow> 'h \<Rightarrow> global_e2_node_id_t \<Rightarrow> pdcp_ind_msg_t \<Rightarrow> 'h res" where
  "write_pdcp_stats exec db nid msg =
     bnd (sql_rows 2048 2048 (\<lambda>s. to_sql_string_pdcp_rb nid s (pdcp_tstamp msg)) (pdcp_rb msg) [])
       (\<lambda>buffer. Inr (insert_db exec db buffer))"

definition write_slice_conf_stats ::
  "('h \<Rightarrow> string \<Rightarrow> 'h \<times> bool) \<Rightarrow> 'h \<Rightarrow> global_e2_node_id_t \<Rightarrow> u64 \<Rightarrow> ul_dl_slice_conf_view \<Rightarrow> 'h res" where
  "write_slice_conf_stats exec db nid tstamp dlslices =
     bnd (sql_rows 4096 4096 (\<lambda>s. to_sql_string_slice_rb nid dlslices s tstamp)
            (if sc_slices dlslices \<noteq> [] then map Some (sc_slices dlslices) else [None]) [])
       (\<lambda>buffer. Inr (insert_db exec db buffer))"

definition write_ue_slice_conf_stats ::
  "('h \<Rightarrow> string \<Rightarrow> 'h \<times> bool) \<Rightarrow> 'h \<Rightarrow> global_e2_node_id_t \<Rightarrow> u64 \<Rightarrow> ue_slice_assoc_view list \<Rightarrow> 'h res" where
  "write_ue_slice_conf_stats exec db nid tstamp ues =
     bnd (sql_rows 4096 2048 (\<lambda>u. to_sql_string_ue_slice_rb nid (of_nat (length ues)) u tstamp)
            (if ues \<noteq> [] then map Some ues else [None]) [])
       (\<lambda>buffer. Inr (insert_db exec db buffer))"

definition write_slice_stats :: "('h \<Rightarrow> string \<Rightarrow> 'h \<times> bool) \<Rightarrow> 'h \<Rightarrow> global_e2_node_id_t \<Rightarrow> slice_ind_msg_view \<Rightarrow> 'h res" where
  "write_slice_stats exec db nid msg =
     bnd (write_slice_conf_stats exec db nid (si_tstamp msg) (si_dl msg)) (\<lambda>db.
     write_ue_slice_conf_stats exec db nid (si_tstamp msg) (si_ues msg))"

definition write_gtp_stats :: "('h \<Rightarrow> string \<Rightarrow> 'h \<times> bool) \<Rightarrow> 'h \<Rightarrow> global_e2_node_id_t \<Rightarrow> gtp_ind_msg_t \<Rightarrow> 'h res" where
  "write_gtp_stats exec db nid msg =
     bnd (sql_rows 2048 2048 (\<lambda>s. to_sql_string_gtp_NGUT nid s (gtp_tstamp msg)) (gtp_ngut msg) [])
       (\<lambda>buffer. Inr (insert_db exec db buffer))"

text \<open>The counters that limit the messages about statistics without a table.\<close>

record 'h sqlite_st =
  sq_db :: 'h
  sq_kpm_acc :: nat
  sq_rc_acc :: nat

datatype sm_ag_if_rd_t = Rd_Ind sm_ag_if_rd_ind_t | Rd_E2_Setup | Rd_Serv_Update

definition count_2048 :: "nat \<Rightarrow> nat" where
  "count_2048 n = (if n + 1 > 2048 then 0 else n + 1)"

definition write_db_sqlite3 ::
  "rd_view \<Rightarrow> ('h \<Rightarrow> string \<Rightarrow> 'h \<times> bool) \<Rightarrow> 'h sqlite_st \<Rightarrow> global_e2_node_id_t \<Rightarrow> sm_ag_if_rd_t \<Rightarrow> 'h sqlite_st res" where
  "write_db_sqlite3 view exec st nid ag_rd =
     (case ag_rd of
        Rd_Ind rd \<Rightarrow>
          let put = (\<lambda>r. bnd r (\<lambda>db. Inr (st\<lparr>sq_db := db\<rparr>)))
          in (case rd_type rd of
                MAC_STATS_V0 \<Rightarrow> put (write_mac_stats exec (sq_db st) nid (as_mac view (rd_values rd)))
              | RLC_STATS_V0 \<Rightarrow> put (write_rlc_stats exec (sq_db st) nid (as_rlc view (rd_values rd)))
              | PDCP_STATS_V0 \<Rightarrow> put (write_pdcp_stats exec (sq_db st) nid (as_pdcp view (rd_values rd)))
              | SLICE_STATS_V0 \<Rightarrow> put (write_slice_stats exec (sq_db st) nid (as_slice view (rd_values rd)))
              | GTP_STATS_V0 \<Rightarrow> put (write_gtp_stats exec (sq_db st) nid (as_gtp view (rd_values rd)))
              | KPM_STATS_V3_0 \<Rightarrow> Inr (st\<lparr>sq_kpm_acc := count_2048 (sq_kpm_acc st)\<rparr>)
              | RAN_CTRL_STATS_V1_03 \<Rightarrow> Inr (st\<lparr>sq_rc_acc := count_2048 (sq_rc_acc st)\<rparr>)
              | _ \<Rightarrow> Inl (Assertion ''rd->type == MAC_STATS_V0 || ...''))
      | _ \<Rightarrow> Inl (Assertion ''ag_rd->type == INDICATION_MSG_AGENT_IF_ANS_V0''))"

end
