(* ===== verification/Xapp_Rows.thy ===== *)
theory Xapp_Rows
  imports Xapp_Sql
begin

text \<open>
  How many rows fit into the buffer of the data base writer.  Every value of a row has a shortest
  and a longest text; the first bounds the number of rows above which the writer always aborts,
  the second the number below which it never does.
\<close>

section \<open>The length of a value\<close>

lemmas fmt_lower_Suc [simp] = fmt_lower [unfolded One_nat_def]

lemma len_words [simp]:
  "length (fmt_u (unat (a :: u8))) \<le> 3" "length (fmt_u (unat (b :: u16))) \<le> 5"
  "length (fmt_u (unat (c :: u32))) \<le> 10" "length (fmt_u (unat (d :: u64))) \<le> 20"
  using unsigned_less [of a, where 'a = nat] unsigned_less [of b, where 'a = nat]
    unsigned_less [of c, where 'a = nat] unsigned_less [of d, where 'a = nat]
  by (simp_all add: fmt_u_le)

lemma len_uints [simp]:
  "length (fmt_d (uint (a :: u8))) \<le> 4" "length (fmt_d (uint (b :: u16))) \<le> 6"
  using unsigned_less [of a, where 'a = int] unsigned_less [of b, where 'a = int]
    fmt_d_le [of "uint a" 3] fmt_d_le [of "uint b" 5]
  by simp_all

lemma len_sints [simp]:
  "length (fmt_d (sint (a :: u8))) \<le> 4" "length (fmt_d (sint (c :: u32))) \<le> 11" "length (fmt_d (sint (d :: u64))) \<le> 20"
  using sint_range_size [of a] sint_range_size [of c] sint_range_size [of d]
    fmt_d_le [of "sint a" 3] fmt_d_le [of "sint c" 10] fmt_d_le [of "sint d" 19]
  by (auto simp: word_size abs_less_iff)

lemma len_ngran [simp]: "length (fmt_d (ngran_val t)) \<le> 3"
  using fmt_d_le [of "ngran_val t" 2] by (cases t) simp_all

lemma len_quoted:
  "length (quoted s) = length (fmt_s s) + 2"
  by (simp add: quoted_def)

lemma len_cu_du [simp]: "length (quoted (map_option (\<lambda>d :: u64. fmt_u (unat d)) s)) \<le> 22"
  "3 \<le> length (quoted (map_option (\<lambda>d :: u64. fmt_u (unat d)) s))"
  using len_words(4) fmt_lower(1) by (auto simp: len_quoted fmt_s_def split: option.split)

text \<open>Rounding stays below an integer bound.\<close>

lemma round_div_le:
  assumes "a \<le> c * b" "0 < b"
  shows "round_div a b \<le> c"
proof (cases "a = c * b")
  case True
  then show ?thesis
    using assms(2) by (simp add: round_div_def)
next
  case False
  then have "a div b < c"
    using assms by (simp add: div_less_iff_less_mult)
  then show ?thesis
    by (simp add: round_div_def Let_def)
qed

lemma scaled_le:
  assumes "m * 2 ^ nat e \<le> c * 2 ^ nat (- e)"
  shows "scaled m e (int p) \<le> c * 10 ^ p"
  unfolding scaled_def using assms by (intro round_div_le) (simp_all add: mult.assoc mult.commute mult.left_commute)

lemma fixed_le:
  assumes "case v of Num neg m e \<Rightarrow> m * 2 ^ nat e \<le> c * 2 ^ nat (- e) | _ \<Rightarrow> True" "c < 10 ^ k" "0 < k" "0 < p"
  shows "length (fmt_fixed p v) \<le> k + p + 2"
proof (cases v)
  case (Num neg m e)
  let ?n = "scaled m e (int p)"
  let ?s = "show_nat (?n div 10 ^ p) @ ''.'' @ pad p (show_nat (?n mod 10 ^ p))"
  have "?n div 10 ^ p \<le> c"
    using scaled_le [of m e c p] assms(1) div_le_mono [of ?n "c * 10 ^ p" "10 ^ p"] by (simp add: Num)
  then have "length (show_nat (?n div 10 ^ p)) \<le> k"
    using show_nat_le [OF assms(3)] assms(2) by simp
  moreover have "length (show_nat (?n mod 10 ^ p)) \<le> p"
    by (rule show_nat_le [OF assms(4)]) simp
  then have "length (pad p (show_nat (?n mod 10 ^ p))) = p"
    by (simp add: pad_def)
  ultimately have "length ?s \<le> k + p + 1"
    by simp
  then show ?thesis
    using with_sign_length(2) [of neg ?s] unfolding fmt_fixed_def Num by (simp add: Let_def del: length_append)
qed (use assms(3,4) in \<open>simp_all add: fmt_fixed_def with_sign_def\<close>)

lemma pow_split: "2 ^ nat e * (2 :: nat) ^ b \<le> 2 ^ c * 2 ^ nat (- e)" if "e + int b \<le> int c"
proof -
  have "nat e + b \<le> c + nat (- e)"
    using that by linarith
  then have "(2 :: nat) ^ (nat e + b) \<le> 2 ^ (c + nat (- e))"
    by (rule power_increasing) simp
  then show ?thesis
    by (simp add: power_add)
qed

lemma flt_of_bits_le:
  assumes "1 < ebits" "v = flt_of_bits ebits mbits w"
  shows "case v of Num neg m e \<Rightarrow> m * 2 ^ nat e \<le> 2 ^ (2 ^ (ebits - 1)) * 2 ^ nat (- e) | _ \<Rightarrow> True"
proof (cases v)
  case (Num neg m e)
  define E where "E = w div 2 ^ mbits mod 2 ^ ebits"
  define r where "r = w mod 2 ^ mbits"
  define P :: nat where "P = 2 ^ (ebits - 1)"
  have two: "2 ^ ebits = 2 * P" and P: "2 \<le> P"
    using assms(1) power_increasing [of 1 "ebits - 1" "2 :: nat"] by (cases ebits; simp add: P_def)+
  have r: "r < 2 ^ mbits" and "E < 2 * P"
    using P by (simp_all add: r_def E_def two)
  have bits: "flt_of_bits ebits mbits w =
      (if E = 2 * P - 1 then (if r = 0 then Inf (odd (w div 2 ^ (mbits + ebits))) else Nan (odd (w div 2 ^ (mbits + ebits))))
       else if E = 0 then Num (odd (w div 2 ^ (mbits + ebits))) r (1 - int (P - 1) - int mbits)
       else Num (odd (w div 2 ^ (mbits + ebits))) (r + 2 ^ mbits) (int E - int (P - 1) - int mbits))"
    by (simp add: flt_of_bits_def Let_def E_def r_def P_def two [unfolded P_def])
  then have "E \<noteq> 2 * P - 1" "m = (if E = 0 then r else r + 2 ^ mbits)"
    "e = (if E = 0 then 1 - int (P - 1) - int mbits else int E - int (P - 1) - int mbits)"
    using Num assms(2) by (simp_all split: if_splits)
  then have m: "m \<le> 2 ^ (mbits + 1)" "e + int (mbits + 1) \<le> int P"
    using r P \<open>E < 2 * P\<close> by (auto simp: of_nat_diff)
  have "m * 2 ^ nat e \<le> 2 ^ nat e * 2 ^ (mbits + 1)"
    using m(1) by (simp add: mult.commute)
  also have "2 ^ nat e * (2 :: nat) ^ (mbits + 1) \<le> 2 ^ P * 2 ^ nat (- e)"
    by (rule pow_split [OF m(2)])
  finally show ?thesis
    unfolding Num P_def by simp
qed simp_all

lemma len_float [simp]: "length (fmt_fixed 6 (flt_of_float w)) \<le> 47"
  using fixed_le [OF flt_of_bits_le [of 8 "flt_of_float w" 23 "unat w"], of 39 6] by (simp add: flt_of_float_def)

lemma len_double [simp]:
  "length (fmt_fixed 6 (flt_of_double w)) \<le> 317" "length (fmt_fixed 2 (flt_of_double w)) \<le> 313"
  using fixed_le [OF flt_of_bits_le [of 11 "flt_of_double w" 52 "unat w"], of 309 6]
    fixed_le [OF flt_of_bits_le [of 11 "flt_of_double w" 52 "unat w"], of 309 2]
  by (simp_all add: flt_of_double_def)

lemma pad_le: "0 < k \<Longrightarrow> n < 10 ^ k \<Longrightarrow> length (pad k (show_nat n)) \<le> k"
  using show_nat_le [of k n] by (simp add: pad_def)

lemma with_point_le: "length (with_point a b) \<le> length a + 1 + length b"
  using length_dropWhile_le [of "\<lambda>c. c = CHR ''0''" "rev b"] by (simp add: with_point_def strip_zeros_def Let_def)

lemma fmt_g_le [simp]: "length (fmt_g v) \<le> 12"
proof (cases v)
  case (Num neg m e)
  note upto_rec_numeral [simp del]
  show ?thesis
  proof (cases "m = 0 \<or> List.find (\<lambda>x. scaled m e (5 - x) < 10 ^ 6) [-46..39] = None")
    case True
    then show ?thesis
      using Num by (cases "m = 0") (simp_all add: fmt_g_def with_sign_def)
  next
    case False
    then obtain x where f: "List.find (\<lambda>x. scaled m e (5 - x) < 10 ^ 6) [-46..39] = Some x" and m: "m \<noteq> 0"
      by auto
    have x: "-46 \<le> x" "x \<le> 39" "scaled m e (5 - x) < 10 ^ 6"
      using find_SomeD [OF f] by auto
    define d where "d = scaled m e (5 - x)"
    have d: "d < 10 ^ 6"
      using x(3) by (simp add: d_def)
    define k where "k = nat (5 - x)"
    let ?fix = "with_point (show_nat (d div 10 ^ k)) (pad k (show_nat (d mod 10 ^ k)))"
    let ?sci = "with_point (show_nat (d div 10 ^ 5)) (pad 5 (show_nat (d mod 10 ^ 5))) @
      (if x < 0 then ''e-'' else ''e+'') @ pad 2 (show_nat (nat \<bar>x\<bar>))"
    have "length ?fix \<le> 11" if "-4 \<le> x" "x < 6"
    proof -
      have k: "k \<le> 9"
        using that by (simp add: k_def)
      have b: "length (pad k (show_nat (d mod 10 ^ k))) \<le> max 1 k"
        using pad_le [of k "d mod 10 ^ k"] show_nat_le [of 1 0] by (cases "k = 0") (simp_all add: pad_def)
      have "d div 10 ^ k < 10 ^ (if k < 6 then 6 - k else 1)"
      proof (cases "k < 6")
        case True
        then have "(10 :: nat) ^ (6 - k) * 10 ^ k = 10 ^ 6"
          by (subst power_add [symmetric]) simp
        then have "d < 10 ^ (6 - k) * 10 ^ k"
          using d by linarith
        then show ?thesis
          using True by (simp add: less_mult_imp_div_less)
      next
        case False
        then have "(10 :: nat) ^ 6 \<le> 10 ^ k"
          by (intro power_increasing) simp_all
        then have "d < 10 ^ k"
          using d by linarith
        then show ?thesis
          using False by simp
      qed
      then have "length (show_nat (d div 10 ^ k)) \<le> (if k < 6 then 6 - k else 1)"
        by (intro show_nat_le) simp_all
      then show ?thesis
        using b k with_point_le [of "show_nat (d div 10 ^ k)" "pad k (show_nat (d mod 10 ^ k))"] by (auto split: if_splits)
    qed
    moreover have "length ?sci \<le> 11"
    proof -
      have "length (show_nat (d div 10 ^ 5)) \<le> 1" "length (pad 5 (show_nat (d mod 10 ^ 5))) \<le> 5"
        "length (pad 2 (show_nat (nat \<bar>x\<bar>))) \<le> 2"
        using d x(1,2) by (intro show_nat_le pad_le; simp)+
      moreover have "length (if x < 0 then ''e-'' else ''e+'') = 2"
        by simp
      ultimately show ?thesis
        using with_point_le [of "show_nat (d div 10 ^ 5)" "pad 5 (show_nat (d mod 10 ^ 5))"]
        unfolding length_append by linarith
    qed
    moreover have "fmt_g v = with_sign neg (if -4 \<le> x \<and> x < 6 then ?fix else ?sci)"
      using Num f m by (simp add: fmt_g_def Let_def d_def k_def)
    ultimately show ?thesis
      using with_sign_length(2) [of neg ?fix] with_sign_length(2) [of neg ?sci] by (auto simp del: length_append)
  qed
qed (simp_all add: fmt_g_def with_sign_def)

section \<open>The length of a row\<close>

lemma commas_length: "fs \<noteq> [] \<Longrightarrow> length (commas fs) + 1 = sum_list (map length fs) + length fs"
  by (induction fs rule: commas.induct) auto

lemma sql_insert_length:
  "fs \<noteq> [] \<Longrightarrow> length (sql_insert tbl fs) = length tbl + sum_list (map length fs) + length fs + 21"
  using commas_length [of fs] by (simp add: sql_insert_def)

lemma sum_between:
  assumes "list_all2 (\<lambda>s n. fst n \<le> length s \<and> length s \<le> snd n) fs ns"
  shows "sum_list (map fst ns) \<le> sum_list (map length fs) \<and> sum_list (map length fs) \<le> sum_list (map snd ns)"
  using assms by (induction rule: list_all2_induct) auto

lemma id_fields_between:
  "list_all2 (\<lambda>s n. fst n \<le> length s \<and> length s \<le> snd n) (id_fields nid tstamp)
     [(1, 20), (1, 3), (1, 6), (1, 6), (1, 4), (1, 11), (3, 22)]"
  by (simp add: id_fields_def)

abbreviation between :: "string list \<Rightarrow> (nat \<times> nat) list \<Rightarrow> bool" where
  "between fs ns \<equiv> list_all2 (\<lambda>s n. fst n \<le> length s \<and> length s \<le> snd n) fs ns"

lemma replicate_numeral: "replicate (numeral k) x = x # replicate (pred_numeral k) x"
  by (simp add: numeral_eq_Suc)

lemma mac_fields_between:
  "between (mac_fields s) (replicate 2 (1, 6) @ replicate 8 (1, 20) @ replicate 2 (0, 12) @ replicate 7 (1, 10) @
     replicate 5 (1, 3) @ [(1, 4), (1, 10)] @ replicate 2 (3, 47) @ (1, 11) # replicate 5 (1, 10) @
     (1, 11) # replicate 5 (1, 10) @ [(1, 11), (3, 47), (1, 3), (1, 20)])"
  by (simp add: mac_fields_def replicate_numeral)

lemma rlc_fields_between:
  "between (rlc_fields s) (replicate 25 (1, 10) @ [(1, 20), (3, 313)] @ replicate 2 (1, 10) @ (1, 20) # replicate 3 (1, 10) @
     replicate 2 (1, 3))"
  by (simp add: rlc_fields_def replicate_numeral)

lemma pdcp_fields_between: "between (pdcp_fields s) (replicate 16 (1, 10) @ replicate 2 (1, 3))"
  by (simp add: pdcp_fields_def replicate_numeral)

lemma gtp_fields_between:
  "between (gtp_fields s) (replicate 2 (1, 10) @ replicate 2 (1, 3) @ (1, 3) # replicate 2 (1, 10) @ (1, 20) # replicate 2 (3, 317))"
  using len_words(1) [of 0] len_words(1) [of 1] by (simp add: gtp_fields_def replicate_numeral)

lemma row_between:
  assumes "between fs ns" "r = sql_insert tbl (id_fields nid tstamp @ fs)"
  shows "length tbl + sum_list (map fst ns) + length ns + 37 \<le> length r"
    "length r \<le> length tbl + sum_list (map snd ns) + length ns + 100"
  using sum_between [OF list_all2_appendI [OF id_fields_between assms(1), of nid tstamp]] list_all2_lengthD [OF assms(1)]
    sql_insert_length [of "id_fields nid tstamp @ fs" tbl] list_all2_lengthD [OF id_fields_between [of nid tstamp]]
  unfolding assms(2) by (auto simp: id_fields_def)

section \<open>Rows in a buffer\<close>

lemma room_word: "b \<le> l \<Longrightarrow> l < 2 ^ 63 \<Longrightarrow> unat (of_int (int l - int b) :: u64) = l - b"
  by (simp flip: of_nat_diff add: unsigned_of_nat take_bit_nat_eq_self)

lemma sql_rows_fit:
  assumes "\<And>x l. f x l = sql_row max_len l (row x)" "max_len \<le> lim_len" "lim_len \<le> cap" "lim_len < 2 ^ 63"
    and "\<And>x. length (row x) \<le> B" "B < max_len" "length buf + (length xs - 1) * B + max_len \<le> lim_len \<or> xs = []"
  shows "sql_rows cap (int lim_len) f xs buf = Inr (buf @ concat (map row xs))"
  using assms(7)
proof (induction xs arbitrary: buf)
  case (Cons x xs)
  have room: "length buf + length xs * B + max_len \<le> lim_len"
    using Cons.prems by simp
  have row: "length (row x) \<le> B"
    by (rule assms(5))
  have "unat (of_int (int lim_len - int (length buf)) :: u64) = lim_len - length buf"
    by (rule room_word [OF _ assms(4)]) (use room in linarith)
  then have "f x (of_int (int lim_len - int (length buf))) = Inr (row x)"
    using room row assms(1,6) by (simp add: sql_row_def)
  moreover have "length buf + length (row x) < cap"
    using room row assms(3,6) by linarith
  moreover have "length (buf @ row x) + (length xs - 1) * B + max_len \<le> lim_len \<or> xs = []"
    using room row by (cases xs) auto
  ultimately show ?case
    using Cons.IH [of "buf @ row x"] by simp
qed simp

lemma sql_rows_abort:
  assumes "\<And>x l. f x l = sql_row max_len l (row x)" "0 < max_len" "max_len \<le> lim_len" "lim_len \<le> cap" "lim_len < 2 ^ 63"
    and "\<And>x. L \<le> length (row x)" "length buf \<le> lim_len" "lim_len < length buf + (length xs - 1) * L + max_len" "xs \<noteq> []"
  shows "\<exists>msg. sql_rows cap (int lim_len) f xs buf = Inl (Assertion msg)"
  using assms(7-9)
proof (induction xs arbitrary: buf)
  case (Cons x xs)
  have u: "unat (of_int (int lim_len - int (length buf)) :: u64) = lim_len - length buf"
    by (rule room_word [OF Cons.prems(1) assms(5)])
  show ?case
  proof (cases "lim_len < length buf + max_len \<or> max_len \<le> length (row x)")
    case True
    then have "\<exists>msg. f x (of_int (int lim_len - int (length buf))) = Inl (Assertion msg)"
      using u assms(1) Cons.prems(1) by (auto simp: sql_row_def chk_def)
    then show ?thesis
      by auto
  next
    case False
    then have "max_len \<le> lim_len - length buf"
      by arith
    then have f: "f x (of_int (int lim_len - int (length buf))) = Inr (row x)"
      using False u assms(1) by (simp add: sql_row_def)
    have xs: "xs \<noteq> []"
      using Cons.prems(2) False by auto
    then obtain n where n: "length xs = Suc n"
      by (cases xs) auto
    have "lim_len < length (buf @ row x) + (length xs - 1) * L + max_len"
      using Cons.prems(2) assms(6) [of x] by (simp add: n)
    then have "\<exists>msg. sql_rows cap (int lim_len) f xs (buf @ row x) = Inl (Assertion msg)"
      using Cons.IH [of "buf @ row x"] False xs by simp
    then show ?thesis
      using f False assms(4) by simp
  qed
qed simp

section \<open>The writers\<close>

definition mac_row :: "global_e2_node_id_t \<Rightarrow> u64 \<Rightarrow> mac_ue_stats_impl_t \<Rightarrow> string" where
  "mac_row nid tstamp s = sql_insert ''MAC_UE'' (id_fields nid tstamp @ mac_fields s)"

definition rlc_row :: "global_e2_node_id_t \<Rightarrow> u64 \<Rightarrow> rlc_radio_bearer_stats_t \<Rightarrow> string" where
  "rlc_row nid tstamp s = sql_insert ''RLC_bearer'' (id_fields nid tstamp @ rlc_fields s)"

definition pdcp_row :: "global_e2_node_id_t \<Rightarrow> u64 \<Rightarrow> pdcp_radio_bearer_stats_t \<Rightarrow> string" where
  "pdcp_row nid tstamp s = sql_insert ''PDCP_bearer'' (id_fields nid tstamp @ pdcp_fields s)"

definition gtp_row :: "global_e2_node_id_t \<Rightarrow> u64 \<Rightarrow> gtp_ngu_t_stats_t \<Rightarrow> string" where
  "gtp_row nid tstamp s = sql_insert ''GTP_NGUT'' (id_fields nid tstamp @ gtp_fields s)"

lemma mac_row_between: "135 \<le> length (mac_row nid t s)" "length (mac_row nid t s) \<le> 742"
  using row_between [OF mac_fields_between mac_row_def] by (simp_all add: sum_list_replicate)

lemma rlc_row_between: "119 \<le> length (rlc_row nid t s)" "length (rlc_row nid t s) \<le> 804"
  using row_between [OF rlc_fields_between rlc_row_def] by (simp_all add: sum_list_replicate)

lemma pdcp_row_between: "84 \<le> length (pdcp_row nid t s)" "length (pdcp_row nid t s) \<le> 295"
  using row_between [OF pdcp_fields_between pdcp_row_def] by (simp_all add: sum_list_replicate)

lemma gtp_row_between: "69 \<le> length (gtp_row nid t s)" "length (gtp_row nid t s) \<le> 821"
  using row_between [OF gtp_fields_between gtp_row_def] by (simp_all add: sum_list_replicate)

text \<open>
  Every writer collects its rows in the same way: up to \<open>n\<close> rows of at most \<open>B\<close> characters fit,
  and more than \<open>k\<close> rows of at least \<open>L\<close> characters never do.
\<close>

lemma writer_fit:
  assumes "\<And>x l. f x l = sql_row max_len l (row x)" "\<And>x. length (row x) \<le> B" "B < max_len"
    and "n * B + max_len \<le> 2048" "length xs \<le> n + 1"
  shows "sql_rows 2048 2048 f xs [] = Inr (concat (map row xs))"
proof -
  have "(length xs - 1) * B \<le> n * B"
    using assms(5) by (intro mult_le_mono1) simp
  then have "(length xs - 1) * B + max_len \<le> 2048"
    using assms(4) by linarith
  then show ?thesis
    using sql_rows_fit [of f max_len row 2048 2048 B "[]" xs] assms(1-4) by simp
qed

lemma writer_abort:
  assumes "\<And>x l. f x l = sql_row max_len l (row x)" "\<And>x. L \<le> length (row x)" "0 < max_len" "max_len \<le> 2048"
    and "2048 < k * L + max_len" "k < length xs"
  shows "\<exists>msg. sql_rows 2048 2048 f xs [] = Inl (Assertion msg)"
proof -
  have "k * L \<le> (length xs - 1) * L"
    using assms(6) by (intro mult_le_mono1) simp
  then have "2048 < (length xs - 1) * L + max_len"
    using assms(5) by linarith
  moreover have "xs \<noteq> []"
    using assms(6) by auto
  ultimately show ?thesis
    using sql_rows_abort [of f max_len row 2048 2048 L "[]" xs] assms(1-6) by auto
qed

lemma rows_fit:
  "length ms \<le> 2 \<Longrightarrow> sql_rows 2048 2048 (\<lambda>s. to_sql_string_mac_ue nid s t) ms [] = Inr (concat (map (mac_row nid t) ms))"
  "length rs \<le> 2 \<Longrightarrow> sql_rows 2048 2048 (\<lambda>s. to_sql_string_rlc_rb nid s t) rs [] = Inr (concat (map (rlc_row nid t) rs))"
  "length ps \<le> 6 \<Longrightarrow> sql_rows 2048 2048 (\<lambda>s. to_sql_string_pdcp_rb nid s t) ps [] = Inr (concat (map (pdcp_row nid t) ps))"
  "length gs \<le> 2 \<Longrightarrow> sql_rows 2048 2048 (\<lambda>s. to_sql_string_gtp_NGUT nid s t) gs [] = Inr (concat (map (gtp_row nid t) gs))"
  using writer_fit [of "\<lambda>s. to_sql_string_mac_ue nid s t" 1024 "mac_row nid t" 742 1 ms]
    writer_fit [of "\<lambda>s. to_sql_string_rlc_rb nid s t" 1024 "rlc_row nid t" 804 1 rs]
    writer_fit [of "\<lambda>s. to_sql_string_pdcp_rb nid s t" 512 "pdcp_row nid t" 295 5 ps]
    writer_fit [of "\<lambda>s. to_sql_string_gtp_NGUT nid s t" 1024 "gtp_row nid t" 821 1 gs]
  by (simp_all add: to_sql_string_mac_ue_def to_sql_string_rlc_rb_def to_sql_string_pdcp_rb_def to_sql_string_gtp_NGUT_def
      mac_row_between rlc_row_between pdcp_row_between gtp_row_between
      flip: mac_row_def rlc_row_def pdcp_row_def gtp_row_def)

lemma rows_abort:
  "9 \<le> length ms \<Longrightarrow> \<exists>msg. sql_rows 2048 2048 (\<lambda>s. to_sql_string_mac_ue nid s t) ms [] = Inl (Assertion msg)"
  "10 \<le> length rs \<Longrightarrow> \<exists>msg. sql_rows 2048 2048 (\<lambda>s. to_sql_string_rlc_rb nid s t) rs [] = Inl (Assertion msg)"
  "20 \<le> length ps \<Longrightarrow> \<exists>msg. sql_rows 2048 2048 (\<lambda>s. to_sql_string_pdcp_rb nid s t) ps [] = Inl (Assertion msg)"
  "16 \<le> length gs \<Longrightarrow> \<exists>msg. sql_rows 2048 2048 (\<lambda>s. to_sql_string_gtp_NGUT nid s t) gs [] = Inl (Assertion msg)"
  using writer_abort [of "\<lambda>s. to_sql_string_mac_ue nid s t" 1024 "mac_row nid t" 135 8 ms]
    writer_abort [of "\<lambda>s. to_sql_string_rlc_rb nid s t" 1024 "rlc_row nid t" 119 9 rs]
    writer_abort [of "\<lambda>s. to_sql_string_pdcp_rb nid s t" 512 "pdcp_row nid t" 84 19 ps]
    writer_abort [of "\<lambda>s. to_sql_string_gtp_NGUT nid s t" 1024 "gtp_row nid t" 69 15 gs]
  by (simp_all add: to_sql_string_mac_ue_def to_sql_string_rlc_rb_def to_sql_string_pdcp_rb_def to_sql_string_gtp_NGUT_def
      mac_row_between rlc_row_between pdcp_row_between gtp_row_between
      flip: mac_row_def rlc_row_def pdcp_row_def gtp_row_def)

definition example_tunnel :: gtp_ngu_t_stats_t where
  "example_tunnel = \<lparr>ngu_rnti = 4660, ngu_teidgnb = 7, ngu_qfi = 1, ngu_teidupf = 9, ue_context_has_mqr = True,
     ue_context_rrc_ue_id = 1, ue_context_rnti_t = 4660, ue_context_mqr_rsrp = - 80, ue_context_mqr_rsrq = 0,
     ue_context_mqr_sinr = 0\<rparr>"

definition example_gtp :: "nat \<Rightarrow> gtp_ind_msg_t" where
  "example_gtp n = \<lparr>gtp_ngut = replicate n example_tunnel, gtp_tstamp = 1000, gtp_ho_info = zero_ho_info\<rparr>"

abbreviation log_exec :: "string list \<Rightarrow> string \<Rightarrow> string list \<times> bool" where
  "log_exec db sql \<equiv> (db @ [sql], True)"

text \<open>
  Indications that fit: the rows of up to two UEs, two RLC bearers, six PDCP bearers and two
  GTP tunnels are always written, in order and complete, by one call of SQLite.
\<close>

theorem db_rows_written:
  "(length (mac_ue_stats m) \<le> 2 \<longrightarrow>
      write_mac_stats exec db nid m = Inr (insert_db exec db (concat (map (mac_row nid (mac_tstamp m)) (mac_ue_stats m))))) \<and>
   (length (rlc_rb r) \<le> 2 \<longrightarrow>
      write_rlc_stats exec db nid r = Inr (insert_db exec db (concat (map (rlc_row nid (rlc_tstamp r)) (rlc_rb r))))) \<and>
   (length (pdcp_rb p) \<le> 6 \<longrightarrow>
      write_pdcp_stats exec db nid p = Inr (insert_db exec db (concat (map (pdcp_row nid (pdcp_tstamp p)) (pdcp_rb p))))) \<and>
   (length (gtp_ngut g) \<le> 2 \<longrightarrow>
      write_gtp_stats exec db nid g = Inr (insert_db exec db (concat (map (gtp_row nid (gtp_tstamp g)) (gtp_ngut g)))))"
  by (simp add: write_mac_stats_def write_rlc_stats_def write_pdcp_stats_def write_gtp_stats_def rows_fit)

theorem db_rows_written_witness:
  "length (gtp_ngut (example_gtp 2)) = 2 \<and>
   write_gtp_stats log_exec [] node_gnb (example_gtp 2) =
     Inr [gtp_row node_gnb 1000 example_tunnel @ gtp_row node_gnb 1000 example_tunnel]"
  using db_rows_written [of "\<lparr>mac_ue_stats = [], mac_tstamp = 0\<rparr>" log_exec "[]" node_gnb "\<lparr>rlc_rb = [], rlc_tstamp = 0\<rparr>"
      "\<lparr>pdcp_rb = [], pdcp_tstamp = 0\<rparr>" "example_gtp 2"]
  by (simp add: example_gtp_def insert_db_def replicate_numeral)

text \<open>
  C40. Indications that do not fit: the data base thread of an xApp always aborts on the
  statistics of nine or more UEs, ten or more RLC bearers, twenty or more PDCP bearers and
  sixteen or more GTP tunnels, whatever the values are.
\<close>

theorem db_rows_abort:
  "(9 \<le> length (mac_ue_stats m) \<longrightarrow> (\<exists>msg. write_mac_stats exec db nid m = Inl (Assertion msg))) \<and>
   (10 \<le> length (rlc_rb r) \<longrightarrow> (\<exists>msg. write_rlc_stats exec db nid r = Inl (Assertion msg))) \<and>
   (20 \<le> length (pdcp_rb p) \<longrightarrow> (\<exists>msg. write_pdcp_stats exec db nid p = Inl (Assertion msg))) \<and>
   (16 \<le> length (gtp_ngut g) \<longrightarrow> (\<exists>msg. write_gtp_stats exec db nid g = Inl (Assertion msg)))"
  using rows_abort(1) [of "mac_ue_stats m" nid "mac_tstamp m"] rows_abort(2) [of "rlc_rb r" nid "rlc_tstamp r"]
    rows_abort(3) [of "pdcp_rb p" nid "pdcp_tstamp p"] rows_abort(4) [of "gtp_ngut g" nid "gtp_tstamp g"]
  by (auto simp: write_mac_stats_def write_rlc_stats_def write_pdcp_stats_def write_gtp_stats_def)

theorem db_rows_abort_witness:
  "length (gtp_ngut (example_gtp 16)) = 16 \<and>
   (\<exists>msg. write_gtp_stats log_exec [] node_gnb (example_gtp 16) = Inl (Assertion msg))"
  using db_rows_abort [of "\<lparr>mac_ue_stats = [], mac_tstamp = 0\<rparr>" log_exec "[]" node_gnb "\<lparr>rlc_rb = [], rlc_tstamp = 0\<rparr>"
      "\<lparr>pdcp_rb = [], pdcp_tstamp = 0\<rparr>" "example_gtp 16"]
  by (simp add: example_gtp_def)


end
