(* ===== verification/Xapp_Db.thy ===== *)
theory Xapp_Db
  imports Xapp_Rows Ts_Queue
begin

text \<open>
  The data base thread and the callback thread of an xApp: \<^verbatim>\<open>xApp/db/db.c\<close> and
  \<^verbatim>\<open>xApp/msg_dispatcher_xapp.c\<close>.  Both take what the event loop queues.  The data base thread
  takes batches of 100, 10 or 1 entries, which the queue copies into static arrays.

  A thread is a loop that ends when it is told to stop and that returns here when it has to
  wait; that it reaches that point is a theorem.
\<close>

section \<open>The data base thread\<close>

fun is_indication :: "sm_ag_if_rd_t \<Rightarrow> bool" where
  "is_indication (Rd_Ind ind) = True"
| "is_indication rd = False"

record e2_node_ag_if_t =
  dn_id :: global_e2_node_id_t
  dn_rd :: sm_ag_if_rd_t

record db_static_t =
  static_e2_node_ag_if :: "e2_node_ag_if_t option"
  static_e2_node_ag_if_10 :: "e2_node_ag_if_t option list"
  val_10 :: nat
  static_e2_node_ag_if_100 :: "e2_node_ag_if_t option list"
  val_100 :: nat

definition init_db_static :: db_static_t where
  "init_db_static = \<lparr>static_e2_node_ag_if = None, static_e2_node_ag_if_10 = replicate 10 None, val_10 = 0,
     static_e2_node_ag_if_100 = replicate 100 None, val_100 = 0\<rparr>"

definition create_val :: "e2_node_ag_if_t \<Rightarrow> db_static_t \<Rightarrow> db_static_t res" where
  "create_val it s = Inr (s\<lparr>static_e2_node_ag_if := Some it\<rparr>)"

definition create_val_10 :: "e2_node_ag_if_t \<Rightarrow> db_static_t \<Rightarrow> db_static_t res" where
  "create_val_10 it s =
     (if val_10 s \<ge> 10 then Inl (Heap_Overflow ''memcpy(&static_e2_node_ag_if_10[val_10], it, ...)'')
      else
        let s = s\<lparr>static_e2_node_ag_if_10 := (static_e2_node_ag_if_10 s)[val_10 s := Some it], val_10 := val_10 s + 1\<rparr>
        in chk (val_10 s < 11) ''val_10 < 11'' (Inr s))"

definition create_val_100 :: "e2_node_ag_if_t \<Rightarrow> db_static_t \<Rightarrow> db_static_t res" where
  "create_val_100 it s =
     (if val_100 s \<ge> 100 then Inl (Heap_Overflow ''memcpy(&static_e2_node_ag_if_100[val_100], it, ...)'')
      else
        let s = s\<lparr>static_e2_node_ag_if_100 := (static_e2_node_ag_if_100 s)[val_100 s := Some it], val_100 := val_100 s + 1\<rparr>
        in chk (val_100 s < 101) ''val_100 < 101'' (Inr s))"

record 'h db_xapp_t =
  db_handler :: "'h sqlite_st"
  db_q :: "e2_node_ag_if_t tsnq_t"
  db_static :: db_static_t

definition sizeof_e2_node_ag_if :: nat where "sizeof_e2_node_ag_if = 136"

text \<open>\<open>data[i]\<close> is written to the data base and released.\<close>

definition write_entry ::
  "rd_view \<Rightarrow> ('h \<Rightarrow> string \<Rightarrow> 'h \<times> bool) \<Rightarrow> e2_node_ag_if_t option \<Rightarrow> 'h sqlite_st \<Rightarrow> 'h sqlite_st res" where
  "write_entry view exec d h =
     (case d of
        None \<Rightarrow> Inl (Assertion ''data[i].rd.type == INDICATION_MSG_AGENT_IF_ANS_V0'')
      | Some d \<Rightarrow>
          bnd (write_db_sqlite3 view exec h (dn_id d) (dn_rd d)) (\<lambda>h.
          chk (is_indication (dn_rd d)) ''data[i].rd.type == INDICATION_MSG_AGENT_IF_ANS_V0'' (Inr h)))"

datatype worker_end = Batch_Written | Worker_Waits | Worker_Stopped

text \<open>
  One turn of the loop.  \<open>sz\<close> is the size that was read before the mutex is taken again to take
  the entries out.
\<close>

definition worker_turn ::
  "rd_view \<Rightarrow> ('h \<Rightarrow> string \<Rightarrow> 'h \<times> bool) \<Rightarrow> nat \<Rightarrow> 'h db_xapp_t \<Rightarrow> ('h db_xapp_t \<times> worker_end) res" where
  "worker_turn view exec sz db =
     (let s = db_static db in
      bnd (if sz > 100 then pop_tsnq_100 (db_q db) create_val_100 (s\<lparr>val_100 := 0\<rparr>)
           else if sz > 10 then pop_tsnq_10 (db_q db) create_val_10 (s\<lparr>val_10 := 0\<rparr>)
           else wait_and_pop_tsnq (db_q db) create_val s) (\<lambda>(q, p).
      case p of
        Waiting \<Rightarrow> Inr (db\<lparr>db_q := q\<rparr>, Worker_Waits)
      | Stopped \<Rightarrow> Inr (db\<lparr>db_q := q\<lparr>tsnq_stopped := True\<rparr>\<rparr>, Worker_Stopped)
      | Popped s \<Rightarrow>
          let data = (if sz > 100 then static_e2_node_ag_if_100 s
                      else if sz > 10 then static_e2_node_ag_if_10 s
                      else [static_e2_node_ag_if s])
          in bnd (fold_res (write_entry view exec) data (db_handler db)) (\<lambda>h.
             Inr (db\<lparr>db_handler := h, db_q := q, db_static := s\<rparr>, Batch_Written))))"

partial_function (option) db_worker_thread ::
  "rd_view \<Rightarrow> ('h \<Rightarrow> string \<Rightarrow> 'h \<times> bool) \<Rightarrow> 'h db_xapp_t \<Rightarrow> ('h db_xapp_t \<times> worker_end) res option" where
  "db_worker_thread view exec db =
     (case worker_turn view exec (size_tsnq (db_q db)) db of
        Inl e \<Rightarrow> Some (Inl e)
      | Inr r \<Rightarrow>
          (case snd r of
             Batch_Written \<Rightarrow> db_worker_thread view exec (fst r)
           | _ \<Rightarrow> Some (Inr r)))"

definition init_db_xapp :: "('h \<Rightarrow> string \<Rightarrow> 'h \<times> bool) \<Rightarrow> 'h option \<Rightarrow> 'h db_xapp_t res" where
  "init_db_xapp exec opened =
     bnd (init_db_sqlite3 exec opened) (\<lambda>h.
     bnd (init_tsnq sizeof_e2_node_ag_if) (\<lambda>q.
     Inr \<lparr>db_handler = \<lparr>sq_db = h, sq_kpm_acc = 0, sq_rc_acc = 0\<rparr>, db_q = q, db_static = init_db_static\<rparr>))"

definition write_db_xapp :: "'h db_xapp_t \<Rightarrow> global_e2_node_id_t \<Rightarrow> sm_ag_if_rd_t \<Rightarrow> 'h db_xapp_t res" where
  "write_db_xapp db nid rd =
     chk (is_indication rd) ''rd->type == INDICATION_MSG_AGENT_IF_ANS_V0'' (
     bnd (push_tsnq (db_q db) \<lparr>dn_id = cp_global_e2_node_id nid, dn_rd = rd\<rparr> sizeof_e2_node_ag_if) (\<lambda>q.
     Inr (db\<lparr>db_q := q\<rparr>)))"

text \<open>
  Closing asks the thread to stop, waits until it has, and releases the entries that are still
  queued.  The result is the data base and the number of entries that were released.
\<close>

definition free_e2_node_ag_if_wrapper :: "e2_node_ag_if_t \<Rightarrow> unit res" where
  "free_e2_node_ag_if_wrapper d =
     chk (is_indication (dn_rd d)) ''d->rd.type == INDICATION_MSG_AGENT_IF_ANS_V0'' (Inr ())"

definition close_db_xapp ::
  "rd_view \<Rightarrow> ('h \<Rightarrow> string \<Rightarrow> 'h \<times> bool) \<Rightarrow> 'h db_xapp_t \<Rightarrow> ('h sqlite_st \<times> nat) res option" where
  "close_db_xapp view exec db =
     map_option (\<lambda>r. bnd r (\<lambda>(db, _).
       let rest = ring_contents (tsnq_r (db_q db)) in
       bnd (fold_res (\<lambda>d _. free_e2_node_ag_if_wrapper d) rest ()) (\<lambda>_. Inr (db_handler db, length rest))))
     (db_worker_thread view exec (db\<lparr>db_q := stop_tsnq (db_q db)\<rparr>))"

section \<open>The callback thread\<close>

text \<open>
  A callback is the number of a function of the user of the xApp.  \<open>disp_called\<close> records the
  calls; calling a null pointer is a fault.
\<close>

record msg_dispatch_t =
  md_sm_cb :: "nat option"
  md_rd :: sm_ag_if_rd_t

record msg_dispatcher_xapp_t =
  disp_q :: "msg_dispatch_t tsnq_t"
  disp_static :: "msg_dispatch_t option"
  disp_called :: "(nat \<times> sm_ag_if_rd_t) list"

definition sizeof_msg_dispatch :: nat where "sizeof_msg_dispatch = 112"

definition init_msg_dispatcher :: "msg_dispatcher_xapp_t res" where
  "init_msg_dispatcher =
     bnd (init_tsnq sizeof_msg_dispatch) (\<lambda>q. Inr \<lparr>disp_q = q, disp_static = None, disp_called = []\<rparr>)"

definition send_msg_dispatcher :: "msg_dispatcher_xapp_t \<Rightarrow> msg_dispatch_t \<Rightarrow> msg_dispatcher_xapp_t res" where
  "send_msg_dispatcher d msg =
     bnd (push_tsnq (disp_q d) msg sizeof_msg_dispatch) (\<lambda>q. Inr (d\<lparr>disp_q := q\<rparr>))"

definition size_msg_dispatcher :: "msg_dispatcher_xapp_t \<Rightarrow> nat" where
  "size_msg_dispatcher d = size_tsnq (disp_q d)"

definition dispatch_turn :: "msg_dispatcher_xapp_t \<Rightarrow> (msg_dispatcher_xapp_t \<times> worker_end) res" where
  "dispatch_turn d =
     bnd (wait_and_pop_tsnq (disp_q d) (\<lambda>it _. Inr (Some it)) (disp_static d)) (\<lambda>(q, p).
     case p of
       Waiting \<Rightarrow> Inr (d\<lparr>disp_q := q\<rparr>, Worker_Waits)
     | Stopped \<Rightarrow> Inr (d\<lparr>disp_q := q\<lparr>tsnq_stopped := True\<rparr>\<rparr>, Worker_Stopped)
     | Popped s \<Rightarrow>
         (case s of
            None \<Rightarrow> Inl (Null_Deref ''msg'')
          | Some msg \<Rightarrow>
              (case md_sm_cb msg of
                 None \<Rightarrow> Inl (Null_Deref ''msg->sm_cb'')
               | Some cb \<Rightarrow>
                   Inr (d\<lparr>disp_q := q, disp_static := s, disp_called := disp_called d @ [(cb, md_rd msg)]\<rparr>,
                        Batch_Written))))"

partial_function (option) dispatcher_thread ::
  "msg_dispatcher_xapp_t \<Rightarrow> (msg_dispatcher_xapp_t \<times> worker_end) res option" where
  "dispatcher_thread d =
     (case dispatch_turn d of
        Inl e \<Rightarrow> Some (Inl e)
      | Inr r \<Rightarrow>
          (case snd r of
             Batch_Written \<Rightarrow> dispatcher_thread (fst r)
           | _ \<Rightarrow> Some (Inr r)))"

section \<open>The static arrays\<close>

lemma update_prefix:
  assumes "v + length xs < length arr" "length pre = v"
  shows "(pre @ map Some xs @ drop (v + length xs) arr)[v + length xs := Some x] =
    pre @ map Some (xs @ [x]) @ drop (v + length (xs @ [x])) arr"
  using assms by (simp add: list_update_append drop_eq_nth_Cons)

lemma create_val_10_step:
  "val_10 s < 10 \<Longrightarrow> create_val_10 x s =
     Inr (s\<lparr>static_e2_node_ag_if_10 := (static_e2_node_ag_if_10 s)[val_10 s := Some x], val_10 := val_10 s + 1\<rparr>)"
  by (simp add: create_val_10_def Let_def)

lemma create_val_10_fold:
  assumes "length (static_e2_node_ag_if_10 s) = 10" "length xs \<le> 10"
  shows "\<exists>s'. fold_res create_val_10 xs (s\<lparr>val_10 := 0\<rparr>) = Inr s' \<and>
    static_e2_node_ag_if_10 s' = map Some xs @ drop (length xs) (static_e2_node_ag_if_10 s) \<and> val_10 s' = length xs \<and>
    static_e2_node_ag_if_100 s' = static_e2_node_ag_if_100 s"
  using assms(2)
proof (induction xs rule: rev_induct)
  case (snoc x xs)
  then obtain s1 where s1: "fold_res create_val_10 xs (s\<lparr>val_10 := 0\<rparr>) = Inr s1"
    "static_e2_node_ag_if_10 s1 = map Some xs @ drop (length xs) (static_e2_node_ag_if_10 s)" "val_10 s1 = length xs"
    "static_e2_node_ag_if_100 s1 = static_e2_node_ag_if_100 s"
    by auto
  then show ?case
    using snoc.prems assms(1) update_prefix [of 0 xs "static_e2_node_ag_if_10 s" "[]" x]
    by (simp add: fold_res_append create_val_10_step)
qed simp

lemma create_val_100_step:
  "val_100 s < 100 \<Longrightarrow> create_val_100 x s =
     Inr (s\<lparr>static_e2_node_ag_if_100 := (static_e2_node_ag_if_100 s)[val_100 s := Some x], val_100 := val_100 s + 1\<rparr>)"
  by (simp add: create_val_100_def Let_def)

lemma create_val_100_fold:
  assumes "length (static_e2_node_ag_if_100 s) = 100" "length xs \<le> 100"
  shows "\<exists>s'. fold_res create_val_100 xs (s\<lparr>val_100 := 0\<rparr>) = Inr s' \<and>
    static_e2_node_ag_if_100 s' = map Some xs @ drop (length xs) (static_e2_node_ag_if_100 s) \<and> val_100 s' = length xs \<and>
    static_e2_node_ag_if_10 s' = static_e2_node_ag_if_10 s"
  using assms(2)
proof (induction xs rule: rev_induct)
  case (snoc x xs)
  then obtain s1 where s1: "fold_res create_val_100 xs (s\<lparr>val_100 := 0\<rparr>) = Inr s1"
    "static_e2_node_ag_if_100 s1 = map Some xs @ drop (length xs) (static_e2_node_ag_if_100 s)" "val_100 s1 = length xs"
    "static_e2_node_ag_if_10 s1 = static_e2_node_ag_if_10 s"
    by auto
  then show ?case
    using snoc.prems assms(1) update_prefix [of 0 xs "static_e2_node_ag_if_100 s" "[]" x]
    by (simp add: fold_res_append create_val_100_step)
qed simp

lemma create_val_10_full:
  assumes "length (static_e2_node_ag_if_10 s) = 10" "length xs = 10"
  obtains s' where "fold_res create_val_10 xs (s\<lparr>val_10 := 0\<rparr>) = Inr s'" "static_e2_node_ag_if_10 s' = map Some xs"
    "static_e2_node_ag_if_100 s' = static_e2_node_ag_if_100 s"
  using create_val_10_fold [OF assms(1), of xs] assms by auto

lemma create_val_100_full:
  assumes "length (static_e2_node_ag_if_100 s) = 100" "length xs = 100"
  obtains s' where "fold_res create_val_100 xs (s\<lparr>val_100 := 0\<rparr>) = Inr s'" "static_e2_node_ag_if_100 s' = map Some xs"
    "static_e2_node_ag_if_10 s' = static_e2_node_ag_if_10 s"
  using create_val_100_fold [OF assms(1), of xs] assms by auto

abbreviation db_queued :: "'h db_xapp_t \<Rightarrow> e2_node_ag_if_t list" where
  "db_queued db \<equiv> ring_contents (tsnq_r (db_q db))"

definition db_ok :: "'h db_xapp_t \<Rightarrow> bool" where
  "db_ok db \<longleftrightarrow> tsnq_inv sizeof_e2_node_ag_if (db_q db) \<and> length (static_e2_node_ag_if_10 (db_static db)) = 10 \<and>
     length (static_e2_node_ag_if_100 (db_static db)) = 100 \<and> (\<forall>d \<in> set (db_queued db). is_indication (dn_rd d))"

text \<open>Writing a list of entries, in order.\<close>

abbreviation write_all ::
  "rd_view \<Rightarrow> ('h \<Rightarrow> string \<Rightarrow> 'h \<times> bool) \<Rightarrow> e2_node_ag_if_t list \<Rightarrow> 'h sqlite_st \<Rightarrow> 'h sqlite_st res" where
  "write_all view exec es \<equiv> fold_res (write_entry view exec) (map Some es)"

text \<open>
  A turn takes a batch of the size it has seen, whatever has been queued since: the entries are
  taken from the front, and written in order.
\<close>

lemma worker_turn_ok:
  assumes "db_ok db" "db_queued db \<noteq> []" "sz \<le> length (db_queued db)"
  shows "\<exists>n s q. 0 < n \<and> n \<le> length (db_queued db) \<and> ring_contents (tsnq_r q) = drop n (db_queued db) \<and>
    (\<forall>h. db_ok (db\<lparr>db_handler := h, db_q := q, db_static := s\<rparr>)) \<and>
    worker_turn view exec sz db = bnd (write_all view exec (take n (db_queued db)) (db_handler db)) (\<lambda>h.
      Inr (db\<lparr>db_handler := h, db_q := q, db_static := s\<rparr>, Batch_Written))"
proof -
  let ?c = "db_queued db" and ?s = "db_static db"
  have inv: "tsnq_inv sizeof_e2_node_ag_if (db_q db)" "length (static_e2_node_ag_if_10 ?s) = 10"
    "length (static_e2_node_ag_if_100 ?s) = 100"
    using assms(1) by (simp_all add: db_ok_def)
  have ind: "\<forall>d \<in> set (drop n ?c). is_indication (dn_rd d)" for n
    using assms(1) set_drop_subset [of n ?c] by (auto simp: db_ok_def)
  have len: "seq_ring_size (tsnq_r (db_q db)) = length ?c"
    by simp
  consider "100 < sz" | "10 < sz" "sz \<le> 100" | "sz \<le> 10"
    by linarith
  then show ?thesis
  proof cases
    case 1
    have l: "length (take 100 ?c) = 100" and n: "(0 :: nat) < 100" "100 \<le> seq_ring_size (tsnq_r (db_q db))"
      using 1 assms(3) by simp_all
    obtain s' where s': "fold_res create_val_100 (take 100 ?c) (?s\<lparr>val_100 := 0\<rparr>) = Inr s'"
      "static_e2_node_ag_if_100 s' = map Some (take 100 ?c)" "static_e2_node_ag_if_10 s' = static_e2_node_ag_if_10 ?s"
      by (rule create_val_100_full [OF inv(3) l])
    obtain q' where q': "pop_tsnq_n 100 ''seq_size(&q->r) >= 100'' (db_q db) create_val_100 (?s\<lparr>val_100 := 0\<rparr>) = Inr (q', Popped s')"
      "tsnq_inv sizeof_e2_node_ag_if q'" "ring_contents (tsnq_r q') = drop 100 ?c"
      "seq_ring_size (tsnq_r q') = seq_ring_size (tsnq_r (db_q db)) - 100"
      by (rule tsnq_pop_n [OF inv(1) n s'(1)])
    show ?thesis
      using q' s' inv ind [of 100] 1 assms(3)
      by (intro exI [of _ 100] exI [of _ s'] exI [of _ q']) (simp add: worker_turn_def pop_tsnq_100_def db_ok_def Let_def)
  next
    case 2
    have l: "length (take 10 ?c) = 10" and n: "(0 :: nat) < 10" "10 \<le> seq_ring_size (tsnq_r (db_q db))"
      using 2 assms(3) by simp_all
    obtain s' where s': "fold_res create_val_10 (take 10 ?c) (?s\<lparr>val_10 := 0\<rparr>) = Inr s'"
      "static_e2_node_ag_if_10 s' = map Some (take 10 ?c)" "static_e2_node_ag_if_100 s' = static_e2_node_ag_if_100 ?s"
      by (rule create_val_10_full [OF inv(2) l])
    obtain q' where q': "pop_tsnq_n 10 ''seq_size(&q->r) >= 10'' (db_q db) create_val_10 (?s\<lparr>val_10 := 0\<rparr>) = Inr (q', Popped s')"
      "tsnq_inv sizeof_e2_node_ag_if q'" "ring_contents (tsnq_r q') = drop 10 ?c"
      "seq_ring_size (tsnq_r q') = seq_ring_size (tsnq_r (db_q db)) - 10"
      by (rule tsnq_pop_n [OF inv(1) n s'(1)])
    show ?thesis
      using q' s' inv ind [of 10] 2 assms(3)
      by (intro exI [of _ 10] exI [of _ s'] exI [of _ q']) (simp add: worker_turn_def pop_tsnq_10_def db_ok_def Let_def)
  next
    case 3
    obtain x xs where c: "?c = x # xs"
      using assms(2) by (cases ?c) auto
    obtain q' where q': "wait_and_pop_tsnq (db_q db) create_val ?s = Inr (q', Popped (?s\<lparr>static_e2_node_ag_if := Some x\<rparr>))"
      "tsnq_inv sizeof_e2_node_ag_if q'" "ring_contents (tsnq_r q') = xs"
      by (rule tsnq_wait_and_pop [OF inv(1) c, of create_val]) (auto simp: create_val_def)
    show ?thesis
      using q' inv ind [of 1] 3 c
      by (intro exI [of _ 1] exI [of _ "?s\<lparr>static_e2_node_ag_if := Some x\<rparr>"] exI [of _ q'])
        (simp add: worker_turn_def db_ok_def Let_def)
  qed
qed

lemma worker_waits:
  assumes "db_ok db" "db_queued db = []"
  shows "worker_turn view exec 0 db = Inr (db, Worker_Waits)"
  using assms by (simp add: worker_turn_def wait_and_pop_tsnq_def db_ok_def tsnq_inv_def ring_contents_Nil)

text \<open>Queueing an entry.\<close>

abbreviation db_room :: "nat \<Rightarrow> 'h db_xapp_t \<Rightarrow> bool" where
  "db_room n db \<equiv> ring_room n (tsnq_r (db_q db))"

lemma write_db_ok:
  assumes "db_ok db" "db_room (Suc n) db"
  shows "\<exists>db'. write_db_xapp db nid (Rd_Ind ind) = Inr db' \<and> db_ok db' \<and> db_room n db' \<and>
    db_queued db' = db_queued db @ [\<lparr>dn_id = nid, dn_rd = Rd_Ind ind\<rparr>] \<and> db_handler db' = db_handler db"
proof -
  obtain q where "push_tsnq (db_q db) \<lparr>dn_id = nid, dn_rd = Rd_Ind ind\<rparr> sizeof_e2_node_ag_if = Inr q"
    "tsnq_inv sizeof_e2_node_ag_if q" "ring_room n (tsnq_r q)"
    "ring_contents (tsnq_r q) = db_queued db @ [\<lparr>dn_id = nid, dn_rd = Rd_Ind ind\<rparr>]"
    using tsnq_push_law [OF _ assms(2)] assms(1) unfolding db_ok_def by blast
  then show ?thesis
    using assms(1) by (simp add: write_db_xapp_def db_ok_def)
qed

lemma init_tsnq_ok:
  assumes "0 < sz" "n < 2 ^ 31"
  shows "\<exists>q :: 'a tsnq_t. init_tsnq sz = Inr q \<and> tsnq_inv sz q \<and> ring_contents (tsnq_r q) = [] \<and> ring_room n (tsnq_r q)"
proof -
  let ?r = "seq_ring_init sz :: 'a seq_ring_t"
  have "sr_elt_size ?r = sz" "seq_ring_size ?r = 0" "ring_inv ?r \<and> ring_contents ?r = []"
    by (simp_all add: seq_ring_init_def seq_ring_size_def ring_inv_init [unfolded seq_ring_init_def])
  then show ?thesis
    using assms by (simp add: init_tsnq_def tsnq_inv_def ring_room_def)
qed

section \<open>The callback thread\<close>

definition disp_ok :: "msg_dispatcher_xapp_t \<Rightarrow> bool" where
  "disp_ok d \<longleftrightarrow> tsnq_inv sizeof_msg_dispatch (disp_q d)"

abbreviation disp_queued :: "msg_dispatcher_xapp_t \<Rightarrow> msg_dispatch_t list" where
  "disp_queued d \<equiv> ring_contents (tsnq_r (disp_q d))"

lemma dispatcher_calls:
  assumes "disp_ok d" "disp_queued d = map (\<lambda>(cb, rd). \<lparr>md_sm_cb = Some cb, md_rd = rd\<rparr>) calls"
  shows "\<exists>d'. dispatcher_thread d = Some (Inr (d', Worker_Waits)) \<and> disp_ok d' \<and> disp_queued d' = [] \<and>
    disp_called d' = disp_called d @ calls"
  using assms
proof (induction calls arbitrary: d)
  case Nil
  then have "dispatch_turn d = Inr (d, Worker_Waits)"
    by (simp add: dispatch_turn_def wait_and_pop_tsnq_def disp_ok_def tsnq_inv_def ring_contents_Nil)
  then show ?case
    using Nil by (simp add: dispatcher_thread.simps [of d])
next
  case (Cons c calls)
  obtain cb rd where c: "c = (cb, rd)"
    by (cases c)
  let ?m = "\<lparr>md_sm_cb = Some cb, md_rd = rd\<rparr>"
  obtain q where q: "wait_and_pop_tsnq (disp_q d) (\<lambda>it _. Inr (Some it)) (disp_static d) = Inr (q, Popped (Some ?m))"
    "tsnq_inv sizeof_msg_dispatch q"
    "ring_contents (tsnq_r q) = map (\<lambda>(cb, rd). \<lparr>md_sm_cb = Some cb, md_rd = rd\<rparr>) calls"
    "seq_ring_size (tsnq_r q) = seq_ring_size (tsnq_r (disp_q d)) - 1"
    by (rule tsnq_wait_and_pop [OF Cons.prems(1) [unfolded disp_ok_def], of ?m _ "\<lambda>it _. Inr (Some it)"])
      (use Cons.prems(2) c in auto)
  let ?d = "d\<lparr>disp_q := q, disp_static := Some ?m, disp_called := disp_called d @ [(cb, rd)]\<rparr>"
  have "dispatch_turn d = Inr (?d, Batch_Written)"
    using q(1) by (simp add: dispatch_turn_def)
  then have "dispatcher_thread d = dispatcher_thread ?d"
    by (simp add: dispatcher_thread.simps [of d])
  then show ?case
    using Cons.IH [of ?d] q(2,3) c by (simp add: disp_ok_def)
qed

section \<open>Properties\<close>

text \<open>
  C21. The data base thread empties its queue: it writes every queued entry once and in the order
  in which they were queued, however the batches fall, and then waits for the next one.
\<close>

theorem db_worker_drains:
  assumes "db_ok db" "write_all view exec (db_queued db) (db_handler db) = Inr h"
  shows "\<exists>db'. db_worker_thread view exec db = Some (Inr (db', Worker_Waits)) \<and> db_ok db' \<and> db_queued db' = [] \<and>
    db_handler db' = h"
  using assms
proof (induction "length (db_queued db)" arbitrary: db rule: less_induct)
  case less
  show ?case
  proof (cases "db_queued db = []")
    case True
    then have "size_tsnq (db_q db) = 0" "db_handler db = h"
      using less.prems(2) ring_contents_Nil [of "tsnq_r (db_q db)"] by (simp_all add: size_tsnq_def True)
    then show ?thesis
      using less.prems(1) worker_waits [OF less.prems(1) True, of view exec] True
      by (simp add: db_worker_thread.simps [of view exec db])
  next
    case False
    obtain n s q where t: "0 < n" "n \<le> length (db_queued db)" "ring_contents (tsnq_r q) = drop n (db_queued db)"
      "\<forall>h. db_ok (db\<lparr>db_handler := h, db_q := q, db_static := s\<rparr>)"
      "worker_turn view exec (size_tsnq (db_q db)) db = bnd (write_all view exec (take n (db_queued db)) (db_handler db)) (\<lambda>h.
        Inr (db\<lparr>db_handler := h, db_q := q, db_static := s\<rparr>, Batch_Written))"
      using worker_turn_ok [OF less.prems(1) False, of "size_tsnq (db_q db)" view exec] by (auto simp: size_tsnq_def)
    have all: "write_all view exec (take n (db_queued db) @ drop n (db_queued db)) (db_handler db) = Inr h"
      unfolding append_take_drop_id by (rule less.prems(2))
    obtain h1 where h1: "write_all view exec (take n (db_queued db)) (db_handler db) = Inr h1"
      "write_all view exec (drop n (db_queued db)) h1 = Inr h"
      using all unfolding map_append fold_res_append bnd_eq_Inr by (elim exE conjE)
    let ?db = "db\<lparr>db_handler := h1, db_q := q, db_static := s\<rparr>"
    have "db_worker_thread view exec db = db_worker_thread view exec ?db"
      using t(5) h1(1) by (simp add: db_worker_thread.simps [of view exec db])
    then show ?thesis
      using less.hyps [of ?db] t(1-4) h1(2) False by simp
  qed
qed

definition example_view :: rd_view where
  "example_view = \<lparr>as_mac = (\<lambda>_. \<lparr>mac_ue_stats = [], mac_tstamp = 0\<rparr>), as_rlc = (\<lambda>_. \<lparr>rlc_rb = [], rlc_tstamp = 0\<rparr>),
     as_pdcp = (\<lambda>_. \<lparr>pdcp_rb = [], pdcp_tstamp = 0\<rparr>),
     as_slice = (\<lambda>_. \<lparr>si_dl = \<lparr>sc_slices = [], sc_sched_name = []\<rparr>, si_ul = \<lparr>sc_slices = [], sc_sched_name = []\<rparr>,
       si_ues = [], si_tstamp = 0\<rparr>),
     as_gtp = (\<lambda>_. example_gtp 1)\<rparr>"

abbreviation example_entry :: e2_node_ag_if_t where
  "example_entry \<equiv> \<lparr>dn_id = node_gnb, dn_rd = Rd_Ind \<lparr>rd_type = GTP_STATS_V0, rd_values = []\<rparr>\<rparr>"

abbreviation example_db :: "e2_node_ag_if_t tsnq_t \<Rightarrow> string list db_xapp_t" where
  "example_db q \<equiv> \<lparr>db_handler = \<lparr>sq_db = [], sq_kpm_acc = 0, sq_rc_acc = 0\<rparr>, db_q = q, db_static = init_db_static\<rparr>"

text \<open>A data base with two queued entries.\<close>

lemma example_db_queue: "\<exists>db :: string list db_xapp_t. db_ok db \<and> db_queued db = [example_entry, example_entry] \<and>
    db_handler db = \<lparr>sq_db = [], sq_kpm_acc = 0, sq_rc_acc = 0\<rparr>"
proof -
  obtain q :: "e2_node_ag_if_t tsnq_t" where q: "tsnq_inv sizeof_e2_node_ag_if q" "ring_contents (tsnq_r q) = []"
    "ring_room 2 (tsnq_r q)"
    using init_tsnq_ok [of sizeof_e2_node_ag_if 2] by (auto simp: sizeof_e2_node_ag_if_def)
  have "db_ok (example_db q)" "db_room (Suc 1) (example_db q)"
    using q(1-3) by (simp_all add: db_ok_def init_db_static_def numeral_2_eq_2)
  then obtain db1 :: "string list db_xapp_t" where db1: "db_ok db1" "db_room (Suc 0) db1" "db_queued db1 = [example_entry]"
    "db_handler db1 = \<lparr>sq_db = [], sq_kpm_acc = 0, sq_rc_acc = 0\<rparr>"
    using write_db_ok [of "example_db q" 1 node_gnb "\<lparr>rd_type = GTP_STATS_V0, rd_values = []\<rparr>"] q(2) by auto
  then show ?thesis
    using write_db_ok [of db1 0 node_gnb "\<lparr>rd_type = GTP_STATS_V0, rd_values = []\<rparr>"] by auto
qed

lemma example_write:
  "write_all example_view log_exec [example_entry, example_entry] \<lparr>sq_db = [], sq_kpm_acc = 0, sq_rc_acc = 0\<rparr> =
     Inr \<lparr>sq_db = [gtp_row node_gnb 1000 example_tunnel, gtp_row node_gnb 1000 example_tunnel], sq_kpm_acc = 0, sq_rc_acc = 0\<rparr>"
  using rows_fit(4) [of "[example_tunnel]" node_gnb 1000]
  by (simp del: sql_rows.simps add: write_entry_def write_db_sqlite3_def example_view_def write_gtp_stats_def example_gtp_def insert_db_def)

theorem db_worker_drains_witness:
  "\<exists>db db'. db_queued db = [example_entry, example_entry] \<and>
    db_worker_thread example_view log_exec db = Some (Inr (db', Worker_Waits)) \<and> db_queued db' = [] \<and>
    sq_db (db_handler db') = [gtp_row node_gnb 1000 example_tunnel, gtp_row node_gnb 1000 example_tunnel]"
proof -
  obtain db :: "string list db_xapp_t" where db: "db_ok db" "db_queued db = [example_entry, example_entry]"
    "db_handler db = \<lparr>sq_db = [], sq_kpm_acc = 0, sq_rc_acc = 0\<rparr>"
    using example_db_queue by blast
  show ?thesis
    using db_worker_drains [OF db(1) example_write [folded db(2,3)]] db(2) by auto
qed

text \<open>
  Closing does not write what is still queued: the thread stops before the next batch and every
  queued entry is released.  The callback thread stops in the same way.
\<close>

lemma close_db_ok:
  assumes "db_ok db"
  shows "close_db_xapp view exec db = Some (Inr (db_handler db, length (db_queued db)))"
proof -
  let ?db = "db\<lparr>db_q := stop_tsnq (db_q db)\<rparr>" and ?q = "(stop_tsnq (db_q db))\<lparr>tsnq_stopped := True\<rparr>"
  have "worker_turn view exec sz ?db = Inr (db\<lparr>db_q := ?q\<rparr>, Worker_Stopped)" for sz
    by (simp add: worker_turn_def pop_tsnq_100_def pop_tsnq_10_def pop_tsnq_n_def wait_and_pop_tsnq_def stop_tsnq_def Let_def)
  then have w: "db_worker_thread view exec ?db = Some (Inr (db\<lparr>db_q := ?q\<rparr>, Worker_Stopped))"
    by (simp add: db_worker_thread.simps [of view exec ?db])
  have "fold_res (\<lambda>d _. free_e2_node_ag_if_wrapper d) (db_queued db) () = Inr ()"
    using fold_res_total [of "db_queued db" "\<lambda>d _. free_e2_node_ag_if_wrapper d" "\<lambda>_ _. ()" "()"] assms
    by (simp add: free_e2_node_ag_if_wrapper_def db_ok_def)
  moreover have "ring_contents (tsnq_r ?q) = db_queued db"
    by (simp add: stop_tsnq_def)
  ultimately show ?thesis
    unfolding close_db_xapp_def w by (simp add: stop_tsnq_def)
qed

lemma dispatcher_stops:
  "dispatcher_thread (d\<lparr>disp_q := stop_tsnq (disp_q d)\<rparr>) =
     Some (Inr (d\<lparr>disp_q := (stop_tsnq (disp_q d))\<lparr>tsnq_stopped := True\<rparr>\<rparr>, Worker_Stopped))"
proof -
  let ?d = "d\<lparr>disp_q := stop_tsnq (disp_q d)\<rparr>"
  have "dispatch_turn ?d = Inr (d\<lparr>disp_q := (stop_tsnq (disp_q d))\<lparr>tsnq_stopped := True\<rparr>\<rparr>, Worker_Stopped)"
    by (simp add: dispatch_turn_def wait_and_pop_tsnq_def stop_tsnq_def)
  then show ?thesis
    by (simp add: dispatcher_thread.simps [of ?d])
qed

end
