(* ===== verification/Xapp.thy ===== *)
theory Xapp
  imports E2_Agent Act_Proc Xapp_Db
begin

text \<open>
  An xApp: \<^verbatim>\<open>xApp/e42_xapp.c\<close>, \<^verbatim>\<open>msg_handler_xapp.c\<close>, \<^verbatim>\<open>msg_generator_xapp.c\<close>,
  \<^verbatim>\<open>pending_event_xapp.c\<close>, \<^verbatim>\<open>sync_ui.c\<close>, \<^verbatim>\<open>asio_xapp.c\<close> and \<^verbatim>\<open>e42_xapp_api.c\<close>.  The user calls
  the interface from a thread of his own: a call registers an active procedure, sends a request and
  waits on a condition variable; the event loop receives the response, stops the timer of the
  request and signals.  Indications go to the data base thread and to the callback thread.

  A call of the interface is split at the wait: \<open>report_sm_sync_xapp\<close> and its like run up to it and
  return what the caller does next, \<open>after_wait\<close> runs the rest.  The wait has no condition that it
  checks: it ends by the signal, by its timeout or spuriously, and the code goes on in the same way.

  The state holds one field for each field of the structure that is read or written.  The socket
  is its descriptor, \<open>xa_sent\<close> records what is sent on it, \<open>xa_consumed\<close> the timers that are read
  after they expired, \<open>xa_retry_count\<close> is the local variable of the event loop.  The descriptor that
  the operating system hands out for a timer is an argument \<open>tfd\<close>.
\<close>

section \<open>State\<close>

record pending_event_xapp_t =
  pex_ev :: pending_event_t
  pex_id :: ric_gen_id_t
  pex_wait_ms :: int

definition sizeof_pending_event_xapp :: nat where "sizeof_pending_event_xapp = 20"

record sync_ui_t =
  su_wait_ms :: int
  su_flag_sync :: bool
  su_msg_ack :: bool

record 'h e42_xapp_t =
  xa_fd :: int
  xa_io :: "int list"
  xa_plugin_ag :: "(u16, sm_agent_t) assoc_rb_tree_t"
  xa_plugin_ric :: "(u16, sm_ric_t) assoc_rb_tree_t"
  xa_e2_nodes :: reg_e2_nodes_t
  xa_id :: u16
  xa_sync :: sync_ui_t
  xa_act_proc :: act_proc_t
  xa_pending :: "(int, pending_event_xapp_t) bi_map_t"
  xa_msg_disp :: msg_dispatcher_xapp_t
  xa_db :: "'h db_xapp_t"
  xa_connected :: bool
  xa_retry_count :: nat
  xa_sent :: "e2ap_msg_t list"
  xa_consumed :: "int list"

section \<open>Descriptors, timers and pending events\<close>

definition add_fd_asio_xapp :: "int list \<Rightarrow> int \<Rightarrow> int list res" where
  "add_fd_asio_xapp io fd =
     chk (fd > 0) ''fd cannot be negative, data corrupted'' (
     chk (fd \<notin> set io) ''rc != -1'' (Inr (fd # io)))"

definition rm_fd_asio_xapp :: "int list \<Rightarrow> int \<Rightarrow> int list res" where
  "rm_fd_asio_xapp io fd = chk (fd \<in> set io) ''rc != -1'' (Inr (removeAll fd io))"

definition create_timer_ms_asio_xapp :: "int list \<Rightarrow> int \<Rightarrow> int \<Rightarrow> int \<Rightarrow> (int list \<times> int) res" where
  "create_timer_ms_asio_xapp io initial_ms interval_ms tfd =
     chk (initial_ms > 0) ''initial_ms > 0'' (
     chk (interval_ms > 0) ''interval_ms > 0'' (
     chk (tfd \<noteq> - 1) ''tfd != -1'' (
     bnd (add_fd_asio_xapp io tfd) (\<lambda>io. Inr (io, tfd)))))"

text \<open>The map of the pending events compares the kind of the event only.\<close>

definition cmp_pending_event_xapp :: "pending_event_xapp_t \<Rightarrow> pending_event_xapp_t \<Rightarrow> int res" where
  "cmp_pending_event_xapp p1 p2 = Inr (cmp_pending_event (pex_ev p1) (pex_ev p2))"

definition free_fd_xapp :: "int \<Rightarrow> pending_event_xapp_t \<Rightarrow> unit res" where
  "free_fd_xapp fd v = chk (fd > 0) ''*fd > 0'' (Inr ())"

definition free_pending_ev_xapp :: "pending_event_xapp_t \<Rightarrow> int \<Rightarrow> unit res" where
  "free_pending_ev_xapp ev v = bnd (valid_pending_event (pex_ev ev)) (\<lambda>_. Inr ())"

definition init_pending_events_xapp :: "(int, pending_event_xapp_t) bi_map_t res" where
  "init_pending_events_xapp =
     bi_map_init sizeof_fd sizeof_pending_event_xapp cmp_fd cmp_pending_event_xapp
       (Some free_fd_xapp) (Some free_pending_ev_xapp)"

definition add_pending_event ::
  "(int, pending_event_xapp_t) bi_map_t \<Rightarrow> int \<Rightarrow> pending_event_xapp_t \<Rightarrow> (int, pending_event_xapp_t) bi_map_t res" where
  "add_pending_event p fd ev =
     chk (fd > 0) ''fd > 0'' (bi_map_insert p fd sizeof_fd ev sizeof_pending_event_xapp)"

definition rm_pending_event_ev ::
  "(int, pending_event_xapp_t) bi_map_t \<Rightarrow> pending_event_xapp_t \<Rightarrow> ((int, pending_event_xapp_t) bi_map_t \<times> int) res" where
  "rm_pending_event_ev p ev =
     bnd (bi_map_size p) (\<lambda>sz.
     bnd (bi_map_extract_right p ev sizeof_pending_event_xapp None) (\<lambda>(p, fd).
     bnd (bi_map_size p) (\<lambda>sz'.
     chk (sz = sz' + 1) ''sz == bi_map_size(&p->pending) + 1'' (
     chk (fd > 0) ''fd != NULL && *fd > 0'' (Inr (p, fd))))))"

definition find_pending_event_fd :: "(int, pending_event_xapp_t) bi_map_t \<Rightarrow> int \<Rightarrow> bool res" where
  "find_pending_event_fd p fd =
     chk (fd > 0) ''fd > 0'' (bnd (lookup_if (bm_left p) (eq_fd fd)) (\<lambda>v. Inr (v \<noteq> None)))"

definition rm_pending_event_fd :: "(int, pending_event_xapp_t) bi_map_t \<Rightarrow> int \<Rightarrow> (int, pending_event_xapp_t) bi_map_t res" where
  "rm_pending_event_fd p fd =
     chk (fd > 0) ''fd > 0'' (bnd (bi_map_extract_left p fd sizeof_fd None) (\<lambda>(p, ev). Inr p))"

definition add_pending_event_xapp :: "'h e42_xapp_t \<Rightarrow> pending_event_xapp_t \<Rightarrow> int \<Rightarrow> 'h e42_xapp_t res" where
  "add_pending_event_xapp xapp ev tfd =
     chk (pex_wait_ms ev > 0) ''ev->wait_ms > 0'' (
     bnd (create_timer_ms_asio_xapp (xa_io xapp) (pex_wait_ms ev) (pex_wait_ms ev) tfd) (\<lambda>(io, fd_timer).
     bnd (add_pending_event (xa_pending xapp) fd_timer ev) (\<lambda>p.
     Inr (xapp\<lparr>xa_io := io, xa_pending := p\<rparr>))))"

definition rm_pending_event_xapp :: "'h e42_xapp_t \<Rightarrow> pending_event_xapp_t \<Rightarrow> 'h e42_xapp_t res" where
  "rm_pending_event_xapp xapp ev =
     bnd (rm_pending_event_ev (xa_pending xapp) ev) (\<lambda>(p, fd).
     bnd (rm_fd_asio_xapp (xa_io xapp) fd) (\<lambda>io.
     Inr (xapp\<lparr>xa_io := io, xa_pending := p\<rparr>)))"

definition init_sync_ui :: sync_ui_t where
  "init_sync_ui = \<lparr>su_wait_ms = 5000, su_flag_sync = False, su_msg_ack = False\<rparr>"

definition signal_sync_ui :: "sync_ui_t \<Rightarrow> sync_ui_t" where
  "signal_sync_ui s = s\<lparr>su_flag_sync := True, su_msg_ack := True\<rparr>"

definition e2ap_send_bytes_xapp :: "'h e42_xapp_t \<Rightarrow> e2ap_msg_t \<Rightarrow> 'h e42_xapp_t" where
  "e2ap_send_bytes_xapp xapp msg = xapp\<lparr>xa_sent := xa_sent xapp @ [msg]\<rparr>"

section \<open>Generated messages\<close>

definition generate_subscription_request_xapp ::
  "ric_gen_id_t \<Rightarrow> sm_ric_t \<Rightarrow> byte_array_t \<Rightarrow> ric_subscription_request_t res" where
  "generate_subscription_request_xapp ric_id sm cmd =
     (let data = on_subscription sm cmd in
      chk ((case sub_action_def data of None \<Rightarrow> 0 | Some ad \<Rightarrow> length ad) < 2048) ''data.len_ad < 2048'' (
      Inr \<lparr>sreq_ric_id = ric_id, sreq_event_trigger = sub_event_trigger data,
           sreq_action = [\<lparr>act_id = 0, act_type = RIC_ACT_REPORT, act_definition = sub_action_def data,
                           act_subseq_action = None\<rparr>]\<rparr>))"

definition generate_e42_setup_request :: "'h e42_xapp_t \<Rightarrow> e42_setup_request_t res" where
  "generate_e42_setup_request xapp =
     (let len_rf = assoc_rb_tree_size (xa_plugin_ag xapp) in
      chk (len_rf > 0) ''No RAN function/service model registered'' (
      chk (len_rf = assoc_rb_tree_size (xa_plugin_ric xapp)) ''Invariant violated'' (
      bnd (gen_ran_functions len_rf (assoc_rb_tree_front (xa_plugin_ag xapp))) (\<lambda>(ran_func, it).
      chk (at_end it) ''Length mismatch'' (
      Inr \<lparr>e42_ran_func_item = ran_func\<rparr>)))))"

definition generate_ric_control_request ::
  "ric_gen_id_t \<Rightarrow> sm_ric_t \<Rightarrow> byte_array_t \<Rightarrow> ric_control_request_t res" where
  "generate_ric_control_request ric_id sm ctrl =
     (let data = on_control_req sm ctrl in
      chk (length (ctrl_hdr data) < 2049) ''data.len_hdr < 2049'' (
      chk (length (ctrl_msg data) < 2049) ''data.len_msg < 2049'' (
      Inr \<lparr>cr_ric_id = ric_id, cr_call_process_id = None, cr_hdr = ctrl_hdr data, cr_msg = ctrl_msg data,
           cr_ack_req = Some RIC_CONTROL_REQUEST_ACK\<rparr>)))"

section \<open>Requests\<close>

definition e2ap_handle_e42_setup_request_xapp :: "'h e42_xapp_t \<Rightarrow> int \<Rightarrow> 'h e42_xapp_t res" where
  "e2ap_handle_e42_setup_request_xapp xapp tfd =
     bnd (generate_e42_setup_request xapp) (\<lambda>sr.
     chk (e42_ran_func_item sr \<noteq> []) ''sr.len_rf > 0'' (
     let xapp = e2ap_send_bytes_xapp xapp (E42_Stp_Req sr) in
     add_pending_event_xapp xapp \<lparr>pex_ev = E42_SETUP_REQUEST_PENDING_EVENT,
       pex_id = \<lparr>ric_req_id = 0, ric_inst_id = 0, ran_func_id = 0\<rparr>, pex_wait_ms = 1000\<rparr> tfd))"

definition e2ap_handle_e42_ric_subscription_request_xapp ::
  "'h e42_xapp_t \<Rightarrow> e42_ric_subscription_request_t \<Rightarrow> int \<Rightarrow> 'h e42_xapp_t res" where
  "e2ap_handle_e42_ric_subscription_request_xapp xapp e42_sr tfd =
     bnd (add_pending_event_xapp xapp \<lparr>pex_ev = E42_RIC_SUBSCRIPTION_REQUEST_PENDING_EVENT,
            pex_id = sreq_ric_id (e42s_sr e42_sr), pex_wait_ms = 5000\<rparr> tfd) (\<lambda>xapp.
     Inr (e2ap_send_bytes_xapp xapp (E42_Ric_Sub_Req e42_sr)))"

text \<open>The other requests are sent before their timer is started.\<close>

definition e2ap_handle_e42_subscription_delete_request_xapp ::
  "'h e42_xapp_t \<Rightarrow> e42_ric_subscription_delete_request_t \<Rightarrow> int \<Rightarrow> 'h e42_xapp_t res" where
  "e2ap_handle_e42_subscription_delete_request_xapp xapp e42_sdr tfd =
     (let xapp = e2ap_send_bytes_xapp xapp (E42_Ric_Sub_Del_Req e42_sdr) in
      add_pending_event_xapp xapp \<lparr>pex_ev = E42_RIC_SUBSCRIPTION_DELETE_REQUEST_PENDING_EVENT,
        pex_id = sdr_ric_id (e42d_sdr e42_sdr), pex_wait_ms = 10000\<rparr> tfd)"

definition e2ap_handle_e42_ric_control_request_xapp ::
  "'h e42_xapp_t \<Rightarrow> e42_ric_control_request_t \<Rightarrow> int \<Rightarrow> 'h e42_xapp_t res" where
  "e2ap_handle_e42_ric_control_request_xapp xapp cr tfd =
     (let xapp = e2ap_send_bytes_xapp xapp (E42_Ric_Ctrl_Req cr) in
      add_pending_event_xapp xapp \<lparr>pex_ev = E42_RIC_CONTROL_REQUEST_PENDING_EVENT,
        pex_id = cr_ric_id (e42c_ctrl_req cr), pex_wait_ms = 10000\<rparr> tfd)"

section \<open>Responses and indications\<close>

text \<open>The search in the active procedures; an answer that is not ok is an assertion.\<close>

definition registered_act_proc :: "'h e42_xapp_t \<Rightarrow> u32 \<Rightarrow> ('h e42_xapp_t \<times> act_proc_val_t) res" where
  "registered_act_proc xapp rid =
     bnd (find_act_proc (xa_act_proc xapp) (ucast rid)) (\<lambda>(act, rv).
     bnd (found rv ''ric_req_id not registered in the registry'') (\<lambda>val.
     Inr (xapp\<lparr>xa_act_proc := act\<rparr>, val)))"

text \<open>The answer to a request: its timer is stopped, and the waiting caller is signalled.\<close>

definition stop_and_signal :: "'h e42_xapp_t \<Rightarrow> pending_event_t \<Rightarrow> u32 \<Rightarrow> 'h e42_xapp_t res" where
  "stop_and_signal xapp ev rid =
     bnd (registered_act_proc xapp rid) (\<lambda>(xapp, val).
     bnd (rm_pending_event_xapp xapp \<lparr>pex_ev = ev, pex_id = apv_id val, pex_wait_ms = 0\<rparr>) (\<lambda>xapp.
     Inr (xapp\<lparr>xa_sync := signal_sync_ui (xa_sync xapp)\<rparr>)))"

definition e2ap_handle_subscription_response_xapp ::
  "'h e42_xapp_t \<Rightarrow> ric_subscription_response_t \<Rightarrow> 'h e42_xapp_t res" where
  "e2ap_handle_subscription_response_xapp xapp resp =
     stop_and_signal xapp E42_RIC_SUBSCRIPTION_REQUEST_PENDING_EVENT (ric_req_id (sresp_ric_id resp))"

definition e2ap_handle_subscription_delete_response_xapp ::
  "'h e42_xapp_t \<Rightarrow> ric_subscription_delete_response_t \<Rightarrow> 'h e42_xapp_t res" where
  "e2ap_handle_subscription_delete_response_xapp xapp resp =
     stop_and_signal xapp E42_RIC_SUBSCRIPTION_DELETE_REQUEST_PENDING_EVENT (ric_req_id (sdresp_ric_id resp))"

definition e2ap_handle_control_ack_xapp :: "'h e42_xapp_t \<Rightarrow> ric_control_acknowledge_t \<Rightarrow> 'h e42_xapp_t res" where
  "e2ap_handle_control_ack_xapp xapp ack =
     stop_and_signal xapp E42_RIC_CONTROL_REQUEST_PENDING_EVENT (ric_req_id (ack_ric_id ack))"

definition ind_sm_payload_xapp :: "ric_indication_t \<Rightarrow> sm_ind_data_t res" where
  "ind_sm_payload_xapp src =
     chk (case ind_call_process_id src of None \<Rightarrow> True | Some cp \<Rightarrow> cp \<noteq> []) ''src->call_process_id->len > 0'' (
     Inr \<lparr>sid_ind_hdr = ind_hdr src, sid_ind_msg = ind_msg src, sid_call_process_id = ind_call_process_id src\<rparr>)"

definition known_stats :: "sm_ag_if_rd_ind_e \<Rightarrow> bool" where
  "known_stats t \<longleftrightarrow> t = MAC_STATS_V0 \<or> t = RLC_STATS_V0 \<or> t = PDCP_STATS_V0 \<or> t = SLICE_STATS_V0 \<or>
     t = KPM_STATS_V3_0 \<or> t = GTP_STATS_V0 \<or> t = RAN_CTRL_STATS_V1_03"

definition e2ap_handle_indication_xapp :: "'h e42_xapp_t \<Rightarrow> ric_indication_t \<Rightarrow> 'h e42_xapp_t res" where
  "e2ap_handle_indication_xapp xapp src =
     bnd (sm_plugin_ric (xa_plugin_ric xapp) (ran_func_id (ind_ric_id src))) (\<lambda>sm.
     bnd (ind_sm_payload_xapp src) (\<lambda>ind_data.
     let ind = on_indication sm ind_data in
     chk (known_stats (rd_type ind)) ''msg_disp.rd.ind.type == MAC_STATS_V0 || ...'' (
     bnd (find_act_proc (xa_act_proc xapp) (ucast (ric_req_id (ind_ric_id src)))) (\<lambda>(act, ans).
     let xapp = xapp\<lparr>xa_act_proc := act\<rparr> in
     case ans of
       None \<Rightarrow> Inr xapp
     | Some val \<Rightarrow>
         bnd (write_db_xapp (xa_db xapp) (apv_e2_node val) (Rd_Ind ind)) (\<lambda>db.
         bnd (send_msg_dispatcher (xa_msg_disp xapp) \<lparr>md_sm_cb = apv_sm_cb val, md_rd = Rd_Ind ind\<rparr>) (\<lambda>disp.
         Inr (xapp\<lparr>xa_db := db, xa_msg_disp := disp\<rparr>)))))))"

definition e2ap_handle_e42_setup_response_xapp :: "'h e42_xapp_t \<Rightarrow> e42_setup_response_t \<Rightarrow> 'h e42_xapp_t res" where
  "e2ap_handle_e42_setup_response_xapp xapp sr =
     (if xa_connected xapp then Inr xapp
      else
        let xapp = xapp\<lparr>xa_id := e42r_xapp_id sr\<rparr> in
        bnd (fold_res (\<lambda>n nodes. add_reg_e2_node nodes (con_id n) (con_ack_rf n) (con_cca n)) (e42r_nodes sr)
               (xa_e2_nodes xapp)) (\<lambda>nodes.
        bnd (rm_pending_event_xapp (xapp\<lparr>xa_e2_nodes := nodes\<rparr>) \<lparr>pex_ev = E42_SETUP_REQUEST_PENDING_EVENT,
               pex_id = \<lparr>ric_req_id = 0, ric_inst_id = 0, ran_func_id = 0\<rparr>, pex_wait_ms = 0\<rparr>) (\<lambda>xapp.
        Inr (xapp\<lparr>xa_connected := True\<rparr>))))"

definition check_valid_msg_type_xapp :: "e2_msg_type_t \<Rightarrow> bool" where
  "check_valid_msg_type_xapp t \<longleftrightarrow>
     t = RIC_SUBSCRIPTION_RESPONSE \<or> t = RIC_SUBSCRIPTION_FAILURE \<or> t = RIC_SUBSCRIPTION_DELETE_RESPONSE \<or>
     t = RIC_SUBSCRIPTION_DELETE_FAILURE \<or> t = RIC_INDICATION \<or> t = RIC_CONTROL_ACKNOWLEDGE \<or>
     t = RIC_CONTROL_FAILURE \<or> t = E2AP_ERROR_INDICATION \<or> t = E42_SETUP_RESPONSE \<or> t = E2_SETUP_FAILURE \<or>
     t = E42_RIC_CONTROL_REQUEST \<or> t = E42_SETUP_REQUEST \<or> t = E2AP_RESET_REQUEST \<or> t = E2AP_RESET_RESPONSE \<or>
     t = RIC_SERVICE_UPDATE \<or> t = E2_NODE_CONFIGURATION_UPDATE \<or> t = E2_CONNECTION_UPDATE_ACKNOWLEDGE \<or>
     t = E2_CONNECTION_UPDATE_FAILURE"

text \<open>The handlers that are not listed consist of a failing assertion; none of them answers.\<close>

definition e2ap_msg_handle_xapp :: "'h e42_xapp_t \<Rightarrow> e2ap_msg_t \<Rightarrow> int \<Rightarrow> 'h e42_xapp_t res" where
  "e2ap_msg_handle_xapp xapp msg tfd =
     chk (check_valid_msg_type_xapp (msg_type msg)) ''check_valid_msg_type(msg_type) == true'' (
     case msg of
       Ric_Sub_Resp r \<Rightarrow> e2ap_handle_subscription_response_xapp xapp r
     | Ric_Sub_Del_Resp r \<Rightarrow> e2ap_handle_subscription_delete_response_xapp xapp r
     | Ric_Ind r \<Rightarrow> e2ap_handle_indication_xapp xapp r
     | Ric_Ctrl_Ack r \<Rightarrow> e2ap_handle_control_ack_xapp xapp r
     | E42_Stp_Resp r \<Rightarrow> e2ap_handle_e42_setup_response_xapp xapp r
     | E42_Ric_Ctrl_Req r \<Rightarrow> e2ap_handle_e42_ric_control_request_xapp xapp r tfd
     | E42_Stp_Req r \<Rightarrow> Inl (Assertion ''Not accepting any msg'')
     | _ \<Rightarrow> Inl (Assertion ''Not implemented''))"

section \<open>Event loop\<close>

definition pend_event_xapp :: "'h e42_xapp_t \<Rightarrow> int \<Rightarrow> pending_event_t res" where
  "pend_event_xapp xapp fd =
     chk (fd > 0) ''fd > 0'' (
     bnd (lookup_if (bm_left (xa_pending xapp)) (eq_fd fd)) (\<lambda>v.
     bnd (found v ''it != end'') (\<lambda>p. Inr (pex_ev p))))"

text \<open>\<^term>\<open>None\<close> is a message on the socket.\<close>

definition find_event_type :: "'h e42_xapp_t \<Rightarrow> int \<Rightarrow> pending_event_t option res" where
  "find_event_type xapp fd =
     bnd (net_pkt (xa_fd xapp) fd) (\<lambda>net.
     if net then Inr None else bnd (pend_event_xapp xapp fd) (\<lambda>ev. Inr (Some ev)))"

definition consume_fd_xapp :: "'h e42_xapp_t \<Rightarrow> int \<Rightarrow> 'h e42_xapp_t res" where
  "consume_fd_xapp xapp fd = chk (fd > 0) ''fd > 0'' (Inr (xapp\<lparr>xa_consumed := xa_consumed xapp @ [fd]\<rparr>))"

definition max_retries :: nat where "max_retries = 3"

text \<open>
  One round of the loop: \<open>fd\<close> is the ready descriptor, \<open>-1\<close> after the timeout of
  \<^verbatim>\<open>epoll_wait\<close>, and \<open>msg\<close> the message that the socket delivers when it is the ready one.
\<close>

definition e2_event_loop_xapp :: "'h e42_xapp_t \<Rightarrow> int \<Rightarrow> e2ap_msg_t \<Rightarrow> int \<Rightarrow> 'h e42_xapp_t res" where
  "e2_event_loop_xapp xapp fd msg tfd =
     (if fd = - 1 then Inr xapp
      else
        bnd (find_event_type xapp fd) (\<lambda>e.
        case e of
          None \<Rightarrow> e2ap_msg_handle_xapp xapp msg tfd
        | Some ev \<Rightarrow>
            if ev = E42_RIC_SUBSCRIPTION_REQUEST_PENDING_EVENT then
              if xa_retry_count xapp < max_retries then
                let xapp = xapp\<lparr>xa_retry_count := xa_retry_count xapp + 1\<rparr> in
                bnd (generate_e42_setup_request xapp) (\<lambda>sr.
                consume_fd_xapp (e2ap_send_bytes_xapp xapp (E42_Stp_Req sr)) fd)
              else Inr (xapp\<lparr>xa_retry_count := 0\<rparr>)
            else Inr xapp))"

section \<open>Initialisation and release\<close>

text \<open>The name of the data base, and the length that \<^verbatim>\<open>snprintf\<close> returns.\<close>

definition db_file_name :: "string \<Rightarrow> string \<Rightarrow> string \<Rightarrow> int \<Rightarrow> string" where
  "db_file_name dir db_name default_dir now =
     (if dir \<noteq> [] then
        if db_name \<noteq> [] then dir @ db_name else dir @ ''xapp_db_'' @ fmt_d now
      else default_dir @ ''xapp_db_'' @ fmt_d now)"

definition init_e42_xapp ::
  "('h \<Rightarrow> string \<Rightarrow> 'h \<times> bool) \<Rightarrow> (string \<Rightarrow> 'h option) \<Rightarrow> string \<Rightarrow> int \<Rightarrow> (u16, sm_agent_t) assoc_rb_tree_t \<Rightarrow>
   (u16, sm_ric_t) assoc_rb_tree_t \<Rightarrow> string \<Rightarrow> string \<Rightarrow> string \<Rightarrow> int \<Rightarrow> 'h e42_xapp_t res" where
  "init_e42_xapp exec opened addr fd plugin_ag plugin_ric dir db_name default_dir now =
     chk (length addr < 16) ''strlen(addr) < 16'' (
     chk (fd \<noteq> - 1) ''sock_fd != -1'' (
     bnd (add_fd_asio_xapp [] fd) (\<lambda>io.
     bnd init_reg_e2_node (\<lambda>nodes.
     bnd init_pending_events_xapp (\<lambda>pending.
     bnd init_msg_dispatcher (\<lambda>disp.
     chk (length dir < 128) ''String too large'' (
     chk (length db_name < 128) ''String too large'' (
     chk (length default_dir < 128) ''String too large'' (
     let name = db_file_name dir db_name default_dir now in
     chk (length name < 256) ''Overflow'' (
     bnd (init_db_xapp exec (opened (take 254 name))) (\<lambda>db.
     Inr \<lparr>xa_fd = fd, xa_io = io, xa_plugin_ag = plugin_ag, xa_plugin_ric = plugin_ric, xa_e2_nodes = nodes,
          xa_id = 0, xa_sync = init_sync_ui, xa_act_proc = init_act_proc, xa_pending = pending,
          xa_msg_disp = disp, xa_db = db, xa_connected = False, xa_retry_count = 0, xa_sent = [],
          xa_consumed = []\<rparr>)))))))))))"

text \<open>Up to the event loop.\<close>

definition start_e42_xapp :: "'h e42_xapp_t \<Rightarrow> int \<Rightarrow> 'h e42_xapp_t res" where
  "start_e42_xapp xapp tfd = e2ap_handle_e42_setup_request_xapp xapp tfd"

text \<open>The callback thread stops; what is still queued is released with the ring.\<close>

definition free_msg_dispatcher :: "msg_dispatcher_xapp_t \<Rightarrow> msg_dispatcher_xapp_t res option" where
  "free_msg_dispatcher d =
     map_option (\<lambda>r. bnd r (\<lambda>(d, _). Inr d)) (dispatcher_thread (d\<lparr>disp_q := stop_tsnq (disp_q d)\<rparr>))"

definition free_reg_e2_node :: "reg_e2_nodes_t \<Rightarrow> unit res" where
  "free_reg_e2_node i = assoc_rb_tree_free (node_to_rf i)"

text \<open>
  The event loop has stopped.  The result is the data base, the number of indications that are not
  written, and the calls of the callback thread.
\<close>

definition free_e42_xapp ::
  "rd_view \<Rightarrow> ('h \<Rightarrow> string \<Rightarrow> 'h \<times> bool) \<Rightarrow> 'h e42_xapp_t \<Rightarrow>
   (('h sqlite_st \<times> nat) \<times> (nat \<times> sm_ag_if_rd_t) list) res option" where
  "free_e42_xapp view exec xapp =
     (case bnd (free_reg_e2_node (xa_e2_nodes xapp)) (\<lambda>_. bi_map_free (xa_pending xapp)) of
        Inl e \<Rightarrow> Some (Inl e)
      | Inr _ \<Rightarrow>
          (case free_msg_dispatcher (xa_msg_disp xapp) of
             None \<Rightarrow> None
           | Some (Inl e) \<Rightarrow> Some (Inl e)
           | Some (Inr d) \<Rightarrow>
               map_option (\<lambda>r. bnd r (\<lambda>h. Inr (h, disp_called d))) (close_db_xapp view exec (xa_db xapp))))"

definition connected_e42_xapp :: "'h e42_xapp_t \<Rightarrow> bool" where
  "connected_e42_xapp xapp = xa_connected xapp"

definition not_dispatch_msg :: "'h e42_xapp_t \<Rightarrow> nat" where
  "not_dispatch_msg xapp = size_msg_dispatcher (xa_msg_disp xapp)"

section \<open>Calls of the user\<close>

text \<open>What a waiting caller does when the wait is over.\<close>

datatype ui_wait = Wait_Report u32 | Wait_Rm_Report u16 | Wait_Control u32

record sm_ans_xapp_t =
  san_success :: bool
  san_handle :: int

definition valid_ran_func_id :: "u16 \<Rightarrow> bool" where
  "valid_ran_func_id rf \<longleftrightarrow> rf = 145 \<or> rf = 142 \<or> rf = 143 \<or> rf = 144 \<or> rf = 146 \<or> rf = 148 \<or> rf = 2 \<or> rf = 3"

definition generate_ric_gen_id ::
  "'h e42_xapp_t \<Rightarrow> act_proc_val_e \<Rightarrow> u16 \<Rightarrow> global_e2_node_id_t \<Rightarrow> nat option \<Rightarrow> ('h e42_xapp_t \<times> ric_gen_id_t) res" where
  "generate_ric_gen_id xapp type rf nid cb =
     chk (valid_ran_func_id rf) ''valid_ran_func_id(ran_func_id) == true'' (
     let ric_req = \<lparr>ric_req_id = 0, ric_inst_id = 0, ran_func_id = rf\<rparr> in
     bnd (add_act_proc (xa_act_proc xapp) type ric_req nid cb) (\<lambda>(act, req_id).
     chk (unat req_id < 2 ^ 16) ''Overflow detected'' (
     Inr (xapp\<lparr>xa_act_proc := act\<rparr>, ric_req\<lparr>ric_req_id := req_id\<rparr>))))"

definition send_subscription_request ::
  "'h e42_xapp_t \<Rightarrow> global_e2_node_id_t \<Rightarrow> ric_gen_id_t \<Rightarrow> byte_array_t \<Rightarrow> int \<Rightarrow> 'h e42_xapp_t res" where
  "send_subscription_request xapp nid ric_id data tfd =
     bnd (sm_plugin_ric (xa_plugin_ric xapp) (ran_func_id ric_id)) (\<lambda>sm.
     bnd (generate_subscription_request_xapp ric_id sm data) (\<lambda>sr.
     e2ap_handle_e42_ric_subscription_request_xapp xapp
       \<lparr>e42s_xapp_id = xa_id xapp, e42s_id = cp_global_e2_node_id nid, e42s_sr = sr\<rparr> tfd))"

definition report_sm_sync_xapp ::
  "'h e42_xapp_t \<Rightarrow> global_e2_node_id_t \<Rightarrow> u16 \<Rightarrow> byte_array_t \<Rightarrow> nat option \<Rightarrow> int \<Rightarrow> ('h e42_xapp_t \<times> ui_wait) res" where
  "report_sm_sync_xapp xapp nid rf data cb tfd =
     bnd (generate_ric_gen_id xapp RIC_SUBSCRIPTION_PROCEDURE_ACTIVE rf nid cb) (\<lambda>(xapp, ric_id).
     bnd (send_subscription_request xapp nid ric_id data tfd) (\<lambda>xapp.
     Inr (xapp, Wait_Report (ric_req_id ric_id))))"

definition send_ric_subscription_delete :: "'h e42_xapp_t \<Rightarrow> ric_gen_id_t \<Rightarrow> int \<Rightarrow> 'h e42_xapp_t res" where
  "send_ric_subscription_delete xapp ric_id tfd =
     e2ap_handle_e42_subscription_delete_request_xapp xapp
       \<lparr>e42d_xapp_id = xa_id xapp, e42d_sdr = \<lparr>sdr_ric_id = ric_id\<rparr>\<rparr> tfd"

definition rm_report_sm_sync_xapp :: "'h e42_xapp_t \<Rightarrow> int \<Rightarrow> int \<Rightarrow> ('h e42_xapp_t \<times> ui_wait) res" where
  "rm_report_sm_sync_xapp xapp rid tfd =
     chk (rid > - 1 \<and> rid < 2 ^ 16) ''ric_req_id > -1 && ric_req_id < 1 << 16'' (
     bnd (find_act_proc (xa_act_proc xapp) (of_int rid)) (\<lambda>(act, ans).
     bnd (found ans ''ric_req_id not registered'') (\<lambda>val.
     bnd (send_ric_subscription_delete (xapp\<lparr>xa_act_proc := act\<rparr>) (apv_id val) tfd) (\<lambda>xapp.
     Inr (xapp, Wait_Rm_Report (of_int rid))))))"

definition send_control_request ::
  "'h e42_xapp_t \<Rightarrow> global_e2_node_id_t \<Rightarrow> ric_gen_id_t \<Rightarrow> byte_array_t \<Rightarrow> int \<Rightarrow> 'h e42_xapp_t res" where
  "send_control_request xapp nid ric_req ctrl tfd =
     bnd (sm_plugin_ric (xa_plugin_ric xapp) (ran_func_id ric_req)) (\<lambda>sm.
     bnd (generate_ric_control_request ric_req sm ctrl) (\<lambda>ctrl_req.
     e2ap_handle_e42_ric_control_request_xapp xapp
       \<lparr>e42c_xapp_id = xa_id xapp, e42c_id = cp_global_e2_node_id nid, e42c_ctrl_req = ctrl_req\<rparr> tfd))"

definition control_sm_sync_xapp ::
  "'h e42_xapp_t \<Rightarrow> global_e2_node_id_t \<Rightarrow> u16 \<Rightarrow> byte_array_t \<Rightarrow> int \<Rightarrow> ('h e42_xapp_t \<times> ui_wait) res" where
  "control_sm_sync_xapp xapp nid rf ctrl tfd =
     chk (valid_ran_func_id rf) ''valid_ran_func_id(ran_func_id) == true'' (
     bnd (generate_ric_gen_id xapp RIC_CONTROL_PROCEDURE_ACTIVE rf nid None) (\<lambda>(xapp, ric_id).
     bnd (send_control_request xapp nid ric_id ctrl tfd) (\<lambda>xapp.
     Inr (xapp, Wait_Control (ric_req_id ric_id)))))"

fun after_wait :: "'h e42_xapp_t \<Rightarrow> ui_wait \<Rightarrow> ('h e42_xapp_t \<times> sm_ans_xapp_t) res" where
  "after_wait xapp (Wait_Report rid) = Inr (xapp, \<lparr>san_success = True, san_handle = uint rid\<rparr>)"
| "after_wait xapp (Wait_Rm_Report rid) =
     bnd (rm_act_proc (xa_act_proc xapp) rid) (\<lambda>act.
     Inr (xapp\<lparr>xa_act_proc := act\<rparr>, \<lparr>san_success = True, san_handle = 0\<rparr>))"
| "after_wait xapp (Wait_Control rid) =
     bnd (rm_act_proc (xa_act_proc xapp) (ucast rid)) (\<lambda>act.
     Inr (xapp\<lparr>xa_act_proc := act\<rparr>, \<lparr>san_success = True, san_handle = 0\<rparr>))"

section \<open>The interface\<close>

definition valid_global_e2_node_xapp :: "global_e2_node_id_t \<Rightarrow> reg_e2_nodes_t \<Rightarrow> bool res" where
  "valid_global_e2_node_xapp nid n =
     bnd (cp_reg_e2_node n) (\<lambda>t.
     bnd (lookup_if t (eq_global_e2_node_id nid)) (\<lambda>v.
     bnd (assoc_rb_tree_free t) (\<lambda>_.
     Inr (v \<noteq> None))))"

definition valid_sm_id :: "u32 \<Rightarrow> bool res" where
  "valid_sm_id sm_id =
     chk (sm_id = 2 \<or> sm_id = 3 \<or> sm_id = 142 \<or> sm_id = 143 \<or> sm_id = 144 \<or> sm_id = 145 \<or> sm_id = 146 \<or>
          sm_id = 147 \<or> sm_id = 148) ''sm_id == 2 || ...'' (Inr True)"

definition report_sm_xapp_api ::
  "'h e42_xapp_t \<Rightarrow> global_e2_node_id_t \<Rightarrow> u32 \<Rightarrow> byte_array_t \<Rightarrow> nat option \<Rightarrow> int \<Rightarrow> ('h e42_xapp_t \<times> ui_wait) res" where
  "report_sm_xapp_api xapp nid rf data handler tfd =
     bnd (valid_global_e2_node_xapp nid (xa_e2_nodes xapp)) (\<lambda>ok.
     chk ok ''valid_global_e2_node(id, &xapp->e2_nodes) == true'' (
     bnd (valid_sm_id rf) (\<lambda>_.
     report_sm_sync_xapp xapp nid (ucast rf) data handler tfd)))"

definition rm_report_sm_xapp_api :: "'h e42_xapp_t \<Rightarrow> int \<Rightarrow> int \<Rightarrow> ('h e42_xapp_t \<times> ui_wait) res" where
  "rm_report_sm_xapp_api xapp handle tfd =
     chk (handle > - 1) ''handle > -1'' (rm_report_sm_sync_xapp xapp handle tfd)"

definition control_sm_xapp_api ::
  "'h e42_xapp_t \<Rightarrow> global_e2_node_id_t \<Rightarrow> u32 \<Rightarrow> byte_array_t \<Rightarrow> int \<Rightarrow> ('h e42_xapp_t \<times> ui_wait) res" where
  "control_sm_xapp_api xapp nid rf wr tfd =
     chk (rf = 142 \<or> rf = 145 \<or> rf = 146 \<or> rf = 3) ''ran_func_id == SM_MAC_ID || ...'' (
     control_sm_sync_xapp xapp nid (ucast rf) wr tfd)"

definition try_stop_xapp_api ::
  "rd_view \<Rightarrow> ('h \<Rightarrow> string \<Rightarrow> 'h \<times> bool) \<Rightarrow> 'h e42_xapp_t \<Rightarrow>
   (('h sqlite_st \<times> nat) \<times> (nat \<times> sm_ag_if_rd_t) list) option res option" where
  "try_stop_xapp_api view exec xapp =
     (if not_dispatch_msg xapp > 0 then Some (Inr None)
      else map_option (\<lambda>r. bnd r (\<lambda>v. Inr (Some v))) (free_e42_xapp view exec xapp))"

end
