(* ===== verification/Agent_Laws.thy ===== *)
theory Agent_Laws
  imports E2_Agent
begin

text \<open>
  The invariant of the E2 agent and what each of its operations does to it: every descriptor that
  epoll watches is the socket, the pipe, the timer of the pending setup request or the timer of
  one periodic subscription, and the tables are well formed.  The lemmas on the setup procedure,
  the handlers and the indications say that the operation does not abort, what it sends and which
  table entries it changes.
\<close>

section \<open>The tables\<close>

interpretation iev: ranked_cmp cmp_ind_event any "\<lambda>e. ric_gen_rank (ie_ric_id e)"
  by unfold_locales (simp add: cmp_ind_event_def cmp_ric_gen_id_rank)

interpretation agpend: bimap cmp_fd "\<lambda>fd. 0 \<le> fd" "\<lambda>fd. fd" "\<lambda>a b. Inr (cmp_pending_event a b)" any pending_event_val
  by unfold_locales

interpretation agind: bimap cmp_fd "\<lambda>fd. 0 \<le> fd" "\<lambda>fd. fd" cmp_ind_event any "\<lambda>e. ric_gen_rank (ie_ric_id e)"
  by unfold_locales

definition setup_table :: "(int, pending_event_t) bi_map_t \<Rightarrow> bool" where
  "setup_table m \<longleftrightarrow>
     agpend.inv m \<and> conf_ok sizeof_fd sizeof_pending_event m \<and>
     rb_free (bm_left m) = Some free_fd_agent \<and> rb_free (bm_right m) = Some free_pending_ev \<and>
     (\<forall>(fd, ev) \<in> bm_pairs m. 0 < fd \<and> ev = SETUP_REQUEST_PENDING_EVENT)"

text \<open>A periodic subscription whose indications do not abort.\<close>

definition periodic_ok :: "ind_event_t \<Rightarrow> bool" where
  "periodic_ok ev \<longleftrightarrow>
     (\<exists>ms a. ie_subs ev = PERIODIC_SUBSCRIPTION_FLRC ms a \<and>
        (\<forall>now. \<exists>x. sma_on_indication (ie_sm ev) now a = Inr x) \<and>
        (\<forall>f. sma_free_act_def (ie_sm ev) = Some f \<longrightarrow> f a = Inr ()))"

definition subs_table :: "(int, ind_event_t) bi_map_t \<Rightarrow> bool" where
  "subs_table m \<longleftrightarrow>
     agind.inv m \<and> conf_ok sizeof_fd sizeof_ind_event m \<and>
     (\<forall>(fd, ev) \<in> bm_pairs m. 0 < fd \<and> periodic_ok ev)"

definition sms_ok :: "(u16, sm_agent_t) assoc_rb_tree_t \<Rightarrow> bool" where
  "sms_ok t \<longleftrightarrow>
     rb_inv cmp_ran_func_id any (\<lambda>a. a) t \<and> rb_uniq (\<lambda>a. a) t \<and> rb_entries t \<noteq> [] \<and>
     (\<forall>(k, sm) \<in> rb_set t. sma_id sm = k \<and> k \<noteq> 0 \<and> (\<exists>d. sma_on_e2_setup sm = Inr d))"

abbreviation timers :: "('a, 'b) bi_map_t \<Rightarrow> 'a set" where
  "timers m \<equiv> fst ` bm_pairs m"

text \<open>No aperiodic event waits.\<close>

definition quiet :: "e2_agent_t \<Rightarrow> bool" where
  "quiet ag \<longleftrightarrow>
     tsq_inv sizeof_aind_event (ag_aind ag) \<and> ring_contents (tsq_r (ag_aind ag)) = [] \<and>
     ring_room 1 (tsq_r (ag_aind ag)) \<and> ag_pipe ag = 0"

lemma quiet_frame [simp]:
  "quiet (ag\<lparr>ag_sent := s\<rparr>) = quiet ag" "quiet (ag\<lparr>ag_trans_id := t\<rparr>) = quiet ag"
  "quiet (ag\<lparr>ag_connection_state := c\<rparr>) = quiet ag" "quiet (ag\<lparr>ag_freed := f\<rparr>) = quiet ag"
  "quiet (ag\<lparr>ag_exited := e\<rparr>) = quiet ag" "quiet (ag\<lparr>ag_io := io\<rparr>) = quiet ag"
  "quiet (ag\<lparr>ag_pending := p\<rparr>) = quiet ag" "quiet (ag\<lparr>ag_ind_event := m\<rparr>) = quiet ag"
  "quiet (ag\<lparr>ag_ric_connections := r\<rparr>) = quiet ag" "quiet (ag\<lparr>ag_init_ric_addr := a\<rparr>) = quiet ag"
  by (simp_all add: quiet_def)

definition ag_ok :: "e2_agent_t \<Rightarrow> bool" where
  "ag_ok ag \<longleftrightarrow>
     setup_table (ag_pending ag) \<and> subs_table (ag_ind_event ag) \<and> sms_ok (ag_sm_ds ag) \<and>
     0 < ag_fd ag \<and> 0 < ag_pipe_r ag \<and> ag_fd ag \<noteq> ag_pipe_r ag \<and>
     timers (ag_pending ag) \<inter> timers (ag_ind_event ag) = {} \<and>
     {ag_fd ag, ag_pipe_r ag} \<inter> (timers (ag_pending ag) \<union> timers (ag_ind_event ag)) = {} \<and>
     set (ag_io ag) = {ag_fd ag, ag_pipe_r ag} \<union> timers (ag_pending ag) \<union> timers (ag_ind_event ag) \<and>
     ag_init_ric_addr ag \<in> rc_ric_addr ` set (ag_ric_connections ag) \<and>
     quiet ag"

lemma ag_ok_frame [simp]:
  "ag_ok (ag\<lparr>ag_sent := s\<rparr>) = ag_ok ag" "ag_ok (ag\<lparr>ag_trans_id := t\<rparr>) = ag_ok ag"
  "ag_ok (ag\<lparr>ag_connection_state := c\<rparr>) = ag_ok ag" "ag_ok (ag\<lparr>ag_freed := f\<rparr>) = ag_ok ag"
  "ag_ok (ag\<lparr>ag_exited := e\<rparr>) = ag_ok ag"
  by (simp_all add: ag_ok_def)

lemma ag_ok_io:
  assumes "ag_ok ag"
  shows "timers (ag_pending ag) \<inter> timers (ag_ind_event ag) = {}"
    "{ag_fd ag, ag_pipe_r ag} \<inter> (timers (ag_pending ag) \<union> timers (ag_ind_event ag)) = {}"
    "set (ag_io ag) = {ag_fd ag, ag_pipe_r ag} \<union> timers (ag_pending ag) \<union> timers (ag_ind_event ag)"
  using assms unfolding ag_ok_def by - (elim conjE, assumption)+

text \<open>Dropping a descriptor of one of the tables.\<close>

lemma io_minus:
  assumes "A \<inter> T = {}" "I \<inter> (A \<union> T) = {}" "S = I \<union> A \<union> T" "x \<in> T"
  shows "S - {x} = I \<union> A \<union> (T - {x})" "A \<inter> (T - {x}) = {}" "I \<inter> (A \<union> (T - {x})) = {}"
  using assms by blast+

section \<open>Releasing a table\<close>

lemma depth_first_free_ok:
  "(\<And>k v. (k, v) \<in> set (inorder t) \<Longrightarrow> f k v = Inr ()) \<Longrightarrow> depth_first_search_free (Some f) t = Inr ()"
  by (induction t) auto

lemma free_setup_table:
  assumes "setup_table m"
  shows "bi_map_free m = Inr ()"
proof -
  have r: "rb_set (bm_right m) = prod.swap ` bm_pairs m"
    using assms by (simp add: setup_table_def bm_inv_def)
  have p: "0 < fd \<and> ev = SETUP_REQUEST_PENDING_EVENT" if "(fd, ev) \<in> bm_pairs m" for fd ev
    using assms that by (auto simp: setup_table_def)
  have "assoc_rb_tree_free (bm_left m) = Inr ()"
    using assms p depth_first_free_ok [of "rb_root (bm_left m)" free_fd_agent]
    by (simp add: assoc_rb_tree_free_def setup_table_def free_fd_agent_def)
  moreover have "free_pending_ev ev fd = Inr ()" if "(ev, fd) \<in> rb_set (bm_right m)" for ev fd
  proof -
    have "(fd, ev) \<in> bm_pairs m"
      using that unfolding r by auto
    then show ?thesis
      using p [of fd ev] by (simp add: free_pending_ev_def valid_pending_event_def)
  qed
  then have "assoc_rb_tree_free (bm_right m) = Inr ()"
    using assms depth_first_free_ok [of "rb_root (bm_right m)" free_pending_ev]
    by (simp add: assoc_rb_tree_free_def setup_table_def)
  ultimately show ?thesis
    by (simp add: bi_map_free_def)
qed

lemma init_setup_table:
  "\<exists>m. init_pending_events_agent = Inr m \<and> setup_table m \<and> bm_pairs m = {}"
  using agpend.init_ok [of sizeof_fd sizeof_pending_event "Some free_fd_agent" "Some free_pending_ev"]
  by (auto simp: init_pending_events_agent_def setup_table_def conf_ok_def sizeof_fd_def sizeof_pending_event_def)

lemma init_subs_table: "\<exists>m. init_indication_event = Inr m \<and> subs_table m \<and> bm_pairs m = {}"
  using agind.init_ok [of sizeof_fd sizeof_ind_event "Some free_ind_event_map" "Some free_key"]
  by (auto simp: init_indication_event_def subs_table_def conf_ok_def sizeof_fd_def sizeof_ind_event_def)

text \<open>The table with one pending setup request.\<close>

lemma insert_setup_ok:
  assumes "setup_table m" "bm_pairs m = {}" "0 < fd"
  shows "\<exists>m'. bi_map_insert m fd sizeof_fd SETUP_REQUEST_PENDING_EVENT sizeof_pending_event = Inr m' \<and>
     setup_table m' \<and> bm_pairs m' = {(fd, SETUP_REQUEST_PENDING_EVENT)}"
proof -
  have "\<exists>m'. bi_map_insert m fd sizeof_fd SETUP_REQUEST_PENDING_EVENT sizeof_pending_event = Inr m' \<and>
      agpend.inv m' \<and> bm_pairs m' = insert (fd, SETUP_REQUEST_PENDING_EVENT) (bm_pairs m) \<and> bm_same_conf m m'"
    by (rule agpend.insert_ok)
      (use assms in \<open>auto simp: setup_table_def conf_ok_def sizeof_fd_def sizeof_pending_event_def\<close>)
  then obtain m' where "bi_map_insert m fd sizeof_fd SETUP_REQUEST_PENDING_EVENT sizeof_pending_event = Inr m'"
    "agpend.inv m'" "bm_pairs m' = {(fd, SETUP_REQUEST_PENDING_EVENT)}" "bm_same_conf m m'"
    using assms(2) by auto
  then show ?thesis
    using assms(1,3) conf_ok_same [of sizeof_fd sizeof_pending_event m m']
    by (auto simp: setup_table_def bm_same_conf_def)
qed

lemma insert_subs_ok:
  assumes "subs_table m" "0 < fd" "fd \<notin> timers m" "periodic_ok ev"
    and "ie_ric_id ev \<notin> ie_ric_id ` snd ` bm_pairs m"
  shows "\<exists>m'. bi_map_insert m fd sizeof_fd ev sizeof_ind_event = Inr m' \<and> subs_table m' \<and>
     bm_pairs m' = insert (fd, ev) (bm_pairs m)"
proof -
  have "fd' \<noteq> fd \<and> ie_ric_id ev' \<noteq> ie_ric_id ev" if "(fd', ev') \<in> bm_pairs m" for fd' ev'
    using assms(3,5) imageI [OF that, of fst, unfolded fst_conv]
      imageI [OF imageI [OF that, of snd], of ie_ric_id, unfolded snd_conv] by metis
  then have n: "\<forall>(fd', ev') \<in> bm_pairs m. fd' \<noteq> fd \<and> ric_gen_rank (ie_ric_id ev') \<noteq> ric_gen_rank (ie_ric_id ev)"
    unfolding ric_gen_rank_inj by blast
  have "\<exists>m'. bi_map_insert m fd sizeof_fd ev sizeof_ind_event = Inr m' \<and> agind.inv m' \<and>
      bm_pairs m' = insert (fd, ev) (bm_pairs m) \<and> bm_same_conf m m'"
    by (rule agind.insert_ok [OF _ _ _ _ _ _ _ n])
      (use assms in \<open>auto simp: subs_table_def conf_ok_def sizeof_fd_def sizeof_ind_event_def\<close>)
  then obtain m' where "bi_map_insert m fd sizeof_fd ev sizeof_ind_event = Inr m'"
    "agind.inv m'" "bm_pairs m' = insert (fd, ev) (bm_pairs m)" "bm_same_conf m m'"
    by blast
  then show ?thesis
    using assms(1,2,4) conf_ok_same [of sizeof_fd sizeof_ind_event m m'] by (auto simp: subs_table_def)
qed

section \<open>The setup request\<close>

definition rf_of :: "sm_agent_t \<Rightarrow> ran_function_t" where
  "rf_of sm =
     \<lparr>rf_defn = (case sma_on_e2_setup sm of Inr d \<Rightarrow> d | Inl _ \<Rightarrow> []), rf_id = sma_id sm, rf_rev = sma_rev sm,
      rf_oid = sma_oid sm\<rparr>"

definition setup_request_of :: "e2_agent_t \<Rightarrow> u32 \<Rightarrow> e2_setup_request_t" where
  "setup_request_of ag t =
     \<lparr>stp_trans_id = ucast t, stp_id = ag_node_id ag,
      stp_ran_func_item = map (\<lambda>e. rf_of (snd e)) (rb_entries (ag_sm_ds ag)),
      stp_comp_conf_add = ag_read_setup_ran ag\<rparr>"

lemma gen_ran_functions_ok:
  assumes "iter_of t it" "\<forall>(k, sm) \<in> set (remaining it). sma_id sm = k \<and> (\<exists>d. sma_on_e2_setup sm = Inr d)"
  shows "\<exists>it'. gen_ran_functions (length (remaining it)) it =
     Inr (map (\<lambda>e. rf_of (snd e)) (remaining it), it') \<and> at_end it'"
  using assms
proof (induction "remaining it" arbitrary: it)
  case Nil
  then show ?case
    by (simp add: at_end_remaining)
next
  case (Cons e es)
  obtain k sm where e: "e = (k, sm)"
    by (cases e)
  then have r: "remaining it = (k, sm) # es"
    using Cons.hyps(2) by simp
  obtain it1 where it1: "assoc_rb_tree_next it = Inr it1" "iter_of t it1" "remaining it1 = es"
    by (rule iter_next [OF Cons.prems(1) r])
  obtain d where d: "sma_id sm = k" "sma_on_e2_setup sm = Inr d"
    using Cons.prems(2) r by auto
  have "\<exists>it'. gen_ran_functions (length (remaining it1)) it1 =
      Inr (map (\<lambda>e. rf_of (snd e)) (remaining it1), it') \<and> at_end it'"
    by (rule Cons.hyps(1)) (use it1 Cons.prems(2) r in auto)
  then show ?case
    using iter_value [OF r] it1 d by (auto simp: r rf_of_def)
qed

lemma gen_setup_request_ok:
  assumes "sms_ok (ag_sm_ds ag)"
  shows "gen_setup_request_v2 ag = Inr (ag\<lparr>ag_trans_id := ag_trans_id ag + 1\<rparr>, setup_request_of ag (ag_trans_id ag))"
proof -
  let ?it = "assoc_rb_tree_front (ag_sm_ds ag)"
  have r: "remaining ?it = rb_entries (ag_sm_ds ag)"
    by (rule remaining_front)
  have s: "rb_size (ag_sm_ds ag) = length (remaining ?it)" "remaining ?it \<noteq> []"
    using assms by (simp_all add: sms_ok_def rb_inv_def r)
  obtain it' where "gen_ran_functions (length (remaining ?it)) ?it =
      Inr (map (\<lambda>e. rf_of (snd e)) (remaining ?it), it')" "at_end it'"
    using gen_ran_functions_ok [OF iter_front [of "ag_sm_ds ag"]] assms unfolding sms_ok_def r by fastforce
  then show ?thesis
    using s by (simp add: gen_setup_request_v2_def assoc_rb_tree_size_def Let_def setup_request_of_def
        cp_global_e2_node_id_eq r)
qed

lemma setup_request_of_frame [simp]:
  "setup_request_of (ag\<lparr>ag_io := io\<rparr>) t = setup_request_of ag t"
  "setup_request_of (ag\<lparr>ag_pending := p\<rparr>) t = setup_request_of ag t"
  "setup_request_of (ag\<lparr>ag_ric_connections := r\<rparr>) t = setup_request_of ag t"
  "setup_request_of (ag\<lparr>ag_trans_id := x\<rparr>) t = setup_request_of ag t"
  "setup_request_of (ag\<lparr>ag_sent := s\<rparr>) t = setup_request_of ag t"
  by (simp_all add: setup_request_of_def)

lemma close_pending_ok: "close_pending ag = Inr (fold (\<lambda>e io. removeAll (fst e) io) (rb_entries (bm_left (ag_pending ag))) (ag_io ag))"
  unfolding close_pending_def for_tree_front close_fd_def by (rule fold_res_total) simp

lemma set_fold_removeAll: "set (fold (\<lambda>e io. removeAll (fst e) io) es io) = set io - fst ` set es"
  by (induction es arbitrary: io) auto

lemma retry_ric_ok:
  assumes "addr \<in> rc_ric_addr ` set cs"
  shows "\<exists>cs'. retry_ric addr cs = Some cs' \<and> rc_ric_addr ` set cs' = rc_ric_addr ` set cs \<and>
     sum_list (map rc_retry_count cs') = sum_list (map rc_retry_count cs) + 1"
  using assms by (induction cs) auto

text \<open>The timer that the operating system gives out is not one that stays in use.\<close>

definition fresh_timer :: "e2_agent_t \<Rightarrow> int \<Rightarrow> bool" where
  "fresh_timer ag t \<longleftrightarrow> 0 < t \<and> t \<notin> {ag_fd ag, ag_pipe_r ag} \<union> timers (ag_ind_event ag)"

definition retries :: "e2_agent_t \<Rightarrow> int" where
  "retries ag = sum_list (map rc_retry_count (ag_ric_connections ag))"

text \<open>What the setup procedure leaves alone.\<close>

definition same_agent :: "e2_agent_t \<Rightarrow> e2_agent_t \<Rightarrow> bool" where
  "same_agent ag ag' \<longleftrightarrow>
     ag_fd ag' = ag_fd ag \<and> ag_addr ag' = ag_addr ag \<and> ag_pipe_r ag' = ag_pipe_r ag \<and> ag_pipe ag' = ag_pipe ag \<and>
     ag_sm_ds ag' = ag_sm_ds ag \<and> ag_init_ric_addr ag' = ag_init_ric_addr ag \<and> ag_ind_event ag' = ag_ind_event ag \<and>
     ag_node_id ag' = ag_node_id ag \<and> ag_aind ag' = ag_aind ag \<and> ag_read_setup_ran ag' = ag_read_setup_ran ag \<and>
     ag_freed ag' = ag_freed ag \<and> ag_exited ag' = ag_exited ag"

lemma same_agent_refl [simp]: "same_agent ag ag"
  by (simp add: same_agent_def)

lemma same_agent_trans: "same_agent a b \<Longrightarrow> same_agent b c \<Longrightarrow> same_agent a c"
  by (simp add: same_agent_def)

lemma setup_request_same: "same_agent ag ag' \<Longrightarrow> setup_request_of ag' t = setup_request_of ag t"
  by (simp add: setup_request_of_def same_agent_def)

lemma fresh_timer_same: "same_agent ag ag' \<Longrightarrow> fresh_timer ag' t = fresh_timer ag t"
  by (simp add: fresh_timer_def same_agent_def)

lemma handle_pending_ok:
  assumes "ag_ok ag" "fresh_timer ag tfd" "fd \<in> timers (ag_pending ag)"
  shows "\<exists>ag'. handle_pending_event (ag\<lparr>ag_io := close_fd (ag_io ag) fd\<rparr>) tfd = Inr ag' \<and> ag_ok ag' \<and>
     same_agent ag ag' \<and> bm_pairs (ag_pending ag') = {(tfd, SETUP_REQUEST_PENDING_EVENT)} \<and>
     ag_sent ag' = ag_sent ag @ [E2_Stp_Req (setup_request_of ag (ag_trans_id ag))] \<and>
     ag_trans_id ag' = ag_trans_id ag + 1 \<and> retries ag' = retries ag + 1 \<and>
     ag_connection_state ag' = ag_connection_state ag"
proof -
  let ?a = "ag\<lparr>ag_io := close_fd (ag_io ag) fd\<rparr>"
  obtain cs where cs: "retry_ric (ag_init_ric_addr ag) (ag_ric_connections ag) = Some cs"
    "rc_ric_addr ` set cs = rc_ric_addr ` set (ag_ric_connections ag)"
    "sum_list (map rc_retry_count cs) = sum_list (map rc_retry_count (ag_ric_connections ag)) + 1"
    using retry_ric_ok [of "ag_init_ric_addr ag" "ag_ric_connections ag"] assms(1) by (auto simp: ag_ok_def)
  obtain io where io: "close_pending ?a = Inr io" "set io = {ag_fd ag, ag_pipe_r ag} \<union> timers (ag_ind_event ag)"
  proof
    show "close_pending ?a = Inr (fold (\<lambda>e io. removeAll (fst e) io) (rb_entries (bm_left (ag_pending ag))) (close_fd (ag_io ag) fd))"
      using close_pending_ok [of ?a] by simp
    have "set (ag_io ag) - {fd} - timers (ag_pending ag) = {ag_fd ag, ag_pipe_r ag} \<union> timers (ag_ind_event ag)"
      using assms(1,3) unfolding ag_ok_def by blast
    then show "set (fold (\<lambda>e io. removeAll (fst e) io) (rb_entries (bm_left (ag_pending ag))) (close_fd (ag_io ag) fd)) =
        {ag_fd ag, ag_pipe_r ag} \<union> timers (ag_ind_event ag)"
      by (simp add: set_fold_removeAll close_fd_def)
  qed
  obtain p where p: "init_pending_events_agent = Inr p" "setup_table p" "bm_pairs p = {}"
    using init_setup_table by blast
  have t: "0 < tfd" "tfd \<notin> set io"
    using assms(2) io(2) by (auto simp: fresh_timer_def)
  obtain p' where p': "bi_map_insert p tfd sizeof_fd SETUP_REQUEST_PENDING_EVENT sizeof_pending_event = Inr p'"
    "setup_table p'" "bm_pairs p' = {(tfd, SETUP_REQUEST_PENDING_EVENT)}"
    using insert_setup_ok [OF p(2,3) t(1)] by blast
  let ?b = "ag\<lparr>ag_ric_connections := cs, ag_io := tfd # io, ag_pending := p'\<rparr>"
  have f: "bi_map_free (ag_pending ag) = Inr ()" and sm: "sms_ok (ag_sm_ds ag)"
    using assms(1) free_setup_table by (auto simp: ag_ok_def)
  have g: "gen_setup_request_v2 ?b = Inr (?b\<lparr>ag_trans_id := ag_trans_id ag + 1\<rparr>, setup_request_of ag (ag_trans_id ag))"
    using gen_setup_request_ok [of ?b] sm by simp
  have "ag_ok ?b"
    using assms(1,2) cs(2) p'(2,3) io(2) by (auto simp: ag_ok_def fresh_timer_def)
  moreover have "handle_pending_event ?a tfd =
      Inr (e2ap_send_bytes_agent (?b\<lparr>ag_trans_id := ag_trans_id ag + 1\<rparr>) (E2_Stp_Req (setup_request_of ag (ag_trans_id ag))))"
    unfolding handle_pending_event_def p(1) using cs(1) io(1) f t p'(1) g
    by (simp add: create_timer_ms_asio_agent_def add_fd_asio_agent_def Let_def consume_fd_sync_def)
  ultimately show ?thesis
    using p'(3) cs(3) by (simp add: e2ap_send_bytes_agent_def same_agent_def retries_def)
qed

lemma arm_setup_ok:
  assumes "ag_ok ag" "bm_pairs (ag_pending ag) = {}" "fresh_timer ag tfd"
  shows "\<exists>ag'. arm_setup_timer ag tfd = Inr ag' \<and> ag_ok ag' \<and> same_agent ag ag' \<and>
     bm_pairs (ag_pending ag') = {(tfd, SETUP_REQUEST_PENDING_EVENT)} \<and> ag_sent ag' = ag_sent ag \<and>
     ag_trans_id ag' = ag_trans_id ag \<and> retries ag' = retries ag \<and> ag_connection_state ag' = ag_connection_state ag"
proof -
  obtain p where p: "init_pending_events_agent = Inr p" "setup_table p" "bm_pairs p = {}"
    using init_setup_table by blast
  have n: "bi_map_size (ag_pending ag) = Inr 0"
    using agpend.size_ok [of "ag_pending ag"] assms(1,2) by (simp add: ag_ok_def setup_table_def)
  have t: "0 < tfd" "tfd \<notin> set (ag_io ag)"
    using assms by (auto simp: fresh_timer_def ag_ok_def)
  obtain p' where p': "bi_map_insert p tfd sizeof_fd SETUP_REQUEST_PENDING_EVENT sizeof_pending_event = Inr p'"
    "setup_table p'" "bm_pairs p' = {(tfd, SETUP_REQUEST_PENDING_EVENT)}"
    using insert_setup_ok [OF p(2,3) t(1)] by blast
  let ?b = "ag\<lparr>ag_io := tfd # ag_io ag, ag_pending := p'\<rparr>"
  have "arm_setup_timer ag tfd = Inr ?b"
    unfolding arm_setup_timer_def n p(1) using t p'(1)
    by (simp add: create_timer_ms_asio_agent_def add_fd_asio_agent_def)
  moreover have "ag_ok ?b"
    using assms p'(2,3) by (auto simp: ag_ok_def fresh_timer_def)
  ultimately show ?thesis
    using p'(3) by (simp add: same_agent_def retries_def)
qed

end
