(* ===== verification/Ric_Handlers.thy ===== *)
theory Ric_Handlers
  imports Near_Ric
begin

text \<open>
  The handlers of the near-RT RIC: what it does with the messages of the E2 nodes
  (\<^verbatim>\<open>ric/msg_handler_ric.c\<close>), with the end of a connection (\<^verbatim>\<open>not_handler_ric.c\<close>) and with the
  events of its loop (\<^verbatim>\<open>e2_event_loop_ric\<close>, \<^verbatim>\<open>sctp_msg_arrived_event\<close> of \<^verbatim>\<open>near_ric.c\<close>).  A handler
  takes and returns the states of the RIC and of the iApp, which it calls directly.
\<close>

section \<open>Handlers of the messages\<close>

text \<open>The response to a request removes its pending event and closes its timer.\<close>

definition stop_pending_event :: "near_ric_t \<Rightarrow> pending_event_ric_t \<Rightarrow> near_ric_t res" where
  "stop_pending_event ric ev =
     bnd (bi_map_extract_right (nr_pending ric) ev sizeof_pending_event_ric None) (\<lambda>(pending, fd).
     chk (fd > 0) ''*fd > 0'' (
     bnd (rm_fd_asio_ric (nr_io ric) fd) (\<lambda>io.
     Inr (ric\<lparr>nr_pending := pending, nr_io := io\<rparr>))))"

type_synonym ric_iapp = "near_ric_t \<times> e42_iapp_t"

definition e2ap_handle_subscription_response_ric ::
  "ric_iapp \<Rightarrow> ric_subscription_response_t \<Rightarrow> (ric_iapp \<times> e2ap_msg_t) res" where
  "e2ap_handle_subscription_response_ric st resp =
     bnd (stop_pending_event (fst st)
            \<lparr>per_ev = SUBSCRIPTION_REQUEST_PENDING_EVENT, per_id = sresp_ric_id resp\<rparr>) (\<lambda>ric.
     chk (length (sresp_not_admitted resp) = 0) ''No other case implemented'' (
     chk (length (sresp_admitted resp) = 1) ''No other case implemented'' (
     chk (ric_act_id (hd (sresp_admitted resp)) = 0) ''No other case implemented'' (
     bnd (notify_msg_iapp (snd st) (Ric_Sub_Resp resp)) (\<lambda>iapp.
     Inr ((ric, iapp), no_msg))))))"

definition e2ap_handle_subscription_delete_response_ric ::
  "ric_iapp \<Rightarrow> ric_subscription_delete_response_t \<Rightarrow> (ric_iapp \<times> e2ap_msg_t) res" where
  "e2ap_handle_subscription_delete_response_ric st resp =
     bnd (stop_pending_event (fst st)
            \<lparr>per_ev = SUBSCRIPTION_DELETE_REQUEST_PENDING_EVENT, per_id = sdresp_ric_id resp\<rparr>) (\<lambda>ric.
     bnd (notify_msg_iapp (snd st) (Ric_Sub_Del_Resp resp)) (\<lambda>iapp.
     Inr ((ric, iapp), no_msg)))"

text \<open>
  The listeners are looked up for the RAN function of the indication, and then read from the
  front of the tree.
\<close>

definition publish_ind_msg :: "near_ric_t \<Rightarrow> u16 \<Rightarrow> sm_ag_if_rd_ind_t \<Rightarrow> near_ric_t res" where
  "publish_ind_msg ric rfun d =
     (let start_it = assoc_rb_tree_front (nr_pub_sub ric) in
      bnd (find_if_rb_tree (eq_ran_func_id rfun) start_it) (\<lambda>sm_it.
      chk (\<not> at_end sm_it) ''Could not find a RAN function that matches the SM'' (
      bnd (assoc_rb_tree_value start_it) (\<lambda>arr.
      for_arr (\<lambda>sub ric. Inr (ric\<lparr>nr_published := nr_published ric @ [(subs_fp sub, d)]\<rparr>)) arr ric))))"

definition e2ap_handle_indication_ric ::
  "ric_iapp \<Rightarrow> ric_indication_t \<Rightarrow> (ric_iapp \<times> e2ap_msg_t) res" where
  "e2ap_handle_indication_ric st ind =
     (let rfun = ran_func_id (ind_ric_id ind) in
      bnd (sm_plugin_ric (nr_sm_ds (fst st)) rfun) (\<lambda>sm.
      let d = on_indication sm \<lparr>sid_ind_hdr = ind_hdr ind, sid_ind_msg = ind_msg ind,
                                sid_call_process_id = ind_call_process_id ind\<rparr> in
      chk (rd_type d \<in> {MAC_STATS_V0, RLC_STATS_V0, PDCP_STATS_V0, SLICE_STATS_V0, KPM_STATS_V3_0,
                        RAN_CTRL_STATS_V1_03, GTP_STATS_V0, TC_STATS_V0}) ''d.type == MAC_STATS_V0 || ...'' (
      bnd (publish_ind_msg (fst st) rfun d) (\<lambda>ric.
      bnd (notify_msg_iapp (snd st) (Ric_Ind ind)) (\<lambda>iapp.
      Inr ((ric, iapp), no_msg))))))"

definition e2ap_handle_control_ack_ric ::
  "ric_iapp \<Rightarrow> ric_control_acknowledge_t \<Rightarrow> (ric_iapp \<times> e2ap_msg_t) res" where
  "e2ap_handle_control_ack_ric st ack =
     bnd (stop_pending_event (fst st)
            \<lparr>per_ev = CONTROL_REQUEST_PENDING_EVENT, per_id = ack_ric_id ack\<rparr>) (\<lambda>ric.
     bnd (notify_msg_iapp (snd st) (Ric_Ctrl_Ack ack)) (\<lambda>iapp.
     Inr ((ric, iapp), no_msg)))"

section \<open>Setup of an E2 node\<close>

definition accept_ran_func :: "(u16, sm_ric_t) assoc_rb_tree_t \<Rightarrow> ran_function_t list \<Rightarrow> u16 list res" where
  "accept_ran_func sm_ds ran_func_item =
     fold_res (\<lambda>rf acc.
       let i = rf_id rf in
       bnd (find_if_rb_tree (eq_ran_func_id i) (assoc_rb_tree_front sm_ds)) (\<lambda>it.
       if \<not> at_end it then
         bnd (assoc_rb_tree_key it) (\<lambda>k. chk (i = k) ''id == assoc_key(it)'' (Inr (acc @ [i])))
       else Inl (Assertion ''Unknown RAN function ID from the agent received'')))
     ran_func_item []"

definition generate_setup_response_v2 ::
  "(u16, sm_ric_t) assoc_rb_tree_t \<Rightarrow> e2_setup_request_t \<Rightarrow> e2_setup_response_t res" where
  "generate_setup_response_v2 sm_ds req =
     bnd (accept_ran_func sm_ds (stp_ran_func_item req)) (\<lambda>acc.
     chk (length (stp_comp_conf_add req) > 0 \<and> length (stp_comp_conf_add req) < 1025)
       ''req->len_cca > 0 && req->len_cca < 1025'' (
     bnd (fold_res (\<lambda>c add_ack.
            bnd (cp_e2ap_node_comp_id (cca_id c)) (\<lambda>cid.
            Inr (add_ack @ [\<lparr>ccaa_interface_type = cca_interface_type c, ccaa_id = cid,
                             ccaa_outcome = SUCCESS_E2AP_NODE_COMP_CONF_ACK\<rparr>])))
          (stp_comp_conf_add req) []) (\<lambda>add_ack.
     Inr \<lparr>srsp_trans_id = stp_trans_id req,
          srsp_id = \<lparr>gric_plmn = gid_plmn (stp_id req), gric_near_ric_id = 25\<rparr>,
          srsp_accepted = acc, srsp_comp_config_add_ack = add_ack\<rparr>)))"

definition init_e2_node :: "global_e2_node_id_t \<Rightarrow> u16 list \<Rightarrow> e2_node_t" where
  "init_e2_node gid accepted =
     \<lparr>nod_id = \<lparr>gid_type = gid_type gid, gid_plmn = gid_plmn gid, gid_nb_id = gid_nb_id gid,
                cu_du_id = cu_du_id gid\<rparr>,
      nod_accepted = accepted\<rparr>"

text \<open>The log line of a split node reads its unit id through the pointer.\<close>

definition e2ap_handle_setup_request_ric ::
  "ric_iapp \<Rightarrow> e2_setup_request_t \<Rightarrow> (ric_iapp \<times> e2ap_msg_t) res" where
  "e2ap_handle_setup_request_ric st req =
     (if \<not> NODE_IS_MONOLITHIC (gid_type (stp_id req)) \<and> cu_du_id (stp_id req) = None
      then Inl (Null_Deref ''*req->id.cu_du_id'')
      else
        bnd (add_e2_node_iapp (snd st) (stp_id req) (stp_ran_func_item req) (stp_comp_conf_add req)) (\<lambda>iapp.
        bnd (generate_setup_response_v2 (nr_sm_ds (fst st)) req) (\<lambda>resp.
        bnd (seq_arr_push_back (nr_conn_e2_nodes (fst st))
               (init_e2_node (stp_id req) (srsp_accepted resp)) sizeof_e2_node) (\<lambda>nodes.
        Inr (((fst st)\<lparr>nr_conn_e2_nodes := nodes\<rparr>, iapp), E2_Stp_Resp resp)))))"

section \<open>Dispatch\<close>

definition check_valid_msg_type_ric :: "e2_msg_type_t \<Rightarrow> bool" where
  "check_valid_msg_type_ric t =
     (if t = RIC_SUBSCRIPTION_RESPONSE \<or> t = RIC_SUBSCRIPTION_FAILURE
         \<or> t = RIC_SUBSCRIPTION_DELETE_RESPONSE \<or> t = RIC_SUBSCRIPTION_DELETE_FAILURE
         \<or> t = RIC_INDICATION \<or> t = RIC_CONTROL_ACKNOWLEDGE \<or> t = RIC_CONTROL_FAILURE
         \<or> t = E2AP_ERROR_INDICATION \<or> t = E2_SETUP_REQUEST \<or> t = E2AP_RESET_REQUEST
         \<or> t = E2AP_RESET_RESPONSE \<or> t = RIC_SERVICE_UPDATE \<or> t = E2_NODE_CONFIGURATION_UPDATE
         \<or> t = E2_CONNECTION_UPDATE_ACKNOWLEDGE \<or> t = E2_CONNECTION_UPDATE_FAILURE
      then True else False)"

text \<open>The handlers of the other valid types fail an assertion.\<close>

definition e2ap_msg_handle_ric :: "ric_iapp \<Rightarrow> e2ap_msg_t \<Rightarrow> (ric_iapp \<times> e2ap_msg_t) res" where
  "e2ap_msg_handle_ric st msg =
     chk (check_valid_msg_type_ric (msg_type msg)) ''check_valid_msg_type(msg_type) == true'' (
     case msg of
       Ric_Sub_Resp r \<Rightarrow> e2ap_handle_subscription_response_ric st r
     | Ric_Sub_Del_Resp r \<Rightarrow> e2ap_handle_subscription_delete_response_ric st r
     | Ric_Ind r \<Rightarrow> e2ap_handle_indication_ric st r
     | Ric_Ctrl_Ack r \<Rightarrow> e2ap_handle_control_ack_ric st r
     | E2_Stp_Req r \<Rightarrow> e2ap_handle_setup_request_ric st r
     | _ \<Rightarrow> Inl (Assertion ''Not implemented''))"

section \<open>End of a connection\<close>

definition eq_global_e2_node_id_e2_node :: "global_e2_node_id_t \<Rightarrow> e2_node_t \<Rightarrow> bool res" where
  "eq_global_e2_node_id_e2_node v n = eq_global_e2_node_id v (nod_id n)"

definition notification_handle_ric :: "ric_iapp \<Rightarrow> sctp_info_t \<Rightarrow> sctp_sn_type \<Rightarrow> ric_iapp res" where
  "notification_handle_ric st info sn =
     (let ric = fst st in
      chk (sn = SCTP_SHUTDOWN_EVENT) ''Only shutdown event supported'' (
      bnd (rm_map_sad_e2_node (nr_e2_nodes ric) info) (\<lambda>(e2_nodes, nid).
      bnd (find_if_arr (nr_conn_e2_nodes ric) (seq_arr_front (nr_conn_e2_nodes ric))
             (seq_arr_end (nr_conn_e2_nodes ric)) (eq_global_e2_node_id_e2_node nid)) (\<lambda>it.
      chk (it \<noteq> seq_arr_end (nr_conn_e2_nodes ric)) ''E2 Node not found!'' (
      bnd (seq_arr_erase (nr_conn_e2_nodes ric) it (seq_arr_next (nr_conn_e2_nodes ric) it)) (\<lambda>nodes.
      bnd (rm_e2_node_iapp (snd st) nid) (\<lambda>iapp.
      Inr (ric\<lparr>nr_e2_nodes := e2_nodes, nr_conn_e2_nodes := nodes\<rparr>, iapp))))))))"

section \<open>The event loop and its tasks\<close>

text \<open>One task of the task manager: a message that arrived from an E2 node.\<close>

definition sctp_msg_arrived_event :: "ric_iapp \<Rightarrow> sctp_info_t \<times> e2ap_msg_t \<Rightarrow> ric_iapp res" where
  "sctp_msg_arrived_event st task =
     bnd (case snd task of
            E2_Stp_Req req \<Rightarrow>
              bnd (add_map_e2_node_sad (nr_e2_nodes (fst st)) (stp_id req) (fst task)) (\<lambda>m.
              Inr ((fst st)\<lparr>nr_e2_nodes := m\<rparr>, snd st))
          | _ \<Rightarrow> Inr st) (\<lambda>st.
     bnd (e2ap_msg_handle_ric st (snd task)) (\<lambda>(st, ans).
     if msg_type ans \<noteq> NONE_E2_MSG_TYPE
     then Inr ((fst st)\<lparr>nr_sent := nr_sent (fst st) @ [(fst task, ans)]\<rparr>, snd st)
     else Inr st))"

text \<open>\<open>retry_count\<close> is the local variable of the loop.\<close>

definition handle_event_ric :: "async_event_t \<Rightarrow> ric_iapp \<times> nat \<Rightarrow> (ric_iapp \<times> nat) res" where
  "handle_event_ric e s =
     (case s of ((ric, iapp), retry_count) \<Rightarrow>
      (case e of
         SCTP_MSG_ARRIVED_EVENT info msg \<Rightarrow>
           Inr ((ric\<lparr>nr_tasks := nr_tasks ric @ [(info, msg)]\<rparr>, iapp), retry_count)
       | PENDING_EVENT fd p_ev \<Rightarrow>
           if retry_count < 3
           then Inr ((ric\<lparr>nr_consumed := nr_consumed ric @ [fd]\<rparr>, iapp), retry_count + 1)
           else Inr ((ric, iapp), 0)
       | SCTP_CONNECTION_SHUTDOWN_EVENT info sn \<Rightarrow>
           bnd (notification_handle_ric (ric, iapp) info sn) (\<lambda>st. Inr (st, retry_count))
       | CHECK_STOP_TOKEN_EVENT \<Rightarrow> Inr s
       | UNKNOWN_EVENT \<Rightarrow> Inl (Assertion ''Unknown event triggered '')))"

text \<open>One round of the loop.\<close>

definition e2_event_loop_ric ::
  "(int \<times> sctp_msg_t) list option \<Rightarrow> ric_iapp \<times> nat \<Rightarrow> (ric_iapp \<times> nat) res" where
  "e2_event_loop_ric fd_read s =
     bnd (next_asio_event_ric (fst (fst s)) fd_read) (\<lambda>arr.
     chk (length arr > 0 \<and> length arr < 65) ''arr.len > 0 && arr.len < 65'' (
     fold_res handle_event_ric arr s))"

end
