(* ===== verification/Ric_Laws.thy ===== *)
theory Ric_Laws
  imports Ric_Handlers
begin

text \<open>
  The invariant of the near-RT RIC and the laws of its requests: a request sends its message to
  the socket of the E2 node and leaves a pending event whose timer is watched; the response to
  it removes the event and closes the timer; a response nobody waits for ends the process.
\<close>

section \<open>Invariant\<close>

interpretation pendq: bimap cmp_fd "\<lambda>fd. 0 \<le> fd" "\<lambda>fd. fd" cmp_pending_event_ric any pend_ric_rank
  by unfold_locales

definition pending_ok :: "(int, pending_event_ric_t) bi_map_t \<Rightarrow> bool" where
  "pending_ok m \<longleftrightarrow>
     pendq.inv m \<and> conf_ok sizeof_fd sizeof_pending_event_ric m \<and>
     rb_free (bm_left m) = Some free_fd \<and> rb_free (bm_right m) = Some free_pending_ev_ric"

text \<open>Every loaded service model is stored under its own, non-zero id.\<close>

definition sm_ds_ok :: "(u16, sm_ric_t) assoc_rb_tree_t \<Rightarrow> bool" where
  "sm_ds_ok t \<longleftrightarrow>
     rb_inv cmp_ran_func_id any (\<lambda>a. a) t \<and> rb_uniq (\<lambda>a. a) t \<and>
     (\<forall>(k, sm) \<in> rb_set t. sm_ran_func_id sm = k \<and> k \<noteq> 0)"

definition nr_ok :: "near_ric_t \<Rightarrow> bool" where
  "nr_ok ric \<longleftrightarrow>
     e2_sad_ok (nr_e2_nodes ric) \<and> pending_ok (nr_pending ric) \<and> sm_ds_ok (nr_sm_ds ric) \<and>
     (\<forall>(fd, ev) \<in> bm_pairs (nr_pending ric). 0 < fd \<and> fd \<in> set (nr_io ric) \<and> fd \<noteq> nr_fd ric) \<and>
     0 < nr_fd ric \<and> nr_fd ric \<in> set (nr_io ric) \<and>
     sa_inv (nr_conn_e2_nodes ric) \<and> sa_elt_size (nr_conn_e2_nodes ric) = sizeof_e2_node"

abbreviation pending_events :: "near_ric_t \<Rightarrow> (int \<times> pending_event_ric_t) set" where
  "pending_events ric \<equiv> bm_pairs (nr_pending ric)"

abbreviation node_sockets :: "near_ric_t \<Rightarrow> (global_e2_node_id_t \<times> sctp_info_t) set" where
  "node_sockets ric \<equiv> bm_pairs (nr_e2_nodes ric)"

lemma nr_ok_frame [simp]:
  "nr_ok (ric\<lparr>nr_req_id := r\<rparr>) = nr_ok ric" "nr_ok (ric\<lparr>nr_last_req_id := l\<rparr>) = nr_ok ric"
  "nr_ok (ric\<lparr>nr_sent := out\<rparr>) = nr_ok ric" "nr_ok (ric\<lparr>nr_published := pub\<rparr>) = nr_ok ric"
  "nr_ok (ric\<lparr>nr_consumed := c\<rparr>) = nr_ok ric" "nr_ok (ric\<lparr>nr_tasks := t\<rparr>) = nr_ok ric"
  by (simp_all add: nr_ok_def)

lemma init_pending_events_ok: "\<exists>m. init_pending_events = Inr m \<and> pending_ok m \<and> bm_pairs m = {}"
  using pendq.init_ok [of sizeof_fd sizeof_pending_event_ric "Some free_fd" "Some free_pending_ev_ric"]
  by (auto simp: init_pending_events_def pending_ok_def conf_ok_def sizeof_fd_def sizeof_pending_event_ric_def)

lemma init_map_e2_node_sad_ok: "\<exists>m. init_map_e2_node_sad = Inr m \<and> e2_sad_ok m \<and> bm_pairs m = {}"
  using e2sad.init_ok [of sizeof_global_e2_node_id sizeof_sctp_info "Some free_nothing" "Some free_nothing"]
  by (auto simp: init_map_e2_node_sad_def e2_sad_ok_def conf_ok_def sizeof_defs)

section \<open>Pending events\<close>

text \<open>A descriptor that the operating system hands out is positive and not in use.\<close>

definition fresh_fd :: "near_ric_t \<Rightarrow> int \<Rightarrow> bool" where
  "fresh_fd ric fd \<longleftrightarrow> 0 < fd \<and> fd \<notin> set (nr_io ric)"

lemma fresh_fd_frame [simp]:
  "fresh_fd (ric\<lparr>nr_req_id := r\<rparr>) = fresh_fd ric" "fresh_fd (ric\<lparr>nr_last_req_id := l\<rparr>) = fresh_fd ric"
  by (auto simp: fresh_fd_def fun_eq_iff)

lemma insert_pending_ok:
  assumes "nr_ok ric" "fresh_fd ric fd" "ev \<notin> snd ` pending_events ric"
  shows "\<exists>p. insert_pending_event ric ev fd = Inr (ric\<lparr>nr_io := fd # nr_io ric, nr_pending := p\<rparr>) \<and>
     bm_pairs p = insert (fd, ev) (pending_events ric) \<and>
     nr_ok (ric\<lparr>nr_io := fd # nr_io ric, nr_pending := p\<rparr>)"
proof -
  have p: "pending_ok (nr_pending ric)" and
    e: "\<forall>(fd', ev') \<in> pending_events ric. fd' \<noteq> fd \<and> pend_ric_rank ev' \<noteq> pend_ric_rank ev"
    using assms unfolding nr_ok_def fresh_fd_def pend_ric_rank_inj by (fastforce, force)
  have "\<exists>p. bi_map_insert (nr_pending ric) fd sizeof_fd ev sizeof_pending_event_ric = Inr p \<and> pendq.inv p \<and>
      bm_pairs p = insert (fd, ev) (pending_events ric) \<and> bm_same_conf (nr_pending ric) p"
    by (rule pendq.insert_ok [OF _ _ _ _ _ _ _ e])
      (use p assms(2) in \<open>auto simp: pending_ok_def conf_ok_def sizeof_fd_def sizeof_pending_event_ric_def fresh_fd_def\<close>)
  then obtain p' where p': "bi_map_insert (nr_pending ric) fd sizeof_fd ev sizeof_pending_event_ric = Inr p'"
    "pendq.inv p'" "bm_pairs p' = insert (fd, ev) (pending_events ric)" "bm_same_conf (nr_pending ric) p'"
    by blast
  have "pending_ok p'"
    using p p'(2,4) conf_ok_same [OF _ p'(4)] by (auto simp: pending_ok_def bm_same_conf_def)
  then show ?thesis
    using assms(1,2) p'(1,3)
    by (intro exI [of _ p']) (auto simp: insert_pending_event_def create_timer_ms_asio_ric_def
        add_fd_asio_ric_def nr_ok_def fresh_fd_def)
qed

lemma stop_pending_ok:
  assumes "nr_ok ric" "(fd, ev) \<in> pending_events ric"
  shows "\<exists>p. stop_pending_event ric ev =
       Inr (ric\<lparr>nr_pending := p, nr_io := removeAll fd (nr_io ric)\<rparr>) \<and>
     bm_pairs p = pending_events ric - {(fd, ev)} \<and>
     nr_ok (ric\<lparr>nr_pending := p, nr_io := removeAll fd (nr_io ric)\<rparr>)"
proof -
  have p: "pending_ok (nr_pending ric)" and fd: "0 < fd" "fd \<in> set (nr_io ric)" "fd \<noteq> nr_fd ric"
    using assms by (auto simp: nr_ok_def)
  have "\<exists>p. bi_map_extract_right (nr_pending ric) ev sizeof_pending_event_ric None = Inr (p, fd) \<and> pendq.inv p \<and>
      bm_pairs p = pending_events ric - {(fd, ev)} \<and> bm_same_conf (nr_pending ric) p"
    by (rule pendq.extract_right_ok)
      (use p assms(2) in \<open>auto simp: pending_ok_def conf_ok_def call_free_def\<close>)
  then obtain p' where p': "bi_map_extract_right (nr_pending ric) ev sizeof_pending_event_ric None = Inr (p', fd)"
    "pendq.inv p'" "bm_pairs p' = pending_events ric - {(fd, ev)}" "bm_same_conf (nr_pending ric) p'"
    by blast
  have ok: "pending_ok p'"
    using p p'(2,4) conf_ok_same [OF _ p'(4)] by (auto simp: pending_ok_def bm_same_conf_def)
  have "\<forall>(fd', ev') \<in> bm_pairs p'. fd' \<noteq> fd"
    using pendq.inv_left_uniq [of "nr_pending ric" fd ev] p assms(2) p'(3) by (auto simp: pending_ok_def)
  then have "nr_ok (ric\<lparr>nr_pending := p', nr_io := removeAll fd (nr_io ric)\<rparr>)"
    using assms(1) ok fd(3) p'(3) by (auto simp: nr_ok_def)
  then show ?thesis
    using p'(1,3) fd by (intro exI [of _ p']) (simp add: stop_pending_event_def rm_fd_asio_ric_def)
qed

lemma stop_pending_missing:
  assumes "nr_ok ric" "ev \<notin> snd ` pending_events ric"
  shows "stop_pending_event ric ev = Inl (Assertion ''Trying to extract a key not found in the tree'')"
proof -
  have e: "\<forall>(fd', ev') \<in> pending_events ric. pend_ric_rank ev' \<noteq> pend_ric_rank ev"
    unfolding pend_ric_rank_inj using assms(2) by force
  have "bi_map_extract_right (nr_pending ric) ev sizeof_pending_event_ric None =
      Inl (Assertion ''Trying to extract a key not found in the tree'')"
    by (rule pendq.extract_right_missing [OF _ _ e])
      (use assms(1) in \<open>auto simp: nr_ok_def pending_ok_def conf_ok_def\<close>)
  then show ?thesis
    by (simp add: stop_pending_event_def)
qed

section \<open>Requests\<close>

lemma send_bytes_ok:
  assumes "nr_ok ric" "(nid, s) \<in> node_sockets ric" "plain_node nid"
  shows "e2ap_send_bytes_ric ric nid msg = Inr (ric\<lparr>nr_sent := nr_sent ric @ [(s, msg)]\<rparr>)"
  using find_map_e2_node_sad_ok [OF _ assms(2,3)] assms(1)
  by (simp add: e2ap_send_bytes_ric_def nr_ok_def)

text \<open>What a request does to the state of the RIC.\<close>

definition requested ::
  "near_ric_t \<Rightarrow> int \<Rightarrow> pending_event_ric_t \<Rightarrow> sctp_info_t \<Rightarrow> e2ap_msg_t \<Rightarrow> near_ric_t \<Rightarrow> bool" where
  "requested ric fd ev s msg ric' \<longleftrightarrow>
     nr_ok ric' \<and> pending_events ric' = insert (fd, ev) (pending_events ric) \<and>
     set (nr_io ric') = insert fd (set (nr_io ric)) \<and> nr_sent ric' = nr_sent ric @ [(s, msg)] \<and>
     nr_e2_nodes ric' = nr_e2_nodes ric \<and> nr_conn_e2_nodes ric' = nr_conn_e2_nodes ric \<and>
     nr_sm_ds ric' = nr_sm_ds ric \<and> nr_pub_sub ric' = nr_pub_sub ric \<and> nr_fd ric' = nr_fd ric"

lemma request_ok:
  assumes "nr_ok ric" "fresh_fd ric fd" "ev \<notin> snd ` pending_events ric"
    and "(nid, s) \<in> node_sockets ric" "plain_node nid"
  shows "\<exists>ric'. bnd (insert_pending_event ric ev fd) (\<lambda>ric. e2ap_send_bytes_ric ric nid msg) = Inr ric' \<and>
     requested ric fd ev s msg ric' \<and> nr_req_id ric' = nr_req_id ric \<and> nr_last_req_id ric' = nr_last_req_id ric"
proof -
  obtain p where p: "insert_pending_event ric ev fd = Inr (ric\<lparr>nr_io := fd # nr_io ric, nr_pending := p\<rparr>)"
    "bm_pairs p = insert (fd, ev) (pending_events ric)"
    "nr_ok (ric\<lparr>nr_io := fd # nr_io ric, nr_pending := p\<rparr>)"
    using insert_pending_ok [OF assms(1-3)] by blast
  let ?ric = "ric\<lparr>nr_io := fd # nr_io ric, nr_pending := p\<rparr>"
  have "e2ap_send_bytes_ric ?ric nid msg = Inr (?ric\<lparr>nr_sent := nr_sent ?ric @ [(s, msg)]\<rparr>)"
    by (rule send_bytes_ok [OF p(3) _ assms(5)]) (use assms(4) in simp)
  moreover have "nr_ok (?ric\<lparr>nr_sent := nr_sent ?ric @ [(s, msg)]\<rparr>)"
    using p(3) by (simp only: nr_ok_frame)
  ultimately show ?thesis
    using p by (intro exI [of _ "?ric\<lparr>nr_sent := nr_sent ?ric @ [(s, msg)]\<rparr>"]) (simp add: requested_def)
qed

text \<open>The response to a request restores the pending events and the watched descriptors.\<close>

lemma requested_stop:
  assumes "requested ric fd ev s msg ric'" "fresh_fd ric fd" "ev \<notin> snd ` pending_events ric"
  shows "\<exists>ric''. stop_pending_event ric' ev = Inr ric'' \<and> nr_ok ric'' \<and>
     pending_events ric'' = pending_events ric \<and> set (nr_io ric'') = set (nr_io ric) \<and>
     nr_sent ric'' = nr_sent ric' \<and> nr_e2_nodes ric'' = nr_e2_nodes ric \<and> nr_req_id ric'' = nr_req_id ric'"
proof -
  have r: "nr_ok ric'" "(fd, ev) \<in> pending_events ric'"
    using assms(1) by (auto simp: requested_def)
  obtain p where p: "stop_pending_event ric' ev = Inr (ric'\<lparr>nr_pending := p, nr_io := removeAll fd (nr_io ric')\<rparr>)"
    "bm_pairs p = pending_events ric' - {(fd, ev)}"
    "nr_ok (ric'\<lparr>nr_pending := p, nr_io := removeAll fd (nr_io ric')\<rparr>)"
    using stop_pending_ok [OF r] by blast
  have "(fd, ev) \<notin> pending_events ric"
    using assms(3) by force
  then have "bm_pairs p = pending_events ric" "set (removeAll fd (nr_io ric')) = set (nr_io ric)"
    using assms(1,2) p(2) by (auto simp: requested_def fresh_fd_def)
  then show ?thesis
    using p(1,3) assms(1) by (auto simp: requested_def)
qed

lemma lookup_sm_ok:
  assumes "sm_ds_ok t" "(k, sm) \<in> rb_set t"
  shows "sm_plugin_ric t k = Inr sm"
proof -
  have "lookup_if t (eq_ran_func_id k) = Inr (Some sm)"
  proof (rule lookup_if_Some [where q = "\<lambda>k'. k = k'" and k = k])
    show "v' = sm" if "(k', v') \<in> rb_set t" "k = k'" for k' v'
      using rb_uniq_inj [of "\<lambda>a. a" t "(k, sm)" "(k', v')"] assms that by (auto simp: sm_ds_ok_def)
  qed (use assms(2) in \<open>auto simp: eq_ran_func_id_def\<close>)
  then show ?thesis
    using assms by (auto simp: sm_plugin_ric_def sm_ds_ok_def word_gt_0)
qed

lemma eq_pending_found:
  assumes "pending_ok m"
  shows "\<exists>it. find_if_rb_tree (eq_pending_event_ric ev) (assoc_rb_tree_front (bm_right m)) = Inr it \<and>
     (at_end it \<longleftrightarrow> ev \<notin> snd ` bm_pairs m)"
proof -
  obtain it where it: "find_if_rb_tree (eq_pending_event_ric ev) (assoc_rb_tree_front (bm_right m)) = Inr it"
    "remaining it = dropWhile (\<lambda>e. ev \<noteq> fst e) (rb_entries (bm_right m))"
    using find_if_rb_tree_ok [OF iter_front [of "bm_right m"], of "eq_pending_event_ric ev" "\<lambda>k. ev = k"]
    by (auto simp: remaining_front eq_pending_event_ric_iff)
  have "rb_set (bm_right m) = prod.swap ` bm_pairs m"
    using assms by (simp add: pending_ok_def bm_inv_def)
  then have "ev \<in> snd ` bm_pairs m \<longleftrightarrow> ev \<in> fst ` rb_set (bm_right m)"
    by (force simp: image_image)
  moreover have "at_end it \<longleftrightarrow> ev \<notin> fst ` rb_set (bm_right m)"
    unfolding at_end_remaining it(2) dropWhile_eq_Nil_conv by auto
  ultimately show ?thesis
    using it(1) by blast
qed

end
