(* ===== verification/Xapp_Laws.thy ===== *)
theory Xapp_Laws
  imports Xapp Agent_Laws Ric_Laws
begin

text \<open>
  The invariant of an xApp and what its handlers and its calls do to it.  The timers that are
  watched are those of the pending events; there is at most one pending event of each kind, and the
  one of a request belongs to the caller that waits for its answer.
\<close>

section \<open>Pending events\<close>

interpretation xpev: ranked_cmp cmp_pending_event_xapp any "\<lambda>p. pending_event_val (pex_ev p)"
  by unfold_locales (simp add: cmp_pending_event_xapp_def cmp_pending_event_rank)

interpretation xpend: bimap cmp_fd "\<lambda>fd. 0 \<le> fd" "\<lambda>fd. fd" cmp_pending_event_xapp any "\<lambda>p. pending_event_val (pex_ev p)"
  by unfold_locales

definition pend_table :: "(int, pending_event_xapp_t) bi_map_t \<Rightarrow> bool" where
  "pend_table m \<longleftrightarrow>
     xpend.inv m \<and> conf_ok sizeof_fd sizeof_pending_event_xapp m \<and>
     rb_free (bm_left m) = Some free_fd_xapp \<and> rb_free (bm_right m) = Some free_pending_ev_xapp"

abbreviation pend_pairs :: "'h e42_xapp_t \<Rightarrow> (int \<times> pending_event_xapp_t) set" where
  "pend_pairs xapp \<equiv> bm_pairs (xa_pending xapp)"

text \<open>The kinds of the events that are pending.\<close>

abbreviation pend_kinds :: "'h e42_xapp_t \<Rightarrow> pending_event_t set" where
  "pend_kinds xapp \<equiv> (\<lambda>e. pex_ev (snd e)) ` pend_pairs xapp"

definition io_ok :: "'h e42_xapp_t \<Rightarrow> bool" where
  "io_ok xapp \<longleftrightarrow>
     0 < xa_fd xapp \<and> pend_table (xa_pending xapp) \<and> (\<forall>e \<in> pend_pairs xapp. 0 < fst e \<and> fst e \<noteq> xa_fd xapp) \<and>
     set (xa_io xapp) = insert (xa_fd xapp) (fst ` pend_pairs xapp)"

lemma init_pend_table: "\<exists>m. init_pending_events_xapp = Inr m \<and> pend_table m \<and> bm_pairs m = {}"
  using xpend.init_ok [of sizeof_fd sizeof_pending_event_xapp "Some free_fd_xapp" "Some free_pending_ev_xapp"]
  by (auto simp: init_pending_events_xapp_def pend_table_def conf_ok_def sizeof_fd_def sizeof_pending_event_xapp_def)

lemma kinds_mem: "(fd, p) \<in> pend_pairs xapp \<Longrightarrow> pex_ev p \<in> pend_kinds xapp"
  by force

lemma add_pending_ok:
  assumes "io_ok xapp" "0 < tfd" "tfd \<notin> set (xa_io xapp)" "pex_ev ev \<notin> pend_kinds xapp" "0 < pex_wait_ms ev"
  shows "\<exists>p. add_pending_event_xapp xapp ev tfd = Inr (xapp\<lparr>xa_io := tfd # xa_io xapp, xa_pending := p\<rparr>) \<and>
     bm_pairs p = insert (tfd, ev) (pend_pairs xapp) \<and> io_ok (xapp\<lparr>xa_io := tfd # xa_io xapp, xa_pending := p\<rparr>)"
proof -
  have p: "pend_table (xa_pending xapp)" and n: "tfd \<notin> fst ` pend_pairs xapp" "tfd \<noteq> xa_fd xapp"
    using assms(1,3) by (auto simp: io_ok_def)
  have e: "\<forall>(fd', ev') \<in> pend_pairs xapp. fd' \<noteq> tfd \<and> pending_event_val (pex_ev ev') \<noteq> pending_event_val (pex_ev ev)"
    using n(1) assms(4) unfolding pending_event_val_inj by force
  have "\<exists>p. bi_map_insert (xa_pending xapp) tfd sizeof_fd ev sizeof_pending_event_xapp = Inr p \<and> xpend.inv p \<and>
      bm_pairs p = insert (tfd, ev) (pend_pairs xapp) \<and> bm_same_conf (xa_pending xapp) p"
    by (rule xpend.insert_ok [OF _ _ _ _ _ _ _ e])
      (use p assms(2) in \<open>auto simp: pend_table_def conf_ok_def sizeof_fd_def sizeof_pending_event_xapp_def\<close>)
  then obtain p' where p': "bi_map_insert (xa_pending xapp) tfd sizeof_fd ev sizeof_pending_event_xapp = Inr p'"
    "xpend.inv p'" "bm_pairs p' = insert (tfd, ev) (pend_pairs xapp)" "bm_same_conf (xa_pending xapp) p'"
    by blast
  have "pend_table p'"
    using p p'(2,4) conf_ok_same [OF _ p'(4)] by (auto simp: pend_table_def bm_same_conf_def)
  then show ?thesis
    using assms(1-3,5) p'(1,3) n(2)
    by (intro exI [of _ p']) (auto simp: add_pending_event_xapp_def create_timer_ms_asio_xapp_def add_fd_asio_xapp_def
        add_pending_event_def io_ok_def)
qed

lemma image_diff_one: "x \<in> A \<Longrightarrow> f x \<notin> f ` (A - {x}) \<Longrightarrow> f ` (A - {x}) = f ` A - {f x}"
  by blast

lemma pairs_finite: "finite (bm_pairs m)"
  by simp

lemma rm_pending_ok:
  assumes "io_ok xapp" "(fd, q) \<in> pend_pairs xapp" "pex_ev q = pex_ev ev"
  shows "\<exists>p. rm_pending_event_xapp xapp ev = Inr (xapp\<lparr>xa_io := removeAll fd (xa_io xapp), xa_pending := p\<rparr>) \<and>
     bm_pairs p = pend_pairs xapp - {(fd, q)} \<and> io_ok (xapp\<lparr>xa_io := removeAll fd (xa_io xapp), xa_pending := p\<rparr>) \<and>
     pex_ev ev \<notin> (\<lambda>e. pex_ev (snd e)) ` bm_pairs p"
proof -
  have p: "pend_table (xa_pending xapp)" and fd: "0 < fd" "fd \<in> set (xa_io xapp)" "fd \<noteq> xa_fd xapp"
    using assms(1,2) by (force simp: io_ok_def)+
  have inv: "xpend.inv (xa_pending xapp)"
    using p by (simp add: pend_table_def)
  have "\<exists>p. bi_map_extract_right (xa_pending xapp) ev sizeof_pending_event_xapp None = Inr (p, fd) \<and> xpend.inv p \<and>
      bm_pairs p = pend_pairs xapp - {(fd, q)} \<and> bm_same_conf (xa_pending xapp) p"
    by (rule xpend.extract_right_ok)
      (use p assms(2,3) in \<open>auto simp: pend_table_def conf_ok_def call_free_def\<close>)
  then obtain p' where p': "bi_map_extract_right (xa_pending xapp) ev sizeof_pending_event_xapp None = Inr (p', fd)"
    "xpend.inv p'" "bm_pairs p' = pend_pairs xapp - {(fd, q)}" "bm_same_conf (xa_pending xapp) p'"
    by blast
  have ok: "pend_table p'"
    using p p'(2,4) conf_ok_same [OF _ p'(4)] by (auto simp: pend_table_def bm_same_conf_def)
  have l: "fd' \<noteq> fd" if "(fd', r) \<in> bm_pairs p'" for fd' r
    using xpend.inv_left_uniq [OF inv assms(2), of fd' r] that unfolding p'(3) by auto
  have k: "pex_ev r \<noteq> pex_ev ev" if "(fd', r) \<in> bm_pairs p'" for fd' r
  proof
    assume "pex_ev r = pex_ev ev"
    moreover have "(fd', r) \<in> pend_pairs xapp" "(fd', r) \<noteq> (fd, q)"
      using that unfolding p'(3) by simp_all
    ultimately show False
      using xpend.inv_right_uniq [OF inv assms(2), of fd' r] assms(3) by simp
  qed
  have "card (pend_pairs xapp) = card (bm_pairs p') + 1"
    using card_Suc_Diff1 [OF pairs_finite assms(2)] p'(3) by simp
  then have run: "rm_pending_event_xapp xapp ev = Inr (xapp\<lparr>xa_io := removeAll fd (xa_io xapp), xa_pending := p'\<rparr>)"
    using xpend.size_ok [OF inv] xpend.size_ok [OF p'(2)] p'(1) fd
    by (simp add: rm_pending_event_xapp_def rm_pending_event_ev_def rm_fd_asio_xapp_def)
  have "fst ` bm_pairs p' = fst ` pend_pairs xapp - {fd}"
    using l unfolding p'(3) by force
  then have "io_ok (xapp\<lparr>xa_io := removeAll fd (xa_io xapp), xa_pending := p'\<rparr>)"
    using assms(1) ok fd(3) p'(3) by (auto simp: io_ok_def)
  moreover have "pex_ev ev \<notin> (\<lambda>e. pex_ev (snd e)) ` bm_pairs p'"
    using k by (metis (no_types, lifting) imageE prod.collapse)
  ultimately show ?thesis
    using run p'(3) by (intro exI [of _ p'] conjI)
qed

lemma rm_pending_missing:
  assumes "io_ok xapp" "pex_ev ev \<notin> pend_kinds xapp"
  shows "rm_pending_event_xapp xapp ev = Inl (Assertion ''Trying to extract a key not found in the tree'')"
proof -
  have e: "\<forall>(fd', ev') \<in> pend_pairs xapp. pending_event_val (pex_ev ev') \<noteq> pending_event_val (pex_ev ev)"
    using assms(2) unfolding pending_event_val_inj by force
  have inv: "xpend.inv (xa_pending xapp)"
    using assms(1) by (simp add: io_ok_def pend_table_def)
  have "bi_map_extract_right (xa_pending xapp) ev sizeof_pending_event_xapp None =
      Inl (Assertion ''Trying to extract a key not found in the tree'')"
    by (rule xpend.extract_right_missing [OF _ _ e])
      (use assms(1) in \<open>auto simp: io_ok_def pend_table_def conf_ok_def\<close>)
  then show ?thesis
    using xpend.size_ok [OF inv] by (simp add: rm_pending_event_xapp_def rm_pending_event_ev_def)
qed

lemma lookup_timer:
  assumes "io_ok xapp" "(fd, q) \<in> pend_pairs xapp"
  shows "lookup_if (bm_left (xa_pending xapp)) (eq_fd fd) = Inr (Some q)"
proof (rule lookup_if_Some [where q = "\<lambda>k. fd = k"])
  have inv: "xpend.inv (xa_pending xapp)" and ok: "0 < fd"
    using assms by (auto simp: io_ok_def pend_table_def)
  show "\<forall>e \<in> pend_pairs xapp. eq_fd fd (fst e) = Inr (fd = fst e)"
    using assms(1) ok by (auto simp: io_ok_def eq_fd_def)
  show "\<And>k v. (k, v) \<in> pend_pairs xapp \<Longrightarrow> fd = k \<Longrightarrow> v = q"
    using xpend.inv_left_uniq [OF inv assms(2)] by simp
qed (use assms(2) in simp_all)

lemma pend_event_xapp_ok:
  assumes "io_ok xapp" "(fd, q) \<in> pend_pairs xapp"
  shows "find_event_type xapp fd = Inr (Some (pex_ev q))" "find_pending_event_fd (xa_pending xapp) fd = Inr True"
proof -
  have "0 < fd" "fd \<noteq> xa_fd xapp"
    using assms by (auto simp: io_ok_def pend_table_def)
  then show "find_event_type xapp fd = Inr (Some (pex_ev q))" "find_pending_event_fd (xa_pending xapp) fd = Inr True"
    using lookup_timer [OF assms]
    by (simp_all add: find_event_type_def net_pkt_def pend_event_xapp_def find_pending_event_fd_def found_def)
qed

text \<open>Removing an event by the descriptor of its timer.\<close>

lemma rm_pending_fd_ok:
  assumes "io_ok xapp" "(fd, q) \<in> pend_pairs xapp"
  shows "\<exists>p. rm_pending_event_fd (xa_pending xapp) fd = Inr p \<and> pend_table p \<and> bm_pairs p = pend_pairs xapp - {(fd, q)}"
proof -
  have t: "pend_table (xa_pending xapp)" "0 < fd"
    using assms by (auto simp: io_ok_def)
  have "\<exists>p. bi_map_extract_left (xa_pending xapp) fd sizeof_fd None = Inr (p, q) \<and> xpend.inv p \<and>
      bm_pairs p = pend_pairs xapp - {(fd, q)} \<and> bm_same_conf (xa_pending xapp) p"
    by (rule xpend.extract_left_ok [OF _ assms(2)]) (use t in \<open>auto simp: pend_table_def conf_ok_def call_free_def\<close>)
  then show ?thesis
    using t by (auto simp: rm_pending_event_fd_def pend_table_def bm_same_conf_def conf_ok_def)
qed

section \<open>The invariant\<close>

definition xa_ok :: "'h e42_xapp_t \<Rightarrow> bool" where
  "xa_ok xapp \<longleftrightarrow>
     io_ok xapp \<and> sms_ok (xa_plugin_ag xapp) \<and> sm_ds_ok (xa_plugin_ric xapp) \<and>
     rb_size (xa_plugin_ag xapp) = rb_size (xa_plugin_ric xapp) \<and> reg_ok (xa_e2_nodes xapp) \<and>
     act_inv (xa_act_proc xapp) \<and> db_ok (xa_db xapp) \<and> disp_ok (xa_msg_disp xapp)"

lemma io_ok_frame [simp]:
  "io_ok (xapp\<lparr>xa_sent := x1\<rparr>) = io_ok xapp" "io_ok (xapp\<lparr>xa_act_proc := x2\<rparr>) = io_ok xapp"
  "io_ok (xapp\<lparr>xa_sync := x3\<rparr>) = io_ok xapp" "io_ok (xapp\<lparr>xa_id := x4\<rparr>) = io_ok xapp"
  "io_ok (xapp\<lparr>xa_e2_nodes := x5\<rparr>) = io_ok xapp" "io_ok (xapp\<lparr>xa_connected := x6\<rparr>) = io_ok xapp"
  "io_ok (xapp\<lparr>xa_consumed := x7\<rparr>) = io_ok xapp" "io_ok (xapp\<lparr>xa_retry_count := x8\<rparr>) = io_ok xapp"
  "io_ok (xapp\<lparr>xa_db := x9\<rparr>) = io_ok xapp" "io_ok (xapp\<lparr>xa_msg_disp := x10\<rparr>) = io_ok xapp"
  by (simp_all add: io_ok_def)

lemma xa_okD:
  assumes "xa_ok xapp"
  shows "io_ok xapp" "sms_ok (xa_plugin_ag xapp)" "sm_ds_ok (xa_plugin_ric xapp)" "act_inv (xa_act_proc xapp)"
    "reg_ok (xa_e2_nodes xapp)" "db_ok (xa_db xapp)" "disp_ok (xa_msg_disp xapp)"
  using assms by (simp_all add: xa_ok_def)

lemma e42_setup_request_ok:
  assumes "xa_ok xapp"
  shows "generate_e42_setup_request xapp = Inr \<lparr>e42_ran_func_item = map (\<lambda>e. rf_of (snd e)) (rb_entries (xa_plugin_ag xapp))\<rparr>"
proof -
  let ?t = "xa_plugin_ag xapp" and ?it = "assoc_rb_tree_front (xa_plugin_ag xapp)"
  have r: "remaining ?it = rb_entries ?t"
    by (rule remaining_front)
  have s: "rb_size ?t = length (remaining ?it)" "remaining ?it \<noteq> []" "rb_size (xa_plugin_ric xapp) = rb_size ?t"
    using assms by (simp_all add: xa_ok_def sms_ok_def rb_inv_def r)
  obtain it' where "gen_ran_functions (length (remaining ?it)) ?it =
      Inr (map (\<lambda>e. rf_of (snd e)) (remaining ?it), it')" "at_end it'"
    using gen_ran_functions_ok [OF iter_front [of ?t]] xa_okD(2) [OF assms] unfolding sms_ok_def r by fastforce
  then show ?thesis
    using s by (simp add: generate_e42_setup_request_def assoc_rb_tree_size_def Let_def r)
qed

text \<open>An id of 32 bits that fits the 16 bits of the search.\<close>

lemma ucast_u16: "ucast (rid :: u32) = (of_nat (unat rid) :: u16)"
  by (simp add: of_nat_unat)

lemma find_act_ok:
  assumes "act_inv p" "0 < unat (rid :: u32)" "unat rid < 2 ^ 16"
  shows "\<exists>p'. find_act_proc p (ucast rid) = Inr (p', map_of (act_entries p) (unat rid)) \<and> act_inv p' \<and>
     act_entries p' = act_entries p \<and> act_next p' = act_next p"
  using find_val_ok [OF assms] unfolding find_val_def ucast_u16 .

lemma active_id:
  assumes "act_inv p" "k \<in> fst ` set (act_entries p)"
  shows "0 < k" "k < 2 ^ 16" "\<exists>v. map_of (act_entries p) k = Some v"
proof -
  show "0 < k" "k < 2 ^ 16"
    using act.ids_below [OF assms] act_invD(3) [OF assms(1)] by auto
  show "\<exists>v. map_of (act_entries p) k = Some v"
    using assms(2) by (cases "map_of (act_entries p) k") (auto simp: map_of_eq_None_iff)
qed

lemma registered_ok:
  assumes "act_inv (xa_act_proc xapp)" "unat rid \<in> fst ` set (act_entries (xa_act_proc xapp))"
  shows "\<exists>act v. registered_act_proc xapp rid = Inr (xapp\<lparr>xa_act_proc := act\<rparr>, v) \<and> act_inv act \<and>
     act_entries act = act_entries (xa_act_proc xapp) \<and> act_next act = act_next (xa_act_proc xapp)"
proof -
  note k = active_id [OF assms]
  obtain v where v: "map_of (act_entries (xa_act_proc xapp)) (unat rid) = Some v"
    using k(3) by (elim exE)
  obtain act where "find_act_proc (xa_act_proc xapp) (ucast rid) = Inr (act, Some v)" "act_inv act"
    "act_entries act = act_entries (xa_act_proc xapp)" "act_next act = act_next (xa_act_proc xapp)"
    using find_act_ok [OF assms(1) k(1,2)] unfolding v by (elim exE conjE)
  then show ?thesis
    by (intro exI [of _ act] exI [of _ v]) (simp add: registered_act_proc_def found_def)
qed

lemma registered_missing:
  assumes "act_inv (xa_act_proc xapp)" "0 < unat rid" "unat rid < 2 ^ 16"
    and "unat rid \<notin> fst ` set (act_entries (xa_act_proc xapp))"
  shows "registered_act_proc xapp rid = Inl (Assertion ''ric_req_id not registered in the registry'')"
proof -
  have "map_of (act_entries (xa_act_proc xapp)) (unat rid) = None"
    using assms(4) by (simp add: map_of_eq_None_iff)
  then show ?thesis
    using find_act_ok [OF assms(1-3)] by (auto simp: registered_act_proc_def found_def)
qed

text \<open>What a step leaves as it is.\<close>

definition same_xapp :: "'h e42_xapp_t \<Rightarrow> 'h e42_xapp_t \<Rightarrow> bool" where
  "same_xapp x y \<longleftrightarrow> xa_fd y = xa_fd x \<and> xa_plugin_ag y = xa_plugin_ag x \<and> xa_plugin_ric y = xa_plugin_ric x"

lemma same_xappI: "xa_fd y = xa_fd x \<Longrightarrow> xa_plugin_ag y = xa_plugin_ag x \<Longrightarrow> xa_plugin_ric y = xa_plugin_ric x \<Longrightarrow> same_xapp x y"
  by (simp add: same_xapp_def)

lemma pending_answer_ok:
  assumes "xa_ok xapp" "unat rid \<in> fst ` set (act_entries (xa_act_proc xapp))" "ev \<in> pend_kinds xapp"
  shows "\<exists>x fd q. stop_and_signal xapp ev rid = Inr x \<and> xa_ok x \<and> same_xapp xapp x \<and> (fd, q) \<in> pend_pairs xapp \<and>
     pex_ev q = ev \<and> pend_pairs x = pend_pairs xapp - {(fd, q)} \<and> pend_kinds x = pend_kinds xapp - {ev} \<and>
     act_entries (xa_act_proc x) = act_entries (xa_act_proc xapp) \<and> act_next (xa_act_proc x) = act_next (xa_act_proc xapp) \<and>
     xa_connected x = xa_connected xapp \<and> xa_sent x = xa_sent xapp \<and> xa_e2_nodes x = xa_e2_nodes xapp \<and>
     su_msg_ack (xa_sync x) \<and> xa_id x = xa_id xapp \<and> xa_db x = xa_db xapp \<and> xa_msg_disp x = xa_msg_disp xapp"
proof -
  obtain act v where a: "registered_act_proc xapp rid = Inr (xapp\<lparr>xa_act_proc := act\<rparr>, v)" "act_inv act"
    "act_entries act = act_entries (xa_act_proc xapp)" "act_next act = act_next (xa_act_proc xapp)"
    using registered_ok [OF xa_okD(4) [OF assms(1)] assms(2)] by (elim exE conjE)
  obtain fd q where q: "(fd, q) \<in> pend_pairs xapp" "pex_ev q = ev"
    using assms(3) by auto
  let ?x = "xapp\<lparr>xa_act_proc := act\<rparr>" and ?ev = "\<lparr>pex_ev = ev, pex_id = apv_id v, pex_wait_ms = 0\<rparr>"
  have i: "io_ok ?x" "(fd, q) \<in> pend_pairs ?x" "pex_ev q = pex_ev ?ev"
    using xa_okD(1) [OF assms(1)] q by simp_all
  obtain p where p: "rm_pending_event_xapp ?x ?ev = Inr (?x\<lparr>xa_io := removeAll fd (xa_io ?x), xa_pending := p\<rparr>)"
    "bm_pairs p = pend_pairs ?x - {(fd, q)}" "io_ok (?x\<lparr>xa_io := removeAll fd (xa_io ?x), xa_pending := p\<rparr>)"
    "pex_ev ?ev \<notin> (\<lambda>e. pex_ev (snd e)) ` bm_pairs p"
    using rm_pending_ok [OF i] by (elim exE conjE)
  let ?y = "?x\<lparr>xa_io := removeAll fd (xa_io ?x), xa_pending := p, xa_sync := signal_sync_ui (xa_sync ?x)\<rparr>"
  have "stop_and_signal xapp ev rid = Inr ?y"
    using a(1) p(1) by (simp add: stop_and_signal_def)
  moreover have "xa_ok ?y"
    using p(3) a(2) assms(1) unfolding xa_ok_def io_ok_def by simp
  moreover have "pend_kinds ?y = pend_kinds xapp - {ev}"
    using image_diff_one [OF q(1), of "\<lambda>e. pex_ev (snd e)"] p(2,4) q(2) by simp
  ultimately show ?thesis
    using q p(2) a(3,4) by (intro exI [of _ ?y] exI [of _ fd] exI [of _ q]) (simp add: same_xapp_def signal_sync_ui_def)
qed

text \<open>An answer to a procedure that is not registered, or with no request pending, ends the process.\<close>

lemma answer_unregistered:
  assumes "xa_ok xapp" "0 < unat rid" "unat rid < 2 ^ 16" "unat rid \<notin> fst ` set (act_entries (xa_act_proc xapp))"
  shows "stop_and_signal xapp ev rid = Inl (Assertion ''ric_req_id not registered in the registry'')"
  using registered_missing [OF xa_okD(4) [OF assms(1)] assms(2-4)] by (simp add: stop_and_signal_def)

lemma answer_not_pending:
  assumes "xa_ok xapp" "unat rid \<in> fst ` set (act_entries (xa_act_proc xapp))" "ev \<notin> pend_kinds xapp"
  shows "stop_and_signal xapp ev rid = Inl (Assertion ''Trying to extract a key not found in the tree'')"
proof -
  obtain act v where a: "registered_act_proc xapp rid = Inr (xapp\<lparr>xa_act_proc := act\<rparr>, v)"
    using registered_ok [OF xa_okD(4) [OF assms(1)] assms(2)] by (elim exE conjE)
  let ?x = "xapp\<lparr>xa_act_proc := act\<rparr>" and ?ev = "\<lparr>pex_ev = ev, pex_id = apv_id v, pex_wait_ms = 0\<rparr>"
  have "io_ok ?x" "pex_ev ?ev \<notin> pend_kinds ?x"
    using xa_okD(1) [OF assms(1)] assms(3) by simp_all
  from rm_pending_missing [OF this] show ?thesis
    using a by (simp add: stop_and_signal_def)
qed

section \<open>Calls of the user\<close>

abbreviation gen_id :: "nat \<Rightarrow> u16 \<Rightarrow> ric_gen_id_t" where
  "gen_id n rf \<equiv> \<lparr>ric_req_id = of_nat n, ric_inst_id = 0, ran_func_id = rf\<rparr>"

abbreviation proc_val :: "act_proc_val_e \<Rightarrow> nat \<Rightarrow> u16 \<Rightarrow> global_e2_node_id_t \<Rightarrow> nat option \<Rightarrow> act_proc_val_t" where
  "proc_val type n rf nid cb \<equiv> \<lparr>apv_type = type, apv_id = gen_id n rf, apv_sm_cb = cb, apv_e2_node = nid\<rparr>"

abbreviation next_id :: "'h e42_xapp_t \<Rightarrow> nat" where
  "next_id xapp \<equiv> act_next (xa_act_proc xapp)"

abbreviation procs :: "'h e42_xapp_t \<Rightarrow> (nat \<times> act_proc_val_t) list" where
  "procs xapp \<equiv> act_entries (xa_act_proc xapp)"

lemma gen_id_ok:
  assumes "act_inv (xa_act_proc xapp)" "next_id xapp < 2 ^ 16" "valid_ran_func_id rf"
  shows "\<exists>act. generate_ric_gen_id xapp type rf nid cb = Inr (xapp\<lparr>xa_act_proc := act\<rparr>, gen_id (next_id xapp) rf) \<and>
     act_inv act \<and> act_entries act = procs xapp @ [(next_id xapp, proc_val type (next_id xapp) rf nid cb)] \<and>
     act_next act = next_id xapp + 1"
proof -
  let ?v = "\<lparr>apv_type = type, apv_id = gen_id 0 rf, apv_sm_cb = cb, apv_e2_node = nid\<rparr>"
  obtain act where a: "add_val (xa_act_proc xapp) ?v = Inr (act, next_id xapp)" "act_inv act"
    "act_entries act = procs xapp @ [(next_id xapp, stamp (next_id xapp) ?v)]" "act_next act = next_id xapp + 1"
    using add_val_ok [OF assms(1,2), of ?v] by (elim exE conjE)
  obtain k where k: "add_act_proc (xa_act_proc xapp) type (gen_id 0 rf) nid cb = Inr (act, k)" "unat k = next_id xapp"
    using a(1) by (cases "add_act_proc (xa_act_proc xapp) type (gen_id 0 rf) nid cb") (auto simp: add_val_def)
  have "k = of_nat (next_id xapp)"
    unfolding k(2) [symmetric] by simp
  then show ?thesis
    using k a(2-4) assms(2,3) by (intro exI [of _ act]) (simp add: generate_ric_gen_id_def stamp_def)
qed

lemma gen_id_overflow:
  assumes "act_inv (xa_act_proc xapp)" "next_id xapp = 2 ^ 16" "valid_ran_func_id rf"
  shows "generate_ric_gen_id xapp type rf nid cb = Inl (Assertion ''Overflow detected'')"
proof -
  let ?v = "\<lparr>apv_type = type, apv_id = gen_id 0 rf, apv_sm_cb = cb, apv_e2_node = nid\<rparr>"
  note p = act_invD [OF assms(1)]
  obtain r where r: "assoc_reg_push_back (ap_reg (xa_act_proc xapp)) ?v sizeof_act_proc_val = Inr (r, of_nat (next_id xapp))"
    using areg_push_ok [OF p(1), of ?v] assms(2) p(2) unfolding act_next_def by auto
  then show ?thesis
    using assms(2,3) by (cases type) (simp_all add: generate_ric_gen_id_def add_act_proc_def valid_proc_type_def)
qed

definition sub_request :: "sm_ric_t \<Rightarrow> byte_array_t \<Rightarrow> ric_gen_id_t \<Rightarrow> ric_subscription_request_t" where
  "sub_request sm cmd ric_id =
     \<lparr>sreq_ric_id = ric_id, sreq_event_trigger = sub_event_trigger (on_subscription sm cmd),
      sreq_action = [\<lparr>act_id = 0, act_type = RIC_ACT_REPORT, act_definition = sub_action_def (on_subscription sm cmd),
                      act_subseq_action = None\<rparr>]\<rparr>"

definition ctrl_request :: "sm_ric_t \<Rightarrow> byte_array_t \<Rightarrow> ric_gen_id_t \<Rightarrow> ric_control_request_t" where
  "ctrl_request sm ctrl ric_id =
     \<lparr>cr_ric_id = ric_id, cr_call_process_id = None, cr_hdr = ctrl_hdr (on_control_req sm ctrl),
      cr_msg = ctrl_msg (on_control_req sm ctrl), cr_ack_req = Some RIC_CONTROL_REQUEST_ACK\<rparr>"

text \<open>A service model that the xApp can subscribe to and control with the given data.\<close>

definition sub_ready :: "'h e42_xapp_t \<Rightarrow> u16 \<Rightarrow> byte_array_t \<Rightarrow> sm_ric_t \<Rightarrow> bool" where
  "sub_ready xapp rf data sm \<longleftrightarrow>
     valid_ran_func_id rf \<and> (rf, sm) \<in> rb_set (xa_plugin_ric xapp) \<and>
     (\<forall>ad. sub_action_def (on_subscription sm data) = Some ad \<longrightarrow> length ad < 2048)"

definition ctrl_ready :: "'h e42_xapp_t \<Rightarrow> u16 \<Rightarrow> byte_array_t \<Rightarrow> sm_ric_t \<Rightarrow> bool" where
  "ctrl_ready xapp rf ctrl sm \<longleftrightarrow>
     valid_ran_func_id rf \<and> (rf, sm) \<in> rb_set (xa_plugin_ric xapp) \<and>
     length (ctrl_hdr (on_control_req sm ctrl)) < 2049 \<and> length (ctrl_msg (on_control_req sm ctrl)) < 2049"

definition free_timer :: "'h e42_xapp_t \<Rightarrow> int \<Rightarrow> bool" where
  "free_timer xapp tfd \<longleftrightarrow> 0 < tfd \<and> tfd \<notin> set (xa_io xapp)"

lemma xa_ok_update:
  assumes "xa_ok xapp" "act_inv act" "io_ok (xapp\<lparr>xa_io := io, xa_pending := p\<rparr>)"
  shows "xa_ok (xapp\<lparr>xa_act_proc := act, xa_io := io, xa_pending := p, xa_sent := snt\<rparr>)"
  using assms unfolding xa_ok_def io_ok_def by simp

lemma report_ok:
  assumes "xa_ok xapp" "next_id xapp < 2 ^ 16" "sub_ready xapp rf data sm"
    and "E42_RIC_SUBSCRIPTION_REQUEST_PENDING_EVENT \<notin> pend_kinds xapp" "free_timer xapp tfd"
  defines "n \<equiv> next_id xapp"
  shows "\<exists>act p. let x = xapp\<lparr>xa_act_proc := act, xa_io := tfd # xa_io xapp, xa_pending := p,
       xa_sent := xa_sent xapp @ [E42_Ric_Sub_Req \<lparr>e42s_xapp_id = xa_id xapp, e42s_id = nid,
         e42s_sr = sub_request sm data (gen_id n rf)\<rparr>]\<rparr>
     in report_sm_sync_xapp xapp nid rf data cb tfd = Inr (x, Wait_Report (of_nat n)) \<and> xa_ok x \<and>
        act_entries act = procs xapp @ [(n, proc_val RIC_SUBSCRIPTION_PROCEDURE_ACTIVE n rf nid cb)] \<and> act_next act = n + 1 \<and>
        bm_pairs p = insert (tfd, \<lparr>pex_ev = E42_RIC_SUBSCRIPTION_REQUEST_PENDING_EVENT, pex_id = gen_id n rf,
          pex_wait_ms = 5000\<rparr>) (pend_pairs xapp)"
proof -
  have r: "valid_ran_func_id rf" "(rf, sm) \<in> rb_set (xa_plugin_ric xapp)"
    "(case sub_action_def (on_subscription sm data) of None \<Rightarrow> 0 | Some ad \<Rightarrow> length ad) < 2048"
    using assms(3) by (auto simp: sub_ready_def split: option.splits)
  obtain act where a: "generate_ric_gen_id xapp RIC_SUBSCRIPTION_PROCEDURE_ACTIVE rf nid cb = Inr (xapp\<lparr>xa_act_proc := act\<rparr>, gen_id n rf)"
    "act_inv act" "act_entries act = procs xapp @ [(n, proc_val RIC_SUBSCRIPTION_PROCEDURE_ACTIVE n rf nid cb)]" "act_next act = n + 1"
    using gen_id_ok [OF xa_okD(4) [OF assms(1)] assms(2) r(1), of RIC_SUBSCRIPTION_PROCEDURE_ACTIVE nid cb]
    unfolding n_def by (elim exE conjE)
  let ?x = "xapp\<lparr>xa_act_proc := act\<rparr>"
  let ?ev = "\<lparr>pex_ev = E42_RIC_SUBSCRIPTION_REQUEST_PENDING_EVENT, pex_id = gen_id n rf, pex_wait_ms = 5000\<rparr>"
  have i: "io_ok ?x" "0 < tfd" "tfd \<notin> set (xa_io ?x)" "pex_ev ?ev \<notin> pend_kinds ?x" "0 < pex_wait_ms ?ev"
    using xa_okD(1) [OF assms(1)] assms(4,5) by (simp_all add: free_timer_def)
  obtain p where p: "add_pending_event_xapp ?x ?ev tfd = Inr (?x\<lparr>xa_io := tfd # xa_io ?x, xa_pending := p\<rparr>)"
    "bm_pairs p = insert (tfd, ?ev) (pend_pairs ?x)" "io_ok (?x\<lparr>xa_io := tfd # xa_io ?x, xa_pending := p\<rparr>)"
    using add_pending_ok [OF i] by (elim exE conjE)
  have io: "io_ok (xapp\<lparr>xa_io := tfd # xa_io xapp, xa_pending := p\<rparr>)"
    using p(3) by (simp add: io_ok_def)
  show ?thesis
    using a r lookup_sm_ok [OF xa_okD(3) [OF assms(1)] r(2)] p(1,2) xa_ok_update [OF assms(1) a(2) io]
    by (intro exI [of _ act] exI [of _ p])
      (simp add: report_sm_sync_xapp_def send_subscription_request_def generate_subscription_request_xapp_def
        e2ap_handle_e42_ric_subscription_request_xapp_def e2ap_send_bytes_xapp_def sub_request_def Let_def)
qed

lemma control_ok:
  assumes "xa_ok xapp" "next_id xapp < 2 ^ 16" "ctrl_ready xapp rf ctrl sm"
    and "E42_RIC_CONTROL_REQUEST_PENDING_EVENT \<notin> pend_kinds xapp" "free_timer xapp tfd"
  defines "n \<equiv> next_id xapp"
  shows "\<exists>act p. let x = xapp\<lparr>xa_act_proc := act, xa_io := tfd # xa_io xapp, xa_pending := p,
       xa_sent := xa_sent xapp @ [E42_Ric_Ctrl_Req \<lparr>e42c_xapp_id = xa_id xapp, e42c_id = nid,
         e42c_ctrl_req = ctrl_request sm ctrl (gen_id n rf)\<rparr>]\<rparr>
     in control_sm_sync_xapp xapp nid rf ctrl tfd = Inr (x, Wait_Control (of_nat n)) \<and> xa_ok x \<and>
        act_entries act = procs xapp @ [(n, proc_val RIC_CONTROL_PROCEDURE_ACTIVE n rf nid None)] \<and> act_next act = n + 1 \<and>
        bm_pairs p = insert (tfd, \<lparr>pex_ev = E42_RIC_CONTROL_REQUEST_PENDING_EVENT, pex_id = gen_id n rf,
          pex_wait_ms = 10000\<rparr>) (pend_pairs xapp)"
proof -
  have r: "valid_ran_func_id rf" "(rf, sm) \<in> rb_set (xa_plugin_ric xapp)"
    "length (ctrl_hdr (on_control_req sm ctrl)) < 2049" "length (ctrl_msg (on_control_req sm ctrl)) < 2049"
    using assms(3) by (auto simp: ctrl_ready_def)
  obtain act where a: "generate_ric_gen_id xapp RIC_CONTROL_PROCEDURE_ACTIVE rf nid None = Inr (xapp\<lparr>xa_act_proc := act\<rparr>, gen_id n rf)"
    "act_inv act" "act_entries act = procs xapp @ [(n, proc_val RIC_CONTROL_PROCEDURE_ACTIVE n rf nid None)]" "act_next act = n + 1"
    using gen_id_ok [OF xa_okD(4) [OF assms(1)] assms(2) r(1), of RIC_CONTROL_PROCEDURE_ACTIVE nid None]
    unfolding n_def by (elim exE conjE)
  let ?x = "xapp\<lparr>xa_act_proc := act, xa_sent := xa_sent xapp @ [E42_Ric_Ctrl_Req \<lparr>e42c_xapp_id = xa_id xapp, e42c_id = nid,
         e42c_ctrl_req = ctrl_request sm ctrl (gen_id n rf)\<rparr>]\<rparr>"
  let ?ev = "\<lparr>pex_ev = E42_RIC_CONTROL_REQUEST_PENDING_EVENT, pex_id = gen_id n rf, pex_wait_ms = 10000\<rparr>"
  have i: "io_ok ?x" "0 < tfd" "tfd \<notin> set (xa_io ?x)" "pex_ev ?ev \<notin> pend_kinds ?x" "0 < pex_wait_ms ?ev"
    using xa_okD(1) [OF assms(1)] assms(4,5) by (simp_all add: free_timer_def)
  obtain p where p: "add_pending_event_xapp ?x ?ev tfd = Inr (?x\<lparr>xa_io := tfd # xa_io ?x, xa_pending := p\<rparr>)"
    "bm_pairs p = insert (tfd, ?ev) (pend_pairs ?x)" "io_ok (?x\<lparr>xa_io := tfd # xa_io ?x, xa_pending := p\<rparr>)"
    using add_pending_ok [OF i] by (elim exE conjE)
  have io: "io_ok (xapp\<lparr>xa_io := tfd # xa_io xapp, xa_pending := p\<rparr>)"
    using p(3) by (simp add: io_ok_def)
  show ?thesis
    using a r lookup_sm_ok [OF xa_okD(3) [OF assms(1)] r(2)] p(1,2) xa_ok_update [OF assms(1) a(2) io]
    by (intro exI [of _ act] exI [of _ p])
      (simp add: control_sm_sync_xapp_def send_control_request_def generate_ric_control_request_def
        e2ap_handle_e42_ric_control_request_xapp_def e2ap_send_bytes_xapp_def ctrl_request_def Let_def)
qed

lemma rm_report_ok:
  assumes "xa_ok xapp" "map_of (procs xapp) k = Some v" "rid = int k"
    and "E42_RIC_SUBSCRIPTION_DELETE_REQUEST_PENDING_EVENT \<notin> pend_kinds xapp" "free_timer xapp tfd"
  shows "\<exists>act p. let x = xapp\<lparr>xa_act_proc := act, xa_io := tfd # xa_io xapp, xa_pending := p,
       xa_sent := xa_sent xapp @ [E42_Ric_Sub_Del_Req \<lparr>e42d_xapp_id = xa_id xapp, e42d_sdr = \<lparr>sdr_ric_id = apv_id v\<rparr>\<rparr>]\<rparr>
     in rm_report_sm_sync_xapp xapp rid tfd = Inr (x, Wait_Rm_Report (of_nat k)) \<and> xa_ok x \<and>
        act_entries act = procs xapp \<and> act_next act = next_id xapp \<and>
        bm_pairs p = insert (tfd, \<lparr>pex_ev = E42_RIC_SUBSCRIPTION_DELETE_REQUEST_PENDING_EVENT, pex_id = apv_id v,
          pex_wait_ms = 10000\<rparr>) (pend_pairs xapp)"
proof -
  have "k \<in> fst ` set (procs xapp)"
    using assms(2) by (force dest: map_of_SomeD)
  note k = active_id [OF xa_okD(4) [OF assms(1)] this]
  obtain act where a: "find_val (xa_act_proc xapp) k = Inr (act, Some v)" "act_inv act" "act_entries act = procs xapp"
    "act_next act = next_id xapp"
    using find_val_ok [OF xa_okD(4) [OF assms(1)] k(1,2)] unfolding assms(2) by (elim exE conjE)
  let ?x = "xapp\<lparr>xa_act_proc := act,
     xa_sent := xa_sent xapp @ [E42_Ric_Sub_Del_Req \<lparr>e42d_xapp_id = xa_id xapp, e42d_sdr = \<lparr>sdr_ric_id = apv_id v\<rparr>\<rparr>]\<rparr>"
  let ?ev = "\<lparr>pex_ev = E42_RIC_SUBSCRIPTION_DELETE_REQUEST_PENDING_EVENT, pex_id = apv_id v, pex_wait_ms = 10000\<rparr>"
  have i: "io_ok ?x" "0 < tfd" "tfd \<notin> set (xa_io ?x)" "pex_ev ?ev \<notin> pend_kinds ?x" "0 < pex_wait_ms ?ev"
    using xa_okD(1) [OF assms(1)] assms(4,5) by (simp_all add: free_timer_def)
  obtain p where p: "add_pending_event_xapp ?x ?ev tfd = Inr (?x\<lparr>xa_io := tfd # xa_io ?x, xa_pending := p\<rparr>)"
    "bm_pairs p = insert (tfd, ?ev) (pend_pairs ?x)" "io_ok (?x\<lparr>xa_io := tfd # xa_io ?x, xa_pending := p\<rparr>)"
    using add_pending_ok [OF i] by (elim exE conjE)
  have io: "io_ok (xapp\<lparr>xa_io := tfd # xa_io xapp, xa_pending := p\<rparr>)"
    using p(3) by (simp add: io_ok_def)
  have f: "find_act_proc (xa_act_proc xapp) (of_int rid) = Inr (act, Some v)"
    using a(1) by (simp add: find_val_def assms(3))
  show ?thesis
    using a(2-4) f k(1,2) p(1,2) xa_ok_update [OF assms(1) a(2) io] assms(3)
    by (intro exI [of _ act] exI [of _ p])
      (simp add: rm_report_sm_sync_xapp_def send_ric_subscription_delete_def found_def
        e2ap_handle_e42_subscription_delete_request_xapp_def e2ap_send_bytes_xapp_def Let_def)
qed

end
