(* ===== verification/Xapp_Safety.thy ===== *)
theory Xapp_Safety
  imports Xapp_Laws
begin

text \<open>
  An xApp as a transition system: the rounds of its event loop and the calls of its user, in any
  order, each call up to its wait and from there on.  An input is expected when the other side
  follows the protocol and the wait of a call ends because the answer arrived; every state that is
  reached in this way has the invariant, and no expected input ends the process.
\<close>

section \<open>Setup\<close>

text \<open>The nodes that a setup response may announce to an xApp.\<close>

definition nodes_new :: "e2_node_connected_t list \<Rightarrow> bool" where
  "nodes_new ns \<longleftrightarrow>
     distinct (map con_id ns) \<and>
     (\<forall>n \<in> set ns. valid_node_id (con_id n) \<and> plain_node (con_id n) \<and> con_ack_rf n \<noteq> [] \<and> con_cca n \<noteq> [] \<and>
        length (con_cca n) < 256 \<and> (\<forall>c \<in> set (con_cca n). supported_cca c))"

lemma add_nodes_ok:
  assumes "reg_ok r" "nodes_new ns" "con_id ` set (reg_nodes r) \<inter> con_id ` set ns = {}"
  shows "\<exists>r'. fold_res (\<lambda>n nodes. add_reg_e2_node nodes (con_id n) (con_ack_rf n) (con_cca n)) ns r = Inr r' \<and>
     reg_ok r' \<and> set (reg_nodes r') = set ns \<union> set (reg_nodes r)"
  using assms
proof (induction ns arbitrary: r)
  case (Cons n ns)
  have n: "valid_node_id (con_id n)" "plain_node (con_id n)" "con_ack_rf n \<noteq> []" "con_cca n \<noteq> []"
    "length (con_cca n) < 256" "\<forall>c \<in> set (con_cca n). supported_cca c" and ns: "nodes_new ns" "con_id n \<notin> con_id ` set ns"
    using Cons.prems(2) by (simp_all add: nodes_new_def)
  have f: "\<forall>m \<in> set (reg_nodes r). con_id m \<noteq> con_id n"
    using Cons.prems(3) by (auto intro: rev_image_eqI)
  have eta: "\<lparr>con_id = con_id n, con_cca = con_cca n, con_ack_rf = con_ack_rf n\<rparr> = n"
    by simp
  obtain r1 where r1: "add_reg_e2_node r (con_id n) (con_ack_rf n) (con_cca n) = Inr r1" "reg_ok r1"
    "set (reg_nodes r1) = insert n (set (reg_nodes r))"
    using add_reg_e2_node_ok [OF Cons.prems(1) n f] unfolding eta by (elim exE conjE)
  have "con_id ` set (reg_nodes r1) \<inter> con_id ` set ns = {}"
    using Cons.prems(3) ns(2) unfolding r1(3) by auto
  from Cons.IH [OF r1(2) ns(1) this] show ?case
    using r1 by auto
qed simp

lemma setup_response_xapp_ok:
  assumes "xa_ok xapp" "\<not> xa_connected xapp" "reg_nodes (xa_e2_nodes xapp) = []" "nodes_new (e42r_nodes sr)"
    and "E42_SETUP_REQUEST_PENDING_EVENT \<in> pend_kinds xapp"
  shows "\<exists>x. e2ap_handle_e42_setup_response_xapp xapp sr = Inr x \<and> xa_ok x \<and> same_xapp xapp x \<and> xa_connected x \<and>
     xa_id x = e42r_xapp_id sr \<and> set (reg_nodes (xa_e2_nodes x)) = set (e42r_nodes sr) \<and>
     pend_kinds x = pend_kinds xapp - {E42_SETUP_REQUEST_PENDING_EVENT} \<and> xa_act_proc x = xa_act_proc xapp \<and>
     xa_sent x = xa_sent xapp \<and> xa_msg_disp x = xa_msg_disp xapp \<and> xa_db x = xa_db xapp"
proof -
  have "con_id ` set (reg_nodes (xa_e2_nodes xapp)) \<inter> con_id ` set (e42r_nodes sr) = {}"
    by (simp add: assms(3))
  then obtain r where r: "fold_res (\<lambda>n nodes. add_reg_e2_node nodes (con_id n) (con_ack_rf n) (con_cca n)) (e42r_nodes sr)
      (xa_e2_nodes xapp) = Inr r" "reg_ok r" "set (reg_nodes r) = set (e42r_nodes sr)"
    using add_nodes_ok [OF xa_okD(5) [OF assms(1)] assms(4)] assms(3) by auto
  obtain fd q where q: "(fd, q) \<in> pend_pairs xapp" "pex_ev q = E42_SETUP_REQUEST_PENDING_EVENT"
    using assms(5) by auto
  let ?x = "xapp\<lparr>xa_id := e42r_xapp_id sr, xa_e2_nodes := r\<rparr>"
  let ?ev = "\<lparr>pex_ev = E42_SETUP_REQUEST_PENDING_EVENT, pex_id = \<lparr>ric_req_id = 0, ric_inst_id = 0, ran_func_id = 0\<rparr>, pex_wait_ms = 0\<rparr>"
  have i: "io_ok ?x" "(fd, q) \<in> pend_pairs ?x" "pex_ev q = pex_ev ?ev"
    using xa_okD(1) [OF assms(1)] q by simp_all
  obtain p where p: "rm_pending_event_xapp ?x ?ev = Inr (?x\<lparr>xa_io := removeAll fd (xa_io ?x), xa_pending := p\<rparr>)"
    "bm_pairs p = pend_pairs ?x - {(fd, q)}" "io_ok (?x\<lparr>xa_io := removeAll fd (xa_io ?x), xa_pending := p\<rparr>)"
    "pex_ev ?ev \<notin> (\<lambda>e. pex_ev (snd e)) ` bm_pairs p"
    using rm_pending_ok [OF i] by (elim exE conjE)
  let ?y = "?x\<lparr>xa_io := removeAll fd (xa_io ?x), xa_pending := p, xa_connected := True\<rparr>"
  have "e2ap_handle_e42_setup_response_xapp xapp sr = Inr ?y"
    using assms(2) r(1) p(1) by (simp add: e2ap_handle_e42_setup_response_xapp_def Let_def)
  moreover have "xa_ok ?y"
    using p(3) r(2) assms(1) unfolding xa_ok_def io_ok_def by simp
  moreover have "pend_kinds ?y = pend_kinds xapp - {E42_SETUP_REQUEST_PENDING_EVENT}"
    using image_diff_one [OF q(1), of "\<lambda>e. pex_ev (snd e)"] p(2,4) q(2) by simp
  ultimately show ?thesis
    using r(3) by (intro exI [of _ ?y]) (simp add: same_xapp_def)
qed

section \<open>Indications\<close>

abbreviation disp_room :: "nat \<Rightarrow> msg_dispatcher_xapp_t \<Rightarrow> bool" where
  "disp_room n d \<equiv> ring_room n (tsnq_r (disp_q d))"

lemma send_msg_ok:
  assumes "disp_ok d" "disp_room (Suc n) d"
  shows "\<exists>d'. send_msg_dispatcher d m = Inr d' \<and> disp_ok d' \<and> disp_room n d' \<and> disp_queued d' = disp_queued d @ [m] \<and>
     disp_called d' = disp_called d"
proof -
  obtain q where "push_tsnq (disp_q d) m sizeof_msg_dispatch = Inr q" "tsnq_inv sizeof_msg_dispatch q" "ring_room n (tsnq_r q)"
    "ring_contents (tsnq_r q) = disp_queued d @ [m]"
    using tsnq_push_law [OF assms(1) [unfolded disp_ok_def] assms(2), of m] by (elim exE conjE)
  then show ?thesis
    by (simp add: send_msg_dispatcher_def disp_ok_def)
qed

text \<open>What an indication is decoded to, and that the xApp handles its kind.\<close>

definition decoded :: "sm_ric_t \<Rightarrow> ric_indication_t \<Rightarrow> sm_ag_if_rd_ind_t" where
  "decoded sm ind = on_indication sm \<lparr>sid_ind_hdr = ind_hdr ind, sid_ind_msg = ind_msg ind,
     sid_call_process_id = ind_call_process_id ind\<rparr>"

definition ind_ready :: "'h e42_xapp_t \<Rightarrow> ric_indication_t \<Rightarrow> sm_ric_t \<Rightarrow> bool" where
  "ind_ready xapp ind sm \<longleftrightarrow>
     (ran_func_id (ind_ric_id ind), sm) \<in> rb_set (xa_plugin_ric xapp) \<and> ind_call_process_id ind \<noteq> Some [] \<and>
     known_stats (rd_type (decoded sm ind)) \<and> 0 < unat (ric_req_id (ind_ric_id ind)) \<and>
     unat (ric_req_id (ind_ric_id ind)) < 2 ^ 16 \<and> db_room 1 (xa_db xapp) \<and> disp_room 1 (xa_msg_disp xapp)"

text \<open>The entries that an indication adds to the two queues.\<close>

definition stored :: "act_proc_val_t option \<Rightarrow> sm_ag_if_rd_ind_t \<Rightarrow> e2_node_ag_if_t list" where
  "stored p rd = (case p of None \<Rightarrow> [] | Some v \<Rightarrow> [\<lparr>dn_id = apv_e2_node v, dn_rd = Rd_Ind rd\<rparr>])"

definition dispatched :: "act_proc_val_t option \<Rightarrow> sm_ag_if_rd_ind_t \<Rightarrow> msg_dispatch_t list" where
  "dispatched p rd = (case p of None \<Rightarrow> [] | Some v \<Rightarrow> [\<lparr>md_sm_cb = apv_sm_cb v, md_rd = Rd_Ind rd\<rparr>])"

lemma indication_xapp_ok:
  assumes "xa_ok xapp" "ind_ready xapp ind sm"
  defines "p \<equiv> map_of (procs xapp) (unat (ric_req_id (ind_ric_id ind)))"
  shows "\<exists>act db d. let x = xapp\<lparr>xa_act_proc := act, xa_db := db, xa_msg_disp := d\<rparr>
     in e2ap_handle_indication_xapp xapp ind = Inr x \<and> xa_ok x \<and> act_entries act = procs xapp \<and> act_next act = next_id xapp \<and>
        db_queued db = db_queued (xa_db xapp) @ stored p (decoded sm ind) \<and>
        disp_queued d = disp_queued (xa_msg_disp xapp) @ dispatched p (decoded sm ind) \<and>
        disp_called d = disp_called (xa_msg_disp xapp) \<and> db_handler db = db_handler (xa_db xapp)"
proof -
  note ok = xa_okD [OF assms(1)]
  have i: "(ran_func_id (ind_ric_id ind), sm) \<in> rb_set (xa_plugin_ric xapp)" "known_stats (rd_type (decoded sm ind))"
    "0 < unat (ric_req_id (ind_ric_id ind))" "unat (ric_req_id (ind_ric_id ind)) < 2 ^ 16" "db_room (Suc 0) (xa_db xapp)"
    "disp_room (Suc 0) (xa_msg_disp xapp)" "ind_call_process_id ind \<noteq> Some []"
    using assms(2) by (simp_all add: ind_ready_def)
  have pay: "ind_sm_payload_xapp ind = Inr \<lparr>sid_ind_hdr = ind_hdr ind, sid_ind_msg = ind_msg ind,
      sid_call_process_id = ind_call_process_id ind\<rparr>"
    using i(7) by (cases "ind_call_process_id ind") (simp_all add: ind_sm_payload_xapp_def)
  obtain act where a: "find_act_proc (xa_act_proc xapp) (ucast (ric_req_id (ind_ric_id ind))) = Inr (act, p)" "act_inv act"
    "act_entries act = procs xapp" "act_next act = next_id xapp"
    using find_act_ok [OF ok(4) i(3,4)] unfolding p_def by (elim exE conjE)
  note run = e2ap_handle_indication_xapp_def lookup_sm_ok [OF ok(3) i(1)] pay Let_def a(1)
  show ?thesis
  proof (cases p)
    case None
    then have "e2ap_handle_indication_xapp xapp ind = Inr (xapp\<lparr>xa_act_proc := act\<rparr>)"
      using i(2) by (simp add: run decoded_def)
    then show ?thesis
      using None a(2-4) assms(1)
      by (intro exI [of _ act] exI [of _ "xa_db xapp"] exI [of _ "xa_msg_disp xapp"])
        (simp add: stored_def dispatched_def Let_def xa_ok_def)
  next
    case (Some v)
    obtain db where db: "write_db_xapp (xa_db xapp) (apv_e2_node v) (Rd_Ind (decoded sm ind)) = Inr db" "db_ok db"
      "db_queued db = db_queued (xa_db xapp) @ [\<lparr>dn_id = apv_e2_node v, dn_rd = Rd_Ind (decoded sm ind)\<rparr>]"
      "db_handler db = db_handler (xa_db xapp)"
      using write_db_ok [OF ok(6) i(5), of "apv_e2_node v" "decoded sm ind"] by (elim exE conjE)
    obtain d where d: "send_msg_dispatcher (xa_msg_disp xapp) \<lparr>md_sm_cb = apv_sm_cb v, md_rd = Rd_Ind (decoded sm ind)\<rparr> = Inr d"
      "disp_ok d" "disp_queued d = disp_queued (xa_msg_disp xapp) @ [\<lparr>md_sm_cb = apv_sm_cb v, md_rd = Rd_Ind (decoded sm ind)\<rparr>]"
      "disp_called d = disp_called (xa_msg_disp xapp)"
      using send_msg_ok [OF ok(7) i(6), of "\<lparr>md_sm_cb = apv_sm_cb v, md_rd = Rd_Ind (decoded sm ind)\<rparr>"] by (elim exE conjE)
    have "e2ap_handle_indication_xapp xapp ind = Inr (xapp\<lparr>xa_act_proc := act, xa_db := db, xa_msg_disp := d\<rparr>)"
      using Some i(2) db(1) d(1) by (simp add: run decoded_def)
    then show ?thesis
      using Some a(2-4) db(2-4) d(2-4) assms(1)
      by (intro exI [of _ act] exI [of _ db] exI [of _ d]) (simp add: stored_def dispatched_def Let_def xa_ok_def)
  qed
qed

section \<open>The end of a wait\<close>

fun wait_kind :: "ui_wait \<Rightarrow> pending_event_t" where
  "wait_kind (Wait_Report rid) = E42_RIC_SUBSCRIPTION_REQUEST_PENDING_EVENT"
| "wait_kind (Wait_Rm_Report rid) = E42_RIC_SUBSCRIPTION_DELETE_REQUEST_PENDING_EVENT"
| "wait_kind (Wait_Control rid) = E42_RIC_CONTROL_REQUEST_PENDING_EVENT"

fun wait_id :: "ui_wait \<Rightarrow> nat" where
  "wait_id (Wait_Report rid) = unat rid"
| "wait_id (Wait_Rm_Report rid) = unat rid"
| "wait_id (Wait_Control rid) = unat rid"

text \<open>The procedures that are left when the caller returns: a subscription stays, the others end.\<close>

fun left_procs :: "ui_wait \<Rightarrow> (nat \<times> act_proc_val_t) list \<Rightarrow> (nat \<times> act_proc_val_t) list" where
  "left_procs (Wait_Report rid) ps = ps"
| "left_procs w ps = filter (\<lambda>e. fst e \<noteq> wait_id w) ps"

lemma rm_act_ok:
  assumes "xa_ok xapp" "k \<in> fst ` set (procs xapp)"
  shows "\<exists>act. rm_act_proc (xa_act_proc xapp) (of_nat k) = Inr act \<and> act_inv act \<and>
     act_entries act = filter (\<lambda>e. fst e \<noteq> k) (procs xapp) \<and> act_next act = next_id xapp"
  using rm_val_ok [OF xa_okD(4) [OF assms(1)] assms(2)] unfolding rm_val_def .

lemma after_wait_ok:
  assumes "xa_ok xapp" "wait_id w \<in> fst ` set (procs xapp)"
  shows "\<exists>act ans. after_wait xapp w = Inr (xapp\<lparr>xa_act_proc := act\<rparr>, ans) \<and> xa_ok (xapp\<lparr>xa_act_proc := act\<rparr>) \<and>
     act_entries act = left_procs w (procs xapp) \<and> act_next act = next_id xapp \<and> san_success ans"
proof (cases w)
  case (Wait_Report rid)
  then show ?thesis
    using assms(1) by (intro exI [of _ "xa_act_proc xapp"]) simp
next
  case (Wait_Rm_Report rid)
  obtain act where "rm_act_proc (xa_act_proc xapp) (of_nat (unat rid)) = Inr act" "act_inv act"
    "act_entries act = filter (\<lambda>e. fst e \<noteq> unat rid) (procs xapp)" "act_next act = next_id xapp"
    using rm_act_ok [OF assms(1), of "unat rid"] assms(2) Wait_Rm_Report by auto
  then show ?thesis
    using Wait_Rm_Report assms(1) by (intro exI [of _ act]) (simp add: xa_ok_def)
next
  case (Wait_Control rid)
  obtain act where "rm_act_proc (xa_act_proc xapp) (of_nat (unat rid)) = Inr act" "act_inv act"
    "act_entries act = filter (\<lambda>e. fst e \<noteq> unat rid) (procs xapp)" "act_next act = next_id xapp"
    using rm_act_ok [OF assms(1), of "unat rid"] assms(2) Wait_Control by auto
  then show ?thesis
    using Wait_Control assms(1) by (intro exI [of _ act]) (simp add: xa_ok_def)
qed

section \<open>The interface\<close>

lemma free_reg_ok:
  assumes "tree_ok t"
  shows "assoc_rb_tree_free t = Inr ()"
proof -
  have "free_e2_nodes k v = Inr ()" if "(k, v) \<in> rb_set t" for k v
    using assms that free_entry_ok [of v k] by (auto simp: tree_ok_def)
  then show ?thesis
    using depth_first_free_ok [of "rb_root t" free_e2_nodes] assms by (simp add: assoc_rb_tree_free_def tree_ok_def)
qed

lemma valid_node_ok:
  assumes "reg_ok r" "nid \<in> con_id ` set (reg_nodes r)" "plain_node nid"
  shows "valid_global_e2_node_xapp nid r = Inr True"
proof -
  obtain t where t: "cp_reg_e2_node r = Inr t" "tree_ok t" "map node_entry (rb_entries t) = reg_nodes r"
    using cp_reg_e2_node_ok [OF assms(1)] by (elim exE conjE)
  have "con_id ` set (reg_nodes r) = fst ` rb_set t"
    unfolding t(3) [symmetric] by (force simp: node_entry_def)
  then obtain v where v: "(nid, v) \<in> rb_set t"
    using assms(2) by auto
  have val: "valid_node_id k" if "(k, u) \<in> rb_set t" for k u
    using t(2) that unfolding tree_ok_def rb_inv_def by auto
  have "lookup_if t (eq_global_e2_node_id nid) = Inr (Some v)"
  proof (rule lookup_if_Some [where q = "\<lambda>k. nid = k"])
    show "\<forall>e \<in> rb_set t. eq_global_e2_node_id nid (fst e) = Inr (nid = fst e)"
      using eq_global_e2_node_id_valid [OF val [OF v]] val assms(3) by (auto simp: plain_node_def)
    show "v' = v" if "(k', v') \<in> rb_set t" "nid = k'" for k' v'
      using rb_uniq_inj [of node_rank t "(nid, v)" "(k', v')"] t(2) v that by (simp add: tree_ok_def)
  qed (use v in simp_all)
  then show ?thesis
    using t(1) free_reg_ok [OF t(2)] by (simp add: valid_global_e2_node_xapp_def)
qed

section \<open>The transition system\<close>

datatype x_input =
    X_Round int e2ap_msg_t int
  | X_Report global_e2_node_id_t u32 byte_array_t "nat option" int
  | X_Rm_Report int int
  | X_Control global_e2_node_id_t u32 byte_array_t int
  | X_Wait_Ends

type_synonym 'h x_state = "'h e42_xapp_t \<times> ui_wait option"

fun x_exec :: "x_input \<Rightarrow> 'h x_state \<Rightarrow> 'h x_state res" where
  "x_exec (X_Round fd msg tfd) (x, ui) = bnd (e2_event_loop_xapp x fd msg tfd) (\<lambda>x. Inr (x, ui))"
| "x_exec (X_Report nid rf data cb tfd) (x, ui) =
     bnd (report_sm_xapp_api x nid rf data cb tfd) (\<lambda>(x, w). Inr (x, Some w))"
| "x_exec (X_Rm_Report handle tfd) (x, ui) =
     bnd (rm_report_sm_xapp_api x handle tfd) (\<lambda>(x, w). Inr (x, Some w))"
| "x_exec (X_Control nid rf ctrl tfd) (x, ui) =
     bnd (control_sm_xapp_api x nid rf ctrl tfd) (\<lambda>(x, w). Inr (x, Some w))"
| "x_exec X_Wait_Ends (x, ui) =
     (case ui of
        None \<Rightarrow> Inr (x, ui)
      | Some w \<Rightarrow> bnd (after_wait x w) (\<lambda>(x, ans). Inr (x, None)))"

text \<open>The messages that an xApp may get: the answer that its caller waits for, and indications.\<close>

fun ric_msg_expected :: "'h x_state \<Rightarrow> e2ap_msg_t \<Rightarrow> bool" where
  "ric_msg_expected (x, ui) (E42_Stp_Resp r) = (xa_connected x \<or> nodes_new (e42r_nodes r))"
| "ric_msg_expected (x, ui) (Ric_Sub_Resp r) =
     (ui = Some (Wait_Report (ric_req_id (sresp_ric_id r))) \<and> E42_RIC_SUBSCRIPTION_REQUEST_PENDING_EVENT \<in> pend_kinds x)"
| "ric_msg_expected (x, ui) (Ric_Sub_Del_Resp r) =
     ((\<exists>rid. ui = Some (Wait_Rm_Report rid) \<and> unat rid = unat (ric_req_id (sdresp_ric_id r))) \<and>
      E42_RIC_SUBSCRIPTION_DELETE_REQUEST_PENDING_EVENT \<in> pend_kinds x)"
| "ric_msg_expected (x, ui) (Ric_Ctrl_Ack r) =
     (ui = Some (Wait_Control (ric_req_id (ack_ric_id r))) \<and> E42_RIC_CONTROL_REQUEST_PENDING_EVENT \<in> pend_kinds x)"
| "ric_msg_expected (x, ui) (Ric_Ind r) = (\<exists>sm. ind_ready x r sm)"
| "ric_msg_expected _ _ = False"

fun x_expected :: "'h x_state \<Rightarrow> x_input \<Rightarrow> bool" where
  "x_expected (x, ui) (X_Round fd msg tfd) =
     (fd = - 1 \<or> fd \<in> fst ` pend_pairs x \<or> (fd = xa_fd x \<and> ric_msg_expected (x, ui) msg))"
| "x_expected (x, ui) (X_Report nid rf data cb tfd) =
     (ui = None \<and> xa_connected x \<and> nid \<in> con_id ` set (reg_nodes (xa_e2_nodes x)) \<and> plain_node nid \<and>
      rf \<in> {2, 3, 142, 143, 144, 145, 146, 148} \<and> (\<exists>sm. sub_ready x (ucast rf) data sm) \<and>
      next_id x < 2 ^ 16 \<and> free_timer x tfd)"
| "x_expected (x, ui) (X_Rm_Report handle tfd) =
     (ui = None \<and> xa_connected x \<and> handle \<in> int ` fst ` set (procs x) \<and> free_timer x tfd)"
| "x_expected (x, ui) (X_Control nid rf ctrl tfd) =
     (ui = None \<and> xa_connected x \<and> rf \<in> {3, 142, 145, 146} \<and> (\<exists>sm. ctrl_ready x (ucast rf) ctrl sm) \<and>
      next_id x < 2 ^ 16 \<and> free_timer x tfd)"
| "x_expected (x, ui) X_Wait_Ends = (\<exists>w. ui = Some w \<and> wait_kind w \<notin> pend_kinds x)"

text \<open>The states that an xApp reaches from its start.\<close>

inductive x_reach :: "'h x_state \<Rightarrow> bool" where
  Start: "init_e42_xapp exec opened addr fd plugin_ag plugin_ric dir db_name default_dir now = Inr x \<Longrightarrow>
     0 < fd \<Longrightarrow> sms_ok plugin_ag \<Longrightarrow> sm_ds_ok plugin_ric \<Longrightarrow> rb_size plugin_ag = rb_size plugin_ric \<Longrightarrow>
     free_timer x tfd \<Longrightarrow> start_e42_xapp x tfd = Inr x' \<Longrightarrow> x_reach (x', None)"
| Step: "x_reach s \<Longrightarrow> x_expected s inp \<Longrightarrow> x_exec inp s = Inr s' \<Longrightarrow> x_reach s'"

inductive_cases x_reachE: "x_reach s"

definition x_inv :: "'h x_state \<Rightarrow> bool" where
  "x_inv s \<longleftrightarrow> (case s of (x, ui) \<Rightarrow>
     xa_ok x \<and> (xa_connected x \<longleftrightarrow> E42_SETUP_REQUEST_PENDING_EVENT \<notin> pend_kinds x) \<and>
     (\<not> xa_connected x \<longrightarrow> reg_nodes (xa_e2_nodes x) = [] \<and> ui = None) \<and>
     pend_kinds x \<subseteq> insert E42_SETUP_REQUEST_PENDING_EVENT (wait_kind ` set_option ui) \<and>
     (\<forall>w \<in> set_option ui. wait_id w \<in> fst ` set (procs x)))"

lemma x_inv_waits:
  assumes "x_inv (x, Some w)"
  shows "xa_connected x" "E42_SETUP_REQUEST_PENDING_EVENT \<notin> pend_kinds x" "wait_id w \<in> fst ` set (procs x)"
proof -
  show c: "xa_connected x"
    by (rule ccontr) (use assms in \<open>simp add: x_inv_def\<close>)
  show "E42_SETUP_REQUEST_PENDING_EVENT \<notin> pend_kinds x" "wait_id w \<in> fst ` set (procs x)"
    using assms c by (simp_all add: x_inv_def)
qed

section \<open>The start\<close>

lemma init_db_ok:
  assumes "init_db_xapp exec opened = Inr db" "n < 2 ^ 31"
  shows "db_ok db" "db_queued db = []" "db_room n db"
proof -
  obtain q :: "e2_node_ag_if_t tsnq_t" where q: "init_tsnq sizeof_e2_node_ag_if = Inr q" "tsnq_inv sizeof_e2_node_ag_if q"
    "ring_contents (tsnq_r q) = []" "ring_room n (tsnq_r q)"
    using init_tsnq_ok [OF _ assms(2), of sizeof_e2_node_ag_if] by (auto simp: sizeof_e2_node_ag_if_def)
  then show "db_ok db" "db_queued db = []" "db_room n db"
    using assms(1) by (auto simp: init_db_xapp_def bnd_eq_Inr db_ok_def init_db_static_def)
qed

lemma init_disp_ok:
  assumes "init_msg_dispatcher = Inr d" "n < 2 ^ 31"
  shows "disp_ok d" "disp_queued d = []" "disp_room n d" "disp_called d = []"
proof -
  obtain q :: "msg_dispatch_t tsnq_t" where q: "init_tsnq sizeof_msg_dispatch = Inr q" "tsnq_inv sizeof_msg_dispatch q"
    "ring_contents (tsnq_r q) = []" "ring_room n (tsnq_r q)"
    using init_tsnq_ok [OF _ assms(2), of sizeof_msg_dispatch] by (auto simp: sizeof_msg_dispatch_def)
  then show "disp_ok d" "disp_queued d = []" "disp_room n d" "disp_called d = []"
    using assms(1) by (auto simp: init_msg_dispatcher_def disp_ok_def)
qed

lemma init_xapp_ok:
  assumes "init_e42_xapp exec opened addr fd plugin_ag plugin_ric dir db_name default_dir now = Inr x"
    and "0 < fd" "sms_ok plugin_ag" "sm_ds_ok plugin_ric" "rb_size plugin_ag = rb_size plugin_ric"
  shows "xa_ok x \<and> pend_pairs x = {} \<and> \<not> xa_connected x \<and> reg_nodes (xa_e2_nodes x) = [] \<and> xa_sent x = [] \<and> xa_fd x = fd \<and>
     xa_io x = [fd] \<and> xa_plugin_ag x = plugin_ag \<and> xa_plugin_ric x = plugin_ric \<and> xa_act_proc x = init_act_proc \<and>
     db_queued (xa_db x) = [] \<and> disp_queued (xa_msg_disp x) = [] \<and> disp_called (xa_msg_disp x) = [] \<and>
     db_room 1 (xa_db x) \<and> disp_room 1 (xa_msg_disp x)"
proof -
  obtain m where m: "init_pending_events_xapp = Inr m" "pend_table m" "bm_pairs m = {}"
    using init_pend_table by (elim exE conjE)
  obtain r where r: "init_reg_e2_node = Inr r" "reg_ok r" "reg_nodes r = []"
    using init_reg_e2_node_ok by (elim exE conjE)
  obtain d db where d: "init_msg_dispatcher = Inr d"
      "init_db_xapp exec (opened (take 254 (db_file_name dir db_name default_dir now))) = Inr db"
    and x: "x = \<lparr>xa_fd = fd, xa_io = [fd], xa_plugin_ag = plugin_ag, xa_plugin_ric = plugin_ric, xa_e2_nodes = r,
          xa_id = 0, xa_sync = init_sync_ui, xa_act_proc = init_act_proc, xa_pending = m,
          xa_msg_disp = d, xa_db = db, xa_connected = False, xa_retry_count = 0, xa_sent = [], xa_consumed = []\<rparr>"
    using assms(1,2) unfolding init_e42_xapp_def m(1) r(1) add_fd_asio_xapp_def
    by (auto simp: bnd_eq_Inr chk_eq_Inr Let_def)
  have lim: "(1 :: nat) < 2 ^ 31"
    by simp
  show ?thesis
    using assms(2-5) m(2,3) r(2,3) init_disp_ok [OF d(1) lim] init_db_ok [OF d(2) lim] init_act_inv(1)
    unfolding x xa_ok_def io_ok_def by simp
qed

text \<open>The functions of the service models, as they are announced to the RIC.\<close>

abbreviation rf_list :: "'h e42_xapp_t \<Rightarrow> ran_function_t list" where
  "rf_list x \<equiv> map (\<lambda>e. rf_of (snd e)) (rb_entries (xa_plugin_ag x))"

lemma start_xapp_ok:
  assumes "xa_ok x" "E42_SETUP_REQUEST_PENDING_EVENT \<notin> pend_kinds x" "free_timer x tfd"
  shows "\<exists>p. let x' = x\<lparr>xa_sent := xa_sent x @ [E42_Stp_Req \<lparr>e42_ran_func_item = rf_list x\<rparr>], xa_io := tfd # xa_io x,
       xa_pending := p\<rparr>
     in start_e42_xapp x tfd = Inr x' \<and> xa_ok x' \<and>
        pend_kinds x' = insert E42_SETUP_REQUEST_PENDING_EVENT (pend_kinds x) \<and> fst ` bm_pairs p = insert tfd (fst ` pend_pairs x)"
proof -
  let ?x = "x\<lparr>xa_sent := xa_sent x @ [E42_Stp_Req \<lparr>e42_ran_func_item = rf_list x\<rparr>]\<rparr>"
  let ?ev = "\<lparr>pex_ev = E42_SETUP_REQUEST_PENDING_EVENT, pex_id = \<lparr>ric_req_id = 0, ric_inst_id = 0, ran_func_id = 0\<rparr>, pex_wait_ms = 1000\<rparr>"
  have i: "io_ok ?x" "0 < tfd" "tfd \<notin> set (xa_io ?x)" "pex_ev ?ev \<notin> pend_kinds ?x" "0 < pex_wait_ms ?ev"
    using xa_okD(1) [OF assms(1)] assms(2,3) by (simp_all add: free_timer_def)
  obtain p where p: "add_pending_event_xapp ?x ?ev tfd = Inr (?x\<lparr>xa_io := tfd # xa_io ?x, xa_pending := p\<rparr>)"
    "bm_pairs p = insert (tfd, ?ev) (pend_pairs ?x)" "io_ok (?x\<lparr>xa_io := tfd # xa_io ?x, xa_pending := p\<rparr>)"
    using add_pending_ok [OF i] by (elim exE conjE)
  have "rb_entries (xa_plugin_ag x) \<noteq> []"
    using xa_okD(2) [OF assms(1)] by (simp add: sms_ok_def)
  then have "start_e42_xapp x tfd = Inr (?x\<lparr>xa_io := tfd # xa_io ?x, xa_pending := p\<rparr>)"
    using p(1) e42_setup_request_ok [OF assms(1)]
    by (simp add: start_e42_xapp_def e2ap_handle_e42_setup_request_xapp_def e2ap_send_bytes_xapp_def Let_def)
  moreover have "xa_ok (?x\<lparr>xa_io := tfd # xa_io ?x, xa_pending := p\<rparr>)"
    using p(3) assms(1) unfolding xa_ok_def by simp
  ultimately show ?thesis
    using p(2) by (intro exI [of _ p]) (simp add: Let_def)
qed

lemma start_inv:
  assumes "init_e42_xapp exec opened addr fd plugin_ag plugin_ric dir db_name default_dir now = Inr x"
    and "0 < fd" "sms_ok plugin_ag" "sm_ds_ok plugin_ric" "rb_size plugin_ag = rb_size plugin_ric"
    and "free_timer x tfd" "start_e42_xapp x tfd = Inr x'"
  shows "x_inv (x', None)"
proof -
  note i = init_xapp_ok [OF assms(1-5)]
  have "xa_ok x" "E42_SETUP_REQUEST_PENDING_EVENT \<notin> pend_kinds x"
    using i by simp_all
  from start_xapp_ok [OF this assms(6)] obtain p where "x' = x\<lparr>xa_sent := xa_sent x @ [E42_Stp_Req \<lparr>e42_ran_func_item = rf_list x\<rparr>],
      xa_io := tfd # xa_io x, xa_pending := p\<rparr>" "xa_ok x'" "pend_kinds x' = insert E42_SETUP_REQUEST_PENDING_EVENT (pend_kinds x)"
    using assms(7) by (auto simp: Let_def)
  then show ?thesis
    using i by (simp add: x_inv_def)
qed

section \<open>Rounds and calls keep the invariant\<close>

lemma wait_kind_simps [simp]: "wait_kind w \<noteq> E42_SETUP_REQUEST_PENDING_EVENT"
  by (cases w) simp_all

text \<open>A caller that has got its answer.\<close>

lemma answer_inv:
  assumes "x_inv (x, Some w)" "wait_kind w \<in> pend_kinds x" "unat rid = wait_id w"
  shows "\<exists>x'. stop_and_signal x (wait_kind w) rid = Inr x' \<and> x_inv (x', Some w)"
proof -
  have i: "xa_ok x" "unat rid \<in> fst ` set (procs x)" "xa_connected x \<longleftrightarrow> E42_SETUP_REQUEST_PENDING_EVENT \<notin> pend_kinds x"
    "xa_connected x" "pend_kinds x \<subseteq> {E42_SETUP_REQUEST_PENDING_EVENT, wait_kind w}"
    using assms(1,3) by (auto simp: x_inv_def)
  obtain x' where x': "stop_and_signal x (wait_kind w) rid = Inr x'" "xa_ok x'" "pend_kinds x' = pend_kinds x - {wait_kind w}"
    "act_entries (xa_act_proc x') = procs x" "xa_connected x' = xa_connected x" "xa_e2_nodes x' = xa_e2_nodes x"
    using pending_answer_ok [OF i(1,2) assms(2)] by (elim exE conjE)
  have "x_inv (x', Some w)"
    unfolding x_inv_def prod.case x'(3-6) using x'(2) i assms(3) by auto
  then show ?thesis
    using x'(1) by (intro exI conjI)
qed

lemma msg_inv:
  assumes "x_inv (x, ui)" "ric_msg_expected (x, ui) msg"
  shows "\<exists>x'. e2ap_msg_handle_xapp x msg tfd = Inr x' \<and> x_inv (x', ui)"
proof (cases msg)
  case (Ric_Sub_Resp r)
  then have "ui = Some (Wait_Report (ric_req_id (sresp_ric_id r)))" "wait_kind (Wait_Report (ric_req_id (sresp_ric_id r))) \<in> pend_kinds x"
    using assms(2) by simp_all
  with assms(1) answer_inv [OF _ this(2), of "ric_req_id (sresp_ric_id r)"] show ?thesis
    by (simp add: Ric_Sub_Resp e2ap_msg_handle_xapp_def check_valid_msg_type_xapp_def e2ap_handle_subscription_response_xapp_def)
next
  case (Ric_Sub_Del_Resp r)
  then obtain rid where "ui = Some (Wait_Rm_Report rid)" "unat (ric_req_id (sdresp_ric_id r)) = wait_id (Wait_Rm_Report rid)"
    "wait_kind (Wait_Rm_Report rid) \<in> pend_kinds x"
    using assms(2) by auto
  with assms(1) answer_inv [OF _ this(3,2)] show ?thesis
    by (simp add: Ric_Sub_Del_Resp e2ap_msg_handle_xapp_def check_valid_msg_type_xapp_def e2ap_handle_subscription_delete_response_xapp_def)
next
  case (Ric_Ctrl_Ack r)
  then have "ui = Some (Wait_Control (ric_req_id (ack_ric_id r)))" "wait_kind (Wait_Control (ric_req_id (ack_ric_id r))) \<in> pend_kinds x"
    using assms(2) by simp_all
  with assms(1) answer_inv [OF _ this(2), of "ric_req_id (ack_ric_id r)"] show ?thesis
    by (simp add: Ric_Ctrl_Ack e2ap_msg_handle_xapp_def check_valid_msg_type_xapp_def e2ap_handle_control_ack_xapp_def)
next
  case (Ric_Ind r)
  then obtain sm where sm: "ind_ready x r sm"
    using assms(2) by auto
  have ok: "xa_ok x"
    using assms(1) by (simp add: x_inv_def)
  from indication_xapp_ok [OF ok sm] obtain act db d where
    "e2ap_handle_indication_xapp x r = Inr (x\<lparr>xa_act_proc := act, xa_db := db, xa_msg_disp := d\<rparr>)"
    "xa_ok (x\<lparr>xa_act_proc := act, xa_db := db, xa_msg_disp := d\<rparr>)" "act_entries act = procs x"
    unfolding Let_def by (elim exE conjE)
  then show ?thesis
    using assms(1) by (simp add: Ric_Ind e2ap_msg_handle_xapp_def check_valid_msg_type_xapp_def x_inv_def)
next
  case (E42_Stp_Resp r)
  show ?thesis
  proof (cases "xa_connected x")
    case True
    then show ?thesis
      using assms(1) by (simp add: E42_Stp_Resp e2ap_msg_handle_xapp_def check_valid_msg_type_xapp_def e2ap_handle_e42_setup_response_xapp_def)
  next
    case False
    have i: "xa_ok x" "reg_nodes (xa_e2_nodes x) = []" "nodes_new (e42r_nodes r)" "E42_SETUP_REQUEST_PENDING_EVENT \<in> pend_kinds x"
      "ui = None" "pend_kinds x \<subseteq> {E42_SETUP_REQUEST_PENDING_EVENT}"
      using assms False by (auto simp: x_inv_def E42_Stp_Resp)
    obtain x' where x': "e2ap_handle_e42_setup_response_xapp x r = Inr x'" "xa_ok x'" "xa_connected x'"
      "pend_kinds x' = pend_kinds x - {E42_SETUP_REQUEST_PENDING_EVENT}"
      using setup_response_xapp_ok [OF i(1) False i(2-4)] by (elim exE conjE)
    have "x_inv (x', ui)"
      unfolding x_inv_def prod.case x'(4) using x'(2,3) i(5,6) by auto
    then show ?thesis
      using x'(1) by (simp add: E42_Stp_Resp e2ap_msg_handle_xapp_def check_valid_msg_type_xapp_def)
  qed
qed (use assms(2) in simp_all)

text \<open>
  An expired timer: the setup request is sent again for a subscription, three times in a row; the
  other timers are ignored.
\<close>

definition after_timeout :: "'h e42_xapp_t \<Rightarrow> int \<Rightarrow> pending_event_t \<Rightarrow> 'h e42_xapp_t" where
  "after_timeout x fd ev =
     (if ev \<noteq> E42_RIC_SUBSCRIPTION_REQUEST_PENDING_EVENT then x
      else if xa_retry_count x < 3
      then x\<lparr>xa_retry_count := xa_retry_count x + 1, xa_sent := xa_sent x @ [E42_Stp_Req \<lparr>e42_ran_func_item = rf_list x\<rparr>],
             xa_consumed := xa_consumed x @ [fd]\<rparr>
      else x\<lparr>xa_retry_count := 0\<rparr>)"

lemma xa_ok_frame [simp]:
  "xa_ok (x\<lparr>xa_retry_count := x1\<rparr>) = xa_ok x" "xa_ok (x\<lparr>xa_sent := x2\<rparr>) = xa_ok x"
  "xa_ok (x\<lparr>xa_consumed := x3\<rparr>) = xa_ok x" "xa_ok (x\<lparr>xa_sync := x4\<rparr>) = xa_ok x"
  by (simp_all add: xa_ok_def)

lemma timer_round:
  assumes "xa_ok x" "(fd, q) \<in> pend_pairs x"
  shows "e2_event_loop_xapp x fd msg tfd = Inr (after_timeout x fd (pex_ev q))"
proof -
  have fd: "0 < fd"
    using xa_okD(1) [OF assms(1)] assms(2) by (auto simp: io_ok_def)
  have "xa_ok (x\<lparr>xa_retry_count := xa_retry_count x + 1\<rparr>)"
    using assms(1) by simp
  from e42_setup_request_ok [OF this] show ?thesis
    using fd pend_event_xapp_ok [OF xa_okD(1) [OF assms(1)] assms(2)]
    by (simp add: e2_event_loop_xapp_def after_timeout_def max_retries_def consume_fd_xapp_def e2ap_send_bytes_xapp_def Let_def)
qed

lemma after_timeout_inv: "x_inv (x, ui) \<Longrightarrow> x_inv (after_timeout x fd ev, ui)"
  by (simp add: x_inv_def after_timeout_def)

lemma round_inv:
  assumes "x_inv (x, ui)" "x_expected (x, ui) (X_Round fd msg tfd)"
  shows "\<exists>x'. e2_event_loop_xapp x fd msg tfd = Inr x' \<and> x_inv (x', ui)"
proof -
  have ok: "xa_ok x"
    using assms(1) by (simp add: x_inv_def)
  have fd0: "0 < xa_fd x"
    using xa_okD(1) [OF ok] by (simp add: io_ok_def)
  consider "fd = - 1" | "fd \<in> fst ` pend_pairs x" | "fd = xa_fd x" "ric_msg_expected (x, ui) msg"
    using assms(2) by auto
  then show ?thesis
  proof cases
    case 1
    then show ?thesis
      using assms(1) by (simp add: e2_event_loop_xapp_def)
  next
    case 2
    then obtain q where "(fd, q) \<in> pend_pairs x"
      by auto
    from timer_round [OF ok this] after_timeout_inv [OF assms(1)] show ?thesis
      by simp
  next
    case 3
    then show ?thesis
      using msg_inv [OF assms(1), of msg tfd] fd0 by (simp add: e2_event_loop_xapp_def find_event_type_def net_pkt_def)
  qed
qed

lemma subset_insert_absent: "S \<subseteq> insert a T \<Longrightarrow> a \<notin> S \<Longrightarrow> S \<subseteq> T" for S :: "'a set"
  by blast

lemma idle_kinds:
  assumes "x_inv (x, None)" "xa_connected x"
  shows "pend_kinds x = {}"
proof -
  have "E42_SETUP_REQUEST_PENDING_EVENT \<notin> pend_kinds x" "pend_kinds x \<subseteq> {E42_SETUP_REQUEST_PENDING_EVENT}"
    using assms by (simp_all add: x_inv_def)
  then show ?thesis
    using subset_insert_absent [of "pend_kinds x" _ "{}"] by simp
qed

lemma call_inv:
  assumes "x_inv (x, None)" "xa_connected x" "xa_ok (x\<lparr>xa_act_proc := act, xa_io := io, xa_pending := p, xa_sent := snt\<rparr>)"
    and "wait_id w \<in> fst ` set (act_entries act)"
    and "bm_pairs p = insert (tfd, ev) (pend_pairs x)" "pex_ev ev = wait_kind w"
  shows "x_inv (x\<lparr>xa_act_proc := act, xa_io := io, xa_pending := p, xa_sent := snt\<rparr>, Some w)"
  using assms idle_kinds [OF assms(1,2)] wait_kind_simps [of w] by (simp add: x_inv_def del: wait_kind_simps)

lemma small_id: "n < 2 ^ 16 \<Longrightarrow> unat (of_nat n :: u32) = n" "n < 2 ^ 16 \<Longrightarrow> unat (of_nat n :: u16) = n"
  by (simp_all add: unat_of_nat take_bit_nat_eq_self)

lemma report_inv:
  assumes "x_inv (x, ui)" "x_expected (x, ui) (X_Report nid rf data cb tfd)"
  shows "\<exists>x' w. report_sm_xapp_api x nid rf data cb tfd = Inr (x', w) \<and> x_inv (x', Some w)"
proof -
  have e: "ui = None" "xa_connected x" "nid \<in> con_id ` set (reg_nodes (xa_e2_nodes x))" "plain_node nid"
    "rf \<in> {2, 3, 142, 143, 144, 145, 146, 148}" "next_id x < 2 ^ 16" "free_timer x tfd" "\<exists>sm. sub_ready x (ucast rf) data sm"
    using assms(2) by simp_all
  have i: "x_inv (x, None)" "xa_ok x"
    using assms(1) e(1) by (simp_all add: x_inv_def)
  obtain sm where sm: "sub_ready x (ucast rf) data sm"
    using e(8) by (elim exE)
  have k: "E42_RIC_SUBSCRIPTION_REQUEST_PENDING_EVENT \<notin> pend_kinds x"
    by (simp add: idle_kinds [OF i(1) e(2)])
  let ?n = "next_id x" and ?w = "Wait_Report (of_nat (next_id x))"
  from report_ok [OF i(2) e(6) sm k e(7), of nid cb, unfolded Let_def] obtain act p snt where
    r: "report_sm_sync_xapp x nid (ucast rf) data cb tfd =
        Inr (x\<lparr>xa_act_proc := act, xa_io := tfd # xa_io x, xa_pending := p, xa_sent := snt\<rparr>, ?w)"
      "xa_ok (x\<lparr>xa_act_proc := act, xa_io := tfd # xa_io x, xa_pending := p, xa_sent := snt\<rparr>)"
      "act_entries act = procs x @ [(?n, proc_val RIC_SUBSCRIPTION_PROCEDURE_ACTIVE ?n (ucast rf) nid cb)]"
      "bm_pairs p = insert (tfd, \<lparr>pex_ev = E42_RIC_SUBSCRIPTION_REQUEST_PENDING_EVENT, pex_id = gen_id ?n (ucast rf),
         pex_wait_ms = 5000\<rparr>) (pend_pairs x)"
    by (elim exE conjE)
  have "x_inv (x\<lparr>xa_act_proc := act, xa_io := tfd # xa_io x, xa_pending := p, xa_sent := snt\<rparr>, Some ?w)"
    by (rule call_inv [OF i(1) e(2) r(2) _ r(4)]) (simp_all add: r(3) small_id(1) [OF e(6)])
  moreover have "valid_sm_id rf = Inr True"
    using e(5) by (auto simp: valid_sm_id_def)
  ultimately show ?thesis
    using r(1) valid_node_ok [OF xa_okD(5) [OF i(2)] e(3,4)] by (simp add: report_sm_xapp_api_def)
qed

lemma control_inv:
  assumes "x_inv (x, ui)" "x_expected (x, ui) (X_Control nid rf ctrl tfd)"
  shows "\<exists>x' w. control_sm_xapp_api x nid rf ctrl tfd = Inr (x', w) \<and> x_inv (x', Some w)"
proof -
  have e: "ui = None" "xa_connected x" "rf \<in> {3, 142, 145, 146}" "next_id x < 2 ^ 16" "free_timer x tfd"
    "\<exists>sm. ctrl_ready x (ucast rf) ctrl sm"
    using assms(2) by simp_all
  have i: "x_inv (x, None)" "xa_ok x"
    using assms(1) e(1) by (simp_all add: x_inv_def)
  obtain sm where sm: "ctrl_ready x (ucast rf) ctrl sm"
    using e(6) by (elim exE)
  have k: "E42_RIC_CONTROL_REQUEST_PENDING_EVENT \<notin> pend_kinds x"
    by (simp add: idle_kinds [OF i(1) e(2)])
  let ?n = "next_id x" and ?w = "Wait_Control (of_nat (next_id x))"
  from control_ok [OF i(2) e(4) sm k e(5), of nid, unfolded Let_def] obtain act p snt where
    r: "control_sm_sync_xapp x nid (ucast rf) ctrl tfd =
        Inr (x\<lparr>xa_act_proc := act, xa_io := tfd # xa_io x, xa_pending := p, xa_sent := snt\<rparr>, ?w)"
      "xa_ok (x\<lparr>xa_act_proc := act, xa_io := tfd # xa_io x, xa_pending := p, xa_sent := snt\<rparr>)"
      "act_entries act = procs x @ [(?n, proc_val RIC_CONTROL_PROCEDURE_ACTIVE ?n (ucast rf) nid None)]"
      "bm_pairs p = insert (tfd, \<lparr>pex_ev = E42_RIC_CONTROL_REQUEST_PENDING_EVENT, pex_id = gen_id ?n (ucast rf),
         pex_wait_ms = 10000\<rparr>) (pend_pairs x)"
    by (elim exE conjE)
  have "x_inv (x\<lparr>xa_act_proc := act, xa_io := tfd # xa_io x, xa_pending := p, xa_sent := snt\<rparr>, Some ?w)"
    by (rule call_inv [OF i(1) e(2) r(2) _ r(4)]) (simp_all add: r(3) small_id(1) [OF e(4)])
  then show ?thesis
    using r(1) e(3) by (auto simp: control_sm_xapp_api_def)
qed

lemma rm_report_inv:
  assumes "x_inv (x, ui)" "x_expected (x, ui) (X_Rm_Report handle tfd)"
  shows "\<exists>x' w. rm_report_sm_xapp_api x handle tfd = Inr (x', w) \<and> x_inv (x', Some w)"
proof -
  have e: "ui = None" "xa_connected x" "handle \<in> int ` fst ` set (procs x)" "free_timer x tfd"
    using assms(2) by simp_all
  have i: "x_inv (x, None)" "xa_ok x"
    using assms(1) e(1) by (simp_all add: x_inv_def)
  obtain k where k: "handle = int k" "k \<in> fst ` set (procs x)"
    using e(3) by (rule imageE)
  note a = active_id [OF xa_okD(4) [OF i(2)] k(2)]
  obtain v where v: "map_of (procs x) k = Some v"
    using a(3) by (elim exE)
  have n: "E42_RIC_SUBSCRIPTION_DELETE_REQUEST_PENDING_EVENT \<notin> pend_kinds x"
    by (simp add: idle_kinds [OF i(1) e(2)])
  let ?w = "Wait_Rm_Report (of_nat k)"
  from rm_report_ok [OF i(2) v k(1) n e(4), unfolded Let_def] obtain act p snt where
    r: "rm_report_sm_sync_xapp x handle tfd =
        Inr (x\<lparr>xa_act_proc := act, xa_io := tfd # xa_io x, xa_pending := p, xa_sent := snt\<rparr>, ?w)"
      "xa_ok (x\<lparr>xa_act_proc := act, xa_io := tfd # xa_io x, xa_pending := p, xa_sent := snt\<rparr>)"
      "act_entries act = procs x"
      "bm_pairs p = insert (tfd, \<lparr>pex_ev = E42_RIC_SUBSCRIPTION_DELETE_REQUEST_PENDING_EVENT, pex_id = apv_id v,
         pex_wait_ms = 10000\<rparr>) (pend_pairs x)"
    by (elim exE conjE)
  have "x_inv (x\<lparr>xa_act_proc := act, xa_io := tfd # xa_io x, xa_pending := p, xa_sent := snt\<rparr>, Some ?w)"
    by (rule call_inv [OF i(1) e(2) r(2) _ r(4)]) (simp_all add: r(3) small_id(2) [OF a(2)] k(2))
  then show ?thesis
    using r(1) k(1) by (simp add: rm_report_sm_xapp_api_def)
qed

lemma wait_inv:
  assumes "x_inv (x, ui)" "x_expected (x, ui) X_Wait_Ends"
  shows "\<exists>w x' ans. ui = Some w \<and> after_wait x w = Inr (x', ans) \<and> x_inv (x', None)"
proof -
  obtain w where w: "ui = Some w" "wait_kind w \<notin> pend_kinds x"
    using assms(2) by auto
  have i: "xa_ok x" "wait_id w \<in> fst ` set (procs x)"
    using assms(1) w(1) by (simp_all add: x_inv_def)
  obtain act ans where "after_wait x w = Inr (x\<lparr>xa_act_proc := act\<rparr>, ans)" "xa_ok (x\<lparr>xa_act_proc := act\<rparr>)"
    using after_wait_ok [OF i] by (elim exE conjE)
  moreover have "pend_kinds x \<subseteq> {E42_SETUP_REQUEST_PENDING_EVENT}"
    by (rule subset_insert_absent [OF _ w(2)]) (use assms(1) w(1) in \<open>simp add: x_inv_def insert_commute\<close>)
  moreover have "xa_connected x" "E42_SETUP_REQUEST_PENDING_EVENT \<notin> pend_kinds x"
    by (rule x_inv_waits(1) [OF assms(1) [unfolded w(1)]], rule x_inv_waits(2) [OF assms(1) [unfolded w(1)]])
  ultimately show ?thesis
    using w(1) by (intro exI [of _ w] exI [of _ "x\<lparr>xa_act_proc := act\<rparr>"] exI [of _ ans]) (simp add: x_inv_def)
qed

lemma step_inv:
  assumes "x_inv s" "x_expected s inp"
  shows "\<exists>s'. x_exec inp s = Inr s' \<and> x_inv s'"
proof -
  obtain x ui where s: "s = (x, ui)"
    by (cases s)
  show ?thesis
  proof (cases inp)
    case (X_Round fd msg tfd)
    then show ?thesis
      using round_inv [OF assms [unfolded s X_Round]] s by auto
  next
    case (X_Report nid rf data cb tfd)
    then show ?thesis
      using report_inv [OF assms [unfolded s X_Report]] s by auto
  next
    case (X_Rm_Report handle tfd)
    then show ?thesis
      using rm_report_inv [OF assms [unfolded s X_Rm_Report]] s by auto
  next
    case (X_Control nid rf ctrl tfd)
    then show ?thesis
      using control_inv [OF assms [unfolded s X_Control]] s by auto
  next
    case X_Wait_Ends
    then show ?thesis
      using wait_inv [OF assms [unfolded s X_Wait_Ends]] s by auto
  qed
qed

lemma x_reach_inv: "x_reach s \<Longrightarrow> x_inv s"
proof (induction rule: x_reach.induct)
  case (Start exec opened addr fd plugin_ag plugin_ric dir db_name default_dir now x tfd x')
  then show ?case
    by (rule start_inv)
next
  case (Step s inp s')
  then show ?case
    using step_inv [OF Step.IH Step.hyps(2)] by auto
qed

end
