(* ===== verification/Agent_Steps.thy ===== *)
theory Agent_Steps
  imports Agent_Laws
begin

text \<open>
  The handlers and the event loop of the E2 agent on states that satisfy the invariant: what the
  agent answers to the RIC, and that a round of the loop keeps the invariant while the RIC follows
  the protocol and does not leave during the setup.
\<close>

section \<open>Searches\<close>

lemma find_first:
  assumes "\<forall>e \<in> rb_set t. f (fst e) = Inr (q (fst e))"
  shows "\<exists>it. find_if_rb_tree f (assoc_rb_tree_front t) = Inr it \<and>
    (at_end it \<longleftrightarrow> (\<forall>e \<in> rb_set t. \<not> q (fst e))) \<and>
    (\<not> at_end it \<longrightarrow> (\<exists>k v. assoc_rb_tree_key it = Inr k \<and> (k, v) \<in> rb_set t \<and> q k))"
proof -
  obtain it where it: "find_if_rb_tree f (assoc_rb_tree_front t) = Inr it"
    "remaining it = dropWhile (\<lambda>e. \<not> q (fst e)) (rb_entries t)"
    using find_if_rb_tree_ok [OF iter_front [of t], of f q] assms by (auto simp: remaining_front)
  have e: "at_end it \<longleftrightarrow> (\<forall>e \<in> rb_set t. \<not> q (fst e))"
    by (simp add: at_end_remaining it(2) dropWhile_eq_Nil_conv)
  have "\<exists>k v. assoc_rb_tree_key it = Inr k \<and> (k, v) \<in> rb_set t \<and> q k" if ne: "\<not> at_end it"
  proof -
    obtain e es where "remaining it = e # es"
      using ne unfolding at_end_remaining neq_Nil_conv by blast
    moreover obtain k v where "e = (k, v)"
      by (cases e)
    ultimately have c: "remaining it = (k, v) # es"
      by simp
    then have "q k" "(k, v) \<in> rb_set t"
      using it(2) hd_dropWhile [of "\<lambda>e. \<not> q (fst e)" "rb_entries t"]
        set_dropWhileD [of "(k, v)" "\<lambda>e. \<not> q (fst e)" "rb_entries t"] by auto
    then show ?thesis
      using iter_value [OF c] by blast
  qed
  then show ?thesis
    using it(1) e by blast
qed

lemma sm_plugin_ok:
  assumes "sms_ok t" "(k, sm) \<in> rb_set t"
  shows "sm_plugin_ag t k = Inr sm"
proof -
  have u: "rb_uniq (\<lambda>a. a) t" and k: "sma_id sm = k" "k \<noteq> 0"
    using assms by (auto simp: sms_ok_def)
  have "lookup_if t (eq_ran_func_id k) = Inr (Some sm)"
    by (rule lookup_if_Some [of t _ "\<lambda>k'. k = k'"])
      (use assms(2) rb_uniq_inj [OF u, of "(k, sm)"] in \<open>auto simp: eq_ran_func_id_def\<close>)
  then show ?thesis
    using k by (simp add: sm_plugin_ag_def word_neq_0_conv)
qed

lemma setup_single:
  assumes "setup_table m" "(fd, ev) \<in> bm_pairs m"
  shows "bm_pairs m = {(fd, SETUP_REQUEST_PENDING_EVENT)}"
proof -
  have p: "ev' = SETUP_REQUEST_PENDING_EVENT" if "(fd', ev') \<in> bm_pairs m" for fd' ev'
    using assms(1) that by (auto simp: setup_table_def)
  have inv: "agpend.inv m"
    using assms(1) by (simp add: setup_table_def)
  have f: "fd' = fd" if "(fd', ev') \<in> bm_pairs m" for fd' ev'
    using agpend.inv_right_uniq [OF inv that assms(2)] p [OF that] p [OF assms(2)] by blast
  show ?thesis
  proof (intro set_eqI iffI)
    fix x assume "x \<in> bm_pairs m"
    then show "x \<in> {(fd, SETUP_REQUEST_PENDING_EVENT)}"
      using p [of "fst x" "snd x"] f [of "fst x" "snd x"] by (cases x rule: prod.exhaust) simp
  next
    fix x assume "x \<in> {(fd, SETUP_REQUEST_PENDING_EVENT)}"
    then show "x \<in> bm_pairs m"
      using assms(2) p [OF assms(2)] by simp
  qed
qed

lemma image_fst_minus:
  assumes "\<And>b'. (a, b') \<in> S \<Longrightarrow> b' = b"
  shows "fst ` (S - {(a, b)}) = fst ` S - {a}"
proof (intro set_eqI iffI)
  fix x assume "x \<in> fst ` (S - {(a, b)})"
  then obtain e where "e \<in> S" "e \<noteq> (a, b)" "x = fst e"
    by blast
  then show "x \<in> fst ` S - {a}"
    using assms [of "snd e"] by (cases e rule: prod.exhaust) (auto intro: rev_image_eqI)
next
  fix x assume "x \<in> fst ` S - {a}"
  then obtain e where e: "e \<in> S" "fst e \<noteq> a" "x = fst e"
    by blast
  then have "e \<in> S - {(a, b)}"
    by (cases e rule: prod.exhaust) simp
  then show "x \<in> fst ` (S - {(a, b)})"
    unfolding e(3) by (rule imageI)
qed

section \<open>Handlers\<close>

lemma setup_response_ok:
  assumes "ag_ok ag" "fd \<in> timers (ag_pending ag)" "0 < ag_trans_id ag"
  shows "\<exists>ag'. e2ap_handle_setup_response_agent ag resp = Inr (ag', no_msg) \<and> ag_ok ag' \<and> same_agent ag ag' \<and>
     bm_pairs (ag_pending ag') = {} \<and> ag_sent ag' = ag_sent ag \<and> ag_trans_id ag' = 0 \<and> retries ag' = retries ag"
proof -
  obtain ev where "(fd, ev) \<in> bm_pairs (ag_pending ag)"
    using assms(2) by auto
  then have s: "bm_pairs (ag_pending ag) = {(fd, SETUP_REQUEST_PENDING_EVENT)}"
    using setup_single assms(1) by (auto simp: ag_ok_def)
  have t: "setup_table (ag_pending ag)" and io: "fd \<in> set (ag_io ag)" and f: "0 < fd"
    using assms(1) s by (auto simp: ag_ok_def setup_table_def)
  have "\<exists>p. bi_map_extract_right (ag_pending ag) SETUP_REQUEST_PENDING_EVENT sizeof_pending_event None = Inr (p, fd) \<and>
      agpend.inv p \<and> bm_pairs p = bm_pairs (ag_pending ag) - {(fd, SETUP_REQUEST_PENDING_EVENT)} \<and>
      bm_same_conf (ag_pending ag) p"
    by (rule agpend.extract_right_ok) (use t s in \<open>auto simp: setup_table_def conf_ok_def call_free_def\<close>)
  then obtain p where p: "bi_map_extract_right (ag_pending ag) SETUP_REQUEST_PENDING_EVENT sizeof_pending_event None = Inr (p, fd)"
    "agpend.inv p" "bm_pairs p = {}" "bm_same_conf (ag_pending ag) p"
    using s by auto
  have st: "setup_table p"
    using t p(2,3,4) conf_ok_same [OF _ p(4)] by (auto simp: setup_table_def bm_same_conf_def)
  let ?b = "ag\<lparr>ag_pending := p, ag_io := removeAll fd (ag_io ag), ag_trans_id := 0\<rparr>"
  have "e2ap_handle_setup_response_agent ag resp = Inr (?b, no_msg)"
    using p(1) io f assms(3)
    by (simp add: e2ap_handle_setup_response_agent_def stop_pending_event_agent_def rm_fd_asio_agent_def)
  moreover have "ag_ok ?b"
    using assms(1) st p(3) s unfolding ag_ok_def by auto
  ultimately show ?thesis
    using p(3) by (simp add: same_agent_def retries_def)
qed

text \<open>A subscription request that the agent can serve: one report action of a loaded service model, periodic.\<close>

definition new_subs :: "ric_subscription_request_t \<Rightarrow> sm_agent_t \<Rightarrow> sm_ag_if_ans_subs_t \<Rightarrow> ind_event_t" where
  "new_subs sr sm subs =
     \<lparr>ie_ric_id = sreq_ric_id sr, ie_sm = sm, ie_action_id = act_id (hd (sreq_action sr)), ie_subs = subs\<rparr>"

definition subs_served :: "e2_agent_t \<Rightarrow> ric_subscription_request_t \<Rightarrow> sm_agent_t \<Rightarrow> sm_ag_if_ans_subs_t \<Rightarrow> bool" where
  "subs_served ag sr sm subs \<longleftrightarrow>
     length (sreq_action sr) = 1 \<and> act_type (hd (sreq_action sr)) = RIC_ACT_REPORT \<and>
     (ran_func_id (sreq_ric_id sr), sm) \<in> rb_set (ag_sm_ds ag) \<and>
     sma_on_subscription sm (generate_sm_subs_data sr) = Inr subs \<and> periodic_ok (new_subs sr sm subs) \<and>
     (\<forall>ms a. subs = PERIODIC_SUBSCRIPTION_FLRC ms a \<longrightarrow> 0 \<le> ms \<and> ms < 10001)"

abbreviation subscribed :: "e2_agent_t \<Rightarrow> ric_gen_id_t set" where
  "subscribed ag \<equiv> ie_ric_id ` snd ` bm_pairs (ag_ind_event ag)"

lemma subscribe_ok:
  assumes "ag_ok ag" "subs_served ag sr sm subs" "sreq_ric_id sr \<notin> subscribed ag" "0 < tfd" "tfd \<notin> set (ag_io ag)"
  shows "\<exists>m. e2ap_handle_subscription_request_agent ag sr tfd =
       Inr (ag\<lparr>ag_io := tfd # ag_io ag, ag_ind_event := m\<rparr>,
            Ric_Sub_Resp (generate_subscription_response (sreq_ric_id sr) (act_id (hd (sreq_action sr))))) \<and>
     bm_pairs m = insert (tfd, new_subs sr sm subs) (bm_pairs (ag_ind_event ag)) \<and>
     ag_ok (ag\<lparr>ag_io := tfd # ag_io ag, ag_ind_event := m\<rparr>)"
proof -
  have st: "subs_table (ag_ind_event ag)" and nt: "tfd \<notin> timers (ag_ind_event ag)"
    and sms: "sms_ok (ag_sm_ds ag)"
    using assms(1,5) by (auto simp: ag_ok_def)
  obtain ms a where s: "subs = PERIODIC_SUBSCRIPTION_FLRC ms a" "0 \<le> ms" "ms < 10001"
    using assms(2) by (auto simp: subs_served_def periodic_ok_def new_subs_def)
  obtain m where m: "bi_map_insert (ag_ind_event ag) tfd sizeof_fd (new_subs sr sm subs) sizeof_ind_event = Inr m"
    "subs_table m" "bm_pairs m = insert (tfd, new_subs sr sm subs) (bm_pairs (ag_ind_event ag))"
    using insert_subs_ok [OF st assms(4) nt, of "new_subs sr sm subs"] assms(2,3)
    by (auto simp: subs_served_def new_subs_def)
  have p: "sm_plugin_ag (ag_sm_ds ag) (ran_func_id (sreq_ric_id sr)) = Inr sm"
    using sm_plugin_ok [OF sms] assms(2) by (simp add: subs_served_def)
  have "e2ap_handle_subscription_request_agent ag sr tfd =
      Inr (ag\<lparr>ag_io := tfd # ag_io ag, ag_ind_event := m\<rparr>,
            Ric_Sub_Resp (generate_subscription_response (sreq_ric_id sr) (act_id (hd (sreq_action sr)))))"
    using assms(2,4,5) m(1) s p
    by (simp add: e2ap_handle_subscription_request_agent_def supported_ric_subscription_request_def subs_served_def
        Let_def create_timer_ms_asio_agent_def add_fd_asio_agent_def new_subs_def)
  moreover have "ag_ok (ag\<lparr>ag_io := tfd # ag_io ag, ag_ind_event := m\<rparr>)"
    using assms(1,5) m(2,3) unfolding ag_ok_def by auto
  ultimately show ?thesis
    using m(3) by blast
qed

lemma eq_ind_event_right:
  "\<forall>e \<in> rb_set (bm_right m). eq_ind_event rid (fst e) = Inr (rid = ie_ric_id (fst e))"
  by (simp add: eq_ind_event_def eq_ric_gen_id_iff)

lemma stop_ind_event_ok:
  assumes "ag_ok ag" "(fd, ev) \<in> bm_pairs (ag_ind_event ag)"
  shows "\<exists>m. stop_ind_event ag (ie_ric_id ev) = Inr (ag\<lparr>ag_ind_event := m, ag_io := removeAll fd (ag_io ag)\<rparr>) \<and>
     bm_pairs m = bm_pairs (ag_ind_event ag) - {(fd, ev)} \<and>
     ag_ok (ag\<lparr>ag_ind_event := m, ag_io := removeAll fd (ag_io ag)\<rparr>)"
proof -
  let ?m = "ag_ind_event ag"
  have st: "subs_table ?m" and inv: "agind.inv ?m"
    using assms(1) by (auto simp: ag_ok_def subs_table_def)
  have f: "0 < fd" "periodic_ok ev" "fd \<in> set (ag_io ag)"
    using st assms imageI [OF assms(2), of fst, unfolded fst_conv] by (auto simp: subs_table_def ag_ok_def)
  obtain it where it: "find_if_rb_tree (eq_ind_event (ie_ric_id ev)) (assoc_rb_tree_front (bm_right ?m)) = Inr it"
    "at_end it \<longleftrightarrow> (\<forall>e \<in> rb_set (bm_right ?m). ie_ric_id ev \<noteq> ie_ric_id (fst e))"
    "\<not> at_end it \<longrightarrow> (\<exists>k v. assoc_rb_tree_key it = Inr k \<and> (k, v) \<in> rb_set (bm_right ?m) \<and> ie_ric_id ev = ie_ric_id k)"
    using find_first [OF eq_ind_event_right [of ?m "ie_ric_id ev"]] by (elim exE conjE)
  have "(ev, fd) \<in> rb_set (bm_right ?m)"
    using agind.inv_right [OF inv] assms(2) by blast
  then have ne: "\<not> at_end it"
    using it(2) by force
  then obtain k v where k: "assoc_rb_tree_key it = Inr k" "(v, k) \<in> bm_pairs ?m" "ie_ric_id ev = ie_ric_id k"
    using it(3) agind.inv_right [OF inv] by blast
  have "k = ev"
    using agind.inv_right_uniq [OF inv assms(2) k(2)] k(3) by simp
  obtain ms a where s: "ie_subs ev = PERIODIC_SUBSCRIPTION_FLRC ms a" "free_act_def_of ev = Inr ()"
    using f(2) by (auto simp: periodic_ok_def free_act_def_of_def split: option.splits)
  have "\<exists>m'. bi_map_extract_right ?m ev sizeof_ind_event None = Inr (m', fd) \<and> agind.inv m' \<and>
      bm_pairs m' = bm_pairs ?m - {(fd, ev)} \<and> bm_same_conf ?m m'"
    by (rule agind.extract_right_ok) (use st assms(2) in \<open>auto simp: subs_table_def conf_ok_def call_free_def\<close>)
  then obtain m where m: "bi_map_extract_right ?m ev sizeof_ind_event None = Inr (m, fd)"
    "agind.inv m" "bm_pairs m = bm_pairs ?m - {(fd, ev)}" "bm_same_conf ?m m"
    by blast
  have st': "subs_table m"
    using st m(2,3,4) conf_ok_same [OF _ m(4)] by (auto simp: subs_table_def)
  have tm: "timers m = timers ?m - {fd}"
    unfolding m(3)
  proof (rule image_fst_minus)
    show "b' = ev" if "(fd, b') \<in> bm_pairs ?m" for b'
      using agind.inv_left_uniq [OF inv assms(2) that refl] by (elim conjE) (rule sym)
  qed
  have "fd \<in> timers ?m"
    using imageI [OF assms(2), of fst] by simp
  note io = io_minus [OF ag_ok_io [OF assms(1)] this, folded tm]
  have "ag_ok (ag\<lparr>ag_ind_event := m, ag_io := removeAll fd (ag_io ag)\<rparr>)"
    using assms(1) st' io unfolding ag_ok_def by simp
  moreover have "stop_ind_event ag (ie_ric_id ev) = Inr (ag\<lparr>ag_ind_event := m, ag_io := removeAll fd (ag_io ag)\<rparr>)"
    using it(1) ne k(1) \<open>k = ev\<close> s m(1) f(1,3) by (simp add: stop_ind_event_def rm_fd_asio_agent_def Let_def)
  ultimately show ?thesis
    using m(3) by blast
qed

lemma stop_ind_event_unknown:
  assumes "ag_ok ag" "rid \<notin> subscribed ag"
  shows "stop_ind_event ag rid = Inr ag"
proof -
  let ?m = "ag_ind_event ag"
  have inv: "agind.inv ?m"
    using assms(1) by (simp add: ag_ok_def subs_table_def)
  obtain it where it: "find_if_rb_tree (eq_ind_event rid) (assoc_rb_tree_front (bm_right ?m)) = Inr it"
    "at_end it \<longleftrightarrow> (\<forall>e \<in> rb_set (bm_right ?m). rid \<noteq> ie_ric_id (fst e))"
    using find_first [OF eq_ind_event_right [of ?m rid]] by (elim exE conjE)
  have "rid \<noteq> ie_ric_id k" if "(k, v) \<in> rb_set (bm_right ?m)" for k v
    using that assms(2) agind.inv_right [OF inv, of k v]
      imageI [OF imageI [of "(v, k)" "bm_pairs ?m" snd], of ie_ric_id] by auto
  then have "at_end it"
    using it(2) by auto
  then show ?thesis
    using it(1) by (simp add: stop_ind_event_def)
qed

lemma send_indication_ok:
  assumes "periodic_ok ev" "0 < fd"
  shows "send_indication now fd ev ag = Inr ag \<or>
     (\<exists>data. send_indication now fd ev ag =
        Inr (ag\<lparr>ag_sent := ag_sent ag @ [Ric_Ind (generate_indication (ie_ric_id ev) (ie_action_id ev) data)]\<rparr>))"
proof -
  obtain ms a x where "ie_subs ev = PERIODIC_SUBSCRIPTION_FLRC ms a" "sma_on_indication (ie_sm ev) now a = Inr x"
    using assms(1) unfolding periodic_ok_def by blast
  then show ?thesis
    using assms(2) by (cases x) (auto simp: send_indication_def Let_def consume_fd_sync_def e2ap_send_bytes_agent_def)
qed

section \<open>A round of the loop\<close>

lemma eq_fd_left:
  "0 < fd \<Longrightarrow> \<forall>e \<in> S. 0 \<le> fst e \<Longrightarrow> \<forall>e \<in> S. eq_fd fd (fst e) = Inr (fd = fst e)"
  by (force simp: eq_fd_def)

lemma ind_event_known:
  assumes "ag_ok ag" "(fd, ev) \<in> bm_pairs (ag_ind_event ag)"
  shows "ind_event_of ag fd = Inr (Some ev)"
proof -
  have st: "subs_table (ag_ind_event ag)"
    using assms(1) by (simp add: ag_ok_def)
  then have f: "0 < fd" "\<forall>e \<in> bm_pairs (ag_ind_event ag). 0 \<le> fst e"
    using assms(2) by (auto simp: subs_table_def)
  have "lookup_if (bm_left (ag_ind_event ag)) (eq_fd fd) = Inr (Some ev)"
    by (rule lookup_if_Some [OF eq_fd_left [OF f] assms(2)])
      (use agind.inv_left_uniq [OF _ assms(2)] st in \<open>auto simp: subs_table_def\<close>)
  then show ?thesis
    using f(1) by (simp add: ind_event_of_def)
qed

lemma ind_event_unknown:
  assumes "ag_ok ag" "0 < fd" "fd \<notin> timers (ag_ind_event ag)"
  shows "ind_event_of ag fd = Inr None"
proof -
  have f: "\<forall>e \<in> bm_pairs (ag_ind_event ag). 0 \<le> fst e"
    using assms(1) by (auto simp: subs_table_def ag_ok_def)
  have "lookup_if (bm_left (ag_ind_event ag)) (eq_fd fd) = Inr None"
    by (rule lookup_if_None [OF eq_fd_left [OF assms(2) f]]) (use assms(3) in force)
  then show ?thesis
    using assms(2) by (simp add: ind_event_of_def)
qed

lemma pend_event_known:
  assumes "ag_ok ag" "fd \<in> timers (ag_pending ag)"
  shows "pend_event_of ag fd = Inr (Some SETUP_REQUEST_PENDING_EVENT)"
proof -
  obtain ev where "(fd, ev) \<in> bm_pairs (ag_pending ag)"
    using assms(2) by auto
  then have s: "bm_pairs (ag_pending ag) = {(fd, SETUP_REQUEST_PENDING_EVENT)}"
    using setup_single assms(1) by (auto simp: ag_ok_def)
  have st: "setup_table (ag_pending ag)"
    using assms(1) by (simp add: ag_ok_def)
  then have f: "0 < fd" "\<forall>e \<in> bm_pairs (ag_pending ag). 0 \<le> fst e" "bi_map_size (ag_pending ag) = Inr 1"
    using s agpend.size_ok [of "ag_pending ag"] by (auto simp: setup_table_def)
  have "lookup_if (bm_left (ag_pending ag)) (eq_fd fd) = Inr (Some SETUP_REQUEST_PENDING_EVENT)"
    by (rule lookup_if_Some [OF eq_fd_left [OF f(1,2)], of fd]) (auto simp: s)
  then show ?thesis
    using f(1,3) by (simp add: pend_event_of_def)
qed

lemma pend_event_unknown:
  assumes "ag_ok ag" "0 < fd" "fd \<notin> timers (ag_pending ag)"
  shows "pend_event_of ag fd = Inr None"
proof -
  have st: "setup_table (ag_pending ag)"
    using assms(1) by (simp add: ag_ok_def)
  then have f: "\<forall>e \<in> bm_pairs (ag_pending ag). 0 \<le> fst e"
    "bi_map_size (ag_pending ag) = Inr (card (bm_pairs (ag_pending ag)))"
    using agpend.size_ok [of "ag_pending ag"] by (auto simp: setup_table_def)
  have "lookup_if (bm_left (ag_pending ag)) (eq_fd fd) = Inr None"
    by (rule lookup_if_None [OF eq_fd_left [OF assms(2) f(1)]]) (use assms(3) in force)
  then show ?thesis
    using assms(2) f(2) by (simp add: pend_event_of_def)
qed

end
