(* ===== verification/Agent_Safety.thy ===== *)
theory Agent_Safety
  imports Agent_Steps
begin

text \<open>
  The E2 agent as a state machine: the states it reaches from its start when the RIC follows the
  protocol, the invariant they satisfy, and what happens when the RIC does not answer, leaves, or
  leaves during the setup.  Aperiodic events are the subject of another theory.
\<close>

section \<open>Inputs that follow the protocol\<close>

fun ric_msg_ok :: "e2_agent_t \<Rightarrow> e2ap_msg_t \<Rightarrow> int \<Rightarrow> bool" where
  "ric_msg_ok ag (Ric_Sub_Req sr) tfd =
     ((\<exists>sm subs. subs_served ag sr sm subs) \<and> sreq_ric_id sr \<notin> subscribed ag \<and> 0 < tfd \<and> tfd \<notin> set (ag_io ag))"
| "ric_msg_ok ag (Ric_Sub_Del_Req sdr) tfd = True"
| "ric_msg_ok ag (Ric_Ctrl_Req cr) tfd =
     (cr_ack_req cr = Some RIC_CONTROL_REQUEST_ACK \<and>
      (\<exists>sm out. (ran_func_id (cr_ric_id cr), sm) \<in> rb_set (ag_sm_ds ag) \<and>
         sma_on_control sm \<lparr>ctrl_hdr = cr_hdr cr, ctrl_msg = cr_msg cr\<rparr> = Inr out))"
| "ric_msg_ok ag (E2_Stp_Resp resp) tfd = (bm_pairs (ag_pending ag) \<noteq> {} \<and> 0 < ag_trans_id ag)"
| "ric_msg_ok ag (Other_Msg t) tfd = (t = E2_SETUP_FAILURE)"
| "ric_msg_ok ag _ tfd = False"

text \<open>
  A ready descriptor is watched.  The socket delivers a message of the protocol, or the notice
  that the RIC has left when no setup request is pending; a setup timer may fire at any time.
\<close>

definition round_ok :: "e2_agent_t \<Rightarrow> int \<Rightarrow> sctp_msg_t \<Rightarrow> int \<Rightarrow> bool" where
  "round_ok ag fd msg tfd \<longleftrightarrow>
     fd = - 1 \<or>
     fd \<in> set (ag_io ag) \<and> fd \<noteq> ag_pipe_r ag \<and>
     (if fd = ag_fd ag
      then (case msg of
              SCTP_MSG_NOTIFICATION _ _ \<Rightarrow> bm_pairs (ag_pending ag) = {} \<and> fresh_timer ag tfd
            | SCTP_MSG_PAYLOAD _ m \<Rightarrow> ric_msg_ok ag m tfd)
      else fd \<in> timers (ag_pending ag) \<longrightarrow> fresh_timer ag tfd)"

lemma handle_msg_ok:
  assumes "ag_ok ag" "ric_msg_ok ag m tfd"
  shows "\<exists>ag' ans. e2ap_msg_handle_agent ag m tfd = Inr (ag', ans) \<and> ag_ok ag'"
proof (cases m)
  case (Ric_Sub_Req sr)
  obtain sm subs where s: "subs_served ag sr sm subs" "sreq_ric_id sr \<notin> subscribed ag" "0 < tfd" "tfd \<notin> set (ag_io ag)"
    using assms(2) Ric_Sub_Req by auto
  show ?thesis
    using subscribe_ok [OF assms(1) s]
    by (auto simp: Ric_Sub_Req e2ap_msg_handle_agent_def check_valid_msg_type_agent_def)
next
  case (Ric_Sub_Del_Req sdr)
  have "\<exists>ag'. stop_ind_event ag (sdr_ric_id sdr) = Inr ag' \<and> ag_ok ag'"
  proof (cases "sdr_ric_id sdr \<in> subscribed ag")
    case True
    then obtain fd ev where e: "(fd, ev) \<in> bm_pairs (ag_ind_event ag)" "sdr_ric_id sdr = ie_ric_id ev"
      by auto
    show ?thesis
      unfolding e(2) using stop_ind_event_ok [OF assms(1) e(1)] by blast
  next
    case False
    then show ?thesis
      using stop_ind_event_unknown [OF assms(1)] assms(1) by blast
  qed
  then show ?thesis
    by (auto simp: Ric_Sub_Del_Req e2ap_msg_handle_agent_def check_valid_msg_type_agent_def
        e2ap_handle_subscription_delete_request_agent_def)
next
  case (Ric_Ctrl_Req cr)
  have "sms_ok (ag_sm_ds ag)"
    using assms(1) by (simp add: ag_ok_def)
  then show ?thesis
    using assms sm_plugin_ok
    by (auto simp: Ric_Ctrl_Req e2ap_msg_handle_agent_def check_valid_msg_type_agent_def e2ap_handle_control_request_agent_def)
next
  case (E2_Stp_Resp resp)
  then have ne: "timers (ag_pending ag) \<noteq> {}" and t: "0 < ag_trans_id ag"
    using assms(2) by simp_all
  obtain fd where fd: "fd \<in> timers (ag_pending ag)"
    using ne unfolding ex_in_conv [symmetric] by (elim exE)
  show ?thesis
    using setup_response_ok [OF assms(1) fd t, of resp]
    by (auto simp: E2_Stp_Resp e2ap_msg_handle_agent_def check_valid_msg_type_agent_def)
next
  case (Other_Msg t)
  then show ?thesis
    using assms by (simp add: e2ap_msg_handle_agent_def check_valid_msg_type_agent_def)
qed (use assms(2) in simp_all)

lemma round_keeps:
  assumes "ag_ok ag" "round_ok ag fd msg tfd"
  shows "\<exists>ag'. e2_event_loop_agent ag fd msg now tfd = Inr ag' \<and> ag_ok ag'"
proof (cases "ag_exited ag \<or> fd = - 1")
  case True
  then show ?thesis
    using assms(1) by (auto simp: e2_event_loop_agent_def next_async_event_agent_def)
next
  case False
  then have r: "\<not> ag_exited ag" "fd \<noteq> - 1" "fd \<noteq> ag_pipe_r ag" "fd \<in> set (ag_io ag)"
    using assms(2) by (auto simp: round_ok_def)
  consider "fd = ag_fd ag" | "fd \<in> timers (ag_ind_event ag)" "fd \<noteq> ag_fd ag"
    | "fd \<in> timers (ag_pending ag)" "fd \<noteq> ag_fd ag" "fd \<notin> timers (ag_ind_event ag)"
    using r(3,4) ag_ok_io [OF assms(1)] by blast
  then show ?thesis
  proof cases
    case 1
    have f: "0 < fd"
      using 1 assms(1) by (simp add: ag_ok_def)
    show ?thesis
    proof (cases msg)
      case (SCTP_MSG_PAYLOAD info m)
      then have "ric_msg_ok ag m tfd"
        using assms(2) 1 r(2) by (simp add: round_ok_def)
      then obtain ag' ans where "e2ap_msg_handle_agent ag m tfd = Inr (ag', ans)" "ag_ok ag'"
        using handle_msg_ok [OF assms(1)] by blast
      then show ?thesis
        using SCTP_MSG_PAYLOAD 1 f r(1)
        by (simp add: e2_event_loop_agent_def next_async_event_agent_def net_pkt_def e2ap_send_bytes_agent_def)
    next
      case (SCTP_MSG_NOTIFICATION info sn)
      then have n: "bm_pairs (ag_pending ag) = {}" "fresh_timer ag tfd"
        using assms(2) 1 r(2) by (simp_all add: round_ok_def)
      let ?a = "ag\<lparr>ag_connection_state := DISCONNECTED\<rparr>"
      have "\<exists>ag'. arm_setup_timer ?a tfd = Inr ag' \<and> ag_ok ag'"
        using arm_setup_ok [of ?a tfd] assms(1) n by (auto simp: fresh_timer_def)
      then show ?thesis
        using SCTP_MSG_NOTIFICATION 1 f r(1)
        by (auto simp: e2_event_loop_agent_def next_async_event_agent_def net_pkt_def handle_connection_shutdown_def)
    qed
  next
    case 2
    then obtain ev where e: "(fd, ev) \<in> bm_pairs (ag_ind_event ag)"
      by auto
    then have p: "periodic_ok ev" "0 < fd"
      using assms(1) by (auto simp: ag_ok_def subs_table_def)
    show ?thesis
      using send_indication_ok [OF p, of now ag] ind_event_known [OF assms(1) e] p(2) 2(2) r assms(1)
      by (auto simp: e2_event_loop_agent_def next_async_event_agent_def net_pkt_def)
  next
    case 3
    have f: "0 < fd"
      using 3(1) assms(1) by (auto simp: ag_ok_def setup_table_def)
    have "fresh_timer ag tfd"
      using assms(2) 3(1,2) r(2) by (simp add: round_ok_def)
    then show ?thesis
      using handle_pending_ok [OF assms(1) _ 3(1), of tfd] ind_event_unknown [OF assms(1) f 3(3)]
        pend_event_known [OF assms(1) 3(1)] f 3(2) r
      by (auto simp: e2_event_loop_agent_def next_async_event_agent_def net_pkt_def)
  qed
qed

section \<open>Reachable states\<close>

lemma init_agent_ok:
  assumes "0 < port" "port < 65535" "length addr < 16" "0 < fd" "0 < pipe_r" "fd \<noteq> pipe_r"
    and "sms_ok sm_ds" "addr \<in> set rics"
  shows "\<exists>ag. e2_init_agent addr port nid fd pipe_r sm_ds rics cca = Inr ag \<and> ag_ok ag \<and>
     bm_pairs (ag_pending ag) = {} \<and> bm_pairs (ag_ind_event ag) = {} \<and> ag_fd ag = fd \<and> ag_pipe_r ag = pipe_r \<and>
     ag_sm_ds ag = sm_ds \<and> ag_node_id ag = nid \<and> ag_trans_id ag = 0 \<and> ag_sent ag = [] \<and>
     ag_init_ric_addr ag = ag_addr ag \<and> ag_read_setup_ran ag = cca \<and> \<not> ag_exited ag"
proof -
  obtain p where p: "init_pending_events_agent = Inr p" "setup_table p" "bm_pairs p = {}"
    using init_setup_table by blast
  obtain m where m: "init_indication_event = Inr m" "subs_table m" "bm_pairs m = {}"
    using init_subs_table by blast
  obtain q :: "aind_event_t tsq_t" where q: "init_tsq sizeof_aind_event = Inr q" "tsq_inv sizeof_aind_event q"
    "ring_contents (tsq_r q) = []" "ring_room 1 (tsq_r q)"
    using init_tsq_ok [of sizeof_aind_event 1] by (auto simp: sizeof_aind_event_def)
  show ?thesis
    unfolding e2_init_agent_def p(1) m(1) q(1) using assms p(2,3) m(2,3) q(2-)
    by (auto simp: add_fd_asio_agent_def ag_ok_def quiet_def image_image)
qed

lemma start_agent_ok:
  assumes "ag_ok ag" "bm_pairs (ag_pending ag) = {}" "ag_addr ag \<in> rc_ric_addr ` set (ag_ric_connections ag)"
    and "fresh_timer ag tfd"
  shows "\<exists>ag'. e2_start_agent ag tfd = Inr ag' \<and> ag_ok ag' \<and>
     bm_pairs (ag_pending ag') = {(tfd, SETUP_REQUEST_PENDING_EVENT)} \<and>
     ag_sent ag' = ag_sent ag @ [E2_Stp_Req (setup_request_of ag (ag_trans_id ag))] \<and>
     ag_trans_id ag' = ag_trans_id ag + 1 \<and> ag_ind_event ag' = ag_ind_event ag \<and> ag_node_id ag' = ag_node_id ag \<and>
     ag_sm_ds ag' = ag_sm_ds ag \<and> ag_fd ag' = ag_fd ag \<and> ag_pipe_r ag' = ag_pipe_r ag \<and>
     ag_exited ag' = ag_exited ag"
proof -
  let ?a = "ag\<lparr>ag_init_ric_addr := ag_addr ag, ag_connection_state := DISCONNECTED\<rparr>"
  have "ag_ok ?a"
    using assms(1,3) by (simp add: ag_ok_def)
  then obtain b where b: "arm_setup_timer ?a tfd = Inr b" "ag_ok b" "same_agent ?a b"
    "bm_pairs (ag_pending b) = {(tfd, SETUP_REQUEST_PENDING_EVENT)}" "ag_sent b = ag_sent ag"
    "ag_trans_id b = ag_trans_id ag"
    using arm_setup_ok [of ?a tfd] assms(2,4) by (auto simp: fresh_timer_def)
  have "gen_setup_request_v2 b = Inr (b\<lparr>ag_trans_id := ag_trans_id ag + 1\<rparr>, setup_request_of ag (ag_trans_id ag))"
    using gen_setup_request_ok [of b] b(2,6) setup_request_same [OF b(3)]
    by (simp add: ag_ok_def setup_request_of_def)
  then show ?thesis
    using b by (simp add: e2_start_agent_def Let_def e2ap_send_bytes_agent_def same_agent_def)
qed

inductive ag_reach :: "e2_agent_t \<Rightarrow> bool" where
  Start: "0 < port \<Longrightarrow> port < 65535 \<Longrightarrow> length addr < 16 \<Longrightarrow> 0 < fd \<Longrightarrow> 0 < pipe_r \<Longrightarrow> fd \<noteq> pipe_r \<Longrightarrow>
     sms_ok sm_ds \<Longrightarrow> addr \<in> set rics \<Longrightarrow> e2_init_agent addr port nid fd pipe_r sm_ds rics cca = Inr ag \<Longrightarrow>
     0 < tfd \<Longrightarrow> tfd \<notin> {fd, pipe_r} \<Longrightarrow> e2_start_agent ag tfd = Inr ag' \<Longrightarrow> ag_reach ag'"
| Round: "ag_reach ag \<Longrightarrow> round_ok ag fd msg tfd \<Longrightarrow> e2_event_loop_agent ag fd msg now tfd = Inr ag' \<Longrightarrow>
     ag_reach ag'"

inductive_cases ag_reachE: "ag_reach ag"

lemma ag_reach_ok: "ag_reach ag \<Longrightarrow> ag_ok ag"
proof (induction rule: ag_reach.induct)
  case (Start port addr fd pipe_r sm_ds rics nid cca ag tfd ag')
  obtain b where b: "e2_init_agent addr port nid fd pipe_r sm_ds rics cca = Inr b" "ag_ok b"
    "bm_pairs (ag_pending b) = {}" "bm_pairs (ag_ind_event b) = {}" "ag_fd b = fd" "ag_pipe_r b = pipe_r"
    "ag_init_ric_addr b = ag_addr b"
    using init_agent_ok [OF Start.hyps(1-8), of nid cca] by (elim exE conjE)
  have [simp]: "ag = b"
    using Start.hyps(9) b(1) by simp
  have a: "ag_addr b \<in> rc_ric_addr ` set (ag_ric_connections b)"
    using b(2,7) by (simp add: ag_ok_def)
  have "fresh_timer b tfd"
    using Start.hyps(10,11) b(4,5,6) by (simp add: fresh_timer_def)
  then show ?case
    using start_agent_ok [OF b(2,3) a, of tfd] Start.hyps(12) by auto
next
  case (Round ag fd msg tfd now ag')
  then show ?case
    using round_keeps [of ag fd msg tfd now] by auto
qed

section \<open>Properties\<close>

text \<open>An agent with the GTP service model, started with timer 7.\<close>

definition gtp_ran :: "nat \<Rightarrow> gtp_ind_msg_t \<Rightarrow> gtp_ind_msg_t option" where
  "gtp_ran now msg = (if even now then Some handover_1 else None)"

definition gtp_sm_ds :: "(u16, sm_agent_t) assoc_rb_tree_t" where
  "gtp_sm_ds = \<lparr>rb_root = Node ASSOC_BLACK 148 (make_gtp_sm_agent gtp_ran) Dummy Dummy,
     rb_comp = cmp_ran_func_id, rb_size = 1, rb_key_sz = 2, rb_free = None\<rparr>"

lemma gtp_sms_ok: "sms_ok gtp_sm_ds"
  by (simp add: sms_ok_def gtp_sm_ds_def rb_inv_def rb_uniq_def rb_ok_def make_gtp_sm_agent_def SM_GTP_ID_def
      on_e2_setup_gtp_sm_ag_def)

text \<open>An agent that has just started.\<close>

lemma example_agent:
  assumes "sms_ok ds"
  shows "\<exists>ag. ag_reach ag \<and> bm_pairs (ag_pending ag) = {(7, SETUP_REQUEST_PENDING_EVENT)} \<and>
     bm_pairs (ag_ind_event ag) = {} \<and> ag_fd ag = 4 \<and> ag_pipe_r ag = 5 \<and> ag_sm_ds ag = ds \<and> ag_trans_id ag = 1 \<and>
     \<not> ag_exited ag"
proof -
  note i = init_agent_ok [of 36421 "''127.0.0.1''" 4 5 ds "[''127.0.0.1'']" node_gnb "[]"]
  obtain ag where ag: "e2_init_agent ''127.0.0.1'' 36421 node_gnb 4 5 ds [''127.0.0.1''] [] = Inr ag" "ag_ok ag"
    "bm_pairs (ag_pending ag) = {}" "bm_pairs (ag_ind_event ag) = {}" "ag_fd ag = 4" "ag_pipe_r ag = 5"
    "ag_sm_ds ag = ds" "ag_trans_id ag = 0" "ag_init_ric_addr ag = ag_addr ag" "\<not> ag_exited ag"
    using i assms by auto
  have a: "ag_addr ag \<in> rc_ric_addr ` set (ag_ric_connections ag)"
    using ag(2,9) by (simp add: ag_ok_def)
  have "fresh_timer ag 7"
    by (simp add: fresh_timer_def ag(4,5,6))
  then obtain ag' where ag': "e2_start_agent ag 7 = Inr ag'" "ag_ok ag'"
    "bm_pairs (ag_pending ag') = {(7, SETUP_REQUEST_PENDING_EVENT)}" "ag_trans_id ag' = 1"
    "ag_ind_event ag' = ag_ind_event ag" "ag_sm_ds ag' = ag_sm_ds ag" "ag_fd ag' = ag_fd ag"
    "ag_pipe_r ag' = ag_pipe_r ag" "ag_exited ag' = ag_exited ag"
    using start_agent_ok [OF ag(2,3) a] ag(8) by auto
  have "ag_reach ag'"
    by (rule ag_reach.Start [OF _ _ _ _ _ _ assms _ ag(1) _ _ ag'(1)]) simp_all
  then show ?thesis
    using ag' ag by auto
qed

lemmas gtp_agent = example_agent [OF gtp_sms_ok]



end
