(* ===== verification/Agent_Lifecycle.thy ===== *)
theory Agent_Lifecycle
  imports Agent_Safety
begin

text \<open>
  Runs of the E2 agent: the descriptors that it watches in every reachable state, the life of a
  periodic subscription from the request to the deletion, a RIC that does not answer the setup
  request, and a RIC that leaves while the setup request is pending.
\<close>

section \<open>Rounds\<close>

lemma agent_message:
  assumes "ag_ok ag" "\<not> ag_exited ag" "e2ap_msg_handle_agent ag m tfd = Inr (ag', ans)"
  shows "e2_event_loop_agent ag (ag_fd ag) (SCTP_MSG_PAYLOAD info m) now tfd =
     Inr (if msg_type ans \<noteq> NONE_E2_MSG_TYPE then e2ap_send_bytes_agent ag' ans else ag')"
  using assms by (simp add: e2_event_loop_agent_def next_async_event_agent_def net_pkt_def ag_ok_def)

lemma agent_notice:
  assumes "ag_ok ag" "\<not> ag_exited ag"
  shows "e2_event_loop_agent ag (ag_fd ag) (SCTP_MSG_NOTIFICATION info sn) now tfd =
     handle_connection_shutdown ag tfd"
  using assms by (simp add: e2_event_loop_agent_def next_async_event_agent_def net_pkt_def ag_ok_def)

lemma agent_subs_timer:
  assumes "ag_ok ag" "\<not> ag_exited ag" "(fd, ev) \<in> bm_pairs (ag_ind_event ag)"
  shows "e2_event_loop_agent ag fd msg now tfd = send_indication now fd ev ag"
proof -
  have t: "fd \<in> timers (ag_ind_event ag)"
    using imageI [OF assms(3), of fst] by simp
  have f: "0 < fd"
    using assms(1,3) by (auto simp: ag_ok_def subs_table_def)
  have "fd \<noteq> ag_fd ag" "fd \<noteq> ag_pipe_r ag"
    using ag_ok_io(2) [OF assms(1)] t by blast+
  then show ?thesis
    using f ind_event_known [OF assms(1,3)] assms(2)
    by (simp add: e2_event_loop_agent_def next_async_event_agent_def net_pkt_def)
qed

lemma agent_setup_timer:
  assumes "ag_ok ag" "\<not> ag_exited ag" "fd \<in> timers (ag_pending ag)"
  shows "e2_event_loop_agent ag fd msg now tfd = handle_pending_event (ag\<lparr>ag_io := close_fd (ag_io ag) fd\<rparr>) tfd"
proof -
  have n: "fd \<noteq> ag_fd ag" "fd \<noteq> ag_pipe_r ag" "fd \<notin> timers (ag_ind_event ag)"
    using ag_ok_io(1,2) [OF assms(1)] assms(3) by blast+
  have f: "0 < fd"
    using assms(1,3) by (auto simp: ag_ok_def setup_table_def)
  show ?thesis
    using n f ind_event_unknown [OF assms(1) f n(3)] pend_event_known [OF assms(1,3)] assms(2)
    by (simp add: e2_event_loop_agent_def next_async_event_agent_def net_pkt_def)
qed

section \<open>A RIC that does not answer\<close>

text \<open>The timer of the setup request fires again and again; \<open>ts\<close> are the descriptors of the new timers.\<close>

fun setup_timeouts :: "e2_agent_t \<Rightarrow> int \<Rightarrow> int list \<Rightarrow> e2_agent_t res" where
  "setup_timeouts ag fd [] = Inr ag"
| "setup_timeouts ag fd (t # ts) =
     bnd (e2_event_loop_agent ag fd (SCTP_MSG_PAYLOAD (peer 0) no_msg) 0 t) (\<lambda>ag. setup_timeouts ag t ts)"

lemma setup_timeouts_ok:
  assumes "ag_ok ag" "\<not> ag_exited ag" "fd \<in> timers (ag_pending ag)" "\<forall>t \<in> set ts. fresh_timer ag t"
  shows "\<exists>ag'. setup_timeouts ag fd ts = Inr ag' \<and> ag_ok ag' \<and> same_agent ag ag' \<and>
     timers (ag_pending ag') = {last (fd # ts)} \<and>
     ag_sent ag' = ag_sent ag @
       map (\<lambda>i. E2_Stp_Req (setup_request_of ag (ag_trans_id ag + of_nat i))) [0..<length ts] \<and>
     ag_trans_id ag' = ag_trans_id ag + of_nat (length ts) \<and> retries ag' = retries ag + int (length ts)"
  using assms
proof (induction ts arbitrary: ag fd)
  case Nil
  then obtain ev where "(fd, ev) \<in> bm_pairs (ag_pending ag)"
    by auto
  then have "bm_pairs (ag_pending ag) = {(fd, SETUP_REQUEST_PENDING_EVENT)}"
    using setup_single Nil.prems(1) by (auto simp: ag_ok_def)
  then show ?case
    using Nil.prems(1) by simp
next
  case (Cons t ts)
  have "fresh_timer ag t"
    using Cons.prems(4) by simp
  from handle_pending_ok [OF Cons.prems(1) this Cons.prems(3)] obtain b where
    b: "handle_pending_event (ag\<lparr>ag_io := close_fd (ag_io ag) fd\<rparr>) t = Inr b" "ag_ok b" "same_agent ag b"
      "bm_pairs (ag_pending b) = {(t, SETUP_REQUEST_PENDING_EVENT)}"
      "ag_sent b = ag_sent ag @ [E2_Stp_Req (setup_request_of ag (ag_trans_id ag))]"
      "ag_trans_id b = ag_trans_id ag + 1" "retries b = retries ag + 1"
    by (elim exE conjE)
  have e: "\<not> ag_exited b" "t \<in> timers (ag_pending b)" "\<forall>t \<in> set ts. fresh_timer b t"
    using b(3,4) Cons.prems(2,4) fresh_timer_same [OF b(3)] by (simp_all add: same_agent_def)
  from Cons.IH [OF b(2) e] obtain c where c: "setup_timeouts b t ts = Inr c" "ag_ok c" "same_agent b c"
    "timers (ag_pending c) = {last (t # ts)}"
    "ag_sent c = ag_sent b @
       map (\<lambda>i. E2_Stp_Req (setup_request_of b (ag_trans_id b + of_nat i))) [0..<length ts]"
    "ag_trans_id c = ag_trans_id b + of_nat (length ts)" "retries c = retries b + int (length ts)"
    by (elim exE conjE)
  have "ag_sent c = ag_sent ag @
      map (\<lambda>i. E2_Stp_Req (setup_request_of ag (ag_trans_id ag + of_nat i))) [0..<length (t # ts)]"
    unfolding c(5) b(5) by (simp add: upt_conv_Cons map_Suc_upt [symmetric] setup_request_same [OF b(3)] b(6) ac_simps
        del: upt_Suc)
  then show ?case
    using c b agent_setup_timer [OF Cons.prems(1-3)] same_agent_trans [OF b(3) c(3)] by simp
qed

section \<open>A RIC that leaves during the setup\<close>

lemma shutdown_while_pending:
  assumes "ag_ok ag" "bm_pairs (ag_pending ag) = {(fd, SETUP_REQUEST_PENDING_EVENT)}" "fresh_timer ag tfd" "tfd \<noteq> fd"
  shows "\<exists>p. handle_connection_shutdown ag tfd =
      Inr (ag\<lparr>ag_connection_state := DISCONNECTED, ag_io := tfd # ag_io ag, ag_pending := p\<rparr>) \<and>
    setup_table p \<and> bm_pairs p = {(tfd, SETUP_REQUEST_PENDING_EVENT)}"
proof -
  obtain e where e: "init_pending_events_agent = Inr e" "setup_table e" "bm_pairs e = {}"
    using init_setup_table by blast
  have st: "setup_table (ag_pending ag)" and t: "0 < tfd" "tfd \<notin> set (ag_io ag)"
    using assms by (auto simp: ag_ok_def fresh_timer_def)
  have n: "bi_map_size (ag_pending ag) = Inr 1"
    using agpend.size_ok [of "ag_pending ag"] st assms(2) by (simp add: setup_table_def)
  obtain p where p: "bi_map_insert e tfd sizeof_fd SETUP_REQUEST_PENDING_EVENT sizeof_pending_event = Inr p"
    "setup_table p" "bm_pairs p = {(tfd, SETUP_REQUEST_PENDING_EVENT)}"
    using insert_setup_ok [OF e(2,3) t(1)] by blast
  have "arm_setup_timer (ag\<lparr>ag_connection_state := DISCONNECTED\<rparr>) tfd =
      Inr (ag\<lparr>ag_connection_state := DISCONNECTED, ag_io := tfd # ag_io ag, ag_pending := p\<rparr>)"
    unfolding arm_setup_timer_def e(1) using n t p(1) free_setup_table [OF st]
    by (simp add: create_timer_ms_asio_agent_def add_fd_asio_agent_def)
  then show ?thesis
    using p(2,3) unfolding handle_connection_shutdown_def by blast
qed

section \<open>Properties\<close>



text \<open>
  When the RIC does not answer, the agent repeats its setup request with a new transaction
  identifier each time its timer fires, without end: there is no bound on the number of retries
  although \<^verbatim>\<open>MAX_RETRIES_PER_RIC\<close> is defined.
\<close>

theorem agent_retries_forever:
  assumes "ag_reach ag" "\<not> ag_exited ag" "fd \<in> timers (ag_pending ag)" "\<forall>t \<in> set ts. fresh_timer ag t"
  shows "\<exists>ag'. setup_timeouts ag fd ts = Inr ag' \<and>
     timers (ag_pending ag') = {last (fd # ts)} \<and>
     ag_sent ag' = ag_sent ag @
       map (\<lambda>i. E2_Stp_Req (setup_request_of ag (ag_trans_id ag + of_nat i))) [0..<length ts] \<and>
     retries ag' = retries ag + int (length ts)"
  using setup_timeouts_ok [OF ag_reach_ok [OF assms(1)] assms(2-4)] by (elim exE conjE) (intro exI conjI)

theorem agent_retries_forever_witness:
  "\<exists>ag ag'. ag_reach ag \<and> setup_timeouts ag 7 [8, 9, 8, 9, 8] = Inr ag' \<and> timers (ag_pending ag') = {8} \<and>
     retries ag' = retries ag + 5"
proof -
  obtain ag where ag: "ag_reach ag" "bm_pairs (ag_pending ag) = {(7, SETUP_REQUEST_PENDING_EVENT)}"
    "bm_pairs (ag_ind_event ag) = {}" "ag_fd ag = 4" "ag_pipe_r ag = 5" "\<not> ag_exited ag"
    using gtp_agent by blast
  have t: "7 \<in> timers (ag_pending ag)" "\<forall>t \<in> set [8, 9, 8, 9, 8]. fresh_timer ag t"
    by (simp_all add: ag fresh_timer_def)
  show ?thesis
    using agent_retries_forever [OF ag(1,6) t] ag(1) by auto
qed

text \<open>
  When the RIC leaves while a setup request is pending, the agent forgets the timer of that
  request without closing it.  The descriptor is still watched, and the agent aborts when the
  timer fires.
\<close>

theorem agent_leaks_timer:
  assumes "ag_reach ag" "\<not> ag_exited ag" "fd \<in> timers (ag_pending ag)" "fresh_timer ag tfd" "tfd \<noteq> fd"
  shows "\<exists>ag'. e2_event_loop_agent ag (ag_fd ag) (SCTP_MSG_NOTIFICATION info sn) now tfd = Inr ag' \<and>
     fd \<in> set (ag_io ag') \<and> timers (ag_pending ag') = {tfd} \<and>
     e2_event_loop_agent ag' fd msg now' tfd' = Inl (Assertion ''Unknown event happened!'')"
proof -
  have ok: "ag_ok ag"
    by (rule ag_reach_ok [OF assms(1)])
  obtain ev where "(fd, ev) \<in> bm_pairs (ag_pending ag)"
    using assms(3) by auto
  then have s: "bm_pairs (ag_pending ag) = {(fd, SETUP_REQUEST_PENDING_EVENT)}"
    using setup_single ok by (auto simp: ag_ok_def)
  have n: "fd \<noteq> ag_fd ag" "fd \<noteq> ag_pipe_r ag" "fd \<notin> timers (ag_ind_event ag)" "fd \<in> set (ag_io ag)"
    using ag_ok_io [OF ok] assms(3) by blast+
  have f: "0 < fd"
    using ok s by (auto simp: ag_ok_def setup_table_def)
  obtain p where p: "handle_connection_shutdown ag tfd =
      Inr (ag\<lparr>ag_connection_state := DISCONNECTED, ag_io := tfd # ag_io ag, ag_pending := p\<rparr>)"
    "setup_table p" "bm_pairs p = {(tfd, SETUP_REQUEST_PENDING_EVENT)}"
    using shutdown_while_pending [OF ok s assms(4,5)] by blast
  let ?b = "ag\<lparr>ag_connection_state := DISCONNECTED, ag_io := tfd # ag_io ag, ag_pending := p\<rparr>"
  have i: "ind_event_of ?b fd = Inr None"
    using ind_event_unknown [OF ok f n(3)] by (simp add: ind_event_of_def)
  have "ag_ok (?b\<lparr>ag_io := tfd # removeAll fd (ag_io ag)\<rparr>)"
    using ok p(2,3) s assms(4) by (auto simp: ag_ok_def fresh_timer_def)
  from pend_event_unknown [OF this f] have "pend_event_of ?b fd = Inr None"
    using p(3) assms(5) by (simp add: pend_event_of_def cong: if_cong)
  then show ?thesis
    using agent_notice [OF ok assms(2)] p(1,3) n(1,2,4) f i assms(2)
    by (simp add: e2_event_loop_agent_def next_async_event_agent_def net_pkt_def)
qed

theorem agent_leaks_timer_witness:
  "\<exists>ag ag'. ag_reach ag \<and>
     e2_event_loop_agent ag 4 (SCTP_MSG_NOTIFICATION (peer 1) SCTP_SHUTDOWN_EVENT) 0 8 = Inr ag' \<and>
     e2_event_loop_agent ag' 7 (SCTP_MSG_PAYLOAD (peer 1) no_msg) 0 9 = Inl (Assertion ''Unknown event happened!'')"
proof -
  obtain ag where ag: "ag_reach ag" "bm_pairs (ag_pending ag) = {(7, SETUP_REQUEST_PENDING_EVENT)}"
    "bm_pairs (ag_ind_event ag) = {}" "ag_fd ag = 4" "ag_pipe_r ag = 5" "\<not> ag_exited ag"
    using gtp_agent by blast
  have "7 \<in> timers (ag_pending ag)" "fresh_timer ag 8" "8 \<noteq> (7 :: int)"
    by (simp_all add: ag fresh_timer_def)
  from agent_leaks_timer [OF ag(1,6) this] show ?thesis
    using ag(1,4) by metis
qed

end
