(* ===== verification/Agent_Gtp.thy ===== *)
theory Agent_Gtp
  imports Agent_Lifecycle
begin

text \<open>
  The E2 agent with the GTP service model: a periodic subscription from the request to the
  deletion, with the report of the RAN in between, and the indication that the RAN raises when a
  handover is complete.
\<close>

section \<open>A subscription\<close>

lemma agent_subscription_run:
  assumes "ag_ok ag" "\<not> ag_exited ag" "subs_served ag sr sm subs" "sreq_ric_id sr \<notin> subscribed ag"
    and "0 < tfd" "tfd \<notin> set (ag_io ag)"
    and "subs = PERIODIC_SUBSCRIPTION_FLRC ms a" "sma_on_indication sm now a = Inr (Some data)"
  shows "\<exists>ag1 ag2 ag3.
     e2_event_loop_agent ag (ag_fd ag) (SCTP_MSG_PAYLOAD info (Ric_Sub_Req sr)) t1 tfd = Inr ag1 \<and> ag_ok ag1 \<and>
     set (ag_io ag1) = insert tfd (set (ag_io ag)) \<and>
     ag_sent ag1 = ag_sent ag @
       [Ric_Sub_Resp (generate_subscription_response (sreq_ric_id sr) (act_id (hd (sreq_action sr))))] \<and>
     e2_event_loop_agent ag1 tfd msg now x2 = Inr ag2 \<and> ag_ok ag2 \<and>
     ag_sent ag2 = ag_sent ag1 @
       [Ric_Ind (generate_indication (sreq_ric_id sr) (act_id (hd (sreq_action sr))) data)] \<and>
     e2_event_loop_agent ag2 (ag_fd ag) (SCTP_MSG_PAYLOAD info' (Ric_Sub_Del_Req \<lparr>sdr_ric_id = sreq_ric_id sr\<rparr>)) t3 x3
       = Inr ag3 \<and> ag_ok ag3 \<and>
     ag_sent ag3 = ag_sent ag @
       [Ric_Sub_Resp (generate_subscription_response (sreq_ric_id sr) (act_id (hd (sreq_action sr)))),
        Ric_Ind (generate_indication (sreq_ric_id sr) (act_id (hd (sreq_action sr))) data),
        Ric_Sub_Del_Resp \<lparr>sdresp_ric_id = sreq_ric_id sr\<rparr>] \<and>
     bm_pairs (ag_ind_event ag3) = bm_pairs (ag_ind_event ag) \<and> set (ag_io ag3) = set (ag_io ag) \<and>
     ag_pending ag3 = ag_pending ag"
proof -
  let ?ev = "new_subs sr sm subs"
  let ?resp = "Ric_Sub_Resp (generate_subscription_response (sreq_ric_id sr) (act_id (hd (sreq_action sr))))"
  let ?ind = "Ric_Ind (generate_indication (sreq_ric_id sr) (act_id (hd (sreq_action sr))) data)"
  obtain m where m: "e2ap_handle_subscription_request_agent ag sr tfd =
      Inr (ag\<lparr>ag_io := tfd # ag_io ag, ag_ind_event := m\<rparr>, ?resp)"
    "bm_pairs m = insert (tfd, ?ev) (bm_pairs (ag_ind_event ag))"
    "ag_ok (ag\<lparr>ag_io := tfd # ag_io ag, ag_ind_event := m\<rparr>)"
    using subscribe_ok [OF assms(1,3-6)] by (elim exE conjE)
  let ?a1 = "ag\<lparr>ag_io := tfd # ag_io ag, ag_ind_event := m, ag_sent := ag_sent ag @ [?resp]\<rparr>"
  have a1: "e2_event_loop_agent ag (ag_fd ag) (SCTP_MSG_PAYLOAD info (Ric_Sub_Req sr)) t1 tfd = Inr ?a1"
    using agent_message [OF assms(1,2), of "Ric_Sub_Req sr" tfd] m(1)
    by (simp add: e2ap_msg_handle_agent_def check_valid_msg_type_agent_def e2ap_send_bytes_agent_def)
  have ok1: "ag_ok ?a1" "\<not> ag_exited ?a1" "(tfd, ?ev) \<in> bm_pairs (ag_ind_event ?a1)"
    using m(2,3) assms(2) by simp_all
  let ?a2 = "?a1\<lparr>ag_sent := ag_sent ag @ [?resp, ?ind]\<rparr>"
  have a2: "e2_event_loop_agent ?a1 tfd msg now x2 = Inr ?a2"
    unfolding agent_subs_timer [OF ok1] using assms(5,7,8)
    by (simp add: send_indication_def new_subs_def consume_fd_sync_def e2ap_send_bytes_agent_def)
  have ok2: "ag_ok ?a2" "\<not> ag_exited ?a2" "(tfd, ?ev) \<in> bm_pairs (ag_ind_event ?a2)"
    using ok1 by simp_all
  have "tfd \<notin> timers (ag_ind_event ag)"
    using ag_ok_io(3) [OF assms(1)] assms(6) by blast
  then have "(tfd, ?ev) \<notin> bm_pairs (ag_ind_event ag)"
    by (metis fst_conv imageI)
  then have pairs: "bm_pairs m - {(tfd, ?ev)} = bm_pairs (ag_ind_event ag)"
    unfolding m(2) by simp
  obtain m' where m': "stop_ind_event ?a2 (sreq_ric_id sr) =
      Inr (?a2\<lparr>ag_ind_event := m', ag_io := removeAll tfd (tfd # ag_io ag)\<rparr>)"
    "bm_pairs m' = bm_pairs (ag_ind_event ag)"
    "ag_ok (?a2\<lparr>ag_ind_event := m', ag_io := removeAll tfd (tfd # ag_io ag)\<rparr>)"
    using stop_ind_event_ok [OF ok2(1,3)] pairs by (auto simp: new_subs_def)
  let ?a3 = "?a2\<lparr>ag_ind_event := m', ag_io := removeAll tfd (tfd # ag_io ag),
    ag_sent := ag_sent ag @ [?resp, ?ind, Ric_Sub_Del_Resp \<lparr>sdresp_ric_id = sreq_ric_id sr\<rparr>]\<rparr>"
  have a3: "e2_event_loop_agent ?a2 (ag_fd ag)
      (SCTP_MSG_PAYLOAD info' (Ric_Sub_Del_Req \<lparr>sdr_ric_id = sreq_ric_id sr\<rparr>)) t3 x3 = Inr ?a3"
    using agent_message [OF ok2(1,2), of "Ric_Sub_Del_Req \<lparr>sdr_ric_id = sreq_ric_id sr\<rparr>" x3] m'(1)
    by (simp add: e2ap_msg_handle_agent_def check_valid_msg_type_agent_def
        e2ap_handle_subscription_delete_request_agent_def e2ap_send_bytes_agent_def)
  have ok3: "ag_ok ?a3"
    using m'(3) unfolding ag_ok_def quiet_def by simp
  show ?thesis
    by (intro exI conjI, rule a1, rule ok1(1), simp, simp, rule a2, rule ok2(1), simp, rule a3, rule ok3)
      (use m'(2) assms(6) in simp_all)
qed

text \<open>What the GTP service model makes of a request.\<close>

lemma gtp_indication:
  "on_indication_gtp_sm_ag cb now NULL_Ptr =
     Inr (map_option (\<lambda>m. \<lparr>sid_ind_hdr = le_bytes 4 (0 :: u32), sid_ind_msg = gtp_bytes m, sid_call_process_id = None\<rparr>)
           (cb now zero_gtp_ind_msg))"
  by (simp add: on_indication_gtp_sm_ag_def gtp_enc_ok gtp_enc_ind_hdr_plain_def split: option.split)

lemma gtp_event_trigger: "gtp_dec_event_trigger_plain (gtp_enc_event_trigger_plain ms) = Inr ms"
  by (simp add: gtp_dec_event_trigger_plain_def gtp_enc_event_trigger_plain_def copy_out_def)

lemma gtp_subs_served:
  assumes "(SM_GTP_ID, make_gtp_sm_agent cb) \<in> rb_set (ag_sm_ds ag)" "ran_func_id (sreq_ric_id sr) = SM_GTP_ID"
    and "sreq_action sr = [a]" "act_type a = RIC_ACT_REPORT"
    and "sreq_event_trigger sr = gtp_enc_event_trigger_plain ms" "ms < 10001"
  shows "subs_served ag sr (make_gtp_sm_agent cb) (PERIODIC_SUBSCRIPTION_FLRC (uint ms) NULL_Ptr)"
proof -
  have "uint ms < 10001"
    using assms(6) by (simp add: word_less_def)
  then show ?thesis
    using assms by (simp add: subs_served_def periodic_ok_def new_subs_def make_gtp_sm_agent_def
        on_subscription_gtp_sm_ag_def generate_sm_subs_data_def gtp_event_trigger gtp_indication)
qed

section \<open>Aperiodic events\<close>

lemma pop_ainds_ok:
  assumes "tsq_inv sizeof_aind_event q" "ring_room n (tsq_r q)" "ring_contents (tsq_r q) = evs"
  shows "\<exists>q'. pop_ainds (length evs) q = Inr (q', evs) \<and> tsq_inv sizeof_aind_event q' \<and>
     ring_room n (tsq_r q') \<and> ring_contents (tsq_r q') = []"
  using assms
proof (induction evs arbitrary: q)
  case Nil
  then show ?case
    by simp
next
  case (Cons e evs)
  obtain q1 where q1: "pop_tsq q sizeof_aind_event = Inr (q1, e)" "tsq_inv sizeof_aind_event q1"
    "ring_room n (tsq_r q1)" "ring_contents (tsq_r q1) = evs"
    using tsq.pop_law [OF Cons.prems] by (elim exE conjE)
  show ?case
    using Cons.IH [OF q1(2-4)] q1(1) by auto
qed

text \<open>The message after the handover information was written into the encoded bytes.\<close>

definition stamp_ho :: "gtp_ho_info_t \<Rightarrow> u8 list \<Rightarrow> u8 list" where
  "stamp_ho h bs = take 20 bs @ gtp_ho_bytes h @ drop 33 bs"

definition stamp_ngu :: "gtp_ho_info_t \<Rightarrow> gtp_ngu_t_stats_t \<Rightarrow> gtp_ngu_t_stats_t" where
  "stamp_ngu h s =
     s\<lparr>ue_context_rnti_t := ho_ue_id h,
       ue_context_mqr_rsrp := le_word (le_bytes 4 (ho_target_du h) @ [of_flag (ho_complete h)] @
         drop 5 (le_bytes 8 (ue_context_mqr_rsrp s)))\<rparr>"

lemma drop_stamp: "33 \<le> k \<Longrightarrow> 33 \<le> length bs \<Longrightarrow> drop k (stamp_ho h bs) = drop k bs"
  by (simp add: stamp_ho_def gtp_ho_bytes_def drop_Cons')

lemma length_stamp: "33 \<le> length bs \<Longrightarrow> length (stamp_ho h bs) = length bs"
  by (simp add: stamp_ho_def gtp_ho_bytes_def)

lemma count_stamp: "33 \<le> length bs \<Longrightarrow> gtp_count (stamp_ho h bs) = gtp_count bs"
  by (simp add: stamp_ho_def gtp_count_def)

lemma stamp_first:
  "gtp_ngu_of_bytes (take 48 (drop 4 (stamp_ho h (le_bytes 4 n @ gtp_ngu_bytes s @ rest)))) = stamp_ngu h s"
  by (simp add: stamp_ho_def gtp_ngu_bytes_def gtp_ho_bytes_def gtp_ngu_of_bytes_def stamp_ngu_def
      nth_append)

lemma stamp_dec:
  assumes "gtp_ngut m = s # ss" "length (gtp_ngut m) < 2 ^ 32"
  shows "gtp_dec_ind_msg_plain (stamp_ho h (gtp_bytes m)) = Inr (m\<lparr>gtp_ngut := stamp_ngu h s # ss\<rparr>)"
proof -
  let ?b = "gtp_bytes m" and ?c = "length (gtp_ngut m)"
  have l: "length ?b = 25 + 48 * ?c" "33 \<le> length ?b" "length ?b \<le> 2 ^ 63"
    using assms by (simp_all add: length_gtp_bytes)
  have "unat (of_nat ?c :: u32) = ?c"
    using assms(2) by (simp add: unsigned_of_nat take_bit_nat_eq_self)
  then have c: "gtp_count ?b = ?c"
    by (simp add: gtp_count_def gtp_bytes_def)
  have all: "[0..<?c] = 0 # map Suc [0..<length ss]"
    by (simp add: assms(1) upt_conv_Cons map_Suc_upt del: upt_Suc)
  have d: "m = \<lparr>gtp_ngut = map (\<lambda>i. gtp_ngu_of_bytes (take 48 (drop (4 + i * 48) ?b))) [0..<?c],
      gtp_tstamp = le_word (take 8 (drop (4 + ?c * 48) ?b)), gtp_ho_info = gtp_ho_of_bytes (drop (12 + ?c * 48) ?b)\<rparr>"
    using gtp_dec_cases [OF l(3)] gtp_dec_bytes [of m] assms l c by simp
  have t: "le_word (take 8 (drop (4 + ?c * 48) ?b)) = gtp_tstamp m" "gtp_ho_of_bytes (drop (12 + ?c * 48) ?b) = gtp_ho_info m"
    using arg_cong [OF d, of gtp_tstamp] arg_cong [OF d, of gtp_ho_info] by simp_all
  have ss: "ss = map (\<lambda>i. gtp_ngu_of_bytes (take 48 (drop (4 + Suc i * 48) ?b))) [0..<length ss]"
    using arg_cong [OF d, of gtp_ngut] assms(1) unfolding all by (simp add: o_def)
  have "gtp_ngu_of_bytes (take 48 (drop 4 (stamp_ho h ?b))) = stamp_ngu h s"
    using assms(1) by (simp add: gtp_bytes_def stamp_first)
  moreover have "map (\<lambda>i. gtp_ngu_of_bytes (take 48 (drop (4 + Suc i * 48) (stamp_ho h ?b)))) [0..<length ss] = ss"
    by (subst (2) ss) (simp add: drop_stamp [OF _ l(2)])
  ultimately show ?thesis
    using gtp_dec_cases [of "stamp_ho h ?b"] l c
    by (simp add: length_stamp count_stamp drop_stamp all o_def t)
qed

lemma stamp_extract:
  "gtp_ngut m \<noteq> [] \<Longrightarrow> extract_handover_info_ric (Some (stamp_ho h (gtp_bytes m))) = gtp_ho_info m"
  using extract_handover_bytes [of m] 
  by (cases "gtp_ngut m") (simp_all add: extract_handover_info_ric_def extract_handover_info_def length_stamp drop_stamp length_gtp_bytes)

text \<open>What the loop does with the event that a complete handover puts into the queue.\<close>

lemma ho_event_round:
  assumes "ag_ok ag" "\<not> ag_exited ag" "(SM_GTP_ID, make_gtp_sm_agent cb) \<in> rb_set (ag_sm_ds ag)" "0 < evt_sz"
  shows "\<exists>ag1 q. send_ho_completion_indication ag evt_sz = Inr ag1 \<and>
     e2_event_loop_agent ag1 (ag_pipe_r ag) msg now tfd =
       send_ainds now [\<lparr>ai_ric_id = \<lparr>ric_req_id = 0, ric_inst_id = 0, ran_func_id = SM_GTP_ID\<rparr>,
         ai_sm = make_gtp_sm_agent cb, ai_action_id = 0, ai_ind_data = Gtp_Ind_Data (Some zero_gtp_ind_msg)\<rparr>]
         (ag\<lparr>ag_aind := q, ag_pipe := evt_sz\<rparr>)"
proof -
  let ?e = "\<lparr>ai_ric_id = \<lparr>ric_req_id = 0, ric_inst_id = 0, ran_func_id = SM_GTP_ID\<rparr>,
    ai_sm = make_gtp_sm_agent cb, ai_action_id = 0, ai_ind_data = Gtp_Ind_Data (Some zero_gtp_ind_msg)\<rparr>"
  have sm: "sm_plugin_ag (ag_sm_ds ag) SM_GTP_ID = Inr (make_gtp_sm_agent cb)"
    using sm_plugin_ok [OF _ assms(3)] assms(1) by (simp add: ag_ok_def)
  have q: "tsq_inv sizeof_aind_event (ag_aind ag)" "ring_contents (tsq_r (ag_aind ag)) = []"
    "ring_room (Suc 0) (tsq_r (ag_aind ag))" "ag_pipe ag = 0"
    using assms(1) by (simp_all add: ag_ok_def quiet_def)
  obtain q1 where q1: "push_tsq (ag_aind ag) ?e sizeof_aind_event = Inr q1" "tsq_inv sizeof_aind_event q1"
    "ring_room 0 (tsq_r q1)" "ring_contents (tsq_r q1) = [?e]"
    using tsq.push_law [OF q(1,3), of ?e] q(2) by auto
  have sz: "size_tsq q1 = 1"
    using arg_cong [OF q1(4), of length] by (simp add: size_tsq_def)
  obtain q2 where q2: "pop_ainds 1 q1 = Inr (q2, [?e])"
    using pop_ainds_ok [OF q1(2-4)] by auto
  let ?a = "ag\<lparr>ag_aind := q1, ag_pipe := evt_sz\<rparr>"
  have "aind_event ?a = Inr (ag\<lparr>ag_aind := q2, ag_pipe := evt_sz\<rparr>, [?e])"
    using sz q2 by (simp add: aind_event_def)
  then have "e2_event_loop_agent ?a (ag_pipe_r ag) msg now tfd = send_ainds now [?e] (ag\<lparr>ag_aind := q2, ag_pipe := evt_sz\<rparr>)"
    using assms(1,2) by (simp add: e2_event_loop_agent_def next_async_event_agent_def net_pkt_def ag_ok_def)
  moreover have "send_ho_completion_indication ag evt_sz = Inr ?a"
    using sm q1(1) q(4) by (simp add: send_ho_completion_indication_def)
  ultimately show ?thesis
    by blast
qed

section \<open>Properties\<close>

text \<open>
  A subscription to the GTP service model with a granularity of up to ten seconds is
  answered, reports what the RAN measured when its timer fires, in bytes that decode to the very
  measurement, and is gone after its deletion: the table of subscriptions and the watched
  descriptors are those from before the request.
\<close>

theorem gtp_subscription_reports:
  assumes "ag_reach ag" "\<not> ag_exited ag" "(SM_GTP_ID, make_gtp_sm_agent cb) \<in> rb_set (ag_sm_ds ag)"
    and "sreq_ric_id sr \<notin> subscribed ag" "ran_func_id (sreq_ric_id sr) = SM_GTP_ID"
    and "sreq_action sr = [a]" "act_type a = RIC_ACT_REPORT"
    and "sreq_event_trigger sr = gtp_enc_event_trigger_plain ms" "ms < 10001"
    and "0 < tfd" "tfd \<notin> set (ag_io ag)"
    and "cb now zero_gtp_ind_msg = Some m" "length (gtp_ngut m) < 2 ^ 32"
  shows "\<exists>ag1 ag2 ag3 bs.
     e2_event_loop_agent ag (ag_fd ag) (SCTP_MSG_PAYLOAD info (Ric_Sub_Req sr)) t1 tfd = Inr ag1 \<and>
     set (ag_io ag1) = insert tfd (set (ag_io ag)) \<and>
     e2_event_loop_agent ag1 tfd msg now x2 = Inr ag2 \<and>
     e2_event_loop_agent ag2 (ag_fd ag) (SCTP_MSG_PAYLOAD info' (Ric_Sub_Del_Req \<lparr>sdr_ric_id = sreq_ric_id sr\<rparr>)) t3 x3
       = Inr ag3 \<and>
     ag_sent ag3 = ag_sent ag @
       [Ric_Sub_Resp \<lparr>sresp_ric_id = sreq_ric_id sr, sresp_admitted = [\<lparr>ric_act_id = act_id a\<rparr>], sresp_not_admitted = []\<rparr>,
        Ric_Ind \<lparr>ind_ric_id = sreq_ric_id sr, ind_action_id = act_id a, ind_sn = None, ind_type = RIC_IND_REPORT,
          ind_hdr = [0, 0, 0, 0], ind_msg = bs, ind_call_process_id = None\<rparr>,
        Ric_Sub_Del_Resp \<lparr>sdresp_ric_id = sreq_ric_id sr\<rparr>] \<and>
     gtp_dec_ind_msg_plain bs = Inr m \<and>
     bm_pairs (ag_ind_event ag3) = bm_pairs (ag_ind_event ag) \<and> set (ag_io ag3) = set (ag_io ag)"
proof -
  have z: "le_bytes 4 (0 :: u32) = [0, 0, 0, 0]"
    by (simp add: le_bytes_def upt_rec)
  have ind: "sma_on_indication (make_gtp_sm_agent cb) now NULL_Ptr =
      Inr (Some \<lparr>sid_ind_hdr = [0, 0, 0, 0], sid_ind_msg = gtp_bytes m, sid_call_process_id = None\<rparr>)"
    by (simp add: make_gtp_sm_agent_def gtp_indication assms(12) z)
  from agent_subscription_run [OF ag_reach_ok [OF assms(1)] assms(2) gtp_subs_served [OF assms(3,5-9)] assms(4,10,11)
      refl ind, of info t1 msg x2 info' t3 x3]
  obtain ag1 ag2 ag3 where
    r: "e2_event_loop_agent ag (ag_fd ag) (SCTP_MSG_PAYLOAD info (Ric_Sub_Req sr)) t1 tfd = Inr ag1"
    "set (ag_io ag1) = insert tfd (set (ag_io ag))" "e2_event_loop_agent ag1 tfd msg now x2 = Inr ag2"
    "e2_event_loop_agent ag2 (ag_fd ag) (SCTP_MSG_PAYLOAD info' (Ric_Sub_Del_Req \<lparr>sdr_ric_id = sreq_ric_id sr\<rparr>)) t3 x3
       = Inr ag3"
    "ag_sent ag3 = ag_sent ag @
       [Ric_Sub_Resp (generate_subscription_response (sreq_ric_id sr) (act_id (hd (sreq_action sr)))),
        Ric_Ind (generate_indication (sreq_ric_id sr) (act_id (hd (sreq_action sr)))
          \<lparr>sid_ind_hdr = [0, 0, 0, 0], sid_ind_msg = gtp_bytes m, sid_call_process_id = None\<rparr>),
        Ric_Sub_Del_Resp \<lparr>sdresp_ric_id = sreq_ric_id sr\<rparr>]"
    "bm_pairs (ag_ind_event ag3) = bm_pairs (ag_ind_event ag)" "set (ag_io ag3) = set (ag_io ag)"
    by (elim exE conjE)
  show ?thesis
    by (intro exI [of _ ag1] exI [of _ ag2] exI [of _ ag3] exI [of _ "gtp_bytes m"] conjI)
      (simp_all add: r assms(6) generate_subscription_response_def generate_indication_def
        gtp_dec_bytes [OF assms(13)])
qed

definition subs_gtp :: ric_subscription_request_t where
  "subs_gtp = \<lparr>sreq_ric_id = \<lparr>ric_req_id = 1021, ric_inst_id = 0, ran_func_id = 148\<rparr>,
     sreq_event_trigger = gtp_enc_event_trigger_plain 10,
     sreq_action = [\<lparr>act_id = 0, act_type = RIC_ACT_REPORT, act_definition = None, act_subseq_action = None\<rparr>]\<rparr>"

theorem gtp_subscription_reports_witness:
  "\<exists>ag ag1 ag2. ag_reach ag \<and>
     e2_event_loop_agent ag 4 (SCTP_MSG_PAYLOAD (peer 1) (Ric_Sub_Req subs_gtp)) 0 8 = Inr ag1 \<and>
     e2_event_loop_agent ag1 8 (SCTP_MSG_PAYLOAD (peer 1) no_msg) 0 9 = Inr ag2"
proof -
  obtain ag where ag: "ag_reach ag" "bm_pairs (ag_pending ag) = {(7, SETUP_REQUEST_PENDING_EVENT)}"
    "bm_pairs (ag_ind_event ag) = {}" "ag_fd ag = 4" "ag_pipe_r ag = 5" "ag_sm_ds ag = gtp_sm_ds" "\<not> ag_exited ag"
    using gtp_agent by blast
  have h: "(SM_GTP_ID, make_gtp_sm_agent gtp_ran) \<in> rb_set (ag_sm_ds ag)" "sreq_ric_id subs_gtp \<notin> subscribed ag"
    "8 \<notin> set (ag_io ag)"
    using ag_ok_io(3) [OF ag_reach_ok [OF ag(1)]] by (simp_all add: ag gtp_sm_ds_def SM_GTP_ID_def)
  have s: "ran_func_id (sreq_ric_id subs_gtp) = SM_GTP_ID"
    "sreq_action subs_gtp = [\<lparr>act_id = 0, act_type = RIC_ACT_REPORT, act_definition = None, act_subseq_action = None\<rparr>]"
    "act_type \<lparr>act_id = 0, act_type = RIC_ACT_REPORT, act_definition = None, act_subseq_action = None\<rparr> = RIC_ACT_REPORT"
    "sreq_event_trigger subs_gtp = gtp_enc_event_trigger_plain 10" "(10 :: u32) < 10001" "0 < (8 :: int)"
    "gtp_ran 0 zero_gtp_ind_msg = Some handover_1" "length (gtp_ngut handover_1) < 2 ^ 32"
    by (simp_all add: subs_gtp_def SM_GTP_ID_def gtp_ran_def handover_1_def)
  from gtp_subscription_reports [OF ag(1,7) h(1,2) s(1-6) h(3) s(7,8), of "peer 1" 0
      "SCTP_MSG_PAYLOAD (peer 1) no_msg" 9 "peer 1" 1 9]
  obtain ag1 ag2 where "e2_event_loop_agent ag 4 (SCTP_MSG_PAYLOAD (peer 1) (Ric_Sub_Req subs_gtp)) 0 8 = Inr ag1"
    "e2_event_loop_agent ag1 8 (SCTP_MSG_PAYLOAD (peer 1) no_msg) 0 9 = Inr ag2"
    unfolding ag(4) by (elim exE conjE)
  then show ?thesis
    using ag(1) by blast
qed

text \<open>
  C33.  A complete handover raises an indication.  If the measurement of the RAN names a UE, the
  loop sends one indication from whose last bytes the RIC reads the handover, and the process
  exits; but the handover is also written into the bytes of the first UE, so the measurement that
  the indication carries is not the one of the RAN.  If it names no UE, the handover is written
  past the end of the message.
\<close>

theorem handover_indication:
  assumes "ag_reach ag" "\<not> ag_exited ag" "(SM_GTP_ID, make_gtp_sm_agent cb) \<in> rb_set (ag_sm_ds ag)" "1 < evt_sz"
    and "cb now zero_gtp_ind_msg = Some m" "length (gtp_ngut m) < 2 ^ 32"
  shows "\<exists>ag1. send_ho_completion_indication ag evt_sz = Inr ag1 \<and>
     (case gtp_ngut m of
        [] \<Rightarrow> e2_event_loop_agent ag1 (ag_pipe_r ag) msg now tfd = Inl (Heap_Overflow ''msg->ho_info = ho_info'')
      | s # ss \<Rightarrow> \<exists>ag2 bs. e2_event_loop_agent ag1 (ag_pipe_r ag) msg now tfd = Inr ag2 \<and> ag_exited ag2 \<and>
          ag_sent ag2 = ag_sent ag @
            [Ric_Ind \<lparr>ind_ric_id = \<lparr>ric_req_id = 0, ric_inst_id = 0, ran_func_id = SM_GTP_ID\<rparr>, ind_action_id = 0,
              ind_sn = None, ind_type = RIC_IND_REPORT, ind_hdr = gtp_enc_ind_hdr_plain 0, ind_msg = bs,
              ind_call_process_id = None\<rparr>] \<and>
          extract_handover_info_ric (Some bs) = gtp_ho_info m \<and>
          gtp_dec_ind_msg_plain bs = Inr (m\<lparr>gtp_ngut := stamp_ngu (gtp_ho_info m) s # ss\<rparr>))"
proof -
  obtain ag1 q where r: "send_ho_completion_indication ag evt_sz = Inr ag1"
    "e2_event_loop_agent ag1 (ag_pipe_r ag) msg now tfd =
       send_ainds now [\<lparr>ai_ric_id = \<lparr>ric_req_id = 0, ric_inst_id = 0, ran_func_id = SM_GTP_ID\<rparr>,
         ai_sm = make_gtp_sm_agent cb, ai_action_id = 0, ai_ind_data = Gtp_Ind_Data (Some zero_gtp_ind_msg)\<rparr>]
         (ag\<lparr>ag_aind := q, ag_pipe := evt_sz\<rparr>)"
    using ho_event_round [OF ag_reach_ok [OF assms(1)] assms(2,3), of evt_sz msg now tfd] assms(4) by auto
  have ind: "sma_on_indication (make_gtp_sm_agent cb) now (Gtp_Ind_Data (Some zero_gtp_ind_msg)) =
      Inr (Some \<lparr>sid_ind_hdr = gtp_enc_ind_hdr_plain 0, sid_ind_msg = gtp_bytes m, sid_call_process_id = None\<rparr>)"
    using assms(5) by (simp add: make_gtp_sm_agent_def on_indication_gtp_sm_ag_def gtp_enc_ok)
  have ne: "gtp_bytes m \<noteq> []"
    using length_gtp_bytes [of m] by auto
  show ?thesis
  proof (cases "gtp_ngut m")
    case Nil
    then show ?thesis
      using r ind ne
      by (simp add: print_exp_indication_data_def offset_ho_info_def sizeof_gtp_ho_info_def length_gtp_bytes)
  next
    case (Cons s ss)
    then have l: "33 \<le> length (gtp_bytes m)"
      by (simp add: length_gtp_bytes)
    have min: "min 4 evt_sz \<noteq> Suc 0" "evt_sz \<noteq> 0"
      using assms(4) by auto
    show ?thesis
      using r(1) Cons
      by (simp add: r(2) ind ne l print_exp_indication_data_def offset_ho_info_def sizeof_gtp_ho_info_def
          extract_handover_bytes stamp_ho_def [symmetric] stamp_extract stamp_dec [OF Cons assms(6)]
          e2ap_send_bytes_agent_def generate_indication_def consume_aind_def consume_fd_async_def min Let_def)
  qed
qed

theorem handover_indication_witness:
  "\<exists>ag ag1 ag2. ag_reach ag \<and> send_ho_completion_indication ag 4 = Inr ag1 \<and>
     e2_event_loop_agent ag1 5 (SCTP_MSG_PAYLOAD (peer 1) no_msg) 0 9 = Inr ag2 \<and> ag_exited ag2"
proof -
  obtain ag where ag: "ag_reach ag" "ag_pipe_r ag = 5" "ag_sm_ds ag = gtp_sm_ds" "\<not> ag_exited ag"
    using gtp_agent by blast
  have h: "(SM_GTP_ID, make_gtp_sm_agent gtp_ran) \<in> rb_set (ag_sm_ds ag)"
    "gtp_ran 0 zero_gtp_ind_msg = Some handover_1" "length (gtp_ngut handover_1) < 2 ^ 32" "1 < (4 :: nat)"
    by (simp_all add: ag gtp_sm_ds_def SM_GTP_ID_def gtp_ran_def handover_1_def)
  show ?thesis
    using handover_indication [OF ag(1,4) h(1,4,2,3), of "SCTP_MSG_PAYLOAD (peer 1) no_msg" 9] ag(1,2)
    by (auto simp: handover_1_def)
qed

end
