(* ===== verification/Ric_Requests.thy ===== *)
theory Ric_Requests
  imports Ric_Laws
begin

text \<open>
  Properties of the requests of the near-RT RIC, of its own services (\<^verbatim>\<open>report_service_near_ric\<close>,
  \<^verbatim>\<open>rm_report_service_near_ric\<close>, \<^verbatim>\<open>control_service_near_ric\<close>) and of the ones it forwards for the
  iApp: their life cycle, the request ids they use, the suppression of repeated deletions, and
  what the timers of pending events do to the event loop and to the end of the process.
\<close>

section \<open>The requests\<close>

abbreviation sub_event :: "ric_gen_id_t \<Rightarrow> pending_event_ric_t" where
  "sub_event r \<equiv> \<lparr>per_ev = SUBSCRIPTION_REQUEST_PENDING_EVENT, per_id = r\<rparr>"

abbreviation del_event :: "ric_gen_id_t \<Rightarrow> pending_event_ric_t" where
  "del_event r \<equiv> \<lparr>per_ev = SUBSCRIPTION_DELETE_REQUEST_PENDING_EVENT, per_id = r\<rparr>"

abbreviation ctrl_event :: "ric_gen_id_t \<Rightarrow> pending_event_ric_t" where
  "ctrl_event r \<equiv> \<lparr>per_ev = CONTROL_REQUEST_PENDING_EVENT, per_id = r\<rparr>"

lemma requested_frame:
  "requested (ric\<lparr>nr_req_id := r\<rparr>) = requested ric"
  "requested (ric\<lparr>nr_last_req_id := l\<rparr>) = requested ric"
  by (intro ext; simp add: requested_def)+

lemma fwd_subscription_ok:
  assumes "nr_ok ric" "fresh_fd ric fd" "(nid, s) \<in> node_sockets ric" "plain_node nid"
    and "sub_event (sreq_ric_id sr) \<notin> snd ` pending_events ric"
  shows "\<exists>ric'. fwd_ric_subscription_request ric nid sr fd = Inr (ric', ucast (ric_req_id (sreq_ric_id sr))) \<and>
     requested ric fd (sub_event (sreq_ric_id sr)) s (Ric_Sub_Req sr) ric' \<and>
     nr_req_id ric' = ucast (ucast (ric_req_id (sreq_ric_id sr)) :: u16)"
proof -
  let ?o = "ucast (ric_req_id (sreq_ric_id sr)) :: u16"
  define ric1 where "ric1 = (if ?o > nr_last_req_id ric then ric\<lparr>nr_last_req_id := ?o\<rparr> else ric)
    \<lparr>nr_req_id := ucast ?o\<rparr>"
  have 1: "nr_ok ric1" "fresh_fd ric1 fd" "pending_events ric1 = pending_events ric"
    "node_sockets ric1 = node_sockets ric" "requested ric1 = requested ric" "nr_req_id ric1 = ucast ?o"
    using assms(1,2) by (auto simp: ric1_def requested_frame)
  obtain ric' where r: "bnd (insert_pending_event ric1 (sub_event (sreq_ric_id sr)) fd)
      (\<lambda>ric. e2ap_send_bytes_ric ric nid (Ric_Sub_Req sr)) = Inr ric'"
    "requested ric1 fd (sub_event (sreq_ric_id sr)) s (Ric_Sub_Req sr) ric'" "nr_req_id ric' = nr_req_id ric1"
    using request_ok [OF 1(1,2), of "sub_event (sreq_ric_id sr)" nid s "Ric_Sub_Req sr"] assms(3-5) 1(3,4) by auto
  have "fwd_ric_subscription_request ric nid sr fd =
      bnd (bnd (insert_pending_event ric1 (sub_event (sreq_ric_id sr)) fd)
        (\<lambda>ric. e2ap_send_bytes_ric ric nid (Ric_Sub_Req sr))) (\<lambda>ric. Inr (ric, ?o))"
    by (simp add: fwd_ric_subscription_request_def ric1_def Let_def bnd_assoc)
  then show ?thesis
    using r 1(5,6) by simp
qed

lemma fwd_delete_ok:
  assumes "nr_ok ric" "fresh_fd ric fd" "(nid, s) \<in> node_sockets ric" "plain_node nid"
    and "del_event (sdr_ric_id sdr) \<notin> snd ` pending_events ric"
  shows "\<exists>ric'. fwd_ric_subscription_request_delete ric nid sdr fd = Inr ric' \<and>
     requested ric fd (del_event (sdr_ric_id sdr)) s (Ric_Sub_Del_Req sdr) ric' \<and>
     nr_req_id ric' = nr_req_id ric"
proof -
  obtain it where "find_if_rb_tree (eq_pending_event_ric (del_event (sdr_ric_id sdr)))
      (assoc_rb_tree_front (bm_right (nr_pending ric))) = Inr it" "at_end it"
    using eq_pending_found [of "nr_pending ric" "del_event (sdr_ric_id sdr)"] assms(1,5) by (auto simp: nr_ok_def)
  then show ?thesis
    using request_ok [OF assms(1,2,5,3,4), of "Ric_Sub_Del_Req sdr"]
    by (auto simp: fwd_ric_subscription_request_delete_def)
qed

lemma fwd_delete_pending:
  assumes "nr_ok ric" "del_event (sdr_ric_id sdr) \<in> snd ` pending_events ric"
  shows "fwd_ric_subscription_request_delete ric nid sdr fd = Inr ric"
proof -
  obtain it where "find_if_rb_tree (eq_pending_event_ric (del_event (sdr_ric_id sdr)))
      (assoc_rb_tree_front (bm_right (nr_pending ric))) = Inr it" "\<not> at_end it"
    using eq_pending_found [of "nr_pending ric" "del_event (sdr_ric_id sdr)"] assms by (auto simp: nr_ok_def)
  then show ?thesis
    by (simp add: fwd_ric_subscription_request_delete_def)
qed

text \<open>The message a control request leaves with: the low half of its id is the new one.\<close>

definition relabel :: "u16 \<Rightarrow> ric_control_request_t \<Rightarrow> ric_control_request_t" where
  "relabel req_id cr =
     cr\<lparr>cr_ric_id := (cr_ric_id cr)\<lparr>ric_req_id :=
          push_bit 16 (drop_bit 16 (ric_req_id (cr_ric_id cr))) + ucast req_id\<rparr>\<rparr>"

lemma relabel_16:
  assumes "ric_req_id (cr_ric_id cr) < 2 ^ 16"
  shows "cr_ric_id (relabel q cr) = (cr_ric_id cr)\<lparr>ric_req_id := ucast q\<rparr>"
proof -
  have "ric_req_id (cr_ric_id cr) div 65536 = 0"
    using assms by (simp add: word_less_nat_alt word_arith_nat_div)
  then have "drop_bit 16 (ric_req_id (cr_ric_id cr)) = 0"
    by (simp add: drop_bit_eq_div)
  then show ?thesis
    by (simp add: relabel_def)
qed

lemma fwd_control_ok:
  assumes "nr_ok ric" "fresh_fd ric fd" "(nid, s) \<in> node_sockets ric" "plain_node nid"
    and "ctrl_event (cr_ric_id (relabel (ucast (nr_req_id ric)) cr)) \<notin> snd ` pending_events ric"
  shows "\<exists>ric'. fwd_ric_control_request ric nid cr fd =
       Inr (ric', relabel (ucast (nr_req_id ric)) cr, ucast (nr_req_id ric)) \<and>
     requested ric fd (ctrl_event (cr_ric_id (relabel (ucast (nr_req_id ric)) cr))) s
       (Ric_Ctrl_Req (relabel (ucast (nr_req_id ric)) cr)) ric' \<and>
     nr_req_id ric' = nr_req_id ric + 1"
proof -
  let ?cr = "relabel (ucast (nr_req_id ric)) cr"
  let ?ric = "ric\<lparr>nr_req_id := nr_req_id ric + 1\<rparr>"
  have 1: "nr_ok ?ric" "fresh_fd ?ric fd" "(nid, s) \<in> node_sockets ?ric"
    "ctrl_event (cr_ric_id ?cr) \<notin> snd ` pending_events ?ric"
    using assms by simp_all
  have "fwd_ric_control_request ric nid cr fd =
      bnd (bnd (insert_pending_event ?ric (ctrl_event (cr_ric_id ?cr)) fd)
        (\<lambda>ric. e2ap_send_bytes_ric ric nid (Ric_Ctrl_Req ?cr))) (\<lambda>r. Inr (r, ?cr, ucast (nr_req_id ric)))"
    by (simp add: fwd_ric_control_request_def Let_def bnd_assoc relabel_def)
  then show ?thesis
    using request_ok [OF 1(1,2,4,3) assms(4), of "Ric_Ctrl_Req ?cr"] by (auto simp: requested_frame)
qed

lemma report_service_ok:
  assumes "nr_ok ric" "fresh_fd ric fd" "(nid, s) \<in> node_sockets ric" "plain_node nid"
    and "(rfun, sm) \<in> rb_set (nr_sm_ds ric)" "rfun < 150"
  defines "r \<equiv> \<lparr>ric_req_id = nr_req_id ric, ric_inst_id = 0, ran_func_id = rfun\<rparr>"
  assumes "sub_event r \<notin> snd ` pending_events ric"
  shows "\<exists>ric'. report_service_near_ric ric nid rfun cmd fd = Inr (ric', ucast (nr_req_id ric)) \<and>
     requested ric fd (sub_event r) s (Ric_Sub_Req \<lparr>sreq_ric_id = r,
       sreq_event_trigger = sub_event_trigger (on_subscription sm cmd),
       sreq_action = [\<lparr>act_id = 0, act_type = RIC_ACT_REPORT,
         act_definition = sub_action_def (on_subscription sm cmd), act_subseq_action = None\<rparr>]\<rparr>) ric' \<and>
     nr_req_id ric' = nr_req_id ric + 1"
proof -
  let ?ric = "ric\<lparr>nr_req_id := nr_req_id ric + 1\<rparr>"
  let ?m = "Ric_Sub_Req \<lparr>sreq_ric_id = r, sreq_event_trigger = sub_event_trigger (on_subscription sm cmd),
       sreq_action = [\<lparr>act_id = 0, act_type = RIC_ACT_REPORT,
         act_definition = sub_action_def (on_subscription sm cmd), act_subseq_action = None\<rparr>]\<rparr>"
  have 1: "nr_ok ?ric" "fresh_fd ?ric fd" "(nid, s) \<in> node_sockets ?ric" "sub_event r \<notin> snd ` pending_events ?ric"
    using assms by simp_all
  have sm: "sm_plugin_ric (nr_sm_ds ric) rfun = Inr sm" "rfun \<noteq> 0"
    using lookup_sm_ok [OF _ assms(5)] assms(1,5) by (auto simp: nr_ok_def sm_ds_ok_def)
  have "report_service_near_ric ric nid rfun cmd fd =
      bnd (bnd (insert_pending_event ?ric (sub_event r) fd) (\<lambda>ric. e2ap_send_bytes_ric ric nid ?m))
        (\<lambda>x. Inr (x, ucast (nr_req_id ric)))"
    using sm assms(6)
    by (simp add: report_service_near_ric_def generate_subscription_request_def Let_def bnd_assoc r_def)
  then show ?thesis
    using request_ok [OF 1(1,2,4,3) assms(4), of ?m] by (auto simp: requested_frame)
qed

lemma control_service_ok:
  assumes "nr_ok ric" "fresh_fd ric fd" "(nid, s) \<in> node_sockets ric" "plain_node nid"
    and "(rfun, sm) \<in> rb_set (nr_sm_ds ric)" "rfun \<in> {3, 145, 146}"
  defines "r \<equiv> \<lparr>ric_req_id = nr_req_id ric, ric_inst_id = 0, ran_func_id = rfun\<rparr>"
  assumes "ctrl_event r \<notin> snd ` pending_events ric"
  shows "\<exists>ric'. control_service_near_ric ric nid rfun ctrl fd = Inr ric' \<and>
     requested ric fd (ctrl_event r) s (Ric_Ctrl_Req \<lparr>cr_ric_id = r, cr_call_process_id = None,
       cr_hdr = ctrl_hdr (on_control_req sm ctrl), cr_msg = ctrl_msg (on_control_req sm ctrl),
       cr_ack_req = Some RIC_CONTROL_REQUEST_ACK\<rparr>) ric' \<and>
     nr_req_id ric' = nr_req_id ric + 1"
proof -
  let ?ric = "ric\<lparr>nr_req_id := nr_req_id ric + 1\<rparr>"
  let ?m = "Ric_Ctrl_Req \<lparr>cr_ric_id = r, cr_call_process_id = None,
       cr_hdr = ctrl_hdr (on_control_req sm ctrl), cr_msg = ctrl_msg (on_control_req sm ctrl),
       cr_ack_req = Some RIC_CONTROL_REQUEST_ACK\<rparr>"
  have 1: "nr_ok ?ric" "fresh_fd ?ric fd" "(nid, s) \<in> node_sockets ?ric" "ctrl_event r \<notin> snd ` pending_events ?ric"
    using assms by simp_all
  have sm: "sm_plugin_ric (nr_sm_ds ric) rfun = Inr sm" "rfun > 0" "sm_ran_func_id sm = rfun"
    using lookup_sm_ok [OF _ assms(5)] assms(1,5) by (auto simp: nr_ok_def sm_ds_ok_def word_gt_0)
  have "control_service_near_ric ric nid rfun ctrl fd =
      bnd (insert_pending_event ?ric (ctrl_event r) fd) (\<lambda>ric. e2ap_send_bytes_ric ric nid ?m)"
    using sm assms(6)
    by (auto simp: control_service_near_ric_def generate_control_request_def Let_def r_def)
  then show ?thesis
    using request_ok [OF 1(1,2,4,3) assms(4), of ?m] by (auto simp: requested_frame)
qed

section \<open>An example\<close>

definition tc_sm :: sm_ric_t where
  "tc_sm = \<lparr>on_subscription = (\<lambda>c. \<lparr>sub_event_trigger = c, sub_action_def = None\<rparr>),
     on_indication = (\<lambda>d. \<lparr>rd_type = TC_STATS_V0, rd_values = sid_ind_msg d\<rparr>),
     on_control_req = (\<lambda>c. \<lparr>ctrl_hdr = [], ctrl_msg = c\<rparr>), sm_ran_func_id = 146\<rparr>"

definition tc_sm_ds :: "(u16, sm_ric_t) assoc_rb_tree_t" where
  "tc_sm_ds = \<lparr>rb_root = Node ASSOC_BLACK 146 tc_sm Dummy Dummy, rb_comp = cmp_ran_func_id, rb_size = 1,
     rb_key_sz = sizeof_uint16, rb_free = None\<rparr>"

lemma tc_sm_ds_ok: "sm_ds_ok tc_sm_ds" "rb_set tc_sm_ds = {(146, tc_sm)}"
  by (simp_all add: tc_sm_ds_def sm_ds_ok_def rb_inv_def rb_uniq_def rb_ok_def tc_sm_def)

lemma near_ric_with:
  assumes "e2_sad_ok m"
  shows "\<exists>ric. nr_ok ric \<and> nr_e2_nodes ric = m \<and> pending_events ric = {} \<and>
     nr_io ric = [5] \<and> nr_fd ric = 5 \<and> nr_req_id ric = 0 \<and> nr_sm_ds ric = tc_sm_ds \<and> nr_sent ric = [] \<and>
     nr_conn_e2_nodes ric = init_e2_nodes_ric \<and> nr_tasks ric = []"
proof -
  obtain p where p: "pending_ok p" "bm_pairs p = {}"
    using init_pending_events_ok by blast
  let ?ric = "\<lparr>nr_fd = 5, nr_e2_nodes = m, nr_io = [5], nr_sm_ds = tc_sm_ds,
    nr_pub_sub = \<lparr>rb_root = Dummy, rb_comp = cmp_ran_func_id, rb_size = 0, rb_key_sz = 2, rb_free = None\<rparr>,
    nr_conn_e2_nodes = init_e2_nodes_ric, nr_req_id = 0, nr_last_req_id = 0, nr_pending = p, nr_tasks = [],
    nr_sent = [], nr_published = [], nr_consumed = []\<rparr>"
  have "sa_inv init_e2_nodes_ric"
    unfolding init_e2_nodes_ric_def by (rule sa_inv_init [THEN conjunct1]) (simp add: sizeof_e2_node_def)
  moreover have "sa_elt_size init_e2_nodes_ric = sizeof_e2_node"
    by (simp add: init_e2_nodes_ric_def seq_arr_init_def)
  ultimately have "nr_ok ?ric"
    using assms p tc_sm_ds_ok(1) by (simp add: nr_ok_def)
  then show ?thesis
    using p(2) by (intro exI [of _ ?ric]) simp
qed

lemma near_ric_example:
  "\<exists>ric. nr_ok ric \<and> node_sockets ric = {(node_gnb, peer 5000)} \<and> pending_events ric = {} \<and>
     nr_io ric = [5] \<and> nr_fd ric = 5 \<and> nr_req_id ric = 0 \<and> nr_sm_ds ric = tc_sm_ds \<and> nr_sent ric = []"
proof -
  obtain m0 where m0: "e2_sad_ok m0" "bm_pairs m0 = {}"
    using init_map_e2_node_sad_ok by blast
  obtain m where m: "e2_sad_ok m" "bm_pairs m = {(node_gnb, peer 5000)}"
    using add_map_e2_node_sad_ok [OF m0(1), of node_gnb "peer 5000"] m0(2)
    by (auto simp: node_gnb_def valid_node_id_def NODE_IS_CU_def NODE_IS_DU_def)
  then show ?thesis
    using near_ric_with [OF m(1)] by auto
qed

lemma node_gnb_plain: "plain_node node_gnb"
  by (simp add: node_gnb_def plain_node_def NODE_IS_CU_def)

definition subscribe_5 :: ric_subscription_request_t where
  "subscribe_5 = \<lparr>sreq_ric_id = \<lparr>ric_req_id = 5, ric_inst_id = 0, ran_func_id = 146\<rparr>,
     sreq_event_trigger = [1], sreq_action = []\<rparr>"

definition control_1 :: ric_control_request_t where
  "control_1 = \<lparr>cr_ric_id = \<lparr>ric_req_id = 1, ric_inst_id = 0, ran_func_id = 146\<rparr>,
     cr_call_process_id = None, cr_hdr = [], cr_msg = [1], cr_ack_req = None\<rparr>"

section \<open>Properties of the requests\<close>

text \<open>
  The life cycle of a subscription that the RIC forwards: it sends the request to the
  socket of the E2 node, keeps the request id of the xApp, and waits with a watched timer; the
  response removes exactly this pending event and stops watching its timer; a second response
  to the same request ends the process.
\<close>

theorem fwd_subscription_lifecycle:
  assumes "nr_ok ric" "fresh_fd ric fd" "(nid, s) \<in> node_sockets ric" "plain_node nid"
    and "sub_event (sreq_ric_id sr) \<notin> snd ` pending_events ric"
  shows "\<exists>ric1 ric2.
     fwd_ric_subscription_request ric nid sr fd = Inr (ric1, ucast (ric_req_id (sreq_ric_id sr))) \<and>
     requested ric fd (sub_event (sreq_ric_id sr)) s (Ric_Sub_Req sr) ric1 \<and>
     stop_pending_event ric1 (sub_event (sreq_ric_id sr)) = Inr ric2 \<and> nr_ok ric2 \<and>
     pending_events ric2 = pending_events ric \<and> set (nr_io ric2) = set (nr_io ric) \<and>
     stop_pending_event ric2 (sub_event (sreq_ric_id sr)) =
       Inl (Assertion ''Trying to extract a key not found in the tree'')"
proof -
  obtain ric1 where 1: "fwd_ric_subscription_request ric nid sr fd = Inr (ric1, ucast (ric_req_id (sreq_ric_id sr)))"
    "requested ric fd (sub_event (sreq_ric_id sr)) s (Ric_Sub_Req sr) ric1"
    using fwd_subscription_ok [OF assms] by blast
  obtain ric2 where 2: "stop_pending_event ric1 (sub_event (sreq_ric_id sr)) = Inr ric2" "nr_ok ric2"
    "pending_events ric2 = pending_events ric" "set (nr_io ric2) = set (nr_io ric)"
    using requested_stop [OF 1(2) assms(2,5)] by blast
  then show ?thesis
    using 1 stop_pending_missing [OF 2(2)] assms(5) by auto
qed

theorem fwd_subscription_lifecycle_witness:
  "\<exists>ric ric1 ric2. fwd_ric_subscription_request ric node_gnb subscribe_5 9 = Inr (ric1, 5) \<and>
     nr_sent ric1 = [(peer 5000, Ric_Sub_Req subscribe_5)] \<and>
     stop_pending_event ric1 (sub_event (sreq_ric_id subscribe_5)) = Inr ric2 \<and> pending_events ric2 = {}"
proof -
  obtain ric where r: "nr_ok ric" "node_sockets ric = {(node_gnb, peer 5000)}" "pending_events ric = {}"
    "nr_io ric = [5]" "nr_sent ric = []"
    using near_ric_example by blast
  have f: "fresh_fd ric 9" "(node_gnb, peer 5000) \<in> node_sockets ric"
    "sub_event (sreq_ric_id subscribe_5) \<notin> snd ` pending_events ric"
    using r by (simp_all add: fresh_fd_def)
  show ?thesis
    using fwd_subscription_lifecycle [OF r(1) f(1,2) node_gnb_plain f(3)] r(3,5)
    by (auto simp: requested_def subscribe_5_def)
qed

text \<open>
  A deletion is sent once: while the deletion of a subscription is pending, asking for it
  again changes nothing and sends nothing.
\<close>

theorem fwd_delete_once:
  assumes "nr_ok ric" "fresh_fd ric fd" "(nid, s) \<in> node_sockets ric" "plain_node nid"
    and "del_event (sdr_ric_id sdr) \<notin> snd ` pending_events ric"
  shows "\<exists>ric1. fwd_ric_subscription_request_delete ric nid sdr fd = Inr ric1 \<and>
     requested ric fd (del_event (sdr_ric_id sdr)) s (Ric_Sub_Del_Req sdr) ric1 \<and>
     fwd_ric_subscription_request_delete ric1 nid sdr fd2 = Inr ric1"
proof -
  obtain ric1 where 1: "fwd_ric_subscription_request_delete ric nid sdr fd = Inr ric1"
    "requested ric fd (del_event (sdr_ric_id sdr)) s (Ric_Sub_Del_Req sdr) ric1"
    using fwd_delete_ok [OF assms] by blast
  then have "nr_ok ric1" "del_event (sdr_ric_id sdr) \<in> snd ` pending_events ric1"
    by (auto simp: requested_def)
  then show ?thesis
    using 1 fwd_delete_pending by blast
qed

theorem fwd_delete_once_witness:
  "\<exists>ric ric1. let sdr = \<lparr>sdr_ric_id = sreq_ric_id subscribe_5\<rparr> in
     fwd_ric_subscription_request_delete ric node_gnb sdr 9 = Inr ric1 \<and>
     nr_sent ric1 = [(peer 5000, Ric_Sub_Del_Req sdr)] \<and>
     fwd_ric_subscription_request_delete ric1 node_gnb sdr 10 = Inr ric1"
proof -
  obtain ric where r: "nr_ok ric" "node_sockets ric = {(node_gnb, peer 5000)}" "pending_events ric = {}"
    "nr_io ric = [5]" "nr_sent ric = []"
    using near_ric_example by blast
  have f: "fresh_fd ric 9" "(node_gnb, peer 5000) \<in> node_sockets ric"
    "del_event (sdr_ric_id \<lparr>sdr_ric_id = sreq_ric_id subscribe_5\<rparr>) \<notin> snd ` pending_events ric"
    using r by (simp_all add: fresh_fd_def)
  show ?thesis
    using fwd_delete_once [OF r(1) f(1,2) node_gnb_plain f(3), of 10] r(5)
    by (auto simp: requested_def Let_def)
qed

text \<open>
  Request ids are reused: the counter is set to the id of a forwarded subscription, so the
  control request that follows it is sent with the request id of that subscription, while the
  subscription is still pending.
\<close>

theorem control_reuses_subscription_id:
  assumes "nr_ok ric" "fresh_fd ric fd" "fresh_fd ric fd2" "fd \<noteq> fd2"
    and "(nid, s) \<in> node_sockets ric" "plain_node nid" "pending_events ric = {}"
    and "ric_req_id (sreq_ric_id sr) < 2 ^ 16" "ric_req_id (cr_ric_id cr) < 2 ^ 16"
  shows "\<exists>ric1 ric2 cr'.
     fwd_ric_subscription_request ric nid sr fd = Inr (ric1, ucast (ric_req_id (sreq_ric_id sr))) \<and>
     fwd_ric_control_request ric1 nid cr fd2 = Inr (ric2, cr', ucast (ric_req_id (sreq_ric_id sr))) \<and>
     ric_req_id (cr_ric_id cr') = ric_req_id (sreq_ric_id sr) \<and>
     pending_events ric2 = {(fd, sub_event (sreq_ric_id sr)), (fd2, ctrl_event (cr_ric_id cr'))}"
proof -
  have e: "sub_event (sreq_ric_id sr) \<notin> snd ` pending_events ric"
    using assms(7) by simp
  obtain ric1 where 1: "fwd_ric_subscription_request ric nid sr fd = Inr (ric1, ucast (ric_req_id (sreq_ric_id sr)))"
    "requested ric fd (sub_event (sreq_ric_id sr)) s (Ric_Sub_Req sr) ric1"
    "nr_req_id ric1 = ric_req_id (sreq_ric_id sr)"
    using fwd_subscription_ok [OF assms(1,2,5,6) e] ucast_16 [OF assms(8)] by auto
  let ?q = "ucast (ric_req_id (sreq_ric_id sr)) :: u16"
  have f: "nr_ok ric1" "fresh_fd ric1 fd2" "(nid, s) \<in> node_sockets ric1"
    "ctrl_event (cr_ric_id (relabel (ucast (nr_req_id ric1)) cr)) \<notin> snd ` pending_events ric1"
    using 1(2) assms(3-5,7) by (auto simp: requested_def fresh_fd_def)
  obtain ric2 where 2: "fwd_ric_control_request ric1 nid cr fd2 = Inr (ric2, relabel ?q cr, ?q)"
    "requested ric1 fd2 (ctrl_event (cr_ric_id (relabel ?q cr))) s (Ric_Ctrl_Req (relabel ?q cr)) ric2"
    using fwd_control_ok [OF f(1-3) assms(6) f(4)] 1(3) by auto
  have "ric_req_id (cr_ric_id (relabel ?q cr)) = ric_req_id (sreq_ric_id sr)"
    using relabel_16 [OF assms(9)] ucast_16 [OF assms(8)] by simp
  moreover have "pending_events ric2 = {(fd, sub_event (sreq_ric_id sr)), (fd2, ctrl_event (cr_ric_id (relabel ?q cr)))}"
    using 1(2) 2(2) assms(7) by (auto simp: requested_def)
  ultimately show ?thesis
    using 1(1) 2(1) by blast
qed

theorem control_reuses_subscription_id_witness:
  "\<exists>ric ric1 ric2 cr'. fwd_ric_subscription_request ric node_gnb subscribe_5 9 = Inr (ric1, 5) \<and>
     fwd_ric_control_request ric1 node_gnb control_1 10 = Inr (ric2, cr', 5)"
proof -
  obtain ric where r: "nr_ok ric" "node_sockets ric = {(node_gnb, peer 5000)}" "pending_events ric = {}"
    "nr_io ric = [5]"
    using near_ric_example by blast
  have f: "fresh_fd ric 9" "fresh_fd ric 10" "(9 :: int) \<noteq> 10" "(node_gnb, peer 5000) \<in> node_sockets ric"
    "ric_req_id (sreq_ric_id subscribe_5) < 2 ^ 16" "ric_req_id (cr_ric_id control_1) < 2 ^ 16"
    using r by (simp_all add: fresh_fd_def subscribe_5_def control_1_def)
  show ?thesis
    using control_reuses_subscription_id [OF r(1) f(1-4) node_gnb_plain r(3) f(5,6)]
    by (auto simp: subscribe_5_def)
qed

end
