(* ===== verification/Iapp_Request.thy ===== *)
theory Iapp_Request
  imports Ric_Handlers
begin

text \<open>
  The iApp, second part: what the xApps ask of it (the \<^verbatim>\<open>E42\<close> handlers of
  \<^verbatim>\<open>ric/iApp/msg_handler_iapp.c\<close>), the dispatch of its messages and its event loop
  (\<^verbatim>\<open>ric/iApp/e42_iapp.c\<close>).  The requests are passed on to the near-RT RIC, so a handler takes
  and returns the states of both.

  \<open>os\<close> is the operating system: the descriptor that \<^verbatim>\<open>timerfd_create\<close> returns to the RIC in a
  given state.  A handler of a request runs as one step; its only interleaving with the RIC
  that the code itself provides for is the lock of the request table, which is modelled.
\<close>

type_synonym os_timer = "near_ric_t \<Rightarrow> int"

section \<open>Setup of an xApp\<close>

definition generate_setup_response ::
  "e42_iapp_t \<Rightarrow> e42_setup_request_t \<Rightarrow> (e42_iapp_t \<times> e42_setup_response_t) res" where
  "generate_setup_response iapp req =
     chk (length (e42_ran_func_item req) > 0) ''len_rf > 0'' (
     bnd (generate_e2_node_arr (ia_e2_nodes iapp)) (\<lambda>ans.
     Inr (iapp\<lparr>ia_xapp_id := ia_xapp_id iapp + 1\<rparr>,
          \<lparr>e42r_xapp_id = ucast (ia_xapp_id iapp), e42r_nodes = ans\<rparr>)))"

definition e2ap_handle_e42_setup_request_iapp ::
  "ric_iapp \<Rightarrow> e42_setup_request_t \<Rightarrow> (ric_iapp \<times> e2ap_msg_t) res" where
  "e2ap_handle_e42_setup_request_iapp st req =
     bnd (generate_setup_response (snd st) req) (\<lambda>(iapp, resp).
     Inr ((fst st, iapp), E42_Stp_Resp resp))"

section \<open>Requests of an xApp\<close>

definition valid_xapp_id :: "e42_iapp_t \<Rightarrow> u32 \<Rightarrow> bool res" where
  "valid_xapp_id iapp xapp_id =
     chk (xapp_id < push_bit 16 1) ''xapp_id < 1 << 16'' (Inr (xapp_id \<le> ia_xapp_id iapp))"

definition valid_global_e2_node :: "e42_iapp_t \<Rightarrow> global_e2_node_id_t \<Rightarrow> bool res" where
  "valid_global_e2_node iapp nid =
     bnd (generate_e2_node_arr (ia_e2_nodes iapp)) (\<lambda>nodes.
     bnd (find_res (\<lambda>n. eq_global_e2_node_id (con_id n) nid) nodes) (\<lambda>r.
     Inr (r \<noteq> None)))"

text \<open>The binding is inserted directly, under the lock of the table.\<close>

definition e2ap_handle_e42_ric_subscription_request_iapp ::
  "os_timer \<Rightarrow> ric_iapp \<Rightarrow> e42_ric_subscription_request_t \<Rightarrow> (ric_iapp \<times> e2ap_msg_t) res" where
  "e2ap_handle_e42_ric_subscription_request_iapp os st e42_sr =
     (case st of (ric, iapp) \<Rightarrow>
      bnd (valid_xapp_id iapp (ucast (e42s_xapp_id e42_sr))) (\<lambda>valid.
      if \<not> valid then Inr (st, no_msg) else
      bnd (find_map_xapps_sad (ia_xapps iapp) (e42s_xapp_id e42_sr)) (\<lambda>info.
      if sin_port info = 0 then Inr (st, no_msg) else
      bnd (fwd_ric_subscription_request ric (e42s_id e42_sr) (e42s_sr e42_sr) (os ric)) (\<lambda>(ric, new_ric_id).
      if new_ric_id = 0 then Inr ((ric, iapp), no_msg) else
      bnd (register_subscription (ia_subscription_registry iapp) (ucast (e42s_xapp_id e42_sr))
             (ran_func_id (sreq_ric_id (e42s_sr e42_sr))) new_ric_id) (\<lambda>(registry, reg_success).
      let iapp = iapp\<lparr>ia_subscription_registry := registry\<rparr> in
      if \<not> reg_success then Inr ((ric, iapp), no_msg) else
      let rid = (sreq_ric_id (e42s_sr e42_sr))\<lparr>ric_req_id := ucast new_ric_id\<rparr>;
          node = \<lparr>en_e2_node_id = cp_global_e2_node_id (e42s_id e42_sr), en_ric_id = rid,
                  en_ric_req_type = SUBSCRIPTION_RIC_REQUEST_TYPE\<rparr>;
          xapp_ric_id = \<lparr>xr_ric_id = rid, xr_xapp_id = e42s_xapp_id e42_sr\<rparr>
      in bnd (bi_map_insert (mr_bimap (ia_map_ric_id iapp)) node sizeof_e2_node_ric_id
                xapp_ric_id sizeof_xapp_ric_id) (\<lambda>bm.
         Inr ((ric, iapp\<lparr>ia_map_ric_id := (ia_map_ric_id iapp)\<lparr>mr_bimap := bm, mr_wrlocked := False\<rparr>\<rparr>),
              no_msg)))))))"

definition e2ap_handle_e42_ric_subscription_delete_request_iapp ::
  "os_timer \<Rightarrow> ric_iapp \<Rightarrow> e42_ric_subscription_delete_request_t \<Rightarrow> (ric_iapp \<times> e2ap_msg_t) res" where
  "e2ap_handle_e42_ric_subscription_delete_request_iapp os st src =
     (case st of (ric, iapp) \<Rightarrow>
      let x = \<lparr>xr_ric_id = sdr_ric_id (e42d_sdr src), xr_xapp_id = e42d_xapp_id src\<rparr> in
      bnd (find_ric_req_map_ric_id (ia_map_ric_id iapp) x) (\<lambda>n.
      chk (en_ric_req_type n = SUBSCRIPTION_RIC_REQUEST_TYPE)
        ''n.ric_req_type == SUBSCRIPTION_RIC_REQUEST_TYPE'' (
      let dst = cp_ric_subscription_delete_request (e42d_sdr src);
          dst = dst\<lparr>sdr_ric_id := (sdr_ric_id dst)\<lparr>ric_req_id := ric_req_id (en_ric_id n)\<rparr>\<rparr>
      in bnd (fwd_ric_subscription_request_delete ric (en_e2_node_id n) dst (os ric)) (\<lambda>ric.
         Inr ((ric, iapp), no_msg)))))"

text \<open>
  The lock of the table is held while the request is forwarded and while the binding is added,
  and \<^verbatim>\<open>add_map_ric_id\<close> takes it again.
\<close>

definition e2ap_handle_e42_ric_control_request_iapp ::
  "os_timer \<Rightarrow> ric_iapp \<Rightarrow> e42_ric_control_request_t \<Rightarrow> (ric_iapp \<times> e2ap_msg_t) res" where
  "e2ap_handle_e42_ric_control_request_iapp os st e42_cr =
     (case st of (ric, iapp) \<Rightarrow>
      bnd (valid_xapp_id iapp (ucast (e42c_xapp_id e42_cr))) (\<lambda>valid.
      chk valid ''valid_xapp_id(iapp, e42_cr->xapp_id) == true'' (
      bnd (valid_global_e2_node iapp (e42c_id e42_cr)) (\<lambda>valid.
      chk valid ''valid_global_e2_node(iapp, &e42_cr->id)'' (
      let xapp_ric_id = \<lparr>xr_ric_id = cr_ric_id (e42c_ctrl_req e42_cr), xr_xapp_id = e42c_xapp_id e42_cr\<rparr> in
      chk (\<not> mr_wrlocked (ia_map_ric_id iapp)) ''rc == 0'' (
      let ids = (ia_map_ric_id iapp)\<lparr>mr_wrlocked := True\<rparr> in
      bnd (fwd_ric_control_request ric (e42c_id e42_cr) (e42c_ctrl_req e42_cr) (os ric)) (\<lambda>(ric, cr, new_ric_id).
      let n = \<lparr>en_e2_node_id = cp_global_e2_node_id (e42c_id e42_cr),
               en_ric_id = (cr_ric_id cr)\<lparr>ric_req_id := ucast new_ric_id\<rparr>,
               en_ric_req_type = CONTROL_RIC_REQUEST_TYPE\<rparr>
      in bnd (add_map_ric_id ids n xapp_ric_id) (\<lambda>ids.
         Inr ((ric, iapp\<lparr>ia_map_ric_id := ids\<lparr>mr_wrlocked := False\<rparr>\<rparr>), no_msg)))))))))"

section \<open>Dispatch\<close>

definition check_valid_msg_type_iapp :: "e2_msg_type_t \<Rightarrow> bool" where
  "check_valid_msg_type_iapp t \<longleftrightarrow>
     t = RIC_SUBSCRIPTION_RESPONSE \<or> t = E42_SETUP_REQUEST \<or> t = E42_RIC_SUBSCRIPTION_REQUEST
     \<or> t = E42_RIC_SUBSCRIPTION_DELETE_REQUEST \<or> t = E42_RIC_CONTROL_REQUEST
     \<or> t = RIC_CONTROL_ACKNOWLEDGE \<or> t = RIC_INDICATION \<or> t = RIC_SUBSCRIPTION_DELETE_RESPONSE"

text \<open>The handlers of the messages of the E2 nodes change the iApp only and answer nothing.\<close>

abbreviation answer_none :: "near_ric_t \<Rightarrow> e42_iapp_t res \<Rightarrow> (ric_iapp \<times> e2ap_msg_t) res" where
  "answer_none ric r \<equiv> bnd r (\<lambda>iapp. Inr ((ric, iapp), no_msg))"

definition e2ap_msg_handle_iapp ::
  "os_timer \<Rightarrow> ric_iapp \<Rightarrow> e2ap_msg_t \<Rightarrow> (ric_iapp \<times> e2ap_msg_t) res" where
  "e2ap_msg_handle_iapp os st msg =
     chk (check_valid_msg_type_iapp (msg_type msg)) ''check_valid_msg_type(msg_type) == true'' (
     case msg of
       Ric_Sub_Resp r \<Rightarrow> answer_none (fst st) (e2ap_handle_subscription_response_iapp (snd st) r)
     | E42_Stp_Req r \<Rightarrow> e2ap_handle_e42_setup_request_iapp st r
     | E42_Ric_Sub_Req r \<Rightarrow> e2ap_handle_e42_ric_subscription_request_iapp os st r
     | E42_Ric_Sub_Del_Req r \<Rightarrow> e2ap_handle_e42_ric_subscription_delete_request_iapp os st r
     | E42_Ric_Ctrl_Req r \<Rightarrow> e2ap_handle_e42_ric_control_request_iapp os st r
     | Ric_Ctrl_Ack r \<Rightarrow> answer_none (fst st) (e2ap_handle_e42_ric_control_ack_iapp (snd st) r)
     | Ric_Ind r \<Rightarrow> answer_none (fst st) (e2ap_handle_ric_indication_iapp (snd st) r)
     | Ric_Sub_Del_Resp r \<Rightarrow> answer_none (fst st) (e2ap_handle_subscription_delete_response_iapp (snd st) r)
     | _ \<Rightarrow> Inl (Null_Deref ''iapp->handle_msg[msg_type]''))"

section \<open>End of an xApp\<close>

text \<open>Every subscription of the xApp is deleted at its E2 node.\<close>

definition gen_e2ap_subs_delete :: "os_timer \<Rightarrow> e2_node_ric_id_t \<Rightarrow> near_ric_t \<Rightarrow> near_ric_t res" where
  "gen_e2ap_subs_delete os n ric =
     fwd_ric_subscription_request_delete ric (en_e2_node_id n) \<lparr>sdr_ric_id = en_ric_id n\<rparr> (os ric)"

definition rm_if_pending_subs :: "os_timer \<Rightarrow> ric_iapp \<Rightarrow> u16 \<Rightarrow> ric_iapp res" where
  "rm_if_pending_subs os st xapp_id =
     (case st of (ric, iapp) \<Rightarrow>
      bnd (find_all_subs_map_ric_id (ia_map_ric_id iapp) xapp_id) (\<lambda>arr.
      bnd (for_arr (gen_e2ap_subs_delete os) arr ric) (\<lambda>ric.
      Inr (ric, iapp))))"

section \<open>The event loop\<close>

text \<open>
  \<open>ep_fd\<close> is the descriptor of the socket of the iApp, \<open>fd\<close> the one that is ready (\<open>-1\<close> after
  the timeout) and \<open>m\<close> the message the socket delivers.
\<close>

definition next_async_event_iapp :: "int \<Rightarrow> int \<times> sctp_msg_t \<Rightarrow> async_event_t res" where
  "next_async_event_iapp ep_fd r =
     (case r of (fd, m) \<Rightarrow>
      if fd = - 1 then Inr CHECK_STOP_TOKEN_EVENT
      else
        chk (fd > 0) ''fd > 0'' (
        if fd = ep_fd then
          (case m of
             SCTP_MSG_NOTIFICATION info sn \<Rightarrow>
               if sn = SCTP_ASSOC_CHANGE then Inr UNKNOWN_EVENT
               else Inr (SCTP_CONNECTION_SHUTDOWN_EVENT info sn)
           | SCTP_MSG_PAYLOAD info msg \<Rightarrow> Inr (SCTP_MSG_ARRIVED_EVENT info msg))
        else Inl (Assertion ''iApp does not have pending events'')))"

text \<open>A message of an xApp: its handler, the registration of a new xApp and the answer.\<close>

definition msg_arrived_iapp ::
  "os_timer \<Rightarrow> ric_iapp \<Rightarrow> sctp_info_t \<Rightarrow> e2ap_msg_t \<Rightarrow> ric_iapp res" where
  "msg_arrived_iapp os st info msg =
     bnd (e2ap_msg_handle_iapp os st msg) (\<lambda>((ric, iapp), ans).
     bnd (case ans of
            E42_Stp_Resp resp \<Rightarrow>
              bnd (add_map_xapps_sad (ia_xapps iapp) (e42r_xapp_id resp) info) (\<lambda>xapps.
              Inr (iapp\<lparr>ia_xapps := xapps\<rparr>))
          | _ \<Rightarrow> Inr iapp) (\<lambda>iapp.
     if msg_type ans \<noteq> NONE_E2_MSG_TYPE
     then Inr (ric, e2ap_send_sctp_msg_iapp iapp info ans)
     else Inr (ric, iapp)))"

definition handle_event_iapp :: "os_timer \<Rightarrow> async_event_t \<Rightarrow> ric_iapp \<Rightarrow> ric_iapp res" where
  "handle_event_iapp os e st =
     (case e of
        SCTP_MSG_ARRIVED_EVENT info msg \<Rightarrow> msg_arrived_iapp os st info msg
      | PENDING_EVENT fd p_ev \<Rightarrow> chk (fd > 0) ''fd > 0'' (Inr st)
      | SCTP_CONNECTION_SHUTDOWN_EVENT info sn \<Rightarrow>
          bnd (find_map_xapps_xid (ia_xapps (snd st)) info) (\<lambda>xapp_id.
          rm_if_pending_subs os st xapp_id)
      | CHECK_STOP_TOKEN_EVENT \<Rightarrow> Inr st
      | UNKNOWN_EVENT \<Rightarrow> Inl (Assertion ''Unknown event triggered ''))"

text \<open>One round of the loop.\<close>

definition e2_event_loop_iapp :: "os_timer \<Rightarrow> int \<Rightarrow> int \<times> sctp_msg_t \<Rightarrow> ric_iapp \<Rightarrow> ric_iapp res" where
  "e2_event_loop_iapp os ep_fd r st =
     bnd (next_async_event_iapp ep_fd r) (\<lambda>e. handle_event_iapp os e st)"

end
