(* ===== verification/Ric_Nodes.thy ===== *)
theory Ric_Nodes
  imports Ric_Requests Iapp_Request
begin

text \<open>
  The life of an E2 node at the near-RT RIC: its setup request registers its socket, lists it as
  connected, hands it to the iApp and is answered with the accepted RAN functions; the end of
  its connection undoes all of this.  The lemmas also give the bounds under which this holds.
\<close>

section \<open>Accepted RAN functions\<close>

lemma find_sm:
  "\<exists>it. find_if_rb_tree (eq_ran_func_id i) (assoc_rb_tree_front t) = Inr it \<and>
     (at_end it \<longleftrightarrow> i \<notin> fst ` rb_set t) \<and> (\<not> at_end it \<longrightarrow> assoc_rb_tree_key it = Inr i)"
proof -
  obtain it where it: "find_if_rb_tree (eq_ran_func_id i) (assoc_rb_tree_front t) = Inr it"
    "remaining it = dropWhile (\<lambda>e. \<not> i = fst e) (rb_entries t)"
    using find_if_rb_tree_ok [OF iter_front [of t], of "eq_ran_func_id i" "\<lambda>k. i = k"]
    by (auto simp: remaining_front eq_ran_func_id_def)
  have e: "at_end it \<longleftrightarrow> i \<notin> fst ` rb_set t"
    unfolding at_end_remaining it(2) dropWhile_eq_Nil_conv by auto
  have "assoc_rb_tree_key it = Inr i" if ne: "\<not> at_end it"
  proof -
    obtain k v es where r: "remaining it = (k, v) # es"
      using ne by (cases "remaining it") (auto simp: at_end_remaining)
    then have "\<not> \<not> i = fst (k, v)"
      using hd_dropWhile [of "\<lambda>e. \<not> i = fst e" "rb_entries t"] it(2) by (metis list.distinct(1) list.sel(1))
    then show ?thesis
      using iter_value [OF r] by simp
  qed
  then show ?thesis
    using it(1) e by blast
qed

lemma accept_ran_func_ok:
  assumes "\<forall>rf \<in> set rfs. rf_id rf \<in> fst ` rb_set t"
  shows "accept_ran_func t rfs = Inr (List.map rf_id rfs)"
proof -
  have "accept_ran_func t rfs = Inr (fold (\<lambda>rf acc. acc @ [rf_id rf]) rfs [])"
    unfolding accept_ran_func_def
  proof (rule fold_res_total)
    fix rf acc
    assume "rf \<in> set rfs"
    then obtain it where "find_if_rb_tree (eq_ran_func_id (rf_id rf)) (assoc_rb_tree_front t) = Inr it"
      "\<not> at_end it" "assoc_rb_tree_key it = Inr (rf_id rf)"
      using find_sm [of "rf_id rf" t] assms by auto
    then show "(let i = rf_id rf in
       bnd (find_if_rb_tree (eq_ran_func_id i) (assoc_rb_tree_front t)) (\<lambda>it.
       if \<not> at_end it then
         bnd (assoc_rb_tree_key it) (\<lambda>k. chk (i = k) ''id == assoc_key(it)'' (Inr (acc @ [i])))
       else Inl (Assertion ''Unknown RAN function ID from the agent received''))) = Inr (acc @ [rf_id rf])"
      by simp
  qed
  then show ?thesis
    by (simp add: fold_snoc)
qed

text \<open>A RAN function without a service model ends the process.\<close>

lemma accept_unknown_ran_func:
  assumes "rf \<in> set rfs" "rf_id rf \<notin> fst ` rb_set t"
  shows "accept_ran_func t rfs = Inl (Assertion ''Unknown RAN function ID from the agent received'')"
proof -
  define f where "f = (\<lambda>(rf :: ran_function_t) acc. let i = rf_id rf in
       bnd (find_if_rb_tree (eq_ran_func_id i) (assoc_rb_tree_front t)) (\<lambda>it.
       if \<not> at_end it then
         bnd (assoc_rb_tree_key it) (\<lambda>k. chk (i = k) ''id == assoc_key(it)'' (Inr (acc @ [i])))
       else Inl (Assertion ''Unknown RAN function ID from the agent received'')))"
  have s: "f x acc = (if rf_id x \<in> fst ` rb_set t then Inr (acc @ [rf_id x])
      else Inl (Assertion ''Unknown RAN function ID from the agent received''))" for x acc
    using find_sm [of "rf_id x" t] by (auto simp: f_def)
  have "fold_res f rfs acc = Inl (Assertion ''Unknown RAN function ID from the agent received'')" for acc
    using assms by (induction rfs arbitrary: acc) (auto simp: s)
  then show ?thesis
    by (simp add: accept_ran_func_def f_def)
qed

section \<open>The setup response\<close>

definition accepted_response :: "e2_setup_request_t \<Rightarrow> e2_setup_response_t" where
  "accepted_response req =
     \<lparr>srsp_trans_id = stp_trans_id req,
      srsp_id = \<lparr>gric_plmn = gid_plmn (stp_id req), gric_near_ric_id = 25\<rparr>,
      srsp_accepted = List.map rf_id (stp_ran_func_item req),
      srsp_comp_config_add_ack =
        List.map (\<lambda>c. \<lparr>ccaa_interface_type = cca_interface_type c, ccaa_id = cca_id c,
                        ccaa_outcome = SUCCESS_E2AP_NODE_COMP_CONF_ACK\<rparr>) (stp_comp_conf_add req)\<rparr>"

lemma generate_setup_response_ok:
  assumes "\<forall>rf \<in> set (stp_ran_func_item req). rf_id rf \<in> fst ` rb_set t"
    and "stp_comp_conf_add req \<noteq> []" "length (stp_comp_conf_add req) < 1025"
    and "\<forall>c \<in> set (stp_comp_conf_add req). supported_cca c"
  shows "generate_setup_response_v2 t req = Inr (accepted_response req)"
proof -
  let ?ack = "\<lambda>c. \<lparr>ccaa_interface_type = cca_interface_type c, ccaa_id = cca_id c,
    ccaa_outcome = SUCCESS_E2AP_NODE_COMP_CONF_ACK\<rparr>"
  have "fold_res (\<lambda>c add_ack. bnd (cp_e2ap_node_comp_id (cca_id c)) (\<lambda>cid.
      Inr (add_ack @ [\<lparr>ccaa_interface_type = cca_interface_type c, ccaa_id = cid,
        ccaa_outcome = SUCCESS_E2AP_NODE_COMP_CONF_ACK\<rparr>]))) (stp_comp_conf_add req) [] =
     Inr (fold (\<lambda>c add_ack. add_ack @ [?ack c]) (stp_comp_conf_add req) [])"
    by (rule fold_res_total) (use assms(4) in \<open>simp add: cp_comp_id_supported\<close>)
  then show ?thesis
    using assms(2,3) accept_ran_func_ok [OF assms(1)]
    by (simp add: generate_setup_response_v2_def accepted_response_def fold_snoc)
qed

section \<open>Setup and shutdown\<close>

abbreviation conn_ids :: "near_ric_t \<Rightarrow> global_e2_node_id_t list" where
  "conn_ids ric \<equiv> List.map nod_id (sa_contents (nr_conn_e2_nodes ric))"

text \<open>The three lists of nodes agree, and there are fewer than 32 nodes.\<close>

definition nodes_ok :: "ric_iapp \<Rightarrow> bool" where
  "nodes_ok st \<longleftrightarrow>
     distinct (conn_ids (fst st)) \<and> set (conn_ids (fst st)) = fst ` node_sockets (fst st) \<and>
     con_id ` set (reg_nodes (ia_e2_nodes (snd st))) = fst ` node_sockets (fst st) \<and>
     (\<forall>nid \<in> fst ` node_sockets (fst st). plain_node nid) \<and>
     sa_cap (nr_conn_e2_nodes (fst st)) \<in> {8, 16, 32}"

text \<open>A setup request of a node that is not connected, with what the RIC supports.\<close>

definition new_node :: "near_ric_t \<Rightarrow> sctp_info_t \<Rightarrow> e2_setup_request_t \<Rightarrow> bool" where
  "new_node ric info req \<longleftrightarrow>
     valid_node_id (stp_id req) \<and> plain_node (stp_id req) \<and>
     (NODE_IS_MONOLITHIC (gid_type (stp_id req)) \<or> cu_du_id (stp_id req) \<noteq> None) \<and>
     (\<forall>(n, s) \<in> node_sockets ric. n \<noteq> stp_id req \<and> sctp_rank s \<noteq> sctp_rank info) \<and>
     stp_ran_func_item req \<noteq> [] \<and>
     (\<forall>rf \<in> set (stp_ran_func_item req). rf_id rf \<in> fst ` rb_set (nr_sm_ds ric)) \<and>
     stp_comp_conf_add req \<noteq> [] \<and> length (stp_comp_conf_add req) < 256 \<and>
     (\<forall>c \<in> set (stp_comp_conf_add req). supported_cca c) \<and> length (conn_ids ric) < 31"

lemma iapp_ok_nodes: "iapp_ok i \<Longrightarrow> reg_ok r \<Longrightarrow> iapp_ok (i\<lparr>ia_e2_nodes := r\<rparr>)"
  by (simp add: iapp_ok_def xapp_conn_def)

lemma setup_request_ok:
  assumes "nr_ok ric" "iapp_ok iapp" "nodes_ok (ric, iapp)" "new_node ric info req"
  defines "n \<equiv> \<lparr>nod_id = stp_id req, nod_accepted = List.map rf_id (stp_ran_func_item req)\<rparr>"
    and "c \<equiv> \<lparr>con_id = stp_id req, con_cca = stp_comp_conf_add req, con_ack_rf = stp_ran_func_item req\<rparr>"
  shows "\<exists>m nodes r.
     sctp_msg_arrived_event (ric, iapp) (info, E2_Stp_Req req) =
       Inr (ric\<lparr>nr_e2_nodes := m, nr_conn_e2_nodes := nodes,
                nr_sent := nr_sent ric @ [(info, E2_Stp_Resp (accepted_response req))]\<rparr>,
            iapp\<lparr>ia_e2_nodes := r\<rparr>) \<and>
     e2_sad_ok m \<and> bm_pairs m = insert (stp_id req, info) (node_sockets ric) \<and>
     sa_inv nodes \<and> sa_contents nodes = sa_contents (nr_conn_e2_nodes ric) @ [n] \<and>
     sa_elt_size nodes = sizeof_e2_node \<and> sa_cap nodes \<in> {8, 16, 32} \<and>
     reg_ok r \<and> set (reg_nodes r) = insert c (set (reg_nodes (ia_e2_nodes iapp)))"
proof -
  have new: "valid_node_id (stp_id req)" "plain_node (stp_id req)" "stp_ran_func_item req \<noteq> []"
    "stp_comp_conf_add req \<noteq> []" "length (stp_comp_conf_add req) < 256"
    "\<forall>c \<in> set (stp_comp_conf_add req). supported_cca c"
    "\<forall>(n, s) \<in> node_sockets ric. n \<noteq> stp_id req \<and> sctp_rank s \<noteq> sctp_rank info"
    using assms(4) by (auto simp: new_node_def)
  have e2: "e2_sad_ok (nr_e2_nodes ric)" and reg: "reg_ok (ia_e2_nodes iapp)"
    using assms(1,2) by (simp_all add: nr_ok_def iapp_ok_def)
  obtain m where m: "add_map_e2_node_sad (nr_e2_nodes ric) (stp_id req) info = Inr m" "e2_sad_ok m"
    "bm_pairs m = insert (stp_id req, info) (node_sockets ric)"
    using add_map_e2_node_sad_ok [OF e2 new(1,7)] by blast
  have "stp_id req \<notin> fst ` node_sockets ric"
    using new(7) by auto
  moreover have "con_id ` set (reg_nodes (ia_e2_nodes iapp)) = fst ` node_sockets ric"
    using assms(3) by (simp add: nodes_ok_def)
  ultimately have "\<forall>n \<in> set (reg_nodes (ia_e2_nodes iapp)). con_id n \<noteq> stp_id req"
    by (metis imageI)
  then obtain r where r: "add_reg_e2_node (ia_e2_nodes iapp) (stp_id req) (stp_ran_func_item req)
      (stp_comp_conf_add req) = Inr r" "reg_ok r"
    "set (reg_nodes r) = insert c (set (reg_nodes (ia_e2_nodes iapp)))"
    using add_reg_e2_node_ok [OF reg new(1-6)] unfolding c_def by blast
  have resp: "generate_setup_response_v2 (nr_sm_ds ric) req = Inr (accepted_response req)"
    by (rule generate_setup_response_ok) (use assms(4) in \<open>auto simp: new_node_def\<close>)
  have arr: "sa_inv (nr_conn_e2_nodes ric)" "sizeof_e2_node = sa_elt_size (nr_conn_e2_nodes ric)"
    "sa_cap (nr_conn_e2_nodes ric) \<in> {8, 16, 32}" "sa_size (nr_conn_e2_nodes ric) < 31"
    using assms(1,3,4) by (auto simp: nr_ok_def nodes_ok_def new_node_def)
  obtain nodes where nodes: "seq_arr_push_back (nr_conn_e2_nodes ric) n sizeof_e2_node = Inr nodes"
    "sa_inv nodes" "sa_contents nodes = sa_contents (nr_conn_e2_nodes ric) @ [n]"
    "sa_elt_size nodes = sizeof_e2_node" "sa_cap nodes \<in> {8, 16, 32}"
    using push_small [OF arr, of n] arr(2) by auto
  have "init_e2_node (stp_id req) (srsp_accepted (accepted_response req)) = n"
    by (simp add: init_e2_node_def accepted_response_def n_def)
  then have "e2ap_handle_setup_request_ric (ric\<lparr>nr_e2_nodes := m\<rparr>, iapp) req =
      Inr ((ric\<lparr>nr_e2_nodes := m, nr_conn_e2_nodes := nodes\<rparr>, iapp\<lparr>ia_e2_nodes := r\<rparr>),
           E2_Stp_Resp (accepted_response req))"
    using assms(4) new(3) r(1) resp nodes(1)
    by (simp add: new_node_def e2ap_handle_setup_request_ric_def add_e2_node_iapp_def)
  then have "sctp_msg_arrived_event (ric, iapp) (info, E2_Stp_Req req) =
       Inr (ric\<lparr>nr_e2_nodes := m, nr_conn_e2_nodes := nodes,
                nr_sent := nr_sent ric @ [(info, E2_Stp_Resp (accepted_response req))]\<rparr>,
            iapp\<lparr>ia_e2_nodes := r\<rparr>)"
    using m(1) by (simp add: sctp_msg_arrived_event_def e2ap_msg_handle_ric_def check_valid_msg_type_ric_def)
  then show ?thesis
    using m(2,3) r(2,3) nodes(2-5) by blast
qed

text \<open>The invariants after a setup.\<close>

lemma setup_ok:
  assumes "nr_ok ric" "iapp_ok iapp" "nodes_ok (ric, iapp)" "new_node ric info req"
  shows "\<exists>ric' iapp'. sctp_msg_arrived_event (ric, iapp) (info, E2_Stp_Req req) = Inr (ric', iapp') \<and>
     nr_ok ric' \<and> iapp_ok iapp' \<and> nodes_ok (ric', iapp') \<and>
     node_sockets ric' = insert (stp_id req, info) (node_sockets ric) \<and>
     sa_contents (nr_conn_e2_nodes ric') = sa_contents (nr_conn_e2_nodes ric) @
       [\<lparr>nod_id = stp_id req, nod_accepted = List.map rf_id (stp_ran_func_item req)\<rparr>] \<and>
     ric' = ric\<lparr>nr_e2_nodes := nr_e2_nodes ric', nr_conn_e2_nodes := nr_conn_e2_nodes ric',
                nr_sent := nr_sent ric @ [(info, E2_Stp_Resp (accepted_response req))]\<rparr> \<and>
     iapp' = iapp\<lparr>ia_e2_nodes := ia_e2_nodes iapp'\<rparr> \<and>
     set (reg_nodes (ia_e2_nodes iapp')) = insert \<lparr>con_id = stp_id req, con_cca = stp_comp_conf_add req,
       con_ack_rf = stp_ran_func_item req\<rparr> (set (reg_nodes (ia_e2_nodes iapp)))"
proof -
  obtain m nodes r where s: "sctp_msg_arrived_event (ric, iapp) (info, E2_Stp_Req req) =
       Inr (ric\<lparr>nr_e2_nodes := m, nr_conn_e2_nodes := nodes,
                nr_sent := nr_sent ric @ [(info, E2_Stp_Resp (accepted_response req))]\<rparr>,
            iapp\<lparr>ia_e2_nodes := r\<rparr>)"
    "e2_sad_ok m" "bm_pairs m = insert (stp_id req, info) (node_sockets ric)"
    "sa_inv nodes" "sa_contents nodes = sa_contents (nr_conn_e2_nodes ric) @
       [\<lparr>nod_id = stp_id req, nod_accepted = List.map rf_id (stp_ran_func_item req)\<rparr>]"
    "sa_elt_size nodes = sizeof_e2_node" "sa_cap nodes \<in> {8, 16, 32}"
    "reg_ok r" "set (reg_nodes r) = insert \<lparr>con_id = stp_id req, con_cca = stp_comp_conf_add req,
       con_ack_rf = stp_ran_func_item req\<rparr> (set (reg_nodes (ia_e2_nodes iapp)))"
    using setup_request_ok [OF assms] by (elim exE conjE)
  let ?ric = "ric\<lparr>nr_e2_nodes := m, nr_conn_e2_nodes := nodes,
      nr_sent := nr_sent ric @ [(info, E2_Stp_Resp (accepted_response req))]\<rparr>"
  have "stp_id req \<notin> fst ` node_sockets ric" "plain_node (stp_id req)"
    using assms(4) by (auto simp: new_node_def)
  then have "nodes_ok (?ric, iapp\<lparr>ia_e2_nodes := r\<rparr>)"
    using assms(3) s(3,5,7,9) by (simp add: nodes_ok_def)
  moreover have "nr_ok ?ric"
    using assms(1) s(2,4,6) by (simp add: nr_ok_def)
  ultimately show ?thesis
    using s iapp_ok_nodes [OF assms(2) s(8)]
    by (intro exI [of _ ?ric] exI [of _ "iapp\<lparr>ia_e2_nodes := r\<rparr>"]) simp
qed

lemma erase_unique:
  "distinct (List.map f xs) \<Longrightarrow> y \<in> set (List.map f xs) \<Longrightarrow>
     (let i = length (takeWhile (\<lambda>x. \<not> y = f x) xs)
      in i < length xs \<and> take i xs @ drop (i + 1) xs = filter (\<lambda>x. f x \<noteq> y) xs)"
proof (induction xs)
  case (Cons x xs)
  show ?case
  proof (cases "y = f x")
    case True
    then have "filter (\<lambda>z. f z \<noteq> y) xs = xs"
      using Cons.prems(1) by (metis (mono_tags, lifting) distinct.simps(2) filter_True image_eqI list.set_map list.simps(9))
    then show ?thesis
      using True by simp
  next
    case False
    then show ?thesis
      using Cons by (auto simp: Let_def)
  qed
qed simp

lemma image_filter_keys: "f ` {x \<in> A. f x \<noteq> y} = f ` A - {y}"
  by auto

lemma map_filter_keys: "f ` set (filter (\<lambda>x. f x \<noteq> y) xs) = f ` set xs - {y}"
  by auto

lemma image_fst_remove:
  assumes "(a, b) \<in> A" "\<And>p. p \<in> A \<Longrightarrow> fst p = a \<Longrightarrow> p = (a, b)"
  shows "fst ` (A - {(a, b)}) = fst ` A - {a}"
proof -
  have "p \<in> A - {(a, b)} \<longleftrightarrow> p \<in> {p \<in> A. fst p \<noteq> a}" for p
    using assms(2) [of p] by (cases p) auto
  then have "A - {(a, b)} = {p \<in> A. fst p \<noteq> a}"
    by (rule set_eqI)
  then show ?thesis
    by (simp add: image_filter_keys)
qed

lemma shutdown_ok:
  assumes "nr_ok ric" "iapp_ok iapp" "nodes_ok (ric, iapp)"
    and "(nid, s) \<in> node_sockets ric" "sctp_rank s = sctp_rank info"
  shows "\<exists>ric' iapp'. notification_handle_ric (ric, iapp) info SCTP_SHUTDOWN_EVENT = Inr (ric', iapp') \<and>
     nr_ok ric' \<and> iapp_ok iapp' \<and> nodes_ok (ric', iapp') \<and>
     node_sockets ric' = node_sockets ric - {(nid, s)} \<and>
     sa_contents (nr_conn_e2_nodes ric') = filter (\<lambda>n. nod_id n \<noteq> nid) (sa_contents (nr_conn_e2_nodes ric)) \<and>
     ric' = ric\<lparr>nr_e2_nodes := nr_e2_nodes ric', nr_conn_e2_nodes := nr_conn_e2_nodes ric'\<rparr> \<and>
     iapp' = iapp\<lparr>ia_e2_nodes := ia_e2_nodes iapp'\<rparr> \<and>
     reg_nodes (ia_e2_nodes iapp') = filter (\<lambda>n. con_id n \<noteq> nid) (reg_nodes (ia_e2_nodes iapp))"
proof -
  let ?arr = "nr_conn_e2_nodes ric"
  have n: "distinct (conn_ids ric)" "set (conn_ids ric) = fst ` node_sockets ric"
    "con_id ` set (reg_nodes (ia_e2_nodes iapp)) = fst ` node_sockets ric"
    "sa_cap ?arr \<le> 32" "sa_cap ?arr \<in> {8, 16, 32}"
    using assms(3) by (auto simp: nodes_ok_def)
  have ok: "e2_sad_ok (nr_e2_nodes ric)" "sa_inv ?arr" "sa_elt_size ?arr = sizeof_e2_node"
    "reg_ok (ia_e2_nodes iapp)"
    using assms(1,2) by (simp_all add: nr_ok_def iapp_ok_def)
  have valid: "valid_node_id a" if "a \<in> fst ` node_sockets ric" for a
    using that e2sad.inv_valid [of "nr_e2_nodes ric" a] ok(1) by (auto simp: e2_sad_ok_def)
  have nid: "nid \<in> fst ` node_sockets ric"
    using assms(4) by force
  have plain: "plain_node nid"
    using nid assms(3) by (auto simp: nodes_ok_def)
  obtain m where m: "rm_map_sad_e2_node (nr_e2_nodes ric) info = Inr (m, nid)" "e2_sad_ok m"
    "bm_pairs m = node_sockets ric - {(nid, s)}"
    using rm_map_sad_e2_node_ok [OF ok(1) assms(4,5)] by blast
  let ?i = "length (takeWhile (\<lambda>x. \<not> nid = nod_id x) (sa_contents ?arr))"
  have eq: "\<forall>x \<in> set (sa_contents ?arr). eq_global_e2_node_id_e2_node nid x = Inr (nid = nod_id x)"
  proof
    fix x
    assume "x \<in> set (sa_contents ?arr)"
    then have "nod_id x \<in> fst ` node_sockets ric"
      using n(2) by (metis image_eqI list.set_map)
    then show "eq_global_e2_node_id_e2_node nid x = Inr (nid = nod_id x)"
      using eq_global_e2_node_id_valid [OF valid [OF nid] valid] plain
      by (simp add: eq_global_e2_node_id_e2_node_def plain_node_def)
  qed
  have "find_if_arr ?arr 0 (seq_arr_end ?arr) (eq_global_e2_node_id_e2_node nid) =
      Inr (0 + length (takeWhile (\<lambda>x. \<not> nid = nod_id x) (drop 0 (sa_contents ?arr))))"
    by (rule find_if_arr_ok [OF ok(2) _ eq]) simp
  then have f: "find_if_arr ?arr (seq_arr_front ?arr) (seq_arr_end ?arr) (eq_global_e2_node_id_e2_node nid) = Inr ?i"
    by (simp add: seq_arr_front_def)
  have u: "?i < length (sa_contents ?arr)"
    "take ?i (sa_contents ?arr) @ drop (?i + 1) (sa_contents ?arr) = filter (\<lambda>x. nod_id x \<noteq> nid) (sa_contents ?arr)"
    using erase_unique [of nod_id "sa_contents ?arr" nid] n(1,2) nid by (simp_all add: Let_def)
  have i: "?i < ?i + 1" "?i + 1 \<le> sa_size ?arr" "sa_elt_size ?arr < 2 ^ 26"
    using u(1) ok(2,3) by (simp_all add: sizeof_e2_node_def)
  obtain nodes where nodes: "seq_arr_erase ?arr ?i (?i + 1) = Inr nodes" "sa_inv nodes"
    "sa_contents nodes = filter (\<lambda>x. nod_id x \<noteq> nid) (sa_contents ?arr)"
    "sa_elt_size nodes = sizeof_e2_node" "sa_cap nodes \<in> {8, 16, 32}"
    using erase_small [OF ok(2) i(1,2) n(4) i(3)] n(5) unfolding u(2) ok(3) by auto
  obtain c where c: "c \<in> set (reg_nodes (ia_e2_nodes iapp))" "con_id c = nid"
    using n(3) nid by (metis imageE)
  obtain r where r: "rm_reg_e2_node (ia_e2_nodes iapp) nid = Inr r" "reg_ok r"
    "reg_nodes r = filter (\<lambda>n. con_id n \<noteq> nid) (reg_nodes (ia_e2_nodes iapp))"
    using rm_reg_e2_node_ok [OF ok(4) valid [OF nid] plain c] by blast
  have ne: "?i \<noteq> seq_arr_end ?arr"
    using i(2) by (simp add: seq_arr_end_def)
  let ?ric = "ric\<lparr>nr_e2_nodes := m, nr_conn_e2_nodes := nodes\<rparr>"
  have step: "notification_handle_ric (ric, iapp) info SCTP_SHUTDOWN_EVENT = Inr (?ric, iapp\<lparr>ia_e2_nodes := r\<rparr>)"
    using m(1) f ne nodes(1) r(1)
    by (simp add: notification_handle_ric_def rm_e2_node_iapp_def seq_arr_next_def)
  have "e2sad.inv (nr_e2_nodes ric)"
    using ok(1) by (simp add: e2_sad_ok_def)
  then have uq: "p = (nid, s)" if "p \<in> node_sockets ric" "fst p = nid" for p
    using e2sad.inv_left_uniq [OF _ assms(4), of "fst p" "snd p"] that by (cases p) simp
  have "fst ` (node_sockets ric - {(nid, s)}) = fst ` node_sockets ric - {nid}"
    by (rule image_fst_remove [OF assms(4) uq])
  then have ids: "fst ` bm_pairs m = fst ` node_sockets ric - {nid}"
    unfolding m(3) .
  have rest: "\<forall>x \<in> fst ` node_sockets ric - {nid}. plain_node x"
    using assms(3) by (auto simp: nodes_ok_def)
  have ok': "nodes_ok (?ric, iapp\<lparr>ia_e2_nodes := r\<rparr>)"
    using ids nodes(5) n(1,2,3) rest unfolding nodes_ok_def
    by (simp add: nodes(3) r(3) map_filter_keys image_filter_keys distinct_map_filter)
  have "nr_ok ?ric"
    using assms(1) m(2) nodes(2,4) by (simp add: nr_ok_def)
  then show ?thesis
    using step ok' m(3) nodes(3) r(3) iapp_ok_nodes [OF assms(2) r(2)]
    by (intro exI [of _ ?ric] exI [of _ "iapp\<lparr>ia_e2_nodes := r\<rparr>"]) simp
qed

section \<open>An example\<close>

definition tc_setup :: e2_setup_request_t where
  "tc_setup = \<lparr>stp_trans_id = 1, stp_id = du_node,
     stp_ran_func_item = [\<lparr>rf_defn = [], rf_id = 146, rf_rev = 1, rf_oid = []\<rparr>],
     stp_comp_conf_add = [f1_config]\<rparr>"

lemma start_example:
  "\<exists>ric iapp. nr_ok ric \<and> iapp_ok iapp \<and> nodes_ok (ric, iapp) \<and> node_sockets ric = {} \<and>
     pending_events ric = {} \<and> nr_io ric = [5] \<and> nr_fd ric = 5 \<and> nr_req_id ric = 0 \<and>
     nr_sm_ds ric = tc_sm_ds \<and> nr_sent ric = [] \<and> sa_contents (nr_conn_e2_nodes ric) = [] \<and>
     nr_tasks ric = [] \<and> reg_nodes (ia_e2_nodes iapp) = [] \<and> init_e42_iapp = Inr iapp"
proof -
  obtain m where m: "e2_sad_ok m" "bm_pairs m = {}"
    using init_map_e2_node_sad_ok by blast
  obtain ric where ric: "nr_ok ric" "nr_e2_nodes ric = m" "pending_events ric = {}" "nr_io ric = [5]"
    "nr_fd ric = 5" "nr_req_id ric = 0" "nr_sm_ds ric = tc_sm_ds" "nr_sent ric = []"
    "nr_conn_e2_nodes ric = init_e2_nodes_ric" "nr_tasks ric = []"
    using near_ric_with [OF m(1)] by blast
  obtain iapp where i: "init_e42_iapp = Inr iapp" "iapp_ok iapp" "reg_nodes (ia_e2_nodes iapp) = []"
    using init_e42_iapp_ok by blast
  have c: "sa_contents (nr_conn_e2_nodes ric) = []" "sa_cap (nr_conn_e2_nodes ric) = 8"
    unfolding ric(9) by (simp_all add: init_e2_nodes_ric_def seq_arr_init_def sa_contents_def MIN_SIZE_def)
  have "nodes_ok (ric, iapp)"
    using c i(3) ric(2) m(2) by (simp add: nodes_ok_def)
  then show ?thesis
    using ric i c m(2) by blast
qed

lemma tc_setup_new:
  "nr_sm_ds ric = tc_sm_ds \<Longrightarrow> node_sockets ric = {} \<Longrightarrow> sa_contents (nr_conn_e2_nodes ric) = [] \<Longrightarrow>
     new_node ric info tc_setup"
  using du_node_ok tc_sm_ds_ok(2) by (simp add: new_node_def tc_setup_def) (simp add: du_node_def)

section \<open>Properties\<close>

text \<open>
  C12.  The life of an E2 node: the setup request of a new node is answered on its socket with
  all its RAN functions accepted, the node is listed last among the connected nodes, its socket
  is known and the iApp offers it to the xApps; the end of the connection removes exactly this
  node everywhere.
\<close>

theorem e2_node_lifecycle:
  assumes "nr_ok ric" "iapp_ok iapp" "nodes_ok (ric, iapp)" "new_node ric info req"
  shows "\<exists>ric1 iapp1 ric2 iapp2.
     sctp_msg_arrived_event (ric, iapp) (info, E2_Stp_Req req) = Inr (ric1, iapp1) \<and>
     node_sockets ric1 = insert (stp_id req, info) (node_sockets ric) \<and>
     sa_contents (nr_conn_e2_nodes ric1) = sa_contents (nr_conn_e2_nodes ric) @
       [\<lparr>nod_id = stp_id req, nod_accepted = List.map rf_id (stp_ran_func_item req)\<rparr>] \<and>
     nr_sent ric1 = nr_sent ric @ [(info, E2_Stp_Resp (accepted_response req))] \<and>
     set (reg_nodes (ia_e2_nodes iapp1)) = insert \<lparr>con_id = stp_id req, con_cca = stp_comp_conf_add req,
       con_ack_rf = stp_ran_func_item req\<rparr> (set (reg_nodes (ia_e2_nodes iapp))) \<and>
     notification_handle_ric (ric1, iapp1) info SCTP_SHUTDOWN_EVENT = Inr (ric2, iapp2) \<and>
     node_sockets ric2 = node_sockets ric \<and>
     sa_contents (nr_conn_e2_nodes ric2) = sa_contents (nr_conn_e2_nodes ric) \<and>
     set (reg_nodes (ia_e2_nodes iapp2)) = set (reg_nodes (ia_e2_nodes iapp)) \<and>
     nr_ok ric2 \<and> iapp_ok iapp2 \<and> nodes_ok (ric2, iapp2)"
proof -
  obtain ric1 iapp1 where 1: "sctp_msg_arrived_event (ric, iapp) (info, E2_Stp_Req req) = Inr (ric1, iapp1)"
    "nr_ok ric1" "iapp_ok iapp1" "nodes_ok (ric1, iapp1)"
    "node_sockets ric1 = insert (stp_id req, info) (node_sockets ric)"
    "sa_contents (nr_conn_e2_nodes ric1) = sa_contents (nr_conn_e2_nodes ric) @
       [\<lparr>nod_id = stp_id req, nod_accepted = List.map rf_id (stp_ran_func_item req)\<rparr>]"
    "ric1 = ric\<lparr>nr_e2_nodes := nr_e2_nodes ric1, nr_conn_e2_nodes := nr_conn_e2_nodes ric1,
                nr_sent := nr_sent ric @ [(info, E2_Stp_Resp (accepted_response req))]\<rparr>"
    "set (reg_nodes (ia_e2_nodes iapp1)) = insert \<lparr>con_id = stp_id req, con_cca = stp_comp_conf_add req,
       con_ack_rf = stp_ran_func_item req\<rparr> (set (reg_nodes (ia_e2_nodes iapp)))"
    using setup_ok [OF assms] by (elim exE conjE)
  have sent: "nr_sent ric1 = nr_sent ric @ [(info, E2_Stp_Resp (accepted_response req))]"
    by (subst 1(7)) simp
  have new: "stp_id req \<notin> fst ` node_sockets ric"
    using assms(4) by (auto simp: new_node_def)
  then have "(stp_id req, info) \<notin> node_sockets ric" "stp_id req \<notin> set (conn_ids ric)"
    "stp_id req \<notin> con_id ` set (reg_nodes (ia_e2_nodes iapp))"
    using assms(3) by (force, simp_all add: nodes_ok_def)
  then have "(stp_id req, info) \<notin> node_sockets ric"
    "\<forall>n \<in> set (sa_contents (nr_conn_e2_nodes ric)). nod_id n \<noteq> stp_id req"
    "\<forall>n \<in> set (reg_nodes (ia_e2_nodes iapp)). con_id n \<noteq> stp_id req"
    by (simp, metis image_eqI list.set_map, metis image_eqI)
  then have undo: "node_sockets ric1 - {(stp_id req, info)} = node_sockets ric"
    "filter (\<lambda>n. nod_id n \<noteq> stp_id req) (sa_contents (nr_conn_e2_nodes ric1)) = sa_contents (nr_conn_e2_nodes ric)"
    "set (filter (\<lambda>n. con_id n \<noteq> stp_id req) (reg_nodes (ia_e2_nodes iapp1))) = set (reg_nodes (ia_e2_nodes iapp))"
    by (auto simp: 1(5,6,8) filter_id_conv)
  have "(stp_id req, info) \<in> node_sockets ric1"
    by (simp add: 1(5))
  then obtain ric2 iapp2 where 2: "notification_handle_ric (ric1, iapp1) info SCTP_SHUTDOWN_EVENT = Inr (ric2, iapp2)"
    "nr_ok ric2" "iapp_ok iapp2" "nodes_ok (ric2, iapp2)" "node_sockets ric2 = node_sockets ric"
    "sa_contents (nr_conn_e2_nodes ric2) = sa_contents (nr_conn_e2_nodes ric)"
    "set (reg_nodes (ia_e2_nodes iapp2)) = set (reg_nodes (ia_e2_nodes iapp))"
    using shutdown_ok [OF 1(2-4), of "stp_id req" info info] undo by metis
  show ?thesis
    by (intro exI [of _ ric1] exI [of _ iapp1] exI [of _ ric2] exI [of _ iapp2] conjI) (rule 1 2 sent)+
qed

theorem e2_node_lifecycle_witness:
  "\<exists>ric iapp ric1 iapp1 ric2 iapp2.
     sctp_msg_arrived_event (ric, iapp) (peer 5000, E2_Stp_Req tc_setup) = Inr (ric1, iapp1) \<and>
     node_sockets ric1 = {(du_node, peer 5000)} \<and>
     nr_sent ric1 = [(peer 5000, E2_Stp_Resp (accepted_response tc_setup))] \<and>
     notification_handle_ric (ric1, iapp1) (peer 5000) SCTP_SHUTDOWN_EVENT = Inr (ric2, iapp2) \<and>
     node_sockets ric2 = {}"
proof -
  obtain ric iapp where r: "nr_ok ric" "iapp_ok iapp" "nodes_ok (ric, iapp)" "node_sockets ric = {}"
    "nr_sm_ds ric = tc_sm_ds" "nr_sent ric = []" "sa_contents (nr_conn_e2_nodes ric) = []"
    using start_example by blast
  have "stp_id tc_setup = du_node"
    by (simp add: tc_setup_def)
  then obtain ric1 iapp1 ric2 iapp2 where
    "sctp_msg_arrived_event (ric, iapp) (peer 5000, E2_Stp_Req tc_setup) = Inr (ric1, iapp1)"
    "node_sockets ric1 = {(du_node, peer 5000)}"
    "nr_sent ric1 = [(peer 5000, E2_Stp_Resp (accepted_response tc_setup))]"
    "notification_handle_ric (ric1, iapp1) (peer 5000) SCTP_SHUTDOWN_EVENT = Inr (ric2, iapp2)"
    "node_sockets ric2 = {}"
    using e2_node_lifecycle [OF r(1-3) tc_setup_new [OF r(5,4,7), of "peer 5000"]] r(4,6) by auto
  then show ?thesis
    by blast
qed

text \<open>
  A setup request with a RAN function for which no service model is loaded ends the
  process: no response is generated.
\<close>

theorem setup_unknown_ran_function:
  assumes "rf \<in> set (stp_ran_func_item req)" "rf_id rf \<notin> fst ` rb_set sm_ds"
  shows "generate_setup_response_v2 sm_ds req =
     Inl (Assertion ''Unknown RAN function ID from the agent received'')"
  using accept_unknown_ran_func [OF assms] by (simp add: generate_setup_response_v2_def)

theorem setup_unknown_ran_function_witness:
  "generate_setup_response_v2 tc_sm_ds (tc_setup\<lparr>stp_ran_func_item := [kpm_function]\<rparr>) =
     Inl (Assertion ''Unknown RAN function ID from the agent received'')"
  by (rule setup_unknown_ran_function [of kpm_function])
    (simp_all add: tc_setup_def kpm_function_def tc_sm_ds_ok(2))

end
