(* ===== verification/Iapp_Laws.thy ===== *)
theory Iapp_Laws
  imports Ric_Nodes
begin

text \<open>
  Laws of the requests that the xApps send to the iApp: the setup of an xApp, the subscription,
  its deletion, the control request, and the end of an xApp.
\<close>

section \<open>The operating system and the invariant\<close>

text \<open>\<^verbatim>\<open>timerfd_create\<close> returns a positive descriptor that is not in use.\<close>

definition os_ok :: "os_timer \<Rightarrow> bool" where
  "os_ok os \<longleftrightarrow> (\<forall>ric. fresh_fd ric (os ric))"

text \<open>One such function: the number behind the largest watched descriptor.\<close>

definition next_fd :: os_timer where
  "next_fd ric = fold max (nr_io ric) 0 + 1"

lemma next_fd_ok: "os_ok next_fd"
proof -
  have "m \<le> fold max xs m \<and> (\<forall>x \<in> set xs. x \<le> fold max xs m)" for xs :: "int list" and m
  proof (induction xs arbitrary: m)
    case (Cons x xs)
    from Cons [of "max x m"] show ?case
      by auto
  qed simp
  then have "0 \<le> fold max (nr_io ric) 0 \<and> (\<forall>x \<in> set (nr_io ric). x \<le> fold max (nr_io ric) 0)" for ric
    by blast
  then show ?thesis
    by (force simp: os_ok_def fresh_fd_def next_fd_def)
qed

text \<open>
  The bindings of the request table as the handler of subscriptions makes them, and the xApp
  ids given out so far.
\<close>

definition xapps_ok :: "e42_iapp_t \<Rightarrow> bool" where
  "xapps_ok i \<longleftrightarrow>
     (\<forall>(n, x) \<in> ric_pairs (ia_map_ric_id i).
        en_ric_req_type n = SUBSCRIPTION_RIC_REQUEST_TYPE \<and> xr_ric_id x = en_ric_id n) \<and>
     (\<forall>(x, s) \<in> bm_pairs (ia_xapps i). unat x < unat (ia_xapp_id i)) \<and>
     unat (ia_xapp_id i) \<le> 2 ^ 16"

lemma iapp_ok_frame [simp]: "iapp_ok (i\<lparr>ia_xapp_id := r\<rparr>) = iapp_ok i" "iapp_ok (i\<lparr>ia_sent := out\<rparr>) = iapp_ok i"
  by (simp_all add: iapp_ok_def xapp_conn_def)

lemma iapp_ok_registry:
  "iapp_ok i \<Longrightarrow> registry_ok r \<Longrightarrow> \<forall>e \<in> set (reg_entries r). \<exists>s. xapp_conn i (ucast (se_xapp_id e)) s \<Longrightarrow>
     iapp_ok (i\<lparr>ia_subscription_registry := r\<rparr>)"
  by (simp add: iapp_ok_def xapp_conn_def)

lemma iapp_ok_ids:
  "iapp_ok i \<Longrightarrow> ric_id_ok m \<Longrightarrow> \<not> mr_wrlocked m \<Longrightarrow>
     \<forall>(n, x) \<in> ric_pairs m. (\<exists>s. xapp_conn i (xr_xapp_id x) s) \<and> node_req n < 2 ^ 16 \<Longrightarrow>
     iapp_ok (i\<lparr>ia_map_ric_id := m\<rparr>)"
  by (simp add: iapp_ok_def xapp_conn_def)

section \<open>Setup of an xApp\<close>

lemma unat_ucast_16: "unat (w :: u32) < 2 ^ 16 \<Longrightarrow> unat (ucast w :: u16) = unat w"
  by (simp add: unsigned_ucast_eq take_bit_eq_mod)

lemma xapp_setup_ok:
  assumes "iapp_ok i" "xapps_ok i" "e42_ran_func_item req \<noteq> []" "length (reg_nodes (ia_e2_nodes i)) < 256"
    and "unat (ia_xapp_id i) < 2 ^ 16" "\<forall>(a, b) \<in> bm_pairs (ia_xapps i). sctp_rank b \<noteq> sctp_rank info"
  shows "\<exists>m. msg_arrived_iapp os (ric, i) info (E42_Stp_Req req) =
       Inr (ric, i\<lparr>ia_xapp_id := ia_xapp_id i + 1, ia_xapps := m, ia_sent := ia_sent i @
         [(info, E42_Stp_Resp \<lparr>e42r_xapp_id = ucast (ia_xapp_id i), e42r_nodes = reg_nodes (ia_e2_nodes i)\<rparr>)]\<rparr>) \<and>
     bm_pairs m = insert (ucast (ia_xapp_id i), info) (bm_pairs (ia_xapps i)) \<and>
     iapp_ok (i\<lparr>ia_xapp_id := ia_xapp_id i + 1, ia_xapps := m\<rparr>) \<and>
     xapps_ok (i\<lparr>ia_xapp_id := ia_xapp_id i + 1, ia_xapps := m\<rparr>)"
proof -
  let ?x = "ucast (ia_xapp_id i) :: u16" and ?i = "i\<lparr>ia_xapp_id := ia_xapp_id i + 1\<rparr>"
  have x: "unat ?x = unat (ia_xapp_id i)"
    by (rule unat_ucast_16 [OF assms(5)])
  have n: "generate_e2_node_arr (ia_e2_nodes i) = Inr (reg_nodes (ia_e2_nodes i))"
    using generate_e2_node_arr_ok [of "ia_e2_nodes i"] assms(1,4) by (simp add: iapp_ok_def)
  have "\<forall>(a, b) \<in> bm_pairs (ia_xapps i). a \<noteq> ?x \<and> sctp_rank b \<noteq> sctp_rank info"
    using assms(2,6) x by (fastforce simp: xapps_ok_def)
  then obtain m where m: "add_map_xapps_sad (ia_xapps i) ?x info = Inr m" "iapp_ok (?i\<lparr>ia_xapps := m\<rparr>)"
    "bm_pairs m = insert (?x, info) (bm_pairs (ia_xapps i))"
    using reg_xapp_ok [of ?i ?x info] assms(1) by auto
  have s: "unat (ia_xapp_id i + 1) = unat (ia_xapp_id i) + 1"
    using assms(5) by (simp add: unat_word_ariths)
  have "xapps_ok (?i\<lparr>ia_xapps := m\<rparr>)"
    using assms(2,5) m(3) x s by (fastforce simp: xapps_ok_def)
  then show ?thesis
    using m n assms(3)
    by (intro exI [of _ m]) (simp add: msg_arrived_iapp_def e2ap_msg_handle_iapp_def check_valid_msg_type_iapp_def
        e2ap_handle_e42_setup_request_iapp_def generate_setup_response_def e2ap_send_sctp_msg_iapp_def)
qed

section \<open>Subscription\<close>

lemma register_entries:
  assumes "register_subscription r x rf req = Inr (r', b)" "e \<in> set (reg_entries r')"
  shows "se_xapp_id e = x \<or> se_xapp_id e \<in> se_xapp_id ` set (reg_entries r)"
proof (cases "update_entry x rf (\<lambda>e. e\<lparr>se_ric_req_id := req, se_active := True\<rparr>) (reg_entries r)")
  case None
  then show ?thesis
    using assms by (auto simp: register_subscription_def Let_def split: if_splits)
next
  case (Some es)
  then have "reg_entries r' = es"
    using assms(1) by (auto simp: register_subscription_def)
  then have "List.map entry_key (reg_entries r') = List.map entry_key (reg_entries r)"
    using update_entry_Some [OF Some] by simp
  then have "set (List.map entry_key (reg_entries r')) = set (List.map entry_key (reg_entries r))"
    by (rule arg_cong)
  moreover have "entry_key e \<in> set (List.map entry_key (reg_entries r'))"
    using assms(2) by simp
  ultimately show ?thesis
    by auto
qed

lemma ucast_up_16: "ucast (ucast (x :: u16) :: u32) = x"
  by transfer (simp add: take_bit_eq_mod)

lemma valid_xapp:
  assumes "xapps_ok i" "xapp_conn i x s"
  shows "valid_xapp_id i (ucast x) = Inr True"
proof -
  have x: "unat x < unat (ia_xapp_id i)" "unat x < 2 ^ 16"
    using assms unsigned_less [of x] by (auto simp: xapps_ok_def xapp_conn_def)
  then have "unat (ucast x :: u32) = unat x"
    by (simp add: unsigned_ucast_eq take_bit_eq_mod)
  then show ?thesis
    using x by (simp add: valid_xapp_id_def word_less_nat_alt word_le_nat_alt)
qed

text \<open>What a subscription request of an xApp does.\<close>

definition sub_binding :: "e42_ric_subscription_request_t \<Rightarrow> e2_node_ric_id_t \<times> xapp_ric_id_t" where
  "sub_binding r =
     (\<lparr>en_e2_node_id = e42s_id r, en_ric_id = sreq_ric_id (e42s_sr r),
       en_ric_req_type = SUBSCRIPTION_RIC_REQUEST_TYPE\<rparr>,
      \<lparr>xr_ric_id = sreq_ric_id (e42s_sr r), xr_xapp_id = e42s_xapp_id r\<rparr>)"

lemma insert_binding_ok:
  assumes "ric_id_ok m" "\<not> mr_wrlocked m"
    and "\<forall>(n', x') \<in> ric_pairs m. node_req n' \<noteq> node_req n \<and> x' \<noteq> x"
  shows "\<exists>bm. bi_map_insert (mr_bimap m) n sizeof_e2_node_ric_id x sizeof_xapp_ric_id = Inr bm \<and>
     ric_id_ok (m\<lparr>mr_bimap := bm, mr_wrlocked := False\<rparr>) \<and> bm_pairs bm = insert (n, x) (ric_pairs m)"
proof -
  have fresh: "\<forall>(n', x') \<in> ric_pairs m. e2_ric_rank n' \<noteq> e2_ric_rank n \<and> xapp_ric_rank x' \<noteq> xapp_ric_rank x"
    unfolding e2_ric_rank_eq xapp_ric_rank_inj using assms(3) .
  have "\<exists>bm. bi_map_insert (mr_bimap m) n sizeof_e2_node_ric_id x sizeof_xapp_ric_id = Inr bm \<and>
      ricid.inv bm \<and> bm_pairs bm = insert (n, x) (ric_pairs m) \<and> bm_same_conf (mr_bimap m) bm"
    by (rule ricid.insert_ok [OF _ _ _ _ _ _ _ fresh])
      (use assms(1) in \<open>auto simp: ric_id_ok_def conf_ok_def sizeof_defs\<close>)
  then obtain bm where bm: "bi_map_insert (mr_bimap m) n sizeof_e2_node_ric_id x sizeof_xapp_ric_id = Inr bm"
    "ricid.inv bm" "bm_pairs bm = insert (n, x) (ric_pairs m)" "bm_same_conf (mr_bimap m) bm"
    by blast
  have "conf_ok sizeof_e2_node_ric_id sizeof_xapp_ric_id bm"
    using assms(1) conf_ok_same [OF _ bm(4)] by (simp add: ric_id_ok_def)
  then show ?thesis
    using bm(1-3) by (intro exI [of _ bm]) (simp add: ric_id_ok_def)
qed

lemma subscription_request_ok:
  assumes "nr_ok ric" "iapp_ok i" "xapps_ok i" "os_ok os"
    and "(e42s_id r, s) \<in> node_sockets ric" "plain_node (e42s_id r)"
    and "xapp_conn i (e42s_xapp_id r) t"
    and "sub_event (sreq_ric_id (e42s_sr r)) \<notin> snd ` pending_events ric"
    and "ric_req_id (sreq_ric_id (e42s_sr r)) \<noteq> 0" "ric_req_id (sreq_ric_id (e42s_sr r)) < 2 ^ 16"
    and "\<forall>(n, x) \<in> ric_pairs (ia_map_ric_id i). node_req n \<noteq> ric_req_id (sreq_ric_id (e42s_sr r))"
  shows "\<exists>ric' registry ids.
     e2ap_handle_e42_ric_subscription_request_iapp os (ric, i) r =
       Inr ((ric', i\<lparr>ia_subscription_registry := registry, ia_map_ric_id := ids\<rparr>), no_msg) \<and>
     requested ric (os ric) (sub_event (sreq_ric_id (e42s_sr r))) s (Ric_Sub_Req (e42s_sr r)) ric' \<and>
     ric_pairs ids = insert (sub_binding r) (ric_pairs (ia_map_ric_id i)) \<and>
     (\<forall>k. active_key (reg_entries registry) k =
        (k = (ucast (e42s_xapp_id r), ran_func_id (sreq_ric_id (e42s_sr r))) \<or>
         active_key (reg_entries (ia_subscription_registry i)) k)) \<and>
     iapp_ok (i\<lparr>ia_subscription_registry := registry, ia_map_ric_id := ids\<rparr>) \<and>
     xapps_ok (i\<lparr>ia_subscription_registry := registry, ia_map_ric_id := ids\<rparr>)"
proof -
  let ?rid = "sreq_ric_id (e42s_sr r)" and ?q = "ucast (ric_req_id (sreq_ric_id (e42s_sr r))) :: u16"
  have q: "ucast ?q = ric_req_id ?rid"
    by (rule ucast_16 [OF assms(10)])
  have q0: "?q \<noteq> 0"
    using q assms(9) by auto
  have rid: "?rid\<lparr>ric_req_id := ucast ?q\<rparr> = ?rid"
    unfolding q by simp
  have fd: "fresh_fd ric (os ric)"
    using assms(4) by (simp add: os_ok_def)
  obtain ric' where ric': "fwd_ric_subscription_request ric (e42s_id r) (e42s_sr r) (os ric) = Inr (ric', ?q)"
    "requested ric (os ric) (sub_event ?rid) s (Ric_Sub_Req (e42s_sr r)) ric'"
    using fwd_subscription_ok [OF assms(1) fd assms(5,6,8)] by blast
  have reg: "registry_ok (ia_subscription_registry i)" and ids: "ric_id_ok (ia_map_ric_id i)"
    "\<not> mr_wrlocked (ia_map_ric_id i)"
    using assms(2) by (simp_all add: iapp_ok_def)
  obtain registry where registry: "register_subscription (ia_subscription_registry i) (ucast (e42s_xapp_id r))
      (ran_func_id ?rid) ?q = Inr (registry, True)" "registry_ok registry"
    "\<forall>k. active_key (reg_entries registry) k = (k = (ucast (e42s_xapp_id r), ran_func_id ?rid) \<or>
         active_key (reg_entries (ia_subscription_registry i)) k)"
    using register_subscription_ok [OF reg] by blast
  have "\<exists>s. xapp_conn i (ucast (se_xapp_id e)) s" if "e \<in> set (reg_entries registry)" for e
    using register_entries [OF registry(1) that] assms(2,7) by (auto simp: iapp_ok_def ucast_up_16)
  then have i1: "iapp_ok (i\<lparr>ia_subscription_registry := registry\<rparr>)"
    by (intro iapp_ok_registry [OF assms(2) registry(2)]) blast
  have "\<forall>(n', x') \<in> ric_pairs (ia_map_ric_id i). node_req n' \<noteq> node_req (fst (sub_binding r)) \<and> x' \<noteq> snd (sub_binding r)"
    using assms(3,11) by (fastforce simp: xapps_ok_def sub_binding_def)
  then obtain bm where bm: "bi_map_insert (mr_bimap (ia_map_ric_id i)) (fst (sub_binding r)) sizeof_e2_node_ric_id
      (snd (sub_binding r)) sizeof_xapp_ric_id = Inr bm"
    "ric_id_ok ((ia_map_ric_id i)\<lparr>mr_bimap := bm, mr_wrlocked := False\<rparr>)"
    "bm_pairs bm = insert (sub_binding r) (ric_pairs (ia_map_ric_id i))"
    using insert_binding_ok [OF ids, of "fst (sub_binding r)" "snd (sub_binding r)"] by auto
  let ?ids = "(ia_map_ric_id i)\<lparr>mr_bimap := bm, mr_wrlocked := False\<rparr>"
  have "iapp_ok (i\<lparr>ia_subscription_registry := registry, ia_map_ric_id := ?ids\<rparr>)"
    by (rule iapp_ok_ids [OF i1 bm(2)])
      (use assms(2,7,10) bm(3) in \<open>auto simp: iapp_ok_def xapp_conn_def sub_binding_def\<close>)
  moreover have "xapps_ok (i\<lparr>ia_subscription_registry := registry, ia_map_ric_id := ?ids\<rparr>)"
    using assms(3) bm(3) by (auto simp: xapps_ok_def sub_binding_def)
  moreover have "e2ap_handle_e42_ric_subscription_request_iapp os (ric, i) r =
      Inr ((ric', i\<lparr>ia_subscription_registry := registry, ia_map_ric_id := ?ids\<rparr>), no_msg)"
    using valid_xapp [OF assms(3,7)] xapp_conn_find [OF assms(2,7)] ric'(1) registry(1) bm(1) q0
    by (simp add: e2ap_handle_e42_ric_subscription_request_iapp_def Let_def rid sub_binding_def)
  ultimately show ?thesis
    using ric'(2) bm(3) registry(3) by (intro exI [of _ ric'] exI [of _ registry] exI [of _ ?ids]) simp
qed

section \<open>Deletion\<close>

text \<open>What a deletion does to the RIC: nothing when it is pending already.\<close>

definition delete_sent :: "os_timer \<Rightarrow> near_ric_t \<Rightarrow> e2_node_ric_id_t \<Rightarrow> sctp_info_t \<Rightarrow> near_ric_t \<Rightarrow> bool" where
  "delete_sent os ric n s ric' \<longleftrightarrow>
     (if del_event (en_ric_id n) \<in> snd ` pending_events ric then ric' = ric
      else requested ric (os ric) (del_event (en_ric_id n)) s (Ric_Sub_Del_Req \<lparr>sdr_ric_id = en_ric_id n\<rparr>) ric')"

lemma gen_delete_ok:
  assumes "nr_ok ric" "os_ok os" "(en_e2_node_id n, s) \<in> node_sockets ric" "plain_node (en_e2_node_id n)"
  shows "\<exists>ric'. gen_e2ap_subs_delete os n ric = Inr ric' \<and> delete_sent os ric n s ric'"
proof -
  have "fresh_fd ric (os ric)"
    using assms(2) by (simp add: os_ok_def)
  then show ?thesis
    using fwd_delete_ok [OF assms(1) _ assms(3,4), of "os ric" "\<lparr>sdr_ric_id = en_ric_id n\<rparr>"]
      fwd_delete_pending [OF assms(1), of "\<lparr>sdr_ric_id = en_ric_id n\<rparr>" "en_e2_node_id n" "os ric"]
    by (cases "del_event (en_ric_id n) \<in> snd ` pending_events ric")
      (auto simp: gen_e2ap_subs_delete_def delete_sent_def)
qed

lemma binding_rid:
  "xapps_ok i \<Longrightarrow> (n, x) \<in> ric_pairs (ia_map_ric_id i) \<Longrightarrow>
     xr_ric_id x = en_ric_id n \<and> en_ric_req_type n = SUBSCRIPTION_RIC_REQUEST_TYPE"
  by (auto simp: xapps_ok_def)

lemma find_binding:
  assumes "iapp_ok i" "xapps_ok i" "(n, x) \<in> ric_pairs (ia_map_ric_id i)" "xr_ric_id y = xr_ric_id x"
  shows "find_ric_req_map_ric_id (ia_map_ric_id i) y = Inr n"
proof (rule find_ric_req_ok [OF _ _ assms(3)])
  show "n'' = n" if "(n'', x'') \<in> ric_pairs (ia_map_ric_id i)" "xr_ric_id x'' = xr_ric_id y" for n'' x''
  proof -
    have "node_req n'' = node_req n"
      using binding_rid [OF assms(2,3)] binding_rid [OF assms(2) that(1)] assms(4) that(2) by simp
    then show ?thesis
      using ric_pairs_uniq [OF _ that(1) assms(3)] assms(1) by (simp add: iapp_ok_def ric_id_ok_def)
  qed
qed (use assms(1,4) in \<open>simp_all add: iapp_ok_def\<close>)

lemma delete_request_ok:
  assumes "nr_ok ric" "iapp_ok i" "xapps_ok i" "os_ok os" "(n, x) \<in> ric_pairs (ia_map_ric_id i)"
    and "(en_e2_node_id n, s) \<in> node_sockets ric" "plain_node (en_e2_node_id n)"
    and "sdr_ric_id (e42d_sdr r) = xr_ric_id x"
  shows "\<exists>ric'. e2ap_handle_e42_ric_subscription_delete_request_iapp os (ric, i) r = Inr ((ric', i), no_msg) \<and>
     delete_sent os ric n s ric'"
proof -
  have n: "en_ric_req_type n = SUBSCRIPTION_RIC_REQUEST_TYPE" "xr_ric_id x = en_ric_id n"
    using binding_rid [OF assms(3,5)] by simp_all
  have f: "find_ric_req_map_ric_id (ia_map_ric_id i)
      \<lparr>xr_ric_id = sdr_ric_id (e42d_sdr r), xr_xapp_id = e42d_xapp_id r\<rparr> = Inr n"
    by (rule find_binding [OF assms(2,3,5)]) (simp add: assms(8))
  obtain ric' where ric': "gen_e2ap_subs_delete os n ric = Inr ric'" "delete_sent os ric n s ric'"
    using gen_delete_ok [OF assms(1,4,6,7)] by blast
  have d: "e42d_sdr r = \<lparr>sdr_ric_id = en_ric_id n\<rparr>"
    using assms(8) n(2) by (cases "e42d_sdr r") simp
  have "e2ap_handle_e42_ric_subscription_delete_request_iapp os (ric, i) r = Inr ((ric', i), no_msg)"
    using f ric'(1) n d
    by (simp add: e2ap_handle_e42_ric_subscription_delete_request_iapp_def gen_e2ap_subs_delete_def Let_def)
  then show ?thesis
    using ric'(2) by blast
qed

lemma delete_sent_frame:
  assumes "delete_sent os ric n s ric'" "nr_ok ric"
  shows "nr_ok ric'" "nr_e2_nodes ric' = nr_e2_nodes ric" "nr_conn_e2_nodes ric' = nr_conn_e2_nodes ric"
    "nr_sm_ds ric' = nr_sm_ds ric" "nr_pub_sub ric' = nr_pub_sub ric"
    "snd ` pending_events ric' = insert (del_event (en_ric_id n)) (snd ` pending_events ric)"
  using assms by (auto simp: delete_sent_def requested_def split: if_splits)

section \<open>End of an xApp\<close>

text \<open>The messages of a series of deletions none of which is pending.\<close>

abbreviation deletion_of :: "near_ric_t \<Rightarrow> e2_node_ric_id_t \<Rightarrow> sctp_info_t \<times> e2ap_msg_t \<Rightarrow> bool" where
  "deletion_of ric n p \<equiv>
     (en_e2_node_id n, fst p) \<in> node_sockets ric \<and> snd p = Ric_Sub_Del_Req \<lparr>sdr_ric_id = en_ric_id n\<rparr>"

lemma delete_all_ok:
  assumes "nr_ok ric" "os_ok os" "distinct (List.map en_ric_id ns)"
    and "\<forall>n \<in> set ns. en_e2_node_id n \<in> fst ` node_sockets ric \<and> plain_node (en_e2_node_id n)"
  shows "\<exists>ric' out. fold_res (gen_e2ap_subs_delete os) ns ric = Inr ric' \<and> nr_ok ric' \<and>
     nr_e2_nodes ric' = nr_e2_nodes ric \<and> nr_conn_e2_nodes ric' = nr_conn_e2_nodes ric \<and>
     nr_sm_ds ric' = nr_sm_ds ric \<and> nr_pub_sub ric' = nr_pub_sub ric \<and>
     snd ` pending_events ric' = snd ` pending_events ric \<union> del_event ` en_ric_id ` set ns \<and>
     nr_sent ric' = nr_sent ric @ out \<and>
     list_all2 (deletion_of ric) (filter (\<lambda>n. del_event (en_ric_id n) \<notin> snd ` pending_events ric) ns) out"
  using assms
proof (induction ns arbitrary: ric)
  case (Cons n ns)
  obtain s where s: "(en_e2_node_id n, s) \<in> node_sockets ric" "plain_node (en_e2_node_id n)"
    using Cons.prems(4) by force
  obtain ric1 where 1: "gen_e2ap_subs_delete os n ric = Inr ric1" "delete_sent os ric n s ric1"
    using gen_delete_ok [OF Cons.prems(1,2) s] by blast
  note fr = delete_sent_frame [OF 1(2) Cons.prems(1)]
  have "distinct (List.map en_ric_id ns)"
    "\<forall>n \<in> set ns. en_e2_node_id n \<in> fst ` node_sockets ric1 \<and> plain_node (en_e2_node_id n)"
    using Cons.prems(3,4) fr(2) by simp_all
  from Cons.IH [OF fr(1) Cons.prems(2) this]
  obtain ric' out where 2: "fold_res (gen_e2ap_subs_delete os) ns ric1 = Inr ric'" "nr_ok ric'"
    "nr_e2_nodes ric' = nr_e2_nodes ric1" "nr_conn_e2_nodes ric' = nr_conn_e2_nodes ric1"
    "nr_sm_ds ric' = nr_sm_ds ric1" "nr_pub_sub ric' = nr_pub_sub ric1"
    "snd ` pending_events ric' = snd ` pending_events ric1 \<union> del_event ` en_ric_id ` set ns"
    "nr_sent ric' = nr_sent ric1 @ out"
    "list_all2 (deletion_of ric1) (filter (\<lambda>n. del_event (en_ric_id n) \<notin> snd ` pending_events ric1) ns) out"
    by (elim exE conjE)
  have "\<forall>x \<in> set ns. en_ric_id x \<noteq> en_ric_id n"
    using Cons.prems(3) by (metis distinct.simps(2) image_eqI list.set_map list.simps(9))
  then have "filter (\<lambda>n. del_event (en_ric_id n) \<notin> snd ` pending_events ric1) ns =
      filter (\<lambda>n. del_event (en_ric_id n) \<notin> snd ` pending_events ric) ns"
    unfolding fr(6) by (intro filter_cong) simp_all
  then have out: "list_all2 (deletion_of ric)
      (filter (\<lambda>n. del_event (en_ric_id n) \<notin> snd ` pending_events ric) ns) out"
    using 2(9) fr(2) by simp
  define o1 where "o1 = (if del_event (en_ric_id n) \<in> snd ` pending_events ric then []
    else [(s, Ric_Sub_Del_Req \<lparr>sdr_ric_id = en_ric_id n\<rparr>)])"
  have "nr_sent ric1 = nr_sent ric @ o1"
    using 1(2) by (auto simp: delete_sent_def requested_def o1_def)
  then have sent: "nr_sent ric' = nr_sent ric @ o1 @ out"
    using 2(8) by simp
  have "list_all2 (deletion_of ric)
      (filter (\<lambda>n. del_event (en_ric_id n) \<notin> snd ` pending_events ric) (n # ns)) (o1 @ out)"
    using out s by (simp add: o1_def)
  moreover have "snd ` pending_events ric' = snd ` pending_events ric \<union> del_event ` en_ric_id ` set (n # ns)"
    using 2(7) fr(6) by simp
  ultimately show ?case
    using 1(1) 2(1-6) fr(2-5) sent by (intro exI [of _ ric'] exI [of _ "o1 @ out"]) simp
qed simp

lemma subs_distinct:
  assumes "ricid.inv m"
  shows "distinct (List.map en_ric_id (xapp_subs x (rb_entries (bm_right m))))"
proof -
  let ?es = "filter (\<lambda>e. xr_xapp_id (fst e) = x \<and> en_ric_req_type (snd e) = SUBSCRIPTION_RIC_REQUEST_TYPE)
    (rb_entries (bm_right m))"
  have "distinct (rb_entries (bm_right m))"
    using assms by (auto simp: bm_inv_def rb_uniq_def distinct_map)
  moreover have "inj_on (\<lambda>e. en_ric_id (snd e)) (set ?es)"
  proof (rule inj_onI)
    fix e e'
    assume "e \<in> set ?es" "e' \<in> set ?es" "en_ric_id (snd e) = en_ric_id (snd e')"
    then have "(snd e, fst e) \<in> bm_pairs m" "(snd e', fst e') \<in> bm_pairs m" "node_req (snd e) = node_req (snd e')"
      using ricid.inv_right [OF assms, of "fst e" "snd e"] ricid.inv_right [OF assms, of "fst e'" "snd e'"]
      by simp_all
    from ric_pairs_uniq [OF assms this] show "e = e'"
      by (cases e; cases e') simp
  qed
  ultimately have "distinct (List.map (\<lambda>e. en_ric_id (snd e)) ?es)"
    by (simp add: distinct_map)
  then show ?thesis
    by (simp add: xapp_subs_def comp_def)
qed

lemma xapp_shutdown_ok:
  assumes "nr_ok ric" "iapp_ok i" "xapps_ok i" "os_ok os" "(x, s) \<in> bm_pairs (ia_xapps i)"
    and "sctp_rank s = sctp_rank info"
    and "\<forall>(n, y) \<in> ric_pairs (ia_map_ric_id i). xr_xapp_id y = x \<longrightarrow>
        en_e2_node_id n \<in> fst ` node_sockets ric \<and> plain_node (en_e2_node_id n)"
  shows "\<exists>ric' ns out. handle_event_iapp os (SCTP_CONNECTION_SHUTDOWN_EVENT info sn) (ric, i) = Inr (ric', i) \<and>
     set ns = {n. \<exists>y. (n, y) \<in> ric_pairs (ia_map_ric_id i) \<and> xr_xapp_id y = x} \<and> nr_ok ric' \<and>
     nr_e2_nodes ric' = nr_e2_nodes ric \<and> nr_conn_e2_nodes ric' = nr_conn_e2_nodes ric \<and>
     nr_sm_ds ric' = nr_sm_ds ric \<and> nr_pub_sub ric' = nr_pub_sub ric \<and>
     snd ` pending_events ric' = snd ` pending_events ric \<union> del_event ` en_ric_id ` set ns \<and>
     nr_sent ric' = nr_sent ric @ out \<and>
     list_all2 (deletion_of ric) (filter (\<lambda>n. del_event (en_ric_id n) \<notin> snd ` pending_events ric) ns) out"
proof -
  let ?m = "ia_map_ric_id i"
  let ?ns = "xapp_subs x (rb_entries (bm_right (mr_bimap ?m)))"
  have ok: "xapps_sad_ok (ia_xapps i)" "\<not> mr_wrlocked ?m" "ricid.inv (mr_bimap ?m)"
    using assms(2) by (auto simp: iapp_ok_def ric_id_ok_def)
  obtain arr where arr: "find_all_subs_map_ric_id ?m x = Inr arr" "sa_inv arr" "sa_contents arr = ?ns"
    using find_all_subs_ok [OF ok(2)] by blast
  have set: "set ?ns = {n. \<exists>y. (n, y) \<in> ric_pairs ?m \<and> xr_xapp_id y = x}"
  proof (rule set_eqI)
    fix n
    have "n \<in> set ?ns \<longleftrightarrow> (\<exists>y. (y, n) \<in> rb_set (bm_right (mr_bimap ?m)) \<and> xr_xapp_id y = x \<and>
        en_ric_req_type n = SUBSCRIPTION_RIC_REQUEST_TYPE)"
      by (force simp: xapp_subs_def)
    also have "\<dots> \<longleftrightarrow> (\<exists>y. (n, y) \<in> ric_pairs ?m \<and> xr_xapp_id y = x)"
      using ricid.inv_right [OF ok(3)] binding_rid [OF assms(3)] by blast
    finally show "n \<in> set ?ns \<longleftrightarrow> n \<in> {n. \<exists>y. (n, y) \<in> ric_pairs ?m \<and> xr_xapp_id y = x}"
      by simp
  qed
  have d: "distinct (List.map en_ric_id ?ns)"
    by (rule subs_distinct [OF ok(3)])
  have "\<forall>n \<in> set ?ns. en_e2_node_id n \<in> fst ` node_sockets ric \<and> plain_node (en_e2_node_id n)"
    unfolding set using assms(7) by blast
  from delete_all_ok [OF assms(1,4) d this]
  obtain ric' out where r: "fold_res (gen_e2ap_subs_delete os) ?ns ric = Inr ric'" "nr_ok ric'"
    "nr_e2_nodes ric' = nr_e2_nodes ric" "nr_conn_e2_nodes ric' = nr_conn_e2_nodes ric"
    "nr_sm_ds ric' = nr_sm_ds ric" "nr_pub_sub ric' = nr_pub_sub ric"
    "snd ` pending_events ric' = snd ` pending_events ric \<union> del_event ` en_ric_id ` set ?ns"
    "nr_sent ric' = nr_sent ric @ out"
    "list_all2 (deletion_of ric) (filter (\<lambda>n. del_event (en_ric_id n) \<notin> snd ` pending_events ric) ?ns) out"
    by (elim exE conjE)
  have "find_map_xapps_xid (ia_xapps i) info = Inr x"
    by (rule find_map_xapps_xid_ok [OF ok(1) assms(5,6)])
  then have "handle_event_iapp os (SCTP_CONNECTION_SHUTDOWN_EVENT info sn) (ric, i) = Inr (ric', i)"
    using arr r(1) by (simp add: handle_event_iapp_def rm_if_pending_subs_def for_arr_ok)
  then show ?thesis
    using set r(2-9) by (intro exI [of _ ric'] exI [of _ ?ns] exI [of _ out] conjI) assumption+
qed

section \<open>Control\<close>

lemma node_sockets_valid: "nr_ok ric \<Longrightarrow> a \<in> fst ` node_sockets ric \<Longrightarrow> valid_node_id a"
  using e2sad.inv_valid [of "nr_e2_nodes ric"] by (force simp: nr_ok_def e2_sad_ok_def)

lemma valid_global_ok:
  assumes "nr_ok ric" "iapp_ok i" "nodes_ok (ric, i)" "length (reg_nodes (ia_e2_nodes i)) < 256"
    and "nid \<in> fst ` node_sockets ric"
  shows "valid_global_e2_node i nid = Inr True"
proof -
  have ids: "con_id ` set (reg_nodes (ia_e2_nodes i)) = fst ` node_sockets ric"
    using assms(3) by (simp add: nodes_ok_def)
  have "eq_global_e2_node_id (con_id n) nid = Inr (con_id n = nid)" if "n \<in> set (reg_nodes (ia_e2_nodes i))" for n
  proof (rule eq_global_e2_node_id_valid)
    have n: "con_id n \<in> fst ` node_sockets ric"
      using that ids by blast
    then show "valid_node_id (con_id n)"
      by (rule node_sockets_valid [OF assms(1)])
    show "NODE_IS_CU (gid_type (con_id n)) \<longrightarrow> NODE_IS_CUUP (gid_type (con_id n))"
      using n assms(3) by (auto simp: nodes_ok_def plain_node_def)
  qed (rule node_sockets_valid [OF assms(1,5)])
  then have "find_res (\<lambda>n. eq_global_e2_node_id (con_id n) nid) (reg_nodes (ia_e2_nodes i)) =
      Inr (List.find (\<lambda>n. con_id n = nid) (reg_nodes (ia_e2_nodes i)))"
    by (rule find_res_total)
  moreover have "List.find (\<lambda>n. con_id n = nid) (reg_nodes (ia_e2_nodes i)) \<noteq> None"
    using assms(5) unfolding find_eq_None ids [symmetric] by auto
  moreover have "generate_e2_node_arr (ia_e2_nodes i) = Inr (reg_nodes (ia_e2_nodes i))"
    using generate_e2_node_arr_ok [of "ia_e2_nodes i"] assms(2,4) by (simp add: iapp_ok_def)
  ultimately show ?thesis
    by (simp add: valid_global_e2_node_def)
qed

text \<open>The request reaches the E2 node, and the iApp is left as it was: there is no binding.\<close>

lemma control_request_ok:
  assumes "nr_ok ric" "iapp_ok i" "xapps_ok i" "nodes_ok (ric, i)" "os_ok os"
    and "xapp_conn i (e42c_xapp_id r) t" "(e42c_id r, s) \<in> node_sockets ric"
    and "length (reg_nodes (ia_e2_nodes i)) < 256"
  defines "cr \<equiv> relabel (ucast (nr_req_id ric)) (e42c_ctrl_req r)"
  assumes "ctrl_event (cr_ric_id cr) \<notin> snd ` pending_events ric"
  shows "\<exists>ric'. e2ap_handle_e42_ric_control_request_iapp os (ric, i) r = Inr ((ric', i), no_msg) \<and>
     requested ric (os ric) (ctrl_event (cr_ric_id cr)) s (Ric_Ctrl_Req cr) ric' \<and>
     nr_req_id ric' = nr_req_id ric + 1"
proof -
  have nid: "e42c_id r \<in> fst ` node_sockets ric"
    using assms(7) by force
  then have plain: "plain_node (e42c_id r)"
    using assms(4) by (auto simp: nodes_ok_def)
  have fd: "fresh_fd ric (os ric)" and l: "\<not> mr_wrlocked (ia_map_ric_id i)"
    using assms(2,5) by (simp_all add: os_ok_def iapp_ok_def)
  obtain ric' where ric': "fwd_ric_control_request ric (e42c_id r) (e42c_ctrl_req r) (os ric) =
      Inr (ric', cr, ucast (nr_req_id ric))"
    "requested ric (os ric) (ctrl_event (cr_ric_id cr)) s (Ric_Ctrl_Req cr) ric'" "nr_req_id ric' = nr_req_id ric + 1"
    using fwd_control_ok [OF assms(1) fd assms(7) plain] assms(10) unfolding cr_def by blast
  have "i\<lparr>ia_map_ric_id := (ia_map_ric_id i)\<lparr>mr_wrlocked := True, mr_wrlocked := False\<rparr>\<rparr> = i"
    using l by simp
  then have "e2ap_handle_e42_ric_control_request_iapp os (ric, i) r = Inr ((ric', i), no_msg)"
    using valid_xapp [OF assms(3,6)] valid_global_ok [OF assms(1,2,4,8) nid] l ric'(1)
    by (simp add: e2ap_handle_e42_ric_control_request_iapp_def add_map_ric_id_def Let_def)
  then show ?thesis
    using ric'(2,3) by blast
qed

end
