(* ===== verification/Ric_Init.thy ===== *)
theory Ric_Init
  imports Iapp_Laws
begin

text \<open>
  The start of the near-RT RIC: the listeners that \<^verbatim>\<open>load_default_pub_sub_ric\<close> registers for every
  loaded service model, and that the state \<^verbatim>\<open>init_near_ric\<close> builds has the invariants of the
  other theories.  The last section is the publication of an indication to these listeners.
\<close>

section \<open>Writing a value in the tree\<close>

lemma rb_ok_replace:
  assumes "red_ok t = red_ok t'" "height_ok t = height_ok t'" "color t = color t'" "black_height t = black_height t'"
  shows "rb_ok (climb ps t) = rb_ok (climb ps t')"
  using assms
proof (induction ps arbitrary: t t')
  case (Cons p ps)
  show ?case
  proof (cases p)
    case (LeftOf c k v r)
    then show ?thesis
      using Cons.IH [of "Node c k v t r" "Node c k v t' r"] Cons.prems by simp
  next
    case (RightOf c k v l)
    then show ?thesis
      using Cons.IH [of "Node c k v l t" "Node c k v l t'"] Cons.prems by simp
  qed
qed (simp add: rb_ok_def)

lemma put_value_ok:
  assumes "rb_inv cm valid rank t" "iter_of (rb_root t) it" "remaining it = (k, v) # es"
  shows "\<exists>xs. rb_entries t = xs @ (k, v) # es \<and> rb_entries (put_value t it v') = xs @ (k, v') # es \<and>
     rb_inv cm valid rank (put_value t it v') \<and> rb_key_sz (put_value t it v') = rb_key_sz t"
proof -
  obtain ps c l r where it: "it = (ps, Node c k v l r)" "es = inorder r @ after ps"
    using assms(3) by (cases it rule: remaining.cases) auto
  have root: "climb ps (Node c k v l r) = rb_root t"
    using assms(2) it(1) by (auto simp: iter_of_def assoc_rb_tree_end_def)
  then have e: "rb_entries t = (before ps @ inorder l) @ (k, v) # es"
    using it(2) by (simp flip: root)
  have e': "rb_entries (put_value t it v') = (before ps @ inorder l) @ (k, v') # es"
    using it by simp
  have "rb_ok (climb ps (Node c k v' l r))"
    using assms(1) root rb_ok_replace [of "Node c k v l r" "Node c k v' l r" ps] by (simp add: rb_inv_def)
  then have "rb_inv cm valid rank (put_value t it v')"
    using assms(1) e e' it(1) by (simp add: rb_inv_def)
  then show ?thesis
    using e e' it(1) by (intro exI [of _ "before ps @ inorder l"]) simp
qed

section \<open>Listeners\<close>

definition pub_ok :: "(u16, subs_ric_t seq_arr_t) assoc_rb_tree_t \<Rightarrow> bool" where
  "pub_ok t \<longleftrightarrow>
     rb_inv cmp_ran_func_id any (\<lambda>a. a) t \<and> rb_uniq (\<lambda>a. a) t \<and> rb_key_sz t = sizeof_uint16 \<and>
     (\<forall>(k, arr) \<in> rb_set t. sa_inv arr \<and> sa_elt_size arr = sizeof_subs_ric)"

text \<open>The RAN functions with their listeners in order.\<close>

definition listeners :: "(u16, subs_ric_t seq_arr_t) assoc_rb_tree_t \<Rightarrow> (u16 \<times> subs_ric_t list) set" where
  "listeners t = (\<lambda>(k, arr). (k, sa_contents arr)) ` rb_set t"

lemma register_new_ok:
  assumes "pub_ok t" "k \<notin> fst ` rb_set t"
  shows "\<exists>t'. register_listeners_for_ran_func_id k s t = Inr t' \<and> pub_ok t' \<and>
     fst ` rb_set t' = insert k (fst ` rb_set t) \<and> listeners t' = insert (k, [s]) (listeners t)"
proof -
  obtain it where it: "find_if_rb_tree (eq_ran_func_id k) (assoc_rb_tree_front t) = Inr it" "at_end it"
    using find_sm [of k t] assms(2) by blast
  let ?a = "seq_arr_init sizeof_subs_ric :: subs_ric_t seq_arr_t"
  have "0 < sizeof_subs_ric"
    by (simp add: sizeof_subs_ric_def)
  then have a: "sa_inv ?a" "sa_contents ?a = []"
    using sa_inv_init by blast+
  have a3: "sizeof_subs_ric = sa_elt_size ?a"
    by (simp add: seq_arr_init_def)
  obtain arr where arr: "seq_arr_push_back (seq_arr_init sizeof_subs_ric) s sizeof_subs_ric = Inr arr" "sa_inv arr"
    "sa_contents arr = [s]" "sa_elt_size arr = sizeof_subs_ric"
    using push_back_ok [OF a(1) a3, of s] a(2) a3 by auto
  have p: "rb_inv cmp_ran_func_id any (\<lambda>a. a) t" "rb_uniq (\<lambda>a. a) t" "sizeof_uint16 = rb_key_sz t"
    "\<forall>e \<in> rb_set t. fst e \<noteq> k"
    using assms by (auto simp: pub_ok_def)
  obtain t' where t': "assoc_rb_tree_insert t k sizeof_uint16 arr = Inr t'"
    "rb_inv cmp_ran_func_id any (\<lambda>a. a) t'" "rb_uniq (\<lambda>a. a) t'" "rb_set t' = insert (k, arr) (rb_set t)"
    "rb_key_sz t' = rb_key_sz t"
    using rfid.rb_insert_uniq [OF p(1,2) TrueI p(3,4), of arr] by blast
  then have "pub_ok t'"
    using assms(1) arr(2,4) by (simp add: pub_ok_def)
  then show ?thesis
    using it arr(1,3) t'(1,4) by (intro exI [of _ t'])
      (simp add: register_listeners_for_ran_func_id_def listeners_def)
qed

lemma register_more_ok:
  assumes "pub_ok t" "(k, xs) \<in> listeners t"
  shows "\<exists>t'. register_listeners_for_ran_func_id k s t = Inr t' \<and> pub_ok t' \<and>
     fst ` rb_set t' = fst ` rb_set t \<and> listeners t' = insert (k, xs @ [s]) (listeners t - {(k, xs)})"
proof -
  obtain arr where arr: "(k, arr) \<in> rb_set t" "xs = sa_contents arr"
    using assms(2) by (auto simp: listeners_def)
  have inv: "rb_inv cmp_ran_func_id any (\<lambda>a. a) t" "rb_uniq (\<lambda>a. a) t"
    using assms(1) by (simp_all add: pub_ok_def)
  obtain it where it: "find_if_rb_tree (eq_ran_func_id k) (assoc_rb_tree_front t) = Inr it"
    "iter_of (rb_root t) it" "remaining it = dropWhile (\<lambda>e. \<not> k = fst e) (rb_entries t)"
    using find_if_rb_tree_ok [OF iter_front [of t], of "eq_ran_func_id k" "\<lambda>k'. k = k'"]
    by (auto simp: remaining_front eq_ran_func_id_def)
  have "remaining it \<noteq> []"
    unfolding it(3) dropWhile_eq_Nil_conv using arr(1) by force
  then obtain k' arr' es where r: "remaining it = (k', arr') # es"
    by (cases "remaining it") auto
  have "\<not> \<not> k = fst (k', arr')"
    using hd_dropWhile [of "\<lambda>e. \<not> k = fst e" "rb_entries t"] it(3) r by (metis list.distinct(1) list.sel(1))
  moreover have "(k', arr') \<in> rb_set t"
    using r it(3) set_dropWhileD [of "(k', arr')" _ "rb_entries t"] by (metis list.set_intros(1))
  ultimately have k': "k' = k" "arr' = arr"
    using rb_uniq_inj [OF inv(2) arr(1)] by auto
  have a: "sa_inv arr" "sizeof_subs_ric = sa_elt_size arr"
    using assms(1) arr(1) by (auto simp: pub_ok_def)
  obtain arr2 where arr2: "seq_arr_push_back arr s sizeof_subs_ric = Inr arr2" "sa_inv arr2"
    "sa_contents arr2 = sa_contents arr @ [s]" "sa_elt_size arr2 = sizeof_subs_ric"
    using push_back_ok [OF a, of s] a(2) by auto
  let ?t = "put_value t it arr2"
  obtain ys where ys: "rb_entries t = ys @ (k, arr) # es" "rb_entries ?t = ys @ (k, arr2) # es"
    "rb_inv cmp_ran_func_id any (\<lambda>a. a) ?t" "rb_key_sz ?t = rb_key_sz t"
    using put_value_ok [OF inv(1) it(2) r [unfolded k'], of arr2] by blast
  have d: "k \<notin> fst ` set ys" "k \<notin> fst ` set es"
    using inv(2) by (auto simp: rb_uniq_def ys(1))
  then have d': "(k, b) \<notin> set ys" "(k, b) \<notin> set es" for b
    by force+
  have "rb_uniq (\<lambda>a. a) ?t"
    using inv(2) by (simp add: rb_uniq_def ys(1,2))
  then have "pub_ok ?t"
    using assms(1) ys(3,4) arr2(2,4) by (simp add: pub_ok_def ys(1,2))
  moreover have "register_listeners_for_ran_func_id k s t = Inr ?t"
    using it(1) r k' arr2(1) iter_value [OF r]
    by (simp add: register_listeners_for_ran_func_id_def at_end_remaining)
  moreover have "listeners ?t = insert (k, xs @ [s]) (listeners t - {(k, xs)})"
    using d' arr2(3) by (auto simp: listeners_def ys(1,2) arr(2))
  ultimately show ?thesis
    by (intro exI [of _ ?t]) (simp add: ys(1,2))
qed

section \<open>The default listeners\<close>

definition default_listeners :: "subs_ric_t list" where
  "default_listeners =
     [\<lparr>subs_name = ''stdout listener'', subs_fp = notify_stdout_listener\<rparr>,
      \<lparr>subs_name = ''redis listener'', subs_fp = notify_redis_listener\<rparr>,
      \<lparr>subs_name = ''influx listener'', subs_fp = notify_influx_listener\<rparr>]"

abbreviation register_defaults ::
  "u16 \<Rightarrow> (u16, subs_ric_t seq_arr_t) assoc_rb_tree_t \<Rightarrow> (u16, subs_ric_t seq_arr_t) assoc_rb_tree_t res" where
  "register_defaults rfun pub_sub \<equiv>
     bnd (register_listeners_for_ran_func_id rfun
            \<lparr>subs_name = ''stdout listener'', subs_fp = notify_stdout_listener\<rparr> pub_sub) (\<lambda>pub_sub.
     bnd (register_listeners_for_ran_func_id rfun
            \<lparr>subs_name = ''redis listener'', subs_fp = notify_redis_listener\<rparr> pub_sub) (\<lambda>pub_sub.
     register_listeners_for_ran_func_id rfun
            \<lparr>subs_name = ''influx listener'', subs_fp = notify_influx_listener\<rparr> pub_sub))"

lemma register_defaults_ok:
  assumes "pub_ok t" "k \<notin> fst ` rb_set t"
  shows "\<exists>t'. register_defaults k t = Inr t' \<and> pub_ok t' \<and> fst ` rb_set t' = insert k (fst ` rb_set t) \<and>
     listeners t' = insert (k, default_listeners) (listeners t)"
proof -
  have k: "(k, xs) \<notin> listeners t" for xs
    using assms(2) by (force simp: listeners_def)
  let ?a = "\<lparr>subs_name = ''stdout listener'', subs_fp = notify_stdout_listener\<rparr>"
  let ?b = "\<lparr>subs_name = ''redis listener'', subs_fp = notify_redis_listener\<rparr>"
  let ?c = "\<lparr>subs_name = ''influx listener'', subs_fp = notify_influx_listener\<rparr>"
  obtain t1 where 1: "register_listeners_for_ran_func_id k ?a t = Inr t1" "pub_ok t1"
    "fst ` rb_set t1 = insert k (fst ` rb_set t)" "listeners t1 = insert (k, [?a]) (listeners t)"
    using register_new_ok [OF assms] by blast
  have "(k, [?a]) \<in> listeners t1"
    by (simp add: 1(4))
  from register_more_ok [OF 1(2) this, of ?b]
  obtain t2 where 2: "register_listeners_for_ran_func_id k ?b t1 = Inr t2" "pub_ok t2"
    "fst ` rb_set t2 = fst ` rb_set t1" "listeners t2 = insert (k, [?a] @ [?b]) (listeners t1 - {(k, [?a])})"
    by blast
  have "(k, [?a] @ [?b]) \<in> listeners t2"
    by (simp add: 2(4))
  from register_more_ok [OF 2(2) this, of ?c]
  obtain t3 where 3: "register_listeners_for_ran_func_id k ?c t2 = Inr t3" "pub_ok t3"
    "fst ` rb_set t3 = fst ` rb_set t2"
    "listeners t3 = insert (k, ([?a] @ [?b]) @ [?c]) (listeners t2 - {(k, [?a] @ [?b])})"
    by blast
  have "listeners t1 - {(k, [?a])} = listeners t"
    unfolding 1(4) using k [of "[?a]"] by blast
  moreover have "listeners t2 - {(k, [?a] @ [?b])} = listeners t1 - {(k, [?a])}"
    unfolding 2(4) 1(4) using k [of "[?a] @ [?b]"] by blast
  ultimately have l: "listeners t3 = insert (k, default_listeners) (listeners t)"
    unfolding 3(4) by (simp add: default_listeners_def)
  have "register_defaults k t = Inr t3"
    by (simp only: 1(1) 2(1) 3(1) bnd_simps)
  then show ?thesis
    using 3(2) l by (intro exI [of _ t3]) (simp only: 3(3) 2(3) 1(3) simp_thms)
qed

lemma load_all_ok:
  assumes "pub_ok t" "distinct (List.map fst es)" "fst ` set es \<inter> fst ` rb_set t = {}"
  shows "\<exists>t'. fold_res (\<lambda>e. register_defaults (fst e)) es t = Inr t' \<and> pub_ok t' \<and>
     listeners t' = (\<lambda>e. (fst e, default_listeners)) ` set es \<union> listeners t"
  using assms
proof (induction es arbitrary: t)
  case (Cons e es)
  obtain t1 where 1: "register_defaults (fst e) t = Inr t1" "pub_ok t1"
    "fst ` rb_set t1 = insert (fst e) (fst ` rb_set t)" "listeners t1 = insert (fst e, default_listeners) (listeners t)"
    using register_defaults_ok [OF Cons.prems(1), of "fst e"] Cons.prems(3) by auto
  have "fst ` set es \<inter> fst ` rb_set t1 = {}"
    using Cons.prems(2,3) by (auto simp: 1(3))
  then obtain t2 where "fold_res (\<lambda>e. register_defaults (fst e)) es t1 = Inr t2" "pub_ok t2"
    "listeners t2 = (\<lambda>e. (fst e, default_listeners)) ` set es \<union> listeners t1"
    using Cons.IH [OF 1(2)] Cons.prems(2) by auto
  then show ?case
    using 1(1,4) by simp
qed simp

lemma init_pub_sub_ok:
  assumes "sm_ds_ok sm_ds"
  shows "\<exists>t0 t. init_pub_sub_ds_ric = Inr t0 \<and> load_default_pub_sub_ric sm_ds t0 = Inr t \<and> pub_ok t \<and>
     listeners t = (\<lambda>e. (fst e, default_listeners)) ` rb_set sm_ds"
proof -
  let ?t = "\<lparr>rb_root = Dummy, rb_comp = cmp_ran_func_id, rb_size = 0, rb_key_sz = sizeof_uint16,
    rb_free = Some free_subscribed\<rparr>"
  have init: "init_pub_sub_ds_ric = Inr ?t"
    by (simp add: init_pub_sub_ds_ric_def assoc_rb_tree_init_def sizeof_uint16_def)
  have p: "pub_ok ?t" "rb_set ?t = {}" "listeners ?t = {}"
    by (simp_all add: pub_ok_def rb_inv_def rb_ok_def rb_uniq_def listeners_def)
  have "distinct (List.map fst (rb_entries sm_ds))"
    using assms by (simp add: sm_ds_ok_def rb_uniq_def)
  then obtain t where "fold_res (\<lambda>e. register_defaults (fst e)) (rb_entries sm_ds) ?t = Inr t" "pub_ok t"
    "listeners t = (\<lambda>e. (fst e, default_listeners)) ` rb_set sm_ds"
    using load_all_ok [OF p(1), of "rb_entries sm_ds"] p(2,3) by auto
  then show ?thesis
    unfolding load_default_pub_sub_ric_def for_tree_front using init by blast
qed

definition pub_default :: "near_ric_t \<Rightarrow> bool" where
  "pub_default ric \<longleftrightarrow>
     pub_ok (nr_pub_sub ric) \<and>
     listeners (nr_pub_sub ric) = (\<lambda>e. (fst e, default_listeners)) ` rb_set (nr_sm_ds ric)"

lemma init_near_ric_ok:
  assumes "sm_ds_ok sm_ds" "0 < fd"
  shows "\<exists>ric. init_near_ric fd sm_ds = Inr ric \<and> nr_ok ric \<and> pub_default ric \<and> node_sockets ric = {} \<and>
     pending_events ric = {} \<and> sa_contents (nr_conn_e2_nodes ric) = [] \<and> sa_cap (nr_conn_e2_nodes ric) = 8 \<and>
     nr_fd ric = fd \<and> nr_io ric = [fd] \<and> nr_sm_ds ric = sm_ds \<and> nr_req_id ric = 0 \<and> nr_tasks ric = [] \<and>
     nr_sent ric = [] \<and> nr_published ric = []"
proof -
  obtain m where m: "init_map_e2_node_sad = Inr m" "e2_sad_ok m" "bm_pairs m = {}"
    using init_map_e2_node_sad_ok by blast
  obtain p where p: "init_pending_events = Inr p" "pending_ok p" "bm_pairs p = {}"
    using init_pending_events_ok by blast
  obtain t0 t where t: "init_pub_sub_ds_ric = Inr t0" "load_default_pub_sub_ric sm_ds t0 = Inr t" "pub_ok t"
    "listeners t = (\<lambda>e. (fst e, default_listeners)) ` rb_set sm_ds"
    using init_pub_sub_ok [OF assms(1)] by blast
  have arr: "sa_inv init_e2_nodes_ric" "sa_contents init_e2_nodes_ric = []"
    "sa_elt_size init_e2_nodes_ric = sizeof_e2_node" "sa_cap init_e2_nodes_ric = 8"
    by (simp_all add: init_e2_nodes_ric_def seq_arr_init_def sa_inv_def sa_contents_def MIN_SIZE_def sizeof_e2_node_def)
  let ?ric = "\<lparr>nr_fd = fd, nr_e2_nodes = m, nr_io = [fd], nr_sm_ds = sm_ds, nr_pub_sub = t,
      nr_conn_e2_nodes = init_e2_nodes_ric, nr_req_id = 0, nr_last_req_id = 0, nr_pending = p, nr_tasks = [],
      nr_sent = [], nr_published = [], nr_consumed = []\<rparr>"
  have "init_near_ric fd sm_ds = Inr ?ric"
    using assms(2) by (simp add: init_near_ric_def add_fd_asio_ric_def m(1) p(1) t(1,2))
  moreover have "nr_ok ?ric" "pub_default ?ric"
    using assms m p t arr by (simp_all add: nr_ok_def pub_default_def)
  ultimately show ?thesis
    using m(3) p(3) arr by (intro exI [of _ ?ric]) simp
qed

section \<open>Publication of an indication\<close>

lemma publish_first:
  assumes "pub_ok (nr_pub_sub ric)" "rb_entries (nr_pub_sub ric) = (k, arr) # es"
    and "rfun \<in> fst ` rb_set (nr_pub_sub ric)"
  shows "publish_ind_msg ric rfun d =
     Inr (ric\<lparr>nr_published := nr_published ric @ List.map (\<lambda>l. (subs_fp l, d)) (sa_contents arr)\<rparr>)"
proof -
  obtain it where it: "find_if_rb_tree (eq_ran_func_id rfun) (assoc_rb_tree_front (nr_pub_sub ric)) = Inr it" "\<not> at_end it"
    using find_sm [of rfun "nr_pub_sub ric"] assms(3) by blast
  have v: "assoc_rb_tree_value (assoc_rb_tree_front (nr_pub_sub ric)) = Inr arr"
    using iter_value [of "assoc_rb_tree_front (nr_pub_sub ric)" k arr es] assms(2) by (simp add: remaining_front)
  have "sa_inv arr"
    using assms(1,2) by (auto simp: pub_ok_def)
  moreover have "fold_res (\<lambda>l ric. Inr (ric\<lparr>nr_published := nr_published ric @ [(subs_fp l, d)]\<rparr>)) ls ric =
      Inr (ric\<lparr>nr_published := nr_published ric @ List.map (\<lambda>l. (subs_fp l, d)) ls\<rparr>)" for ls ric
    by (induction ls arbitrary: ric) simp_all
  ultimately show ?thesis
    using it v by (simp add: publish_ind_msg_def for_arr_ok)
qed

lemma publish_default:
  assumes "pub_default ric" "rfun \<in> fst ` rb_set (nr_sm_ds ric)"
  shows "publish_ind_msg ric rfun d =
     Inr (ric\<lparr>nr_published := nr_published ric @ List.map (\<lambda>l. (subs_fp l, d)) default_listeners\<rparr>)"
proof -
  have l: "listeners (nr_pub_sub ric) = (\<lambda>e. (fst e, default_listeners)) ` rb_set (nr_sm_ds ric)"
    and p: "pub_ok (nr_pub_sub ric)"
    using assms(1) by (simp_all add: pub_default_def)
  have k: "fst ` rb_set (nr_pub_sub ric) = fst ` rb_set (nr_sm_ds ric)"
    using arg_cong [OF l, of "image fst"] by (simp add: listeners_def image_image case_prod_beta)
  then have r: "rfun \<in> fst ` rb_set (nr_pub_sub ric)"
    using assms(2) by simp
  then obtain k0 arr es where e: "rb_entries (nr_pub_sub ric) = (k0, arr) # es"
    by (cases "rb_entries (nr_pub_sub ric)") auto
  then have "(k0, sa_contents arr) \<in> listeners (nr_pub_sub ric)"
    by (simp add: listeners_def)
  then have "sa_contents arr = default_listeners"
    unfolding l by auto
  then show ?thesis
    using publish_first [OF p e r] by simp
qed

text \<open>
  An indication of any RAN function with listeners is published to the listeners of the RAN
  function with the smallest id, whatever function it comes from: the code looks the function up
  and then reads the listeners at the front of the tree.
\<close>

theorem indication_reaches_first_listeners:
  assumes "pub_ok (nr_pub_sub ric)" "rb_entries (nr_pub_sub ric) = (k, arr) # es"
    and "rfun \<in> fst ` rb_set (nr_pub_sub ric)"
  shows "publish_ind_msg ric rfun d =
       Inr (ric\<lparr>nr_published := nr_published ric @ List.map (\<lambda>l. (subs_fp l, d)) (sa_contents arr)\<rparr>) \<and>
     (\<forall>k' \<in> fst ` rb_set (nr_pub_sub ric). k \<le> k')"
proof
  show "publish_ind_msg ric rfun d =
      Inr (ric\<lparr>nr_published := nr_published ric @ List.map (\<lambda>l. (subs_fp l, d)) (sa_contents arr)\<rparr>)"
    by (rule publish_first [OF assms])
  have "sorted (List.map fst (rb_entries (nr_pub_sub ric)))"
    using assms(1) by (simp add: pub_ok_def rb_inv_def)
  then show "\<forall>k' \<in> fst ` rb_set (nr_pub_sub ric). k \<le> k'"
    using assms(2) by auto
qed

text \<open>RAN function 142 has the stdout listener, 146 the redis listener.\<close>

definition two_listeners :: "(u16, subs_ric_t seq_arr_t) assoc_rb_tree_t" where
  "two_listeners =
     \<lparr>rb_root = Node ASSOC_BLACK 142
        \<lparr>sa_data = replicate 8 (Some \<lparr>subs_name = ''stdout'', subs_fp = notify_stdout_listener\<rparr>), sa_size = 1,
          sa_elt_size = sizeof_subs_ric, sa_cap = 8\<rparr> Dummy
        (Node ASSOC_RED 146
          \<lparr>sa_data = replicate 8 (Some \<lparr>subs_name = ''redis'', subs_fp = notify_redis_listener\<rparr>), sa_size = 1,
            sa_elt_size = sizeof_subs_ric, sa_cap = 8\<rparr> Dummy Dummy),
      rb_comp = cmp_ran_func_id, rb_size = 2, rb_key_sz = sizeof_uint16, rb_free = None\<rparr>"

theorem indication_reaches_first_listeners_witness:
  "\<exists>ric d. publish_ind_msg (ric\<lparr>nr_pub_sub := two_listeners\<rparr>) 146 d =
     Inr (ric\<lparr>nr_pub_sub := two_listeners, nr_published := [(notify_stdout_listener, d)]\<rparr>)"
proof -
  obtain ric :: near_ric_t where ric: "nr_published ric = []"
    using init_near_ric_ok [OF tc_sm_ds_ok(1), of 5] by (elim meta_impE exE conjE) simp_all
  have p: "pub_ok two_listeners"
    by (simp add: pub_ok_def two_listeners_def rb_inv_def rb_ok_def rb_uniq_def sa_inv_def MIN_SIZE_def sizeof_subs_ric_def)
  have e: "\<exists>arr es. rb_entries two_listeners = (142, arr) # es \<and>
      sa_contents arr = [\<lparr>subs_name = ''stdout'', subs_fp = notify_stdout_listener\<rparr>]"
    by (simp add: two_listeners_def sa_contents_def)
  then obtain arr es where a: "rb_entries two_listeners = (142, arr) # es"
    "sa_contents arr = [\<lparr>subs_name = ''stdout'', subs_fp = notify_stdout_listener\<rparr>]"
    by (elim exE conjE)
  have "(146 :: u16) \<in> fst ` rb_set two_listeners"
    by (simp add: two_listeners_def)
  then show ?thesis
    using indication_reaches_first_listeners [of "ric\<lparr>nr_pub_sub := two_listeners\<rparr>" 142 arr es 146] p a ric
    by (intro exI [of _ ric]) simp
qed

end
