(* ===== verification/Ric_System.thy ===== *)
theory Ric_System
  imports Ric_Init
begin

text \<open>
  The near-RT RIC and the iApp together: the invariant of their joint state, the effect of every
  kind of message on it, the step relation of the process (a round of one of the two event
  loops, or a task of the task pool, in any order), and the properties that span both parts.
\<close>

section \<open>The invariant\<close>

definition sys_ok :: "ric_iapp \<Rightarrow> bool" where
  "sys_ok st \<longleftrightarrow>
     nr_ok (fst st) \<and> pub_default (fst st) \<and> iapp_ok (snd st) \<and> xapps_ok (snd st) \<and> nodes_ok st"

lemma sys_okD:
  "sys_ok (ric, i) \<Longrightarrow> nr_ok ric \<and> pub_default ric \<and> iapp_ok i \<and> xapps_ok i \<and> nodes_ok (ric, i)"
  by (simp add: sys_ok_def)

text \<open>The parts of the RIC and of the iApp that the relation between them looks at.\<close>

definition same_nodes :: "ric_iapp \<Rightarrow> ric_iapp \<Rightarrow> bool" where
  "same_nodes st st' \<longleftrightarrow>
     nr_e2_nodes (fst st') = nr_e2_nodes (fst st) \<and> nr_conn_e2_nodes (fst st') = nr_conn_e2_nodes (fst st) \<and>
     nr_sm_ds (fst st') = nr_sm_ds (fst st) \<and> nr_pub_sub (fst st') = nr_pub_sub (fst st) \<and>
     ia_e2_nodes (snd st') = ia_e2_nodes (snd st)"

lemma sys_ok_same:
  assumes "sys_ok st" "same_nodes st st'" "nr_ok (fst st')" "iapp_ok (snd st')" "xapps_ok (snd st')"
  shows "sys_ok st'"
  using assms by (simp add: sys_ok_def same_nodes_def pub_default_def nodes_ok_def)

lemma xapps_ok_frame [simp]:
  "xapps_ok (i\<lparr>ia_sent := out\<rparr>) = xapps_ok i" "xapps_ok (i\<lparr>ia_e2_nodes := r\<rparr>) = xapps_ok i"
  "xapps_ok (i\<lparr>ia_subscription_registry := reg\<rparr>) = xapps_ok i"
  by (simp_all add: xapps_ok_def)

lemma reg_nodes_bound:
  assumes "nr_ok ric" "iapp_ok i" "nodes_ok (ric, i)"
  shows "length (reg_nodes (ia_e2_nodes i)) < 32"
proof -
  let ?ns = "reg_nodes (ia_e2_nodes i)" and ?arr = "nr_conn_e2_nodes ric"
  have d: "distinct (conn_ids ric)" and inv: "sa_inv ?arr"
    using assms(1,3) by (simp_all add: nodes_ok_def nr_ok_def)
  have "distinct (List.map (\<lambda>e. node_rank (fst e)) (rb_entries (node_to_rf (ia_e2_nodes i))))"
    using assms(2) by (simp add: iapp_ok_def reg_ok_def tree_ok_def rb_uniq_def)
  then have "distinct (List.map node_rank (List.map con_id ?ns))"
    by (simp add: reg_nodes_def comp_def node_entry_def)
  then have "distinct (List.map con_id ?ns)"
    by (rule distinct_map [THEN iffD1, THEN conjunct1])
  then have "length ?ns = card (con_id ` set ?ns)"
    by (metis distinct_card length_map set_map)
  also have "\<dots> = card (set (conn_ids ric))"
    using assms(3) by (simp add: nodes_ok_def)
  also have "\<dots> = sa_size ?arr"
    using distinct_card [OF d] sa_length [OF inv] by simp
  also have "\<dots> < 32"
    using assms(1,3) by (auto simp: nodes_ok_def nr_ok_def sa_inv_def)
  finally show ?thesis .
qed

section \<open>Messages of the E2 nodes\<close>

lemma stop_frame:
  assumes "nr_ok ric" "(fd, ev) \<in> pending_events ric"
  shows "\<exists>ric'. stop_pending_event ric ev = Inr ric' \<and> nr_ok ric' \<and>
     pending_events ric' = pending_events ric - {(fd, ev)} \<and>
     ric' = ric\<lparr>nr_pending := nr_pending ric', nr_io := removeAll fd (nr_io ric)\<rparr>"
proof -
  obtain p where "stop_pending_event ric ev = Inr (ric\<lparr>nr_pending := p, nr_io := removeAll fd (nr_io ric)\<rparr>)"
    "bm_pairs p = pending_events ric - {(fd, ev)}" "nr_ok (ric\<lparr>nr_pending := p, nr_io := removeAll fd (nr_io ric)\<rparr>)"
    using stop_pending_ok [OF assms] by blast
  then show ?thesis
    by (intro exI [of _ "ric\<lparr>nr_pending := p, nr_io := removeAll fd (nr_io ric)\<rparr>"]) simp
qed

text \<open>The setup request of a new E2 node.\<close>

lemma setup_sys:
  assumes "sys_ok (ric, i)" "new_node ric info req"
  shows "\<exists>ric1 i1. sctp_msg_arrived_event (ric, i) (info, E2_Stp_Req req) = Inr (ric1, i1) \<and> sys_ok (ric1, i1) \<and>
     node_sockets ric1 = insert (stp_id req, info) (node_sockets ric) \<and>
     ric1 = ric\<lparr>nr_e2_nodes := nr_e2_nodes ric1, nr_conn_e2_nodes := nr_conn_e2_nodes ric1,
                nr_sent := nr_sent ric @ [(info, E2_Stp_Resp (accepted_response req))]\<rparr> \<and>
     i1 = i\<lparr>ia_e2_nodes := ia_e2_nodes i1\<rparr>"
proof -
  have ok: "nr_ok ric" "pub_default ric" "iapp_ok i" "xapps_ok i" "nodes_ok (ric, i)"
    using sys_okD [OF assms(1)] by simp_all
  from setup_ok [OF ok(1,3,5) assms(2)]
  obtain ric1 i1 where 1: "sctp_msg_arrived_event (ric, i) (info, E2_Stp_Req req) = Inr (ric1, i1)"
    "nr_ok ric1" "iapp_ok i1" "nodes_ok (ric1, i1)" "node_sockets ric1 = insert (stp_id req, info) (node_sockets ric)"
    "ric1 = ric\<lparr>nr_e2_nodes := nr_e2_nodes ric1, nr_conn_e2_nodes := nr_conn_e2_nodes ric1,
                nr_sent := nr_sent ric @ [(info, E2_Stp_Resp (accepted_response req))]\<rparr>"
    "i1 = i\<lparr>ia_e2_nodes := ia_e2_nodes i1\<rparr>"
    by (elim exE conjE)
  have "nr_pub_sub ric1 = nr_pub_sub ric" "nr_sm_ds ric1 = nr_sm_ds ric"
    "ia_map_ric_id i1 = ia_map_ric_id i" "ia_xapps i1 = ia_xapps i" "ia_xapp_id i1 = ia_xapp_id i"
    by (subst 1(6), simp)+ (subst 1(7), simp)+
  then have "sys_ok (ric1, i1)"
    using 1(2-4) ok(2,4) by (simp add: sys_ok_def pub_default_def xapps_ok_def)
  then show ?thesis
    using 1(1,5-7) by (intro exI [of _ ric1] exI [of _ i1] conjI)
qed

lemma task_answers_none:
  assumes "e2ap_msg_handle_ric st msg = Inr (st', no_msg)" "\<forall>req. msg \<noteq> E2_Stp_Req req"
  shows "sctp_msg_arrived_event st (info, msg) = Inr st'"
  using assms by (cases msg) (simp_all add: sctp_msg_arrived_event_def)

text \<open>What the iApp passes on of a subscription response.\<close>

lemma notify_subscription_response:
  assumes "iapp_ok i" "xapps_ok i" "ric_req_id (sresp_ric_id r) < 2 ^ 16"
  shows "\<exists>out. notify_msg_iapp i (Ric_Sub_Resp r) = Inr (i\<lparr>ia_sent := ia_sent i @ out\<rparr>) \<and>
     (\<forall>n x. (n, x) \<in> ric_pairs (ia_map_ric_id i) \<longrightarrow> en_ric_id n = sresp_ric_id r \<longrightarrow>
        (\<exists>s. xapp_conn i (xr_xapp_id x) s \<and> out = [(s, Ric_Sub_Resp r)]))"
proof (cases "\<exists>n x. (n, x) \<in> ric_pairs (ia_map_ric_id i) \<and> en_ric_id n = sresp_ric_id r")
  case True
  then obtain n x where n: "(n, x) \<in> ric_pairs (ia_map_ric_id i)" "en_ric_id n = sresp_ric_id r"
    by blast
  have x: "xr_ric_id x = sresp_ric_id r"
    using binding_rid [OF assms(2) n(1)] n(2) by simp
  obtain s where s: "xapp_conn i (xr_xapp_id x) s" "e2ap_handle_subscription_response_iapp i r =
      Inr (e2ap_send_sctp_msg_iapp i s (Ric_Sub_Resp (r\<lparr>sresp_ric_id := xr_ric_id x\<rparr>)))"
    using handle_subscription_response_ok [OF assms(1) n(1), of r] n(2) x by auto
  have "n' = n \<and> x' = x" if "(n', x') \<in> ric_pairs (ia_map_ric_id i)" "en_ric_id n' = sresp_ric_id r" for n' x'
    using ric_pairs_uniq [OF _ that(1) n(1)] assms(1) that(2) n(2) by (simp add: iapp_ok_def ric_id_ok_def)
  then show ?thesis
    using s x by (intro exI [of _ "[(s, Ric_Sub_Resp r)]"])
      (auto simp: notify_msg_iapp_def e2ap_send_sctp_msg_iapp_def)
next
  case False
  let ?q = "ucast (ric_req_id (sresp_ric_id r)) :: u16"
  have m: "ric_id_ok (ia_map_ric_id i)" "\<not> mr_wrlocked (ia_map_ric_id i)"
    using assms(1) by (simp_all add: iapp_ok_def)
  have "e2ap_handle_subscription_response_iapp i r = Inr i"
  proof (cases "\<exists>n x. (n, x) \<in> ric_pairs (ia_map_ric_id i) \<and> node_req n = ucast ?q")
    case True
    then obtain n x where n: "(n, x) \<in> ric_pairs (ia_map_ric_id i)" "node_req n = ucast ?q"
      by blast
    then have "xr_ric_id x \<noteq> sresp_ric_id r" "ric_req_id (xr_ric_id x) = ric_req_id (sresp_ric_id r)"
      using False binding_rid [OF assms(2) n(1)] ucast_16 [OF assms(3)] by auto
    then have "ran_func_id (sresp_ric_id r) \<noteq> ran_func_id (xr_ric_id x) \<or>
        ric_inst_id (sresp_ric_id r) \<noteq> ric_inst_id (xr_ric_id x)"
      by (metis (full_types) ric_gen_id_t.equality old.unit.exhaust)
    then show ?thesis
      using find_xapp_Some [OF m n] by (auto simp: e2ap_handle_subscription_response_iapp_def)
  next
    case False
    then have "find_xapp_map_ric_id (ia_map_ric_id i) ?q = Inr None"
      by (intro find_xapp_None [OF m(2)]) blast
    then show ?thesis
      by (simp add: e2ap_handle_subscription_response_iapp_def)
  qed
  then show ?thesis
    using False by (intro exI [of _ "[]"]) (auto simp: notify_msg_iapp_def)
qed

lemma subscription_response_ok:
  assumes "sys_ok (ric, i)" "(fd, sub_event (sresp_ric_id r)) \<in> pending_events ric"
    and "sresp_not_admitted r = []" "sresp_admitted r = [a]" "ric_act_id a = 0" "ric_req_id (sresp_ric_id r) < 2 ^ 16"
  shows "\<exists>ric' out. sctp_msg_arrived_event (ric, i) (info, Ric_Sub_Resp r) = Inr (ric', i\<lparr>ia_sent := ia_sent i @ out\<rparr>) \<and>
     sys_ok (ric', i\<lparr>ia_sent := ia_sent i @ out\<rparr>) \<and>
     pending_events ric' = pending_events ric - {(fd, sub_event (sresp_ric_id r))} \<and>
     ric' = ric\<lparr>nr_pending := nr_pending ric', nr_io := removeAll fd (nr_io ric)\<rparr> \<and>
     (\<forall>n x. (n, x) \<in> ric_pairs (ia_map_ric_id i) \<longrightarrow> en_ric_id n = sresp_ric_id r \<longrightarrow>
        (\<exists>s. xapp_conn i (xr_xapp_id x) s \<and> out = [(s, Ric_Sub_Resp r)]))"
proof -
  have ok: "nr_ok ric" "pub_default ric" "iapp_ok i" "xapps_ok i" "nodes_ok (ric, i)"
    using sys_okD [OF assms(1)] by simp_all
  obtain ric' where ric': "stop_pending_event ric (sub_event (sresp_ric_id r)) = Inr ric'" "nr_ok ric'"
    "pending_events ric' = pending_events ric - {(fd, sub_event (sresp_ric_id r))}"
    "ric' = ric\<lparr>nr_pending := nr_pending ric', nr_io := removeAll fd (nr_io ric)\<rparr>"
    using stop_frame [OF ok(1) assms(2)] by blast
  obtain out where out: "notify_msg_iapp i (Ric_Sub_Resp r) = Inr (i\<lparr>ia_sent := ia_sent i @ out\<rparr>)"
    "\<forall>n x. (n, x) \<in> ric_pairs (ia_map_ric_id i) \<longrightarrow> en_ric_id n = sresp_ric_id r \<longrightarrow>
        (\<exists>s. xapp_conn i (xr_xapp_id x) s \<and> out = [(s, Ric_Sub_Resp r)])"
    using notify_subscription_response [OF ok(3,4) assms(6)] by (elim exE conjE)
  let ?i = "i\<lparr>ia_sent := ia_sent i @ out\<rparr>"
  have "e2ap_msg_handle_ric (ric, i) (Ric_Sub_Resp r) = Inr ((ric', ?i), no_msg)"
    using ric'(1) out(1) assms(3-5) by (simp add: e2ap_msg_handle_ric_def check_valid_msg_type_ric_def
        e2ap_handle_subscription_response_ric_def)
  then have "sctp_msg_arrived_event (ric, i) (info, Ric_Sub_Resp r) = Inr (ric', ?i)"
    by (rule task_answers_none) simp
  moreover have "same_nodes (ric, i) (ric', ?i)"
    by (subst ric'(4)) (simp add: same_nodes_def)
  then have "sys_ok (ric', ?i)"
    by (rule sys_ok_same [OF assms(1)]) (use ric'(2) ok in simp_all)
  ultimately show ?thesis
    using ric'(3,4) out(2) by (intro exI [of _ ric'] exI [of _ out]) simp
qed

text \<open>A deletion response ends the request that is bound to its id, if there is one.\<close>

lemma xapps_ok_answered: "answered i n x msg i' \<Longrightarrow> xapps_ok i \<Longrightarrow> xapps_ok i'"
  by (auto simp: answered_def xapps_ok_def)

lemma delete_response_ok:
  assumes "sys_ok (ric, i)" "(fd, del_event (sdresp_ric_id r)) \<in> pending_events ric"
    and "ric_req_id (sdresp_ric_id r) < 2 ^ 16"
    and "\<forall>(n, x) \<in> ric_pairs (ia_map_ric_id i).
        node_req n = ric_req_id (sdresp_ric_id r) \<longrightarrow> en_ric_id n = sdresp_ric_id r"
  shows "\<exists>ric' i'. sctp_msg_arrived_event (ric, i) (info, Ric_Sub_Del_Resp r) = Inr (ric', i') \<and>
     sys_ok (ric', i') \<and> pending_events ric' = pending_events ric - {(fd, del_event (sdresp_ric_id r))} \<and>
     ric' = ric\<lparr>nr_pending := nr_pending ric', nr_io := removeAll fd (nr_io ric)\<rparr> \<and>
     (if \<exists>(n, x) \<in> ric_pairs (ia_map_ric_id i). en_ric_id n = sdresp_ric_id r
      then \<exists>(n, x) \<in> ric_pairs (ia_map_ric_id i). en_ric_id n = sdresp_ric_id r \<and>
        answered i n x (Ric_Sub_Del_Resp r) i'
      else i' = i)"
proof -
  have ok: "nr_ok ric" "pub_default ric" "iapp_ok i" "xapps_ok i" "nodes_ok (ric, i)"
    using sys_okD [OF assms(1)] by simp_all
  obtain ric' where ric': "stop_pending_event ric (del_event (sdresp_ric_id r)) = Inr ric'" "nr_ok ric'"
    "pending_events ric' = pending_events ric - {(fd, del_event (sdresp_ric_id r))}"
    "ric' = ric\<lparr>nr_pending := nr_pending ric', nr_io := removeAll fd (nr_io ric)\<rparr>"
    using stop_frame [OF ok(1) assms(2)] by blast
  have "\<exists>i'. notify_msg_iapp i (Ric_Sub_Del_Resp r) = Inr i' \<and> iapp_ok i' \<and> xapps_ok i' \<and> ia_e2_nodes i' = ia_e2_nodes i \<and>
     (if \<exists>(n, x) \<in> ric_pairs (ia_map_ric_id i). en_ric_id n = sdresp_ric_id r
      then \<exists>(n, x) \<in> ric_pairs (ia_map_ric_id i). en_ric_id n = sdresp_ric_id r \<and>
        answered i n x (Ric_Sub_Del_Resp r) i'
      else i' = i)"
  proof (cases "\<exists>(n, x) \<in> ric_pairs (ia_map_ric_id i). en_ric_id n = sdresp_ric_id r")
    case True
    then obtain n x where n: "(n, x) \<in> ric_pairs (ia_map_ric_id i)" "en_ric_id n = sdresp_ric_id r"
      by blast
    have x: "xr_ric_id x = sdresp_ric_id r"
      using binding_rid [OF ok(4) n(1)] n(2) by simp
    have r: "\<lparr>sdresp_ric_id = xr_ric_id x\<rparr> = r"
      unfolding x by (cases r) simp
    obtain i' where i': "e2ap_handle_subscription_delete_response_iapp i r = Inr i'"
      "answered i n x (Ric_Sub_Del_Resp r) i'"
      using handle_subscription_delete_response_ok [OF ok(3) n(1), of r] n(2) x unfolding r by auto
    then have "iapp_ok i'" "xapps_ok i'" "ia_e2_nodes i' = ia_e2_nodes i"
      using xapps_ok_answered ok by (auto simp: answered_def)
    then show ?thesis
      using True i' n by (intro exI [of _ i']) (auto simp: notify_msg_iapp_def)
  next
    case False
    have "find_xapp_map_ric_id (ia_map_ric_id i) (ucast (ric_req_id (sdresp_ric_id r))) = Inr None"
      by (rule find_xapp_None)
        (use ok assms(4) False ucast_16 [OF assms(3)] in \<open>auto simp: iapp_ok_def\<close>)
    then show ?thesis
      using False ok by (auto simp: notify_msg_iapp_def e2ap_handle_subscription_delete_response_iapp_def)
  qed
  then obtain i' where i': "notify_msg_iapp i (Ric_Sub_Del_Resp r) = Inr i'" "iapp_ok i'" "xapps_ok i'"
    "ia_e2_nodes i' = ia_e2_nodes i"
    "if \<exists>(n, x) \<in> ric_pairs (ia_map_ric_id i). en_ric_id n = sdresp_ric_id r
      then \<exists>(n, x) \<in> ric_pairs (ia_map_ric_id i). en_ric_id n = sdresp_ric_id r \<and>
        answered i n x (Ric_Sub_Del_Resp r) i'
      else i' = i"
    by blast
  have "e2ap_msg_handle_ric (ric, i) (Ric_Sub_Del_Resp r) = Inr ((ric', i'), no_msg)"
    using ric'(1) i'(1) by (simp add: e2ap_msg_handle_ric_def check_valid_msg_type_ric_def
        e2ap_handle_subscription_delete_response_ric_def)
  then have "sctp_msg_arrived_event (ric, i) (info, Ric_Sub_Del_Resp r) = Inr (ric', i')"
    by (rule task_answers_none) simp
  moreover have "same_nodes (ric, i) (ric', i')"
    by (subst ric'(4)) (simp add: same_nodes_def i'(4))
  then have "sys_ok (ric', i')"
    by (rule sys_ok_same [OF assms(1)]) (use ric'(2) i'(2,3) in simp_all)
  ultimately show ?thesis
    using ric'(3,4) i'(5) by (intro exI [of _ ric'] exI [of _ i']) simp
qed

lemma indication_ok:
  assumes "sys_ok (ric, i)" "(ran_func_id (ind_ric_id r), sm) \<in> rb_set (nr_sm_ds ric)"
  defines "d \<equiv> on_indication sm \<lparr>sid_ind_hdr = ind_hdr r, sid_ind_msg = ind_msg r,
                                 sid_call_process_id = ind_call_process_id r\<rparr>"
  assumes "rd_type d \<noteq> SM_AGENT_IF_READ_V0_END"
    and "(ind_sn r = None \<and> ind_call_process_id r = None) \<or> subscribers i r = []"
  shows "\<exists>ss. sctp_msg_arrived_event (ric, i) (info, Ric_Ind r) =
       Inr (ric\<lparr>nr_published := nr_published ric @ List.map (\<lambda>l. (subs_fp l, d)) default_listeners\<rparr>,
            i\<lparr>ia_sent := ia_sent i @ List.map (\<lambda>s. (s, Ric_Ind r)) ss\<rparr>) \<and>
     list_all2 (\<lambda>e s. xapp_conn i (ucast (se_xapp_id e)) s) (subscribers i r) ss \<and>
     sys_ok (ric\<lparr>nr_published := nr_published ric @ List.map (\<lambda>l. (subs_fp l, d)) default_listeners\<rparr>,
            i\<lparr>ia_sent := ia_sent i @ List.map (\<lambda>s. (s, Ric_Ind r)) ss\<rparr>)"
proof -
  have ok: "nr_ok ric" "pub_default ric" "iapp_ok i" "xapps_ok i" "nodes_ok (ric, i)"
    using sys_okD [OF assms(1)] by simp_all
  have sm: "sm_plugin_ric (nr_sm_ds ric) (ran_func_id (ind_ric_id r)) = Inr sm"
    by (rule lookup_sm_ok [OF _ assms(2)]) (use ok(1) in \<open>simp add: nr_ok_def\<close>)
  have t: "rd_type d \<in> {MAC_STATS_V0, RLC_STATS_V0, PDCP_STATS_V0, SLICE_STATS_V0, KPM_STATS_V3_0,
      RAN_CTRL_STATS_V1_03, GTP_STATS_V0, TC_STATS_V0}"
    using assms(4) by (cases "rd_type d") simp_all
  let ?ric = "ric\<lparr>nr_published := nr_published ric @ List.map (\<lambda>l. (subs_fp l, d)) default_listeners\<rparr>"
  have "ran_func_id (ind_ric_id r) \<in> fst ` rb_set (nr_sm_ds ric)"
    using assms(2) by force
  then have p: "publish_ind_msg ric (ran_func_id (ind_ric_id r)) d = Inr ?ric"
    by (rule publish_default [OF ok(2)])
  obtain ss where ss: "list_all2 (\<lambda>e s. xapp_conn i (ucast (se_xapp_id e)) s) (subscribers i r) ss"
    "notify_msg_iapp i (Ric_Ind r) = Inr (i\<lparr>ia_sent := ia_sent i @ List.map (\<lambda>s. (s, Ric_Ind r)) ss\<rparr>)"
    using notify_indication_ok [OF ok(3), of r] assms(5) by auto
  let ?i = "i\<lparr>ia_sent := ia_sent i @ List.map (\<lambda>s. (s, Ric_Ind r)) ss\<rparr>"
  have "e2ap_handle_indication_ric (ric, i) r = Inr ((?ric, ?i), no_msg)"
    unfolding e2ap_handle_indication_ric_def Let_def fst_conv snd_conv sm bnd_simps d_def [symmetric]
    using t p ss(2) by (simp only: chk_simps bnd_simps fst_conv snd_conv)
  then have "e2ap_msg_handle_ric (ric, i) (Ric_Ind r) = Inr ((?ric, ?i), no_msg)"
    by (simp add: e2ap_msg_handle_ric_def check_valid_msg_type_ric_def)
  then have "sctp_msg_arrived_event (ric, i) (info, Ric_Ind r) = Inr (?ric, ?i)"
    by (rule task_answers_none) simp
  moreover have "sys_ok (?ric, ?i)"
    by (rule sys_ok_same [OF assms(1)]) (use ok in \<open>simp_all add: same_nodes_def\<close>)
  ultimately show ?thesis
    using ss(1) by blast
qed

text \<open>
  A control acknowledgement is passed on only when its request id is bound, and the bindings
  are those of subscriptions.
\<close>

lemma control_ack_ok:
  assumes "sys_ok (ric, i)" "(fd, ctrl_event (ack_ric_id r)) \<in> pending_events ric"
    and "(n, x) \<in> ric_pairs (ia_map_ric_id i)" "en_ric_id n = ack_ric_id r"
  shows "\<exists>ric' i'. sctp_msg_arrived_event (ric, i) (info, Ric_Ctrl_Ack r) = Inr (ric', i') \<and> sys_ok (ric', i') \<and>
     pending_events ric' = pending_events ric - {(fd, ctrl_event (ack_ric_id r))} \<and>
     ric' = ric\<lparr>nr_pending := nr_pending ric', nr_io := removeAll fd (nr_io ric)\<rparr> \<and>
     answered i n x (Ric_Ctrl_Ack \<lparr>ack_ric_id = xr_ric_id x, ack_call_process_id = None,
       ack_control_outcome = None\<rparr>) i'"
proof -
  have ok: "nr_ok ric" "pub_default ric" "iapp_ok i" "xapps_ok i" "nodes_ok (ric, i)"
    using sys_okD [OF assms(1)] by simp_all
  obtain ric' where ric': "stop_pending_event ric (ctrl_event (ack_ric_id r)) = Inr ric'" "nr_ok ric'"
    "pending_events ric' = pending_events ric - {(fd, ctrl_event (ack_ric_id r))}"
    "ric' = ric\<lparr>nr_pending := nr_pending ric', nr_io := removeAll fd (nr_io ric)\<rparr>"
    using stop_frame [OF ok(1) assms(2)] by blast
  have "xr_ric_id x = ack_ric_id r"
    using binding_rid [OF ok(4) assms(3)] assms(4) by simp
  then obtain i' where i': "e2ap_handle_e42_ric_control_ack_iapp i r = Inr i'"
    "answered i n x (Ric_Ctrl_Ack \<lparr>ack_ric_id = xr_ric_id x, ack_call_process_id = None,
       ack_control_outcome = None\<rparr>) i'"
    using handle_control_ack_ok [OF ok(3) assms(3), of r] assms(4) by auto
  then have i2: "iapp_ok i'" "xapps_ok i'" "ia_e2_nodes i' = ia_e2_nodes i"
    using xapps_ok_answered ok(4) by (auto simp: answered_def)
  have "e2ap_msg_handle_ric (ric, i) (Ric_Ctrl_Ack r) = Inr ((ric', i'), no_msg)"
    using ric'(1) i'(1) by (simp add: e2ap_msg_handle_ric_def check_valid_msg_type_ric_def
        e2ap_handle_control_ack_ric_def notify_msg_iapp_def)
  then have "sctp_msg_arrived_event (ric, i) (info, Ric_Ctrl_Ack r) = Inr (ric', i')"
    by (rule task_answers_none) simp
  moreover have "same_nodes (ric, i) (ric', i')"
    by (subst ric'(4)) (simp add: same_nodes_def i2(3))
  then have "sys_ok (ric', i')"
    by (rule sys_ok_same [OF assms(1)]) (use ric'(2) i2(1,2) in simp_all)
  ultimately show ?thesis
    using ric'(3,4) i'(2) by (intro exI [of _ ric'] exI [of _ i']) simp
qed

section \<open>Messages of the xApps\<close>

lemma iapp_answers_none:
  "e2ap_msg_handle_iapp os st msg = Inr (st', no_msg) \<Longrightarrow> msg_arrived_iapp os st info msg = Inr st'"
  by (cases st') (simp add: msg_arrived_iapp_def)

lemma requested_same_nodes:
  "requested ric fd ev s msg ric' \<Longrightarrow> ia_e2_nodes i' = ia_e2_nodes i \<Longrightarrow> same_nodes (ric, i) (ric', i')"
  by (simp add: requested_def same_nodes_def)

lemma xapp_setup_sys:
  assumes "sys_ok (ric, i)" "e42_ran_func_item req \<noteq> []" "unat (ia_xapp_id i) < 2 ^ 16"
    and "\<forall>(a, b) \<in> bm_pairs (ia_xapps i). sctp_rank b \<noteq> sctp_rank info"
  shows "\<exists>i'. msg_arrived_iapp os (ric, i) info (E42_Stp_Req req) = Inr (ric, i') \<and> sys_ok (ric, i') \<and>
     bm_pairs (ia_xapps i') = insert (ucast (ia_xapp_id i), info) (bm_pairs (ia_xapps i)) \<and>
     ia_xapp_id i' = ia_xapp_id i + 1 \<and> ia_map_ric_id i' = ia_map_ric_id i \<and>
     ia_sent i' = ia_sent i @ [(info, E42_Stp_Resp \<lparr>e42r_xapp_id = ucast (ia_xapp_id i),
       e42r_nodes = reg_nodes (ia_e2_nodes i)\<rparr>)]"
proof -
  have ok: "nr_ok ric" "pub_default ric" "iapp_ok i" "xapps_ok i" "nodes_ok (ric, i)"
    using sys_okD [OF assms(1)] by simp_all
  have l: "length (reg_nodes (ia_e2_nodes i)) < 256"
    using reg_nodes_bound [OF ok(1,3,5)] by simp
  let ?m = "E42_Stp_Resp \<lparr>e42r_xapp_id = ucast (ia_xapp_id i), e42r_nodes = reg_nodes (ia_e2_nodes i)\<rparr>"
  obtain m where m: "msg_arrived_iapp os (ric, i) info (E42_Stp_Req req) =
      Inr (ric, i\<lparr>ia_xapp_id := ia_xapp_id i + 1, ia_xapps := m, ia_sent := ia_sent i @ [(info, ?m)]\<rparr>)"
    "bm_pairs m = insert (ucast (ia_xapp_id i), info) (bm_pairs (ia_xapps i))"
    "iapp_ok (i\<lparr>ia_xapp_id := ia_xapp_id i + 1, ia_xapps := m\<rparr>)"
    "xapps_ok (i\<lparr>ia_xapp_id := ia_xapp_id i + 1, ia_xapps := m\<rparr>)"
    using xapp_setup_ok [OF ok(3,4) assms(2) l assms(3,4)] by blast
  let ?i = "i\<lparr>ia_xapp_id := ia_xapp_id i + 1, ia_xapps := m\<rparr>"
  have "iapp_ok (?i\<lparr>ia_sent := ia_sent i @ [(info, ?m)]\<rparr>)" "xapps_ok (?i\<lparr>ia_sent := ia_sent i @ [(info, ?m)]\<rparr>)"
    unfolding iapp_ok_frame xapps_ok_frame by (fact m(3), fact m(4))
  then have "sys_ok (ric, ?i\<lparr>ia_sent := ia_sent i @ [(info, ?m)]\<rparr>)"
    by (intro sys_ok_same [OF assms(1)]) (use ok(1) in \<open>simp_all add: same_nodes_def\<close>)
  then show ?thesis
    using m(1,2) by (intro exI [of _ "?i\<lparr>ia_sent := ia_sent i @ [(info, ?m)]\<rparr>"]) simp
qed

lemma xapp_subscribe_sys:
  assumes "sys_ok (ric, i)" "os_ok os" "(e42s_id r, s) \<in> node_sockets ric" "xapp_conn i (e42s_xapp_id r) t"
    and "sub_event (sreq_ric_id (e42s_sr r)) \<notin> snd ` pending_events ric"
    and "ric_req_id (sreq_ric_id (e42s_sr r)) \<noteq> 0" "ric_req_id (sreq_ric_id (e42s_sr r)) < 2 ^ 16"
    and "\<forall>(n, x) \<in> ric_pairs (ia_map_ric_id i). node_req n \<noteq> ric_req_id (sreq_ric_id (e42s_sr r))"
  shows "\<exists>ric' i'. msg_arrived_iapp os (ric, i) info (E42_Ric_Sub_Req r) = Inr (ric', i') \<and> sys_ok (ric', i') \<and>
     requested ric (os ric) (sub_event (sreq_ric_id (e42s_sr r))) s (Ric_Sub_Req (e42s_sr r)) ric' \<and>
     ric_pairs (ia_map_ric_id i') = insert (sub_binding r) (ric_pairs (ia_map_ric_id i)) \<and>
     is_subscription_active (ia_subscription_registry i') (ucast (e42s_xapp_id r))
       (ran_func_id (sreq_ric_id (e42s_sr r))) \<and>
     i' = i\<lparr>ia_subscription_registry := ia_subscription_registry i', ia_map_ric_id := ia_map_ric_id i'\<rparr>"
proof -
  have ok: "nr_ok ric" "pub_default ric" "iapp_ok i" "xapps_ok i" "nodes_ok (ric, i)"
    using sys_okD [OF assms(1)] by simp_all
  have "e42s_id r \<in> fst ` node_sockets ric"
    using assms(3) by force
  then have plain: "plain_node (e42s_id r)"
    using ok(5) by (auto simp: nodes_ok_def)
  obtain ric' registry ids where h: "e2ap_handle_e42_ric_subscription_request_iapp os (ric, i) r =
       Inr ((ric', i\<lparr>ia_subscription_registry := registry, ia_map_ric_id := ids\<rparr>), no_msg)"
    "requested ric (os ric) (sub_event (sreq_ric_id (e42s_sr r))) s (Ric_Sub_Req (e42s_sr r)) ric'"
    "ric_pairs ids = insert (sub_binding r) (ric_pairs (ia_map_ric_id i))"
    "\<forall>k. active_key (reg_entries registry) k =
        (k = (ucast (e42s_xapp_id r), ran_func_id (sreq_ric_id (e42s_sr r))) \<or>
         active_key (reg_entries (ia_subscription_registry i)) k)"
    "iapp_ok (i\<lparr>ia_subscription_registry := registry, ia_map_ric_id := ids\<rparr>)"
    "xapps_ok (i\<lparr>ia_subscription_registry := registry, ia_map_ric_id := ids\<rparr>)"
    using subscription_request_ok [OF ok(1,3,4) assms(2,3) plain assms(4-8)] by (elim exE conjE)
  let ?i = "i\<lparr>ia_subscription_registry := registry, ia_map_ric_id := ids\<rparr>"
  have "e2ap_msg_handle_iapp os (ric, i) (E42_Ric_Sub_Req r) = Inr ((ric', ?i), no_msg)"
    using h(1) by (simp add: e2ap_msg_handle_iapp_def check_valid_msg_type_iapp_def)
  then have "msg_arrived_iapp os (ric, i) info (E42_Ric_Sub_Req r) = Inr (ric', ?i)"
    by (rule iapp_answers_none)
  moreover have "same_nodes (ric, i) (ric', ?i)"
    by (rule requested_same_nodes [OF h(2)]) simp
  then have "sys_ok (ric', ?i)"
    by (rule sys_ok_same [OF assms(1)]) (use h(2,5,6) in \<open>simp_all add: requested_def\<close>)
  ultimately show ?thesis
    using h(2-4) by (intro exI [of _ ric'] exI [of _ ?i]) (simp add: is_subscription_active_key)
qed

lemma delete_sent_same_nodes:
  "delete_sent os ric n s ric' \<Longrightarrow> nr_ok ric \<Longrightarrow> same_nodes (ric, i) (ric', i)"
  using delete_sent_frame [of os ric n s ric'] by (simp add: same_nodes_def)

lemma xapp_unsubscribe_sys:
  assumes "sys_ok (ric, i)" "os_ok os" "(n, x) \<in> ric_pairs (ia_map_ric_id i)"
    and "(en_e2_node_id n, s) \<in> node_sockets ric" "sdr_ric_id (e42d_sdr r) = xr_ric_id x"
  shows "\<exists>ric'. msg_arrived_iapp os (ric, i) info (E42_Ric_Sub_Del_Req r) = Inr (ric', i) \<and> sys_ok (ric', i) \<and>
     delete_sent os ric n s ric'"
proof -
  have ok: "nr_ok ric" "pub_default ric" "iapp_ok i" "xapps_ok i" "nodes_ok (ric, i)"
    using sys_okD [OF assms(1)] by simp_all
  have "en_e2_node_id n \<in> fst ` node_sockets ric"
    using assms(4) by force
  then have plain: "plain_node (en_e2_node_id n)"
    using ok(5) by (auto simp: nodes_ok_def)
  obtain ric' where h: "e2ap_handle_e42_ric_subscription_delete_request_iapp os (ric, i) r = Inr ((ric', i), no_msg)"
    "delete_sent os ric n s ric'"
    using delete_request_ok [OF ok(1,3,4) assms(2-4) plain assms(5)] by blast
  have "e2ap_msg_handle_iapp os (ric, i) (E42_Ric_Sub_Del_Req r) = Inr ((ric', i), no_msg)"
    using h(1) by (simp add: e2ap_msg_handle_iapp_def check_valid_msg_type_iapp_def)
  then have "msg_arrived_iapp os (ric, i) info (E42_Ric_Sub_Del_Req r) = Inr (ric', i)"
    by (rule iapp_answers_none)
  moreover have "sys_ok (ric', i)"
    by (rule sys_ok_same [OF assms(1) delete_sent_same_nodes [OF h(2) ok(1)]])
      (use ok delete_sent_frame(1) [OF h(2) ok(1)] in simp_all)
  ultimately show ?thesis
    using h(2) by blast
qed

lemma xapp_control_sys:
  assumes "sys_ok (ric, i)" "os_ok os" "xapp_conn i (e42c_xapp_id r) t" "(e42c_id r, s) \<in> node_sockets ric"
  defines "cr \<equiv> relabel (ucast (nr_req_id ric)) (e42c_ctrl_req r)"
  assumes "ctrl_event (cr_ric_id cr) \<notin> snd ` pending_events ric"
  shows "\<exists>ric'. msg_arrived_iapp os (ric, i) info (E42_Ric_Ctrl_Req r) = Inr (ric', i) \<and> sys_ok (ric', i) \<and>
     requested ric (os ric) (ctrl_event (cr_ric_id cr)) s (Ric_Ctrl_Req cr) ric' \<and>
     nr_req_id ric' = nr_req_id ric + 1"
proof -
  have ok: "nr_ok ric" "pub_default ric" "iapp_ok i" "xapps_ok i" "nodes_ok (ric, i)"
    using sys_okD [OF assms(1)] by simp_all
  have l: "length (reg_nodes (ia_e2_nodes i)) < 256"
    using reg_nodes_bound [OF ok(1,3,5)] by simp
  obtain ric' where h: "e2ap_handle_e42_ric_control_request_iapp os (ric, i) r = Inr ((ric', i), no_msg)"
    "requested ric (os ric) (ctrl_event (cr_ric_id cr)) s (Ric_Ctrl_Req cr) ric'" "nr_req_id ric' = nr_req_id ric + 1"
    using control_request_ok [OF ok(1,3,4,5) assms(2-4) l] assms(6) unfolding cr_def by blast
  have "e2ap_msg_handle_iapp os (ric, i) (E42_Ric_Ctrl_Req r) = Inr ((ric', i), no_msg)"
    using h(1) by (simp add: e2ap_msg_handle_iapp_def check_valid_msg_type_iapp_def)
  then have "msg_arrived_iapp os (ric, i) info (E42_Ric_Ctrl_Req r) = Inr (ric', i)"
    by (rule iapp_answers_none)
  moreover have "sys_ok (ric', i)"
    by (rule sys_ok_same [OF assms(1) requested_same_nodes [OF h(2)]])
      (use h(2) ok in \<open>simp_all add: requested_def\<close>)
  ultimately show ?thesis
    using h(2,3) by blast
qed

end
