(* ===== verification/Ric_Lifecycle.thy ===== *)
theory Ric_Lifecycle
  imports Ric_System
begin

text \<open>
  Requests of the xApps from end to end: the life cycle of a subscription through the iApp, the
  RIC and the E2 node and back, the end of an xApp, the fate of control requests, and the
  indications the local listeners get.
\<close>

section \<open>Lookups\<close>

lemma xapp_conn_uniq: "iapp_ok i \<Longrightarrow> xapp_conn i x s \<Longrightarrow> xapp_conn i x t \<Longrightarrow> s = t"
  using xapp_conn_find [of i x s] xapp_conn_find [of i x t] by simp

lemma find_ric_req_missing:
  assumes "\<not> mr_wrlocked m" "ricid.inv (mr_bimap m)" "\<forall>(n, x) \<in> ric_pairs m. xr_ric_id x \<noteq> xr_ric_id y"
  shows "find_ric_req_map_ric_id m y = Inl (Assertion ''Not found xApp RIC ID '')"
proof -
  have "lookup_if (bm_right (mr_bimap m)) (\<lambda>k. Inr (eq_xapp_ric_gen_id y k)) = Inr None"
  proof (rule lookup_if_None [where q = "eq_xapp_ric_gen_id y"])
    show "\<forall>e \<in> rb_set (bm_right (mr_bimap m)). \<not> eq_xapp_ric_gen_id y (fst e)"
      using assms(3) ricid.inv_right [OF assms(2)] by (force simp: eq_xapp_ric_gen_id_iff)
  qed simp
  then show ?thesis
    using assms(1) by (simp add: find_ric_req_map_ric_id_def)
qed

lemma find_map_e2_node_missing:
  assumes "e2_sad_ok m" "nid \<notin> fst ` bm_pairs m" "valid_node_id nid" "plain_node nid"
  shows "find_map_e2_node_sad m nid = Inl (Assertion ''E2 Node not found in the tree'')"
proof -
  have inv: "e2sad.inv m"
    using assms(1) by (simp add: e2_sad_ok_def)
  have "lookup_if (bm_left m) (eq_global_e2_node_id nid) = Inr None"
  proof (rule lookup_if_None [where q = "\<lambda>k. nid = k"])
    show "\<forall>e \<in> bm_pairs m. eq_global_e2_node_id nid (fst e) = Inr (nid = fst e)"
      using e2sad.inv_valid [OF inv] assms(3,4) eq_global_e2_node_id_valid unfolding plain_node_def by fastforce
    show "\<forall>e \<in> bm_pairs m. \<not> nid = fst e"
      using assms(2) by auto
  qed
  then show ?thesis
    by (simp add: find_map_e2_node_sad_def)
qed

section \<open>The two halves of a subscription\<close>

abbreviation accepted :: "ric_gen_id_t \<Rightarrow> ric_subscription_response_t" where
  "accepted rid \<equiv> \<lparr>sresp_ric_id = rid, sresp_admitted = [\<lparr>ric_act_id = 0\<rparr>], sresp_not_admitted = []\<rparr>"

text \<open>The request of the xApp and the response of the E2 node.\<close>

lemma subscribe_round:
  assumes "sys_ok (ric, i)" "os_ok os" "(e42s_id r, s) \<in> node_sockets ric" "xapp_conn i (e42s_xapp_id r) t"
    and rid: "sreq_ric_id (e42s_sr r) = rid" and "sub_event rid \<notin> snd ` pending_events ric"
    and "ric_req_id rid \<noteq> 0" "ric_req_id rid < 2 ^ 16"
    and "\<forall>(n, x) \<in> ric_pairs (ia_map_ric_id i). node_req n \<noteq> ric_req_id rid"
  shows "\<exists>ric1 i1 ric2 i2.
     msg_arrived_iapp os (ric, i) t (E42_Ric_Sub_Req r) = Inr (ric1, i1) \<and>
     nr_sent ric1 = nr_sent ric @ [(s, Ric_Sub_Req (e42s_sr r))] \<and>
     sctp_msg_arrived_event (ric1, i1) (s, Ric_Sub_Resp (accepted rid)) = Inr (ric2, i2) \<and>
     ia_sent i2 = ia_sent i @ [(t, Ric_Sub_Resp (accepted rid))] \<and> sys_ok (ric2, i2) \<and>
     pending_events ric2 = pending_events ric \<and> node_sockets ric2 = node_sockets ric \<and> nr_sent ric2 = nr_sent ric1 \<and>
     nr_sm_ds ric2 = nr_sm_ds ric \<and>
     ric_pairs (ia_map_ric_id i2) = insert (sub_binding r) (ric_pairs (ia_map_ric_id i)) \<and>
     ia_xapps i2 = ia_xapps i \<and>
     is_subscription_active (ia_subscription_registry i2) (ucast (e42s_xapp_id r)) (ran_func_id rid)"
proof -
  have a5: "sub_event (sreq_ric_id (e42s_sr r)) \<notin> snd ` pending_events ric"
    "ric_req_id (sreq_ric_id (e42s_sr r)) \<noteq> 0" "ric_req_id (sreq_ric_id (e42s_sr r)) < 2 ^ 16"
    "\<forall>(n, x) \<in> ric_pairs (ia_map_ric_id i). node_req n \<noteq> ric_req_id (sreq_ric_id (e42s_sr r))"
    using assms(6-9) by (simp_all add: rid)
  from xapp_subscribe_sys [OF assms(1-4) a5, of t]
  obtain ric1 i1 where 1: "msg_arrived_iapp os (ric, i) t (E42_Ric_Sub_Req r) = Inr (ric1, i1)" "sys_ok (ric1, i1)"
    "requested ric (os ric) (sub_event (sreq_ric_id (e42s_sr r))) s (Ric_Sub_Req (e42s_sr r)) ric1"
    "ric_pairs (ia_map_ric_id i1) = insert (sub_binding r) (ric_pairs (ia_map_ric_id i))"
    "is_subscription_active (ia_subscription_registry i1) (ucast (e42s_xapp_id r)) (ran_func_id (sreq_ric_id (e42s_sr r)))"
    "i1 = i\<lparr>ia_subscription_registry := ia_subscription_registry i1, ia_map_ric_id := ia_map_ric_id i1\<rparr>"
    by (elim exE conjE)
  note 1 = this [unfolded rid]
  have i1: "ia_xapps i1 = ia_xapps i" "ia_sent i1 = ia_sent i"
    by (subst 1(6), simp)+
  have q: "pending_events ric1 = insert (os ric, sub_event rid) (pending_events ric)"
    "nr_sent ric1 = nr_sent ric @ [(s, Ric_Sub_Req (e42s_sr r))]" "node_sockets ric1 = node_sockets ric"
    "nr_sm_ds ric1 = nr_sm_ds ric"
    using 1(3) by (simp_all add: requested_def)
  have p1: "(os ric, sub_event (sresp_ric_id (accepted rid))) \<in> pending_events ric1"
    "sresp_not_admitted (accepted rid) = []" "sresp_admitted (accepted rid) = [\<lparr>ric_act_id = 0\<rparr>]"
    "ric_act_id \<lparr>ric_act_id = 0\<rparr> = 0" "ric_req_id (sresp_ric_id (accepted rid)) < 2 ^ 16"
    using q(1) assms(8) by simp_all
  from subscription_response_ok [OF 1(2) p1, of s]
  obtain ric2 out where 2: "sctp_msg_arrived_event (ric1, i1) (s, Ric_Sub_Resp (accepted rid)) =
      Inr (ric2, i1\<lparr>ia_sent := ia_sent i1 @ out\<rparr>)" "sys_ok (ric2, i1\<lparr>ia_sent := ia_sent i1 @ out\<rparr>)"
    "pending_events ric2 = pending_events ric1 - {(os ric, sub_event (sresp_ric_id (accepted rid)))}"
    "ric2 = ric1\<lparr>nr_pending := nr_pending ric2, nr_io := removeAll (os ric) (nr_io ric1)\<rparr>"
    "\<forall>n x. (n, x) \<in> ric_pairs (ia_map_ric_id i1) \<longrightarrow> en_ric_id n = sresp_ric_id (accepted rid) \<longrightarrow>
        (\<exists>t. xapp_conn i1 (xr_xapp_id x) t \<and> out = [(t, Ric_Sub_Resp (accepted rid))])"
    by (elim exE conjE)
  have c: "iapp_ok i1" "xapp_conn i1 (e42s_xapp_id r) t"
    using sys_okD [OF 1(2)] assms(4) i1(1) by (simp_all add: xapp_conn_def)
  have "\<exists>t'. xapp_conn i1 (e42s_xapp_id r) t' \<and> out = [(t', Ric_Sub_Resp (accepted rid))]"
    using 2(5) [rule_format, of "fst (sub_binding r)" "snd (sub_binding r)"] by (simp add: 1(4) sub_binding_def rid)
  then obtain t' where t': "xapp_conn i1 (e42s_xapp_id r) t'" "out = [(t', Ric_Sub_Resp (accepted rid))]"
    by (elim exE conjE)
  have out: "out = [(t, Ric_Sub_Resp (accepted rid))]"
    using t'(2) xapp_conn_uniq [OF c(1) t'(1) c(2)] by simp
  have "(os ric, sub_event rid) \<notin> pending_events ric"
    using imageI [of _ _ snd] assms(6) by fastforce
  then have "pending_events ric2 = pending_events ric"
    by (simp add: 2(3) q(1))
  moreover have "node_sockets ric2 = node_sockets ric" "nr_sent ric2 = nr_sent ric1" "nr_sm_ds ric2 = nr_sm_ds ric"
    by (subst 2(4), simp add: q(3), subst 2(4), simp, subst 2(4), simp add: q(4))
  ultimately show ?thesis
    using 1(1,4,5) 2(1,2) i1 out q(2)
    by (intro exI [of _ ric1] exI [of _ i1] exI [of _ ric2] exI [of _ "i1\<lparr>ia_sent := ia_sent i1 @ out\<rparr>"]) simp
qed

text \<open>The deletion by the xApp and the response of the E2 node.\<close>

lemma unsubscribe_round:
  assumes "sys_ok (ric, i)" "os_ok os" "(n, x) \<in> ric_pairs (ia_map_ric_id i)" "(en_e2_node_id n, s) \<in> node_sockets ric"
    and "xapp_conn i (xr_xapp_id x) t" "en_ric_id n = rid" "del_event rid \<notin> snd ` pending_events ric"
    and "sdr_ric_id (e42d_sdr r) = rid"
  shows "\<exists>ric1 ric2 i2.
     msg_arrived_iapp os (ric, i) t (E42_Ric_Sub_Del_Req r) = Inr (ric1, i) \<and>
     nr_sent ric1 = nr_sent ric @ [(s, Ric_Sub_Del_Req \<lparr>sdr_ric_id = rid\<rparr>)] \<and>
     sctp_msg_arrived_event (ric1, i) (s, Ric_Sub_Del_Resp \<lparr>sdresp_ric_id = rid\<rparr>) = Inr (ric2, i2) \<and>
     ia_sent i2 = ia_sent i @ [(t, Ric_Sub_Del_Resp \<lparr>sdresp_ric_id = rid\<rparr>)] \<and> sys_ok (ric2, i2) \<and>
     pending_events ric2 = pending_events ric \<and>
     ric_pairs (ia_map_ric_id i2) = ric_pairs (ia_map_ric_id i) - {(n, x)} \<and>
     ia_subscription_registry i2 = ia_subscription_registry i"
proof -
  have ok: "iapp_ok i" "xapps_ok i"
    using sys_okD [OF assms(1)] by simp_all
  have x: "xr_ric_id x = rid"
    using binding_rid [OF ok(2) assms(3)] assms(6) by simp
  then have "sdr_ric_id (e42d_sdr r) = xr_ric_id x"
    using assms(8) by simp
  from xapp_unsubscribe_sys [OF assms(1-4) this, of t]
  obtain ric1 where 1: "msg_arrived_iapp os (ric, i) t (E42_Ric_Sub_Del_Req r) = Inr (ric1, i)" "sys_ok (ric1, i)"
    "delete_sent os ric n s ric1"
    by (elim exE conjE)
  have q: "requested ric (os ric) (del_event rid) s (Ric_Sub_Del_Req \<lparr>sdr_ric_id = rid\<rparr>) ric1"
    using 1(3) assms(6,7) by (simp add: delete_sent_def)
  let ?r = "\<lparr>sdresp_ric_id = rid\<rparr>"
  have m: "ricid.inv (mr_bimap (ia_map_ric_id i))"
    using ok(1) by (simp add: iapp_ok_def ric_id_ok_def)
  have uniq: "n' = n \<and> x' = x" if "(n', x') \<in> ric_pairs (ia_map_ric_id i)" "node_req n' = ric_req_id rid" for n' x'
    using ric_pairs_uniq [OF m that(1) assms(3)] that(2) assms(6) by simp
  have "node_req n < 2 ^ 16"
    using ok(1) assms(3) by (force simp: iapp_ok_def)
  then have d: "(os ric, del_event (sdresp_ric_id ?r)) \<in> pending_events ric1" "ric_req_id (sdresp_ric_id ?r) < 2 ^ 16"
    using q assms(6) by (simp_all add: requested_def)
  have d3: "\<forall>(n', x') \<in> ric_pairs (ia_map_ric_id i). node_req n' = ric_req_id (sdresp_ric_id ?r) \<longrightarrow>
      en_ric_id n' = sdresp_ric_id ?r"
    using uniq assms(6) by fastforce
  from delete_response_ok [OF 1(2) d d3, of s]
  obtain ric2 i2 where 2: "sctp_msg_arrived_event (ric1, i) (s, Ric_Sub_Del_Resp ?r) = Inr (ric2, i2)"
    "sys_ok (ric2, i2)" "pending_events ric2 = pending_events ric1 - {(os ric, del_event (sdresp_ric_id ?r))}"
    "if \<exists>(n', x') \<in> ric_pairs (ia_map_ric_id i). en_ric_id n' = sdresp_ric_id ?r
      then \<exists>(n', x') \<in> ric_pairs (ia_map_ric_id i). en_ric_id n' = sdresp_ric_id ?r \<and>
        answered i n' x' (Ric_Sub_Del_Resp ?r) i2
      else i2 = i"
    by (elim exE conjE)
  have "\<exists>(n', x') \<in> ric_pairs (ia_map_ric_id i). en_ric_id n' = sdresp_ric_id ?r"
    using assms(3,6) by (intro bexI [of _ "(n, x)"]) simp_all
  with 2(4) obtain n' x' where n': "(n', x') \<in> ric_pairs (ia_map_ric_id i)" "en_ric_id n' = rid"
    "answered i n' x' (Ric_Sub_Del_Resp ?r) i2"
    by (auto simp del: split_paired_Ex)
  have "answered i n x (Ric_Sub_Del_Resp ?r) i2"
    using uniq [OF n'(1)] n'(2,3) by simp
  then obtain t' where a: "ric_pairs (ia_map_ric_id i2) = ric_pairs (ia_map_ric_id i) - {(n, x)}"
    "xapp_conn i (xr_xapp_id x) t'" "ia_sent i2 = ia_sent i @ [(t', Ric_Sub_Del_Resp ?r)]"
    "ia_subscription_registry i2 = ia_subscription_registry i"
    by (auto simp: answered_def)
  have "ia_sent i2 = ia_sent i @ [(t, Ric_Sub_Del_Resp ?r)]"
    using a(3) xapp_conn_uniq [OF ok(1) a(2) assms(5)] by simp
  moreover have "(os ric, del_event rid) \<notin> pending_events ric"
    using imageI [of _ _ snd] assms(7) by fastforce
  then have "pending_events ric2 = pending_events ric"
    using q by (simp add: 2(3) requested_def)
  ultimately show ?thesis
    using 1(1) q 2(1,2) a(1,4) by (intro exI [of _ ric1] exI [of _ ric2] exI [of _ i2]) (simp add: requested_def)
qed

section \<open>Example states\<close>

text \<open>The RIC and the iApp right after their start.\<close>

lemma sys_start:
  assumes "sm_ds_ok sm_ds" "0 < fd"
  shows "\<exists>ric i. init_near_ric fd sm_ds = Inr ric \<and> init_e42_iapp = Inr i \<and> sys_ok (ric, i) \<and>
     node_sockets ric = {} \<and> pending_events ric = {} \<and> sa_contents (nr_conn_e2_nodes ric) = [] \<and>
     nr_fd ric = fd \<and> nr_io ric = [fd] \<and> nr_sm_ds ric = sm_ds \<and> nr_req_id ric = 0 \<and> nr_tasks ric = [] \<and>
     bm_pairs (ia_xapps i) = {} \<and> ric_pairs (ia_map_ric_id i) = {} \<and> ia_xapp_id i = 7 \<and>
     reg_entries (ia_subscription_registry i) = []"
proof -
  from init_near_ric_ok [OF assms] obtain ric where r: "init_near_ric fd sm_ds = Inr ric" "nr_ok ric" "pub_default ric"
    "node_sockets ric = {}" "pending_events ric = {}" "sa_contents (nr_conn_e2_nodes ric) = []"
    "sa_cap (nr_conn_e2_nodes ric) = 8" "nr_fd ric = fd" "nr_io ric = [fd]" "nr_sm_ds ric = sm_ds"
    "nr_req_id ric = 0" "nr_tasks ric = []" "nr_sent ric = []" "nr_published ric = []"
    by (elim exE conjE)
  from init_e42_iapp_ok obtain i where i: "init_e42_iapp = Inr i" "iapp_ok i" "ia_sent i = []" "ia_xapp_id i = 7"
    "bm_pairs (ia_xapps i) = {}" "ric_pairs (ia_map_ric_id i) = {}" "reg_nodes (ia_e2_nodes i) = []"
    "reg_entries (ia_subscription_registry i) = []"
    by (elim exE conjE)
  have "sys_ok (ric, i)"
    using r(2-7) i(2-7) by (simp add: sys_ok_def nodes_ok_def xapps_ok_def)
  then show ?thesis
    using r i by (intro exI [of _ ric] exI [of _ i] conjI)
qed

text \<open>An E2 node and an xApp have connected.\<close>

lemma sys_example:
  "\<exists>ric i. sys_ok (ric, i) \<and> node_sockets ric = {(du_node, peer 5000)} \<and>
     bm_pairs (ia_xapps i) = {(7, peer 6000)} \<and> xapp_conn i 7 (peer 6000) \<and> pending_events ric = {} \<and>
     ric_pairs (ia_map_ric_id i) = {} \<and> nr_req_id ric = 0 \<and> nr_sm_ds ric = tc_sm_ds"
proof -
  obtain ric i where 0: "sys_ok (ric, i)" "node_sockets ric = {}" "pending_events ric = {}"
    "sa_contents (nr_conn_e2_nodes ric) = []" "nr_sm_ds ric = tc_sm_ds" "nr_req_id ric = 0"
    "bm_pairs (ia_xapps i) = {}" "ric_pairs (ia_map_ric_id i) = {}" "ia_xapp_id i = 7"
    using sys_start [OF tc_sm_ds_ok(1), of 5] by auto
  from setup_sys [OF 0(1) tc_setup_new [OF 0(5,2,4), of "peer 5000"]]
  obtain ric1 i1 where 1: "sys_ok (ric1, i1)"
    "node_sockets ric1 = insert (stp_id tc_setup, peer 5000) (node_sockets ric)"
    "ric1 = ric\<lparr>nr_e2_nodes := nr_e2_nodes ric1, nr_conn_e2_nodes := nr_conn_e2_nodes ric1,
        nr_sent := nr_sent ric @ [(peer 5000, E2_Stp_Resp (accepted_response tc_setup))]\<rparr>"
    "i1 = i\<lparr>ia_e2_nodes := ia_e2_nodes i1\<rparr>"
    by (elim exE conjE)
  have r1: "nr_pending ric1 = nr_pending ric" "nr_req_id ric1 = 0" "nr_sm_ds ric1 = tc_sm_ds"
    by (subst 1(3), simp add: 0)+
  have i1: "ia_xapps i1 = ia_xapps i" "ia_map_ric_id i1 = ia_map_ric_id i" "ia_xapp_id i1 = 7"
    by (subst 1(4), simp add: 0)+
  from xapp_setup_sys [OF 1(1), of "\<lparr>e42_ran_func_item = [kpm_function]\<rparr>" "peer 6000" next_fd]
  obtain i2 where i2: "sys_ok (ric1, i2)" "bm_pairs (ia_xapps i2) = insert (ucast (ia_xapp_id i1), peer 6000) (bm_pairs (ia_xapps i1))"
    "ia_map_ric_id i2 = ia_map_ric_id i1"
    by (auto simp: i1 0(7))
  show ?thesis
    using i2 r1 i1 1(2) 0 by (intro exI [of _ ric1] exI [of _ i2])
      (simp add: xapp_conn_def peer_def tc_setup_def)
qed

abbreviation e42_subscribe_5 :: e42_ric_subscription_request_t where
  "e42_subscribe_5 \<equiv> \<lparr>e42s_xapp_id = 7, e42s_id = du_node, e42s_sr = subscribe_5\<rparr>"

text \<open>The xApp has a subscription at the E2 node.\<close>

lemma sys_subscribed_example:
  "\<exists>ric i. sys_ok (ric, i) \<and> node_sockets ric = {(du_node, peer 5000)} \<and>
     bm_pairs (ia_xapps i) = {(7, peer 6000)} \<and> xapp_conn i 7 (peer 6000) \<and> pending_events ric = {} \<and>
     ric_pairs (ia_map_ric_id i) = {sub_binding e42_subscribe_5}"
proof -
  obtain ric i where 0: "sys_ok (ric, i)" "node_sockets ric = {(du_node, peer 5000)}" "bm_pairs (ia_xapps i) = {(7, peer 6000)}"
    "xapp_conn i 7 (peer 6000)" "pending_events ric = {}" "ric_pairs (ia_map_ric_id i) = {}"
    using sys_example by blast
  have p: "(e42s_id e42_subscribe_5, peer 5000) \<in> node_sockets ric" "xapp_conn i (e42s_xapp_id e42_subscribe_5) (peer 6000)"
    "sub_event (sreq_ric_id subscribe_5) \<notin> snd ` pending_events ric" "ric_req_id (sreq_ric_id subscribe_5) \<noteq> 0"
    "ric_req_id (sreq_ric_id subscribe_5) < 2 ^ 16" "sreq_ric_id (e42s_sr e42_subscribe_5) = sreq_ric_id subscribe_5"
    "\<forall>(n, x) \<in> ric_pairs (ia_map_ric_id i). node_req n \<noteq> ric_req_id (sreq_ric_id subscribe_5)"
    using 0(2,4,5,6) by (simp_all add: subscribe_5_def)
  from subscribe_round [OF 0(1) next_fd_ok p(1,2,6,3,4,5,7)]
  obtain ric2 i2 where "sys_ok (ric2, i2)" "pending_events ric2 = pending_events ric" "node_sockets ric2 = node_sockets ric"
    "ric_pairs (ia_map_ric_id i2) = insert (sub_binding e42_subscribe_5) (ric_pairs (ia_map_ric_id i))"
    "ia_xapps i2 = ia_xapps i"
    by (elim exE conjE)
  then show ?thesis
    using 0 by (intro exI [of _ ric2] exI [of _ i2]) (simp add: xapp_conn_def)
qed

section \<open>Properties\<close>

text \<open>
  C4.  The life of a subscription of an xApp: the request goes to the socket of the E2 node, its
  response to the socket of the xApp, the deletion to the node and its response to the xApp, all
  with the request id of the xApp; in the end no pending event and no binding is left.  The
  registry still lists the subscription as active: indications go on to be forwarded.
\<close>

theorem subscription_end_to_end:
  assumes "sys_ok (ric, i)" "os_ok os" "(e42s_id r, s) \<in> node_sockets ric" "xapp_conn i (e42s_xapp_id r) t"
  defines "rid \<equiv> sreq_ric_id (e42s_sr r)"
  assumes "sub_event rid \<notin> snd ` pending_events ric" "del_event rid \<notin> snd ` pending_events ric"
    and "ric_req_id rid \<noteq> 0" "ric_req_id rid < 2 ^ 16"
    and "\<forall>(n, x) \<in> ric_pairs (ia_map_ric_id i). node_req n \<noteq> ric_req_id rid"
  defines "resp \<equiv> \<lparr>sresp_ric_id = rid, sresp_admitted = [\<lparr>ric_act_id = 0\<rparr>], sresp_not_admitted = []\<rparr>"
  shows "\<exists>ric1 i1 ric2 i2 ric3 ric4 i4.
     msg_arrived_iapp os (ric, i) t (E42_Ric_Sub_Req r) = Inr (ric1, i1) \<and>
     nr_sent ric1 = nr_sent ric @ [(s, Ric_Sub_Req (e42s_sr r))] \<and>
     sctp_msg_arrived_event (ric1, i1) (s, Ric_Sub_Resp resp) = Inr (ric2, i2) \<and>
     ia_sent i2 = ia_sent i @ [(t, Ric_Sub_Resp resp)] \<and>
     msg_arrived_iapp os (ric2, i2) t (E42_Ric_Sub_Del_Req
       \<lparr>e42d_xapp_id = e42s_xapp_id r, e42d_sdr = \<lparr>sdr_ric_id = rid\<rparr>\<rparr>) = Inr (ric3, i2) \<and>
     nr_sent ric3 = nr_sent ric1 @ [(s, Ric_Sub_Del_Req \<lparr>sdr_ric_id = rid\<rparr>)] \<and>
     sctp_msg_arrived_event (ric3, i2) (s, Ric_Sub_Del_Resp \<lparr>sdresp_ric_id = rid\<rparr>) = Inr (ric4, i4) \<and>
     ia_sent i4 = ia_sent i2 @ [(t, Ric_Sub_Del_Resp \<lparr>sdresp_ric_id = rid\<rparr>)] \<and>
     pending_events ric4 = pending_events ric \<and> ric_pairs (ia_map_ric_id i4) = ric_pairs (ia_map_ric_id i) \<and>
     sys_ok (ric4, i4) \<and>
     is_subscription_active (ia_subscription_registry i4) (ucast (e42s_xapp_id r)) (ran_func_id rid)"
proof -
  obtain ric1 i1 ric2 i2 where 1: "msg_arrived_iapp os (ric, i) t (E42_Ric_Sub_Req r) = Inr (ric1, i1)"
    "nr_sent ric1 = nr_sent ric @ [(s, Ric_Sub_Req (e42s_sr r))]"
    "sctp_msg_arrived_event (ric1, i1) (s, Ric_Sub_Resp resp) = Inr (ric2, i2)"
    "ia_sent i2 = ia_sent i @ [(t, Ric_Sub_Resp resp)]" "sys_ok (ric2, i2)"
    "pending_events ric2 = pending_events ric" "node_sockets ric2 = node_sockets ric" "nr_sent ric2 = nr_sent ric1"
    "ric_pairs (ia_map_ric_id i2) = insert (sub_binding r) (ric_pairs (ia_map_ric_id i))" "ia_xapps i2 = ia_xapps i"
    "is_subscription_active (ia_subscription_registry i2) (ucast (e42s_xapp_id r)) (ran_func_id rid)"
    using subscribe_round [OF assms(1-4) meta_eq_to_obj_eq [OF rid_def, symmetric] assms(6,8-10)]
    unfolding resp_def by (elim exE conjE)
  let ?n = "fst (sub_binding r)" and ?x = "snd (sub_binding r)"
  have 2: "(?n, ?x) \<in> ric_pairs (ia_map_ric_id i2)" "(en_e2_node_id ?n, s) \<in> node_sockets ric2"
    "xapp_conn i2 (xr_xapp_id ?x) t" "en_ric_id ?n = rid" "del_event rid \<notin> snd ` pending_events ric2"
    using assms(3,4,7) 1(6,7,9,10) by (simp_all add: sub_binding_def rid_def xapp_conn_def)
  have "(?n, ?x) \<notin> ric_pairs (ia_map_ric_id i)"
    using assms(10) 2(4) by auto
  then have "insert (sub_binding r) (ric_pairs (ia_map_ric_id i)) - {(?n, ?x)} = ric_pairs (ia_map_ric_id i)"
    by simp
  note same = this
  have "sdr_ric_id (e42d_sdr \<lparr>e42d_xapp_id = e42s_xapp_id r, e42d_sdr = \<lparr>sdr_ric_id = rid\<rparr>\<rparr>) = rid"
    by simp
  from unsubscribe_round [OF 1(5) assms(2) 2 this]
  obtain ric3 ric4 i4 where 3: "msg_arrived_iapp os (ric2, i2) t (E42_Ric_Sub_Del_Req
       \<lparr>e42d_xapp_id = e42s_xapp_id r, e42d_sdr = \<lparr>sdr_ric_id = rid\<rparr>\<rparr>) = Inr (ric3, i2)"
    "nr_sent ric3 = nr_sent ric2 @ [(s, Ric_Sub_Del_Req \<lparr>sdr_ric_id = rid\<rparr>)]"
    "sctp_msg_arrived_event (ric3, i2) (s, Ric_Sub_Del_Resp \<lparr>sdresp_ric_id = rid\<rparr>) = Inr (ric4, i4)"
    "ia_sent i4 = ia_sent i2 @ [(t, Ric_Sub_Del_Resp \<lparr>sdresp_ric_id = rid\<rparr>)]" "sys_ok (ric4, i4)"
    "pending_events ric4 = pending_events ric2"
    "ric_pairs (ia_map_ric_id i4) = ric_pairs (ia_map_ric_id i2) - {(?n, ?x)}"
    "ia_subscription_registry i4 = ia_subscription_registry i2"
    by (elim exE conjE)
  show ?thesis
    using 1(1-4) 3(1,3-5) 1(11) same
    by (intro exI [of _ ric1] exI [of _ i1] exI [of _ ric2] exI [of _ i2] exI [of _ ric3] exI [of _ ric4]
        exI [of _ i4]) (simp add: 1(6,8,9) 3(2,6-8))
qed

theorem subscription_end_to_end_witness:
  "\<exists>ric i ric1 i1 ric2 i2 ric3 ric4 i4.
     msg_arrived_iapp next_fd (ric, i) (peer 6000) (E42_Ric_Sub_Req e42_subscribe_5) = Inr (ric1, i1) \<and>
     sctp_msg_arrived_event (ric1, i1) (peer 5000, Ric_Sub_Resp (accepted (sreq_ric_id subscribe_5))) = Inr (ric2, i2) \<and>
     msg_arrived_iapp next_fd (ric2, i2) (peer 6000) (E42_Ric_Sub_Del_Req
       \<lparr>e42d_xapp_id = 7, e42d_sdr = \<lparr>sdr_ric_id = sreq_ric_id subscribe_5\<rparr>\<rparr>) = Inr (ric3, i2) \<and>
     sctp_msg_arrived_event (ric3, i2)
       (peer 5000, Ric_Sub_Del_Resp \<lparr>sdresp_ric_id = sreq_ric_id subscribe_5\<rparr>) = Inr (ric4, i4) \<and>
     pending_events ric4 = {} \<and> ric_pairs (ia_map_ric_id i4) = {} \<and>
     is_subscription_active (ia_subscription_registry i4) 7 146"
proof -
  obtain ric i where 0: "sys_ok (ric, i)" "node_sockets ric = {(du_node, peer 5000)}"
    "xapp_conn i 7 (peer 6000)" "pending_events ric = {}" "ric_pairs (ia_map_ric_id i) = {}"
    using sys_example by blast
  have p: "(e42s_id e42_subscribe_5, peer 5000) \<in> node_sockets ric" "xapp_conn i (e42s_xapp_id e42_subscribe_5) (peer 6000)"
    "sub_event (sreq_ric_id (e42s_sr e42_subscribe_5)) \<notin> snd ` pending_events ric"
    "del_event (sreq_ric_id (e42s_sr e42_subscribe_5)) \<notin> snd ` pending_events ric"
    "ric_req_id (sreq_ric_id (e42s_sr e42_subscribe_5)) \<noteq> 0" "ric_req_id (sreq_ric_id (e42s_sr e42_subscribe_5)) < 2 ^ 16"
    "\<forall>(n, x) \<in> ric_pairs (ia_map_ric_id i). node_req n \<noteq> ric_req_id (sreq_ric_id (e42s_sr e42_subscribe_5))"
    using 0(2-5) by (simp_all add: subscribe_5_def)
  have f: "ran_func_id (sreq_ric_id subscribe_5) = 146"
    by (simp add: subscribe_5_def)
  from subscription_end_to_end [OF 0(1) next_fd_ok p]
  show ?thesis
    unfolding e42_ric_subscription_request_t.simps 0(4,5) f ucast_0 ucast_id
    by (elim exE conjE) (intro exI conjI, assumption+, simp)
qed

end
