(* ===== verification/Ric_Faults.thy ===== *)
theory Ric_Faults
  imports Ric_Lifecycle
begin

text \<open>
  What happens to the requests of an xApp when something ends early: the acknowledgement of its
  control requests, the E2 node that leaves, the xApp that leaves, the timeout of a request, and
  the indications that reach the local listeners.
\<close>

section \<open>Acknowledgements of control requests\<close>

lemma ucast_16_less: "(ucast (w :: u16) :: u32) < 2 ^ 16"
proof -
  have "unat (ucast w :: u32) \<le> unat w"
    by (simp add: unsigned_ucast_eq take_bit_nat_less_eq_self)
  moreover have "unat w < 2 ^ LENGTH(16)"
    by (rule unsigned_less)
  ultimately show ?thesis
    by (simp add: word_less_nat_alt)
qed

abbreviation ack :: "ric_gen_id_t \<Rightarrow> ric_control_acknowledge_t" where
  "ack rid \<equiv> \<lparr>ack_ric_id = rid, ack_call_process_id = None, ack_control_outcome = None\<rparr>"

lemma ack_unbound:
  assumes "sys_ok (ric, i)" "(fd, ctrl_event (ack_ric_id r)) \<in> pending_events ric" "ric_req_id (ack_ric_id r) < 2 ^ 16"
    and "\<forall>(n, x) \<in> ric_pairs (ia_map_ric_id i). node_req n \<noteq> ric_req_id (ack_ric_id r)"
  shows "sctp_msg_arrived_event (ric, i) (info, Ric_Ctrl_Ack r) = Inl (Assertion ''RIC Req Id not found!'')"
proof -
  have ok: "nr_ok ric" "iapp_ok i"
    using sys_okD [OF assms(1)] by simp_all
  obtain ric' where "stop_pending_event ric (ctrl_event (ack_ric_id r)) = Inr ric'"
    using stop_frame [OF ok(1) assms(2)] by blast
  then show ?thesis
    using handle_control_ack_unbound [OF ok(2) assms(3,4)]
    by (simp add: sctp_msg_arrived_event_def e2ap_msg_handle_ric_def check_valid_msg_type_ric_def
        e2ap_handle_control_ack_ric_def notify_msg_iapp_def)
qed

text \<open>
  The control request of an xApp reaches the E2 node, but the table of the requests of the
  iApp is left as it was; so the acknowledgement of the E2 node, whose request id no binding has,
  does not reach the xApp: it ends the process.
\<close>

theorem control_ack_lost:
  assumes "sys_ok (ric, i)" "os_ok os" "xapp_conn i (e42c_xapp_id r) t" "(e42c_id r, s) \<in> node_sockets ric"
    and "ric_req_id (cr_ric_id (e42c_ctrl_req r)) < 2 ^ 16"
  defines "rid \<equiv> (cr_ric_id (e42c_ctrl_req r))\<lparr>ric_req_id := ucast (ucast (nr_req_id ric) :: u16)\<rparr>"
  assumes "ctrl_event rid \<notin> snd ` pending_events ric"
    and "\<forall>(n, x) \<in> ric_pairs (ia_map_ric_id i). node_req n \<noteq> ric_req_id rid"
  shows "\<exists>ric1. msg_arrived_iapp os (ric, i) t (E42_Ric_Ctrl_Req r) = Inr (ric1, i) \<and> sys_ok (ric1, i) \<and>
     nr_sent ric1 = nr_sent ric @ [(s, Ric_Ctrl_Req ((e42c_ctrl_req r)\<lparr>cr_ric_id := rid\<rparr>))] \<and>
     sctp_msg_arrived_event (ric1, i) (s, Ric_Ctrl_Ack (ack rid)) = Inl (Assertion ''RIC Req Id not found!'')"
proof -
  let ?cr = "relabel (ucast (nr_req_id ric)) (e42c_ctrl_req r)"
  have cr: "cr_ric_id ?cr = rid"
    using relabel_16 [OF assms(5)] by (simp add: rid_def)
  then have cr': "?cr = (e42c_ctrl_req r)\<lparr>cr_ric_id := rid\<rparr>"
    by (simp add: relabel_def)
  have "ctrl_event (cr_ric_id ?cr) \<notin> snd ` pending_events ric"
    using assms(7) cr by simp
  from xapp_control_sys [OF assms(1-4) this, of t]
  obtain ric1 where 1: "msg_arrived_iapp os (ric, i) t (E42_Ric_Ctrl_Req r) = Inr (ric1, i)" "sys_ok (ric1, i)"
    "requested ric (os ric) (ctrl_event (cr_ric_id ?cr)) s (Ric_Ctrl_Req ?cr) ric1"
    by (elim exE conjE)
  have 2: "(os ric, ctrl_event (ack_ric_id (ack rid))) \<in> pending_events ric1"
    "nr_sent ric1 = nr_sent ric @ [(s, Ric_Ctrl_Req ((e42c_ctrl_req r)\<lparr>cr_ric_id := rid\<rparr>))]"
    using 1(3) unfolding cr unfolding cr' by (simp_all add: requested_def)
  have "ric_req_id (ack_ric_id (ack rid)) < 2 ^ 16"
    unfolding rid_def using ucast_16_less by simp
  then have "sctp_msg_arrived_event (ric1, i) (s, Ric_Ctrl_Ack (ack rid)) = Inl (Assertion ''RIC Req Id not found!'')"
    using ack_unbound [OF 1(2) 2(1)] assms(8) by simp
  then show ?thesis
    using 1(1,2) 2(2) by (intro exI [of _ ric1] conjI)
qed

abbreviation e42_control_1 :: e42_ric_control_request_t where
  "e42_control_1 \<equiv> \<lparr>e42c_xapp_id = 7, e42c_id = du_node, e42c_ctrl_req = control_1\<rparr>"

theorem control_ack_lost_witness:
  "\<exists>ric i ric1. msg_arrived_iapp next_fd (ric, i) (peer 6000) (E42_Ric_Ctrl_Req e42_control_1) = Inr (ric1, i) \<and>
     sctp_msg_arrived_event (ric1, i)
       (peer 5000, Ric_Ctrl_Ack (ack \<lparr>ric_req_id = 0, ric_inst_id = 0, ran_func_id = 146\<rparr>)) =
       Inl (Assertion ''RIC Req Id not found!'')"
proof -
  obtain ric i where 0: "sys_ok (ric, i)" "node_sockets ric = {(du_node, peer 5000)}"
    "xapp_conn i 7 (peer 6000)" "pending_events ric = {}" "ric_pairs (ia_map_ric_id i) = {}" "nr_req_id ric = 0"
    using sys_example by blast
  have p: "xapp_conn i (e42c_xapp_id e42_control_1) (peer 6000)" "(e42c_id e42_control_1, peer 5000) \<in> node_sockets ric"
    "ric_req_id (cr_ric_id (e42c_ctrl_req e42_control_1)) < 2 ^ 16"
    using 0(2,3) by (simp_all add: control_1_def)
  from control_ack_lost [OF 0(1) next_fd_ok p]
  show ?thesis
    by (elim meta_impE exE conjE) (simp_all add: 0 control_1_def, blast)
qed

text \<open>
  C37.  When the request id of an acknowledged control request is that of a subscription, the
  acknowledgement goes to the xApp of the subscription and removes its binding: the xApp can no
  longer delete the subscription, its request ends the process.
\<close>

theorem control_ack_takes_subscription:
  assumes "sys_ok (ric, i)" "(fd, ctrl_event rid) \<in> pending_events ric"
    and "(n, x) \<in> ric_pairs (ia_map_ric_id i)" "en_ric_id n = rid" "xapp_conn i (xr_xapp_id x) t"
  shows "\<exists>ric1 i1. sctp_msg_arrived_event (ric, i) (s, Ric_Ctrl_Ack (ack rid)) = Inr (ric1, i1) \<and> sys_ok (ric1, i1) \<and>
     ia_sent i1 = ia_sent i @ [(t, Ric_Ctrl_Ack (ack rid))] \<and>
     ric_pairs (ia_map_ric_id i1) = ric_pairs (ia_map_ric_id i) - {(n, x)} \<and>
     msg_arrived_iapp os (ric1, i1) t (E42_Ric_Sub_Del_Req \<lparr>e42d_xapp_id = xr_xapp_id x, e42d_sdr = \<lparr>sdr_ric_id = rid\<rparr>\<rparr>) =
       Inl (Assertion ''Not found xApp RIC ID '')"
proof -
  have p: "(fd, ctrl_event (ack_ric_id (ack rid))) \<in> pending_events ric" "en_ric_id n = ack_ric_id (ack rid)"
    using assms(2,4) by simp_all
  have ok: "iapp_ok i" "xapps_ok i" "ricid.inv (mr_bimap (ia_map_ric_id i))"
    using sys_okD [OF assms(1)] by (simp_all add: iapp_ok_def ric_id_ok_def)
  have x: "xr_ric_id x = rid"
    using binding_rid [OF ok(2) assms(3)] assms(4) by simp
  from control_ack_ok [OF assms(1) p(1) assms(3) p(2), of s]
  obtain ric1 i1 where 1: "sctp_msg_arrived_event (ric, i) (s, Ric_Ctrl_Ack (ack rid)) = Inr (ric1, i1)" "sys_ok (ric1, i1)"
    "answered i n x (Ric_Ctrl_Ack (ack (xr_ric_id x))) i1"
    by (elim exE conjE)
  then obtain t' where 2: "ric_pairs (ia_map_ric_id i1) = ric_pairs (ia_map_ric_id i) - {(n, x)}"
    "xapp_conn i (xr_xapp_id x) t'" "ia_sent i1 = ia_sent i @ [(t', Ric_Ctrl_Ack (ack rid))]"
    using x by (auto simp: answered_def)
  have t': "t' = t"
    by (rule xapp_conn_uniq [OF ok(1) 2(2) assms(5)])
  have none: "\<forall>(n', x') \<in> ric_pairs (ia_map_ric_id i1). xr_ric_id x' \<noteq>
      xr_ric_id \<lparr>xr_ric_id = rid, xr_xapp_id = xr_xapp_id x\<rparr>"
    using binding_rid [OF ok(2)] ric_pairs_uniq [OF ok(3) _ assms(3)] assms(4) 2(1) by fastforce
  have ok1: "\<not> mr_wrlocked (ia_map_ric_id i1)" "ricid.inv (mr_bimap (ia_map_ric_id i1))"
    using sys_okD [OF 1(2)] by (simp_all add: iapp_ok_def ric_id_ok_def)
  have "msg_arrived_iapp os (ric1, i1) t (E42_Ric_Sub_Del_Req \<lparr>e42d_xapp_id = xr_xapp_id x, e42d_sdr = \<lparr>sdr_ric_id = rid\<rparr>\<rparr>) =
       Inl (Assertion ''Not found xApp RIC ID '')"
    by (simp add: msg_arrived_iapp_def e2ap_msg_handle_iapp_def check_valid_msg_type_iapp_def
        e2ap_handle_e42_ric_subscription_delete_request_iapp_def find_ric_req_missing [OF ok1 none])
  then show ?thesis
    using 1(1,2) 2(1,3) t' by (intro exI [of _ ric1] exI [of _ i1] conjI) simp_all
qed

theorem control_ack_takes_subscription_witness:
  "\<exists>ric i ric1 i1. sctp_msg_arrived_event (ric, i) (peer 5000, Ric_Ctrl_Ack (ack (sreq_ric_id subscribe_5))) = Inr (ric1, i1) \<and>
     ia_sent i1 = ia_sent i @ [(peer 6000, Ric_Ctrl_Ack (ack (sreq_ric_id subscribe_5)))] \<and>
     msg_arrived_iapp next_fd (ric1, i1) (peer 6000)
       (E42_Ric_Sub_Del_Req \<lparr>e42d_xapp_id = 7, e42d_sdr = \<lparr>sdr_ric_id = sreq_ric_id subscribe_5\<rparr>\<rparr>) =
       Inl (Assertion ''Not found xApp RIC ID '')"
proof -
  obtain ric i where 0: "sys_ok (ric, i)" "xapp_conn i 7 (peer 6000)" "pending_events ric = {}"
    "ric_pairs (ia_map_ric_id i) = {sub_binding e42_subscribe_5}"
    using sys_subscribed_example by blast
  have ok: "nr_ok ric" "iapp_ok i" "xapps_ok i" and fd: "fresh_fd ric (next_fd ric)"
    using sys_okD [OF 0(1)] next_fd_ok by (simp_all add: os_ok_def)
  have "ctrl_event (sreq_ric_id subscribe_5) \<notin> snd ` pending_events ric"
    by (simp add: 0(3))
  from insert_pending_ok [OF ok(1) fd this] obtain p where
    p: "bm_pairs p = insert (next_fd ric, ctrl_event (sreq_ric_id subscribe_5)) (pending_events ric)"
    "nr_ok (ric\<lparr>nr_io := next_fd ric # nr_io ric, nr_pending := p\<rparr>)"
    by (elim exE conjE)
  let ?ric = "ric\<lparr>nr_io := next_fd ric # nr_io ric, nr_pending := p\<rparr>"
  have a: "sys_ok (?ric, i)"
    by (rule sys_ok_same [OF 0(1)]) (use p(2) ok in \<open>simp_all add: same_nodes_def\<close>)
  have b: "(next_fd ric, ctrl_event (sreq_ric_id subscribe_5)) \<in> pending_events ?ric"
    "(fst (sub_binding e42_subscribe_5), snd (sub_binding e42_subscribe_5)) \<in> ric_pairs (ia_map_ric_id i)"
    "en_ric_id (fst (sub_binding e42_subscribe_5)) = sreq_ric_id subscribe_5"
    "xapp_conn i (xr_xapp_id (snd (sub_binding e42_subscribe_5))) (peer 6000)"
    using 0(2,4) p(1) by (simp_all add: sub_binding_def)
  have x: "xr_xapp_id (snd (sub_binding e42_subscribe_5)) = 7"
    by (simp add: sub_binding_def)
  from control_ack_takes_subscription [OF a b, of "peer 5000" next_fd] show ?thesis
    unfolding x by (elim exE conjE) (intro exI conjI, assumption+)
qed

section \<open>Nodes and xApps that leave\<close>

lemma delete_unknown_node:
  assumes "sys_ok (ric, i)" "os_ok os" "(n, x) \<in> ric_pairs (ia_map_ric_id i)"
    and "valid_node_id (en_e2_node_id n)" "plain_node (en_e2_node_id n)" "en_e2_node_id n \<notin> fst ` node_sockets ric"
    and "del_event (en_ric_id n) \<notin> snd ` pending_events ric" "sdr_ric_id (e42d_sdr r) = en_ric_id n"
  shows "msg_arrived_iapp os (ric, i) t (E42_Ric_Sub_Del_Req r) = Inl (Assertion ''E2 Node not found in the tree'')"
proof -
  have ok: "nr_ok ric" "iapp_ok i" "xapps_ok i" and fd: "fresh_fd ric (os ric)"
    using sys_okD [OF assms(1)] assms(2) by (simp_all add: os_ok_def)
  have n: "en_ric_req_type n = SUBSCRIPTION_RIC_REQUEST_TYPE" "xr_ric_id x = en_ric_id n"
    using binding_rid [OF ok(3) assms(3)] by simp_all
  have f: "find_ric_req_map_ric_id (ia_map_ric_id i)
      \<lparr>xr_ric_id = sdr_ric_id (e42d_sdr r), xr_xapp_id = e42d_xapp_id r\<rparr> = Inr n"
    by (rule find_binding [OF ok(2,3) assms(3)]) (simp add: n(2) assms(8))
  obtain it where it: "find_if_rb_tree (eq_pending_event_ric (del_event (en_ric_id n)))
      (assoc_rb_tree_front (bm_right (nr_pending ric))) = Inr it" "at_end it"
    using eq_pending_found [of "nr_pending ric" "del_event (en_ric_id n)"] ok(1) assms(7) by (auto simp: nr_ok_def)
  from insert_pending_ok [OF ok(1) fd assms(7)] obtain p where
    p: "insert_pending_event ric (del_event (en_ric_id n)) (os ric) =
      Inr (ric\<lparr>nr_io := os ric # nr_io ric, nr_pending := p\<rparr>)"
    by (elim exE conjE)
  have "find_map_e2_node_sad (nr_e2_nodes ric) (en_e2_node_id n) = Inl (Assertion ''E2 Node not found in the tree'')"
    by (rule find_map_e2_node_missing [OF _ assms(6,4,5)]) (use ok(1) in \<open>simp add: nr_ok_def\<close>)
  then have "fwd_ric_subscription_request_delete ric (en_e2_node_id n) \<lparr>sdr_ric_id = en_ric_id n\<rparr> (os ric) =
      Inl (Assertion ''E2 Node not found in the tree'')"
    using it p by (simp add: fwd_ric_subscription_request_delete_def e2ap_send_bytes_ric_def)
  moreover have "e42d_sdr r = \<lparr>sdr_ric_id = en_ric_id n\<rparr>"
    using assms(8) by (cases "e42d_sdr r") simp
  ultimately show ?thesis
    using f n(1) by (simp add: msg_arrived_iapp_def e2ap_msg_handle_iapp_def check_valid_msg_type_iapp_def
        e2ap_handle_e42_ric_subscription_delete_request_iapp_def Let_def)
qed

text \<open>
  The E2 node of a live subscription disconnects: its bindings stay, and when the xApp then
  deletes the subscription, the request ends the process.
\<close>

theorem unsubscribe_after_node_left:
  assumes "sys_ok (ric, i)" "os_ok os" "(n, x) \<in> ric_pairs (ia_map_ric_id i)" "(en_e2_node_id n, s) \<in> node_sockets ric"
    and "del_event (en_ric_id n) \<notin> snd ` pending_events ric" "sdr_ric_id (e42d_sdr r) = en_ric_id n"
  shows "\<exists>ric1 i1. notification_handle_ric (ric, i) s SCTP_SHUTDOWN_EVENT = Inr (ric1, i1) \<and> sys_ok (ric1, i1) \<and>
     ia_map_ric_id i1 = ia_map_ric_id i \<and>
     msg_arrived_iapp os (ric1, i1) t (E42_Ric_Sub_Del_Req r) = Inl (Assertion ''E2 Node not found in the tree'')"
proof -
  have ok: "nr_ok ric" "pub_default ric" "iapp_ok i" "xapps_ok i" "nodes_ok (ric, i)"
    using sys_okD [OF assms(1)] by simp_all
  let ?nid = "en_e2_node_id n"
  from shutdown_ok [OF ok(1,3,5) assms(4) refl]
  obtain ric1 i1 where 1: "notification_handle_ric (ric, i) s SCTP_SHUTDOWN_EVENT = Inr (ric1, i1)"
    "nr_ok ric1" "iapp_ok i1" "nodes_ok (ric1, i1)"
    "sa_contents (nr_conn_e2_nodes ric1) = filter (\<lambda>n. nod_id n \<noteq> ?nid) (sa_contents (nr_conn_e2_nodes ric))"
    "ric1 = ric\<lparr>nr_e2_nodes := nr_e2_nodes ric1, nr_conn_e2_nodes := nr_conn_e2_nodes ric1\<rparr>"
    "i1 = i\<lparr>ia_e2_nodes := ia_e2_nodes i1\<rparr>"
    by (elim exE conjE)
  have same: "nr_pub_sub ric1 = nr_pub_sub ric" "nr_sm_ds ric1 = nr_sm_ds ric" "pending_events ric1 = pending_events ric"
    "ia_map_ric_id i1 = ia_map_ric_id i" "ia_xapps i1 = ia_xapps i" "ia_xapp_id i1 = ia_xapp_id i"
    by (subst 1(6), simp)+ (subst 1(7), simp)+
  have sys: "sys_ok (ric1, i1)"
    using 1(2-4) ok(2,4) same by (simp add: sys_ok_def pub_default_def xapps_ok_def)
  have "?nid \<notin> set (conn_ids ric1)"
    by (auto simp: 1(5))
  then have gone: "?nid \<notin> fst ` node_sockets ric1"
    using 1(4) by (simp add: nodes_ok_def)
  have mem: "?nid \<in> fst ` node_sockets ric"
    using imageI [OF assms(4), of fst] by simp
  have plain: "\<forall>nid \<in> fst ` node_sockets ric. plain_node nid"
    using ok(5) unfolding nodes_ok_def fst_conv by (elim conjE)
  note nid = node_sockets_valid [OF ok(1) mem] bspec [OF plain mem]
  have "msg_arrived_iapp os (ric1, i1) t (E42_Ric_Sub_Del_Req r) = Inl (Assertion ''E2 Node not found in the tree'')"
    by (rule delete_unknown_node [OF sys assms(2) _ nid gone]) (use assms(3,5,6) same(3,4) in simp_all)
  then show ?thesis
    using 1(1) sys same(4) by (intro exI [of _ ric1] exI [of _ i1] conjI)
qed

theorem unsubscribe_after_node_left_witness:
  "\<exists>ric i ric1 i1. notification_handle_ric (ric, i) (peer 5000) SCTP_SHUTDOWN_EVENT = Inr (ric1, i1) \<and>
     msg_arrived_iapp next_fd (ric1, i1) (peer 6000)
       (E42_Ric_Sub_Del_Req \<lparr>e42d_xapp_id = 7, e42d_sdr = \<lparr>sdr_ric_id = sreq_ric_id subscribe_5\<rparr>\<rparr>) =
       Inl (Assertion ''E2 Node not found in the tree'')"
proof -
  obtain ric i where 0: "sys_ok (ric, i)" "node_sockets ric = {(du_node, peer 5000)}" "pending_events ric = {}"
    "ric_pairs (ia_map_ric_id i) = {sub_binding e42_subscribe_5}"
    using sys_subscribed_example by blast
  let ?n = "fst (sub_binding e42_subscribe_5)" and ?x = "snd (sub_binding e42_subscribe_5)"
  have p: "(?n, ?x) \<in> ric_pairs (ia_map_ric_id i)" "(en_e2_node_id ?n, peer 5000) \<in> node_sockets ric"
    "del_event (en_ric_id ?n) \<notin> snd ` pending_events ric"
    "sdr_ric_id (e42d_sdr \<lparr>e42d_xapp_id = 7, e42d_sdr = \<lparr>sdr_ric_id = sreq_ric_id subscribe_5\<rparr>\<rparr>) = en_ric_id ?n"
    using 0(2-4) by (simp_all add: sub_binding_def)
  from unsubscribe_after_node_left [OF 0(1) next_fd_ok p, of "peer 6000"] show ?thesis
    by (elim exE conjE) (intro exI conjI, assumption+)
qed

lemma xapp_shutdown_sys:
  assumes "sys_ok (ric, i)" "os_ok os" "(x, s) \<in> bm_pairs (ia_xapps i)" "sctp_rank s = sctp_rank info"
    and "\<forall>(n, y) \<in> ric_pairs (ia_map_ric_id i). xr_xapp_id y = x \<longrightarrow> en_e2_node_id n \<in> fst ` node_sockets ric"
  shows "\<exists>ric' ns out. handle_event_iapp os (SCTP_CONNECTION_SHUTDOWN_EVENT info sn) (ric, i) = Inr (ric', i) \<and>
     sys_ok (ric', i) \<and>
     set ns = {n. \<exists>y. (n, y) \<in> ric_pairs (ia_map_ric_id i) \<and> xr_xapp_id y = x} \<and>
     snd ` pending_events ric' = snd ` pending_events ric \<union> del_event ` en_ric_id ` set ns \<and>
     nr_sent ric' = nr_sent ric @ out \<and>
     list_all2 (\<lambda>n (t, msg). (en_e2_node_id n, t) \<in> node_sockets ric \<and>
         msg = Ric_Sub_Del_Req \<lparr>sdr_ric_id = en_ric_id n\<rparr>)
       (filter (\<lambda>n. del_event (en_ric_id n) \<notin> snd ` pending_events ric) ns) out"
proof -
  have ok: "nr_ok ric" "pub_default ric" "iapp_ok i" "xapps_ok i" "nodes_ok (ric, i)"
    using sys_okD [OF assms(1)] by simp_all
  have "\<forall>(n, y) \<in> ric_pairs (ia_map_ric_id i). xr_xapp_id y = x \<longrightarrow>
      en_e2_node_id n \<in> fst ` node_sockets ric \<and> plain_node (en_e2_node_id n)"
    using assms(5) ok(5) by (fastforce simp: nodes_ok_def)
  from xapp_shutdown_ok [OF ok(1,3,4) assms(2-4) this, of sn]
  obtain ric' ns out where 1: "handle_event_iapp os (SCTP_CONNECTION_SHUTDOWN_EVENT info sn) (ric, i) = Inr (ric', i)"
    "set ns = {n. \<exists>y. (n, y) \<in> ric_pairs (ia_map_ric_id i) \<and> xr_xapp_id y = x}" "nr_ok ric'"
    "nr_e2_nodes ric' = nr_e2_nodes ric" "nr_conn_e2_nodes ric' = nr_conn_e2_nodes ric"
    "nr_sm_ds ric' = nr_sm_ds ric" "nr_pub_sub ric' = nr_pub_sub ric"
    "snd ` pending_events ric' = snd ` pending_events ric \<union> del_event ` en_ric_id ` set ns"
    "nr_sent ric' = nr_sent ric @ out"
    "list_all2 (deletion_of ric) (filter (\<lambda>n. del_event (en_ric_id n) \<notin> snd ` pending_events ric) ns) out"
    by (elim exE conjE)
  have "sys_ok (ric', i)"
    by (rule sys_ok_same [OF assms(1)]) (use 1(3-7) ok in \<open>simp_all add: same_nodes_def\<close>)
  moreover have "list_all2 (\<lambda>n (t, msg). (en_e2_node_id n, t) \<in> node_sockets ric \<and>
         msg = Ric_Sub_Del_Req \<lparr>sdr_ric_id = en_ric_id n\<rparr>)
       (filter (\<lambda>n. del_event (en_ric_id n) \<notin> snd ` pending_events ric) ns) out"
    by (rule list_all2_mono [OF 1(10)]) (simp add: case_prod_beta)
  ultimately show ?thesis
    using 1(1,2,8,9) by (intro exI [of _ ric'] exI [of _ ns] exI [of _ out] conjI)
qed



end
