(* ===== verification/Ric_Safety.thy ===== *)
theory Ric_Safety
  imports Ric_Faults
begin

text \<open>
  The controller as a transition system: the rounds of the two event loops and the tasks of the
  task manager, in any order.  An input is expected when it follows the protocol; every state
  reached by expected inputs has the invariant, and no expected input ends the process.
\<close>

section \<open>Inputs\<close>

text \<open>
  One round of the event loop of the RIC (\<^term>\<open>None\<close>: the timeout of \<^verbatim>\<open>epoll_wait\<close>), one task
  of the task manager, given by its position among those that wait, one round of the iApp.
\<close>

datatype sys_input =
    Ric_Round "(int \<times> sctp_msg_t) list option"
  | Run_Task nat
  | Iapp_Round "int \<times> sctp_msg_t"

type_synonym sys_state = "ric_iapp \<times> nat"

fun sys_exec :: "os_timer \<Rightarrow> int \<Rightarrow> sys_input \<Rightarrow> sys_state \<Rightarrow> sys_state res" where
  "sys_exec os ep_fd (Ric_Round r) s = e2_event_loop_ric r s"
| "sys_exec os ep_fd (Run_Task k) ((ric, iapp), retry) =
     bnd (sctp_msg_arrived_event
            (ric\<lparr>nr_tasks := take k (nr_tasks ric) @ drop (k + 1) (nr_tasks ric)\<rparr>, iapp) (nr_tasks ric ! k))
       (\<lambda>st. Inr (st, retry))"
| "sys_exec os ep_fd (Iapp_Round r) (st, retry) =
     bnd (e2_event_loop_iapp os ep_fd r st) (\<lambda>st. Inr (st, retry))"

section \<open>The protocol\<close>

text \<open>What the E2 nodes may send, in the state in which the message is handled.\<close>

fun node_msg_ok :: "ric_iapp \<Rightarrow> sctp_info_t \<Rightarrow> e2ap_msg_t \<Rightarrow> bool" where
  "node_msg_ok (ric, i) info (E2_Stp_Req req) = new_node ric info req"
| "node_msg_ok (ric, i) info (Ric_Sub_Resp r) =
     (sub_event (sresp_ric_id r) \<in> snd ` pending_events ric \<and> sresp_not_admitted r = [] \<and>
      sresp_admitted r = [\<lparr>ric_act_id = 0\<rparr>] \<and> ric_req_id (sresp_ric_id r) < 2 ^ 16)"
| "node_msg_ok (ric, i) info (Ric_Sub_Del_Resp r) =
     (del_event (sdresp_ric_id r) \<in> snd ` pending_events ric \<and> ric_req_id (sdresp_ric_id r) < 2 ^ 16 \<and>
      (\<forall>(n, x) \<in> ric_pairs (ia_map_ric_id i).
         node_req n = ric_req_id (sdresp_ric_id r) \<longrightarrow> en_ric_id n = sdresp_ric_id r))"
| "node_msg_ok (ric, i) info (Ric_Ind r) =
     (\<exists>sm. (ran_func_id (ind_ric_id r), sm) \<in> rb_set (nr_sm_ds ric) \<and>
       rd_type (on_indication sm \<lparr>sid_ind_hdr = ind_hdr r, sid_ind_msg = ind_msg r,
         sid_call_process_id = ind_call_process_id r\<rparr>) \<noteq> SM_AGENT_IF_READ_V0_END \<and>
       ((ind_sn r = None \<and> ind_call_process_id r = None) \<or> subscribers i r = []))"
| "node_msg_ok (ric, i) info (Ric_Ctrl_Ack r) =
     (ctrl_event (ack_ric_id r) \<in> snd ` pending_events ric \<and>
      (\<exists>(n, x) \<in> ric_pairs (ia_map_ric_id i). en_ric_id n = ack_ric_id r))"
| "node_msg_ok _ _ _ = False"

text \<open>What the xApps may send.\<close>

fun xapp_msg_ok :: "ric_iapp \<Rightarrow> sctp_info_t \<Rightarrow> e2ap_msg_t \<Rightarrow> bool" where
  "xapp_msg_ok (ric, i) info (E42_Stp_Req req) =
     (e42_ran_func_item req \<noteq> [] \<and> unat (ia_xapp_id i) < 2 ^ 16 \<and>
      (\<forall>(a, b) \<in> bm_pairs (ia_xapps i). sctp_rank b \<noteq> sctp_rank info))"
| "xapp_msg_ok (ric, i) info (E42_Ric_Sub_Req r) =
     (e42s_id r \<in> fst ` node_sockets ric \<and> (\<exists>t. xapp_conn i (e42s_xapp_id r) t) \<and>
      sub_event (sreq_ric_id (e42s_sr r)) \<notin> snd ` pending_events ric \<and>
      ric_req_id (sreq_ric_id (e42s_sr r)) \<noteq> 0 \<and> ric_req_id (sreq_ric_id (e42s_sr r)) < 2 ^ 16 \<and>
      (\<forall>(n, x) \<in> ric_pairs (ia_map_ric_id i). node_req n \<noteq> ric_req_id (sreq_ric_id (e42s_sr r))))"
| "xapp_msg_ok (ric, i) info (E42_Ric_Sub_Del_Req r) =
     (\<exists>(n, x) \<in> ric_pairs (ia_map_ric_id i).
        en_e2_node_id n \<in> fst ` node_sockets ric \<and> sdr_ric_id (e42d_sdr r) = xr_ric_id x)"
| "xapp_msg_ok (ric, i) info (E42_Ric_Ctrl_Req r) =
     ((\<exists>t. xapp_conn i (e42c_xapp_id r) t) \<and> e42c_id r \<in> fst ` node_sockets ric \<and>
      ctrl_event (cr_ric_id (relabel (ucast (nr_req_id ric)) (e42c_ctrl_req r))) \<notin> snd ` pending_events ric)"
| "xapp_msg_ok _ _ _ = False"

definition node_left :: "near_ric_t \<Rightarrow> sctp_info_t \<Rightarrow> bool" where
  "node_left ric info \<longleftrightarrow> (\<exists>(nid, s) \<in> node_sockets ric. sctp_rank s = sctp_rank info)"

definition xapp_left :: "ric_iapp \<Rightarrow> sctp_info_t \<Rightarrow> bool" where
  "xapp_left st info \<longleftrightarrow> (\<exists>(x, s) \<in> bm_pairs (ia_xapps (snd st)). sctp_rank s = sctp_rank info \<and>
     (\<forall>(n, y) \<in> ric_pairs (ia_map_ric_id (snd st)). xr_xapp_id y = x \<longrightarrow>
        en_e2_node_id n \<in> fst ` node_sockets (fst st)))"

text \<open>
  The ready descriptors of a round are distinct: the socket of the RIC, with any message or with
  the disconnection of an E2 node, and timers of pending events.
\<close>

definition ready_ok :: "near_ric_t \<Rightarrow> int \<times> sctp_msg_t \<Rightarrow> bool" where
  "ready_ok ric r \<longleftrightarrow>
     (if fst r = nr_fd ric
      then (\<forall>info sn. snd r = SCTP_MSG_NOTIFICATION info sn \<longrightarrow> sn = SCTP_SHUTDOWN_EVENT \<and> node_left ric info)
      else fst r \<in> fst ` pending_events ric)"

fun expected :: "int \<Rightarrow> sys_state \<Rightarrow> sys_input \<Rightarrow> bool" where
  "expected ep_fd s (Ric_Round None) = True"
| "expected ep_fd s (Ric_Round (Some rs)) =
     (rs \<noteq> [] \<and> length rs < 65 \<and> distinct (List.map fst rs) \<and> (\<forall>r \<in> set rs. ready_ok (fst (fst s)) r))"
| "expected ep_fd s (Run_Task k) =
     (k < length (nr_tasks (fst (fst s))) \<and>
      node_msg_ok (fst s) (fst (nr_tasks (fst (fst s)) ! k)) (snd (nr_tasks (fst (fst s)) ! k)))"
| "expected ep_fd s (Iapp_Round r) =
     (fst r = - 1 \<or> (fst r = ep_fd \<and> (case snd r of
        SCTP_MSG_NOTIFICATION info sn \<Rightarrow> sn \<noteq> SCTP_ASSOC_CHANGE \<and> xapp_left (fst s) info
      | SCTP_MSG_PAYLOAD info msg \<Rightarrow> xapp_msg_ok (fst s) info msg)))"

text \<open>The states a controller reaches by expected inputs, from its start.\<close>

inductive sys_reach :: "os_timer \<Rightarrow> int \<Rightarrow> sys_state \<Rightarrow> bool" for os ep_fd where
  Start: "sm_ds_ok sm_ds \<Longrightarrow> 0 < fd \<Longrightarrow> init_near_ric fd sm_ds = Inr ric \<Longrightarrow> init_e42_iapp = Inr i \<Longrightarrow>
     sys_reach os ep_fd ((ric, i), 0)"
| Step: "sys_reach os ep_fd s \<Longrightarrow> expected ep_fd s inp \<Longrightarrow> sys_exec os ep_fd inp s = Inr s' \<Longrightarrow>
     sys_reach os ep_fd s'"

inductive_cases sys_reachE: "sys_reach os ep_fd s"
inductive_simps sys_reach_iff: "sys_reach os ep_fd ((ric, i), n)"

section \<open>Rounds of the RIC\<close>

lemma pend_event_ok:
  assumes "nr_ok ric" "(fd, ev) \<in> pending_events ric"
  shows "pend_event ric fd = Inr ev" "0 < fd" "fd \<noteq> nr_fd ric"
proof -
  have ok: "pendq.inv (nr_pending ric)" "0 < fd" "fd \<noteq> nr_fd ric"
    using assms by (auto simp: nr_ok_def pending_ok_def)
  have "lookup_if (bm_left (nr_pending ric)) (eq_fd fd) = Inr (Some ev)"
  proof (rule lookup_if_Some [where q = "\<lambda>k. fd = k"])
    show "\<forall>e \<in> pending_events ric. eq_fd fd (fst e) = Inr (fd = fst e)"
      using assms by (fastforce simp: nr_ok_def eq_fd_def)
    show "\<And>k v. (k, v) \<in> pending_events ric \<Longrightarrow> fd = k \<Longrightarrow> v = ev"
      using pendq.inv_left_uniq [OF ok(1) assms(2)] by simp
  qed (use assms(2) in simp_all)
  then show "pend_event ric fd = Inr ev" "0 < fd" "fd \<noteq> nr_fd ric"
    using ok(2,3) by (simp_all add: pend_event_def found_def)
qed

text \<open>An event the loop handles without a fault.\<close>

fun event_ok :: "near_ric_t \<Rightarrow> async_event_t \<Rightarrow> bool" where
  "event_ok ric (SCTP_CONNECTION_SHUTDOWN_EVENT info sn) = (sn = SCTP_SHUTDOWN_EVENT \<and> node_left ric info)"
| "event_ok ric (SCTP_MSG_ARRIVED_EVENT info msg) = True"
| "event_ok ric (PENDING_EVENT fd ev) = True"
| "event_ok ric CHECK_STOP_TOKEN_EVENT = True"
| "event_ok ric UNKNOWN_EVENT = False"

abbreviation is_shutdown :: "async_event_t \<Rightarrow> bool" where
  "is_shutdown e \<equiv> (case e of SCTP_CONNECTION_SHUTDOWN_EVENT info sn \<Rightarrow> True | _ \<Rightarrow> False)"

lemma next_event_ok:
  assumes "nr_ok ric" "ready_ok ric r"
  shows "\<exists>e. next_event_ric ric r = Inr e \<and> event_ok ric e \<and> (is_shutdown e \<longrightarrow> fst r = nr_fd ric)"
proof (cases "fst r = nr_fd ric")
  case True
  have "0 < nr_fd ric"
    using assms(1) by (simp add: nr_ok_def)
  then show ?thesis
    using True assms(2) by (cases "snd r") (simp_all add: next_event_ric_def net_pkt_def ready_ok_def)
next
  case False
  then obtain ev where "(fst r, ev) \<in> pending_events ric"
    using assms(2) by (auto simp: ready_ok_def)
  then show ?thesis
    using pend_event_ok [OF assms(1)] False by (simp add: next_event_ric_def net_pkt_def)
qed

lemma next_events_ok:
  assumes "nr_ok ric" "\<forall>r \<in> set rs. ready_ok ric r" "distinct (List.map fst rs)"
  shows "\<exists>es. fold_res (\<lambda>r arr. bnd (next_event_ric ric r) (\<lambda>ev. Inr (arr @ [ev]))) rs arr = Inr (arr @ es) \<and>
     length es = length rs \<and> (\<forall>e \<in> set es. event_ok ric e) \<and>
     (if nr_fd ric \<in> fst ` set rs then length (filter is_shutdown es) \<le> 1 else filter is_shutdown es = [])"
  using assms(2,3)
proof (induction rs arbitrary: arr)
  case (Cons r rs)
  obtain e where e: "next_event_ric ric r = Inr e" "event_ok ric e" "is_shutdown e \<longrightarrow> fst r = nr_fd ric"
    using next_event_ok [OF assms(1), of r] Cons.prems(1) by auto
  have p: "\<forall>r \<in> set rs. ready_ok ric r" "distinct (List.map fst rs)"
    using Cons.prems by simp_all
  from Cons.IH [OF p, of "arr @ [e]"]
  obtain es where es: "fold_res (\<lambda>r arr. bnd (next_event_ric ric r) (\<lambda>ev. Inr (arr @ [ev]))) rs (arr @ [e]) =
      Inr ((arr @ [e]) @ es)" "length es = length rs" "\<forall>e \<in> set es. event_ok ric e"
    "if nr_fd ric \<in> fst ` set rs then length (filter is_shutdown es) \<le> 1 else filter is_shutdown es = []"
    by (elim exE conjE)
  have "fst r \<notin> fst ` set rs"
    using Cons.prems(2) by simp
  then have "if nr_fd ric \<in> fst ` set (r # rs) then length (filter is_shutdown (e # es)) \<le> 1
      else filter is_shutdown (e # es) = []"
    using es(4) e(3) by (cases "is_shutdown e") (auto split: if_splits)
  then show ?case
    using e es by (intro exI [of _ "e # es"]) simp
qed simp

lemma sys_ok_tasks [simp]:
  "sys_ok (ric\<lparr>nr_tasks := ts\<rparr>, i) = sys_ok (ric, i)" "sys_ok (ric\<lparr>nr_consumed := c\<rparr>, i) = sys_ok (ric, i)"
  by (simp_all add: sys_ok_def nodes_ok_def pub_default_def)

text \<open>The disconnection of an E2 node keeps the invariant.\<close>

lemma shutdown_sys:
  assumes "sys_ok (ric, i)" "node_left ric info"
  shows "\<exists>st. notification_handle_ric (ric, i) info SCTP_SHUTDOWN_EVENT = Inr st \<and> sys_ok st"
proof -
  have ok: "nr_ok ric" "pub_default ric" "iapp_ok i" "xapps_ok i" "nodes_ok (ric, i)"
    using sys_okD [OF assms(1)] by simp_all
  obtain nid s where n: "(nid, s) \<in> node_sockets ric" "sctp_rank s = sctp_rank info"
    using assms(2) by (auto simp: node_left_def)
  from shutdown_ok [OF ok(1,3,5) n]
  obtain ric1 i1 where 1: "notification_handle_ric (ric, i) info SCTP_SHUTDOWN_EVENT = Inr (ric1, i1)"
    "nr_ok ric1" "iapp_ok i1" "nodes_ok (ric1, i1)"
    "ric1 = ric\<lparr>nr_e2_nodes := nr_e2_nodes ric1, nr_conn_e2_nodes := nr_conn_e2_nodes ric1\<rparr>"
    "i1 = i\<lparr>ia_e2_nodes := ia_e2_nodes i1\<rparr>"
    by (elim exE conjE)
  have "nr_pub_sub ric1 = nr_pub_sub ric" "nr_sm_ds ric1 = nr_sm_ds ric"
    "ia_map_ric_id i1 = ia_map_ric_id i" "ia_xapps i1 = ia_xapps i" "ia_xapp_id i1 = ia_xapp_id i"
    by (subst 1(5), simp)+ (subst 1(6), simp)+
  then show ?thesis
    using 1(1-4) ok(2,4) by (intro exI [of _ "(ric1, i1)"]) (simp add: sys_ok_def pub_default_def xapps_ok_def)
qed

lemma handle_event_ok:
  assumes "sys_ok (ric, i)" "event_ok ric e"
  shows "\<exists>ric' i' n'. handle_event_ric e ((ric, i), n) = Inr ((ric', i'), n') \<and> sys_ok (ric', i') \<and>
     (\<not> is_shutdown e \<longrightarrow> node_sockets ric' = node_sockets ric)"
proof (cases e)
  case (SCTP_CONNECTION_SHUTDOWN_EVENT info sn)
  then show ?thesis
    using shutdown_sys [OF assms(1), of info] assms(2) by (auto simp: handle_event_ric_def)
qed (use assms in \<open>auto simp: handle_event_ric_def\<close>)

lemma handle_events_ok:
  assumes "sys_ok (ric, i)" "\<forall>e \<in> set es. event_ok ric e" "length (filter is_shutdown es) \<le> 1"
  shows "\<exists>ric' i' n'. fold_res handle_event_ric es ((ric, i), n) = Inr ((ric', i'), n') \<and> sys_ok (ric', i')"
  using assms
proof (induction es arbitrary: ric i n)
  case (Cons e es)
  obtain ric1 i1 n1 where 1: "handle_event_ric e ((ric, i), n) = Inr ((ric1, i1), n1)" "sys_ok (ric1, i1)"
    "\<not> is_shutdown e \<longrightarrow> node_sockets ric1 = node_sockets ric"
    using handle_event_ok [OF Cons.prems(1), of e n] Cons.prems(2) by auto
  have "event_ok ric1 e'" if e': "e' \<in> set es" for e'
  proof (cases "is_shutdown e")
    case True
    then have "\<not> is_shutdown e'"
      using Cons.prems(3) e' by (auto simp: filter_empty_conv)
    then show ?thesis
      using Cons.prems(2) e' by (cases e') auto
  next
    case False
    then show ?thesis
      using Cons.prems(2) e' 1(3) by (cases e') (auto simp: node_left_def)
  qed
  then show ?case
    using Cons.IH [OF 1(2), of n1] 1(1) Cons.prems(3) by (auto split: if_splits)
qed simp

lemma ric_round_ok:
  assumes "sys_ok (ric, i)" "expected ep_fd ((ric, i), n) (Ric_Round r)"
  shows "\<exists>ric' i' n'. e2_event_loop_ric r ((ric, i), n) = Inr ((ric', i'), n') \<and> sys_ok (ric', i')"
proof (cases r)
  case None
  then show ?thesis
    using handle_events_ok [OF assms(1), of "[CHECK_STOP_TOKEN_EVENT]" n]
    by (simp add: e2_event_loop_ric_def next_asio_event_ric_def)
next
  case (Some rs)
  have ok: "nr_ok ric"
    using sys_okD [OF assms(1)] by simp
  have p: "\<forall>r \<in> set rs. ready_ok ric r" "distinct (List.map fst rs)" and l: "rs \<noteq> []" "length rs < 65"
    using assms(2) Some by simp_all
  from next_events_ok [OF ok p, of "[]"]
  obtain es where es: "fold_res (\<lambda>r arr. bnd (next_event_ric ric r) (\<lambda>ev. Inr (arr @ [ev]))) rs [] = Inr ([] @ es)"
    "length es = length rs" "\<forall>e \<in> set es. event_ok ric e"
    "if nr_fd ric \<in> fst ` set rs then length (filter is_shutdown es) \<le> 1 else filter is_shutdown es = []"
    by (elim exE conjE)
  have "length (filter is_shutdown es) \<le> 1"
    using es(4) by (simp split: if_splits)
  moreover have "es \<noteq> []"
    using es(2) l(1) by auto
  ultimately show ?thesis
    using handle_events_ok [OF assms(1) es(3), of n] es(1,2) l Some
    by (simp add: e2_event_loop_ric_def next_asio_event_ric_def)
qed

section \<open>Tasks\<close>

lemma task_ok:
  assumes "sys_ok (ric, i)" "node_msg_ok (ric, i) info msg"
  shows "\<exists>st. sctp_msg_arrived_event (ric, i) (info, msg) = Inr st \<and> sys_ok st"
proof (cases msg)
  case (E2_Stp_Req req)
  have n: "new_node ric info req"
    using assms(2) E2_Stp_Req by simp
  from setup_sys [OF assms(1) n] show ?thesis
    unfolding E2_Stp_Req by (elim exE conjE) (intro exI conjI)
next
  case (Ric_Sub_Resp r)
  then obtain fd where "(fd, sub_event (sresp_ric_id r)) \<in> pending_events ric" "sresp_not_admitted r = []"
    "sresp_admitted r = [\<lparr>ric_act_id = 0\<rparr>]" "ric_req_id (sresp_ric_id r) < 2 ^ 16"
    using assms(2) by auto
  note subscription_response_ok [OF assms(1) this(1-3) _ this(4), of info]
  then show ?thesis
    using Ric_Sub_Resp by fastforce
next
  case (Ric_Sub_Del_Resp r)
  then obtain fd where "(fd, del_event (sdresp_ric_id r)) \<in> pending_events ric" "ric_req_id (sdresp_ric_id r) < 2 ^ 16"
    "\<forall>(n, x) \<in> ric_pairs (ia_map_ric_id i).
       node_req n = ric_req_id (sdresp_ric_id r) \<longrightarrow> en_ric_id n = sdresp_ric_id r"
    using assms(2) by auto
  from delete_response_ok [OF assms(1) this, of info] show ?thesis
    unfolding Ric_Sub_Del_Resp by (elim exE conjE) (intro exI conjI)
next
  case (Ric_Ind r)
  then obtain sm where "(ran_func_id (ind_ric_id r), sm) \<in> rb_set (nr_sm_ds ric)"
    "rd_type (on_indication sm \<lparr>sid_ind_hdr = ind_hdr r, sid_ind_msg = ind_msg r,
         sid_call_process_id = ind_call_process_id r\<rparr>) \<noteq> SM_AGENT_IF_READ_V0_END"
    "(ind_sn r = None \<and> ind_call_process_id r = None) \<or> subscribers i r = []"
    using assms(2) unfolding Ric_Ind node_msg_ok.simps by (elim exE conjE)
  from indication_ok [OF assms(1) this, of info] show ?thesis
    unfolding Ric_Ind by (elim exE conjE) (intro exI conjI)
next
  case (Ric_Ctrl_Ack r)
  then obtain fd n x where "(fd, ctrl_event (ack_ric_id r)) \<in> pending_events ric"
    "(n, x) \<in> ric_pairs (ia_map_ric_id i)" "en_ric_id n = ack_ric_id r"
    using assms(2) by auto
  from control_ack_ok [OF assms(1) this, of info] show ?thesis
    unfolding Ric_Ctrl_Ack by (elim exE conjE) (intro exI conjI)
qed (use assms(2) in simp_all)

section \<open>Rounds of the iApp\<close>

lemma xapp_msg_arrived_ok:
  assumes "sys_ok (ric, i)" "os_ok os" "xapp_msg_ok (ric, i) info msg"
  shows "\<exists>st. msg_arrived_iapp os (ric, i) info msg = Inr st \<and> sys_ok st"
proof (cases msg)
  case (E42_Stp_Req req)
  then have p: "e42_ran_func_item req \<noteq> []" "unat (ia_xapp_id i) < 2 ^ 16"
    "\<forall>(a, b) \<in> bm_pairs (ia_xapps i). sctp_rank b \<noteq> sctp_rank info"
    using assms(3) by simp_all
  from xapp_setup_sys [OF assms(1) p, of os] show ?thesis
    unfolding E42_Stp_Req by (elim exE conjE) (intro exI conjI)
next
  case (E42_Ric_Sub_Req r)
  then obtain s t where p: "(e42s_id r, s) \<in> node_sockets ric" "xapp_conn i (e42s_xapp_id r) t"
    "sub_event (sreq_ric_id (e42s_sr r)) \<notin> snd ` pending_events ric"
    "ric_req_id (sreq_ric_id (e42s_sr r)) \<noteq> 0" "ric_req_id (sreq_ric_id (e42s_sr r)) < 2 ^ 16"
    "\<forall>(n, x) \<in> ric_pairs (ia_map_ric_id i). node_req n \<noteq> ric_req_id (sreq_ric_id (e42s_sr r))"
    using assms(3) by fastforce
  from xapp_subscribe_sys [OF assms(1,2) p, of info] show ?thesis
    unfolding E42_Ric_Sub_Req by (elim exE conjE) (intro exI conjI)
next
  case (E42_Ric_Sub_Del_Req r)
  then obtain n x s where p: "(n, x) \<in> ric_pairs (ia_map_ric_id i)" "(en_e2_node_id n, s) \<in> node_sockets ric"
    "sdr_ric_id (e42d_sdr r) = xr_ric_id x"
    using assms(3) by fastforce
  from xapp_unsubscribe_sys [OF assms(1,2) p, of info] show ?thesis
    unfolding E42_Ric_Sub_Del_Req by (elim exE conjE) (intro exI conjI)
next
  case (E42_Ric_Ctrl_Req r)
  then obtain s t where p: "xapp_conn i (e42c_xapp_id r) t" "(e42c_id r, s) \<in> node_sockets ric"
    "ctrl_event (cr_ric_id (relabel (ucast (nr_req_id ric)) (e42c_ctrl_req r))) \<notin> snd ` pending_events ric"
    using assms(3) by fastforce
  from xapp_control_sys [OF assms(1,2) p, of info] show ?thesis
    unfolding E42_Ric_Ctrl_Req by (elim exE conjE) (intro exI conjI)
qed (use assms(3) in simp_all)

lemma iapp_round_ok:
  assumes "sys_ok (ric, i)" "os_ok os" "0 < ep_fd" "expected ep_fd ((ric, i), n) (Iapp_Round r)"
  shows "\<exists>st. e2_event_loop_iapp os ep_fd r (ric, i) = Inr st \<and> sys_ok st"
proof (cases "fst r = - 1")
  case True
  then show ?thesis
    using assms(1) by (cases r) (simp add: e2_event_loop_iapp_def next_async_event_iapp_def handle_event_iapp_def)
next
  case False
  obtain m where r: "r = (ep_fd, m)"
    using assms(4) False by (cases r) simp
  show ?thesis
  proof (cases m)
    case (SCTP_MSG_NOTIFICATION info sn)
    then have x: "xapp_left (ric, i) info" "sn \<noteq> SCTP_ASSOC_CHANGE"
      using assms(4) False r by simp_all
    then obtain x s where "(x, s) \<in> bm_pairs (ia_xapps i)" "sctp_rank s = sctp_rank info"
      "\<forall>(n, y) \<in> ric_pairs (ia_map_ric_id i). xr_xapp_id y = x \<longrightarrow> en_e2_node_id n \<in> fst ` node_sockets ric"
      unfolding xapp_left_def fst_conv snd_conv by blast
    from xapp_shutdown_sys [OF assms(1,2) this, of sn] obtain ric' where
      "handle_event_iapp os (SCTP_CONNECTION_SHUTDOWN_EVENT info sn) (ric, i) = Inr (ric', i)" "sys_ok (ric', i)"
      by (elim exE conjE)
    then show ?thesis
      using r SCTP_MSG_NOTIFICATION x(2) assms(3) by (simp add: e2_event_loop_iapp_def next_async_event_iapp_def)
  next
    case (SCTP_MSG_PAYLOAD info msg)
    then have "xapp_msg_ok (ric, i) info msg"
      using assms(4) False r by simp
    from xapp_msg_arrived_ok [OF assms(1,2) this] show ?thesis
      using r SCTP_MSG_PAYLOAD assms(3)
      by (simp add: e2_event_loop_iapp_def next_async_event_iapp_def handle_event_iapp_def)
  qed
qed

section \<open>Reachable states\<close>

lemma exec_ok:
  assumes "sys_ok (fst s)" "os_ok os" "0 < ep_fd" "expected ep_fd s inp"
  shows "\<exists>s'. sys_exec os ep_fd inp s = Inr s' \<and> sys_ok (fst s')"
proof -
  obtain ric i n where s: "s = ((ric, i), n)"
    by (cases s) auto
  have ok: "sys_ok (ric, i)"
    using assms(1) s by simp
  show ?thesis
  proof (cases inp)
    case (Ric_Round r)
    then show ?thesis
      using ric_round_ok [OF ok, of ep_fd n r] assms(4) s by auto
  next
    case (Run_Task k)
    let ?ric = "ric\<lparr>nr_tasks := take k (nr_tasks ric) @ drop (k + 1) (nr_tasks ric)\<rparr>"
    have "node_msg_ok (ric, i) (fst (nr_tasks ric ! k)) (snd (nr_tasks ric ! k))"
      using assms(4) s Run_Task by simp
    then have "node_msg_ok (?ric, i) (fst (nr_tasks ric ! k)) (snd (nr_tasks ric ! k))"
      by (cases "snd (nr_tasks ric ! k)") (simp_all add: new_node_def)
    then show ?thesis
      using task_ok [of ?ric i "fst (nr_tasks ric ! k)" "snd (nr_tasks ric ! k)"] ok s Run_Task by auto
  next
    case (Iapp_Round r)
    then show ?thesis
      using iapp_round_ok [OF ok assms(2,3), of n r] assms(4) s by auto
  qed
qed

lemma reach_ok:
  assumes "sys_reach os ep_fd s" "os_ok os" "0 < ep_fd"
  shows "sys_ok (fst s)"
  using assms(1)
proof (induction rule: sys_reach.induct)
  case (Start sm_ds fd ric i)
  from sys_start [OF Start(1,2)] obtain ric' i' where
    s: "init_near_ric fd sm_ds = Inr ric'" "init_e42_iapp = Inr i'" "sys_ok (ric', i')"
    by (elim exE conjE)
  have "ric' = ric" "i' = i"
    using trans [OF s(1) [symmetric] Start(3)] trans [OF s(2) [symmetric] Start(4)] by simp_all
  then show ?case
    using s(3) by simp
next
  case (Step s inp s')
  from exec_ok [OF Step.IH assms(2,3) Step.hyps(2)]
  obtain s'' where "sys_exec os ep_fd inp s = Inr s''" "sys_ok (fst s'')"
    by (elim exE conjE)
  then show ?case
    using Step.hyps(3) by simp
qed



text \<open>
  C2.  In every reachable state the three tables of E2 nodes agree, every pending event has a
  timer that is watched and is not the socket, and every request an E2 node has answered to or
  will answer to belongs to an xApp whose socket is known.
\<close>

theorem tables_agree:
  assumes "sys_reach os ep_fd ((ric, i), n)" "os_ok os" "0 < ep_fd"
  shows "set (conn_ids ric) = fst ` node_sockets ric \<and> distinct (conn_ids ric) \<and>
     con_id ` set (reg_nodes (ia_e2_nodes i)) = fst ` node_sockets ric \<and>
     (\<forall>(fd, ev) \<in> pending_events ric. 0 < fd \<and> fd \<in> set (nr_io ric) \<and> fd \<noteq> nr_fd ric) \<and>
     (\<forall>(nd, x) \<in> ric_pairs (ia_map_ric_id i). \<exists>s. find_map_xapps_sad (ia_xapps i) (xr_xapp_id x) = Inr s) \<and>
     \<not> mr_wrlocked (ia_map_ric_id i) \<and> ia_forward_mutex i = 0"
proof -
  have "sys_ok (ric, i)"
    using reach_ok [OF assms] by simp
  then have ok: "nr_ok ric" "iapp_ok i" "nodes_ok (ric, i)"
    using sys_okD by simp_all
  have "\<forall>(nd, x) \<in> ric_pairs (ia_map_ric_id i). \<exists>s. xapp_conn i (xr_xapp_id x) s"
    using ok(2) by (fastforce simp: iapp_ok_def)
  then have "\<forall>(nd, x) \<in> ric_pairs (ia_map_ric_id i). \<exists>s. find_map_xapps_sad (ia_xapps i) (xr_xapp_id x) = Inr s"
    using xapp_conn_find [OF ok(2)] by blast
  moreover have "set (conn_ids ric) = fst ` node_sockets ric \<and> distinct (conn_ids ric) \<and>
     con_id ` set (reg_nodes (ia_e2_nodes i)) = fst ` node_sockets ric"
    using ok(3) unfolding nodes_ok_def fst_conv snd_conv by (elim conjE) (intro conjI)
  moreover have "\<forall>(fd, ev) \<in> pending_events ric. 0 < fd \<and> fd \<in> set (nr_io ric) \<and> fd \<noteq> nr_fd ric"
    using ok(1) unfolding nr_ok_def by (elim conjE)
  ultimately show ?thesis
    using ok(2) by (simp add: iapp_ok_def)
qed

theorem tables_agree_witness:
  "\<exists>ric i n. sys_reach next_fd 9 ((ric, i), n) \<and> set (conn_ids ric) = fst ` node_sockets ric \<and>
     con_id ` set (reg_nodes (ia_e2_nodes i)) = fst ` node_sockets ric"
proof -
  obtain ric i where 0: "init_near_ric 5 tc_sm_ds = Inr ric" "init_e42_iapp = Inr i"
    using sys_start [OF tc_sm_ds_ok(1), of 5] by auto
  have s: "sys_reach next_fd 9 ((ric, i), 0)"
    using 0 tc_sm_ds_ok(1) by (intro sys_reach.Start [of tc_sm_ds 5]) simp_all
  show ?thesis
    using tables_agree [OF s next_fd_ok] s by (intro exI [of _ ric] exI [of _ i] exI [of _ "0 :: nat"]) simp
qed

section \<open>Timeouts\<close>

text \<open>
  C26.  A request that is never answered is pending for ever: any number of timeouts of its timer
  changes neither the pending events nor the watched descriptors, nothing is sent again, and in
  each group of four timeouts three read descriptor 0 instead of the timer.
\<close>

theorem timeout_never_ends:
  assumes "nr_ok ric" "(fd, ev) \<in> pending_events ric"
  shows "fold_res (\<lambda>_ s. e2_event_loop_ric (Some [(fd, m)]) s) [0..<k] ((ric, i), 0) =
     Inr ((ric\<lparr>nr_consumed := nr_consumed ric @ replicate (3 * (k div 4) + k mod 4) 0\<rparr>, i), k mod 4)"
proof (induction k)
  case (Suc k)
  let ?ric = "ric\<lparr>nr_consumed := nr_consumed ric @ replicate (3 * (k div 4) + k mod 4) 0\<rparr>"
  have "next_event_ric ?ric (fd, m) = Inr (PENDING_EVENT 0 ev)"
    using pend_event_ok [OF assms] by (simp add: next_event_ric_def net_pkt_def pend_event_def)
  then have e: "e2_event_loop_ric (Some [(fd, m)]) ((?ric, i), k mod 4) =
      (if k mod 4 < 3 then Inr ((?ric\<lparr>nr_consumed := nr_consumed ?ric @ [0]\<rparr>, i), k mod 4 + 1) else Inr ((?ric, i), 0))"
    by (simp add: e2_event_loop_ric_def next_asio_event_ric_def handle_event_ric_def)
  show ?case
  proof (cases "k mod 4 < 3")
    case True
    then have "Suc k div 4 = k div 4" "Suc k mod 4 = k mod 4 + 1"
      by presburger+
    then show ?thesis
      using e True by (simp add: Suc.IH fold_res_append flip: replicate_append_same)
  next
    case False
    then have "Suc k mod 4 = 0" "Suc k div 4 = k div 4 + 1" "k mod 4 = 3"
      by presburger+
    then show ?thesis
      using e by (simp add: Suc.IH fold_res_append)
  qed
qed simp

theorem timeout_never_ends_witness:
  "\<exists>ric i fd. pending_events ric = {(fd, sub_event (sreq_ric_id subscribe_5))} \<and>
     fold_res (\<lambda>_ s. e2_event_loop_ric (Some [(fd, SCTP_MSG_NOTIFICATION (peer 1) SCTP_SHUTDOWN_EVENT)]) s) [0..<5]
       ((ric, i), 0) = Inr ((ric\<lparr>nr_consumed := nr_consumed ric @ [0, 0, 0, 0]\<rparr>, i), 1)"
proof -
  obtain ric i where 0: "sys_ok (ric, i)" "pending_events ric = {}"
    using sys_example by blast
  have ok: "nr_ok ric" and fd: "fresh_fd ric (next_fd ric)"
    using sys_okD [OF 0(1)] next_fd_ok by (simp_all add: os_ok_def)
  have "sub_event (sreq_ric_id subscribe_5) \<notin> snd ` pending_events ric"
    by (simp add: 0(2))
  from insert_pending_ok [OF ok fd this] obtain p where
    p: "bm_pairs p = insert (next_fd ric, sub_event (sreq_ric_id subscribe_5)) (pending_events ric)"
    "nr_ok (ric\<lparr>nr_io := next_fd ric # nr_io ric, nr_pending := p\<rparr>)"
    by (elim exE conjE)
  let ?ric = "ric\<lparr>nr_io := next_fd ric # nr_io ric, nr_pending := p\<rparr>"
  have "(next_fd ric, sub_event (sreq_ric_id subscribe_5)) \<in> pending_events ?ric"
    by (simp add: p(1))
  note t = timeout_never_ends [OF p(2) this, of "SCTP_MSG_NOTIFICATION (peer 1) SCTP_SHUTDOWN_EVENT" 5 i]
  have k: "5 mod 4 = (1 :: nat)" "3 * (5 div 4) + 1 = (4 :: nat)"
    by simp_all
  have k4: "replicate 4 (0 :: int) = [0, 0, 0, 0]"
    by (simp add: numeral_eq_Suc)
  have "pending_events ?ric = {(next_fd ric, sub_event (sreq_ric_id subscribe_5))}"
    by (simp add: p(1) 0(2))
  with t [unfolded k k4] show ?thesis
    by (intro exI [of _ ?ric] exI [of _ i] exI [of _ "next_fd ric"] conjI)
qed

end
