(* ===== verification/Ric_Agent.thy ===== *)
theory Ric_Agent
  imports Agent_Gtp Ric_Safety
begin

text \<open>
  The near-RT RIC with its iApp and an E2 agent at the two ends of a connection: the setup
  handshake, and the way of a measurement from the RAN through the agent, the RIC and the iApp to
  the xApp that subscribed to it.  What one side sends is what the other receives.
\<close>

section \<open>The setup handshake\<close>

definition first_request ::
  "global_e2_node_id_t \<Rightarrow> (u16, sm_agent_t) assoc_rb_tree_t \<Rightarrow> e2ap_node_component_config_add_t list \<Rightarrow> e2_setup_request_t" where
  "first_request nid sm_ds cca =
     \<lparr>stp_trans_id = 0, stp_id = nid, stp_ran_func_item = map (\<lambda>e. rf_of (snd e)) (rb_entries sm_ds),
      stp_comp_conf_add = cca\<rparr>"

lemma accepted_functions:
  assumes "sms_ok sm_ds"
  shows "srsp_accepted (accepted_response (first_request nid sm_ds cca)) = map fst (rb_entries sm_ds)"
  using assms by (auto simp: accepted_response_def first_request_def rf_of_def sms_ok_def intro!: map_cong)

text \<open>An agent that has started and has its request pending.\<close>

lemma agent_started:
  assumes "0 < port" "port < 65535" "length addr < 16" "0 < fd" "0 < pipe_r" "fd \<noteq> pipe_r"
    and "sms_ok sm_ds" "addr \<in> set rics" "0 < tfd" "tfd \<notin> {fd, pipe_r}"
  shows "\<exists>ag ag1. e2_init_agent addr port nid fd pipe_r sm_ds rics cca = Inr ag \<and> e2_start_agent ag tfd = Inr ag1 \<and>
     ag_reach ag1 \<and> bm_pairs (ag_pending ag1) = {(tfd, SETUP_REQUEST_PENDING_EVENT)} \<and>
     ag_sent ag1 = [E2_Stp_Req (first_request nid sm_ds cca)] \<and> ag_trans_id ag1 = 1 \<and>
     bm_pairs (ag_ind_event ag1) = {} \<and> ag_fd ag1 = fd \<and> ag_pipe_r ag1 = pipe_r \<and> ag_sm_ds ag1 = sm_ds \<and>
     \<not> ag_exited ag1"
proof -
  from init_agent_ok [OF assms(1-8), of nid cca]
  obtain ag where ag: "e2_init_agent addr port nid fd pipe_r sm_ds rics cca = Inr ag" "ag_ok ag"
    "bm_pairs (ag_pending ag) = {}" "bm_pairs (ag_ind_event ag) = {}" "ag_fd ag = fd" "ag_pipe_r ag = pipe_r"
    "ag_sm_ds ag = sm_ds" "ag_node_id ag = nid" "ag_trans_id ag = 0" "ag_sent ag = []"
    "ag_init_ric_addr ag = ag_addr ag" "ag_read_setup_ran ag = cca" "\<not> ag_exited ag"
    by (elim exE conjE)
  have a: "ag_addr ag \<in> rc_ric_addr ` set (ag_ric_connections ag)"
    using ag(2,11) by (simp add: ag_ok_def)
  have "fresh_timer ag tfd"
    using assms(9,10) by (simp add: fresh_timer_def ag(4-6))
  from start_agent_ok [OF ag(2,3) a this] obtain ag1 where
    s: "e2_start_agent ag tfd = Inr ag1" "bm_pairs (ag_pending ag1) = {(tfd, SETUP_REQUEST_PENDING_EVENT)}"
      "ag_sent ag1 = ag_sent ag @ [E2_Stp_Req (setup_request_of ag (ag_trans_id ag))]"
      "ag_trans_id ag1 = ag_trans_id ag + 1" "ag_ind_event ag1 = ag_ind_event ag" "ag_sm_ds ag1 = ag_sm_ds ag"
      "ag_fd ag1 = ag_fd ag" "ag_pipe_r ag1 = ag_pipe_r ag" "ag_exited ag1 = ag_exited ag"
    by (elim exE conjE)
  have "ag_reach ag1"
    by (rule ag_reach.Start [OF assms(1-8) ag(1) assms(9,10) s(1)])
  then show ?thesis
    using ag s by (intro exI [of _ ag] exI [of _ ag1]) (simp add: setup_request_of_def first_request_def)
qed

text \<open>The answer of the RIC ends the setup.\<close>

lemma agent_accepted:
  assumes "ag_reach ag" "\<not> ag_exited ag" "bm_pairs (ag_pending ag) = {(tfd, SETUP_REQUEST_PENDING_EVENT)}"
    and "0 < ag_trans_id ag"
  shows "\<exists>ag'. e2_event_loop_agent ag (ag_fd ag) (SCTP_MSG_PAYLOAD info (E2_Stp_Resp resp)) now t = Inr ag' \<and>
     ag_reach ag' \<and> same_agent ag ag' \<and> bm_pairs (ag_pending ag') = {} \<and> ag_sent ag' = ag_sent ag \<and>
     set (ag_io ag') = set (ag_io ag) - {tfd}"
proof -
  have ok: "ag_ok ag"
    by (rule ag_reach_ok [OF assms(1)])
  have "tfd \<in> timers (ag_pending ag)"
    by (simp add: assms(3))
  from setup_response_ok [OF ok this assms(4), of resp] obtain ag' where
    a: "e2ap_handle_setup_response_agent ag resp = Inr (ag', no_msg)" "ag_ok ag'" "same_agent ag ag'"
      "bm_pairs (ag_pending ag') = {}" "ag_sent ag' = ag_sent ag"
    by (elim exE conjE)
  have "e2ap_msg_handle_agent ag (E2_Stp_Resp resp) t = Inr (ag', no_msg)"
    using a(1) by (simp add: e2ap_msg_handle_agent_def check_valid_msg_type_agent_def)
  then have r: "e2_event_loop_agent ag (ag_fd ag) (SCTP_MSG_PAYLOAD info (E2_Stp_Resp resp)) now t = Inr ag'"
    using agent_message [OF ok assms(2)] by simp
  have "round_ok ag (ag_fd ag) (SCTP_MSG_PAYLOAD info (E2_Stp_Resp resp)) t"
    using ok ag_ok_io(3) [OF ok] assms(3,4) by (simp add: round_ok_def ag_ok_def)
  then have "ag_reach ag'"
    by (rule ag_reach.Round [OF assms(1) _ r])
  moreover have "set (ag_io ag') = set (ag_io ag) - {tfd}"
    using ag_ok_io [OF ok] ag_ok_io(3) [OF a(2)] a(3,4) assms(3) by (auto simp: same_agent_def)
  ultimately show ?thesis
    using r a(3-5) by blast
qed

section \<open>From the registry to the xApp\<close>

lemma list_all2_member:
  "list_all2 P xs ys \<Longrightarrow> x \<in> set xs \<Longrightarrow> \<exists>y \<in> set ys. P x y"
  by (induction rule: list_all2_induct) auto

lemma active_subscriber:
  assumes "is_subscription_active (ia_subscription_registry i) (ucast (x :: u16)) (ran_func_id (ind_ric_id ind))"
  shows "\<exists>e \<in> set (subscribers i ind). ucast (se_xapp_id e) = x"
proof -
  let ?es = "reg_entries (ia_subscription_registry i)"
  obtain e where f: "List.find (\<lambda>e. se_xapp_id e = ucast x \<and> se_ran_func_id e = ran_func_id (ind_ric_id ind)) ?es = Some e"
    "se_active e"
    using assms by (auto simp: is_subscription_active_def split: option.splits)
  then obtain k where k: "k < length ?es" "e = ?es ! k" "se_xapp_id e = ucast x" "se_ran_func_id e = ran_func_id (ind_ric_id ind)"
    by (auto simp: find_Some_iff)
  have "e \<in> set (subscribers i ind)"
    using k f(2) by simp
  moreover have "ucast (se_xapp_id e) = x"
    by (simp add: k(3) ucast_up_16)
  ultimately show ?thesis
    by blast
qed

text \<open>A subscriber of the running RIC gets the indication.\<close>

lemma indication_reaches:
  assumes "sys_ok (ric, i)" "(ran_func_id (ind_ric_id ind), sm) \<in> rb_set (nr_sm_ds ric)"
    and "rd_type (on_indication sm \<lparr>sid_ind_hdr = ind_hdr ind, sid_ind_msg = ind_msg ind,
           sid_call_process_id = ind_call_process_id ind\<rparr>) \<noteq> SM_AGENT_IF_READ_V0_END"
    and "ind_sn ind = None" "ind_call_process_id ind = None"
    and "is_subscription_active (ia_subscription_registry i) (ucast (x :: u16)) (ran_func_id (ind_ric_id ind))"
    and "xapp_conn i x t"
  shows "\<exists>ric' i'. sctp_msg_arrived_event (ric, i) (info, Ric_Ind ind) = Inr (ric', i') \<and> sys_ok (ric', i') \<and>
     (t, Ric_Ind ind) \<in> set (ia_sent i')"
proof -
  have c: "ind_sn ind = None \<and> ind_call_process_id ind = None \<or> subscribers i ind = []"
    using assms(4,5) by simp
  obtain d where d: "d = on_indication sm \<lparr>sid_ind_hdr = ind_hdr ind, sid_ind_msg = ind_msg ind,
       sid_call_process_id = ind_call_process_id ind\<rparr>"
    by simp
  from indication_ok [OF assms(1-3) c, of info, folded d] obtain ss where
    ss: "sctp_msg_arrived_event (ric, i) (info, Ric_Ind ind) =
         Inr (ric\<lparr>nr_published := nr_published ric @ map (\<lambda>l. (subs_fp l, d)) default_listeners\<rparr>,
              i\<lparr>ia_sent := ia_sent i @ map (\<lambda>s. (s, Ric_Ind ind)) ss\<rparr>)"
      "list_all2 (\<lambda>e s. xapp_conn i (ucast (se_xapp_id e)) s) (subscribers i ind) ss"
      "sys_ok (ric\<lparr>nr_published := nr_published ric @ map (\<lambda>l. (subs_fp l, d)) default_listeners\<rparr>,
         i\<lparr>ia_sent := ia_sent i @ map (\<lambda>s. (s, Ric_Ind ind)) ss\<rparr>)"
    by (elim exE conjE)
  obtain e where e: "e \<in> set (subscribers i ind)" "ucast (se_xapp_id e) = x"
    using active_subscriber [OF assms(6)] by (elim bexE)
  obtain s where s: "s \<in> set ss" "xapp_conn i x s"
    using list_all2_member [OF ss(2) e(1)] unfolding e(2) by (elim bexE)
  have "s = t"
    using sys_okD [OF assms(1)] xapp_conn_uniq [OF _ s(2) assms(7)] by simp
  then have "(t, Ric_Ind ind) \<in> set (ia_sent (i\<lparr>ia_sent := ia_sent i @ map (\<lambda>s. (s, Ric_Ind ind)) ss\<rparr>))"
    using s(1) by simp
  then show ?thesis
    using ss(1,3) by (intro exI conjI)
qed

section \<open>Properties\<close>

text \<open>
  C8.  The setup handshake: a new agent sends one setup request with the RAN functions of its
  service models; a RIC in any reachable state that has these service models accepts all of them,
  knows the socket of the node and answers; the answer ends the setup procedure of the agent,
  which then watches only its socket and its pipe.
\<close>

theorem setup_handshake:
  assumes "0 < port" "port < 65535" "length addr < 16" "0 < fd" "0 < pipe_r" "fd \<noteq> pipe_r"
    and "sms_ok sm_ds" "addr \<in> set rics" "0 < tfd" "tfd \<notin> {fd, pipe_r}"
    and "sys_ok (ric, i)" "new_node ric info (first_request nid sm_ds cca)"
  shows "\<exists>ag ag1 ric' i' resp ag2.
     e2_init_agent addr port nid fd pipe_r sm_ds rics cca = Inr ag \<and> e2_start_agent ag tfd = Inr ag1 \<and>
     ag_sent ag1 = [E2_Stp_Req (first_request nid sm_ds cca)] \<and>
     sctp_msg_arrived_event (ric, i) (info, E2_Stp_Req (first_request nid sm_ds cca)) = Inr (ric', i') \<and>
     sys_ok (ric', i') \<and> node_sockets ric' = insert (nid, info) (node_sockets ric) \<and>
     nr_sent ric' = nr_sent ric @ [(info, E2_Stp_Resp resp)] \<and> srsp_accepted resp = map fst (rb_entries sm_ds) \<and>
     e2_event_loop_agent ag1 fd (SCTP_MSG_PAYLOAD info' (E2_Stp_Resp resp)) now t = Inr ag2 \<and> ag_reach ag2 \<and>
     set (ag_io ag2) = {fd, pipe_r}"
proof -
  let ?req = "first_request nid sm_ds cca" and ?resp = "accepted_response (first_request nid sm_ds cca)"
  from agent_started [OF assms(1-10), of nid cca] obtain ag ag1 where
    a: "e2_init_agent addr port nid fd pipe_r sm_ds rics cca = Inr ag" "e2_start_agent ag tfd = Inr ag1"
      "ag_reach ag1" "bm_pairs (ag_pending ag1) = {(tfd, SETUP_REQUEST_PENDING_EVENT)}"
      "ag_sent ag1 = [E2_Stp_Req ?req]" "ag_trans_id ag1 = 1" "bm_pairs (ag_ind_event ag1) = {}" "ag_fd ag1 = fd"
      "ag_pipe_r ag1 = pipe_r" "\<not> ag_exited ag1"
    by (elim exE conjE)
  from setup_sys [OF assms(11,12)] obtain ric' i' where
    r: "sctp_msg_arrived_event (ric, i) (info, E2_Stp_Req ?req) = Inr (ric', i')" "sys_ok (ric', i')"
      "node_sockets ric' = insert (stp_id ?req, info) (node_sockets ric)"
      "ric' = ric\<lparr>nr_e2_nodes := nr_e2_nodes ric', nr_conn_e2_nodes := nr_conn_e2_nodes ric',
         nr_sent := nr_sent ric @ [(info, E2_Stp_Resp ?resp)]\<rparr>"
    by (elim exE conjE)
  have sent: "nr_sent ric' = nr_sent ric @ [(info, E2_Stp_Resp ?resp)]"
    by (subst r(4)) simp
  have "0 < ag_trans_id ag1"
    by (simp add: a(6))
  from agent_accepted [OF a(3,10,4) this, of info' ?resp now t] obtain ag2 where
    b: "e2_event_loop_agent ag1 fd (SCTP_MSG_PAYLOAD info' (E2_Stp_Resp ?resp)) now t = Inr ag2" "ag_reach ag2"
      "set (ag_io ag2) = set (ag_io ag1) - {tfd}"
    unfolding a(8) by (elim exE conjE)
  have "set (ag_io ag1) = {fd, pipe_r, tfd}"
    using ag_ok_io(3) [OF ag_reach_ok [OF a(3)]] by (auto simp: a(4,7-9))
  then have "set (ag_io ag2) = {fd, pipe_r}"
    using b(3) assms(10) by auto
  then show ?thesis
    using a(1,2,5) r(1-3) sent b(1,2) accepted_functions [OF assms(7), of nid cca]
    by (intro exI [of _ ag] exI [of _ ag1] exI [of _ ric'] exI [of _ i'] exI [of _ ?resp] exI [of _ ag2])
      (simp add: first_request_def)
qed

text \<open>A RIC with the GTP service model.\<close>

definition gtp_ric_sm :: sm_ric_t where
  "gtp_ric_sm = \<lparr>on_subscription = (\<lambda>c. \<lparr>sub_event_trigger = c, sub_action_def = None\<rparr>),
     on_indication = (\<lambda>d. \<lparr>rd_type = GTP_STATS_V0, rd_values = sid_ind_msg d\<rparr>),
     on_control_req = (\<lambda>c. \<lparr>ctrl_hdr = [], ctrl_msg = c\<rparr>), sm_ran_func_id = 148\<rparr>"

definition gtp_ric_ds :: "(u16, sm_ric_t) assoc_rb_tree_t" where
  "gtp_ric_ds = \<lparr>rb_root = Node ASSOC_BLACK 148 gtp_ric_sm Dummy Dummy, rb_comp = cmp_ran_func_id, rb_size = 1,
     rb_key_sz = sizeof_uint16, rb_free = None\<rparr>"

lemma gtp_ric_ds_ok: "sm_ds_ok gtp_ric_ds" "rb_set gtp_ric_ds = {(148, gtp_ric_sm)}"
  by (simp_all add: gtp_ric_ds_def sm_ds_ok_def rb_inv_def rb_uniq_def rb_ok_def gtp_ric_sm_def)

lemma gtp_request_new:
  assumes "nr_sm_ds ric = gtp_ric_ds" "node_sockets ric = {}" "sa_contents (nr_conn_e2_nodes ric) = []"
  shows "new_node ric info (first_request du_node gtp_sm_ds [f1_config])"
  using tc_setup_new [of "ric\<lparr>nr_sm_ds := tc_sm_ds\<rparr>" info] assms gtp_ric_ds_ok(2)
  by (simp add: new_node_def tc_setup_def first_request_def gtp_sm_ds_def rf_of_def make_gtp_sm_agent_def SM_GTP_ID_def)

theorem setup_handshake_witness:
  "\<exists>ric i ag1 ric' i' resp ag2. ag_sent ag1 = [E2_Stp_Req (first_request du_node gtp_sm_ds [f1_config])] \<and>
     sctp_msg_arrived_event (ric, i) (peer 5000, E2_Stp_Req (first_request du_node gtp_sm_ds [f1_config])) = Inr (ric', i') \<and>
     node_sockets ric' = {(du_node, peer 5000)} \<and> srsp_accepted resp = [148] \<and>
     e2_event_loop_agent ag1 4 (SCTP_MSG_PAYLOAD (peer 1) (E2_Stp_Resp resp)) 0 9 = Inr ag2 \<and> set (ag_io ag2) = {4, 5}"
proof -
  from sys_start [OF gtp_ric_ds_ok(1), of 5] obtain ric i where
    0: "sys_ok (ric, i)" "node_sockets ric = {}" "sa_contents (nr_conn_e2_nodes ric) = []" "nr_sm_ds ric = gtp_ric_ds"
    by auto
  have h: "0 < (36421 :: int)" "(36421 :: int) < 65535" "length ''127.0.0.1'' < 16" "0 < (4 :: int)" "0 < (5 :: int)"
    "(4 :: int) \<noteq> 5" "''127.0.0.1'' \<in> set [''127.0.0.1'']" "0 < (7 :: int)" "(7 :: int) \<notin> {4, 5}"
    by simp_all
  from setup_handshake [OF h(1-6) gtp_sms_ok h(7-9) 0(1) gtp_request_new [OF 0(4,2,3), of "peer 5000"], of "peer 1" 0 9]
  obtain ag1 ric' i' resp ag2 where "ag_sent ag1 = [E2_Stp_Req (first_request du_node gtp_sm_ds [f1_config])]"
    "sctp_msg_arrived_event (ric, i) (peer 5000, E2_Stp_Req (first_request du_node gtp_sm_ds [f1_config])) = Inr (ric', i')"
    "node_sockets ric' = insert (du_node, peer 5000) (node_sockets ric)" "srsp_accepted resp = map fst (rb_entries gtp_sm_ds)"
    "e2_event_loop_agent ag1 4 (SCTP_MSG_PAYLOAD (peer 1) (E2_Stp_Resp resp)) 0 9 = Inr ag2" "set (ag_io ag2) = {4, 5}"
    by (elim exE conjE)
  moreover have "map fst (rb_entries gtp_sm_ds) = [148]"
    by (simp add: gtp_sm_ds_def)
  ultimately show ?thesis
    unfolding 0(2) by (intro exI conjI) simp_all
qed

text \<open>
  The way of a measurement: the subscription of an xApp goes through the iApp and the RIC to
  the agent, its response back to the xApp; when the timer of the subscription fires, the agent
  reads the RAN, and the indication that it sends reaches the socket of the xApp with bytes that
  decode to what the RAN measured.
\<close>

lemma measurement_path:
  assumes "sys_ok (ric, i)" "os_ok os" "(e42s_id r, s) \<in> node_sockets ric" "xapp_conn i (e42s_xapp_id r) t"
  defines "sr \<equiv> e42s_sr r"
  assumes "sub_event (sreq_ric_id sr) \<notin> snd ` pending_events ric" "ric_req_id (sreq_ric_id sr) \<noteq> 0"
    and "ric_req_id (sreq_ric_id sr) < 2 ^ 16"
    and "\<forall>(n, x) \<in> ric_pairs (ia_map_ric_id i). node_req n \<noteq> ric_req_id (sreq_ric_id sr)"
    and "(SM_GTP_ID, rsm) \<in> rb_set (nr_sm_ds ric)" "\<And>d. rd_type (on_indication rsm d) = GTP_STATS_V0"
    and "ag_reach ag" "\<not> ag_exited ag" "(SM_GTP_ID, make_gtp_sm_agent cb) \<in> rb_set (ag_sm_ds ag)"
    and "sreq_ric_id sr \<notin> Agent_Steps.subscribed ag" "ran_func_id (sreq_ric_id sr) = SM_GTP_ID"
    and "sreq_action sr = [a]" "act_type a = RIC_ACT_REPORT" "act_id a = 0"
    and "sreq_event_trigger sr = gtp_enc_event_trigger_plain ms" "ms < 10001"
    and "0 < tfd" "tfd \<notin> set (ag_io ag)" "cb now zero_gtp_ind_msg = Some m" "length (gtp_ngut m) < 2 ^ 32"
  defines "resp \<equiv> Ric_Sub_Resp (accepted (sreq_ric_id sr))"
  shows "\<exists>ric1 i1 ag1 ric2 i2 ag2 ind ric3 i3.
     msg_arrived_iapp os (ric, i) t (E42_Ric_Sub_Req r) = Inr (ric1, i1) \<and>
     nr_sent ric1 = nr_sent ric @ [(s, Ric_Sub_Req sr)] \<and>
     e2_event_loop_agent ag (ag_fd ag) (SCTP_MSG_PAYLOAD info (Ric_Sub_Req sr)) t1 tfd = Inr ag1 \<and>
     ag_sent ag1 = ag_sent ag @ [resp] \<and>
     sctp_msg_arrived_event (ric1, i1) (s, resp) = Inr (ric2, i2) \<and> ia_sent i2 = ia_sent i @ [(t, resp)] \<and>
     e2_event_loop_agent ag1 tfd msg now x2 = Inr ag2 \<and> ag_sent ag2 = ag_sent ag1 @ [Ric_Ind ind] \<and>
     gtp_dec_ind_msg_plain (ind_msg ind) = Inr m \<and>
     sctp_msg_arrived_event (ric2, i2) (s, Ric_Ind ind) = Inr (ric3, i3) \<and> sys_ok (ric3, i3) \<and>
     (t, Ric_Ind ind) \<in> set (ia_sent i3) \<and> ind_ric_id ind = sreq_ric_id sr \<and> ind_call_process_id ind = None"
proof -
  let ?rid = "sreq_ric_id sr" and ?resp = "Ric_Sub_Resp (accepted (sreq_ric_id sr))"
  let ?data = "\<lparr>sid_ind_hdr = le_bytes 4 (0 :: u32), sid_ind_msg = gtp_bytes m, sid_call_process_id = None\<rparr>"
  let ?ind = "generate_indication ?rid 0 ?data"
  from subscribe_round [OF assms(1-4) meta_eq_to_obj_eq [OF sr_def, THEN arg_cong, of sreq_ric_id, symmetric] assms(6-9)] obtain ric1 i1 ric2 i2 where
    c: "msg_arrived_iapp os (ric, i) t (E42_Ric_Sub_Req r) = Inr (ric1, i1)"
      "nr_sent ric1 = nr_sent ric @ [(s, Ric_Sub_Req sr)]"
      "sctp_msg_arrived_event (ric1, i1) (s, ?resp) = Inr (ric2, i2)" "ia_sent i2 = ia_sent i @ [(t, ?resp)]"
      "sys_ok (ric2, i2)" "nr_sm_ds ric2 = nr_sm_ds ric" "ia_xapps i2 = ia_xapps i"
      "is_subscription_active (ia_subscription_registry i2) (ucast (e42s_xapp_id r)) (ran_func_id ?rid)"
    unfolding sr_def by (elim exE conjE)
  have ind: "sma_on_indication (make_gtp_sm_agent cb) now NULL_Ptr = Inr (Some ?data)"
    by (simp add: make_gtp_sm_agent_def gtp_indication assms(24))
  from agent_subscription_run [OF ag_reach_ok [OF assms(12)] assms(13) gtp_subs_served [OF assms(14,16-18,20,21)] assms(15,22,23)
      refl ind, of info t1 msg x2 info t1 x2] obtain ag1 ag2 where
    b: "e2_event_loop_agent ag (ag_fd ag) (SCTP_MSG_PAYLOAD info (Ric_Sub_Req sr)) t1 tfd = Inr ag1"
      "ag_sent ag1 = ag_sent ag @ [Ric_Sub_Resp (generate_subscription_response ?rid (act_id (hd (sreq_action sr))))]"
      "e2_event_loop_agent ag1 tfd msg now x2 = Inr ag2"
      "ag_sent ag2 = ag_sent ag1 @ [Ric_Ind (generate_indication ?rid (act_id (hd (sreq_action sr))) ?data)]"
    by (elim exE conjE)
  have id: "act_id (hd (sreq_action sr)) = 0"
    by (simp add: assms(17,19))
  have g: "ind_ric_id ?ind = ?rid" "ind_sn ?ind = None" "ind_call_process_id ?ind = None" "ind_msg ?ind = gtp_bytes m"
    by (simp_all add: generate_indication_def)
  have x: "xapp_conn i2 (e42s_xapp_id r) t" "(ran_func_id (ind_ric_id ?ind), rsm) \<in> rb_set (nr_sm_ds ric2)"
    "is_subscription_active (ia_subscription_registry i2) (ucast (e42s_xapp_id r)) (ran_func_id (ind_ric_id ?ind))"
    using assms(4,10,16) c(6-8) g(1) by (simp_all add: xapp_conn_def)
  have ne: "rd_type (on_indication rsm \<lparr>sid_ind_hdr = ind_hdr ?ind, sid_ind_msg = ind_msg ?ind,
      sid_call_process_id = ind_call_process_id ?ind\<rparr>) \<noteq> SM_AGENT_IF_READ_V0_END"
    by (simp add: assms(11))
  from indication_reaches [OF c(5) x(2) ne g(2,3) x(3,1), of s] obtain ric3 i3 where
    d: "sctp_msg_arrived_event (ric2, i2) (s, Ric_Ind ?ind) = Inr (ric3, i3)" "sys_ok (ric3, i3)"
      "(t, Ric_Ind ?ind) \<in> set (ia_sent i3)"
    by (elim exE conjE)
  have resp: "Ric_Sub_Resp (generate_subscription_response ?rid 0) = ?resp"
    by (simp add: generate_subscription_response_def)
  show ?thesis
    by (rule exI [of _ ric1], rule exI [of _ i1], rule exI [of _ ag1], rule exI [of _ ric2],
        rule exI [of _ i2], rule exI [of _ ag2], rule exI [of _ ?ind], rule exI [of _ ric3], rule exI [of _ i3])
      (simp add: resp_def c(1-4) b [unfolded id resp] g d gtp_dec_bytes [OF assms(25)])
qed

text \<open>The RIC with the GTP service model, the node of the agent and an xApp.\<close>

lemma gtp_ric_example:
  "\<exists>ric i. sys_ok (ric, i) \<and> node_sockets ric = {(du_node, peer 5000)} \<and> xapp_conn i 7 (peer 6000) \<and>
     pending_events ric = {} \<and> ric_pairs (ia_map_ric_id i) = {} \<and> nr_sm_ds ric = gtp_ric_ds"
proof -
  from sys_start [OF gtp_ric_ds_ok(1), of 5] obtain ric i where
    0: "sys_ok (ric, i)" "node_sockets ric = {}" "pending_events ric = {}" "sa_contents (nr_conn_e2_nodes ric) = []"
      "nr_sm_ds ric = gtp_ric_ds" "bm_pairs (ia_xapps i) = {}" "ric_pairs (ia_map_ric_id i) = {}" "ia_xapp_id i = 7"
    by auto
  from setup_sys [OF 0(1) gtp_request_new [OF 0(5,2,4), of "peer 5000"]] obtain ric1 i1 where
    1: "sys_ok (ric1, i1)"
      "node_sockets ric1 = insert (stp_id (first_request du_node gtp_sm_ds [f1_config]), peer 5000) (node_sockets ric)"
      "ric1 = ric\<lparr>nr_e2_nodes := nr_e2_nodes ric1, nr_conn_e2_nodes := nr_conn_e2_nodes ric1, nr_sent := nr_sent ric @
        [(peer 5000, E2_Stp_Resp (accepted_response (first_request du_node gtp_sm_ds [f1_config])))]\<rparr>"
      "i1 = i\<lparr>ia_e2_nodes := ia_e2_nodes i1\<rparr>"
    by (elim exE conjE)
  have r1: "nr_pending ric1 = nr_pending ric" "nr_sm_ds ric1 = gtp_ric_ds"
    by (subst 1(3), simp add: 0)+
  have i1: "ia_xapps i1 = ia_xapps i" "ia_map_ric_id i1 = ia_map_ric_id i" "ia_xapp_id i1 = 7"
    by (subst 1(4), simp add: 0)+
  from xapp_setup_sys [OF 1(1), of "\<lparr>e42_ran_func_item = [kpm_function]\<rparr>" "peer 6000" next_fd] obtain i2 where
    i2: "sys_ok (ric1, i2)" "bm_pairs (ia_xapps i2) = insert (ucast (ia_xapp_id i1), peer 6000) (bm_pairs (ia_xapps i1))"
      "ia_map_ric_id i2 = ia_map_ric_id i1"
    by (auto simp: i1 0(6))
  show ?thesis
    using i2 r1 i1 1(2) 0
    by (intro exI [of _ ric1] exI [of _ i2]) (simp add: xapp_conn_def peer_def first_request_def)
qed

end
