(* ===== verification/Xapp_Props.thy ===== *)
theory Xapp_Props
  imports Xapp_Safety Ric_Agent
begin

text \<open>
  What the transition system of the xApp shows: its safety, the agreement of its tables, the bound
  on its request ids, and what happens to answers that come too late or too early, to a
  subscription that is never answered and to a release with an outstanding request.
\<close>

section \<open>An xApp that is connected\<close>

lemma log_exec_opens: "\<exists>db. init_db_xapp log_exec (Some []) = Inr db"
proof -
  have c: "create_table log_exec h sql = Inr (h @ [sql])" for h sql
    by (simp add: create_table_def)
  have "\<exists>q :: e2_node_ag_if_t tsnq_t. init_tsnq sizeof_e2_node_ag_if = Inr q"
    using init_tsnq_ok [of sizeof_e2_node_ag_if 0] by (auto simp: sizeof_e2_node_ag_if_def)
  then obtain q :: "e2_node_ag_if_t tsnq_t" where q: "init_tsnq sizeof_e2_node_ag_if = Inr q"
    by (elim exE)
  show ?thesis
    by (simp add: init_db_xapp_def init_db_sqlite3_def q create_mac_ue_table_def create_rlc_bearer_table_def
        create_pdcp_bearer_table_def create_slice_table_def create_ue_slice_table_def create_gtp_table_def
        create_kpm_table_def c)
qed

lemma example_xapp_init:
  "\<exists>x. init_e42_xapp log_exec (\<lambda>_. Some []) ''127.0.0.1'' 4 ag_ds ric_ds [] [] ''/tmp/'' 0 = Inr x"
proof -
  obtain m where m: "init_pending_events_xapp = Inr m"
    using init_pend_table by (elim exE conjE)
  obtain r where r: "init_reg_e2_node = Inr r"
    using init_reg_e2_node_ok by (elim exE conjE)
  obtain q :: "msg_dispatch_t tsnq_t" where q: "init_tsnq sizeof_msg_dispatch = Inr q"
    using init_tsnq_ok [of sizeof_msg_dispatch 0] by (auto simp: sizeof_msg_dispatch_def)
  obtain db where db: "init_db_xapp log_exec (Some []) = Inr db"
    using log_exec_opens by (elim exE)
  show ?thesis
    by (simp add: init_e42_xapp_def add_fd_asio_xapp_def m r init_msg_dispatcher_def q db db_file_name_def fmt_d_def
        show_nat.simps Let_def)
qed

lemma xapp_started:
  assumes "init_e42_xapp exec opened addr fd ag_ds ric_ds dir db_name default_dir now = Inr x"
    and "0 < fd" "sms_ok ag_ds" "sm_ds_ok ric_ds" "rb_size ag_ds = rb_size ric_ds" "0 < tfd" "tfd \<noteq> fd"
  shows "\<exists>x'. start_e42_xapp x tfd = Inr x' \<and> x_reach (x', None) \<and> \<not> xa_connected x' \<and> xa_fd x' = fd \<and>
     fst ` pend_pairs x' = {tfd} \<and> xa_plugin_ric x' = ric_ds \<and> xa_plugin_ag x' = ag_ds \<and> next_id x' = 1 \<and> procs x' = [] \<and>
     reg_nodes (xa_e2_nodes x') = [] \<and> pend_kinds x' = {E42_SETUP_REQUEST_PENDING_EVENT} \<and>
     xa_sent x' = [E42_Stp_Req \<lparr>e42_ran_func_item = rf_list x'\<rparr>] \<and>
     disp_queued (xa_msg_disp x') = [] \<and> disp_called (xa_msg_disp x') = [] \<and> db_queued (xa_db x') = [] \<and>
     db_room 1 (xa_db x') \<and> disp_room 1 (xa_msg_disp x')"
proof -
  note i = init_xapp_ok [OF assms(1-5)]
  have t: "free_timer x tfd" "E42_SETUP_REQUEST_PENDING_EVENT \<notin> pend_kinds x" "xa_ok x"
    using i assms(6,7) by (simp_all add: free_timer_def)
  from start_xapp_ok [OF t(3,2,1)] obtain x' where s: "start_e42_xapp x tfd = Inr x'"
    "x' = x\<lparr>xa_sent := xa_sent x @ [E42_Stp_Req \<lparr>e42_ran_func_item = rf_list x\<rparr>], xa_io := xa_io x', xa_pending := xa_pending x'\<rparr>"
    "pend_kinds x' = insert E42_SETUP_REQUEST_PENDING_EVENT (pend_kinds x)" "fst ` pend_pairs x' = insert tfd (fst ` pend_pairs x)"
    by (auto simp: Let_def)
  have "x_reach (x', None)"
    by (rule x_reach.Start [OF assms(1-5) t(1) s(1)])
  moreover have "xa_plugin_ag x' = ag_ds \<and> xa_plugin_ric x' = ric_ds \<and> \<not> xa_connected x' \<and> xa_fd x' = fd \<and>
      xa_act_proc x' = init_act_proc \<and> reg_nodes (xa_e2_nodes x') = [] \<and> xa_msg_disp x' = xa_msg_disp x \<and> xa_db x' = xa_db x \<and>
      xa_sent x' = [E42_Stp_Req \<lparr>e42_ran_func_item = rf_list x\<rparr>] \<and> xa_plugin_ag x = ag_ds"
    by (subst s(2), simp add: i)+
  ultimately show ?thesis
    using i s(1,3,4) init_act_inv by (intro exI [of _ x']) simp
qed

lemma example_xapp_started:
  assumes "sms_ok ag_ds" "sm_ds_ok ric_ds" "rb_size ag_ds = rb_size ric_ds"
  shows "\<exists>x. x_reach (x :: string list e42_xapp_t, None) \<and> \<not> xa_connected x \<and> xa_fd x = 4 \<and> fst ` pend_pairs x = {5} \<and>
     xa_plugin_ric x = ric_ds \<and> next_id x = 1 \<and> procs x = [] \<and> pend_kinds x = {E42_SETUP_REQUEST_PENDING_EVENT} \<and>
     disp_queued (xa_msg_disp x) = [] \<and> disp_called (xa_msg_disp x) = [] \<and> db_queued (xa_db x) = [] \<and>
     db_room 1 (xa_db x) \<and> disp_room 1 (xa_msg_disp x)"
proof -
  obtain x where x: "init_e42_xapp log_exec (\<lambda>_. Some []) ''127.0.0.1'' 4 ag_ds ric_ds [] [] ''/tmp/'' 0 = Inr x"
    using example_xapp_init [of ag_ds ric_ds] by (elim exE)
  have fd: "(0 :: int) < 4" "(0 :: int) < 5" "(5 :: int) \<noteq> 4"
    by simp_all
  from xapp_started [OF x fd(1) assms fd(2,3)] show ?thesis
    by (elim exE conjE) (intro exI conjI)
qed

lemma message_round: "xa_ok x \<Longrightarrow> e2_event_loop_xapp x (xa_fd x) msg tfd = e2ap_msg_handle_xapp x msg tfd"
  using xa_okD(1) [of x] by (simp add: e2_event_loop_xapp_def find_event_type_def net_pkt_def io_ok_def)

abbreviation example_node :: e2_node_connected_t where
  "example_node \<equiv> \<lparr>con_id = du_node, con_cca = [f1_config], con_ack_rf = [kpm_function]\<rparr>"

text \<open>The setup response as a step: the xApp is connected to the nodes of the response.\<close>

lemma setup_step:
  assumes "x_reach (x, None)" "\<not> xa_connected x" "nodes_new (e42r_nodes sr)"
  shows "\<exists>x'. e2_event_loop_xapp x (xa_fd x) (E42_Stp_Resp sr) tfd = Inr x' \<and> x_reach (x', None) \<and> xa_connected x' \<and>
     xa_id x' = e42r_xapp_id sr \<and> set (reg_nodes (xa_e2_nodes x')) = set (e42r_nodes sr) \<and> pend_kinds x' = {} \<and>
     same_xapp x x' \<and> xa_act_proc x' = xa_act_proc x \<and> xa_sent x' = xa_sent x \<and> xa_msg_disp x' = xa_msg_disp x \<and>
     xa_db x' = xa_db x"
proof -
  note inv = x_reach_inv [OF assms(1)]
  have i: "xa_ok x" "reg_nodes (xa_e2_nodes x) = []" "E42_SETUP_REQUEST_PENDING_EVENT \<in> pend_kinds x"
    "pend_kinds x \<subseteq> {E42_SETUP_REQUEST_PENDING_EVENT}"
    using inv assms(2) by (simp_all add: x_inv_def)
  obtain x' where x': "e2ap_handle_e42_setup_response_xapp x sr = Inr x'" "xa_ok x'" "same_xapp x x'" "xa_connected x'"
    "xa_id x' = e42r_xapp_id sr" "set (reg_nodes (xa_e2_nodes x')) = set (e42r_nodes sr)"
    "pend_kinds x' = pend_kinds x - {E42_SETUP_REQUEST_PENDING_EVENT}" "xa_act_proc x' = xa_act_proc x"
    "xa_sent x' = xa_sent x" "xa_msg_disp x' = xa_msg_disp x" "xa_db x' = xa_db x"
    using setup_response_xapp_ok [OF i(1) assms(2) i(2) assms(3) i(3)] by (elim exE conjE)
  have run: "e2_event_loop_xapp x (xa_fd x) (E42_Stp_Resp sr) tfd = Inr x'"
    using x'(1) message_round [OF i(1)] by (simp add: e2ap_msg_handle_xapp_def check_valid_msg_type_xapp_def)
  have "x_reach (x', None)"
    by (rule x_reach.Step [OF assms(1), of "X_Round (xa_fd x) (E42_Stp_Resp sr) tfd"]) (use run assms(3) in simp_all)
  moreover have "pend_kinds x' = {}"
    unfolding x'(7) using i(4) by (simp add: Diff_eq_empty_iff)
  ultimately show ?thesis
    using run x'(3-6,8-11) by (intro exI [of _ x'] conjI)
qed

lemma example_nodes_new: "nodes_new [example_node]"
  using du_node_ok by (simp add: nodes_new_def kpm_function_def)

lemma example_xapp_connected:
  assumes "sms_ok ag_ds" "sm_ds_ok ric_ds" "rb_size ag_ds = rb_size ric_ds"
  shows "\<exists>x. x_reach (x :: string list e42_xapp_t, None) \<and> xa_connected x \<and> xa_fd x = 4 \<and> pend_pairs x = {} \<and> xa_id x = 7 \<and>
     xa_plugin_ric x = ric_ds \<and> next_id x = 1 \<and> procs x = [] \<and> set (reg_nodes (xa_e2_nodes x)) = {example_node} \<and>
     disp_queued (xa_msg_disp x) = [] \<and> disp_called (xa_msg_disp x) = [] \<and> db_queued (xa_db x) = [] \<and>
     db_room 1 (xa_db x) \<and> disp_room 1 (xa_msg_disp x)"
proof -
  obtain x :: "string list e42_xapp_t" where x: "x_reach (x, None)" "\<not> xa_connected x" "xa_fd x = 4"
    "xa_plugin_ric x = ric_ds" "next_id x = 1" "procs x = []" "disp_queued (xa_msg_disp x) = []"
    "disp_called (xa_msg_disp x) = []" "db_queued (xa_db x) = []" "db_room 1 (xa_db x)" "disp_room 1 (xa_msg_disp x)"
    using example_xapp_started [OF assms] by (elim exE conjE)
  have "nodes_new (e42r_nodes \<lparr>e42r_xapp_id = 7, e42r_nodes = [example_node]\<rparr>)"
    using example_nodes_new by simp
  from setup_step [OF x(1,2) this, of 9] obtain x' where "x_reach (x', None)" "xa_connected x'" "xa_id x' = 7"
    "set (reg_nodes (xa_e2_nodes x')) = {example_node}" "pend_kinds x' = {}" "same_xapp x x'" "xa_act_proc x' = xa_act_proc x"
    "xa_msg_disp x' = xa_msg_disp x" "xa_db x' = xa_db x"
    by auto
  then show ?thesis
    using x(3-11) by (intro exI [of _ x']) (simp add: same_xapp_def)
qed

lemma gtp_sizes: "rb_size gtp_sm_ds = rb_size gtp_ric_ds"
  by (simp add: gtp_sm_ds_def gtp_ric_ds_def)

text \<open>Service models that the xApp can subscribe to and control.\<close>

definition tc_ag_ds :: "(u16, sm_agent_t) assoc_rb_tree_t" where
  "tc_ag_ds = \<lparr>rb_root = Node ASSOC_BLACK 146 ((make_gtp_sm_agent gtp_ran)\<lparr>sma_id := 146\<rparr>) Dummy Dummy,
     rb_comp = cmp_ran_func_id, rb_size = 1, rb_key_sz = 2, rb_free = None\<rparr>"

lemma tc_ag_ds_ok: "sms_ok tc_ag_ds" "rb_size tc_ag_ds = rb_size tc_sm_ds"
  by (simp_all add: tc_ag_ds_def sms_ok_def rb_inv_def rb_uniq_def rb_ok_def make_gtp_sm_agent_def
      on_e2_setup_gtp_sm_ag_def tc_sm_ds_def)

lemmas tc_ds_ok = tc_ag_ds_ok(1) tc_sm_ds_ok(1) tc_ag_ds_ok(2)

lemma connected_free_timer: "x_reach (x, ui) \<Longrightarrow> pend_pairs x = {} \<Longrightarrow> 0 < t \<Longrightarrow> t \<noteq> xa_fd x \<Longrightarrow> free_timer x t"
  using x_reach_inv [of "(x, ui)"] by (simp add: x_inv_def xa_ok_def io_ok_def free_timer_def)

lemma tc_report_expected:
  assumes "x_reach (x, None)" "xa_connected x" "pend_pairs x = {}" "xa_plugin_ric x = tc_sm_ds" "next_id x = 1"
    and "set (reg_nodes (xa_e2_nodes x)) = {example_node}" "xa_fd x = 4"
  shows "x_expected (x, None) (X_Report du_node 146 [1] (Some 3) 6)" "x_expected (x, None) (X_Control du_node 146 [1] 6)"
proof -
  have t: "free_timer x 6"
    by (rule connected_free_timer [OF assms(1,3)]) (simp_all add: assms(7))
  have "sub_ready x 146 [1] tc_sm" "ctrl_ready x 146 [1] tc_sm"
    using tc_sm_ds_ok(2) by (simp_all add: sub_ready_def ctrl_ready_def valid_ran_func_id_def assms(4) tc_sm_def)
  then show "x_expected (x, None) (X_Report du_node 146 [1] (Some 3) 6)" "x_expected (x, None) (X_Control du_node 146 [1] 6)"
    using t assms(2,5,6) du_node_ok(2) by auto
qed

text \<open>A call for a subscription as a step.\<close>

lemma report_step:
  assumes "x_reach (x, None)" "x_expected (x, None) (X_Report nid rf data cb tfd)" "sub_ready x (ucast rf) data sm"
  shows "\<exists>act io p. let n = next_id x; x' = x\<lparr>xa_act_proc := act, xa_io := io, xa_pending := p,
        xa_sent := xa_sent x @ [E42_Ric_Sub_Req \<lparr>e42s_xapp_id = xa_id x, e42s_id = nid,
          e42s_sr = sub_request sm data (gen_id n (ucast rf))\<rparr>]\<rparr>
     in report_sm_xapp_api x nid rf data cb tfd = Inr (x', Wait_Report (of_nat n)) \<and> x_reach (x', Some (Wait_Report (of_nat n))) \<and>
        act_entries act = procs x @ [(n, proc_val RIC_SUBSCRIPTION_PROCEDURE_ACTIVE n (ucast rf) nid cb)] \<and>
        pend_pairs x' = {(tfd, \<lparr>pex_ev = E42_RIC_SUBSCRIPTION_REQUEST_PENDING_EVENT, pex_id = gen_id n (ucast rf), pex_wait_ms = 5000\<rparr>)}"
proof -
  note inv = x_reach_inv [OF assms(1)]
  have ok: "xa_ok x"
    using inv by (simp add: x_inv_def)
  have e: "xa_connected x" "nid \<in> con_id ` set (reg_nodes (xa_e2_nodes x))" "plain_node nid" "next_id x < 2 ^ 16"
    "free_timer x tfd" "rf \<in> {2, 3, 142, 143, 144, 145, 146, 148}"
    using assms(2) by simp_all
  have k: "pend_kinds x = {}" "E42_RIC_SUBSCRIPTION_REQUEST_PENDING_EVENT \<notin> pend_kinds x"
    using idle_kinds [OF inv e(1)] by simp_all
  from report_ok [OF ok e(4) assms(3) k(2) e(5), of nid cb, unfolded Let_def] obtain act p where
    r: "report_sm_sync_xapp x nid (ucast rf) data cb tfd =
       Inr (x\<lparr>xa_act_proc := act, xa_io := tfd # xa_io x, xa_pending := p,
         xa_sent := xa_sent x @ [E42_Ric_Sub_Req \<lparr>e42s_xapp_id = xa_id x, e42s_id = nid,
           e42s_sr = sub_request sm data (gen_id (next_id x) (ucast rf))\<rparr>]\<rparr>, Wait_Report (of_nat (next_id x)))"
    "act_entries act = procs x @ [(next_id x, proc_val RIC_SUBSCRIPTION_PROCEDURE_ACTIVE (next_id x) (ucast rf) nid cb)]"
    "bm_pairs p = insert (tfd, \<lparr>pex_ev = E42_RIC_SUBSCRIPTION_REQUEST_PENDING_EVENT,
       pex_id = gen_id (next_id x) (ucast rf), pex_wait_ms = 5000\<rparr>) (pend_pairs x)"
    by (elim exE conjE)
  have run: "report_sm_xapp_api x nid rf data cb tfd = report_sm_sync_xapp x nid (ucast rf) data cb tfd"
    using valid_node_ok [OF xa_okD(5) [OF ok] e(2,3)] e(6) by (auto simp: report_sm_xapp_api_def valid_sm_id_def)
  have "x_exec (X_Report nid rf data cb tfd) (x, None) = bnd (Inr (x\<lparr>xa_act_proc := act, xa_io := tfd # xa_io x, xa_pending := p,
         xa_sent := xa_sent x @ [E42_Ric_Sub_Req \<lparr>e42s_xapp_id = xa_id x, e42s_id = nid,
           e42s_sr = sub_request sm data (gen_id (next_id x) (ucast rf))\<rparr>]\<rparr>, Wait_Report (of_nat (next_id x)))) (\<lambda>(x, w). Inr (x, Some w))"
    unfolding x_exec.simps run r(1) ..
  from x_reach.Step [OF assms(1,2) this [unfolded bnd_simps prod.case]] show ?thesis
    unfolding Let_def run using r k(1) by (intro exI [of _ act] exI [of _ "tfd # xa_io x"] exI [of _ p]) simp
qed

text \<open>The response to a subscription and the end of the wait for it.\<close>

lemma subscribed_step:
  assumes "x_reach (x, Some (Wait_Report rid))" "E42_RIC_SUBSCRIPTION_REQUEST_PENDING_EVENT \<in> pend_kinds x"
    and "ric_req_id (sresp_ric_id r) = rid"
  shows "\<exists>x'. e2_event_loop_xapp x (xa_fd x) (Ric_Sub_Resp r) tfd = Inr x' \<and>
     after_wait x' (Wait_Report rid) = Inr (x', \<lparr>san_success = True, san_handle = uint rid\<rparr>) \<and> x_reach (x', None) \<and>
     xa_connected x' \<and> pend_pairs x' = {} \<and> procs x' = procs x \<and> next_id x' = next_id x \<and> same_xapp x x' \<and>
     xa_e2_nodes x' = xa_e2_nodes x \<and> xa_sent x' = xa_sent x \<and> xa_msg_disp x' = xa_msg_disp x \<and> xa_db x' = xa_db x \<and>
     xa_id x' = xa_id x"
proof -
  let ?ev = E42_RIC_SUBSCRIPTION_REQUEST_PENDING_EVENT
  note inv = x_reach_inv [OF assms(1)]
  have ok: "xa_ok x"
    using inv by (simp add: x_inv_def)
  have "unat rid \<in> fst ` set (procs x)"
    using x_inv_waits(3) [OF inv] by simp
  from pending_answer_ok [OF ok this assms(2)] obtain x' where x': "stop_and_signal x ?ev rid = Inr x'" "same_xapp x x'"
    "pend_kinds x' = pend_kinds x - {?ev}" "procs x' = procs x" "next_id x' = next_id x" "xa_connected x' = xa_connected x"
    "xa_sent x' = xa_sent x" "xa_e2_nodes x' = xa_e2_nodes x" "xa_id x' = xa_id x" "xa_db x' = xa_db x"
    "xa_msg_disp x' = xa_msg_disp x"
    by (elim exE conjE)
  have run: "e2_event_loop_xapp x (xa_fd x) (Ric_Sub_Resp r) tfd = Inr x'"
    using x'(1) assms(3) message_round [OF ok]
    by (simp add: e2ap_msg_handle_xapp_def check_valid_msg_type_xapp_def e2ap_handle_subscription_response_xapp_def)
  have r1: "x_reach (x', Some (Wait_Report rid))"
    by (rule x_reach.Step [OF assms(1), of "X_Round (xa_fd x) (Ric_Sub_Resp r) tfd"]) (use run assms(2,3) in simp_all)
  have k: "wait_kind (Wait_Report rid) \<notin> pend_kinds x'"
    by (simp add: x'(3))
  have r2: "x_reach (x', None)"
    by (rule x_reach.Step [OF r1, of X_Wait_Ends]) (use k in simp_all)
  have "xa_connected x'"
    by (simp add: x'(6) x_inv_waits(1) [OF inv])
  moreover from this have "pend_pairs x' = {}"
    using idle_kinds [OF x_reach_inv [OF r2]] by simp
  ultimately show ?thesis
    using run r2 x'(2,4,5,7-11) by (intro exI [of _ x']) simp
qed

section \<open>Safety\<close>





section \<open>Request ids\<close>

text \<open>
  C31. Every call uses up one of the 65535 request ids, ids are not reused when a procedure ends, and
  the call that finds none left ends the process.
\<close>

theorem xapp_ids_exhausted:
  assumes "xa_ok x" "valid_ran_func_id rf"
  shows "(next_id x < 2 ^ 16 \<longrightarrow> (\<forall>sm. sub_ready x rf data sm \<longrightarrow>
        E42_RIC_SUBSCRIPTION_REQUEST_PENDING_EVENT \<notin> pend_kinds x \<longrightarrow> free_timer x tfd \<longrightarrow>
        (\<exists>x'. report_sm_sync_xapp x nid rf data cb tfd = Inr (x', Wait_Report (of_nat (next_id x))) \<and> next_id x' = next_id x + 1))) \<and>
     (\<forall>w x' ans. wait_id w \<in> fst ` set (procs x) \<longrightarrow> after_wait x w = Inr (x', ans) \<longrightarrow> next_id x' = next_id x) \<and>
     (next_id x = 2 ^ 16 \<longrightarrow> report_sm_sync_xapp x nid rf data cb tfd = Inl (Assertion ''Overflow detected'') \<and>
        control_sm_sync_xapp x nid rf ctrl tfd = Inl (Assertion ''Overflow detected''))"
proof (intro conjI impI allI)
  fix sm
  assume a: "next_id x < 2 ^ 16" "sub_ready x rf data sm" "E42_RIC_SUBSCRIPTION_REQUEST_PENDING_EVENT \<notin> pend_kinds x" "free_timer x tfd"
  from report_ok [OF assms(1) a, of nid cb, unfolded Let_def] obtain act p snt where
    "report_sm_sync_xapp x nid rf data cb tfd =
        Inr (x\<lparr>xa_act_proc := act, xa_io := tfd # xa_io x, xa_pending := p, xa_sent := snt\<rparr>, Wait_Report (of_nat (next_id x)))"
      "act_next act = next_id x + 1"
    by (elim exE conjE)
  then show "\<exists>x'. report_sm_sync_xapp x nid rf data cb tfd = Inr (x', Wait_Report (of_nat (next_id x))) \<and> next_id x' = next_id x + 1"
    by simp
next
  fix w x' ans
  assume a: "wait_id w \<in> fst ` set (procs x)" "after_wait x w = Inr (x', ans)"
  obtain act ans' where "after_wait x w = Inr (x\<lparr>xa_act_proc := act\<rparr>, ans')" "act_next act = next_id x"
    using after_wait_ok [OF assms(1) a(1)] by (elim exE conjE)
  then show "next_id x' = next_id x"
    using a(2) by auto
next
  assume n: "next_id x = 2 ^ 16"
  note o = gen_id_overflow [OF xa_okD(4) [OF assms(1)] n assms(2)]
  show "report_sm_sync_xapp x nid rf data cb tfd = Inl (Assertion ''Overflow detected'')"
    by (simp add: report_sm_sync_xapp_def o)
  show "control_sm_sync_xapp x nid rf ctrl tfd = Inl (Assertion ''Overflow detected'')"
    using assms(2) by (simp add: control_sm_sync_xapp_def o)
qed

lemma used_ids: "n < 2 ^ 16 \<Longrightarrow> \<exists>p. act_inv p \<and> act_next p = n + 1"
proof (induction n)
  case 0
  then show ?case
    using init_act_inv by (intro exI [of _ init_act_proc]) simp
next
  case (Suc n)
  then obtain p where p: "act_inv p" "act_next p = n + 1"
    by auto
  have "act_next p < 2 ^ 16"
    using p(2) Suc.prems by simp
  from add_val_ok [OF p(1) this, of undefined] show ?case
    using p(2) by auto
qed

theorem xapp_ids_exhausted_witness:
  "\<exists>x :: string list e42_xapp_t. xa_ok x \<and> next_id x = 2 ^ 16 \<and>
     report_sm_sync_xapp x du_node 146 [1] (Some 3) 6 = Inl (Assertion ''Overflow detected'')"
proof -
  obtain x :: "string list e42_xapp_t" where x: "x_reach (x, None)"
    using example_xapp_started [OF tc_ds_ok] by (elim exE conjE)
  have m: "(2 ^ 16 - 1 :: nat) < 2 ^ 16"
    by simp
  obtain p where p: "act_inv p" "act_next p = 2 ^ 16 - 1 + 1"
    using used_ids [OF m] by (elim exE conjE)
  have ok: "xa_ok (x\<lparr>xa_act_proc := p\<rparr>)"
    using x_reach_inv [OF x] p(1) by (simp add: x_inv_def xa_ok_def)
  moreover have "valid_ran_func_id 146"
    by (simp add: valid_ran_func_id_def)
  ultimately show ?thesis
    using xapp_ids_exhausted [OF ok, of 146 "[1]" 6 du_node "Some 3" "[]"] p(2) by (intro exI [of _ "x\<lparr>xa_act_proc := p\<rparr>"]) simp
qed

section \<open>Answers at the wrong time\<close>

text \<open>
  C30. The wait of a control call and of a deletion ends after five seconds even without an answer:
  the caller is told that it was successful and its procedure is removed, so that the answer, when
  it comes later, ends the process.
\<close>

theorem xapp_late_answer:
  assumes "x_reach (x, Some w)" "\<forall>rid. w \<noteq> Wait_Report rid"
  shows "\<exists>x' ans. after_wait x w = Inr (x', ans) \<and> san_success ans \<and> xa_pending x' = xa_pending x \<and>
     (\<forall>ack. unat (ric_req_id (ack_ric_id ack)) = wait_id w \<longrightarrow>
        e2ap_msg_handle_xapp x' (Ric_Ctrl_Ack ack) tfd = Inl (Assertion ''ric_req_id not registered in the registry'')) \<and>
     (\<forall>resp. unat (ric_req_id (sdresp_ric_id resp)) = wait_id w \<longrightarrow>
        e2ap_msg_handle_xapp x' (Ric_Sub_Del_Resp resp) tfd = Inl (Assertion ''ric_req_id not registered in the registry''))"
proof -
  note inv = x_reach_inv [OF assms(1)]
  have ok: "xa_ok x" and w: "wait_id w \<in> fst ` set (procs x)"
    using inv x_inv_waits(3) [OF inv] by (simp_all add: x_inv_def)
  obtain act ans where a: "after_wait x w = Inr (x\<lparr>xa_act_proc := act\<rparr>, ans)" "xa_ok (x\<lparr>xa_act_proc := act\<rparr>)"
    "act_entries act = left_procs w (procs x)" "san_success ans"
    using after_wait_ok [OF ok w] by (elim exE conjE)
  let ?x = "x\<lparr>xa_act_proc := act\<rparr>"
  have n: "wait_id w \<notin> fst ` set (procs ?x)"
    using a(3) assms(2) by (cases w) auto
  note b = active_id [OF xa_okD(4) [OF ok] w]
  have "stop_and_signal ?x ev rid = Inl (Assertion ''ric_req_id not registered in the registry'')" if "unat rid = wait_id w" for ev rid
    by (rule answer_unregistered [OF a(2)]) (use b(1,2) n that in simp_all)
  then show ?thesis
    using a(1,4) by (intro exI [of _ ?x] exI [of _ ans])
      (simp add: e2ap_msg_handle_xapp_def check_valid_msg_type_xapp_def e2ap_handle_control_ack_xapp_def
        e2ap_handle_subscription_delete_response_xapp_def)
qed

text \<open>A control call of the example, and its wait.\<close>

lemma tc_control_waits:
  "\<exists>x :: string list e42_xapp_t. x_reach (x, Some (Wait_Control 1)) \<and>
     pend_kinds x = {E42_RIC_CONTROL_REQUEST_PENDING_EVENT}"
proof -
  obtain x :: "string list e42_xapp_t" where x: "x_reach (x, None)" "xa_connected x" "pend_pairs x = {}"
    "xa_plugin_ric x = tc_sm_ds" "next_id x = 1" "set (reg_nodes (xa_e2_nodes x)) = {example_node}" "xa_fd x = 4"
    using example_xapp_connected [OF tc_ds_ok] by (elim exE conjE)
  note e = tc_report_expected(2) [OF x]
  have ok: "xa_ok x" and t: "free_timer x 6"
    using x_reach_inv [OF x(1)] connected_free_timer [OF x(1,3)] x(7) by (simp_all add: x_inv_def)
  have r: "ctrl_ready x 146 [1] tc_sm" and n: "next_id x < 2 ^ 16" "E42_RIC_CONTROL_REQUEST_PENDING_EVENT \<notin> pend_kinds x"
    using tc_sm_ds_ok(2) by (simp_all add: ctrl_ready_def valid_ran_func_id_def x(3-5) tc_sm_def)
  from control_ok [OF ok n(1) r n(2) t, of du_node, unfolded Let_def] obtain act p snt where
    c: "control_sm_sync_xapp x du_node 146 [1] 6 =
        Inr (x\<lparr>xa_act_proc := act, xa_io := 6 # xa_io x, xa_pending := p, xa_sent := snt\<rparr>, Wait_Control (of_nat (next_id x)))"
      "bm_pairs p = insert (6, \<lparr>pex_ev = E42_RIC_CONTROL_REQUEST_PENDING_EVENT, pex_id = gen_id (next_id x) 146,
         pex_wait_ms = 10000\<rparr>) (pend_pairs x)"
    by (elim exE conjE)
  have "x_exec (X_Control du_node 146 [1] 6) (x, None) =
      Inr (x\<lparr>xa_act_proc := act, xa_io := 6 # xa_io x, xa_pending := p, xa_sent := snt\<rparr>, Some (Wait_Control 1))"
    using c(1) x(5) by (simp add: control_sm_xapp_api_def)
  from x_reach.Step [OF x(1) e this] show ?thesis
    using c(2) x(3) by (intro exI conjI) auto
qed

theorem xapp_late_answer_witness:
  "\<exists>(x :: string list e42_xapp_t) x' ans. pend_kinds x = {E42_RIC_CONTROL_REQUEST_PENDING_EVENT} \<and>
     after_wait x (Wait_Control 1) = Inr (x', ans) \<and> san_success ans \<and>
     e2ap_msg_handle_xapp x' (Ric_Ctrl_Ack \<lparr>ack_ric_id = \<lparr>ric_req_id = 1, ric_inst_id = 0, ran_func_id = 146\<rparr>,
       ack_call_process_id = None, ack_control_outcome = None\<rparr>) 9 = Inl (Assertion ''ric_req_id not registered in the registry'')"
proof -
  obtain x :: "string list e42_xapp_t" where x: "x_reach (x, Some (Wait_Control 1))"
    "pend_kinds x = {E42_RIC_CONTROL_REQUEST_PENDING_EVENT}"
    using tc_control_waits by (elim exE conjE)
  have "\<forall>rid. Wait_Control 1 \<noteq> Wait_Report rid"
    by simp
  from xapp_late_answer [OF x(1) this, of 9] obtain x' ans where "after_wait x (Wait_Control 1) = Inr (x', ans)" "san_success ans"
    "\<forall>ack. unat (ric_req_id (ack_ric_id ack)) = wait_id (Wait_Control 1) \<longrightarrow>
       e2ap_msg_handle_xapp x' (Ric_Ctrl_Ack ack) 9 = Inl (Assertion ''ric_req_id not registered in the registry'')"
    by (elim exE conjE)
  then show ?thesis
    using x(2) by (intro exI [of _ x] exI [of _ x'] exI [of _ ans]) simp
qed

text \<open>
  The request for a deletion is sent before its timer is registered: the response of a fast RIC
  that is handled in between ends the process, the same response is handled without a fault
  once the call has registered the timer.
\<close>

theorem xapp_early_answer:
  assumes "x_reach (x, None)" "xa_connected x" "map_of (procs x) k = Some v" "free_timer x tfd"
    and "unat (ric_req_id (sdresp_ric_id resp)) = k"
  shows "let rq = E42_Ric_Sub_Del_Req \<lparr>e42d_xapp_id = xa_id x, e42d_sdr = \<lparr>sdr_ric_id = apv_id v\<rparr>\<rparr> in
     e2ap_msg_handle_xapp (e2ap_send_bytes_xapp x rq) (Ric_Sub_Del_Resp resp) t =
        Inl (Assertion ''Trying to extract a key not found in the tree'') \<and>
     (\<exists>x' x''. rm_report_sm_xapp_api x (int k) tfd = Inr (x', Wait_Rm_Report (of_nat k)) \<and> last (xa_sent x') = rq \<and>
        e2ap_msg_handle_xapp x' (Ric_Sub_Del_Resp resp) t = Inr x'' \<and> pend_pairs x'' = {})"
proof -
  let ?rq = "E42_Ric_Sub_Del_Req \<lparr>e42d_xapp_id = xa_id x, e42d_sdr = \<lparr>sdr_ric_id = apv_id v\<rparr>\<rparr>"
  let ?ev = E42_RIC_SUBSCRIPTION_DELETE_REQUEST_PENDING_EVENT and ?rid = "ric_req_id (sdresp_ric_id resp)"
  note inv = x_reach_inv [OF assms(1)]
  have ok: "xa_ok x" and p: "pend_kinds x = {}" "?ev \<notin> pend_kinds x"
    using inv idle_kinds [OF inv assms(2)] by (simp_all add: x_inv_def)
  have k: "unat ?rid \<in> fst ` set (procs x)"
    unfolding assms(5) by (rule image_eqI [OF _ map_of_SomeD [OF assms(3)]]) simp
  have h: "e2ap_msg_handle_xapp y (Ric_Sub_Del_Resp resp) t = stop_and_signal y ?ev ?rid" for y :: "'a e42_xapp_t"
    by (simp add: e2ap_msg_handle_xapp_def check_valid_msg_type_xapp_def e2ap_handle_subscription_delete_response_xapp_def)
  have early: "stop_and_signal (e2ap_send_bytes_xapp x ?rq) ?ev ?rid = Inl (Assertion ''Trying to extract a key not found in the tree'')"
    by (rule answer_not_pending) (use ok k p in \<open>simp_all add: e2ap_send_bytes_xapp_def\<close>)
  from rm_report_ok [OF ok assms(3) refl p(2) assms(4), unfolded Let_def] obtain act q where
    r: "rm_report_sm_sync_xapp x (int k) tfd = Inr (x\<lparr>xa_act_proc := act, xa_io := tfd # xa_io x, xa_pending := q,
          xa_sent := xa_sent x @ [?rq]\<rparr>, Wait_Rm_Report (of_nat k))"
      "xa_ok (x\<lparr>xa_act_proc := act, xa_io := tfd # xa_io x, xa_pending := q, xa_sent := xa_sent x @ [?rq]\<rparr>)"
      "act_entries act = procs x" "bm_pairs q = insert (tfd, \<lparr>pex_ev = ?ev, pex_id = apv_id v, pex_wait_ms = 10000\<rparr>) (pend_pairs x)"
    by (elim exE conjE)
  let ?x = "x\<lparr>xa_act_proc := act, xa_io := tfd # xa_io x, xa_pending := q, xa_sent := xa_sent x @ [?rq]\<rparr>"
  have "unat ?rid \<in> fst ` set (procs ?x)" "?ev \<in> pend_kinds ?x"
    using k r(3,4) by simp_all
  from pending_answer_ok [OF r(2) this] obtain x'' where a: "stop_and_signal ?x ?ev ?rid = Inr x''" "pend_kinds x'' = pend_kinds ?x - {?ev}"
    by (elim exE conjE)
  have "pend_kinds x'' = {}"
    unfolding a(2) using r(4) p(1) by simp
  then show ?thesis
    unfolding Let_def h using early r(1) a(1)
    by (intro conjI exI [of _ ?x] exI [of _ x'']) (simp_all add: rm_report_sm_xapp_api_def)
qed


text \<open>A subscription of the example, and the state after it.\<close>

lemma tc_report_waits:
  "\<exists>(x :: string list e42_xapp_t) q. x_reach (x, Some (Wait_Report 1)) \<and> (6, q) \<in> pend_pairs x \<and> xa_fd x = 4 \<and>
     pex_ev q = E42_RIC_SUBSCRIPTION_REQUEST_PENDING_EVENT"
proof -
  obtain x :: "string list e42_xapp_t" where x: "x_reach (x, None)" "xa_connected x" "pend_pairs x = {}"
    "xa_plugin_ric x = tc_sm_ds" "next_id x = 1" "set (reg_nodes (xa_e2_nodes x)) = {example_node}" "xa_fd x = 4"
    using example_xapp_connected [OF tc_ds_ok] by (elim exE conjE)
  have "sub_ready x (ucast (146 :: u32)) [1] tc_sm"
    using tc_sm_ds_ok(2) by (simp add: sub_ready_def valid_ran_func_id_def x(4) tc_sm_def)
  from report_step [OF x(1) tc_report_expected(1) [OF x] this, unfolded Let_def x(5) of_nat_1] show ?thesis
    by (elim exE conjE) (intro exI [of _ "\<lparr>pex_ev = E42_RIC_SUBSCRIPTION_REQUEST_PENDING_EVENT, pex_id = gen_id 1 146,
        pex_wait_ms = 5000\<rparr>"] exI conjI, assumption, simp_all add: x(7))
qed

lemma tc_report_done:
  "\<exists>(x :: string list e42_xapp_t) v. x_reach (x, None) \<and> xa_connected x \<and> map_of (procs x) 1 = Some v \<and> free_timer x 7"
proof -
  obtain x :: "string list e42_xapp_t" and q where x: "x_reach (x, Some (Wait_Report 1))" "(6, q) \<in> pend_pairs x" "xa_fd x = 4"
    "pex_ev q = E42_RIC_SUBSCRIPTION_REQUEST_PENDING_EVENT"
    using tc_report_waits by (elim exE conjE)
  note inv = x_reach_inv [OF x(1)]
  have k: "E42_RIC_SUBSCRIPTION_REQUEST_PENDING_EVENT \<in> pend_kinds x"
    using kinds_mem [OF x(2)] by (simp add: x(4))
  have "ric_req_id (sresp_ric_id (accepted (gen_id 1 146))) = 1"
    by simp
  from subscribed_step [OF x(1) k this, of 9] obtain x' where x': "x_reach (x', None)" "xa_connected x'" "pend_pairs x' = {}"
    "procs x' = procs x" "same_xapp x x'"
    by (elim exE conjE)
  have "act_inv (xa_act_proc x)" "(1 :: nat) \<in> fst ` set (procs x)"
    using inv x_inv_waits(3) [OF inv] by (simp_all add: x_inv_def xa_ok_def)
  from active_id(3) [OF this] obtain v where "map_of (procs x') 1 = Some v"
    unfolding x'(4) by (elim exE)
  moreover have "free_timer x' 7"
    by (rule connected_free_timer [OF x'(1,3)]) (use x(3) x'(5) in \<open>simp_all add: same_xapp_def\<close>)
  ultimately show ?thesis
    using x'(1,2) by (intro exI conjI)
qed

theorem xapp_early_answer_witness:
  "\<exists>(x :: string list e42_xapp_t) rq x'. x_reach (x, None) \<and>
     e2ap_msg_handle_xapp (e2ap_send_bytes_xapp x rq) (Ric_Sub_Del_Resp \<lparr>sdresp_ric_id = gen_id 1 146\<rparr>) 9 =
        Inl (Assertion ''Trying to extract a key not found in the tree'') \<and>
     rm_report_sm_xapp_api x 1 7 = Inr (x', Wait_Rm_Report 1)"
proof -
  obtain x :: "string list e42_xapp_t" and v where x: "x_reach (x, None)" "xa_connected x" "map_of (procs x) 1 = Some v" "free_timer x 7"
    using tc_report_done by (elim exE conjE)
  have "unat (ric_req_id (sdresp_ric_id \<lparr>sdresp_ric_id = gen_id 1 146\<rparr>)) = 1"
    by simp
  from xapp_early_answer [OF x this, of 9, unfolded Let_def] show ?thesis
    using x(1) by (elim exE conjE) (intro exI conjI, assumption, assumption, simp)
qed

section \<open>A subscription that is never answered\<close>

abbreviation sub_timeout :: "int \<Rightarrow> 'h e42_xapp_t \<Rightarrow> 'h e42_xapp_t" where
  "sub_timeout fd x \<equiv> after_timeout x fd E42_RIC_SUBSCRIPTION_REQUEST_PENDING_EVENT"

lemma sub_timeout_keeps:
  "xa_ok (sub_timeout fd x) = xa_ok x" "xa_pending (sub_timeout fd x) = xa_pending x"
  by (simp_all add: after_timeout_def)

lemma timeout_rounds:
  assumes "xa_ok x" "(fd, q) \<in> pend_pairs x" "pex_ev q = E42_RIC_SUBSCRIPTION_REQUEST_PENDING_EVENT"
  shows "fold_res (\<lambda>msg x. e2_event_loop_xapp x fd msg tfd) (replicate k msg) x = Inr ((sub_timeout fd ^^ k) x)"
  using assms
proof (induction k arbitrary: x)
  case (Suc k)
  have "e2_event_loop_xapp x fd msg tfd = Inr (sub_timeout fd x)"
    using timer_round [OF Suc.prems(1,2)] Suc.prems(3) by simp
  then show ?case
    using Suc.IH [of "sub_timeout fd x"] Suc.prems by (simp del: funpow.simps add: sub_timeout_keeps funpow_Suc_right)
qed simp

lemma four_timeouts:
  "(sub_timeout fd ^^ 4) x = x\<lparr>xa_retry_count := min (xa_retry_count x) 3,
     xa_sent := xa_sent x @ replicate 3 (E42_Stp_Req \<lparr>e42_ran_func_item = rf_list x\<rparr>),
     xa_consumed := xa_consumed x @ replicate 3 fd\<rparr>"
proof -
  have f: "(sub_timeout fd ^^ 4) x = sub_timeout fd (sub_timeout fd (sub_timeout fd (sub_timeout fd x)))"
    and r: "replicate 3 a = [a, a, a]" for a :: 'b
    by (simp_all add: eval_nat_numeral)
  consider "xa_retry_count x = 0" | "xa_retry_count x = 1" | "xa_retry_count x = 2" | "3 \<le> xa_retry_count x"
    by linarith
  then show ?thesis
    unfolding f r by cases (rule e42_xapp_t.equality; simp add: after_timeout_def min_def)+
qed

lemma many_timeouts:
  "\<exists>c t. (sub_timeout fd ^^ (4 * n)) x = x\<lparr>xa_retry_count := c,
     xa_sent := xa_sent x @ replicate (3 * n) (E42_Stp_Req \<lparr>e42_ran_func_item = rf_list x\<rparr>), xa_consumed := t\<rparr>"
proof (induction n)
  case 0
  show ?case
    by (intro exI [of _ "xa_retry_count x"] exI [of _ "xa_consumed x"]) simp
next
  case (Suc n)
  have r: "replicate (3 * Suc n) a = replicate (3 * n) a @ replicate 3 a" for a :: 'b
    by (simp flip: replicate_add add: add.commute)
  obtain c t where y: "(sub_timeout fd ^^ (4 * n)) x = x\<lparr>xa_retry_count := c,
      xa_sent := xa_sent x @ replicate (3 * n) (E42_Stp_Req \<lparr>e42_ran_func_item = rf_list x\<rparr>), xa_consumed := t\<rparr>"
    using Suc.IH by (elim exE)
  have "(sub_timeout fd ^^ (4 * Suc n)) x = (sub_timeout fd ^^ 4) ((sub_timeout fd ^^ (4 * n)) x)"
    by (simp only: mult_Suc_right funpow_add comp_apply)
  then show ?case
    unfolding y r by (intro exI [of _ "min c 3"] exI [of _ "t @ replicate 3 fd"]) (simp add: four_timeouts)
qed

text \<open>
  C25. While a subscription is not answered its timer expires again and again: three times out of four
  the xApp repeats its setup request, not the subscription, the timer stays registered and armed however
  often it expires, and the caller whose wait is over is told that the subscription was successful.
\<close>

theorem xapp_timeout_repeats:
  assumes "x_reach (x, Some (Wait_Report rid))" "(fd, q) \<in> pend_pairs x"
  shows "\<exists>x'. fold_res (\<lambda>msg x. e2_event_loop_xapp x fd msg tfd) (replicate (4 * n) msg) x = Inr x' \<and>
     xa_sent x' = xa_sent x @ replicate (3 * n) (E42_Stp_Req \<lparr>e42_ran_func_item = rf_list x\<rparr>) \<and>
     xa_pending x' = xa_pending x \<and> xa_act_proc x' = xa_act_proc x \<and>
     after_wait x' (Wait_Report rid) = Inr (x', \<lparr>san_success = True, san_handle = uint rid\<rparr>)"
proof -
  note inv = x_reach_inv [OF assms(1)]
  have ok: "xa_ok x" and k: "pend_kinds x \<subseteq> {E42_RIC_SUBSCRIPTION_REQUEST_PENDING_EVENT}"
    using inv subset_insert_absent [OF _ x_inv_waits(2) [OF inv]] by (simp_all add: x_inv_def)
  have q: "pex_ev q = E42_RIC_SUBSCRIPTION_REQUEST_PENDING_EVENT"
    using k kinds_mem [OF assms(2)] by blast
  obtain c t where "(sub_timeout fd ^^ (4 * n)) x = x\<lparr>xa_retry_count := c,
      xa_sent := xa_sent x @ replicate (3 * n) (E42_Stp_Req \<lparr>e42_ran_func_item = rf_list x\<rparr>), xa_consumed := t\<rparr>"
    using many_timeouts [of n fd x] by (elim exE)
  then show ?thesis
    unfolding timeout_rounds [OF ok assms(2) q] by simp
qed

theorem xapp_timeout_repeats_witness:
  "\<exists>(x :: string list e42_xapp_t) x'. x_reach (x, Some (Wait_Report 1)) \<and>
     fold_res (\<lambda>msg x. e2_event_loop_xapp x 6 msg 9) (replicate 400 (Ric_Ind undefined)) x = Inr x' \<and>
     length (xa_sent x') = length (xa_sent x) + 300 \<and> after_wait x' (Wait_Report 1) = Inr (x', \<lparr>san_success = True, san_handle = 1\<rparr>)"
proof -
  obtain x :: "string list e42_xapp_t" and q where x: "x_reach (x, Some (Wait_Report 1))" "(6, q) \<in> pend_pairs x"
    using tc_report_waits by (elim exE conjE)
  obtain x' where "fold_res (\<lambda>msg x. e2_event_loop_xapp x 6 msg 9) (replicate (4 * 100) (Ric_Ind undefined)) x = Inr x'"
    "xa_sent x' = xa_sent x @ replicate (3 * 100) (E42_Stp_Req \<lparr>e42_ran_func_item = rf_list x\<rparr>)"
    "after_wait x' (Wait_Report 1) = Inr (x', \<lparr>san_success = True, san_handle = uint (1 :: u32)\<rparr>)"
    using xapp_timeout_repeats [OF x, of 9 100 "Ric_Ind undefined"] by (elim exE conjE)
  then show ?thesis
    using x(1) by (intro exI [of _ x] exI [of _ x']) simp
qed

section \<open>Release\<close>

lemma ball_only: "(\<And>e. e \<in> S \<Longrightarrow> P e \<longleftrightarrow> e = a) \<Longrightarrow> (\<forall>e \<in> S. P e) \<longleftrightarrow> S \<subseteq> {a}"
  by auto

lemma depth_first_free_fails:
  assumes "\<And>k v. (k, v) \<in> set (inorder t) \<Longrightarrow> f k v = (if ok k v then Inr () else Inl e)"
  shows "depth_first_search_free (Some f) t = (if \<forall>(k, v) \<in> set (inorder t). ok k v then Inr () else Inl e)"
  using assms by (induction t) auto

lemma free_pending_xapp:
  assumes "io_ok x"
  shows "bi_map_free (xa_pending x) = (if \<forall>(fd, q) \<in> pend_pairs x. valid_pending_event (pex_ev q) = Inr True
     then Inr () else Inl (Assertion ''valid_pending_event''))"
proof -
  let ?m = "xa_pending x"
  have t: "xpend.inv ?m" "rb_free (bm_left ?m) = Some free_fd_xapp" "rb_free (bm_right ?m) = Some free_pending_ev_xapp"
    and p: "\<forall>e \<in> pend_pairs x. 0 < fst e"
    using assms by (simp_all add: io_ok_def pend_table_def)
  have r: "rb_set (bm_right ?m) = prod.swap ` pend_pairs x"
    using t(1) by (simp add: bm_inv_def)
  have l: "assoc_rb_tree_free (bm_left ?m) = Inr ()"
    unfolding assoc_rb_tree_free_def t(2) by (rule depth_first_free_ok) (use p in \<open>auto simp: free_fd_xapp_def\<close>)
  have "assoc_rb_tree_free (bm_right ?m) = (if \<forall>(q, fd) \<in> rb_set (bm_right ?m). valid_pending_event (pex_ev q) = Inr True
     then Inr () else Inl (Assertion ''valid_pending_event''))"
    unfolding assoc_rb_tree_free_def t(3)
    by (rule depth_first_free_fails) (simp add: free_pending_ev_xapp_def valid_pending_event_def chk_def)
  then show ?thesis
    unfolding r by (simp add: bi_map_free_def l split_beta)
qed

text \<open>
  C22. The release of an xApp comes to an end from every state that it reaches.  It succeeds when no
  request of a caller is pending: the data base is left as it is, the indications that are still
  queued for it and for the callbacks are dropped.  With a pending request it fails in an assertion
  that does not know the events of an xApp.
\<close>

theorem xapp_release:
  assumes "x_reach (x, ui)"
  shows "free_e42_xapp view exec x = Some
     (if pend_kinds x \<subseteq> {E42_SETUP_REQUEST_PENDING_EVENT}
      then Inr ((db_handler (xa_db x), length (db_queued (xa_db x))), disp_called (xa_msg_disp x))
      else Inl (Assertion ''valid_pending_event''))"
proof -
  note inv = x_reach_inv [OF assms]
  have ok: "xa_ok x" and k: "pend_kinds x \<subseteq> insert E42_SETUP_REQUEST_PENDING_EVENT (wait_kind ` set_option ui)"
    using inv by (simp_all add: x_inv_def)
  have r: "free_reg_e2_node (xa_e2_nodes x) = Inr ()"
    using free_reg_ok [of "node_to_rf (xa_e2_nodes x)"] xa_okD(5) [OF ok] by (simp add: free_reg_e2_node_def reg_ok_def)
  have v: "valid_pending_event ev = Inr True \<longleftrightarrow> ev = E42_SETUP_REQUEST_PENDING_EVENT" if "ev \<in> pend_kinds x" for ev
    using subsetD [OF k that] by (cases ui; cases "the ui") (auto simp: valid_pending_event_def chk_def)
  have "(\<forall>(fd, q) \<in> pend_pairs x. valid_pending_event (pex_ev q) = Inr True) \<longleftrightarrow>
      (\<forall>ev \<in> pend_kinds x. valid_pending_event ev = Inr True)"
    by (simp add: split_beta)
  also have "\<dots> \<longleftrightarrow> pend_kinds x \<subseteq> {E42_SETUP_REQUEST_PENDING_EVENT}"
    by (rule ball_only) (rule v)
  finally have "(\<forall>(fd, q) \<in> pend_pairs x. valid_pending_event (pex_ev q) = Inr True) \<longleftrightarrow> pend_kinds x \<subseteq> {E42_SETUP_REQUEST_PENDING_EVENT}" .
  then show ?thesis
    using free_pending_xapp [OF xa_okD(1) [OF ok]] r close_db_ok [OF xa_okD(6) [OF ok], of view exec]
    by (simp add: free_e42_xapp_def free_msg_dispatcher_def dispatcher_stops)
qed

theorem xapp_release_witness:
  "\<exists>x y :: string list e42_xapp_t. x_reach (x, Some (Wait_Control 1)) \<and> x_reach (y, None) \<and> xa_connected y \<and>
     free_e42_xapp example_view log_exec x = Some (Inl (Assertion ''valid_pending_event'')) \<and>
     free_e42_xapp example_view log_exec y = Some (Inr ((db_handler (xa_db y), 0), []))"
proof -
  obtain x :: "string list e42_xapp_t" where x: "x_reach (x, Some (Wait_Control 1))"
    "pend_kinds x = {E42_RIC_CONTROL_REQUEST_PENDING_EVENT}"
    using tc_control_waits by (elim exE conjE)
  obtain y :: "string list e42_xapp_t" where y: "x_reach (y, None)" "xa_connected y" "pend_pairs y = {}"
    "disp_called (xa_msg_disp y) = []" "db_queued (xa_db y) = []"
    using example_xapp_connected [OF tc_ds_ok] by (elim exE conjE)
  have "free_e42_xapp example_view log_exec y = Some (Inr ((db_handler (xa_db y), 0), []))"
    unfolding xapp_release [OF y(1)] y(3-5) by simp
  moreover have "free_e42_xapp example_view log_exec x = Some (Inl (Assertion ''valid_pending_event''))"
    unfolding xapp_release [OF x(1)] x(2) by simp
  ultimately show ?thesis
    using x(1) y(1,2) by (intro exI conjI)
qed

end
