(* ===== verification/Xapp_Nodes.thy ===== *)
theory Xapp_Nodes
  imports Xapp_Props
begin

text \<open>
  The list of the E2 nodes that an xApp gives to its user: \<^verbatim>\<open>e2_nodes_xapp\<close> in
  \<^verbatim>\<open>xApp/e42_xapp.c\<close> and \<^verbatim>\<open>generate_e2_node_arr_xapp\<close> in \<^verbatim>\<open>lib/msg_hand/reg_e2_nodes.c\<close>.  The
  definition of each RAN function is decoded by the service model of the xApp; what a service model
  makes of the bytes is the argument \<open>on_e2_setup\<close>, the members of the unions are a type variable.
\<close>

section \<open>Decoded RAN functions\<close>

datatype sm_ag_if_rd_e2setup_e =
    MAC_AGENT_IF_E2_SETUP_ANS_V0 | RLC_AGENT_IF_E2_SETUP_ANS_V0 | PDCP_AGENT_IF_E2_SETUP_ANS_V0
  | SLICE_AGENT_IF_E2_SETUP_ANS_V0 | TC_AGENT_IF_E2_SETUP_ANS_V0 | GTP_AGENT_IF_E2_SETUP_ANS_V0
  | KPM_V3_0_AGENT_IF_E2_SETUP_ANS_V0 | RAN_CTRL_V1_3_AGENT_IF_E2_SETUP_ANS_V0 | SM_AGENT_IF_E2_SETUP_ANS_V0_END

record 'd sm_ag_if_rd_e2setup_t =
  e2s_type :: sm_ag_if_rd_e2setup_e
  e2s_def :: 'd

datatype ran_func_def_e =
    KPM_RAN_FUNC_DEF_E | RC_RAN_FUNC_DEF_E | MAC_RAN_FUNC_DEF_E | RLC_RAN_FUNC_DEF_E | PDCP_RAN_FUNC_DEF_E
  | GTP_RAN_FUNC_DEF_E | SLICE_RAN_FUNC_DEF_E | TC_RAN_FUNC_DEF_E

record 'd sm_ran_function_def_t =
  rfd_type :: ran_func_def_e
  rfd_def :: 'd

record 'd sm_ran_function_t =
  smf_defn :: "'d sm_ran_function_def_t"
  smf_id :: u16
  smf_rev :: u16
  smf_oid :: byte_array_t

record 'd e2_node_connected_xapp_t =
  nx_id :: global_e2_node_id_t
  nx_cca :: "e2ap_node_component_config_add_t list"
  nx_rf :: "'d sm_ran_function_t list"

definition mv_rd_e2_setup :: "'d sm_ag_if_rd_e2setup_t \<Rightarrow> 'd sm_ran_function_def_t res" where
  "mv_rd_e2_setup src =
     (let t = e2s_type src; d = e2s_def src in
      if t = MAC_AGENT_IF_E2_SETUP_ANS_V0 then Inr \<lparr>rfd_type = MAC_RAN_FUNC_DEF_E, rfd_def = d\<rparr>
      else if t = RLC_AGENT_IF_E2_SETUP_ANS_V0 then Inr \<lparr>rfd_type = RLC_RAN_FUNC_DEF_E, rfd_def = d\<rparr>
      else if t = PDCP_AGENT_IF_E2_SETUP_ANS_V0 then Inr \<lparr>rfd_type = PDCP_RAN_FUNC_DEF_E, rfd_def = d\<rparr>
      else if t = SLICE_AGENT_IF_E2_SETUP_ANS_V0 then Inr \<lparr>rfd_type = SLICE_RAN_FUNC_DEF_E, rfd_def = d\<rparr>
      else if t = TC_AGENT_IF_E2_SETUP_ANS_V0 then Inr \<lparr>rfd_type = TC_RAN_FUNC_DEF_E, rfd_def = d\<rparr>
      else if t = GTP_AGENT_IF_E2_SETUP_ANS_V0 then Inr \<lparr>rfd_type = GTP_RAN_FUNC_DEF_E, rfd_def = d\<rparr>
      else if t = KPM_V3_0_AGENT_IF_E2_SETUP_ANS_V0 then Inr \<lparr>rfd_type = KPM_RAN_FUNC_DEF_E, rfd_def = d\<rparr>
      else if t = RAN_CTRL_V1_3_AGENT_IF_E2_SETUP_ANS_V0 then Inr \<lparr>rfd_type = RC_RAN_FUNC_DEF_E, rfd_def = d\<rparr>
      else Inl (Assertion ''Unknown types''))"

definition dec_ran_func ::
  "(sm_ric_t \<Rightarrow> byte_array_t \<Rightarrow> 'd sm_ag_if_rd_e2setup_t) \<Rightarrow> (u16, sm_ric_t) assoc_rb_tree_t \<Rightarrow> ran_function_t \<Rightarrow>
   'd sm_ran_function_t res" where
  "dec_ran_func on_e2_setup plg_ric rf =
     bnd (lookup_if plg_ric (eq_ran_func_id (rf_id rf))) (\<lambda>v.
     bnd (found v ''RAN Function not found'') (\<lambda>sm.
     bnd (mv_rd_e2_setup (on_e2_setup sm (rf_defn rf))) (\<lambda>defn.
     Inr \<lparr>smf_defn = defn, smf_id = rf_id rf, smf_rev = rf_rev rf, smf_oid = copy_byte_array (rf_oid rf)\<rparr>)))"

section \<open>The array of the nodes\<close>

text \<open>As for the setup response, the array has an 8-bit length and the loop runs over the tree.\<close>

definition gen_node_xapp ::
  "(sm_ric_t \<Rightarrow> byte_array_t \<Rightarrow> 'd sm_ag_if_rd_e2setup_t) \<Rightarrow> (u16, sm_ric_t) assoc_rb_tree_t \<Rightarrow> nat \<Rightarrow>
   global_e2_node_id_t \<Rightarrow> pair_rf_cca_t \<Rightarrow> 'd e2_node_connected_xapp_t list \<Rightarrow> 'd e2_node_connected_xapp_t list res" where
  "gen_node_xapp on_e2_setup plg_ric len tmp_id rf_cca dst =
     (if length dst < len then
        bnd (cp_cca (prf_comp_conf_add rf_cca)) (\<lambda>cca.
        bnd (for_arr (\<lambda>r rf. bnd (dec_ran_func on_e2_setup plg_ric r) (\<lambda>f. Inr (rf @ [f]))) (prf_ran_func rf_cca) []) (\<lambda>rf.
        Inr (dst @ [\<lparr>nx_id = cp_global_e2_node_id tmp_id, nx_cca = cca, nx_rf = rf\<rparr>])))
      else Inl (Heap_Overflow ''dst.n[i]''))"

definition generate_e2_node_arr_xapp ::
  "(sm_ric_t \<Rightarrow> byte_array_t \<Rightarrow> 'd sm_ag_if_rd_e2setup_t) \<Rightarrow> reg_e2_nodes_t \<Rightarrow> (u16, sm_ric_t) assoc_rb_tree_t \<Rightarrow>
   'd e2_node_connected_xapp_t list res" where
  "generate_e2_node_arr_xapp on_e2_setup n plg_ric =
     bnd (cp_reg_e2_node n) (\<lambda>t.
     let len = of_nat (assoc_rb_tree_size t) :: u8 in
     bnd (for_tree (gen_node_xapp on_e2_setup plg_ric (unat len)) (assoc_rb_tree_front t) []) (\<lambda>dst.
     bnd (assoc_rb_tree_free t) (\<lambda>_. Inr dst)))"

definition e2_nodes_xapp ::
  "(sm_ric_t \<Rightarrow> byte_array_t \<Rightarrow> 'd sm_ag_if_rd_e2setup_t) \<Rightarrow> 'h e42_xapp_t \<Rightarrow> 'd e2_node_connected_xapp_t list res" where
  "e2_nodes_xapp on_e2_setup xapp = generate_e2_node_arr_xapp on_e2_setup (xa_e2_nodes xapp) (xa_plugin_ric xapp)"

section \<open>What the user gets\<close>

fun func_def_of :: "sm_ag_if_rd_e2setup_e \<Rightarrow> ran_func_def_e" where
  "func_def_of MAC_AGENT_IF_E2_SETUP_ANS_V0 = MAC_RAN_FUNC_DEF_E"
| "func_def_of RLC_AGENT_IF_E2_SETUP_ANS_V0 = RLC_RAN_FUNC_DEF_E"
| "func_def_of PDCP_AGENT_IF_E2_SETUP_ANS_V0 = PDCP_RAN_FUNC_DEF_E"
| "func_def_of SLICE_AGENT_IF_E2_SETUP_ANS_V0 = SLICE_RAN_FUNC_DEF_E"
| "func_def_of TC_AGENT_IF_E2_SETUP_ANS_V0 = TC_RAN_FUNC_DEF_E"
| "func_def_of GTP_AGENT_IF_E2_SETUP_ANS_V0 = GTP_RAN_FUNC_DEF_E"
| "func_def_of KPM_V3_0_AGENT_IF_E2_SETUP_ANS_V0 = KPM_RAN_FUNC_DEF_E"
| "func_def_of _ = RC_RAN_FUNC_DEF_E"

abbreviation rd_moved :: "'d sm_ag_if_rd_e2setup_t \<Rightarrow> 'd sm_ran_function_def_t" where
  "rd_moved s \<equiv> \<lparr>rfd_type = func_def_of (e2s_type s), rfd_def = e2s_def s\<rparr>"

lemma mv_rd_ok: "e2s_type s \<noteq> SM_AGENT_IF_E2_SETUP_ANS_V0_END \<Longrightarrow> mv_rd_e2_setup s = Inr (rd_moved s)"
  by (cases "e2s_type s") (simp_all add: mv_rd_e2_setup_def Let_def)

definition user_function ::
  "(sm_ric_t \<Rightarrow> byte_array_t \<Rightarrow> 'd sm_ag_if_rd_e2setup_t) \<Rightarrow> (u16, sm_ric_t) assoc_rb_tree_t \<Rightarrow> ran_function_t \<Rightarrow>
   'd sm_ran_function_t" where
  "user_function on_e2_setup plg_ric r =
     \<lparr>smf_defn = rd_moved (on_e2_setup (the (map_of (rb_entries plg_ric) (rf_id r))) (rf_defn r)),
      smf_id = rf_id r, smf_rev = rf_rev r, smf_oid = rf_oid r\<rparr>"

definition user_node ::
  "(sm_ric_t \<Rightarrow> byte_array_t \<Rightarrow> 'd sm_ag_if_rd_e2setup_t) \<Rightarrow> (u16, sm_ric_t) assoc_rb_tree_t \<Rightarrow> e2_node_connected_t \<Rightarrow>
   'd e2_node_connected_xapp_t" where
  "user_node on_e2_setup plg_ric n =
     \<lparr>nx_id = con_id n, nx_cca = con_cca n, nx_rf = map (user_function on_e2_setup plg_ric) (con_ack_rf n)\<rparr>"

abbreviation known_functions :: "(u16, sm_ric_t) assoc_rb_tree_t \<Rightarrow> ran_function_t list \<Rightarrow> bool" where
  "known_functions plg_ric rs \<equiv> \<forall>r \<in> set rs. rf_id r \<in> fst ` rb_set plg_ric"

lemma find_key: "map_option snd (List.find (\<lambda>e. k = fst e) es) = map_of es k"
  by (induction es) auto

lemma fold_append_or_fail:
  assumes "\<And>x. x \<in> set xs \<Longrightarrow> f x = (if P x then Inr (g x) else Inl e)"
  shows "fold_res (\<lambda>x dst. bnd (f x) (\<lambda>y. Inr (dst @ [y]))) xs s = (if \<forall>x \<in> set xs. P x then Inr (s @ map g xs) else Inl e)"
  using assms by (induction xs arbitrary: s) auto

lemma reg_nodes_distinct: "reg_ok r \<Longrightarrow> distinct (map con_id (reg_nodes r))"
  by (auto simp: reg_ok_def tree_ok_def rb_uniq_def reg_nodes_def node_entry_def distinct_map inj_on_def)

lemma dec_ran_func_ok:
  assumes "\<And>sm d. e2s_type (on_e2_setup sm d) \<noteq> SM_AGENT_IF_E2_SETUP_ANS_V0_END"
  shows "dec_ran_func on_e2_setup plg_ric r =
     (if rf_id r \<in> fst ` rb_set plg_ric then Inr (user_function on_e2_setup plg_ric r)
      else Inl (Assertion ''RAN Function not found''))"
proof -
  have "lookup_if plg_ric (eq_ran_func_id (rf_id r)) = Inr (map_of (rb_entries plg_ric) (rf_id r))"
    using lookup_if_ok [of plg_ric "eq_ran_func_id (rf_id r)" "\<lambda>k. rf_id r = k"] by (simp add: eq_ran_func_id_def find_key)
  then show ?thesis
    by (cases "map_of (rb_entries plg_ric) (rf_id r)")
      (auto simp: dec_ran_func_def user_function_def mv_rd_ok [OF assms] map_of_eq_None_iff dest: map_of_SomeD intro: rev_image_eqI)
qed

lemma gen_node_xapp_ok:
  assumes "entry_ok (snd e)" "\<And>sm d. e2s_type (on_e2_setup sm d) \<noteq> SM_AGENT_IF_E2_SETUP_ANS_V0_END" "length dst < len"
  shows "gen_node_xapp on_e2_setup plg_ric len (fst e) (snd e) dst =
     (if known_functions plg_ric (con_ack_rf (node_entry e)) then Inr (dst @ [user_node on_e2_setup plg_ric (node_entry e)])
      else Inl (Assertion ''RAN Function not found''))"
proof -
  note d = dec_ran_func_ok [of on_e2_setup, OF assms(2)]
  have "for_arr (\<lambda>r rf. bnd (dec_ran_func on_e2_setup plg_ric r) (\<lambda>f. Inr (rf @ [f]))) (prf_ran_func (snd e)) [] =
     (if known_functions plg_ric (con_ack_rf (node_entry e))
      then Inr ([] @ map (user_function on_e2_setup plg_ric) (con_ack_rf (node_entry e)))
      else Inl (Assertion ''RAN Function not found''))"
    using assms(1) fold_append_or_fail [of "con_ack_rf (node_entry e)" "dec_ran_func on_e2_setup plg_ric", OF d, of "[]"]
    by (simp add: for_arr_ok entry_ok_def node_entry_def)
  then show ?thesis
    using assms(1,3) by (simp add: gen_node_xapp_def cp_cca_list user_node_def node_entry_def entry_ok_def)
qed

lemma gen_nodes_xapp_ok:
  assumes "\<forall>e \<in> set es. entry_ok (snd e)" "\<And>sm d. e2s_type (on_e2_setup sm d) \<noteq> SM_AGENT_IF_E2_SETUP_ANS_V0_END"
    and "length dst + length es \<le> len"
  shows "fold_res (\<lambda>e. gen_node_xapp on_e2_setup plg_ric len (fst e) (snd e)) es dst =
     (if \<forall>e \<in> set es. known_functions plg_ric (con_ack_rf (node_entry e))
      then Inr (dst @ map (\<lambda>e. user_node on_e2_setup plg_ric (node_entry e)) es)
      else Inl (Assertion ''RAN Function not found''))"
  using assms(1,3)
proof (induction es arbitrary: dst)
  case (Cons e es)
  have "entry_ok (snd e)" "length dst < len"
    using Cons.prems by simp_all
  note g = gen_node_xapp_ok [of e on_e2_setup, OF this(1) assms(2) this(2), of plg_ric]
  show ?case
    using Cons.IH [of "dst @ [user_node on_e2_setup plg_ric (node_entry e)]"] Cons.prems by (simp add: g)
qed simp

text \<open>
  C32. The user of an xApp gets every E2 node of the registry, in order, with its configurations and
  with each RAN function decoded by the service model that has its number; when one RAN function of
  one node has no service model in the xApp, the call ends the process.
\<close>

theorem xapp_lists_nodes:
  assumes "x_reach (x, ui)" "length (reg_nodes (xa_e2_nodes x)) < 256"
    and "\<And>sm d. e2s_type (on_e2_setup sm d) \<noteq> SM_AGENT_IF_E2_SETUP_ANS_V0_END"
  shows "e2_nodes_xapp on_e2_setup x =
     (if \<forall>n \<in> set (reg_nodes (xa_e2_nodes x)). known_functions (xa_plugin_ric x) (con_ack_rf n)
      then Inr (map (user_node on_e2_setup (xa_plugin_ric x)) (reg_nodes (xa_e2_nodes x)))
      else Inl (Assertion ''RAN Function not found''))"
proof -
  let ?r = "xa_e2_nodes x"
  have "reg_ok ?r"
    using x_reach_inv [OF assms(1)] by (simp add: x_inv_def xa_ok_def)
  then obtain t where t: "cp_reg_e2_node ?r = Inr t" "tree_ok t" "map node_entry (rb_entries t) = reg_nodes ?r"
    using cp_reg_e2_node_ok by blast
  have l: "length (rb_entries t) = length (reg_nodes ?r)" "assoc_rb_tree_size t = length (reg_nodes ?r)"
    using t(2) by (simp_all flip: t(3) add: tree_ok_def rb_inv_def assoc_rb_tree_size_def)
  have e: "\<forall>e \<in> rb_set t. entry_ok (snd e)"
    using t(2) by (simp add: tree_ok_def)
  have n: "length (rb_entries t) \<le> unat (of_nat (length (reg_nodes ?r)) :: u8)"
    using assms(2) l(1) by (simp add: unat_of_nat_8)
  show ?thesis
    using free_reg_ok [OF t(2)] gen_nodes_xapp_ok [of "rb_entries t" on_e2_setup "[]" "unat (of_nat (length (reg_nodes ?r)) :: u8)"
      "xa_plugin_ric x", OF e assms(3)] n
    unfolding e2_nodes_xapp_def generate_e2_node_arr_xapp_def t(1) bnd_simps for_tree_front l(2) Let_def
    by (simp flip: t(3))
qed

theorem xapp_lists_nodes_witness:
  "\<exists>(x :: string list e42_xapp_t) (y :: string list e42_xapp_t). x_reach (x, None) \<and> xa_connected x \<and>
     e2_nodes_xapp (\<lambda>sm d. \<lparr>e2s_type = TC_AGENT_IF_E2_SETUP_ANS_V0, e2s_def = d\<rparr>) x =
       Inl (Assertion ''RAN Function not found'') \<and>
     e2_nodes_xapp (\<lambda>sm d. \<lparr>e2s_type = TC_AGENT_IF_E2_SETUP_ANS_V0, e2s_def = d\<rparr>) y = Inr []"
proof -
  let ?f = "\<lambda>(sm :: sm_ric_t) (d :: byte_array_t). \<lparr>e2s_type = TC_AGENT_IF_E2_SETUP_ANS_V0, e2s_def = d\<rparr>"
  have f: "e2s_type (?f sm d) \<noteq> SM_AGENT_IF_E2_SETUP_ANS_V0_END" for sm :: sm_ric_t and d :: byte_array_t
    by simp
  obtain x :: "string list e42_xapp_t" where x: "x_reach (x, None)" "xa_connected x" "xa_plugin_ric x = tc_sm_ds"
    "set (reg_nodes (xa_e2_nodes x)) = {example_node}"
    using example_xapp_connected [OF tc_ds_ok] by (elim exE conjE)
  obtain y :: "string list e42_xapp_t" where y: "x_reach (y, None)" "\<not> xa_connected y"
    using example_xapp_started [OF tc_ds_ok] by (elim exE conjE)
  have "reg_ok (xa_e2_nodes x)"
    using x_reach_inv [OF x(1)] by (simp add: x_inv_def xa_ok_def)
  then have "distinct (reg_nodes (xa_e2_nodes x))"
    using reg_nodes_distinct [of "xa_e2_nodes x"] by (simp add: distinct_map)
  from distinct_card [OF this] have "length (reg_nodes (xa_e2_nodes x)) < 256"
    by (simp add: x(4))
  note lx = xapp_lists_nodes [OF x(1) this f]
  have "reg_nodes (xa_e2_nodes y) = []"
    using x_reach_inv [OF y(1)] y(2) by (simp add: x_inv_def)
  then have "e2_nodes_xapp ?f y = Inr []"
    using xapp_lists_nodes [OF y(1) _ f] by simp
  moreover have "e2_nodes_xapp ?f x = Inl (Assertion ''RAN Function not found'')"
    unfolding lx x(3,4) using tc_sm_ds_ok(2) by (simp add: kpm_function_def)
  ultimately show ?thesis
    using x(1,2) by (intro exI conjI)
qed

end
