(* ===== verification/Flex_System.thy ===== *)
theory Flex_System
  imports Xapp_Nodes Ric_Agent
begin

text \<open>
  The whole system: an xApp, the near-RT RIC with its iApp, and an E2 agent.  The setup of an xApp
  with the iApp, and the way of a measurement from the RAN through agent, RIC, iApp and xApp to the
  data base and to the callback of the user.  What one side sends is what the other receives.
\<close>

section \<open>The setup of an xApp\<close>

text \<open>The nodes that a RIC has registered can be registered by an xApp.\<close>

lemma reg_nodes_new:
  assumes "reg_ok r" "\<forall>n \<in> set (reg_nodes r). plain_node (con_id n) \<and> con_ack_rf n \<noteq> []"
  shows "nodes_new (reg_nodes r)"
proof -
  have t: "tree_ok (node_to_rf r)"
    using assms(1) by (simp add: reg_ok_def)
  have "valid_node_id (con_id n) \<and> con_cca n \<noteq> [] \<and> length (con_cca n) < 256 \<and> (\<forall>c \<in> set (con_cca n). supported_cca c)"
    if n: "n \<in> set (reg_nodes r)" for n
  proof -
    obtain e where e: "e \<in> rb_set (node_to_rf r)" "n = node_entry e"
      using n by (auto simp: reg_nodes_def)
    have "valid_node_id (fst e)" "entry_ok (snd e)"
      using t e(1) by (auto simp: tree_ok_def rb_inv_def)
    moreover have "sa_contents (prf_comp_conf_add (snd e)) \<noteq> []"
      using sa_length [of "prf_comp_conf_add (snd e)"] \<open>entry_ok (snd e)\<close> unfolding entry_ok_def
      by (metis length_greater_0_conv)
    ultimately show ?thesis
      by (auto simp: e(2) node_entry_def entry_ok_def)
  qed
  then show ?thesis
    using reg_nodes_distinct [OF assms(1)] assms(2) by (simp add: nodes_new_def)
qed

text \<open>
  C9. The setup of an xApp: it sends one request with the functions of its service models, the iApp
  gives it the next free id and answers on its socket with the E2 nodes of the RIC, and the answer
  connects the xApp, which then has that id, knows those nodes and has no request pending.
\<close>

theorem xapp_setup_handshake:
  assumes "init_e42_xapp exec opened addr fd ag_ds ric_ds dir db_name default_dir now = Inr x"
    and "0 < fd" "sms_ok ag_ds" "sm_ds_ok ric_ds" "rb_size ag_ds = rb_size ric_ds" "0 < tfd" "tfd \<noteq> fd"
    and "sys_ok (ric, i)" "unat (ia_xapp_id i) < 2 ^ 16" "\<forall>n \<in> set (reg_nodes (ia_e2_nodes i)). con_ack_rf n \<noteq> []"
    and "\<forall>(a, b) \<in> bm_pairs (ia_xapps i). sctp_rank b \<noteq> sctp_rank t" "sin_port t \<noteq> 0"
  shows "\<exists>x1 req i' resp x2.
     start_e42_xapp x tfd = Inr x1 \<and> xa_sent x1 = [req] \<and> set (xa_io x1) = {fd, tfd} \<and>
     msg_arrived_iapp os (ric, i) t req = Inr (ric, i') \<and> sys_ok (ric, i') \<and> ia_sent i' = ia_sent i @ [(t, resp)] \<and>
     e2_event_loop_xapp x1 fd resp tfd' = Inr x2 \<and> x_reach (x2, None) \<and> xa_connected x2 \<and> set (xa_io x2) = {fd} \<and>
     xa_id x2 = ucast (ia_xapp_id i) \<and> xapp_conn i' (xa_id x2) t \<and>
     set (reg_nodes (xa_e2_nodes x2)) = set (reg_nodes (ia_e2_nodes i))"
proof -
  from xapp_started [OF assms(1-7)] obtain x1 where
    x1: "start_e42_xapp x tfd = Inr x1" "x_reach (x1, None)" "\<not> xa_connected x1" "xa_fd x1 = fd" "fst ` pend_pairs x1 = {tfd}"
      "xa_sent x1 = [E42_Stp_Req \<lparr>e42_ran_func_item = rf_list x1\<rparr>]" "xa_plugin_ag x1 = ag_ds"
    by (elim exE conjE)
  let ?req = "\<lparr>e42_ran_func_item = rf_list x1\<rparr>"
  let ?resp = "\<lparr>e42r_xapp_id = ucast (ia_xapp_id i), e42r_nodes = reg_nodes (ia_e2_nodes i)\<rparr>"
  have io: "set (xa_io y) = insert (xa_fd y) (fst ` pend_pairs y)" if "x_reach (y, None)" for y :: "'a e42_xapp_t"
    using x_reach_inv [OF that] by (simp add: x_inv_def xa_ok_def io_ok_def)
  have "e42_ran_func_item ?req \<noteq> []"
    using assms(3) by (simp add: x1(7) sms_ok_def)
  from xapp_setup_sys [OF assms(8) this assms(9,11), of os] obtain i' where
    i: "msg_arrived_iapp os (ric, i) t (E42_Stp_Req ?req) = Inr (ric, i')" "sys_ok (ric, i')"
      "bm_pairs (ia_xapps i') = insert (ucast (ia_xapp_id i), t) (bm_pairs (ia_xapps i))"
      "ia_sent i' = ia_sent i @ [(t, E42_Stp_Resp ?resp)]"
    by (elim exE conjE)
  have ok: "reg_ok (ia_e2_nodes i)" "nodes_ok (ric, i)"
    using sys_okD [OF assms(8)] by (simp_all add: iapp_ok_def)
  have ids: "con_id ` set (reg_nodes (ia_e2_nodes i)) = fst ` node_sockets ric" and "\<forall>nid \<in> fst ` node_sockets ric. plain_node nid"
    using ok(2) by (simp_all add: nodes_ok_def)
  then have "\<forall>nid \<in> con_id ` set (reg_nodes (ia_e2_nodes i)). plain_node nid"
    by (simp only: ids)
  then have "nodes_new (e42r_nodes ?resp)"
    using reg_nodes_new [OF ok(1)] assms(10) by simp
  from setup_step [OF x1(2,3) this, of tfd'] obtain x2 where
    x2: "e2_event_loop_xapp x1 (xa_fd x1) (E42_Stp_Resp ?resp) tfd' = Inr x2" "x_reach (x2, None)" "xa_connected x2"
      "xa_id x2 = e42r_xapp_id ?resp" "set (reg_nodes (xa_e2_nodes x2)) = set (e42r_nodes ?resp)" "pend_kinds x2 = {}"
      "same_xapp x1 x2"
    by (elim exE conjE)
  have "xapp_conn i' (xa_id x2) t"
    using i(3) x2(4) assms(12) by (simp add: xapp_conn_def)
  moreover have "set (xa_io x1) = {fd, tfd}" "set (xa_io x2) = {fd}"
    using io [OF x1(2)] io [OF x2(2)] x1(4,5) x2(6,7) by (simp_all add: same_xapp_def)
  ultimately show ?thesis
    using x1(1,4,6) i(1,2,4) x2(1-5)
    by (intro exI [of _ x1] exI [of _ "E42_Stp_Req ?req"] exI [of _ i'] exI [of _ "E42_Stp_Resp ?resp"] exI [of _ x2]) simp
qed

theorem xapp_setup_handshake_witness:
  "\<exists>ric i (x1 :: string list e42_xapp_t) req i' resp x2. sys_ok (ric, i) \<and> xa_sent x1 = [req] \<and>
     msg_arrived_iapp next_fd (ric, i) (peer 6000) req = Inr (ric, i') \<and> ia_sent i' = ia_sent i @ [(peer 6000, resp)] \<and>
     e2_event_loop_xapp x1 4 resp 9 = Inr x2 \<and> xa_connected x2 \<and> xa_id x2 = 7 \<and> xapp_conn i' 7 (peer 6000)"
proof -
  obtain x where x: "init_e42_xapp log_exec (\<lambda>_. Some []) ''127.0.0.1'' 4 tc_ag_ds tc_sm_ds [] [] ''/tmp/'' 0 = Inr x"
    using example_xapp_init [of tc_ag_ds tc_sm_ds] by (elim exE)
  from sys_start [OF tc_sm_ds_ok(1), of 5] obtain ric i where 0: "sys_ok (ric, i)" "node_sockets ric = {}"
    "bm_pairs (ia_xapps i) = {}" "ia_xapp_id i = 7"
    by auto
  have n: "reg_nodes (ia_e2_nodes i) = []"
    using sys_okD [OF 0(1)] 0(2) by (simp add: nodes_ok_def)
  have h: "(0 :: int) < 4" "(0 :: int) < 5" "(5 :: int) \<noteq> 4" "unat (ia_xapp_id i) < 2 ^ 16"
    "\<forall>n \<in> set (reg_nodes (ia_e2_nodes i)). con_ack_rf n \<noteq> []"
    "\<forall>(a, b) \<in> bm_pairs (ia_xapps i). sctp_rank b \<noteq> sctp_rank (peer 6000)" "sin_port (peer 6000) \<noteq> 0"
    using 0(3,4) n by (simp_all add: peer_def)
  from xapp_setup_handshake [OF x h(1) tc_ds_ok h(2,3) 0(1) h(4-7), of next_fd 9, unfolded 0(4)] show ?thesis
    using 0(1) by (elim exE conjE) (intro exI conjI, assumption+, simp_all)
qed

section \<open>The way of a measurement\<close>

text \<open>A call for a subscription, its answer, and the end of its wait.\<close>

lemma report_answered:
  assumes "x_reach (x, None)" "x_expected (x, None) (X_Report nid rf data cb xt)" "sub_ready x (ucast rf) data sm"
  defines "rid \<equiv> gen_id (next_id x) (ucast rf)"
  shows "\<exists>x1 x2. report_sm_xapp_api x nid rf data cb xt = Inr (x1, Wait_Report (ric_req_id rid)) \<and>
     xa_sent x1 = xa_sent x @ [E42_Ric_Sub_Req \<lparr>e42s_xapp_id = xa_id x, e42s_id = nid, e42s_sr = sub_request sm data rid\<rparr>] \<and>
     e2_event_loop_xapp x1 (xa_fd x1) (Ric_Sub_Resp (accepted rid)) t2 = Inr x2 \<and>
     after_wait x2 (Wait_Report (ric_req_id rid)) = Inr (x2, \<lparr>san_success = True, san_handle = int (next_id x)\<rparr>) \<and>
     x_reach (x2, None) \<and> same_xapp x x2 \<and> xa_msg_disp x2 = xa_msg_disp x \<and> xa_db x2 = xa_db x \<and>
     map_of (procs x2) (next_id x) = Some \<lparr>apv_type = RIC_SUBSCRIPTION_PROCEDURE_ACTIVE, apv_id = rid, apv_sm_cb = cb, apv_e2_node = nid\<rparr>"
proof -
  let ?n = "next_id x" and ?v = "proc_val RIC_SUBSCRIPTION_PROCEDURE_ACTIVE (next_id x) (ucast rf) nid cb"
  let ?e42 = "\<lparr>e42s_xapp_id = xa_id x, e42s_id = nid, e42s_sr = sub_request sm data rid\<rparr>"
  have id: "ric_req_id rid = of_nat ?n" and un: "uint (of_nat ?n :: u32) = int ?n"
    using assms(2) by (simp_all add: rid_def uint_nat unat_of_nat take_bit_nat_eq_self_iff)
  have new: "?n \<notin> fst ` set (procs x)"
    using act.ids_below [of "xa_act_proc x" ?n] x_reach_inv [OF assms(1)] by (auto simp: x_inv_def xa_ok_def)
  from report_step [OF assms(1-3), unfolded Let_def, folded rid_def] obtain act io p where
    r: "report_sm_xapp_api x nid rf data cb xt = Inr (x\<lparr>xa_act_proc := act, xa_io := io, xa_pending := p,
          xa_sent := xa_sent x @ [E42_Ric_Sub_Req ?e42]\<rparr>, Wait_Report (of_nat ?n))"
      "x_reach (x\<lparr>xa_act_proc := act, xa_io := io, xa_pending := p, xa_sent := xa_sent x @ [E42_Ric_Sub_Req ?e42]\<rparr>,
          Some (Wait_Report (of_nat ?n)))" "act_entries act = procs x @ [(?n, ?v)]"
      "pend_pairs (x\<lparr>xa_act_proc := act, xa_io := io, xa_pending := p, xa_sent := xa_sent x @ [E42_Ric_Sub_Req ?e42]\<rparr>) =
         {(xt, \<lparr>pex_ev = E42_RIC_SUBSCRIPTION_REQUEST_PENDING_EVENT, pex_id = rid, pex_wait_ms = 5000\<rparr>)}"
    unfolding rid_def by (elim exE conjE)
  let ?x1 = "x\<lparr>xa_act_proc := act, xa_io := io, xa_pending := p, xa_sent := xa_sent x @ [E42_Ric_Sub_Req ?e42]\<rparr>"
  have k: "E42_RIC_SUBSCRIPTION_REQUEST_PENDING_EVENT \<in> pend_kinds ?x1" "ric_req_id (sresp_ric_id (accepted rid)) = of_nat ?n"
    unfolding r(4) by (simp_all add: id)
  from subscribed_step [OF r(2) k, of t2] obtain x2 where x2:
    "e2_event_loop_xapp ?x1 (xa_fd ?x1) (Ric_Sub_Resp (accepted rid)) t2 = Inr x2"
    "after_wait x2 (Wait_Report (of_nat ?n)) = Inr (x2, \<lparr>san_success = True, san_handle = uint (of_nat ?n :: u32)\<rparr>)"
    "x_reach (x2, None)" "procs x2 = act_entries act" "same_xapp ?x1 x2" "xa_msg_disp x2 = xa_msg_disp x" "xa_db x2 = xa_db x"
    by (elim exE conjE) simp
  have "map_of (procs x2) ?n = Some ?v"
    unfolding x2(4) r(3) using new by (simp add: map_add_def map_of_eq_None_iff [THEN iffD2])
  then show ?thesis
    using r(1) x2 by (intro exI [of _ ?x1] exI [of _ x2]) (simp add: id un rid_def same_xapp_def)
qed

text \<open>An indication as a step of the xApp, and the callback thread after it.\<close>

lemma indication_step:
  assumes "x_reach (x, None)" "ind_ready x ind sm" "map_of (procs x) (unat (ric_req_id (ind_ric_id ind))) = Some v"
    and "apv_sm_cb v = Some cb" "disp_queued (xa_msg_disp x) = []"
  shows "\<exists>x' d. e2_event_loop_xapp x (xa_fd x) (Ric_Ind ind) tfd = Inr x' \<and> x_reach (x', None) \<and>
     db_queued (xa_db x') = db_queued (xa_db x) @ [\<lparr>dn_id = apv_e2_node v, dn_rd = Rd_Ind (decoded sm ind)\<rparr>] \<and>
     dispatcher_thread (xa_msg_disp x') = Some (Inr (d, Worker_Waits)) \<and>
     disp_called d = disp_called (xa_msg_disp x) @ [(cb, Rd_Ind (decoded sm ind))]"
proof -
  have ok: "xa_ok x"
    using x_reach_inv [OF assms(1)] by (simp add: x_inv_def)
  from indication_xapp_ok [OF ok assms(2), unfolded Let_def] obtain act db d where
    h: "e2ap_handle_indication_xapp x ind = Inr (x\<lparr>xa_act_proc := act, xa_db := db, xa_msg_disp := d\<rparr>)"
      "db_queued db = db_queued (xa_db x) @ stored (map_of (procs x) (unat (ric_req_id (ind_ric_id ind)))) (decoded sm ind)"
      "disp_queued d = disp_queued (xa_msg_disp x) @ dispatched (map_of (procs x) (unat (ric_req_id (ind_ric_id ind)))) (decoded sm ind)"
      "disp_called d = disp_called (xa_msg_disp x)" "xa_ok (x\<lparr>xa_act_proc := act, xa_db := db, xa_msg_disp := d\<rparr>)"
    by (elim exE conjE)
  let ?x = "x\<lparr>xa_act_proc := act, xa_db := db, xa_msg_disp := d\<rparr>"
  have run: "e2_event_loop_xapp x (xa_fd x) (Ric_Ind ind) tfd = Inr ?x"
    using h(1) message_round [OF ok] by (simp add: e2ap_msg_handle_xapp_def check_valid_msg_type_xapp_def)
  have "x_reach (?x, None)"
    by (rule x_reach.Step [OF assms(1), of "X_Round (xa_fd x) (Ric_Ind ind) tfd"]) (use run assms(2) in auto)
  moreover have "disp_ok d"
    using xa_okD(7) [OF h(5)] by simp
  moreover have "disp_queued d = map (\<lambda>(cb, rd). \<lparr>md_sm_cb = Some cb, md_rd = rd\<rparr>) [(cb, Rd_Ind (decoded sm ind))]"
    using h(3) assms(3-5) by (simp add: dispatched_def)
  from dispatcher_calls [OF \<open>disp_ok d\<close> this] obtain d' where "dispatcher_thread d = Some (Inr (d', Worker_Waits))"
    "disp_called d' = disp_called d @ [(cb, Rd_Ind (decoded sm ind))]"
    by (elim exE conjE)
  ultimately show ?thesis
    using run h(2,4) assms(3) by (intro exI [of _ ?x] exI [of _ d']) (simp add: stored_def)
qed

lemma gtp_indication_step:
  assumes "x_reach (x, None)" "(SM_GTP_ID, xsm) \<in> rb_set (xa_plugin_ric x)" "\<And>d. rd_type (on_indication xsm d) = GTP_STATS_V0"
    and "db_room 1 (xa_db x)" "disp_room 1 (xa_msg_disp x)" "disp_queued (xa_msg_disp x) = []"
    and "map_of (procs x) (unat (ric_req_id rid)) =
      Some \<lparr>apv_type = RIC_SUBSCRIPTION_PROCEDURE_ACTIVE, apv_id = rid, apv_sm_cb = Some cb, apv_e2_node = nid\<rparr>"
    and "ran_func_id rid = SM_GTP_ID" "0 < unat (ric_req_id rid)" "unat (ric_req_id rid) < 2 ^ 16"
    and "ind_ric_id ind = rid" "ind_call_process_id ind = None"
  shows "\<exists>x' d. e2_event_loop_xapp x (xa_fd x) (Ric_Ind ind) tfd = Inr x' \<and> x_reach (x', None) \<and>
     db_queued (xa_db x') = db_queued (xa_db x) @ [\<lparr>dn_id = nid, dn_rd = Rd_Ind (decoded xsm ind)\<rparr>] \<and>
     dispatcher_thread (xa_msg_disp x') = Some (Inr (d, Worker_Waits)) \<and>
     disp_called d = disp_called (xa_msg_disp x) @ [(cb, Rd_Ind (decoded xsm ind))]"
proof -
  let ?v = "\<lparr>apv_type = RIC_SUBSCRIPTION_PROCEDURE_ACTIVE, apv_id = rid, apv_sm_cb = Some cb, apv_e2_node = nid\<rparr>"
  have "ind_ready x ind xsm" "map_of (procs x) (unat (ric_req_id (ind_ric_id ind))) = Some ?v"
    using assms(2-5,7-12) by (simp_all add: ind_ready_def decoded_def known_stats_def)
  from indication_step [OF assms(1) this _ assms(6), of cb tfd] show ?thesis
    by simp
qed

text \<open>
  C3. The way of a measurement through the whole system: the call of the user sends a subscription
  that the iApp and the RIC forward to the agent; the response travels back and ends the wait of the
  caller; when the timer of the subscription fires, the agent measures the RAN and sends an
  indication; the RIC forwards it to the xApp, which queues it for its data base under the E2 node of
  the subscription and calls the callback that the user passed, with the bytes that decode to what the
  RAN measured.
\<close>

theorem measurement_reaches_callback:
  assumes "x_reach (x, None)" "x_expected (x, None) (X_Report nid 148 data (Some cb) xt)" "(SM_GTP_ID, xsm) \<in> rb_set (xa_plugin_ric x)"
    and "on_subscription xsm data = \<lparr>sub_event_trigger = gtp_enc_event_trigger_plain ms, sub_action_def = None\<rparr>" "ms < 10001"
    and "\<And>d. rd_type (on_indication xsm d) = GTP_STATS_V0" "db_room 1 (xa_db x)" "disp_room 1 (xa_msg_disp x)"
    and "disp_queued (xa_msg_disp x) = []"
  defines "rid \<equiv> gen_id (next_id x) SM_GTP_ID"
  assumes "sys_ok (ric, i)" "os_ok os" "(nid, s) \<in> node_sockets ric" "xapp_conn i (xa_id x) t"
    and "sub_event rid \<notin> snd ` pending_events ric" "\<forall>(n, y) \<in> ric_pairs (ia_map_ric_id i). node_req n \<noteq> ric_req_id rid"
    and "(SM_GTP_ID, rsm) \<in> rb_set (nr_sm_ds ric)" "\<And>d. rd_type (on_indication rsm d) = GTP_STATS_V0"
    and "ag_reach ag" "\<not> ag_exited ag" "(SM_GTP_ID, make_gtp_sm_agent meas) \<in> rb_set (ag_sm_ds ag)"
    and "rid \<notin> Agent_Steps.subscribed ag" "0 < tfd" "tfd \<notin> set (ag_io ag)"
    and "meas now zero_gtp_ind_msg = Some m" "length (gtp_ngut m) < 2 ^ 32"
  shows "\<exists>x1 req sr ric1 i1 ag1 resp ric2 i2 x2 ag2 ind ric3 i3 x3 d.
     report_sm_xapp_api x nid 148 data (Some cb) xt = Inr (x1, Wait_Report (ric_req_id rid)) \<and> xa_sent x1 = xa_sent x @ [req] \<and>
     msg_arrived_iapp os (ric, i) t req = Inr (ric1, i1) \<and> nr_sent ric1 = nr_sent ric @ [(s, sr)] \<and>
     e2_event_loop_agent ag (ag_fd ag) (SCTP_MSG_PAYLOAD info sr) t1 tfd = Inr ag1 \<and> ag_sent ag1 = ag_sent ag @ [resp] \<and>
     sctp_msg_arrived_event (ric1, i1) (s, resp) = Inr (ric2, i2) \<and> ia_sent i2 = ia_sent i @ [(t, resp)] \<and>
     e2_event_loop_xapp x1 (xa_fd x1) resp t2 = Inr x2 \<and>
     after_wait x2 (Wait_Report (ric_req_id rid)) = Inr (x2, \<lparr>san_success = True, san_handle = int (next_id x)\<rparr>) \<and>
     e2_event_loop_agent ag1 tfd msg now t3 = Inr ag2 \<and> ag_sent ag2 = ag_sent ag1 @ [Ric_Ind ind] \<and>
     sctp_msg_arrived_event (ric2, i2) (s, Ric_Ind ind) = Inr (ric3, i3) \<and> (t, Ric_Ind ind) \<in> set (ia_sent i3) \<and>
     e2_event_loop_xapp x2 (xa_fd x2) (Ric_Ind ind) t2 = Inr x3 \<and> x_reach (x3, None) \<and>
     gtp_dec_ind_msg_plain (ind_msg ind) = Inr m \<and>
     db_queued (xa_db x3) = db_queued (xa_db x) @ [\<lparr>dn_id = nid, dn_rd = Rd_Ind (decoded xsm ind)\<rparr>] \<and>
     dispatcher_thread (xa_msg_disp x3) = Some (Inr (d, Worker_Waits)) \<and>
     disp_called d = disp_called (xa_msg_disp x) @ [(cb, Rd_Ind (decoded xsm ind))]"
proof -
  let ?n = "next_id x" and ?sr = "sub_request xsm data rid" and ?resp = "Ric_Sub_Resp (accepted rid)"
  let ?e42 = "\<lparr>e42s_xapp_id = xa_id x, e42s_id = nid, e42s_sr = sub_request xsm data rid\<rparr>"
  have id: "ran_func_id rid = SM_GTP_ID" "ric_req_id rid = of_nat ?n" and rf: "(ucast (148 :: u32) :: u16) = SM_GTP_ID"
    by (simp_all add: rid_def SM_GTP_ID_def)
  note inv = x_reach_inv [OF assms(1)]
  have n: "0 < ?n" "?n < 2 ^ 16"
    using act_invD(4) [of "xa_act_proc x"] inv assms(2) by (simp_all add: x_inv_def xa_ok_def)
  have un: "unat (of_nat ?n :: u32) = ?n"
    using n(2) by (simp add: take_bit_nat_eq_self_iff unat_of_nat)
  have "sub_ready x (ucast (148 :: u32)) data xsm"
    unfolding rf using assms(3,4) by (simp add: sub_ready_def valid_ran_func_id_def SM_GTP_ID_def)
  from report_answered [OF assms(1,2) this, of t2, unfolded rf, folded rid_def] obtain x1 x2 where
    x: "report_sm_xapp_api x nid 148 data (Some cb) xt = Inr (x1, Wait_Report (ric_req_id rid))"
      "xa_sent x1 = xa_sent x @ [E42_Ric_Sub_Req ?e42]" "e2_event_loop_xapp x1 (xa_fd x1) ?resp t2 = Inr x2"
      "after_wait x2 (Wait_Report (ric_req_id rid)) = Inr (x2, \<lparr>san_success = True, san_handle = int ?n\<rparr>)"
      "x_reach (x2, None)" "same_xapp x x2" "xa_msg_disp x2 = xa_msg_disp x" "xa_db x2 = xa_db x"
      "map_of (procs x2) ?n = Some \<lparr>apv_type = RIC_SUBSCRIPTION_PROCEDURE_ACTIVE, apv_id = rid, apv_sm_cb = Some cb, apv_e2_node = nid\<rparr>"
    by (elim exE conjE)
  have c: "(e42s_id ?e42, s) \<in> node_sockets ric" "xapp_conn i (e42s_xapp_id ?e42) t"
    "sub_event (sreq_ric_id (e42s_sr ?e42)) \<notin> snd ` pending_events ric" "ric_req_id (sreq_ric_id (e42s_sr ?e42)) \<noteq> 0"
    "ric_req_id (sreq_ric_id (e42s_sr ?e42)) < 2 ^ 16"
    "\<forall>(n, y) \<in> ric_pairs (ia_map_ric_id i). node_req n \<noteq> ric_req_id (sreq_ric_id (e42s_sr ?e42))"
    using assms(13-16) n un by (simp_all add: sub_request_def id word_less_nat_alt unat_eq_0 [symmetric] del: unat_eq_0)
  have g: "sreq_ric_id (e42s_sr ?e42) \<notin> Agent_Steps.subscribed ag" "ran_func_id (sreq_ric_id (e42s_sr ?e42)) = SM_GTP_ID"
    "sreq_action (e42s_sr ?e42) = [\<lparr>act_id = 0, act_type = RIC_ACT_REPORT, act_definition = None, act_subseq_action = None\<rparr>]"
    "act_type \<lparr>act_id = 0, act_type = RIC_ACT_REPORT, act_definition = None, act_subseq_action = None\<rparr> = RIC_ACT_REPORT"
    "act_id \<lparr>act_id = 0, act_type = RIC_ACT_REPORT, act_definition = None, act_subseq_action = None\<rparr> = 0"
    "sreq_event_trigger (e42s_sr ?e42) = gtp_enc_event_trigger_plain ms"
    using assms(4,22) by (simp_all add: sub_request_def id)
  from measurement_path [OF assms(11,12) c assms(17,18) assms(19-21) g assms(5) assms(23-26), of info t1 msg t3]
  obtain ric1 i1 ag1 ric2 i2 ag2 ind ric3 i3 where b:
    "msg_arrived_iapp os (ric, i) t (E42_Ric_Sub_Req ?e42) = Inr (ric1, i1)" "nr_sent ric1 = nr_sent ric @ [(s, Ric_Sub_Req ?sr)]"
    "e2_event_loop_agent ag (ag_fd ag) (SCTP_MSG_PAYLOAD info (Ric_Sub_Req ?sr)) t1 tfd = Inr ag1"
    "ag_sent ag1 = ag_sent ag @ [?resp]" "sctp_msg_arrived_event (ric1, i1) (s, ?resp) = Inr (ric2, i2)"
    "ia_sent i2 = ia_sent i @ [(t, ?resp)]" "e2_event_loop_agent ag1 tfd msg now t3 = Inr ag2"
    "ag_sent ag2 = ag_sent ag1 @ [Ric_Ind ind]" "gtp_dec_ind_msg_plain (ind_msg ind) = Inr m"
    "sctp_msg_arrived_event (ric2, i2) (s, Ric_Ind ind) = Inr (ric3, i3)" "(t, Ric_Ind ind) \<in> set (ia_sent i3)"
    "ind_ric_id ind = rid" "ind_call_process_id ind = None"
    by (elim exE conjE) (simp add: sub_request_def)
  have m: "(SM_GTP_ID, xsm) \<in> rb_set (xa_plugin_ric x2)" "db_room 1 (xa_db x2)" "disp_room 1 (xa_msg_disp x2)"
    "disp_queued (xa_msg_disp x2) = []" "map_of (procs x2) (unat (ric_req_id rid)) =
      Some \<lparr>apv_type = RIC_SUBSCRIPTION_PROCEDURE_ACTIVE, apv_id = rid, apv_sm_cb = Some cb, apv_e2_node = nid\<rparr>"
    "0 < unat (ric_req_id rid)" "unat (ric_req_id rid) < 2 ^ 16"
    using x(6-9) assms(3,7-9) n by (simp_all add: same_xapp_def id un)
  from gtp_indication_step [OF x(5) m(1) assms(6) m(2-5) id(1) m(6,7) b(12,13), of t2] obtain x3 d where
    "e2_event_loop_xapp x2 (xa_fd x2) (Ric_Ind ind) t2 = Inr x3" "x_reach (x3, None)"
    "db_queued (xa_db x3) = db_queued (xa_db x) @ [\<lparr>dn_id = nid, dn_rd = Rd_Ind (decoded xsm ind)\<rparr>]"
    "dispatcher_thread (xa_msg_disp x3) = Some (Inr (d, Worker_Waits))"
    "disp_called d = disp_called (xa_msg_disp x) @ [(cb, Rd_Ind (decoded xsm ind))]"
    using assms(9) x(7,8) by auto
  then show ?thesis
    using x(1-4) b by (intro exI conjI)
qed

text \<open>An xApp with the GTP service model that is connected to the node of the agent.\<close>

lemma gtp_xapp_example:
  "\<exists>x :: string list e42_xapp_t. x_reach (x, None) \<and> xa_id x = 7 \<and> next_id x = 1 \<and> xa_plugin_ric x = gtp_ric_ds \<and>
     x_expected (x, None) (X_Report du_node 148 (gtp_enc_event_trigger_plain 10) (Some 3) 6) \<and>
     disp_queued (xa_msg_disp x) = [] \<and> db_queued (xa_db x) = [] \<and> disp_called (xa_msg_disp x) = [] \<and>
     db_room 1 (xa_db x) \<and> disp_room 1 (xa_msg_disp x)"
proof -
  obtain x :: "string list e42_xapp_t" where x: "x_reach (x, None)" "xa_connected x" "xa_fd x = 4" "pend_pairs x = {}"
    "xa_id x = 7" "xa_plugin_ric x = gtp_ric_ds" "next_id x = 1" "set (reg_nodes (xa_e2_nodes x)) = {example_node}"
    "disp_queued (xa_msg_disp x) = []" "disp_called (xa_msg_disp x) = []" "db_queued (xa_db x) = []"
    "db_room 1 (xa_db x)" "disp_room 1 (xa_msg_disp x)"
    using example_xapp_connected [OF gtp_sms_ok gtp_ric_ds_ok(1) gtp_sizes] by (elim exE conjE)
  have "free_timer x 6"
    by (rule connected_free_timer [OF x(1,4)]) (simp_all add: x(3))
  moreover have "sub_ready x 148 (gtp_enc_event_trigger_plain 10) gtp_ric_sm"
    using gtp_ric_ds_ok(2) by (simp add: sub_ready_def valid_ran_func_id_def x(6) gtp_ric_sm_def)
  ultimately have "x_expected (x, None) (X_Report du_node 148 (gtp_enc_event_trigger_plain 10) (Some 3) 6)"
    using x(2,7,8) du_node_ok(2) by auto
  then show ?thesis
    using x by (intro exI [of _ x] conjI)
qed

theorem measurement_reaches_callback_witness:
  "\<exists>(x :: string list e42_xapp_t) x1 (x2 :: string list e42_xapp_t) (x3 :: string list e42_xapp_t) ag ric2 i2 ric3 i3 ind d. x_reach (x, None) \<and> ag_reach ag \<and>
     report_sm_xapp_api x du_node 148 (gtp_enc_event_trigger_plain 10) (Some 3) 6 = Inr (x1, Wait_Report 1) \<and>
     sctp_msg_arrived_event (ric2, i2) (peer 5000, Ric_Ind ind) = Inr (ric3, i3) \<and> (peer 6000, Ric_Ind ind) \<in> set (ia_sent i3) \<and>
     e2_event_loop_xapp x2 (xa_fd x2) (Ric_Ind ind) 9 = Inr x3 \<and> gtp_dec_ind_msg_plain (ind_msg ind) = Inr handover_1 \<and>
     dispatcher_thread (xa_msg_disp x3) = Some (Inr (d, Worker_Waits)) \<and>
     disp_called d = [(3, Rd_Ind (decoded gtp_ric_sm ind))]"
proof -
  obtain x :: "string list e42_xapp_t" where x: "x_reach (x, None)"
    "x_expected (x, None) (X_Report du_node 148 (gtp_enc_event_trigger_plain 10) (Some 3) 6)" "disp_queued (xa_msg_disp x) = []"
    "db_room 1 (xa_db x)" "disp_room 1 (xa_msg_disp x)" "xa_id x = 7" "next_id x = 1" "xa_plugin_ric x = gtp_ric_ds"
    "disp_called (xa_msg_disp x) = []"
    using gtp_xapp_example by (elim exE conjE)
  obtain ric i where 0: "sys_ok (ric, i)" "node_sockets ric = {(du_node, peer 5000)}" "xapp_conn i 7 (peer 6000)"
    "pending_events ric = {}" "ric_pairs (ia_map_ric_id i) = {}" "nr_sm_ds ric = gtp_ric_ds"
    using gtp_ric_example by (elim exE conjE)
  obtain ag where ag: "ag_reach ag" "bm_pairs (ag_pending ag) = {(7, SETUP_REQUEST_PENDING_EVENT)}"
    "bm_pairs (ag_ind_event ag) = {}" "ag_fd ag = 4" "ag_pipe_r ag = 5" "ag_sm_ds ag = gtp_sm_ds" "\<not> ag_exited ag"
    using gtp_agent by blast
  have g: "(SM_GTP_ID, gtp_ric_sm) \<in> rb_set (xa_plugin_ric x)" "(SM_GTP_ID, gtp_ric_sm) \<in> rb_set (nr_sm_ds ric)"
    "on_subscription gtp_ric_sm (gtp_enc_event_trigger_plain 10) =
       \<lparr>sub_event_trigger = gtp_enc_event_trigger_plain 10, sub_action_def = None\<rparr>"
    "(10 :: u32) < 10001" "\<And>d. rd_type (on_indication gtp_ric_sm d) = GTP_STATS_V0"
    using gtp_ric_ds_ok(2) by (simp_all add: x(8) 0(6) SM_GTP_ID_def gtp_ric_sm_def)
  have r: "os_ok next_fd" "(du_node, peer 5000) \<in> node_sockets ric" "xapp_conn i (xa_id x) (peer 6000)"
    "sub_event (gen_id (next_id x) SM_GTP_ID) \<notin> snd ` pending_events ric"
    "\<forall>(n, y) \<in> ric_pairs (ia_map_ric_id i). node_req n \<noteq> ric_req_id (gen_id (next_id x) SM_GTP_ID)"
    using next_fd_ok 0(2-5) by (simp_all add: x(6))
  have a: "(SM_GTP_ID, make_gtp_sm_agent gtp_ran) \<in> rb_set (ag_sm_ds ag)" "gen_id (next_id x) SM_GTP_ID \<notin> Agent_Steps.subscribed ag"
    "0 < (8 :: int)" "8 \<notin> set (ag_io ag)" "gtp_ran 0 zero_gtp_ind_msg = Some handover_1" "length (gtp_ngut handover_1) < 2 ^ 32"
    using ag_ok_io(3) [OF ag_reach_ok [OF ag(1)]] by (simp_all add: ag gtp_sm_ds_def SM_GTP_ID_def gtp_ran_def handover_1_def)
  from measurement_reaches_callback [OF x(1,2) g(1,3-5) x(4,5,3) 0(1) r g(2,5) ag(1,7) a, of "peer 1" 0 9
      "SCTP_MSG_PAYLOAD (peer 1) no_msg" 9]
  show ?thesis
    unfolding x(7,9) of_nat_1 append_Nil ric_gen_id_t.simps using x(1) ag(1) by (elim exE conjE) (intro exI conjI, assumption+)
qed

end
