(* ===== verification/Wire_Codec.thy ===== *)
theory Wire_Codec
  imports Plain_Codec
begin

text \<open>
  The way the larger plain codecs of the service models work: the encoder first computes the size of
  the message, allocates a buffer of that size and copies the fields into it one by one; the decoder
  copies them out of the received bytes one by one.  A step of an encoder extends the bytes that were
  written so far and must not pass the end of the buffer; a step of a decoder takes its bytes from
  the front of those that are left.

  The locale \<open>codec\<close> is the contract between the three functions of a part of a message: the size
  that is announced, the bytes that are written and the value that is read back.  The messages with a
  tag in front of the part are proved correct once inside it.
\<close>

section \<open>Sizes\<close>

fun sizes :: "nat res list \<Rightarrow> nat res" where
  "sizes [] = Inr 0"
| "sizes (r # rs) = bnd r (\<lambda>n. bnd (sizes rs) (\<lambda>m. Inr (n + m)))"

text \<open>A part of an unknown kind makes the computation of the size abort.\<close>

lemma sizes_abort:
  assumes "Inl e \<in> set rs" "\<And>e. Inl e \<in> set rs \<Longrightarrow> \<exists>msg. e = Assertion msg"
  shows "\<exists>msg. sizes rs = Inl (Assertion msg)"
  using assms
proof (induction rs)
  case (Cons r rs)
  show ?case
  proof (cases r)
    case (Inl d)
    then show ?thesis
      using Cons.prems(2) [of d] by auto
  next
    case (Inr n)
    then have "\<exists>msg. sizes rs = Inl (Assertion msg)"
      using Cons.prems by (intro Cons.IH) auto
    then show ?thesis
      using Inr by auto
  qed
qed simp

section \<open>Writing\<close>

definition put :: "nat \<Rightarrow> u8 list \<Rightarrow> u8 list \<Rightarrow> u8 list res" where
  "put cap bs out =
     (if length out + length bs \<le> cap then Inr (out @ bs)
      else Inl (Heap_Overflow ''memcpy writes past the buffer''))"

definition put16 :: "nat \<Rightarrow> u16 \<Rightarrow> u8 list \<Rightarrow> u8 list res" where
  "put16 cap w = put cap (le_bytes 2 w)"

definition put32 :: "nat \<Rightarrow> u32 \<Rightarrow> u8 list \<Rightarrow> u8 list res" where
  "put32 cap w = put cap (le_bytes 4 w)"

definition put64 :: "nat \<Rightarrow> u64 \<Rightarrow> u8 list \<Rightarrow> u8 list res" where
  "put64 cap w = put cap (le_bytes 8 w)"

fun writes :: "(u8 list \<Rightarrow> u8 list res) list \<Rightarrow> u8 list \<Rightarrow> u8 list res" where
  "writes [] out = Inr out"
| "writes (w # ws) out = bnd (w out) (writes ws)"

lemma writes_append: "writes (ws @ vs) out = bnd (writes ws out) (writes vs)"
  by (induction ws arbitrary: out) (auto simp: bnd_def split: sum.splits)

lemma put_room [simp]: "length out + length bs \<le> cap \<Longrightarrow> put cap bs out = Inr (out @ bs)"
  by (simp add: put_def)

lemma put16_room [simp]: "length out + 2 \<le> cap \<Longrightarrow> put16 cap w out = Inr (out @ le_bytes 2 w)"
  by (simp add: put16_def)

lemma put32_room [simp]: "length out + 4 \<le> cap \<Longrightarrow> put32 cap w out = Inr (out @ le_bytes 4 w)"
  by (simp add: put32_def)

lemma put64_room [simp]: "length out + 8 \<le> cap \<Longrightarrow> put64 cap w out = Inr (out @ le_bytes 8 w)"
  by (simp add: put64_def)

text \<open>An array of structures that are written one after the other, with \<open>k\<close> bytes behind it.\<close>

lemma writes_array:
  assumes "\<And>x out. x \<in> set xs \<Longrightarrow> length out + length (f x) + k \<le> cap \<Longrightarrow> w x out = Inr (out @ f x)"
  shows "length out + length (concat (map f xs)) + k \<le> cap \<Longrightarrow> writes (map w xs) out = Inr (out @ concat (map f xs))"
  using assms by (induction xs arbitrary: out) simp_all

lemma sizes_array:
  "(\<And>x. x \<in> set xs \<Longrightarrow> s x = Inr (length (f x))) \<Longrightarrow> sizes (map s xs) = Inr (length (concat (map f xs)))"
  by (induction xs) simp_all

lemma le_bytes_eq_Nil [simp]: "le_bytes n w = [] \<longleftrightarrow> n = 0"
  by (simp add: le_bytes_def)

section \<open>Reading\<close>

definition get16 :: "u8 list \<Rightarrow> (u16 \<times> u8 list) res" where
  "get16 bs = bnd (copy_out 2 bs) (\<lambda>(b, bs). Inr (le_word b, bs))"

definition get32 :: "u8 list \<Rightarrow> (u32 \<times> u8 list) res" where
  "get32 bs = bnd (copy_out 4 bs) (\<lambda>(b, bs). Inr (le_word b, bs))"

definition get64 :: "u8 list \<Rightarrow> (u64 \<times> u8 list) res" where
  "get64 bs = bnd (copy_out 8 bs) (\<lambda>(b, bs). Inr (le_word b, bs))"

fun reads :: "nat \<Rightarrow> (u8 list \<Rightarrow> ('a \<times> u8 list) res) \<Rightarrow> u8 list \<Rightarrow> ('a list \<times> u8 list) res" where
  "reads 0 r bs = Inr ([], bs)"
| "reads (Suc n) r bs = bnd (r bs) (\<lambda>(x, bs). bnd (reads n r bs) (\<lambda>(xs, bs). Inr (x # xs, bs)))"

lemma get16_bytes [simp]: "get16 (le_bytes 2 w @ bs) = Inr (w, bs)"
  by (simp add: get16_def)

lemma get32_bytes [simp]: "get32 (le_bytes 4 w @ bs) = Inr (w, bs)"
  by (simp add: get32_def)

lemma get64_bytes [simp]: "get64 (le_bytes 8 w @ bs) = Inr (w, bs)"
  by (simp add: get64_def)

lemma get32_only [simp]: "get32 (le_bytes 4 w) = Inr (w, [])"
  using get32_bytes [of w "[]"] by simp

lemma get64_only [simp]: "get64 (le_bytes 8 w) = Inr (w, [])"
  using get64_bytes [of w "[]"] by simp

text \<open>An array of structures in front of other bytes.\<close>

lemma reads_array:
  assumes "\<And>x bs. x \<in> set xs \<Longrightarrow> bs \<noteq> [] \<Longrightarrow> r (f x @ bs) = Inr (g x, bs)" "bs \<noteq> []"
  shows "reads (length xs) r (concat (map f xs) @ bs) = Inr (map g xs, bs)"
  using assms by (induction xs) simp_all

text \<open>A length that fits into its field of 32 bits comes back unchanged.\<close>

lemma unat_length [simp]: "length xs < 2 ^ 32 \<Longrightarrow> unat (of_nat (length xs) :: u32) = length xs"
  by (simp add: unat_of_nat take_bit_nat_eq_self)

text \<open>Arrays of integers of 32 bits.\<close>

lemma reads_words: "reads (length p) get32 (concat (map (le_bytes 4) p) @ bs) = Inr (p, bs)"
  by (induction p) simp_all

lemma puts_words:
  "length out + 4 * length p \<le> cap \<Longrightarrow> writes (map (put32 cap) p) out = Inr (out @ concat (map (le_bytes 4) p))"
  using writes_array [of p "le_bytes 4" 0 cap "put32 cap" out] by (simp add: le32.enc_array_length)

section \<open>Parts of a message\<close>

locale codec =
  fixes valid :: "'a \<Rightarrow> bool" and bytes :: "'a \<Rightarrow> u8 list" and sz :: "'a \<Rightarrow> nat res"
    and enc :: "nat \<Rightarrow> 'a \<Rightarrow> u8 list \<Rightarrow> u8 list res" and dec :: "u8 list \<Rightarrow> ('a \<times> u8 list) res" and wire :: "'a \<Rightarrow> 'a"
  assumes size_law: "valid x \<Longrightarrow> sz x = Inr (length (bytes x))"
    and enc_law: "valid x \<Longrightarrow> length out + length (bytes x) \<le> cap \<Longrightarrow> enc cap x out = Inr (out @ bytes x)"
    and dec_law: "valid x \<Longrightarrow> dec (bytes x @ rest) = Inr (wire x, rest)"
begin

text \<open>The size is right: the encoder fills a buffer of that size exactly.\<close>

lemma tagged_size: "valid x \<Longrightarrow> sizes [Inr 4, sz x] = Inr (4 + length (bytes x))"
  by (simp add: size_law)

lemma tagged_enc: "valid x \<Longrightarrow> writes [put32 (4 + length (bytes x)) t, enc (4 + length (bytes x)) x] [] = Inr (le_bytes 4 t @ bytes x)"
  by (simp add: enc_law)

text \<open>Arrays of parts, one behind the other.\<close>

lemma array_size: "\<forall>x \<in> set xs. valid x \<Longrightarrow> sizes (map sz xs) = Inr (length (concat (map bytes xs)))"
  by (rule sizes_array) (simp add: size_law)

lemma array_enc:
  "\<forall>x \<in> set xs. valid x \<Longrightarrow> length out + length (concat (map bytes xs)) \<le> cap \<Longrightarrow>
     writes (map (enc cap) xs) out = Inr (out @ concat (map bytes xs))"
  using writes_array [of xs bytes 0 cap "enc cap" out] by (simp add: enc_law)

lemma array_dec: "\<forall>x \<in> set xs. valid x \<Longrightarrow> reads (length xs) dec (concat (map bytes xs) @ rest) = Inr (map wire xs, rest)"
  by (induction xs) (simp_all add: dec_law)

lemma dec_only: "valid x \<Longrightarrow> dec (bytes x) = Inr (wire x, [])"
  using dec_law [of x "[]"] by simp

end

end
