(* ===== verification/Tc_Ind_Codec.thy ===== *)
theory Tc_Ind_Codec
  imports Wire_Codec
begin

text \<open>
  The indication message of the traffic control service model (\<^verbatim>\<open>sm/tc_sm/ie/tc_data_ie.h\<close>) and its
  plain encoding (\<^verbatim>\<open>tc_enc_plain.c\<close>, \<^verbatim>\<open>tc_dec_plain.c\<close>): the scheduler, the pacer, the classifier
  and, for every queue, its shaper, its policer and its statistics.

  A union with its tag is a datatype; the constructor of the last enumerator stands for a tag that
  no alternative of the union has.  A floating-point number is its object representation.
\<close>

section \<open>Information elements\<close>

record tc_mtr_t =
  mtr_time_window_ms :: u32
  mtr_bnd_flt :: u32

record L3_filter_t =
  l3_src_addr :: u64
  l3_dst_addr :: u64

record L4_filter_t =
  l4_src_port :: u32
  l4_dst_port :: u32
  l4_protocol :: u32

record tc_cls_osi_filter_t =
  flt_id :: u32
  flt_l3 :: L3_filter_t
  flt_l4 :: L4_filter_t
  flt_l7 :: u32
  flt_dst_queue :: u32

datatype tc_cls_t =
    Tc_Cls_Rr u32
  | Tc_Cls_Osi "tc_cls_osi_filter_t list"
  | Tc_Cls_Sto u32
  | Tc_Cls_End

datatype tc_sch_t =
    Tc_Sched_Rr u32
  | Tc_Sched_Prio "u32 list"
  | Tc_Sched_End

record tc_pcr_t =
  pcr_type :: u32
  pcr_id :: u32
  pcr_mtr :: tc_mtr_t

record tc_shp_t =
  shp_id :: u32
  shp_active :: u32
  shp_max_rate_kbps :: u32
  shp_mtr :: tc_mtr_t

record tc_plc_t =
  plc_id :: u32
  plc_mtr :: tc_mtr_t
  plc_dropped_pkts :: u32
  plc_marked_pkts :: u32
  plc_max_rate_kbps :: u32
  plc_active :: u32
  plc_dst_id :: u32
  plc_dev_id :: u32

text \<open>The three kinds of queues have the same fields; the one with ECN counts the marked packets, the
  others the dropped ones.\<close>

record tc_queue_stats_t =
  qs_bytes :: u32
  qs_pkts :: u32
  qs_bytes_fwd :: u32
  qs_pkts_fwd :: u32
  qs_drp_mrk :: u32
  qs_avg_sojourn_time :: u32
  qs_last_sojourn_time :: u64

datatype tc_queue_u =
    Tc_Queue_Fifo tc_queue_stats_t
  | Tc_Queue_Codel tc_queue_stats_t
  | Tc_Queue_Ecn_Codel tc_queue_stats_t
  | Tc_Queue_End

record tc_queue_t =
  q_id :: u32
  q_u :: tc_queue_u

record tc_ind_msg_t =
  tc_sch :: tc_sch_t
  tc_pcr :: tc_pcr_t
  tc_cls :: tc_cls_t
  tc_rows :: "(tc_shp_t \<times> tc_plc_t \<times> tc_queue_t) list"
  tc_tstamp :: u64

text \<open>The enumerators.\<close>

abbreviation (input) "TC_CLS_RR \<equiv> 0 :: u32"
abbreviation (input) "TC_CLS_OSI \<equiv> 1 :: u32"
abbreviation (input) "TC_CLS_STO \<equiv> 2 :: u32"
abbreviation (input) "TC_CLS_END \<equiv> 3 :: u32"
abbreviation (input) "TC_SCHED_RR \<equiv> 0 :: u32"
abbreviation (input) "TC_SCHED_PRIO \<equiv> 1 :: u32"
abbreviation (input) "TC_QUEUE_FIFO \<equiv> 0 :: u32"
abbreviation (input) "TC_QUEUE_CODEL \<equiv> 1 :: u32"
abbreviation (input) "TC_QUEUE_ECN_CODEL \<equiv> 2 :: u32"
abbreviation (input) "TC_QUEUE_END \<equiv> 3 :: u32"
abbreviation (input) "TC_PCR_DUMMY \<equiv> 0 :: u32"
abbreviation (input) "TC_PCR_5G_BDP \<equiv> 1 :: u32"

section \<open>The size of a message\<close>

fun cal_sch_payload :: "tc_sch_t \<Rightarrow> nat res" where
  "cal_sch_payload (Tc_Sched_Rr _) = Inr 4"
| "cal_sch_payload (Tc_Sched_Prio p) = Inr (4 + 4 + 4 * length p)"
| "cal_sch_payload Tc_Sched_End = Inl (Assertion ''Unknown Scheduler'')"

definition cal_mtr_payload :: "tc_mtr_t \<Rightarrow> nat" where
  "cal_mtr_payload m = 4 + 4"

definition cal_pcr_payload :: "tc_pcr_t \<Rightarrow> nat" where
  "cal_pcr_payload p = 4 + 4 + cal_mtr_payload (pcr_mtr p)"

definition sizeof_tc_cls_osi_filter :: nat where "sizeof_tc_cls_osi_filter = 48"

definition cal_cls_osi_payload :: "tc_cls_osi_filter_t list \<Rightarrow> nat" where
  "cal_cls_osi_payload osi = 4 + sizeof_tc_cls_osi_filter * length osi"

fun cal_cls_payload :: "tc_cls_t \<Rightarrow> nat res" where
  "cal_cls_payload (Tc_Cls_Rr _) = Inr (4 + 4)"
| "cal_cls_payload (Tc_Cls_Osi osi) = Inr (4 + cal_cls_osi_payload osi)"
| "cal_cls_payload (Tc_Cls_Sto _) = Inr (4 + 4)"
| "cal_cls_payload Tc_Cls_End = Inl (Assertion ''Unknown type'')"

definition cal_drp_payload :: "u32 \<Rightarrow> nat" where "cal_drp_payload drp = 4"

definition cal_mrk_payload :: "u32 \<Rightarrow> nat" where "cal_mrk_payload mrk = 4"

fun cal_q_payload :: "tc_queue_t \<Rightarrow> nat res" where
  "cal_q_payload \<lparr>q_id = _, q_u = Tc_Queue_Fifo s\<rparr> = Inr (4 + 4 + 4 + 4 + 4 + cal_drp_payload (qs_drp_mrk s) + 4 + 8)"
| "cal_q_payload \<lparr>q_id = _, q_u = Tc_Queue_Codel s\<rparr> = Inr (4 + 4 + 4 + 4 + 4 + cal_drp_payload (qs_drp_mrk s) + 4 + 8)"
| "cal_q_payload \<lparr>q_id = _, q_u = Tc_Queue_Ecn_Codel s\<rparr> = Inr (4 + 4 + 4 + 4 + 4 + cal_mrk_payload (qs_drp_mrk s) + 4 + 8)"
| "cal_q_payload \<lparr>q_id = _, q_u = Tc_Queue_End\<rparr> = Inl (Assertion ''unknown queue type'')"

definition cal_shp_payload :: "tc_shp_t \<Rightarrow> nat" where
  "cal_shp_payload s = 4 + 4 + 4 + cal_mtr_payload (shp_mtr s)"

definition cal_plc_payload :: "tc_plc_t \<Rightarrow> nat" where
  "cal_plc_payload p = 4 + cal_mtr_payload (plc_mtr p) + cal_drp_payload (plc_dropped_pkts p) +
     cal_mrk_payload (plc_marked_pkts p) + 4 + 4 + 4 + 4"

definition cal_row_payload :: "tc_shp_t \<times> tc_plc_t \<times> tc_queue_t \<Rightarrow> nat res" where
  "cal_row_payload = (\<lambda>(shp, plc, q). sizes [cal_q_payload q, Inr (cal_shp_payload shp), Inr (cal_plc_payload plc)])"

definition cal_ind_msg_payload :: "tc_ind_msg_t \<Rightarrow> nat res" where
  "cal_ind_msg_payload m =
     bnd (cal_sch_payload (tc_sch m)) (\<lambda>sz_sch.
     bnd (cal_cls_payload (tc_cls m)) (\<lambda>sz_cls.
     bnd (sizes (map cal_row_payload (tc_rows m))) (\<lambda>sz_q_shp_plc.
     Inr (sz_sch + cal_pcr_payload (tc_pcr m) + sz_cls + 4 + sz_q_shp_plc + 8))))"

section \<open>Encoding\<close>

definition tc_enc_sch_prio :: "nat \<Rightarrow> u32 list \<Rightarrow> u8 list \<Rightarrow> u8 list res" where
  "tc_enc_sch_prio cap p = writes [put32 cap (of_nat (length p)), put cap (concat (map (le_bytes 4) p))]"

fun tc_enc_sch :: "nat \<Rightarrow> tc_sch_t \<Rightarrow> u8 list \<Rightarrow> u8 list res" where
  "tc_enc_sch cap (Tc_Sched_Rr _) = put32 cap TC_SCHED_RR"
| "tc_enc_sch cap (Tc_Sched_Prio p) = writes [put32 cap TC_SCHED_PRIO, tc_enc_sch_prio cap p]"
| "tc_enc_sch cap Tc_Sched_End = (\<lambda>_. Inl (Assertion ''Unknown scheduler type''))"

definition tc_enc_mtr :: "nat \<Rightarrow> tc_mtr_t \<Rightarrow> u8 list \<Rightarrow> u8 list res" where
  "tc_enc_mtr cap m = writes [put32 cap (mtr_bnd_flt m), put32 cap (mtr_time_window_ms m)]"

definition tc_enc_pcr :: "nat \<Rightarrow> tc_pcr_t \<Rightarrow> u8 list \<Rightarrow> u8 list res" where
  "tc_enc_pcr cap p = writes [put32 cap (pcr_type p), put32 cap (pcr_id p), tc_enc_mtr cap (pcr_mtr p)]"

text \<open>A filter is copied as it lies in the memory, the padding included.\<close>

definition osi_filter_bytes :: "tc_cls_osi_filter_t \<Rightarrow> u8 list" where
  "osi_filter_bytes f =
     le_bytes 4 (flt_id f) @ [0, 0, 0, 0] @
     le_bytes 8 (l3_src_addr (flt_l3 f)) @ le_bytes 8 (l3_dst_addr (flt_l3 f)) @
     le_bytes 4 (l4_src_port (flt_l4 f)) @ le_bytes 4 (l4_dst_port (flt_l4 f)) @ le_bytes 4 (l4_protocol (flt_l4 f)) @
     le_bytes 4 (flt_l7 f) @ le_bytes 4 (flt_dst_queue f) @ [0, 0, 0, 0]"

definition osi_filter_of_bytes :: "u8 list \<Rightarrow> tc_cls_osi_filter_t" where
  "osi_filter_of_bytes bs =
     \<lparr>flt_id = le_word (take 4 bs),
      flt_l3 = \<lparr>l3_src_addr = le_word (take 8 (drop 8 bs)), l3_dst_addr = le_word (take 8 (drop 16 bs))\<rparr>,
      flt_l4 = \<lparr>l4_src_port = le_word (take 4 (drop 24 bs)), l4_dst_port = le_word (take 4 (drop 28 bs)),
                l4_protocol = le_word (take 4 (drop 32 bs))\<rparr>,
      flt_l7 = le_word (take 4 (drop 36 bs)), flt_dst_queue = le_word (take 4 (drop 40 bs))\<rparr>"

definition tc_enc_cls_osi :: "nat \<Rightarrow> tc_cls_osi_filter_t list \<Rightarrow> u8 list \<Rightarrow> u8 list res" where
  "tc_enc_cls_osi cap osi =
     writes (put32 cap (of_nat (length osi)) # map (\<lambda>f. put cap (osi_filter_bytes f)) osi)"

fun tc_enc_cls :: "nat \<Rightarrow> tc_cls_t \<Rightarrow> u8 list \<Rightarrow> u8 list res" where
  "tc_enc_cls cap (Tc_Cls_Rr dummy) = writes [put32 cap TC_CLS_RR, put32 cap dummy]"
| "tc_enc_cls cap (Tc_Cls_Osi osi) = writes [put32 cap TC_CLS_OSI, tc_enc_cls_osi cap osi]"
| "tc_enc_cls cap (Tc_Cls_Sto dummy) = writes [put32 cap TC_CLS_STO, put32 cap dummy]"
| "tc_enc_cls cap Tc_Cls_End = (\<lambda>_. Inl (Assertion ''Unknown classifier type''))"

definition tc_enc_shp :: "nat \<Rightarrow> tc_shp_t \<Rightarrow> u8 list \<Rightarrow> u8 list res" where
  "tc_enc_shp cap s =
     writes [put32 cap (shp_id s), put32 cap (shp_active s), put32 cap (shp_max_rate_kbps s), tc_enc_mtr cap (shp_mtr s)]"

definition tc_enc_drp :: "nat \<Rightarrow> u32 \<Rightarrow> u8 list \<Rightarrow> u8 list res" where
  "tc_enc_drp cap drp = put32 cap drp"

definition tc_enc_mrk :: "nat \<Rightarrow> u32 \<Rightarrow> u8 list \<Rightarrow> u8 list res" where
  "tc_enc_mrk cap mrk = put32 cap mrk"

definition tc_enc_plc :: "nat \<Rightarrow> tc_plc_t \<Rightarrow> u8 list \<Rightarrow> u8 list res" where
  "tc_enc_plc cap p =
     writes [put32 cap (plc_id p), tc_enc_mtr cap (plc_mtr p), tc_enc_drp cap (plc_dropped_pkts p),
       tc_enc_mrk cap (plc_marked_pkts p), put32 cap (plc_max_rate_kbps p), put32 cap (plc_active p),
       put32 cap (plc_dst_id p), put32 cap (plc_dev_id p)]"

definition tc_enc_q_fifo :: "nat \<Rightarrow> tc_queue_stats_t \<Rightarrow> u8 list \<Rightarrow> u8 list res" where
  "tc_enc_q_fifo cap s =
     writes [put32 cap (qs_bytes s), put32 cap (qs_pkts s), put32 cap (qs_bytes_fwd s), put32 cap (qs_pkts_fwd s),
       tc_enc_drp cap (qs_drp_mrk s), put32 cap (qs_avg_sojourn_time s), put64 cap (qs_last_sojourn_time s)]"

definition tc_enc_q_codel :: "nat \<Rightarrow> tc_queue_stats_t \<Rightarrow> u8 list \<Rightarrow> u8 list res" where
  "tc_enc_q_codel cap s =
     writes [put32 cap (qs_bytes s), put32 cap (qs_pkts s), put32 cap (qs_bytes_fwd s), put32 cap (qs_pkts_fwd s),
       tc_enc_drp cap (qs_drp_mrk s), put32 cap (qs_avg_sojourn_time s), put64 cap (qs_last_sojourn_time s)]"

definition tc_enc_q_ecn_codel :: "nat \<Rightarrow> tc_queue_stats_t \<Rightarrow> u8 list \<Rightarrow> u8 list res" where
  "tc_enc_q_ecn_codel cap s =
     writes [put32 cap (qs_bytes s), put32 cap (qs_pkts s), put32 cap (qs_bytes_fwd s), put32 cap (qs_pkts_fwd s),
       tc_enc_mrk cap (qs_drp_mrk s), put32 cap (qs_avg_sojourn_time s), put64 cap (qs_last_sojourn_time s)]"

text \<open>The identifier of the queue is not written.\<close>

definition tc_enc_q :: "nat \<Rightarrow> tc_queue_t \<Rightarrow> u8 list \<Rightarrow> u8 list res" where
  "tc_enc_q cap q =
     (case q_u q of
        Tc_Queue_Fifo s \<Rightarrow> writes [put32 cap TC_QUEUE_FIFO, tc_enc_q_fifo cap s]
      | Tc_Queue_Codel s \<Rightarrow> writes [put32 cap TC_QUEUE_CODEL, tc_enc_q_codel cap s]
      | Tc_Queue_Ecn_Codel s \<Rightarrow> writes [put32 cap TC_QUEUE_ECN_CODEL, tc_enc_q_ecn_codel cap s]
      | Tc_Queue_End \<Rightarrow> (\<lambda>_. Inl (Assertion ''unknown queue type'')))"

text \<open>After every part the encoder asserts that it has not reached the end of the buffer.\<close>

definition room_left :: "nat \<Rightarrow> u8 list \<Rightarrow> u8 list res" where
  "room_left cap out = chk (length out < cap) ''iterator out of the chunk of memory'' (Inr out)"

definition tc_enc_row :: "nat \<Rightarrow> tc_shp_t \<times> tc_plc_t \<times> tc_queue_t \<Rightarrow> u8 list \<Rightarrow> u8 list res" where
  "tc_enc_row cap = (\<lambda>(shp, plc, q).
     writes [tc_enc_shp cap shp, room_left cap, tc_enc_plc cap plc, room_left cap, tc_enc_q cap q, room_left cap])"

definition tc_enc_ind_msg_plain :: "tc_ind_msg_t \<Rightarrow> u8 list res" where
  "tc_enc_ind_msg_plain m =
     bnd (cal_ind_msg_payload m) (\<lambda>sz.
     bnd (writes ([tc_enc_sch sz (tc_sch m), room_left sz, tc_enc_pcr sz (tc_pcr m), room_left sz,
            tc_enc_cls sz (tc_cls m), room_left sz, put32 sz (of_nat (length (tc_rows m))), room_left sz] @
            map (tc_enc_row sz) (tc_rows m) @ [put64 sz (tc_tstamp m)]) []) (\<lambda>out.
     chk (length out = sz) ''Mismatch of data layout'' (Inr out)))"

section \<open>Decoding\<close>

definition tc_dec_sch_prio :: "u8 list \<Rightarrow> (u32 list \<times> u8 list) res" where
  "tc_dec_sch_prio it = bnd (get32 it) (\<lambda>(n, it). copy_array 4 le_word (unat n) it)"

definition tc_dec_sch :: "u8 list \<Rightarrow> (tc_sch_t \<times> u8 list) res" where
  "tc_dec_sch it =
     bnd (get32 it) (\<lambda>(type, it).
     if type = TC_SCHED_RR then Inr (Tc_Sched_Rr 0, it)
     else if type = TC_SCHED_PRIO then bnd (tc_dec_sch_prio it) (\<lambda>(p, it). Inr (Tc_Sched_Prio p, it))
     else Inl (Assertion ''Unknown scheduler type''))"

definition tc_dec_mtr :: "u8 list \<Rightarrow> (tc_mtr_t \<times> u8 list) res" where
  "tc_dec_mtr it =
     bnd (get32 it) (\<lambda>(b, it). bnd (get32 it) (\<lambda>(t, it).
     Inr (\<lparr>mtr_time_window_ms = t, mtr_bnd_flt = b\<rparr>, it)))"

definition tc_dec_pcr :: "u8 list \<Rightarrow> (tc_pcr_t \<times> u8 list) res" where
  "tc_dec_pcr it =
     bnd (get32 it) (\<lambda>(type, it). bnd (get32 it) (\<lambda>(id, it). bnd (tc_dec_mtr it) (\<lambda>(mtr, it).
     Inr (\<lparr>pcr_type = type, pcr_id = id, pcr_mtr = mtr\<rparr>, it))))"

definition tc_dec_cls_osi :: "u8 list \<Rightarrow> (tc_cls_osi_filter_t list \<times> u8 list) res" where
  "tc_dec_cls_osi it =
     bnd (get32 it) (\<lambda>(n, it). copy_array sizeof_tc_cls_osi_filter osi_filter_of_bytes (unat n) it)"

definition tc_dec_cls :: "u8 list \<Rightarrow> (tc_cls_t \<times> u8 list) res" where
  "tc_dec_cls it =
     bnd (get32 it) (\<lambda>(type, it).
     if type = TC_CLS_RR then bnd (get32 it) (\<lambda>(dummy, it). Inr (Tc_Cls_Rr dummy, it))
     else if type = TC_CLS_OSI then bnd (tc_dec_cls_osi it) (\<lambda>(osi, it). Inr (Tc_Cls_Osi osi, it))
     else if type = TC_CLS_STO then bnd (get32 it) (\<lambda>(dummy, it). Inr (Tc_Cls_Sto dummy, it))
     else Inl (Assertion ''Unknown classifier type''))"

definition tc_dec_shp :: "u8 list \<Rightarrow> (tc_shp_t \<times> u8 list) res" where
  "tc_dec_shp it =
     bnd (get32 it) (\<lambda>(id, it). bnd (get32 it) (\<lambda>(active, it). bnd (get32 it) (\<lambda>(rate, it).
     bnd (tc_dec_mtr it) (\<lambda>(mtr, it).
     Inr (\<lparr>shp_id = id, shp_active = active, shp_max_rate_kbps = rate, shp_mtr = mtr\<rparr>, it)))))"

definition tc_dec_drp :: "u8 list \<Rightarrow> (u32 \<times> u8 list) res" where
  "tc_dec_drp it = get32 it"

definition tc_dec_mrk :: "u8 list \<Rightarrow> (u32 \<times> u8 list) res" where
  "tc_dec_mrk it = get32 it"

definition tc_dec_plc :: "u8 list \<Rightarrow> (tc_plc_t \<times> u8 list) res" where
  "tc_dec_plc it =
     bnd (get32 it) (\<lambda>(id, it). bnd (tc_dec_mtr it) (\<lambda>(mtr, it). bnd (tc_dec_drp it) (\<lambda>(drp, it).
     bnd (tc_dec_mrk it) (\<lambda>(mrk, it). bnd (get32 it) (\<lambda>(rate, it). bnd (get32 it) (\<lambda>(active, it).
     bnd (get32 it) (\<lambda>(dst, it). bnd (get32 it) (\<lambda>(dev, it).
     Inr (\<lparr>plc_id = id, plc_mtr = mtr, plc_dropped_pkts = drp, plc_marked_pkts = mrk, plc_max_rate_kbps = rate,
           plc_active = active, plc_dst_id = dst, plc_dev_id = dev\<rparr>, it)))))))))"

definition tc_dec_q_fifo :: "u8 list \<Rightarrow> (tc_queue_stats_t \<times> u8 list) res" where
  "tc_dec_q_fifo it =
     bnd (get32 it) (\<lambda>(b, it). bnd (get32 it) (\<lambda>(p, it). bnd (get32 it) (\<lambda>(bf, it). bnd (get32 it) (\<lambda>(pf, it).
     bnd (tc_dec_drp it) (\<lambda>(d, it). bnd (get32 it) (\<lambda>(a, it). bnd (get64 it) (\<lambda>(l, it).
     Inr (\<lparr>qs_bytes = b, qs_pkts = p, qs_bytes_fwd = bf, qs_pkts_fwd = pf, qs_drp_mrk = d,
           qs_avg_sojourn_time = a, qs_last_sojourn_time = l\<rparr>, it))))))))"

definition tc_dec_q_codel :: "u8 list \<Rightarrow> (tc_queue_stats_t \<times> u8 list) res" where
  "tc_dec_q_codel it =
     bnd (get32 it) (\<lambda>(b, it). bnd (get32 it) (\<lambda>(p, it). bnd (get32 it) (\<lambda>(bf, it). bnd (get32 it) (\<lambda>(pf, it).
     bnd (tc_dec_drp it) (\<lambda>(d, it). bnd (get32 it) (\<lambda>(a, it). bnd (get64 it) (\<lambda>(l, it).
     Inr (\<lparr>qs_bytes = b, qs_pkts = p, qs_bytes_fwd = bf, qs_pkts_fwd = pf, qs_drp_mrk = d,
           qs_avg_sojourn_time = a, qs_last_sojourn_time = l\<rparr>, it))))))))"

definition tc_dec_q_ecn_codel :: "u8 list \<Rightarrow> (tc_queue_stats_t \<times> u8 list) res" where
  "tc_dec_q_ecn_codel it =
     bnd (get32 it) (\<lambda>(b, it). bnd (get32 it) (\<lambda>(p, it). bnd (get32 it) (\<lambda>(bf, it). bnd (get32 it) (\<lambda>(pf, it).
     bnd (tc_dec_mrk it) (\<lambda>(d, it). bnd (get32 it) (\<lambda>(a, it). bnd (get64 it) (\<lambda>(l, it).
     Inr (\<lparr>qs_bytes = b, qs_pkts = p, qs_bytes_fwd = bf, qs_pkts_fwd = pf, qs_drp_mrk = d,
           qs_avg_sojourn_time = a, qs_last_sojourn_time = l\<rparr>, it))))))))"

text \<open>The queues are allocated with \<^verbatim>\<open>calloc\<close>, so the identifier that is not read is 0.\<close>

definition tc_dec_q :: "u8 list \<Rightarrow> (tc_queue_t \<times> u8 list) res" where
  "tc_dec_q it =
     bnd (get32 it) (\<lambda>(type, it).
     if type = TC_QUEUE_FIFO then bnd (tc_dec_q_fifo it) (\<lambda>(s, it). Inr (\<lparr>q_id = 0, q_u = Tc_Queue_Fifo s\<rparr>, it))
     else if type = TC_QUEUE_CODEL then bnd (tc_dec_q_codel it) (\<lambda>(s, it). Inr (\<lparr>q_id = 0, q_u = Tc_Queue_Codel s\<rparr>, it))
     else if type = TC_QUEUE_ECN_CODEL then
       bnd (tc_dec_q_ecn_codel it) (\<lambda>(s, it). Inr (\<lparr>q_id = 0, q_u = Tc_Queue_Ecn_Codel s\<rparr>, it))
     else Inl (Assertion ''unknown queue type''))"

definition more_left :: "'a \<times> u8 list \<Rightarrow> ('a \<times> u8 list) res" where
  "more_left = (\<lambda>(x, it). chk (it \<noteq> []) ''iterator out of memory chunk'' (Inr (x, it)))"

definition tc_dec_row :: "u8 list \<Rightarrow> ((tc_shp_t \<times> tc_plc_t \<times> tc_queue_t) \<times> u8 list) res" where
  "tc_dec_row it =
     bnd (bnd (tc_dec_shp it) more_left) (\<lambda>(shp, it).
     bnd (bnd (tc_dec_plc it) more_left) (\<lambda>(plc, it).
     bnd (bnd (tc_dec_q it) more_left) (\<lambda>(q, it). Inr ((shp, plc, q), it))))"

definition tc_dec_ind_msg_plain :: "u8 list \<Rightarrow> tc_ind_msg_t res" where
  "tc_dec_ind_msg_plain ind_msg =
     bnd (bnd (tc_dec_sch ind_msg) more_left) (\<lambda>(sch, it).
     bnd (bnd (tc_dec_pcr it) more_left) (\<lambda>(pcr, it).
     bnd (bnd (tc_dec_cls it) more_left) (\<lambda>(cls, it).
     bnd (bnd (get32 it) more_left) (\<lambda>(len_q, it).
     bnd (reads (unat len_q) tc_dec_row it) (\<lambda>(rows, it).
     bnd (get64 it) (\<lambda>(tstamp, it).
     chk (it = []) ''Data layout mismacth''
       (Inr \<lparr>tc_sch = sch, tc_pcr = pcr, tc_cls = cls, tc_rows = rows, tc_tstamp = tstamp\<rparr>)))))))"

section \<open>The parts of the message\<close>

text \<open>
  The bytes of every part, the parts that have an alternative of their union, and what is read back
  of them: the dummy field of the round robin scheduler and the identifier of a queue are lost.
\<close>

definition mtr_bytes :: "tc_mtr_t \<Rightarrow> u8 list" where
  "mtr_bytes m = le_bytes 4 (mtr_bnd_flt m) @ le_bytes 4 (mtr_time_window_ms m)"

definition pcr_bytes :: "tc_pcr_t \<Rightarrow> u8 list" where
  "pcr_bytes p = le_bytes 4 (pcr_type p) @ le_bytes 4 (pcr_id p) @ mtr_bytes (pcr_mtr p)"

definition shp_bytes :: "tc_shp_t \<Rightarrow> u8 list" where
  "shp_bytes s = le_bytes 4 (shp_id s) @ le_bytes 4 (shp_active s) @ le_bytes 4 (shp_max_rate_kbps s) @ mtr_bytes (shp_mtr s)"

definition plc_bytes :: "tc_plc_t \<Rightarrow> u8 list" where
  "plc_bytes p =
     le_bytes 4 (plc_id p) @ mtr_bytes (plc_mtr p) @ le_bytes 4 (plc_dropped_pkts p) @ le_bytes 4 (plc_marked_pkts p) @
     le_bytes 4 (plc_max_rate_kbps p) @ le_bytes 4 (plc_active p) @ le_bytes 4 (plc_dst_id p) @ le_bytes 4 (plc_dev_id p)"

definition stats_bytes :: "tc_queue_stats_t \<Rightarrow> u8 list" where
  "stats_bytes s =
     le_bytes 4 (qs_bytes s) @ le_bytes 4 (qs_pkts s) @ le_bytes 4 (qs_bytes_fwd s) @ le_bytes 4 (qs_pkts_fwd s) @
     le_bytes 4 (qs_drp_mrk s) @ le_bytes 4 (qs_avg_sojourn_time s) @ le_bytes 8 (qs_last_sojourn_time s)"

fun sch_bytes :: "tc_sch_t \<Rightarrow> u8 list" where
  "sch_bytes (Tc_Sched_Prio p) = le_bytes 4 TC_SCHED_PRIO @ le_bytes 4 (of_nat (length p) :: u32) @ concat (map (le_bytes 4) p)"
| "sch_bytes _ = le_bytes 4 TC_SCHED_RR"

fun sch_known :: "tc_sch_t \<Rightarrow> bool" where
  "sch_known (Tc_Sched_Rr _) = True"
| "sch_known (Tc_Sched_Prio p) = (length p < 2 ^ 32)"
| "sch_known Tc_Sched_End = False"

fun sch_wire :: "tc_sch_t \<Rightarrow> tc_sch_t" where
  "sch_wire (Tc_Sched_Rr _) = Tc_Sched_Rr 0"
| "sch_wire s = s"

fun cls_bytes :: "tc_cls_t \<Rightarrow> u8 list" where
  "cls_bytes (Tc_Cls_Rr d) = le_bytes 4 TC_CLS_RR @ le_bytes 4 d"
| "cls_bytes (Tc_Cls_Osi fs) =
     le_bytes 4 TC_CLS_OSI @ le_bytes 4 (of_nat (length fs) :: u32) @ concat (map osi_filter_bytes fs)"
| "cls_bytes (Tc_Cls_Sto d) = le_bytes 4 TC_CLS_STO @ le_bytes 4 d"
| "cls_bytes Tc_Cls_End = le_bytes 4 TC_CLS_END"

fun cls_known :: "tc_cls_t \<Rightarrow> bool" where
  "cls_known (Tc_Cls_Osi fs) = (length fs < 2 ^ 32)"
| "cls_known Tc_Cls_End = False"
| "cls_known _ = True"

definition q_known :: "tc_queue_t \<Rightarrow> bool" where
  "q_known q = (q_u q \<noteq> Tc_Queue_End)"

definition q_bytes :: "tc_queue_t \<Rightarrow> u8 list" where
  "q_bytes q =
     (case q_u q of
        Tc_Queue_Fifo s \<Rightarrow> le_bytes 4 TC_QUEUE_FIFO @ stats_bytes s
      | Tc_Queue_Codel s \<Rightarrow> le_bytes 4 TC_QUEUE_CODEL @ stats_bytes s
      | Tc_Queue_Ecn_Codel s \<Rightarrow> le_bytes 4 TC_QUEUE_ECN_CODEL @ stats_bytes s
      | Tc_Queue_End \<Rightarrow> le_bytes 4 TC_QUEUE_END)"

lemmas mtr_defs = mtr_bytes_def cal_mtr_payload_def tc_enc_mtr_def tc_dec_mtr_def

lemma sum_of_map_const: "(\<And>x. x \<in> set xs \<Longrightarrow> f x = c) \<Longrightarrow> sum_list (map f xs) = length xs * (c :: nat)"
  by (induction xs) simp_all

interpretation osi_filter: plain sizeof_tc_cls_osi_filter osi_filter_bytes osi_filter_of_bytes
  by unfold_locales
    (simp_all add: osi_filter_bytes_def osi_filter_of_bytes_def sizeof_tc_cls_osi_filter_def nth_append nth_Cons')

interpretation pcr: codec "\<lambda>_. True" pcr_bytes "\<lambda>p. Inr (cal_pcr_payload p)" tc_enc_pcr tc_dec_pcr "\<lambda>p. p"
  by unfold_locales (simp_all add: pcr_bytes_def cal_pcr_payload_def tc_enc_pcr_def tc_dec_pcr_def mtr_defs)

interpretation shp: codec "\<lambda>_. True" shp_bytes "\<lambda>s. Inr (cal_shp_payload s)" tc_enc_shp tc_dec_shp "\<lambda>s. s"
  by unfold_locales (simp_all add: shp_bytes_def cal_shp_payload_def tc_enc_shp_def tc_dec_shp_def mtr_defs)

lemmas drp_mrk_defs =
  cal_drp_payload_def cal_mrk_payload_def tc_enc_drp_def tc_enc_mrk_def tc_dec_drp_def tc_dec_mrk_def

interpretation plc: codec "\<lambda>_. True" plc_bytes "\<lambda>p. Inr (cal_plc_payload p)" tc_enc_plc tc_dec_plc "\<lambda>p. p"
  by unfold_locales (simp_all add: plc_bytes_def cal_plc_payload_def tc_enc_plc_def tc_dec_plc_def mtr_defs drp_mrk_defs)

lemma sch_laws:
  "sch_known s \<Longrightarrow> cal_sch_payload s = Inr (length (sch_bytes s))"
  "sch_known s \<Longrightarrow> length out + length (sch_bytes s) \<le> cap \<Longrightarrow> tc_enc_sch cap s out = Inr (out @ sch_bytes s)"
  "sch_known s \<Longrightarrow> tc_dec_sch (sch_bytes s @ rest) = Inr (sch_wire s, rest)"
  by (cases s; simp add: tc_enc_sch_prio_def tc_dec_sch_def tc_dec_sch_prio_def le32.enc_array_length le32.copy_array_enc)+

interpretation sch: codec sch_known sch_bytes cal_sch_payload tc_enc_sch tc_dec_sch sch_wire
  by unfold_locales (simp_all add: sch_laws)

lemma enc_filters:
  "length out + sizeof_tc_cls_osi_filter * length fs \<le> cap \<Longrightarrow>
     writes (map (\<lambda>f. put cap (osi_filter_bytes f)) fs) out = Inr (out @ concat (map osi_filter_bytes fs))"
  using writes_array [of fs osi_filter_bytes 0 cap "\<lambda>f. put cap (osi_filter_bytes f)" out]
  by (simp add: osi_filter.enc_array_length)

lemma cls_laws:
  "cls_known c \<Longrightarrow> cal_cls_payload c = Inr (length (cls_bytes c))"
  "cls_known c \<Longrightarrow> length out + length (cls_bytes c) \<le> cap \<Longrightarrow> tc_enc_cls cap c out = Inr (out @ cls_bytes c)"
  "cls_known c \<Longrightarrow> tc_dec_cls (cls_bytes c @ rest) = Inr (c, rest)"
  by (cases c; simp add: cal_cls_osi_payload_def tc_enc_cls_osi_def tc_dec_cls_def tc_dec_cls_osi_def
        osi_filter.enc_array_length osi_filter.copy_array_enc enc_filters)+

interpretation cls: codec cls_known cls_bytes cal_cls_payload tc_enc_cls tc_dec_cls "\<lambda>c. c"
  by unfold_locales (simp_all add: cls_laws)

lemma stats_laws:
  "length (stats_bytes s) = 32"
  "length out + 32 \<le> cap \<Longrightarrow> tc_enc_q_fifo cap s out = Inr (out @ stats_bytes s)"
  "length out + 32 \<le> cap \<Longrightarrow> tc_enc_q_codel cap s out = Inr (out @ stats_bytes s)"
  "length out + 32 \<le> cap \<Longrightarrow> tc_enc_q_ecn_codel cap s out = Inr (out @ stats_bytes s)"
  "tc_dec_q_fifo (stats_bytes s @ rest) = Inr (s, rest)"
  "tc_dec_q_codel (stats_bytes s @ rest) = Inr (s, rest)"
  "tc_dec_q_ecn_codel (stats_bytes s @ rest) = Inr (s, rest)"
  by (simp_all add: stats_bytes_def tc_enc_q_fifo_def tc_enc_q_codel_def tc_enc_q_ecn_codel_def
        tc_dec_q_fifo_def tc_dec_q_codel_def tc_dec_q_ecn_codel_def drp_mrk_defs)

lemma q_laws:
  assumes "q_known q"
  shows "cal_q_payload q = Inr (length (q_bytes q))"
    and "length out + length (q_bytes q) \<le> cap \<Longrightarrow> tc_enc_q cap q out = Inr (out @ q_bytes q)"
    and "tc_dec_q (q_bytes q @ rest) = Inr (q\<lparr>q_id := 0\<rparr>, rest)"
  by (cases q; cases "q_u q"; use assms in \<open>simp add: q_known_def q_bytes_def tc_enc_q_def tc_dec_q_def
        stats_laws drp_mrk_defs\<close>)+

interpretation q: codec q_known q_bytes cal_q_payload tc_enc_q tc_dec_q "\<lambda>q. q\<lparr>q_id := 0\<rparr>"
  by unfold_locales (simp_all add: q_laws)

section \<open>The message\<close>

definition row_bytes :: "tc_shp_t \<times> tc_plc_t \<times> tc_queue_t \<Rightarrow> u8 list" where
  "row_bytes = (\<lambda>(shp, plc, q). shp_bytes shp @ plc_bytes plc @ q_bytes q)"

definition ind_known :: "tc_ind_msg_t \<Rightarrow> bool" where
  "ind_known m \<longleftrightarrow> tc_sch m \<noteq> Tc_Sched_End \<and> tc_cls m \<noteq> Tc_Cls_End \<and> (\<forall>(_, _, q) \<in> set (tc_rows m). q_u q \<noteq> Tc_Queue_End)"

text \<open>The lengths that the fields of 32 bits hold in the source.\<close>

definition ind_lengths :: "tc_ind_msg_t \<Rightarrow> bool" where
  "ind_lengths m \<longleftrightarrow> length (tc_rows m) < 2 ^ 32 \<and>
     (case tc_sch m of Tc_Sched_Prio p \<Rightarrow> length p < 2 ^ 32 | _ \<Rightarrow> True) \<and>
     (case tc_cls m of Tc_Cls_Osi fs \<Rightarrow> length fs < 2 ^ 32 | _ \<Rightarrow> True)"

definition ind_wire :: "tc_ind_msg_t \<Rightarrow> tc_ind_msg_t" where
  "ind_wire m =
     m\<lparr>tc_sch := sch_wire (tc_sch m), tc_rows := map (\<lambda>(shp, plc, q). (shp, plc, q\<lparr>q_id := 0\<rparr>)) (tc_rows m)\<rparr>"

lemma known_parts:
  assumes "ind_known m" "ind_lengths m"
  shows "sch_known (tc_sch m)" "cls_known (tc_cls m)" "\<And>shp plc q. (shp, plc, q) \<in> set (tc_rows m) \<Longrightarrow> q_known q"
proof -
  show "sch_known (tc_sch m)"
    using assms by (cases "tc_sch m") (simp_all add: ind_known_def ind_lengths_def)
  show "cls_known (tc_cls m)"
    using assms by (cases "tc_cls m") (simp_all add: ind_known_def ind_lengths_def)
  show "\<And>shp plc q. (shp, plc, q) \<in> set (tc_rows m) \<Longrightarrow> q_known q"
    using assms(1) by (fastforce simp: ind_known_def q_known_def)
qed

lemma row_size:
  "q_known (snd (snd r)) \<Longrightarrow> cal_row_payload r = Inr (length (row_bytes r))"
  using shp.size_law plc.size_law by (cases r) (simp add: row_bytes_def cal_row_payload_def q.size_law)

lemma row_enc:
  "q_known (snd (snd r)) \<Longrightarrow> length out + length (row_bytes r) + 8 \<le> cap \<Longrightarrow> tc_enc_row cap r out = Inr (out @ row_bytes r)"
  by (cases r) (simp add: row_bytes_def tc_enc_row_def room_left_def shp.enc_law plc.enc_law q.enc_law)

lemma row_dec:
  assumes "q_known (snd (snd r))" "bs \<noteq> []"
  shows "tc_dec_row (row_bytes r @ bs) = Inr ((case r of (shp, plc, q) \<Rightarrow> (shp, plc, q\<lparr>q_id := 0\<rparr>)), bs)"
proof -
  obtain s p q where r: "r = (s, p, q)"
    by (cases r)
  have q: "q_known q"
    using assms(1) by (simp add: r)
  show ?thesis
    using assms(2) shp.dec_law [of s "plc_bytes p @ q_bytes q @ bs"] plc.dec_law [of p "q_bytes q @ bs"] q.dec_law [OF q, of bs]
    by (simp add: r row_bytes_def tc_dec_row_def more_left_def)
qed

definition ind_bytes :: "tc_ind_msg_t \<Rightarrow> u8 list" where
  "ind_bytes m =
     sch_bytes (tc_sch m) @ pcr_bytes (tc_pcr m) @ cls_bytes (tc_cls m) @ le_bytes 4 (of_nat (length (tc_rows m)) :: u32) @
     concat (map row_bytes (tc_rows m)) @ le_bytes 8 (tc_tstamp m)"

lemma ind_size:
  assumes "ind_known m" "ind_lengths m"
  shows "cal_ind_msg_payload m = Inr (length (ind_bytes m))"
proof -
  have "sizes (map cal_row_payload (tc_rows m)) =
      Inr (length (concat (map row_bytes (tc_rows m))))"
    by (rule sizes_array) (use known_parts(3) [OF assms] row_size in \<open>metis prod.collapse\<close>)
  then show ?thesis
    using known_parts [OF assms] pcr.size_law [of "tc_pcr m"]
    by (simp add: cal_ind_msg_payload_def ind_bytes_def sch.size_law cls.size_law)
qed

lemma ind_writes:
  assumes "ind_known m" "ind_lengths m" "length (ind_bytes m) \<le> cap"
  shows "writes ([tc_enc_sch cap (tc_sch m), room_left cap, tc_enc_pcr cap (tc_pcr m), room_left cap,
     tc_enc_cls cap (tc_cls m), room_left cap, put32 cap (of_nat (length (tc_rows m))), room_left cap] @
     map (tc_enc_row cap) (tc_rows m) @ [put64 cap (tc_tstamp m)]) [] = Inr (ind_bytes m)"
proof -
  note k = known_parts [OF assms(1,2)]
  let ?rows = "concat (map row_bytes (tc_rows m))"
  have rows: "writes (map (tc_enc_row cap) (tc_rows m)) out = Inr (out @ ?rows)" if "length out + length ?rows + 8 \<le> cap" for out
    by (rule writes_array [OF _ that], rule row_enc) (use k(3) in \<open>metis prod.collapse\<close>)
  have "length (sch_bytes (tc_sch m)) + length (pcr_bytes (tc_pcr m)) + length (cls_bytes (tc_cls m)) + length ?rows + 12 \<le> cap"
    using assms(3) by (simp add: ind_bytes_def del: length_concat)
  then show ?thesis
    using k(1,2) by (simp add: ind_bytes_def writes_append rows room_left_def sch.enc_law cls.enc_law pcr.enc_law del: length_concat)
qed

lemma ind_enc:
  assumes "ind_known m" "ind_lengths m"
  shows "tc_enc_ind_msg_plain m = Inr (ind_bytes m)"
  unfolding tc_enc_ind_msg_plain_def ind_size [OF assms] bnd_simps ind_writes [OF assms order_refl] by simp

lemma ind_dec:
  assumes "ind_known m" "ind_lengths m"
  shows "tc_dec_ind_msg_plain (ind_bytes m) = Inr (ind_wire m)"
proof -
  note k = known_parts [OF assms]
  have "reads (length (tc_rows m)) tc_dec_row (concat (map row_bytes (tc_rows m)) @ le_bytes 8 (tc_tstamp m)) =
      Inr (map (\<lambda>(shp, plc, q). (shp, plc, q\<lparr>q_id := 0\<rparr>)) (tc_rows m), le_bytes 8 (tc_tstamp m))"
    by (rule reads_array, rule row_dec) (use k(3) in \<open>metis prod.collapse\<close>, assumption, simp add: le_bytes_def)
  then show ?thesis
    using assms(2) pcr.dec_law
    by (simp add: tc_dec_ind_msg_plain_def ind_bytes_def ind_wire_def ind_lengths_def more_left_def sch.dec_law cls.dec_law k)
qed

lemma row_abort:
  "q_u (snd (snd r)) = Tc_Queue_End \<Longrightarrow> cal_row_payload r = Inl (Assertion ''unknown queue type'')"
  by (cases r; cases "snd (snd r)") (simp add: cal_row_payload_def)

lemma cal_total:
  "s \<noteq> Tc_Sched_End \<Longrightarrow> \<exists>n. cal_sch_payload s = Inr n"
  "c \<noteq> Tc_Cls_End \<Longrightarrow> \<exists>n. cal_cls_payload c = Inr n"
  by (cases s; simp) (cases c; simp)

lemma ind_unknown:
  assumes "\<not> ind_known m"
  shows "\<exists>msg. tc_enc_ind_msg_plain m = Inl (Assertion msg)"
proof (cases "tc_sch m = Tc_Sched_End \<or> tc_cls m = Tc_Cls_End")
  case True
  then show ?thesis
    using cal_total(1) [of "tc_sch m"] by (cases "tc_sch m = Tc_Sched_End") (auto simp: tc_enc_ind_msg_plain_def cal_ind_msg_payload_def)
next
  case False
  obtain n k where n: "cal_sch_payload (tc_sch m) = Inr n" "cal_cls_payload (tc_cls m) = Inr k"
    using False cal_total by blast
  obtain r where r: "r \<in> set (tc_rows m)" "q_u (snd (snd r)) = Tc_Queue_End"
    using assms False by (auto simp: ind_known_def)
  have "\<exists>msg. sizes (map cal_row_payload (tc_rows m)) = Inl (Assertion msg)"
  proof (rule sizes_abort)
    show "Inl (Assertion ''unknown queue type'') \<in> set (map cal_row_payload (tc_rows m))"
      unfolding set_map row_abort [OF r(2), symmetric] using r(1) by (rule imageI)
  next
    fix e assume "Inl e \<in> set (map cal_row_payload (tc_rows m))"
    then obtain r where e: "cal_row_payload r = Inl e"
      by auto
    have "q_u (snd (snd r)) = Tc_Queue_End"
      using e row_size [of r] by (cases "q_known (snd (snd r))") (simp_all add: q_known_def)
    then show "\<exists>msg. e = Assertion msg"
      using e row_abort [of r] by auto
  qed
  then show ?thesis
    using n by (auto simp: tc_enc_ind_msg_plain_def cal_ind_msg_payload_def)
qed

text \<open>
  C17. The plain encoding of the traffic control indications.  A message whose unions all have a known
  tag is encoded into as many bytes as its size was computed to be, and the decoder reads it back with
  two exceptions: the identifiers of the queues and the dummy field of the round robin scheduler are
  not in the encoding and come back as 0.  A message with an unknown tag makes the encoder abort
  before it writes anything.
\<close>

theorem tc_indication_roundtrip:
  assumes "ind_lengths m"
  shows "if ind_known m
         then \<exists>bs. cal_ind_msg_payload m = Inr (length bs) \<and> tc_enc_ind_msg_plain m = Inr bs \<and>
                tc_dec_ind_msg_plain bs = Inr (ind_wire m)
         else \<exists>msg. tc_enc_ind_msg_plain m = Inl (Assertion msg)"
  using assms ind_size ind_enc ind_dec ind_unknown by simp

definition example_tc_ind :: tc_ind_msg_t where
  "example_tc_ind =
     (let mtr = \<lparr>mtr_time_window_ms = 100, mtr_bnd_flt = 0\<rparr>;
          stats = \<lparr>qs_bytes = 1500, qs_pkts = 1, qs_bytes_fwd = 0, qs_pkts_fwd = 0, qs_drp_mrk = 2,
                   qs_avg_sojourn_time = 0, qs_last_sojourn_time = 7\<rparr>
      in \<lparr>tc_sch = Tc_Sched_Prio [3, 1], tc_pcr = \<lparr>pcr_type = TC_PCR_5G_BDP, pcr_id = 4, pcr_mtr = mtr\<rparr>,
          tc_cls = Tc_Cls_Osi [\<lparr>flt_id = 1, flt_l3 = \<lparr>l3_src_addr = - 1, l3_dst_addr = 9\<rparr>,
            flt_l4 = \<lparr>l4_src_port = 80, l4_dst_port = - 1, l4_protocol = 17\<rparr>, flt_l7 = 0, flt_dst_queue = 2\<rparr>],
          tc_rows = [(\<lparr>shp_id = 5, shp_active = 1, shp_max_rate_kbps = 1000, shp_mtr = mtr\<rparr>,
            \<lparr>plc_id = 6, plc_mtr = mtr, plc_dropped_pkts = 1, plc_marked_pkts = 2, plc_max_rate_kbps = 0,
             plc_active = 0, plc_dst_id = 8, plc_dev_id = 9\<rparr>,
            \<lparr>q_id = 12, q_u = Tc_Queue_Codel stats\<rparr>)],
          tc_tstamp = 123456\<rparr>)"

theorem tc_indication_roundtrip_witness:
  "\<exists>bs. tc_enc_ind_msg_plain example_tc_ind = Inr bs \<and> length bs = 192 \<and>
     tc_dec_ind_msg_plain bs = Inr (ind_wire example_tc_ind) \<and> ind_wire example_tc_ind \<noteq> example_tc_ind"
proof -
  have k: "ind_known example_tc_ind" "ind_lengths example_tc_ind" "cal_ind_msg_payload example_tc_ind = Inr 192"
    by (simp_all add: example_tc_ind_def Let_def ind_known_def ind_lengths_def cal_ind_msg_payload_def cal_row_payload_def cal_cls_osi_payload_def
        sizeof_tc_cls_osi_filter_def cal_pcr_payload_def cal_mtr_payload_def cal_shp_payload_def cal_plc_payload_def drp_mrk_defs)
  have "ind_wire example_tc_ind \<noteq> example_tc_ind"
    by (simp add: example_tc_ind_def ind_wire_def Let_def)
  then show ?thesis
    using tc_indication_roundtrip [OF k(2)] k(1,3) by auto
qed

end
