(* ===== verification/Tc_Ctrl_Codec.thy ===== *)
theory Tc_Ctrl_Codec
  imports Tc_Ind_Codec
begin

text \<open>
  The control messages of the traffic control service model, their plain encoding and the copies that
  the tests and the xApps make of them, with the short messages of the service model.  A control
  message adds, deletes or modifies a part of the pipeline: its classifier, policer, queues,
  scheduler, shaper or pacer.

  The six kinds of control messages are tagged with the action in the same way; \<open>act_t\<close> is
  that union, and the locale \<open>act_codec\<close> proves its encoding correct once.
\<close>

section \<open>Information elements\<close>

datatype ('a, 'd, 'm) act_t =
    Act_Add 'a
  | Act_Del 'd
  | Act_Mod 'm
  | Act_End

record tc_add_cls_osi_t =
  add_l3 :: L3_filter_t
  add_l4 :: L4_filter_t
  add_l7 :: u32
  add_dst_queue :: u32

datatype tc_add_ctrl_cls_t =
    Add_Cls_Rr u32
  | Add_Cls_Osi tc_add_cls_osi_t
  | Add_Cls_Sto u32
  | Add_Cls_End

datatype tc_mod_ctrl_cls_t =
    Mod_Cls_Rr u32
  | Mod_Cls_Osi tc_cls_osi_filter_t
  | Mod_Cls_Sto u32
  | Mod_Cls_End

datatype tc_del_ctrl_cls_t =
    Del_Cls_Rr u32
  | Del_Cls_Osi u32
  | Del_Cls_Sto u32
  | Del_Cls_End

type_synonym tc_ctrl_cls_t = "(tc_add_ctrl_cls_t, tc_del_ctrl_cls_t, tc_mod_ctrl_cls_t) act_t"

record tc_mod_ctrl_plc_t =
  mplc_id :: u32
  mplc_drop_rate_kbps :: u32
  mplc_dev_id :: u32
  mplc_dev_rate_kbps :: u32
  mplc_active :: u32

type_synonym tc_ctrl_plc_t = "(u32, u32, tc_mod_ctrl_plc_t) act_t"

datatype tc_ctrl_queue_u =
    Ctrl_Fifo u32
  | Ctrl_Codel u32 u32
  | Ctrl_Ecn_Codel u32 u32
  | Ctrl_Queue_Type_End

record tc_mod_ctrl_queue_t =
  mq_id :: u32
  mq_u :: tc_ctrl_queue_u

record tc_del_ctrl_queue_t =
  dq_id :: u32
  dq_type :: u32

type_synonym tc_ctrl_queue_t = "(tc_ctrl_queue_u, tc_del_ctrl_queue_t, tc_mod_ctrl_queue_t) act_t"

type_synonym tc_ctrl_sch_t = "(u32, u32, tc_sch_t) act_t"

record tc_mod_ctrl_shp_t =
  mshp_id :: u32
  mshp_time_window_ms :: u32
  mshp_max_rate_kbps :: u32
  mshp_active :: u32

type_synonym tc_ctrl_shp_t = "(u32, u32, tc_mod_ctrl_shp_t) act_t"

datatype tc_mod_ctrl_pcr_t =
    Mod_Pcr_Dummy u32
  | Mod_Pcr_5g_Bdp u32 u64
  | Mod_Pcr_End

type_synonym tc_ctrl_pcr_t = "(u32, u32, tc_mod_ctrl_pcr_t) act_t"

datatype tc_ctrl_msg_t =
    Ctrl_Cls tc_ctrl_cls_t
  | Ctrl_Plc tc_ctrl_plc_t
  | Ctrl_Queue tc_ctrl_queue_t
  | Ctrl_Sch tc_ctrl_sch_t
  | Ctrl_Shp tc_ctrl_shp_t
  | Ctrl_Pcr tc_ctrl_pcr_t
  | Ctrl_End

abbreviation (input) "ACTION_ADD \<equiv> 0 :: u32"
abbreviation (input) "ACTION_DEL \<equiv> 1 :: u32"
abbreviation (input) "ACTION_MOD \<equiv> 2 :: u32"
abbreviation (input) "TC_CTRL_CLS \<equiv> 0 :: u32"
abbreviation (input) "TC_CTRL_PLC \<equiv> 1 :: u32"
abbreviation (input) "TC_CTRL_QUEUE \<equiv> 2 :: u32"
abbreviation (input) "TC_CTRL_SCH \<equiv> 3 :: u32"
abbreviation (input) "TC_CTRL_SHP \<equiv> 4 :: u32"
abbreviation (input) "TC_CTRL_PCR \<equiv> 5 :: u32"

section \<open>The tag of the action\<close>

fun cal_act :: "('a \<Rightarrow> nat res) \<Rightarrow> ('d \<Rightarrow> nat res) \<Rightarrow> ('m \<Rightarrow> nat res) \<Rightarrow> ('a, 'd, 'm) act_t \<Rightarrow> nat res" where
  "cal_act a d m (Act_Add x) = sizes [Inr 4, a x]"
| "cal_act a d m (Act_Del x) = sizes [Inr 4, d x]"
| "cal_act a d m (Act_Mod x) = sizes [Inr 4, m x]"
| "cal_act a d m Act_End = Inl (Assertion ''Unknown action type'')"

fun enc_act :: "(nat \<Rightarrow> 'a \<Rightarrow> u8 list \<Rightarrow> u8 list res) \<Rightarrow> (nat \<Rightarrow> 'd \<Rightarrow> u8 list \<Rightarrow> u8 list res) \<Rightarrow>
    (nat \<Rightarrow> 'm \<Rightarrow> u8 list \<Rightarrow> u8 list res) \<Rightarrow> nat \<Rightarrow> ('a, 'd, 'm) act_t \<Rightarrow> u8 list \<Rightarrow> u8 list res" where
  "enc_act a d m cap (Act_Add x) = writes [put32 cap ACTION_ADD, a cap x]"
| "enc_act a d m cap (Act_Del x) = writes [put32 cap ACTION_DEL, d cap x]"
| "enc_act a d m cap (Act_Mod x) = writes [put32 cap ACTION_MOD, m cap x]"
| "enc_act a d m cap Act_End = (\<lambda>_. Inl (Assertion ''Unknown action type''))"

definition dec_act :: "(u8 list \<Rightarrow> ('a \<times> u8 list) res) \<Rightarrow> (u8 list \<Rightarrow> ('d \<times> u8 list) res) \<Rightarrow>
    (u8 list \<Rightarrow> ('m \<times> u8 list) res) \<Rightarrow> u8 list \<Rightarrow> (('a, 'd, 'm) act_t \<times> u8 list) res" where
  "dec_act a d m it =
     bnd (get32 it) (\<lambda>(act, it).
     if act = ACTION_ADD then bnd (a it) (\<lambda>(x, it). Inr (Act_Add x, it))
     else if act = ACTION_DEL then bnd (d it) (\<lambda>(x, it). Inr (Act_Del x, it))
     else if act = ACTION_MOD then bnd (m it) (\<lambda>(x, it). Inr (Act_Mod x, it))
     else Inl (Assertion ''Unknown action type''))"

fun act_bytes :: "('a \<Rightarrow> u8 list) \<Rightarrow> ('d \<Rightarrow> u8 list) \<Rightarrow> ('m \<Rightarrow> u8 list) \<Rightarrow> ('a, 'd, 'm) act_t \<Rightarrow> u8 list" where
  "act_bytes a d m (Act_Add x) = le_bytes 4 ACTION_ADD @ a x"
| "act_bytes a d m (Act_Del x) = le_bytes 4 ACTION_DEL @ d x"
| "act_bytes a d m (Act_Mod x) = le_bytes 4 ACTION_MOD @ m x"
| "act_bytes a d m Act_End = []"

fun act_ok :: "('a \<Rightarrow> bool) \<Rightarrow> ('d \<Rightarrow> bool) \<Rightarrow> ('m \<Rightarrow> bool) \<Rightarrow> ('a, 'd, 'm) act_t \<Rightarrow> bool" where
  "act_ok a d m (Act_Add x) = a x"
| "act_ok a d m (Act_Del x) = d x"
| "act_ok a d m (Act_Mod x) = m x"
| "act_ok a d m Act_End = False"

text \<open>The contract of the three alternatives gives that of the tagged union.\<close>

locale act_codec =
  add: codec a_ok a_bytes a_sz a_enc a_dec "\<lambda>x. x" +
  del: codec d_ok d_bytes d_sz d_enc d_dec "\<lambda>x. x" +
  md: codec m_ok m_bytes m_sz m_enc m_dec "\<lambda>x. x"
  for a_ok :: "'a \<Rightarrow> bool" and a_bytes a_sz a_enc a_dec and d_ok :: "'d \<Rightarrow> bool" and d_bytes d_sz d_enc d_dec
    and m_ok :: "'m \<Rightarrow> bool" and m_bytes m_sz m_enc m_dec
begin

lemma act_size:
  "act_ok a_ok d_ok m_ok x \<Longrightarrow> cal_act a_sz d_sz m_sz x = Inr (length (act_bytes a_bytes d_bytes m_bytes x))"
  by (cases x) (simp_all add: add.size_law del.size_law md.size_law)

lemma act_enc:
  "act_ok a_ok d_ok m_ok x \<Longrightarrow> length out + length (act_bytes a_bytes d_bytes m_bytes x) \<le> cap \<Longrightarrow>
     enc_act a_enc d_enc m_enc cap x out = Inr (out @ act_bytes a_bytes d_bytes m_bytes x)"
  by (cases x) (simp_all add: add.enc_law del.enc_law md.enc_law)

lemma act_dec:
  "act_ok a_ok d_ok m_ok x \<Longrightarrow> dec_act a_dec d_dec m_dec (act_bytes a_bytes d_bytes m_bytes x @ rest) = Inr (x, rest)"
  by (cases x) (simp_all add: dec_act_def add.dec_law del.dec_law md.dec_law)

end

sublocale act_codec \<subseteq> act: codec "act_ok a_ok d_ok m_ok" "act_bytes a_bytes d_bytes m_bytes" "cal_act a_sz d_sz m_sz"
  "enc_act a_enc d_enc m_enc" "dec_act a_dec d_dec m_dec" "\<lambda>x. x"
  by unfold_locales (simp_all add: act_size act_enc act_dec)

text \<open>A field of 32 bits, for the alternatives that have nothing else.\<close>

definition cal_u32 :: "u32 \<Rightarrow> nat res" where
  "cal_u32 w = Inr 4"

interpretation u32c: codec "\<lambda>_. True" "le_bytes 4 :: u32 \<Rightarrow> u8 list" cal_u32 put32 get32 "\<lambda>w. w"
  by unfold_locales (simp_all add: cal_u32_def)

section \<open>Classifier\<close>

text \<open>The size counts the filter of layer 7, which is not written.\<close>

definition cal_tc_add_ctrl_payload_cls_osi :: "tc_add_cls_osi_t \<Rightarrow> nat" where
  "cal_tc_add_ctrl_payload_cls_osi osi = 16 + 12 + 4 + 4"

fun cal_tc_add_ctrl_payload_cls :: "tc_add_ctrl_cls_t \<Rightarrow> nat res" where
  "cal_tc_add_ctrl_payload_cls (Add_Cls_Rr d) = Inr (4 + 4)"
| "cal_tc_add_ctrl_payload_cls (Add_Cls_Osi osi) = Inr (4 + cal_tc_add_ctrl_payload_cls_osi osi)"
| "cal_tc_add_ctrl_payload_cls (Add_Cls_Sto d) = Inr (4 + 4)"
| "cal_tc_add_ctrl_payload_cls Add_Cls_End = Inl (Assertion ''Unknown classifier type'')"

fun cal_tc_mod_ctrl_payload_cls :: "tc_mod_ctrl_cls_t \<Rightarrow> nat res" where
  "cal_tc_mod_ctrl_payload_cls (Mod_Cls_Rr d) = Inr (4 + 4)"
| "cal_tc_mod_ctrl_payload_cls (Mod_Cls_Osi f) = Inr (4 + sizeof_tc_cls_osi_filter)"
| "cal_tc_mod_ctrl_payload_cls (Mod_Cls_Sto d) = Inr (4 + 4)"
| "cal_tc_mod_ctrl_payload_cls Mod_Cls_End = Inl (Assertion ''Unknown classifier type'')"

fun cal_tc_del_ctrl_payload_cls :: "tc_del_ctrl_cls_t \<Rightarrow> nat res" where
  "cal_tc_del_ctrl_payload_cls (Del_Cls_Rr d) = Inr (4 + 4)"
| "cal_tc_del_ctrl_payload_cls (Del_Cls_Osi i) = Inr (4 + 4)"
| "cal_tc_del_ctrl_payload_cls (Del_Cls_Sto d) = Inr (4 + 4)"
| "cal_tc_del_ctrl_payload_cls Del_Cls_End = Inl (Assertion ''Unknown classifier type'')"

definition cal_tc_ctrl_payload_cls :: "tc_ctrl_cls_t \<Rightarrow> nat res" where
  "cal_tc_ctrl_payload_cls = cal_act cal_tc_add_ctrl_payload_cls cal_tc_del_ctrl_payload_cls cal_tc_mod_ctrl_payload_cls"

definition enc_tc_add_ctrl_payload_cls_osi :: "nat \<Rightarrow> tc_add_cls_osi_t \<Rightarrow> u8 list \<Rightarrow> u8 list res" where
  "enc_tc_add_ctrl_payload_cls_osi cap osi =
     writes [put64 cap (l3_src_addr (add_l3 osi)), put64 cap (l3_dst_addr (add_l3 osi)),
       put32 cap (l4_src_port (add_l4 osi)), put32 cap (l4_dst_port (add_l4 osi)), put32 cap (l4_protocol (add_l4 osi)),
       put32 cap (add_dst_queue osi)]"

fun enc_tc_add_ctrl_payload_cls :: "nat \<Rightarrow> tc_add_ctrl_cls_t \<Rightarrow> u8 list \<Rightarrow> u8 list res" where
  "enc_tc_add_ctrl_payload_cls cap (Add_Cls_Rr d) = writes [put32 cap TC_CLS_RR, put32 cap d]"
| "enc_tc_add_ctrl_payload_cls cap (Add_Cls_Osi osi) = writes [put32 cap TC_CLS_OSI, enc_tc_add_ctrl_payload_cls_osi cap osi]"
| "enc_tc_add_ctrl_payload_cls cap (Add_Cls_Sto d) = writes [put32 cap TC_CLS_STO, put32 cap d]"
| "enc_tc_add_ctrl_payload_cls cap Add_Cls_End = (\<lambda>_. Inl (Assertion ''Unknown classifier type''))"

fun enc_tc_mod_ctrl_payload_cls :: "nat \<Rightarrow> tc_mod_ctrl_cls_t \<Rightarrow> u8 list \<Rightarrow> u8 list res" where
  "enc_tc_mod_ctrl_payload_cls cap (Mod_Cls_Rr d) = writes [put32 cap TC_CLS_RR, put32 cap d]"
| "enc_tc_mod_ctrl_payload_cls cap (Mod_Cls_Osi f) = writes [put32 cap TC_CLS_OSI, put cap (osi_filter_bytes f)]"
| "enc_tc_mod_ctrl_payload_cls cap (Mod_Cls_Sto d) = writes [put32 cap TC_CLS_STO, put32 cap d]"
| "enc_tc_mod_ctrl_payload_cls cap Mod_Cls_End = (\<lambda>_. Inl (Assertion ''Unknown classifier type''))"

fun enc_tc_del_ctrl_payload_cls :: "nat \<Rightarrow> tc_del_ctrl_cls_t \<Rightarrow> u8 list \<Rightarrow> u8 list res" where
  "enc_tc_del_ctrl_payload_cls cap (Del_Cls_Rr d) = writes [put32 cap TC_CLS_RR, put32 cap d]"
| "enc_tc_del_ctrl_payload_cls cap (Del_Cls_Osi i) = writes [put32 cap TC_CLS_OSI, put32 cap i]"
| "enc_tc_del_ctrl_payload_cls cap (Del_Cls_Sto d) = writes [put32 cap TC_CLS_STO, put32 cap d]"
| "enc_tc_del_ctrl_payload_cls cap Del_Cls_End = (\<lambda>_. Inl (Assertion ''Unknown classifier type''))"

definition enc_tc_ctrl_payload_cls :: "nat \<Rightarrow> tc_ctrl_cls_t \<Rightarrow> u8 list \<Rightarrow> u8 list res" where
  "enc_tc_ctrl_payload_cls = enc_act enc_tc_add_ctrl_payload_cls enc_tc_del_ctrl_payload_cls enc_tc_mod_ctrl_payload_cls"

text \<open>The message that is decoded into was set to 0, so the filter of layer 7 is 0.\<close>

definition dec_tc_add_ctrl_payload_cls_osi :: "u8 list \<Rightarrow> (tc_add_cls_osi_t \<times> u8 list) res" where
  "dec_tc_add_ctrl_payload_cls_osi it =
     bnd (get64 it) (\<lambda>(sa, it). bnd (get64 it) (\<lambda>(da, it). bnd (get32 it) (\<lambda>(sp, it). bnd (get32 it) (\<lambda>(dp, it).
     bnd (get32 it) (\<lambda>(pr, it). bnd (get32 it) (\<lambda>(dq, it).
     Inr (\<lparr>add_l3 = \<lparr>l3_src_addr = sa, l3_dst_addr = da\<rparr>,
           add_l4 = \<lparr>l4_src_port = sp, l4_dst_port = dp, l4_protocol = pr\<rparr>, add_l7 = 0, add_dst_queue = dq\<rparr>, it)))))))"

definition dec_tc_add_ctrl_payload_cls :: "u8 list \<Rightarrow> (tc_add_ctrl_cls_t \<times> u8 list) res" where
  "dec_tc_add_ctrl_payload_cls it =
     bnd (get32 it) (\<lambda>(type, it).
     if type = TC_CLS_RR then bnd (get32 it) (\<lambda>(d, it). Inr (Add_Cls_Rr d, it))
     else if type = TC_CLS_OSI then bnd (dec_tc_add_ctrl_payload_cls_osi it) (\<lambda>(osi, it). Inr (Add_Cls_Osi osi, it))
     else if type = TC_CLS_STO then bnd (get32 it) (\<lambda>(d, it). Inr (Add_Cls_Sto d, it))
     else Inl (Assertion ''Unknown classifier type''))"

definition dec_tc_del_ctrl_payload_cls :: "u8 list \<Rightarrow> (tc_del_ctrl_cls_t \<times> u8 list) res" where
  "dec_tc_del_ctrl_payload_cls it =
     bnd (get32 it) (\<lambda>(type, it).
     if type = TC_CLS_RR then bnd (get32 it) (\<lambda>(d, it). Inr (Del_Cls_Rr d, it))
     else if type = TC_CLS_OSI then bnd (get32 it) (\<lambda>(i, it). Inr (Del_Cls_Osi i, it))
     else if type = TC_CLS_STO then bnd (get32 it) (\<lambda>(d, it). Inr (Del_Cls_Sto d, it))
     else Inl (Assertion ''Unknown classifier type''))"

definition dec_tc_mod_ctrl_payload_cls :: "u8 list \<Rightarrow> (tc_mod_ctrl_cls_t \<times> u8 list) res" where
  "dec_tc_mod_ctrl_payload_cls it =
     bnd (get32 it) (\<lambda>(type, it).
     if type = TC_CLS_RR then bnd (get32 it) (\<lambda>(d, it). Inr (Mod_Cls_Rr d, it))
     else if type = TC_CLS_OSI then
       bnd (copy_out sizeof_tc_cls_osi_filter it) (\<lambda>(f, it). Inr (Mod_Cls_Osi (osi_filter_of_bytes f), it))
     else if type = TC_CLS_STO then bnd (get32 it) (\<lambda>(d, it). Inr (Mod_Cls_Sto d, it))
     else Inl (Assertion ''Unknown classifier type''))"

definition dec_tc_ctrl_payload_cls :: "u8 list \<Rightarrow> (tc_ctrl_cls_t \<times> u8 list) res" where
  "dec_tc_ctrl_payload_cls = dec_act dec_tc_add_ctrl_payload_cls dec_tc_del_ctrl_payload_cls dec_tc_mod_ctrl_payload_cls"

section \<open>Policer\<close>

definition cal_tc_mod_ctrl_payload_plc :: "tc_mod_ctrl_plc_t \<Rightarrow> nat res" where
  "cal_tc_mod_ctrl_payload_plc m = Inr (4 + 4 + 4 + 4 + 4)"

definition cal_tc_ctrl_payload_plc :: "tc_ctrl_plc_t \<Rightarrow> nat res" where
  "cal_tc_ctrl_payload_plc = cal_act cal_u32 cal_u32 cal_tc_mod_ctrl_payload_plc"

definition enc_tc_mod_ctrl_payload_plc :: "nat \<Rightarrow> tc_mod_ctrl_plc_t \<Rightarrow> u8 list \<Rightarrow> u8 list res" where
  "enc_tc_mod_ctrl_payload_plc cap m =
     writes [put32 cap (mplc_id m), put32 cap (mplc_drop_rate_kbps m), put32 cap (mplc_dev_id m),
       put32 cap (mplc_dev_rate_kbps m), put32 cap (mplc_active m)]"

definition enc_tc_ctrl_payload_plc :: "nat \<Rightarrow> tc_ctrl_plc_t \<Rightarrow> u8 list \<Rightarrow> u8 list res" where
  "enc_tc_ctrl_payload_plc = enc_act put32 put32 enc_tc_mod_ctrl_payload_plc"

definition dec_tc_mod_ctrl_payload_plc :: "u8 list \<Rightarrow> (tc_mod_ctrl_plc_t \<times> u8 list) res" where
  "dec_tc_mod_ctrl_payload_plc it =
     bnd (get32 it) (\<lambda>(id, it). bnd (get32 it) (\<lambda>(drop, it). bnd (get32 it) (\<lambda>(dev, it). bnd (get32 it) (\<lambda>(rate, it).
     bnd (get32 it) (\<lambda>(active, it).
     Inr (\<lparr>mplc_id = id, mplc_drop_rate_kbps = drop, mplc_dev_id = dev, mplc_dev_rate_kbps = rate, mplc_active = active\<rparr>, it))))))"

definition dec_tc_ctrl_payload_plc :: "u8 list \<Rightarrow> (tc_ctrl_plc_t \<times> u8 list) res" where
  "dec_tc_ctrl_payload_plc = dec_act get32 get32 dec_tc_mod_ctrl_payload_plc"

section \<open>Queue\<close>

fun cal_tc_ctrl_payload_q_add :: "tc_ctrl_queue_u \<Rightarrow> nat res" where
  "cal_tc_ctrl_payload_q_add (Ctrl_Fifo d) = Inr (4 + 4)"
| "cal_tc_ctrl_payload_q_add (Ctrl_Codel t i) = Inr (4 + (4 + 4))"
| "cal_tc_ctrl_payload_q_add (Ctrl_Ecn_Codel t i) = Inr (4 + (4 + 4))"
| "cal_tc_ctrl_payload_q_add Ctrl_Queue_Type_End = Inl (Assertion ''Unknwon queue type'')"

definition cal_tc_ctrl_payload_q_mod :: "tc_mod_ctrl_queue_t \<Rightarrow> nat res" where
  "cal_tc_ctrl_payload_q_mod m = sizes [Inr 4, cal_tc_ctrl_payload_q_add (mq_u m)]"

definition cal_tc_ctrl_payload_q_del :: "tc_del_ctrl_queue_t \<Rightarrow> nat res" where
  "cal_tc_ctrl_payload_q_del d = Inr (4 + 4)"

definition cal_tc_ctrl_payload_q :: "tc_ctrl_queue_t \<Rightarrow> nat res" where
  "cal_tc_ctrl_payload_q = cal_act cal_tc_ctrl_payload_q_add cal_tc_ctrl_payload_q_del cal_tc_ctrl_payload_q_mod"

fun enc_tc_add_ctrl_payload_q :: "nat \<Rightarrow> tc_ctrl_queue_u \<Rightarrow> u8 list \<Rightarrow> u8 list res" where
  "enc_tc_add_ctrl_payload_q cap (Ctrl_Fifo d) = writes [put32 cap TC_QUEUE_FIFO, put32 cap d]"
| "enc_tc_add_ctrl_payload_q cap (Ctrl_Codel t i) = writes [put32 cap TC_QUEUE_CODEL, put32 cap t, put32 cap i]"
| "enc_tc_add_ctrl_payload_q cap (Ctrl_Ecn_Codel t i) = writes [put32 cap TC_QUEUE_ECN_CODEL, put32 cap t, put32 cap i]"
| "enc_tc_add_ctrl_payload_q cap Ctrl_Queue_Type_End = (\<lambda>_. Inl (Assertion ''Unknown type''))"

definition enc_tc_mod_ctrl_payload_q :: "nat \<Rightarrow> tc_mod_ctrl_queue_t \<Rightarrow> u8 list \<Rightarrow> u8 list res" where
  "enc_tc_mod_ctrl_payload_q cap m = writes [put32 cap (mq_id m), enc_tc_add_ctrl_payload_q cap (mq_u m)]"

definition enc_tc_del_ctrl_payload_q :: "nat \<Rightarrow> tc_del_ctrl_queue_t \<Rightarrow> u8 list \<Rightarrow> u8 list res" where
  "enc_tc_del_ctrl_payload_q cap d = writes [put32 cap (dq_id d), put32 cap (dq_type d)]"

definition enc_tc_ctrl_payload_q :: "nat \<Rightarrow> tc_ctrl_queue_t \<Rightarrow> u8 list \<Rightarrow> u8 list res" where
  "enc_tc_ctrl_payload_q = enc_act enc_tc_add_ctrl_payload_q enc_tc_del_ctrl_payload_q enc_tc_mod_ctrl_payload_q"

definition dec_tc_add_ctrl_payload_q :: "u8 list \<Rightarrow> (tc_ctrl_queue_u \<times> u8 list) res" where
  "dec_tc_add_ctrl_payload_q it =
     bnd (get32 it) (\<lambda>(type, it).
     if type = TC_QUEUE_FIFO then bnd (get32 it) (\<lambda>(d, it). Inr (Ctrl_Fifo d, it))
     else if type = TC_QUEUE_CODEL then bnd (get32 it) (\<lambda>(t, it). bnd (get32 it) (\<lambda>(i, it). Inr (Ctrl_Codel t i, it)))
     else if type = TC_QUEUE_ECN_CODEL then bnd (get32 it) (\<lambda>(t, it). bnd (get32 it) (\<lambda>(i, it). Inr (Ctrl_Ecn_Codel t i, it)))
     else Inl (Assertion ''Unknown type''))"

definition dec_tc_del_ctrl_payload_q :: "u8 list \<Rightarrow> (tc_del_ctrl_queue_t \<times> u8 list) res" where
  "dec_tc_del_ctrl_payload_q it =
     bnd (get32 it) (\<lambda>(id, it). bnd (get32 it) (\<lambda>(type, it). Inr (\<lparr>dq_id = id, dq_type = type\<rparr>, it)))"

definition dec_tc_mod_ctrl_payload_q :: "u8 list \<Rightarrow> (tc_mod_ctrl_queue_t \<times> u8 list) res" where
  "dec_tc_mod_ctrl_payload_q it =
     bnd (get32 it) (\<lambda>(id, it). bnd (dec_tc_add_ctrl_payload_q it) (\<lambda>(u, it). Inr (\<lparr>mq_id = id, mq_u = u\<rparr>, it)))"

definition dec_tc_ctrl_payload_q :: "u8 list \<Rightarrow> (tc_ctrl_queue_t \<times> u8 list) res" where
  "dec_tc_ctrl_payload_q = dec_act dec_tc_add_ctrl_payload_q dec_tc_del_ctrl_payload_q dec_tc_mod_ctrl_payload_q"

section \<open>Scheduler\<close>

fun cal_tc_ctrl_payload_sch_mod :: "tc_sch_t \<Rightarrow> nat res" where
  "cal_tc_ctrl_payload_sch_mod (Tc_Sched_Rr d) = Inr (4 + 4)"
| "cal_tc_ctrl_payload_sch_mod (Tc_Sched_Prio p) = Inr (4 + (4 + length p * 4))"
| "cal_tc_ctrl_payload_sch_mod Tc_Sched_End = Inl (Assertion ''Unknown sched type'')"

definition cal_tc_ctrl_payload_sch :: "tc_ctrl_sch_t \<Rightarrow> nat res" where
  "cal_tc_ctrl_payload_sch = cal_act cal_u32 cal_u32 cal_tc_ctrl_payload_sch_mod"

definition enc_tc_mod_ctrl_payload_sch_prio :: "nat \<Rightarrow> u32 list \<Rightarrow> u8 list \<Rightarrow> u8 list res" where
  "enc_tc_mod_ctrl_payload_sch_prio cap p = writes (put32 cap (of_nat (length p)) # map (put32 cap) p)"

fun enc_tc_mod_ctrl_payload_sch :: "nat \<Rightarrow> tc_sch_t \<Rightarrow> u8 list \<Rightarrow> u8 list res" where
  "enc_tc_mod_ctrl_payload_sch cap (Tc_Sched_Rr d) = writes [put32 cap TC_SCHED_RR, put32 cap d]"
| "enc_tc_mod_ctrl_payload_sch cap (Tc_Sched_Prio p) = writes [put32 cap TC_SCHED_PRIO, enc_tc_mod_ctrl_payload_sch_prio cap p]"
| "enc_tc_mod_ctrl_payload_sch cap Tc_Sched_End = (\<lambda>_. Inl (Assertion ''Unknown scheduler type''))"

definition enc_tc_ctrl_payload_sch :: "nat \<Rightarrow> tc_ctrl_sch_t \<Rightarrow> u8 list \<Rightarrow> u8 list res" where
  "enc_tc_ctrl_payload_sch = enc_act put32 put32 enc_tc_mod_ctrl_payload_sch"

definition dec_tc_mod_ctrl_payload_sch_prio :: "u8 list \<Rightarrow> (u32 list \<times> u8 list) res" where
  "dec_tc_mod_ctrl_payload_sch_prio it = bnd (get32 it) (\<lambda>(n, it). reads (unat n) get32 it)"

definition dec_tc_mod_ctrl_payload_sch :: "u8 list \<Rightarrow> (tc_sch_t \<times> u8 list) res" where
  "dec_tc_mod_ctrl_payload_sch it =
     bnd (get32 it) (\<lambda>(type, it).
     if type = TC_SCHED_RR then bnd (get32 it) (\<lambda>(d, it). Inr (Tc_Sched_Rr d, it))
     else if type = TC_SCHED_PRIO then bnd (dec_tc_mod_ctrl_payload_sch_prio it) (\<lambda>(p, it). Inr (Tc_Sched_Prio p, it))
     else Inl (Assertion ''Unknown scheduler type''))"

definition dec_tc_ctrl_payload_sch :: "u8 list \<Rightarrow> (tc_ctrl_sch_t \<times> u8 list) res" where
  "dec_tc_ctrl_payload_sch = dec_act get32 get32 dec_tc_mod_ctrl_payload_sch"

section \<open>Shaper\<close>

definition cal_tc_ctrl_payload_shp_mod :: "tc_mod_ctrl_shp_t \<Rightarrow> nat res" where
  "cal_tc_ctrl_payload_shp_mod m = Inr (4 + 4 + 4 + 4)"

definition cal_tc_ctrl_payload_shp :: "tc_ctrl_shp_t \<Rightarrow> nat res" where
  "cal_tc_ctrl_payload_shp = cal_act cal_u32 cal_u32 cal_tc_ctrl_payload_shp_mod"

definition enc_tc_mod_ctrl_payload_shp :: "nat \<Rightarrow> tc_mod_ctrl_shp_t \<Rightarrow> u8 list \<Rightarrow> u8 list res" where
  "enc_tc_mod_ctrl_payload_shp cap m =
     writes [put32 cap (mshp_id m), put32 cap (mshp_time_window_ms m), put32 cap (mshp_max_rate_kbps m), put32 cap (mshp_active m)]"

definition enc_tc_ctrl_payload_shp :: "nat \<Rightarrow> tc_ctrl_shp_t \<Rightarrow> u8 list \<Rightarrow> u8 list res" where
  "enc_tc_ctrl_payload_shp = enc_act put32 put32 enc_tc_mod_ctrl_payload_shp"

definition dec_tc_mod_ctrl_payload_shp :: "u8 list \<Rightarrow> (tc_mod_ctrl_shp_t \<times> u8 list) res" where
  "dec_tc_mod_ctrl_payload_shp it =
     bnd (get32 it) (\<lambda>(id, it). bnd (get32 it) (\<lambda>(win, it). bnd (get32 it) (\<lambda>(rate, it). bnd (get32 it) (\<lambda>(active, it).
     Inr (\<lparr>mshp_id = id, mshp_time_window_ms = win, mshp_max_rate_kbps = rate, mshp_active = active\<rparr>, it)))))"

definition dec_tc_ctrl_payload_shp :: "u8 list \<Rightarrow> (tc_ctrl_shp_t \<times> u8 list) res" where
  "dec_tc_ctrl_payload_shp = dec_act get32 get32 dec_tc_mod_ctrl_payload_shp"

section \<open>Pacer\<close>

fun cal_tc_ctrl_payload_pcr_mod :: "tc_mod_ctrl_pcr_t \<Rightarrow> nat res" where
  "cal_tc_ctrl_payload_pcr_mod (Mod_Pcr_Dummy d) = Inr (4 + 4)"
| "cal_tc_ctrl_payload_pcr_mod (Mod_Pcr_5g_Bdp sz t) = Inr (4 + (4 + 8))"
| "cal_tc_ctrl_payload_pcr_mod Mod_Pcr_End = Inl (Assertion ''Unknown pacer type'')"

definition cal_tc_ctrl_payload_pcr :: "tc_ctrl_pcr_t \<Rightarrow> nat res" where
  "cal_tc_ctrl_payload_pcr = cal_act cal_u32 cal_u32 cal_tc_ctrl_payload_pcr_mod"

fun enc_tc_mod_ctrl_payload_pcr :: "nat \<Rightarrow> tc_mod_ctrl_pcr_t \<Rightarrow> u8 list \<Rightarrow> u8 list res" where
  "enc_tc_mod_ctrl_payload_pcr cap (Mod_Pcr_Dummy d) = writes [put32 cap TC_PCR_DUMMY, put32 cap d]"
| "enc_tc_mod_ctrl_payload_pcr cap (Mod_Pcr_5g_Bdp sz t) = writes [put32 cap TC_PCR_5G_BDP, put32 cap sz, put64 cap t]"
| "enc_tc_mod_ctrl_payload_pcr cap Mod_Pcr_End = (\<lambda>_. Inl (Assertion ''unknown pacer type''))"

definition enc_tc_ctrl_payload_pcr :: "nat \<Rightarrow> tc_ctrl_pcr_t \<Rightarrow> u8 list \<Rightarrow> u8 list res" where
  "enc_tc_ctrl_payload_pcr = enc_act put32 put32 enc_tc_mod_ctrl_payload_pcr"

definition dec_tc_mod_ctrl_payload_pcr :: "u8 list \<Rightarrow> (tc_mod_ctrl_pcr_t \<times> u8 list) res" where
  "dec_tc_mod_ctrl_payload_pcr it =
     bnd (get32 it) (\<lambda>(type, it).
     if type = TC_PCR_DUMMY then bnd (get32 it) (\<lambda>(d, it). Inr (Mod_Pcr_Dummy d, it))
     else if type = TC_PCR_5G_BDP then bnd (get32 it) (\<lambda>(sz, it). bnd (get64 it) (\<lambda>(t, it). Inr (Mod_Pcr_5g_Bdp sz t, it)))
     else Inl (Assertion ''unknown pacer type''))"

definition dec_tc_ctrl_payload_pcr :: "u8 list \<Rightarrow> (tc_ctrl_pcr_t \<times> u8 list) res" where
  "dec_tc_ctrl_payload_pcr = dec_act get32 get32 dec_tc_mod_ctrl_payload_pcr"

section \<open>The message\<close>

fun cal_tc_ctrl_payload :: "tc_ctrl_msg_t \<Rightarrow> nat res" where
  "cal_tc_ctrl_payload (Ctrl_Cls x) = sizes [Inr 4, cal_tc_ctrl_payload_cls x]"
| "cal_tc_ctrl_payload (Ctrl_Plc x) = sizes [Inr 4, cal_tc_ctrl_payload_plc x]"
| "cal_tc_ctrl_payload (Ctrl_Queue x) = sizes [Inr 4, cal_tc_ctrl_payload_q x]"
| "cal_tc_ctrl_payload (Ctrl_Sch x) = sizes [Inr 4, cal_tc_ctrl_payload_sch x]"
| "cal_tc_ctrl_payload (Ctrl_Shp x) = sizes [Inr 4, cal_tc_ctrl_payload_shp x]"
| "cal_tc_ctrl_payload (Ctrl_Pcr x) = sizes [Inr 4, cal_tc_ctrl_payload_pcr x]"
| "cal_tc_ctrl_payload Ctrl_End = Inl (Assertion ''Unknown type'')"

fun enc_tc_ctrl_msg :: "nat \<Rightarrow> tc_ctrl_msg_t \<Rightarrow> u8 list \<Rightarrow> u8 list res" where
  "enc_tc_ctrl_msg cap (Ctrl_Cls x) = writes [put32 cap TC_CTRL_CLS, enc_tc_ctrl_payload_cls cap x]"
| "enc_tc_ctrl_msg cap (Ctrl_Plc x) = writes [put32 cap TC_CTRL_PLC, enc_tc_ctrl_payload_plc cap x]"
| "enc_tc_ctrl_msg cap (Ctrl_Queue x) = writes [put32 cap TC_CTRL_QUEUE, enc_tc_ctrl_payload_q cap x]"
| "enc_tc_ctrl_msg cap (Ctrl_Sch x) = writes [put32 cap TC_CTRL_SCH, enc_tc_ctrl_payload_sch cap x]"
| "enc_tc_ctrl_msg cap (Ctrl_Shp x) = writes [put32 cap TC_CTRL_SHP, enc_tc_ctrl_payload_shp cap x]"
| "enc_tc_ctrl_msg cap (Ctrl_Pcr x) = writes [put32 cap TC_CTRL_PCR, enc_tc_ctrl_payload_pcr cap x]"
| "enc_tc_ctrl_msg cap Ctrl_End = (\<lambda>_. Inl (Assertion ''Unknown type''))"

definition tc_enc_ctrl_msg_plain :: "tc_ctrl_msg_t \<Rightarrow> u8 list res" where
  "tc_enc_ctrl_msg_plain m =
     bnd (cal_tc_ctrl_payload m) (\<lambda>sz.
     bnd (enc_tc_ctrl_msg sz m []) (\<lambda>out.
     chk (length out = sz) ''it == ba.buf + ba.len'' (Inr out)))"

definition tc_dec_ctrl_msg_plain :: "u8 list \<Rightarrow> tc_ctrl_msg_t res" where
  "tc_dec_ctrl_msg_plain ctrl_msg =
     chk (ctrl_msg \<noteq> []) ''len > 0'' (
     bnd (get32 ctrl_msg) (\<lambda>(type, it).
     bnd (if type = TC_CTRL_CLS then bnd (dec_tc_ctrl_payload_cls it) (\<lambda>(x, it). Inr (Ctrl_Cls x, it))
          else if type = TC_CTRL_PLC then bnd (dec_tc_ctrl_payload_plc it) (\<lambda>(x, it). Inr (Ctrl_Plc x, it))
          else if type = TC_CTRL_QUEUE then bnd (dec_tc_ctrl_payload_q it) (\<lambda>(x, it). Inr (Ctrl_Queue x, it))
          else if type = TC_CTRL_SCH then bnd (dec_tc_ctrl_payload_sch it) (\<lambda>(x, it). Inr (Ctrl_Sch x, it))
          else if type = TC_CTRL_SHP then bnd (dec_tc_ctrl_payload_shp it) (\<lambda>(x, it). Inr (Ctrl_Shp x, it))
          else if type = TC_CTRL_PCR then bnd (dec_tc_ctrl_payload_pcr it) (\<lambda>(x, it). Inr (Ctrl_Pcr x, it))
          else Inl (Assertion ''Unknown type'')) (\<lambda>(m, it).
     chk (it = []) ''ctrl_msg + len == it'' (Inr m))))"

section \<open>The short messages\<close>

definition tc_enc_event_trigger_plain :: "u32 \<Rightarrow> u8 list" where
  "tc_enc_event_trigger_plain ms = le_bytes 4 ms"

definition tc_dec_event_trigger_plain :: "u8 list \<Rightarrow> u32 res" where
  "tc_dec_event_trigger_plain ev_tr = bnd (copy_out 4 ev_tr) (\<lambda>(bs, _). Inr (le_word bs))"

definition tc_enc_ind_hdr_plain :: "u32 \<Rightarrow> u8 list" where
  "tc_enc_ind_hdr_plain dummy = le_bytes 4 dummy"

definition tc_dec_ind_hdr_plain :: "u8 list \<Rightarrow> u32 res" where
  "tc_dec_ind_hdr_plain hdr = chk (length hdr = 4) ''len == sizeof(tc_ind_hdr_t)'' (Inr (le_word hdr))"

definition tc_enc_ctrl_hdr_plain :: "u32 \<Rightarrow> u8 list" where
  "tc_enc_ctrl_hdr_plain dummy = le_bytes 4 dummy"

definition tc_dec_ctrl_hdr_plain :: "u8 list \<Rightarrow> u32 res" where
  "tc_dec_ctrl_hdr_plain hdr = chk (length hdr = 4) ''len == sizeof(tc_ctrl_hdr_t)'' (Inr (le_word hdr))"

definition tc_enc_ctrl_out_plain :: "u32 \<Rightarrow> u8 list" where
  "tc_enc_ctrl_out_plain out = le_bytes 4 out"

definition tc_dec_ctrl_out_plain :: "u8 list \<Rightarrow> u32 res" where
  "tc_dec_ctrl_out_plain out = chk (length out > 0) ''len > 0'' (
     chk (length out = 4) ''len == sizeof(tc_ctrl_out_e)'' (Inr (le_word out)))"

section \<open>The contracts of the parts\<close>

fun add_cls_bytes :: "tc_add_ctrl_cls_t \<Rightarrow> u8 list" where
  "add_cls_bytes (Add_Cls_Rr d) = le_bytes 4 TC_CLS_RR @ le_bytes 4 d"
| "add_cls_bytes (Add_Cls_Sto d) = le_bytes 4 TC_CLS_STO @ le_bytes 4 d"
| "add_cls_bytes _ = []"

fun add_cls_ok :: "tc_add_ctrl_cls_t \<Rightarrow> bool" where
  "add_cls_ok (Add_Cls_Osi osi) = False"
| "add_cls_ok Add_Cls_End = False"
| "add_cls_ok _ = True"

interpretation add_cls: codec add_cls_ok add_cls_bytes cal_tc_add_ctrl_payload_cls enc_tc_add_ctrl_payload_cls
  dec_tc_add_ctrl_payload_cls "\<lambda>x. x"
  by (unfold_locales; case_tac x) (simp_all add: dec_tc_add_ctrl_payload_cls_def)

fun mod_cls_bytes :: "tc_mod_ctrl_cls_t \<Rightarrow> u8 list" where
  "mod_cls_bytes (Mod_Cls_Rr d) = le_bytes 4 TC_CLS_RR @ le_bytes 4 d"
| "mod_cls_bytes (Mod_Cls_Osi f) = le_bytes 4 TC_CLS_OSI @ osi_filter_bytes f"
| "mod_cls_bytes (Mod_Cls_Sto d) = le_bytes 4 TC_CLS_STO @ le_bytes 4 d"
| "mod_cls_bytes Mod_Cls_End = []"

interpretation mod_cls: codec "\<lambda>x. x \<noteq> Mod_Cls_End" mod_cls_bytes cal_tc_mod_ctrl_payload_cls enc_tc_mod_ctrl_payload_cls
  dec_tc_mod_ctrl_payload_cls "\<lambda>x. x"
  by (unfold_locales; case_tac x) (simp_all add: dec_tc_mod_ctrl_payload_cls_def osi_filter.enc_length osi_filter.dec_enc)

fun del_cls_bytes :: "tc_del_ctrl_cls_t \<Rightarrow> u8 list" where
  "del_cls_bytes (Del_Cls_Rr d) = le_bytes 4 TC_CLS_RR @ le_bytes 4 d"
| "del_cls_bytes (Del_Cls_Osi i) = le_bytes 4 TC_CLS_OSI @ le_bytes 4 i"
| "del_cls_bytes (Del_Cls_Sto d) = le_bytes 4 TC_CLS_STO @ le_bytes 4 d"
| "del_cls_bytes Del_Cls_End = []"

interpretation del_cls: codec "\<lambda>x. x \<noteq> Del_Cls_End" del_cls_bytes cal_tc_del_ctrl_payload_cls enc_tc_del_ctrl_payload_cls
  dec_tc_del_ctrl_payload_cls "\<lambda>x. x"
  by (unfold_locales; case_tac x) (simp_all add: dec_tc_del_ctrl_payload_cls_def)

definition mod_plc_bytes :: "tc_mod_ctrl_plc_t \<Rightarrow> u8 list" where
  "mod_plc_bytes m = le_bytes 4 (mplc_id m) @ le_bytes 4 (mplc_drop_rate_kbps m) @ le_bytes 4 (mplc_dev_id m) @
     le_bytes 4 (mplc_dev_rate_kbps m) @ le_bytes 4 (mplc_active m)"

interpretation mod_plc: codec "\<lambda>_. True" mod_plc_bytes cal_tc_mod_ctrl_payload_plc enc_tc_mod_ctrl_payload_plc
  dec_tc_mod_ctrl_payload_plc "\<lambda>x. x"
  by unfold_locales (simp_all add: mod_plc_bytes_def cal_tc_mod_ctrl_payload_plc_def enc_tc_mod_ctrl_payload_plc_def
      dec_tc_mod_ctrl_payload_plc_def)

fun queue_u_bytes :: "tc_ctrl_queue_u \<Rightarrow> u8 list" where
  "queue_u_bytes (Ctrl_Fifo d) = le_bytes 4 TC_QUEUE_FIFO @ le_bytes 4 d"
| "queue_u_bytes (Ctrl_Codel t i) = le_bytes 4 TC_QUEUE_CODEL @ le_bytes 4 t @ le_bytes 4 i"
| "queue_u_bytes (Ctrl_Ecn_Codel t i) = le_bytes 4 TC_QUEUE_ECN_CODEL @ le_bytes 4 t @ le_bytes 4 i"
| "queue_u_bytes Ctrl_Queue_Type_End = []"

interpretation queue_u: codec "\<lambda>x. x \<noteq> Ctrl_Queue_Type_End" queue_u_bytes cal_tc_ctrl_payload_q_add enc_tc_add_ctrl_payload_q
  dec_tc_add_ctrl_payload_q "\<lambda>x. x"
  by (unfold_locales; case_tac x) (simp_all add: dec_tc_add_ctrl_payload_q_def)

definition mod_queue_bytes :: "tc_mod_ctrl_queue_t \<Rightarrow> u8 list" where
  "mod_queue_bytes m = le_bytes 4 (mq_id m) @ queue_u_bytes (mq_u m)"

interpretation mod_queue: codec "\<lambda>m. mq_u m \<noteq> Ctrl_Queue_Type_End" mod_queue_bytes cal_tc_ctrl_payload_q_mod
  enc_tc_mod_ctrl_payload_q dec_tc_mod_ctrl_payload_q "\<lambda>x. x"
  by unfold_locales (simp_all add: mod_queue_bytes_def cal_tc_ctrl_payload_q_mod_def enc_tc_mod_ctrl_payload_q_def
      dec_tc_mod_ctrl_payload_q_def queue_u.size_law queue_u.enc_law queue_u.dec_law)

definition del_queue_bytes :: "tc_del_ctrl_queue_t \<Rightarrow> u8 list" where
  "del_queue_bytes d = le_bytes 4 (dq_id d) @ le_bytes 4 (dq_type d)"

interpretation del_queue: codec "\<lambda>_. True" del_queue_bytes cal_tc_ctrl_payload_q_del enc_tc_del_ctrl_payload_q
  dec_tc_del_ctrl_payload_q "\<lambda>x. x"
  by unfold_locales (simp_all add: del_queue_bytes_def cal_tc_ctrl_payload_q_del_def enc_tc_del_ctrl_payload_q_def
      dec_tc_del_ctrl_payload_q_def)

fun mod_sch_bytes :: "tc_sch_t \<Rightarrow> u8 list" where
  "mod_sch_bytes (Tc_Sched_Rr d) = le_bytes 4 TC_SCHED_RR @ le_bytes 4 d"
| "mod_sch_bytes s = sch_bytes s"

interpretation mod_sch: codec sch_known mod_sch_bytes cal_tc_ctrl_payload_sch_mod enc_tc_mod_ctrl_payload_sch
  dec_tc_mod_ctrl_payload_sch "\<lambda>x. x"
  by (unfold_locales; case_tac x) (simp_all add: dec_tc_mod_ctrl_payload_sch_def dec_tc_mod_ctrl_payload_sch_prio_def
      reads_words enc_tc_mod_ctrl_payload_sch_prio_def le32.enc_array_length puts_words)

definition mod_shp_bytes :: "tc_mod_ctrl_shp_t \<Rightarrow> u8 list" where
  "mod_shp_bytes m = le_bytes 4 (mshp_id m) @ le_bytes 4 (mshp_time_window_ms m) @ le_bytes 4 (mshp_max_rate_kbps m) @
     le_bytes 4 (mshp_active m)"

interpretation mod_shp: codec "\<lambda>_. True" mod_shp_bytes cal_tc_ctrl_payload_shp_mod enc_tc_mod_ctrl_payload_shp
  dec_tc_mod_ctrl_payload_shp "\<lambda>x. x"
  by unfold_locales (simp_all add: mod_shp_bytes_def cal_tc_ctrl_payload_shp_mod_def enc_tc_mod_ctrl_payload_shp_def
      dec_tc_mod_ctrl_payload_shp_def)

fun mod_pcr_bytes :: "tc_mod_ctrl_pcr_t \<Rightarrow> u8 list" where
  "mod_pcr_bytes (Mod_Pcr_Dummy d) = le_bytes 4 TC_PCR_DUMMY @ le_bytes 4 d"
| "mod_pcr_bytes (Mod_Pcr_5g_Bdp sz t) = le_bytes 4 TC_PCR_5G_BDP @ le_bytes 4 sz @ le_bytes 8 t"
| "mod_pcr_bytes Mod_Pcr_End = []"

interpretation mod_pcr: codec "\<lambda>x. x \<noteq> Mod_Pcr_End" mod_pcr_bytes cal_tc_ctrl_payload_pcr_mod enc_tc_mod_ctrl_payload_pcr
  dec_tc_mod_ctrl_payload_pcr "\<lambda>x. x"
  by (unfold_locales; case_tac x) (simp_all add: dec_tc_mod_ctrl_payload_pcr_def)

section \<open>The contracts of the control messages\<close>

interpretation ctrl_cls: act_codec add_cls_ok add_cls_bytes cal_tc_add_ctrl_payload_cls enc_tc_add_ctrl_payload_cls
  dec_tc_add_ctrl_payload_cls "\<lambda>x. x \<noteq> Del_Cls_End" del_cls_bytes cal_tc_del_ctrl_payload_cls enc_tc_del_ctrl_payload_cls
  dec_tc_del_ctrl_payload_cls "\<lambda>x. x \<noteq> Mod_Cls_End" mod_cls_bytes cal_tc_mod_ctrl_payload_cls enc_tc_mod_ctrl_payload_cls
  dec_tc_mod_ctrl_payload_cls ..

interpretation ctrl_plc: act_codec "\<lambda>_. True" "le_bytes 4" cal_u32 put32 get32 "\<lambda>_. True" "le_bytes 4" cal_u32 put32 get32
  "\<lambda>_. True" mod_plc_bytes cal_tc_mod_ctrl_payload_plc enc_tc_mod_ctrl_payload_plc dec_tc_mod_ctrl_payload_plc ..

interpretation ctrl_queue: act_codec "\<lambda>x. x \<noteq> Ctrl_Queue_Type_End" queue_u_bytes cal_tc_ctrl_payload_q_add
  enc_tc_add_ctrl_payload_q dec_tc_add_ctrl_payload_q "\<lambda>_. True" del_queue_bytes cal_tc_ctrl_payload_q_del
  enc_tc_del_ctrl_payload_q dec_tc_del_ctrl_payload_q "\<lambda>m. mq_u m \<noteq> Ctrl_Queue_Type_End" mod_queue_bytes
  cal_tc_ctrl_payload_q_mod enc_tc_mod_ctrl_payload_q dec_tc_mod_ctrl_payload_q ..

interpretation ctrl_sch: act_codec "\<lambda>_. True" "le_bytes 4" cal_u32 put32 get32 "\<lambda>_. True" "le_bytes 4" cal_u32 put32 get32
  sch_known mod_sch_bytes cal_tc_ctrl_payload_sch_mod enc_tc_mod_ctrl_payload_sch dec_tc_mod_ctrl_payload_sch ..

interpretation ctrl_shp: act_codec "\<lambda>_. True" "le_bytes 4" cal_u32 put32 get32 "\<lambda>_. True" "le_bytes 4" cal_u32 put32 get32
  "\<lambda>_. True" mod_shp_bytes cal_tc_ctrl_payload_shp_mod enc_tc_mod_ctrl_payload_shp dec_tc_mod_ctrl_payload_shp ..

interpretation ctrl_pcr: act_codec "\<lambda>_. True" "le_bytes 4" cal_u32 put32 get32 "\<lambda>_. True" "le_bytes 4" cal_u32 put32 get32
  "\<lambda>x. x \<noteq> Mod_Pcr_End" mod_pcr_bytes cal_tc_ctrl_payload_pcr_mod enc_tc_mod_ctrl_payload_pcr dec_tc_mod_ctrl_payload_pcr ..

section \<open>Round trip\<close>

fun ctrl_ok :: "tc_ctrl_msg_t \<Rightarrow> bool" where
  "ctrl_ok (Ctrl_Cls x) = act_ok add_cls_ok (\<lambda>x. x \<noteq> Del_Cls_End) (\<lambda>x. x \<noteq> Mod_Cls_End) x"
| "ctrl_ok (Ctrl_Plc x) = act_ok (\<lambda>_. True) (\<lambda>_. True) (\<lambda>_. True) x"
| "ctrl_ok (Ctrl_Queue x) = act_ok (\<lambda>x. x \<noteq> Ctrl_Queue_Type_End) (\<lambda>_. True) (\<lambda>m. mq_u m \<noteq> Ctrl_Queue_Type_End) x"
| "ctrl_ok (Ctrl_Sch x) = act_ok (\<lambda>_. True) (\<lambda>_. True) sch_known x"
| "ctrl_ok (Ctrl_Shp x) = act_ok (\<lambda>_. True) (\<lambda>_. True) (\<lambda>_. True) x"
| "ctrl_ok (Ctrl_Pcr x) = act_ok (\<lambda>_. True) (\<lambda>_. True) (\<lambda>x. x \<noteq> Mod_Pcr_End) x"
| "ctrl_ok Ctrl_End = False"

text \<open>A list of priorities has a length of 32 bits in the source.\<close>

fun ctrl_lengths :: "tc_ctrl_msg_t \<Rightarrow> bool" where
  "ctrl_lengths (Ctrl_Sch (Act_Mod (Tc_Sched_Prio p))) = (length p < 2 ^ 32)"
| "ctrl_lengths _ = True"

lemmas payload_defs =
  cal_tc_ctrl_payload_cls_def cal_tc_ctrl_payload_plc_def cal_tc_ctrl_payload_q_def cal_tc_ctrl_payload_sch_def
  cal_tc_ctrl_payload_shp_def cal_tc_ctrl_payload_pcr_def
  enc_tc_ctrl_payload_cls_def enc_tc_ctrl_payload_plc_def enc_tc_ctrl_payload_q_def enc_tc_ctrl_payload_sch_def
  enc_tc_ctrl_payload_shp_def enc_tc_ctrl_payload_pcr_def
  dec_tc_ctrl_payload_cls_def dec_tc_ctrl_payload_plc_def dec_tc_ctrl_payload_q_def dec_tc_ctrl_payload_sch_def
  dec_tc_ctrl_payload_shp_def dec_tc_ctrl_payload_pcr_def

lemma ctrl_coded:
  assumes "ctrl_ok m"
  shows "\<exists>bs. cal_tc_ctrl_payload m = Inr (length bs) \<and> enc_tc_ctrl_msg (length bs) m [] = Inr bs \<and>
     tc_dec_ctrl_msg_plain bs = Inr m"
proof (cases m)
  case (Ctrl_Cls x)
  let ?b = "act_bytes add_cls_bytes del_cls_bytes mod_cls_bytes x"
  show ?thesis
    using assms ctrl_cls.act.tagged_size [of x] ctrl_cls.act.tagged_enc [of x] ctrl_cls.act.dec_only [of x]
    by (intro exI [of _ "le_bytes 4 TC_CTRL_CLS @ ?b"]) (simp add: Ctrl_Cls payload_defs tc_dec_ctrl_msg_plain_def)
next
  case (Ctrl_Plc x)
  let ?b = "act_bytes (le_bytes 4) (le_bytes 4) mod_plc_bytes x"
  show ?thesis
    using assms ctrl_plc.act.tagged_size [of x] ctrl_plc.act.tagged_enc [of x] ctrl_plc.act.dec_only [of x]
    by (intro exI [of _ "le_bytes 4 TC_CTRL_PLC @ ?b"]) (simp add: Ctrl_Plc payload_defs tc_dec_ctrl_msg_plain_def)
next
  case (Ctrl_Queue x)
  let ?b = "act_bytes queue_u_bytes del_queue_bytes mod_queue_bytes x"
  show ?thesis
    using assms ctrl_queue.act.tagged_size [of x] ctrl_queue.act.tagged_enc [of x] ctrl_queue.act.dec_only [of x]
    by (intro exI [of _ "le_bytes 4 TC_CTRL_QUEUE @ ?b"]) (simp add: Ctrl_Queue payload_defs tc_dec_ctrl_msg_plain_def)
next
  case (Ctrl_Sch x)
  let ?b = "act_bytes (le_bytes 4) (le_bytes 4) mod_sch_bytes x"
  show ?thesis
    using assms ctrl_sch.act.tagged_size [of x] ctrl_sch.act.tagged_enc [of x] ctrl_sch.act.dec_only [of x]
    by (intro exI [of _ "le_bytes 4 TC_CTRL_SCH @ ?b"]) (simp add: Ctrl_Sch payload_defs tc_dec_ctrl_msg_plain_def)
next
  case (Ctrl_Shp x)
  let ?b = "act_bytes (le_bytes 4) (le_bytes 4) mod_shp_bytes x"
  show ?thesis
    using assms ctrl_shp.act.tagged_size [of x] ctrl_shp.act.tagged_enc [of x] ctrl_shp.act.dec_only [of x]
    by (intro exI [of _ "le_bytes 4 TC_CTRL_SHP @ ?b"]) (simp add: Ctrl_Shp payload_defs tc_dec_ctrl_msg_plain_def)
next
  case (Ctrl_Pcr x)
  let ?b = "act_bytes (le_bytes 4) (le_bytes 4) mod_pcr_bytes x"
  show ?thesis
    using assms ctrl_pcr.act.tagged_size [of x] ctrl_pcr.act.tagged_enc [of x] ctrl_pcr.act.dec_only [of x]
    by (intro exI [of _ "le_bytes 4 TC_CTRL_PCR @ ?b"]) (simp add: Ctrl_Pcr payload_defs tc_dec_ctrl_msg_plain_def)
next
  case Ctrl_End
  then show ?thesis
    using assms by simp
qed

fun adds_osi :: "tc_ctrl_msg_t \<Rightarrow> bool" where
  "adds_osi (Ctrl_Cls (Act_Add (Add_Cls_Osi _))) = True"
| "adds_osi _ = False"

lemma act_unknown:
  "\<not> act_ok a d m x \<Longrightarrow> (\<And>y. x = Act_Add y \<Longrightarrow> \<not> a y \<Longrightarrow> \<exists>msg. as y = Inl (Assertion msg)) \<Longrightarrow>
     (\<And>y. x = Act_Del y \<Longrightarrow> \<not> d y \<Longrightarrow> \<exists>msg. ds y = Inl (Assertion msg)) \<Longrightarrow>
     (\<And>y. x = Act_Mod y \<Longrightarrow> \<not> m y \<Longrightarrow> \<exists>msg. ms y = Inl (Assertion msg)) \<Longrightarrow>
     \<exists>msg. cal_act as ds ms x = Inl (Assertion msg)"
  by (cases x) fastforce+

lemma ctrl_unknown:
  assumes "\<not> ctrl_ok m" "\<not> adds_osi m" "ctrl_lengths m"
  shows "\<exists>msg. cal_tc_ctrl_payload m = Inl (Assertion msg)"
proof (cases m)
  case (Ctrl_Cls x)
  have "\<exists>msg. cal_tc_ctrl_payload_cls x = Inl (Assertion msg)"
    unfolding payload_defs
  proof (rule act_unknown)
    show "\<not> act_ok add_cls_ok (\<lambda>x. x \<noteq> Del_Cls_End) (\<lambda>x. x \<noteq> Mod_Cls_End) x"
      using assms(1) by (simp add: Ctrl_Cls)
    show "\<exists>msg. cal_tc_add_ctrl_payload_cls y = Inl (Assertion msg)" if "x = Act_Add y" "\<not> add_cls_ok y" for y
      using that assms(2) by (cases y) (simp_all add: Ctrl_Cls)
  qed simp_all
  then show ?thesis
    by (auto simp: Ctrl_Cls)
next
  case (Ctrl_Queue x)
  have "\<exists>msg. cal_tc_ctrl_payload_q x = Inl (Assertion msg)"
    unfolding payload_defs
    by (rule act_unknown [where a = "\<lambda>x. x \<noteq> Ctrl_Queue_Type_End" and d = "\<lambda>_. True" and m = "\<lambda>m. mq_u m \<noteq> Ctrl_Queue_Type_End"])
      (use assms(1) in \<open>simp_all add: Ctrl_Queue cal_tc_ctrl_payload_q_mod_def\<close>)
  then show ?thesis
    by (auto simp: Ctrl_Queue)
next
  case (Ctrl_Sch x)
  have "\<exists>msg. cal_tc_ctrl_payload_sch x = Inl (Assertion msg)"
    unfolding payload_defs
  proof (rule act_unknown)
    show "\<not> act_ok (\<lambda>_. True) (\<lambda>_. True) sch_known x"
      using assms(1) by (simp add: Ctrl_Sch)
    show "\<exists>msg. cal_tc_ctrl_payload_sch_mod y = Inl (Assertion msg)" if "x = Act_Mod y" "\<not> sch_known y" for y
      using that assms(3) by (cases y) (simp_all add: Ctrl_Sch)
  qed simp_all
  then show ?thesis
    by (auto simp: Ctrl_Sch)
next
  case (Ctrl_Pcr x)
  have "\<exists>msg. cal_tc_ctrl_payload_pcr x = Inl (Assertion msg)"
    unfolding payload_defs
    by (rule act_unknown [where a = "\<lambda>_. True" and d = "\<lambda>_. True" and m = "\<lambda>x. x \<noteq> Mod_Pcr_End"])
      (use assms(1) in \<open>simp_all add: Ctrl_Pcr\<close>)
  then show ?thesis
    by (auto simp: Ctrl_Pcr)
next
  case (Ctrl_Plc x)
  then show ?thesis
    using assms(1) by (cases x) (simp_all add: payload_defs)
next
  case (Ctrl_Shp x)
  then show ?thesis
    using assms(1) by (cases x) (simp_all add: payload_defs)
qed simp

text \<open>Whatever the encoder returns is read back.\<close>

lemma ctrl_written:
  assumes "tc_enc_ctrl_msg_plain m = Inr bs" "ctrl_lengths m"
  shows "tc_dec_ctrl_msg_plain bs = Inr m"
proof (cases "ctrl_ok m")
  case True
  from ctrl_coded [OF this] show ?thesis
    using assms(1) by (auto simp: tc_enc_ctrl_msg_plain_def)
next
  case False
  have "adds_osi m"
  proof (rule ccontr)
    assume "\<not> adds_osi m"
    from ctrl_unknown [OF False this assms(2)] show False
      using assms(1) by (auto simp: tc_enc_ctrl_msg_plain_def)
  qed
  then obtain osi where "m = Ctrl_Cls (Act_Add (Add_Cls_Osi osi))"
    by (cases m rule: adds_osi.cases) simp_all
  then show ?thesis
    using assms(1) by (simp add: tc_enc_ctrl_msg_plain_def payload_defs cal_tc_add_ctrl_payload_cls_osi_def
        enc_tc_add_ctrl_payload_cls_osi_def)
qed

text \<open>
  C16. The plain encoding of the traffic control requests.  A request whose unions all have a known
  tag, and that does not add a filter to the OSI classifier, is encoded into as many bytes as its size
  was computed to be, and the decoder of the agent reads exactly that request back; a request with an
  unknown tag makes the encoder abort.
\<close>

theorem tc_control_roundtrip:
  assumes "ctrl_lengths m" "\<not> adds_osi m"
  shows "if ctrl_ok m
         then \<exists>bs. cal_tc_ctrl_payload m = Inr (length bs) \<and> tc_enc_ctrl_msg_plain m = Inr bs \<and>
                tc_dec_ctrl_msg_plain bs = Inr m
         else \<exists>msg. tc_enc_ctrl_msg_plain m = Inl (Assertion msg)"
proof (cases "ctrl_ok m")
  case True
  from ctrl_coded [OF this] obtain bs where
    "cal_tc_ctrl_payload m = Inr (length bs)" "enc_tc_ctrl_msg (length bs) m [] = Inr bs" "tc_dec_ctrl_msg_plain bs = Inr m"
    by (elim exE conjE)
  then show ?thesis
    using True by (simp add: tc_enc_ctrl_msg_plain_def)
next
  case False
  then show ?thesis
    using ctrl_unknown [OF False assms(2,1)] by (auto simp: tc_enc_ctrl_msg_plain_def)
qed

theorem tc_control_roundtrip_witness:
  "\<exists>bs. tc_enc_ctrl_msg_plain (Ctrl_Sch (Act_Mod (Tc_Sched_Prio [3, 1]))) = Inr bs \<and> length bs = 24 \<and>
     tc_dec_ctrl_msg_plain bs = Inr (Ctrl_Sch (Act_Mod (Tc_Sched_Prio [3, 1])))"
  using tc_control_roundtrip [of "Ctrl_Sch (Act_Mod (Tc_Sched_Prio [3, 1]))"] by (auto simp: payload_defs)

text \<open>
  C28. The request that adds a filter to the OSI classifier cannot be sent.  Its size counts the filter
  of layer 7 and its encoder does not write it, so four bytes of the buffer are left and the assertion
  at the end of the encoder fails, whatever the filter is.
\<close>

theorem tc_add_osi_aborts:
  "tc_enc_ctrl_msg_plain (Ctrl_Cls (Act_Add (Add_Cls_Osi osi))) = Inl (Assertion ''it == ba.buf + ba.len'')"
  by (simp add: tc_enc_ctrl_msg_plain_def payload_defs cal_tc_add_ctrl_payload_cls_osi_def enc_tc_add_ctrl_payload_cls_osi_def)

end
