(* ===== verification/Tc_Copy.thy ===== *)
theory Tc_Copy
  imports Tc_Ctrl_Codec
begin

text \<open>
  The copies of the messages of the traffic control service model and the comparison of its indications
  (\<^verbatim>\<open>sm/tc_sm/ie/tc_data_ie.c\<close>).  An xApp copies every indication that it stores in its data base, and
  the copy compares itself with its original.

  A floating-point number is its object representation.  Whether two numbers that are not equal are
  close enough is a matter of the arithmetic of the machine: it is the parameter \<open>near a b eps\<close>, with
  \<open>eps\<close> in thousandths.
\<close>

section \<open>Floating-point numbers\<close>

definition f32_isnan :: "u32 \<Rightarrow> bool" where
  "f32_isnan w \<longleftrightarrow> w AND 0x7F800000 = 0x7F800000 \<and> w AND 0x007FFFFF \<noteq> 0"

definition f32_eq :: "u32 \<Rightarrow> u32 \<Rightarrow> bool" where
  "f32_eq a b \<longleftrightarrow> \<not> f32_isnan a \<and> \<not> f32_isnan b \<and> (a = b \<or> a AND 0x7FFFFFFF = 0 \<and> b AND 0x7FFFFFFF = 0)"

definition eq_float :: "(u32 \<Rightarrow> u32 \<Rightarrow> nat \<Rightarrow> bool) \<Rightarrow> u32 \<Rightarrow> u32 \<Rightarrow> nat \<Rightarrow> bool res" where
  "eq_float near a b eps =
     chk (\<not> f32_isnan a) ''isnan(a) == false'' (
     chk (\<not> f32_isnan b) ''isnan(b) == false'' (
     Inr (f32_eq a b \<or> near a b eps)))"

lemma eq_float_same: "eq_float near a a eps = chk (\<not> f32_isnan a) ''isnan(a) == false'' (Inr True)"
  by (simp add: eq_float_def f32_eq_def chk_def)

section \<open>Comparison of indications\<close>

definition both :: "bool res \<Rightarrow> bool res \<Rightarrow> bool res" where
  "both r s = bnd r (\<lambda>b. if b then s else Inr False)"

lemma both_simps [simp]: "both (Inr True) s = s" "both (Inr False) s = Inr False" "both (Inl e) s = Inl e"
  by (simp_all add: both_def)

fun eq_tc_sch :: "tc_sch_t \<Rightarrow> tc_sch_t \<Rightarrow> bool res" where
  "eq_tc_sch (Tc_Sched_Rr _) (Tc_Sched_Rr _) = Inr True"
| "eq_tc_sch (Tc_Sched_Prio p) (Tc_Sched_Prio p') = Inr (p = p')"
| "eq_tc_sch Tc_Sched_End Tc_Sched_End = Inl (Assertion ''Unknown data type'')"
| "eq_tc_sch _ _ = Inr False"

definition eq_tc_mtr :: "(u32 \<Rightarrow> u32 \<Rightarrow> nat \<Rightarrow> bool) \<Rightarrow> tc_mtr_t \<Rightarrow> tc_mtr_t \<Rightarrow> bool res" where
  "eq_tc_mtr near m0 m1 =
     both (Inr (mtr_time_window_ms m0 = mtr_time_window_ms m1)) (eq_float near (mtr_bnd_flt m0) (mtr_bnd_flt m1) 10)"

definition eq_tc_pcr :: "(u32 \<Rightarrow> u32 \<Rightarrow> nat \<Rightarrow> bool) \<Rightarrow> tc_pcr_t \<Rightarrow> tc_pcr_t \<Rightarrow> bool res" where
  "eq_tc_pcr near m0 m1 = both (Inr (pcr_type m0 = pcr_type m1 \<and> pcr_id m0 = pcr_id m1)) (eq_tc_mtr near (pcr_mtr m0) (pcr_mtr m1))"

definition eq_L3_filter :: "L3_filter_t \<Rightarrow> L3_filter_t \<Rightarrow> bool" where
  "eq_L3_filter m0 m1 \<longleftrightarrow> l3_src_addr m0 = l3_src_addr m1 \<and> l3_dst_addr m0 = l3_dst_addr m1"

definition eq_L4_filter :: "L4_filter_t \<Rightarrow> L4_filter_t \<Rightarrow> bool" where
  "eq_L4_filter m0 m1 \<longleftrightarrow>
     l4_src_port m0 = l4_src_port m1 \<and> l4_dst_port m0 = l4_dst_port m1 \<and> l4_protocol m0 = l4_protocol m1"

definition eq_tc_cls_osi_filter :: "tc_cls_osi_filter_t \<Rightarrow> tc_cls_osi_filter_t \<Rightarrow> bool" where
  "eq_tc_cls_osi_filter m0 m1 \<longleftrightarrow>
     flt_id m0 = flt_id m1 \<and> eq_L3_filter (flt_l3 m0) (flt_l3 m1) \<and> eq_L4_filter (flt_l4 m0) (flt_l4 m1) \<and>
     flt_dst_queue m0 = flt_dst_queue m1"

definition eq_tc_cls_osi :: "tc_cls_osi_filter_t list \<Rightarrow> tc_cls_osi_filter_t list \<Rightarrow> bool" where
  "eq_tc_cls_osi m0 m1 \<longleftrightarrow> list_all2 eq_tc_cls_osi_filter m0 m1"

fun eq_tc_cls :: "tc_cls_t \<Rightarrow> tc_cls_t \<Rightarrow> bool res" where
  "eq_tc_cls (Tc_Cls_Rr d) (Tc_Cls_Rr d') = Inr (d = d')"
| "eq_tc_cls (Tc_Cls_Osi m0) (Tc_Cls_Osi m1) = Inr (eq_tc_cls_osi m0 m1)"
| "eq_tc_cls (Tc_Cls_Sto d) (Tc_Cls_Sto d') = Inr (d = d')"
| "eq_tc_cls Tc_Cls_End Tc_Cls_End = Inl (Assertion ''Unknown classifier type'')"
| "eq_tc_cls _ _ = Inr False"

definition eq_tc_shp :: "(u32 \<Rightarrow> u32 \<Rightarrow> nat \<Rightarrow> bool) \<Rightarrow> tc_shp_t \<Rightarrow> tc_shp_t \<Rightarrow> bool res" where
  "eq_tc_shp near m0 m1 =
     both (Inr (shp_id m0 = shp_id m1 \<and> shp_active m0 = shp_active m1)) (eq_tc_mtr near (shp_mtr m0) (shp_mtr m1))"

definition eq_tc_plc :: "(u32 \<Rightarrow> u32 \<Rightarrow> nat \<Rightarrow> bool) \<Rightarrow> tc_plc_t \<Rightarrow> tc_plc_t \<Rightarrow> bool res" where
  "eq_tc_plc near m0 m1 =
     both (Inr (plc_id m0 = plc_id m1)) (
     both (eq_tc_mtr near (plc_mtr m0) (plc_mtr m1)) (
     both (Inr (plc_dropped_pkts m0 = plc_dropped_pkts m1 \<and> plc_marked_pkts m0 = plc_marked_pkts m1)) (
     both (eq_float near (plc_max_rate_kbps m0) (plc_max_rate_kbps m1) 10) (
     Inr (plc_active m0 = plc_active m1 \<and> plc_dst_id m0 = plc_dst_id m1 \<and> plc_dev_id m0 = plc_dev_id m1)))))"

text \<open>The three kinds of queues are compared in the same way.\<close>

definition eq_tc_queue_stats :: "(u32 \<Rightarrow> u32 \<Rightarrow> nat \<Rightarrow> bool) \<Rightarrow> tc_queue_stats_t \<Rightarrow> tc_queue_stats_t \<Rightarrow> bool res" where
  "eq_tc_queue_stats near m0 m1 =
     both (Inr (qs_drp_mrk m0 = qs_drp_mrk m1)) (
     both (eq_float near (qs_avg_sojourn_time m0) (qs_avg_sojourn_time m1) 1) (
     Inr (qs_bytes m0 = qs_bytes m1 \<and> qs_pkts m0 = qs_pkts m1 \<and> qs_bytes_fwd m0 = qs_bytes_fwd m1 \<and>
          qs_pkts_fwd m0 = qs_pkts_fwd m1)))"

fun eq_tc_q :: "(u32 \<Rightarrow> u32 \<Rightarrow> nat \<Rightarrow> bool) \<Rightarrow> tc_queue_u \<Rightarrow> tc_queue_u \<Rightarrow> bool res" where
  "eq_tc_q near (Tc_Queue_Fifo m0) (Tc_Queue_Fifo m1) = eq_tc_queue_stats near m0 m1"
| "eq_tc_q near (Tc_Queue_Codel m0) (Tc_Queue_Codel m1) = eq_tc_queue_stats near m0 m1"
| "eq_tc_q near (Tc_Queue_Ecn_Codel m0) (Tc_Queue_Ecn_Codel m1) = eq_tc_queue_stats near m0 m1"
| "eq_tc_q near Tc_Queue_End Tc_Queue_End = Inl (Assertion ''Unknown queue type'')"
| "eq_tc_q near _ _ = Inr False"

text \<open>A difference is an assertion that fails, so the comparison of two messages never returns false.\<close>

definition must :: "bool res \<Rightarrow> bool res \<Rightarrow> bool res" where
  "must r s = bnd r (\<lambda>b. chk b ''0!=0'' s)"

lemma must_simps [simp]: "must (Inr True) s = s" "must (Inr False) s = Inl (Assertion ''0!=0'')" "must (Inl e) s = Inl e"
  by (simp_all add: must_def)

type_synonym tc_row = "tc_shp_t \<times> tc_plc_t \<times> tc_queue_t"

definition eq_tc_row :: "(u32 \<Rightarrow> u32 \<Rightarrow> nat \<Rightarrow> bool) \<Rightarrow> tc_row \<Rightarrow> tc_row \<Rightarrow> bool res \<Rightarrow> bool res" where
  "eq_tc_row near = (\<lambda>(shp0, plc0, q0) (shp1, plc1, q1) rest.
     must (eq_tc_shp near shp0 shp1) (must (eq_tc_plc near plc0 plc1) (must (eq_tc_q near (q_u q0) (q_u q1)) rest)))"

definition eq_tc_ind_msg :: "(u32 \<Rightarrow> u32 \<Rightarrow> nat \<Rightarrow> bool) \<Rightarrow> tc_ind_msg_t \<Rightarrow> tc_ind_msg_t \<Rightarrow> bool res" where
  "eq_tc_ind_msg near m0 m1 =
     must (Inr (tc_tstamp m0 = tc_tstamp m1)) (
     must (eq_tc_sch (tc_sch m0) (tc_sch m1)) (
     must (eq_tc_pcr near (tc_pcr m0) (tc_pcr m1)) (
     must (eq_tc_cls (tc_cls m0) (tc_cls m1)) (
     must (Inr (length (tc_rows m0) = length (tc_rows m1))) (
     foldr (\<lambda>(r0, r1). eq_tc_row near r0 r1) (zip (tc_rows m0) (tc_rows m1)) (Inr True))))))"

section \<open>Copies of indications\<close>

definition cp_tc_ind_hdr :: "u32 \<Rightarrow> u32" where
  "cp_tc_ind_hdr dummy = dummy"

fun cp_tc_sch :: "tc_sch_t \<Rightarrow> tc_sch_t res" where
  "cp_tc_sch (Tc_Sched_Rr d) = Inr (Tc_Sched_Rr d)"
| "cp_tc_sch (Tc_Sched_Prio p) = Inr (Tc_Sched_Prio p)"
| "cp_tc_sch Tc_Sched_End = Inl (Assertion ''Unknown type'')"

definition cp_tc_mtr :: "tc_mtr_t \<Rightarrow> tc_mtr_t" where
  "cp_tc_mtr src = \<lparr>mtr_time_window_ms = mtr_time_window_ms src, mtr_bnd_flt = mtr_bnd_flt src\<rparr>"

definition cp_tc_pcr :: "tc_pcr_t \<Rightarrow> tc_pcr_t" where
  "cp_tc_pcr src = \<lparr>pcr_type = pcr_type src, pcr_id = pcr_id src, pcr_mtr = cp_tc_mtr (pcr_mtr src)\<rparr>"

text \<open>The filter of layer 7 is not copied; the copy was set to 0.\<close>

definition cp_tc_cls_osi_filter :: "tc_cls_osi_filter_t \<Rightarrow> tc_cls_osi_filter_t" where
  "cp_tc_cls_osi_filter src =
     \<lparr>flt_id = flt_id src, flt_l3 = flt_l3 src, flt_l4 = flt_l4 src, flt_l7 = 0, flt_dst_queue = flt_dst_queue src\<rparr>"

fun cp_tc_cls :: "tc_cls_t \<Rightarrow> tc_cls_t res" where
  "cp_tc_cls (Tc_Cls_Rr d) = Inr (Tc_Cls_Rr d)"
| "cp_tc_cls (Tc_Cls_Osi fs) = Inr (Tc_Cls_Osi (map cp_tc_cls_osi_filter fs))"
| "cp_tc_cls (Tc_Cls_Sto d) = Inr (Tc_Cls_Sto d)"
| "cp_tc_cls Tc_Cls_End = Inl (Assertion ''Unknown classifier type'')"

text \<open>The time of the last sojourn and the identifier of the queue are not copied.\<close>

definition cp_stats :: "tc_queue_stats_t \<Rightarrow> tc_queue_stats_t" where
  "cp_stats src =
     \<lparr>qs_bytes = qs_bytes src, qs_pkts = qs_pkts src, qs_bytes_fwd = qs_bytes_fwd src, qs_pkts_fwd = qs_pkts_fwd src,
      qs_drp_mrk = qs_drp_mrk src, qs_avg_sojourn_time = qs_avg_sojourn_time src, qs_last_sojourn_time = 0\<rparr>"

definition cp_tc_queue :: "tc_queue_t \<Rightarrow> tc_queue_t res" where
  "cp_tc_queue src =
     (case q_u src of
        Tc_Queue_Fifo s \<Rightarrow> Inr \<lparr>q_id = 0, q_u = Tc_Queue_Fifo (cp_stats s)\<rparr>
      | Tc_Queue_Codel s \<Rightarrow> Inr \<lparr>q_id = 0, q_u = Tc_Queue_Codel (cp_stats s)\<rparr>
      | Tc_Queue_Ecn_Codel s \<Rightarrow> Inr \<lparr>q_id = 0, q_u = Tc_Queue_Ecn_Codel (cp_stats s)\<rparr>
      | Tc_Queue_End \<Rightarrow> Inl (Assertion ''Unknown queu type''))"

text \<open>The rate of a shaper is not copied.\<close>

definition cp_tc_shp :: "tc_shp_t \<Rightarrow> tc_shp_t res" where
  "cp_tc_shp src =
     chk (shp_active src = 0 \<or> shp_active src = 1) ''src->active == 0 || src->active == 1'' (
     Inr \<lparr>shp_id = shp_id src, shp_active = shp_active src, shp_max_rate_kbps = 0, shp_mtr = cp_tc_mtr (shp_mtr src)\<rparr>)"

definition cp_tc_plc :: "tc_plc_t \<Rightarrow> tc_plc_t res" where
  "cp_tc_plc src =
     chk (plc_active src = 0 \<or> plc_active src = 1) ''src->active == 0 || src->active == 1'' (
     Inr \<lparr>plc_id = plc_id src, plc_mtr = cp_tc_mtr (plc_mtr src), plc_dropped_pkts = plc_dropped_pkts src,
          plc_marked_pkts = plc_marked_pkts src, plc_max_rate_kbps = plc_max_rate_kbps src, plc_active = plc_active src,
          plc_dst_id = plc_dst_id src, plc_dev_id = plc_dev_id src\<rparr>)"

fun cp_tc_shp_q_plc :: "tc_row list \<Rightarrow> tc_row list res" where
  "cp_tc_shp_q_plc [] = Inr []"
| "cp_tc_shp_q_plc ((shp, plc, q) # rows) =
     bnd (cp_tc_queue q) (\<lambda>q. bnd (cp_tc_shp shp) (\<lambda>shp. bnd (cp_tc_plc plc) (\<lambda>plc.
     bnd (cp_tc_shp_q_plc rows) (\<lambda>rows. Inr ((shp, plc, q) # rows)))))"

definition cp_tc_ind_msg :: "(u32 \<Rightarrow> u32 \<Rightarrow> nat \<Rightarrow> bool) \<Rightarrow> tc_ind_msg_t \<Rightarrow> tc_ind_msg_t res" where
  "cp_tc_ind_msg near src =
     bnd (cp_tc_sch (tc_sch src)) (\<lambda>sch.
     bnd (cp_tc_cls (tc_cls src)) (\<lambda>cls.
     bnd (cp_tc_shp_q_plc (tc_rows src)) (\<lambda>rows.
     let dst = \<lparr>tc_sch = sch, tc_pcr = cp_tc_pcr (tc_pcr src), tc_cls = cls, tc_rows = rows, tc_tstamp = tc_tstamp src\<rparr>
     in bnd (eq_tc_ind_msg near src dst) (\<lambda>eq. chk eq ''eq_tc_ind_msg(src, &dst)'' (Inr dst)))))"

section \<open>What a copy keeps\<close>

text \<open>The copy of the parts of a message, when they can be copied.\<close>

fun lossy_cls :: "tc_cls_t \<Rightarrow> tc_cls_t" where
  "lossy_cls (Tc_Cls_Osi fs) = Tc_Cls_Osi (map (\<lambda>f. f\<lparr>flt_l7 := 0\<rparr>) fs)"
| "lossy_cls c = c"

fun lossy_queue :: "tc_queue_u \<Rightarrow> tc_queue_u" where
  "lossy_queue (Tc_Queue_Fifo s) = Tc_Queue_Fifo (s\<lparr>qs_last_sojourn_time := 0\<rparr>)"
| "lossy_queue (Tc_Queue_Codel s) = Tc_Queue_Codel (s\<lparr>qs_last_sojourn_time := 0\<rparr>)"
| "lossy_queue (Tc_Queue_Ecn_Codel s) = Tc_Queue_Ecn_Codel (s\<lparr>qs_last_sojourn_time := 0\<rparr>)"
| "lossy_queue Tc_Queue_End = Tc_Queue_End"

definition lossy_row :: "tc_row \<Rightarrow> tc_row" where
  "lossy_row = (\<lambda>(shp, plc, q). (shp\<lparr>shp_max_rate_kbps := 0\<rparr>, plc, \<lparr>q_id = 0, q_u = lossy_queue (q_u q)\<rparr>))"

definition lossy :: "tc_ind_msg_t \<Rightarrow> tc_ind_msg_t" where
  "lossy m = m\<lparr>tc_cls := lossy_cls (tc_cls m), tc_rows := map lossy_row (tc_rows m)\<rparr>"

text \<open>The flags are 0 or 1, and no number is \<open>NaN\<close>.\<close>

definition flags_ok :: "tc_row \<Rightarrow> bool" where
  "flags_ok = (\<lambda>(shp, plc, q). shp_active shp \<in> {0, 1} \<and> plc_active plc \<in> {0, 1})"

fun queue_nan :: "tc_queue_u \<Rightarrow> bool" where
  "queue_nan (Tc_Queue_Fifo s) = f32_isnan (qs_avg_sojourn_time s)"
| "queue_nan (Tc_Queue_Codel s) = f32_isnan (qs_avg_sojourn_time s)"
| "queue_nan (Tc_Queue_Ecn_Codel s) = f32_isnan (qs_avg_sojourn_time s)"
| "queue_nan Tc_Queue_End = False"

definition row_nan :: "tc_row \<Rightarrow> bool" where
  "row_nan = (\<lambda>(shp, plc, q). f32_isnan (mtr_bnd_flt (shp_mtr shp)) \<or> f32_isnan (mtr_bnd_flt (plc_mtr plc)) \<or>
     f32_isnan (plc_max_rate_kbps plc) \<or> queue_nan (q_u q))"

definition has_nan :: "tc_ind_msg_t \<Rightarrow> bool" where
  "has_nan m \<longleftrightarrow> f32_isnan (mtr_bnd_flt (pcr_mtr (tc_pcr m))) \<or> (\<exists>r \<in> set (tc_rows m). row_nan r)"

lemma cp_fields [simp]:
  "cp_tc_mtr m = m" "cp_stats s = s\<lparr>qs_last_sojourn_time := 0\<rparr>" "cp_tc_cls_osi_filter f = f\<lparr>flt_l7 := 0\<rparr>"
  by (cases m; cases s; cases f; simp add: cp_tc_mtr_def cp_stats_def cp_tc_cls_osi_filter_def)+

lemma cp_row_parts:
  "cp_tc_pcr pcr = pcr"
  "cp_tc_shp shp = chk (shp_active shp = 0 \<or> shp_active shp = 1) ''src->active == 0 || src->active == 1''
     (Inr (shp\<lparr>shp_max_rate_kbps := 0\<rparr>))"
  "cp_tc_plc plc = chk (plc_active plc = 0 \<or> plc_active plc = 1) ''src->active == 0 || src->active == 1'' (Inr plc)"
  "cp_tc_queue q = (if q_u q = Tc_Queue_End then Inl (Assertion ''Unknown queu type'')
     else Inr \<lparr>q_id = 0, q_u = lossy_queue (q_u q)\<rparr>)"
  subgoal by (cases pcr) (simp add: cp_tc_pcr_def)
  subgoal by (cases shp) (simp add: cp_tc_shp_def)
  subgoal by (cases plc) (simp add: cp_tc_plc_def)
  subgoal by (cases "q_u q") (simp_all add: cp_tc_queue_def)
  done

lemma cp_row:
  "cp_tc_shp_q_plc (r # rows) =
     (if q_u (snd (snd r)) \<noteq> Tc_Queue_End \<and> flags_ok r
      then bnd (cp_tc_shp_q_plc rows) (\<lambda>rows. Inr (lossy_row r # rows))
      else Inl (Assertion (if q_u (snd (snd r)) = Tc_Queue_End then ''Unknown queu type''
                           else ''src->active == 0 || src->active == 1'')))"
proof -
  obtain shp plc q where r: "r = (shp, plc, q)"
    by (cases r)
  show ?thesis
    by (simp add: r cp_row_parts flags_ok_def lossy_row_def chk_def)
qed

lemma cp_rows:
  "if \<forall>r \<in> set rows. q_u (snd (snd r)) \<noteq> Tc_Queue_End \<and> flags_ok r then cp_tc_shp_q_plc rows = Inr (map lossy_row rows)
   else \<exists>msg. cp_tc_shp_q_plc rows = Inl (Assertion msg)"
proof (induction rows)
  case (Cons r rows)
  then show ?case
    unfolding cp_row by (auto split: if_splits)
qed simp

lemma eq_mtr_same: "eq_tc_mtr near m m = chk (\<not> f32_isnan (mtr_bnd_flt m)) ''isnan(a) == false'' (Inr True)"
  by (simp add: eq_tc_mtr_def eq_float_same)

lemma eq_row:
  assumes "q_u (snd (snd r)) \<noteq> Tc_Queue_End"
  shows "eq_tc_row near r (lossy_row r) rest = (if row_nan r then Inl (Assertion ''isnan(a) == false'') else rest)"
proof -
  obtain shp plc q where r: "r = (shp, plc, q)"
    by (cases r)
  show ?thesis
    using assms by (cases "q_u q")
      (simp_all add: r eq_tc_row_def lossy_row_def row_nan_def eq_tc_shp_def eq_tc_plc_def eq_tc_queue_stats_def eq_mtr_same
        eq_float_same chk_def)
qed

lemma eq_rows:
  "\<forall>r \<in> set rows. q_u (snd (snd r)) \<noteq> Tc_Queue_End \<Longrightarrow>
     foldr (\<lambda>(r0, r1). eq_tc_row near r0 r1) (zip rows (map lossy_row rows)) (Inr True) =
     (if \<exists>r \<in> set rows. row_nan r then Inl (Assertion ''isnan(a) == false'') else Inr True)"
  by (induction rows) (simp_all add: eq_row)

lemma eq_parts_same:
  "s \<noteq> Tc_Sched_End \<Longrightarrow> eq_tc_sch s s = Inr True"
  "c \<noteq> Tc_Cls_End \<Longrightarrow> eq_tc_cls c (lossy_cls c) = Inr True"
  by (cases s; simp) (cases c; simp add: eq_tc_cls_osi_def list_all2_map2 eq_tc_cls_osi_filter_def eq_L3_filter_def
      eq_L4_filter_def list_all2_same)

lemma cp_parts:
  "cp_tc_sch s = (if s = Tc_Sched_End then Inl (Assertion ''Unknown type'') else Inr s)"
  "cp_tc_cls c = (if c = Tc_Cls_End then Inl (Assertion ''Unknown classifier type'') else Inr (lossy_cls c))"
  by (cases s; simp) (cases c; simp)

text \<open>
  C27. The copy of a traffic control indication, which an xApp makes of every indication that it stores.
  When every union has a known tag, the flags of the shapers and policers are 0 or 1 and no number is
  NaN, the copy is the original without the identifiers of the queues, the times of their last
  sojourn, the rates of the shapers and the filters of layer 7, and the comparison of the copy with the
  original does not notice the difference; in every other case the copy aborts.
\<close>

theorem tc_indication_copied:
  "if ind_known m \<and> (\<forall>r \<in> set (tc_rows m). flags_ok r) \<and> \<not> has_nan m
   then cp_tc_ind_msg near m = Inr (lossy m)
   else \<exists>msg. cp_tc_ind_msg near m = Inl (Assertion msg)"
proof (cases "tc_sch m = Tc_Sched_End \<or> tc_cls m = Tc_Cls_End")
  case True
  then show ?thesis
    by (auto simp: ind_known_def cp_tc_ind_msg_def cp_parts)
next
  case False
  have k: "ind_known m \<longleftrightarrow> (\<forall>r \<in> set (tc_rows m). q_u (snd (snd r)) \<noteq> Tc_Queue_End)"
    using False by (auto simp: ind_known_def)
  have dst: "\<lparr>tc_sch = tc_sch m, tc_pcr = tc_pcr m, tc_cls = lossy_cls (tc_cls m), tc_rows = map lossy_row (tc_rows m),
      tc_tstamp = tc_tstamp m\<rparr> = lossy m"
    by (cases m) (simp add: lossy_def)
  show ?thesis
  proof (cases "\<forall>r \<in> set (tc_rows m). q_u (snd (snd r)) \<noteq> Tc_Queue_End \<and> flags_ok r")
    case True
    then have "cp_tc_ind_msg near m = bnd (eq_tc_ind_msg near m (lossy m)) (\<lambda>eq. chk eq ''eq_tc_ind_msg(src, &dst)'' (Inr (lossy m)))"
      using False cp_rows [of "tc_rows m"] by (simp add: cp_tc_ind_msg_def cp_parts cp_row_parts Let_def dst)
    moreover have "eq_tc_ind_msg near m (lossy m) = (if has_nan m then Inl (Assertion ''isnan(a) == false'') else Inr True)"
      using False True by (simp add: eq_tc_ind_msg_def lossy_def eq_parts_same eq_rows eq_tc_pcr_def eq_mtr_same chk_def has_nan_def)
    ultimately show ?thesis
      using True k by auto
  next
    case bad: False
    then have "\<exists>msg. cp_tc_shp_q_plc (tc_rows m) = Inl (Assertion msg)"
      using cp_rows [of "tc_rows m"] by (simp split: if_splits)
    then show ?thesis
      using False bad k by (auto simp: cp_tc_ind_msg_def cp_parts)
  qed
qed

text \<open>The indication of the round trip is copied; with a number that is \<open>NaN\<close> in its pacer it aborts the xApp.\<close>

definition example_nan_ind :: tc_ind_msg_t where
  "example_nan_ind =
     example_tc_ind\<lparr>tc_pcr := \<lparr>pcr_type = 0, pcr_id = 4, pcr_mtr = \<lparr>mtr_time_window_ms = 100, mtr_bnd_flt = 0x7FC00000\<rparr>\<rparr>\<rparr>"

theorem tc_indication_copied_witness:
  "cp_tc_ind_msg (\<lambda>a b eps. False) example_tc_ind = Inr (lossy example_tc_ind) \<and>
   lossy example_tc_ind \<noteq> example_tc_ind \<and>
   (\<exists>msg. cp_tc_ind_msg (\<lambda>a b eps. False) example_nan_ind = Inl (Assertion msg))"
proof -
  have ok: "ind_known example_tc_ind" "\<forall>r \<in> set (tc_rows example_tc_ind). flags_ok r" "\<not> has_nan example_tc_ind"
    by (simp_all add: example_tc_ind_def Let_def ind_known_def flags_ok_def has_nan_def row_nan_def f32_isnan_def)
  have nan: "has_nan example_nan_ind"
    by (simp add: example_nan_ind_def has_nan_def f32_isnan_def)
  have "lossy example_tc_ind \<noteq> example_tc_ind"
    by (simp add: example_tc_ind_def lossy_def lossy_row_def Let_def)
  then show ?thesis
    using tc_indication_copied [of example_tc_ind "\<lambda>a b eps. False"]
      tc_indication_copied [of example_nan_ind "\<lambda>a b eps. False"] ok nan by simp
qed

section \<open>Copies of control messages\<close>

definition cp_tc_add_cls_osi :: "tc_add_cls_osi_t \<Rightarrow> tc_add_cls_osi_t" where
  "cp_tc_add_cls_osi src =
     \<lparr>add_l3 = add_l3 src, add_l4 = add_l4 src, add_l7 = 0, add_dst_queue = add_dst_queue src\<rparr>"

fun cp_tc_add_ctrl_cls :: "tc_add_ctrl_cls_t \<Rightarrow> tc_add_ctrl_cls_t res" where
  "cp_tc_add_ctrl_cls (Add_Cls_Rr d) = Inr (Add_Cls_Rr d)"
| "cp_tc_add_ctrl_cls (Add_Cls_Osi osi) = Inr (Add_Cls_Osi (cp_tc_add_cls_osi osi))"
| "cp_tc_add_ctrl_cls (Add_Cls_Sto d) = Inr (Add_Cls_Sto d)"
| "cp_tc_add_ctrl_cls Add_Cls_End = Inl (Assertion ''Unknown classifier type'')"

fun cp_tc_mod_ctrl_cls :: "tc_mod_ctrl_cls_t \<Rightarrow> tc_mod_ctrl_cls_t res" where
  "cp_tc_mod_ctrl_cls (Mod_Cls_Rr d) = Inr (Mod_Cls_Rr d)"
| "cp_tc_mod_ctrl_cls (Mod_Cls_Osi f) = Inr (Mod_Cls_Osi (cp_tc_cls_osi_filter f))"
| "cp_tc_mod_ctrl_cls (Mod_Cls_Sto d) = Inr (Mod_Cls_Sto d)"
| "cp_tc_mod_ctrl_cls Mod_Cls_End = Inl (Assertion ''Unknown type'')"

fun cp_tc_del_ctrl_cls :: "tc_del_ctrl_cls_t \<Rightarrow> tc_del_ctrl_cls_t res" where
  "cp_tc_del_ctrl_cls (Del_Cls_Rr d) = Inr (Del_Cls_Rr d)"
| "cp_tc_del_ctrl_cls (Del_Cls_Osi i) = Inr (Del_Cls_Osi i)"
| "cp_tc_del_ctrl_cls (Del_Cls_Sto d) = Inr (Del_Cls_Sto d)"
| "cp_tc_del_ctrl_cls Del_Cls_End = Inl (Assertion ''Unknown type'')"

fun cp_act :: "('a \<Rightarrow> 'a res) \<Rightarrow> ('d \<Rightarrow> 'd res) \<Rightarrow> ('m \<Rightarrow> 'm res) \<Rightarrow> ('a, 'd, 'm) act_t \<Rightarrow> ('a, 'd, 'm) act_t res" where
  "cp_act a d m (Act_Add x) = bnd (a x) (\<lambda>y. Inr (Act_Add y))"
| "cp_act a d m (Act_Del x) = bnd (d x) (\<lambda>y. Inr (Act_Del y))"
| "cp_act a d m (Act_Mod x) = bnd (m x) (\<lambda>y. Inr (Act_Mod y))"
| "cp_act a d m Act_End = Inl (Assertion ''Unknown action'')"

definition cp_tc_ctrl_cls :: "tc_ctrl_cls_t \<Rightarrow> tc_ctrl_cls_t res" where
  "cp_tc_ctrl_cls = cp_act cp_tc_add_ctrl_cls cp_tc_del_ctrl_cls cp_tc_mod_ctrl_cls"

definition cp_tc_mod_ctrl_plc :: "tc_mod_ctrl_plc_t \<Rightarrow> tc_mod_ctrl_plc_t" where
  "cp_tc_mod_ctrl_plc src =
     \<lparr>mplc_id = mplc_id src, mplc_drop_rate_kbps = mplc_drop_rate_kbps src, mplc_dev_id = mplc_dev_id src,
      mplc_dev_rate_kbps = mplc_dev_rate_kbps src, mplc_active = mplc_active src\<rparr>"

definition cp_tc_ctrl_plc :: "tc_ctrl_plc_t \<Rightarrow> tc_ctrl_plc_t res" where
  "cp_tc_ctrl_plc = cp_act Inr Inr (\<lambda>m. Inr (cp_tc_mod_ctrl_plc m))"

fun cp_tc_add_ctrl_queue :: "tc_ctrl_queue_u \<Rightarrow> tc_ctrl_queue_u res" where
  "cp_tc_add_ctrl_queue (Ctrl_Fifo d) = Inr (Ctrl_Fifo d)"
| "cp_tc_add_ctrl_queue (Ctrl_Codel t i) = Inr (Ctrl_Codel t i)"
| "cp_tc_add_ctrl_queue (Ctrl_Ecn_Codel t i) = Inr (Ctrl_Ecn_Codel t i)"
| "cp_tc_add_ctrl_queue Ctrl_Queue_Type_End = Inl (Assertion ''Unknown type'')"

definition cp_tc_del_ctrl_queue :: "tc_del_ctrl_queue_t \<Rightarrow> tc_del_ctrl_queue_t" where
  "cp_tc_del_ctrl_queue src = \<lparr>dq_id = dq_id src, dq_type = dq_type src\<rparr>"

definition cp_tc_mod_ctrl_queue :: "tc_mod_ctrl_queue_t \<Rightarrow> tc_mod_ctrl_queue_t res" where
  "cp_tc_mod_ctrl_queue src = bnd (cp_tc_add_ctrl_queue (mq_u src)) (\<lambda>u. Inr \<lparr>mq_id = mq_id src, mq_u = u\<rparr>)"

definition cp_tc_ctrl_q :: "tc_ctrl_queue_t \<Rightarrow> tc_ctrl_queue_t res" where
  "cp_tc_ctrl_q = cp_act cp_tc_add_ctrl_queue (\<lambda>d. Inr (cp_tc_del_ctrl_queue d)) cp_tc_mod_ctrl_queue"

fun cp_tc_mod_ctrl_sch :: "tc_sch_t \<Rightarrow> tc_sch_t res" where
  "cp_tc_mod_ctrl_sch (Tc_Sched_Rr d) = Inr (Tc_Sched_Rr d)"
| "cp_tc_mod_ctrl_sch (Tc_Sched_Prio p) = Inr (Tc_Sched_Prio p)"
| "cp_tc_mod_ctrl_sch Tc_Sched_End = Inl (Assertion ''Unknown type'')"

definition cp_tc_ctrl_sch :: "tc_ctrl_sch_t \<Rightarrow> tc_ctrl_sch_t res" where
  "cp_tc_ctrl_sch = cp_act Inr Inr cp_tc_mod_ctrl_sch"

definition cp_tc_mod_ctrl_shp :: "tc_mod_ctrl_shp_t \<Rightarrow> tc_mod_ctrl_shp_t" where
  "cp_tc_mod_ctrl_shp src =
     \<lparr>mshp_id = mshp_id src, mshp_time_window_ms = mshp_time_window_ms src,
      mshp_max_rate_kbps = mshp_max_rate_kbps src, mshp_active = mshp_active src\<rparr>"

definition cp_tc_ctrl_shp :: "tc_ctrl_shp_t \<Rightarrow> tc_ctrl_shp_t res" where
  "cp_tc_ctrl_shp = cp_act Inr Inr (\<lambda>m. Inr (cp_tc_mod_ctrl_shp m))"

fun cp_tc_mod_ctrl_pcr :: "tc_mod_ctrl_pcr_t \<Rightarrow> tc_mod_ctrl_pcr_t res" where
  "cp_tc_mod_ctrl_pcr (Mod_Pcr_Dummy d) = Inr (Mod_Pcr_Dummy d)"
| "cp_tc_mod_ctrl_pcr (Mod_Pcr_5g_Bdp sz t) = Inr (Mod_Pcr_5g_Bdp sz t)"
| "cp_tc_mod_ctrl_pcr Mod_Pcr_End = Inl (Assertion ''Unknown pacer type'')"

definition cp_tc_ctrl_pcr :: "tc_ctrl_pcr_t \<Rightarrow> tc_ctrl_pcr_t res" where
  "cp_tc_ctrl_pcr = cp_act Inr Inr cp_tc_mod_ctrl_pcr"

fun cp_tc_ctrl_msg :: "tc_ctrl_msg_t \<Rightarrow> tc_ctrl_msg_t res" where
  "cp_tc_ctrl_msg (Ctrl_Cls x) = bnd (cp_tc_ctrl_cls x) (\<lambda>y. Inr (Ctrl_Cls y))"
| "cp_tc_ctrl_msg (Ctrl_Plc x) = bnd (cp_tc_ctrl_plc x) (\<lambda>y. Inr (Ctrl_Plc y))"
| "cp_tc_ctrl_msg (Ctrl_Queue x) = bnd (cp_tc_ctrl_q x) (\<lambda>y. Inr (Ctrl_Queue y))"
| "cp_tc_ctrl_msg (Ctrl_Sch x) = bnd (cp_tc_ctrl_sch x) (\<lambda>y. Inr (Ctrl_Sch y))"
| "cp_tc_ctrl_msg (Ctrl_Shp x) = bnd (cp_tc_ctrl_shp x) (\<lambda>y. Inr (Ctrl_Shp y))"
| "cp_tc_ctrl_msg (Ctrl_Pcr x) = bnd (cp_tc_ctrl_pcr x) (\<lambda>y. Inr (Ctrl_Pcr y))"
| "cp_tc_ctrl_msg Ctrl_End = Inl (Assertion ''Unknown type'')"

text \<open>A copy is the original but for the filters of layer 7.\<close>

fun clear_l7 :: "tc_ctrl_msg_t \<Rightarrow> tc_ctrl_msg_t" where
  "clear_l7 (Ctrl_Cls (Act_Add (Add_Cls_Osi osi))) = Ctrl_Cls (Act_Add (Add_Cls_Osi (osi\<lparr>add_l7 := 0\<rparr>)))"
| "clear_l7 (Ctrl_Cls (Act_Mod (Mod_Cls_Osi f))) = Ctrl_Cls (Act_Mod (Mod_Cls_Osi (f\<lparr>flt_l7 := 0\<rparr>)))"
| "clear_l7 m = m"

lemma cp_act_same:
  "act_ok a d m x \<Longrightarrow> (\<And>y. a y \<Longrightarrow> ca y = Inr y) \<Longrightarrow> (\<And>y. d y \<Longrightarrow> cd y = Inr y) \<Longrightarrow> (\<And>y. m y \<Longrightarrow> cm y = Inr y) \<Longrightarrow>
     cp_act ca cd cm x = Inr x"
  by (cases x) simp_all

lemma cp_queue_same: "u \<noteq> Ctrl_Queue_Type_End \<Longrightarrow> cp_tc_add_ctrl_queue u = Inr u"
  by (cases u) simp_all

lemma cp_cls_same:
  assumes "act_ok add_cls_ok (\<lambda>x. x \<noteq> Del_Cls_End) (\<lambda>x. x \<noteq> Mod_Cls_End) x \<or> adds_osi (Ctrl_Cls x)"
  shows "bnd (cp_tc_ctrl_cls x) (\<lambda>y. Inr (Ctrl_Cls y)) = Inr (clear_l7 (Ctrl_Cls x))"
proof (cases x)
  case (Act_Add a)
  then show ?thesis
    using assms by (cases a) (simp_all add: cp_tc_ctrl_cls_def cp_tc_add_cls_osi_def)
next
  case (Act_Del d)
  then show ?thesis
    using assms by (cases d) (simp_all add: cp_tc_ctrl_cls_def)
next
  case (Act_Mod m)
  then show ?thesis
    using assms by (cases m) (simp_all add: cp_tc_ctrl_cls_def cp_tc_cls_osi_filter_def)
qed (use assms in simp)

lemma cp_tc_ctrl_msg_ok:
  assumes "ctrl_ok m \<or> adds_osi m"
  shows "cp_tc_ctrl_msg m = Inr (clear_l7 m)"
proof (cases m)
  case (Ctrl_Cls x)
  then show ?thesis
    using assms cp_cls_same [of x] by simp
next
  case (Ctrl_Queue x)
  have "cp_tc_ctrl_q x = Inr x"
    unfolding cp_tc_ctrl_q_def
    by (rule cp_act_same [of "\<lambda>x. x \<noteq> Ctrl_Queue_Type_End" "\<lambda>_. True" "\<lambda>m. mq_u m \<noteq> Ctrl_Queue_Type_End"])
      (use assms in \<open>simp_all add: Ctrl_Queue cp_queue_same cp_tc_del_ctrl_queue_def cp_tc_mod_ctrl_queue_def\<close>)
  then show ?thesis
    by (simp add: Ctrl_Queue)
next
  case (Ctrl_Sch x)
  have same: "cp_tc_mod_ctrl_sch s = Inr s" if "sch_known s" for s
    using that by (cases s) simp_all
  have "cp_tc_ctrl_sch x = Inr x"
    unfolding cp_tc_ctrl_sch_def
    by (rule cp_act_same [of "\<lambda>_. True" "\<lambda>_. True" sch_known]) (use assms same in \<open>simp_all add: Ctrl_Sch\<close>)
  then show ?thesis
    by (simp add: Ctrl_Sch)
next
  case (Ctrl_Pcr x)
  have same: "cp_tc_mod_ctrl_pcr p = Inr p" if "p \<noteq> Mod_Pcr_End" for p
    using that by (cases p) simp_all
  have "cp_tc_ctrl_pcr x = Inr x"
    unfolding cp_tc_ctrl_pcr_def
    by (rule cp_act_same [of "\<lambda>_. True" "\<lambda>_. True" "\<lambda>p. p \<noteq> Mod_Pcr_End"]) (use assms same in \<open>simp_all add: Ctrl_Pcr\<close>)
  then show ?thesis
    by (simp add: Ctrl_Pcr)
next
  case (Ctrl_Plc x)
  then show ?thesis
    using assms by (cases x) (simp_all add: cp_tc_ctrl_plc_def cp_tc_mod_ctrl_plc_def)
next
  case (Ctrl_Shp x)
  then show ?thesis
    using assms by (cases x) (simp_all add: cp_tc_ctrl_shp_def cp_tc_mod_ctrl_shp_def)
qed (use assms in simp)

end
