(* ===== verification/Tc_Service.thy ===== *)
theory Tc_Service
  imports Tc_Copy Sm_Agent
begin

text \<open>
  The traffic control service model with its plain encoding, at the agent (\<^verbatim>\<open>tc_sm_agent.c\<close>) and at
  the RIC and the xApps (\<^verbatim>\<open>tc_sm_ric.c\<close>).

  The RAN is given by two callbacks: \<open>read_ind now\<close> fills the indication it gets and says
  whether it has one, \<open>write_ctrl\<close> executes a control request and returns its outcome.
\<close>

definition SM_TC_ID :: u16 where "SM_TC_ID = 146"
definition SM_TC_REV :: u16 where "SM_TC_REV = 1"

section \<open>At the agent\<close>

text \<open>The indication of the RAN; the call process id is a pointer that may be null.\<close>

record tc_ind_data_t =
  tid_hdr :: u32
  tid_msg :: tc_ind_msg_t
  tid_proc_id :: "u32 option"

definition zero_tc_ind_data :: tc_ind_data_t where
  "zero_tc_ind_data =
     \<lparr>tid_hdr = 0, tid_msg = \<lparr>tc_sch = Tc_Sched_Rr 0, tc_pcr = \<lparr>pcr_type = 0, pcr_id = 0, pcr_mtr = \<lparr>mtr_time_window_ms = 0, mtr_bnd_flt = 0\<rparr>\<rparr>,
        tc_cls = Tc_Cls_Rr 0, tc_rows = [], tc_tstamp = 0\<rparr>,
      tid_proc_id = None\<rparr>"

text \<open>The copy that the data base of the xApps makes.\<close>

definition cp_tc_ind_data :: "(u32 \<Rightarrow> u32 \<Rightarrow> nat \<Rightarrow> bool) \<Rightarrow> tc_ind_data_t \<Rightarrow> tc_ind_data_t res" where
  "cp_tc_ind_data near src =
     bnd (cp_tc_ind_msg near (tid_msg src)) (\<lambda>msg.
     chk (tid_proc_id src = None) ''Not implememnted'' (
     Inr \<lparr>tid_hdr = cp_tc_ind_hdr (tid_hdr src), tid_msg = msg, tid_proc_id = None\<rparr>))"

text \<open>The answer of the RAN to a control request: an outcome of this service model, or something else.\<close>

datatype sm_ag_if_ans_t =
    TC_Outcome u32
  | Other_Outcome
  | Other_Answer

definition on_subscription_tc_sm_ag :: "sm_subs_data_ag_t \<Rightarrow> sm_ag_if_ans_subs_t res" where
  "on_subscription_tc_sm_ag data =
     bnd (tc_dec_event_trigger_plain (sbd_event_trigger data)) (\<lambda>ms.
     Inr (PERIODIC_SUBSCRIPTION_FLRC (uint ms) NULL_Ptr))"

text \<open>The deferred calls at the end of the function; only their assertions have a value.\<close>

definition free_tc_call_proc_id :: "u32 option \<Rightarrow> unit res" where
  "free_tc_call_proc_id src = chk (src = None) ''Not implemented'' (Inr ())"

definition free_tc_ind_msg :: "tc_ind_msg_t \<Rightarrow> unit res" where
  "free_tc_ind_msg msg = chk (tc_sch msg \<noteq> Tc_Sched_End) ''Unknown sched type'' (Inr ())"

definition on_indication_tc_sm_ag ::
  "(nat \<Rightarrow> tc_ind_data_t \<Rightarrow> bool \<times> tc_ind_data_t) \<Rightarrow> nat \<Rightarrow> void_ptr \<Rightarrow> sm_ind_data_t option res" where
  "on_indication_tc_sm_ag read_ind now act_def =
     chk (act_def = NULL_Ptr) ''Action definition data not needed for this SM'' (
     let hdr = tc_enc_ind_hdr_plain 0;
         (has, tc) = read_ind now zero_tc_ind_data
     in bnd (if \<not> has then Inr None
             else bnd (tc_enc_ind_msg_plain (tid_msg tc)) (\<lambda>ba.
                  Inr (Some \<lparr>sid_ind_hdr = hdr, sid_ind_msg = ba, sid_call_process_id = None\<rparr>))) (\<lambda>ret.
        bnd (free_tc_call_proc_id (tid_proc_id tc)) (\<lambda>_.
        bnd (free_tc_ind_msg (tid_msg tc)) (\<lambda>_. Inr ret))))"

definition on_control_tc_sm_ag :: "(u32 \<Rightarrow> tc_ctrl_msg_t \<Rightarrow> sm_ag_if_ans_t) \<Rightarrow> sm_ctrl_req_data_t \<Rightarrow> byte_array_t res" where
  "on_control_tc_sm_ag write_ctrl data =
     bnd (tc_dec_ctrl_hdr_plain (ctrl_hdr data)) (\<lambda>hdr.
     bnd (tc_dec_ctrl_msg_plain (ctrl_msg data)) (\<lambda>msg.
     case write_ctrl hdr msg of
       TC_Outcome out \<Rightarrow> Inr (tc_enc_ctrl_out_plain out)
     | Other_Outcome \<Rightarrow> Inl (Assertion ''ans.ctrl_out.type == TC_AGENT_IF_CTRL_ANS_V0'')
     | Other_Answer \<Rightarrow> Inl (Assertion ''ans.type == CTRL_OUTCOME_SM_AG_IF_ANS_V0'')))"

definition on_e2_setup_tc_sm_ag :: "string \<Rightarrow> byte_array_t res" where
  "on_e2_setup_tc_sm_ag str = chk (length str < 256) ''Buffer overeflow?'' (Inr (cp_str_to_ba str))"

definition make_tc_sm_agent ::
  "(nat \<Rightarrow> tc_ind_data_t \<Rightarrow> bool \<times> tc_ind_data_t) \<Rightarrow> (u32 \<Rightarrow> tc_ctrl_msg_t \<Rightarrow> sm_ag_if_ans_t) \<Rightarrow> sm_agent_t" where
  "make_tc_sm_agent read_ind write_ctrl =
     \<lparr>sma_id = SM_TC_ID, sma_rev = SM_TC_REV, sma_oid = cp_str_to_ba ''0.0.0.0.0.0.0.0.1.146.0'',
      sma_on_subscription = on_subscription_tc_sm_ag,
      sma_on_indication = on_indication_tc_sm_ag read_ind,
      sma_on_control = on_control_tc_sm_ag write_ctrl,
      sma_on_e2_setup = on_e2_setup_tc_sm_ag ''TC_STATS_V0'',
      sma_free_act_def = None\<rparr>"

section \<open>At the RIC and the xApps\<close>

text \<open>The interval of a subscription is given as a string.\<close>

definition tc_interval :: "string \<Rightarrow> u32 res" where
  "tc_interval cmd =
     (if cmd = ''1_ms'' then Inr 1
      else if cmd = ''2_ms'' then Inr 2
      else if cmd = ''5_ms'' then Inr 5
      else if cmd = ''10_ms'' then Inr 10
      else if cmd = ''100_ms'' then Inr 100
      else if cmd = ''1000_ms'' then Inr 1000
      else Inl (Assertion ''Invalid input''))"

definition on_subscription_tc_sm_ric :: "string \<Rightarrow> sm_subs_data_t res" where
  "on_subscription_tc_sm_ric cmd =
     bnd (tc_interval cmd) (\<lambda>ms. Inr \<lparr>sub_event_trigger = tc_enc_event_trigger_plain ms, sub_action_def = None\<rparr>)"

definition on_indication_tc_sm_ric :: "sm_ind_data_t \<Rightarrow> tc_ind_msg_t res" where
  "on_indication_tc_sm_ric data = tc_dec_ind_msg_plain (sid_ind_msg data)"

definition ric_on_control_req_tc_sm_ric :: "u32 \<times> tc_ctrl_msg_t \<Rightarrow> sm_ctrl_req_data_t res" where
  "ric_on_control_req_tc_sm_ric = (\<lambda>(hdr, msg).
     bnd (tc_enc_ctrl_msg_plain msg) (\<lambda>ba. Inr \<lparr>ctrl_hdr = tc_enc_ctrl_hdr_plain hdr, ctrl_msg = ba\<rparr>))"

definition ric_on_control_out_tc_sm_ric :: "byte_array_t \<Rightarrow> u32 res" where
  "ric_on_control_out_tc_sm_ric out = tc_dec_ctrl_out_plain out"

section \<open>Requests and outcomes between the RIC and the RAN\<close>

text \<open>
  The agent executes the very request that the RIC encoded, and the RIC reads the outcome of the RAN
  from the answer.
\<close>

lemma tc_request_decoded:
  assumes "ric_on_control_req_tc_sm_ric (hdr, msg) = Inr \<lparr>ctrl_hdr = h, ctrl_msg = bs\<rparr>" "ctrl_lengths msg"
  shows "tc_dec_ctrl_hdr_plain h = Inr hdr" "tc_dec_ctrl_msg_plain bs = Inr msg"
  using assms ctrl_written [of msg bs]
  by (auto simp: ric_on_control_req_tc_sm_ric_def bnd_eq_Inr tc_dec_ctrl_hdr_plain_def tc_enc_ctrl_hdr_plain_def)

lemma tc_request_executed:
  assumes "ric_on_control_req_tc_sm_ric (hdr, msg) = Inr data" "ctrl_lengths msg" "write_ctrl hdr msg = TC_Outcome out"
  shows "on_control_tc_sm_ag write_ctrl data = Inr (tc_enc_ctrl_out_plain out)"
    and "ric_on_control_out_tc_sm_ric (tc_enc_ctrl_out_plain out) = Inr out"
proof -
  obtain h bs where bs: "data = \<lparr>ctrl_hdr = h, ctrl_msg = bs\<rparr>"
    by (cases data)
  show "on_control_tc_sm_ag write_ctrl data = Inr (tc_enc_ctrl_out_plain out)"
    using tc_request_decoded [OF assms(1) [unfolded bs] assms(2)] by (simp add: on_control_tc_sm_ag_def bs assms(3))
  show "ric_on_control_out_tc_sm_ric (tc_enc_ctrl_out_plain out) = Inr out"
    by (simp add: ric_on_control_out_tc_sm_ric_def tc_dec_ctrl_out_plain_def tc_enc_ctrl_out_plain_def)
qed

end
