(* ===== verification/Slice_Codec.thy ===== *)
theory Slice_Codec
  imports Wire_Codec
begin

text \<open>
  The messages of the slicing service model (\<^verbatim>\<open>sm/slice_sm/ie/slice_data_ie.h\<close>) and their plain encoding
  (\<^verbatim>\<open>slice_enc_plain.c\<close>, \<^verbatim>\<open>slice_dec_plain.c\<close>): the slices of the downlink and of the uplink with
  the parameters of the slicing algorithm, and the slices of the UEs.

  A union with its tag is a datatype whose last constructor stands for a tag that no alternative has;
  a string is the list of its bytes, a floating-point number its object representation.
\<close>

section \<open>Information elements\<close>

record static_slice_t =
  sta_pos_low :: u32
  sta_pos_high :: u32

record nvs_rate_t =
  mbps_required :: u32
  mbps_reference :: u32

datatype nvs_slice_t =
    Nvs_Rate nvs_rate_t
  | Nvs_Capacity u32
  | Nvs_End

record scn19_on_demand_t =
  od_pct_reserved :: u32
  od_log_delta :: u32
  od_tau :: u32

datatype scn19_slice_t =
    Scn19_Dynamic nvs_rate_t
  | Scn19_Fixed static_slice_t
  | Scn19_On_Demand scn19_on_demand_t
  | Scn19_End

record edf_slice_t =
  edf_deadline :: u32
  edf_guaranteed_prbs :: u32
  edf_max_replenish :: u32
  edf_over :: "u32 list"

datatype slice_params_t =
    Slice_Static static_slice_t
  | Slice_Nvs nvs_slice_t
  | Slice_Scn19 scn19_slice_t
  | Slice_Edf edf_slice_t
  | Slice_None

record fr_slice_t =
  slc_id :: u32
  slc_label :: "u8 list"
  slc_sched :: "u8 list"
  slc_params :: slice_params_t

record ul_dl_slice_conf_t =
  conf_slices :: "fr_slice_t list"
  conf_sched_name :: "u8 list"

record slice_conf_t =
  sc_dl :: ul_dl_slice_conf_t
  sc_ul :: ul_dl_slice_conf_t

record ue_slice_assoc_t =
  ua_dl_id :: u32
  ua_ul_id :: u32
  ua_rnti :: u16

record slice_ind_msg_t =
  sl_conf :: slice_conf_t
  sl_ues :: "ue_slice_assoc_t list"
  sl_tstamp :: u64

record del_slice_conf_t =
  del_dl :: "u32 list"
  del_ul :: "u32 list"

datatype slice_ctrl_msg_t =
    Slice_Add slice_conf_t
  | Slice_Del del_slice_conf_t
  | Slice_Ue_Assoc "ue_slice_assoc_t list"
  | Slice_Ctrl_End

record slice_ctrl_out_t =
  sco_ans :: u32
  sco_diagnostic :: "u8 list"

abbreviation (input) "SLICE_ALG_STATIC \<equiv> 1 :: u32"
abbreviation (input) "SLICE_ALG_NVS \<equiv> 2 :: u32"
abbreviation (input) "SLICE_ALG_SCN19 \<equiv> 3 :: u32"
abbreviation (input) "SLICE_ALG_EDF \<equiv> 4 :: u32"
abbreviation (input) "NVS_RATE \<equiv> 0 :: u32"
abbreviation (input) "NVS_CAPACITY \<equiv> 1 :: u32"
abbreviation (input) "SCN19_DYNAMIC \<equiv> 0 :: u32"
abbreviation (input) "SCN19_FIXED \<equiv> 1 :: u32"
abbreviation (input) "SCN19_ON_DEMAND \<equiv> 2 :: u32"
abbreviation (input) "SLICE_CTRL_ADD \<equiv> 0 :: u32"
abbreviation (input) "SLICE_CTRL_DEL \<equiv> 1 :: u32"
abbreviation (input) "SLICE_CTRL_UE_SLICE_ASSOC \<equiv> 2 :: u32"

section \<open>The size of a message\<close>

definition cal_static :: "static_slice_t \<Rightarrow> nat res" where
  "cal_static sta = Inr (4 + 4)"

fun cal_nvs :: "nvs_slice_t \<Rightarrow> nat res" where
  "cal_nvs (Nvs_Rate r) = Inr (4 + 4 + 4)"
| "cal_nvs (Nvs_Capacity c) = Inr (4 + 4)"
| "cal_nvs Nvs_End = Inl (Assertion ''Unknown nvs conf'')"

fun cal_scn19 :: "scn19_slice_t \<Rightarrow> nat res" where
  "cal_scn19 (Scn19_Dynamic r) = Inr (4 + 4 + 4)"
| "cal_scn19 (Scn19_Fixed s) = Inr (4 + 4 + 4)"
| "cal_scn19 (Scn19_On_Demand d) = Inr (4 + 4 + 4 + 4)"
| "cal_scn19 Scn19_End = Inl (Assertion ''Unknown nvs conf'')"

definition cal_edf :: "edf_slice_t \<Rightarrow> nat res" where
  "cal_edf edf = Inr (4 + 4 + 4 + 4 + 4 * length (edf_over edf))"

fun cal_params :: "slice_params_t \<Rightarrow> nat res" where
  "cal_params (Slice_Static s) = sizes [Inr 4, cal_static s]"
| "cal_params (Slice_Nvs n) = sizes [Inr 4, cal_nvs n]"
| "cal_params (Slice_Scn19 s) = sizes [Inr 4, cal_scn19 s]"
| "cal_params (Slice_Edf e) = sizes [Inr 4, cal_edf e]"
| "cal_params Slice_None = Inl (Assertion ''Unknown slicing type'')"

definition cal_slice :: "fr_slice_t \<Rightarrow> nat res" where
  "cal_slice s = sizes [Inr 4, Inr 4, Inr (length (slc_label s)), Inr 4, Inr (length (slc_sched s)), cal_params (slc_params s)]"

definition cal_slc :: "fr_slice_t list \<Rightarrow> nat res" where
  "cal_slc slc = sizes (map cal_slice slc)"

definition cal_ul_dl :: "ul_dl_slice_conf_t \<Rightarrow> nat res" where
  "cal_ul_dl c = sizes [Inr 4, Inr (length (conf_sched_name c)), Inr 4, cal_slc (conf_slices c)]"

definition cal_slice_conf :: "slice_conf_t \<Rightarrow> nat res" where
  "cal_slice_conf c = sizes [cal_ul_dl (sc_ul c), cal_ul_dl (sc_dl c)]"

definition cal_ue_slice_assoc :: "ue_slice_assoc_t \<Rightarrow> nat res" where
  "cal_ue_slice_assoc a = Inr (4 + 4 + 2)"

definition cal_ue_slice_conf :: "ue_slice_assoc_t list \<Rightarrow> nat res" where
  "cal_ue_slice_conf ues = sizes (Inr 4 # map cal_ue_slice_assoc ues)"

definition slice_cal_ind_msg_payload :: "slice_ind_msg_t \<Rightarrow> nat res" where
  "slice_cal_ind_msg_payload m = sizes [cal_slice_conf (sl_conf m), cal_ue_slice_conf (sl_ues m), Inr 8]"

definition cal_del_slice :: "del_slice_conf_t \<Rightarrow> nat res" where
  "cal_del_slice d = Inr (4 + length (del_dl d) * 4 + 4 + length (del_ul d) * 4)"

fun cal_ctrl_msg_payload :: "slice_ctrl_msg_t \<Rightarrow> nat res" where
  "cal_ctrl_msg_payload (Slice_Add c) = sizes [Inr 4, cal_slice_conf c]"
| "cal_ctrl_msg_payload (Slice_Del d) = sizes [Inr 4, cal_del_slice d]"
| "cal_ctrl_msg_payload (Slice_Ue_Assoc ues) = sizes [Inr 4, cal_ue_slice_conf ues]"
| "cal_ctrl_msg_payload Slice_Ctrl_End = Inl (Assertion ''Unknown type'')"

section \<open>Encoding\<close>

definition before_end :: "nat \<Rightarrow> u8 list \<Rightarrow> u8 list res" where
  "before_end cap out = chk (length out < cap) ''it < end'' (Inr out)"

definition fill_static :: "nat \<Rightarrow> static_slice_t \<Rightarrow> u8 list \<Rightarrow> u8 list res" where
  "fill_static cap s = writes [before_end cap, put32 cap (sta_pos_high s), put32 cap (sta_pos_low s)]"

definition fill_rate :: "nat \<Rightarrow> nvs_rate_t \<Rightarrow> u8 list \<Rightarrow> u8 list res" where
  "fill_rate cap r = writes [put32 cap (mbps_reference r), put32 cap (mbps_required r)]"

definition fill_capacity :: "nat \<Rightarrow> u32 \<Rightarrow> u8 list \<Rightarrow> u8 list res" where
  "fill_capacity cap c = put32 cap c"

fun fill_nvs :: "nat \<Rightarrow> nvs_slice_t \<Rightarrow> u8 list \<Rightarrow> u8 list res" where
  "fill_nvs cap (Nvs_Rate r) = writes [put32 cap NVS_RATE, fill_rate cap r]"
| "fill_nvs cap (Nvs_Capacity c) = writes [put32 cap NVS_CAPACITY, fill_capacity cap c]"
| "fill_nvs cap Nvs_End = (\<lambda>_. Inl (Assertion ''Unknown type''))"

definition fill_on_demand :: "nat \<Rightarrow> scn19_on_demand_t \<Rightarrow> u8 list \<Rightarrow> u8 list res" where
  "fill_on_demand cap d = writes [put32 cap (od_log_delta d), put32 cap (od_pct_reserved d), put32 cap (od_tau d)]"

fun fill_scn19 :: "nat \<Rightarrow> scn19_slice_t \<Rightarrow> u8 list \<Rightarrow> u8 list res" where
  "fill_scn19 cap (Scn19_Dynamic r) = writes [put32 cap SCN19_DYNAMIC, fill_rate cap r]"
| "fill_scn19 cap (Scn19_Fixed s) = writes [put32 cap SCN19_FIXED, fill_static cap s]"
| "fill_scn19 cap (Scn19_On_Demand d) = writes [put32 cap SCN19_ON_DEMAND, fill_on_demand cap d]"
| "fill_scn19 cap Scn19_End = (\<lambda>_. Inl (Assertion ''Unknown configuration''))"

definition fill_edf :: "nat \<Rightarrow> edf_slice_t \<Rightarrow> u8 list \<Rightarrow> u8 list res" where
  "fill_edf cap e =
     writes ([put32 cap (edf_deadline e), put32 cap (edf_guaranteed_prbs e), put32 cap (edf_max_replenish e),
       put32 cap (of_nat (length (edf_over e)))] @ map (put32 cap) (edf_over e))"

fun fill_params :: "nat \<Rightarrow> slice_params_t \<Rightarrow> u8 list \<Rightarrow> u8 list res" where
  "fill_params cap (Slice_Static s) = writes [put32 cap SLICE_ALG_STATIC, fill_static cap s]"
| "fill_params cap (Slice_Nvs n) = writes [put32 cap SLICE_ALG_NVS, fill_nvs cap n]"
| "fill_params cap (Slice_Scn19 s) = writes [put32 cap SLICE_ALG_SCN19, fill_scn19 cap s]"
| "fill_params cap (Slice_Edf e) = writes [put32 cap SLICE_ALG_EDF, fill_edf cap e]"
| "fill_params cap Slice_None = (\<lambda>_. Inl (Assertion ''Unknown parameter type''))"

definition fill_slice :: "nat \<Rightarrow> fr_slice_t \<Rightarrow> u8 list \<Rightarrow> u8 list res" where
  "fill_slice cap s =
     writes [before_end cap, put32 cap (slc_id s), put32 cap (of_nat (length (slc_label s))), put cap (slc_label s),
       put32 cap (of_nat (length (slc_sched s))), put cap (slc_sched s), fill_params cap (slc_params s)]"

definition fill_ul_dl_slice_conf :: "nat \<Rightarrow> ul_dl_slice_conf_t \<Rightarrow> u8 list \<Rightarrow> u8 list res" where
  "fill_ul_dl_slice_conf cap c =
     writes ([put32 cap (of_nat (length (conf_sched_name c))), put cap (conf_sched_name c),
       put32 cap (of_nat (length (conf_slices c)))] @ map (fill_slice cap) (conf_slices c))"

definition fill_slice_conf :: "nat \<Rightarrow> slice_conf_t \<Rightarrow> u8 list \<Rightarrow> u8 list res" where
  "fill_slice_conf cap c = writes [fill_ul_dl_slice_conf cap (sc_dl c), fill_ul_dl_slice_conf cap (sc_ul c)]"

definition fill_ue_slice_assoc :: "nat \<Rightarrow> ue_slice_assoc_t \<Rightarrow> u8 list \<Rightarrow> u8 list res" where
  "fill_ue_slice_assoc cap a =
     writes [before_end cap, put32 cap (ua_dl_id a), put32 cap (ua_ul_id a), put16 cap (ua_rnti a)]"

definition fill_ue_slice_conf :: "nat \<Rightarrow> ue_slice_assoc_t list \<Rightarrow> u8 list \<Rightarrow> u8 list res" where
  "fill_ue_slice_conf cap ues = writes (put32 cap (of_nat (length ues)) # map (fill_ue_slice_assoc cap) ues)"

definition slice_enc_ind_msg_plain :: "slice_ind_msg_t \<Rightarrow> u8 list res" where
  "slice_enc_ind_msg_plain m =
     bnd (slice_cal_ind_msg_payload m) (\<lambda>sz.
     bnd (writes [fill_slice_conf sz (sl_conf m), fill_ue_slice_conf sz (sl_ues m), put64 sz (sl_tstamp m)] []) (\<lambda>out.
     chk (length out = sz) ''Mismatch of data layout'' (Inr out)))"

definition fill_del_slice_conf :: "nat \<Rightarrow> del_slice_conf_t \<Rightarrow> u8 list \<Rightarrow> u8 list res" where
  "fill_del_slice_conf cap d =
     writes (put32 cap (of_nat (length (del_dl d))) # map (put32 cap) (del_dl d) @
       put32 cap (of_nat (length (del_ul d))) # map (put32 cap) (del_ul d))"

fun fill_slice_ctrl_msg :: "nat \<Rightarrow> slice_ctrl_msg_t \<Rightarrow> u8 list \<Rightarrow> u8 list res" where
  "fill_slice_ctrl_msg cap (Slice_Add c) = writes [put32 cap SLICE_CTRL_ADD, fill_slice_conf cap c]"
| "fill_slice_ctrl_msg cap (Slice_Del d) = writes [put32 cap SLICE_CTRL_DEL, fill_del_slice_conf cap d]"
| "fill_slice_ctrl_msg cap (Slice_Ue_Assoc ues) = writes [put32 cap SLICE_CTRL_UE_SLICE_ASSOC, fill_ue_slice_conf cap ues]"
| "fill_slice_ctrl_msg cap Slice_Ctrl_End = (\<lambda>_. Inl (Assertion ''Unknown type''))"

definition slice_enc_ctrl_msg_plain :: "slice_ctrl_msg_t \<Rightarrow> u8 list res" where
  "slice_enc_ctrl_msg_plain m =
     bnd (cal_ctrl_msg_payload m) (\<lambda>sz.
     bnd (fill_slice_ctrl_msg sz m []) (\<lambda>out.
     chk (length out = sz) ''Mismatch of data layout'' (Inr out)))"

text \<open>The answer itself is not part of the encoding of an outcome.\<close>

definition slice_enc_ctrl_out_plain :: "slice_ctrl_out_t \<Rightarrow> u8 list res" where
  "slice_enc_ctrl_out_plain c =
     (let len = 4 + length (sco_diagnostic c)
      in bnd (writes [put32 len (of_nat (length (sco_diagnostic c))), put len (sco_diagnostic c)] []) (\<lambda>out.
         chk (length out = len) ''it == ba.buf + ba.len'' (Inr out)))"

section \<open>Decoding\<close>

definition dec_static :: "u8 list \<Rightarrow> (static_slice_t \<times> u8 list) res" where
  "dec_static it = bnd (get32 it) (\<lambda>(h, it). bnd (get32 it) (\<lambda>(l, it). Inr (\<lparr>sta_pos_low = l, sta_pos_high = h\<rparr>, it)))"

definition dec_rate :: "u8 list \<Rightarrow> (nvs_rate_t \<times> u8 list) res" where
  "dec_rate it =
     bnd (get32 it) (\<lambda>(ref, it). bnd (get32 it) (\<lambda>(req, it). Inr (\<lparr>mbps_required = req, mbps_reference = ref\<rparr>, it)))"

definition dec_capacity :: "u8 list \<Rightarrow> (u32 \<times> u8 list) res" where
  "dec_capacity it = get32 it"

definition dec_nvs :: "u8 list \<Rightarrow> (nvs_slice_t \<times> u8 list) res" where
  "dec_nvs it =
     bnd (get32 it) (\<lambda>(conf, it).
     if conf = NVS_RATE then bnd (dec_rate it) (\<lambda>(r, it). Inr (Nvs_Rate r, it))
     else if conf = NVS_CAPACITY then bnd (dec_capacity it) (\<lambda>(c, it). Inr (Nvs_Capacity c, it))
     else Inl (Assertion ''Unknown type''))"

definition dec_on_demand :: "u8 list \<Rightarrow> (scn19_on_demand_t \<times> u8 list) res" where
  "dec_on_demand it =
     bnd (get32 it) (\<lambda>(d, it). bnd (get32 it) (\<lambda>(p, it). bnd (get32 it) (\<lambda>(t, it).
     Inr (\<lparr>od_pct_reserved = p, od_log_delta = d, od_tau = t\<rparr>, it))))"

definition dec_scn19 :: "u8 list \<Rightarrow> (scn19_slice_t \<times> u8 list) res" where
  "dec_scn19 it =
     bnd (get32 it) (\<lambda>(conf, it).
     if conf = SCN19_DYNAMIC then bnd (dec_rate it) (\<lambda>(r, it). Inr (Scn19_Dynamic r, it))
     else if conf = SCN19_FIXED then bnd (dec_static it) (\<lambda>(s, it). Inr (Scn19_Fixed s, it))
     else if conf = SCN19_ON_DEMAND then bnd (dec_on_demand it) (\<lambda>(d, it). Inr (Scn19_On_Demand d, it))
     else Inl (Assertion ''Unknown configuration''))"

definition dec_edf :: "u8 list \<Rightarrow> (edf_slice_t \<times> u8 list) res" where
  "dec_edf it =
     bnd (get32 it) (\<lambda>(d, it). bnd (get32 it) (\<lambda>(g, it). bnd (get32 it) (\<lambda>(m, it). bnd (get32 it) (\<lambda>(n, it).
     bnd (reads (unat n) get32 it) (\<lambda>(over, it).
     Inr (\<lparr>edf_deadline = d, edf_guaranteed_prbs = g, edf_max_replenish = m, edf_over = over\<rparr>, it))))))"

definition dec_params :: "u8 list \<Rightarrow> (slice_params_t \<times> u8 list) res" where
  "dec_params it =
     bnd (get32 it) (\<lambda>(type, it).
     if type = SLICE_ALG_STATIC then bnd (dec_static it) (\<lambda>(s, it). Inr (Slice_Static s, it))
     else if type = SLICE_ALG_NVS then bnd (dec_nvs it) (\<lambda>(n, it). Inr (Slice_Nvs n, it))
     else if type = SLICE_ALG_SCN19 then bnd (dec_scn19 it) (\<lambda>(s, it). Inr (Slice_Scn19 s, it))
     else if type = SLICE_ALG_EDF then bnd (dec_edf it) (\<lambda>(e, it). Inr (Slice_Edf e, it))
     else Inl (Assertion ''Unknown parameter type''))"

definition dec_slice :: "u8 list \<Rightarrow> (fr_slice_t \<times> u8 list) res" where
  "dec_slice it =
     bnd (get32 it) (\<lambda>(id, it).
     bnd (get32 it) (\<lambda>(n, it). bnd (if n > 0 then copy_out (unat n) it else Inr ([], it)) (\<lambda>(label, it).
     bnd (get32 it) (\<lambda>(n, it). bnd (if n > 0 then copy_out (unat n) it else Inr ([], it)) (\<lambda>(sched, it).
     bnd (dec_params it) (\<lambda>(par, it).
     Inr (\<lparr>slc_id = id, slc_label = label, slc_sched = sched, slc_params = par\<rparr>, it)))))))"

definition dec_ul_dl_slice_conf :: "u8 list \<Rightarrow> (ul_dl_slice_conf_t \<times> u8 list) res" where
  "dec_ul_dl_slice_conf it =
     bnd (get32 it) (\<lambda>(n, it). bnd (if n > 0 then copy_out (unat n) it else Inr ([], it)) (\<lambda>(name, it).
     bnd (get32 it) (\<lambda>(n, it). bnd (reads (unat n) dec_slice it) (\<lambda>(slices, it).
     Inr (\<lparr>conf_slices = slices, conf_sched_name = name\<rparr>, it)))))"

definition dec_slice_conf :: "u8 list \<Rightarrow> (slice_conf_t \<times> u8 list) res" where
  "dec_slice_conf it =
     bnd (dec_ul_dl_slice_conf it) (\<lambda>(dl, it). bnd (dec_ul_dl_slice_conf it) (\<lambda>(ul, it). Inr (\<lparr>sc_dl = dl, sc_ul = ul\<rparr>, it)))"

definition dec_ue_slice_assoc :: "u8 list \<Rightarrow> (ue_slice_assoc_t \<times> u8 list) res" where
  "dec_ue_slice_assoc it =
     bnd (get32 it) (\<lambda>(d, it). bnd (get32 it) (\<lambda>(u, it). bnd (get16 it) (\<lambda>(r, it).
     Inr (\<lparr>ua_dl_id = d, ua_ul_id = u, ua_rnti = r\<rparr>, it))))"

definition dec_ue_slice_conf :: "u8 list \<Rightarrow> (ue_slice_assoc_t list \<times> u8 list) res" where
  "dec_ue_slice_conf it = bnd (get32 it) (\<lambda>(n, it). reads (unat n) dec_ue_slice_assoc it)"

definition slice_dec_ind_msg_plain :: "u8 list \<Rightarrow> slice_ind_msg_t res" where
  "slice_dec_ind_msg_plain ind_msg =
     bnd (dec_slice_conf ind_msg) (\<lambda>(conf, it).
     bnd (dec_ue_slice_conf it) (\<lambda>(ues, it).
     bnd (get64 it) (\<lambda>(tstamp, it).
     chk (it = []) ''Data layout mismacth'' (Inr \<lparr>sl_conf = conf, sl_ues = ues, sl_tstamp = tstamp\<rparr>))))"

definition dec_del_slice :: "u8 list \<Rightarrow> (del_slice_conf_t \<times> u8 list) res" where
  "dec_del_slice it =
     bnd (get32 it) (\<lambda>(n, it). bnd (reads (unat n) get32 it) (\<lambda>(dl, it).
     bnd (get32 it) (\<lambda>(n, it). bnd (reads (unat n) get32 it) (\<lambda>(ul, it).
     Inr (\<lparr>del_dl = dl, del_ul = ul\<rparr>, it)))))"

definition slice_dec_ctrl_msg_plain :: "u8 list \<Rightarrow> slice_ctrl_msg_t res" where
  "slice_dec_ctrl_msg_plain ctrl_msg =
     bnd (get32 ctrl_msg) (\<lambda>(type, it).
     bnd (if type = SLICE_CTRL_ADD then bnd (dec_slice_conf it) (\<lambda>(c, it). Inr (Slice_Add c, it))
          else if type = SLICE_CTRL_DEL then bnd (dec_del_slice it) (\<lambda>(d, it). Inr (Slice_Del d, it))
          else if type = SLICE_CTRL_UE_SLICE_ASSOC then bnd (dec_ue_slice_conf it) (\<lambda>(u, it). Inr (Slice_Ue_Assoc u, it))
          else Inl (Assertion ''Unknonw type'')) (\<lambda>(m, it).
     chk (it = []) ''Data layout mismatch'' (Inr m)))"

definition slice_dec_ctrl_out_plain :: "u8 list \<Rightarrow> slice_ctrl_out_t res" where
  "slice_dec_ctrl_out_plain ctrl_out =
     bnd (get32 ctrl_out) (\<lambda>(n, it). bnd (if n > 0 then copy_out (unat n) it else Inr ([], it)) (\<lambda>(d, it).
     Inr \<lparr>sco_ans = 0, sco_diagnostic = d\<rparr>))"

section \<open>The parts of the messages\<close>

definition static_bytes :: "static_slice_t \<Rightarrow> u8 list" where
  "static_bytes s = le_bytes 4 (sta_pos_high s) @ le_bytes 4 (sta_pos_low s)"

definition rate_bytes :: "nvs_rate_t \<Rightarrow> u8 list" where
  "rate_bytes r = le_bytes 4 (mbps_reference r) @ le_bytes 4 (mbps_required r)"

fun nvs_bytes :: "nvs_slice_t \<Rightarrow> u8 list" where
  "nvs_bytes (Nvs_Rate r) = le_bytes 4 NVS_RATE @ rate_bytes r"
| "nvs_bytes (Nvs_Capacity c) = le_bytes 4 NVS_CAPACITY @ le_bytes 4 c"
| "nvs_bytes Nvs_End = []"

definition on_demand_bytes :: "scn19_on_demand_t \<Rightarrow> u8 list" where
  "on_demand_bytes d = le_bytes 4 (od_log_delta d) @ le_bytes 4 (od_pct_reserved d) @ le_bytes 4 (od_tau d)"

fun scn19_bytes :: "scn19_slice_t \<Rightarrow> u8 list" where
  "scn19_bytes (Scn19_Dynamic r) = le_bytes 4 SCN19_DYNAMIC @ rate_bytes r"
| "scn19_bytes (Scn19_Fixed s) = le_bytes 4 SCN19_FIXED @ static_bytes s"
| "scn19_bytes (Scn19_On_Demand d) = le_bytes 4 SCN19_ON_DEMAND @ on_demand_bytes d"
| "scn19_bytes Scn19_End = []"

definition words_bytes :: "u32 list \<Rightarrow> u8 list" where
  "words_bytes ws = le_bytes 4 (of_nat (length ws) :: u32) @ concat (map (le_bytes 4) ws)"

definition edf_bytes :: "edf_slice_t \<Rightarrow> u8 list" where
  "edf_bytes e = le_bytes 4 (edf_deadline e) @ le_bytes 4 (edf_guaranteed_prbs e) @ le_bytes 4 (edf_max_replenish e) @
     words_bytes (edf_over e)"

fun params_bytes :: "slice_params_t \<Rightarrow> u8 list" where
  "params_bytes (Slice_Static s) = le_bytes 4 SLICE_ALG_STATIC @ static_bytes s"
| "params_bytes (Slice_Nvs n) = le_bytes 4 SLICE_ALG_NVS @ nvs_bytes n"
| "params_bytes (Slice_Scn19 s) = le_bytes 4 SLICE_ALG_SCN19 @ scn19_bytes s"
| "params_bytes (Slice_Edf e) = le_bytes 4 SLICE_ALG_EDF @ edf_bytes e"
| "params_bytes Slice_None = []"

text \<open>The tag of the parameters is that of an algorithm, and the lengths fit into their fields.\<close>

fun params_known :: "slice_params_t \<Rightarrow> bool" where
  "params_known (Slice_Nvs n) = (n \<noteq> Nvs_End)"
| "params_known (Slice_Scn19 s) = (s \<noteq> Scn19_End)"
| "params_known Slice_None = False"
| "params_known _ = True"

fun params_lengths :: "slice_params_t \<Rightarrow> bool" where
  "params_lengths (Slice_Edf e) = (length (edf_over e) < 2 ^ 32)"
| "params_lengths _ = True"

definition str_bytes :: "u8 list \<Rightarrow> u8 list" where
  "str_bytes s = le_bytes 4 (of_nat (length s) :: u32) @ s"

definition slice_bytes :: "fr_slice_t \<Rightarrow> u8 list" where
  "slice_bytes s = le_bytes 4 (slc_id s) @ str_bytes (slc_label s) @ str_bytes (slc_sched s) @ params_bytes (slc_params s)"

definition slice_lengths :: "fr_slice_t \<Rightarrow> bool" where
  "slice_lengths s \<longleftrightarrow> length (slc_label s) < 2 ^ 32 \<and> length (slc_sched s) < 2 ^ 32 \<and> params_lengths (slc_params s)"

definition ul_dl_bytes :: "ul_dl_slice_conf_t \<Rightarrow> u8 list" where
  "ul_dl_bytes c = str_bytes (conf_sched_name c) @ le_bytes 4 (of_nat (length (conf_slices c)) :: u32) @
     concat (map slice_bytes (conf_slices c))"

definition ul_dl_known :: "ul_dl_slice_conf_t \<Rightarrow> bool" where
  "ul_dl_known c \<longleftrightarrow> (\<forall>s \<in> set (conf_slices c). params_known (slc_params s))"

definition ul_dl_lengths :: "ul_dl_slice_conf_t \<Rightarrow> bool" where
  "ul_dl_lengths c \<longleftrightarrow> length (conf_sched_name c) < 2 ^ 32 \<and> length (conf_slices c) < 2 ^ 32 \<and>
     (\<forall>s \<in> set (conf_slices c). slice_lengths s)"

definition conf_bytes :: "slice_conf_t \<Rightarrow> u8 list" where
  "conf_bytes c = ul_dl_bytes (sc_dl c) @ ul_dl_bytes (sc_ul c)"

definition assoc_bytes :: "ue_slice_assoc_t \<Rightarrow> u8 list" where
  "assoc_bytes a = le_bytes 4 (ua_dl_id a) @ le_bytes 4 (ua_ul_id a) @ le_bytes 2 (ua_rnti a)"

definition ues_bytes :: "ue_slice_assoc_t list \<Rightarrow> u8 list" where
  "ues_bytes ues = le_bytes 4 (of_nat (length ues) :: u32) @ concat (map assoc_bytes ues)"

definition del_bytes :: "del_slice_conf_t \<Rightarrow> u8 list" where
  "del_bytes d = words_bytes (del_dl d) @ words_bytes (del_ul d)"

lemma before_end_room [simp]: "length out < cap \<Longrightarrow> before_end cap out = Inr out"
  by (simp add: before_end_def)

interpretation sta: codec "\<lambda>_. True" static_bytes cal_static fill_static dec_static "\<lambda>s. s"
  by unfold_locales (simp_all add: static_bytes_def cal_static_def fill_static_def dec_static_def)

interpretation rate: codec "\<lambda>_. True" rate_bytes "\<lambda>r. Inr 8" fill_rate dec_rate "\<lambda>r. r"
  by unfold_locales (simp_all add: rate_bytes_def fill_rate_def dec_rate_def)

lemma rate_length: "length (rate_bytes r) = 8" "length (static_bytes s) = 8" "length (on_demand_bytes d) = 12"
  by (simp_all add: rate_bytes_def static_bytes_def on_demand_bytes_def)

interpretation on_demand: codec "\<lambda>_. True" on_demand_bytes "\<lambda>r. Inr 12" fill_on_demand dec_on_demand "\<lambda>d. d"
  by unfold_locales (simp_all add: on_demand_bytes_def fill_on_demand_def dec_on_demand_def)

interpretation nvs: codec "\<lambda>n. n \<noteq> Nvs_End" nvs_bytes cal_nvs fill_nvs dec_nvs "\<lambda>n. n"
  by (unfold_locales; case_tac x)
    (simp_all add: rate_length dec_nvs_def fill_capacity_def dec_capacity_def rate.enc_law rate.dec_law)

interpretation scn19: codec "\<lambda>s. s \<noteq> Scn19_End" scn19_bytes cal_scn19 fill_scn19 dec_scn19 "\<lambda>s. s"
  by (unfold_locales; case_tac x)
    (simp_all add: rate_length dec_scn19_def rate.enc_law rate.dec_law sta.enc_law sta.dec_law on_demand.enc_law on_demand.dec_law)

lemma words_length: "length (words_bytes ws) = 4 + 4 * length ws"
  by (simp add: words_bytes_def le32.enc_array_length)

interpretation edf: codec "\<lambda>e. length (edf_over e) < 2 ^ 32" edf_bytes cal_edf fill_edf dec_edf "\<lambda>e. e"
  by unfold_locales (simp_all add: edf_bytes_def cal_edf_def fill_edf_def dec_edf_def words_bytes_def le32.enc_array_length
      puts_words reads_words)

interpretation params: codec "\<lambda>p. params_known p \<and> params_lengths p" params_bytes cal_params fill_params dec_params "\<lambda>p. p"
  by (unfold_locales; case_tac x)
    (simp_all add: dec_params_def sta.size_law sta.enc_law sta.dec_law nvs.size_law nvs.enc_law nvs.dec_law
      scn19.size_law scn19.enc_law scn19.dec_law edf.size_law edf.enc_law edf.dec_law)

text \<open>A string that may be empty.\<close>

lemma dec_str:
  assumes "length s < 2 ^ 32"
  shows "(if (of_nat (length s) :: u32) > 0 then copy_out (unat (of_nat (length s) :: u32)) (s @ it) else Inr ([], s @ it)) =
     Inr (s, it)"
proof -
  have n: "unat (of_nat (length s) :: u32) = length s"
    by (rule unat_length [OF assms])
  then have "(of_nat (length s) :: u32) > 0 \<longleftrightarrow> s \<noteq> []"
    by (simp add: word_less_nat_alt)
  with n show ?thesis
    by simp
qed

interpretation slc: codec "\<lambda>s. params_known (slc_params s) \<and> slice_lengths s" slice_bytes cal_slice fill_slice dec_slice "\<lambda>s. s"
proof (unfold_locales, goal_cases)
  case (1 s)
  then show ?case
    by (simp add: cal_slice_def slice_bytes_def str_bytes_def slice_lengths_def params.size_law)
next
  case (2 s out cap)
  then show ?case
    by (simp add: fill_slice_def slice_bytes_def str_bytes_def slice_lengths_def params.enc_law)
next
  case (3 s rest)
  then show ?case
    by (simp add: dec_slice_def slice_bytes_def str_bytes_def slice_lengths_def params.dec_law dec_str del: unat_length)
qed

interpretation ul_dl: codec "\<lambda>c. ul_dl_known c \<and> ul_dl_lengths c" ul_dl_bytes cal_ul_dl fill_ul_dl_slice_conf
  dec_ul_dl_slice_conf "\<lambda>c. c"
proof (unfold_locales, goal_cases)
  case (1 c)
  then have "\<forall>s \<in> set (conf_slices c). params_known (slc_params s) \<and> slice_lengths s"
    by (simp add: ul_dl_known_def ul_dl_lengths_def)
  from slc.array_size [OF this] show ?case
    by (simp add: cal_ul_dl_def cal_slc_def ul_dl_bytes_def str_bytes_def)
next
  case (2 c out cap)
  then have "\<forall>s \<in> set (conf_slices c). params_known (slc_params s) \<and> slice_lengths s"
    by (simp add: ul_dl_known_def ul_dl_lengths_def)
  with 2(2) show ?case
    by (simp add: fill_ul_dl_slice_conf_def ul_dl_bytes_def str_bytes_def slc.array_enc del: length_concat)
next
  case (3 c rest)
  then have "\<forall>s \<in> set (conf_slices c). params_known (slc_params s) \<and> slice_lengths s"
    by (simp add: ul_dl_known_def ul_dl_lengths_def)
  with 3 show ?case
    by (simp add: dec_ul_dl_slice_conf_def ul_dl_bytes_def str_bytes_def ul_dl_lengths_def slc.array_dec dec_str del: unat_length)
      (simp add: slc.array_dec)
qed

interpretation conf: codec "\<lambda>c. (ul_dl_known (sc_dl c) \<and> ul_dl_lengths (sc_dl c)) \<and> ul_dl_known (sc_ul c) \<and> ul_dl_lengths (sc_ul c)"
  conf_bytes cal_slice_conf fill_slice_conf dec_slice_conf "\<lambda>c. c"
  by unfold_locales (simp_all add: conf_bytes_def cal_slice_conf_def fill_slice_conf_def dec_slice_conf_def
      ul_dl.size_law ul_dl.enc_law ul_dl.dec_law)

interpretation assoc: codec "\<lambda>_. True" assoc_bytes cal_ue_slice_assoc fill_ue_slice_assoc dec_ue_slice_assoc "\<lambda>a. a"
  by unfold_locales (simp_all add: assoc_bytes_def cal_ue_slice_assoc_def fill_ue_slice_assoc_def dec_ue_slice_assoc_def)

interpretation ues: codec "\<lambda>ues. length ues < 2 ^ 32" ues_bytes cal_ue_slice_conf fill_ue_slice_conf dec_ue_slice_conf "\<lambda>ues. ues"
  by unfold_locales (simp_all add: ues_bytes_def cal_ue_slice_conf_def fill_ue_slice_conf_def dec_ue_slice_conf_def
      assoc.array_size assoc.array_enc assoc.array_dec del: length_concat)

interpretation del: codec "\<lambda>d. length (del_dl d) < 2 ^ 32 \<and> length (del_ul d) < 2 ^ 32" del_bytes cal_del_slice
  fill_del_slice_conf dec_del_slice "\<lambda>d. d"
  by unfold_locales (simp_all add: del_bytes_def words_bytes_def cal_del_slice_def fill_del_slice_conf_def dec_del_slice_def
      writes_append puts_words reads_words le32.enc_array_length)

section \<open>An unknown kind of slice makes the encoder abort\<close>

lemma slice_size_cases:
  "if params_known (slc_params s) then \<exists>n. cal_slice s = Inr n else \<exists>msg. cal_slice s = Inl (Assertion msg)"
proof (cases "slc_params s")
  case (Slice_Nvs n)
  then show ?thesis by (cases n) (simp_all add: cal_slice_def)
next
  case (Slice_Scn19 c)
  then show ?thesis by (cases c) (simp_all add: cal_slice_def)
qed (simp_all add: cal_slice_def cal_static_def cal_edf_def)

lemma slice_size_abort: "cal_slice s = Inl e \<Longrightarrow> \<exists>msg. e = Assertion msg"
  using slice_size_cases [of s] by (auto split: if_splits)

lemma ul_dl_unknown:
  assumes "\<not> ul_dl_known c"
  shows "\<exists>msg. cal_ul_dl c = Inl (Assertion msg)"
proof -
  obtain s where s: "s \<in> set (conf_slices c)" "\<not> params_known (slc_params s)"
    using assms by (auto simp: ul_dl_known_def)
  obtain msg where msg: "cal_slice s = Inl (Assertion msg)"
    using slice_size_cases [of s] s(2) by auto
  have "Inl (Assertion msg) \<in> set (map cal_slice (conf_slices c))"
    using s(1) msg by (metis image_eqI set_map)
  then have "\<exists>msg. sizes (map cal_slice (conf_slices c)) = Inl (Assertion msg)"
    by (rule sizes_abort) (auto dest: sym slice_size_abort)
  then show ?thesis
    by (auto simp: cal_ul_dl_def cal_slc_def)
qed

definition conf_known :: "slice_conf_t \<Rightarrow> bool" where
  "conf_known c \<longleftrightarrow> ul_dl_known (sc_dl c) \<and> ul_dl_known (sc_ul c)"

definition conf_lengths :: "slice_conf_t \<Rightarrow> bool" where
  "conf_lengths c \<longleftrightarrow> ul_dl_lengths (sc_dl c) \<and> ul_dl_lengths (sc_ul c)"

lemma conf_unknown:
  assumes "\<not> conf_known c" "conf_lengths c"
  shows "\<exists>msg. cal_slice_conf c = Inl (Assertion msg)"
proof (cases "ul_dl_known (sc_ul c)")
  case True
  with assms(2) have "cal_ul_dl (sc_ul c) = Inr (length (ul_dl_bytes (sc_ul c)))"
    by (intro ul_dl.size_law) (simp add: conf_lengths_def)
  with True ul_dl_unknown [of "sc_dl c"] assms(1) show ?thesis
    by (auto simp: conf_known_def cal_slice_conf_def)
next
  case False
  with ul_dl_unknown [of "sc_ul c"] show ?thesis
    by (auto simp: cal_slice_conf_def)
qed

section \<open>The messages\<close>

definition slice_ind_lengths :: "slice_ind_msg_t \<Rightarrow> bool" where
  "slice_ind_lengths m \<longleftrightarrow> conf_lengths (sl_conf m) \<and> length (sl_ues m) < 2 ^ 32"

fun slice_ctrl_known :: "slice_ctrl_msg_t \<Rightarrow> bool" where
  "slice_ctrl_known (Slice_Add c) = conf_known c"
| "slice_ctrl_known Slice_Ctrl_End = False"
| "slice_ctrl_known _ = True"

fun slice_ctrl_lengths :: "slice_ctrl_msg_t \<Rightarrow> bool" where
  "slice_ctrl_lengths (Slice_Add c) = conf_lengths c"
| "slice_ctrl_lengths (Slice_Del d) = (length (del_dl d) < 2 ^ 32 \<and> length (del_ul d) < 2 ^ 32)"
| "slice_ctrl_lengths (Slice_Ue_Assoc ues) = (length ues < 2 ^ 32)"
| "slice_ctrl_lengths Slice_Ctrl_End = True"

text \<open>
  C18. The plain encoding of the indications of the slicing service model.  When every slice of the
  downlink and of the uplink has a known kind, the message is encoded into as many bytes as its size
  was computed to be, and the decoder of the RIC reads exactly that message back; a slice of an
  unknown kind makes the encoder abort.
\<close>

theorem slice_indication_roundtrip:
  assumes "slice_ind_lengths m"
  shows "if conf_known (sl_conf m)
         then \<exists>bs. slice_cal_ind_msg_payload m = Inr (length bs) \<and> slice_enc_ind_msg_plain m = Inr bs \<and>
                slice_dec_ind_msg_plain bs = Inr m
         else \<exists>msg. slice_enc_ind_msg_plain m = Inl (Assertion msg)"
proof (cases "conf_known (sl_conf m)")
  case True
  let ?bs = "conf_bytes (sl_conf m) @ ues_bytes (sl_ues m) @ le_bytes 8 (sl_tstamp m)"
  have c: "(ul_dl_known (sc_dl (sl_conf m)) \<and> ul_dl_lengths (sc_dl (sl_conf m))) \<and>
      ul_dl_known (sc_ul (sl_conf m)) \<and> ul_dl_lengths (sc_ul (sl_conf m))" and u: "length (sl_ues m) < 2 ^ 32"
    using True assms by (simp_all add: conf_known_def conf_lengths_def slice_ind_lengths_def)
  have sz: "slice_cal_ind_msg_payload m = Inr (length ?bs)"
    by (simp add: slice_cal_ind_msg_payload_def conf.size_law [OF c] ues.size_law [OF u])
  have e: "slice_enc_ind_msg_plain m = Inr ?bs"
    by (simp add: slice_enc_ind_msg_plain_def sz conf.enc_law [OF c] ues.enc_law [OF u])
  have d: "slice_dec_ind_msg_plain ?bs = Inr m"
    by (simp add: slice_dec_ind_msg_plain_def conf.dec_law [OF c] ues.dec_law [OF u])
  show ?thesis
    unfolding if_P [OF True] using sz e d by (intro exI [of _ ?bs] conjI)
next
  case False
  with conf_unknown [OF False] assms show ?thesis
    by (auto simp: slice_enc_ind_msg_plain_def slice_cal_ind_msg_payload_def slice_ind_lengths_def)
qed

definition example_slices :: slice_conf_t where
  "example_slices =
     \<lparr>sc_dl = \<lparr>conf_slices =
         [\<lparr>slc_id = 0, slc_label = [115, 49], slc_sched = [80, 70], slc_params = Slice_Nvs (Nvs_Capacity 7)\<rparr>,
          \<lparr>slc_id = 2, slc_label = [], slc_sched = [82], slc_params = Slice_Edf \<lparr>edf_deadline = 10, edf_guaranteed_prbs = 20,
             edf_max_replenish = 0, edf_over = [0]\<rparr>\<rparr>],
        conf_sched_name = [78, 86, 83]\<rparr>,
      sc_ul = \<lparr>conf_slices = [], conf_sched_name = []\<rparr>\<rparr>"

theorem slice_indication_roundtrip_witness:
  "let m = \<lparr>sl_conf = example_slices, sl_ues = [\<lparr>ua_dl_id = 2, ua_ul_id = 0, ua_rnti = 4660\<rparr>], sl_tstamp = 77\<rparr>
   in \<exists>bs. slice_enc_ind_msg_plain m = Inr bs \<and> slice_dec_ind_msg_plain bs = Inr m"
  using slice_indication_roundtrip [of "\<lparr>sl_conf = example_slices, sl_ues = [\<lparr>ua_dl_id = 2, ua_ul_id = 0, ua_rnti = 4660\<rparr>],
      sl_tstamp = 77\<rparr>"]
  by (auto simp: example_slices_def slice_ind_lengths_def conf_lengths_def conf_known_def ul_dl_lengths_def ul_dl_known_def
      slice_lengths_def)

text \<open>
  C19. The plain encoding of the requests of the slicing service model.  A request to add slices of
  known kinds, to delete slices or to move UEs to slices is encoded into as many bytes as its size was
  computed to be, and the decoder of the agent reads exactly that request back; an unknown request or a
  slice of an unknown kind makes the encoder abort.
\<close>

theorem slice_control_roundtrip:
  assumes "slice_ctrl_lengths m"
  shows "if slice_ctrl_known m
         then \<exists>bs. cal_ctrl_msg_payload m = Inr (length bs) \<and> slice_enc_ctrl_msg_plain m = Inr bs \<and>
                slice_dec_ctrl_msg_plain bs = Inr m
         else \<exists>msg. slice_enc_ctrl_msg_plain m = Inl (Assertion msg)"
proof (cases m)
  case (Slice_Add c)
  show ?thesis
  proof (cases "conf_known c")
    case True
    have c: "(ul_dl_known (sc_dl c) \<and> ul_dl_lengths (sc_dl c)) \<and> ul_dl_known (sc_ul c) \<and> ul_dl_lengths (sc_ul c)"
      using Slice_Add True assms by (simp add: conf_known_def conf_lengths_def)
    show ?thesis
      using True Slice_Add by (simp add: slice_enc_ctrl_msg_plain_def slice_dec_ctrl_msg_plain_def conf.size_law [OF c]
          conf.enc_law [OF c] conf.dec_only [OF c] exI [of _ "le_bytes 4 SLICE_CTRL_ADD @ conf_bytes c"])
  next
    case False
    then show ?thesis
      using conf_unknown [OF False] assms Slice_Add by (auto simp: slice_enc_ctrl_msg_plain_def)
  qed
next
  case (Slice_Del d)
  then show ?thesis
    using assms by (simp add: slice_enc_ctrl_msg_plain_def slice_dec_ctrl_msg_plain_def del.size_law del.enc_law del.dec_only
        exI [of _ "le_bytes 4 SLICE_CTRL_DEL @ del_bytes d"])
next
  case (Slice_Ue_Assoc us)
  then show ?thesis
    using assms by (simp add: slice_enc_ctrl_msg_plain_def slice_dec_ctrl_msg_plain_def ues.size_law ues.enc_law ues.dec_only
        exI [of _ "le_bytes 4 SLICE_CTRL_UE_SLICE_ASSOC @ ues_bytes us"])
qed (simp add: slice_enc_ctrl_msg_plain_def)

theorem slice_control_roundtrip_witness:
  "\<exists>bs. slice_enc_ctrl_msg_plain (Slice_Add example_slices) = Inr bs \<and>
     slice_dec_ctrl_msg_plain bs = Inr (Slice_Add example_slices)"
  using slice_control_roundtrip [of "Slice_Add example_slices"]
  by (auto simp: example_slices_def conf_lengths_def conf_known_def ul_dl_lengths_def ul_dl_known_def slice_lengths_def)

text \<open>
  C29. The outcome of a request of the slicing service model loses its answer: the encoding holds the
  diagnostic only, so the RIC reads the diagnostic back and an answer that is always 0, that of
  success, also when the agent answered with an error.
\<close>

theorem slice_outcome_always_ok:
  assumes "length (sco_diagnostic c) < 2 ^ 32"
  shows "\<exists>bs. slice_enc_ctrl_out_plain c = Inr bs \<and> slice_dec_ctrl_out_plain bs = Inr (c\<lparr>sco_ans := 0\<rparr>)"
proof (intro exI conjI)
  show "slice_enc_ctrl_out_plain c = Inr (str_bytes (sco_diagnostic c))"
    by (simp add: slice_enc_ctrl_out_plain_def str_bytes_def Let_def)
  have "\<lparr>sco_ans = 0, sco_diagnostic = sco_diagnostic c\<rparr> = c\<lparr>sco_ans := 0\<rparr>"
    by (cases c) simp
  then show "slice_dec_ctrl_out_plain (str_bytes (sco_diagnostic c)) = Inr (c\<lparr>sco_ans := 0\<rparr>)"
    using dec_str [OF assms, of "[]", unfolded append_Nil2] by (simp add: slice_dec_ctrl_out_plain_def str_bytes_def del: unat_length)
qed

theorem slice_outcome_always_ok_witness:
  "\<exists>bs. slice_enc_ctrl_out_plain \<lparr>sco_ans = 1, sco_diagnostic = [78, 111]\<rparr> = Inr bs \<and>
     slice_dec_ctrl_out_plain bs = Inr \<lparr>sco_ans = 0, sco_diagnostic = [78, 111]\<rparr>"
  using slice_outcome_always_ok [of "\<lparr>sco_ans = 1, sco_diagnostic = [78, 111]\<rparr>"] by simp

end
