(* ===== verification/Flex_Control.thy ===== *)
theory Flex_Control
  imports Flex_System Tc_Service Slice_Codec
begin

text \<open>
  The way of a traffic control request through the whole system: from the call of the user of an xApp
  through the iApp and the RIC to the RAN at the agent, and what happens to the answer.
\<close>

section \<open>The call and the end of its wait\<close>

text \<open>
  A control call sends one request with the bytes of the service model and waits.  When nothing stops
  its wait before, the caller returns with success.
\<close>

lemma control_called:
  assumes "x_reach (x, None)" "x_expected (x, None) (X_Control nid rf ctrl tfd)" "ctrl_ready x (ucast rf) ctrl sm"
  defines "rid \<equiv> gen_id (next_id x) (ucast rf)"
  shows "\<exists>x1 x2 ans. control_sm_xapp_api x nid rf ctrl tfd = Inr (x1, Wait_Control (ric_req_id rid)) \<and>
     xa_sent x1 = xa_sent x @ [E42_Ric_Ctrl_Req \<lparr>e42c_xapp_id = xa_id x, e42c_id = nid, e42c_ctrl_req = ctrl_request sm ctrl rid\<rparr>] \<and>
     after_wait x1 (Wait_Control (ric_req_id rid)) = Inr (x2, ans) \<and> san_success ans"
proof -
  let ?n = "next_id x"
  let ?sent = "xa_sent x @ [E42_Ric_Ctrl_Req \<lparr>e42c_xapp_id = xa_id x, e42c_id = nid, e42c_ctrl_req = ctrl_request sm ctrl rid\<rparr>]"
  have e: "xa_connected x" "?n < 2 ^ 16" "free_timer x tfd" "rf \<in> {3, 142, 145, 146}"
    using assms(2) by simp_all
  note inv = x_reach_inv [OF assms(1)]
  have ok: "xa_ok x" and k: "E42_RIC_CONTROL_REQUEST_PENDING_EVENT \<notin> pend_kinds x"
    using inv idle_kinds [OF inv e(1)] by (simp_all add: x_inv_def)
  from control_ok [OF ok e(2) assms(3) k e(3), of nid, unfolded Let_def, folded rid_def] obtain act p where
    r: "control_sm_sync_xapp x nid (ucast rf) ctrl tfd =
        Inr (x\<lparr>xa_act_proc := act, xa_io := tfd # xa_io x, xa_pending := p, xa_sent := ?sent\<rparr>, Wait_Control (of_nat ?n))"
      "xa_ok (x\<lparr>xa_act_proc := act, xa_io := tfd # xa_io x, xa_pending := p, xa_sent := ?sent\<rparr>)"
      "act_entries act = procs x @ [(?n, \<lparr>apv_type = RIC_CONTROL_PROCEDURE_ACTIVE, apv_id = rid, apv_sm_cb = None, apv_e2_node = nid\<rparr>)]"
    by (elim exE conjE)
  let ?x1 = "x\<lparr>xa_act_proc := act, xa_io := tfd # xa_io x, xa_pending := p, xa_sent := ?sent\<rparr>"
  have id: "ric_req_id rid = of_nat ?n"
    by (simp add: rid_def)
  have "wait_id (Wait_Control (of_nat ?n)) \<in> fst ` set (procs ?x1)"
    by (simp add: r(3) small_id(1) [OF e(2)])
  from after_wait_ok [OF r(2) this] obtain act' ans where
    "after_wait ?x1 (Wait_Control (of_nat ?n)) = Inr (?x1\<lparr>xa_act_proc := act'\<rparr>, ans)" "san_success ans"
    by (elim exE conjE)
  moreover have "control_sm_xapp_api x nid rf ctrl tfd = Inr (?x1, Wait_Control (of_nat ?n))"
    using r(1) e(4) by (auto simp: control_sm_xapp_api_def)
  ultimately show ?thesis
    unfolding id by (intro exI [of _ ?x1] exI [of _ "?x1\<lparr>xa_act_proc := act'\<rparr>"] exI [of _ ans] conjI) simp_all
qed

section \<open>The request at the agent\<close>

lemma tc_control_at_agent:
  assumes "ag_reach ag" "\<not> ag_exited ag" "(SM_TC_ID, make_tc_sm_agent read_ind write_ctrl) \<in> rb_set (ag_sm_ds ag)"
    and "ric_on_control_req_tc_sm_ric (d, m) = Inr \<lparr>ctrl_hdr = cr_hdr cr, ctrl_msg = cr_msg cr\<rparr>" "ctrl_lengths m"
    and "write_ctrl d m = TC_Outcome out" "cr_ack_req cr = Some RIC_CONTROL_REQUEST_ACK" "ran_func_id (cr_ric_id cr) = SM_TC_ID"
  shows "e2_event_loop_agent ag (ag_fd ag) (SCTP_MSG_PAYLOAD info (Ric_Ctrl_Req cr)) now tfd =
     Inr (e2ap_send_bytes_agent ag (Ric_Ctrl_Ack \<lparr>ack_ric_id = cr_ric_id cr, ack_call_process_id = None,
       ack_control_outcome = Some (tc_enc_ctrl_out_plain out)\<rparr>))"
proof -
  have ok: "ag_ok ag" "sms_ok (ag_sm_ds ag)"
    using ag_reach_ok [OF assms(1)] by (simp_all add: ag_ok_def)
  have "e2ap_msg_handle_agent ag (Ric_Ctrl_Req cr) tfd = Inr (ag, Ric_Ctrl_Ack \<lparr>ack_ric_id = cr_ric_id cr,
      ack_call_process_id = None, ack_control_outcome = Some (tc_enc_ctrl_out_plain out)\<rparr>)"
    using sm_plugin_ok [OF ok(2) assms(3)] tc_request_executed(1) [of d m "\<lparr>ctrl_hdr = cr_hdr cr, ctrl_msg = cr_msg cr\<rparr>" write_ctrl out, OF assms(4-6)] assms(7,8)
    by (simp add: e2ap_msg_handle_agent_def check_valid_msg_type_agent_def e2ap_handle_control_request_agent_def
        make_tc_sm_agent_def ba_from_ctrl_out_def tc_enc_ctrl_out_plain_def)
  from agent_message [OF ok(1) assms(2) this, of info now] show ?thesis
    by simp
qed

section \<open>The whole way\<close>

text \<open>
  C6. A traffic control request of an xApp reaches the RAN, its answer never reaches the xApp.  The
  call sends the encoded request; the iApp gives it the next request id of the RIC and sends it to the
  E2 node; the agent decodes exactly the header and the message that the xApp encoded, has the RAN
  execute them, and answers with the outcome of the RAN.  But the iApp has not recorded the request,
  so this answer ends the RIC, and the caller, whose wait ends by its timeout, is told that it was
  successful whatever the outcome was.
\<close>

theorem control_reaches_ran:
  assumes "x_reach (x, None)" "x_expected (x, None) (X_Control nid 146 ctrl xt)" "ctrl_ready x SM_TC_ID ctrl xsm"
    and "ric_on_control_req_tc_sm_ric (d, m) = Inr (on_control_req xsm ctrl)" "ctrl_lengths m"
    and "sys_ok (ric, i)" "os_ok os" "(nid, s) \<in> node_sockets ric" "xapp_conn i (xa_id x) t"
  defines "rid \<equiv> gen_id (next_id x) SM_TC_ID"
  defines "rid' \<equiv> rid\<lparr>ric_req_id := ucast (ucast (nr_req_id ric) :: u16)\<rparr>"
  assumes "ctrl_event rid' \<notin> snd ` pending_events ric" "\<forall>(n, y) \<in> ric_pairs (ia_map_ric_id i). node_req n \<noteq> ric_req_id rid'"
    and "ag_reach ag" "\<not> ag_exited ag" "(SM_TC_ID, make_tc_sm_agent read_ind write_ctrl) \<in> rb_set (ag_sm_ds ag)"
    and "write_ctrl d m = TC_Outcome out"
  shows "\<exists>x1 req ric1 cr ag1 a x2 ans.
     control_sm_xapp_api x nid 146 ctrl xt = Inr (x1, Wait_Control (ric_req_id rid)) \<and> xa_sent x1 = xa_sent x @ [req] \<and>
     msg_arrived_iapp os (ric, i) t req = Inr (ric1, i) \<and> sys_ok (ric1, i) \<and>
     nr_sent ric1 = nr_sent ric @ [(s, Ric_Ctrl_Req cr)] \<and>
     tc_dec_ctrl_hdr_plain (cr_hdr cr) = Inr d \<and> tc_dec_ctrl_msg_plain (cr_msg cr) = Inr m \<and>
     e2_event_loop_agent ag (ag_fd ag) (SCTP_MSG_PAYLOAD info (Ric_Ctrl_Req cr)) now tfd = Inr ag1 \<and>
     ag_sent ag1 = ag_sent ag @ [Ric_Ctrl_Ack a] \<and> ack_control_outcome a = Some (tc_enc_ctrl_out_plain out) \<and>
     ric_on_control_out_tc_sm_ric (tc_enc_ctrl_out_plain out) = Inr out \<and>
     sctp_msg_arrived_event (ric1, i) (s, Ric_Ctrl_Ack a) = Inl (Assertion ''RIC Req Id not found!'') \<and>
     after_wait x1 (Wait_Control (ric_req_id rid)) = Inr (x2, ans) \<and> san_success ans"
proof -
  let ?e42 = "\<lparr>e42c_xapp_id = xa_id x, e42c_id = nid, e42c_ctrl_req = ctrl_request xsm ctrl rid\<rparr>"
  let ?cr = "relabel (ucast (nr_req_id ric)) (e42c_ctrl_req ?e42)"
  let ?a = "\<lparr>ack_ric_id = rid', ack_call_process_id = None, ack_control_outcome = Some (tc_enc_ctrl_out_plain out)\<rparr>"
  have rf: "(ucast (146 :: u32) :: u16) = SM_TC_ID"
    by (simp add: SM_TC_ID_def)
  have n: "ric_req_id (cr_ric_id (e42c_ctrl_req ?e42)) < 2 ^ 16"
    using small_id [of "next_id x"] assms(2) by (simp add: ctrl_request_def rid_def word_less_nat_alt)
  have cr: "cr_ric_id ?cr = rid'" "cr_hdr ?cr = ctrl_hdr (on_control_req xsm ctrl)" "cr_msg ?cr = ctrl_msg (on_control_req xsm ctrl)"
    "cr_ack_req ?cr = Some RIC_CONTROL_REQUEST_ACK"
    using relabel_16 [OF n, of "ucast (nr_req_id ric)"] by (simp_all add: rid'_def ctrl_request_def relabel_def)
  from control_called [OF assms(1,2), unfolded rf, OF assms(3)] obtain x1 x2 ans where
    x: "control_sm_xapp_api x nid 146 ctrl xt = Inr (x1, Wait_Control (ric_req_id rid))"
      "xa_sent x1 = xa_sent x @ [E42_Ric_Ctrl_Req ?e42]"
      "after_wait x1 (Wait_Control (ric_req_id rid)) = Inr (x2, ans)" "san_success ans"
    unfolding rid_def by (elim exE conjE)
  have c: "xapp_conn i (e42c_xapp_id ?e42) t" "(e42c_id ?e42, s) \<in> node_sockets ric"
    "ctrl_event (cr_ric_id ?cr) \<notin> snd ` pending_events ric"
    unfolding cr(1) using assms(8,9,12) by simp_all
  from xapp_control_sys [OF assms(6,7) c, of t] obtain ric1 where
    1: "msg_arrived_iapp os (ric, i) t (E42_Ric_Ctrl_Req ?e42) = Inr (ric1, i)" "sys_ok (ric1, i)"
      "requested ric (os ric) (ctrl_event (cr_ric_id ?cr)) s (Ric_Ctrl_Req ?cr) ric1"
    by (elim exE conjE)
  have 2: "(os ric, ctrl_event (ack_ric_id ?a)) \<in> pending_events ric1" "nr_sent ric1 = nr_sent ric @ [(s, Ric_Ctrl_Req ?cr)]"
    using 1(3) unfolding cr(1) by (simp_all add: requested_def)
  have k: "ric_req_id (ack_ric_id ?a) < 2 ^ 16"
    unfolding rid'_def using ucast_16_less by simp
  have "\<forall>(n, y) \<in> ric_pairs (ia_map_ric_id i). node_req n \<noteq> ric_req_id (ack_ric_id ?a)"
    using assms(13) by simp
  note lost = ack_unbound [OF 1(2) 2(1) k this, of s]
  have g: "ric_on_control_req_tc_sm_ric (d, m) = Inr \<lparr>ctrl_hdr = cr_hdr ?cr, ctrl_msg = cr_msg ?cr\<rparr>" "ran_func_id (cr_ric_id ?cr) = SM_TC_ID"
    unfolding cr using assms(4) by (simp_all add: rid'_def rid_def)
  note b = tc_control_at_agent [OF assms(14-16) g(1) assms(5,17) cr(4) g(2), unfolded cr(1)]
  show ?thesis
    using x 1(1,2) 2(2) tc_request_decoded [OF g(1) assms(5)] b lost tc_request_executed(2) [of d m "on_control_req xsm ctrl" write_ctrl out, OF assms(4,5,17)]
    by (intro exI [of _ x1] exI [of _ "E42_Ric_Ctrl_Req ?e42"] exI [of _ ric1] exI [of _ ?cr] exI [of _ "e2ap_send_bytes_agent ag (Ric_Ctrl_Ack ?a)"]
        exI [of _ ?a] exI [of _ x2] exI [of _ ans]) (simp add: e2ap_send_bytes_agent_def)
qed

text \<open>The example: a request for scheduling by strict priority, that the RAN executes.\<close>

definition prio_request :: tc_ctrl_msg_t where
  "prio_request = Ctrl_Sch (Act_Mod (Tc_Sched_Prio [3, 1]))"

definition tc_xapp_sm :: sm_ric_t where
  "tc_xapp_sm = tc_sm\<lparr>on_control_req := (\<lambda>c. \<lparr>ctrl_hdr = tc_enc_ctrl_hdr_plain 0, ctrl_msg = c\<rparr>)\<rparr>"

definition tc_xapp_ds :: "(u16, sm_ric_t) assoc_rb_tree_t" where
  "tc_xapp_ds = \<lparr>rb_root = Node ASSOC_BLACK 146 tc_xapp_sm Dummy Dummy, rb_comp = cmp_ran_func_id, rb_size = 1,
     rb_key_sz = sizeof_uint16, rb_free = None\<rparr>"

lemma tc_xapp_ds_ok: "sm_ds_ok tc_xapp_ds" "rb_set tc_xapp_ds = {(146, tc_xapp_sm)}"
  by (simp_all add: tc_xapp_ds_def sm_ds_ok_def rb_inv_def rb_uniq_def rb_ok_def tc_sm_def tc_xapp_sm_def)

definition tc_ran_ds :: "(u16, sm_agent_t) assoc_rb_tree_t" where
  "tc_ran_ds = \<lparr>rb_root = Node ASSOC_BLACK 146 (make_tc_sm_agent (\<lambda>_ tc. (False, tc)) (\<lambda>_ _. TC_Outcome 0)) Dummy Dummy,
     rb_comp = cmp_ran_func_id, rb_size = 1, rb_key_sz = 2, rb_free = None\<rparr>"

lemma tc_ran_ds_ok: "sms_ok tc_ran_ds" "rb_size tc_ran_ds = rb_size tc_xapp_ds"
  by (simp_all add: tc_ran_ds_def sms_ok_def rb_inv_def rb_uniq_def rb_ok_def make_tc_sm_agent_def on_e2_setup_tc_sm_ag_def
      tc_xapp_ds_def SM_TC_ID_def)

lemma prio_request_bytes:
  "\<exists>bs. tc_enc_ctrl_msg_plain prio_request = Inr bs \<and> length bs < 2049 \<and>
     ric_on_control_req_tc_sm_ric (0, prio_request) = Inr (on_control_req tc_xapp_sm bs)"
  by (simp add: prio_request_def tc_enc_ctrl_msg_plain_def payload_defs enc_tc_mod_ctrl_payload_sch_prio_def ric_on_control_req_tc_sm_ric_def tc_xapp_sm_def)

theorem control_reaches_ran_witness:
  "\<exists>(x :: string list e42_xapp_t) bs x1 req ric i ric1 cr ag ag1 a. x_reach (x, None) \<and> ag_reach ag \<and>
     control_sm_xapp_api x du_node 146 bs 6 = Inr (x1, Wait_Control 1) \<and>
     msg_arrived_iapp next_fd (ric, i) (peer 6000) req = Inr (ric1, i) \<and>
     tc_dec_ctrl_msg_plain (cr_msg cr) = Inr prio_request \<and>
     e2_event_loop_agent ag (ag_fd ag) (SCTP_MSG_PAYLOAD (peer 1) (Ric_Ctrl_Req cr)) 0 9 = Inr ag1 \<and>
     ack_control_outcome a = Some (tc_enc_ctrl_out_plain 0) \<and>
     sctp_msg_arrived_event (ric1, i) (peer 5000, Ric_Ctrl_Ack a) = Inl (Assertion ''RIC Req Id not found!'')"
proof -
  obtain bs where bs: "length bs < 2049" "ric_on_control_req_tc_sm_ric (0, prio_request) = Inr (on_control_req tc_xapp_sm bs)"
    using prio_request_bytes by (elim exE conjE)
  obtain x :: "string list e42_xapp_t" where x: "x_reach (x, None)" "xa_connected x" "xa_fd x = 4" "pend_pairs x = {}"
    "xa_id x = 7" "xa_plugin_ric x = tc_xapp_ds" "next_id x = 1" "set (reg_nodes (xa_e2_nodes x)) = {example_node}"
    using example_xapp_connected [OF tc_ran_ds_ok(1) tc_xapp_ds_ok(1) tc_ran_ds_ok(2)] by (elim exE conjE)
  obtain ric i where 0: "sys_ok (ric, i)" "node_sockets ric = {(du_node, peer 5000)}" "xapp_conn i 7 (peer 6000)"
    "pending_events ric = {}" "ric_pairs (ia_map_ric_id i) = {}"
    using sys_example by (elim exE conjE)
  obtain ag where ag: "ag_reach ag" "ag_sm_ds ag = tc_ran_ds" "\<not> ag_exited ag"
    using example_agent [OF tc_ran_ds_ok(1)] by (elim exE conjE)
  have t: "free_timer x 6"
    by (rule connected_free_timer [OF x(1,4)]) (simp_all add: x(3))
  have r: "ctrl_ready x SM_TC_ID bs tc_xapp_sm"
    using tc_xapp_ds_ok(2) bs(1)
    by (simp add: ctrl_ready_def valid_ran_func_id_def x(6) tc_xapp_sm_def SM_TC_ID_def tc_enc_ctrl_hdr_plain_def)
  have "\<exists>sm. ctrl_ready x 146 bs sm"
    using r unfolding SM_TC_ID_def by (rule exI)
  then have e: "x_expected (x, None) (X_Control du_node 146 bs 6)"
    using t x(2,7,8) du_node_ok(2) by auto
  have l: "ctrl_lengths prio_request"
    by (simp add: prio_request_def)
  have p: "(du_node, peer 5000) \<in> node_sockets ric" "xapp_conn i (xa_id x) (peer 6000)"
    "ctrl_event ((gen_id (next_id x) SM_TC_ID)\<lparr>ric_req_id := ucast (ucast (nr_req_id ric) :: u16)\<rparr>) \<notin> snd ` pending_events ric"
    "\<forall>(n, y) \<in> ric_pairs (ia_map_ric_id i). node_req n \<noteq>
       ric_req_id ((gen_id (next_id x) SM_TC_ID)\<lparr>ric_req_id := ucast (ucast (nr_req_id ric) :: u16)\<rparr>)"
    using 0(2-5) x(5) by simp_all
  have g: "(SM_TC_ID, make_tc_sm_agent (\<lambda>_ tc. (False, tc)) (\<lambda>_ _. TC_Outcome 0)) \<in> rb_set (ag_sm_ds ag)"
    by (simp add: ag(2) tc_ran_ds_def SM_TC_ID_def)
  from control_reaches_ran [OF x(1) e r bs(2) l 0(1) next_fd_ok p ag(1,3) g refl, of "peer 1" 0 9] show ?thesis
    unfolding x(7) of_nat_1 ric_gen_id_t.simps using x(1) ag(1) by (elim exE conjE) (intro exI conjI, assumption+)
qed

end
